(* ===== verification/Prelude.thy ===== *)
theory Prelude
  imports Main "HOL-Library.Word" "HOL-Library.Signed_Division"
begin

text \<open>
  Shared vocabulary of the development: the Go base types, the error values, the combinators
  that render Go's early returns, and the generic lemmas the component theories rest on.

  \<^item> A Go \<open>string\<close> is a list of bytes, so it is HOL's \<open>string\<close>; an unsigned 64-bit counter
    (\<open>Epoch\<close>, \<open>Revision\<close>, sequence numbers) is a \<open>64 word\<close>, whose \<open>+\<close> wraps as Go's does; a
    \<open>time.Duration\<close> and a Unix-nanosecond stamp are \<open>64 word\<close>s read as signed with \<open>sint\<close>.
  \<^item> A \<open>time.Time\<close> is the instant it denotes, in nanoseconds since Go's zero time (1 January of
    year 1, UTC). Monotonic readings and locations are not part of the model: the stored
    times of this program are compared as instants.
  \<^item> A Go \<open>error\<close> result is \<open>go_error option\<close> (\<open>None\<close> is \<open>nil\<close>); a pair of a value and an error is
    a sum, \<open>Inl\<close> the error. Operations on shared state return the new state beside the result.
\<close>

section \<open>Base types\<close>

type_synonym u64 = "64 word"
type_synonym i64 = "64 word"
type_synonym u32 = "32 word"
type_synonym Epoch = u64
type_synonym Revision = u64
type_synonym Duration = i64
type_synonym Time = int
type_synonym ReasonCode = string

definition IsZero :: "Time \<Rightarrow> bool" where
  "IsZero t \<longleftrightarrow> t = 0"

definition Before :: "Time \<Rightarrow> Time \<Rightarrow> bool" where
  "Before t u \<longleftrightarrow> t < u"

definition After :: "Time \<Rightarrow> Time \<Rightarrow> bool" where
  "After t u \<longleftrightarrow> u < t"

definition Add :: "Time \<Rightarrow> Duration \<Rightarrow> Time" where
  "Add t d = t + sint d"

text \<open>Nanoseconds between Go's zero time and the Unix epoch.\<close>

definition unix_epoch :: Time where
  "unix_epoch = 62135596800000000000"

definition UnixNano :: "Time \<Rightarrow> i64" where
  "UnixNano t = word_of_int (t - unix_epoch)"

definition TimeUnix0 :: "i64 \<Rightarrow> Time" where
  "TimeUnix0 n = unix_epoch + sint n"

lemmas time_defs = IsZero_def Before_def After_def

section \<open>Errors\<close>

datatype ErrorCategory =
    ErrorInvalidArgument | ErrorUnauthenticated | ErrorForbidden | ErrorNotFound
  | ErrorConflict | ErrorPreconditionFailed | ErrorCapabilityUnavailable
  | ErrorIndeterminate | ErrorRateLimited | ErrorUnavailable | ErrorInternal

text \<open>
  A \<open>DomainError\<close> without its message, which callers never branch on; the two other constructors
  are what \<open>context.Context.Err\<close> returns.
\<close>

datatype go_error = DomainError ErrorCategory ReasonCode | ContextCanceled | DeadlineExceeded

type_synonym 'a res = "go_error + 'a"

fun HasReason :: "go_error option \<Rightarrow> ReasonCode \<Rightarrow> bool" where
  "HasReason (Some (DomainError c r)) reason = (r = reason)"
| "HasReason _ reason = False"

fun HasCategory :: "go_error option \<Rightarrow> ErrorCategory \<Rightarrow> bool" where
  "HasCategory (Some (DomainError c r)) category = (c = category)"
| "HasCategory _ category = False"

text \<open>The Go context an operation is called with: \<open>nil\<close>, live, cancelled or past its deadline.\<close>

datatype go_context = NilContext | LiveContext | CanceledContext | ExpiredContext

section \<open>Early returns\<close>

text \<open>\<open>fail_if b c r\<close> is \<open>if b { return NewError(c, r, ...) }\<close>; \<open>first_err\<close> runs checks in order.\<close>

definition fail_if :: "bool \<Rightarrow> ErrorCategory \<Rightarrow> ReasonCode \<Rightarrow> go_error option" where
  "fail_if b c r = (if b then Some (DomainError c r) else None)"

primrec first_err :: "go_error option list \<Rightarrow> go_error option" where
  "first_err [] = None"
| "first_err (e # es) = (case e of None \<Rightarrow> first_err es | Some x \<Rightarrow> Some x)"

definition ensure :: "go_error option \<Rightarrow> 'a res \<Rightarrow> 'a res" where
  "ensure e r = (case e of None \<Rightarrow> r | Some x \<Rightarrow> Inl x)"

definition bind_res :: "'a res \<Rightarrow> ('a \<Rightarrow> 'b res) \<Rightarrow> 'b res" where
  "bind_res r k = (case r of Inl e \<Rightarrow> Inl e | Inr x \<Rightarrow> k x)"

text \<open>The same for an operation on shared state: a failed check returns the state unchanged.\<close>

definition guarded :: "go_error option \<Rightarrow> 's \<Rightarrow> 's \<times> 'a res \<Rightarrow> 's \<times> 'a res" where
  "guarded e s r = (case e of None \<Rightarrow> r | Some x \<Rightarrow> (s, Inl x))"

definition err_of :: "'a res \<Rightarrow> go_error option" where
  "err_of r = (case r of Inl e \<Rightarrow> Some e | Inr x \<Rightarrow> None)"

text \<open>Calling a port operation and returning its error, if any, before going on.\<close>

definition andThen :: "'s \<times> 'a res \<Rightarrow> ('s \<Rightarrow> 'a \<Rightarrow> 's \<times> 'b res) \<Rightarrow> 's \<times> 'b res" where
  "andThen r k = (case r of (s, Inl e) \<Rightarrow> (s, Inl e) | (s, Inr x) \<Rightarrow> k s x)"

lemma fail_if_None [simp]: "fail_if b c r = None \<longleftrightarrow> \<not> b"
  by (simp add: fail_if_def)

lemma fail_if_Some [simp]: "fail_if b c r = Some e \<longleftrightarrow> b \<and> e = DomainError c r"
  by (auto simp: fail_if_def)

lemma fail_if_simps [simp]:
  "fail_if True c r = Some (DomainError c r)" "fail_if False c r = None"
  by (simp_all add: fail_if_def)

declare first_err.simps(2) [simp del]

lemma first_err_Cons [simp]:
  "first_err (None # es) = first_err es" "first_err (Some x # es) = Some x"
  by (simp_all add: first_err.simps)

lemma first_err_Cons_None [simp]: "first_err (e # es) = None \<longleftrightarrow> e = None \<and> first_err es = None"
  by (cases e) auto

lemma first_err_None_iff: "first_err es = None \<longleftrightarrow> (\<forall>e \<in> set es. e = None)"
  by (induction es) auto

lemma first_err_append: "first_err (xs @ ys) = (case first_err xs of None \<Rightarrow> first_err ys | Some e \<Rightarrow> Some e)"
proof (induction xs)
  case Nil
  then show ?case by simp
next
  case (Cons x xs)
  then show ?case by (cases x) auto
qed

lemma ensure_Inr [simp]: "ensure e r = Inr x \<longleftrightarrow> e = None \<and> r = Inr x"
  by (auto simp: ensure_def split: option.splits)

lemma ensure_simps [simp]: "ensure None r = r" "ensure (Some x) r = Inl x"
  by (simp_all add: ensure_def)

lemma bind_res_Inr [simp]: "bind_res r k = Inr y \<longleftrightarrow> (\<exists>x. r = Inr x \<and> k x = Inr y)"
  by (auto simp: bind_res_def split: sum.splits)

lemma bind_res_simps [simp]: "bind_res (Inr x) k = k x" "bind_res (Inl e) k = Inl e"
  by (simp_all add: bind_res_def)

lemma guarded_Inr [simp]: "guarded e s r = (s', Inr x) \<longleftrightarrow> e = None \<and> r = (s', Inr x)"
  by (auto simp: guarded_def split: option.splits)

lemma guarded_simps [simp]: "guarded None s r = r" "guarded (Some x) s r = (s, Inl x)"
  by (simp_all add: guarded_def)

lemma guarded_fail_if:
  "guarded (fail_if b c k) s r = (if b then (s, Inl (DomainError c k)) else r)"
  by (simp add: guarded_def)

lemma guarded_cases:
  assumes "guarded e s r = (s', y)"
  obtains (fail) x where "e = Some x" "s' = s" "y = Inl x" | (pass) "e = None" "r = (s', y)"
  using assms by (auto simp: guarded_def split: option.splits)

text \<open>The state after a guarded step: unchanged, or the state of the guarded body.\<close>

lemma guarded_preserves:
  assumes "P s" and "e = None \<Longrightarrow> P (fst r)"
  shows "P (fst (guarded e s r))"
  using assms by (auto simp: guarded_def split: option.splits)

lemma andThen_Inr [simp]:
  "andThen r k = (s', Inr y) \<longleftrightarrow> (\<exists>s x. r = (s, Inr x) \<and> k s x = (s', Inr y))"
  by (auto simp: andThen_def split: prod.splits sum.splits)

lemma andThen_simps [simp]:
  "andThen (s, Inr x) k = k s x" "andThen (s, Inl e) k = (s, Inl e)"
  by (simp_all add: andThen_def)

lemma err_of_simps [simp]: "err_of (Inl e) = Some e" "err_of (Inr x) = None"
  by (simp_all add: err_of_def)

lemma HasReason_iff: "HasReason e r \<longleftrightarrow> (\<exists>c. e = Some (DomainError c r))"
  by (cases "(e, r)" rule: HasReason.cases) auto

lemma HasCategory_iff: "HasCategory e c \<longleftrightarrow> (\<exists>r. e = Some (DomainError c r))"
  by (cases "(e, c)" rule: HasCategory.cases) auto

section \<open>Collections of facts\<close>

text \<open>
  \<open>validate_defs\<close> collects the definitions of the \<open>Validate\<close> methods; \<open>reason_defs\<close> the reason
  codes, which are only unfolded to tell two of them apart; \<open>step_defs\<close> the operations of the
  stores and gateways.
\<close>

named_theorems validate_defs "definitions of Validate methods"
named_theorems reason_defs "definitions of the reason codes"
named_theorems step_defs "definitions of state-changing operations"

section \<open>Words\<close>

lemma word_succ_neq [simp]: "(w :: u64) + 1 \<noteq> w"
  by simp

text \<open>Advancing a revision by one without landing on zero did not wrap.\<close>

lemma unat_succ_nonzero: "(w :: u64) + 1 \<noteq> 0 \<Longrightarrow> unat (w + 1) = unat w + 1"
  by (metis Suc_eq_plus1 add.commute unatSuc)

section \<open>Maps\<close>

lemma map_upd_cases:
  "(m(k \<mapsto> v)) x = Some y \<longleftrightarrow> (x = k \<and> y = v) \<or> (x \<noteq> k \<and> m x = Some y)"
  by auto

end
