(* ===== verification/Errors.thy ===== *)
theory Errors
  imports Prelude
begin

text \<open>
  The reason codes of \<open>runtime/core/errors.go\<close>. As in the source a reason code is a string; the
  named constants are unfolded (collection \<open>reason_defs\<close>) only where two of them have to be told
  apart. The categories and \<open>DomainError\<close> itself are in the prelude.
\<close>

definition ReasonInvalidReference :: ReasonCode where [reason_defs]:
  "ReasonInvalidReference = ''invalid_reference''"

definition ReasonInvalidDigest :: ReasonCode where [reason_defs]:
  "ReasonInvalidDigest = ''invalid_digest''"

definition ReasonInvalidState :: ReasonCode where [reason_defs]:
  "ReasonInvalidState = ''invalid_state''"

definition ReasonInvalidTransition :: ReasonCode where [reason_defs]:
  "ReasonInvalidTransition = ''invalid_transition''"

definition ReasonTerminalInstance :: ReasonCode where [reason_defs]:
  "ReasonTerminalInstance = ''terminal_instance''"

definition ReasonFencedInstance :: ReasonCode where [reason_defs]:
  "ReasonFencedInstance = ''fenced_instance''"

definition ReasonInspectCoverageIncomplete :: ReasonCode where [reason_defs]:
  "ReasonInspectCoverageIncomplete = ''inspect_coverage_incomplete''"

definition ReasonCleanupEvidenceIncomplete :: ReasonCode where [reason_defs]:
  "ReasonCleanupEvidenceIncomplete = ''cleanup_evidence_incomplete''"

definition ReasonCleanupRetractionMissing :: ReasonCode where [reason_defs]:
  "ReasonCleanupRetractionMissing = ''cleanup_completion_retraction_missing''"

definition ReasonCleanupRetryUnauthorized :: ReasonCode where [reason_defs]:
  "ReasonCleanupRetryUnauthorized = ''cleanup_retry_unauthorized''"

definition ReasonStaleIdentityEpoch :: ReasonCode where [reason_defs]:
  "ReasonStaleIdentityEpoch = ''stale_identity_epoch''"

definition ReasonStaleInstanceEpoch :: ReasonCode where [reason_defs]:
  "ReasonStaleInstanceEpoch = ''stale_instance_epoch''"

definition ReasonStaleLeaseEpoch :: ReasonCode where [reason_defs]:
  "ReasonStaleLeaseEpoch = ''stale_lease_epoch''"

definition ReasonStaleAuthorityEpoch :: ReasonCode where [reason_defs]:
  "ReasonStaleAuthorityEpoch = ''stale_authority_epoch''"

definition ReasonRevisionConflict :: ReasonCode where [reason_defs]:
  "ReasonRevisionConflict = ''revision_conflict''"

definition ReasonAlreadyExists :: ReasonCode where [reason_defs]:
  "ReasonAlreadyExists = ''already_exists''"

definition ReasonIdempotencyPayloadMismatch :: ReasonCode where [reason_defs]:
  "ReasonIdempotencyPayloadMismatch = ''idempotency_payload_mismatch''"

definition ReasonCommandDominated :: ReasonCode where [reason_defs]:
  "ReasonCommandDominated = ''command_dominated''"

definition ReasonIdentityLeaseConflict :: ReasonCode where [reason_defs]:
  "ReasonIdentityLeaseConflict = ''identity_lease_conflict''"

definition ReasonIdentityLeaseStateInvalid :: ReasonCode where [reason_defs]:
  "ReasonIdentityLeaseStateInvalid = ''identity_lease_state_invalid''"

definition ReasonStaleLeaseRevision :: ReasonCode where [reason_defs]:
  "ReasonStaleLeaseRevision = ''stale_lease_revision''"

definition ReasonActivationFactDrift :: ReasonCode where [reason_defs]:
  "ReasonActivationFactDrift = ''activation_fact_drift''"

definition ReasonActivationAttemptConflict :: ReasonCode where [reason_defs]:
  "ReasonActivationAttemptConflict = ''activation_attempt_conflict''"

definition ReasonActivationQuarantineRequired :: ReasonCode where [reason_defs]:
  "ReasonActivationQuarantineRequired = ''activation_quarantine_required''"

definition ReasonSupervisionPolicyMissing :: ReasonCode where [reason_defs]:
  "ReasonSupervisionPolicyMissing = ''supervision_policy_missing''"

definition ReasonSupervisionPolicyDrift :: ReasonCode where [reason_defs]:
  "ReasonSupervisionPolicyDrift = ''supervision_policy_drift''"

definition ReasonLateSupervisionSignal :: ReasonCode where [reason_defs]:
  "ReasonLateSupervisionSignal = ''late_supervision_signal''"

definition ReasonEffectIntentMissing :: ReasonCode where [reason_defs]:
  "ReasonEffectIntentMissing = ''effect_intent_missing''"

definition ReasonEffectAuthorizationMissing :: ReasonCode where [reason_defs]:
  "ReasonEffectAuthorizationMissing = ''effect_authorization_missing''"

definition ReasonEffectFenceStale :: ReasonCode where [reason_defs]:
  "ReasonEffectFenceStale = ''effect_fence_stale''"

definition ReasonEvidenceUnavailable :: ReasonCode where [reason_defs]:
  "ReasonEvidenceUnavailable = ''evidence_unavailable''"

definition ReasonEvidenceConflict :: ReasonCode where [reason_defs]:
  "ReasonEvidenceConflict = ''evidence_conflict''"

definition ReasonEvidenceSourceMissing :: ReasonCode where [reason_defs]:
  "ReasonEvidenceSourceMissing = ''evidence_source_missing''"

definition ReasonEvidenceSourceStale :: ReasonCode where [reason_defs]:
  "ReasonEvidenceSourceStale = ''evidence_source_stale''"

definition ReasonEvidenceSequenceGap :: ReasonCode where [reason_defs]:
  "ReasonEvidenceSequenceGap = ''evidence_sequence_gap''"

definition ReasonEvidenceTrustInvalid :: ReasonCode where [reason_defs]:
  "ReasonEvidenceTrustInvalid = ''evidence_trust_invalid''"

definition ReasonEvidenceScopeConflict :: ReasonCode where [reason_defs]:
  "ReasonEvidenceScopeConflict = ''evidence_scope_conflict''"

definition ReasonEvidenceCursorInvalid :: ReasonCode where [reason_defs]:
  "ReasonEvidenceCursorInvalid = ''evidence_cursor_invalid''"

definition ReasonEvidenceChainConflict :: ReasonCode where [reason_defs]:
  "ReasonEvidenceChainConflict = ''evidence_chain_conflict''"

definition ReasonOfflineRevocationPolicyMissing :: ReasonCode where [reason_defs]:
  "ReasonOfflineRevocationPolicyMissing = ''offline_revocation_policy_missing''"

definition ReasonRecoveryEffectNotPermitted :: ReasonCode where [reason_defs]:
  "ReasonRecoveryEffectNotPermitted = ''recovery_effect_not_permitted''"

definition ReasonOwnerMissing :: ReasonCode where [reason_defs]:
  "ReasonOwnerMissing = ''owner_missing''"

definition ReasonPlanInvalid :: ReasonCode where [reason_defs]:
  "ReasonPlanInvalid = ''plan_invalid''"

definition ReasonComponentMissing :: ReasonCode where [reason_defs]:
  "ReasonComponentMissing = ''component_missing''"

definition ReasonComponentMismatch :: ReasonCode where [reason_defs]:
  "ReasonComponentMismatch = ''component_mismatch''"

definition ReasonCapabilityExpired :: ReasonCode where [reason_defs]:
  "ReasonCapabilityExpired = ''capability_expired''"

definition ReasonDependencyCycle :: ReasonCode where [reason_defs]:
  "ReasonDependencyCycle = ''dependency_cycle''"

definition ReasonRunConflict :: ReasonCode where [reason_defs]:
  "ReasonRunConflict = ''run_conflict''"

definition ReasonRunClaimConflict :: ReasonCode where [reason_defs]:
  "ReasonRunClaimConflict = ''run_claim_conflict''"

definition ReasonRunClaimUnverified :: ReasonCode where [reason_defs]:
  "ReasonRunClaimUnverified = ''run_claim_unverified''"

definition ReasonCheckpointInconsistent :: ReasonCode where [reason_defs]:
  "ReasonCheckpointInconsistent = ''checkpoint_inconsistent''"

definition ReasonCheckpointUnsupported :: ReasonCode where [reason_defs]:
  "ReasonCheckpointUnsupported = ''checkpoint_unsupported''"

definition ReasonRestoreIncompatible :: ReasonCode where [reason_defs]:
  "ReasonRestoreIncompatible = ''restore_incompatible''"

definition ReasonReadyEvidenceIncomplete :: ReasonCode where [reason_defs]:
  "ReasonReadyEvidenceIncomplete = ''ready_evidence_incomplete''"

definition ReasonInvalidCanonicalForm :: ReasonCode where [reason_defs]:
  "ReasonInvalidCanonicalForm = ''invalid_canonical_form''"

definition ReasonCanonicalLimitExceeded :: ReasonCode where [reason_defs]:
  "ReasonCanonicalLimitExceeded = ''canonical_limit_exceeded''"

definition ReasonDuplicateCanonicalKey :: ReasonCode where [reason_defs]:
  "ReasonDuplicateCanonicalKey = ''duplicate_canonical_key''"

definition ReasonInvalidSemanticVersion :: ReasonCode where [reason_defs]:
  "ReasonInvalidSemanticVersion = ''invalid_semantic_version''"

definition ReasonInvalidNamespace :: ReasonCode where [reason_defs]:
  "ReasonInvalidNamespace = ''invalid_namespace''"

definition ReasonUnknownGovernanceCategory :: ReasonCode where [reason_defs]:
  "ReasonUnknownGovernanceCategory = ''unknown_governance_category''"

definition ReasonUnknownCapability :: ReasonCode where [reason_defs]:
  "ReasonUnknownCapability = ''unknown_capability''"

definition ReasonUnknownSchema :: ReasonCode where [reason_defs]:
  "ReasonUnknownSchema = ''unknown_schema''"

definition ReasonUnknownRequiredExtension :: ReasonCode where [reason_defs]:
  "ReasonUnknownRequiredExtension = ''unknown_required_extension''"

definition ReasonBindingExpired :: ReasonCode where [reason_defs]:
  "ReasonBindingExpired = ''binding_expired''"

definition ReasonBindingDrift :: ReasonCode where [reason_defs]:
  "ReasonBindingDrift = ''binding_drift''"

definition ReasonBindingNotCertified :: ReasonCode where [reason_defs]:
  "ReasonBindingNotCertified = ''binding_not_certified''"

definition ReasonBindingSetConflict :: ReasonCode where [reason_defs]:
  "ReasonBindingSetConflict = ''binding_set_conflict''"

definition ReasonOwnerConflict :: ReasonCode where [reason_defs]:
  "ReasonOwnerConflict = ''owner_conflict''"

definition ReasonClockRegression :: ReasonCode where [reason_defs]:
  "ReasonClockRegression = ''clock_regression''"

definition ReasonReviewVerdictMissing :: ReasonCode where [reason_defs]:
  "ReasonReviewVerdictMissing = ''review_verdict_missing''"

definition ReasonReviewVerdictStale :: ReasonCode where [reason_defs]:
  "ReasonReviewVerdictStale = ''review_verdict_stale''"

definition ReasonReviewCandidateConflict :: ReasonCode where [reason_defs]:
  "ReasonReviewCandidateConflict = ''review_candidate_conflict''"

definition ReasonReviewConditionUnsatisfied :: ReasonCode where [reason_defs]:
  "ReasonReviewConditionUnsatisfied = ''review_condition_unsatisfied''"

definition ReasonReviewRemoteEffectRequired :: ReasonCode where [reason_defs]:
  "ReasonReviewRemoteEffectRequired = ''review_remote_effect_required''"

definition ReasonBudgetBindingMissing :: ReasonCode where [reason_defs]:
  "ReasonBudgetBindingMissing = ''budget_binding_missing''"

definition ReasonBudgetBindingStale :: ReasonCode where [reason_defs]:
  "ReasonBudgetBindingStale = ''budget_binding_stale''"

definition ReasonCredentialLeaseMissing :: ReasonCode where [reason_defs]:
  "ReasonCredentialLeaseMissing = ''credential_lease_missing''"

definition ReasonEffectStateConflict :: ReasonCode where [reason_defs]:
  "ReasonEffectStateConflict = ''effect_state_conflict''"

definition ReasonEffectConflictDomainOccupied :: ReasonCode where [reason_defs]:
  "ReasonEffectConflictDomainOccupied = ''effect_conflict_domain_occupied''"

definition ReasonEffectUnknownOutcome :: ReasonCode where [reason_defs]:
  "ReasonEffectUnknownOutcome = ''effect_unknown_outcome''"

definition ReasonEffectSettlementMissing :: ReasonCode where [reason_defs]:
  "ReasonEffectSettlementMissing = ''effect_settlement_missing''"

definition ReasonSettlementOwnerMismatch :: ReasonCode where [reason_defs]:
  "ReasonSettlementOwnerMismatch = ''settlement_owner_mismatch''"

definition ReasonDispatchPermitInvalid :: ReasonCode where [reason_defs]:
  "ReasonDispatchPermitInvalid = ''dispatch_permit_invalid''"

definition ReasonDispatchPermitExpired :: ReasonCode where [reason_defs]:
  "ReasonDispatchPermitExpired = ''dispatch_permit_expired''"

definition ReasonDispatchPermitConsumed :: ReasonCode where [reason_defs]:
  "ReasonDispatchPermitConsumed = ''dispatch_permit_consumed''"

definition ReasonProviderBindingStale :: ReasonCode where [reason_defs]:
  "ReasonProviderBindingStale = ''provider_binding_stale''"

definition ReasonCompensationIncomplete :: ReasonCode where [reason_defs]:
  "ReasonCompensationIncomplete = ''compensation_incomplete''"

definition ReasonRemoteResidualUnresolved :: ReasonCode where [reason_defs]:
  "ReasonRemoteResidualUnresolved = ''remote_residual_unresolved''"

definition ReasonRunSettlementPlanConflict :: ReasonCode where [reason_defs]:
  "ReasonRunSettlementPlanConflict = ''run_settlement_plan_conflict''"

definition ReasonRunSettlementRequirementInvalid :: ReasonCode where [reason_defs]:
  "ReasonRunSettlementRequirementInvalid = ''run_settlement_requirement_invalid''"

definition ReasonRunEffectIndexConflict :: ReasonCode where [reason_defs]:
  "ReasonRunEffectIndexConflict = ''run_effect_index_conflict''"

definition ReasonRunEffectSetFrozen :: ReasonCode where [reason_defs]:
  "ReasonRunEffectSetFrozen = ''run_effect_set_frozen''"

definition ReasonRunSettlementClosureConflict :: ReasonCode where [reason_defs]:
  "ReasonRunSettlementClosureConflict = ''run_settlement_closure_conflict''"

definition ReasonRunSettlementParticipantMissing :: ReasonCode where [reason_defs]:
  "ReasonRunSettlementParticipantMissing = ''run_settlement_participant_missing''"

definition ReasonRunSettlementParticipantStale :: ReasonCode where [reason_defs]:
  "ReasonRunSettlementParticipantStale = ''run_settlement_participant_stale''"

definition ReasonExecutionInspectionInvalid :: ReasonCode where [reason_defs]:
  "ReasonExecutionInspectionInvalid = ''execution_inspection_invalid''"

definition ReasonRunSettlementBlocked :: ReasonCode where [reason_defs]:
  "ReasonRunSettlementBlocked = ''run_settlement_blocked''"

definition ReasonRunCompletionConflict :: ReasonCode where [reason_defs]:
  "ReasonRunCompletionConflict = ''run_completion_conflict''"

definition ReasonRunCompletionAtomicityBroken :: ReasonCode where [reason_defs]:
  "ReasonRunCompletionAtomicityBroken = ''run_completion_atomicity_broken''"

definition ReasonTerminationProgressConflict :: ReasonCode where [reason_defs]:
  "ReasonTerminationProgressConflict = ''termination_progress_conflict''"

definition ReasonTerminationReportIncomplete :: ReasonCode where [reason_defs]:
  "ReasonTerminationReportIncomplete = ''termination_report_incomplete''"

lemma HasReason_DomainError [simp]:
  "HasReason (Some (DomainError c r)) k \<longleftrightarrow> r = k"
  by simp

end
