(* ===== verification/Text.thy ===== *)
theory Text
  imports Errors
begin

text \<open>
  The parts of Go's \<open>strings\<close>, \<open>strconv\<close>, \<open>encoding/hex\<close> and \<open>fmt\<close> the program uses, on byte
  strings: white-space trimming (every code point \<open>unicode.IsSpace\<close> accepts, in its UTF-8
  encoding), decimal printing and parsing, hexadecimal encoding and decoding, splitting on a
  separator.
\<close>

section \<open>White space\<close>

text \<open>The UTF-8 encodings of the code points with the White\_Space property.\<close>

definition space_runes :: "string list" where
  "space_runes =
     [[CHR 0x09], [CHR 0x0A], [CHR 0x0B], [CHR 0x0C], [CHR 0x0D], [CHR 0x20],
      [CHR 0xC2, CHR 0x85], [CHR 0xC2, CHR 0xA0], [CHR 0xE1, CHR 0x9A, CHR 0x80],
      [CHR 0xE2, CHR 0x80, CHR 0x80], [CHR 0xE2, CHR 0x80, CHR 0x81], [CHR 0xE2, CHR 0x80, CHR 0x82],
      [CHR 0xE2, CHR 0x80, CHR 0x83], [CHR 0xE2, CHR 0x80, CHR 0x84], [CHR 0xE2, CHR 0x80, CHR 0x85],
      [CHR 0xE2, CHR 0x80, CHR 0x86], [CHR 0xE2, CHR 0x80, CHR 0x87], [CHR 0xE2, CHR 0x80, CHR 0x88],
      [CHR 0xE2, CHR 0x80, CHR 0x89], [CHR 0xE2, CHR 0x80, CHR 0x8A], [CHR 0xE2, CHR 0x80, CHR 0xA8],
      [CHR 0xE2, CHR 0x80, CHR 0xA9], [CHR 0xE2, CHR 0x80, CHR 0xAF], [CHR 0xE2, CHR 0x81, CHR 0x9F],
      [CHR 0xE3, CHR 0x80, CHR 0x80]]"

definition has_prefix :: "string \<Rightarrow> string \<Rightarrow> bool" where
  "has_prefix p s \<longleftrightarrow> take (length p) s = p"

definition has_suffix :: "string \<Rightarrow> string \<Rightarrow> bool" where
  "has_suffix p s \<longleftrightarrow> length p \<le> length s \<and> drop (length s - length p) s = p"

definition leading_space :: "string \<Rightarrow> string option" where
  "leading_space s = find (\<lambda>w. has_prefix w s) space_runes"

definition trailing_space :: "string \<Rightarrow> string option" where
  "trailing_space s = find (\<lambda>w. has_suffix w s) space_runes"

text \<open>A printable ASCII character other than space begins no white-space rune.\<close>

definition graphic :: "char \<Rightarrow> bool" where
  "graphic c \<longleftrightarrow> 0x21 \<le> (of_char c :: nat) \<and> (of_char c :: nat) \<le> 0x7E"

lemma space_runes_heads: "list_all (\<lambda>w. w \<noteq> '''' \<and> \<not> graphic (hd w)) space_runes"
  by (simp add: space_runes_def graphic_def)

lemma space_rune_head: "w \<in> set space_runes \<Longrightarrow> w \<noteq> '''' \<and> \<not> graphic (hd w)"
  using space_runes_heads by (auto simp: list_all_iff)

lemma space_rune_length: "w \<in> set space_runes \<Longrightarrow> 0 < length w"
  by (auto dest: space_rune_head)

lemma leading_space_Some:
  "leading_space s = Some w \<Longrightarrow> w \<in> set space_runes \<and> take (length w) s = w"
  by (auto simp: leading_space_def find_Some_iff has_prefix_def)

lemma trailing_space_Some:
  "trailing_space s = Some w \<Longrightarrow> w \<in> set space_runes \<and> length w \<le> length s"
  by (auto simp: trailing_space_def find_Some_iff has_suffix_def)

function trim_left :: "string \<Rightarrow> string" where
  "trim_left s = (case leading_space s of None \<Rightarrow> s | Some w \<Rightarrow> trim_left (drop (length w) s))"
  by pat_completeness auto
termination
proof (relation "measure length", simp)
  fix s w assume "leading_space s = Some w"
  then have "0 < length w" "take (length w) s = w"
    using space_rune_length by (auto dest: leading_space_Some)
  then have "s \<noteq> ''''" by auto
  with \<open>0 < length w\<close> show "(drop (length w) s, s) \<in> measure length" by simp
qed

function trim_right :: "string \<Rightarrow> string" where
  "trim_right s =
     (case trailing_space s of None \<Rightarrow> s | Some w \<Rightarrow> trim_right (take (length s - length w) s))"
  by pat_completeness auto
termination
proof (relation "measure length", simp)
  fix s w assume "trailing_space s = Some w"
  then have "0 < length w" "length w \<le> length s"
    using space_rune_length by (auto dest: trailing_space_Some)
  then have "length s - length w < length s" by linarith
  then show "(take (length s - length w) s, s) \<in> measure length" by simp
qed

declare trim_left.simps [simp del] trim_right.simps [simp del]

definition TrimSpace :: "string \<Rightarrow> string" where
  "TrimSpace s = trim_right (trim_left s)"

definition blank :: "string \<Rightarrow> bool" where
  "blank s \<longleftrightarrow> TrimSpace s = ''''"

text \<open>A string that begins with a printable ASCII character other than space is not blank.\<close>

lemma leading_space_graphic: "graphic c \<Longrightarrow> leading_space (c # s) = None"
  unfolding leading_space_def find_None_iff has_prefix_def
  by (metis list.sel(1) space_rune_head take_eq_Nil2 hd_take length_greater_0_conv)

lemma trailing_space_prefix_graphic:
  assumes "graphic c" and "trailing_space (c # s) = Some w"
  shows "length w \<le> length s"
proof (rule ccontr)
  assume "\<not> length w \<le> length s"
  moreover from assms(2) have "w \<in> set space_runes" "has_suffix w (c # s)"
    by (auto simp: trailing_space_def find_Some_iff)
  ultimately have "w = c # s" by (auto simp: has_suffix_def not_le less_Suc_eq_le)
  with assms(1) \<open>w \<in> set space_runes\<close> show False by (auto dest: space_rune_head)
qed

lemma trim_right_graphic: "graphic c \<Longrightarrow> \<exists>t. trim_right (c # s) = c # t"
proof (induction s rule: length_induct)
  case (1 s)
  show ?case
  proof (cases "trailing_space (c # s)")
    case None
    then show ?thesis by (simp add: trim_right.simps [of "c # s"])
  next
    case (Some w)
    with 1 have le: "length w \<le> length s" by (auto dest: trailing_space_prefix_graphic)
    have "0 < length w" using Some by (auto dest!: trailing_space_Some space_rune_length)
    with le have "length (take (length s - length w) s) < length s" by (cases s) auto
    with 1 have "\<exists>t. trim_right (c # take (length s - length w) s) = c # t" by blast
    with Some le show ?thesis by (simp add: trim_right.simps [of "c # s"] Suc_diff_le)
  qed
qed

lemma blank_graphic [simp]: "graphic c \<Longrightarrow> \<not> blank (c # s)"
  using trim_right_graphic [of c s]
  by (auto simp: blank_def TrimSpace_def trim_left.simps [of "c # s"] leading_space_graphic)

lemma blank_Nil [simp]: "blank ''''"
  by (simp add: blank_def TrimSpace_def trim_left.simps trim_right.simps leading_space_def
      trailing_space_def find_None_iff space_runes_def has_prefix_def has_suffix_def)

section \<open>Decimal numbers\<close>

definition digit :: "nat \<Rightarrow> char" where
  "digit n = char_of (48 + n)"

fun dec :: "nat \<Rightarrow> string" where
  "dec n = (if n < 10 then [digit n] else dec (n div 10) @ [digit (n mod 10)])"

declare dec.simps [simp del]

definition is_digit :: "char \<Rightarrow> bool" where
  "is_digit c \<longleftrightarrow> 48 \<le> (of_char c :: nat) \<and> (of_char c :: nat) \<le> 57"

definition digit_value :: "char \<Rightarrow> nat" where
  "digit_value c = of_char c - 48"

definition dec_value :: "string \<Rightarrow> nat" where
  "dec_value s = foldl (\<lambda>n c. 10 * n + digit_value c) 0 s"

text \<open>\<open>strconv.ParseUint(s, 10, 64)\<close> on a string of digits: \<open>None\<close> on overflow.\<close>

definition ParseUint :: "string \<Rightarrow> u64 option" where
  "ParseUint s =
     (if s = '''' \<or> \<not> list_all is_digit s \<or> 2 ^ 64 \<le> dec_value s then None
      else Some (word_of_nat (dec_value s)))"

lemma of_char_digit: "n < 10 \<Longrightarrow> (of_char (digit n) :: nat) = 48 + n"
  by (simp add: digit_def)

lemma digit_value_digit [simp]: "n < 10 \<Longrightarrow> digit_value (digit n) = n"
  by (simp add: digit_value_def of_char_digit)

lemma is_digit_digit [simp]: "n < 10 \<Longrightarrow> is_digit (digit n)"
  by (simp add: is_digit_def of_char_digit)

lemma digit_digit_value: "is_digit c \<Longrightarrow> digit (digit_value c) = c"
  by (simp add: digit_def digit_value_def is_digit_def)

lemma digit_value_less: "is_digit c \<Longrightarrow> digit_value c < 10"
  by (auto simp: digit_value_def is_digit_def)

lemma dec_value_snoc [simp]: "dec_value (s @ [c]) = 10 * dec_value s + digit_value c"
  by (simp add: dec_value_def)

lemma dec_value_single [simp]: "dec_value [c] = digit_value c"
  by (simp add: dec_value_def)

lemma dec_value_dec [simp]: "dec_value (dec n) = n"
proof (induction n rule: dec.induct)
  case (1 n)
  then show ?case by (cases "n < 10") (simp_all add: dec.simps [of n])
qed

lemma dec_inject [simp]: "dec m = dec n \<longleftrightarrow> m = n"
  by (metis dec_value_dec)

lemma dec_digits: "list_all is_digit (dec n)"
proof (induction n rule: dec.induct)
  case (1 n)
  then show ?case by (cases "n < 10") (simp_all add: dec.simps [of n])
qed

lemma dec_nonempty [simp]: "dec n \<noteq> ''''"
  by (simp add: dec.simps [of n])

lemma ParseUint_dec [simp]: "ParseUint (dec (unat (w :: u64))) = Some w"
proof -
  have "unat w < 2 ^ 64" using unsigned_less [of w, where 'a = nat] by simp
  then show ?thesis by (simp add: ParseUint_def dec_digits)
qed

lemma not_digit_in_dec: "\<not> is_digit c \<Longrightarrow> c \<notin> set (dec n)"
  using dec_digits [of n] by (auto simp: list_all_iff)

lemma slash_notin_dec [simp]: "CHR ''/'' \<notin> set (dec n)"
  by (rule not_digit_in_dec) (simp add: is_digit_def)

text \<open>A numeral without a superfluous leading zero is the decimal form of its value.\<close>

lemma dec_dec_value:
  assumes "list_all is_digit s" "s \<noteq> ''''" "length s = 1 \<or> hd s \<noteq> CHR ''0''"
  shows "dec (dec_value s) = s"
  using assms
proof (induction s rule: rev_induct)
  case Nil
  then show ?case by simp
next
  case (snoc c s)
  then have c: "is_digit c" by simp
  show ?case
  proof (cases "s = ''''")
    case True
    with c show ?thesis
      by (simp add: dec.simps [of "digit_value c"] digit_value_less digit_digit_value)
  next
    case False
    with snoc.prems have hd: "hd s \<noteq> CHR ''0''" and ds: "list_all is_digit s" by auto
    with snoc.IH False have IH: "dec (dec_value s) = s" by auto
    have "dec_value s \<noteq> 0"
    proof
      assume "dec_value s = 0"
      with IH have "s = [digit 0]" by (simp add: dec.simps [of 0])
      moreover have "digit 0 = CHR ''0''" by code_simp
      ultimately show False using hd by simp
    qed
    with c IH show ?thesis
      by (simp add: dec.simps [of "10 * dec_value s + digit_value c"] digit_value_less
          digit_digit_value)
  qed
qed

section \<open>Keys joined with a slash\<close>

text \<open>
  A string is determined by its part before the last slash and the slash-free rest; with
  \<open>fmt.Sprintf("%s/%d", ...)\<close> this makes the numeric suffix of a key unambiguous.
\<close>

lemma append_sep_inject:
  assumes "c \<notin> set ys" "c \<notin> set ys'"
  shows "xs @ c # ys = xs' @ c # ys' \<longleftrightarrow> xs = xs' \<and> ys = ys'"
  using assms by (auto simp: append_eq_append_conv2 Cons_eq_append_conv append_eq_Cons_conv)

lemma slash_dec_inject:
  "xs @ CHR ''/'' # dec m = xs' @ CHR ''/'' # dec n \<longleftrightarrow> xs = xs' \<and> m = n"
  by (simp add: append_sep_inject)

end
