(* ===== verification/Digest.thy ===== *)
theory Digest
  imports Sha256
begin

text \<open>
  Content digests: \<open>runtime/core/digest.go\<close> and \<open>runtime/core/canonical.go\<close>. A digest is the string
  \<open>sha256:\<close> followed by 64 hexadecimal digits. The canonical digest hashes a sequence of frames,
  each prefixed by its length, so that domain, version, discriminator and payload cannot run into
  each other. What \<open>json.Marshal\<close> returns for the hashed value is an argument: \<open>None\<close> is its error.
\<close>

type_synonym Digest = string

section \<open>Plain digests\<close>

definition sha256_prefix :: string where
  "sha256_prefix = ''sha256:''"

lemma length_sha256_prefix [simp]: "length sha256_prefix = 7"
  by (simp add: sha256_prefix_def)

definition Digest_Validate :: "Digest \<Rightarrow> go_error option" where [validate_defs]:
  "Digest_Validate d =
     first_err
      [fail_if (\<not> has_prefix sha256_prefix d) ErrorInvalidArgument ReasonInvalidDigest,
       (case DecodeString (drop (length sha256_prefix) d) of
          None \<Rightarrow> Some (DomainError ErrorInvalidArgument ReasonInvalidDigest)
        | Some decoded \<Rightarrow>
            fail_if (length decoded \<noteq> 32) ErrorInvalidArgument ReasonInvalidDigest)]"

definition DigestBytes :: "string \<Rightarrow> Digest" where
  "DigestBytes payload = sha256_prefix @ EncodeToString (Sum256 payload)"

definition DigestJSON :: "string option \<Rightarrow> Digest res" where
  "DigestJSON marshalled =
     (case marshalled of
        None \<Rightarrow> Inl (DomainError ErrorInvalidArgument ReasonInvalidDigest)
      | Some payload \<Rightarrow> Inr (sha256_prefix @ EncodeToString (Sum256 payload)))"

lemma DigestBytes_valid [simp]: "Digest_Validate (DigestBytes p) = None"
  by (simp add: Digest_Validate_def DigestBytes_def has_prefix_def)

lemma DigestJSON_Inr: "DigestJSON j = Inr d \<longleftrightarrow> (\<exists>p. j = Some p \<and> d = DigestBytes p)"
  by (auto simp: DigestJSON_def DigestBytes_def split: option.splits)

lemma DigestJSON_valid: "DigestJSON j = Inr d \<Longrightarrow> Digest_Validate d = None"
  by (auto simp: DigestJSON_Inr)

text \<open>The digests that validate: the prefix and 64 hexadecimal digits.\<close>

lemma Digest_Validate_shape:
  assumes "Digest_Validate d = None"
  shows "length d = 71" "d \<noteq> ''''"
proof -
  from assms obtain t where t: "DecodeString (drop 7 d) = Some t" "length t = 32"
    and p: "has_prefix sha256_prefix d"
    by (auto simp: Digest_Validate_def split: option.splits)
  have "length (drop 7 d) = 64" using length_DecodeString [OF t(1)] t(2) by simp
  then show "length d = 71" by simp
  then show "d \<noteq> ''''" by auto
qed

lemma Digest_Validate_empty [simp]: "Digest_Validate '''' = Some (DomainError ErrorInvalidArgument ReasonInvalidDigest)"
  by (simp add: Digest_Validate_def has_prefix_def sha256_prefix_def)

lemma Digest_Validate_error:
  "Digest_Validate d = Some e \<Longrightarrow> e = DomainError ErrorInvalidArgument ReasonInvalidDigest"
  unfolding Digest_Validate_def by (auto simp: fail_if_def split: if_splits option.splits)

section \<open>Canonical digests\<close>

definition MaxCanonicalDocumentBytes :: nat where
  "MaxCanonicalDocumentBytes = 2 ^ 20"

definition validCanonicalLabel :: "string \<Rightarrow> bool" where
  "validCanonicalLabel value \<longleftrightarrow>
     \<not> (value = '''' \<or> length value > 128 \<or> TrimSpace value \<noteq> value) \<and>
     list_all (\<lambda>c. 0x21 \<le> (of_char c :: nat) \<and> (of_char c :: nat) \<le> 0x7e) value"

text \<open>The frame \<open>%016x:\<close> of the length followed by the payload.\<close>

definition writeCanonicalFrame :: "string \<Rightarrow> string" where
  "writeCanonicalFrame payload =
     EncodeToString (be_bytes 8 (word_of_nat (length payload) :: u64)) @ '':'' @ payload"

definition canonical_preimage :: "string \<Rightarrow> string \<Rightarrow> string \<Rightarrow> string \<Rightarrow> string" where
  "canonical_preimage domain version discriminator payload =
     writeCanonicalFrame ''praxis-canonical-v1'' @ writeCanonicalFrame domain @
     writeCanonicalFrame version @ writeCanonicalFrame discriminator @ writeCanonicalFrame payload"

definition CanonicalJSONDigest ::
  "string \<Rightarrow> string \<Rightarrow> string \<Rightarrow> string option \<Rightarrow> Digest res" where
  "CanonicalJSONDigest domain version discriminator marshalled =
     (if \<not> validCanonicalLabel domain \<or> \<not> validCanonicalLabel version
         \<or> \<not> validCanonicalLabel discriminator
      then Inl (DomainError ErrorInvalidArgument ReasonInvalidCanonicalForm)
      else case marshalled of
        None \<Rightarrow> Inl (DomainError ErrorInvalidArgument ReasonInvalidCanonicalForm)
      | Some payload \<Rightarrow>
          if length payload > MaxCanonicalDocumentBytes
          then Inl (DomainError ErrorInvalidArgument ReasonCanonicalLimitExceeded)
          else Inr (sha256_prefix @
                    EncodeToString (Sum256 (canonical_preimage domain version discriminator payload))))"

lemma CanonicalJSONDigest_Inr:
  "CanonicalJSONDigest domain ver disc j = Inr d \<longleftrightarrow>
     validCanonicalLabel domain \<and> validCanonicalLabel ver \<and> validCanonicalLabel disc \<and>
     (\<exists>p. j = Some p \<and> length p \<le> MaxCanonicalDocumentBytes \<and>
          d = DigestBytes (canonical_preimage domain ver disc p))"
  by (auto simp: CanonicalJSONDigest_def DigestBytes_def split: option.splits)

lemma CanonicalJSONDigest_valid:
  "CanonicalJSONDigest domain ver disc j = Inr d \<Longrightarrow> Digest_Validate d = None"
  by (auto simp: CanonicalJSONDigest_Inr)

subsection \<open>Frames are uniquely readable\<close>

lemma mod_take_bit_8: "take_bit 8 (a :: int) = a mod 256"
  by (simp add: take_bit_eq_mod)

lemma low_byte_bit:
  assumes "take_bit 8 (uint (a :: u64)) = take_bit 8 (uint (b :: u64))" "m < 8"
  shows "bit a m = bit b m"
  using arg_cong [OF assms(1), of "\<lambda>x. bit x m"] assms(2)
  by (simp add: bit_take_bit_iff bit_uint_iff)

lemma be_bytes_bit:
  assumes "be_bytes 8 (v :: u64) = be_bytes 8 (w :: u64)" "n < 64"
  shows "bit v n = bit w n"
proof -
  define i where "i = 7 - n div 8"
  have n: "n = 8 * (8 - Suc i) + n mod 8" and i: "i < 8"
    using assms(2) by (auto simp: i_def)
  from assms(1) i have "be_bytes 8 v ! i = be_bytes 8 w ! i" by simp
  with i have "(char_of (uint (drop_bit (8 * (8 - Suc i)) v))) =
      (char_of (uint (drop_bit (8 * (8 - Suc i)) w)))"
    by (simp add: be_bytes_def del: One_nat_def)
  then have "take_bit 8 (uint (drop_bit (8 * (8 - Suc i)) v)) =
      take_bit 8 (uint (drop_bit (8 * (8 - Suc i)) w))"
    by (metis of_char_of mod_take_bit_8)
  then have "bit (drop_bit (8 * (8 - Suc i)) v) (n mod 8) = bit (drop_bit (8 * (8 - Suc i)) w) (n mod 8)"
    by (rule low_byte_bit) simp
  with n show ?thesis by (metis bit_drop_bit_eq comp_apply)
qed

lemma be_bytes_inject: "be_bytes 8 (v :: u64) = be_bytes 8 (w :: u64) \<Longrightarrow> v = w"
  by (rule bit_word_eqI, rule be_bytes_bit) simp_all

lemma length_EncodeToString [simp]: "length (EncodeToString s) = 2 * length s"
  by (induction s) (simp_all add: EncodeToString_def hex_byte_def)

lemma EncodeToString_inject [simp]: "EncodeToString s = EncodeToString t \<longleftrightarrow> s = t"
  by (metis DecodeString_EncodeToString option.inject)

lemma frame_inject:
  assumes "writeCanonicalFrame p @ r = writeCanonicalFrame p' @ r'"
    and "length p < 2 ^ 64" "length p' < 2 ^ 64"
  shows "p = p' \<and> r = r'"
proof -
  let ?h = "\<lambda>p. be_bytes 8 (word_of_nat (length p) :: u64)"
  from assms(1) have "EncodeToString (?h p) = EncodeToString (?h p')"
    and tl: "p @ r = p' @ r'"
    by (simp_all add: writeCanonicalFrame_def append_eq_append_conv)
  then have "(word_of_nat (length p) :: u64) = word_of_nat (length p')"
    by (simp add: be_bytes_inject)
  with assms(2,3) have "length p = length p'"
    by (simp add: word_of_nat_eq_iff take_bit_nat_eq_self)
  with tl show ?thesis by simp
qed

lemma label_length: "validCanonicalLabel s \<Longrightarrow> length s \<le> 128"
  by (auto simp: validCanonicalLabel_def)

section \<open>Properties\<close>

text \<open>
  Domain separation: two canonical digests are computed from the same bytes only if domain, version,
  discriminator and payload are all the same. No choice of labels and payload can imitate another.
\<close>

theorem canonical_preimage_separates:
  assumes "validCanonicalLabel d" "validCanonicalLabel v" "validCanonicalLabel k"
    "validCanonicalLabel d'" "validCanonicalLabel v'" "validCanonicalLabel k'"
    "length p \<le> MaxCanonicalDocumentBytes" "length p' \<le> MaxCanonicalDocumentBytes"
    "canonical_preimage d v k p = canonical_preimage d' v' k' p'"
  shows "d = d' \<and> v = v' \<and> k = k' \<and> p = p'"
proof -
  have l: "length x < 2 ^ 64" if "validCanonicalLabel x" for x
    using label_length [OF that] by simp
  have m: "length x < 2 ^ 64" if "length x \<le> MaxCanonicalDocumentBytes" for x :: string
    using that by (simp add: MaxCanonicalDocumentBytes_def)
  from assms(9) have 1: "writeCanonicalFrame d @ writeCanonicalFrame v @ writeCanonicalFrame k @ writeCanonicalFrame p
      = writeCanonicalFrame d' @ writeCanonicalFrame v' @ writeCanonicalFrame k' @ writeCanonicalFrame p'"
    by (simp add: canonical_preimage_def)
  have 2: "d = d' \<and> writeCanonicalFrame v @ writeCanonicalFrame k @ writeCanonicalFrame p
      = writeCanonicalFrame v' @ writeCanonicalFrame k' @ writeCanonicalFrame p'"
    by (rule frame_inject [OF 1 l [OF assms(1)] l [OF assms(4)]])
  have 3: "v = v' \<and> writeCanonicalFrame k @ writeCanonicalFrame p = writeCanonicalFrame k' @ writeCanonicalFrame p'"
    by (rule frame_inject [OF conjunct2 [OF 2] l [OF assms(2)] l [OF assms(5)]])
  have 4: "k = k' \<and> writeCanonicalFrame p = writeCanonicalFrame p'"
    by (rule frame_inject [OF conjunct2 [OF 3] l [OF assms(3)] l [OF assms(6)]])
  have "p = p' \<and> ([] :: string) = []"
    by (rule frame_inject [OF _ m [OF assms(7)] m [OF assms(8)]]) (use 4 in simp)
  then show ?thesis using 2 3 4 by simp
qed

lemma canonical_preimage_separates_witness: "''a'' = ''a'' \<and> ''p'' = ''p''"
proof -
  have "validCanonicalLabel ''a''"
    by (simp add: validCanonicalLabel_def TrimSpace_def) code_simp
  from canonical_preimage_separates [OF this this this this this this, of "''p''" "''p''"] show ?thesis
    by (simp add: MaxCanonicalDocumentBytes_def)
qed

text \<open>A digest whose error the code ignores is the empty string.\<close>

definition digest_or_empty :: "Digest res \<Rightarrow> Digest" where
  "digest_or_empty r = (case r of Inl e \<Rightarrow> '''' | Inr d \<Rightarrow> d)"

end
