(* ===== verification/Identity.thy ===== *)
theory Identity
  imports Digest
begin

text \<open>
  \<open>runtime/core/identity.go\<close> and \<open>runtime/core/preconditions.go\<close>: the references that name an agent
  identity, its lineage, its instance and its sandbox lease, the execution scope they make up, and
  the optimistic-concurrency check of a caller's expected epochs and revision against the current
  fact. A pointer to a lease reference is an option.
\<close>

section \<open>References and scopes\<close>

record AgentIdentityRef =
  ident_TenantID :: string
  ident_ID :: string
  ident_Epoch :: Epoch

definition AgentIdentityRef_Validate :: "AgentIdentityRef \<Rightarrow> go_error option" where [validate_defs]:
  "AgentIdentityRef_Validate r =
     fail_if (blank (ident_TenantID r) \<or> blank (ident_ID r) \<or> ident_Epoch r = 0)
       ErrorInvalidArgument ReasonInvalidReference"

record LineageRef =
  lineage_ID :: string
  lineage_PlanDigest :: Digest

definition LineageRef_Validate :: "LineageRef \<Rightarrow> go_error option" where [validate_defs]:
  "LineageRef_Validate r =
     first_err
      [fail_if (blank (lineage_ID r)) ErrorInvalidArgument ReasonInvalidReference,
       Digest_Validate (lineage_PlanDigest r)]"

record InstanceRef =
  inst_ID :: string
  inst_Epoch :: Epoch

definition InstanceRef_Validate :: "InstanceRef \<Rightarrow> go_error option" where [validate_defs]:
  "InstanceRef_Validate r =
     fail_if (blank (inst_ID r) \<or> inst_Epoch r = 0) ErrorInvalidArgument ReasonInvalidReference"

record SandboxLeaseRef =
  slease_ID :: string
  slease_Epoch :: Epoch

definition SandboxLeaseRef_Validate :: "SandboxLeaseRef \<Rightarrow> go_error option" where [validate_defs]:
  "SandboxLeaseRef_Validate r =
     fail_if (blank (slease_ID r) \<or> slease_Epoch r = 0) ErrorInvalidArgument ReasonInvalidReference"

record ExecutionScope =
  scope_Identity :: AgentIdentityRef
  scope_Lineage :: LineageRef
  scope_Instance :: InstanceRef
  scope_SandboxLease :: "SandboxLeaseRef option"
  scope_AuthorityEpoch :: Epoch

definition ExecutionScope_Validate :: "ExecutionScope \<Rightarrow> go_error option" where [validate_defs]:
  "ExecutionScope_Validate s =
     first_err
      [AgentIdentityRef_Validate (scope_Identity s),
       LineageRef_Validate (scope_Lineage s),
       InstanceRef_Validate (scope_Instance s),
       (case scope_SandboxLease s of None \<Rightarrow> None | Some l \<Rightarrow> SandboxLeaseRef_Validate l),
       fail_if (scope_AuthorityEpoch s = 0) ErrorInvalidArgument ReasonInvalidReference]"

record OwnerRef =
  owner_Domain :: string
  owner_ID :: string

definition OwnerRef_Validate :: "OwnerRef \<Rightarrow> go_error option" where [validate_defs]:
  "OwnerRef_Validate r =
     fail_if (blank (owner_Domain r) \<or> blank (owner_ID r)) ErrorInvalidArgument ReasonOwnerMissing"

record EffectOwnership =
  own_IntentOwner :: OwnerRef
  own_SettlementOwner :: OwnerRef

definition EffectOwnership_Validate :: "EffectOwnership \<Rightarrow> go_error option" where [validate_defs]:
  "EffectOwnership_Validate w =
     first_err [OwnerRef_Validate (own_IntentOwner w), OwnerRef_Validate (own_SettlementOwner w)]"

text \<open>
  Comparison of scopes as the code writes it: field by field, with the two lease pointers compared
  by the values they point to. It is equality of scopes.
\<close>

definition sameExecutionScope :: "ExecutionScope \<Rightarrow> ExecutionScope \<Rightarrow> bool" where
  "sameExecutionScope left right \<longleftrightarrow>
     (if scope_Identity left \<noteq> scope_Identity right \<or> scope_Lineage left \<noteq> scope_Lineage right
         \<or> scope_Instance left \<noteq> scope_Instance right
         \<or> scope_AuthorityEpoch left \<noteq> scope_AuthorityEpoch right
      then False
      else case (scope_SandboxLease left, scope_SandboxLease right) of
             (Some l, Some r) \<Rightarrow> l = r
           | (l, r) \<Rightarrow> l = None \<and> r = None)"

lemma sameExecutionScope_eq [simp]: "sameExecutionScope s t \<longleftrightarrow> s = t"
  by (cases s; cases t) (auto simp: sameExecutionScope_def split: option.splits)

lemma ExecutionScope_ValidateD:
  assumes "ExecutionScope_Validate s = None"
  shows "ident_Epoch (scope_Identity s) \<noteq> 0" "inst_Epoch (scope_Instance s) \<noteq> 0"
    "scope_AuthorityEpoch s \<noteq> 0" "\<not> blank (ident_TenantID (scope_Identity s))"
    "\<not> blank (ident_ID (scope_Identity s))" "\<not> blank (inst_ID (scope_Instance s))"
    "Digest_Validate (lineage_PlanDigest (scope_Lineage s)) = None"
  using assms by (auto simp: validate_defs)

text \<open>Binding a valid lease keeps a scope valid.\<close>

lemma ExecutionScope_Validate_bind:
  "ExecutionScope_Validate s = None \<Longrightarrow> SandboxLeaseRef_Validate l = None \<Longrightarrow>
     ExecutionScope_Validate (s\<lparr>scope_SandboxLease := Some l\<rparr>) = None"
  by (simp add: ExecutionScope_Validate_def)

section \<open>Execution preconditions\<close>

record ExecutionPreconditions =
  pre_IdentityEpoch :: Epoch
  pre_InstanceEpoch :: Epoch
  pre_LeaseEpoch :: "Epoch option"
  pre_AuthorityEpoch :: Epoch
  pre_Revision :: Revision

definition ExecutionPreconditions_Validate :: "ExecutionPreconditions \<Rightarrow> go_error option" where [validate_defs]:
  "ExecutionPreconditions_Validate p =
     first_err
      [fail_if (pre_IdentityEpoch p = 0 \<or> pre_InstanceEpoch p = 0 \<or> pre_AuthorityEpoch p = 0
                \<or> pre_Revision p = 0)
         ErrorInvalidArgument ReasonInvalidReference,
       fail_if (pre_LeaseEpoch p = Some 0) ErrorInvalidArgument ReasonInvalidReference]"

record CurrentExecutionFacts =
  cur_Scope :: ExecutionScope
  cur_Revision :: Revision

definition CheckExecutionPreconditions ::
  "ExecutionPreconditions \<Rightarrow> CurrentExecutionFacts \<Rightarrow> go_error option" where
  "CheckExecutionPreconditions expected current =
     first_err
      [ExecutionScope_Validate (cur_Scope current),
       ExecutionPreconditions_Validate expected,
       fail_if (pre_IdentityEpoch expected \<noteq> ident_Epoch (scope_Identity (cur_Scope current)))
         ErrorPreconditionFailed ReasonStaleIdentityEpoch,
       fail_if (pre_InstanceEpoch expected \<noteq> inst_Epoch (scope_Instance (cur_Scope current)))
         ErrorPreconditionFailed ReasonStaleInstanceEpoch,
       fail_if (pre_AuthorityEpoch expected \<noteq> scope_AuthorityEpoch (cur_Scope current))
         ErrorPreconditionFailed ReasonStaleAuthorityEpoch,
       fail_if (pre_Revision expected \<noteq> cur_Revision current) ErrorConflict ReasonRevisionConflict,
       (case scope_SandboxLease (cur_Scope current) of
          Some lease \<Rightarrow>
            fail_if (pre_LeaseEpoch expected = None \<or> pre_LeaseEpoch expected \<noteq> Some (slease_Epoch lease))
              ErrorPreconditionFailed ReasonStaleLeaseEpoch
        | None \<Rightarrow>
            fail_if (pre_LeaseEpoch expected \<noteq> None) ErrorPreconditionFailed ReasonStaleLeaseEpoch)]"

text \<open>The preconditions a caller derives from a fact it has read.\<close>

definition preconditions_of :: "CurrentExecutionFacts \<Rightarrow> ExecutionPreconditions" where
  "preconditions_of c =
     \<lparr>pre_IdentityEpoch = ident_Epoch (scope_Identity (cur_Scope c)),
      pre_InstanceEpoch = inst_Epoch (scope_Instance (cur_Scope c)),
      pre_LeaseEpoch = map_option slease_Epoch (scope_SandboxLease (cur_Scope c)),
      pre_AuthorityEpoch = scope_AuthorityEpoch (cur_Scope c),
      pre_Revision = cur_Revision c\<rparr>"

text \<open>
  The check passes exactly for the preconditions read from the current fact, provided that fact is
  valid: no field of a stale read gets through.
\<close>

lemma CheckExecutionPreconditions_iff:
  "CheckExecutionPreconditions e c = None \<longleftrightarrow>
     ExecutionScope_Validate (cur_Scope c) = None \<and> cur_Revision c \<noteq> 0 \<and> e = preconditions_of c"
proof -
  have lease: "SandboxLeaseRef_Validate l = None \<Longrightarrow> slease_Epoch l \<noteq> 0" for l
    by (simp add: SandboxLeaseRef_Validate_def)
  have "ExecutionScope_Validate (cur_Scope c) = None \<Longrightarrow> scope_SandboxLease (cur_Scope c) = Some l \<Longrightarrow>
      slease_Epoch l \<noteq> 0" for l
    using lease [of l] by (simp add: ExecutionScope_Validate_def)
  then show ?thesis
    by (cases e) (auto simp: CheckExecutionPreconditions_def preconditions_of_def
        ExecutionPreconditions_Validate_def dest: ExecutionScope_ValidateD split: option.splits)
qed

lemma CheckExecutionPreconditions_revision:
  "CheckExecutionPreconditions e c = None \<Longrightarrow> cur_Revision c \<noteq> 0"
  by (simp add: CheckExecutionPreconditions_iff)

section \<open>A sample scope\<close>

text \<open>A concrete valid scope, for evaluating the operations on concrete inputs.\<close>

definition sample_digest :: Digest where
  "sample_digest = DigestBytes ''plan''"

definition sample_scope :: "SandboxLeaseRef option \<Rightarrow> ExecutionScope" where
  "sample_scope lease =
     \<lparr>scope_Identity = \<lparr>ident_TenantID = ''t'', ident_ID = ''a'', ident_Epoch = 1\<rparr>,
      scope_Lineage = \<lparr>lineage_ID = ''l'', lineage_PlanDigest = sample_digest\<rparr>,
      scope_Instance = \<lparr>inst_ID = ''i'', inst_Epoch = 1\<rparr>,
      scope_SandboxLease = lease, scope_AuthorityEpoch = 1\<rparr>"

definition sample_lease :: SandboxLeaseRef where
  "sample_lease = \<lparr>slease_ID = ''s'', slease_Epoch = 1\<rparr>"

lemma graphic_ascii:
  "graphic CHR ''t''" "graphic CHR ''a''" "graphic CHR ''l''" "graphic CHR ''i''" "graphic CHR ''s''"
  "graphic CHR ''r''" "graphic CHR ''x''" "graphic CHR ''y''" "graphic CHR ''z''" "graphic CHR ''k''"
  "graphic CHR ''c''" "graphic CHR ''d''" "graphic CHR ''e''" "graphic CHR ''o''" "graphic CHR ''p''"
  by (simp_all add: graphic_def)

lemma sample_digest_valid [simp]: "Digest_Validate sample_digest = None"
  by (simp add: sample_digest_def)

lemma sample_scope_lease [simp]: "scope_SandboxLease (sample_scope l) = l"
  by (simp add: sample_scope_def)

lemma sample_lease_valid [simp]: "SandboxLeaseRef_Validate sample_lease = None"
  by (simp add: sample_lease_def SandboxLeaseRef_Validate_def graphic_ascii)

lemma sample_scope_valid [simp]:
  "ExecutionScope_Validate (sample_scope None) = None"
  "ExecutionScope_Validate (sample_scope (Some sample_lease)) = None"
  by (simp_all add: sample_scope_def ExecutionScope_Validate_def AgentIdentityRef_Validate_def
      LineageRef_Validate_def InstanceRef_Validate_def graphic_ascii)

end
