(* ===== verification/State.thy ===== *)
theory State
  imports Identity
begin

text \<open>
  \<open>runtime/core/state.go\<close>: the three orthogonal dimensions of an instance (lifecycle phase,
  execution certainty, cleanup status) and which transitions between instance states are legal.
  The dimensions are strings in the source; each datatype has the declared constants and one
  constructor for every other string, which validation rejects.
\<close>

section \<open>The three dimensions\<close>

datatype LifecyclePhase =
    PhasePending | PhaseAdmitted | PhasePreflighting | PhaseActivating | PhaseProvisioning
  | PhaseBinding | PhaseStarting | PhaseReady | PhaseRunning | PhaseStopping | PhaseTerminal
  | PhaseOther string

datatype ExecutionCertainty =
    CertaintyConfirmed | CertaintyUnknown | CertaintyLost | CertaintyFenced | CertaintyOther string

datatype CleanupStatus =
    CleanupNotRequired | CleanupPending | CleanupComplete | CleanupFailed | CleanupIndeterminate
  | CleanupOther string

definition lifecycleOrder :: "LifecyclePhase list" where
  "lifecycleOrder =
     [PhasePending, PhaseAdmitted, PhasePreflighting, PhaseActivating, PhaseProvisioning,
      PhaseBinding, PhaseStarting, PhaseReady, PhaseRunning, PhaseStopping, PhaseTerminal]"

text \<open>The index of the first occurrence, or -1: the loop every enumeration of the program uses.\<close>

fun index_from :: "int \<Rightarrow> 'a list \<Rightarrow> 'a \<Rightarrow> int" where
  "index_from i [] x = -1"
| "index_from i (y # ys) x = (if y = x then i else index_from (i + 1) ys x)"

definition lifecycleIndex :: "LifecyclePhase \<Rightarrow> int" where
  "lifecycleIndex phase = index_from 0 lifecycleOrder phase"

definition validPhase :: "LifecyclePhase \<Rightarrow> bool" where
  "validPhase p \<longleftrightarrow> lifecycleIndex p \<ge> 0"

fun validCertainty :: "ExecutionCertainty \<Rightarrow> bool" where
  "validCertainty (CertaintyOther s) = False"
| "validCertainty _ = True"

fun validCleanup :: "CleanupStatus \<Rightarrow> bool" where
  "validCleanup (CleanupOther s) = False"
| "validCleanup _ = True"

lemma lifecycleIndex_simps [simp]:
  "lifecycleIndex PhasePending = 0" "lifecycleIndex PhaseAdmitted = 1"
  "lifecycleIndex PhasePreflighting = 2" "lifecycleIndex PhaseActivating = 3"
  "lifecycleIndex PhaseProvisioning = 4" "lifecycleIndex PhaseBinding = 5"
  "lifecycleIndex PhaseStarting = 6" "lifecycleIndex PhaseReady = 7"
  "lifecycleIndex PhaseRunning = 8" "lifecycleIndex PhaseStopping = 9"
  "lifecycleIndex PhaseTerminal = 10" "lifecycleIndex (PhaseOther s) = -1"
  by (simp_all add: lifecycleIndex_def lifecycleOrder_def)

text \<open>Phases are preordered by their place in the lifecycle.\<close>

instantiation LifecyclePhase :: preorder
begin

definition less_eq_LifecyclePhase :: "LifecyclePhase \<Rightarrow> LifecyclePhase \<Rightarrow> bool" where
  "p \<le> q \<longleftrightarrow> lifecycleIndex p \<le> lifecycleIndex q"

definition less_LifecyclePhase :: "LifecyclePhase \<Rightarrow> LifecyclePhase \<Rightarrow> bool" where
  "p < q \<longleftrightarrow> lifecycleIndex p < lifecycleIndex q"

instance
  by standard (auto simp: less_eq_LifecyclePhase_def less_LifecyclePhase_def)

end

lemma lifecycleIndex_bounds: "-1 \<le> lifecycleIndex p" "lifecycleIndex p \<le> 10"
  by (cases p; simp)+

lemma lifecycleIndex_terminal [simp]: "10 \<le> lifecycleIndex p \<longleftrightarrow> p = PhaseTerminal"
  by (cases p) simp_all

section \<open>Instance states\<close>

record InstanceState =
  st_Phase :: LifecyclePhase
  st_Certainty :: ExecutionCertainty
  st_Cleanup :: CleanupStatus
  st_HasCleanupObligations :: bool
  st_CleanupEvidenceComplete :: bool

definition InstanceState_Validate :: "InstanceState \<Rightarrow> go_error option" where [validate_defs]:
  "InstanceState_Validate s =
     (let phaseIndex = lifecycleIndex (st_Phase s) in
      first_err
       [fail_if (\<not> validPhase (st_Phase s) \<or> \<not> validCertainty (st_Certainty s) \<or> \<not> validCleanup (st_Cleanup s))
          ErrorInvalidArgument ReasonInvalidState,
        fail_if (phaseIndex \<le> lifecycleIndex PhasePreflighting \<and>
                 (st_Certainty s \<noteq> CertaintyConfirmed \<or> st_Cleanup s \<noteq> CleanupNotRequired
                  \<or> st_HasCleanupObligations s))
          ErrorPreconditionFailed ReasonInvalidState,
        fail_if (st_Certainty s = CertaintyUnknown \<and> phaseIndex < lifecycleIndex PhaseActivating)
          ErrorPreconditionFailed ReasonInvalidState,
        fail_if (st_Certainty s = CertaintyLost \<and> phaseIndex < lifecycleIndex PhaseProvisioning)
          ErrorPreconditionFailed ReasonInvalidState,
        fail_if (st_Certainty s = CertaintyFenced \<and> st_Phase s \<noteq> PhaseStopping \<and> st_Phase s \<noteq> PhaseTerminal)
          ErrorPreconditionFailed ReasonInvalidState,
        fail_if (st_HasCleanupObligations s \<and> st_Cleanup s = CleanupNotRequired)
          ErrorPreconditionFailed ReasonInvalidState,
        fail_if (\<not> st_HasCleanupObligations s \<and> st_Cleanup s \<noteq> CleanupNotRequired)
          ErrorPreconditionFailed ReasonInvalidState,
        (if st_Cleanup s = CleanupComplete
         then fail_if (st_Phase s \<noteq> PhaseTerminal \<or> \<not> st_CleanupEvidenceComplete s)
                ErrorPreconditionFailed ReasonCleanupEvidenceIncomplete
         else fail_if (st_CleanupEvidenceComplete s) ErrorPreconditionFailed ReasonInvalidState),
        fail_if ((st_Cleanup s = CleanupFailed \<or> st_Cleanup s = CleanupIndeterminate)
                 \<and> st_Phase s \<noteq> PhaseStopping \<and> st_Phase s \<noteq> PhaseTerminal)
          ErrorPreconditionFailed ReasonInvalidState])"

record TransitionContext =
  tc_InspectCoverageComplete :: bool
  tc_CleanupRetryAuthorized :: bool
  tc_CleanupCompletionRetracted :: bool

definition no_context :: TransitionContext where
  "no_context = \<lparr>tc_InspectCoverageComplete = False, tc_CleanupRetryAuthorized = False,
     tc_CleanupCompletionRetracted = False\<rparr>"

definition validLifecycleMove :: "LifecyclePhase \<Rightarrow> LifecyclePhase \<Rightarrow> bool" where
  "validLifecycleMove f t \<longleftrightarrow>
     (if f = t then True
      else if t = PhaseStopping \<and> f \<noteq> PhaseTerminal then True
      else if f = PhaseStopping \<and> t = PhaseTerminal then True
      else lifecycleIndex t = lifecycleIndex f + 1)"

definition ValidateStateTransition ::
  "InstanceState \<Rightarrow> InstanceState \<Rightarrow> TransitionContext \<Rightarrow> go_error option" where
  "ValidateStateTransition f t c =
     first_err
      [InstanceState_Validate f,
       InstanceState_Validate t,
       fail_if (st_Phase f = PhaseTerminal \<and> st_Phase t \<noteq> PhaseTerminal)
         ErrorPreconditionFailed ReasonTerminalInstance,
       fail_if (\<not> validLifecycleMove (st_Phase f) (st_Phase t))
         ErrorPreconditionFailed ReasonInvalidTransition,
       fail_if (st_Certainty f = CertaintyFenced \<and> st_Certainty t \<noteq> CertaintyFenced)
         ErrorPreconditionFailed ReasonFencedInstance,
       fail_if ((st_Certainty f = CertaintyUnknown \<or> st_Certainty f = CertaintyLost)
                \<and> st_Certainty t = CertaintyConfirmed \<and> \<not> tc_InspectCoverageComplete c)
         ErrorPreconditionFailed ReasonInspectCoverageIncomplete,
       fail_if (st_Cleanup f = CleanupComplete \<and> st_Cleanup t \<noteq> CleanupComplete
                \<and> \<not> tc_CleanupCompletionRetracted c)
         ErrorPreconditionFailed ReasonCleanupRetractionMissing,
       fail_if ((st_Cleanup f = CleanupFailed \<or> st_Cleanup f = CleanupIndeterminate)
                \<and> st_Cleanup t = CleanupPending \<and> \<not> tc_CleanupRetryAuthorized c)
         ErrorForbidden ReasonCleanupRetryUnauthorized]"

section \<open>What a legal transition preserves\<close>

lemma validLifecycleMove_mono: "validPhase f \<Longrightarrow> validLifecycleMove f t \<Longrightarrow> f \<le> t"
  by (cases f; cases t) (auto simp: validLifecycleMove_def less_eq_LifecyclePhase_def validPhase_def)

lemma InstanceState_Validate_phase: "InstanceState_Validate s = None \<Longrightarrow> validPhase (st_Phase s)"
  by (simp add: InstanceState_Validate_def Let_def)

lemma ValidateStateTransitionD:
  assumes "ValidateStateTransition f t c = None"
  shows "InstanceState_Validate f = None" "InstanceState_Validate t = None"
    "st_Phase f \<le> st_Phase t"
    "st_Phase f = PhaseTerminal \<Longrightarrow> st_Phase t = PhaseTerminal"
    "st_Certainty f = CertaintyFenced \<Longrightarrow> st_Certainty t = CertaintyFenced"
  using assms validLifecycleMove_mono [of "st_Phase f" "st_Phase t"]
  by (auto simp: ValidateStateTransition_def dest: InstanceState_Validate_phase)

text \<open>One legal step, and the states reachable by legal steps under any contexts.\<close>

inductive state_step :: "InstanceState \<Rightarrow> InstanceState \<Rightarrow> bool" where
  legal: "ValidateStateTransition f t c = None \<Longrightarrow> state_step f t"

inductive_cases state_stepE [elim!]: "state_step f t"

inductive state_run :: "InstanceState \<Rightarrow> InstanceState \<Rightarrow> bool" where
  stay: "state_run s s"
| go: "state_run s t \<Longrightarrow> state_step t u \<Longrightarrow> state_run s u"

lemma state_run_phase_mono: "state_run s t \<Longrightarrow> st_Phase s \<le> st_Phase t"
proof (induction rule: state_run.induct)
  case (stay s)
  then show ?case by simp
next
  case (go s t u)
  then show ?case by (auto dest: ValidateStateTransitionD intro: order_trans)
qed

lemma state_run_terminal:
  "state_run s t \<Longrightarrow> st_Phase s = PhaseTerminal \<Longrightarrow> st_Phase t = PhaseTerminal"
  by (induction rule: state_run.induct) (auto dest: ValidateStateTransitionD)

lemma state_run_fenced:
  "state_run s t \<Longrightarrow> st_Certainty s = CertaintyFenced \<Longrightarrow> st_Certainty t = CertaintyFenced"
  by (induction rule: state_run.induct) (auto dest: ValidateStateTransitionD)

lemma state_run_valid:
  "state_run s t \<Longrightarrow> InstanceState_Validate s = None \<Longrightarrow> InstanceState_Validate t = None"
  by (induction rule: state_run.induct) (auto dest: ValidateStateTransitionD)

text \<open>
  A run from an active phase to the terminal phase: the only phases from which a step enters
  \<open>PhaseTerminal\<close> are \<open>PhaseStopping\<close> and \<open>PhaseTerminal\<close> itself.
\<close>

lemma enters_terminal:
  assumes "state_step s t" "st_Phase t = PhaseTerminal"
  shows "st_Phase s = PhaseStopping \<or> st_Phase s = PhaseTerminal"
  using assms
  by (cases "st_Phase s") (auto simp: ValidateStateTransition_def validLifecycleMove_def)

text \<open>Completed cleanup only exists in the terminal phase, with its evidence.\<close>

lemma cleanup_complete_terminal:
  "InstanceState_Validate s = None \<Longrightarrow> st_Cleanup s = CleanupComplete \<Longrightarrow>
     st_Phase s = PhaseTerminal \<and> st_CleanupEvidenceComplete s \<and> st_HasCleanupObligations s"
  by (auto simp: InstanceState_Validate_def Let_def)

section \<open>Properties\<close>

text \<open>
  Every run of legal transitions keeps the instance valid and its phase never goes back; fencing is
  final; the terminal phase is only reached through stopping; and completed cleanup is only ever claimed
  in the terminal phase with its evidence and an obligation it answers.
\<close>

theorem instance_lifecycle:
  assumes "state_run s t" "InstanceState_Validate s = None"
  shows "InstanceState_Validate t = None \<and> st_Phase s \<le> st_Phase t
    \<and> (st_Certainty s = CertaintyFenced \<longrightarrow> st_Certainty t = CertaintyFenced)
    \<and> (st_Phase t = PhaseTerminal \<and> st_Phase s \<noteq> PhaseTerminal \<longrightarrow>
         (\<exists>u. state_run s u \<and> st_Phase u = PhaseStopping))
    \<and> (st_Cleanup t = CleanupComplete \<longrightarrow>
         st_Phase t = PhaseTerminal \<and> st_CleanupEvidenceComplete t \<and> st_HasCleanupObligations t)"
proof -
  have "\<exists>u. state_run s u \<and> st_Phase u = PhaseStopping"
    if "st_Phase t = PhaseTerminal" "st_Phase s \<noteq> PhaseTerminal"
    using assms(1) that
  proof (induction rule: state_run.induct)
    case (go s t u)
    then show ?case by (metis enters_terminal)
  qed simp
  then show ?thesis
    using state_run_valid [OF assms] state_run_phase_mono [OF assms(1)] state_run_fenced [OF assms(1)]
      cleanup_complete_terminal [of t] by blast
qed

lemma instance_lifecycle_witness: "PhaseAdmitted \<le> PhasePreflighting"
proof -
  let ?s = "\<lambda>p. \<lparr>st_Phase = p, st_Certainty = CertaintyConfirmed, st_Cleanup = CleanupNotRequired,
     st_HasCleanupObligations = False, st_CleanupEvidenceComplete = False\<rparr>"
  have v: "InstanceState_Validate (?s PhaseAdmitted) = None" "InstanceState_Validate (?s PhasePreflighting) = None"
    by (simp_all add: InstanceState_Validate_def validPhase_def Let_def)
  then have "ValidateStateTransition (?s PhaseAdmitted) (?s PhasePreflighting) no_context = None"
    by (simp add: ValidateStateTransition_def validLifecycleMove_def)
  from instance_lifecycle [OF state_run.go [OF state_run.stay state_step.legal [OF this]] v(1)]
  show ?thesis by simp
qed

end
