(* ===== verification/Run.thy ===== *)
theory Run
  imports State
begin

text \<open>
  \<open>runtime/core/run.go\<close> and \<open>runtime/control/run_fact.go\<close>: run records, completion claims and the
  transitions a durable run fact may make. A claim is an observation; it never carries the outcome.
\<close>

section \<open>Records\<close>

datatype RunStatus = RunPending | RunRunning | RunStopping | RunTerminal | RunStatusOther string

text \<open>The empty string, Go's zero value, is \<open>OutcomeOther []\<close>.\<close>

datatype ExecutionOutcome =
    OutcomeCompleted | OutcomeCancelled | OutcomeFailed | OutcomeLost | OutcomeIndeterminate
  | OutcomeNeedsReconciliation | OutcomeOther string

abbreviation NoOutcome :: ExecutionOutcome where
  "NoOutcome \<equiv> OutcomeOther []"

datatype RunCompletionClaimKind =
    RunClaimCompleted | RunClaimCancelled | RunClaimFailed | RunClaimIndeterminate | RunClaimOther string

fun validExecutionOutcome :: "ExecutionOutcome \<Rightarrow> bool" where
  "validExecutionOutcome (OutcomeOther s) = False"
| "validExecutionOutcome _ = True"

fun validRunCompletionClaimKind :: "RunCompletionClaimKind \<Rightarrow> bool" where
  "validRunCompletionClaimKind (RunClaimOther s) = False"
| "validRunCompletionClaimKind _ = True"

record RunCompletionClaim =
  claim_SourceID :: string
  claim_SourceEpoch :: Epoch
  claim_SourceSequence :: u64
  claim_Kind :: RunCompletionClaimKind
  claim_PayloadDigest :: Digest
  claim_EvidenceScope :: string
  claim_EvidenceSequence :: u64
  claim_ObservedAt :: Time

definition RunCompletionClaim_Validate :: "RunCompletionClaim \<Rightarrow> go_error option" where [validate_defs]:
  "RunCompletionClaim_Validate c =
     first_err
      [fail_if (blank (claim_SourceID c) \<or> claim_SourceEpoch c = 0 \<or> claim_SourceSequence c = 0
                \<or> \<not> validRunCompletionClaimKind (claim_Kind c) \<or> blank (claim_EvidenceScope c)
                \<or> claim_EvidenceSequence c = 0 \<or> IsZero (claim_ObservedAt c))
         ErrorInvalidArgument ReasonRunClaimUnverified,
       Digest_Validate (claim_PayloadDigest c)]"

record AgentRunRecord =
  run_ID :: string
  run_Scope :: ExecutionScope
  run_Status :: RunStatus
  run_Revision :: Revision
  run_SessionRef :: string
  run_StartedAt :: Time
  run_EndedAt :: Time
  run_Outcome :: ExecutionOutcome
  run_CompletionClaim :: "RunCompletionClaim option"

definition AgentRunRecord_Validate :: "AgentRunRecord \<Rightarrow> go_error option" where [validate_defs]:
  "AgentRunRecord_Validate r =
     first_err
      [fail_if (blank (run_ID r) \<or> run_Revision r = 0) ErrorInvalidArgument ReasonInvalidReference,
       ExecutionScope_Validate (run_Scope r),
       (case run_Status r of
          RunPending \<Rightarrow>
            fail_if (\<not> IsZero (run_StartedAt r) \<or> \<not> IsZero (run_EndedAt r) \<or> run_Outcome r \<noteq> NoOutcome
                     \<or> run_CompletionClaim r \<noteq> None)
              ErrorPreconditionFailed ReasonInvalidState
        | RunRunning \<Rightarrow>
            fail_if (IsZero (run_StartedAt r) \<or> \<not> IsZero (run_EndedAt r) \<or> run_Outcome r \<noteq> NoOutcome)
              ErrorPreconditionFailed ReasonInvalidState
        | RunStopping \<Rightarrow>
            fail_if (IsZero (run_StartedAt r) \<or> \<not> IsZero (run_EndedAt r) \<or> run_Outcome r \<noteq> NoOutcome)
              ErrorPreconditionFailed ReasonInvalidState
        | RunTerminal \<Rightarrow>
            fail_if (IsZero (run_StartedAt r) \<or> IsZero (run_EndedAt r)
                     \<or> Before (run_EndedAt r) (run_StartedAt r) \<or> \<not> validExecutionOutcome (run_Outcome r))
              ErrorPreconditionFailed ReasonInvalidState
        | RunStatusOther s \<Rightarrow> Some (DomainError ErrorInvalidArgument ReasonInvalidState)),
       (case run_CompletionClaim r of
          None \<Rightarrow> None
        | Some claim \<Rightarrow>
            first_err
             [RunCompletionClaim_Validate claim,
              fail_if (claim_SourceEpoch claim \<noteq> inst_Epoch (scope_Instance (run_Scope r))
                       \<or> Before (claim_ObservedAt claim) (run_StartedAt r))
                ErrorPreconditionFailed ReasonRunClaimUnverified])]"

record TerminationReport =
  term_Scope :: ExecutionScope
  term_State :: InstanceState
  term_ExecutionOutcome :: ExecutionOutcome
  term_EffectSettlement :: string
  term_RemoteContinuationsStatus :: string
  term_ProviderRetentionStatus :: string
  term_CompletedAt :: Time

definition TerminationReport_Validate :: "TerminationReport \<Rightarrow> go_error option" where [validate_defs]:
  "TerminationReport_Validate r =
     first_err
      [ExecutionScope_Validate (term_Scope r),
       InstanceState_Validate (term_State r),
       fail_if (st_Phase (term_State r) \<noteq> PhaseTerminal \<or> \<not> validExecutionOutcome (term_ExecutionOutcome r)
                \<or> blank (term_EffectSettlement r) \<or> blank (term_RemoteContinuationsStatus r)
                \<or> blank (term_ProviderRetentionStatus r) \<or> IsZero (term_CompletedAt r))
         ErrorPreconditionFailed ReasonInvalidState]"

section \<open>Transitions of a run fact\<close>

record RunFactCASRequest =
  cas_ExpectedRevision :: Revision
  cas_Next :: AgentRunRecord

definition RunFactCASRequest_Validate :: "RunFactCASRequest \<Rightarrow> go_error option" where [validate_defs]:
  "RunFactCASRequest_Validate r =
     first_err
      [fail_if (cas_ExpectedRevision r = 0 \<or> run_Revision (cas_Next r) \<noteq> cas_ExpectedRevision r + 1)
         ErrorInvalidArgument ReasonRevisionConflict,
       AgentRunRecord_Validate (cas_Next r)]"

definition sameRunScope :: "ExecutionScope \<Rightarrow> ExecutionScope \<Rightarrow> bool" where
  "sameRunScope left right \<longleftrightarrow>
     (if scope_Identity left \<noteq> scope_Identity right \<or> scope_Lineage left \<noteq> scope_Lineage right
         \<or> scope_Instance left \<noteq> scope_Instance right
         \<or> scope_AuthorityEpoch left \<noteq> scope_AuthorityEpoch right
      then False
      else case (scope_SandboxLease left, scope_SandboxLease right) of
             (Some l, Some r) \<Rightarrow> l = r
           | (l, r) \<Rightarrow> l = None \<and> r = None)"

lemma sameRunScope_eq [simp]: "sameRunScope s t \<longleftrightarrow> s = t"
  by (cases s; cases t) (auto simp: sameRunScope_def split: option.splits)

text \<open>The status switch of the transition check; \<open>claimAttached\<close> is its flag.\<close>

definition run_status_move :: "RunStatus \<Rightarrow> RunStatus \<Rightarrow> bool \<Rightarrow> go_error option" where
  "run_status_move cur nxt claimAttached =
     (let invalid = Some (DomainError ErrorPreconditionFailed ReasonInvalidTransition) in
      case cur of
        RunPending \<Rightarrow> if nxt \<noteq> RunRunning then invalid else None
      | RunRunning \<Rightarrow>
          if nxt = RunRunning \<and> claimAttached then None
          else if nxt \<noteq> RunStopping \<and> nxt \<noteq> RunTerminal then invalid else None
      | RunStopping \<Rightarrow>
          if nxt = RunStopping \<and> claimAttached then None
          else if nxt \<noteq> RunTerminal then invalid else None
      | RunTerminal \<Rightarrow> Some (DomainError ErrorPreconditionFailed ReasonTerminalInstance)
      | RunStatusOther s \<Rightarrow> Some (DomainError ErrorInvalidArgument ReasonInvalidState))"

definition ValidateRunFactTransition :: "AgentRunRecord \<Rightarrow> AgentRunRecord \<Rightarrow> go_error option" where
  "ValidateRunFactTransition current nxt =
     (let claimAttached = (run_CompletionClaim current = None \<and> run_CompletionClaim nxt \<noteq> None) in
      first_err
       [AgentRunRecord_Validate current,
        AgentRunRecord_Validate nxt,
        fail_if (run_ID current \<noteq> run_ID nxt \<or> \<not> sameRunScope (run_Scope current) (run_Scope nxt)
                 \<or> run_SessionRef current \<noteq> run_SessionRef nxt)
          ErrorPreconditionFailed ReasonRunConflict,
        fail_if (run_Revision nxt \<noteq> run_Revision current + 1) ErrorConflict ReasonRevisionConflict,
        fail_if (run_CompletionClaim current \<noteq> None
                 \<and> (run_CompletionClaim nxt = None \<or> run_CompletionClaim current \<noteq> run_CompletionClaim nxt))
          ErrorConflict ReasonRunClaimConflict,
        run_status_move (run_Status current) (run_Status nxt) claimAttached,
        fail_if (run_Status current \<noteq> RunPending \<and> run_StartedAt current \<noteq> run_StartedAt nxt)
          ErrorPreconditionFailed ReasonRunConflict,
        fail_if (run_Status nxt = run_Status current \<and> claimAttached
                 \<and> (run_EndedAt nxt \<noteq> run_EndedAt current \<or> run_Outcome nxt \<noteq> run_Outcome current))
          ErrorPreconditionFailed ReasonRunClaimConflict])"

section \<open>What a run fact keeps\<close>

fun run_rank :: "RunStatus \<Rightarrow> nat" where
  "run_rank RunPending = 0"
| "run_rank RunRunning = 1"
| "run_rank RunStopping = 2"
| "run_rank RunTerminal = 3"
| "run_rank (RunStatusOther s) = 4"

lemma run_status_moveD:
  "run_status_move cur nxt att = None \<Longrightarrow> cur \<noteq> RunTerminal \<and> run_rank cur \<le> run_rank nxt
     \<and> (run_rank cur = run_rank nxt \<longrightarrow> att)"
  by (cases cur; cases nxt) (auto simp: run_status_move_def Let_def split: if_splits)

lemma AgentRunRecord_status: "AgentRunRecord_Validate r = None \<Longrightarrow> run_rank (run_Status r) \<le> 3"
  by (cases "run_Status r") (simp_all add: AgentRunRecord_Validate_def)

lemma ValidateRunFactTransitionD:
  assumes "ValidateRunFactTransition c n = None"
  shows "AgentRunRecord_Validate c = None" "AgentRunRecord_Validate n = None"
    "run_ID n = run_ID c" "run_Scope n = run_Scope c" "run_SessionRef n = run_SessionRef c"
    "run_Revision n = run_Revision c + 1" "run_Status c \<noteq> RunTerminal"
    "run_CompletionClaim c \<noteq> None \<Longrightarrow> run_CompletionClaim n = run_CompletionClaim c"
    "run_Status c \<noteq> RunPending \<Longrightarrow> run_StartedAt n = run_StartedAt c"
    "run_rank (run_Status c) \<le> run_rank (run_Status n)"
    "run_Status n = run_Status c \<Longrightarrow> run_CompletionClaim c = None \<and> run_CompletionClaim n \<noteq> None"
  using assms by (auto simp: ValidateRunFactTransition_def Let_def dest: run_status_moveD)

text \<open>The versions a run fact goes through: each the successor of the one before.\<close>

inductive run_versions :: "AgentRunRecord \<Rightarrow> nat \<Rightarrow> AgentRunRecord \<Rightarrow> bool" where
  here: "run_versions r 0 r"
| next_version: "run_versions r n s \<Longrightarrow> ValidateRunFactTransition s t = None \<Longrightarrow> run_versions r (Suc n) t"

definition run_kept :: "AgentRunRecord \<Rightarrow> AgentRunRecord \<Rightarrow> bool" where
  "run_kept r s \<longleftrightarrow>
     run_ID s = run_ID r \<and> run_Scope s = run_Scope r \<and> run_SessionRef s = run_SessionRef r
     \<and> (run_CompletionClaim r \<noteq> None \<longrightarrow> run_CompletionClaim s = run_CompletionClaim r)
     \<and> (run_Status r \<noteq> RunPending \<longrightarrow> run_StartedAt s = run_StartedAt r \<and> run_Status s \<noteq> RunPending)
     \<and> run_rank (run_Status r) \<le> run_rank (run_Status s)
     \<and> (run_Status r = RunTerminal \<longrightarrow> s = r)"

lemma run_kept_refl [simp]: "run_kept r r"
  by (simp add: run_kept_def)

lemma run_rank_pending [simp]: "run_rank s = 0 \<longleftrightarrow> s = RunPending" "run_rank s \<le> 0 \<longleftrightarrow> s = RunPending"
  by (cases s; simp)+

lemma run_kept_step: "run_kept r s \<Longrightarrow> ValidateRunFactTransition s t = None \<Longrightarrow> run_kept r t"
proof -
  assume k: "run_kept r s" and v: "ValidateRunFactTransition s t = None"
  note d = ValidateRunFactTransitionD [OF v]
  have "run_Status t \<noteq> RunPending" if "run_Status s \<noteq> RunPending"
    using d(10) that by (cases "run_Status s") auto
  with k d show ?thesis
    by (auto simp: run_kept_def)
qed

lemma run_versions_kept: "run_versions r n s \<Longrightarrow> run_kept r s"
  by (induction rule: run_versions.induct) (auto intro: run_kept_step)

lemma run_kept_trans: "run_kept r s \<Longrightarrow> run_kept s t \<Longrightarrow> run_kept r t"
  by (auto simp: run_kept_def)

text \<open>
  The versions of one run are few: the status rises at most three times and a claim is attached at
  most once without a rise.
\<close>

definition run_potential :: "AgentRunRecord \<Rightarrow> nat" where
  "run_potential r = (3 - run_rank (run_Status r)) + (if run_CompletionClaim r = None then 1 else 0)"

lemma run_potential_decreases:
  assumes "ValidateRunFactTransition s t = None" shows "run_potential t < run_potential s"
proof -
  note d = ValidateRunFactTransitionD [OF assms]
  have r: "run_rank (run_Status s) \<le> run_rank (run_Status t)" "run_rank (run_Status s) \<le> 3"
    "run_rank (run_Status t) \<le> 3"
    using d(1,2,10) AgentRunRecord_status by auto
  show ?thesis
  proof (cases "run_Status t = run_Status s")
    case True
    then show ?thesis using d(11) r by (auto simp: run_potential_def)
  next
    case False
    have "run_rank (run_Status s) \<noteq> run_rank (run_Status t)"
      using False d(1,2) by (cases "run_Status s"; cases "run_Status t") (auto simp: AgentRunRecord_Validate_def)
    with r d(8) show ?thesis by (auto simp: run_potential_def)
  qed
qed

lemma run_versions_potential: "run_versions r n s \<Longrightarrow> run_potential s + n \<le> run_potential r"
  by (induction rule: run_versions.induct) (auto dest: run_potential_decreases)

section \<open>Samples\<close>

definition sample_run :: "RunStatus \<Rightarrow> Revision \<Rightarrow> RunCompletionClaim option \<Rightarrow> AgentRunRecord" where
  "sample_run status n claim =
     \<lparr>run_ID = ''r'', run_Scope = sample_scope (Some sample_lease), run_Status = status, run_Revision = n,
      run_SessionRef = ''x'', run_StartedAt = 10, run_EndedAt = 0, run_Outcome = NoOutcome,
      run_CompletionClaim = claim\<rparr>"

definition sample_claim :: RunCompletionClaim where
  "sample_claim = \<lparr>claim_SourceID = ''c'', claim_SourceEpoch = 1, claim_SourceSequence = 1,
     claim_Kind = RunClaimCompleted, claim_PayloadDigest = sample_digest, claim_EvidenceScope = ''e'',
     claim_EvidenceSequence = 1, claim_ObservedAt = 20\<rparr>"

lemma sample_claim_valid [simp]: "RunCompletionClaim_Validate sample_claim = None"
  by (simp add: sample_claim_def RunCompletionClaim_Validate_def graphic_ascii time_defs)

lemma sample_run_valid [simp]:
  "n \<noteq> 0 \<Longrightarrow> status = RunRunning \<or> status = RunStopping \<Longrightarrow> claim = None \<or> claim = Some sample_claim \<Longrightarrow>
     AgentRunRecord_Validate (sample_run status n claim) = None"
  by (auto simp: sample_run_def AgentRunRecord_Validate_def graphic_ascii time_defs)
     (simp_all add: sample_claim_def sample_scope_def)

lemma sample_run_claim: "ValidateRunFactTransition (sample_run RunRunning 1 None) (sample_run RunRunning 2 (Some sample_claim)) = None"
  by (simp add: ValidateRunFactTransition_def) (simp add: sample_run_def run_status_move_def Let_def)

lemma sample_run_stop:
  "ValidateRunFactTransition (sample_run RunRunning 2 (Some sample_claim)) (sample_run RunStopping 3 (Some sample_claim)) = None"
  by (simp add: ValidateRunFactTransition_def) (simp add: sample_run_def run_status_move_def Let_def)

section \<open>Properties\<close>

text \<open>
  Through all versions of a run fact its identity, scope, session, start time and completion
  claim are fixed once set, its status never goes back, and a terminal version is the last one.
\<close>

theorem run_versions_immutable:
  assumes "run_versions a n r" "run_versions r m s"
  shows "run_ID s = run_ID r \<and> run_Scope s = run_Scope r \<and> run_SessionRef s = run_SessionRef r
    \<and> (run_CompletionClaim r \<noteq> None \<longrightarrow> run_CompletionClaim s = run_CompletionClaim r)
    \<and> (run_Status r \<noteq> RunPending \<longrightarrow> run_StartedAt s = run_StartedAt r)
    \<and> run_rank (run_Status r) \<le> run_rank (run_Status s)
    \<and> (run_Status r = RunTerminal \<longrightarrow> s = r)"
  using run_versions_kept [OF assms(2)] by (auto simp: run_kept_def)

lemma run_versions_immutable_witness:
  "run_CompletionClaim (sample_run RunStopping 3 (Some sample_claim))
     = run_CompletionClaim (sample_run RunRunning 2 (Some sample_claim))"
  using run_versions_immutable [OF run_versions.next_version [OF run_versions.here sample_run_claim]
      run_versions.next_version [OF run_versions.here sample_run_stop]]
  by (simp add: sample_run_def)

text \<open>
  A run fact has at most four further versions, whatever sequence of legal transitions is
  made: every run that keeps being updated ends.
\<close>

theorem run_versions_bounded: "run_versions r n s \<Longrightarrow> n \<le> 4"
  using run_versions_potential [of r n s] by (auto simp: run_potential_def split: if_splits)

lemma run_versions_bounded_witness: "(2 :: nat) \<le> 4"
  by (rule run_versions_bounded [OF run_versions.next_version [OF run_versions.next_version [OF run_versions.here
      sample_run_claim] sample_run_stop], unfolded numeral_2_eq_2 [symmetric]])

end
