(* ===== verification/RunJournal.thy ===== *)
theory RunJournal
  imports Run
begin

text \<open>
  \<open>runtime/kernel/run_journal.go\<close> over the port \<open>control.RunFactPort\<close>. The journal keeps no state:
  each method reads the current record and submits a compare-and-swap. The calls it makes are
  arguments of the definitions, and so is what other callers do to the store between two of its
  calls (\<open>env\<close>); the identity is an undisturbed call. The contract of the port is the locale
  \<open>run_fact_port\<close>; the lemmas about the journal are proved from it.
\<close>

section \<open>The methods\<close>

definition RunJournal_Start ::
  "('s \<Rightarrow> go_context \<Rightarrow> AgentRunRecord \<Rightarrow> 's \<times> AgentRunRecord res)
     \<Rightarrow> 's \<Rightarrow> go_context \<Rightarrow> ExecutionScope \<Rightarrow> string \<Rightarrow> string \<Rightarrow> Time \<Rightarrow> 's \<times> AgentRunRecord res" where
  "RunJournal_Start createRun s ctx scope runID sessionRef now =
     createRun s ctx
       \<lparr>run_ID = runID, run_Scope = scope, run_Status = RunRunning, run_Revision = 1,
        run_SessionRef = sessionRef, run_StartedAt = now, run_EndedAt = 0, run_Outcome = NoOutcome,
        run_CompletionClaim = None\<rparr>"

definition RunJournal_BeginStop ::
  "('s \<Rightarrow> go_context \<Rightarrow> ExecutionScope \<Rightarrow> string \<Rightarrow> AgentRunRecord res)
     \<Rightarrow> ('s \<Rightarrow> go_context \<Rightarrow> RunFactCASRequest \<Rightarrow> 's \<times> AgentRunRecord res) \<Rightarrow> ('s \<Rightarrow> 's)
     \<Rightarrow> 's \<Rightarrow> go_context \<Rightarrow> ExecutionScope \<Rightarrow> string \<Rightarrow> 's \<times> AgentRunRecord res" where
  "RunJournal_BeginStop inspectRun casRun env s ctx scope runID =
     (case inspectRun s ctx scope runID of
        Inl e \<Rightarrow> (s, Inl e)
      | Inr current \<Rightarrow>
          if run_Status current = RunStopping then (s, Inr current)
          else if run_Status current \<noteq> RunRunning
          then (s, Inl (DomainError ErrorPreconditionFailed ReasonRunConflict))
          else casRun (env s) ctx
            \<lparr>cas_ExpectedRevision = run_Revision current,
             cas_Next = current\<lparr>run_Status := RunStopping, run_Revision := run_Revision current + 1\<rparr>\<rparr>)"

definition RunJournal_RecordCompletionClaim ::
  "('s \<Rightarrow> go_context \<Rightarrow> ExecutionScope \<Rightarrow> string \<Rightarrow> AgentRunRecord res)
     \<Rightarrow> ('s \<Rightarrow> go_context \<Rightarrow> RunFactCASRequest \<Rightarrow> 's \<times> AgentRunRecord res) \<Rightarrow> ('s \<Rightarrow> 's) \<Rightarrow> ('s \<Rightarrow> 's)
     \<Rightarrow> 's \<Rightarrow> go_context \<Rightarrow> ExecutionScope \<Rightarrow> string \<Rightarrow> RunCompletionClaim \<Rightarrow> 's \<times> AgentRunRecord res" where
  "RunJournal_RecordCompletionClaim inspectRun casRun env env' s ctx scope runID claim =
     guarded (RunCompletionClaim_Validate claim) s
      (case inspectRun s ctx scope runID of
         Inl e \<Rightarrow> (s, Inl e)
       | Inr current \<Rightarrow>
          (case run_CompletionClaim current of
             Some persistedClaim \<Rightarrow>
               if persistedClaim = claim then (s, Inr current)
               else (s, Inl (DomainError ErrorConflict ReasonRunClaimConflict))
           | None \<Rightarrow>
               if run_Status current = RunPending \<or> run_Status current = RunTerminal
               then (s, Inl (DomainError ErrorPreconditionFailed ReasonRunClaimConflict))
               else
                 (case casRun (env s) ctx
                     \<lparr>cas_ExpectedRevision = run_Revision current,
                      cas_Next = current\<lparr>run_Revision := run_Revision current + 1,
                                         run_CompletionClaim := Some claim\<rparr>\<rparr> of
                    (t, Inr persisted) \<Rightarrow> (t, Inr persisted)
                  | (t, Inl err) \<Rightarrow>
                      if \<not> HasReason (Some err) ReasonRevisionConflict then (t, Inl err)
                      else
                        (case inspectRun (env' t) ctx scope runID of
                           Inl inspectErr \<Rightarrow> (env' t, Inl err)
                         | Inr latest \<Rightarrow>
                             if run_CompletionClaim latest = Some claim then (env' t, Inr latest)
                             else (env' t, Inl err)))))"

definition RunJournal_Finish ::
  "('s \<Rightarrow> go_context \<Rightarrow> ExecutionScope \<Rightarrow> string \<Rightarrow> AgentRunRecord res)
     \<Rightarrow> ('s \<Rightarrow> go_context \<Rightarrow> RunFactCASRequest \<Rightarrow> 's \<times> AgentRunRecord res) \<Rightarrow> ('s \<Rightarrow> 's)
     \<Rightarrow> 's \<Rightarrow> go_context \<Rightarrow> ExecutionScope \<Rightarrow> string \<Rightarrow> ExecutionOutcome \<Rightarrow> Time \<Rightarrow> 's \<times> AgentRunRecord res" where
  "RunJournal_Finish inspectRun casRun env s ctx scope runID outcome now =
     (case inspectRun s ctx scope runID of
        Inl e \<Rightarrow> (s, Inl e)
      | Inr current \<Rightarrow>
          if run_Status current = RunTerminal then
            if run_Outcome current = outcome then (s, Inr current)
            else (s, Inl (DomainError ErrorConflict ReasonRunConflict))
          else if run_Status current \<noteq> RunRunning \<and> run_Status current \<noteq> RunStopping
          then (s, Inl (DomainError ErrorPreconditionFailed ReasonRunConflict))
          else casRun (env s) ctx
            \<lparr>cas_ExpectedRevision = run_Revision current,
             cas_Next = current\<lparr>run_Status := RunTerminal, run_Revision := run_Revision current + 1,
                                run_EndedAt := now, run_Outcome := outcome\<rparr>\<rparr>)"

section \<open>The contract of the port\<close>

text \<open>
  \<open>run_of s scope id\<close> is the record the store holds, \<open>ok\<close> the store's own invariant. A swap either
  takes effect on the record it names, as a legal transition from the expected revision, or changes
  no record; when it takes effect the caller may still see an error (a lost reply).
\<close>

definition cas_effect ::
  "('s \<Rightarrow> ExecutionScope \<Rightarrow> string \<Rightarrow> AgentRunRecord option) \<Rightarrow> 's \<Rightarrow> AgentRunRecord \<Rightarrow> 's \<Rightarrow> bool" where
  "cas_effect run_of s n s' \<longleftrightarrow>
     (\<exists>cur. run_of s (run_Scope n) (run_ID n) = Some cur \<and> ValidateRunFactTransition cur n = None)
     \<and> (\<forall>scope id. run_of s' scope id =
           (if scope = run_Scope n \<and> id = run_ID n then Some n else run_of s scope id))"

definition moves ::
  "('s \<Rightarrow> bool) \<Rightarrow> ('s \<Rightarrow> ExecutionScope \<Rightarrow> string \<Rightarrow> AgentRunRecord option) \<Rightarrow> 's \<Rightarrow> 's \<Rightarrow> bool" where
  "moves ok run_of s s' \<longleftrightarrow> ok s' \<and>
     (\<forall>scope id r. run_of s scope id = Some r \<longrightarrow> (\<exists>r'. run_of s' scope id = Some r' \<and> run_kept r r'))"

locale run_fact_port =
  fixes inspectRun :: "'s \<Rightarrow> go_context \<Rightarrow> ExecutionScope \<Rightarrow> string \<Rightarrow> AgentRunRecord res"
    and createRun :: "'s \<Rightarrow> go_context \<Rightarrow> AgentRunRecord \<Rightarrow> 's \<times> AgentRunRecord res"
    and casRun :: "'s \<Rightarrow> go_context \<Rightarrow> RunFactCASRequest \<Rightarrow> 's \<times> AgentRunRecord res"
    and ok :: "'s \<Rightarrow> bool"
    and run_of :: "'s \<Rightarrow> ExecutionScope \<Rightarrow> string \<Rightarrow> AgentRunRecord option"
  assumes run_of_wf: "ok s \<Longrightarrow> run_of s scope i = Some r \<Longrightarrow>
      run_Scope r = scope \<and> run_ID r = i \<and> AgentRunRecord_Validate r = None"
    and inspect_law: "ok s \<Longrightarrow> inspectRun s ctx scope i = Inr r \<Longrightarrow> run_of s scope i = Some r"
    and inspect_live: "ok s \<Longrightarrow> ExecutionScope_Validate scope = None \<Longrightarrow> run_of s scope i = Some r \<Longrightarrow>
      inspectRun s LiveContext scope i = Inr r"
    and create_law: "ok s \<Longrightarrow> createRun s ctx r = (s', x) \<Longrightarrow> ok s' \<and>
      (x \<noteq> Inr r \<longrightarrow> (\<exists>e. x = Inl e)) \<and>
      (run_of s' = run_of s \<and> (\<exists>e. x = Inl e)
       \<or> run_of s (run_Scope r) (run_ID r) = None
         \<and> (\<forall>scope i. run_of s' scope i =
              (if scope = run_Scope r \<and> i = run_ID r then Some r else run_of s scope i)))"
    and cas_law: "ok s \<Longrightarrow> casRun s ctx req = (s', x) \<Longrightarrow> ok s' \<and>
      (x \<noteq> Inr (cas_Next req) \<longrightarrow> (\<exists>e. x = Inl e)) \<and>
      (run_of s' = run_of s \<and> (\<exists>e. x = Inl e) \<or> cas_effect run_of s (cas_Next req) s')"
begin

lemma moves_refl: "ok s \<Longrightarrow> moves ok run_of s s"
  by (simp add: moves_def)

lemma moves_trans: "moves ok run_of s t \<Longrightarrow> moves ok run_of t u \<Longrightarrow> moves ok run_of s u"
  unfolding moves_def by (blast intro: run_kept_trans)

lemma moves_ok: "moves ok run_of s t \<Longrightarrow> ok t"
  by (simp add: moves_def)

lemma moves_kept:
  "moves ok run_of s t \<Longrightarrow> run_of s scope i = Some r \<Longrightarrow> run_of t scope i = Some r' \<Longrightarrow> run_kept r r'"
  unfolding moves_def by fastforce

lemma effect_moves: "ok s' \<Longrightarrow> cas_effect run_of s n s' \<Longrightarrow> moves ok run_of s s'"
  by (auto simp: moves_def cas_effect_def intro: run_kept_step [OF run_kept_refl])

lemma cas_moves: "ok s \<Longrightarrow> casRun s ctx req = (s', x) \<Longrightarrow> moves ok run_of s s'"
  using cas_law [of s ctx req s' x] by (auto simp: moves_def intro: effect_moves [unfolded moves_def, THEN conjunct2, rule_format])

lemma create_moves:
  assumes "ok s" "createRun s ctx r = (s', x)" shows "moves ok run_of s s'"
proof -
  have "\<exists>r'. run_of s' scope i = Some r' \<and> run_kept q r'" if "run_of s scope i = Some q" for scope i q
    using create_law [OF assms] that run_kept_refl [of q] by (cases "scope = run_Scope r \<and> i = run_ID r") auto
  then show ?thesis
    using create_law [OF assms] by (simp add: moves_def)
qed

lemma cas_Inr:
  assumes "ok s" "casRun s ctx req = (s', Inr r)"
  shows "r = cas_Next req" "cas_effect run_of s r s'"
  using cas_law [OF assms] by auto

text \<open>A successful call has left its claim in the store, whatever happened in between.\<close>

lemma claim_recorded:
  assumes s: "ok s" and env: "\<And>t. ok t \<Longrightarrow> moves ok run_of t (env t)"
    and env': "\<And>t. ok t \<Longrightarrow> moves ok run_of t (env' t)"
    and call: "RunJournal_RecordCompletionClaim inspectRun casRun env env' s ctx scope runID claim = (s', x)"
  shows "moves ok run_of s s' \<and>
    (\<forall>r. x = Inr r \<longrightarrow> run_CompletionClaim r = Some claim \<and> run_of s' scope runID = Some r)"
proof (cases "RunCompletionClaim_Validate claim = None \<and> (\<exists>c. inspectRun s ctx scope runID = Inr c
    \<and> run_CompletionClaim c = None \<and> run_Status c \<noteq> RunPending \<and> run_Status c \<noteq> RunTerminal)")
  case False
  then show ?thesis
    using call s inspect_law [OF s] moves_refl [OF s]
    by (auto simp: RunJournal_RecordCompletionClaim_def elim!: guarded_cases split: sum.splits option.splits if_splits)
next
  case True
  then obtain c where c: "RunCompletionClaim_Validate claim = None" "inspectRun s ctx scope runID = Inr c"
    "run_CompletionClaim c = None" "run_Status c \<noteq> RunPending" "run_Status c \<noteq> RunTerminal" by blast
  from run_of_wf [OF s inspect_law [OF s c(2)]] have id: "run_Scope c = scope" "run_ID c = runID" by auto
  define req where "req = \<lparr>cas_ExpectedRevision = run_Revision c,
     cas_Next = c\<lparr>run_Revision := run_Revision c + 1, run_CompletionClaim := Some claim\<rparr>\<rparr>"
  obtain t y where t: "casRun (env s) ctx req = (t, y)" by (cases "casRun (env s) ctx req")
  have e: "moves ok run_of s (env s)" "ok (env s)" using env [OF s] moves_ok by blast+
  have st: "moves ok run_of s t" using moves_trans [OF e(1) cas_moves [OF e(2) t]] .
  have tt: "moves ok run_of s (env' t)" "ok (env' t)"
    using moves_trans [OF st env' [OF moves_ok [OF st]]] moves_ok by blast+
  note call' = call [unfolded RunJournal_RecordCompletionClaim_def] t [unfolded req_def]
  show ?thesis
  proof (cases y)
    case (Inr r)
    from cas_Inr [OF e(2) t [unfolded Inr]] show ?thesis
      using call' c Inr st id t by (clarsimp simp: cas_effect_def req_def)
  next
    case (Inl err)
    then show ?thesis
      using call' c st tt inspect_law [OF tt(2)]
      by (auto split: if_splits sum.splits)
  qed
qed

text \<open>The same for finishing: a successful call has left its outcome in the store.\<close>

lemma finish_recorded:
  assumes s: "ok s" and env: "\<And>t. ok t \<Longrightarrow> moves ok run_of t (env t)"
    and call: "RunJournal_Finish inspectRun casRun env s ctx scope runID outcome now = (s', x)"
  shows "moves ok run_of s s' \<and>
    (\<forall>r. x = Inr r \<longrightarrow> run_Status r = RunTerminal \<and> run_Outcome r = outcome \<and> run_of s' scope runID = Some r)"
proof (cases "\<exists>c. inspectRun s ctx scope runID = Inr c \<and> run_Status c \<in> {RunRunning, RunStopping}")
  case False
  then show ?thesis
    using call s inspect_law [OF s] moves_refl [OF s]
    by (auto simp: RunJournal_Finish_def split: sum.splits if_splits)
next
  case True
  then obtain c where c: "inspectRun s ctx scope runID = Inr c" "run_Status c \<in> {RunRunning, RunStopping}" by blast
  from run_of_wf [OF s inspect_law [OF s c(1)]] have id: "run_Scope c = scope" "run_ID c = runID" by auto
  have e: "moves ok run_of s (env s)" "ok (env s)" using env [OF s] moves_ok by blast+
  define req where "req = \<lparr>cas_ExpectedRevision = run_Revision c, cas_Next = c\<lparr>run_Status := RunTerminal,
     run_Revision := run_Revision c + 1, run_EndedAt := now, run_Outcome := outcome\<rparr>\<rparr>"
  have t: "casRun (env s) ctx req = (s', x)"
    using call c by (auto simp: RunJournal_Finish_def req_def)
  show ?thesis
    using moves_trans [OF e(1) cas_moves [OF e(2) t]] cas_Inr [OF e(2), of ctx req s'] t id
    by (cases x) (auto simp: cas_effect_def req_def)
qed

text \<open>Two callers never both succeed with different claims or different outcomes.\<close>

lemma claims_agree:
  assumes "ok s" "run_of s scope runID = Some r" "run_CompletionClaim r = Some claim"
    "moves ok run_of s t" "run_of t scope runID = Some r'"
  shows "run_CompletionClaim r' = Some claim"
  using moves_kept [OF assms(4,2,5)] assms(3) by (simp add: run_kept_def)

lemma outcomes_agree:
  assumes "ok s" "run_of s scope runID = Some r" "run_Status r = RunTerminal"
    "moves ok run_of s t" "run_of t scope runID = Some r'"
  shows "r' = r"
  using moves_kept [OF assms(4,2,5)] assms(3) by (simp add: run_kept_def)

text \<open>An undisturbed retry with the recorded claim or outcome returns the record and changes nothing.\<close>

lemma claim_retry:
  assumes "ok s" "run_of s scope runID = Some r" "run_CompletionClaim r = Some claim"
  shows "RunJournal_RecordCompletionClaim inspectRun casRun env env' s LiveContext scope runID claim = (s, Inr r)"
proof -
  have "AgentRunRecord_Validate r = None" "run_Scope r = scope" using run_of_wf [OF assms(1,2)] by auto
  then have "RunCompletionClaim_Validate claim = None" "ExecutionScope_Validate scope = None"
    using assms(3) by (auto simp: AgentRunRecord_Validate_def)
  then show ?thesis
    using assms inspect_live [of s scope runID r] by (simp add: RunJournal_RecordCompletionClaim_def)
qed

lemma finish_retry:
  assumes "ok s" "run_of s scope runID = Some r" "run_Status r = RunTerminal"
  shows "RunJournal_Finish inspectRun casRun env s LiveContext scope runID (run_Outcome r) now = (s, Inr r)"
proof -
  have "AgentRunRecord_Validate r = None" "run_Scope r = scope" using run_of_wf [OF assms(1,2)] by auto
  then have "ExecutionScope_Validate scope = None"
    by (auto simp: AgentRunRecord_Validate_def)
  then show ?thesis
    using assms inspect_live [of s scope runID r] by (simp add: RunJournal_Finish_def)
qed

end

end
