(* ===== verification/Command.thy ===== *)
theory Command
  imports State
begin

text \<open>
  \<open>runtime/ports/command_v2.go\<close> (aliased by \<open>control/command.go\<close> and \<open>control/facts.go\<close>): command
  envelopes, the desired state they may ask for, and which command dominates which.
\<close>

section \<open>Kinds and envelopes\<close>

datatype CommandKind =
    CommandStart | CommandResume | CommandStopInstance | CommandFence | CommandRevoke
  | CommandProvideInput | CommandCancelRun | CommandApproveEffect | CommandDenyEffect
  | CommandKindOther string

text \<open>The string the constant stands for, as it appears in a composed key.\<close>

fun CommandKind_string :: "CommandKind \<Rightarrow> string" where
  "CommandKind_string CommandStart = ''start''"
| "CommandKind_string CommandResume = ''resume''"
| "CommandKind_string CommandStopInstance = ''stop_instance''"
| "CommandKind_string CommandFence = ''fence''"
| "CommandKind_string CommandRevoke = ''revoke''"
| "CommandKind_string CommandProvideInput = ''provide_input''"
| "CommandKind_string CommandCancelRun = ''cancel_run''"
| "CommandKind_string CommandApproveEffect = ''approve_effect''"
| "CommandKind_string CommandDenyEffect = ''deny_effect''"
| "CommandKind_string (CommandKindOther s) = s"

datatype CommandStatus =
    CommandAccepted | CommandRejected | CommandExecuting | CommandCompleted | CommandSuperseded
  | CommandInvalidated | CommandIndeterminate | CommandStatusOther string

fun validApplicationCommandKind :: "CommandKind \<Rightarrow> bool" where
  "validApplicationCommandKind (CommandKindOther s) = False"
| "validApplicationCommandKind _ = True"

record CommandEnvelope =
  env_ID :: string
  env_Kind :: CommandKind
  env_Target :: ExecutionScope
  env_Actor :: string
  env_AuthorityRef :: string
  env_Reason :: string
  env_CanonicalPayloadDigest :: Digest
  env_Preconditions :: ExecutionPreconditions
  env_IdempotencyKey :: string
  env_EffectIntentID :: string
  env_EffectIntentRevision :: Revision
  env_SubmittedAt :: Time
  env_ExpiresAt :: Time

definition CommandEnvelope_Validate :: "CommandEnvelope \<Rightarrow> go_error option" where [validate_defs]:
  "CommandEnvelope_Validate c =
     first_err
      [fail_if (blank (env_ID c) \<or> \<not> validApplicationCommandKind (env_Kind c) \<or> blank (env_Actor c)
                \<or> blank (env_AuthorityRef c) \<or> blank (env_IdempotencyKey c))
         ErrorInvalidArgument ReasonInvalidReference,
       ExecutionScope_Validate (env_Target c),
       Digest_Validate (env_CanonicalPayloadDigest c),
       ExecutionPreconditions_Validate (env_Preconditions c),
       fail_if (IsZero (env_SubmittedAt c) \<or> \<not> After (env_ExpiresAt c) (env_SubmittedAt c))
         ErrorInvalidArgument ReasonInvalidReference,
       (if env_Kind c = CommandApproveEffect \<or> env_Kind c = CommandDenyEffect
        then fail_if (blank (env_EffectIntentID c) \<or> env_EffectIntentRevision c = 0)
               ErrorInvalidArgument ReasonEffectIntentMissing
        else None)]"

record CommandRecord =
  crec_Envelope :: CommandEnvelope
  crec_Revision :: Revision
  crec_Status :: CommandStatus
  crec_RecordedAt :: Time

section \<open>Desired state\<close>

datatype DesiredExecutionState = DesiredStopped | DesiredRunning | DesiredFenced | DesiredOther string

record DesiredStateSnapshot =
  ds_Scope :: ExecutionScope
  ds_Desired :: DesiredExecutionState
  ds_Revision :: Revision
  ds_LastCommandID :: string

definition ValidDesiredExecutionState :: "DesiredExecutionState \<Rightarrow> bool" where
  "ValidDesiredExecutionState v \<longleftrightarrow> v = DesiredStopped \<or> v = DesiredRunning \<or> v = DesiredFenced"

record DesiredStateMutation =
  mut_Desired :: DesiredExecutionState

definition DesiredStateMutation_ValidateFor :: "DesiredStateMutation \<Rightarrow> CommandKind \<Rightarrow> go_error option" where
  "DesiredStateMutation_ValidateFor m kind =
     (let accepted =
        (case kind of
           CommandStart \<Rightarrow> mut_Desired m = DesiredRunning
         | CommandResume \<Rightarrow> mut_Desired m = DesiredRunning
         | CommandStopInstance \<Rightarrow> mut_Desired m = DesiredStopped
         | CommandFence \<Rightarrow> mut_Desired m = DesiredFenced
         | CommandRevoke \<Rightarrow> mut_Desired m = DesiredFenced
         | CommandProvideInput \<Rightarrow> ValidDesiredExecutionState (mut_Desired m)
         | CommandCancelRun \<Rightarrow> ValidDesiredExecutionState (mut_Desired m)
         | CommandApproveEffect \<Rightarrow> ValidDesiredExecutionState (mut_Desired m)
         | CommandDenyEffect \<Rightarrow> ValidDesiredExecutionState (mut_Desired m)
         | CommandKindOther s \<Rightarrow> False)
      in fail_if (\<not> accepted) ErrorInvalidArgument ReasonInvalidState)"

record CommandIntent =
  cint_Envelope :: CommandEnvelope
  cint_Mutation :: DesiredStateMutation

record OutboxRecord =
  ob_CommandID :: string
  ob_Revision :: Revision
  ob_PayloadDigest :: Digest
  ob_RecordedAt :: Time
  ob_Dispatched :: bool

record CommandAcceptance =
  acc_Record :: CommandRecord
  acc_DesiredState :: DesiredStateSnapshot
  acc_Outbox :: OutboxRecord

section \<open>Domination\<close>

definition CommandSupersedes :: "CommandEnvelope \<Rightarrow> CommandEnvelope \<Rightarrow> bool" where
  "CommandSupersedes newer older \<longleftrightarrow>
     (if scope_Identity (env_Target newer) \<noteq> scope_Identity (env_Target older)
         \<or> scope_Lineage (env_Target newer) \<noteq> scope_Lineage (env_Target older)
         \<or> scope_Instance (env_Target newer) \<noteq> scope_Instance (env_Target older)
      then False
      else
        let k = env_Kind older in
        case env_Kind newer of
          CommandRevoke \<Rightarrow> k = CommandApproveEffect \<or> k = CommandStart \<or> k = CommandResume \<or> k = CommandProvideInput
        | CommandFence \<Rightarrow> k = CommandApproveEffect \<or> k = CommandStart \<or> k = CommandResume \<or> k = CommandProvideInput
        | CommandStopInstance \<Rightarrow> k = CommandStart \<or> k = CommandResume \<or> k = CommandProvideInput
        | CommandCancelRun \<Rightarrow> k = CommandProvideInput
        | CommandDenyEffect \<Rightarrow>
            k = CommandApproveEffect \<and> env_EffectIntentID newer = env_EffectIntentID older
            \<and> env_EffectIntentRevision newer = env_EffectIntentRevision older
        | _ \<Rightarrow> False)"

text \<open>
  Domination has height one: a dominated command dominates nothing, so it is a strict order and the
  dominating commands (fence, revoke, stop, cancel, deny) are never dominated themselves.
\<close>

lemma CommandSupersedes_kinds:
  "CommandSupersedes a b \<Longrightarrow> env_Kind a \<in> {CommandRevoke, CommandFence, CommandStopInstance, CommandCancelRun, CommandDenyEffect}
     \<and> env_Kind b \<in> {CommandApproveEffect, CommandStart, CommandResume, CommandProvideInput}"
  by (cases "env_Kind a") (auto simp: CommandSupersedes_def Let_def split: if_splits)

lemma CommandSupersedes_height: "CommandSupersedes a b \<Longrightarrow> \<not> CommandSupersedes b c"
  by (auto dest!: CommandSupersedes_kinds)

text \<open>Commands that change the desired state are exactly those its mutation check binds to one value.\<close>

definition isNonLifecycleCommand :: "CommandKind \<Rightarrow> bool" where
  "isNonLifecycleCommand kind \<longleftrightarrow>
     kind = CommandProvideInput \<or> kind = CommandCancelRun \<or> kind = CommandApproveEffect \<or> kind = CommandDenyEffect"

lemma mutation_desired:
  assumes "DesiredStateMutation_ValidateFor m kind = None"
  shows "ValidDesiredExecutionState (mut_Desired m)"
    "\<not> isNonLifecycleCommand kind \<Longrightarrow> kind \<in> {CommandFence, CommandRevoke} \<longleftrightarrow> mut_Desired m = DesiredFenced"
  using assms
  by (cases kind; simp add: DesiredStateMutation_ValidateFor_def ValidDesiredExecutionState_def isNonLifecycleCommand_def)+

end
