(* ===== verification/Lease.thy ===== *)
theory Lease
  imports State
begin

text \<open>
  \<open>runtime/control/identity_lease.go\<close>: the lease that makes one activation the single holder of an
  agent identity, and the requests that reserve, renew and end it.
\<close>

datatype IdentityLeaseState =
    IdentityLeaseReserved | IdentityLeaseActive | IdentityLeaseRevoked | IdentityLeaseExpired
  | IdentityLeaseReleased | IdentityLeaseOther string

text \<open>Go's zero value, the empty string.\<close>

abbreviation NoLeaseState :: IdentityLeaseState where
  "NoLeaseState \<equiv> IdentityLeaseOther []"

record IdentityExecutionLease =
  il_ID :: string
  il_Identity :: AgentIdentityRef
  il_Lineage :: LineageRef
  il_ActivationAttemptID :: string
  il_State :: IdentityLeaseState
  il_AuthorityEpoch :: Epoch
  il_ExpiresAt :: Time
  il_Revision :: Revision

record ReserveIdentityLeaseRequest =
  rs_TenantID :: string
  rs_IdentityID :: string
  rs_ExpectedIdentityEpoch :: Epoch
  rs_Lineage :: LineageRef
  rs_ActivationAttemptID :: string
  rs_AuthorityEpoch :: Epoch
  rs_ExpiresAt :: Time

definition ReserveIdentityLeaseRequest_Validate ::
  "ReserveIdentityLeaseRequest \<Rightarrow> Time \<Rightarrow> go_error option" where [validate_defs]:
  "ReserveIdentityLeaseRequest_Validate r now =
     first_err
      [fail_if (blank (rs_TenantID r) \<or> blank (rs_IdentityID r) \<or> blank (rs_ActivationAttemptID r)
                \<or> rs_AuthorityEpoch r = 0)
         ErrorInvalidArgument ReasonInvalidReference,
       LineageRef_Validate (rs_Lineage r),
       fail_if (IsZero now \<or> \<not> After (rs_ExpiresAt r) now) ErrorInvalidArgument ReasonInvalidReference]"

record RenewIdentityLeaseRequest =
  rn_LeaseID :: string
  rn_ExpectedRevision :: Revision
  rn_AuthorityEpoch :: Epoch
  rn_ExpiresAt :: Time

record EndIdentityLeaseRequest =
  en_LeaseID :: string
  en_ExpectedRevision :: Revision
  en_Reason :: string

text \<open>A lease in one of the two states that hold the identity.\<close>

definition lease_held :: "IdentityExecutionLease \<Rightarrow> bool" where
  "lease_held l \<longleftrightarrow> il_State l = IdentityLeaseReserved \<or> il_State l = IdentityLeaseActive"

end
