(* ===== verification/Activation.thy ===== *)
theory Activation
  imports Lease
begin

text \<open>
  \<open>runtime/admission/activation.go\<close>: the journal record of one activation attempt, its stages, its
  recovery state and the three external operations it makes, and which updates of the record are
  legal.
\<close>

section \<open>Operations and snapshots\<close>

datatype ActivationStage =
    StageProposed | StagePreflighting | StagePreflightPassed | StageSnapshotFrozen
  | StageIdentityLeaseReserved | StageBudgetResolved | StageSandboxReserved | StageCommitted
  | StageSandboxActive | StageOther string

datatype RecoveryState =
    RecoveryNormal | RecoveryAborting | RecoveryQuarantined | RecoveryAborted | RecoveryStateOther string

datatype OperationState =
    OperationNotStarted | OperationNotRequired | OperationIntentRecorded | OperationConfirmedApplied
  | OperationConfirmedNotApplied | OperationUnknownOutcome | OperationReleased | OperationOther string

record ActivationOperation =
  op_State :: OperationState
  op_IntentID :: string
  op_Reference :: string
  op_EvidenceDigest :: Digest

definition ActivationOperation_Validate :: "ActivationOperation \<Rightarrow> go_error option" where [validate_defs]:
  "ActivationOperation_Validate o1 =
     (let inactive = fail_if (op_IntentID o1 \<noteq> '''' \<or> op_Reference o1 \<noteq> '''' \<or> op_EvidenceDigest o1 \<noteq> '''')
                       ErrorInvalidArgument ReasonInvalidState;
          recorded = fail_if (blank (op_IntentID o1)) ErrorInvalidArgument ReasonEffectIntentMissing;
          applied = first_err [fail_if (blank (op_IntentID o1) \<or> blank (op_Reference o1))
                                 ErrorInvalidArgument ReasonInvalidReference,
                               Digest_Validate (op_EvidenceDigest o1)]
      in case op_State o1 of
           OperationNotStarted \<Rightarrow> inactive
         | OperationNotRequired \<Rightarrow> inactive
         | OperationIntentRecorded \<Rightarrow> recorded
         | OperationUnknownOutcome \<Rightarrow> recorded
         | OperationConfirmedNotApplied \<Rightarrow> first_err [recorded, Digest_Validate (op_EvidenceDigest o1)]
         | OperationConfirmedApplied \<Rightarrow> applied
         | OperationReleased \<Rightarrow> applied
         | OperationOther s \<Rightarrow> Some (DomainError ErrorInvalidArgument ReasonInvalidState))"

record ActivationSnapshot =
  sn_Digest :: Digest
  sn_AuthorityEpoch :: Epoch
  sn_EntitlementDigest :: Digest
  sn_RouteDigest :: Digest
  sn_CapabilityEvidenceDigest :: Digest
  sn_PolicyDigest :: Digest
  sn_BudgetPolicyDigest :: Digest
  sn_SandboxRequirementDigest :: Digest
  sn_RequestedExecutableCap :: u64
  sn_BudgetUnit :: string
  sn_EvidenceExpiresAt :: Time

definition ActivationSnapshot_Validate :: "ActivationSnapshot \<Rightarrow> go_error option" where [validate_defs]:
  "ActivationSnapshot_Validate s =
     first_err
      [first_err (map Digest_Validate
         [sn_Digest s, sn_EntitlementDigest s, sn_RouteDigest s, sn_CapabilityEvidenceDigest s,
          sn_PolicyDigest s, sn_BudgetPolicyDigest s, sn_SandboxRequirementDigest s]),
       fail_if (sn_AuthorityEpoch s = 0 \<or> IsZero (sn_EvidenceExpiresAt s))
         ErrorPreconditionFailed ReasonActivationFactDrift,
       fail_if ((sn_RequestedExecutableCap s = 0) \<noteq> blank (sn_BudgetUnit s))
         ErrorInvalidArgument ReasonInvalidReference]"

definition ActivationSnapshot_ValidateFresh :: "ActivationSnapshot \<Rightarrow> Time \<Rightarrow> go_error option" where [validate_defs]:
  "ActivationSnapshot_ValidateFresh s now =
     first_err
      [ActivationSnapshot_Validate s,
       fail_if (IsZero now \<or> \<not> Before now (sn_EvidenceExpiresAt s))
         ErrorPreconditionFailed ReasonActivationFactDrift]"

section \<open>Attempts\<close>

definition activationOrder :: "ActivationStage list" where
  "activationOrder =
     [StageProposed, StagePreflighting, StagePreflightPassed, StageSnapshotFrozen,
      StageIdentityLeaseReserved, StageBudgetResolved, StageSandboxReserved, StageCommitted,
      StageSandboxActive]"

definition stageIndex :: "ActivationStage \<Rightarrow> int" where
  "stageIndex stage = index_from 0 activationOrder stage"

lemma stageIndex_simps [simp]:
  "stageIndex StageProposed = 0" "stageIndex StagePreflighting = 1" "stageIndex StagePreflightPassed = 2"
  "stageIndex StageSnapshotFrozen = 3" "stageIndex StageIdentityLeaseReserved = 4"
  "stageIndex StageBudgetResolved = 5" "stageIndex StageSandboxReserved = 6"
  "stageIndex StageCommitted = 7" "stageIndex StageSandboxActive = 8" "stageIndex (StageOther s) = -1"
  by (simp_all add: stageIndex_def activationOrder_def)

definition validStage :: "ActivationStage \<Rightarrow> bool" where
  "validStage stage \<longleftrightarrow> stageIndex stage \<ge> 0"

fun validRecovery :: "RecoveryState \<Rightarrow> bool" where
  "validRecovery (RecoveryStateOther s) = False"
| "validRecovery _ = True"

record ActivationAttempt =
  at_ID :: string
  at_Scope :: ExecutionScope
  at_ExpectedIdentityEpoch :: Epoch
  at_RequirementDigest :: Digest
  at_Stage :: ActivationStage
  at_Recovery :: RecoveryState
  at_Snapshot :: "ActivationSnapshot option"
  at_IdentityLeaseID :: string
  at_IdentityLeaseState :: IdentityLeaseState
  at_IdentityLeaseRevision :: Revision
  at_Budget :: ActivationOperation
  at_SandboxReservation :: ActivationOperation
  at_SandboxActivation :: ActivationOperation
  at_SandboxFenced :: bool
  at_FailureReason :: string
  at_Revision :: Revision
  at_CreatedAt :: Time
  at_UpdatedAt :: Time

definition hasUnknownOperation :: "ActivationAttempt \<Rightarrow> bool" where
  "hasUnknownOperation a \<longleftrightarrow> op_State (at_Budget a) = OperationUnknownOutcome
     \<or> op_State (at_SandboxReservation a) = OperationUnknownOutcome
     \<or> op_State (at_SandboxActivation a) = OperationUnknownOutcome"

definition activationObligationsSettled :: "ActivationAttempt \<Rightarrow> bool" where
  "activationObligationsSettled a \<longleftrightarrow>
     (let budgetSettled = (op_State (at_Budget a) = OperationNotStarted \<or> op_State (at_Budget a) = OperationNotRequired
            \<or> op_State (at_Budget a) = OperationConfirmedNotApplied \<or> op_State (at_Budget a) = OperationReleased);
          sandboxSettled = (op_State (at_SandboxReservation a) = OperationNotStarted
            \<or> op_State (at_SandboxReservation a) = OperationNotRequired
            \<or> op_State (at_SandboxReservation a) = OperationConfirmedNotApplied
            \<or> op_State (at_SandboxReservation a) = OperationReleased);
          identitySettled = (at_IdentityLeaseID a = '''' \<or> at_IdentityLeaseState a = IdentityLeaseReleased)
      in budgetSettled \<and> sandboxSettled \<and> identitySettled)"

definition ActivationAttempt_Validate :: "ActivationAttempt \<Rightarrow> Time \<Rightarrow> go_error option" where [validate_defs]:
  "ActivationAttempt_Validate a now =
     (let stage = stageIndex (at_Stage a) in
      first_err
       [fail_if (blank (at_ID a) \<or> at_Revision a = 0 \<or> IsZero (at_CreatedAt a) \<or> IsZero (at_UpdatedAt a)
                 \<or> Before (at_UpdatedAt a) (at_CreatedAt a))
          ErrorInvalidArgument ReasonInvalidReference,
        ExecutionScope_Validate (at_Scope a),
        Digest_Validate (at_RequirementDigest a),
        fail_if (ident_Epoch (scope_Identity (at_Scope a)) \<noteq> at_ExpectedIdentityEpoch a + 1)
          ErrorPreconditionFailed ReasonStaleIdentityEpoch,
        fail_if (\<not> validStage (at_Stage a) \<or> \<not> validRecovery (at_Recovery a))
          ErrorInvalidArgument ReasonInvalidState,
        first_err (map ActivationOperation_Validate [at_Budget a, at_SandboxReservation a, at_SandboxActivation a]),
        fail_if (stage < stageIndex StageCommitted \<and> scope_SandboxLease (at_Scope a) \<noteq> None)
          ErrorPreconditionFailed ReasonInvalidState,
        (if stage \<ge> stageIndex StageSnapshotFrozen
         then (case at_Snapshot a of
                 None \<Rightarrow> Some (DomainError ErrorPreconditionFailed ReasonInvalidReference)
               | Some s \<Rightarrow>
                   first_err
                    [ActivationSnapshot_Validate s,
                     fail_if (sn_AuthorityEpoch s \<noteq> scope_AuthorityEpoch (at_Scope a)
                              \<or> sn_SandboxRequirementDigest s \<noteq> at_RequirementDigest a)
                       ErrorPreconditionFailed ReasonActivationFactDrift])
         else fail_if (at_Snapshot a \<noteq> None) ErrorPreconditionFailed ReasonInvalidState),
        fail_if (stage \<ge> stageIndex StageIdentityLeaseReserved
                 \<and> (blank (at_IdentityLeaseID a) \<or> at_IdentityLeaseRevision a = 0
                    \<or> at_IdentityLeaseState a = NoLeaseState))
          ErrorPreconditionFailed ReasonIdentityLeaseStateInvalid,
        fail_if (stage < stageIndex StageIdentityLeaseReserved
                 \<and> (at_IdentityLeaseID a \<noteq> '''' \<or> at_IdentityLeaseRevision a \<noteq> 0
                    \<or> at_IdentityLeaseState a \<noteq> NoLeaseState))
          ErrorPreconditionFailed ReasonIdentityLeaseStateInvalid,
        fail_if (stage \<ge> stageIndex StageBudgetResolved \<and> op_State (at_Budget a) \<noteq> OperationNotRequired
                 \<and> op_State (at_Budget a) \<noteq> OperationConfirmedApplied \<and> op_State (at_Budget a) \<noteq> OperationReleased)
          ErrorPreconditionFailed ReasonInvalidState,
        fail_if (stage \<ge> stageIndex StageSandboxReserved
                 \<and> op_State (at_SandboxReservation a) \<noteq> OperationConfirmedApplied
                 \<and> op_State (at_SandboxReservation a) \<noteq> OperationReleased)
          ErrorPreconditionFailed ReasonInvalidState,
        (if stage \<ge> stageIndex StageCommitted
         then first_err
               [fail_if (map_option slease_ID (scope_SandboxLease (at_Scope a)) \<noteq> Some (op_Reference (at_SandboxReservation a)))
                  ErrorPreconditionFailed ReasonInvalidState,
                fail_if (at_IdentityLeaseState a \<noteq> IdentityLeaseActive)
                  ErrorPreconditionFailed ReasonIdentityLeaseStateInvalid]
         else None),
        fail_if (at_Stage a = StageSandboxActive \<and> op_State (at_SandboxActivation a) \<noteq> OperationConfirmedApplied)
          ErrorPreconditionFailed ReasonInvalidState,
        fail_if (hasUnknownOperation a \<and> at_Recovery a \<noteq> RecoveryQuarantined)
          ErrorPreconditionFailed ReasonActivationQuarantineRequired,
        fail_if (at_Recovery a \<noteq> RecoveryNormal \<and> blank (at_FailureReason a))
          ErrorInvalidArgument ReasonInvalidReference,
        fail_if ((at_Recovery a = RecoveryAborting \<or> at_Recovery a = RecoveryAborted) \<and> stage \<ge> stageIndex StageCommitted)
          ErrorPreconditionFailed ReasonInvalidTransition,
        fail_if (at_Recovery a = RecoveryNormal
                 \<and> (op_State (at_Budget a) = OperationReleased \<or> op_State (at_SandboxReservation a) = OperationReleased))
          ErrorPreconditionFailed ReasonInvalidState,
        fail_if (at_Recovery a = RecoveryAborted \<and> \<not> activationObligationsSettled a)
          ErrorPreconditionFailed ReasonCleanupEvidenceIncomplete])"

section \<open>Transitions\<close>

record ActivationTransitionContext =
  atc_UnknownResolved :: bool

definition ValidateTransition ::
  "ActivationAttempt \<Rightarrow> ActivationAttempt \<Rightarrow> ActivationTransitionContext \<Rightarrow> Time \<Rightarrow> go_error option" where
  "ValidateTransition f t context1 now =
     first_err
      [ActivationAttempt_Validate f now,
       ActivationAttempt_Validate t now,
       fail_if (at_ID f \<noteq> at_ID t \<or> at_CreatedAt f \<noteq> at_CreatedAt t
                \<or> at_ExpectedIdentityEpoch f \<noteq> at_ExpectedIdentityEpoch t
                \<or> at_RequirementDigest f \<noteq> at_RequirementDigest t
                \<or> scope_Identity (at_Scope f) \<noteq> scope_Identity (at_Scope t)
                \<or> scope_Lineage (at_Scope f) \<noteq> scope_Lineage (at_Scope t)
                \<or> scope_Instance (at_Scope f) \<noteq> scope_Instance (at_Scope t)
                \<or> scope_AuthorityEpoch (at_Scope f) \<noteq> scope_AuthorityEpoch (at_Scope t))
         ErrorConflict ReasonActivationAttemptConflict,
       fail_if (at_Revision t \<noteq> at_Revision f + 1 \<or> Before (at_UpdatedAt t) (at_UpdatedAt f))
         ErrorConflict ReasonRevisionConflict,
       fail_if (stageIndex (at_Stage t) < stageIndex (at_Stage f)
                \<or> stageIndex (at_Stage t) > stageIndex (at_Stage f) + 1)
         ErrorPreconditionFailed ReasonInvalidTransition,
       (case at_Snapshot t of
          None \<Rightarrow> None
        | Some s \<Rightarrow>
            if at_Recovery t = RecoveryNormal \<and> stageIndex (at_Stage t) > stageIndex (at_Stage f)
            then ActivationSnapshot_ValidateFresh s now else None),
       fail_if (at_Recovery f = RecoveryAborted \<and> at_Recovery t \<noteq> RecoveryAborted)
         ErrorPreconditionFailed ReasonInvalidTransition,
       fail_if (at_Recovery f = RecoveryQuarantined \<and> at_Recovery t = RecoveryNormal
                \<and> \<not> atc_UnknownResolved context1)
         ErrorPreconditionFailed ReasonInspectCoverageIncomplete,
       fail_if (at_Recovery f = RecoveryAborting \<and> at_Recovery t \<noteq> RecoveryAborting
                \<and> at_Recovery t \<noteq> RecoveryAborted \<and> at_Recovery t \<noteq> RecoveryQuarantined)
         ErrorPreconditionFailed ReasonInvalidTransition,
       fail_if (at_Recovery f \<noteq> RecoveryNormal \<and> at_Stage t \<noteq> at_Stage f)
         ErrorPreconditionFailed ReasonInvalidTransition,
       fail_if (at_Recovery f = RecoveryNormal \<and> at_Recovery t = RecoveryAborted)
         ErrorPreconditionFailed ReasonInvalidTransition]"

record ActivationStoreCommitRequest =
  acr_AttemptID :: string
  acr_ExpectedAttemptRevision :: Revision
  acr_IdentityLeaseID :: string
  acr_ExpectedIdentityLeaseRevision :: Revision
  acr_SandboxLease :: SandboxLeaseRef
  acr_AuthorityEpoch :: Epoch

record ActivationCommitResult =
  acres_Attempt :: ActivationAttempt
  acres_IdentityLease :: IdentityExecutionLease

section \<open>What an attempt keeps\<close>

lemma ValidateTransitionD:
  assumes "ValidateTransition f t c now = None"
  shows "ActivationAttempt_Validate f now = None" "ActivationAttempt_Validate t now = None"
    "at_ID t = at_ID f" "at_Revision t = at_Revision f + 1"
    "(at_Scope t)\<lparr>scope_SandboxLease := None\<rparr> = (at_Scope f)\<lparr>scope_SandboxLease := None\<rparr>"
    "stageIndex (at_Stage f) \<le> stageIndex (at_Stage t)" "stageIndex (at_Stage t) \<le> stageIndex (at_Stage f) + 1"
    "at_Recovery f \<noteq> RecoveryNormal \<Longrightarrow> at_Stage t = at_Stage f"
    "at_Recovery f = RecoveryAborted \<Longrightarrow> at_Recovery t = RecoveryAborted"
    "at_Recovery t = RecoveryAborted \<Longrightarrow> at_Recovery f \<noteq> RecoveryNormal"
    "at_Recovery f = RecoveryAborting \<Longrightarrow> at_Recovery t \<noteq> RecoveryNormal"
    "at_RequirementDigest t = at_RequirementDigest f"
  using assms by (cases "at_Scope f"; cases "at_Scope t"; auto simp: ValidateTransition_def; fail)+

lemma stageIndex_bounds: "-1 \<le> stageIndex s" "stageIndex s \<le> 8"
  by (cases s; simp)+

lemma stageIndex_inject: "0 \<le> stageIndex s \<Longrightarrow> stageIndex s = stageIndex t \<longleftrightarrow> s = t"
  by (cases s; cases t) simp_all

lemma ActivationAttempt_stage: "ActivationAttempt_Validate a now = None \<Longrightarrow> 0 \<le> stageIndex (at_Stage a)"
  by (simp add: ActivationAttempt_Validate_def Let_def validStage_def)

lemma ActivationAttempt_operations:
  "ActivationAttempt_Validate a now = None \<Longrightarrow> ActivationOperation_Validate (at_Budget a) = None
     \<and> ActivationOperation_Validate (at_SandboxReservation a) = None
     \<and> ActivationOperation_Validate (at_SandboxActivation a) = None"
  by (simp add: ActivationAttempt_Validate_def Let_def)

lemma ActivationOperation_known: "ActivationOperation_Validate x = None \<Longrightarrow> op_State x \<noteq> OperationOther s"
  by (auto simp: ActivationOperation_Validate_def Let_def)

lemma ActivationAttempt_recovery:
  "ActivationAttempt_Validate a now = None \<Longrightarrow> validRecovery (at_Recovery a)"
  by (simp add: ActivationAttempt_Validate_def Let_def)

lemma ActivationAttempt_lease:
  assumes "ActivationAttempt_Validate a now = None"
  shows "stageIndex (at_Stage a) < 4 \<Longrightarrow> at_IdentityLeaseID a = ''''"
    "4 \<le> stageIndex (at_Stage a) \<Longrightarrow> at_IdentityLeaseState a \<noteq> NoLeaseState"
  using assms by (simp_all add: ActivationAttempt_Validate_def Let_def)

text \<open>
  What a valid record says about the stage it is in: which obligations exist, and what has been
  confirmed before the commit.
\<close>

lemma ActivationAttempt_committed:
  assumes "ActivationAttempt_Validate a now = None" "7 \<le> stageIndex (at_Stage a)"
  shows "at_Recovery a = RecoveryNormal \<or> at_Recovery a = RecoveryQuarantined"
    "at_IdentityLeaseState a = IdentityLeaseActive"
    "map_option slease_ID (scope_SandboxLease (at_Scope a)) = Some (op_Reference (at_SandboxReservation a))"
    "op_State (at_Budget a) \<in> {OperationNotRequired, OperationConfirmedApplied, OperationReleased}"
    "op_State (at_SandboxReservation a) \<in> {OperationConfirmedApplied, OperationReleased}"
  using assms by (cases "at_Recovery a"; auto simp: ActivationAttempt_Validate_def Let_def; fail)+

lemma ActivationAttempt_operations_done:
  assumes "ActivationAttempt_Validate a now = None"
  shows "at_Recovery a = RecoveryNormal \<longrightarrow> op_State (at_Budget a) \<noteq> OperationReleased \<and> op_State (at_SandboxReservation a) \<noteq> OperationReleased"
    "at_Stage a = StageSandboxActive \<longrightarrow> op_State (at_SandboxActivation a) = OperationConfirmedApplied"
  using assms by (simp_all add: ActivationAttempt_Validate_def Let_def)

section \<open>Samples\<close>

definition sample_op :: "OperationState \<Rightarrow> ActivationOperation" where
  "sample_op s =
     (if s = OperationNotStarted \<or> s = OperationNotRequired
      then \<lparr>op_State = s, op_IntentID = '''', op_Reference = '''', op_EvidenceDigest = ''''\<rparr>
      else \<lparr>op_State = s, op_IntentID = ''e'', op_Reference = ''s'', op_EvidenceDigest = sample_digest\<rparr>)"

definition sample_snapshot :: ActivationSnapshot where
  "sample_snapshot = \<lparr>sn_Digest = sample_digest, sn_AuthorityEpoch = 1, sn_EntitlementDigest = sample_digest,
     sn_RouteDigest = sample_digest, sn_CapabilityEvidenceDigest = sample_digest, sn_PolicyDigest = sample_digest,
     sn_BudgetPolicyDigest = sample_digest, sn_SandboxRequirementDigest = sample_digest,
     sn_RequestedExecutableCap = 0, sn_BudgetUnit = '''', sn_EvidenceExpiresAt = 100\<rparr>"

text \<open>An attempt that holds the identity lease, with the budget and the sandbox in given states.\<close>

definition sample_attempt ::
  "ActivationStage \<Rightarrow> RecoveryState \<Rightarrow> IdentityLeaseState \<Rightarrow> OperationState \<Rightarrow> OperationState \<Rightarrow> Revision \<Rightarrow> ActivationAttempt" where
  "sample_attempt stage recovery lease budget sandbox n =
     \<lparr>at_ID = ''a'', at_Scope = sample_scope None, at_ExpectedIdentityEpoch = 0, at_RequirementDigest = sample_digest,
      at_Stage = stage, at_Recovery = recovery, at_Snapshot = Some sample_snapshot, at_IdentityLeaseID = ''t/a/lease/1'',
      at_IdentityLeaseState = lease, at_IdentityLeaseRevision = 1, at_Budget = sample_op budget,
      at_SandboxReservation = sample_op sandbox, at_SandboxActivation = sample_op OperationNotStarted,
      at_SandboxFenced = False, at_FailureReason = (if recovery = RecoveryNormal then '''' else ''r''),
      at_Revision = n, at_CreatedAt = 10, at_UpdatedAt = 10\<rparr>"

lemma sample_op_valid [simp]:
  "(\<And>x. s \<noteq> OperationOther x) \<Longrightarrow> ActivationOperation_Validate (sample_op s) = None"
  by (cases s) (auto simp: sample_op_def ActivationOperation_Validate_def graphic_ascii)

lemma sample_op_state [simp]: "op_State (sample_op s) = s"
  by (simp add: sample_op_def)

lemma sample_snapshot_valid [simp]:
  "ActivationSnapshot_Validate sample_snapshot = None" "sn_AuthorityEpoch sample_snapshot = 1"
  "sn_SandboxRequirementDigest sample_snapshot = sample_digest" "sn_EvidenceExpiresAt sample_snapshot = 100"
  by (simp_all add: sample_snapshot_def ActivationSnapshot_Validate_def time_defs)

lemma sample_scope_epochs [simp]:
  "ident_Epoch (scope_Identity (sample_scope l)) = 1" "scope_AuthorityEpoch (sample_scope l) = 1"
  by (simp_all add: sample_scope_def)

lemma sample_attempt_valid:
  assumes "stage = StageIdentityLeaseReserved \<or> stage = StageBudgetResolved \<and> budget = OperationConfirmedApplied
      \<or> stage = StageSandboxReserved \<and> budget = OperationConfirmedApplied \<and> sandbox = OperationConfirmedApplied"
    "recovery = RecoveryNormal \<or> recovery = RecoveryAborting" "lease \<noteq> NoLeaseState" "n \<noteq> 0"
    "budget \<in> {OperationNotStarted, OperationIntentRecorded, OperationConfirmedApplied}"
    "sandbox \<in> {OperationNotStarted, OperationIntentRecorded, OperationConfirmedApplied}"
  shows "ActivationAttempt_Validate (sample_attempt stage recovery lease budget sandbox n) now = None"
  using assms
  by (auto simp: sample_attempt_def ActivationAttempt_Validate_def Let_def time_defs validStage_def graphic_ascii
      hasUnknownOperation_def)

section \<open>Versions of an attempt\<close>

text \<open>The versions the journal record of an attempt goes through, at any times.\<close>

inductive activation_versions :: "ActivationAttempt \<Rightarrow> nat \<Rightarrow> ActivationAttempt \<Rightarrow> bool" where
  here: "activation_versions a 0 a"
| next_version: "activation_versions a n b \<Longrightarrow> ValidateTransition b d c now = None \<Longrightarrow>
    activation_versions a (Suc n) d"

definition activation_kept :: "ActivationAttempt \<Rightarrow> ActivationAttempt \<Rightarrow> bool" where
  "activation_kept a b \<longleftrightarrow> at_ID b = at_ID a \<and> at_RequirementDigest b = at_RequirementDigest a
     \<and> (at_Scope b)\<lparr>scope_SandboxLease := None\<rparr> = (at_Scope a)\<lparr>scope_SandboxLease := None\<rparr>
     \<and> stageIndex (at_Stage a) \<le> stageIndex (at_Stage b)
     \<and> (at_Recovery a = RecoveryAborted \<longrightarrow> at_Recovery b = RecoveryAborted \<and> at_Stage b = at_Stage a)"

lemma activation_kept_step:
  assumes "activation_kept a b" "ValidateTransition b d c now = None" shows "activation_kept a d"
  using assms(1) ValidateTransitionD [OF assms(2)] by (auto simp: activation_kept_def)

lemma activation_versions_kept: "activation_versions a n b \<Longrightarrow> activation_kept a b"
  by (induction rule: activation_versions.induct)
     (simp add: activation_kept_def, blast intro: activation_kept_step)

text \<open>A record cannot cross more stages than it has versions.\<close>

lemma activation_versions_stage:
  "activation_versions a n b \<Longrightarrow> stageIndex (at_Stage b) \<le> stageIndex (at_Stage a) + int n"
  by (induction rule: activation_versions.induct) (auto dest!: ValidateTransitionD(7))

section \<open>Properties\<close>

text \<open>
  C11: Along the versions of an activation record the attempt, its requirement and the scope other than
  the lease never change, the stage never goes back and rises at most one per version, and an
  aborted attempt stays aborted. Every version after the first that is committed, or past it, is in normal recovery or
  quarantined, has an active identity lease, a budget that is not required, confirmed or released, a
  confirmed or released reservation, and the sandbox lease that this reservation names; in normal recovery nothing is
  released; with the sandbox active its activation is confirmed.
\<close>

theorem activation_versions_safe:
  assumes "activation_versions a n b"
  shows "activation_kept a b \<and> stageIndex (at_Stage b) \<le> stageIndex (at_Stage a) + int n
    \<and> (0 < n \<and> stageIndex StageCommitted \<le> stageIndex (at_Stage b) \<longrightarrow>
         at_Recovery b \<in> {RecoveryNormal, RecoveryQuarantined} \<and> at_IdentityLeaseState b = IdentityLeaseActive
         \<and> op_State (at_Budget b) \<in> {OperationNotRequired, OperationConfirmedApplied, OperationReleased}
         \<and> op_State (at_SandboxReservation b) \<in> {OperationConfirmedApplied, OperationReleased}
         \<and> map_option slease_ID (scope_SandboxLease (at_Scope b)) = Some (op_Reference (at_SandboxReservation b))
         \<and> (at_Recovery b = RecoveryNormal \<longrightarrow>
              op_State (at_Budget b) \<noteq> OperationReleased \<and> op_State (at_SandboxReservation b) \<noteq> OperationReleased)
         \<and> (at_Stage b = StageSandboxActive \<longrightarrow> op_State (at_SandboxActivation b) = OperationConfirmedApplied))"
proof -
  have v: "ActivationAttempt_Validate b 0 = None" if "0 < n"
  proof -
    from assms that obtain d c t where "ValidateTransition d b c t = None"
      by (cases rule: activation_versions.cases) auto
    from ValidateTransitionD(2) [OF this] show ?thesis
      by (simp add: ActivationAttempt_Validate_def)
  qed
  show ?thesis
    using activation_versions_kept [OF assms] activation_versions_stage [OF assms]
      ActivationAttempt_committed [OF v] ActivationAttempt_operations_done [OF v] by auto
qed

text \<open>A sample: the commit of an attempt that has its budget and its sandbox reservation.\<close>

definition sample_committing :: ActivationAttempt where
  "sample_committing =
     (sample_attempt StageCommitted RecoveryNormal IdentityLeaseActive OperationConfirmedApplied OperationConfirmedApplied 8)
       \<lparr>at_Scope := sample_scope (Some sample_lease)\<rparr>"

lemma sample_committing_valid: "ActivationAttempt_Validate sample_committing now = None"
  by (simp add: sample_committing_def sample_attempt_def ActivationAttempt_Validate_def Let_def time_defs validStage_def
      graphic_ascii hasUnknownOperation_def)
    (simp add: sample_op_def sample_scope_def sample_lease_def ExecutionScope_Validate_def graphic_ascii)

lemma activation_versions_safe_witness:
  "stageIndex StageCommitted \<le> stageIndex (at_Stage sample_committing)
    \<and> op_State (at_Budget sample_committing) \<in> {OperationNotRequired, OperationConfirmedApplied, OperationReleased}"
proof -
  let ?a = "sample_attempt StageSandboxReserved RecoveryNormal IdentityLeaseReserved OperationConfirmedApplied OperationConfirmedApplied 7"
  have "ValidateTransition ?a sample_committing \<lparr>atc_UnknownResolved = False\<rparr> 50 = None"
    by (simp add: ValidateTransition_def sample_attempt_valid sample_committing_valid)
      (simp add: sample_committing_def sample_attempt_def ActivationSnapshot_ValidateFresh_def time_defs sample_scope_def)
  from activation_versions_safe [OF activation_versions.next_version [OF activation_versions.here this]]
  show ?thesis by (simp add: sample_committing_def sample_attempt_def)
qed

end
