(* ===== verification/Recovery.thy ===== *)
theory Recovery
  imports Activation
begin

text \<open>
  \<open>runtime/admission/recovery.go\<close>: the action a restarted coordinator takes next, decided from the
  journal record of an activation attempt alone.
\<close>

section \<open>The decision\<close>

datatype RecoveryAction =
    ActionNone | ActionResumePreflight | ActionInspectPreflight | ActionFreezeSnapshot
  | ActionReserveIdentityLease | ActionResolveBudget | ActionReserveSandbox | ActionCommitActivation
  | ActionActivateSandbox | ActionResumeBinding | ActionBeginAbort | ActionInspectBudget
  | ActionInspectSandboxReservation | ActionInspectSandboxActivation | ActionFenceSandbox
  | ActionReleaseSandbox | ActionReleaseBudget | ActionRevokeIdentityLease
  | ActionReleaseIdentityLease | ActionMarkAborted | ActionAwaitOperator

record RecoveryDecision =
  dec_Action :: RecoveryAction
  dec_AutomaticSafe :: bool
  dec_Reason :: string

definition decision :: "RecoveryAction \<Rightarrow> bool \<Rightarrow> string \<Rightarrow> RecoveryDecision" where
  "decision action automatic reason = \<lparr>dec_Action = action, dec_AutomaticSafe = automatic, dec_Reason = reason\<rparr>"

lemma decision_sel [simp]: "dec_Action (decision a s r) = a" "dec_AutomaticSafe (decision a s r) = s"
  by (simp_all add: decision_def)

definition quarantinedDecision :: "ActivationAttempt \<Rightarrow> RecoveryDecision" where
  "quarantinedDecision a =
     (if op_State (at_SandboxActivation a) = OperationUnknownOutcome
      then decision ActionInspectSandboxActivation False ''sandbox activation outcome is unknown; duplicate activation is forbidden''
      else if op_State (at_SandboxReservation a) = OperationUnknownOutcome
      then decision ActionInspectSandboxReservation False ''sandbox reservation outcome is unknown; duplicate allocation is forbidden''
      else if op_State (at_Budget a) = OperationUnknownOutcome
      then decision ActionInspectBudget False ''budget reservation outcome is unknown; a second reservation is forbidden''
      else decision ActionAwaitOperator False ''quarantine has no machine-resolvable unknown operation'')"

definition abortDecision :: "ActivationAttempt \<Rightarrow> RecoveryDecision" where
  "abortDecision a =
     (if stageIndex (at_Stage a) \<ge> stageIndex StageSandboxReserved
         \<and> op_State (at_SandboxReservation a) = OperationConfirmedApplied \<and> \<not> at_SandboxFenced a
      then decision ActionFenceSandbox True ''reserved sandbox must be fenced before release''
      else if op_State (at_SandboxReservation a) \<noteq> OperationNotStarted
              \<and> op_State (at_SandboxReservation a) \<noteq> OperationNotRequired
              \<and> op_State (at_SandboxReservation a) \<noteq> OperationReleased
              \<and> op_State (at_SandboxReservation a) \<noteq> OperationConfirmedNotApplied
      then decision ActionReleaseSandbox True ''sandbox cleanup precedes budget and identity release''
      else if op_State (at_Budget a) = OperationConfirmedApplied
      then decision ActionReleaseBudget True ''budget reservation remains held after sandbox cleanup''
      else if at_IdentityLeaseState a = IdentityLeaseReserved \<or> at_IdentityLeaseState a = IdentityLeaseActive
      then decision ActionRevokeIdentityLease True ''reserved identity slot must be revoked before release''
      else if at_IdentityLeaseState a = IdentityLeaseRevoked \<or> at_IdentityLeaseState a = IdentityLeaseExpired
      then decision ActionReleaseIdentityLease True ''revoked or expired identity slot can now be released''
      else decision ActionMarkAborted True ''all activation obligations are settled'')"

text \<open>The last switch of \<open>PlanRecovery\<close>: the next action of an undisturbed attempt.\<close>

fun stage_decision :: "ActivationStage \<Rightarrow> RecoveryDecision res" where
  "stage_decision StageProposed = Inr (decision ActionResumePreflight True ''proposed identity has no execution authority or external allocation'')"
| "stage_decision StagePreflighting = Inr (decision ActionInspectPreflight False ''preflight may have crossed an external probe boundary'')"
| "stage_decision StagePreflightPassed = Inr (decision ActionFreezeSnapshot True ''preflight is clean and activation facts must be frozen again'')"
| "stage_decision StageSnapshotFrozen = Inr (decision ActionReserveIdentityLease True ''snapshot is frozen and the exclusive identity slot is next'')"
| "stage_decision StageIdentityLeaseReserved = Inr (decision ActionResolveBudget True ''reserved identity lease grants no general execution authority'')"
| "stage_decision StageBudgetResolved = Inr (decision ActionReserveSandbox True ''budget is resolved and sandbox reservation remains quarantined'')"
| "stage_decision StageSandboxReserved = Inr (decision ActionCommitActivation True ''all reservations are confirmed and the logical commit is next'')"
| "stage_decision StageCommitted = Inr (decision ActionActivateSandbox True ''activation is committed but provider sandbox is still quarantined'')"
| "stage_decision StageSandboxActive = Inr (decision ActionResumeBinding True ''activation is complete and binding may reconcile from its own journal'')"
| "stage_decision (StageOther s) = Inl (DomainError ErrorInternal ReasonInvalidState)"

definition normalDecision :: "ActivationAttempt \<Rightarrow> Time \<Rightarrow> RecoveryDecision res" where
  "normalDecision a now =
     (if stageIndex (at_Stage a) \<ge> stageIndex StageSnapshotFrozen \<and> stageIndex (at_Stage a) < stageIndex StageCommitted
         \<and> (case at_Snapshot a of None \<Rightarrow> True | Some s \<Rightarrow> ActivationSnapshot_ValidateFresh s now \<noteq> None)
      then Inr (decision ActionBeginAbort True ''activation snapshot expired or drifted before the commit point'')
      else if op_State (at_SandboxActivation a) = OperationIntentRecorded
      then Inr (decision ActionInspectSandboxActivation False ''sandbox activation intent exists but dispatch outcome is not durable'')
      else if op_State (at_SandboxReservation a) = OperationIntentRecorded
      then Inr (decision ActionInspectSandboxReservation False ''sandbox reservation intent exists but dispatch outcome is not durable'')
      else if op_State (at_Budget a) = OperationIntentRecorded
      then Inr (decision ActionInspectBudget False ''budget intent exists but dispatch outcome is not durable'')
      else stage_decision (at_Stage a))"

definition PlanRecovery :: "ActivationAttempt \<Rightarrow> Time \<Rightarrow> RecoveryDecision res" where
  "PlanRecovery a now =
     ensure (ActivationAttempt_Validate a now)
      (case at_Recovery a of
         RecoveryAborted \<Rightarrow> Inr (decision ActionNone True ''activation is already durably aborted'')
       | RecoveryQuarantined \<Rightarrow> Inr (quarantinedDecision a)
       | RecoveryAborting \<Rightarrow> Inr (abortDecision a)
       | _ \<Rightarrow> normalDecision a now)"

section \<open>Lemmas\<close>

lemma stage_decision_total: "0 \<le> stageIndex s \<Longrightarrow> \<exists>d. stage_decision s = Inr d"
  by (cases s) auto

lemma normalDecision_total:
  "ActivationAttempt_Validate a now = None \<Longrightarrow> \<exists>d. normalDecision a now = Inr d"
  using stage_decision_total [OF ActivationAttempt_stage [of a now]] by (auto simp: normalDecision_def)

lemma stage_decision_stage:
  assumes "stage_decision s = Inr d"
  shows "dec_Action d = ActionActivateSandbox \<Longrightarrow> s = StageCommitted"
    "dec_Action d = ActionReserveSandbox \<Longrightarrow> s = StageBudgetResolved"
    "dec_Action d = ActionResolveBudget \<Longrightarrow> s = StageIdentityLeaseReserved"
    "dec_Action d = ActionCommitActivation \<Longrightarrow> s = StageSandboxReserved"
    "dec_Action d \<in> {ActionActivateSandbox, ActionReserveSandbox, ActionResolveBudget, ActionCommitActivation,
       ActionResumePreflight, ActionInspectPreflight, ActionFreezeSnapshot, ActionReserveIdentityLease, ActionResumeBinding}"
  using assms by (cases s; auto)+

lemma quarantined_actions:
  "dec_Action (quarantinedDecision a) \<in> {ActionInspectSandboxActivation, ActionInspectSandboxReservation,
     ActionInspectBudget, ActionAwaitOperator} \<and> \<not> dec_AutomaticSafe (quarantinedDecision a)"
  by (simp add: quarantinedDecision_def)

lemma abort_actions:
  "dec_Action (abortDecision a) \<in> {ActionFenceSandbox, ActionReleaseSandbox, ActionReleaseBudget,
     ActionRevokeIdentityLease, ActionReleaseIdentityLease, ActionMarkAborted}"
  by (simp add: abortDecision_def)

lemma PlanRecovery_Inr:
  assumes "PlanRecovery a now = Inr d"
  obtains (aborted) "at_Recovery a = RecoveryAborted" "dec_Action d = ActionNone"
  | (quarantined) "at_Recovery a = RecoveryQuarantined" "d = quarantinedDecision a"
  | (aborting) "at_Recovery a = RecoveryAborting" "d = abortDecision a"
  | (normal) "at_Recovery a = RecoveryNormal" "normalDecision a now = Inr d"
  using assms ActivationAttempt_recovery [of a now]
  by (cases "at_Recovery a") (auto simp: PlanRecovery_def)

lemma PlanRecovery_valid: "PlanRecovery a now = Inr d \<Longrightarrow> ActivationAttempt_Validate a now = None"
  by (simp add: PlanRecovery_def)

lemma normal_no_unknown:
  "ActivationAttempt_Validate a now = None \<Longrightarrow> at_Recovery a \<noteq> RecoveryQuarantined \<Longrightarrow> \<not> hasUnknownOperation a"
  by (auto simp: ActivationAttempt_Validate_def Let_def)

text \<open>The dispatching actions of a normal attempt are those of its stage, with nothing in flight.\<close>

lemma normalDecision_dispatch:
  assumes "normalDecision a now = Inr d"
    "dec_Action d \<in> {ActionActivateSandbox, ActionReserveSandbox, ActionResolveBudget, ActionCommitActivation}"
  shows "stage_decision (at_Stage a) = Inr d"
    "op_State (at_SandboxActivation a) \<noteq> OperationIntentRecorded"
    "op_State (at_SandboxReservation a) \<noteq> OperationIntentRecorded"
    "op_State (at_Budget a) \<noteq> OperationIntentRecorded"
proof -
  have "\<not> (stageIndex (at_Stage a) \<ge> stageIndex StageSnapshotFrozen \<and> stageIndex (at_Stage a) < stageIndex StageCommitted
         \<and> (case at_Snapshot a of None \<Rightarrow> True | Some s \<Rightarrow> ActivationSnapshot_ValidateFresh s now \<noteq> None))"
    using assms by (auto simp: normalDecision_def simp del: stageIndex_simps)
  with assms(1) have n: "(if op_State (at_SandboxActivation a) = OperationIntentRecorded
      then Inr (decision ActionInspectSandboxActivation False ''sandbox activation intent exists but dispatch outcome is not durable'')
      else if op_State (at_SandboxReservation a) = OperationIntentRecorded
      then Inr (decision ActionInspectSandboxReservation False ''sandbox reservation intent exists but dispatch outcome is not durable'')
      else if op_State (at_Budget a) = OperationIntentRecorded
      then Inr (decision ActionInspectBudget False ''budget intent exists but dispatch outcome is not durable'')
      else stage_decision (at_Stage a)) = (Inr d :: RecoveryDecision res)"
    by (simp only: normalDecision_def if_False)
  show "op_State (at_SandboxActivation a) \<noteq> OperationIntentRecorded"
    "op_State (at_SandboxReservation a) \<noteq> OperationIntentRecorded"
    "op_State (at_Budget a) \<noteq> OperationIntentRecorded"
    using n assms(2) by (auto split: if_split_asm)
  with n show "stage_decision (at_Stage a) = Inr d" by simp
qed

text \<open>Settled obligations, seen from the abort path.\<close>

lemma abortDecision_settled:
  assumes "ActivationAttempt_Validate a now = None" "at_Recovery a = RecoveryAborting"
    "dec_Action (abortDecision a) = ActionMarkAborted" "op_State (at_Budget a) \<noteq> OperationIntentRecorded"
    "\<And>s. at_IdentityLeaseState a = IdentityLeaseOther s \<Longrightarrow> s = ''''"
  shows "activationObligationsSettled a"
proof -
  have "op_State (at_Budget a) \<noteq> OperationUnknownOutcome"
    using normal_no_unknown [OF assms(1)] assms(2) by (simp add: hasUnknownOperation_def)
  moreover have "op_State (at_Budget a) \<noteq> OperationOther s" for s
    using ActivationAttempt_operations [OF assms(1)] ActivationOperation_known by blast
  moreover have "at_IdentityLeaseID a = '''' \<or> at_IdentityLeaseState a = IdentityLeaseReleased"
  proof (cases "stageIndex (at_Stage a) < 4")
    case True
    then show ?thesis using ActivationAttempt_lease(1) [OF assms(1)] by simp
  next
    case False
    then have "at_IdentityLeaseState a \<noteq> NoLeaseState"
      using ActivationAttempt_lease(2) [OF assms(1)] by simp
    then show ?thesis
      using assms(3,5) by (cases "at_IdentityLeaseState a") (auto simp: abortDecision_def split: if_splits)
  qed
  ultimately show ?thesis
    using assms(3,4) by (cases "op_State (at_Budget a)")
      (auto simp: abortDecision_def activationObligationsSettled_def Let_def split: if_splits)
qed

text \<open>The update \<open>ActionMarkAborted\<close> stands for.\<close>

definition marked_aborted :: "ActivationAttempt \<Rightarrow> Time \<Rightarrow> ActivationAttempt" where
  "marked_aborted a now =
     a\<lparr>at_Recovery := RecoveryAborted, at_Revision := at_Revision a + 1, at_UpdatedAt := now\<rparr>"

lemma marked_aborted_sel [simp]:
  "at_Recovery (marked_aborted a now) = RecoveryAborted" "at_Revision (marked_aborted a now) = at_Revision a + 1"
  "at_UpdatedAt (marked_aborted a now) = now" "at_ID (marked_aborted a now) = at_ID a"
  "at_Scope (marked_aborted a now) = at_Scope a" "at_Stage (marked_aborted a now) = at_Stage a"
  "at_ExpectedIdentityEpoch (marked_aborted a now) = at_ExpectedIdentityEpoch a"
  "at_RequirementDigest (marked_aborted a now) = at_RequirementDigest a"
  "at_Snapshot (marked_aborted a now) = at_Snapshot a" "at_IdentityLeaseID (marked_aborted a now) = at_IdentityLeaseID a"
  "at_IdentityLeaseState (marked_aborted a now) = at_IdentityLeaseState a"
  "at_IdentityLeaseRevision (marked_aborted a now) = at_IdentityLeaseRevision a"
  "at_Budget (marked_aborted a now) = at_Budget a"
  "at_SandboxReservation (marked_aborted a now) = at_SandboxReservation a"
  "at_SandboxActivation (marked_aborted a now) = at_SandboxActivation a"
  "at_FailureReason (marked_aborted a now) = at_FailureReason a" "at_CreatedAt (marked_aborted a now) = at_CreatedAt a"
  "hasUnknownOperation (marked_aborted a now) = hasUnknownOperation a"
  "activationObligationsSettled (marked_aborted a now) = activationObligationsSettled a"
  by (simp_all add: marked_aborted_def hasUnknownOperation_def activationObligationsSettled_def)

lemma marked_aborted_valid:
  assumes "ActivationAttempt_Validate a now = None" "at_Recovery a = RecoveryAborting"
    "activationObligationsSettled a" "at_UpdatedAt a \<le> now" "now \<noteq> 0" "at_Revision a + 1 \<noteq> 0"
  shows "ActivationAttempt_Validate (marked_aborted a now) now = None"
  using assms normal_no_unknown [OF assms(1)]
  by (cases "3 \<le> stageIndex (at_Stage a)"; cases "at_Snapshot a")
     (simp_all add: ActivationAttempt_Validate_def Let_def time_defs not_less)

lemma marked_aborted_transition:
  assumes "ActivationAttempt_Validate a now = None" "at_Recovery a = RecoveryAborting"
    "activationObligationsSettled a" "at_UpdatedAt a \<le> now" "now \<noteq> 0" "at_Revision a + 1 \<noteq> 0"
  shows "ValidateTransition a (marked_aborted a now) c now = None"
  using marked_aborted_valid [OF assms] assms
  by (simp add: ValidateTransition_def time_defs not_less option.case_eq_if)

section \<open>Properties\<close>

text \<open>
  Recovery planning is total on valid records: whatever stage, recovery state and operation states
  a valid journal record is in, a restarted coordinator gets a decision and never the internal error.
\<close>

theorem PlanRecovery_total: "ActivationAttempt_Validate a now = None \<Longrightarrow> \<exists>d. PlanRecovery a now = Inr d"
  using normalDecision_total [of a now] by (auto simp: PlanRecovery_def split: RecoveryState.splits)

lemma PlanRecovery_total_witness:
  "\<exists>d. PlanRecovery (sample_attempt StageIdentityLeaseReserved RecoveryNormal IdentityLeaseReserved
      OperationIntentRecorded OperationNotStarted 5) 50 = Inr d"
  by (rule PlanRecovery_total) (simp add: sample_attempt_valid)

text \<open>
  C12: Recovery never repeats an effect whose outcome is open. A decision to resolve the budget, reserve or
  activate the sandbox is only made when that operation is neither in flight nor of unknown outcome,
  and while any operation is of unknown outcome the decision is an inspection that is not automatic.
\<close>

theorem PlanRecovery_no_second_dispatch:
  assumes "PlanRecovery a now = Inr d"
  shows "(dec_Action d \<in> {ActionActivateSandbox, ActionReserveSandbox, ActionResolveBudget, ActionCommitActivation} \<longrightarrow>
       op_State (at_SandboxActivation a) \<notin> {OperationIntentRecorded, OperationUnknownOutcome}
       \<and> op_State (at_SandboxReservation a) \<notin> {OperationIntentRecorded, OperationUnknownOutcome}
       \<and> op_State (at_Budget a) \<notin> {OperationIntentRecorded, OperationUnknownOutcome})
    \<and> (hasUnknownOperation a \<longrightarrow> \<not> dec_AutomaticSafe d \<and>
       dec_Action d \<in> {ActionInspectSandboxActivation, ActionInspectSandboxReservation, ActionInspectBudget})"
  using assms
proof (cases rule: PlanRecovery_Inr)
  case aborted
  then show ?thesis using normal_no_unknown [OF PlanRecovery_valid [OF assms]] by auto
next
  case quarantined
  then show ?thesis by (auto simp: quarantinedDecision_def hasUnknownOperation_def)
next
  case aborting
  then show ?thesis using normal_no_unknown [OF PlanRecovery_valid [OF assms]] abort_actions [of a] by auto
next
  case normal
  then have "\<not> hasUnknownOperation a" using normal_no_unknown [OF PlanRecovery_valid [OF assms]] by simp
  then show ?thesis
    using normalDecision_dispatch [OF normal(2)] by (auto simp: hasUnknownOperation_def)
qed

lemma PlanRecovery_no_second_dispatch_witness:
  "op_State (at_Budget (sample_attempt StageSandboxReserved RecoveryNormal IdentityLeaseReserved
      OperationConfirmedApplied OperationConfirmedApplied 5)) \<noteq> OperationIntentRecorded"
proof -
  let ?a = "sample_attempt StageSandboxReserved RecoveryNormal IdentityLeaseReserved
      OperationConfirmedApplied OperationConfirmedApplied 5"
  have v: "ActivationAttempt_Validate ?a 50 = None" by (simp add: sample_attempt_valid)
  have "normalDecision ?a 50 = stage_decision StageSandboxReserved"
    by (simp add: normalDecision_def sample_attempt_def ActivationSnapshot_ValidateFresh_def time_defs)
  then have "PlanRecovery ?a 50 = stage_decision StageSandboxReserved"
    using v by (simp add: PlanRecovery_def) (simp add: sample_attempt_def)
  then have "PlanRecovery ?a 50 = Inr (decision ActionCommitActivation True ''all reservations are confirmed and the logical commit is next'')"
    by simp
  from PlanRecovery_no_second_dispatch [OF this] show ?thesis by auto
qed

text \<open>
  Abort releases in order: the budget is released only when no sandbox reservation is left, the
  identity slot is revoked or released only when neither is, a sandbox at its reserved stage is fenced
  before it is released; and when the plan says that the abort may be recorded, recording it is a legal
  update of the journal, unless a budget intent is still in flight.
\<close>

theorem abort_order:
  assumes "PlanRecovery a now = Inr d" "at_Recovery a = RecoveryAborting"
    "\<forall>s. at_IdentityLeaseState a = IdentityLeaseOther s \<longrightarrow> s = ''''"
  shows "(dec_Action d \<in> {ActionReleaseBudget, ActionRevokeIdentityLease, ActionReleaseIdentityLease, ActionMarkAborted} \<longrightarrow>
       op_State (at_SandboxReservation a) \<in> {OperationNotStarted, OperationNotRequired, OperationReleased, OperationConfirmedNotApplied})
    \<and> (dec_Action d \<in> {ActionRevokeIdentityLease, ActionReleaseIdentityLease, ActionMarkAborted} \<longrightarrow>
       op_State (at_Budget a) \<noteq> OperationConfirmedApplied)
    \<and> (dec_Action d = ActionReleaseSandbox \<and> op_State (at_SandboxReservation a) = OperationConfirmedApplied
       \<and> at_Stage a = StageSandboxReserved \<longrightarrow> at_SandboxFenced a)
    \<and> (dec_Action d = ActionMarkAborted \<and> op_State (at_Budget a) \<noteq> OperationIntentRecorded
       \<and> at_UpdatedAt a \<le> now \<and> now \<noteq> 0 \<and> at_Revision a + 1 \<noteq> 0 \<longrightarrow>
       ValidateTransition a (marked_aborted a now) c now = None)"
proof -
  have d: "d = abortDecision a" using assms(1,2) by (cases rule: PlanRecovery_Inr) auto
  note v = PlanRecovery_valid [OF assms(1)]
  have s: "dec_Action d = ActionMarkAborted \<Longrightarrow> op_State (at_Budget a) \<noteq> OperationIntentRecorded \<Longrightarrow>
      activationObligationsSettled a"
    using abortDecision_settled [OF v assms(2)] assms(3) d by blast
  show ?thesis
    using marked_aborted_transition [OF v assms(2) s] by (auto simp: d abortDecision_def split: if_splits)
qed

lemma sample_aborting:
  "PlanRecovery (sample_attempt StageIdentityLeaseReserved RecoveryAborting IdentityLeaseReleased b OperationNotStarted 5) 50
     = Inr (decision ActionMarkAborted True ''all activation obligations are settled'')"
  if "b \<in> {OperationNotStarted, OperationIntentRecorded}"
proof -
  let ?a = "sample_attempt StageIdentityLeaseReserved RecoveryAborting IdentityLeaseReleased b OperationNotStarted 5"
  have v: "ActivationAttempt_Validate ?a 50 = None" using that by (auto simp: sample_attempt_valid)
  then show ?thesis
    using that by (auto simp: PlanRecovery_def) (auto simp: sample_attempt_def abortDecision_def)
qed

lemma abort_order_witness:
  "ValidateTransition
     (sample_attempt StageIdentityLeaseReserved RecoveryAborting IdentityLeaseReleased OperationNotStarted OperationNotStarted 5)
     (marked_aborted (sample_attempt StageIdentityLeaseReserved RecoveryAborting IdentityLeaseReleased
        OperationNotStarted OperationNotStarted 5) 50) \<lparr>atc_UnknownResolved = False\<rparr> 50 = None"
  using abort_order [OF sample_aborting [of OperationNotStarted], of "\<lparr>atc_UnknownResolved = False\<rparr>"] by (simp add: sample_attempt_def)

text \<open>
  The exception is real: a valid aborting record whose budget intent is still in flight is answered
  with \<open>ActionMarkAborted\<close>, the reason being that all obligations are settled, and yet every update
  that only records the abort is refused with incomplete cleanup evidence.
\<close>

theorem abort_inflight_budget_refused:
  "\<exists>a d. ActivationAttempt_Validate a 50 = None \<and> op_State (at_Budget a) = OperationIntentRecorded
     \<and> PlanRecovery a 50 = Inr d \<and> dec_Action d = ActionMarkAborted
     \<and> ValidateTransition a (marked_aborted a 50) c 50
          = Some (DomainError ErrorPreconditionFailed ReasonCleanupEvidenceIncomplete)"
proof -
  let ?a = "sample_attempt StageIdentityLeaseReserved RecoveryAborting IdentityLeaseReleased
      OperationIntentRecorded OperationNotStarted 5"
  have v: "ActivationAttempt_Validate ?a 50 = None" by (simp add: sample_attempt_valid)
  have "\<not> activationObligationsSettled ?a"
    by (simp add: activationObligationsSettled_def sample_attempt_def)
  then have "ActivationAttempt_Validate (marked_aborted ?a 50) 50
      = Some (DomainError ErrorPreconditionFailed ReasonCleanupEvidenceIncomplete)"
    by (simp add: ActivationAttempt_Validate_def Let_def)
       (simp add: sample_attempt_def time_defs validStage_def graphic_ascii hasUnknownOperation_def)
  then have "ValidateTransition ?a (marked_aborted ?a 50) c 50
      = Some (DomainError ErrorPreconditionFailed ReasonCleanupEvidenceIncomplete)"
    using v by (simp add: ValidateTransition_def)
  then show ?thesis
    using v sample_aborting [of OperationIntentRecorded]
    by (intro exI [of _ ?a] exI [of _ "decision ActionMarkAborted True ''all activation obligations are settled''"])
       (simp add: sample_attempt_def)
qed

end
