(* ===== verification/FactStore.thy ===== *)
theory FactStore
  imports RunJournal Command Recovery
begin

text \<open>
  \<open>runtime/fakes/fact_store.go\<close>, the in-memory owner of runtime facts: its state, its keys, and the
  operations on run facts, with the interpretation of the port contract \<open>run_fact_port\<close>. The mutex makes
  each operation atomic. The clock is an argument of the operations that read it. Maps of pointers
  that nothing else shares hold the values; the identity leases, which two maps share, are cells of
  a heap, a list indexed by address that only grows.
\<close>

section \<open>State\<close>

record InstanceFacts =
  if_desired :: DesiredStateSnapshot
  if_commands :: "CommandRecord list"
  if_outbox :: "OutboxRecord list"
  if_idempotency :: "string \<rightharpoonup> CommandAcceptance"

record FactStore =
  fs_evidenceAvailable :: bool
  fs_instances :: "string \<rightharpoonup> InstanceFacts"
  fs_heap :: "IdentityExecutionLease list"
  fs_leases :: "string \<rightharpoonup> nat"
  fs_leaseIDs :: "string \<rightharpoonup> nat"
  fs_activations :: "string \<rightharpoonup> ActivationAttempt"
  fs_runs :: "string \<rightharpoonup> AgentRunRecord"
  fs_activeRuns :: "string \<rightharpoonup> string"
  fs_loseRunWriteReply :: bool

definition NewFactStore :: FactStore where
  "NewFactStore = \<lparr>fs_evidenceAvailable = True, fs_instances = Map.empty, fs_heap = [],
     fs_leases = Map.empty, fs_leaseIDs = Map.empty, fs_activations = Map.empty, fs_runs = Map.empty,
     fs_activeRuns = Map.empty, fs_loseRunWriteReply = False\<rparr>"

fun contextError :: "go_context \<Rightarrow> go_error option" where
  "contextError NilContext = Some (DomainError ErrorInvalidArgument ReasonInvalidReference)"
| "contextError LiveContext = None"
| "contextError CanceledContext = Some ContextCanceled"
| "contextError ExpiredContext = Some DeadlineExceeded"

section \<open>Keys\<close>

abbreviation slash :: string where
  "slash \<equiv> ''/''"

definition executionKey :: "ExecutionScope \<Rightarrow> string" where
  "executionKey scope = ident_TenantID (scope_Identity scope) @ slash @ ident_ID (scope_Identity scope) @ slash
     @ inst_ID (scope_Instance scope) @ slash @ dec (unat (inst_Epoch (scope_Instance scope)))"

definition runKey :: "ExecutionScope \<Rightarrow> string \<Rightarrow> string" where
  "runKey scope runID = executionKey scope @ slash @ runID"

definition sameScope :: "ExecutionScope \<Rightarrow> ExecutionScope \<Rightarrow> bool" where
  "sameScope left right \<longleftrightarrow>
     (if scope_Identity left \<noteq> scope_Identity right \<or> scope_Lineage left \<noteq> scope_Lineage right
         \<or> scope_Instance left \<noteq> scope_Instance right
         \<or> scope_AuthorityEpoch left \<noteq> scope_AuthorityEpoch right
      then False
      else case (scope_SandboxLease left, scope_SandboxLease right) of
             (Some l, Some r) \<Rightarrow> l = r
           | (l, r) \<Rightarrow> l = None \<and> r = None)"

lemma sameScope_eq [simp]: "sameScope s t \<longleftrightarrow> s = t"
  by (cases s; cases t) (auto simp: sameScope_def split: option.splits)

lemma runKey_inject [simp]: "runKey scope a = runKey scope b \<longleftrightarrow> a = b"
  by (simp add: runKey_def)

text \<open>
  The key of a scope determines the scope's instance only if its parts are read off the string in one
  way: an epoch is digits, so the last slash is the one before it, but tenants and identifiers may
  themselves contain slashes.
\<close>

lemma executionKey_split:
  "executionKey s =
     (ident_TenantID (scope_Identity s) @ slash @ ident_ID (scope_Identity s) @ slash @ inst_ID (scope_Instance s))
       @ CHR ''/'' # dec (unat (inst_Epoch (scope_Instance s)))"
  by (simp add: executionKey_def)

lemma executionKey_epoch:
  "executionKey s = executionKey t \<Longrightarrow> inst_Epoch (scope_Instance s) = inst_Epoch (scope_Instance t)"
  unfolding executionKey_split slash_dec_inject by (simp add: word_unat_eq_iff)

section \<open>Run operations\<close>

definition SetEvidenceAvailable :: "FactStore \<Rightarrow> bool \<Rightarrow> FactStore" where [step_defs]:
  "SetEvidenceAvailable s available = s\<lparr>fs_evidenceAvailable := available\<rparr>"

definition LoseNextRunWriteReply :: "FactStore \<Rightarrow> FactStore" where [step_defs]:
  "LoseNextRunWriteReply s = s\<lparr>fs_loseRunWriteReply := True\<rparr>"

definition consumeLostRunWriteReply :: "FactStore \<Rightarrow> FactStore \<times> bool" where
  "consumeLostRunWriteReply s =
     (if \<not> fs_loseRunWriteReply s then (s, False) else (s\<lparr>fs_loseRunWriteReply := False\<rparr>, True))"

text \<open>The end of the two run writes: the reply, or the injected loss of it.\<close>

definition run_reply :: "FactStore \<Rightarrow> AgentRunRecord \<Rightarrow> FactStore \<times> AgentRunRecord res" where
  "run_reply s r =
     (case consumeLostRunWriteReply s of
        (s', lost) \<Rightarrow>
          (s', if lost then Inl (DomainError ErrorUnavailable ReasonEvidenceUnavailable) else Inr r))"

definition CreateRun :: "FactStore \<Rightarrow> go_context \<Rightarrow> AgentRunRecord \<Rightarrow> FactStore \<times> AgentRunRecord res" where [step_defs]:
  "CreateRun s ctx initial =
     (let key = runKey (run_Scope initial) (run_ID initial);
          instanceKey = executionKey (run_Scope initial) in
      guarded
       (first_err
         [contextError ctx, AgentRunRecord_Validate initial,
          fail_if (run_Revision initial \<noteq> 1 \<or> run_Status initial \<noteq> RunPending \<and> run_Status initial \<noteq> RunRunning)
            ErrorInvalidArgument ReasonInvalidState,
          fail_if (fs_runs s key \<noteq> None) ErrorConflict ReasonAlreadyExists,
          fail_if (fs_activeRuns s instanceKey \<noteq> None) ErrorConflict ReasonRunConflict]) s
       (run_reply (s\<lparr>fs_runs := (fs_runs s)(key \<mapsto> initial),
                     fs_activeRuns := (fs_activeRuns s)(instanceKey \<mapsto> run_ID initial)\<rparr>) initial))"

definition InspectRun :: "FactStore \<Rightarrow> go_context \<Rightarrow> ExecutionScope \<Rightarrow> string \<Rightarrow> AgentRunRecord res" where
  "InspectRun s ctx scope runID =
     ensure (first_err [contextError ctx, ExecutionScope_Validate scope])
      (case fs_runs s (runKey scope runID) of
         None \<Rightarrow> Inl (DomainError ErrorNotFound ReasonInvalidReference)
       | Some r \<Rightarrow>
           if \<not> sameScope (run_Scope r) scope then Inl (DomainError ErrorNotFound ReasonInvalidReference)
           else Inr r)"

definition InspectActiveRun :: "FactStore \<Rightarrow> go_context \<Rightarrow> ExecutionScope \<Rightarrow> AgentRunRecord res" where
  "InspectActiveRun s ctx scope =
     ensure (first_err [contextError ctx, ExecutionScope_Validate scope])
      (case fs_activeRuns s (executionKey scope) of
         None \<Rightarrow> Inl (DomainError ErrorNotFound ReasonInvalidReference)
       | Some runID \<Rightarrow>
           (case fs_runs s (runKey scope runID) of
              None \<Rightarrow> Inl (DomainError ErrorInternal ReasonRunConflict)
            | Some r \<Rightarrow>
                if \<not> sameScope (run_Scope r) scope then Inl (DomainError ErrorInternal ReasonRunConflict)
                else Inr r))"

definition CompareAndSwapRun :: "FactStore \<Rightarrow> go_context \<Rightarrow> RunFactCASRequest \<Rightarrow> FactStore \<times> AgentRunRecord res" where [step_defs]:
  "CompareAndSwapRun s ctx request =
     guarded (first_err [contextError ctx, RunFactCASRequest_Validate request]) s
      (let nxt = cas_Next request; key = runKey (run_Scope nxt) (run_ID nxt);
           notFound = (s, Inl (DomainError ErrorNotFound ReasonInvalidReference)) in
       case fs_runs s key of
         None \<Rightarrow> notFound
       | Some record \<Rightarrow>
           if \<not> sameScope (run_Scope record) (run_Scope nxt) then notFound
           else
             guarded
              (first_err
                [fail_if (run_Revision record \<noteq> cas_ExpectedRevision request) ErrorConflict ReasonRevisionConflict,
                 ValidateRunFactTransition record nxt]) s
              (let instanceKey = executionKey (run_Scope nxt) in
               run_reply (s\<lparr>fs_runs := (fs_runs s)(key \<mapsto> nxt),
                            fs_activeRuns := (if run_Status nxt = RunTerminal
                              then (fs_activeRuns s)(instanceKey := None)
                              else (fs_activeRuns s)(instanceKey \<mapsto> run_ID nxt))\<rparr>) nxt))"

section \<open>Invariant of the run facts\<close>

text \<open>
  Each record is stored under its own key; the index \<open>activeRuns\<close> holds exactly the runs that are not
  terminal, one per instance key.
\<close>

definition runs_ok :: "FactStore \<Rightarrow> bool" where
  "runs_ok s \<longleftrightarrow>
     (\<forall>k r. fs_runs s k = Some r \<longrightarrow> k = runKey (run_Scope r) (run_ID r) \<and> AgentRunRecord_Validate r = None
        \<and> (run_Status r \<noteq> RunTerminal \<longrightarrow> fs_activeRuns s (executionKey (run_Scope r)) = Some (run_ID r)))
     \<and> (\<forall>e i. fs_activeRuns s e = Some i \<longrightarrow>
          (\<exists>r. fs_runs s (e @ slash @ i) = Some r \<and> run_Status r \<noteq> RunTerminal \<and> run_ID r = i
             \<and> executionKey (run_Scope r) = e))"

definition run_of :: "FactStore \<Rightarrow> ExecutionScope \<Rightarrow> string \<Rightarrow> AgentRunRecord option" where
  "run_of s scope i = (case fs_runs s (runKey scope i) of
     None \<Rightarrow> None | Some r \<Rightarrow> if run_Scope r = scope then Some r else None)"

lemma runs_okD:
  assumes "runs_ok s" "fs_runs s k = Some r"
  shows "k = runKey (run_Scope r) (run_ID r)" "AgentRunRecord_Validate r = None"
    "run_Status r \<noteq> RunTerminal \<Longrightarrow> fs_activeRuns s (executionKey (run_Scope r)) = Some (run_ID r)"
  using assms by (auto simp: runs_ok_def)

lemma runs_ok_active:
  assumes "runs_ok s" "fs_activeRuns s e = Some i"
  obtains r where "fs_runs s (e @ slash @ i) = Some r" "run_Status r \<noteq> RunTerminal" "run_ID r = i"
    "executionKey (run_Scope r) = e"
  using assms unfolding runs_ok_def by blast

lemma runs_ok_new [simp]: "runs_ok NewFactStore"
  by (simp add: runs_ok_def NewFactStore_def)

text \<open>The invariant only reads two fields of the store.\<close>

lemma runs_ok_cong: "fs_runs s' = fs_runs s \<Longrightarrow> fs_activeRuns s' = fs_activeRuns s \<Longrightarrow> runs_ok s' = runs_ok s"
  by (simp add: runs_ok_def)

lemma run_of_cong: "fs_runs s' = fs_runs s \<Longrightarrow> run_of s' = run_of s"
  by (intro ext) (simp add: run_of_def)

lemma run_reply_state: "run_reply s r = (s', x) \<Longrightarrow> s' = s\<lparr>fs_loseRunWriteReply := False\<rparr>
    \<and> (x = Inr r \<or> x = Inl (DomainError ErrorUnavailable ReasonEvidenceUnavailable) \<and> fs_loseRunWriteReply s)"
  by (cases s) (auto simp: run_reply_def consumeLostRunWriteReply_def split: if_splits)

lemma run_of_Some:
  "runs_ok s \<Longrightarrow> run_of s scope i = Some r \<Longrightarrow>
     run_Scope r = scope \<and> run_ID r = i \<and> AgentRunRecord_Validate r = None \<and> fs_runs s (runKey scope i) = Some r"
  using runs_okD [of s "runKey scope i"] by (auto simp: run_of_def split: option.splits if_splits)

lemma runKey_append: "executionKey scope @ slash @ i = runKey scope i"
  by (simp add: runKey_def)

text \<open>Two non-terminal records of one instance key are the same record.\<close>

lemma active_unique:
  assumes "runs_ok s" "fs_runs s k = Some r" "fs_runs s l = Some q"
    "run_Status r \<noteq> RunTerminal" "run_Status q \<noteq> RunTerminal"
    "executionKey (run_Scope r) = executionKey (run_Scope q)"
  shows "k = l \<and> r = q"
proof -
  have "run_ID r = run_ID q"
    using runs_okD(3) [OF assms(1,2,4)] runs_okD(3) [OF assms(1,3,5)] assms(6) by simp
  then have "k = l"
    using runs_okD(1) [OF assms(1,2)] runs_okD(1) [OF assms(1,3)] assms(6) by (simp add: runKey_def)
  then show ?thesis using assms(2,3) by simp
qed

section \<open>The port contract\<close>

text \<open>Writing a record under its key, with the index following its status, keeps the invariant.\<close>

definition put_run :: "FactStore \<Rightarrow> AgentRunRecord \<Rightarrow> FactStore" where
  "put_run s r = s\<lparr>fs_runs := (fs_runs s)(runKey (run_Scope r) (run_ID r) \<mapsto> r),
     fs_activeRuns := (fs_activeRuns s)(executionKey (run_Scope r) :=
        (if run_Status r = RunTerminal then None else Some (run_ID r)))\<rparr>"

lemma put_run_sel [simp]:
  "fs_runs (put_run s r) = (fs_runs s)(runKey (run_Scope r) (run_ID r) \<mapsto> r)"
  "fs_activeRuns (put_run s r) = (fs_activeRuns s)(executionKey (run_Scope r) :=
     (if run_Status r = RunTerminal then None else Some (run_ID r)))"
  by (simp_all add: put_run_def)

lemma put_run_ok:
  assumes s: "runs_ok s" and v: "AgentRunRecord_Validate r = None"
    and idle: "\<And>i. fs_activeRuns s (executionKey (run_Scope r)) = Some i \<Longrightarrow> i = run_ID r"
    and same: "\<And>q. fs_runs s (runKey (run_Scope r) (run_ID r)) = Some q \<Longrightarrow> run_Scope q = run_Scope r"
  shows "runs_ok (put_run s r)"
  unfolding runs_ok_def
proof (intro conjI allI impI, goal_cases)
  case (1 k q)
  then show ?case using runs_okD(1) [OF s, of k q] by (auto split: if_splits)
next
  case (2 k q)
  then show ?case using runs_okD(2) [OF s, of k q] v by (auto split: if_splits)
next
  case (3 k q)
  show ?case
  proof (cases "q = r")
    case True
    then show ?thesis using 3 by simp
  next
    case False
    then have q: "fs_runs s k = Some q" "k \<noteq> runKey (run_Scope r) (run_ID r)" using 3(1) by (auto split: if_splits)
    have act: "fs_activeRuns s (executionKey (run_Scope q)) = Some (run_ID q)" using runs_okD(3) [OF s q(1) 3(2)] .
    have "executionKey (run_Scope q) \<noteq> executionKey (run_Scope r)"
      using idle [of "run_ID q"] act q(2) runs_okD(1) [OF s q(1)] by (auto simp: runKey_def)
    then show ?thesis using act by simp
  qed
next
  case (4 e i)
  show ?case
  proof (cases "e = executionKey (run_Scope r)")
    case True
    then show ?thesis using 4 by (auto simp: runKey_def split: if_splits)
  next
    case False
    then have "fs_activeRuns s e = Some i" using 4 by simp
    from runs_ok_active [OF s this] obtain q where q: "fs_runs s (e @ slash @ i) = Some q"
      "run_Status q \<noteq> RunTerminal" "run_ID q = i" "executionKey (run_Scope q) = e" .
    have "runKey (run_Scope r) (run_ID r) \<noteq> e @ slash @ i"
      using same [of q] q(1,4) False by auto
    then show ?thesis using q False by auto
  qed
qed

lemma put_run_of:
  assumes "runs_ok s" "\<And>q. fs_runs s (runKey (run_Scope r) (run_ID r)) = Some q \<Longrightarrow> run_Scope q = run_Scope r"
  shows "run_of (put_run s r) scope i =
     (if scope = run_Scope r \<and> i = run_ID r then Some r else run_of s scope i)"
proof (cases "runKey scope i = runKey (run_Scope r) (run_ID r)")
  case True
  have "run_of s scope i = None" if "scope \<noteq> run_Scope r"
    using True assms(2) that by (auto simp: run_of_def split: option.splits)
  then show ?thesis using True by (auto simp: run_of_def)
next
  case False
  then show ?thesis by (auto simp: run_of_def)
qed

lemma run_reply_put:
  assumes "run_reply (put_run s r) r = (s', x)"
  shows "fs_runs s' = fs_runs (put_run s r)" "fs_activeRuns s' = fs_activeRuns (put_run s r)"
    "runs_ok s' = runs_ok (put_run s r)" "run_of s' = run_of (put_run s r)" "x = Inr r \<or> (\<exists>e. x = Inl e)"
  using run_reply_state [OF assms] runs_ok_cong [of s' "put_run s r"] run_of_cong [of s' "put_run s r"] by auto

lemma CreateRun_cases:
  assumes "CreateRun s ctx r = (s', x)"
  obtains (rejected) e where "s' = s" "x = Inl e"
  | (created) "contextError ctx = None" "AgentRunRecord_Validate r = None"
      "fs_runs s (runKey (run_Scope r) (run_ID r)) = None" "fs_activeRuns s (executionKey (run_Scope r)) = None"
      "run_Status r = RunPending \<or> run_Status r = RunRunning" "run_Revision r = 1"
      "run_reply (put_run s r) r = (s', x)"
proof -
  from assms consider (a) e where "s' = s" "x = Inl e"
    | (b) "contextError ctx = None" "AgentRunRecord_Validate r = None"
      "fs_runs s (runKey (run_Scope r) (run_ID r)) = None" "fs_activeRuns s (executionKey (run_Scope r)) = None"
      "run_Status r = RunPending \<or> run_Status r = RunRunning" "run_Revision r = 1"
      "run_reply (s\<lparr>fs_runs := (fs_runs s)(runKey (run_Scope r) (run_ID r) \<mapsto> r),
         fs_activeRuns := (fs_activeRuns s)(executionKey (run_Scope r) \<mapsto> run_ID r)\<rparr>) r = (s', x)"
    unfolding CreateRun_def Let_def by (rule guarded_cases) auto
  then show ?thesis
  proof cases
    case a
    then show ?thesis by (rule rejected)
  next
    case b
    then have "put_run s r = s\<lparr>fs_runs := (fs_runs s)(runKey (run_Scope r) (run_ID r) \<mapsto> r),
         fs_activeRuns := (fs_activeRuns s)(executionKey (run_Scope r) \<mapsto> run_ID r)\<rparr>"
      by (auto simp: put_run_def)
    with b show ?thesis by (intro created) simp_all
  qed
qed

lemma CompareAndSwapRun_cases:
  assumes "CompareAndSwapRun s ctx req = (s', x)"
  obtains (rejected) e where "s' = s" "x = Inl e"
  | (swapped) cur where "contextError ctx = None"
      "fs_runs s (runKey (run_Scope (cas_Next req)) (run_ID (cas_Next req))) = Some cur"
      "run_Scope cur = run_Scope (cas_Next req)" "run_Revision cur = cas_ExpectedRevision req"
      "ValidateRunFactTransition cur (cas_Next req) = None" "run_reply (put_run s (cas_Next req)) (cas_Next req) = (s', x)"
proof (cases "contextError ctx = None \<and> RunFactCASRequest_Validate req = None \<and>
    (\<exists>cur. fs_runs s (runKey (run_Scope (cas_Next req)) (run_ID (cas_Next req))) = Some cur \<and>
       run_Scope cur = run_Scope (cas_Next req) \<and> run_Revision cur = cas_ExpectedRevision req \<and>
       ValidateRunFactTransition cur (cas_Next req) = None)")
  case True
  then obtain cur where cur: "fs_runs s (runKey (run_Scope (cas_Next req)) (run_ID (cas_Next req))) = Some cur"
       "run_Scope cur = run_Scope (cas_Next req)" "run_Revision cur = cas_ExpectedRevision req"
       "ValidateRunFactTransition cur (cas_Next req) = None" by blast
  have "put_run s (cas_Next req) = s\<lparr>fs_runs := (fs_runs s)(runKey (run_Scope (cas_Next req)) (run_ID (cas_Next req)) \<mapsto> cas_Next req),
      fs_activeRuns := (if run_Status (cas_Next req) = RunTerminal
        then (fs_activeRuns s)(executionKey (run_Scope (cas_Next req)) := None)
        else (fs_activeRuns s)(executionKey (run_Scope (cas_Next req)) \<mapsto> run_ID (cas_Next req)))\<rparr>"
    by (simp add: put_run_def)
  then show ?thesis
    using assms True cur by (intro swapped [of cur]) (simp_all add: CompareAndSwapRun_def Let_def)
next
  case False
  then have "\<exists>e. s' = s \<and> x = Inl e"
    using assms unfolding CompareAndSwapRun_def Let_def
    by (auto elim!: guarded_cases split: option.splits if_splits)
  then show ?thesis using rejected by blast
qed

lemma FactStore_create:
  assumes s: "runs_ok s" and call: "CreateRun s ctx r = (s', x)"
  shows "runs_ok s' \<and> (x \<noteq> Inr r \<longrightarrow> (\<exists>e. x = Inl e)) \<and>
      (run_of s' = run_of s \<and> (\<exists>e. x = Inl e)
       \<or> run_of s (run_Scope r) (run_ID r) = None
         \<and> (\<forall>scope i. run_of s' scope i =
              (if scope = run_Scope r \<and> i = run_ID r then Some r else run_of s scope i)))"
  using call
proof (cases rule: CreateRun_cases)
  case created
  then have "runs_ok (put_run s r)" by (intro put_run_ok [OF s]) simp_all
  moreover have "run_of s (run_Scope r) (run_ID r) = None" using created(3) by (simp add: run_of_def)
  ultimately show ?thesis
    using run_reply_put [OF created(7)] created(3) put_run_of [OF s, of r] by auto
qed (use s in auto)

lemma FactStore_cas:
  assumes s: "runs_ok s" and call: "CompareAndSwapRun s ctx req = (s', x)"
  shows "runs_ok s' \<and> (x \<noteq> Inr (cas_Next req) \<longrightarrow> (\<exists>e. x = Inl e)) \<and>
      (run_of s' = run_of s \<and> (\<exists>e. x = Inl e) \<or> cas_effect run_of s (cas_Next req) s')"
  using call
proof (cases rule: CompareAndSwapRun_cases)
  case (swapped cur)
  define n where "n = cas_Next req"
  note w = swapped [folded n_def]
  note d = ValidateRunFactTransitionD [OF w(5)]
  have act: "fs_activeRuns s (executionKey (run_Scope n)) = Some (run_ID n)"
    using runs_okD(3) [OF s w(2) d(7)] unfolding d(3) d(4) .
  have same: "run_Scope q = run_Scope n" if "fs_runs s (runKey (run_Scope n) (run_ID n)) = Some q" for q
    using that w(2,3) by simp
  have ok: "runs_ok (put_run s n)"
    by (rule put_run_ok [OF s d(2)]) (use act same in simp_all)
  have "run_of s (run_Scope n) (run_ID n) = Some cur"
    using w(2,3) by (simp add: run_of_def)
  moreover have "run_of s' scope i = (if scope = run_Scope n \<and> i = run_ID n then Some n else run_of s scope i)" for scope i
    using run_reply_put(4) [OF w(6)] put_run_of [OF s same] by simp
  ultimately have "cas_effect run_of s n s'"
    using w(5) unfolding cas_effect_def by blast
  then show ?thesis
    using run_reply_put(3,5) [OF w(6)] ok unfolding n_def by blast
qed (use s in auto)

lemma InspectRun_run_of:
  "InspectRun s ctx scope i = Inr r \<longleftrightarrow>
     contextError ctx = None \<and> ExecutionScope_Validate scope = None \<and> run_of s scope i = Some r"
  by (auto simp: InspectRun_def run_of_def split: option.splits)

interpretation fs_runs: run_fact_port InspectRun CreateRun CompareAndSwapRun runs_ok run_of
proof unfold_locales
  show "runs_ok s \<Longrightarrow> run_of s scope i = Some r \<Longrightarrow>
      run_Scope r = scope \<and> run_ID r = i \<and> AgentRunRecord_Validate r = None" for s scope i r
    by (drule run_of_Some) auto
  show "runs_ok s \<Longrightarrow> InspectRun s ctx scope i = Inr r \<Longrightarrow> run_of s scope i = Some r" for s ctx scope i r
    by (simp add: InspectRun_run_of)
  show "runs_ok s \<Longrightarrow> ExecutionScope_Validate scope = None \<Longrightarrow> run_of s scope i = Some r \<Longrightarrow>
      InspectRun s LiveContext scope i = Inr r" for s scope i r
    by (simp add: InspectRun_run_of)
qed (use FactStore_create FactStore_cas in blast)+

end
