(* ===== verification/CommandStore.thy ===== *)
theory CommandStore
  imports FactStore
begin

text \<open>
  The command operations of \<open>runtime/fakes/fact_store.go\<close>: registering an instance's desired state,
  accepting commands with idempotency and domination, and the outbox.
\<close>

section \<open>Operations\<close>

definition commandIdempotencyKey :: "CommandEnvelope \<Rightarrow> string" where
  "commandIdempotencyKey e =
     ident_TenantID (scope_Identity (env_Target e)) @ slash @ env_Actor e @ slash
     @ inst_ID (scope_Instance (env_Target e)) @ slash @ dec (unat (inst_Epoch (scope_Instance (env_Target e))))
     @ slash @ CommandKind_string (env_Kind e) @ slash @ env_IdempotencyKey e"

definition CreateDesiredState ::
  "FactStore \<Rightarrow> go_context \<Rightarrow> DesiredStateSnapshot \<Rightarrow> FactStore \<times> DesiredStateSnapshot res" where [step_defs]:
  "CreateDesiredState s ctx initial =
     (let key = executionKey (ds_Scope initial) in
      guarded
       (first_err
         [contextError ctx, ExecutionScope_Validate (ds_Scope initial),
          fail_if (\<not> ValidDesiredExecutionState (ds_Desired initial) \<or> ds_Revision initial \<noteq> 1
                   \<or> ds_LastCommandID initial \<noteq> '''')
            ErrorInvalidArgument ReasonInvalidState,
          fail_if (fs_instances s key \<noteq> None) ErrorConflict ReasonAlreadyExists]) s
       (s\<lparr>fs_instances := (fs_instances s)(key \<mapsto>
           \<lparr>if_desired = initial, if_commands = [], if_outbox = [], if_idempotency = Map.empty\<rparr>)\<rparr>,
        Inr initial))"

text \<open>A command that has been accepted and not yet ended.\<close>

definition command_open :: "CommandRecord \<Rightarrow> bool" where
  "command_open c \<longleftrightarrow> crec_Status c = CommandAccepted \<or> crec_Status c = CommandExecuting"

text \<open>The loop over the recorded commands: the first one that dominates or has the same identifier.\<close>

fun scan_commands :: "CommandEnvelope \<Rightarrow> CommandRecord list \<Rightarrow> go_error option" where
  "scan_commands e [] = None"
| "scan_commands e (c # cs) =
     (if command_open c \<and> CommandSupersedes (crec_Envelope c) e
      then Some (DomainError ErrorPreconditionFailed ReasonCommandDominated)
      else if env_ID (crec_Envelope c) = env_ID e then Some (DomainError ErrorConflict ReasonAlreadyExists)
      else scan_commands e cs)"

definition supersede_commands :: "CommandEnvelope \<Rightarrow> CommandRecord list \<Rightarrow> CommandRecord list" where
  "supersede_commands e cs =
     map (\<lambda>c. if command_open c \<and> CommandSupersedes e (crec_Envelope c)
              then c\<lparr>crec_Status := CommandSuperseded\<rparr> else c) cs"

definition accept_command :: "InstanceFacts \<Rightarrow> CommandIntent \<Rightarrow> Time \<Rightarrow> InstanceFacts \<times> CommandAcceptance" where
  "accept_command f intent now =
     (let e = cint_Envelope intent;
          nextRevision = ds_Revision (if_desired f) + 1;
          record1 = \<lparr>crec_Envelope = e, crec_Revision = nextRevision, crec_Status = CommandAccepted, crec_RecordedAt = now\<rparr>;
          desired = \<lparr>ds_Scope = ds_Scope (if_desired f), ds_Desired = mut_Desired (cint_Mutation intent),
                     ds_Revision = nextRevision, ds_LastCommandID = env_ID e\<rparr>;
          outbox = \<lparr>ob_CommandID = env_ID e, ob_Revision = nextRevision, ob_PayloadDigest = env_CanonicalPayloadDigest e,
                    ob_RecordedAt = now, ob_Dispatched = False\<rparr>;
          acceptance = \<lparr>acc_Record = record1, acc_DesiredState = desired, acc_Outbox = outbox\<rparr>
      in (\<lparr>if_desired = desired, if_commands = supersede_commands e (if_commands f) @ [record1],
           if_outbox = if_outbox f @ [outbox],
           if_idempotency = (if_idempotency f)(commandIdempotencyKey e \<mapsto> acceptance)\<rparr>, acceptance))"

definition AcceptCommand ::
  "FactStore \<Rightarrow> go_context \<Rightarrow> CommandIntent \<Rightarrow> Time \<Rightarrow> FactStore \<times> CommandAcceptance res" where [step_defs]:
  "AcceptCommand s ctx intent now =
     (let e = cint_Envelope intent; key = executionKey (env_Target e) in
      guarded
       (first_err
         [contextError ctx, CommandEnvelope_Validate e,
          DesiredStateMutation_ValidateFor (cint_Mutation intent) (env_Kind e),
          fail_if (\<not> Before now (env_ExpiresAt e)) ErrorPreconditionFailed ReasonInvalidReference]) s
       (case fs_instances s key of
          None \<Rightarrow> (s, Inl (DomainError ErrorNotFound ReasonInvalidReference))
        | Some f \<Rightarrow>
            (case if_idempotency f (commandIdempotencyKey e) of
               Some prior \<Rightarrow>
                 if env_CanonicalPayloadDigest (crec_Envelope (acc_Record prior)) \<noteq> env_CanonicalPayloadDigest e
                 then (s, Inl (DomainError ErrorConflict ReasonIdempotencyPayloadMismatch))
                 else (s, Inr prior)
             | None \<Rightarrow>
                 guarded
                  (first_err
                    [fail_if (\<not> sameScope (ds_Scope (if_desired f)) (env_Target e))
                       ErrorPreconditionFailed ReasonStaleInstanceEpoch,
                     CheckExecutionPreconditions (env_Preconditions e)
                       \<lparr>cur_Scope = ds_Scope (if_desired f), cur_Revision = ds_Revision (if_desired f)\<rparr>,
                     fail_if (isNonLifecycleCommand (env_Kind e)
                              \<and> mut_Desired (cint_Mutation intent) \<noteq> ds_Desired (if_desired f))
                       ErrorInvalidArgument ReasonInvalidState,
                     fail_if (\<not> fs_evidenceAvailable s) ErrorUnavailable ReasonEvidenceUnavailable,
                     scan_commands e (if_commands f)]) s
                  (case accept_command f intent now of
                     (f', acceptance) \<Rightarrow> (s\<lparr>fs_instances := (fs_instances s)(key \<mapsto> f')\<rparr>, Inr acceptance)))))"

text \<open>The look-up the four readers share.\<close>

definition instance_of :: "FactStore \<Rightarrow> ExecutionScope \<Rightarrow> InstanceFacts res" where
  "instance_of s scope =
     (case fs_instances s (executionKey scope) of
        None \<Rightarrow> Inl (DomainError ErrorNotFound ReasonInvalidReference)
      | Some f \<Rightarrow>
          if \<not> sameScope (ds_Scope (if_desired f)) scope then Inl (DomainError ErrorNotFound ReasonInvalidReference)
          else Inr f)"

definition ReadDesiredState :: "FactStore \<Rightarrow> go_context \<Rightarrow> ExecutionScope \<Rightarrow> DesiredStateSnapshot res" where
  "ReadDesiredState s ctx scope =
     ensure (contextError ctx) (bind_res (instance_of s scope) (\<lambda>f. Inr (if_desired f)))"

definition ListCommands :: "FactStore \<Rightarrow> go_context \<Rightarrow> ExecutionScope \<Rightarrow> CommandRecord list res" where
  "ListCommands s ctx scope =
     ensure (contextError ctx) (bind_res (instance_of s scope) (\<lambda>f. Inr (if_commands f)))"

definition ListOutbox :: "FactStore \<Rightarrow> go_context \<Rightarrow> ExecutionScope \<Rightarrow> OutboxRecord list res" where
  "ListOutbox s ctx scope =
     ensure (contextError ctx) (bind_res (instance_of s scope) (\<lambda>f. Inr (if_outbox f)))"

text \<open>The loop over the outbox: the first record of the command is marked, if its revision matches.\<close>

fun mark_dispatched :: "string \<Rightarrow> Revision \<Rightarrow> OutboxRecord list \<Rightarrow> OutboxRecord list \<times> OutboxRecord res" where
  "mark_dispatched commandID n [] = ([], Inl (DomainError ErrorNotFound ReasonInvalidReference))"
| "mark_dispatched commandID n (o1 # os) =
     (if ob_CommandID o1 = commandID then
        if ob_Revision o1 \<noteq> n then (o1 # os, Inl (DomainError ErrorConflict ReasonRevisionConflict))
        else (o1\<lparr>ob_Dispatched := True\<rparr> # os, Inr (o1\<lparr>ob_Dispatched := True\<rparr>))
      else (case mark_dispatched commandID n os of (os', r) \<Rightarrow> (o1 # os', r)))"

definition MarkOutboxDispatched ::
  "FactStore \<Rightarrow> go_context \<Rightarrow> ExecutionScope \<Rightarrow> string \<Rightarrow> Revision \<Rightarrow> FactStore \<times> OutboxRecord res" where [step_defs]:
  "MarkOutboxDispatched s ctx scope commandID n =
     guarded
      (first_err
        [contextError ctx, fail_if (blank commandID \<or> n = 0) ErrorInvalidArgument ReasonInvalidReference]) s
      (case instance_of s scope of
         Inl e \<Rightarrow> (s, Inl e)
       | Inr f \<Rightarrow>
           (case mark_dispatched commandID n (if_outbox f) of
              (os, r) \<Rightarrow> (s\<lparr>fs_instances := (fs_instances s)(executionKey scope \<mapsto> f\<lparr>if_outbox := os\<rparr>)\<rparr>, r)))"

section \<open>Invariant of an instance's commands\<close>

text \<open>The commands are numbered by the revisions they were accepted at, under different identifiers.\<close>

definition cmds_numbered :: "InstanceFacts \<Rightarrow> bool" where
  "cmds_numbered f \<longleftrightarrow>
     map crec_Revision (if_commands f) = map (\<lambda>i. word_of_nat (i + 2)) [0..<length (if_commands f)]
     \<and> ds_Revision (if_desired f) = word_of_nat (length (if_commands f) + 1)
     \<and> distinct (map (\<lambda>c. env_ID (crec_Envelope c)) (if_commands f))"

text \<open>Each command has its outbox record, in the same order.\<close>

definition cmds_outbox :: "InstanceFacts \<Rightarrow> bool" where
  "cmds_outbox f \<longleftrightarrow>
     map (\<lambda>c. (env_ID (crec_Envelope c), crec_Revision c, env_CanonicalPayloadDigest (crec_Envelope c))) (if_commands f)
       = map (\<lambda>o1. (ob_CommandID o1, ob_Revision o1, ob_PayloadDigest o1)) (if_outbox f)"

text \<open>They target the instance's own scope, and no open command dominates another open one.\<close>

definition cmds_targets :: "InstanceFacts \<Rightarrow> bool" where
  "cmds_targets f \<longleftrightarrow>
     (\<forall>c \<in> set (if_commands f). env_Target (crec_Envelope c) = ds_Scope (if_desired f)
        \<and> (crec_Status c = CommandAccepted \<or> crec_Status c = CommandSuperseded))"

definition cmds_undominated :: "InstanceFacts \<Rightarrow> bool" where
  "cmds_undominated f \<longleftrightarrow>
     (\<forall>c \<in> set (if_commands f). \<forall>d \<in> set (if_commands f).
        command_open c \<and> command_open d \<longrightarrow> \<not> CommandSupersedes (crec_Envelope c) (crec_Envelope d))"

definition stops :: "CommandKind \<Rightarrow> bool" where
  "stops k \<longleftrightarrow> k = CommandFence \<or> k = CommandRevoke \<or> k = CommandStopInstance"

text \<open>A recorded stop, fence or revocation stays open, and while there is one the instance is not to run.\<close>

definition cmds_stopped :: "InstanceFacts \<Rightarrow> bool" where
  "cmds_stopped f \<longleftrightarrow>
     (\<forall>c \<in> set (if_commands f). stops (env_Kind (crec_Envelope c)) \<longrightarrow>
        command_open c \<and> ds_Desired (if_desired f) \<noteq> DesiredRunning)"

text \<open>The replies kept for retries are those of recorded commands, under their own keys.\<close>

definition cmds_replies :: "InstanceFacts \<Rightarrow> bool" where
  "cmds_replies f \<longleftrightarrow>
     (\<forall>k a. if_idempotency f k = Some a \<longrightarrow> k = commandIdempotencyKey (crec_Envelope (acc_Record a))
        \<and> (\<exists>c \<in> set (if_commands f). crec_Envelope c = crec_Envelope (acc_Record a)
             \<and> crec_Revision c = crec_Revision (acc_Record a)))"

definition commands_ok :: "InstanceFacts \<Rightarrow> bool" where
  "commands_ok f \<longleftrightarrow> cmds_numbered f \<and> cmds_outbox f \<and> cmds_targets f \<and> cmds_undominated f \<and> cmds_stopped f
     \<and> cmds_replies f"

definition instances_ok :: "FactStore \<Rightarrow> bool" where
  "instances_ok s \<longleftrightarrow> (\<forall>k f. fs_instances s k = Some f \<longrightarrow> k = executionKey (ds_Scope (if_desired f)) \<and> commands_ok f)"

subsection \<open>Accepting a command keeps it\<close>

lemma scan_commands_None:
  "scan_commands e cs = None \<longleftrightarrow>
     (\<forall>c \<in> set cs. \<not> (command_open c \<and> CommandSupersedes (crec_Envelope c) e) \<and> env_ID (crec_Envelope c) \<noteq> env_ID e)"
  by (induction cs) auto

lemma supersede_commands_map [simp]:
  "map crec_Revision (supersede_commands e cs) = map crec_Revision cs"
  "map (\<lambda>c. env_ID (crec_Envelope c)) (supersede_commands e cs) = map (\<lambda>c. env_ID (crec_Envelope c)) cs"
  "map (\<lambda>c. (env_ID (crec_Envelope c), crec_Revision c, env_CanonicalPayloadDigest (crec_Envelope c))) (supersede_commands e cs)
     = map (\<lambda>c. (env_ID (crec_Envelope c), crec_Revision c, env_CanonicalPayloadDigest (crec_Envelope c))) cs"
  "length (supersede_commands e cs) = length cs"
  by (simp_all add: supersede_commands_def)

lemma supersede_commands_set:
  "c \<in> set (supersede_commands e cs) \<longleftrightarrow>
     (\<exists>d \<in> set cs. c = (if command_open d \<and> CommandSupersedes e (crec_Envelope d)
                        then d\<lparr>crec_Status := CommandSuperseded\<rparr> else d))"
  by (auto simp: supersede_commands_def)

lemma command_open_simps [simp]:
  "\<not> command_open (c\<lparr>crec_Status := CommandSuperseded\<rparr>)"
  "command_open \<lparr>crec_Envelope = e, crec_Revision = n, crec_Status = CommandAccepted, crec_RecordedAt = t\<rparr>"
  by (simp_all add: command_open_def)

text \<open>An open command after the pass was open before it and is not dominated by the new one.\<close>

lemma supersede_open:
  assumes "c \<in> set (supersede_commands e cs)" "command_open c"
  shows "c \<in> set cs" "\<not> CommandSupersedes e (crec_Envelope c)"
proof -
  from assms(1) obtain d where d: "d \<in> set cs" "c = (if command_open d \<and> CommandSupersedes e (crec_Envelope d)
      then d\<lparr>crec_Status := CommandSuperseded\<rparr> else d)"
    by (auto simp: supersede_commands_set)
  then have "\<not> (command_open d \<and> CommandSupersedes e (crec_Envelope d))"
    using assms(2) by (metis command_open_simps(1))
  with d assms(2) show "c \<in> set cs" "\<not> CommandSupersedes e (crec_Envelope c)" by auto
qed

lemma supersede_from:
  "c \<in> set (supersede_commands e cs) \<Longrightarrow> \<exists>d \<in> set cs. crec_Envelope c = crec_Envelope d
     \<and> crec_Revision c = crec_Revision d \<and> (crec_Status c = crec_Status d \<or> crec_Status c = CommandSuperseded)"
  by (auto simp: supersede_commands_def)

lemma supersede_to:
  "d \<in> set cs \<Longrightarrow> \<exists>c \<in> set (supersede_commands e cs). crec_Envelope c = crec_Envelope d
     \<and> crec_Revision c = crec_Revision d"
  by (induction cs) (auto simp: supersede_commands_def)

lemma accept_command_sel:
  assumes "accept_command f intent now = (f', a)"
  shows "if_desired f' = acc_DesiredState a" "if_outbox f' = if_outbox f @ [acc_Outbox a]"
    "if_commands f' = supersede_commands (cint_Envelope intent) (if_commands f) @ [acc_Record a]"
    "if_idempotency f' = (if_idempotency f)(commandIdempotencyKey (cint_Envelope intent) \<mapsto> a)"
    "acc_Record a = \<lparr>crec_Envelope = cint_Envelope intent, crec_Revision = ds_Revision (if_desired f) + 1,
       crec_Status = CommandAccepted, crec_RecordedAt = now\<rparr>"
    "acc_DesiredState a = \<lparr>ds_Scope = ds_Scope (if_desired f), ds_Desired = mut_Desired (cint_Mutation intent),
       ds_Revision = ds_Revision (if_desired f) + 1, ds_LastCommandID = env_ID (cint_Envelope intent)\<rparr>"
    "acc_Outbox a = \<lparr>ob_CommandID = env_ID (cint_Envelope intent), ob_Revision = ds_Revision (if_desired f) + 1,
       ob_PayloadDigest = env_CanonicalPayloadDigest (cint_Envelope intent), ob_RecordedAt = now, ob_Dispatched = False\<rparr>"
  using assms by (auto simp: accept_command_def Let_def)

lemma accept_numbered:
  assumes "cmds_numbered f" "accept_command f intent now = (f', a)" "scan_commands (cint_Envelope intent) (if_commands f) = None"
  shows "cmds_numbered f'"
  using assms(1,3) accept_command_sel [OF assms(2)]
  by (auto simp: cmds_numbered_def scan_commands_None add.commute supersede_commands_set)

lemma accept_outbox:
  assumes "cmds_outbox f" "accept_command f intent now = (f', a)" shows "cmds_outbox f'"
  using assms(1) accept_command_sel [OF assms(2)] by (simp add: cmds_outbox_def)

lemma accept_targets:
  assumes "cmds_targets f" "accept_command f intent now = (f', a)" "ds_Scope (if_desired f) = env_Target (cint_Envelope intent)"
  shows "cmds_targets f'"
  using assms(1,3) accept_command_sel [OF assms(2)] by (auto simp: cmds_targets_def dest!: supersede_from)

lemma accept_undominated:
  assumes "cmds_undominated f" "accept_command f intent now = (f', a)"
    "scan_commands (cint_Envelope intent) (if_commands f) = None"
  shows "cmds_undominated f'"
proof -
  have "\<not> CommandSupersedes (crec_Envelope c) (crec_Envelope d)"
    if "c \<in> set (if_commands f')" "d \<in> set (if_commands f')" "command_open c" "command_open d" for c d
    using that assms(1,3) accept_command_sel(3,5) [OF assms(2)] supersede_open [of c "cint_Envelope intent" "if_commands f"]
      supersede_open [of d "cint_Envelope intent" "if_commands f"]
      CommandSupersedes_height [of "cint_Envelope intent" "cint_Envelope intent" "cint_Envelope intent"]
    by (auto simp: cmds_undominated_def scan_commands_None)
  then show ?thesis by (simp add: cmds_undominated_def)
qed

lemma stops_not_dominated: "stops (env_Kind e) \<Longrightarrow> \<not> CommandSupersedes d e"
  by (auto simp: stops_def dest: CommandSupersedes_kinds)

lemma stops_dominate_start:
  "stops (env_Kind c) \<Longrightarrow> env_Target c = env_Target e \<Longrightarrow> env_Kind e = CommandStart \<or> env_Kind e = CommandResume \<Longrightarrow>
     CommandSupersedes c e"
  by (auto simp: stops_def CommandSupersedes_def)

text \<open>The desired state after a command, given the check of its mutation.\<close>

lemma mutation_not_running:
  assumes "DesiredStateMutation_ValidateFor m k = None" "mut_Desired m = DesiredRunning"
  shows "k = CommandStart \<or> k = CommandResume \<or> isNonLifecycleCommand k"
  using assms by (cases k) (auto simp: DesiredStateMutation_ValidateFor_def isNonLifecycleCommand_def)

lemma accept_stopped:
  assumes ok: "cmds_stopped f" "cmds_targets f" and acc: "accept_command f intent now = (f', a)"
    and scan: "scan_commands (cint_Envelope intent) (if_commands f) = None"
    and scope: "ds_Scope (if_desired f) = env_Target (cint_Envelope intent)"
    and mut: "DesiredStateMutation_ValidateFor (cint_Mutation intent) (env_Kind (cint_Envelope intent)) = None"
    and same: "isNonLifecycleCommand (env_Kind (cint_Envelope intent)) \<Longrightarrow>
      mut_Desired (cint_Mutation intent) = ds_Desired (if_desired f)"
  shows "cmds_stopped f'"
proof -
  note sel = accept_command_sel [OF acc]
  have old: "command_open c \<and> mut_Desired (cint_Mutation intent) \<noteq> DesiredRunning"
    if c: "c \<in> set (if_commands f)" "stops (env_Kind (crec_Envelope c))" for c
  proof -
    have o: "command_open c" "ds_Desired (if_desired f) \<noteq> DesiredRunning"
      using ok(1) c by (auto simp: cmds_stopped_def)
    have "\<not> CommandSupersedes (crec_Envelope c) (cint_Envelope intent)"
      using scan c(1) o(1) by (auto simp: scan_commands_None)
    then have "env_Kind (cint_Envelope intent) \<noteq> CommandStart" "env_Kind (cint_Envelope intent) \<noteq> CommandResume"
      using stops_dominate_start [OF c(2), of "cint_Envelope intent"] ok(2) c(1) scope by (auto simp: cmds_targets_def)
    then show ?thesis using o mutation_not_running [OF mut] same by auto
  qed
  have new: "mut_Desired (cint_Mutation intent) \<noteq> DesiredRunning" if "stops (env_Kind (cint_Envelope intent))"
    using mutation_not_running [OF mut] that by (auto simp: stops_def isNonLifecycleCommand_def)
  have "command_open c \<and> mut_Desired (cint_Mutation intent) \<noteq> DesiredRunning"
    if c: "c \<in> set (if_commands f')" "stops (env_Kind (crec_Envelope c))" for c
  proof (cases "c = acc_Record a")
    case True
    then show ?thesis using new c(2) sel(5) by simp
  next
    case False
    then have "c \<in> set (supersede_commands (cint_Envelope intent) (if_commands f))" using c(1) sel(3) by simp
    then obtain d where d: "d \<in> set (if_commands f)" "c = (if command_open d \<and>
        CommandSupersedes (cint_Envelope intent) (crec_Envelope d) then d\<lparr>crec_Status := CommandSuperseded\<rparr> else d)"
      by (auto simp: supersede_commands_set)
    then have "stops (env_Kind (crec_Envelope d))" using c(2) by (auto split: if_splits)
    then show ?thesis using old d stops_not_dominated by simp
  qed
  then show ?thesis
    by (simp add: cmds_stopped_def sel(1,6))
qed

lemma accept_replies:
  assumes "cmds_replies f" "accept_command f intent now = (f', a)" shows "cmds_replies f'"
proof -
  note sel = accept_command_sel [OF assms(2)]
  have keep: "\<exists>d \<in> set (if_commands f'). crec_Envelope d = crec_Envelope c \<and> crec_Revision d = crec_Revision c"
    if "c \<in> set (if_commands f)" for c
    using supersede_to [OF that] unfolding sel(3) by auto
  have "k = commandIdempotencyKey (crec_Envelope (acc_Record b))
      \<and> (\<exists>c \<in> set (if_commands f'). crec_Envelope c = crec_Envelope (acc_Record b) \<and> crec_Revision c = crec_Revision (acc_Record b))"
    if b: "if_idempotency f' k = Some b" for k b
  proof (cases "k = commandIdempotencyKey (cint_Envelope intent)")
    case True
    then have "b = a" using b by (simp add: sel(4))
    then show ?thesis using True by (simp add: sel(3,5))
  next
    case False
    then have "if_idempotency f k = Some b" using b by (simp add: sel(4))
    then obtain c where c: "c \<in> set (if_commands f)" "crec_Envelope c = crec_Envelope (acc_Record b)"
      "crec_Revision c = crec_Revision (acc_Record b)" "k = commandIdempotencyKey (crec_Envelope (acc_Record b))"
      using assms(1) unfolding cmds_replies_def by blast
    from keep [OF c(1)] show ?thesis unfolding c(2,3) using c(4) by simp
  qed
  then show ?thesis by (simp add: cmds_replies_def)
qed

subsection \<open>The operations keep it\<close>

lemma AcceptCommand_cases:
  assumes "AcceptCommand s ctx intent now = (s', x)"
  obtains (rejected) e where "s' = s" "x = Inl e"
  | (replayed) f a where "s' = s" "x = Inr a" "fs_instances s (executionKey (env_Target (cint_Envelope intent))) = Some f"
      "if_idempotency f (commandIdempotencyKey (cint_Envelope intent)) = Some a"
      "env_CanonicalPayloadDigest (crec_Envelope (acc_Record a)) = env_CanonicalPayloadDigest (cint_Envelope intent)"
  | (accepted) f f' a where "x = Inr a" "fs_instances s (executionKey (env_Target (cint_Envelope intent))) = Some f"
      "if_idempotency f (commandIdempotencyKey (cint_Envelope intent)) = None"
      "accept_command f intent now = (f', a)"
      "s' = s\<lparr>fs_instances := (fs_instances s)(executionKey (env_Target (cint_Envelope intent)) \<mapsto> f')\<rparr>"
      "contextError ctx = None" "CommandEnvelope_Validate (cint_Envelope intent) = None"
      "DesiredStateMutation_ValidateFor (cint_Mutation intent) (env_Kind (cint_Envelope intent)) = None"
      "now < env_ExpiresAt (cint_Envelope intent)" "ds_Scope (if_desired f) = env_Target (cint_Envelope intent)"
      "env_Preconditions (cint_Envelope intent) = preconditions_of
         \<lparr>cur_Scope = ds_Scope (if_desired f), cur_Revision = ds_Revision (if_desired f)\<rparr>"
      "isNonLifecycleCommand (env_Kind (cint_Envelope intent)) \<longrightarrow>
         mut_Desired (cint_Mutation intent) = ds_Desired (if_desired f)"
      "fs_evidenceAvailable s" "scan_commands (cint_Envelope intent) (if_commands f) = None"
  using assms [unfolded AcceptCommand_def Let_def]
proof (cases rule: guarded_cases)
  case (fail e)
  then show thesis by (intro rejected)
next
  case pass
  show thesis
  proof (cases "fs_instances s (executionKey (env_Target (cint_Envelope intent)))")
    case None
    then show thesis using pass(2) by (auto intro: rejected)
  next
    case f: (Some f)
    show thesis
    proof (cases "if_idempotency f (commandIdempotencyKey (cint_Envelope intent))")
      case (Some a)
      then show thesis using pass(2) f by (auto split: if_splits intro: rejected replayed)
    next
      case None
      obtain f' a where acc: "accept_command f intent now = (f', a)" by (cases "accept_command f intent now")
      from pass(2) [unfolded f None acc option.case prod.case] show thesis
      proof (cases rule: guarded_cases)
        case (fail e)
        then show thesis by (intro rejected)
      next
        case inner: pass
        show thesis
          by (rule accepted [OF _ f None acc])
             (use inner pass(1) in \<open>simp_all add: time_defs CheckExecutionPreconditions_iff\<close>)
      qed
    qed
  qed
qed

lemma instances_ok_put:
  "instances_ok s \<Longrightarrow> commands_ok f \<Longrightarrow> k = executionKey (ds_Scope (if_desired f)) \<Longrightarrow>
     instances_ok (s\<lparr>fs_instances := (fs_instances s)(k \<mapsto> f)\<rparr>)"
  by (auto simp: instances_ok_def split: if_splits)

lemma accept_command_ok:
  assumes "commands_ok f" "accept_command f intent now = (f', a)"
    "scan_commands (cint_Envelope intent) (if_commands f) = None"
    "ds_Scope (if_desired f) = env_Target (cint_Envelope intent)"
    "DesiredStateMutation_ValidateFor (cint_Mutation intent) (env_Kind (cint_Envelope intent)) = None"
    "isNonLifecycleCommand (env_Kind (cint_Envelope intent)) \<longrightarrow> mut_Desired (cint_Mutation intent) = ds_Desired (if_desired f)"
  shows "commands_ok f'"
  using assms(1) accept_numbered [OF _ assms(2,3)] accept_outbox [OF _ assms(2)] accept_targets [OF _ assms(2,4)]
    accept_undominated [OF _ assms(2,3)] accept_stopped [OF _ _ assms(2-5)] assms(6) accept_replies [OF _ assms(2)]
  unfolding commands_ok_def by blast

lemma AcceptCommand_ok:
  assumes ok: "instances_ok s" and "AcceptCommand s ctx intent now = (s', x)" shows "instances_ok s'"
  using assms(2)
proof (cases rule: AcceptCommand_cases)
  case (accepted f f' a)
  have "commands_ok f" using ok accepted(2) by (auto simp: instances_ok_def)
  from accept_command_ok [OF this accepted(4,14,10,8,12)] have "commands_ok f'" .
  moreover have "ds_Scope (if_desired f') = env_Target (cint_Envelope intent)"
    using accept_command_sel(1,6) [OF accepted(4)] accepted(10) by simp
  ultimately show ?thesis using instances_ok_put [OF ok, of f'] by (simp add: accepted(5))
qed (use ok in auto)

lemma commands_ok_empty:
  "ds_Revision d = 1 \<Longrightarrow>
     commands_ok \<lparr>if_desired = d, if_commands = [], if_outbox = [], if_idempotency = Map.empty\<rparr>"
  by (simp add: commands_ok_def cmds_numbered_def cmds_outbox_def cmds_targets_def cmds_undominated_def
      cmds_stopped_def cmds_replies_def)

lemma CreateDesiredState_ok:
  assumes "instances_ok s" "CreateDesiredState s ctx initial = (s', x)" shows "instances_ok s'"
  using assms(2) [unfolded CreateDesiredState_def Let_def]
proof (cases rule: guarded_cases)
  case pass
  then show ?thesis using instances_ok_put [OF assms(1) commands_ok_empty [of initial]] by simp
qed (use assms(1) in simp)

lemma mark_dispatched_keeps:
  "mark_dispatched i n os = (os', r) \<Longrightarrow>
     map (\<lambda>o1. (ob_CommandID o1, ob_Revision o1, ob_PayloadDigest o1)) os'
       = map (\<lambda>o1. (ob_CommandID o1, ob_Revision o1, ob_PayloadDigest o1)) os"
  by (induction os arbitrary: os') (auto split: if_splits prod.splits)

lemma instance_of_Inr:
  "instance_of s scope = Inr f \<longleftrightarrow> fs_instances s (executionKey scope) = Some f \<and> ds_Scope (if_desired f) = scope"
  by (auto simp: instance_of_def split: option.splits)

lemma commands_ok_outbox:
  "commands_ok f \<Longrightarrow> map (\<lambda>o1. (ob_CommandID o1, ob_Revision o1, ob_PayloadDigest o1)) os
     = map (\<lambda>o1. (ob_CommandID o1, ob_Revision o1, ob_PayloadDigest o1)) (if_outbox f) \<Longrightarrow>
   commands_ok (f\<lparr>if_outbox := os\<rparr>)"
  by (simp add: commands_ok_def cmds_numbered_def cmds_outbox_def cmds_targets_def cmds_undominated_def
      cmds_stopped_def cmds_replies_def)

lemma MarkOutboxDispatched_cases:
  assumes "MarkOutboxDispatched s ctx scope i n = (s', x)"
  obtains (rejected) e where "s' = s" "x = Inl e"
  | (marked) f os where "fs_instances s (executionKey scope) = Some f" "ds_Scope (if_desired f) = scope"
      "mark_dispatched i n (if_outbox f) = (os, x)"
      "s' = s\<lparr>fs_instances := (fs_instances s)(executionKey scope \<mapsto> f\<lparr>if_outbox := os\<rparr>)\<rparr>"
  using assms [unfolded MarkOutboxDispatched_def]
proof (cases rule: guarded_cases)
  case (fail e)
  then show thesis by (intro rejected)
next
  case pass
  show thesis
  proof (cases "instance_of s scope")
    case (Inl e)
    then show thesis using pass(2) by (auto intro: rejected)
  next
    case (Inr f)
    obtain os r where m: "mark_dispatched i n (if_outbox f) = (os, r)" by (cases "mark_dispatched i n (if_outbox f)")
    from pass(2) [unfolded Inr m sum.case prod.case] have "s' = s\<lparr>fs_instances := (fs_instances s)
        (executionKey scope \<mapsto> f\<lparr>if_outbox := os\<rparr>)\<rparr>" "x = r" by auto
    then show thesis using Inr m by (intro marked [of f os]) (simp_all add: instance_of_Inr)
  qed
qed

lemma MarkOutboxDispatched_ok:
  assumes ok: "instances_ok s" and "MarkOutboxDispatched s ctx scope i n = (s', x)" shows "instances_ok s'"
  using assms(2)
proof (cases rule: MarkOutboxDispatched_cases)
  case (marked f os)
  have "commands_ok (f\<lparr>if_outbox := os\<rparr>)"
    using ok marked(1) commands_ok_outbox [OF _ mark_dispatched_keeps [OF marked(3)]] unfolding instances_ok_def by blast
  then show ?thesis
    using instances_ok_put [OF ok, of "f\<lparr>if_outbox := os\<rparr>" "executionKey scope"] marked(2) by (simp add: marked(4))
qed (use ok in auto)

lemma instances_ok_cong: "fs_instances s' = fs_instances s \<Longrightarrow> instances_ok s' = instances_ok s"
  by (simp add: instances_ok_def)

lemma instances_ok_new [simp]: "instances_ok NewFactStore"
  by (simp add: instances_ok_def NewFactStore_def)

end
