(* ===== verification/LeaseStore.thy ===== *)
theory LeaseStore
  imports CommandStore
begin

text \<open>
  The identity-lease operations of \<open>runtime/fakes/fact_store.go\<close>. The maps \<open>leases\<close> (by identity) and
  \<open>leaseIDs\<close> (by lease identifier) point to the same cells: a lease changed through one is seen through
  the other, and a cell replaced in \<open>leases\<close> stays reachable through \<open>leaseIDs\<close>.
\<close>

section \<open>Operations\<close>

definition identityKey :: "string \<Rightarrow> string \<Rightarrow> string" where
  "identityKey tenantID identityID = tenantID @ slash @ identityID"

definition leaseID :: "string \<Rightarrow> string \<Rightarrow> Epoch \<Rightarrow> string" where
  "leaseID tenantID identityID epoch = tenantID @ slash @ identityID @ ''/lease/'' @ dec (unat epoch)"

definition expired_lease :: "IdentityExecutionLease \<Rightarrow> Time \<Rightarrow> IdentityExecutionLease" where
  "expired_lease l now =
     (if (il_State l = IdentityLeaseReserved \<or> il_State l = IdentityLeaseActive) \<and> \<not> Before now (il_ExpiresAt l)
      then l\<lparr>il_State := IdentityLeaseExpired, il_Revision := il_Revision l + 1\<rparr> else l)"

definition expireLeaseIfNeeded :: "FactStore \<Rightarrow> nat \<Rightarrow> Time \<Rightarrow> FactStore" where
  "expireLeaseIfNeeded s p now = s\<lparr>fs_heap := (fs_heap s)[p := expired_lease (fs_heap s ! p) now]\<rparr>"

definition new_lease :: "ReserveIdentityLeaseRequest \<Rightarrow> IdentityExecutionLease" where
  "new_lease r =
     (let newEpoch = rs_ExpectedIdentityEpoch r + 1 in
      \<lparr>il_ID = leaseID (rs_TenantID r) (rs_IdentityID r) newEpoch,
       il_Identity = \<lparr>ident_TenantID = rs_TenantID r, ident_ID = rs_IdentityID r, ident_Epoch = newEpoch\<rparr>,
       il_Lineage = rs_Lineage r, il_ActivationAttemptID = rs_ActivationAttemptID r,
       il_State = IdentityLeaseReserved, il_AuthorityEpoch = rs_AuthorityEpoch r,
       il_ExpiresAt = rs_ExpiresAt r, il_Revision = 1\<rparr>)"

text \<open>A fresh cell, and both maps pointing to it.\<close>

definition store_lease :: "FactStore \<Rightarrow> string \<Rightarrow> IdentityExecutionLease \<Rightarrow> FactStore" where
  "store_lease s key l =
     s\<lparr>fs_heap := fs_heap s @ [l], fs_leases := (fs_leases s)(key \<mapsto> length (fs_heap s)),
       fs_leaseIDs := (fs_leaseIDs s)(il_ID l \<mapsto> length (fs_heap s))\<rparr>"

definition ReserveIdentityLease ::
  "FactStore \<Rightarrow> go_context \<Rightarrow> ReserveIdentityLeaseRequest \<Rightarrow> Time \<Rightarrow> FactStore \<times> IdentityExecutionLease res" where [step_defs]:
  "ReserveIdentityLease s ctx r now =
     guarded (first_err [contextError ctx, ReserveIdentityLeaseRequest_Validate r now]) s
      (let key = identityKey (rs_TenantID r) (rs_IdentityID r) in
       case fs_leases s key of
         None \<Rightarrow>
           guarded (fail_if (rs_ExpectedIdentityEpoch r \<noteq> 0) ErrorPreconditionFailed ReasonStaleIdentityEpoch) s
             (store_lease s key (new_lease r), Inr (new_lease r))
       | Some p \<Rightarrow>
           (let s1 = expireLeaseIfNeeded s p now; current = fs_heap s1 ! p in
            if il_State current = IdentityLeaseReserved \<and> il_ActivationAttemptID current = rs_ActivationAttemptID r
               \<and> il_Lineage current = rs_Lineage r \<and> il_AuthorityEpoch current = rs_AuthorityEpoch r
               \<and> rs_ExpectedIdentityEpoch r + 1 = ident_Epoch (il_Identity current)
            then (s1, Inr current)
            else if il_State current = IdentityLeaseReserved \<or> il_State current = IdentityLeaseActive
            then (s1, Inl (DomainError ErrorConflict ReasonIdentityLeaseConflict))
            else if ident_Epoch (il_Identity current) \<noteq> rs_ExpectedIdentityEpoch r
            then (s1, Inl (DomainError ErrorPreconditionFailed ReasonStaleIdentityEpoch))
            else (store_lease s1 key (new_lease r), Inr (new_lease r))))"

definition mutateLease ::
  "FactStore \<Rightarrow> go_context \<Rightarrow> string \<Rightarrow> Revision \<Rightarrow> (IdentityExecutionLease \<Rightarrow> Time \<Rightarrow> IdentityExecutionLease res)
     \<Rightarrow> Time \<Rightarrow> FactStore \<times> IdentityExecutionLease res" where
  "mutateLease s ctx i expected mutate now =
     guarded
      (first_err [contextError ctx, fail_if (blank i \<or> expected = 0) ErrorInvalidArgument ReasonInvalidReference]) s
      (case fs_leaseIDs s i of
         None \<Rightarrow> (s, Inl (DomainError ErrorNotFound ReasonInvalidReference))
       | Some p \<Rightarrow>
           (let s1 = expireLeaseIfNeeded s p now; l = fs_heap s1 ! p in
            if il_Revision l \<noteq> expected then (s1, Inl (DomainError ErrorConflict ReasonStaleLeaseRevision))
            else (case mutate l now of
                    Inl e \<Rightarrow> (s1, Inl e)
                  | Inr l' \<Rightarrow>
                      (let n = l'\<lparr>il_Revision := il_Revision l' + 1\<rparr> in
                       (s1\<lparr>fs_heap := (fs_heap s1)[p := n]\<rparr>, Inr n)))))"

definition RenewIdentityLease ::
  "FactStore \<Rightarrow> go_context \<Rightarrow> RenewIdentityLeaseRequest \<Rightarrow> Time \<Rightarrow> FactStore \<times> IdentityExecutionLease res" where [step_defs]:
  "RenewIdentityLease s ctx r now =
     mutateLease s ctx (rn_LeaseID r) (rn_ExpectedRevision r)
      (\<lambda>l now.
         ensure (first_err
           [fail_if (rn_AuthorityEpoch r = 0 \<or> il_AuthorityEpoch l \<noteq> rn_AuthorityEpoch r)
              ErrorPreconditionFailed ReasonStaleAuthorityEpoch,
            fail_if (il_State l \<noteq> IdentityLeaseActive \<or> \<not> After (rn_ExpiresAt r) now)
              ErrorPreconditionFailed ReasonIdentityLeaseStateInvalid])
          (Inr (l\<lparr>il_ExpiresAt := rn_ExpiresAt r\<rparr>))) now"

definition RevokeIdentityLease ::
  "FactStore \<Rightarrow> go_context \<Rightarrow> EndIdentityLeaseRequest \<Rightarrow> Time \<Rightarrow> FactStore \<times> IdentityExecutionLease res" where [step_defs]:
  "RevokeIdentityLease s ctx r now =
     mutateLease s ctx (en_LeaseID r) (en_ExpectedRevision r)
      (\<lambda>l now.
         ensure (fail_if (blank (en_Reason r) \<or> il_State l \<noteq> IdentityLeaseReserved \<and> il_State l \<noteq> IdentityLeaseActive)
                   ErrorPreconditionFailed ReasonIdentityLeaseStateInvalid)
          (Inr (l\<lparr>il_State := IdentityLeaseRevoked\<rparr>))) now"

definition ReleaseIdentityLease ::
  "FactStore \<Rightarrow> go_context \<Rightarrow> EndIdentityLeaseRequest \<Rightarrow> Time \<Rightarrow> FactStore \<times> IdentityExecutionLease res" where [step_defs]:
  "ReleaseIdentityLease s ctx r now =
     mutateLease s ctx (en_LeaseID r) (en_ExpectedRevision r)
      (\<lambda>l now.
         ensure (fail_if (blank (en_Reason r) \<or> il_State l = IdentityLeaseReleased \<or> il_State l = IdentityLeaseActive)
                   ErrorPreconditionFailed ReasonIdentityLeaseStateInvalid)
          (Inr (l\<lparr>il_State := IdentityLeaseReleased\<rparr>))) now"

definition InspectIdentityLease ::
  "FactStore \<Rightarrow> go_context \<Rightarrow> string \<Rightarrow> string \<Rightarrow> Time \<Rightarrow> FactStore \<times> IdentityExecutionLease res" where [step_defs]:
  "InspectIdentityLease s ctx tenantID identityID now =
     guarded (contextError ctx) s
      (case fs_leases s (identityKey tenantID identityID) of
         None \<Rightarrow> (s, Inl (DomainError ErrorNotFound ReasonInvalidReference))
       | Some p \<Rightarrow> (let s1 = expireLeaseIfNeeded s p now in (s1, Inr (fs_heap s1 ! p))))"

section \<open>Invariant\<close>

text \<open>
  Addresses are in range and cells sit under their own keys; a cell that holds an identity is the one
  its identity's key points to, so there is at most one holder per key.
\<close>

definition lease_key :: "IdentityExecutionLease \<Rightarrow> string" where
  "lease_key l = identityKey (ident_TenantID (il_Identity l)) (ident_ID (il_Identity l))"

definition leases_ok :: "FactStore \<Rightarrow> bool" where
  "leases_ok s \<longleftrightarrow>
     (\<forall>k p. fs_leases s k = Some p \<longrightarrow> p < length (fs_heap s) \<and> lease_key (fs_heap s ! p) = k)
     \<and> (\<forall>i p. fs_leaseIDs s i = Some p \<longrightarrow> p < length (fs_heap s) \<and> il_ID (fs_heap s ! p) = i)
     \<and> (\<forall>p < length (fs_heap s). lease_held (fs_heap s ! p) \<longrightarrow> fs_leases s (lease_key (fs_heap s ! p)) = Some p)"

text \<open>What becomes of a lease: it is never given back once it is not held, and a release is final.\<close>

definition lease_kept :: "IdentityExecutionLease \<Rightarrow> IdentityExecutionLease \<Rightarrow> bool" where
  "lease_kept l l' \<longleftrightarrow>
     il_ID l' = il_ID l \<and> il_Identity l' = il_Identity l \<and> il_Lineage l' = il_Lineage l
     \<and> il_ActivationAttemptID l' = il_ActivationAttemptID l \<and> il_AuthorityEpoch l' = il_AuthorityEpoch l
     \<and> (lease_held l' \<longrightarrow> lease_held l)
     \<and> (il_State l' = IdentityLeaseReserved \<longrightarrow> l' = l)
     \<and> (il_State l = IdentityLeaseReleased \<longrightarrow> l' = l)"

lemma lease_kept_refl [simp]: "lease_kept l l"
  by (simp add: lease_kept_def)

lemma lease_kept_trans: "lease_kept l m \<Longrightarrow> lease_kept m n \<Longrightarrow> lease_kept l n"
  unfolding lease_kept_def by metis

lemma lease_kept_key: "lease_kept l m \<Longrightarrow> lease_key m = lease_key l \<and> il_ID m = il_ID l"
  by (simp add: lease_kept_def lease_key_def)

lemma expired_lease_kept [simp]: "lease_kept l (expired_lease l now)"
  by (auto simp: lease_kept_def expired_lease_def lease_held_def)

lemma expired_lease_held: "lease_held (expired_lease l now) \<Longrightarrow> now < il_ExpiresAt l \<and> expired_lease l now = l"
  by (auto simp: expired_lease_def lease_held_def time_defs split: if_splits)

definition heap_kept :: "FactStore \<Rightarrow> FactStore \<Rightarrow> bool" where
  "heap_kept s s' \<longleftrightarrow> length (fs_heap s) \<le> length (fs_heap s')
     \<and> (\<forall>p < length (fs_heap s). lease_kept (fs_heap s ! p) (fs_heap s' ! p))"

lemma heap_kept_refl [simp]: "heap_kept s s"
  by (simp add: heap_kept_def)

lemma heap_kept_trans: "heap_kept s t \<Longrightarrow> heap_kept t u \<Longrightarrow> heap_kept s u"
  unfolding heap_kept_def by (meson lease_kept_trans less_le_trans order_trans)

text \<open>Replacing the contents of one cell by something it may become keeps the invariant.\<close>

definition put_lease :: "FactStore \<Rightarrow> nat \<Rightarrow> IdentityExecutionLease \<Rightarrow> FactStore" where
  "put_lease s p l = s\<lparr>fs_heap := (fs_heap s)[p := l]\<rparr>"

lemma put_lease_sel [simp]:
  "fs_heap (put_lease s p l) = (fs_heap s)[p := l]" "fs_leases (put_lease s p l) = fs_leases s"
  "fs_leaseIDs (put_lease s p l) = fs_leaseIDs s"
  by (simp_all add: put_lease_def)

lemma expireLeaseIfNeeded_put: "expireLeaseIfNeeded s p now = put_lease s p (expired_lease (fs_heap s ! p) now)"
  by (simp add: expireLeaseIfNeeded_def put_lease_def)

lemma put_lease_kept:
  assumes "lease_kept (fs_heap s ! p) l" shows "heap_kept s (put_lease s p l)"
  unfolding heap_kept_def
proof (intro conjI allI impI)
  fix q assume "q < length (fs_heap s)"
  then show "lease_kept (fs_heap s ! q) (fs_heap (put_lease s p l) ! q)"
    using assms by (cases "q = p") simp_all
qed simp

lemma leases_okD:
  assumes "leases_ok s"
  shows "fs_leases s k = Some p \<Longrightarrow> p < length (fs_heap s) \<and> lease_key (fs_heap s ! p) = k"
    "fs_leaseIDs s i = Some p \<Longrightarrow> p < length (fs_heap s) \<and> il_ID (fs_heap s ! p) = i"
    "p < length (fs_heap s) \<Longrightarrow> lease_held (fs_heap s ! p) \<Longrightarrow> fs_leases s (lease_key (fs_heap s ! p)) = Some p"
  using assms unfolding leases_ok_def by blast+

lemma put_lease_ok:
  assumes ok: "leases_ok s" and kept: "lease_kept (fs_heap s ! p) l" shows "leases_ok (put_lease s p l)"
proof -
  have "lease_kept (fs_heap s ! q) (fs_heap (put_lease s p l) ! q)" if "q < length (fs_heap s)" for q
    using put_lease_kept [OF kept] that unfolding heap_kept_def by blast
  then have key: "lease_key (fs_heap (put_lease s p l) ! q) = lease_key (fs_heap s ! q)"
    and i: "il_ID (fs_heap (put_lease s p l) ! q) = il_ID (fs_heap s ! q)"
    and held: "lease_held (fs_heap (put_lease s p l) ! q) \<Longrightarrow> lease_held (fs_heap s ! q)"
    if "q < length (fs_heap s)" for q
    using that lease_kept_key unfolding lease_kept_def by blast+
  have len: "length (fs_heap (put_lease s p l)) = length (fs_heap s)" by simp
  show ?thesis
    unfolding leases_ok_def len
  proof (intro conjI allI impI)
    fix k q assume "fs_leases (put_lease s p l) k = Some q"
    then have "q < length (fs_heap s) \<and> lease_key (fs_heap s ! q) = k"
      using leases_okD(1) [OF ok] by simp
    then show "q < length (fs_heap s)" "lease_key (fs_heap (put_lease s p l) ! q) = k"
      using key by auto
  next
    fix j q assume "fs_leaseIDs (put_lease s p l) j = Some q"
    then have "q < length (fs_heap s) \<and> il_ID (fs_heap s ! q) = j"
      using leases_okD(2) [OF ok] by simp
    then show "q < length (fs_heap s)" "il_ID (fs_heap (put_lease s p l) ! q) = j"
      using i by auto
  next
    fix q assume q: "q < length (fs_heap s)" "lease_held (fs_heap (put_lease s p l) ! q)"
    show "fs_leases (put_lease s p l) (lease_key (fs_heap (put_lease s p l) ! q)) = Some q"
      using leases_okD(3) [OF ok q(1) held [OF q]] key [OF q(1)] by simp
  qed
qed

text \<open>A new cell under a key that nobody holds keeps it too.\<close>

lemma store_lease_sel [simp]:
  "fs_heap (store_lease s key l) = fs_heap s @ [l]"
  "fs_leases (store_lease s key l) = (fs_leases s)(key \<mapsto> length (fs_heap s))"
  "fs_leaseIDs (store_lease s key l) = (fs_leaseIDs s)(il_ID l \<mapsto> length (fs_heap s))"
  by (simp_all add: store_lease_def)

lemma store_lease_ok:
  assumes ok: "leases_ok s" and key: "key = lease_key l"
    and free: "\<And>p. fs_leases s key = Some p \<Longrightarrow> \<not> lease_held (fs_heap s ! p)"
  shows "leases_ok (store_lease s key l)"
  unfolding leases_ok_def
proof (intro conjI allI impI)
  fix k p assume "fs_leases (store_lease s key l) k = Some p"
  then show "p < length (fs_heap (store_lease s key l))" "lease_key (fs_heap (store_lease s key l) ! p) = k"
    using leases_okD(1) [OF ok, of k p] key by (auto simp: nth_append split: if_splits)
next
  fix i p assume "fs_leaseIDs (store_lease s key l) i = Some p"
  then show "p < length (fs_heap (store_lease s key l))" "il_ID (fs_heap (store_lease s key l) ! p) = i"
    using leases_okD(2) [OF ok, of i p] by (auto simp: nth_append split: if_splits)
next
  fix p assume p: "p < length (fs_heap (store_lease s key l))" "lease_held (fs_heap (store_lease s key l) ! p)"
  show "fs_leases (store_lease s key l) (lease_key (fs_heap (store_lease s key l) ! p)) = Some p"
  proof (cases "p = length (fs_heap s)")
    case True
    then show ?thesis by (simp add: key)
  next
    case False
    then have q: "p < length (fs_heap s)" "lease_held (fs_heap s ! p)" using p by (auto simp: nth_append)
    then have "lease_key (fs_heap s ! p) \<noteq> key" using leases_okD(3) [OF ok q] free by auto
    then show ?thesis using leases_okD(3) [OF ok q] q(1) by (simp add: nth_append)
  qed
qed

lemma store_lease_kept: "heap_kept s (store_lease s key l)"
  by (simp add: heap_kept_def nth_append)

section \<open>The operations keep it\<close>

text \<open>A successful or refused mutation of a lease: at most an expiry and one replacement of a cell.\<close>

lemma expire_ok:
  "leases_ok s \<Longrightarrow> leases_ok (expireLeaseIfNeeded s p now) \<and> heap_kept s (expireLeaseIfNeeded s p now)"
  by (simp add: expireLeaseIfNeeded_put put_lease_ok put_lease_kept)

lemma expire_nth:
  "p < length (fs_heap s) \<Longrightarrow> fs_heap (expireLeaseIfNeeded s p now) ! p = expired_lease (fs_heap s ! p) now"
  by (simp add: expireLeaseIfNeeded_def)

lemma mutateLease_ok:
  assumes ok: "leases_ok s" and call: "mutateLease s ctx i n mutate now = (s', x)"
    and mut: "\<And>l l'. mutate l now = Inr l' \<Longrightarrow> lease_kept l (l'\<lparr>il_Revision := il_Revision l' + 1\<rparr>)"
    and fresh: "\<And>l l'. mutate l now = Inr l' \<Longrightarrow> lease_held l' \<Longrightarrow> now < il_ExpiresAt l'"
  shows "leases_ok s' \<and> heap_kept s s' \<and> (\<forall>l. x = Inr l \<longrightarrow> lease_held l \<longrightarrow> now < il_ExpiresAt l)"
  using call [unfolded mutateLease_def Let_def]
proof (cases rule: guarded_cases)
  case (fail e)
  then show ?thesis using ok by simp
next
  case pass
  show ?thesis
  proof (cases "fs_leaseIDs s i")
    case None
    then show ?thesis using pass(2) ok by auto
  next
    case (Some p)
    define s1 where "s1 = expireLeaseIfNeeded s p now"
    have s1: "leases_ok s1" "heap_kept s s1" using expire_ok [OF ok] by (auto simp: s1_def)
    show ?thesis
    proof (cases "il_Revision (fs_heap s1 ! p) = n \<and> (\<exists>l. mutate (fs_heap s1 ! p) now = Inr l)")
      case False
      then have "s' = s1 \<and> (\<exists>e. x = Inl e)"
        using pass(2) [unfolded Some option.case, folded s1_def] sum.exhaust [of "mutate (fs_heap s1 ! p) now"]
        by (metis (no_types, lifting) old.sum.simps(5) prod.inject)
      then show ?thesis using s1 by auto
    next
      case True
      then obtain l where l: "mutate (fs_heap s1 ! p) now = Inr l" by blast
      let ?l = "l\<lparr>il_Revision := il_Revision l + 1\<rparr>"
      have r: "s' = put_lease s1 p ?l" "x = Inr ?l"
        using pass(2) Some True l by (auto simp: s1_def put_lease_def)
      show ?thesis
        using put_lease_ok [OF s1(1) mut [OF l]] heap_kept_trans [OF s1(2) put_lease_kept [OF mut [OF l]]] fresh [OF l]
        by (simp add: r lease_held_def)
    qed
  qed
qed

lemma RenewIdentityLease_ok:
  "leases_ok s \<Longrightarrow> RenewIdentityLease s ctx r now = (s', x) \<Longrightarrow>
     leases_ok s' \<and> heap_kept s s' \<and> (\<forall>l. x = Inr l \<longrightarrow> lease_held l \<longrightarrow> now < il_ExpiresAt l)"
  unfolding RenewIdentityLease_def
  by (erule (1) mutateLease_ok) (auto simp: lease_kept_def lease_held_def time_defs)

lemma RevokeIdentityLease_ok:
  "leases_ok s \<Longrightarrow> RevokeIdentityLease s ctx r now = (s', x) \<Longrightarrow>
     leases_ok s' \<and> heap_kept s s' \<and> (\<forall>l. x = Inr l \<longrightarrow> lease_held l \<longrightarrow> now < il_ExpiresAt l)"
  unfolding RevokeIdentityLease_def
  by (erule (1) mutateLease_ok) (auto simp: lease_kept_def lease_held_def time_defs)

lemma ReleaseIdentityLease_ok:
  "leases_ok s \<Longrightarrow> ReleaseIdentityLease s ctx r now = (s', x) \<Longrightarrow>
     leases_ok s' \<and> heap_kept s s' \<and> (\<forall>l. x = Inr l \<longrightarrow> lease_held l \<longrightarrow> now < il_ExpiresAt l)"
  unfolding ReleaseIdentityLease_def
  by (erule (1) mutateLease_ok) (auto simp: lease_kept_def lease_held_def time_defs)

lemma InspectIdentityLease_ok:
  assumes ok: "leases_ok s" and call: "InspectIdentityLease s ctx tenant i now = (s', x)"
  shows "leases_ok s' \<and> heap_kept s s' \<and> (\<forall>l. x = Inr l \<longrightarrow> lease_held l \<longrightarrow> now < il_ExpiresAt l)"
proof (cases "contextError ctx = None \<and> (\<exists>p. fs_leases s (identityKey tenant i) = Some p)")
  case False
  then have "s' = s \<and> (\<exists>e. x = Inl e)"
    using call by (auto simp: InspectIdentityLease_def elim!: guarded_cases)
  then show ?thesis using ok by auto
next
  case True
  then obtain p where p: "fs_leases s (identityKey tenant i) = Some p" by blast
  have len: "p < length (fs_heap s)" using leases_okD(1) [OF ok p] by simp
  have "s' = expireLeaseIfNeeded s p now" "x = Inr (expired_lease (fs_heap s ! p) now)"
    using call True p expire_nth [OF len] by (auto simp: InspectIdentityLease_def Let_def)
  then show ?thesis using expire_ok [OF ok] expired_lease_held [of "fs_heap s ! p" now] by auto
qed

lemma new_lease_sel [simp]:
  "lease_key (new_lease r) = identityKey (rs_TenantID r) (rs_IdentityID r)"
  "il_State (new_lease r) = IdentityLeaseReserved" "il_ExpiresAt (new_lease r) = rs_ExpiresAt r"
  by (simp_all add: new_lease_def lease_key_def Let_def)

lemma ReserveIdentityLease_ok:
  assumes ok: "leases_ok s" and call: "ReserveIdentityLease s ctx r now = (s', x)"
  shows "leases_ok s' \<and> heap_kept s s' \<and> (\<forall>l. x = Inr l \<longrightarrow> lease_held l \<longrightarrow> now < il_ExpiresAt l)"
  using call [unfolded ReserveIdentityLease_def Let_def]
proof (cases rule: guarded_cases)
  case (fail e)
  then show ?thesis using ok by simp
next
  case pass
  let ?k = "identityKey (rs_TenantID r) (rs_IdentityID r)"
  have fresh: "now < rs_ExpiresAt r"
    using pass(1) by (simp add: ReserveIdentityLeaseRequest_Validate_def time_defs)
  show ?thesis
  proof (cases "fs_leases s ?k")
    case None
    have "leases_ok (store_lease s ?k (new_lease r))"
      by (rule store_lease_ok [OF ok]) (use None in simp_all)
    then show ?thesis
      using pass(2) None ok fresh store_lease_kept [of s] by (auto elim!: guarded_cases)
  next
    case (Some p)
    define s1 where "s1 = expireLeaseIfNeeded s p now"
    have s1: "leases_ok s1" "heap_kept s s1" using expire_ok [OF ok] by (auto simp: s1_def)
    have len: "p < length (fs_heap s)" using leases_okD(1) [OF ok Some] by simp
    have cur: "lease_held (fs_heap s1 ! p) \<Longrightarrow> now < il_ExpiresAt (fs_heap s1 ! p)"
      using expire_nth [OF len] expired_lease_held [of "fs_heap s ! p" now] by (simp add: s1_def)
    have "s' = s1 \<and> x = Inr (fs_heap s1 ! p) \<or> s' = s1 \<and> (\<exists>e. x = Inl e)
      \<or> \<not> lease_held (fs_heap s1 ! p) \<and> s' = store_lease s1 ?k (new_lease r) \<and> x = Inr (new_lease r)"
      using pass(2) [unfolded Some option.case, folded s1_def]
      by (simp add: lease_held_def split: if_split_asm) blast+
    then consider "s' = s1" "x = Inr (fs_heap s1 ! p)" | e where "s' = s1" "x = Inl e"
      | "\<not> lease_held (fs_heap s1 ! p)" "s' = store_lease s1 ?k (new_lease r)" "x = Inr (new_lease r)"
      by blast
    then show ?thesis
    proof cases
      case 1
      then show ?thesis using s1 cur by simp
    next
      case 2
      then show ?thesis using s1 by simp
    next
      case 3
      have "fs_leases s1 = fs_leases s" by (simp add: s1_def expireLeaseIfNeeded_put)
      then have "leases_ok s'"
        unfolding 3(2) by (intro store_lease_ok [OF s1(1)]) (use Some 3(1) in simp_all)
      then show ?thesis
        using heap_kept_trans [OF s1(2) store_lease_kept] fresh 3 by simp
    qed
  qed
qed

lemma leases_ok_new [simp]: "leases_ok NewFactStore"
  by (simp add: leases_ok_def NewFactStore_def)

lemma leases_ok_cong:
  "fs_heap s' = fs_heap s \<Longrightarrow> fs_leases s' = fs_leases s \<Longrightarrow> fs_leaseIDs s' = fs_leaseIDs s \<Longrightarrow>
     leases_ok s' = leases_ok s"
  by (simp add: leases_ok_def)

end
