(* ===== verification/ActivationStore.thy ===== *)
theory ActivationStore
  imports LeaseStore
begin

text \<open>
  \<open>runtime/fakes/activation_store.go\<close>: the activation journal of the fact store, with the commit that
  binds the sandbox lease, advances the attempt and activates the identity lease in one step.
\<close>

section \<open>Operations\<close>

definition CreateActivationAttempt ::
  "FactStore \<Rightarrow> go_context \<Rightarrow> ActivationAttempt \<Rightarrow> Time \<Rightarrow> FactStore \<times> ActivationAttempt res" where [step_defs]:
  "CreateActivationAttempt s ctx attempt now =
     guarded
      (first_err
        [contextError ctx, ActivationAttempt_Validate attempt now,
         fail_if (at_Stage attempt \<noteq> StageProposed \<or> at_Recovery attempt \<noteq> RecoveryNormal \<or> at_Revision attempt \<noteq> 1)
           ErrorInvalidArgument ReasonInvalidState,
         fail_if (\<not> fs_evidenceAvailable s) ErrorUnavailable ReasonEvidenceUnavailable,
         fail_if (fs_activations s (at_ID attempt) \<noteq> None) ErrorConflict ReasonAlreadyExists]) s
      (s\<lparr>fs_activations := (fs_activations s)(at_ID attempt \<mapsto> attempt)\<rparr>, Inr attempt)"

definition InspectActivationAttempt :: "FactStore \<Rightarrow> go_context \<Rightarrow> string \<Rightarrow> ActivationAttempt res" where
  "InspectActivationAttempt s ctx i =
     ensure (first_err [contextError ctx, fail_if (blank i) ErrorInvalidArgument ReasonInvalidReference])
      (case fs_activations s i of
         None \<Rightarrow> Inl (DomainError ErrorNotFound ReasonInvalidReference)
       | Some a \<Rightarrow> Inr a)"

definition CompareAndSwapActivation ::
  "FactStore \<Rightarrow> go_context \<Rightarrow> ActivationAttempt \<Rightarrow> ActivationTransitionContext \<Rightarrow> Time
     \<Rightarrow> FactStore \<times> ActivationAttempt res" where [step_defs]:
  "CompareAndSwapActivation s ctx nxt transition now =
     guarded
      (first_err
        [contextError ctx, fail_if (\<not> fs_evidenceAvailable s) ErrorUnavailable ReasonEvidenceUnavailable]) s
      (case fs_activations s (at_ID nxt) of
         None \<Rightarrow> (s, Inl (DomainError ErrorNotFound ReasonInvalidReference))
       | Some a \<Rightarrow>
           guarded (ValidateTransition a nxt transition now) s
            (s\<lparr>fs_activations := (fs_activations s)(at_ID nxt \<mapsto> nxt)\<rparr>, Inr nxt))"

text \<open>The attempt and the lease after the commit.\<close>

definition committed_attempt ::
  "ActivationAttempt \<Rightarrow> SandboxLeaseRef \<Rightarrow> IdentityExecutionLease \<Rightarrow> Time \<Rightarrow> ActivationAttempt" where
  "committed_attempt current sandbox lease now =
     current\<lparr>at_Stage := StageCommitted,
             at_Scope := (at_Scope current)\<lparr>scope_SandboxLease := Some sandbox\<rparr>,
             at_IdentityLeaseState := IdentityLeaseActive, at_IdentityLeaseRevision := il_Revision lease + 1,
             at_Revision := at_Revision current + 1, at_UpdatedAt := now\<rparr>"

definition activated_lease :: "IdentityExecutionLease \<Rightarrow> IdentityExecutionLease" where
  "activated_lease l = l\<lparr>il_State := IdentityLeaseActive, il_Revision := il_Revision l + 1\<rparr>"

text \<open>The check of the lease against the attempt and the request.\<close>

definition commit_lease_error ::
  "ActivationAttempt \<Rightarrow> IdentityExecutionLease \<Rightarrow> ActivationStoreCommitRequest \<Rightarrow> go_error option" where
  "commit_lease_error current lease request =
     fail_if (il_Revision lease \<noteq> acr_ExpectedIdentityLeaseRevision request \<or> il_State lease \<noteq> IdentityLeaseReserved
              \<or> il_Identity lease \<noteq> scope_Identity (at_Scope current) \<or> il_Lineage lease \<noteq> scope_Lineage (at_Scope current)
              \<or> il_AuthorityEpoch lease \<noteq> acr_AuthorityEpoch request \<or> il_ActivationAttemptID lease \<noteq> at_ID current
              \<or> at_IdentityLeaseID current \<noteq> il_ID lease)
       ErrorPreconditionFailed ReasonIdentityLeaseStateInvalid"

definition StoreCommitActivation ::
  "FactStore \<Rightarrow> go_context \<Rightarrow> ActivationStoreCommitRequest \<Rightarrow> Time \<Rightarrow> FactStore \<times> ActivationCommitResult res" where [step_defs]:
  "StoreCommitActivation s ctx request now =
     guarded
      (first_err
        [contextError ctx,
         fail_if (blank (acr_AttemptID request) \<or> blank (acr_IdentityLeaseID request)
                  \<or> acr_ExpectedAttemptRevision request = 0 \<or> acr_ExpectedIdentityLeaseRevision request = 0
                  \<or> acr_AuthorityEpoch request = 0)
           ErrorInvalidArgument ReasonInvalidReference,
         SandboxLeaseRef_Validate (acr_SandboxLease request),
         fail_if (\<not> fs_evidenceAvailable s) ErrorUnavailable ReasonEvidenceUnavailable]) s
      (case fs_activations s (acr_AttemptID request) of
         None \<Rightarrow> (s, Inl (DomainError ErrorNotFound ReasonInvalidReference))
       | Some current \<Rightarrow>
           guarded
            (first_err
              [fail_if (at_Revision current \<noteq> acr_ExpectedAttemptRevision request
                        \<or> at_Stage current \<noteq> StageSandboxReserved \<or> at_Recovery current \<noteq> RecoveryNormal)
                 ErrorConflict ReasonRevisionConflict,
               fail_if (op_State (at_SandboxReservation current) \<noteq> OperationConfirmedApplied
                        \<or> op_Reference (at_SandboxReservation current) \<noteq> slease_ID (acr_SandboxLease request))
                 ErrorPreconditionFailed ReasonInvalidState]) s
            (case fs_leaseIDs s (acr_IdentityLeaseID request) of
               None \<Rightarrow> (s, Inl (DomainError ErrorNotFound ReasonInvalidReference))
             | Some p \<Rightarrow>
                 (let s1 = expireLeaseIfNeeded s p now; lease = fs_heap s1 ! p;
                      nxt = committed_attempt current (acr_SandboxLease request) lease now in
                  guarded
                   (first_err
                     [commit_lease_error current lease request,
                      ValidateTransition current nxt \<lparr>atc_UnknownResolved = False\<rparr> now]) s1
                   (s1\<lparr>fs_heap := (fs_heap s1)[p := activated_lease lease],
                       fs_activations := (fs_activations s1)(acr_AttemptID request \<mapsto> nxt)\<rparr>,
                    Inr \<lparr>acres_Attempt = nxt, acres_IdentityLease = activated_lease lease\<rparr>))))"

section \<open>Invariant\<close>

text \<open>Each journal record sits under its identifier, and was valid when it was written.\<close>

definition journal_ok :: "FactStore \<Rightarrow> bool" where
  "journal_ok s \<longleftrightarrow>
     (\<forall>i a. fs_activations s i = Some a \<longrightarrow> at_ID a = i \<and> (\<forall>now. ActivationAttempt_Validate a now = None))"

definition journal_kept :: "FactStore \<Rightarrow> FactStore \<Rightarrow> bool" where
  "journal_kept s s' \<longleftrightarrow>
     (\<forall>i a. fs_activations s i = Some a \<longrightarrow> (\<exists>b. fs_activations s' i = Some b \<and> activation_kept a b))"

lemma ActivationAttempt_Validate_now: "ActivationAttempt_Validate a now = ActivationAttempt_Validate a now'"
  by (simp add: ActivationAttempt_Validate_def)

lemma activation_kept_refl [simp]: "activation_kept a a"
  by (simp add: activation_kept_def)

lemma activation_kept_trans: "activation_kept a b \<Longrightarrow> activation_kept b c \<Longrightarrow> activation_kept a c"
  by (auto simp: activation_kept_def)

lemma journal_kept_refl: "fs_activations s' = fs_activations s \<Longrightarrow> journal_kept s s'"
  by (auto simp: journal_kept_def)

lemma journal_kept_trans: "journal_kept s t \<Longrightarrow> journal_kept t u \<Longrightarrow> journal_kept s u"
  unfolding journal_kept_def by (meson activation_kept_trans)

lemma journal_ok_cong: "fs_activations s' = fs_activations s \<Longrightarrow> journal_ok s' = journal_ok s"
  by (simp add: journal_ok_def)

lemma journal_ok_put:
  "journal_ok s \<Longrightarrow> fs_activations s' = (fs_activations s)(at_ID a \<mapsto> a) \<Longrightarrow>
     ActivationAttempt_Validate a now = None \<Longrightarrow> journal_ok s'"
  using ActivationAttempt_Validate_now [of a _ now] by (auto simp: journal_ok_def)

lemma journal_kept_put:
  "fs_activations s' = (fs_activations s)(i \<mapsto> b) \<Longrightarrow>
     (\<And>a. fs_activations s i = Some a \<Longrightarrow> activation_kept a b) \<Longrightarrow> journal_kept s s'"
  by (auto simp: journal_kept_def)

lemma CreateActivationAttempt_ok:
  assumes ok: "journal_ok s" and call: "CreateActivationAttempt s ctx a now = (s', x)"
  shows "journal_ok s' \<and> journal_kept s s' \<and> fs_heap s' = fs_heap s"
  using call [unfolded CreateActivationAttempt_def]
proof (cases rule: guarded_cases)
  case (fail e)
  then show ?thesis using ok by (simp add: journal_kept_refl)
next
  case pass
  then have s': "fs_activations s' = (fs_activations s)(at_ID a \<mapsto> a)" "fs_heap s' = fs_heap s" by auto
  show ?thesis
    using journal_ok_put [OF ok s'(1), of now] journal_kept_put [OF s'(1)] pass(1) s'(2) by simp
qed

text \<open>The swap: a legal update of the record it names, or nothing.\<close>

lemma CompareAndSwapActivation_cases:
  assumes "CompareAndSwapActivation s ctx nxt c now = (s', x)"
  obtains (rejected) e where "s' = s" "x = Inl e"
  | (swapped) a where "fs_activations s (at_ID nxt) = Some a" "ValidateTransition a nxt c now = None"
      "s' = s\<lparr>fs_activations := (fs_activations s)(at_ID nxt \<mapsto> nxt)\<rparr>" "x = Inr nxt"
  using assms [unfolded CompareAndSwapActivation_def]
proof (cases rule: guarded_cases)
  case (fail e)
  then show thesis by (intro rejected)
next
  case pass
  show thesis
  proof (cases "fs_activations s (at_ID nxt)")
    case None
    then show thesis using pass(2) by (auto intro: rejected)
  next
    case (Some a)
    from pass(2) [unfolded Some option.case] show thesis
    proof (cases rule: guarded_cases)
      case (fail e)
      then show thesis by (intro rejected)
    next
      case inner: pass
      then show thesis by (intro swapped [OF Some]) simp_all
    qed
  qed
qed

lemma CompareAndSwapActivation_ok:
  assumes ok: "journal_ok s" and call: "CompareAndSwapActivation s ctx nxt c now = (s', x)"
  shows "journal_ok s' \<and> journal_kept s s' \<and> fs_heap s' = fs_heap s"
  using call
proof (cases rule: CompareAndSwapActivation_cases)
  case rejected
  then show ?thesis using ok by (simp add: journal_kept_refl)
next
  case (swapped a)
  have s': "fs_activations s' = (fs_activations s)(at_ID nxt \<mapsto> nxt)" by (simp add: swapped(3))
  have "activation_kept a nxt"
    using activation_kept_step [OF activation_kept_refl swapped(2)] .
  then show ?thesis
    using journal_ok_put [OF ok s'(1) ValidateTransitionD(2) [OF swapped(2)]] journal_kept_put [OF s'(1)] swapped(1,3)
    by simp
qed

text \<open>
  The commit: every effect of it at once, on exactly the attempt and the lease it was prepared for, or
  at most the expiry of the lease.
\<close>

lemma StoreCommitActivation_cases:
  assumes ok: "leases_ok s" and call: "StoreCommitActivation s ctx r now = (s', x)"
  obtains (rejected) e where "s' = s" "x = Inl e"
  | (expired) p e where "p < length (fs_heap s)" "s' = expireLeaseIfNeeded s p now" "x = Inl e"
  | (committed) a p l n where "fs_activations s (acr_AttemptID r) = Some a" "fs_leaseIDs s (acr_IdentityLeaseID r) = Some p"
      "l = fs_heap s ! p" "n = committed_attempt a (acr_SandboxLease r) l now"
      "at_Stage a = StageSandboxReserved" "at_Recovery a = RecoveryNormal" "at_Revision a = acr_ExpectedAttemptRevision r"
      "il_State l = IdentityLeaseReserved" "now < il_ExpiresAt l" "il_Revision l = acr_ExpectedIdentityLeaseRevision r"
      "il_ActivationAttemptID l = at_ID a" "il_Identity l = scope_Identity (at_Scope a)" "at_IdentityLeaseID a = il_ID l"
      "ValidateTransition a n \<lparr>atc_UnknownResolved = False\<rparr> now = None"
      "s' = s\<lparr>fs_heap := (fs_heap s)[p := activated_lease l],
             fs_activations := (fs_activations s)(acr_AttemptID r \<mapsto> n)\<rparr>"
      "x = Inr \<lparr>acres_Attempt = n, acres_IdentityLease = activated_lease l\<rparr>"
  using call [unfolded StoreCommitActivation_def Let_def]
proof (cases rule: guarded_cases)
  case (fail e)
  then show thesis by (intro rejected)
next
  case pass
  show thesis
  proof (cases "fs_activations s (acr_AttemptID r)")
    case None
    then show thesis using pass(2) by (auto intro: rejected)
  next
    case a: (Some a)
    from pass(2) [unfolded a option.case] show thesis
    proof (cases rule: guarded_cases)
      case (fail e)
      then show thesis by (intro rejected)
    next
      case mid: pass
      show thesis
      proof (cases "fs_leaseIDs s (acr_IdentityLeaseID r)")
        case None
        then show thesis using mid(2) by (auto intro: rejected)
      next
        case p: (Some p)
        have len: "p < length (fs_heap s)" using leases_okD(2) [OF ok p] by simp
        from mid(2) [unfolded p option.case] show thesis
        proof (cases rule: guarded_cases)
          case (fail e)
          then show thesis using len by (intro expired)
        next
          case inner: pass
          let ?s1 = "expireLeaseIfNeeded s p now"
          have "il_State (fs_heap ?s1 ! p) = IdentityLeaseReserved"
            using inner(1) by (simp add: commit_lease_error_def)
          then have same: "now < il_ExpiresAt (fs_heap s ! p)" "fs_heap ?s1 ! p = fs_heap s ! p"
            using expired_lease_held [of "fs_heap s ! p" now] expire_nth [OF len] by (auto simp: lease_held_def)
          then have s1: "?s1 = s" using expire_nth [OF len] by (simp add: expireLeaseIfNeeded_put put_lease_def)
          show thesis
            by (rule committed [OF a p refl refl])
               (use mid(1) inner [unfolded s1] same(1) in \<open>simp_all add: commit_lease_error_def\<close>)
        qed
      qed
    qed
  qed
qed

lemma activated_lease_kept: "il_State l = IdentityLeaseReserved \<Longrightarrow> lease_kept l (activated_lease l)"
  by (simp add: lease_kept_def activated_lease_def lease_held_def)

lemma StoreCommitActivation_ok:
  assumes ok: "journal_ok s" "leases_ok s" and call: "StoreCommitActivation s ctx r now = (s', x)"
  shows "journal_ok s' \<and> journal_kept s s' \<and> leases_ok s' \<and> heap_kept s s'"
  using ok(2) call
proof (cases rule: StoreCommitActivation_cases)
  case rejected
  then show ?thesis using ok by (simp add: journal_kept_refl)
next
  case (expired p e)
  have "fs_activations s' = fs_activations s" by (simp add: expired(2) expireLeaseIfNeeded_def)
  then show ?thesis using ok expire_ok [OF ok(2)] journal_ok_cong journal_kept_refl expired(2) by metis
next
  case (committed a p l n)
  have i: "at_ID n = acr_AttemptID r"
    using ok(1) committed(1,4) by (auto simp: journal_ok_def committed_attempt_def)
  have s': "fs_activations s' = (fs_activations s)(at_ID n \<mapsto> n)" by (simp add: committed(15) i)
  have kept: "lease_kept (fs_heap s ! p) (activated_lease l)"
    using activated_lease_kept committed(3,8) by simp
  have heap: "fs_heap s' = fs_heap (put_lease s p (activated_lease l))"
    "fs_leases s' = fs_leases (put_lease s p (activated_lease l))"
    "fs_leaseIDs s' = fs_leaseIDs (put_lease s p (activated_lease l))"
    by (simp_all add: committed(15))
  have "leases_ok s'" using put_lease_ok [OF ok(2) kept] leases_ok_cong [OF heap] by simp
  moreover have "heap_kept s s'" using put_lease_kept [OF kept] heap(1) by (simp add: heap_kept_def)
  moreover have "journal_ok s'" using journal_ok_put [OF ok(1) s' ValidateTransitionD(2) [OF committed(14)]] .
  moreover have "activation_kept a n" using activation_kept_step [OF activation_kept_refl committed(14)] .
  then have "journal_kept s s'" using journal_kept_put [OF s'] committed(1) i by simp
  ultimately show ?thesis by simp
qed

lemma journal_ok_new [simp]: "journal_ok NewFactStore"
  by (simp add: journal_ok_def NewFactStore_def)

end
