(* ===== verification/StoreHistory.thy ===== *)
theory StoreHistory
  imports ActivationStore
begin

text \<open>
  Histories of the fact store: any interleaving of its operations by any callers, with any arguments
  and clock readings. The four invariants of its parts hold in every reachable store, and what a
  reader has seen stays true in the ways stated by \<open>store_kept\<close>.
\<close>

section \<open>Steps\<close>

inductive store_step :: "FactStore \<Rightarrow> FactStore \<Rightarrow> bool" where
  evidence: "store_step s (SetEvidenceAvailable s b)"
| lose_reply: "store_step s (LoseNextRunWriteReply s)"
| create_run: "CreateRun s ctx r = (s', x) \<Longrightarrow> store_step s s'"
| swap_run: "CompareAndSwapRun s ctx q = (s', x) \<Longrightarrow> store_step s s'"
| create_desired: "CreateDesiredState s ctx d = (s', y) \<Longrightarrow> store_step s s'"
| accept_cmd: "AcceptCommand s ctx i now = (s', z) \<Longrightarrow> store_step s s'"
| mark_outbox: "MarkOutboxDispatched s ctx scope c n = (s', o1) \<Longrightarrow> store_step s s'"
| reserve_lease: "ReserveIdentityLease s ctx rr now = (s', l) \<Longrightarrow> store_step s s'"
| renew_lease: "RenewIdentityLease s ctx rn now = (s', l) \<Longrightarrow> store_step s s'"
| revoke_lease: "RevokeIdentityLease s ctx re now = (s', l) \<Longrightarrow> store_step s s'"
| release_lease: "ReleaseIdentityLease s ctx re now = (s', l) \<Longrightarrow> store_step s s'"
| inspect_lease: "InspectIdentityLease s ctx t a now = (s', l) \<Longrightarrow> store_step s s'"
| create_attempt: "CreateActivationAttempt s ctx att now = (s', aa) \<Longrightarrow> store_step s s'"
| swap_attempt: "CompareAndSwapActivation s ctx att c' now = (s', aa) \<Longrightarrow> store_step s s'"
| commit_attempt: "StoreCommitActivation s ctx cr now = (s', ar) \<Longrightarrow> store_step s s'"

inductive store_run :: "FactStore \<Rightarrow> FactStore \<Rightarrow> bool" where
  store_stay: "store_run s s"
| store_go: "store_run s t \<Longrightarrow> store_step t u \<Longrightarrow> store_run s u"

lemma store_run_trans: "store_run t u \<Longrightarrow> store_run s t \<Longrightarrow> store_run s u"
  by (induction rule: store_run.induct) (auto intro: store_run.intros)

section \<open>Which part of the store an operation changes\<close>

definition runs_part where "runs_part s = (fs_runs s, fs_activeRuns s)"
definition lease_part where "lease_part s = (fs_heap s, fs_leases s, fs_leaseIDs s)"

lemma same_runs: "runs_part s' = runs_part s \<Longrightarrow> runs_ok s' = runs_ok s \<and> run_of s' = run_of s"
  using runs_ok_cong [of s' s] run_of_cong [of s' s] by (simp add: runs_part_def)

lemma same_leases: "lease_part s' = lease_part s \<Longrightarrow> leases_ok s' = leases_ok s \<and> fs_heap s' = fs_heap s"
  using leases_ok_cong [of s' s] by (simp add: lease_part_def)

text \<open>An operation that only writes run facts, instances, leases or the journal.\<close>

definition only_runs where
  "only_runs s s' \<longleftrightarrow> fs_instances s' = fs_instances s \<and> lease_part s' = lease_part s \<and> fs_activations s' = fs_activations s"
definition only_instances where
  "only_instances s s' \<longleftrightarrow> runs_part s' = runs_part s \<and> lease_part s' = lease_part s \<and> fs_activations s' = fs_activations s"
definition only_leases where
  "only_leases s s' \<longleftrightarrow> runs_part s' = runs_part s \<and> fs_instances s' = fs_instances s"

lemma only_refl [simp]: "only_runs s s" "only_instances s s" "only_leases s s"
  by (simp_all add: only_runs_def only_instances_def only_leases_def)

lemma CreateRun_only: "CreateRun s ctx r = (s', x) \<Longrightarrow> only_runs s s'"
  by (erule CreateRun_cases) (auto dest!: run_reply_state simp: only_runs_def put_run_def lease_part_def)

lemma CompareAndSwapRun_only: "CompareAndSwapRun s ctx q = (s', x) \<Longrightarrow> only_runs s s'"
  by (erule CompareAndSwapRun_cases) (auto dest!: run_reply_state simp: only_runs_def put_run_def lease_part_def)

lemma CreateDesiredState_only: "CreateDesiredState s ctx d = (s', y) \<Longrightarrow> only_instances s s'"
  unfolding CreateDesiredState_def Let_def
  by (erule guarded_cases) (auto simp: only_instances_def runs_part_def lease_part_def)

lemma AcceptCommand_only: "AcceptCommand s ctx i now = (s', z) \<Longrightarrow> only_instances s s'"
  by (erule AcceptCommand_cases) (simp_all add: only_instances_def runs_part_def lease_part_def)

lemma MarkOutboxDispatched_only: "MarkOutboxDispatched s ctx scope c n = (s', o1) \<Longrightarrow> only_instances s s'"
  by (erule MarkOutboxDispatched_cases) (simp_all add: only_instances_def runs_part_def lease_part_def)

lemma put_lease_only [simp]:
  "only_leases s (put_lease t p l) = only_leases s t" "fs_activations (put_lease s p l) = fs_activations s"
  by (simp_all add: only_leases_def put_lease_def runs_part_def)

lemma expire_only [simp]:
  "only_leases s (expireLeaseIfNeeded t p now) = only_leases s t" "fs_activations (expireLeaseIfNeeded s p now) = fs_activations s"
  by (simp_all add: expireLeaseIfNeeded_put)

lemma store_lease_only [simp]:
  "only_leases s (store_lease t k l) = only_leases s t" "fs_activations (store_lease s k l) = fs_activations s"
  by (simp_all add: only_leases_def store_lease_def runs_part_def)

lemma mutateLease_only:
  "mutateLease s ctx i n f now = (s', x) \<Longrightarrow> only_leases s s' \<and> fs_activations s' = fs_activations s"
  unfolding mutateLease_def Let_def
  by (erule guarded_cases)
     (auto simp: put_lease_def [symmetric] split: option.splits if_splits sum.splits)

lemma lease_ops_only:
  "RenewIdentityLease s ctx rn now = (s', x) \<Longrightarrow> only_leases s s' \<and> fs_activations s' = fs_activations s"
  "RevokeIdentityLease s ctx re now = (s', x) \<Longrightarrow> only_leases s s' \<and> fs_activations s' = fs_activations s"
  "ReleaseIdentityLease s ctx re now = (s', x) \<Longrightarrow> only_leases s s' \<and> fs_activations s' = fs_activations s"
  by (simp_all add: RenewIdentityLease_def RevokeIdentityLease_def ReleaseIdentityLease_def mutateLease_only)

lemma InspectIdentityLease_only:
  "InspectIdentityLease s ctx t a now = (s', x) \<Longrightarrow> only_leases s s' \<and> fs_activations s' = fs_activations s"
  unfolding InspectIdentityLease_def Let_def by (erule guarded_cases) (auto split: option.splits)

lemma ReserveIdentityLease_only:
  "ReserveIdentityLease s ctx rr now = (s', x) \<Longrightarrow> only_leases s s' \<and> fs_activations s' = fs_activations s"
  unfolding ReserveIdentityLease_def Let_def
  by (erule guarded_cases)
     (auto elim!: guarded_cases split: option.splits if_splits)

lemma CreateActivationAttempt_only:
  "CreateActivationAttempt s ctx att now = (s', x) \<Longrightarrow> only_leases s s' \<and> lease_part s' = lease_part s"
  unfolding CreateActivationAttempt_def
  by (erule guarded_cases) (auto simp: only_leases_def runs_part_def lease_part_def)

lemma CompareAndSwapActivation_only:
  "CompareAndSwapActivation s ctx att c now = (s', x) \<Longrightarrow> only_leases s s' \<and> lease_part s' = lease_part s"
  by (erule CompareAndSwapActivation_cases) (simp_all add: only_leases_def runs_part_def lease_part_def)

lemma StoreCommitActivation_only:
  assumes "leases_ok s" "StoreCommitActivation s ctx cr now = (s', x)" shows "only_leases s s'"
  using assms by (rule StoreCommitActivation_cases) (simp_all add: only_leases_def runs_part_def expireLeaseIfNeeded_def)

section \<open>What a history keeps\<close>

definition store_ok :: "FactStore \<Rightarrow> bool" where
  "store_ok s \<longleftrightarrow> runs_ok s \<and> instances_ok s \<and> leases_ok s \<and> journal_ok s"

text \<open>
  What an instance's facts keep: its scope, its recorded commands with their revisions, in order, and the
  replies given for its idempotency keys.
\<close>

definition command_ref :: "CommandRecord \<Rightarrow> CommandEnvelope \<times> Revision" where
  "command_ref c = (crec_Envelope c, crec_Revision c)"

definition facts_kept :: "InstanceFacts \<Rightarrow> InstanceFacts \<Rightarrow> bool" where
  "facts_kept f f' \<longleftrightarrow> ds_Scope (if_desired f') = ds_Scope (if_desired f)
     \<and> (\<exists>more. map command_ref (if_commands f') = map command_ref (if_commands f) @ more)
     \<and> (\<forall>k a. if_idempotency f k = Some a \<longrightarrow> if_idempotency f' k = Some a)"

definition instances_kept :: "FactStore \<Rightarrow> FactStore \<Rightarrow> bool" where
  "instances_kept s s' \<longleftrightarrow>
     (\<forall>k f. fs_instances s k = Some f \<longrightarrow> (\<exists>f'. fs_instances s' k = Some f' \<and> facts_kept f f'))"

lemma facts_kept_refl [simp]: "facts_kept f f"
  by (simp add: facts_kept_def)

lemma facts_kept_trans: "facts_kept f g \<Longrightarrow> facts_kept g h \<Longrightarrow> facts_kept f h"
  by (auto simp: facts_kept_def)

lemma instances_kept_refl: "fs_instances s' = fs_instances s \<Longrightarrow> instances_kept s s'"
  by (auto simp: instances_kept_def)

lemma instances_kept_trans: "instances_kept s t \<Longrightarrow> instances_kept t u \<Longrightarrow> instances_kept s u"
  unfolding instances_kept_def by (meson facts_kept_trans)

lemma instances_kept_put:
  "fs_instances s' = (fs_instances s)(k \<mapsto> f') \<Longrightarrow> (\<And>f. fs_instances s k = Some f \<Longrightarrow> facts_kept f f') \<Longrightarrow>
     instances_kept s s'"
  by (auto simp: instances_kept_def)

lemma supersede_refs [simp]: "map command_ref (supersede_commands e cs) = map command_ref cs"
  by (simp add: supersede_commands_def command_ref_def)

lemma AcceptCommand_kept: "AcceptCommand s ctx i now = (s', z) \<Longrightarrow> instances_kept s s'"
proof (erule AcceptCommand_cases)
  fix f f' a
  assume f: "fs_instances s (executionKey (env_Target (cint_Envelope i))) = Some f"
    "if_idempotency f (commandIdempotencyKey (cint_Envelope i)) = None" "accept_command f i now = (f', a)"
    "s' = s\<lparr>fs_instances := (fs_instances s)(executionKey (env_Target (cint_Envelope i)) \<mapsto> f')\<rparr>"
  note sel = accept_command_sel [OF f(3)]
  have "facts_kept f f'"
    using f(2) by (auto simp: facts_kept_def sel(1,3,4,6))
  then show ?thesis
    using f(1,4) by (intro instances_kept_put [of s' s]) auto
qed (simp_all add: instances_kept_refl)

lemma CreateDesiredState_kept: "CreateDesiredState s ctx d = (s', y) \<Longrightarrow> instances_kept s s'"
  unfolding CreateDesiredState_def Let_def
  by (erule guarded_cases) (auto simp: instances_kept_refl intro!: instances_kept_put)

lemma MarkOutboxDispatched_kept: "MarkOutboxDispatched s ctx scope c n = (s', o1) \<Longrightarrow> instances_kept s s'"
  by (erule MarkOutboxDispatched_cases) (auto simp: instances_kept_refl facts_kept_def intro!: instances_kept_put)

definition store_kept :: "FactStore \<Rightarrow> FactStore \<Rightarrow> bool" where
  "store_kept s s' \<longleftrightarrow> moves runs_ok run_of s s' \<and> instances_kept s s' \<and> heap_kept s s' \<and> journal_kept s s'"

lemma moves_same: "runs_ok s \<Longrightarrow> runs_part s' = runs_part s \<Longrightarrow> moves runs_ok run_of s s'"
  using fs_runs.moves_refl [of s] same_runs [of s' s] by (simp add: moves_def)

lemma kept_by_runs:
  assumes "store_ok s" "only_runs s s'" "moves runs_ok run_of s s'" shows "store_ok s' \<and> store_kept s s'"
proof -
  have u: "fs_instances s' = fs_instances s" "lease_part s' = lease_part s" "fs_activations s' = fs_activations s"
    using assms(2) by (auto simp: only_runs_def)
  have "heap_kept s s'" using same_leases [OF u(2)] by (simp add: heap_kept_def)
  then show ?thesis
    using assms(1,3) same_leases [OF u(2)] instances_ok_cong [OF u(1)] journal_ok_cong [OF u(3)]
      instances_kept_refl [OF u(1)] journal_kept_refl [OF u(3)]
    by (simp add: store_ok_def store_kept_def moves_def)
qed

lemma kept_by_instances:
  assumes "store_ok s" "only_instances s s'" "instances_ok s'" "instances_kept s s'"
  shows "store_ok s' \<and> store_kept s s'"
proof -
  have u: "runs_part s' = runs_part s" "lease_part s' = lease_part s" "fs_activations s' = fs_activations s"
    using assms(2) by (auto simp: only_instances_def)
  have "heap_kept s s'" using same_leases [OF u(2)] by (simp add: heap_kept_def)
  moreover have "moves runs_ok run_of s s'"
    using moves_same [OF _ u(1)] assms(1) by (simp add: store_ok_def)
  ultimately show ?thesis
    using assms(1,3,4) same_leases [OF u(2)] same_runs [OF u(1)] journal_ok_cong [OF u(3)] journal_kept_refl [OF u(3)]
    by (simp add: store_ok_def store_kept_def)
qed

lemma kept_by_leases:
  assumes "store_ok s" "only_leases s s'" "leases_ok s'" "heap_kept s s'" "journal_ok s'" "journal_kept s s'"
  shows "store_ok s' \<and> store_kept s s'"
proof -
  have u: "runs_part s' = runs_part s" "fs_instances s' = fs_instances s"
    using assms(2) by (auto simp: only_leases_def)
  have "moves runs_ok run_of s s'"
    using moves_same [OF _ u(1)] assms(1) by (simp add: store_ok_def)
  then show ?thesis
    using assms(1,3-6) same_runs [OF u(1)] instances_ok_cong [OF u(2)] instances_kept_refl [OF u(2)]
    by (simp add: store_ok_def store_kept_def)
qed

lemma kept_by_lease_op:
  assumes "store_ok s" "only_leases s s'" "fs_activations s' = fs_activations s" "leases_ok s'" "heap_kept s s'"
  shows "store_ok s' \<and> store_kept s s'"
proof -
  have "journal_ok s'" using assms(1) journal_ok_cong [OF assms(3)] by (simp add: store_ok_def)
  then show ?thesis by (rule kept_by_leases [OF assms(1,2,4,5) _ journal_kept_refl [OF assms(3)]])
qed

lemma kept_by_journal_op:
  assumes "store_ok s" "only_leases s s'" "lease_part s' = lease_part s" "journal_ok s'" "journal_kept s s'"
  shows "store_ok s' \<and> store_kept s s'"
proof -
  have "leases_ok s'" "heap_kept s s'"
    using assms(1) same_leases [OF assms(3)] by (simp_all add: store_ok_def heap_kept_def)
  then show ?thesis by (rule kept_by_leases [OF assms(1,2) _ _ assms(4,5)])
qed

lemma store_step_kept: "store_step s s' \<Longrightarrow> store_ok s \<Longrightarrow> store_ok s' \<and> store_kept s s'"
proof (induction rule: store_step.induct)
  case (evidence s b)
  have h: "only_runs s (SetEvidenceAvailable s b)" "runs_part (SetEvidenceAvailable s b) = runs_part s" "runs_ok s"
    using evidence by (simp_all add: only_runs_def SetEvidenceAvailable_def lease_part_def runs_part_def store_ok_def)
  show ?case by (rule kept_by_runs [OF evidence h(1) moves_same [OF h(3,2)]])
next
  case (lose_reply s)
  have h: "only_runs s (LoseNextRunWriteReply s)" "runs_part (LoseNextRunWriteReply s) = runs_part s" "runs_ok s"
    using lose_reply by (simp_all add: only_runs_def LoseNextRunWriteReply_def lease_part_def runs_part_def store_ok_def)
  show ?case by (rule kept_by_runs [OF lose_reply h(1) moves_same [OF h(3,2)]])
next
  case (create_run s ctx r s' x)
  then have "moves runs_ok run_of s s'" using fs_runs.create_moves by (simp add: store_ok_def)
  then show ?case using kept_by_runs [OF create_run(2) CreateRun_only [OF create_run(1)]] by blast
next
  case (swap_run s ctx q s' x)
  then have "moves runs_ok run_of s s'" using fs_runs.cas_moves by (simp add: store_ok_def)
  then show ?case using kept_by_runs [OF swap_run(2) CompareAndSwapRun_only [OF swap_run(1)]] by blast
next
  case (create_desired s ctx d s' y)
  then have "instances_ok s" by (simp add: store_ok_def)
  then show ?case
    by (rule kept_by_instances [OF create_desired(2) CreateDesiredState_only [OF create_desired(1)] CreateDesiredState_ok [OF _ create_desired(1)] CreateDesiredState_kept [OF create_desired(1)]])
next
  case (accept_cmd s ctx i now s' z)
  then have "instances_ok s" by (simp add: store_ok_def)
  then show ?case
    by (rule kept_by_instances [OF accept_cmd(2) AcceptCommand_only [OF accept_cmd(1)] AcceptCommand_ok [OF _ accept_cmd(1)] AcceptCommand_kept [OF accept_cmd(1)]])
next
  case (mark_outbox s ctx scope c n s' o1)
  then have "instances_ok s" by (simp add: store_ok_def)
  then show ?case
    by (rule kept_by_instances [OF mark_outbox(2) MarkOutboxDispatched_only [OF mark_outbox(1)] MarkOutboxDispatched_ok [OF _ mark_outbox(1)] MarkOutboxDispatched_kept [OF mark_outbox(1)]])
next
  case (reserve_lease s ctx rr now s' l)
  then have ok: "leases_ok s" by (simp add: store_ok_def)
  show ?case
    using kept_by_lease_op [OF reserve_lease(2)] ReserveIdentityLease_ok [OF ok reserve_lease(1)] ReserveIdentityLease_only [OF reserve_lease(1)] by blast
next
  case (renew_lease s ctx rn now s' l)
  then have ok: "leases_ok s" by (simp add: store_ok_def)
  show ?case
    using kept_by_lease_op [OF renew_lease(2)] RenewIdentityLease_ok [OF ok renew_lease(1)] lease_ops_only(1) [OF renew_lease(1)] by blast
next
  case (revoke_lease s ctx re now s' l)
  then have ok: "leases_ok s" by (simp add: store_ok_def)
  show ?case
    using kept_by_lease_op [OF revoke_lease(2)] RevokeIdentityLease_ok [OF ok revoke_lease(1)] lease_ops_only(2) [OF revoke_lease(1)] by blast
next
  case (release_lease s ctx re now s' l)
  then have ok: "leases_ok s" by (simp add: store_ok_def)
  show ?case
    using kept_by_lease_op [OF release_lease(2)] ReleaseIdentityLease_ok [OF ok release_lease(1)] lease_ops_only(3) [OF release_lease(1)] by blast
next
  case (inspect_lease s ctx t a now s' l)
  then have ok: "leases_ok s" by (simp add: store_ok_def)
  show ?case
    using kept_by_lease_op [OF inspect_lease(2)] InspectIdentityLease_ok [OF ok inspect_lease(1)] InspectIdentityLease_only [OF inspect_lease(1)] by blast
next
  case (create_attempt s ctx att now s' aa)
  then have ok: "journal_ok s" by (simp add: store_ok_def)
  show ?case
    using kept_by_journal_op [OF create_attempt(2)] CreateActivationAttempt_ok [OF ok create_attempt(1)] CreateActivationAttempt_only [OF create_attempt(1)] by blast
next
  case (swap_attempt s ctx att c' now s' aa)
  then have ok: "journal_ok s" by (simp add: store_ok_def)
  show ?case
    using kept_by_journal_op [OF swap_attempt(2)] CompareAndSwapActivation_ok [OF ok swap_attempt(1)] CompareAndSwapActivation_only [OF swap_attempt(1)] by blast
next
  case (commit_attempt s ctx cr now s' ar)
  then have ok: "journal_ok s" "leases_ok s" by (simp_all add: store_ok_def)
  show ?case
    using kept_by_leases [OF commit_attempt(2) StoreCommitActivation_only [OF ok(2) commit_attempt(1)]]
      StoreCommitActivation_ok [OF ok commit_attempt(1)] by blast
qed

lemma store_ok_new [simp]: "store_ok NewFactStore"
  by (simp add: store_ok_def)

lemma store_kept_refl: "store_ok s \<Longrightarrow> store_kept s s"
  by (simp add: store_kept_def store_ok_def fs_runs.moves_refl instances_kept_refl journal_kept_refl)

lemma store_kept_trans: "store_kept s t \<Longrightarrow> store_kept t u \<Longrightarrow> store_kept s u"
  unfolding store_kept_def
  using fs_runs.moves_trans instances_kept_trans heap_kept_trans journal_kept_trans by blast

lemma store_run_kept: "store_run s s' \<Longrightarrow> store_ok s \<Longrightarrow> store_ok s' \<and> store_kept s s'"
  by (induction rule: store_run.induct)
     (auto intro: store_kept_refl store_kept_trans dest: store_step_kept)

lemma reachable_ok: "store_run NewFactStore s \<Longrightarrow> store_ok s"
  using store_run_kept by simp

text \<open>The port contract again, now with the invariant of the whole store.\<close>

interpretation store_port: run_fact_port InspectRun CreateRun CompareAndSwapRun store_ok run_of
proof unfold_locales
  show "store_ok s \<Longrightarrow> run_of s scope i = Some r \<Longrightarrow>
      run_Scope r = scope \<and> run_ID r = i \<and> AgentRunRecord_Validate r = None" for s scope i r
    using fs_runs.run_of_wf [of s scope i r] by (simp add: store_ok_def)
  show "store_ok s \<Longrightarrow> InspectRun s ctx scope i = Inr r \<Longrightarrow> run_of s scope i = Some r" for s ctx scope i r
    using fs_runs.inspect_law [of s ctx scope i r] by (simp add: store_ok_def)
  show "store_ok s \<Longrightarrow> ExecutionScope_Validate scope = None \<Longrightarrow> run_of s scope i = Some r \<Longrightarrow>
      InspectRun s LiveContext scope i = Inr r" for s scope i r
    using fs_runs.inspect_live [of s scope i r] by (simp add: store_ok_def)
next
  fix s ctx r s' x assume ok: "store_ok s" and call: "CreateRun s ctx r = (s', x)"
  show "store_ok s' \<and> (x \<noteq> Inr r \<longrightarrow> (\<exists>e. x = Inl e)) \<and>
      (run_of s' = run_of s \<and> (\<exists>e. x = Inl e)
       \<or> run_of s (run_Scope r) (run_ID r) = None
         \<and> (\<forall>scope i. run_of s' scope i =
              (if scope = run_Scope r \<and> i = run_ID r then Some r else run_of s scope i)))"
    using FactStore_create [OF _ call] store_step_kept [OF store_step.create_run [OF call] ok] ok
    unfolding store_ok_def by blast
next
  fix s ctx req s' x assume ok: "store_ok s" and call: "CompareAndSwapRun s ctx req = (s', x)"
  show "store_ok s' \<and> (x \<noteq> Inr (cas_Next req) \<longrightarrow> (\<exists>e. x = Inl e)) \<and>
      (run_of s' = run_of s \<and> (\<exists>e. x = Inl e) \<or> cas_effect run_of s (cas_Next req) s')"
    using FactStore_cas [OF _ call] store_step_kept [OF store_step.swap_run [OF call] ok] ok
    unfolding store_ok_def by blast
qed

lemma store_run_moves: "store_run s t \<Longrightarrow> store_ok s \<Longrightarrow> moves store_ok run_of s t"
  using store_run_kept [of s t] by (simp add: store_kept_def moves_def)

end
