(* ===== verification/StoreProperties.thy ===== *)
theory StoreProperties
  imports StoreHistory
begin

text \<open>
  Properties of the fact store and of the run journal working over it, in every store that a history
  from the empty one reaches.
\<close>

section \<open>Runs\<close>

text \<open>A sample: the empty store after one run has been created.\<close>

definition sample_store :: FactStore where
  "sample_store = fst (CreateRun NewFactStore LiveContext (sample_run RunRunning 1 None))"

lemma sample_run_sel [simp]:
  "run_Scope (sample_run st n c) = sample_scope (Some sample_lease)" "run_ID (sample_run st n c) = ''r''"
  "run_Status (sample_run st n c) = st" "run_Revision (sample_run st n c) = n"
  "run_CompletionClaim (sample_run st n c) = c"
  by (simp_all add: sample_run_def)

lemma sample_store_create:
  "CreateRun NewFactStore LiveContext (sample_run RunRunning 1 None) = (sample_store, Inr (sample_run RunRunning 1 None))"
  by (simp add: sample_store_def CreateRun_def NewFactStore_def run_reply_def consumeLostRunWriteReply_def Let_def)

lemma sample_store_reach: "store_run NewFactStore sample_store"
  by (rule store_go [OF store_stay create_run [OF sample_store_create]])

lemma sample_store_run:
  "fs_runs sample_store (runKey (sample_scope (Some sample_lease)) ''r'') = Some (sample_run RunRunning 1 None)"
  "run_of sample_store (sample_scope (Some sample_lease)) ''r'' = Some (sample_run RunRunning 1 None)"
  "\<not> fs_loseRunWriteReply sample_store"
  by (simp_all add: sample_store_def CreateRun_def NewFactStore_def run_reply_def consumeLostRunWriteReply_def
      Let_def run_of_def)

text \<open>
  C4: One active run per instance. In every reachable store two run facts that are not terminal and
  belong to the same instance are the same fact, and the active-run index answers with it.
\<close>

theorem store_single_active_run:
  assumes "store_run NewFactStore s" "fs_runs s k = Some r" "fs_runs s l = Some q"
    "run_Status r \<noteq> RunTerminal" "run_Status q \<noteq> RunTerminal"
    "executionKey (run_Scope r) = executionKey (run_Scope q)"
  shows "k = l \<and> r = q \<and> InspectActiveRun s LiveContext (run_Scope r) = Inr r"
proof -
  have ok: "runs_ok s" using reachable_ok [OF assms(1)] by (simp add: store_ok_def)
  note r = runs_okD [OF ok assms(2)]
  have "InspectActiveRun s LiveContext (run_Scope r) = Inr r"
    using r assms(2,4) by (simp add: InspectActiveRun_def AgentRunRecord_Validate_def)
  then show ?thesis using active_unique [OF ok assms(2-6)] by simp
qed

lemma store_single_active_run_witness:
  "InspectActiveRun sample_store LiveContext (sample_scope (Some sample_lease)) = Inr (sample_run RunRunning 1 None)"
  using store_single_active_run [OF sample_store_reach sample_store_run(1) sample_store_run(1)] by simp

text \<open>
  Completion claims are agreed on. If two callers of the journal both succeed in recording a claim on
  the same run, they recorded the same claim, whatever other callers do to the store between the two
  calls and between the reads and the swap inside each of them.
\<close>

theorem journal_claims_agree:
  assumes "store_run NewFactStore s" "\<forall>t. store_run t (e1 t) \<and> store_run t (e1' t) \<and> store_run t (e2 t) \<and> store_run t (e2' t)"
    "RunJournal_RecordCompletionClaim InspectRun CompareAndSwapRun e1 e1' s ctx scope i c1 = (s1, Inr r1)"
    "store_run s1 s2"
    "RunJournal_RecordCompletionClaim InspectRun CompareAndSwapRun e2 e2' s2 ctx' scope i c2 = (s3, Inr r2)"
  shows "c1 = c2 \<and> run_CompletionClaim r1 = Some c1 \<and> run_CompletionClaim r2 = Some c1 \<and> run_kept r1 r2"
proof -
  have s: "store_ok s" by (rule reachable_ok [OF assms(1)])
  note one = store_port.claim_recorded [OF s store_run_moves store_run_moves assms(3)]
  have 1: "moves store_ok run_of s s1" "run_CompletionClaim r1 = Some c1" "run_of s1 scope i = Some r1"
    using one assms(2) by blast+
  have s1: "store_ok s1" using 1(1) by (simp add: moves_def)
  have s2: "moves store_ok run_of s1 s2" "store_ok s2"
    using store_run_moves [OF assms(4) s1] by (simp_all add: moves_def)
  note two = store_port.claim_recorded [OF s2(2) store_run_moves store_run_moves assms(5)]
  have 2: "moves store_ok run_of s2 s3" "run_CompletionClaim r2 = Some c2" "run_of s3 scope i = Some r2"
    using two assms(2) by blast+
  have "run_kept r1 r2"
    by (rule store_port.moves_kept [OF store_port.moves_trans [OF s2(1) 2(1)] 1(3) 2(3)])
  then show ?thesis using 1(2) 2(2) by (simp add: run_kept_def)
qed

lemma sample_claim_call:
  "RunJournal_RecordCompletionClaim InspectRun CompareAndSwapRun (\<lambda>t. t) (\<lambda>t. t) sample_store LiveContext
     (sample_scope (Some sample_lease)) ''r'' sample_claim
   = (fst (CompareAndSwapRun sample_store LiveContext
        \<lparr>cas_ExpectedRevision = 1, cas_Next = sample_run RunRunning 2 (Some sample_claim)\<rparr>),
      Inr (sample_run RunRunning 2 (Some sample_claim)))"
proof -
  have "InspectRun sample_store LiveContext (sample_scope (Some sample_lease)) ''r'' = Inr (sample_run RunRunning 1 None)"
    by (simp add: InspectRun_run_of sample_store_run)
  moreover have "snd (CompareAndSwapRun sample_store LiveContext
        \<lparr>cas_ExpectedRevision = 1, cas_Next = sample_run RunRunning 2 (Some sample_claim)\<rparr>)
      = Inr (sample_run RunRunning 2 (Some sample_claim))"
    using sample_run_claim
    by (simp add: CompareAndSwapRun_def RunFactCASRequest_Validate_def sample_store_run run_reply_def
        consumeLostRunWriteReply_def Let_def)
  moreover have "(sample_run RunRunning 1 None)\<lparr>run_Revision := 2, run_CompletionClaim := Some sample_claim\<rparr>
      = sample_run RunRunning 2 (Some sample_claim)"
    by (simp add: sample_run_def)
  ultimately show ?thesis
    by (cases "CompareAndSwapRun sample_store LiveContext
        \<lparr>cas_ExpectedRevision = 1, cas_Next = sample_run RunRunning 2 (Some sample_claim)\<rparr>")
       (simp add: RunJournal_RecordCompletionClaim_def)
qed

lemma journal_claims_agree_witness:
  "run_kept (sample_run RunRunning 2 (Some sample_claim)) (sample_run RunRunning 2 (Some sample_claim))"
proof -
  let ?s1 = "fst (CompareAndSwapRun sample_store LiveContext
        \<lparr>cas_ExpectedRevision = 1, cas_Next = sample_run RunRunning 2 (Some sample_claim)\<rparr>)"
  have ok: "store_ok sample_store" by (rule reachable_ok [OF sample_store_reach])
  have r: "moves store_ok run_of sample_store ?s1"
    "run_of ?s1 (sample_scope (Some sample_lease)) ''r'' = Some (sample_run RunRunning 2 (Some sample_claim))"
    using store_port.claim_recorded [OF ok _ _ sample_claim_call] store_port.moves_refl by auto
  have "RunJournal_RecordCompletionClaim InspectRun CompareAndSwapRun (\<lambda>t. t) (\<lambda>t. t) ?s1 LiveContext
     (sample_scope (Some sample_lease)) ''r'' sample_claim = (?s1, Inr (sample_run RunRunning 2 (Some sample_claim)))"
    by (rule store_port.claim_retry [OF _ r(2)]) (use r(1) in \<open>simp_all add: moves_def\<close>)
  from journal_claims_agree [OF sample_store_reach _ sample_claim_call store_stay this]
  show ?thesis by (simp add: store_stay)
qed

text \<open>
  C9: Outcomes are agreed on. If two callers both succeed in finishing a run they are told the same
  terminal record, so the same outcome, and finishing again with that outcome changes nothing.
\<close>

theorem journal_outcomes_agree:
  assumes "store_run NewFactStore s" "\<forall>t. store_run t (e1 t) \<and> store_run t (e2 t)"
    "RunJournal_Finish InspectRun CompareAndSwapRun e1 s ctx scope i o1 n1 = (s1, Inr r1)"
    "store_run s1 s2"
    "RunJournal_Finish InspectRun CompareAndSwapRun e2 s2 ctx' scope i o2 n2 = (s3, Inr r2)"
  shows "o1 = o2 \<and> r1 = r2 \<and> run_Status r1 = RunTerminal \<and> run_Outcome r1 = o1
    \<and> RunJournal_Finish InspectRun CompareAndSwapRun e1 s3 LiveContext scope i o1 n3 = (s3, Inr r1)"
proof -
  have s: "store_ok s" by (rule reachable_ok [OF assms(1)])
  have 1: "moves store_ok run_of s s1" "run_Status r1 = RunTerminal" "run_Outcome r1 = o1" "run_of s1 scope i = Some r1"
    using store_port.finish_recorded [OF s store_run_moves assms(3)] assms(2) by blast+
  have s1: "store_ok s1" using 1(1) by (simp add: moves_def)
  have s2: "moves store_ok run_of s1 s2" "store_ok s2"
    using store_run_moves [OF assms(4) s1] by (simp_all add: moves_def)
  have 2: "moves store_ok run_of s2 s3" "run_Outcome r2 = o2" "run_of s3 scope i = Some r2"
    using store_port.finish_recorded [OF s2(2) store_run_moves assms(5)] assms(2) by blast+
  have "r2 = r1"
    by (rule store_port.outcomes_agree [OF s1 1(4,2) store_port.moves_trans [OF s2(1) 2(1)] 2(3)])
  moreover have "store_ok s3" using 2(1) by (simp add: moves_def)
  ultimately show ?thesis
    using 1(2,3) 2(2,3) store_port.finish_retry [of s3 scope i r1 e1 n3] by auto
qed

definition sample_finished :: AgentRunRecord where
  "sample_finished = (sample_run RunRunning 1 None)\<lparr>run_Status := RunTerminal, run_Revision := 2, run_EndedAt := 30,
     run_Outcome := OutcomeCompleted\<rparr>"

lemma sample_finished_transition: "ValidateRunFactTransition (sample_run RunRunning 1 None) sample_finished = None"
  by (simp add: ValidateRunFactTransition_def sample_finished_def Let_def run_status_move_def)
     (simp add: AgentRunRecord_Validate_def sample_run_def graphic_ascii time_defs)

lemma sample_finish_call:
  "RunJournal_Finish InspectRun CompareAndSwapRun (\<lambda>t. t) sample_store LiveContext
     (sample_scope (Some sample_lease)) ''r'' OutcomeCompleted 30
   = (fst (CompareAndSwapRun sample_store LiveContext \<lparr>cas_ExpectedRevision = 1, cas_Next = sample_finished\<rparr>),
      Inr sample_finished)"
proof -
  have "InspectRun sample_store LiveContext (sample_scope (Some sample_lease)) ''r'' = Inr (sample_run RunRunning 1 None)"
    by (simp add: InspectRun_run_of sample_store_run)
  moreover have f: "run_Scope sample_finished = sample_scope (Some sample_lease)" "run_ID sample_finished = ''r''"
    "run_Revision sample_finished = 2" "AgentRunRecord_Validate sample_finished = None"
    using ValidateRunFactTransitionD(2) [OF sample_finished_transition] by (simp_all add: sample_finished_def)
  have "snd (CompareAndSwapRun sample_store LiveContext \<lparr>cas_ExpectedRevision = 1, cas_Next = sample_finished\<rparr>)
      = Inr sample_finished"
    using sample_finished_transition f
    by (simp add: CompareAndSwapRun_def RunFactCASRequest_Validate_def sample_store_run run_reply_def
        consumeLostRunWriteReply_def Let_def)
  moreover have "(sample_run RunRunning 1 None)\<lparr>run_Status := RunTerminal, run_Revision := 2, run_EndedAt := 30,
      run_Outcome := OutcomeCompleted\<rparr> = sample_finished"
    by (simp add: sample_finished_def)
  ultimately show ?thesis
    by (cases "CompareAndSwapRun sample_store LiveContext \<lparr>cas_ExpectedRevision = 1, cas_Next = sample_finished\<rparr>")
       (simp add: RunJournal_Finish_def)
qed

lemma journal_outcomes_agree_witness: "run_Outcome sample_finished = OutcomeCompleted"
proof -
  let ?s1 = "fst (CompareAndSwapRun sample_store LiveContext \<lparr>cas_ExpectedRevision = 1, cas_Next = sample_finished\<rparr>)"
  have ok: "store_ok sample_store" by (rule reachable_ok [OF sample_store_reach])
  have r: "moves store_ok run_of sample_store ?s1" "run_of ?s1 (sample_scope (Some sample_lease)) ''r'' = Some sample_finished"
    using store_port.finish_recorded [OF ok _ sample_finish_call] store_port.moves_refl by auto
  have "RunJournal_Finish InspectRun CompareAndSwapRun (\<lambda>t. t) ?s1 LiveContext
     (sample_scope (Some sample_lease)) ''r'' (run_Outcome sample_finished) 40 = (?s1, Inr sample_finished)"
    by (rule store_port.finish_retry [OF _ r(2)]) (use r(1) in \<open>simp_all add: moves_def sample_finished_def\<close>)
  from journal_outcomes_agree [OF sample_store_reach _ sample_finish_call store_stay this]
  show ?thesis by (simp add: store_stay)
qed

text \<open>
  A lost reply is not a lost run. When the reply of a start is lost after the write, the caller sees
  an error, but looking for the active run finds exactly the run it started, and starting the same
  run again, blindly, is refused without a second run.
\<close>

theorem start_lost_reply_recovers:
  assumes "fs_loseRunWriteReply s" "ExecutionScope_Validate scope = None" "\<not> blank i" "\<not> IsZero now"
    "fs_runs s (runKey scope i) = None" "fs_activeRuns s (executionKey scope) = None"
  shows "\<exists>s' r. RunJournal_Start CreateRun s LiveContext scope i ref now
        = (s', Inl (DomainError ErrorUnavailable ReasonEvidenceUnavailable))
    \<and> InspectActiveRun s' LiveContext scope = Inr r \<and> run_ID r = i \<and> run_SessionRef r = ref
    \<and> run_StartedAt r = now \<and> run_Status r = RunRunning
    \<and> RunJournal_Start CreateRun s' LiveContext scope i ref now = (s', Inl (DomainError ErrorConflict ReasonAlreadyExists))"
proof -
  define r where "r = \<lparr>run_ID = i, run_Scope = scope, run_Status = RunRunning, run_Revision = (1::Revision),
        run_SessionRef = ref, run_StartedAt = now, run_EndedAt = 0, run_Outcome = NoOutcome, run_CompletionClaim = None\<rparr>"
  have sel [simp]: "run_ID r = i" "run_Scope r = scope" "run_SessionRef r = ref" "run_StartedAt r = now"
    "run_Status r = RunRunning" "run_Revision r = 1"
    by (simp_all add: r_def)
  have start: "RunJournal_Start CreateRun t LiveContext scope i ref now = CreateRun t LiveContext r" for t
    by (simp add: RunJournal_Start_def r_def)
  have v: "AgentRunRecord_Validate r = None"
    using assms(2-4) by (simp add: AgentRunRecord_Validate_def r_def IsZero_def)
  obtain s' x where call: "CreateRun s LiveContext r = (s', x)" by (cases "CreateRun s LiveContext r")
  have s': "x = Inl (DomainError ErrorUnavailable ReasonEvidenceUnavailable)"
    "fs_runs s' (runKey scope i) = Some r" "fs_activeRuns s' (executionKey scope) = Some i"
    using call assms v by (auto simp: CreateRun_def Let_def run_reply_def consumeLostRunWriteReply_def)
  have "InspectActiveRun s' LiveContext scope = Inr r"
    using s' assms(2) by (simp add: InspectActiveRun_def)
  moreover have "CreateRun s' LiveContext r = (s', Inl (DomainError ErrorConflict ReasonAlreadyExists))"
    using s' v by (simp add: CreateRun_def Let_def)
  ultimately show ?thesis using call s'(1) start by auto
qed

lemma start_lost_reply_recovers_witness:
  "\<exists>r. InspectActiveRun (fst (RunJournal_Start CreateRun (LoseNextRunWriteReply NewFactStore) LiveContext (sample_scope None)
     ''r'' ''x'' 10)) LiveContext (sample_scope None) = Inr r \<and> run_SessionRef r = ''x''"
  using start_lost_reply_recovers [of "LoseNextRunWriteReply NewFactStore" "sample_scope None" "''r''" 10 "''x''"]
  by (auto simp: LoseNextRunWriteReply_def NewFactStore_def graphic_ascii IsZero_def)

section \<open>Commands\<close>

text \<open>
  C5: A command takes effect once. A caller that repeats a command it got an acceptance for, before the
  command expires, gets the same acceptance and changes nothing, whatever happened to the store in
  between.
\<close>

theorem command_replay:
  assumes "store_run NewFactStore s" "AcceptCommand s ctx intent now = (s1, Inr a)" "store_run s1 s2"
    "now' < env_ExpiresAt (cint_Envelope intent)"
  shows "AcceptCommand s2 LiveContext intent now' = (s2, Inr a)"
proof -
  have s: "store_ok s" by (rule reachable_ok [OF assms(1)])
  have s1: "store_ok s1" using store_step_kept [OF store_step.accept_cmd [OF assms(2)] s] by simp
  have kept: "instances_kept s1 s2" using store_run_kept [OF assms(3) s1] by (simp add: store_kept_def)
  have pre: "contextError LiveContext = None \<and> CommandEnvelope_Validate (cint_Envelope intent) = None
      \<and> DesiredStateMutation_ValidateFor (cint_Mutation intent) (env_Kind (cint_Envelope intent)) = None"
    using assms(2) by (auto simp: AcceptCommand_def Let_def)
  have rec: "\<exists>f. fs_instances s1 (executionKey (env_Target (cint_Envelope intent))) = Some f
      \<and> if_idempotency f (commandIdempotencyKey (cint_Envelope intent)) = Some a
      \<and> env_CanonicalPayloadDigest (crec_Envelope (acc_Record a)) = env_CanonicalPayloadDigest (cint_Envelope intent)"
    using assms(2)
  proof (cases rule: AcceptCommand_cases)
    case (accepted f f' a')
    then show ?thesis using accept_command_sel(4,5) [OF accepted(4)] by simp
  qed auto
  then obtain f where "fs_instances s2 (executionKey (env_Target (cint_Envelope intent))) = Some f"
    "if_idempotency f (commandIdempotencyKey (cint_Envelope intent)) = Some a"
    using kept by (force simp: instances_kept_def facts_kept_def)
  then show ?thesis
    using pre rec assms(4) by (auto simp: AcceptCommand_def Let_def time_defs)
qed

text \<open>A sample: an instance that is to run, and a command that stops it.\<close>

definition sample_desired :: DesiredStateSnapshot where
  "sample_desired = \<lparr>ds_Scope = sample_scope None, ds_Desired = DesiredRunning, ds_Revision = 1, ds_LastCommandID = ''''\<rparr>"

definition sample_stop :: CommandIntent where
  "sample_stop = \<lparr>cint_Envelope = \<lparr>env_ID = ''c'', env_Kind = CommandStopInstance, env_Target = sample_scope None,
     env_Actor = ''a'', env_AuthorityRef = ''a'', env_Reason = ''r'', env_CanonicalPayloadDigest = sample_digest,
     env_Preconditions = preconditions_of \<lparr>cur_Scope = sample_scope None, cur_Revision = 1\<rparr>,
     env_IdempotencyKey = ''k'', env_EffectIntentID = '''', env_EffectIntentRevision = 0, env_SubmittedAt = 10,
     env_ExpiresAt = 100\<rparr>, cint_Mutation = \<lparr>mut_Desired = DesiredStopped\<rparr>\<rparr>"

definition sample_desired_store :: FactStore where
  "sample_desired_store = fst (CreateDesiredState NewFactStore LiveContext sample_desired)"

lemma sample_desired_sel [simp]:
  "ds_Scope sample_desired = sample_scope None" "ds_Revision sample_desired = 1" "ds_Desired sample_desired = DesiredRunning"
  "ds_LastCommandID sample_desired = ''''"
  by (simp_all add: sample_desired_def)

lemma sample_desired_call:
  "CreateDesiredState NewFactStore LiveContext sample_desired = (sample_desired_store, Inr sample_desired)"
  by (simp add: sample_desired_store_def CreateDesiredState_def NewFactStore_def ValidDesiredExecutionState_def Let_def)

lemma sample_desired_reach: "store_run NewFactStore sample_desired_store"
  by (rule store_go [OF store_stay create_desired [OF sample_desired_call]])

lemma sample_desired_facts:
  "fs_instances sample_desired_store (executionKey (sample_scope None))
     = Some \<lparr>if_desired = sample_desired, if_commands = [], if_outbox = [], if_idempotency = Map.empty\<rparr>"
  "fs_evidenceAvailable sample_desired_store"
  by (simp_all add: sample_desired_store_def CreateDesiredState_def NewFactStore_def ValidDesiredExecutionState_def Let_def)

lemma sample_stop_sel [simp]:
  "env_Kind (cint_Envelope sample_stop) = CommandStopInstance" "env_Target (cint_Envelope sample_stop) = sample_scope None"
  "env_ExpiresAt (cint_Envelope sample_stop) = 100" "cint_Mutation sample_stop = \<lparr>mut_Desired = DesiredStopped\<rparr>"
  "env_Preconditions (cint_Envelope sample_stop) = preconditions_of \<lparr>cur_Scope = sample_scope None, cur_Revision = 1\<rparr>"
  by (simp_all add: sample_stop_def)

lemma sample_stop_valid [simp]: "CommandEnvelope_Validate (cint_Envelope sample_stop) = None"
  by (simp add: CommandEnvelope_Validate_def)
     (simp add: sample_stop_def graphic_ascii time_defs ExecutionPreconditions_Validate_def preconditions_of_def sample_scope_def)

lemma sample_stop_call:
  "\<exists>s a. AcceptCommand sample_desired_store LiveContext sample_stop 50 = (s, Inr a)
     \<and> crec_Envelope (acc_Record a) = cint_Envelope sample_stop"
  by (simp add: AcceptCommand_def sample_desired_facts CheckExecutionPreconditions_iff DesiredStateMutation_ValidateFor_def
      isNonLifecycleCommand_def accept_command_def time_defs Let_def)

lemma command_replay_witness:
  "\<exists>s a. AcceptCommand s LiveContext sample_stop 60 = (s, Inr a)"
proof -
  obtain s a where "AcceptCommand sample_desired_store LiveContext sample_stop 50 = (s, Inr a)"
    using sample_stop_call by blast
  from command_replay [OF sample_desired_reach this store_stay, of 60] show ?thesis by auto
qed

text \<open>
  C8: A stop is final. Once a stop, fence or revocation has been accepted for an instance, its desired
  state is never \<open>running\<close> again in any later store.
\<close>

theorem stop_is_final:
  assumes "store_run NewFactStore s" "AcceptCommand s ctx intent now = (s1, Inr a)"
    "stops (env_Kind (crec_Envelope (acc_Record a)))" "store_run s1 s2"
    "ReadDesiredState s2 ctx' (env_Target (cint_Envelope intent)) = Inr d"
  shows "ds_Desired d \<noteq> DesiredRunning"
proof -
  have s: "store_ok s" by (rule reachable_ok [OF assms(1)])
  have s1: "store_ok s1" using store_step_kept [OF store_step.accept_cmd [OF assms(2)] s] by simp
  have s2: "store_ok s2" "instances_kept s1 s2"
    using store_run_kept [OF assms(4) s1] by (simp_all add: store_kept_def)
  let ?k = "executionKey (env_Target (cint_Envelope intent))"
  have "\<exists>f. fs_instances s1 ?k = Some f \<and> (\<exists>k. if_idempotency f k = Some a)"
    using assms(2)
  proof (cases rule: AcceptCommand_cases)
    case (accepted f f' a')
    then show ?thesis using accept_command_sel(4) [OF accepted(4)] by (simp add: exI [of _ "commandIdempotencyKey (cint_Envelope intent)"])
  qed auto
  then obtain g k where g: "fs_instances s2 ?k = Some g" "if_idempotency g k = Some a"
    using s2(2) by (force simp: instances_kept_def facts_kept_def)
  have ok: "commands_ok g" using s2(1) g(1) by (auto simp: store_ok_def instances_ok_def)
  then obtain c where "c \<in> set (if_commands g)" "crec_Envelope c = crec_Envelope (acc_Record a)"
    using g(2) by (auto simp: commands_ok_def cmds_replies_def)
  then have "ds_Desired (if_desired g) \<noteq> DesiredRunning"
    using ok assms(3) by (auto simp: commands_ok_def cmds_stopped_def)
  then show ?thesis using assms(5) g(1) by (auto simp: ReadDesiredState_def instance_of_Inr)
qed

lemma stop_is_final_witness:
  "\<exists>s d. ReadDesiredState s LiveContext (sample_scope None) = Inr d \<and> ds_Desired d \<noteq> DesiredRunning"
proof -
  obtain s a where call: "AcceptCommand sample_desired_store LiveContext sample_stop 50 = (s, Inr a)"
    and e: "crec_Envelope (acc_Record a) = cint_Envelope sample_stop"
    using sample_stop_call by blast
  obtain d where "ReadDesiredState s LiveContext (sample_scope None) = Inr d"
    using call
    by (auto simp: AcceptCommand_def sample_desired_facts CheckExecutionPreconditions_iff DesiredStateMutation_ValidateFor_def
      isNonLifecycleCommand_def accept_command_def time_defs Let_def ReadDesiredState_def instance_of_def)
  then show ?thesis
    using stop_is_final [OF sample_desired_reach call _ store_stay, of LiveContext d] e by (auto simp: stops_def)
qed

text \<open>
  The recorded commands of an instance are numbered without gaps by the revisions they made, under
  different identifiers, the outbox has one record for each in the same order with the same revision
  and payload, and no open command dominates another open one.
\<close>

theorem commands_numbered:
  assumes "store_run NewFactStore s" "ListCommands s ctx scope = Inr cs" "ListOutbox s ctx' scope = Inr os"
    "ReadDesiredState s ctx'' scope = Inr d"
  shows "ds_Revision d = word_of_nat (length cs + 1) \<and> length os = length cs
    \<and> distinct (map (\<lambda>c. env_ID (crec_Envelope c)) cs)
    \<and> (\<forall>i < length cs. crec_Revision (cs ! i) = word_of_nat (i + 2) \<and> ob_Revision (os ! i) = word_of_nat (i + 2)
         \<and> ob_CommandID (os ! i) = env_ID (crec_Envelope (cs ! i))
         \<and> ob_PayloadDigest (os ! i) = env_CanonicalPayloadDigest (crec_Envelope (cs ! i)))
    \<and> (\<forall>c \<in> set cs. \<forall>e \<in> set cs. command_open c \<and> command_open e \<longrightarrow>
         \<not> CommandSupersedes (crec_Envelope c) (crec_Envelope e))"
proof -
  obtain f where f: "fs_instances s (executionKey scope) = Some f" "cs = if_commands f" "os = if_outbox f" "d = if_desired f"
    using assms(2-4) by (auto simp: ListCommands_def ListOutbox_def ReadDesiredState_def instance_of_Inr)
  have ok: "commands_ok f" using reachable_ok [OF assms(1)] f(1) by (auto simp: store_ok_def instances_ok_def)
  have n: "map crec_Revision cs = map (\<lambda>i. word_of_nat (i + 2)) [0..<length cs]"
    and o1: "map (\<lambda>c. (env_ID (crec_Envelope c), crec_Revision c, env_CanonicalPayloadDigest (crec_Envelope c))) cs
       = map (\<lambda>o1. (ob_CommandID o1, ob_Revision o1, ob_PayloadDigest o1)) os"
    using ok f(2,3) by (auto simp: commands_ok_def cmds_numbered_def cmds_outbox_def)
  have len: "length os = length cs" using arg_cong [OF o1, of length] by simp
  have r: "crec_Revision (cs ! i) = word_of_nat (i + 2)" if "i < length cs" for i
    using arg_cong [OF n, of "\<lambda>l. l ! i"] that by simp
  have "(env_ID (crec_Envelope (cs ! i)), crec_Revision (cs ! i), env_CanonicalPayloadDigest (crec_Envelope (cs ! i)))
      = (ob_CommandID (os ! i), ob_Revision (os ! i), ob_PayloadDigest (os ! i))" if "i < length cs" for i
    using arg_cong [OF o1, of "\<lambda>l. l ! i"] that len by simp
  with r have "\<forall>i < length cs. crec_Revision (cs ! i) = word_of_nat (i + 2) \<and> ob_Revision (os ! i) = word_of_nat (i + 2)
         \<and> ob_CommandID (os ! i) = env_ID (crec_Envelope (cs ! i))
         \<and> ob_PayloadDigest (os ! i) = env_CanonicalPayloadDigest (crec_Envelope (cs ! i))"
    by simp
  then show ?thesis
    using ok len f(2-4) by (auto simp: commands_ok_def cmds_numbered_def cmds_undominated_def)
qed

lemma sample_stop_recorded:
  "\<exists>s a c ob. AcceptCommand sample_desired_store LiveContext sample_stop 50 = (s, Inr a)
     \<and> ListCommands s LiveContext (sample_scope None) = Inr [c] \<and> ListOutbox s LiveContext (sample_scope None) = Inr [ob]
     \<and> ReadDesiredState s LiveContext (sample_scope None) = Inr (acc_DesiredState a)"
  by (simp add: AcceptCommand_def sample_desired_facts CheckExecutionPreconditions_iff DesiredStateMutation_ValidateFor_def
      isNonLifecycleCommand_def accept_command_def time_defs Let_def ListCommands_def ListOutbox_def ReadDesiredState_def
      instance_of_def supersede_commands_def)

lemma commands_numbered_witness:
  "\<exists>s c ob. ListCommands s LiveContext (sample_scope None) = Inr [c] \<and> ListOutbox s LiveContext (sample_scope None) = Inr [ob]
     \<and> crec_Revision c = 2 \<and> ob_CommandID ob = env_ID (crec_Envelope c)"
proof -
  obtain s a c ob where s: "AcceptCommand sample_desired_store LiveContext sample_stop 50 = (s, Inr a)"
    "ListCommands s LiveContext (sample_scope None) = Inr [c]" "ListOutbox s LiveContext (sample_scope None) = Inr [ob]"
    "ReadDesiredState s LiveContext (sample_scope None) = Inr (acc_DesiredState a)"
    using sample_stop_recorded by blast
  have "store_run NewFactStore s" by (rule store_go [OF sample_desired_reach accept_cmd [OF s(1)]])
  from commands_numbered [OF this s(2-4)] s(2,3) show ?thesis by auto
qed
section \<open>Identity leases\<close>

definition sample_reserve :: "string \<Rightarrow> string \<Rightarrow> ReserveIdentityLeaseRequest" where
  "sample_reserve tenant ident = \<lparr>rs_TenantID = tenant, rs_IdentityID = ident, rs_ExpectedIdentityEpoch = 0,
     rs_Lineage = \<lparr>lineage_ID = ''l'', lineage_PlanDigest = sample_digest\<rparr>, rs_ActivationAttemptID = ''a'',
     rs_AuthorityEpoch = 1, rs_ExpiresAt = 100\<rparr>"

definition sample_lease_store :: "string \<Rightarrow> string \<Rightarrow> FactStore" where
  "sample_lease_store tenant ident =
     store_lease NewFactStore (identityKey tenant ident) (new_lease (sample_reserve tenant ident))"

lemma sample_reserve_call:
  assumes "\<not> blank tenant" "\<not> blank ident"
  shows "ReserveIdentityLease NewFactStore LiveContext (sample_reserve tenant ident) 50
     = (sample_lease_store tenant ident, Inr (new_lease (sample_reserve tenant ident)))"
  using assms
  by (simp add: ReserveIdentityLease_def ReserveIdentityLeaseRequest_Validate_def sample_reserve_def sample_lease_store_def
      NewFactStore_def LineageRef_Validate_def graphic_ascii time_defs Let_def)

lemma sample_lease_reach: "store_run NewFactStore (sample_lease_store ''t'' ''a'')"
  by (rule store_go [OF store_stay reserve_lease [OF sample_reserve_call]]) (simp_all add: graphic_ascii)

lemma sample_lease_heap [simp]: "fs_heap (sample_lease_store t a) = [new_lease (sample_reserve t a)]"
  by (simp add: sample_lease_store_def NewFactStore_def)

lemma sample_lease_held [simp]: "lease_held (new_lease r)"
  by (simp add: lease_held_def)

text \<open>
  C7: One holder per identity, for ever. In every reachable store at most one lease of an identity is
  reserved or active. And in every later store a lease is still a lease of the same identity, and one that is not
  reserved or active any more never becomes so again: a holder that has been revoked, released or has expired
  never gets the identity back under its old lease, whether or not another lease has taken its place.
\<close>

theorem identity_single_holder:
  assumes "store_run NewFactStore s" "store_run s t" "p < length (fs_heap s)"
  shows "(lease_held (fs_heap s ! p) \<and> q < length (fs_heap s) \<and> lease_held (fs_heap s ! q)
      \<and> ident_TenantID (il_Identity (fs_heap s ! p)) = ident_TenantID (il_Identity (fs_heap s ! q))
      \<and> ident_ID (il_Identity (fs_heap s ! p)) = ident_ID (il_Identity (fs_heap s ! q)) \<longrightarrow> p = q)
    \<and> p < length (fs_heap t) \<and> il_ID (fs_heap t ! p) = il_ID (fs_heap s ! p)
    \<and> il_Identity (fs_heap t ! p) = il_Identity (fs_heap s ! p)
    \<and> (\<not> lease_held (fs_heap s ! p) \<longrightarrow> \<not> lease_held (fs_heap t ! p))"
proof -
  have s: "store_ok s" by (rule reachable_ok [OF assms(1)])
  then have "leases_ok s" by (simp add: store_ok_def)
  note ok = leases_okD(3) [OF this]
  have "p = q" if "lease_held (fs_heap s ! p) \<and> q < length (fs_heap s) \<and> lease_held (fs_heap s ! q)
      \<and> ident_TenantID (il_Identity (fs_heap s ! p)) = ident_TenantID (il_Identity (fs_heap s ! q))
      \<and> ident_ID (il_Identity (fs_heap s ! p)) = ident_ID (il_Identity (fs_heap s ! q))"
  proof -
    have "lease_key (fs_heap s ! p) = lease_key (fs_heap s ! q)" using that by (simp add: lease_key_def)
    then show ?thesis using ok [OF assms(3)] ok [of q] that by (metis option.inject)
  qed
  moreover have "p < length (fs_heap t) \<and> lease_kept (fs_heap s ! p) (fs_heap t ! p)"
    using store_run_kept [OF assms(2) s] assms(3) by (auto simp: store_kept_def heap_kept_def)
  ultimately show ?thesis by (auto simp: lease_kept_def)
qed

text \<open>A sample: the first lease has expired and the identity is reserved again.\<close>

definition sample_again :: ReserveIdentityLeaseRequest where
  "sample_again = (sample_reserve ''t'' ''a'')\<lparr>rs_ExpectedIdentityEpoch := 1, rs_ExpiresAt := 300\<rparr>"

lemma sample_again_call:
  "\<exists>s. ReserveIdentityLease (sample_lease_store ''t'' ''a'') LiveContext sample_again 200 = (s, Inr (new_lease sample_again))
     \<and> length (fs_heap s) = 2 \<and> fs_heap s ! 1 = new_lease sample_again
     \<and> il_Identity (fs_heap s ! 0) = il_Identity (new_lease (sample_reserve ''t'' ''a''))"
  by (simp add: ReserveIdentityLease_def sample_again_def sample_reserve_def ReserveIdentityLeaseRequest_Validate_def
      time_defs Let_def sample_lease_store_def NewFactStore_def store_lease_def new_lease_def expireLeaseIfNeeded_def
      expired_lease_def LineageRef_Validate_def graphic_ascii)

lemma identity_single_holder_witness:
  "\<exists>s :: FactStore. lease_held (fs_heap s ! 1) \<and> \<not> lease_held (fs_heap s ! 0)"
proof -
  obtain s where s: "ReserveIdentityLease (sample_lease_store ''t'' ''a'') LiveContext sample_again 200 = (s, Inr (new_lease sample_again))"
    "length (fs_heap s) = 2" "fs_heap s ! 1 = new_lease sample_again"
    "il_Identity (fs_heap s ! 0) = il_Identity (new_lease (sample_reserve ''t'' ''a''))"
    using sample_again_call by blast
  have "store_run NewFactStore s"
    by (rule store_go [OF sample_lease_reach reserve_lease [OF s(1)]])
  from identity_single_holder [OF this store_stay, of 1 0] s(2-4)
  have "lease_held (fs_heap s ! 1) \<and> \<not> lease_held (fs_heap s ! 0)"
    by (simp add: sample_again_def sample_reserve_def new_lease_def lease_held_def)
  then show ?thesis by blast
qed

text \<open>
  No operation hands out a dead lease: a lease that reserving, renewing, ending or inspecting returns
  as reserved or active had not expired at the time the operation read the clock.
\<close>

theorem leases_handed_out_live:
  assumes "store_run NewFactStore s"
    "ReserveIdentityLease s ctx rr now = (s', Inr l) \<or> RenewIdentityLease s ctx rn now = (s', Inr l)
     \<or> RevokeIdentityLease s ctx re now = (s', Inr l) \<or> ReleaseIdentityLease s ctx re now = (s', Inr l)
     \<or> InspectIdentityLease s ctx tenant ident now = (s', Inr l)"
    "lease_held l"
  shows "now < il_ExpiresAt l"
proof -
  have ok: "leases_ok s" using reachable_ok [OF assms(1)] by (simp add: store_ok_def)
  have "lease_held l \<longrightarrow> now < il_ExpiresAt l"
    using assms(2)
  proof (elim disjE)
    assume "ReserveIdentityLease s ctx rr now = (s', Inr l)"
    from ReserveIdentityLease_ok [OF ok this] show ?thesis by simp
  next
    assume "RenewIdentityLease s ctx rn now = (s', Inr l)"
    from RenewIdentityLease_ok [OF ok this] show ?thesis by simp
  next
    assume "RevokeIdentityLease s ctx re now = (s', Inr l)"
    from RevokeIdentityLease_ok [OF ok this] show ?thesis by simp
  next
    assume "ReleaseIdentityLease s ctx re now = (s', Inr l)"
    from ReleaseIdentityLease_ok [OF ok this] show ?thesis by simp
  next
    assume "InspectIdentityLease s ctx tenant ident now = (s', Inr l)"
    from InspectIdentityLease_ok [OF ok this] show ?thesis by simp
  qed
  then show ?thesis using assms(3) by simp
qed

lemma leases_handed_out_live_witness: "50 < il_ExpiresAt (new_lease (sample_reserve ''t'' ''a''))"
  using leases_handed_out_live [OF store_stay, of LiveContext "sample_reserve ''t'' ''a''" 50
      "sample_lease_store ''t'' ''a''" "new_lease (sample_reserve ''t'' ''a'')"]
  by (simp add: sample_reserve_call graphic_ascii)

text \<open>
  The identity key does not separate tenants: after tenant \<open>t/a\<close> reserves its identity \<open>d\<close>, tenant
  \<open>t\<close> is refused its own identity \<open>a/d\<close>, which nobody holds, and inspecting that identity
  returns the lease of the other tenant.
\<close>

theorem identity_key_crosses_tenants:
  "\<exists>s. ReserveIdentityLease NewFactStore LiveContext (sample_reserve ''t/a'' ''d'') 50
        = (s, Inr (new_lease (sample_reserve ''t/a'' ''d'')))
    \<and> ReserveIdentityLease s LiveContext ((sample_reserve ''t'' ''a/d'')\<lparr>rs_ActivationAttemptID := ''x''\<rparr>) 50
        = (s, Inl (DomainError ErrorConflict ReasonIdentityLeaseConflict))
    \<and> InspectIdentityLease s LiveContext ''t'' ''a/d'' 50 = (s, Inr (new_lease (sample_reserve ''t/a'' ''d'')))
    \<and> ident_TenantID (il_Identity (new_lease (sample_reserve ''t/a'' ''d''))) = ''t/a''"
proof -
  let ?s = "sample_lease_store ''t/a'' ''d''"
  have k: "fs_leases ?s (identityKey ''t'' ''a/d'') = Some 0"
    by (simp add: sample_lease_store_def identityKey_def NewFactStore_def)
  have e: "expireLeaseIfNeeded ?s 0 50 = ?s"
    by (simp add: expireLeaseIfNeeded_def expired_lease_def time_defs sample_reserve_def new_lease_def Let_def)
  have n: "il_ActivationAttemptID (new_lease (sample_reserve ''t/a'' ''d'')) = ''a''"
    "ident_TenantID (il_Identity (new_lease (sample_reserve ''t/a'' ''d''))) = ''t/a''"
    by (simp_all add: new_lease_def sample_reserve_def Let_def)
  have v: "ReserveIdentityLeaseRequest_Validate ((sample_reserve ''t'' ''a/d'')\<lparr>rs_ActivationAttemptID := ''x''\<rparr>) 50 = None"
    by (simp add: ReserveIdentityLeaseRequest_Validate_def sample_reserve_def LineageRef_Validate_def graphic_ascii time_defs)
  have t: "rs_TenantID ((sample_reserve ''t'' ''a/d'')\<lparr>rs_ActivationAttemptID := ''x''\<rparr>) = ''t''"
    "rs_IdentityID ((sample_reserve ''t'' ''a/d'')\<lparr>rs_ActivationAttemptID := ''x''\<rparr>) = ''a/d''"
    by (simp_all add: sample_reserve_def)
  have "ReserveIdentityLease ?s LiveContext ((sample_reserve ''t'' ''a/d'')\<lparr>rs_ActivationAttemptID := ''x''\<rparr>) 50
        = (?s, Inl (DomainError ErrorConflict ReasonIdentityLeaseConflict))"
    using v by (simp add: ReserveIdentityLease_def Let_def t k e n)
  moreover have "InspectIdentityLease ?s LiveContext ''t'' ''a/d'' 50 = (?s, Inr (new_lease (sample_reserve ''t/a'' ''d'')))"
    by (simp add: InspectIdentityLease_def k e Let_def)
  ultimately show ?thesis
    using sample_reserve_call [of "''t/a''" "''d''"] n(2) by (auto simp: graphic_ascii)
qed

section \<open>Activation\<close>

text \<open>A sample journal: the attempt that holds the sample lease, at a given stage.\<close>

definition sample_early :: "ActivationStage \<Rightarrow> ActivationSnapshot option \<Rightarrow> Revision \<Rightarrow> ActivationAttempt" where
  "sample_early stage snapshot n =
     \<lparr>at_ID = ''a'', at_Scope = sample_scope None, at_ExpectedIdentityEpoch = 0, at_RequirementDigest = sample_digest,
      at_Stage = stage, at_Recovery = RecoveryNormal, at_Snapshot = snapshot, at_IdentityLeaseID = '''',
      at_IdentityLeaseState = NoLeaseState, at_IdentityLeaseRevision = 0, at_Budget = sample_op OperationNotStarted,
      at_SandboxReservation = sample_op OperationNotStarted, at_SandboxActivation = sample_op OperationNotStarted,
      at_SandboxFenced = False, at_FailureReason = '''', at_Revision = n, at_CreatedAt = 10, at_UpdatedAt = 10\<rparr>"

abbreviation sample_normal where
  "sample_normal stage budget sandbox n \<equiv> sample_attempt stage RecoveryNormal IdentityLeaseReserved budget sandbox n"

lemma sample_early_valid:
  "n \<noteq> 0 \<Longrightarrow> stage \<in> {StageProposed, StagePreflighting, StagePreflightPassed} \<and> snapshot = None
      \<or> stage = StageSnapshotFrozen \<and> snapshot = Some sample_snapshot \<Longrightarrow>
     ActivationAttempt_Validate (sample_early stage snapshot n) now = None"
  by (auto simp: sample_early_def ActivationAttempt_Validate_def Let_def time_defs validStage_def graphic_ascii
      hasUnknownOperation_def)

lemmas sample_transition_simps =
  ValidateTransition_def ActivationSnapshot_ValidateFresh_def time_defs

lemma sample_transitions:
  "ValidateTransition (sample_early StageProposed None 1) (sample_early StagePreflighting None 2) c 50 = None"
  "ValidateTransition (sample_early StagePreflighting None 2) (sample_early StagePreflightPassed None 3) c 50 = None"
  "ValidateTransition (sample_early StagePreflightPassed None 3) (sample_early StageSnapshotFrozen (Some sample_snapshot) 4) c 50 = None"
  "ValidateTransition (sample_early StageSnapshotFrozen (Some sample_snapshot) 4)
     (sample_normal StageIdentityLeaseReserved OperationNotStarted OperationNotStarted 5) c 50 = None"
  "ValidateTransition (sample_normal StageIdentityLeaseReserved OperationNotStarted OperationNotStarted 5)
     (sample_normal StageBudgetResolved OperationConfirmedApplied OperationNotStarted 6) c 50 = None"
  "ValidateTransition (sample_normal StageBudgetResolved OperationConfirmedApplied OperationNotStarted 6)
     (sample_normal StageSandboxReserved OperationConfirmedApplied OperationConfirmedApplied 7) c 50 = None"
  by (simp add: sample_transition_simps sample_early_valid sample_attempt_valid,
      simp add: sample_early_def sample_attempt_def sample_transition_simps)+

definition sample_journal :: "ActivationAttempt \<Rightarrow> FactStore" where
  "sample_journal a = (sample_lease_store ''t'' ''a'')\<lparr>fs_activations := [''a'' \<mapsto> a]\<rparr>"

lemma sample_attempt_ID [simp]: "at_ID (sample_early st sn n) = ''a''" "at_ID (sample_attempt st rc l b x n) = ''a''"
  by (simp_all add: sample_early_def sample_attempt_def)

lemma sample_journal_create: "store_run NewFactStore (sample_journal (sample_early StageProposed None 1))"
proof (rule store_go [OF sample_lease_reach create_attempt])
  show "CreateActivationAttempt (sample_lease_store ''t'' ''a'') LiveContext (sample_early StageProposed None 1) 50
      = (sample_journal (sample_early StageProposed None 1), Inr (sample_early StageProposed None 1))"
    by (simp add: CreateActivationAttempt_def sample_early_valid)
       (simp add: sample_early_def sample_journal_def sample_lease_store_def NewFactStore_def store_lease_def)
qed

lemma sample_journal_swap:
  assumes "store_run NewFactStore (sample_journal a)" "at_ID b = ''a''" "ValidateTransition a b \<lparr>atc_UnknownResolved = False\<rparr> 50 = None"
  shows "store_run NewFactStore (sample_journal b)"
proof (rule store_go [OF assms(1) swap_attempt])
  show "CompareAndSwapActivation (sample_journal a) LiveContext b \<lparr>atc_UnknownResolved = False\<rparr> 50 = (sample_journal b, Inr b)"
    using assms(2,3)
    by (simp add: CompareAndSwapActivation_def sample_journal_def sample_lease_store_def NewFactStore_def store_lease_def)
qed

lemma sample_journal_reach:
  "store_run NewFactStore (sample_journal (sample_normal StageSandboxReserved OperationConfirmedApplied OperationConfirmedApplied 7))"
  by (intro sample_journal_swap [OF _ _ sample_transitions(6)] sample_journal_swap [OF _ _ sample_transitions(5)]
      sample_journal_swap [OF _ _ sample_transitions(4)] sample_journal_swap [OF _ _ sample_transitions(3)]
      sample_journal_swap [OF _ _ sample_transitions(2)] sample_journal_swap [OF _ _ sample_transitions(1)]
      sample_journal_create sample_attempt_ID)

definition sample_commit :: ActivationStoreCommitRequest where
  "sample_commit = \<lparr>acr_AttemptID = ''a'', acr_ExpectedAttemptRevision = 7, acr_IdentityLeaseID = ''t/a/lease/1'',
     acr_ExpectedIdentityLeaseRevision = 1, acr_SandboxLease = sample_lease, acr_AuthorityEpoch = 1\<rparr>"

definition sample_committed :: ActivationAttempt where
  "sample_committed = committed_attempt (sample_normal StageSandboxReserved OperationConfirmedApplied OperationConfirmedApplied 7)
     sample_lease (new_lease (sample_reserve ''t'' ''a'')) 50"

lemma sample_committed_transition:
  "ValidateTransition (sample_normal StageSandboxReserved OperationConfirmedApplied OperationConfirmedApplied 7)
     sample_committed c 50 = None"
proof -
  have "ActivationAttempt_Validate sample_committed 50 = None"
    by (simp add: sample_committed_def committed_attempt_def sample_attempt_def ActivationAttempt_Validate_def Let_def
        time_defs validStage_def graphic_ascii hasUnknownOperation_def ExecutionScope_Validate_bind new_lease_def)
       (simp add: sample_op_def sample_lease_def)
  then show ?thesis
    by (simp add: sample_transition_simps sample_attempt_valid)
       (simp add: sample_committed_def committed_attempt_def sample_attempt_def sample_transition_simps)
qed

lemma dec_1 [simp]: "dec (Suc 0) = ''1''"
  by code_simp

lemma sample_commit_call:
  "\<exists>s' res. StoreCommitActivation (sample_journal (sample_normal StageSandboxReserved OperationConfirmedApplied OperationConfirmedApplied 7))
     LiveContext sample_commit 50 = (s', Inr res)"
proof -
  let ?a = "sample_normal StageSandboxReserved OperationConfirmedApplied OperationConfirmedApplied 7"
  let ?l = "new_lease (sample_reserve ''t'' ''a'')"
  have l: "il_ID ?l = ''t/a/lease/1''" "il_Revision ?l = 1"
    by (simp_all add: new_lease_def sample_reserve_def leaseID_def Let_def)
  have i: "fs_leaseIDs (sample_journal ?a) ''t/a/lease/1'' = Some 0" "fs_activations (sample_journal ?a) ''a'' = Some ?a"
    "fs_evidenceAvailable (sample_journal ?a)" "fs_heap (sample_journal ?a) = [?l]"
    using l(1) by (simp_all add: sample_journal_def sample_lease_store_def NewFactStore_def store_lease_def)
  have e: "expireLeaseIfNeeded (sample_journal ?a) 0 50 = sample_journal ?a"
    using i(4) by (simp add: expireLeaseIfNeeded_def expired_lease_def time_defs sample_reserve_def new_lease_def Let_def)
  have c: "commit_lease_error ?a ?l sample_commit = None"
    by (simp add: commit_lease_error_def l) (simp add: sample_commit_def sample_attempt_def new_lease_def sample_reserve_def
        sample_scope_def Let_def)
  have "ValidateTransition ?a (committed_attempt ?a sample_lease ?l 50) \<lparr>atc_UnknownResolved = False\<rparr> 50 = None"
    using sample_committed_transition by (simp add: sample_committed_def)
  moreover have "at_Stage ?a = StageSandboxReserved" "at_Recovery ?a = RecoveryNormal" "at_Revision ?a = 7"
    "at_SandboxReservation ?a = sample_op OperationConfirmedApplied"
    by (simp_all add: sample_attempt_def)
  moreover have "op_Reference (sample_op OperationConfirmedApplied) = slease_ID sample_lease"
    by (simp add: sample_op_def sample_lease_def)
  ultimately show ?thesis
    using i e c by (simp add: StoreCommitActivation_def) (simp add: sample_commit_def graphic_ascii Let_def)
qed

text \<open>
  C6: The commit is one step on the right facts: when it succeeds, the attempt it names was ready at the
  expected revision and is now committed with that sandbox lease; the identity lease was the one
  reserved by this attempt for this identity, unexpired, and is now active at the revision the attempt
  records; every other attempt and lease is untouched, and the same request is refused from then on.
\<close>

theorem commit_is_atomic:
  assumes "store_run NewFactStore s" "StoreCommitActivation s ctx r now = (s', Inr res)"
  shows "\<exists>a p. fs_activations s (acr_AttemptID r) = Some a \<and> fs_leaseIDs s (acr_IdentityLeaseID r) = Some p
    \<and> at_Stage a = StageSandboxReserved \<and> at_Revision a = acr_ExpectedAttemptRevision r
    \<and> il_State (fs_heap s ! p) = IdentityLeaseReserved \<and> now < il_ExpiresAt (fs_heap s ! p)
    \<and> il_ActivationAttemptID (fs_heap s ! p) = at_ID a \<and> il_Identity (fs_heap s ! p) = scope_Identity (at_Scope a)
    \<and> fs_activations s' = (fs_activations s)(acr_AttemptID r \<mapsto> acres_Attempt res)
    \<and> fs_heap s' = (fs_heap s)[p := acres_IdentityLease res]
    \<and> at_Stage (acres_Attempt res) = StageCommitted
    \<and> scope_SandboxLease (at_Scope (acres_Attempt res)) = Some (acr_SandboxLease r)
    \<and> il_State (acres_IdentityLease res) = IdentityLeaseActive
    \<and> at_IdentityLeaseRevision (acres_Attempt res) = il_Revision (acres_IdentityLease res)
    \<and> (\<exists>e. StoreCommitActivation s' ctx r now' = (s', Inl e))"
proof -
  have s: "store_ok s" by (rule reachable_ok [OF assms(1)])
  then have "leases_ok s" by (simp add: store_ok_def)
  from this assms(2) show ?thesis
  proof (cases rule: StoreCommitActivation_cases)
    case (committed a p l n)
    have res: "acres_Attempt res = n" "acres_IdentityLease res = activated_lease l" using committed(16) by auto
    have again: "\<exists>e. StoreCommitActivation s' ctx r now' = (s', Inl e)"
    proof -
      have "fs_activations s' (acr_AttemptID r) = Some n" "at_Stage n \<noteq> StageSandboxReserved"
        by (simp_all add: committed(15) committed(4) committed_attempt_def)
      then show ?thesis
        by (simp add: StoreCommitActivation_def guarded_def split: option.splits)
    qed
    show ?thesis
      using committed again by (intro exI [of _ a] exI [of _ p]) (simp add: res committed_attempt_def activated_lease_def)
  qed simp_all
qed

lemma commit_is_atomic_witness:
  "\<exists>s res. fst (StoreCommitActivation s LiveContext sample_commit 50) \<noteq> s
     \<and> snd (StoreCommitActivation s LiveContext sample_commit 50) = Inr res \<and> at_Stage (acres_Attempt res) = StageCommitted"
proof -
  let ?s = "sample_journal (sample_normal StageSandboxReserved OperationConfirmedApplied OperationConfirmedApplied 7)"
  obtain s' res where call: "StoreCommitActivation ?s LiveContext sample_commit 50 = (s', Inr res)"
    using sample_commit_call by blast
  from commit_is_atomic [OF sample_journal_reach call, of 60]
  have r: "at_Stage (acres_Attempt res) = StageCommitted" "fs_activations s' = (fs_activations ?s)(''a'' \<mapsto> acres_Attempt res)"
    by (auto simp: sample_commit_def)
  have "fs_activations ?s ''a'' \<noteq> Some (acres_Attempt res)"
  proof
    assume "fs_activations ?s ''a'' = Some (acres_Attempt res)"
    then have "acres_Attempt res = sample_normal StageSandboxReserved OperationConfirmedApplied OperationConfirmedApplied 7"
      by (simp add: sample_journal_def)
    then show False using r(1) by (simp add: sample_attempt_def)
  qed
  then have "s' \<noteq> ?s"
    using r(2) by (metis map_upd_Some_unfold)
  then show ?thesis using call r(1) by (intro exI [of _ ?s] exI [of _ res]) simp
qed

text \<open>
  The commit is not the only way in: the plain swap of a journal record also accepts a version that
  enters the committed stage and claims an active identity lease, and then no lease changes. In the
  sample store the attempt is committed this way while its identity lease stays reserved.
\<close>

theorem swap_commits_without_lease:
  "\<exists>s s'. store_run NewFactStore s
    \<and> CompareAndSwapActivation s LiveContext sample_committed \<lparr>atc_UnknownResolved = False\<rparr> 50 = (s', Inr sample_committed)
    \<and> at_Stage sample_committed = StageCommitted \<and> at_IdentityLeaseState sample_committed = IdentityLeaseActive
    \<and> fs_heap s' = fs_heap s \<and> map il_State (fs_heap s') = [IdentityLeaseReserved]"
proof -
  let ?s = "sample_journal (sample_normal StageSandboxReserved OperationConfirmedApplied OperationConfirmedApplied 7)"
  have i: "at_ID sample_committed = ''a''" "at_Stage sample_committed = StageCommitted"
    "at_IdentityLeaseState sample_committed = IdentityLeaseActive"
    by (simp_all add: sample_committed_def committed_attempt_def)
  have "CompareAndSwapActivation ?s LiveContext sample_committed \<lparr>atc_UnknownResolved = False\<rparr> 50
      = (sample_journal sample_committed, Inr sample_committed)"
    using sample_committed_transition i(1)
    by (simp add: CompareAndSwapActivation_def sample_journal_def sample_lease_store_def NewFactStore_def store_lease_def)
  moreover have "fs_heap (sample_journal a) = [new_lease (sample_reserve ''t'' ''a'')]" for a
    by (simp add: sample_journal_def)
  ultimately show ?thesis
    using sample_journal_reach i by (intro exI [of _ ?s] exI [of _ "sample_journal sample_committed"]) simp
qed

end
