(* ===== verification/Aggregate.thy ===== *)
theory Aggregate
  imports State
begin

text \<open>
  \<open>runtime/kernel/aggregate.go\<close>: the in-memory aggregate of one instance, its scope, state and
  revision, and the two operations that change it. The mutex makes each operation atomic, so
  concurrent callers are sequences of operations: the step relation below.
\<close>

section \<open>State and operations\<close>

record Aggregate =
  agg_scope :: ExecutionScope
  agg_state :: InstanceState
  agg_revision :: Revision

definition phaseOrder :: "LifecyclePhase list" where
  "phaseOrder =
     [PhasePending, PhaseAdmitted, PhasePreflighting, PhaseActivating, PhaseProvisioning,
      PhaseBinding, PhaseStarting, PhaseReady, PhaseRunning, PhaseStopping, PhaseTerminal]"

definition phaseIndex :: "LifecyclePhase \<Rightarrow> int" where
  "phaseIndex phase = index_from 0 phaseOrder phase"

definition validateScopeState :: "ExecutionScope \<Rightarrow> InstanceState \<Rightarrow> go_error option" where
  "validateScopeState scope state =
     (let phaseNumber = phaseIndex (st_Phase state) in
      first_err
       [fail_if (phaseNumber \<le> phaseIndex PhaseActivating \<and> scope_SandboxLease scope \<noteq> None)
          ErrorPreconditionFailed ReasonInvalidState,
        fail_if (phaseNumber \<ge> phaseIndex PhaseProvisioning \<and> phaseNumber \<le> phaseIndex PhaseRunning
                 \<and> scope_SandboxLease scope = None)
          ErrorPreconditionFailed ReasonInvalidState,
        fail_if (scope_SandboxLease scope \<noteq> None \<and> \<not> st_HasCleanupObligations state)
          ErrorPreconditionFailed ReasonInvalidState])"

definition NewAggregate :: "ExecutionScope \<Rightarrow> InstanceState \<Rightarrow> Aggregate res" where
  "NewAggregate scope state =
     ensure (first_err [ExecutionScope_Validate scope, InstanceState_Validate state,
                        validateScopeState scope state])
       (Inr \<lparr>agg_scope = scope, agg_state = state, agg_revision = 1\<rparr>)"

record TransitionRequest =
  tr_Preconditions :: ExecutionPreconditions
  tr_NextState :: InstanceState
  tr_Context :: TransitionContext

definition agg_facts :: "Aggregate \<Rightarrow> CurrentExecutionFacts" where
  "agg_facts a = \<lparr>cur_Scope = agg_scope a, cur_Revision = agg_revision a\<rparr>"

text \<open>
  The snapshot an operation returns has the three fields of the aggregate, so it is the aggregate's
  value after the operation.
\<close>

definition Transition :: "Aggregate \<Rightarrow> TransitionRequest \<Rightarrow> Aggregate \<times> Aggregate res" where [step_defs]:
  "Transition a request =
     guarded (first_err [CheckExecutionPreconditions (tr_Preconditions request) (agg_facts a),
                         ValidateStateTransition (agg_state a) (tr_NextState request) (tr_Context request),
                         validateScopeState (agg_scope a) (tr_NextState request)]) a
       (let a' = a\<lparr>agg_state := tr_NextState request, agg_revision := agg_revision a + 1\<rparr> in (a', Inr a'))"

record ActivationCommitRequest =
  ac_Preconditions :: ExecutionPreconditions
  ac_SandboxLease :: SandboxLeaseRef
  ac_NextState :: InstanceState

definition CommitActivation ::
  "Aggregate \<Rightarrow> ActivationCommitRequest \<Rightarrow> Aggregate \<times> Aggregate res" where [step_defs]:
  "CommitActivation a request =
     (let nextScope = (agg_scope a)\<lparr>scope_SandboxLease := Some (ac_SandboxLease request)\<rparr> in
      guarded (first_err [CheckExecutionPreconditions (ac_Preconditions request) (agg_facts a),
                          fail_if (st_Phase (agg_state a) \<noteq> PhaseActivating
                                   \<or> st_Phase (ac_NextState request) \<noteq> PhaseProvisioning
                                   \<or> scope_SandboxLease (agg_scope a) \<noteq> None)
                            ErrorPreconditionFailed ReasonInvalidTransition,
                          SandboxLeaseRef_Validate (ac_SandboxLease request),
                          ValidateStateTransition (agg_state a) (ac_NextState request) no_context,
                          validateScopeState nextScope (ac_NextState request)]) a
        (let a' = \<lparr>agg_scope = nextScope, agg_state = ac_NextState request,
                   agg_revision = agg_revision a + 1\<rparr> in (a', Inr a')))"

datatype ObservationDisposition = ObservationCurrent | ObservationLate

record SourceObservation =
  so_Scope :: ExecutionScope
  so_SourceID :: string
  so_SourceEpoch :: Epoch
  so_SourceSequence :: u64

definition ClassifyObservation :: "Aggregate \<Rightarrow> SourceObservation \<Rightarrow> ObservationDisposition" where
  "ClassifyObservation a observation =
     (if \<not> sameExecutionScope (so_Scope observation) (agg_scope a) then ObservationLate
      else ObservationCurrent)"

section \<open>Invariant\<close>

lemma phaseIndex_eq [simp]: "phaseIndex = lifecycleIndex"
  by (rule ext) (simp add: phaseIndex_def phaseOrder_def lifecycleIndex_def lifecycleOrder_def)

definition agg_wf :: "Aggregate \<Rightarrow> bool" where
  "agg_wf a \<longleftrightarrow> ExecutionScope_Validate (agg_scope a) = None \<and> InstanceState_Validate (agg_state a) = None
     \<and> validateScopeState (agg_scope a) (agg_state a) = None"

lemma NewAggregate_wf: "NewAggregate scope state = Inr a \<Longrightarrow> agg_wf a \<and> agg_revision a = 1"
  by (auto simp: NewAggregate_def agg_wf_def)

lemma Transition_Inr:
  assumes "Transition a request = (a', Inr s)"
  shows "agg_revision a \<noteq> 0" "tr_Preconditions request = preconditions_of (agg_facts a)"
    "ValidateStateTransition (agg_state a) (tr_NextState request) (tr_Context request) = None"
    "validateScopeState (agg_scope a) (tr_NextState request) = None" "s = a'"
    "a' = a\<lparr>agg_state := tr_NextState request, agg_revision := agg_revision a + 1\<rparr>"
  using assms
  by (auto simp: Transition_def CheckExecutionPreconditions_iff agg_facts_def Let_def)

lemma CommitActivation_Inr:
  assumes "CommitActivation a request = (a', Inr s)"
  shows "agg_revision a \<noteq> 0" "ac_Preconditions request = preconditions_of (agg_facts a)"
    "st_Phase (agg_state a) = PhaseActivating" "st_Phase (ac_NextState request) = PhaseProvisioning"
    "scope_SandboxLease (agg_scope a) = None" "SandboxLeaseRef_Validate (ac_SandboxLease request) = None"
    "ValidateStateTransition (agg_state a) (ac_NextState request) no_context = None" "s = a'"
    "validateScopeState (agg_scope a') (ac_NextState request) = None"
    "a' = \<lparr>agg_scope = (agg_scope a)\<lparr>scope_SandboxLease := Some (ac_SandboxLease request)\<rparr>,
       agg_state = ac_NextState request, agg_revision = agg_revision a + 1\<rparr>"
  using assms
  by (auto simp: CommitActivation_def CheckExecutionPreconditions_iff agg_facts_def Let_def)

text \<open>A rejected operation changes nothing.\<close>

lemma Transition_Inl: "Transition a request = (a', Inl e) \<Longrightarrow> a' = a"
  by (auto simp: Transition_def Let_def elim!: guarded_cases)

lemma CommitActivation_Inl: "CommitActivation a request = (a', Inl e) \<Longrightarrow> a' = a"
  by (auto simp: CommitActivation_def Let_def elim!: guarded_cases)

lemma Transition_wf:
  assumes "agg_wf a" "Transition a request = (a', Inr s)" shows "agg_wf a'"
  using assms(1) Transition_Inr [OF assms(2)]
  by (auto simp: agg_wf_def dest: ValidateStateTransitionD)

lemma CommitActivation_wf:
  assumes "agg_wf a" "CommitActivation a request = (a', Inr s)" shows "agg_wf a'"
  using assms(1) CommitActivation_Inr [OF assms(2)]
  by (auto simp: agg_wf_def ExecutionScope_Validate_bind dest: ValidateStateTransitionD)

section \<open>Histories\<close>

text \<open>A step is a successful operation; a rejected one leaves the aggregate as it was.\<close>

inductive agg_step :: "Aggregate \<Rightarrow> Aggregate \<Rightarrow> bool" where
  transition: "Transition a request = (a', Inr s) \<Longrightarrow> agg_step a a'"
| commit: "CommitActivation a request = (a', Inr s) \<Longrightarrow> agg_step a a'"

inductive_cases agg_stepE [elim]: "agg_step a a'"

inductive agg_history :: "Aggregate \<Rightarrow> nat \<Rightarrow> Aggregate \<Rightarrow> bool" where
  start: "agg_history a 0 a"
| and_step: "agg_history a n b \<Longrightarrow> agg_step b c \<Longrightarrow> agg_history a (Suc n) c"

text \<open>What one step keeps: the identity of the instance and a lease that is bound.\<close>

definition agg_keeps :: "Aggregate \<Rightarrow> Aggregate \<Rightarrow> bool" where
  "agg_keeps a b \<longleftrightarrow>
     scope_Identity (agg_scope b) = scope_Identity (agg_scope a)
     \<and> scope_Lineage (agg_scope b) = scope_Lineage (agg_scope a)
     \<and> scope_Instance (agg_scope b) = scope_Instance (agg_scope a)
     \<and> scope_AuthorityEpoch (agg_scope b) = scope_AuthorityEpoch (agg_scope a)
     \<and> (scope_SandboxLease (agg_scope a) \<noteq> None \<longrightarrow> agg_scope b = agg_scope a)
     \<and> state_run (agg_state a) (agg_state b)"

lemma state_run_trans: "state_run s t \<Longrightarrow> state_run r s \<Longrightarrow> state_run r t"
proof (induction rule: state_run.induct)
  case (go s t u)
  show ?case by (rule state_run.go [OF go.IH [OF go.prems] go.hyps(2)])
qed

lemma agg_keeps_refl: "agg_keeps a a"
  by (simp add: agg_keeps_def state_run.stay)

lemma agg_keeps_trans: "agg_keeps a b \<Longrightarrow> agg_keeps b c \<Longrightarrow> agg_keeps a c"
  by (auto simp: agg_keeps_def intro: state_run_trans)

lemma state_run_single: "ValidateStateTransition s t c = None \<Longrightarrow> state_run s t"
  by (auto intro: state_run.intros state_step.intros)

lemma agg_step_keeps: "agg_step a b \<Longrightarrow> agg_keeps a b"
proof (erule agg_stepE)
  fix request s assume "Transition a request = (b, Inr s)"
  from Transition_Inr [OF this] show "agg_keeps a b"
    by (auto simp: agg_keeps_def intro: state_run_single)
next
  fix request s assume "CommitActivation a request = (b, Inr s)"
  from CommitActivation_Inr [OF this] show "agg_keeps a b"
    by (auto simp: agg_keeps_def intro: state_run_single)
qed

lemma agg_step_wf: "agg_step a b \<Longrightarrow> agg_wf a \<Longrightarrow> agg_wf b"
  by (auto intro: Transition_wf CommitActivation_wf)

lemma agg_step_revision: "agg_step a b \<Longrightarrow> agg_revision a \<noteq> 0 \<and> agg_revision b = agg_revision a + 1"
  by (erule agg_stepE) (auto dest: Transition_Inr(1,6) CommitActivation_Inr(1,10))

lemma agg_history_keeps: "agg_history a n b \<Longrightarrow> agg_keeps a b"
  by (induction rule: agg_history.induct)
     (auto intro: agg_keeps_refl agg_keeps_trans agg_step_keeps)

lemma agg_history_wf: "agg_history a n b \<Longrightarrow> agg_wf a \<Longrightarrow> agg_wf b"
  by (induction rule: agg_history.induct) (auto intro: agg_step_wf)

lemma agg_history_revision: "agg_history a n b \<Longrightarrow> agg_revision b = agg_revision a + word_of_nat n"
  by (induction rule: agg_history.induct) (auto dest: agg_step_revision)

text \<open>The revision an operation was prepared against is spent by the step that used it.\<close>

lemma stale_preconditions:
  assumes "agg_wf a" "agg_step a b"
  shows "CheckExecutionPreconditions (preconditions_of (agg_facts a)) (agg_facts b)
           = Some (DomainError ErrorConflict ReasonRevisionConflict)"
proof -
  from agg_step_keeps [OF assms(2)] agg_step_revision [OF assms(2)] agg_step_wf [OF assms(2,1)]
  have b: "agg_revision a \<noteq> 0" "agg_revision b = agg_revision a + 1"
    "ExecutionScope_Validate (agg_scope b) = None"
    "scope_Identity (agg_scope b) = scope_Identity (agg_scope a)"
    "scope_Instance (agg_scope b) = scope_Instance (agg_scope a)"
    "scope_AuthorityEpoch (agg_scope b) = scope_AuthorityEpoch (agg_scope a)"
    by (auto simp: agg_keeps_def agg_wf_def)
  have "CheckExecutionPreconditions (preconditions_of (agg_facts a)) (agg_facts a) = None"
    using assms(1) b(1) by (simp add: CheckExecutionPreconditions_iff agg_facts_def agg_wf_def)
  then have "ExecutionPreconditions_Validate (preconditions_of (agg_facts a)) = None"
    by (simp add: CheckExecutionPreconditions_def)
  with b show ?thesis
    by (simp add: CheckExecutionPreconditions_def preconditions_of_def agg_facts_def)
qed

section \<open>A sample history\<close>

definition sample_state :: "LifecyclePhase \<Rightarrow> InstanceState" where
  "sample_state p = \<lparr>st_Phase = p, st_Certainty = CertaintyConfirmed, st_Cleanup = CleanupNotRequired,
     st_HasCleanupObligations = False, st_CleanupEvidenceComplete = False\<rparr>"

definition sample_agg :: "LifecyclePhase \<Rightarrow> Revision \<Rightarrow> Aggregate" where
  "sample_agg p r = \<lparr>agg_scope = sample_scope None, agg_state = sample_state p, agg_revision = r\<rparr>"

lemma sample_agg_new: "NewAggregate (sample_scope None) (sample_state PhasePending) = Inr (sample_agg PhasePending 1)"
  by (simp add: NewAggregate_def sample_state_def sample_agg_def InstanceState_Validate_def validPhase_def
      validateScopeState_def Let_def)

lemma sample_agg_step: "agg_step (sample_agg PhasePending 1) (sample_agg PhaseAdmitted 2)"
proof (rule agg_step.transition)
  show "Transition (sample_agg PhasePending 1)
      \<lparr>tr_Preconditions = preconditions_of (agg_facts (sample_agg PhasePending 1)),
       tr_NextState = sample_state PhaseAdmitted, tr_Context = no_context\<rparr>
    = (sample_agg PhaseAdmitted 2, Inr (sample_agg PhaseAdmitted 2))"
    by (simp add: Transition_def CheckExecutionPreconditions_iff agg_facts_def sample_agg_def sample_state_def
        ValidateStateTransition_def InstanceState_Validate_def validPhase_def validLifecycleMove_def
        validateScopeState_def Let_def)
qed

section \<open>Properties\<close>

text \<open>
  C10: Along every history of an aggregate, a bound sandbox lease never changes, an instance between
  provisioning and running has a lease and a cleanup obligation, identity, lineage, instance and
  authority epoch stay those it was created with, the phase never goes back and fencing is final.
\<close>

theorem aggregate_history_safe:
  assumes "NewAggregate scope state = Inr a" "agg_history a n b" "agg_history b m c"
  shows "(scope_SandboxLease (agg_scope b) \<noteq> None \<longrightarrow> agg_scope c = agg_scope b)
    \<and> (PhaseProvisioning \<le> st_Phase (agg_state c) \<and> st_Phase (agg_state c) \<le> PhaseRunning \<longrightarrow>
         scope_SandboxLease (agg_scope c) \<noteq> None \<and> st_HasCleanupObligations (agg_state c))
    \<and> (agg_scope c)\<lparr>scope_SandboxLease := None\<rparr> = scope\<lparr>scope_SandboxLease := None\<rparr>
    \<and> st_Phase (agg_state b) \<le> st_Phase (agg_state c)
    \<and> (st_Certainty (agg_state b) = CertaintyFenced \<longrightarrow> st_Certainty (agg_state c) = CertaintyFenced)"
proof -
  have a: "agg_wf a" "agg_scope a = scope"
    using assms(1) NewAggregate_wf by (auto simp: NewAggregate_def)
  have c: "agg_wf c" and bc: "agg_keeps b c" and ac: "agg_keeps a c"
    using a(1) assms(2,3) agg_history_wf agg_history_keeps agg_keeps_trans by blast+
  from ac a(2) have "(agg_scope c)\<lparr>scope_SandboxLease := None\<rparr> = scope\<lparr>scope_SandboxLease := None\<rparr>"
    by (cases "agg_scope c"; cases scope) (simp add: agg_keeps_def)
  with bc c show ?thesis
    by (auto simp: agg_keeps_def agg_wf_def validateScopeState_def Let_def less_eq_LifecyclePhase_def
        dest: state_run_phase_mono state_run_fenced)
qed

lemma aggregate_history_safe_witness:
  "(agg_scope (sample_agg PhaseAdmitted 2))\<lparr>scope_SandboxLease := None\<rparr>
     = (sample_scope None)\<lparr>scope_SandboxLease := None\<rparr>"
  using aggregate_history_safe [OF sample_agg_new agg_history.start
      agg_history.and_step [OF agg_history.start sample_agg_step]] by simp

text \<open>
  Optimistic concurrency: of two operations prepared against the same revision of an aggregate
  at most one succeeds. Whatever the first one did, the second, transition or activation commit, is
  rejected with a revision conflict and changes nothing.
\<close>

theorem aggregate_single_winner:
  assumes "agg_wf a" "agg_step a b"
    and "tr_Preconditions r = preconditions_of (agg_facts a)"
    and "ac_Preconditions q = preconditions_of (agg_facts a)"
  shows "Transition b r = (b, Inl (DomainError ErrorConflict ReasonRevisionConflict))
    \<and> CommitActivation b q = (b, Inl (DomainError ErrorConflict ReasonRevisionConflict))"
  using stale_preconditions [OF assms(1,2)] assms(3,4)
  by (simp add: Transition_def CommitActivation_def Let_def)

lemma aggregate_single_winner_witness:
  "Transition (sample_agg PhaseAdmitted 2)
      \<lparr>tr_Preconditions = preconditions_of (agg_facts (sample_agg PhasePending 1)),
       tr_NextState = sample_state PhaseAdmitted, tr_Context = no_context\<rparr>
   = (sample_agg PhaseAdmitted 2, Inl (DomainError ErrorConflict ReasonRevisionConflict))"
  using aggregate_single_winner [OF _ sample_agg_step, of
      "\<lparr>tr_Preconditions = preconditions_of (agg_facts (sample_agg PhasePending 1)),
        tr_NextState = sample_state PhaseAdmitted, tr_Context = no_context\<rparr>"
      "\<lparr>ac_Preconditions = preconditions_of (agg_facts (sample_agg PhasePending 1)),
        ac_SandboxLease = sample_lease, ac_NextState = sample_state PhaseProvisioning\<rparr>"]
    NewAggregate_wf [OF sample_agg_new] by simp

end
