(* ===== verification/Fence.thy ===== *)
theory Fence
  imports State
begin

text \<open>
  \<open>runtime/core/fence.go\<close> and \<open>runtime/core/effect.go\<close>: execution fences, replacement permits, effect
  intents, the check before an effect is dispatched, and the whitelist of effects that recovery
  may perform while the state of the execution is not confirmed.
\<close>

section \<open>Fences\<close>

datatype ValidationMode = ValidationOnlineStrict | ValidationLeasedOffline | ValidationModeOther string

record RevocationPolicy =
  rp_RiskClass :: string
  rp_ValidationMode :: ValidationMode
  rp_MaxRevocationLag :: Duration
  rp_MaxClockSkew :: Duration
  rp_TokenScope :: string
  rp_ConflictEffectDomain :: string

definition RevocationPolicy_Validate :: "RevocationPolicy \<Rightarrow> go_error option" where [validate_defs]:
  "RevocationPolicy_Validate p =
     first_err
      [fail_if (blank (rp_RiskClass p) \<or> blank (rp_ConflictEffectDomain p))
         ErrorInvalidArgument ReasonInvalidReference,
       (case rp_ValidationMode p of
          ValidationOnlineStrict \<Rightarrow> None
        | ValidationLeasedOffline \<Rightarrow>
            fail_if (sint (rp_MaxRevocationLag p) \<le> 0 \<or> sint (rp_MaxClockSkew p) \<le> 0 \<or> blank (rp_TokenScope p))
              ErrorPreconditionFailed ReasonOfflineRevocationPolicyMissing
        | ValidationModeOther m \<Rightarrow>
            Some (DomainError ErrorInvalidArgument ReasonOfflineRevocationPolicyMissing))]"

datatype FenceBoundaryScope = FenceBoundaryActivation | FenceBoundaryInstance | FenceBoundaryOther string

record ExecutionFence =
  fe_BoundaryScope :: FenceBoundaryScope
  fe_Scope :: ExecutionScope
  fe_CapabilityGrantDigest :: Digest
  fe_EffectIntentID :: string
  fe_EffectIntentRevision :: Revision
  fe_CanonicalPayloadDigest :: Digest
  fe_ExpiresAt :: Time

definition ExecutionFence_Validate :: "ExecutionFence \<Rightarrow> go_error option" where [validate_defs]:
  "ExecutionFence_Validate f =
     first_err
      [ExecutionScope_Validate (fe_Scope f),
       fail_if (fe_BoundaryScope f \<noteq> FenceBoundaryActivation \<and> fe_BoundaryScope f \<noteq> FenceBoundaryInstance)
         ErrorInvalidArgument ReasonInvalidReference,
       fail_if (fe_BoundaryScope f = FenceBoundaryInstance \<and> scope_SandboxLease (fe_Scope f) = None)
         ErrorInvalidArgument ReasonInvalidReference,
       Digest_Validate (fe_CapabilityGrantDigest f),
       fail_if (blank (fe_EffectIntentID f) \<or> fe_EffectIntentRevision f = 0)
         ErrorInvalidArgument ReasonEffectIntentMissing,
       Digest_Validate (fe_CanonicalPayloadDigest f),
       fail_if (IsZero (fe_ExpiresAt f)) ErrorInvalidArgument ReasonEffectFenceStale]"

record CurrentFenceFacts =
  cff_Scope :: ExecutionScope
  cff_CapabilityGrantDigest :: Digest

definition sameOptionalLease :: "SandboxLeaseRef option \<Rightarrow> SandboxLeaseRef option \<Rightarrow> bool" where
  "sameOptionalLease left right \<longleftrightarrow>
     (case (left, right) of
        (Some l, Some r) \<Rightarrow> l = r
      | (l, r) \<Rightarrow> l = None \<and> r = None)"

lemma sameOptionalLease_eq [simp]: "sameOptionalLease = (=)"
  by (intro ext) (auto simp: sameOptionalLease_def split: option.splits)

definition CheckFence :: "ExecutionFence \<Rightarrow> CurrentFenceFacts \<Rightarrow> Time \<Rightarrow> go_error option" where
  "CheckFence fence current now =
     first_err
      [ExecutionFence_Validate fence,
       ExecutionScope_Validate (cff_Scope current),
       fail_if (IsZero now \<or> \<not> Before now (fe_ExpiresAt fence))
         ErrorPreconditionFailed ReasonEffectFenceStale,
       fail_if (fe_BoundaryScope fence = FenceBoundaryInstance \<and> scope_SandboxLease (cff_Scope current) = None)
         ErrorPreconditionFailed ReasonEffectFenceStale,
       fail_if (scope_Identity (fe_Scope fence) \<noteq> scope_Identity (cff_Scope current)
                \<or> scope_Instance (fe_Scope fence) \<noteq> scope_Instance (cff_Scope current)
                \<or> scope_AuthorityEpoch (fe_Scope fence) \<noteq> scope_AuthorityEpoch (cff_Scope current)
                \<or> \<not> sameOptionalLease (scope_SandboxLease (fe_Scope fence)) (scope_SandboxLease (cff_Scope current))
                \<or> lineage_ID (scope_Lineage (fe_Scope fence)) \<noteq> lineage_ID (scope_Lineage (cff_Scope current))
                \<or> lineage_PlanDigest (scope_Lineage (fe_Scope fence)) \<noteq> lineage_PlanDigest (scope_Lineage (cff_Scope current))
                \<or> fe_CapabilityGrantDigest fence \<noteq> cff_CapabilityGrantDigest current)
         ErrorPreconditionFailed ReasonEffectFenceStale]"

text \<open>
  What a passed fence check means: the fence is unexpired and carries exactly the current scope
  and capability grant.
\<close>

lemma CheckFence_iff:
  "CheckFence fence current now = None \<longleftrightarrow>
     ExecutionFence_Validate fence = None \<and> now \<noteq> 0 \<and> now < fe_ExpiresAt fence
     \<and> fe_Scope fence = cff_Scope current \<and> fe_CapabilityGrantDigest fence = cff_CapabilityGrantDigest current"
  by (cases "fe_Scope fence"; cases "cff_Scope current"; cases "scope_Lineage (fe_Scope fence)")
     (auto simp: CheckFence_def ExecutionFence_Validate_def time_defs)

record ReplacementPermit =
  rep_OldInstance :: InstanceRef
  rep_NewInstance :: InstanceRef
  rep_ConflictEffectDomain :: string
  rep_FenceIsolationConfirmed :: bool
  rep_NetworkIsolationConfirmed :: bool
  rep_SecretPathRevoked :: bool
  rep_RemoteDomainIsolated :: bool
  rep_IssuedAt :: Time

definition ReplacementPermit_Validate :: "ReplacementPermit \<Rightarrow> go_error option" where [validate_defs]:
  "ReplacementPermit_Validate p =
     first_err
      [InstanceRef_Validate (rep_OldInstance p),
       InstanceRef_Validate (rep_NewInstance p),
       fail_if (inst_Epoch (rep_NewInstance p) \<le> inst_Epoch (rep_OldInstance p)
                \<or> inst_ID (rep_NewInstance p) = inst_ID (rep_OldInstance p) \<or> blank (rep_ConflictEffectDomain p))
         ErrorPreconditionFailed ReasonInvalidReference,
       fail_if (\<not> rep_FenceIsolationConfirmed p \<or> \<not> rep_NetworkIsolationConfirmed p \<or> \<not> rep_SecretPathRevoked p
                \<or> \<not> rep_RemoteDomainIsolated p \<or> IsZero (rep_IssuedAt p))
         ErrorPreconditionFailed ReasonFencedInstance]"

text \<open>
  A chain of permitted replacements strictly raises the instance epoch, so it never returns to an
  instance it has left.
\<close>

inductive replaced :: "InstanceRef \<Rightarrow> InstanceRef \<Rightarrow> bool" where
  once: "ReplacementPermit_Validate p = None \<Longrightarrow> replaced (rep_OldInstance p) (rep_NewInstance p)"
| again: "replaced a (rep_OldInstance p) \<Longrightarrow> ReplacementPermit_Validate p = None \<Longrightarrow>
    replaced a (rep_NewInstance p)"

lemma ReplacementPermit_epoch:
  "ReplacementPermit_Validate p = None \<Longrightarrow> inst_Epoch (rep_OldInstance p) < inst_Epoch (rep_NewInstance p)"
  by (simp add: ReplacementPermit_Validate_def not_le)

lemma replaced_epoch: "replaced a b \<Longrightarrow> inst_Epoch a < inst_Epoch b"
  by (induction rule: replaced.induct) (auto dest: ReplacementPermit_epoch intro: less_trans)

section \<open>Effects\<close>

datatype EffectKind =
    EffectKindDataDisclosure | EffectKindCostConsumption | EffectKindResourceLifecycle
  | EffectKindExternalMutation | EffectKindProviderContinuation | EffectKindHostedExecution
  | EffectKindCacheState | EffectKindFormalCommit | EffectKindCredentialOperation
  | EffectKindSafetyControl | EffectKindOther string

datatype IdempotencyClass =
    IdempotencyProviderKey | IdempotencyQueryable | IdempotencyNonRetryable | IdempotencyOther string

record EffectIntent =
  ei_ID :: string
  ei_Revision :: Revision
  ei_Kind :: EffectKind
  ei_RiskClass :: string
  ei_CanonicalPayloadDigest :: Digest
  ei_Target :: string
  ei_ConflictEffectDomain :: string
  ei_Ownership :: EffectOwnership
  ei_AuthorizationRef :: string
  ei_BudgetReservationRef :: string
  ei_IdempotencyClass :: IdempotencyClass
  ei_PersistedAt :: Time

fun validEffectKind :: "EffectKind \<Rightarrow> bool" where
  "validEffectKind (EffectKindOther s) = False"
| "validEffectKind _ = True"

definition EffectIntent_Validate :: "EffectIntent \<Rightarrow> go_error option" where [validate_defs]:
  "EffectIntent_Validate i =
     first_err
      [fail_if (blank (ei_ID i) \<or> ei_Revision i = 0) ErrorInvalidArgument ReasonEffectIntentMissing,
       fail_if (\<not> validEffectKind (ei_Kind i) \<or> blank (ei_RiskClass i) \<or> blank (ei_Target i)
                \<or> blank (ei_ConflictEffectDomain i))
         ErrorInvalidArgument ReasonInvalidReference,
       Digest_Validate (ei_CanonicalPayloadDigest i),
       EffectOwnership_Validate (ei_Ownership i),
       fail_if (blank (ei_AuthorizationRef i)) ErrorForbidden ReasonEffectAuthorizationMissing,
       fail_if (IsZero (ei_PersistedAt i)) ErrorUnavailable ReasonEvidenceUnavailable,
       (case ei_IdempotencyClass i of
          IdempotencyOther c \<Rightarrow> Some (DomainError ErrorInvalidArgument ReasonInvalidReference)
        | _ \<Rightarrow> None)]"

definition ValidateEffectDispatch ::
  "EffectIntent \<Rightarrow> ExecutionFence \<Rightarrow> CurrentFenceFacts \<Rightarrow> Time \<Rightarrow> go_error option" where
  "ValidateEffectDispatch intent fence current now =
     first_err
      [EffectIntent_Validate intent,
       fail_if (fe_EffectIntentID fence \<noteq> ei_ID intent \<or> fe_EffectIntentRevision fence \<noteq> ei_Revision intent
                \<or> fe_CanonicalPayloadDigest fence \<noteq> ei_CanonicalPayloadDigest intent)
         ErrorPreconditionFailed ReasonEffectFenceStale,
       CheckFence fence current now]"

section \<open>Recovery effects\<close>

datatype RecoveryEffectKind =
    RecoveryInspect | RecoveryOriginalSettlement | RecoveryEmergencySafety | RecoveryCleanupRelease
  | RecoveryCompensation | RecoveryOther string

record RecoveryEffectRequest =
  rer_Kind :: RecoveryEffectKind
  rer_ExternalEffect :: bool
  rer_ExpandsAuthority :: bool
  rer_HasFreshIntent :: bool
  rer_HasCurrentFence :: bool
  rer_HasCurrentAuthority :: bool
  rer_HasApplicableBudget :: bool
  rer_HasWriteAheadEvidence :: bool
  rer_OriginalEffectConfirmed :: bool
  rer_CompensationAuthorized :: bool

definition hasRecoveryGuards :: "RecoveryEffectRequest \<Rightarrow> bool" where
  "hasRecoveryGuards r \<longleftrightarrow> rer_HasFreshIntent r \<and> rer_HasCurrentFence r \<and> rer_HasCurrentAuthority r
     \<and> rer_HasApplicableBudget r \<and> rer_HasWriteAheadEvidence r"

definition ValidateRecoveryEffect ::
  "ExecutionCertainty \<Rightarrow> RecoveryEffectRequest \<Rightarrow> go_error option" where
  "ValidateRecoveryEffect certainty request =
     (let denied = Some (DomainError ErrorForbidden ReasonRecoveryEffectNotPermitted) in
      if certainty = CertaintyConfirmed then None
      else if rer_ExpandsAuthority request then denied
      else case rer_Kind request of
          RecoveryInspect \<Rightarrow>
            if \<not> rer_ExternalEffect request \<or> hasRecoveryGuards request then None else denied
        | RecoveryOriginalSettlement \<Rightarrow>
            if \<not> rer_ExternalEffect request \<or> hasRecoveryGuards request then None else denied
        | RecoveryEmergencySafety \<Rightarrow> None
        | RecoveryCleanupRelease \<Rightarrow> if hasRecoveryGuards request then None else denied
        | RecoveryCompensation \<Rightarrow>
            if rer_OriginalEffectConfirmed request \<and> rer_CompensationAuthorized request
               \<and> hasRecoveryGuards request then None else denied
        | RecoveryOther k \<Rightarrow> denied)"

section \<open>Samples\<close>

definition sample_intent :: EffectIntent where
  "sample_intent = \<lparr>ei_ID = ''e'', ei_Revision = 1, ei_Kind = EffectKindExternalMutation, ei_RiskClass = ''r'',
     ei_CanonicalPayloadDigest = sample_digest, ei_Target = ''t'', ei_ConflictEffectDomain = ''d'',
     ei_Ownership = \<lparr>own_IntentOwner = \<lparr>owner_Domain = ''d'', owner_ID = ''o''\<rparr>,
                     own_SettlementOwner = \<lparr>owner_Domain = ''d'', owner_ID = ''p''\<rparr>\<rparr>,
     ei_AuthorizationRef = ''a'', ei_BudgetReservationRef = [], ei_IdempotencyClass = IdempotencyQueryable,
     ei_PersistedAt = 5\<rparr>"

definition sample_fence :: ExecutionFence where
  "sample_fence = \<lparr>fe_BoundaryScope = FenceBoundaryInstance, fe_Scope = sample_scope (Some sample_lease),
     fe_CapabilityGrantDigest = sample_digest, fe_EffectIntentID = ''e'', fe_EffectIntentRevision = 1,
     fe_CanonicalPayloadDigest = sample_digest, fe_ExpiresAt = 100\<rparr>"

definition sample_fence_facts :: CurrentFenceFacts where
  "sample_fence_facts = \<lparr>cff_Scope = sample_scope (Some sample_lease), cff_CapabilityGrantDigest = sample_digest\<rparr>"

section \<open>Properties\<close>

text \<open>
  C17: An effect is dispatched only under a fence that is unexpired, bound to the revision and
  payload of a persisted, authorised intent, and equal to the current scope and capability grant: once
  the current scope or grant has moved, or the fence has expired, the same intent and fence are
  refused at every later instant.
\<close>

theorem effect_dispatch_fenced:
  assumes "ValidateEffectDispatch intent fence current now = None"
  shows "now < fe_ExpiresAt fence \<and> fe_Scope fence = cff_Scope current
      \<and> fe_EffectIntentID fence = ei_ID intent \<and> fe_EffectIntentRevision fence = ei_Revision intent
      \<and> fe_CanonicalPayloadDigest fence = ei_CanonicalPayloadDigest intent \<and> \<not> blank (ei_AuthorizationRef intent)
      \<and> \<not> IsZero (ei_PersistedAt intent)
      \<and> (\<forall>current' now'. cff_Scope current' \<noteq> cff_Scope current
           \<or> cff_CapabilityGrantDigest current' \<noteq> cff_CapabilityGrantDigest current \<or> fe_ExpiresAt fence \<le> now'
           \<longrightarrow> ValidateEffectDispatch intent fence current' now' \<noteq> None)"
  using assms by (auto simp: ValidateEffectDispatch_def CheckFence_iff EffectIntent_Validate_def)

lemma effect_dispatch_fenced_witness:
  "ValidateEffectDispatch sample_intent sample_fence sample_fence_facts 100 \<noteq> None"
proof -
  have "ValidateEffectDispatch sample_intent sample_fence sample_fence_facts 50 = None"
    by (simp add: ValidateEffectDispatch_def CheckFence_iff EffectIntent_Validate_def ExecutionFence_Validate_def
        sample_intent_def sample_fence_def sample_fence_facts_def EffectOwnership_Validate_def
        OwnerRef_Validate_def graphic_ascii time_defs)
  moreover have "fe_ExpiresAt sample_fence \<le> 100"
    by (simp add: sample_fence_def)
  ultimately show ?thesis
    using effect_dispatch_fenced by blast
qed

text \<open>
  While the execution is not confirmed, recovery performs no effect that expands authority, and no
  external effect outside emergency safety without fresh intent, fence, authority, budget and
  write-ahead evidence; compensation also needs the original effect confirmed.
\<close>

theorem recovery_whitelist:
  assumes "certainty \<noteq> CertaintyConfirmed" "ValidateRecoveryEffect certainty request = None"
  shows "\<not> rer_ExpandsAuthority request
    \<and> (rer_Kind request = RecoveryEmergencySafety \<or> hasRecoveryGuards request
       \<or> \<not> rer_ExternalEffect request
          \<and> rer_Kind request \<in> {RecoveryInspect, RecoveryOriginalSettlement})
    \<and> (rer_Kind request = RecoveryCompensation \<longrightarrow>
         rer_OriginalEffectConfirmed request \<and> rer_CompensationAuthorized request)"
  using assms
  by (auto simp: ValidateRecoveryEffect_def Let_def split: RecoveryEffectKind.splits if_splits)

lemma recovery_whitelist_witness:
  "\<not> rer_ExpandsAuthority \<lparr>rer_Kind = RecoveryInspect, rer_ExternalEffect = False, rer_ExpandsAuthority = False,
     rer_HasFreshIntent = False, rer_HasCurrentFence = False, rer_HasCurrentAuthority = False,
     rer_HasApplicableBudget = False, rer_HasWriteAheadEvidence = False, rer_OriginalEffectConfirmed = False,
     rer_CompensationAuthorized = False\<rparr>"
  using recovery_whitelist [of CertaintyLost
      "\<lparr>rer_Kind = RecoveryInspect, rer_ExternalEffect = False, rer_ExpandsAuthority = False,
     rer_HasFreshIntent = False, rer_HasCurrentFence = False, rer_HasCurrentAuthority = False,
     rer_HasApplicableBudget = False, rer_HasWriteAheadEvidence = False, rer_OriginalEffectConfirmed = False,
     rer_CompensationAuthorized = False\<rparr>"]
  by (simp add: ValidateRecoveryEffect_def)

text \<open>
  Replacing an instance, once or many times, strictly raises its epoch: no chain of valid
  replacement permits leads back to an instance that was replaced.
\<close>

theorem replacement_never_returns: "replaced a b \<Longrightarrow> inst_Epoch a < inst_Epoch b \<and> b \<noteq> a"
  using replaced_epoch by fastforce

lemma replacement_never_returns_witness:
  "inst_Epoch \<lparr>inst_ID = ''i'', inst_Epoch = 1\<rparr> < inst_Epoch \<lparr>inst_ID = ''k'', inst_Epoch = 2\<rparr>"
proof -
  let ?p = "\<lparr>rep_OldInstance = \<lparr>inst_ID = ''i'', inst_Epoch = 1\<rparr>, rep_NewInstance = \<lparr>inst_ID = ''k'', inst_Epoch = 2\<rparr>,
    rep_ConflictEffectDomain = ''d'', rep_FenceIsolationConfirmed = True, rep_NetworkIsolationConfirmed = True,
    rep_SecretPathRevoked = True, rep_RemoteDomainIsolated = True, rep_IssuedAt = 5\<rparr>"
  have "ReplacementPermit_Validate ?p = None"
    by (simp add: ReplacementPermit_Validate_def InstanceRef_Validate_def graphic_ascii time_defs
        word_le_nat_alt)
  from replacement_never_returns [OF replaced.once [OF this]] show ?thesis by simp
qed

end
