(* ===== verification/StrictJSON.thy ===== *)
theory StrictJSON
  imports Digest
begin

text \<open>
  The duplicate-key check of \<open>runtime/core/canonical.go\<close>: \<open>rejectDuplicateJSONKeys\<close> walks the token
  stream of \<open>encoding/json\<close>'s decoder. A stream is the list of tokens the decoder still has to
  deliver; where the decoder would report a syntax error the list ends. The walk is written with
  fuel, one unit per call, and \<open>scan_enough_fuel\<close> shows that the length of the stream is enough.
\<close>

datatype json_token = TDelim char | TString string | TScalar

definition more :: "json_token list \<Rightarrow> bool" where
  "more ts \<longleftrightarrow> (case ts of [] \<Rightarrow> False | t # _ \<Rightarrow> t \<noteq> TDelim (CHR ''}'') \<and> t \<noteq> TDelim (CHR '']''))"

abbreviation form_error :: go_error where
  "form_error \<equiv> DomainError ErrorInvalidArgument ReasonInvalidCanonicalForm"

abbreviation duplicate_error :: go_error where
  "duplicate_error \<equiv> DomainError ErrorConflict ReasonDuplicateCanonicalKey"

fun scanJSONValue :: "nat \<Rightarrow> json_token list \<Rightarrow> json_token list res option"
  and scanObject :: "nat \<Rightarrow> string set \<Rightarrow> json_token list \<Rightarrow> json_token list res option"
  and scanArray :: "nat \<Rightarrow> json_token list \<Rightarrow> json_token list res option" where
  "scanJSONValue 0 ts = None"
| "scanJSONValue (Suc n) ts =
     (case ts of
        [] \<Rightarrow> Some (Inl form_error)
      | TDelim d # ts' \<Rightarrow>
          if d = CHR ''{'' then scanObject n {} ts'
          else if d = CHR ''['' then scanArray n ts'
          else Some (Inl form_error)
      | _ # ts' \<Rightarrow> Some (Inr ts'))"
| "scanObject 0 seen ts = None"
| "scanObject (Suc n) seen ts =
     (if more ts then
        (case ts of
           TString key # ts' \<Rightarrow>
             if key \<in> seen then Some (Inl duplicate_error)
             else (case scanJSONValue n ts' of
                     None \<Rightarrow> None
                   | Some (Inl e) \<Rightarrow> Some (Inl e)
                   | Some (Inr rest) \<Rightarrow> scanObject n (insert key seen) rest)
         | _ \<Rightarrow> Some (Inl form_error))
      else (case ts of [] \<Rightarrow> Some (Inl form_error) | _ # rest \<Rightarrow> Some (Inr rest)))"
| "scanArray 0 ts = None"
| "scanArray (Suc n) ts =
     (if more ts then
        (case scanJSONValue n ts of
           None \<Rightarrow> None
         | Some (Inl e) \<Rightarrow> Some (Inl e)
         | Some (Inr rest) \<Rightarrow> scanArray n rest)
      else (case ts of [] \<Rightarrow> Some (Inl form_error) | _ # rest \<Rightarrow> Some (Inr rest)))"

text \<open>With enough fuel the walk returns, and it consumes at least one token.\<close>

definition returns :: "json_token list res option \<Rightarrow> json_token list \<Rightarrow> bool" where
  "returns r ts \<longleftrightarrow> (\<exists>x. r = Some x \<and> (\<forall>rest. x = Inr rest \<longrightarrow> length rest < length ts))"

lemma returns_simps [simp]:
  "returns (Some (Inl e)) ts" "returns (Some (Inr rest)) ts \<longleftrightarrow> length rest < length ts"
  "\<not> returns None ts"
  by (simp_all add: returns_def)

lemma returns_weaken: "returns r ts' \<Longrightarrow> length ts' \<le> length ts \<Longrightarrow> returns r ts"
  by (force simp: returns_def)

lemma returns_bind:
  assumes "returns r ts'" and "\<And>rest. length rest < length ts' \<Longrightarrow> returns (k rest) ts"
  shows "returns (case r of None \<Rightarrow> None | Some (Inl e) \<Rightarrow> Some (Inl e) | Some (Inr rest) \<Rightarrow> k rest) ts"
  using assms by (cases r) (auto simp: returns_def split: sum.splits)

lemma scan_enough_fuel:
  "(\<forall>ts. 2 * length ts < n \<longrightarrow> returns (scanJSONValue n ts) ts) \<and>
   (\<forall>seen ts. 2 * length ts + 1 < n \<longrightarrow> returns (scanObject n seen ts) ts) \<and>
   (\<forall>ts. 2 * length ts + 1 < n \<longrightarrow> returns (scanArray n ts) ts)"
proof (induction n)
  case 0
  then show ?case by simp
next
  case (Suc n)
  then have V: "\<And>ts. 2 * length ts < n \<Longrightarrow> returns (scanJSONValue n ts) ts"
    and O': "\<And>seen ts. 2 * length ts + 1 < n \<Longrightarrow> returns (scanObject n seen ts) ts"
    and A: "\<And>ts. 2 * length ts + 1 < n \<Longrightarrow> returns (scanArray n ts) ts"
    by blast+
  have "returns (scanJSONValue (Suc n) ts) ts" if "2 * length ts < Suc n" for ts
  proof (cases ts)
    case (Cons t ts')
    with that have "returns (scanObject n {} ts') ts" "returns (scanArray n ts') ts"
      by (auto intro!: returns_weaken [OF O'] returns_weaken [OF A])
    with Cons show ?thesis by (auto split: json_token.splits)
  qed simp
  moreover have "returns (scanObject (Suc n) seen ts) ts" if len: "2 * length ts + 1 < Suc n" for seen ts
  proof (cases ts)
    case (Cons t ts')
    with len have "returns (case scanJSONValue n ts' of None \<Rightarrow> None | Some (Inl e) \<Rightarrow> Some (Inl e)
        | Some (Inr rest) \<Rightarrow> scanObject n (insert key seen) rest) ts" for key
      by (intro returns_bind [OF V]) (auto intro!: returns_weaken [OF O'])
    with Cons show ?thesis by (auto split: json_token.splits)
  qed (simp add: more_def)
  moreover have "returns (scanArray (Suc n) ts) ts" if len: "2 * length ts + 1 < Suc n" for ts
  proof -
    from len have "returns (case scanJSONValue n ts of None \<Rightarrow> None | Some (Inl e) \<Rightarrow> Some (Inl e)
        | Some (Inr rest) \<Rightarrow> scanArray n rest) ts"
      by (intro returns_bind [OF V]) (auto intro!: returns_weaken [OF A])
    then show ?thesis by (auto simp: more_def split: list.splits)
  qed
  ultimately show ?case by blast
qed

definition rejectDuplicateJSONKeys :: "json_token list \<Rightarrow> go_error option" where
  "rejectDuplicateJSONKeys ts = err_of (the (scanJSONValue (Suc (2 * length ts)) ts))"

lemma scanJSONValue_returns: "\<exists>x. scanJSONValue (Suc (2 * length ts)) ts = Some x"
  using scan_enough_fuel [of "Suc (2 * length ts)"] by (auto simp: returns_def)

section \<open>Against the document\<close>

text \<open>
  A JSON value, the tokens the decoder delivers for it, and the property the check is for: in no
  object at any depth do two members have the same key.
\<close>

datatype json = JScalar | JString string | JArray "json list" | JObject "json_member list"
  and json_member = Member (member_key: string) (member_value: json)

primrec tokens :: "json \<Rightarrow> json_token list"
  and member_tokens :: "json_member \<Rightarrow> json_token list" where
  "tokens JScalar = [TScalar]"
| "tokens (JString s) = [TString s]"
| "tokens (JArray js) = TDelim (CHR ''['') # concat (map tokens js) @ [TDelim (CHR '']'')]"
| "tokens (JObject ms) = TDelim (CHR ''{'') # concat (map member_tokens ms) @ [TDelim (CHR ''}'')]"
| "member_tokens (Member k j) = TString k # tokens j"

primrec unique_keys :: "json \<Rightarrow> bool" and unique_keys_member :: "json_member \<Rightarrow> bool" where
  "unique_keys JScalar = True"
| "unique_keys (JString s) = True"
| "unique_keys (JArray js) = list_all id (map unique_keys js)"
| "unique_keys (JObject ms) = (distinct (map member_key ms) \<and> list_all id (map unique_keys_member ms))"
| "unique_keys_member (Member k j) = unique_keys j"

lemma more_simps [simp]:
  "\<not> more []" "more (TString k # ts)" "more (TScalar # ts)"
  "more (TDelim d # ts) \<longleftrightarrow> d \<noteq> CHR ''}'' \<and> d \<noteq> CHR '']''"
  by (auto simp: more_def)

lemma more_tokens [simp]: "more (tokens j @ ts)"
  by (cases j) simp_all

text \<open>The walk over the tokens of one value, whatever follows them.\<close>

definition verdict :: "bool \<Rightarrow> json_token list \<Rightarrow> json_token list res option" where
  "verdict ok rest = Some (if ok then Inr rest else Inl duplicate_error)"

lemma scan_array_tokens:
  assumes "\<And>j m rest. j \<in> set js \<Longrightarrow> 2 * length (tokens j @ rest) < m \<Longrightarrow>
      scanJSONValue m (tokens j @ rest) = verdict (unique_keys j) rest"
    and "2 * length (concat (map tokens js) @ TDelim (CHR '']'') # rest) + 1 < n"
  shows "scanArray n (concat (map tokens js) @ TDelim (CHR '']'') # rest) =
    verdict (list_all unique_keys js) rest"
  using assms
proof (induction js arbitrary: n)
  case Nil
  then show ?case by (cases n) (simp_all add: verdict_def)
next
  case (Cons j js)
  then obtain m where n: "n = Suc m" by (cases n) auto
  let ?rest = "concat (map tokens js) @ TDelim (CHR '']'') # rest"
  from Cons.prems n have "scanJSONValue m (tokens j @ ?rest) = verdict (unique_keys j) ?rest"
    by simp
  moreover have "2 * length ?rest + 1 < m"
    using Cons.prems(2) n by (cases j) auto
  then have "scanArray m ?rest = verdict (list_all unique_keys js) rest"
    using Cons.IH Cons.prems(1) by simp
  ultimately show ?case by (simp add: n verdict_def)
qed

lemma scan_object_tokens:
  assumes "\<And>k j m rest. Member k j \<in> set ms \<Longrightarrow> 2 * length (tokens j @ rest) < m \<Longrightarrow>
      scanJSONValue m (tokens j @ rest) = verdict (unique_keys j) rest"
    and "2 * length (concat (map member_tokens ms) @ TDelim (CHR ''}'') # rest) + 1 < n"
  shows "scanObject n seen (concat (map member_tokens ms) @ TDelim (CHR ''}'') # rest) =
    verdict (distinct (map member_key ms) \<and> set (map member_key ms) \<inter> seen = {} \<and>
      list_all unique_keys_member ms) rest"
  using assms
proof (induction ms arbitrary: n seen)
  case Nil
  then show ?case by (cases n) (simp_all add: verdict_def)
next
  case (Cons a ms)
  obtain k j where a: "a = Member k j" by (cases a)
  from Cons.prems(2) obtain m where n: "n = Suc m" by (cases n) auto
  let ?rest = "concat (map member_tokens ms) @ TDelim (CHR ''}'') # rest"
  have "Member k j \<in> set (a # ms)" by (simp add: a)
  then have "scanJSONValue m (tokens j @ ?rest) = verdict (unique_keys j) ?rest"
    using Cons.prems(2) n a by (intro Cons.prems(1)) auto
  moreover have "2 * length ?rest + 1 < m"
    using Cons.prems(2) n a by auto
  then have "scanObject m (insert k seen) ?rest = verdict (distinct (map member_key ms) \<and>
      set (map member_key ms) \<inter> insert k seen = {} \<and> list_all unique_keys_member ms) rest"
    by (rule Cons.IH [rotated]) (erule Cons.prems(1) [OF list.set_intros(2)])
  ultimately show ?case by (auto simp: n a verdict_def)
qed

lemma scan_tokens:
  "\<forall>n rest. 2 * length (tokens j @ rest) < n \<longrightarrow>
     scanJSONValue n (tokens j @ rest) = verdict (unique_keys j) rest"
  "\<forall>n rest. 2 * length (tokens (member_value mb) @ rest) < n \<longrightarrow>
     scanJSONValue n (tokens (member_value mb) @ rest) = verdict (unique_keys (member_value mb)) rest"
proof (induction j and mb)
  case JScalar
  then show ?case by (auto simp: verdict_def gr0_conv_Suc elim!: less_natE)
next
  case (JString s)
  then show ?case by (auto simp: verdict_def gr0_conv_Suc elim!: less_natE)
next
  case (JArray js)
  show ?case
  proof (intro allI impI)
    fix n rest assume len: "2 * length (tokens (JArray js) @ rest) < n"
    then obtain m where n: "n = Suc m" by (cases n) auto
    from JArray have IH: "\<And>j m rest. j \<in> set js \<Longrightarrow> 2 * length (tokens j @ rest) < m \<Longrightarrow>
      scanJSONValue m (tokens j @ rest) = verdict (unique_keys j) rest" by blast
    from len n have "2 * length (concat (map tokens js) @ TDelim (CHR '']'') # rest) + 1 < m" by simp
    from scan_array_tokens [OF IH this]
    show "scanJSONValue n (tokens (JArray js) @ rest) = verdict (unique_keys (JArray js)) rest"
      by (simp add: n list_all_iff)
  qed
next
  case (JObject ms)
  show ?case
  proof (intro allI impI)
    fix n rest assume len: "2 * length (tokens (JObject ms) @ rest) < n"
    then obtain m where n: "n = Suc m" by (cases n) auto
    from JObject have IH: "\<And>k j m rest. Member k j \<in> set ms \<Longrightarrow> 2 * length (tokens j @ rest) < m \<Longrightarrow>
      scanJSONValue m (tokens j @ rest) = verdict (unique_keys j) rest" by fastforce
    from len n have "2 * length (concat (map member_tokens ms) @ TDelim (CHR ''}'') # rest) + 1 < m"
      by simp
    from scan_object_tokens [OF IH this, where seen = "{}"]
    show "scanJSONValue n (tokens (JObject ms) @ rest) = verdict (unique_keys (JObject ms)) rest"
      by (simp add: n list_all_iff)
  qed
next
  case (Member k j)
  then show ?case by simp
qed

lemma rejectDuplicateJSONKeys_tokens:
  "rejectDuplicateJSONKeys (tokens j @ rest) = (if unique_keys j then None else Some duplicate_error)"
proof -
  have "scanJSONValue (Suc (2 * length (tokens j @ rest))) (tokens j @ rest) = verdict (unique_keys j) rest"
    using scan_tokens(1) [of j] by blast
  then show ?thesis by (simp add: rejectDuplicateJSONKeys_def verdict_def del: scanJSONValue.simps)
qed

section \<open>Properties\<close>

text \<open>
  The duplicate-key scan accepts the tokens of a JSON document exactly when no object in it, at any
  depth, has two members of the same key; otherwise its error is the duplicate-key conflict. It always
  returns, and what follows the document makes no difference.
\<close>

theorem duplicate_scan_correct:
  "rejectDuplicateJSONKeys (tokens j @ rest) =
     (if unique_keys j then None else Some (DomainError ErrorConflict ReasonDuplicateCanonicalKey))"
  by (rule rejectDuplicateJSONKeys_tokens)

end
