(* ===== verification/Supervision.thy ===== *)
theory Supervision
  imports Identity
begin

text \<open>
  \<open>runtime/kernel/supervision.go\<close>: the supervision record of a running instance, the timer decision
  on it and its updates. Durations and their arithmetic are 64-bit words read as signed, as Go's are;
  the failure counter is a 32-bit word. The policy's digest is computed from its JSON encoding,
  which is written out: six integers under fixed names.
\<close>

section \<open>Policy\<close>

datatype SupervisionMode =
    SupervisionNormal | SupervisionBackoff | SupervisionQuarantined | SupervisionFenced | SupervisionModeOther string

datatype SupervisionAction =
    SupervisionNone | SupervisionInspect | SupervisionRenewLease | SupervisionQuarantine | SupervisionFenceAndStop

record SupervisionPolicy =
  pol_InspectionInterval :: Duration
  pol_LeaseRenewLeadTime :: Duration
  pol_RetryBaseDelay :: Duration
  pol_RetryMaxDelay :: Duration
  pol_DeterministicSpread :: Duration
  pol_MaxConsecutiveFailures :: u32

definition SupervisionPolicy_Validate :: "SupervisionPolicy \<Rightarrow> go_error option" where [validate_defs]:
  "SupervisionPolicy_Validate p =
     first_err
      [fail_if (sint (pol_InspectionInterval p) \<le> 0 \<or> sint (pol_LeaseRenewLeadTime p) \<le> 0
          \<or> sint (pol_RetryBaseDelay p) \<le> 0 \<or> sint (pol_RetryMaxDelay p) < sint (pol_RetryBaseDelay p)
          \<or> pol_MaxConsecutiveFailures p = 0) ErrorInvalidArgument ReasonSupervisionPolicyMissing,
       fail_if (sint (pol_DeterministicSpread p) < 0 \<or> sint (pol_DeterministicSpread p) > sint (pol_InspectionInterval p))
         ErrorInvalidArgument ReasonSupervisionPolicyMissing]"

definition int_dec :: "int \<Rightarrow> string" where
  "int_dec i = (if i < 0 then CHR ''-'' # dec (nat (- i)) else dec (nat i))"

definition json_field :: "string \<Rightarrow> int \<Rightarrow> string" where
  "json_field name i = CHR 0x22 # name @ CHR 0x22 # CHR '':'' # int_dec i"

definition policy_json :: "SupervisionPolicy \<Rightarrow> string" where
  "policy_json p =
     ''{'' @ json_field ''inspection_interval'' (sint (pol_InspectionInterval p)) @
     '','' @ json_field ''lease_renew_lead_time'' (sint (pol_LeaseRenewLeadTime p)) @
     '','' @ json_field ''retry_base_delay'' (sint (pol_RetryBaseDelay p)) @
     '','' @ json_field ''retry_max_delay'' (sint (pol_RetryMaxDelay p)) @
     '','' @ json_field ''deterministic_spread'' (sint (pol_DeterministicSpread p)) @
     '','' @ json_field ''max_consecutive_failures'' (uint (pol_MaxConsecutiveFailures p)) @ ''}''"

definition SupervisionPolicy_Digest :: "SupervisionPolicy \<Rightarrow> Digest res" where
  "SupervisionPolicy_Digest p = ensure (SupervisionPolicy_Validate p) (DigestJSON (Some (policy_json p)))"

definition validateSupervisionPolicyBinding :: "Digest \<Rightarrow> SupervisionPolicy \<Rightarrow> go_error option" where
  "validateSupervisionPolicyBinding want p =
     (case SupervisionPolicy_Digest p of
        Inl e \<Rightarrow> Some e
      | Inr got \<Rightarrow> fail_if (got \<noteq> want) ErrorPreconditionFailed ReasonSupervisionPolicyDrift)"

section \<open>Record\<close>

record SupervisionRecord =
  sup_Scope :: ExecutionScope
  sup_PolicyDigest :: Digest
  sup_Mode :: SupervisionMode
  sup_ConsecutiveFailures :: u32
  sup_LastSuccessfulInspectAt :: Time
  sup_NextActionAt :: Time
  sup_IdentityLeaseExpiresAt :: Time
  sup_UpdatedAt :: Time
  sup_Revision :: Revision

text \<open>The first eight bytes of the hash, read big-endian, modulo the window.\<close>

definition be_word64 :: "string \<Rightarrow> u64" where
  "be_word64 s = foldl (\<lambda>w c. 256 * w + word_of_int (of_char c)) 0 s"

definition deterministicSpread :: "SupervisionRecord \<Rightarrow> Duration \<Rightarrow> Duration" where
  "deterministicSpread r window =
     (if sint window \<le> 0 then 0
      else be_word64 (take 8 (Sum256
        (ident_TenantID (scope_Identity (sup_Scope r)) @ ''/'' @ ident_ID (scope_Identity (sup_Scope r)) @ ''/'' @
         inst_ID (scope_Instance (sup_Scope r)) @ ''/'' @ sup_PolicyDigest r))) mod window)"

definition nextInspection :: "SupervisionRecord \<Rightarrow> Time \<Rightarrow> SupervisionPolicy \<Rightarrow> Time" where
  "nextInspection r now p = Add now (pol_InspectionInterval p + deterministicSpread r (pol_DeterministicSpread p))"

text \<open>The doubling loop; the number is how often its counter can still be raised.\<close>

fun retry_loop :: "nat \<Rightarrow> Duration \<Rightarrow> Duration \<Rightarrow> Duration" where
  "retry_loop 0 delay maxDelay = delay"
| "retry_loop (Suc n) delay maxDelay =
     (if \<not> sint delay < sint maxDelay then delay
      else if sint delay > sint maxDelay sdiv 2 then maxDelay
      else retry_loop n (2 * delay) maxDelay)"

definition retryDelay :: "SupervisionRecord \<Rightarrow> SupervisionPolicy \<Rightarrow> Duration" where
  "retryDelay r p =
     (let delay1 = retry_loop (unat (sup_ConsecutiveFailures r) - 1) (pol_RetryBaseDelay p) (pol_RetryMaxDelay p);
          delay = (if sint delay1 > sint (pol_RetryMaxDelay p) then pol_RetryMaxDelay p else delay1);
          spread = deterministicSpread r (pol_DeterministicSpread p)
      in if sint spread > sint (pol_RetryMaxDelay p - delay) then pol_RetryMaxDelay p else delay + spread)"

definition saturatingIncrement :: "u32 \<Rightarrow> u32" where
  "saturatingIncrement v = (if v = - 1 then v else v + 1)"

definition NewSupervisionRecord ::
  "ExecutionScope \<Rightarrow> Digest \<Rightarrow> Time \<Rightarrow> Time \<Rightarrow> SupervisionPolicy \<Rightarrow> SupervisionRecord res" where
  "NewSupervisionRecord scope policyDigest leaseExpiresAt now p =
     ensure
      (first_err
        [ExecutionScope_Validate scope,
         fail_if (scope_SandboxLease scope = None) ErrorPreconditionFailed ReasonInvalidReference,
         Digest_Validate policyDigest, validateSupervisionPolicyBinding policyDigest p,
         fail_if (IsZero now \<or> \<not> After leaseExpiresAt (Add now (pol_LeaseRenewLeadTime p)))
           ErrorPreconditionFailed ReasonIdentityLeaseStateInvalid])
      (let r = \<lparr>sup_Scope = scope, sup_PolicyDigest = policyDigest, sup_Mode = SupervisionNormal,
                sup_ConsecutiveFailures = 0, sup_LastSuccessfulInspectAt = now, sup_NextActionAt = 0,
                sup_IdentityLeaseExpiresAt = leaseExpiresAt, sup_UpdatedAt = now, sup_Revision = 1\<rparr>
       in Inr (r\<lparr>sup_NextActionAt := nextInspection r now p\<rparr>))"

definition SupervisionRecord_Validate :: "SupervisionRecord \<Rightarrow> go_error option" where [validate_defs]:
  "SupervisionRecord_Validate r =
     first_err
      [ExecutionScope_Validate (sup_Scope r),
       fail_if (scope_SandboxLease (sup_Scope r) = None \<or> sup_Revision r = 0 \<or> IsZero (sup_LastSuccessfulInspectAt r)
          \<or> IsZero (sup_NextActionAt r) \<or> IsZero (sup_IdentityLeaseExpiresAt r) \<or> IsZero (sup_UpdatedAt r)
          \<or> Before (sup_UpdatedAt r) (sup_LastSuccessfulInspectAt r)) ErrorInvalidArgument ReasonInvalidReference,
       Digest_Validate (sup_PolicyDigest r),
       (case sup_Mode r of
          SupervisionNormal \<Rightarrow> fail_if (sup_ConsecutiveFailures r \<noteq> 0) ErrorPreconditionFailed ReasonInvalidState
        | SupervisionBackoff \<Rightarrow> fail_if (sup_ConsecutiveFailures r = 0) ErrorPreconditionFailed ReasonInvalidState
        | SupervisionQuarantined \<Rightarrow> None
        | SupervisionFenced \<Rightarrow> None
        | SupervisionModeOther s \<Rightarrow> Some (DomainError ErrorInvalidArgument ReasonInvalidState))]"

section \<open>Decisions and updates\<close>

record SupervisionDecision =
  sd_Action :: SupervisionAction
  sd_AutomaticSafe :: bool
  sd_Reason :: string

definition supervisionDecision :: "SupervisionAction \<Rightarrow> bool \<Rightarrow> string \<Rightarrow> SupervisionDecision" where
  "supervisionDecision action automatic reason = \<lparr>sd_Action = action, sd_AutomaticSafe = automatic, sd_Reason = reason\<rparr>"

definition EvaluateSupervision ::
  "SupervisionRecord \<Rightarrow> Time \<Rightarrow> SupervisionPolicy \<Rightarrow> SupervisionDecision res" where
  "EvaluateSupervision r now p =
     ensure
      (first_err
        [SupervisionRecord_Validate r, validateSupervisionPolicyBinding (sup_PolicyDigest r) p,
         fail_if (IsZero now) ErrorInvalidArgument ReasonInvalidReference])
      (if sup_Mode r = SupervisionFenced
       then Inr (supervisionDecision SupervisionNone True ''instance is already fenced'')
       else if \<not> Before now (sup_IdentityLeaseExpiresAt r)
       then Inr (supervisionDecision SupervisionFenceAndStop True ''identity execution lease has expired'')
       else if \<not> Before now (Add (sup_IdentityLeaseExpiresAt r) (- pol_LeaseRenewLeadTime p))
       then Inr (supervisionDecision SupervisionRenewLease True ''identity execution lease entered its explicit renewal window'')
       else if sup_Mode r = SupervisionQuarantined
       then if \<not> Before now (sup_NextActionAt r)
            then Inr (supervisionDecision SupervisionInspect False ''quarantined state requires authoritative inspection'')
            else Inr (supervisionDecision SupervisionNone True ''quarantine inspection is backoff-limited'')
       else if \<not> Before now (sup_NextActionAt r)
       then Inr (supervisionDecision SupervisionInspect True ''scheduled health inspection is due'')
       else Inr (supervisionDecision SupervisionNone True ''no supervision action is due''))"

datatype SupervisionSignal =
    SignalHealthy | SignalTransientFailure | SignalStateUnknown | SignalLeaseRenewed | SignalLeaseRevisionStale
  | SignalAuthorityRevoked | SignalLeaseExpired | SignalOther string

record SupervisionUpdate =
  su_Signal :: SupervisionSignal
  su_ObservedAt :: Time
  su_NewLeaseExpiresAt :: Time

definition ApplySupervisionUpdate ::
  "SupervisionRecord \<Rightarrow> SupervisionUpdate \<Rightarrow> SupervisionPolicy \<Rightarrow> (SupervisionRecord \<times> SupervisionDecision) res" where
  "ApplySupervisionUpdate r u p =
     ensure
      (first_err
        [SupervisionRecord_Validate r, validateSupervisionPolicyBinding (sup_PolicyDigest r) p,
         fail_if (IsZero (su_ObservedAt u)) ErrorInvalidArgument ReasonInvalidReference,
         fail_if (Before (su_ObservedAt u) (sup_UpdatedAt r)) ErrorPreconditionFailed ReasonLateSupervisionSignal,
         fail_if (sup_Mode r = SupervisionFenced \<and> su_Signal u \<noteq> SignalAuthorityRevoked \<and> su_Signal u \<noteq> SignalLeaseExpired)
           ErrorPreconditionFailed ReasonFencedInstance,
         fail_if (\<not> Before (su_ObservedAt u) (sup_IdentityLeaseExpiresAt r) \<and> su_Signal u \<noteq> SignalAuthorityRevoked
             \<and> su_Signal u \<noteq> SignalLeaseExpired) ErrorPreconditionFailed ReasonIdentityLeaseStateInvalid])
      (let nxt = r\<lparr>sup_Revision := sup_Revision r + 1, sup_UpdatedAt := su_ObservedAt u\<rparr> in
       case su_Signal u of
         SignalHealthy \<Rightarrow>
           let n1 = nxt\<lparr>sup_Mode := SupervisionNormal, sup_ConsecutiveFailures := 0,
                        sup_LastSuccessfulInspectAt := su_ObservedAt u\<rparr>
           in Inr (n1\<lparr>sup_NextActionAt := nextInspection n1 (su_ObservedAt u) p\<rparr>,
                   supervisionDecision SupervisionNone True ''health evidence restored normal supervision'')
       | SignalTransientFailure \<Rightarrow>
           let n1 = nxt\<lparr>sup_ConsecutiveFailures := saturatingIncrement (sup_ConsecutiveFailures nxt)\<rparr>;
               n2 = n1\<lparr>sup_NextActionAt := Add (su_ObservedAt u) (retryDelay n1 p)\<rparr>
           in if sup_ConsecutiveFailures n2 \<ge> pol_MaxConsecutiveFailures p
              then Inr (n2\<lparr>sup_Mode := SupervisionQuarantined\<rparr>,
                        supervisionDecision SupervisionQuarantine True ''bounded transient failure budget was exhausted'')
              else Inr (n2\<lparr>sup_Mode := SupervisionBackoff\<rparr>,
                        supervisionDecision SupervisionNone True ''transient failure entered bounded exponential backoff'')
       | SignalStateUnknown \<Rightarrow>
           let n1 = nxt\<lparr>sup_Mode := SupervisionQuarantined,
                        sup_ConsecutiveFailures := saturatingIncrement (sup_ConsecutiveFailures nxt)\<rparr>
           in Inr (n1\<lparr>sup_NextActionAt := Add (su_ObservedAt u) (retryDelay n1 p)\<rparr>,
                   supervisionDecision SupervisionQuarantine True ''component state is unknown and cannot advance lifecycle'')
       | SignalLeaseRenewed \<Rightarrow>
           if \<not> After (su_NewLeaseExpiresAt u) (Add (su_ObservedAt u) (pol_LeaseRenewLeadTime p))
           then Inl (DomainError ErrorPreconditionFailed ReasonIdentityLeaseStateInvalid)
           else let n1 = nxt\<lparr>sup_IdentityLeaseExpiresAt := su_NewLeaseExpiresAt u\<rparr>
                in Inr (n1\<lparr>sup_NextActionAt := nextInspection n1 (su_ObservedAt u) p\<rparr>,
                        supervisionDecision SupervisionNone True ''lease renewal was authoritatively confirmed'')
       | SignalLeaseRevisionStale \<Rightarrow>
           Inr (nxt\<lparr>sup_Mode := SupervisionQuarantined, sup_NextActionAt := su_ObservedAt u\<rparr>,
                supervisionDecision SupervisionInspect False ''stale lease revision must inspect the linearized fact before retry'')
       | SignalAuthorityRevoked \<Rightarrow>
           Inr (nxt\<lparr>sup_Mode := SupervisionFenced, sup_NextActionAt := su_ObservedAt u\<rparr>,
                supervisionDecision SupervisionFenceAndStop True ''execution authority is no longer valid'')
       | SignalLeaseExpired \<Rightarrow>
           Inr (nxt\<lparr>sup_Mode := SupervisionFenced, sup_NextActionAt := su_ObservedAt u\<rparr>,
                supervisionDecision SupervisionFenceAndStop True ''execution authority is no longer valid'')
       | SignalOther s \<Rightarrow> Inl (DomainError ErrorInvalidArgument ReasonInvalidState))"

section \<open>Signed arithmetic within the policy's bounds\<close>

lemma sint_bounds: "- (2 ^ 63) \<le> sint (w :: i64)" "sint (w :: i64) < 2 ^ 63"
  using sint_range_size [of w] by (simp_all add: word_size)

lemma signed_take_bit_63: "- (2 ^ 63) \<le> k \<Longrightarrow> k < 2 ^ 63 \<Longrightarrow> signed_take_bit 63 k = (k :: int)"
  by (rule signed_take_bit_int_eq_self)

lemma sint_add_exact:
  "- (2 ^ 63) \<le> sint a + sint b \<Longrightarrow> sint a + sint b < 2 ^ 63 \<Longrightarrow> sint (a + b :: i64) = sint a + sint b"
  using sint_word_add [of a b] signed_take_bit_63 [of "sint a + sint b"] by simp

lemma sint_sub_exact:
  "- (2 ^ 63) \<le> sint a - sint b \<Longrightarrow> sint a - sint b < 2 ^ 63 \<Longrightarrow> sint (a - b :: i64) = sint a - sint b"
  using sint_word_diff [of a b] signed_take_bit_63 [of "sint a - sint b"] by simp

lemma sint_double_exact: "0 \<le> sint a \<Longrightarrow> 2 * sint a < 2 ^ 63 \<Longrightarrow> sint (2 * a :: i64) = 2 * sint a"
  using sint_add_exact [of a a] unfolding mult_2 by linarith

lemma sint_neg_exact: "0 \<le> sint a \<Longrightarrow> sint (- a :: i64) = - sint a"
proof -
  assume a: "0 \<le> sint a"
  have "sint (- a) = signed_take_bit 63 (- sint a)" using sint_word_minus [of a] by simp
  also have "\<dots> = - sint a" by (rule signed_take_bit_63) (use a sint_bounds(2) [of a] in linarith)+
  finally show ?thesis .
qed

lemma sint_small: "uint (a :: i64) < 2 ^ 63 \<Longrightarrow> sint a = uint a"
proof -
  assume a: "uint a < 2 ^ 63"
  have "- (2 ^ 63) \<le> uint a" by (rule order_trans [of _ 0]) simp_all
  from signed_take_bit_63 [OF this a] show ?thesis using sint_uint [of a] by simp
qed

lemma sint_nonneg_uint: "0 \<le> sint (a :: i64) \<Longrightarrow> sint a = uint a"
  using uint_sint [of a] sint_bounds [of a] by (simp add: take_bit_int_eq_self)

lemma spread_bounds:
  assumes "0 \<le> sint window"
  shows "0 \<le> sint (deterministicSpread r window)" "sint (deterministicSpread r window) \<le> sint window"
proof -
  have "0 \<le> sint (x mod window) \<and> sint (x mod window) \<le> sint window" if "0 < sint window" for x
  proof -
    have w: "sint window = uint window" using that by (simp add: sint_nonneg_uint)
    then have "uint x mod uint window < uint window" using that by simp
    then have u: "uint (x mod window) < uint window" by (simp add: uint_mod)
    then have "sint (x mod window) = uint (x mod window)" using w sint_bounds [of window] by (intro sint_small) simp
    then show ?thesis using u w by simp
  qed
  then show "0 \<le> sint (deterministicSpread r window)" "sint (deterministicSpread r window) \<le> sint window"
    using assms by (auto simp: deterministicSpread_def)
qed

section \<open>The retry delay\<close>

lemma retry_loop_exact:
  assumes "0 < sint d" "sint d \<le> sint m"
  shows "sint (retry_loop n d m) = min (sint m) (sint d * 2 ^ n)"
  using assms
proof (induction n d m rule: retry_loop.induct)
  case (1 d m)
  then show ?case by simp
next
  case (2 n d m)
  have half: "sint m sdiv 2 = sint m div 2" using 2(2,3) by (simp add: signed_divide_int_def sgn_if)
  have grow: "sint d \<le> sint d * 2 ^ n" using 2(2) by simp
  show ?case
  proof (cases "sint d < sint m \<and> \<not> sint m sdiv 2 < sint d")
    case True
    then have "sint d \<le> sint m div 2" by (simp add: half)
    then have le: "2 * sint d \<le> sint m" by linarith
    then have e: "sint (2 * d) = 2 * sint d" using 2(2) sint_bounds [of m] by (intro sint_double_exact) simp_all
    have "sint (retry_loop n (2 * d) m) = min (sint m) (sint (2 * d) * 2 ^ n)"
      using True 2(2) le e by (intro 2(1)) simp_all
    then show ?thesis using True e by (simp add: ac_simps)
  next
    case False
    have "sint m \<le> 2 * (sint d * 2 ^ n)"
      using False grow 2(2) unfolding half by linarith
    then show ?thesis using False 2(2,3) grow by (auto simp: min_def ac_simps)
  qed
qed

lemma policy_bounds:
  assumes "SupervisionPolicy_Validate p = None"
  shows "0 < sint (pol_InspectionInterval p)" "0 < sint (pol_LeaseRenewLeadTime p)" "0 < sint (pol_RetryBaseDelay p)"
    "sint (pol_RetryBaseDelay p) \<le> sint (pol_RetryMaxDelay p)" "pol_MaxConsecutiveFailures p \<noteq> 0"
    "0 \<le> sint (pol_DeterministicSpread p)" "sint (pol_DeterministicSpread p) \<le> sint (pol_InspectionInterval p)"
  using assms by (auto simp: SupervisionPolicy_Validate_def)

lemma retryDelay_closed:
  assumes "SupervisionPolicy_Validate p = None"
  shows "sint (retryDelay r p) =
    min (sint (pol_RetryMaxDelay p))
        (min (sint (pol_RetryMaxDelay p)) (sint (pol_RetryBaseDelay p) * 2 ^ (unat (sup_ConsecutiveFailures r) - 1))
          + sint (deterministicSpread r (pol_DeterministicSpread p)))"
proof -
  note b = policy_bounds [OF assms]
  let ?m = "pol_RetryMaxDelay p" and ?s = "deterministicSpread r (pol_DeterministicSpread p)"
  let ?d = "retry_loop (unat (sup_ConsecutiveFailures r) - 1) (pol_RetryBaseDelay p) ?m"
  have d: "sint ?d = min (sint ?m) (sint (pol_RetryBaseDelay p) * 2 ^ (unat (sup_ConsecutiveFailures r) - 1))"
    using b by (intro retry_loop_exact)
  have d0: "0 < sint ?d" "sint ?d \<le> sint ?m" using b d by (simp_all add: min_def)
  have diff: "sint (?m - ?d) = sint ?m - sint ?d"
    using d0 sint_bounds [of ?m] by (intro sint_sub_exact) simp_all
  have s: "0 \<le> sint ?s" using spread_bounds(1) [OF b(6)] .
  show ?thesis
  proof (cases "sint ?s > sint ?m - sint ?d")
    case True
    then show ?thesis using d0 unfolding d [symmetric] by (simp add: retryDelay_def Let_def diff del: One_nat_def)
  next
    case False
    then have "sint (?d + ?s) = sint ?d + sint ?s"
      using d0 s sint_bounds [of ?m] by (intro sint_add_exact) simp_all
    then show ?thesis using False d0 unfolding d [symmetric] by (simp add: retryDelay_def Let_def diff del: One_nat_def)
  qed
qed

lemma retryDelay_bounds:
  assumes "SupervisionPolicy_Validate p = None"
  shows "sint (pol_RetryBaseDelay p) \<le> sint (retryDelay r p)" "sint (retryDelay r p) \<le> sint (pol_RetryMaxDelay p)"
    "0 < sint (retryDelay r p)"
proof -
  note b = policy_bounds [OF assms]
  have "sint (pol_RetryBaseDelay p) \<le> sint (pol_RetryBaseDelay p) * 2 ^ (unat (sup_ConsecutiveFailures r) - 1)"
    using b(3) by simp
  with b(4) have "sint (pol_RetryBaseDelay p)
      \<le> min (sint (pol_RetryMaxDelay p)) (sint (pol_RetryBaseDelay p) * 2 ^ (unat (sup_ConsecutiveFailures r) - 1))"
    by (rule min.boundedI)
  then show "sint (pol_RetryBaseDelay p) \<le> sint (retryDelay r p)" "sint (retryDelay r p) \<le> sint (pol_RetryMaxDelay p)"
    using spread_bounds(1) [OF b(6), of r] b(4) unfolding retryDelay_closed [OF assms] by linarith+
  then show "0 < sint (retryDelay r p)" using b(3) by simp
qed

text \<open>An inspection is due after the interval and at most the spread, unless their sum leaves 64 bits.\<close>

lemma nextInspection_bounds:
  assumes "SupervisionPolicy_Validate p = None" "sint (pol_InspectionInterval p) < 2 ^ 62"
  shows "t + sint (pol_InspectionInterval p) \<le> nextInspection r t p"
    "nextInspection r t p \<le> t + 2 * sint (pol_InspectionInterval p)"
proof -
  note b = policy_bounds [OF assms(1)]
  note s = spread_bounds [OF b(6), of r]
  have "sint (pol_InspectionInterval p + deterministicSpread r (pol_DeterministicSpread p))
      = sint (pol_InspectionInterval p) + sint (deterministicSpread r (pol_DeterministicSpread p))"
    using b s assms(2) by (intro sint_add_exact) simp_all
  then show "t + sint (pol_InspectionInterval p) \<le> nextInspection r t p"
    "nextInspection r t p \<le> t + 2 * sint (pol_InspectionInterval p)"
    using b s by (simp_all add: nextInspection_def Add_def)
qed

section \<open>Updates of a record\<close>

lemma binding_policy:
  "validateSupervisionPolicyBinding d p = None \<longleftrightarrow> SupervisionPolicy_Validate p = None \<and> d = DigestBytes (policy_json p)"
  by (auto simp: validateSupervisionPolicyBinding_def SupervisionPolicy_Digest_def DigestJSON_Inr ensure_def
      DigestJSON_def DigestBytes_def split: option.splits sum.splits)

lemma saturatingIncrement_nonzero [simp]: "saturatingIncrement v \<noteq> 0"
proof (cases "v = - 1")
  case False
  then have "v + 1 \<noteq> 0" by (simp add: eq_neg_iff_add_eq_0)
  with False show ?thesis by (simp add: saturatingIncrement_def)
qed (simp add: saturatingIncrement_def)

lemma unat_saturatingIncrement: "unat (saturatingIncrement v) = min (unat v + 1) (2 ^ 32 - 1)"
proof (cases "v = - 1")
  case True
  then show ?thesis by (simp add: saturatingIncrement_def unsigned_minus_1_eq_mask mask_eq_exp_minus_1)
next
  case False
  then have "v + 1 \<noteq> 0" by (simp add: eq_neg_iff_add_eq_0)
  then have "unat (v + 1) = unat v + 1" by (metis Suc_eq_plus1 add.commute unatSuc)
  moreover have "unat (v + 1) < 2 ^ 32" using unsigned_less [of "v + 1", where 'a = nat] by simp
  ultimately show ?thesis using False by (simp add: saturatingIncrement_def)
qed

lemma apply_guards:
  assumes "ApplySupervisionUpdate r u p = Inr (t, d)"
  shows "SupervisionRecord_Validate r = None" "validateSupervisionPolicyBinding (sup_PolicyDigest r) p = None"
    "su_ObservedAt u \<noteq> 0" "sup_UpdatedAt r \<le> su_ObservedAt u"
    "sup_Mode r = SupervisionFenced \<Longrightarrow> su_Signal u = SignalAuthorityRevoked \<or> su_Signal u = SignalLeaseExpired"
    "sup_IdentityLeaseExpiresAt r \<le> su_ObservedAt u \<Longrightarrow>
       su_Signal u = SignalAuthorityRevoked \<or> su_Signal u = SignalLeaseExpired"
  using assms by (auto simp: ApplySupervisionUpdate_def time_defs)

lemmas apply_defs = ApplySupervisionUpdate_def Let_def

lemma apply_frame:
  assumes "ApplySupervisionUpdate r u p = Inr (t, d)"
  shows "sup_Scope t = sup_Scope r" "sup_PolicyDigest t = sup_PolicyDigest r" "sup_UpdatedAt t = su_ObservedAt u"
    "sup_Revision t = sup_Revision r + 1"
    "sup_LastSuccessfulInspectAt t = sup_LastSuccessfulInspectAt r \<or> sup_LastSuccessfulInspectAt t = su_ObservedAt u"
    "sup_IdentityLeaseExpiresAt t \<noteq> sup_IdentityLeaseExpiresAt r \<Longrightarrow>
       su_Signal u = SignalLeaseRenewed \<and> su_ObservedAt u + sint (pol_LeaseRenewLeadTime p) < sup_IdentityLeaseExpiresAt t"
    "\<exists>x. sup_NextActionAt t \<in> {su_ObservedAt u, su_ObservedAt u + sint (retryDelay x p), nextInspection x (su_ObservedAt u) p}"
  using assms by (cases "su_Signal u"; auto simp: apply_defs time_defs Add_def split: if_splits)+


definition mode_ok :: "SupervisionRecord \<Rightarrow> bool" where
  "mode_ok r \<longleftrightarrow>
     (sup_Mode r = SupervisionNormal \<longrightarrow> sup_ConsecutiveFailures r = 0)
     \<and> (sup_Mode r = SupervisionBackoff \<longrightarrow> sup_ConsecutiveFailures r \<noteq> 0)
     \<and> sup_Mode r \<in> {SupervisionNormal, SupervisionBackoff, SupervisionQuarantined, SupervisionFenced}"

lemma SupervisionRecord_Validate_iff:
  "SupervisionRecord_Validate r = None \<longleftrightarrow>
     ExecutionScope_Validate (sup_Scope r) = None \<and> scope_SandboxLease (sup_Scope r) \<noteq> None \<and> sup_Revision r \<noteq> 0
     \<and> sup_LastSuccessfulInspectAt r \<noteq> 0 \<and> sup_NextActionAt r \<noteq> 0 \<and> sup_IdentityLeaseExpiresAt r \<noteq> 0
     \<and> sup_UpdatedAt r \<noteq> 0 \<and> sup_LastSuccessfulInspectAt r \<le> sup_UpdatedAt r
     \<and> Digest_Validate (sup_PolicyDigest r) = None \<and> mode_ok r"
  by (cases "sup_Mode r") (auto simp: SupervisionRecord_Validate_def mode_ok_def time_defs)

lemma apply_mode_ok:
  assumes "ApplySupervisionUpdate r u p = Inr (t, d)"
  shows "mode_ok t"
proof -
  have "mode_ok r" using apply_guards(1) [OF assms] by (simp add: SupervisionRecord_Validate_iff)
  then show ?thesis using assms by (cases "su_Signal u"; auto simp: apply_defs mode_ok_def split: if_splits)
qed

text \<open>The versions of a record: what successive updates under one policy make of it.\<close>

inductive sup_versions :: "SupervisionPolicy \<Rightarrow> SupervisionRecord \<Rightarrow> nat \<Rightarrow> SupervisionRecord \<Rightarrow> bool" for p where
  sup_stay: "sup_versions p r 0 r"
| sup_go: "sup_versions p r n s \<Longrightarrow> ApplySupervisionUpdate s u p = Inr (t, d) \<Longrightarrow> sup_versions p r (Suc n) t"




text \<open>What the policy's bounds add: the record stays valid, and its next action is never far away.\<close>

definition sup_ok :: "SupervisionPolicy \<Rightarrow> SupervisionRecord \<Rightarrow> bool" where
  "sup_ok p r \<longleftrightarrow>
     SupervisionRecord_Validate r = None \<and> validateSupervisionPolicyBinding (sup_PolicyDigest r) p = None
     \<and> 0 < sup_LastSuccessfulInspectAt r \<and> 0 < sup_NextActionAt r \<and> 0 < sup_IdentityLeaseExpiresAt r
     \<and> sup_NextActionAt r \<le> sup_UpdatedAt r + max (2 * sint (pol_InspectionInterval p)) (sint (pol_RetryMaxDelay p))"

lemma next_action_bounds:
  assumes "SupervisionPolicy_Validate p = None" "sint (pol_InspectionInterval p) < 2 ^ 62"
    "n \<in> {t, t + sint (retryDelay x p), nextInspection x t p}"
  shows "t \<le> n" "n \<le> t + max (2 * sint (pol_InspectionInterval p)) (sint (pol_RetryMaxDelay p))"
  using assms(3) retryDelay_bounds [OF assms(1), of x] nextInspection_bounds [OF assms(1,2), where r = x and t = t]
    policy_bounds(1) [OF assms(1)] by auto

lemma sup_ok_step:
  assumes "sup_ok p r" "ApplySupervisionUpdate r u p = Inr (t, d)" "sint (pol_InspectionInterval p) < 2 ^ 62"
    "sup_Revision t \<noteq> 0"
  shows "sup_ok p t"
proof -
  note g = apply_guards [OF assms(2)] and f = apply_frame [OF assms(2)]
  have v: "SupervisionPolicy_Validate p = None" using g(2) by (simp add: binding_policy)
  have up: "0 < su_ObservedAt u" "sup_LastSuccessfulInspectAt r \<le> su_ObservedAt u"
    using assms(1) g(4) by (auto simp: sup_ok_def SupervisionRecord_Validate_iff)
  obtain x where "sup_NextActionAt t \<in> {su_ObservedAt u, su_ObservedAt u + sint (retryDelay x p), nextInspection x (su_ObservedAt u) p}"
    using f(7) by blast
  note n = next_action_bounds [OF v assms(3) this]
  have l: "0 < sup_IdentityLeaseExpiresAt t"
    using f(6) up policy_bounds(2) [OF v] assms(1) by (cases "sup_IdentityLeaseExpiresAt t = sup_IdentityLeaseExpiresAt r")
      (auto simp: sup_ok_def)
  show ?thesis
    using n l up f(1-5) g(1,2) assms(1,4) apply_mode_ok [OF assms(2)]
    unfolding sup_ok_def SupervisionRecord_Validate_iff by auto
qed

lemma sup_versions_revision: "sup_versions p r n s \<Longrightarrow> sup_Revision s = sup_Revision r + word_of_nat n"
  by (induction rule: sup_versions.induct) (simp_all add: apply_frame(4) ac_simps)

lemma unat_add_small: "unat (w :: u64) + n < 2 ^ 64 \<Longrightarrow> unat (w + word_of_nat n) = unat w + n"
  by (simp add: unat_word_ariths unat_of_nat take_bit_nat_eq_self)

lemma sup_versions_ok:
  assumes "sup_versions p r n s" "sup_ok p r" "sint (pol_InspectionInterval p) < 2 ^ 62" "unat (sup_Revision r) + n < 2 ^ 64"
  shows "sup_ok p s"
  using assms
proof (induction rule: sup_versions.induct)
  case (sup_stay r)
  then show ?case by simp
next
  case (sup_go r n s u t d)
  have "sup_Revision t = sup_Revision r + word_of_nat (Suc n)"
    using sup_versions_revision [OF sup_versions.sup_go [OF sup_go(1,2)]] .
  moreover have "unat (sup_Revision r + word_of_nat (Suc n)) = unat (sup_Revision r) + Suc n"
    using sup_go(6) by (rule unat_add_small)
  ultimately have "sup_Revision t \<noteq> 0" by (metis add_is_0 nat.simps(3) unat_0)
  moreover have "sup_ok p s" using sup_go(3,4,5,6) by simp
  ultimately show ?case using sup_ok_step [OF _ sup_go(2,5)] by blast
qed


lemma NewSupervisionRecord_ok:
  assumes "NewSupervisionRecord scope d expires now p = Inr r" "0 < now" "sint (pol_InspectionInterval p) < 2 ^ 62"
  shows "sup_ok p r" "sup_Revision r = 1" "sup_Scope r = scope" "sup_PolicyDigest r = d" "sup_Mode r = SupervisionNormal"
    "sup_IdentityLeaseExpiresAt r = expires" "sup_UpdatedAt r = now"
proof -
  have v: "SupervisionPolicy_Validate p = None" "validateSupervisionPolicyBinding d p = None"
    using assms(1) by (auto simp: NewSupervisionRecord_def binding_policy)
  define x where "x = \<lparr>sup_Scope = scope, sup_PolicyDigest = d, sup_Mode = SupervisionNormal,
     sup_ConsecutiveFailures = 0, sup_LastSuccessfulInspectAt = now, sup_NextActionAt = 0,
     sup_IdentityLeaseExpiresAt = expires, sup_UpdatedAt = now, sup_Revision = 1\<rparr>"
  have x: "sup_Revision x = 1" "sup_Scope x = scope"
    "sup_PolicyDigest x = d" "sup_Mode x = SupervisionNormal" "sup_ConsecutiveFailures x = 0"
    "sup_LastSuccessfulInspectAt x = now" "sup_IdentityLeaseExpiresAt x = expires" "sup_UpdatedAt x = now"
    by (simp_all add: x_def)
  have "r = x\<lparr>sup_NextActionAt := nextInspection x now p\<rparr>"
    "ExecutionScope_Validate scope = None" "scope_SandboxLease scope \<noteq> None" "Digest_Validate d = None"
    "now + sint (pol_LeaseRenewLeadTime p) < expires"
    using assms(1) by (auto simp: NewSupervisionRecord_def x_def Let_def time_defs Add_def)
  note r = this x
  have n: "now \<le> nextInspection x now p" "nextInspection x now p
      \<le> now + max (2 * sint (pol_InspectionInterval p)) (sint (pol_RetryMaxDelay p))"
    using next_action_bounds [OF v(1) assms(3), of "nextInspection x now p" now x] by simp_all
  show "sup_ok p r"
    using r n v assms(2) policy_bounds(2) [OF v(1)]
    unfolding sup_ok_def SupervisionRecord_Validate_iff mode_ok_def by simp
  show "sup_Revision r = 1" "sup_Scope r = scope" "sup_PolicyDigest r = d" "sup_Mode r = SupervisionNormal"
    "sup_IdentityLeaseExpiresAt r = expires" "sup_UpdatedAt r = now" using r by simp_all
qed

text \<open>A run of transient failures, one after the other.\<close>

fun transient_run :: "SupervisionPolicy \<Rightarrow> SupervisionRecord \<Rightarrow> Time list \<Rightarrow> SupervisionRecord res" where
  "transient_run p r [] = Inr r"
| "transient_run p r (t # ts) =
     bind_res (ApplySupervisionUpdate r \<lparr>su_Signal = SignalTransientFailure, su_ObservedAt = t, su_NewLeaseExpiresAt = 0\<rparr> p)
       (\<lambda>(s, d). transient_run p s ts)"

lemma transient_step:
  assumes "ApplySupervisionUpdate r \<lparr>su_Signal = SignalTransientFailure, su_ObservedAt = t, su_NewLeaseExpiresAt = 0\<rparr> p = Inr (s, d)"
  shows "sup_ConsecutiveFailures s = saturatingIncrement (sup_ConsecutiveFailures r)"
    "sup_Mode s = (if sup_ConsecutiveFailures s \<ge> pol_MaxConsecutiveFailures p then SupervisionQuarantined else SupervisionBackoff)"
    "\<exists>x. sup_NextActionAt s = t + sint (retryDelay x p) \<and> sup_ConsecutiveFailures x = sup_ConsecutiveFailures s"
  using assms by (auto simp: apply_defs Add_def split: if_splits)

lemma transient_run_last:
  assumes "transient_run p r ts = Inr s" "ts \<noteq> []"
  shows "unat (sup_ConsecutiveFailures s) = min (unat (sup_ConsecutiveFailures r) + length ts) (2 ^ 32 - 1)
    \<and> sup_Mode s = (if sup_ConsecutiveFailures s \<ge> pol_MaxConsecutiveFailures p then SupervisionQuarantined else SupervisionBackoff)
    \<and> (\<exists>x. sup_NextActionAt s = last ts + sint (retryDelay x p) \<and> sup_ConsecutiveFailures x = sup_ConsecutiveFailures s)"
  using assms
proof (induction ts arbitrary: r)
  case Nil
  then show ?case by simp
next
  case (Cons t ts)
  then obtain q d where
    q: "ApplySupervisionUpdate r \<lparr>su_Signal = SignalTransientFailure, su_ObservedAt = t, su_NewLeaseExpiresAt = 0\<rparr> p = Inr (q, d)"
    and s: "transient_run p q ts = Inr s" by auto
  note st = transient_step [OF q]
  show ?case
  proof (cases "ts = []")
    case True
    with s st show ?thesis by (simp add: unat_saturatingIncrement)
  next
    case False
    from Cons.IH [OF s False] st(1) False show ?thesis by (simp add: unat_saturatingIncrement)
  qed
qed

text \<open>A sample: a policy, its digest, and a record under it; a failure is accepted by a live record.\<close>

definition sample_policy :: SupervisionPolicy where
  "sample_policy = \<lparr>pol_InspectionInterval = 100, pol_LeaseRenewLeadTime = 10, pol_RetryBaseDelay = 2,
     pol_RetryMaxDelay = 20, pol_DeterministicSpread = 5, pol_MaxConsecutiveFailures = 3\<rparr>"

definition sample_policy_digest :: Digest where
  "sample_policy_digest = DigestBytes (policy_json sample_policy)"

lemma sample_policy_sel [simp]:
  "pol_InspectionInterval sample_policy = 100" "pol_LeaseRenewLeadTime sample_policy = 10"
  "pol_RetryBaseDelay sample_policy = 2" "pol_RetryMaxDelay sample_policy = 20"
  "pol_DeterministicSpread sample_policy = 5" "pol_MaxConsecutiveFailures sample_policy = 3"
  by (simp_all add: sample_policy_def)

lemma sample_policy_valid [simp]:
  "SupervisionPolicy_Validate sample_policy = None" "Digest_Validate sample_policy_digest = None"
  "validateSupervisionPolicyBinding sample_policy_digest sample_policy = None"
proof -
  show "SupervisionPolicy_Validate sample_policy = None" by (simp add: SupervisionPolicy_Validate_def)
  then show "validateSupervisionPolicyBinding sample_policy_digest sample_policy = None"
    by (simp add: binding_policy sample_policy_digest_def)
qed (simp add: sample_policy_digest_def)

lemma sample_supervision:
  "\<exists>r. NewSupervisionRecord (sample_scope (Some sample_lease)) sample_policy_digest 1000 50 sample_policy = Inr r"
  by (simp add: NewSupervisionRecord_def time_defs Add_def Let_def)

lemma transient_accepted:
  assumes "sup_ok p r" "sup_Mode r \<noteq> SupervisionFenced" "sup_UpdatedAt r \<le> t" "t < sup_IdentityLeaseExpiresAt r"
  obtains s d where "ApplySupervisionUpdate r \<lparr>su_Signal = SignalTransientFailure, su_ObservedAt = t, su_NewLeaseExpiresAt = 0\<rparr> p
      = Inr (s, d)" "sup_Mode s \<noteq> SupervisionFenced" "sup_UpdatedAt s = t"
    "sup_IdentityLeaseExpiresAt s = sup_IdentityLeaseExpiresAt r" "sup_Revision s = sup_Revision r + 1"
proof -
  let ?u = "\<lparr>su_Signal = SignalTransientFailure, su_ObservedAt = t, su_NewLeaseExpiresAt = 0\<rparr>"
  have "t \<noteq> 0" using assms(1,3) by (auto simp: sup_ok_def SupervisionRecord_Validate_iff)
  then have "\<exists>x. ApplySupervisionUpdate r ?u p = Inr x"
    using assms by (simp add: apply_defs sup_ok_def time_defs)
  then obtain s d where a: "ApplySupervisionUpdate r ?u p = Inr (s, d)" by auto
  have "sup_IdentityLeaseExpiresAt s = sup_IdentityLeaseExpiresAt r" using apply_frame(6) [OF a] by auto
  with that [OF a] transient_step(2) [OF a] apply_frame(3,4) [OF a] show ?thesis by auto
qed

section \<open>Properties\<close>



text \<open>
  Supervision is never idle for long. After any version of an unfenced record, at every time later
  than the larger of twice the inspection interval and the retry bound, the evaluation is an action:
  to inspect, to renew the lease, or to fence and stop when the lease has expired.
\<close>

theorem supervision_due:
  assumes "NewSupervisionRecord scope policyDigest expires now p = Inr r0" "0 < now"
    "sint (pol_InspectionInterval p) < 2 ^ 62" "sup_versions p r0 n r" "n + 1 < 2 ^ 64"
    "sup_Mode r \<noteq> SupervisionFenced"
    "sup_UpdatedAt r + max (2 * sint (pol_InspectionInterval p)) (sint (pol_RetryMaxDelay p)) \<le> t"
  shows "\<exists>d. EvaluateSupervision r t p = Inr d
    \<and> sd_Action d = (if sup_IdentityLeaseExpiresAt r \<le> t then SupervisionFenceAndStop
                     else if sup_IdentityLeaseExpiresAt r - sint (pol_LeaseRenewLeadTime p) \<le> t then SupervisionRenewLease
                     else SupervisionInspect)"
proof -
  have ok: "sup_ok p r"
    using NewSupervisionRecord_ok [OF assms(1-3)] sup_versions_ok [OF assms(4)] assms(3,5) by simp
  then have v: "SupervisionPolicy_Validate p = None" "sup_NextActionAt r \<le> t" "0 < sup_NextActionAt r"
    using assms(7) by (auto simp: sup_ok_def binding_policy)
  then have "sint (- pol_LeaseRenewLeadTime p) = - sint (pol_LeaseRenewLeadTime p)"
    using policy_bounds(2) [OF v(1)] by (intro sint_neg_exact) simp
  then show ?thesis
    using ok v assms(6) by (auto simp: EvaluateSupervision_def sup_ok_def time_defs Add_def supervisionDecision_def)
qed

lemma supervision_due_witness:
  "\<exists>r d. EvaluateSupervision r 250 sample_policy = Inr d \<and> sd_Action d = SupervisionInspect"
proof -
  obtain r where r: "NewSupervisionRecord (sample_scope (Some sample_lease)) sample_policy_digest 1000 50 sample_policy = Inr r"
    using sample_supervision by blast
  from NewSupervisionRecord_ok(5-7) [OF r] supervision_due [OF r _ _ sup_stay, of 250] show ?thesis by auto
qed

text \<open>
  C33: The retry delay is the base delay doubled for each failure after the first, capped at the maximum,
  plus the instance's spread, capped again. The code's 64-bit loop computes it without overflow for
  every valid policy, so it always lies between the base and the maximum.
\<close>

theorem retry_delay_exact:
  assumes "SupervisionPolicy_Validate p = None"
  shows "sint (retryDelay r p) =
      min (sint (pol_RetryMaxDelay p))
          (min (sint (pol_RetryMaxDelay p)) (sint (pol_RetryBaseDelay p) * 2 ^ (unat (sup_ConsecutiveFailures r) - 1))
            + sint (deterministicSpread r (pol_DeterministicSpread p)))
    \<and> sint (pol_RetryBaseDelay p) \<le> sint (retryDelay r p) \<and> sint (retryDelay r p) \<le> sint (pol_RetryMaxDelay p)"
  using retryDelay_closed [OF assms] retryDelay_bounds [OF assms] by blast

lemma retry_delay_exact_witness:
  "\<forall>r :: SupervisionRecord. 2 \<le> sint (retryDelay r sample_policy) \<and> sint (retryDelay r sample_policy) \<le> 20"
  using conjunct2 [OF retry_delay_exact [OF sample_policy_valid(1)]] by simp

text \<open>
  The failure budget is exact: after a run of transient failures of a healthy instance the counter is
  the length of the run, the record is quarantined precisely when the run has reached the policy's
  maximum, and the next inspection comes within the retry bounds of the last failure.
\<close>

theorem failure_budget_exact:
  assumes "sup_Mode r = SupervisionNormal" "SupervisionRecord_Validate r = None" "SupervisionPolicy_Validate p = None"
    "ts \<noteq> []" "length ts < 2 ^ 32" "transient_run p r ts = Inr s"
  shows "unat (sup_ConsecutiveFailures s) = length ts
    \<and> sup_Mode s = (if length ts < unat (pol_MaxConsecutiveFailures p) then SupervisionBackoff else SupervisionQuarantined)
    \<and> last ts + sint (pol_RetryBaseDelay p) \<le> sup_NextActionAt s
    \<and> sup_NextActionAt s \<le> last ts + sint (pol_RetryMaxDelay p)"
proof -
  have "sup_ConsecutiveFailures r = 0" using assms(1,2) by (simp add: SupervisionRecord_Validate_def)
  then have n: "unat (sup_ConsecutiveFailures s) = length ts"
    using transient_run_last [OF assms(6,4)] assms(5) by simp
  obtain x where "sup_NextActionAt s = last ts + sint (retryDelay x p)" using transient_run_last [OF assms(6,4)] by blast
  then show ?thesis
    using n transient_run_last [OF assms(6,4)] retryDelay_bounds [OF assms(3), of x] by (auto simp: word_le_nat_alt)
qed

lemma failure_budget_exact_witness:
  "\<exists>r s. transient_run sample_policy r [60, 61, 65] = Inr s \<and> sup_Mode r = SupervisionNormal
     \<and> sup_Mode s = SupervisionQuarantined \<and> sup_NextActionAt s \<le> 85"
proof -
  obtain r where r: "NewSupervisionRecord (sample_scope (Some sample_lease)) sample_policy_digest 1000 50 sample_policy = Inr r"
    using sample_supervision by blast
  note n = NewSupervisionRecord_ok [OF r]
  have ok: "sup_ok sample_policy r" using n(1) by simp
  from n(2,5-7) obtain a d1 where a: "ApplySupervisionUpdate r \<lparr>su_Signal = SignalTransientFailure, su_ObservedAt = 60,
      su_NewLeaseExpiresAt = 0\<rparr> sample_policy = Inr (a, d1)" "sup_Mode a \<noteq> SupervisionFenced" "sup_UpdatedAt a = 60"
    "sup_IdentityLeaseExpiresAt a = 1000" "sup_Revision a = 2"
    by (auto intro: transient_accepted [OF ok, of 60])
  have oka: "sup_ok sample_policy a" using sup_ok_step [OF ok a(1)] a(5) by simp
  from a(2-5) obtain b d2 where b: "ApplySupervisionUpdate a \<lparr>su_Signal = SignalTransientFailure, su_ObservedAt = 61,
      su_NewLeaseExpiresAt = 0\<rparr> sample_policy = Inr (b, d2)" "sup_Mode b \<noteq> SupervisionFenced" "sup_UpdatedAt b = 61"
    "sup_IdentityLeaseExpiresAt b = 1000" "sup_Revision b = 3"
    by (auto intro: transient_accepted [OF oka, of 61])
  have okb: "sup_ok sample_policy b" using sup_ok_step [OF oka b(1)] b(5) by simp
  from b(2-5) obtain c d3 where c: "ApplySupervisionUpdate b \<lparr>su_Signal = SignalTransientFailure, su_ObservedAt = 65,
      su_NewLeaseExpiresAt = 0\<rparr> sample_policy = Inr (c, d3)"
    by (auto intro: transient_accepted [OF okb, of 65])
  have run: "transient_run sample_policy r [60, 61, 65] = Inr c" using a(1) b(1) c by simp
  have "sup_Mode r = SupervisionNormal" using n(5) by simp
  moreover have "SupervisionRecord_Validate r = None" using ok by (simp add: sup_ok_def)
  ultimately have "sup_Mode c = SupervisionQuarantined \<and> sup_NextActionAt c \<le> 85"
    using failure_budget_exact [OF _ _ _ _ _ run] by simp
  with run \<open>sup_Mode r = SupervisionNormal\<close> show ?thesis by blast
qed

text \<open>
  Quarantine does not hold: a record quarantined because its lease revision is stale, whose
  inspection is not automatic, is moved to plain backoff by one transient failure, and then the due
  inspection counts as automatic. No authoritative inspection has happened in between.
\<close>

theorem quarantine_left_by_transient_failure:
  "\<exists>r0 r d0 s d e f.
     NewSupervisionRecord (sample_scope (Some sample_lease)) sample_policy_digest 1000 50 sample_policy = Inr r0
   \<and> ApplySupervisionUpdate r0 \<lparr>su_Signal = SignalLeaseRevisionStale, su_ObservedAt = 60, su_NewLeaseExpiresAt = 0\<rparr> sample_policy = Inr (r, d0)
   \<and> sup_Mode r = SupervisionQuarantined
   \<and> EvaluateSupervision r 90 sample_policy = Inr d \<and> sd_Action d = SupervisionInspect \<and> \<not> sd_AutomaticSafe d
   \<and> ApplySupervisionUpdate r \<lparr>su_Signal = SignalTransientFailure, su_ObservedAt = 61, su_NewLeaseExpiresAt = 0\<rparr> sample_policy = Inr (s, e)
   \<and> sup_Mode s = SupervisionBackoff
   \<and> EvaluateSupervision s 90 sample_policy = Inr f \<and> sd_Action f = SupervisionInspect \<and> sd_AutomaticSafe f"
proof -
  obtain r0 where r0: "NewSupervisionRecord (sample_scope (Some sample_lease)) sample_policy_digest 1000 50 sample_policy = Inr r0"
    using sample_supervision by blast
  note n = NewSupervisionRecord_ok [OF r0, simplified]
  have nf: "sup_ConsecutiveFailures r0 = 0" using n(1,5) by (simp add: sup_ok_def SupervisionRecord_Validate_iff mode_ok_def)
  let ?u = "\<lparr>su_Signal = SignalLeaseRevisionStale, su_ObservedAt = 60, su_NewLeaseExpiresAt = 0\<rparr>"
  obtain r d0 where r: "ApplySupervisionUpdate r0 ?u sample_policy = Inr (r, d0)" "sup_Mode r = SupervisionQuarantined"
    "sup_NextActionAt r = 60" "sup_UpdatedAt r = 60" "sup_IdentityLeaseExpiresAt r = 1000" "sup_ConsecutiveFailures r = 0"
    "sup_Revision r = 2"
    using n nf by (auto simp: apply_defs sup_ok_def time_defs)
  have okr: "sup_ok sample_policy r" using sup_ok_step [OF n(1) r(1)] r(7) by simp
  have er: "EvaluateSupervision r 90 sample_policy
      = Inr (supervisionDecision SupervisionInspect False ''quarantined state requires authoritative inspection'')"
    using okr r by (simp add: EvaluateSupervision_def sup_ok_def time_defs Add_def)
  from r(2,4,5,7) obtain s e where s: "ApplySupervisionUpdate r \<lparr>su_Signal = SignalTransientFailure, su_ObservedAt = 61,
      su_NewLeaseExpiresAt = 0\<rparr> sample_policy = Inr (s, e)" "sup_IdentityLeaseExpiresAt s = 1000" "sup_Revision s = 3"
    by (auto intro: transient_accepted [OF okr, of 61])
  have oks: "sup_ok sample_policy s" using sup_ok_step [OF okr s(1)] s(3) by simp
  obtain x where x: "sup_NextActionAt s = 61 + sint (retryDelay x sample_policy)" using transient_step(3) [OF s(1)] by blast
  have m: "sup_Mode s = SupervisionBackoff" "sup_NextActionAt s \<le> 81"
    using transient_step(1,2) [OF s(1)] r(6) x retryDelay_bounds(2) [OF sample_policy_valid(1), of x]
    by (simp_all add: saturatingIncrement_def word_le_nat_alt)
  have "EvaluateSupervision s 90 sample_policy
      = Inr (supervisionDecision SupervisionInspect True ''scheduled health inspection is due'')"
    using oks m s(2) by (simp add: EvaluateSupervision_def sup_ok_def time_defs Add_def)
  with r0 r(1,2) er s(1) m(1) show ?thesis by (fastforce simp: supervisionDecision_def)
qed

end
