(* ===== verification/Assembly.thy ===== *)
theory Assembly
  imports Digest "HOL-Library.Multiset" "HOL-Library.List_Lexorder" "HOL-Library.Char_ord"
begin

text \<open>
  \<open>runtime/ports/assembly.go\<close> and the component descriptors of \<open>runtime/ports/common.go\<close>: the resolved
  plan of an agent, the registry of its components, and the resolution that binds them.

  Go iterates over a map in an order of its own choosing. Where the code ranges over a map, the
  definitions take the order as an argument: \<open>order n keys\<close> is the order chosen at the n-th such loop
  for these keys, and the theorems hold for every choice that is a permutation of the keys. An
  adapter's \<open>Describe\<close> method is not part of the repository's core; it is the argument \<open>describe\<close>.
\<close>

section \<open>Descriptors\<close>

definition ContractVersion :: string where
  "ContractVersion = ''praxis.runtime.ports/v1alpha1''"

datatype ComponentKind =
    ComponentHarness | ComponentModelInvoker | ComponentContextEngine | ComponentToolMCP | ComponentState
  | ComponentGovernance | ComponentSandbox | ComponentBudget | ComponentEvidence | ComponentProfileSystem
  | ComponentAgentAssembler | ComponentToolEngine | ComponentMCPGateway | ComponentMemoryEngine
  | ComponentKnowledgeEngine | ComponentAssetManager | ComponentOrganizationEngine | ComponentReviewEngine
  | ComponentManagementEngine | ComponentCheckpoint | ComponentTimeline | ComponentKindOther string

fun component_kind_string :: "ComponentKind \<Rightarrow> string" where
  "component_kind_string ComponentHarness = ''harness''"
| "component_kind_string ComponentModelInvoker = ''model_invoker''"
| "component_kind_string ComponentContextEngine = ''context_engine''"
| "component_kind_string ComponentToolMCP = ''tool_mcp''"
| "component_kind_string ComponentState = ''state''"
| "component_kind_string ComponentGovernance = ''governance''"
| "component_kind_string ComponentSandbox = ''sandbox''"
| "component_kind_string ComponentBudget = ''budget_authority''"
| "component_kind_string ComponentEvidence = ''evidence''"
| "component_kind_string ComponentProfileSystem = ''profile_system''"
| "component_kind_string ComponentAgentAssembler = ''agent_assembler''"
| "component_kind_string ComponentToolEngine = ''tool_engine''"
| "component_kind_string ComponentMCPGateway = ''mcp_gateway''"
| "component_kind_string ComponentMemoryEngine = ''memory_engine''"
| "component_kind_string ComponentKnowledgeEngine = ''knowledge_engine''"
| "component_kind_string ComponentAssetManager = ''asset_manager''"
| "component_kind_string ComponentOrganizationEngine = ''organization_engine''"
| "component_kind_string ComponentReviewEngine = ''review_engine''"
| "component_kind_string ComponentManagementEngine = ''management_engine''"
| "component_kind_string ComponentCheckpoint = ''checkpoint''"
| "component_kind_string ComponentTimeline = ''timeline''"
| "component_kind_string (ComponentKindOther s) = s"

datatype CapabilityState =
    CapabilityDeclared | CapabilityProbed | CapabilityCertified | CapabilityBound | CapabilityRevoked
  | CapabilityStateOther string

datatype ConformanceLevel =
    ConformanceFullyControlled | ConformanceRestrictedControlled | ConformanceContainedObserveOnly
  | ConformanceRejected | ConformanceOther string

record Capability =
  cap_Name :: string
  cap_State :: CapabilityState
  cap_EvidenceDigest :: Digest
  cap_EvidenceExpiry :: Time

record ComponentDescriptor =
  desc_ID :: string
  desc_Kind :: ComponentKind
  desc_Version :: string
  desc_ArtifactDigest :: Digest
  desc_ContractVersion :: string
  desc_Conformance :: ConformanceLevel
  desc_Capabilities :: "Capability list"

fun validComponentKind :: "ComponentKind \<Rightarrow> bool" where
  "validComponentKind (ComponentKindOther s) = False"
| "validComponentKind _ = True"

fun validCapabilityState :: "CapabilityState \<Rightarrow> bool" where
  "validCapabilityState (CapabilityStateOther s) = False"
| "validCapabilityState _ = True"

text \<open>The loop over the capabilities, with the names seen so far.\<close>

fun capabilities_error :: "string set \<Rightarrow> Capability list \<Rightarrow> go_error option" where
  "capabilities_error seen [] = None"
| "capabilities_error seen (c # cs) =
     (case first_err
        [fail_if (blank (cap_Name c) \<or> \<not> validCapabilityState (cap_State c)) ErrorInvalidArgument ReasonInvalidReference,
         fail_if (cap_Name c \<in> seen) ErrorConflict ReasonInvalidReference,
         (if cap_State c \<noteq> CapabilityDeclared \<and> cap_State c \<noteq> CapabilityRevoked
          then first_err [Digest_Validate (cap_EvidenceDigest c),
                          fail_if (IsZero (cap_EvidenceExpiry c)) ErrorPreconditionFailed ReasonEvidenceUnavailable]
          else None)] of
        Some e \<Rightarrow> Some e
      | None \<Rightarrow> capabilities_error (insert (cap_Name c) seen) cs)"

definition ComponentDescriptor_Validate :: "ComponentDescriptor \<Rightarrow> go_error option" where [validate_defs]:
  "ComponentDescriptor_Validate d =
     first_err
      [fail_if (blank (desc_ID d) \<or> blank (desc_Version d) \<or> desc_ContractVersion d \<noteq> ContractVersion
          \<or> \<not> validComponentKind (desc_Kind d)) ErrorInvalidArgument ReasonInvalidReference,
       Digest_Validate (desc_ArtifactDigest d),
       capabilities_error {} (desc_Capabilities d)]"

section \<open>Plans\<close>

record ComponentRequirement =
  req_ID :: string
  req_Kind :: ComponentKind
  req_Version :: string
  req_ArtifactDigest :: Digest
  req_Required :: bool
  req_AllowResidual :: bool
  req_Capabilities :: "string list"
  req_DependsOn :: "string list"

text \<open>Both loops of the validation reject an empty name and a repeated one.\<close>

fun names_error :: "string set \<Rightarrow> string list \<Rightarrow> go_error option" where
  "names_error seen [] = None"
| "names_error seen (n # ns) =
     (if blank n then Some (DomainError ErrorInvalidArgument ReasonPlanInvalid)
      else if n \<in> seen then Some (DomainError ErrorConflict ReasonPlanInvalid)
      else names_error (insert n seen) ns)"

definition ComponentRequirement_Validate :: "ComponentRequirement \<Rightarrow> go_error option" where [validate_defs]:
  "ComponentRequirement_Validate r =
     first_err
      [fail_if (blank (req_ID r) \<or> \<not> validComponentKind (req_Kind r) \<or> blank (req_Version r))
         ErrorInvalidArgument ReasonPlanInvalid,
       Digest_Validate (req_ArtifactDigest r),
       names_error {} (req_Capabilities r),
       names_error {} (req_DependsOn r)]"

record ResolvedAgentPlan =
  plan_ID :: string
  plan_Digest :: Digest
  plan_ProfileDigest :: Digest
  plan_ContextDigest :: Digest
  plan_AuthorityDigest :: Digest
  plan_Requirements :: "ComponentRequirement list"

section \<open>The cycle check\<close>

type_synonym graph = "string \<Rightarrow> string list"

datatype mark = Unseen | Visiting | Done

text \<open>
  The recursive \<open>visit\<close> with the marks threaded through; \<open>visit_all\<close> is its loop over the
  dependencies, and the outer loop over the nodes. The number bounds the depth of the recursion.
\<close>

fun visit :: "nat \<Rightarrow> graph \<Rightarrow> (string \<Rightarrow> mark) \<Rightarrow> string \<Rightarrow> (bool \<times> (string \<Rightarrow> mark)) option"
  and visit_all :: "nat \<Rightarrow> graph \<Rightarrow> (string \<Rightarrow> mark) \<Rightarrow> string list \<Rightarrow> (bool \<times> (string \<Rightarrow> mark)) option" where
  "visit 0 g st node = None"
| "visit (Suc n) g st node =
     (case st node of
        Visiting \<Rightarrow> Some (True, st)
      | Done \<Rightarrow> Some (False, st)
      | Unseen \<Rightarrow>
          (case visit_all n g (st(node := Visiting)) (g node) of
             None \<Rightarrow> None
           | Some (True, st') \<Rightarrow> Some (True, st')
           | Some (False, st') \<Rightarrow> Some (False, st'(node := Done))))"
| "visit_all n g st [] = Some (False, st)"
| "visit_all n g st (d # ds) =
     (case visit n g st d of
        None \<Rightarrow> None
      | Some (True, st') \<Rightarrow> Some (True, st')
      | Some (False, st') \<Rightarrow> visit_all n g st' ds)"

definition hasDependencyCycle :: "string list \<Rightarrow> graph \<Rightarrow> bool" where
  "hasDependencyCycle order g =
     (case visit_all (length order + 2) g (\<lambda>_. Unseen) order of Some (b, _) \<Rightarrow> b | None \<Rightarrow> False)"

section \<open>Plan validation\<close>

fun requirements_error :: "string set \<Rightarrow> ComponentRequirement list \<Rightarrow> go_error option" where
  "requirements_error ids [] = None"
| "requirements_error ids (r # rs) =
     (case ComponentRequirement_Validate r of
        Some e \<Rightarrow> Some e
      | None \<Rightarrow>
          if req_ID r \<in> ids then Some (DomainError ErrorConflict ReasonPlanInvalid)
          else requirements_error (insert (req_ID r) ids) rs)"

fun refs_error :: "string set \<Rightarrow> string \<Rightarrow> string list \<Rightarrow> go_error option" where
  "refs_error ids i [] = None"
| "refs_error ids i (ref # refs) =
     (if ref = i then Some (DomainError ErrorPreconditionFailed ReasonDependencyCycle)
      else if ref \<notin> ids then Some (DomainError ErrorPreconditionFailed ReasonComponentMissing)
      else refs_error ids i refs)"

definition plan_ids :: "ResolvedAgentPlan \<Rightarrow> string list" where
  "plan_ids p = map req_ID (plan_Requirements p)"

text \<open>What is stored for an identifier: the requirement, and its dependencies, none where there is no entry.\<close>

definition requirement_of :: "ResolvedAgentPlan \<Rightarrow> string \<Rightarrow> ComponentRequirement option" where
  "requirement_of p = map_of (map (\<lambda>r. (req_ID r, r)) (plan_Requirements p))"

definition plan_graph :: "ResolvedAgentPlan \<Rightarrow> graph" where
  "plan_graph p i = (case requirement_of p i of None \<Rightarrow> [] | Some r \<Rightarrow> req_DependsOn r)"

type_synonym map_order = "nat \<Rightarrow> string list \<Rightarrow> string list"

definition ResolvedAgentPlan_Validate :: "map_order \<Rightarrow> ResolvedAgentPlan \<Rightarrow> go_error option" where [validate_defs]:
  "ResolvedAgentPlan_Validate order p =
     first_err
      [fail_if (blank (plan_ID p)) ErrorInvalidArgument ReasonPlanInvalid,
       first_err (map Digest_Validate [plan_Digest p, plan_ProfileDigest p, plan_ContextDigest p, plan_AuthorityDigest p]),
       requirements_error {} (plan_Requirements p),
       first_err (map (\<lambda>i. refs_error (set (plan_ids p)) i (plan_graph p i)) (order 0 (plan_ids p))),
       fail_if (hasDependencyCycle (order 1 (plan_ids p)) (plan_graph p)) ErrorPreconditionFailed ReasonDependencyCycle]"

section \<open>Registry and resolution\<close>

record BindingResidual =
  res_ComponentID :: string
  res_Reason :: string

record BindingSet =
  bind_Descriptors :: "ComponentDescriptor list"
  bind_Residuals :: "BindingResidual list"

text \<open>A registered component is its descriptor and its adapter, of a type of its own.\<close>

type_synonym 'a registry = "string \<Rightarrow> (ComponentDescriptor \<times> 'a) option"

definition Register ::
  "('a \<Rightarrow> go_context \<Rightarrow> ComponentDescriptor res) \<Rightarrow> 'a registry \<Rightarrow> go_context \<Rightarrow> 'a option \<Rightarrow> 'a registry \<times> unit res" where
  "Register describe reg ctx adapter =
     (case adapter of
        None \<Rightarrow> (reg, Inl (DomainError ErrorInvalidArgument ReasonComponentMissing))
      | Some a \<Rightarrow>
          (case describe a ctx of
             Inl e \<Rightarrow> (reg, Inl e)
           | Inr descriptor \<Rightarrow>
               guarded
                (first_err
                  [ComponentDescriptor_Validate descriptor,
                   fail_if (reg (desc_ID descriptor) \<noteq> None) ErrorConflict ReasonAlreadyExists]) reg
                (reg(desc_ID descriptor \<mapsto> (descriptor, a)), Inr ())))"

definition available :: "ComponentDescriptor \<Rightarrow> string \<Rightarrow> Capability option" where
  "available d = map_of (rev (map (\<lambda>c. (cap_Name c, c)) (desc_Capabilities d)))"

definition validateCapabilities :: "ComponentDescriptor \<Rightarrow> ComponentRequirement \<Rightarrow> Time \<Rightarrow> go_error option" where
  "validateCapabilities d r now =
     first_err
      (map (\<lambda>name.
         (case available d name of
            None \<Rightarrow> Some (DomainError ErrorCapabilityUnavailable ReasonComponentMissing)
          | Some c \<Rightarrow>
              first_err
               [fail_if (cap_State c \<noteq> CapabilityBound) ErrorCapabilityUnavailable ReasonComponentMissing,
                fail_if (\<not> Before now (cap_EvidenceExpiry c)) ErrorCapabilityUnavailable ReasonCapabilityExpired]))
        (req_Capabilities r))"

text \<open>The map of bound components, as the list of its entries in the order they were made.\<close>

type_synonym bindings = "(string \<times> ComponentDescriptor) list"

fun bind_loop ::
  "('a \<Rightarrow> go_context \<Rightarrow> ComponentDescriptor res) \<Rightarrow> 'a registry \<Rightarrow> go_context \<Rightarrow> Time \<Rightarrow> ComponentRequirement list
     \<Rightarrow> bindings \<Rightarrow> BindingResidual list \<Rightarrow> (bindings \<times> BindingResidual list) res" where
  "bind_loop describe reg ctx now [] bound residuals = Inr (bound, residuals)"
| "bind_loop describe reg ctx now (r # rs) bound residuals =
     (case reg (req_ID r) of
        None \<Rightarrow>
          if req_Required r \<or> \<not> req_AllowResidual r
          then Inl (DomainError ErrorCapabilityUnavailable ReasonComponentMissing)
          else bind_loop describe reg ctx now rs bound
                 (residuals @ [\<lparr>res_ComponentID = req_ID r, res_Reason = ''component_missing''\<rparr>])
      | Some (_, adapter) \<Rightarrow>
          (case describe adapter ctx of
             Inl e \<Rightarrow> Inl e
           | Inr d \<Rightarrow>
               (case first_err
                  [ComponentDescriptor_Validate d,
                   fail_if (desc_ID d \<noteq> req_ID r \<or> desc_Kind d \<noteq> req_Kind r \<or> desc_Version d \<noteq> req_Version r
                      \<or> desc_ArtifactDigest d \<noteq> req_ArtifactDigest r) ErrorPreconditionFailed ReasonComponentMismatch] of
                  Some e \<Rightarrow> Inl e
                | None \<Rightarrow>
                    (case validateCapabilities d r now of
                       Some e \<Rightarrow>
                         if req_Required r \<or> \<not> req_AllowResidual r then Inl e
                         else bind_loop describe reg ctx now rs bound
                                (residuals @ [\<lparr>res_ComponentID = req_ID r, res_Reason = ''capability_unavailable''\<rparr>])
                     | None \<Rightarrow> bind_loop describe reg ctx now rs (bound @ [(req_ID r, d)]) residuals))))"

definition is_bound :: "bindings \<Rightarrow> string \<Rightarrow> bool" where
  "is_bound bound i \<longleftrightarrow> i \<in> fst ` set bound"

text \<open>One pass over the bound components; a component whose dependency is not bound is pruned.\<close>

fun prune_pass ::
  "(string \<Rightarrow> ComponentRequirement option) \<Rightarrow> string list \<Rightarrow> bindings \<Rightarrow> BindingResidual list \<Rightarrow> bool
     \<Rightarrow> (bindings \<times> BindingResidual list \<times> bool) res" where
  "prune_pass reqs [] bound residuals changed = Inr (bound, residuals, changed)"
| "prune_pass reqs (i # is) bound residuals changed =
     (case reqs i of
        None \<Rightarrow> prune_pass reqs is bound residuals changed
      | Some r \<Rightarrow>
          if list_all (is_bound bound) (req_DependsOn r) then prune_pass reqs is bound residuals changed
          else if req_Required r \<or> \<not> req_AllowResidual r
          then Inl (DomainError ErrorCapabilityUnavailable ReasonComponentMissing)
          else prune_pass reqs is (filter (\<lambda>b. fst b \<noteq> i) bound)
                 (residuals @ [\<lparr>res_ComponentID = i, res_Reason = ''dependency_unavailable''\<rparr>]) True)"

fun prune_loop ::
  "nat \<Rightarrow> map_order \<Rightarrow> nat \<Rightarrow> (string \<Rightarrow> ComponentRequirement option) \<Rightarrow> bindings \<Rightarrow> BindingResidual list
     \<Rightarrow> (bindings \<times> BindingResidual list) res option" where
  "prune_loop 0 order k reqs bound residuals = None"
| "prune_loop (Suc n) order k reqs bound residuals =
     (case prune_pass reqs (order k (map fst bound)) bound residuals False of
        Inl e \<Rightarrow> Some (Inl e)
      | Inr (bound', residuals', changed) \<Rightarrow>
          if changed then prune_loop n order (Suc k) reqs bound' residuals' else Some (Inr (bound', residuals')))"

definition Resolve ::
  "map_order \<Rightarrow> ('a \<Rightarrow> go_context \<Rightarrow> ComponentDescriptor res) \<Rightarrow> 'a registry \<Rightarrow> go_context \<Rightarrow> ResolvedAgentPlan \<Rightarrow> Time
     \<Rightarrow> BindingSet res option" where
  "Resolve order describe reg ctx p now =
     (case first_err [ResolvedAgentPlan_Validate order p, fail_if (IsZero now) ErrorInvalidArgument ReasonInvalidReference] of
        Some e \<Rightarrow> Some (Inl e)
      | None \<Rightarrow>
          (case bind_loop describe reg ctx now (plan_Requirements p) [] [] of
             Inl e \<Rightarrow> Some (Inl e)
           | Inr (bound, residuals) \<Rightarrow>
               (case prune_loop (Suc (length bound)) order 2 (requirement_of p) bound residuals of
                  None \<Rightarrow> None
                | Some (Inl e) \<Rightarrow> Some (Inl e)
                | Some (Inr (bound', residuals')) \<Rightarrow>
                    Some (Inr \<lparr>bind_Descriptors = sort_key desc_ID (map snd bound'),
                               bind_Residuals = sort_key res_ComponentID residuals'\<rparr>))))"

section \<open>The cycle check is correct\<close>

definition edges :: "graph \<Rightarrow> (string \<times> string) set" where
  "edges g = {(x, y). y \<in> set (g x)}"

definition finished_ok :: "graph \<Rightarrow> (string \<Rightarrow> mark) \<Rightarrow> bool" where
  "finished_ok g st \<longleftrightarrow> (\<forall>x. st x = Done \<longrightarrow> (\<forall>y \<in> set (g x). st y = Done) \<and> (x, x) \<notin> (edges g)\<^sup>+)"

definition mark_grows :: "(string \<Rightarrow> mark) \<Rightarrow> (string \<Rightarrow> mark) \<Rightarrow> bool" where
  "mark_grows st st' \<longleftrightarrow> (\<forall>u. (st' u = Visiting \<longleftrightarrow> st u = Visiting) \<and> (st u = Done \<longrightarrow> st' u = Done))"

lemma finished_closed:
  assumes "(x, y) \<in> (edges g)\<^sup>+" "finished_ok g st" "st x = Done"
  shows "st y = Done"
  using assms by (induction rule: trancl_induct) (auto simp: finished_ok_def edges_def)

lemma finish_node:
  assumes "finished_ok g st" "st node = Visiting" "\<forall>d \<in> set (g node). st d = Done"
  shows "finished_ok g (st(node := Done))"
proof -
  have "(node, node) \<notin> (edges g)\<^sup>+"
  proof
    assume "(node, node) \<in> (edges g)\<^sup>+"
    then obtain d where d: "d \<in> set (g node)" "d = node \<or> (d, node) \<in> (edges g)\<^sup>+"
      by (auto simp: edges_def elim: converse_tranclE)
    then have "st node = Done" using assms(3) finished_closed [OF _ assms(1)] by metis
    with assms(2) show False by simp
  qed
  then show ?thesis using assms by (auto simp: finished_ok_def)
qed

lemma visit_correct:
  "visit n g st node = Some (b, st') \<Longrightarrow> finished_ok g st \<Longrightarrow> (\<forall>u. st u = Visiting \<longrightarrow> (u, node) \<in> (edges g)\<^sup>+) \<Longrightarrow>
     (b \<longrightarrow> (\<exists>x. (x, x) \<in> (edges g)\<^sup>+)) \<and> (\<not> b \<longrightarrow> finished_ok g st' \<and> st' node = Done \<and> mark_grows st st')"
  "visit_all n g st ds = Some (b, st') \<Longrightarrow> finished_ok g st \<Longrightarrow>
     (\<forall>u. st u = Visiting \<longrightarrow> (\<forall>d \<in> set ds. (u, d) \<in> (edges g)\<^sup>+)) \<Longrightarrow>
     (b \<longrightarrow> (\<exists>x. (x, x) \<in> (edges g)\<^sup>+)) \<and> (\<not> b \<longrightarrow> finished_ok g st' \<and> (\<forall>d \<in> set ds. st' d = Done) \<and> mark_grows st st')"
proof (induction n g st node and n g st ds arbitrary: b st' and b st' rule: visit_visit_all.induct)
  case (1 g st node)
  then show ?case by simp
next
  case (2 n g st node)
  show ?case
  proof (cases "st node")
    case Unseen
    let ?st1 = "st(node := Visiting)"
    from 2(2) Unseen obtain c st2 where v: "visit_all n g ?st1 (g node) = Some (c, st2)" "b = c"
      "st' = (if c then st2 else st2(node := Done))"
      by (auto split: option.splits bool.splits)
    have "finished_ok g ?st1" using 2(3) Unseen by (auto simp: finished_ok_def)
    moreover have "\<forall>u. ?st1 u = Visiting \<longrightarrow> (\<forall>d \<in> set (g node). (u, d) \<in> (edges g)\<^sup>+)"
    proof (intro allI impI ballI)
      fix u d assume u: "?st1 u = Visiting" and d: "d \<in> set (g node)"
      have e: "(node, d) \<in> edges g" using d by (simp add: edges_def)
      show "(u, d) \<in> (edges g)\<^sup>+"
      proof (cases "u = node")
        case True
        with e show ?thesis by blast
      next
        case False
        with u 2(4) have "(u, node) \<in> (edges g)\<^sup>+" by simp
        with e show ?thesis by (rule trancl_into_trancl [rotated])
      qed
    qed
    ultimately have r: "(c \<longrightarrow> (\<exists>x. (x, x) \<in> (edges g)\<^sup>+))
        \<and> (\<not> c \<longrightarrow> finished_ok g st2 \<and> (\<forall>d \<in> set (g node). st2 d = Done) \<and> mark_grows ?st1 st2)"
      using 2(1) [OF Unseen v(1)] by blast
    have "mark_grows st (st2(node := Done))" if "mark_grows ?st1 st2"
      using that Unseen by (auto simp: mark_grows_def split: if_splits)
    moreover have "st2 node = Visiting" if "mark_grows ?st1 st2" using that by (auto simp: mark_grows_def)
    ultimately show ?thesis
      using r v finish_node [of g st2 node] by (cases c) (simp_all del: fun_upd_apply, simp)
  next
    case Visiting
    with 2 show ?thesis by auto
  next
    case Done
    with 2 show ?thesis by (auto simp: mark_grows_def)
  qed
next
  case (3 n g st)
  then show ?case by (simp add: mark_grows_def)
next
  case (4 n g st d ds)
  then obtain c st1 where c: "visit n g st d = Some (c, st1)"
    by (auto split: option.splits)
  have r: "(c \<longrightarrow> (\<exists>x. (x, x) \<in> (edges g)\<^sup>+)) \<and> (\<not> c \<longrightarrow> finished_ok g st1 \<and> st1 d = Done \<and> mark_grows st st1)"
    using 4(1) [OF c 4(4)] 4(5) by simp
  show ?case
  proof (cases c)
    case True
    with 4(3) c r show ?thesis by simp
  next
    case False
    with 4(3) c have v: "visit_all n g st1 ds = Some (b, st')" by simp
    have "\<forall>u. st1 u = Visiting \<longrightarrow> (\<forall>d \<in> set ds. (u, d) \<in> (edges g)\<^sup>+)"
      using r False 4(5) by (auto simp: mark_grows_def)
    from False have "c = False" by simp
    from 4(2) [OF c refl this v _ \<open>\<forall>u. st1 u = Visiting \<longrightarrow> _\<close>] r False show ?thesis
      by (auto simp: mark_grows_def)
  qed
qed

lemma visit_returns:
  "\<forall>x. g x \<noteq> [] \<longrightarrow> x \<in> set ks \<Longrightarrow> card {x \<in> set ks. st x = Unseen} < n \<Longrightarrow>
     \<exists>b st'. visit n g st node = Some (b, st') \<and> (\<forall>x. st' x = Unseen \<longrightarrow> st x = Unseen)"
  "\<forall>x. g x \<noteq> [] \<longrightarrow> x \<in> set ks \<Longrightarrow> card {x \<in> set ks. st x = Unseen} < n \<or> ds = [] \<Longrightarrow>
     \<exists>b st'. visit_all n g st ds = Some (b, st') \<and> (\<forall>x. st' x = Unseen \<longrightarrow> st x = Unseen)"
proof (induction n g st node and n g st ds rule: visit_visit_all.induct)
  case (1 g st node)
  then show ?case by simp
next
  case (2 n g st node)
  show ?case
  proof (cases "st node")
    case Unseen
    let ?st1 = "st(node := Visiting)"
    have "card {x \<in> set ks. ?st1 x = Unseen} < n \<or> g node = []"
    proof (cases "node \<in> set ks")
      case True
      have "{x \<in> set ks. ?st1 x = Unseen} = {x \<in> set ks. st x = Unseen} - {node}" by auto
      with True Unseen have "card {x \<in> set ks. ?st1 x = Unseen} < card {x \<in> set ks. st x = Unseen}"
        by (metis (mono_tags, lifting) List.finite_set card_Diff1_less finite_subset mem_Collect_eq subsetI)
      with 2(3) show ?thesis by simp
    next
      case False
      with 2(2) show ?thesis by blast
    qed
    from 2(1) [OF Unseen 2(2) this] obtain c st2 where "visit_all n g ?st1 (g node) = Some (c, st2)"
      "\<forall>x. st2 x = Unseen \<longrightarrow> ?st1 x = Unseen" by blast
    then show ?thesis using Unseen by (cases c) (auto split: if_splits)
  qed auto
next
  case (3 n g st)
  then show ?case by auto
next
  case (4 n g st d ds)
  then have "card {x \<in> set ks. st x = Unseen} < n" by simp
  from 4(1) [OF 4(3) this] obtain c st1 where c: "visit n g st d = Some (c, st1)" "\<forall>x. st1 x = Unseen \<longrightarrow> st x = Unseen"
    by blast
  show ?case
  proof (cases c)
    case True
    with c show ?thesis by auto
  next
    case False
    have "card {x \<in> set ks. st1 x = Unseen} \<le> card {x \<in> set ks. st x = Unseen}"
      using c(2) by (intro card_mono) auto
    with \<open>card {x \<in> set ks. st x = Unseen} < n\<close> have "card {x \<in> set ks. st1 x = Unseen} < n \<or> ds = []" by simp
    note r = this
    from False have cf: "c = False" by simp
    from 4(2) [OF c(1) refl cf 4(3) r] obtain b st2 where "visit_all n g st1 ds = Some (b, st2)"
      "\<forall>x. st2 x = Unseen \<longrightarrow> st1 x = Unseen" by blast
    with c cf show ?thesis by simp
  qed
qed

lemma hasDependencyCycle_iff:
  assumes "\<forall>x. g x \<noteq> [] \<longrightarrow> x \<in> set ks"
  shows "hasDependencyCycle ks g \<longleftrightarrow> \<not> acyclic (edges g)"
proof -
  have "card {x \<in> set ks. Unseen = Unseen} \<le> length ks" by (simp add: card_length)
  then have "card {x \<in> set ks. (\<lambda>_. Unseen) x = Unseen} < length ks + 2 \<or> ks = []" by simp
  from visit_returns(2) [OF assms this] obtain b st' where
    v: "visit_all (length ks + 2) g (\<lambda>_. Unseen) ks = Some (b, st')" by blast
  have r: "(b \<longrightarrow> (\<exists>x. (x, x) \<in> (edges g)\<^sup>+)) \<and> (\<not> b \<longrightarrow> finished_ok g st' \<and> (\<forall>d \<in> set ks. st' d = Done))"
    using visit_correct(2) [OF v] by (simp add: finished_ok_def)
  have "(x, x) \<notin> (edges g)\<^sup>+" if "\<not> b" for x
  proof
    assume x: "(x, x) \<in> (edges g)\<^sup>+"
    then have "g x \<noteq> []" by (auto simp: edges_def elim: converse_tranclE)
    with assms r that x show False by (auto simp: finished_ok_def)
  qed
  with r have "b \<longleftrightarrow> \<not> acyclic (edges g)" by (auto simp: acyclic_def)
  then show ?thesis unfolding hasDependencyCycle_def v by simp
qed

definition valid_order :: "map_order \<Rightarrow> bool" where
  "valid_order order \<longleftrightarrow> (\<forall>n ks. mset (order n ks) = mset ks)"

lemma order_keys:
  assumes "valid_order order"
  shows "set (order n ks) = set ks" "distinct (order n ks) \<longleftrightarrow> distinct ks" "length (order n ks) = length ks"
proof -
  have m: "mset (order n ks) = mset ks" using assms by (simp add: valid_order_def)
  show "set (order n ks) = set ks" "distinct (order n ks) \<longleftrightarrow> distinct ks" "length (order n ks) = length ks"
    by (fact mset_eq_setD [OF m], fact mset_eq_imp_distinct_iff [OF m], fact mset_eq_length [OF m])
qed

section \<open>What pruning leaves\<close>

definition deps_of :: "(string \<Rightarrow> ComponentRequirement option) \<Rightarrow> string \<Rightarrow> string set" where
  "deps_of reqs i = (case reqs i of None \<Rightarrow> {} | Some r \<Rightarrow> set (req_DependsOn r))"

lemma deps_of_simps [simp]:
  "reqs i = None \<Longrightarrow> deps_of reqs i = {}" "reqs i = Some r \<Longrightarrow> deps_of reqs i = set (req_DependsOn r)"
  by (simp_all add: deps_of_def)

definition optional :: "(string \<Rightarrow> ComponentRequirement option) \<Rightarrow> string \<Rightarrow> bool" where
  "optional reqs i \<longleftrightarrow> (case reqs i of None \<Rightarrow> True | Some r \<Rightarrow> \<not> req_Required r \<and> req_AllowResidual r)"

definition deps_closed :: "(string \<Rightarrow> ComponentRequirement option) \<Rightarrow> string set \<Rightarrow> bool" where
  "deps_closed reqs S \<longleftrightarrow> (\<forall>i \<in> S. deps_of reqs i \<subseteq> S)"

text \<open>The greatest part of a set of components that has every dependency within itself.\<close>

definition usable :: "(string \<Rightarrow> ComponentRequirement option) \<Rightarrow> string set \<Rightarrow> string set" where
  "usable reqs B = \<Union> {T. T \<subseteq> B \<and> deps_closed reqs T}"

lemma usable_closed: "deps_closed reqs (usable reqs B)"
  by (auto simp: usable_def deps_closed_def)

lemma usable_subset: "usable reqs B \<subseteq> B"
  by (auto simp: usable_def)

lemma usable_greatest: "T \<subseteq> B \<Longrightarrow> deps_closed reqs T \<Longrightarrow> T \<subseteq> usable reqs B"
  by (auto simp: usable_def)

lemma usable_self: "deps_closed reqs B \<Longrightarrow> usable reqs B = B"
  using usable_greatest [of B B reqs] usable_subset [of reqs B] by blast

text \<open>Removing a component with a missing dependency does not change what is usable.\<close>

lemma usable_remove:
  assumes "\<not> deps_of reqs i \<subseteq> B"
  shows "usable reqs (B - {i}) = usable reqs B" "i \<notin> usable reqs B"
proof -
  show i: "i \<notin> usable reqs B" using assms usable_closed [of reqs B] usable_subset [of reqs B]
    by (auto simp: deps_closed_def)
  show "usable reqs (B - {i}) = usable reqs B"
  proof
    show "usable reqs (B - {i}) \<subseteq> usable reqs B"
      using usable_subset [of reqs "B - {i}"] by (intro usable_greatest usable_closed) blast
    show "usable reqs B \<subseteq> usable reqs (B - {i})"
      using i usable_subset [of reqs B] by (intro usable_greatest usable_closed) blast
  qed
qed

abbreviation pruned :: "string \<Rightarrow> BindingResidual" where
  "pruned i \<equiv> \<lparr>res_ComponentID = i, res_Reason = ''dependency_unavailable''\<rparr>"

abbreviation missing_error :: go_error where
  "missing_error \<equiv> DomainError ErrorCapabilityUnavailable ReasonComponentMissing"

lemma keys_filter:
  "fst ` set (filter (\<lambda>b. fst b \<noteq> i) bound) = fst ` set bound - {i}"
  "fst ` {b \<in> set bound. fst b \<noteq> i} = fst ` set bound - {i}"
  by auto

lemma is_bound_deps: "reqs i = Some r \<Longrightarrow> list_all (is_bound bound) (req_DependsOn r) \<longleftrightarrow> deps_of reqs i \<subseteq> fst ` set bound"
  by (auto simp: is_bound_def list_all_iff)

definition pass_spec ::
  "(string \<Rightarrow> ComponentRequirement option) \<Rightarrow> string list \<Rightarrow> bindings \<Rightarrow> BindingResidual list \<Rightarrow> bool
     \<Rightarrow> (bindings \<times> BindingResidual list \<times> bool) res \<Rightarrow> bool" where
  "pass_spec reqs is bound residuals changed r \<longleftrightarrow>
     (case r of
        Inl e \<Rightarrow> e = missing_error \<and> (\<exists>i \<in> set is. \<not> optional reqs i \<and> i \<notin> usable reqs (fst ` set bound))
      | Inr (bound', residuals', changed') \<Rightarrow>
          (\<exists>rl. bound' = filter (\<lambda>b. fst b \<notin> set rl) bound \<and> residuals' = residuals @ map pruned rl
            \<and> distinct rl \<and> set rl \<subseteq> set is \<and> (changed' \<longleftrightarrow> changed \<or> rl \<noteq> []) \<and> (\<forall>i \<in> set rl. optional reqs i)
            \<and> usable reqs (fst ` set bound') = usable reqs (fst ` set bound)
            \<and> (rl = [] \<longrightarrow> (\<forall>i \<in> set is. deps_of reqs i \<subseteq> fst ` set bound))))"

lemma pass_spec_Inl:
  "pass_spec reqs is bound residuals changed (Inl e) \<longleftrightarrow>
     e = missing_error \<and> (\<exists>i \<in> set is. \<not> optional reqs i \<and> i \<notin> usable reqs (fst ` set bound))"
  by (simp add: pass_spec_def)

lemma pass_spec_Inr:
  assumes "pass_spec reqs is bound residuals changed (Inr (bound', residuals', changed'))"
  obtains rl where "bound' = filter (\<lambda>b. fst b \<notin> set rl) bound" "residuals' = residuals @ map pruned rl"
    "distinct rl" "set rl \<subseteq> set is" "changed' \<longleftrightarrow> changed \<or> rl \<noteq> []" "\<forall>i \<in> set rl. optional reqs i"
    "usable reqs (fst ` set bound') = usable reqs (fst ` set bound)"
    "rl = [] \<longrightarrow> (\<forall>i \<in> set is. deps_of reqs i \<subseteq> fst ` set bound)"
  using assms by (auto simp: pass_spec_def)

lemma pass_spec_skip:
  assumes "pass_spec reqs is bound residuals changed r" "deps_of reqs i \<subseteq> fst ` set bound"
  shows "pass_spec reqs (i # is) bound residuals changed r"
proof (cases r)
  case (Inl e)
  with assms(1) show ?thesis by (simp add: pass_spec_Inl)
next
  case (Inr x)
  obtain b' rs' c' where x: "x = (b', rs', c')" by (cases x) auto
  from assms(1) [unfolded Inr x] show ?thesis
  proof (rule pass_spec_Inr)
    fix rl
    assume rl: "b' = filter (\<lambda>b. fst b \<notin> set rl) bound" "rs' = residuals @ map pruned rl" "distinct rl"
      "set rl \<subseteq> set is" "c' \<longleftrightarrow> changed \<or> rl \<noteq> []" "\<forall>i \<in> set rl. optional reqs i"
      "usable reqs (fst ` set b') = usable reqs (fst ` set bound)"
      "rl = [] \<longrightarrow> (\<forall>i \<in> set is. deps_of reqs i \<subseteq> fst ` set bound)"
    show ?thesis unfolding pass_spec_def Inr x sum.case prod.case
      using rl assms(2) by (intro exI [of _ rl]) auto
  qed
qed

lemma pass_spec_remove:
  assumes "pass_spec reqs is (filter (\<lambda>b. fst b \<noteq> i) bound) (residuals @ [pruned i]) True r"
    "\<not> deps_of reqs i \<subseteq> fst ` set bound" "optional reqs i" "i \<notin> set is"
  shows "pass_spec reqs (i # is) bound residuals changed r"
proof (cases r)
  case (Inl e)
  with assms(1) usable_remove(1) [OF assms(2)] show ?thesis by (simp add: pass_spec_Inl keys_filter)
next
  case (Inr x)
  obtain b' rs' c' where x: "x = (b', rs', c')" by (cases x) auto
  from assms(1) [unfolded Inr x] show ?thesis
  proof (rule pass_spec_Inr)
    fix rl
    assume rl: "b' = filter (\<lambda>b. fst b \<notin> set rl) (filter (\<lambda>b. fst b \<noteq> i) bound)"
      "rs' = (residuals @ [pruned i]) @ map pruned rl" "distinct rl"
      "set rl \<subseteq> set is" "c' \<longleftrightarrow> True \<or> rl \<noteq> []" "\<forall>i \<in> set rl. optional reqs i"
      "usable reqs (fst ` set b') = usable reqs (fst ` set (filter (\<lambda>b. fst b \<noteq> i) bound))"
    have "b' = filter (\<lambda>b. fst b \<notin> set (i # rl)) bound" unfolding rl(1) by (auto intro: filter_cong)
    then show ?thesis unfolding pass_spec_def Inr x sum.case prod.case
      using rl assms(3,4) usable_remove(1) [OF assms(2)]
      by (intro exI [of _ "i # rl"]) (auto simp: keys_filter simp del: filter_filter)
  qed
qed

lemma prune_pass_result:
  assumes "distinct is" "set is \<subseteq> fst ` set bound"
  shows "pass_spec reqs is bound residuals changed (prune_pass reqs is bound residuals changed)"
  using assms
proof (induction reqs "is" bound residuals changed rule: prune_pass.induct)
  case (1 reqs bound residuals changed)
  then show ?case by (simp add: pass_spec_def)
next
  case (2 reqs i "is" bound residuals changed)
  show ?case
  proof (cases "deps_of reqs i \<subseteq> fst ` set bound")
    case True
    have "prune_pass reqs (i # is) bound residuals changed = prune_pass reqs is bound residuals changed"
      using True by (cases "reqs i") (auto simp: is_bound_deps)
    moreover have "pass_spec reqs is bound residuals changed (prune_pass reqs is bound residuals changed)"
      using 2 True by (cases "reqs i") (auto simp: is_bound_deps)
    ultimately show ?thesis using pass_spec_skip [OF _ True] by simp
  next
    case False
    then obtain r where r: "reqs i = Some r" "\<not> list_all (is_bound bound) (req_DependsOn r)"
      by (cases "reqs i") (auto simp: is_bound_deps)
    show ?thesis
    proof (cases "optional reqs i")
      case opt: False
      with r usable_remove(2) [OF False] show ?thesis by (auto simp: optional_def pass_spec_Inl)
    next
      case opt: True
      have "set is \<subseteq> fst ` set (filter (\<lambda>b. fst b \<noteq> i) bound)" using 2(4,5) by (auto simp: keys_filter)
      then have "pass_spec reqs is (filter (\<lambda>b. fst b \<noteq> i) bound) (residuals @ [pruned i]) True
          (prune_pass reqs is (filter (\<lambda>b. fst b \<noteq> i) bound) (residuals @ [pruned i]) True)"
        using 2(3) [OF r] opt r 2(4) by (auto simp: optional_def)
      from pass_spec_remove [OF this False opt] r opt 2(4) show ?thesis by (simp add: optional_def)
    qed
  qed
qed

lemma prune_loop_result:
  assumes "valid_order order" "distinct (map fst bound)" "length bound < n"
  shows "\<exists>r. prune_loop n order k reqs bound residuals = Some r \<and>
    (case r of
       Inl e \<Rightarrow> e = missing_error \<and> (\<exists>i \<in> fst ` set bound. \<not> optional reqs i \<and> i \<notin> usable reqs (fst ` set bound))
     | Inr (bound', residuals') \<Rightarrow>
         (\<exists>rl. bound' = filter (\<lambda>b. fst b \<in> usable reqs (fst ` set bound)) bound \<and> residuals' = residuals @ map pruned rl
           \<and> distinct rl \<and> set rl = fst ` set bound - usable reqs (fst ` set bound) \<and> (\<forall>i \<in> set rl. optional reqs i)))"
  using assms(2,3)
proof (induction n arbitrary: k bound residuals)
  case 0
  then show ?case by simp
next
  case (Suc n)
  let ?K = "fst ` set bound"
  have o: "distinct (order k (map fst bound))" "set (order k (map fst bound)) = ?K"
    using order_keys [OF assms(1)] Suc(2) by simp_all
  have p: "pass_spec reqs (order k (map fst bound)) bound residuals False
      (prune_pass reqs (order k (map fst bound)) bound residuals False)"
    by (rule prune_pass_result [OF o(1)]) (simp add: o(2))
  show ?case
  proof (cases "prune_pass reqs (order k (map fst bound)) bound residuals False")
    case (Inl e)
    with p o(2) show ?thesis by (simp add: pass_spec_Inl)
  next
    case (Inr x)
    obtain b' rs' c' where x: "x = (b', rs', c')" by (cases x) auto
    from p [unfolded Inr x o(2)] obtain rl where rl: "b' = filter (\<lambda>b. fst b \<notin> set rl) bound" "rs' = residuals @ map pruned rl"
      "distinct rl" "set rl \<subseteq> ?K" "c' \<longleftrightarrow> rl \<noteq> []" "\<forall>i \<in> set rl. optional reqs i"
      "usable reqs (fst ` set b') = usable reqs ?K" "rl = [] \<longrightarrow> (\<forall>i \<in> ?K. deps_of reqs i \<subseteq> ?K)" by (rule pass_spec_Inr) (simp add: o(2))
    show ?thesis
    proof (cases c')
      case False
      then have "usable reqs ?K = ?K" using rl(5,8) by (intro usable_self) (auto simp: deps_closed_def)
      then show ?thesis using Inr x False rl(1,2,5) by (auto intro!: exI [of _ "[]"])
    next
      case True
      then obtain i where "i \<in> set rl" using rl(5) by (cases rl) auto
      then obtain b where "b \<in> set bound" "\<not> fst b \<notin> set rl" using rl(4) by auto
      then have "length b' < length bound" unfolding rl(1) by (rule length_filter_less)
      then have "length b' < n" using Suc(3) by simp
      moreover have "distinct (map fst b')" using Suc(2) by (simp add: rl(1) distinct_map_filter)
      ultimately obtain r where r: "prune_loop n order (Suc k) reqs b' rs' = Some r"
        "case r of
       Inl e \<Rightarrow> e = missing_error \<and> (\<exists>i \<in> fst ` set b'. \<not> optional reqs i \<and> i \<notin> usable reqs (fst ` set b'))
     | Inr (bound', residuals') \<Rightarrow>
         (\<exists>rl. bound' = filter (\<lambda>b. fst b \<in> usable reqs (fst ` set b')) b' \<and> residuals' = rs' @ map pruned rl
           \<and> distinct rl \<and> set rl = fst ` set b' - usable reqs (fst ` set b') \<and> (\<forall>i \<in> set rl. optional reqs i))"
        using Suc.IH [of b' "Suc k" rs'] by blast
      have l: "prune_loop (Suc n) order k reqs bound residuals = Some r" using Inr x True r(1) by simp
      have k: "fst ` set b' = ?K - set rl" by (auto simp: rl(1))
      have un: "usable reqs ?K \<inter> set rl = {}"
        using usable_subset [of reqs "fst ` set b'"] rl(7) k by blast
      show ?thesis
      proof (cases r)
        case (Inl e)
        with r(2) l k rl(7) show ?thesis by auto
      next
        case (Inr y)
        obtain b'' rs'' where y: "y = (b'', rs'')" by (cases y)
        have "\<exists>rl2. b'' = filter (\<lambda>b. fst b \<in> usable reqs (fst ` set b')) b' \<and> rs'' = rs' @ map pruned rl2
           \<and> distinct rl2 \<and> set rl2 = fst ` set b' - usable reqs (fst ` set b') \<and> (\<forall>i \<in> set rl2. optional reqs i)"
          using r(2) unfolding Inr y sum.case prod.case .
        then obtain rl2 where rl2: "b'' = filter (\<lambda>b. fst b \<in> usable reqs ?K) b'" "rs'' = rs' @ map pruned rl2"
          "distinct rl2" "set rl2 = fst ` set b' - usable reqs ?K" "\<forall>i \<in> set rl2. optional reqs i"
          unfolding rl(7) by blast
        have "b'' = filter (\<lambda>b. fst b \<in> usable reqs ?K) bound"
          unfolding rl2(1) rl(1) filter_filter using un by (auto intro: filter_cong)
        moreover have "rs'' = residuals @ map pruned (rl @ rl2)" "distinct (rl @ rl2)"
          "set (rl @ rl2) = ?K - usable reqs ?K" "\<forall>i \<in> set (rl @ rl2). optional reqs i"
          using rl(2-4,6) rl2(2-5) un k usable_subset [of reqs ?K] by auto
        ultimately have "\<exists>rl. b'' = filter (\<lambda>b. fst b \<in> usable reqs ?K) bound \<and> rs'' = residuals @ map pruned rl
            \<and> distinct rl \<and> set rl = ?K - usable reqs ?K \<and> (\<forall>i \<in> set rl. optional reqs i)"
          by blast
        then show ?thesis by (intro exI [of _ r] conjI l) (simp only: Inr y sum.case prod.case)
      qed
    qed
  qed
qed

section \<open>What a valid plan is\<close>

lemma requirements_error_None:
  "requirements_error ids rs = None \<longleftrightarrow>
     (\<forall>r \<in> set rs. ComponentRequirement_Validate r = None) \<and> distinct (map req_ID rs) \<and> set (map req_ID rs) \<inter> ids = {}"
  by (induction ids rs rule: requirements_error.induct) (auto split: option.splits)

lemma refs_error_None: "refs_error ids i refs = None \<longleftrightarrow> i \<notin> set refs \<and> set refs \<subseteq> ids"
  by (induction ids i refs rule: refs_error.induct) auto

lemma plan_graph_ids: "plan_graph p x \<noteq> [] \<Longrightarrow> x \<in> set (plan_ids p)"
  by (auto simp: plan_graph_def requirement_of_def plan_ids_def split: option.splits dest!: map_of_SomeD)

definition plan_ok :: "ResolvedAgentPlan \<Rightarrow> bool" where
  "plan_ok p \<longleftrightarrow>
     \<not> blank (plan_ID p)
     \<and> (\<forall>d \<in> {plan_Digest p, plan_ProfileDigest p, plan_ContextDigest p, plan_AuthorityDigest p}. Digest_Validate d = None)
     \<and> (\<forall>r \<in> set (plan_Requirements p). ComponentRequirement_Validate r = None) \<and> distinct (plan_ids p)
     \<and> (\<forall>i. set (plan_graph p i) \<subseteq> set (plan_ids p)) \<and> acyclic (edges (plan_graph p))"

lemma plan_validate:
  assumes "valid_order order"
  shows "ResolvedAgentPlan_Validate order p = None \<longleftrightarrow> plan_ok p"
proof -
  have s: "set (order 0 (plan_ids p)) = set (plan_ids p)" "set (order 1 (plan_ids p)) = set (plan_ids p)"
    using order_keys(1) [OF assms] by simp_all
  have c: "hasDependencyCycle (order 1 (plan_ids p)) (plan_graph p) \<longleftrightarrow> \<not> acyclic (edges (plan_graph p))"
    unfolding s(2) [symmetric] using plan_graph_ids [of p] by (intro hasDependencyCycle_iff) (simp only: s, blast)
  have a: "acyclic (edges (plan_graph p)) \<Longrightarrow> i \<notin> set (plan_graph p i)" for i
    by (auto simp: acyclic_def edges_def)
  have g: "(\<forall>i \<in> set (plan_ids p). i \<notin> set (plan_graph p i) \<and> set (plan_graph p i) \<subseteq> set (plan_ids p)) \<and> acyclic (edges (plan_graph p))
      \<longleftrightarrow> (\<forall>i. set (plan_graph p i) \<subseteq> set (plan_ids p)) \<and> acyclic (edges (plan_graph p))"
    using a plan_graph_ids [of p] by (metis empty_iff empty_set empty_subsetI)
  have "ResolvedAgentPlan_Validate order p = None \<longleftrightarrow>
     \<not> blank (plan_ID p)
     \<and> (\<forall>d \<in> {plan_Digest p, plan_ProfileDigest p, plan_ContextDigest p, plan_AuthorityDigest p}. Digest_Validate d = None)
     \<and> (\<forall>r \<in> set (plan_Requirements p). ComponentRequirement_Validate r = None) \<and> distinct (plan_ids p)
     \<and> (\<forall>i \<in> set (plan_ids p). i \<notin> set (plan_graph p i) \<and> set (plan_graph p i) \<subseteq> set (plan_ids p))
     \<and> acyclic (edges (plan_graph p))"
    using s c
    by (simp add: ResolvedAgentPlan_Validate_def first_err_None_iff requirements_error_None refs_error_None plan_ids_def del: One_nat_def)
  then show ?thesis unfolding plan_ok_def by (simp only: g)
qed

lemma requirement_of_mem: "requirement_of p i = Some r \<Longrightarrow> r \<in> set (plan_Requirements p) \<and> req_ID r = i"
  by (auto simp: requirement_of_def dest: map_of_SomeD)

lemma requirement_of_id:
  assumes "distinct (plan_ids p)" "r \<in> set (plan_Requirements p)"
  shows "requirement_of p (req_ID r) = Some r"
  using assms by (auto simp: requirement_of_def plan_ids_def comp_def intro!: map_of_is_SomeI)

section \<open>What resolution binds\<close>

text \<open>What the registered adapter answers for a requirement, when nothing of it is an error of the call.\<close>

definition offers ::
  "('a \<Rightarrow> go_context \<Rightarrow> ComponentDescriptor res) \<Rightarrow> 'a registry \<Rightarrow> go_context \<Rightarrow> Time \<Rightarrow> ComponentRequirement \<Rightarrow> bool" where
  "offers describe reg ctx now r \<longleftrightarrow>
     (case reg (req_ID r) of
        None \<Rightarrow> False
      | Some (_, adapter) \<Rightarrow> (case describe adapter ctx of Inl e \<Rightarrow> False | Inr d \<Rightarrow> validateCapabilities d r now = None))"

lemma bind_loop_result:
  assumes "bind_loop describe reg ctx now rs bound residuals = Inr (bound', residuals')"
  shows "\<exists>ds rl. bound' = bound @ ds \<and> residuals' = residuals @ rl
    \<and> map fst ds = map req_ID (filter (offers describe reg ctx now) rs)
    \<and> map res_ComponentID rl = map req_ID (filter (\<lambda>r. \<not> offers describe reg ctx now r) rs)
    \<and> (\<forall>b \<in> set ds. desc_ID (snd b) = fst b)
    \<and> (\<forall>r \<in> set rs. \<not> offers describe reg ctx now r \<longrightarrow> \<not> req_Required r \<and> req_AllowResidual r)"
  using assms
proof (induction describe reg ctx now rs bound residuals rule: bind_loop.induct)
  case (1 describe reg ctx now bound residuals)
  then show ?case by simp
next
  case (2 describe reg ctx now r rs bound residuals)
  let ?o = "offers describe reg ctx now"
  have step: ?case
    if o: "\<not> ?o r" and opt: "\<not> req_Required r \<and> req_AllowResidual r"
      and IH: "\<exists>ds rl. bound' = bound @ ds \<and> residuals' = (residuals @ [\<lparr>res_ComponentID = req_ID r, res_Reason = why\<rparr>]) @ rl
        \<and> map fst ds = map req_ID (filter ?o rs) \<and> map res_ComponentID rl = map req_ID (filter (\<lambda>r. \<not> ?o r) rs)
        \<and> (\<forall>b \<in> set ds. desc_ID (snd b) = fst b) \<and> (\<forall>r \<in> set rs. \<not> ?o r \<longrightarrow> \<not> req_Required r \<and> req_AllowResidual r)" for why
  proof -
    from IH obtain ds rl where x: "bound' = bound @ ds" "residuals' = residuals @ \<lparr>res_ComponentID = req_ID r, res_Reason = why\<rparr> # rl"
      "map fst ds = map req_ID (filter ?o rs)" "map res_ComponentID rl = map req_ID (filter (\<lambda>r. \<not> ?o r) rs)"
      "\<forall>b \<in> set ds. desc_ID (snd b) = fst b" "\<forall>r \<in> set rs. \<not> ?o r \<longrightarrow> \<not> req_Required r \<and> req_AllowResidual r"
      by auto
    then show ?thesis using o opt
      by (intro exI [of _ ds] exI [of _ "\<lparr>res_ComponentID = req_ID r, res_Reason = why\<rparr> # rl"]) simp
  qed
  show ?case
  proof (cases "reg (req_ID r)")
    case None
    with 2(4) have "\<not> (req_Required r \<or> \<not> req_AllowResidual r)"
      "bind_loop describe reg ctx now rs bound (residuals @ [\<lparr>res_ComponentID = req_ID r, res_Reason = ''component_missing''\<rparr>])
         = Inr (bound', residuals')" by (auto split: if_splits)
    with 2(1) [OF None] None step show ?thesis by (auto simp: offers_def)
  next
    case (Some c)
    obtain c1 a where c: "c = (c1, a)" by (cases c)
    from 2(4) Some c obtain d where d: "describe a ctx = Inr d" by (auto split: sum.splits)
    from 2(4) Some c d have m: "first_err
                  [ComponentDescriptor_Validate d,
                   fail_if (desc_ID d \<noteq> req_ID r \<or> desc_Kind d \<noteq> req_Kind r \<or> desc_Version d \<noteq> req_Version r
                      \<or> desc_ArtifactDigest d \<noteq> req_ArtifactDigest r) ErrorPreconditionFailed ReasonComponentMismatch] = None"
      by (auto split: option.splits)
    show ?thesis
    proof (cases "validateCapabilities d r now")
      case None
      then have o: "?o r" using Some c d by (simp add: offers_def)
      have "bind_loop describe reg ctx now rs (bound @ [(req_ID r, d)]) residuals = Inr (bound', residuals')"
        using 2(4) Some c d m None by simp
      from 2(2) [OF Some c [symmetric] d m None this] obtain ds rl where
        x: "bound' = (bound @ [(req_ID r, d)]) @ ds" "residuals' = residuals @ rl"
        "map fst ds = map req_ID (filter ?o rs)" "map res_ComponentID rl = map req_ID (filter (\<lambda>r. \<not> ?o r) rs)"
        "\<forall>b \<in> set ds. desc_ID (snd b) = fst b" "\<forall>r \<in> set rs. \<not> ?o r \<longrightarrow> \<not> req_Required r \<and> req_AllowResidual r"
        by blast
      then show ?thesis using o m by (intro exI [of _ "(req_ID r, d) # ds"] exI [of _ rl]) simp
    next
      case (Some e)
      then have o: "\<not> ?o r" using \<open>reg (req_ID r) = Some c\<close> c d by (simp add: offers_def)
      have opt: "\<not> (req_Required r \<or> \<not> req_AllowResidual r)"
        and l: "bind_loop describe reg ctx now rs bound (residuals @ [\<lparr>res_ComponentID = req_ID r, res_Reason = ''capability_unavailable''\<rparr>])
         = Inr (bound', residuals')"
        using 2(4) \<open>reg (req_ID r) = Some c\<close> c d m Some by (auto split: if_splits)
      from step [OF o _ 2(3) [OF \<open>reg (req_ID r) = Some c\<close> c [symmetric] d m Some opt l]] opt show ?thesis by blast
    qed
  qed
qed

lemma sort_key_perm: "mset xs = mset ys \<Longrightarrow> distinct (map f xs) \<Longrightarrow> sort_key f xs = sort_key f ys"
  by (rule sort_key_eq_sort_key) (simp_all add: distinct_map)

lemma distinct_map_sort_key: "distinct (map f xs) \<Longrightarrow> distinct (map f (sort_key f xs))"
  by (simp add: distinct_map)

definition offered ::
  "('a \<Rightarrow> go_context \<Rightarrow> ComponentDescriptor res) \<Rightarrow> 'a registry \<Rightarrow> go_context \<Rightarrow> Time \<Rightarrow> ResolvedAgentPlan \<Rightarrow> string set" where
  "offered describe reg ctx now p = set (map req_ID (filter (offers describe reg ctx now) (plan_Requirements p)))"

lemma Resolve_result:
  assumes "valid_order order" "plan_ok p" "now \<noteq> 0"
    "bind_loop describe reg ctx now (plan_Requirements p) [] [] = Inr (bound, residuals)"
  defines "S \<equiv> usable (requirement_of p) (offered describe reg ctx now p)"
  shows "(Resolve order describe reg ctx p now = Some (Inl missing_error)
           \<and> (\<exists>i \<in> offered describe reg ctx now p. \<not> optional (requirement_of p) i \<and> i \<notin> S))
    \<or> (\<exists>rl. Resolve order describe reg ctx p now = Some (Inr
           \<lparr>bind_Descriptors = sort_key desc_ID (map snd (filter (\<lambda>b. fst b \<in> S) bound)),
            bind_Residuals = sort_key res_ComponentID (residuals @ map pruned rl)\<rparr>)
         \<and> distinct rl \<and> set rl = offered describe reg ctx now p - S \<and> (\<forall>i \<in> set rl. optional (requirement_of p) i))"
proof -
  have b: "map fst bound = map req_ID (filter (offers describe reg ctx now) (plan_Requirements p))"
    using bind_loop_result [OF assms(4)] by auto
  then have k: "fst ` set bound = offered describe reg ctx now p" by (metis list.set_map offered_def)
  have d: "distinct (map fst bound)"
    using assms(2) unfolding b by (simp add: plan_ok_def plan_ids_def distinct_map_filter)
  have v: "ResolvedAgentPlan_Validate order p = None" using plan_validate assms(1,2) by blast
  obtain r where r: "prune_loop (Suc (length bound)) order 2 (requirement_of p) bound residuals = Some r"
    "case r of
       Inl e \<Rightarrow> e = missing_error \<and> (\<exists>i \<in> fst ` set bound. \<not> optional (requirement_of p) i \<and> i \<notin> usable (requirement_of p) (fst ` set bound))
     | Inr (bound', residuals') \<Rightarrow>
         (\<exists>rl. bound' = filter (\<lambda>b. fst b \<in> usable (requirement_of p) (fst ` set bound)) bound \<and> residuals' = residuals @ map pruned rl
           \<and> distinct rl \<and> set rl = fst ` set bound - usable (requirement_of p) (fst ` set bound) \<and> (\<forall>i \<in> set rl. optional (requirement_of p) i))"
    using prune_loop_result [OF assms(1) d, of "Suc (length bound)" 2 "requirement_of p" residuals] by auto
  show ?thesis
  proof (cases r)
    case (Inl e)
    with r v assms(3,4) show ?thesis by (simp add: Resolve_def IsZero_def k S_def)
  next
    case (Inr x)
    obtain b' rs' where x: "x = (b', rs')" by (cases x)
    have "\<exists>rl. b' = filter (\<lambda>b. fst b \<in> S) bound \<and> rs' = residuals @ map pruned rl
           \<and> distinct rl \<and> set rl = offered describe reg ctx now p - S \<and> (\<forall>i \<in> set rl. optional (requirement_of p) i)"
      using r(2) unfolding Inr x sum.case prod.case k S_def .
    then show ?thesis using r(1) v assms(3,4) by (auto simp: Resolve_def IsZero_def Inr x)
  qed
qed

lemma bind_loop_residuals:
  assumes "bind_loop describe reg ctx now (plan_Requirements p) [] [] = Inr (bound, residuals)" "distinct (plan_ids p)"
  shows "distinct (map res_ComponentID residuals)"
    "set (map res_ComponentID residuals) = set (plan_ids p) - offered describe reg ctx now p"
proof -
  have m: "map res_ComponentID residuals = map req_ID (filter (\<lambda>r. \<not> offers describe reg ctx now r) (plan_Requirements p))"
    using bind_loop_result [OF assms(1)] by auto
  show "distinct (map res_ComponentID residuals)"
    using assms(2) unfolding m by (simp add: plan_ids_def distinct_map_filter)
  show "set (map res_ComponentID residuals) = set (plan_ids p) - offered describe reg ctx now p"
    using assms(2) unfolding m by (auto simp: plan_ids_def offered_def distinct_map inj_on_def)
qed

lemma all_residuals_distinct:
  assumes "distinct (map res_ComponentID residuals)" "set (map res_ComponentID residuals) = I - B"
    "distinct rl" "set rl \<subseteq> B"
  shows "distinct (map res_ComponentID (residuals @ map pruned rl))"
  using assms by (auto simp: comp_def)

text \<open>A sample: a plan in which a component without a registered dependency is pruned.\<close>

definition sample_requirement :: "string \<Rightarrow> bool \<Rightarrow> string list \<Rightarrow> ComponentRequirement" where
  "sample_requirement i required deps =
     \<lparr>req_ID = i, req_Kind = ComponentHarness, req_Version = ''a'', req_ArtifactDigest = DigestBytes ''a'',
      req_Required = required, req_AllowResidual = \<not> required, req_Capabilities = [], req_DependsOn = deps\<rparr>"

definition sample_descriptor :: "string \<Rightarrow> ComponentDescriptor" where
  "sample_descriptor i =
     \<lparr>desc_ID = i, desc_Kind = ComponentHarness, desc_Version = ''a'', desc_ArtifactDigest = DigestBytes ''a'',
      desc_ContractVersion = ContractVersion, desc_Conformance = ConformanceFullyControlled, desc_Capabilities = []\<rparr>"

definition sample_plan :: ResolvedAgentPlan where
  "sample_plan =
     \<lparr>plan_ID = ''p'', plan_Digest = DigestBytes ''p'', plan_ProfileDigest = DigestBytes ''p'',
      plan_ContextDigest = DigestBytes ''p'', plan_AuthorityDigest = DigestBytes ''p'',
      plan_Requirements = [sample_requirement ''a'' True [], sample_requirement ''b'' False [''a'', ''c''],
                           sample_requirement ''c'' False []]\<rparr>"

definition sample_registry :: "ComponentDescriptor registry" where
  "sample_registry = [''a'' \<mapsto> (sample_descriptor ''a'', sample_descriptor ''a''),
                      ''b'' \<mapsto> (sample_descriptor ''b'', sample_descriptor ''b'')]"

lemma sample_orders: "valid_order (\<lambda>n ks. ks)" "valid_order (\<lambda>n. rev)"
  by (simp_all add: valid_order_def)

lemma graphic_abcp: "graphic CHR ''a''" "graphic CHR ''b''" "graphic CHR ''c''" "graphic CHR ''p''"
  by (simp_all add: graphic_def)

lemma sample_plan_ids: "plan_ids sample_plan = [''a'', ''b'', ''c'']"
  by (simp add: sample_plan_def plan_ids_def sample_requirement_def)

lemma sample_plan_graph:
  "plan_graph sample_plan = (\<lambda>i. if i = ''b'' then [''a'', ''c''] else [])"
  by (rule ext) (simp add: sample_plan_def plan_graph_def requirement_of_def sample_requirement_def)

lemma sample_plan_ok: "plan_ok sample_plan"
proof -
  have "ResolvedAgentPlan_Validate (\<lambda>n ks. ks) sample_plan = None"
    unfolding ResolvedAgentPlan_Validate_def sample_plan_ids sample_plan_graph
    by (simp add: hasDependencyCycle_def numeral_eq_Suc)
      (simp add: sample_plan_def sample_requirement_def ComponentRequirement_Validate_def graphic_abcp)
  then show ?thesis using plan_validate [OF sample_orders(1)] by blast
qed

section \<open>Properties\<close>

text \<open>
  C35: A plan is accepted exactly when its digests and requirements are valid, its component identifiers are
  distinct, every dependency is in the plan and the dependency graph has no cycle, in whatever order
  the maps are iterated. In particular the depth-first check always returns, and it finds a cycle
  exactly when there is one.
\<close>

theorem plan_validation_exact:
  assumes "valid_order order"
  shows "(ResolvedAgentPlan_Validate order p = None \<longleftrightarrow> plan_ok p)
    \<and> (\<exists>b st. visit_all (length (order 1 (plan_ids p)) + 2) (plan_graph p) (\<lambda>_. Unseen) (order 1 (plan_ids p)) = Some (b, st)
         \<and> (b \<longleftrightarrow> \<not> acyclic (edges (plan_graph p))))"
proof -
  let ?ks = "order 1 (plan_ids p)"
  have g: "\<forall>x. plan_graph p x \<noteq> [] \<longrightarrow> x \<in> set ?ks"
    using plan_graph_ids [of p] order_keys(1) [OF assms] by blast
  have "card {x \<in> set ?ks. (\<lambda>_. Unseen) x = Unseen} < length ?ks + 2 \<or> ?ks = []"
    using card_length [of ?ks] by simp
  from visit_returns(2) [OF g this] obtain b st where
    v: "visit_all (length ?ks + 2) (plan_graph p) (\<lambda>_. Unseen) ?ks = Some (b, st)" by blast
  have "b \<longleftrightarrow> \<not> acyclic (edges (plan_graph p))"
    using hasDependencyCycle_iff [OF g] unfolding hasDependencyCycle_def v by simp
  with v plan_validate [OF assms] show ?thesis by blast
qed

lemma plan_validation_exact_witness:
  "ResolvedAgentPlan_Validate (\<lambda>n. rev) sample_plan = None"
  using plan_validation_exact [OF sample_orders(2), of sample_plan] sample_plan_ok by blast

text \<open>
  C36: Resolution does not depend on the order in which Go iterates over maps, and always returns. When it
  succeeds it binds the greatest set of offered components that has all its dependencies within
  itself, sorted by identifier; every other component of the plan is reported exactly once as a
  residual; and no required component is among them.
\<close>

theorem resolve_greatest:
  assumes "valid_order order" "valid_order order'" "plan_ok p"
    and S_def: "S = usable (requirement_of p) (offered describe reg ctx now p)"
  shows "Resolve order describe reg ctx p now \<noteq> None
    \<and> Resolve order describe reg ctx p now = Resolve order' describe reg ctx p now
    \<and> (\<forall>b. Resolve order describe reg ctx p now = Some (Inr b) \<longrightarrow>
         set (map desc_ID (bind_Descriptors b)) = S \<and> sorted (map desc_ID (bind_Descriptors b))
         \<and> set (map res_ComponentID (bind_Residuals b)) = set (plan_ids p) - S
         \<and> distinct (map res_ComponentID (bind_Residuals b)) \<and> sorted (map res_ComponentID (bind_Residuals b))
         \<and> (\<forall>r \<in> set (plan_Requirements p). req_Required r \<or> \<not> req_AllowResidual r \<longrightarrow> req_ID r \<in> S))"
proof (cases "now \<noteq> 0 \<and> (\<exists>x. bind_loop describe reg ctx now (plan_Requirements p) [] [] = Inr x)")
  case False
  have "ResolvedAgentPlan_Validate order p = None" "ResolvedAgentPlan_Validate order' p = None"
    using plan_validate assms(1-3) by blast+
  then have "\<exists>e. Resolve order describe reg ctx p now = Some (Inl e) \<and> Resolve order' describe reg ctx p now = Some (Inl e)"
    using False
    by (cases "now = 0"; cases "bind_loop describe reg ctx now (plan_Requirements p) [] []")
       (simp_all add: Resolve_def IsZero_def)
  then show ?thesis by auto
next
  case True
  then obtain bound residuals where now: "now \<noteq> 0"
    and l: "bind_loop describe reg ctx now (plan_Requirements p) [] [] = Inr (bound, residuals)" by auto
  have d: "distinct (plan_ids p)" using assms(3) by (simp add: plan_ok_def)
  note r1 = Resolve_result [OF assms(1,3) now l, folded S_def]
  note r2 = Resolve_result [OF assms(2,3) now l, folded S_def]
  note res = bind_loop_residuals [OF l d]
  have SO: "S \<subseteq> offered describe reg ctx now p" by (simp add: S_def usable_subset)
  have b: "map fst bound = map req_ID (filter (offers describe reg ctx now) (plan_Requirements p))"
    "\<forall>x \<in> set bound. desc_ID (snd x) = fst x"
    and opt: "\<forall>r \<in> set (plan_Requirements p). \<not> offers describe reg ctx now r \<longrightarrow> \<not> req_Required r \<and> req_AllowResidual r"
    using bind_loop_result [OF l] by auto
  have k: "fst ` set bound = offered describe reg ctx now p" using b(1) by (metis list.set_map offered_def)
  have ds: "set (map desc_ID (sort_key desc_ID (map snd (filter (\<lambda>x. fst x \<in> S) bound)))) = S"
    using b(2) SO k by force
  have same: "sort_key res_ComponentID (residuals @ map pruned rl) = sort_key res_ComponentID (residuals @ map pruned rl')"
    if "distinct rl" "set rl = offered describe reg ctx now p - S" "distinct rl'" "set rl' = offered describe reg ctx now p - S" for rl rl'
    using that all_residuals_distinct [OF res that(1)] set_eq_iff_mset_eq_distinct [of rl rl']
    by (intro sort_key_perm) (auto simp: mset_map)
  have req: "req_ID r \<in> S" if "r \<in> set (plan_Requirements p)" "req_Required r \<or> \<not> req_AllowResidual r"
      "\<forall>i \<in> offered describe reg ctx now p - S. optional (requirement_of p) i" for r
  proof -
    have "req_ID r \<in> offered describe reg ctx now p" using that(1,2) opt by (auto simp: offered_def)
    moreover have "\<not> optional (requirement_of p) (req_ID r)"
      using that(2) requirement_of_id [OF d that(1)] by (auto simp: optional_def)
    ultimately show ?thesis using that(3) by blast
  qed
  show ?thesis
  proof (cases "\<exists>i \<in> offered describe reg ctx now p. \<not> optional (requirement_of p) i \<and> i \<notin> S")
    case True
    then have "Resolve order describe reg ctx p now = Some (Inl missing_error)"
      "Resolve order' describe reg ctx p now = Some (Inl missing_error)" using r1 r2 by auto
    then show ?thesis by simp
  next
    case False
    with r1 r2 obtain rl rl' where rl: "Resolve order describe reg ctx p now = Some (Inr
           \<lparr>bind_Descriptors = sort_key desc_ID (map snd (filter (\<lambda>b. fst b \<in> S) bound)),
            bind_Residuals = sort_key res_ComponentID (residuals @ map pruned rl)\<rparr>)"
      "distinct rl" "set rl = offered describe reg ctx now p - S"
      "Resolve order' describe reg ctx p now = Some (Inr
           \<lparr>bind_Descriptors = sort_key desc_ID (map snd (filter (\<lambda>b. fst b \<in> S) bound)),
            bind_Residuals = sort_key res_ComponentID (residuals @ map pruned rl')\<rparr>)"
      "distinct rl'" "set rl' = offered describe reg ctx now p - S" by auto
    have dr: "distinct (map res_ComponentID (residuals @ map pruned rl))"
      using all_residuals_distinct [OF res rl(2)] rl(3) by blast
    have "distinct (map res_ComponentID (sort_key res_ComponentID (residuals @ map pruned rl)))"
      by (rule distinct_map_sort_key [OF dr])
    moreover have "set (map res_ComponentID (sort_key res_ComponentID (residuals @ map pruned rl))) = set (plan_ids p) - S"
    proof -
      have "set (map res_ComponentID (sort_key res_ComponentID (residuals @ map pruned rl))) = set (map res_ComponentID residuals) \<union> set rl"
        by (simp add: image_Un image_image)
      moreover have "offered describe reg ctx now p \<subseteq> set (plan_ids p)" by (auto simp: offered_def plan_ids_def)
      ultimately show ?thesis using res(2) rl(3) SO by blast
    qed
    moreover have "\<forall>i \<in> offered describe reg ctx now p - S. optional (requirement_of p) i" using False by blast
    ultimately show ?thesis
      using rl ds same [OF rl(2,3,5,6)] req by simp
  qed
qed

lemma resolve_greatest_witness:
  "\<exists>b. Resolve (\<lambda>n. rev) (\<lambda>a ctx. Inr a) sample_registry LiveContext sample_plan 50 = Some (Inr b)
     \<and> set (map desc_ID (bind_Descriptors b)) \<union> set (map res_ComponentID (bind_Residuals b)) = {''a'', ''b'', ''c''}"
proof -
  let ?S = "usable (requirement_of sample_plan) (offered (\<lambda>a ctx. Inr a) sample_registry LiveContext 50 sample_plan)"
  have "\<exists>b. Resolve (\<lambda>n ks. ks) (\<lambda>a ctx. Inr a) sample_registry LiveContext sample_plan 50 = Some (Inr b)"
    using sample_plan_ok plan_validate [OF sample_orders(1), of sample_plan]
    by (simp add: Resolve_def IsZero_def sample_registry_def sample_descriptor_def ComponentDescriptor_Validate_def
        graphic_abcp validateCapabilities_def is_bound_def requirement_of_def sample_plan_def sample_requirement_def)
  then obtain b where b: "Resolve (\<lambda>n ks. ks) (\<lambda>a ctx. Inr a) sample_registry LiveContext sample_plan 50 = Some (Inr b)"
    by blast
  note l = resolve_greatest [OF sample_orders sample_plan_ok refl,
      of "\<lambda>a ctx. Inr a" sample_registry LiveContext 50, unfolded b]
  then have r: "Resolve (\<lambda>n. rev) (\<lambda>a ctx. Inr a) sample_registry LiveContext sample_plan 50 = Some (Inr b)"
    by (elim conjE) (rule sym)
  have s: "set (map desc_ID (bind_Descriptors b)) = ?S"
    "set (map res_ComponentID (bind_Residuals b)) = set (plan_ids sample_plan) - ?S" using l by blast+
  have "?S \<subseteq> set (plan_ids sample_plan)"
    using usable_subset by (rule order_trans) (auto simp: offered_def plan_ids_def)
  then have "?S \<union> (set (plan_ids sample_plan) - ?S) = set (plan_ids sample_plan)" by blast
  also have "\<dots> = {''a'', ''b'', ''c''}" by (simp add: sample_plan_ids)
  finally have "set (map desc_ID (bind_Descriptors b)) \<union> set (map res_ComponentID (bind_Residuals b)) = {''a'', ''b'', ''c''}"
    unfolding s .
  with r show ?thesis by blast
qed

end
