(* ===== verification/SemVer.thy ===== *)
theory SemVer
  imports Text "HOL-Library.List_Lexorder" "HOL-Library.Product_Lexorder" "HOL-Library.Char_ord"
begin

text \<open>
  \<open>runtime/core/semver.go\<close>: strict SemVer 2.0.0. Go compares strings byte by byte, which is the
  lexicographic order of HOL's lists of characters. \<open>strings.Split\<close> and \<open>strings.SplitN(_, _, 2)\<close>
  are \<open>split\<close> and \<open>split2\<close>. The precedence the code computes is compared with one given by a key in
  a lexicographic product (\<open>version_key\<close>).
\<close>

section \<open>Splitting and joining\<close>

fun split :: "char \<Rightarrow> string \<Rightarrow> string list" where
  "split c [] = [[]]"
| "split c (x # xs) =
     (if x = c then [] # split c xs
      else (case split c xs of [] \<Rightarrow> [[x]] | p # ps \<Rightarrow> (x # p) # ps))"

definition split2 :: "char \<Rightarrow> string \<Rightarrow> string list" where
  "split2 c s = (if c \<in> set s then [takeWhile (\<lambda>x. x \<noteq> c) s, tl (dropWhile (\<lambda>x. x \<noteq> c) s)] else [s])"

fun join :: "char \<Rightarrow> string list \<Rightarrow> string" where
  "join c [] = []"
| "join c [p] = p"
| "join c (p # q # ps) = p @ c # join c (q # ps)"

lemma split_nonempty [simp]: "split c s \<noteq> []"
  by (induction s) (auto split: list.splits)

lemma join_Cons: "ps \<noteq> [] \<Longrightarrow> join c (p # ps) = p @ c # join c ps"
  by (cases ps) simp_all

lemma join_head: "join c ((x # p) # ps) = x # join c (p # ps)"
  by (cases ps) simp_all

lemma join_split [simp]: "join c (split c s) = s"
proof (induction s)
  case Nil
  then show ?case by simp
next
  case (Cons x s)
  then show ?case by (cases "split c s") (auto simp: join_Cons join_head)
qed

lemma split_no_sep: "c \<notin> set s \<Longrightarrow> split c s = [s]"
  by (induction s) auto

lemma split_append: "c \<notin> set p \<Longrightarrow> split c (p @ c # s) = p # split c s"
  by (induction p) auto

lemma split_join: "ps \<noteq> [] \<Longrightarrow> (\<forall>p \<in> set ps. c \<notin> set p) \<Longrightarrow> split c (join c ps) = ps"
  by (induction c ps rule: join.induct) (auto simp: split_no_sep split_append)

lemma split_parts: "p \<in> set (split c s) \<Longrightarrow> c \<notin> set p"
  by (induction s arbitrary: p) (auto split: list.splits if_splits)

lemma split2_no_sep: "c \<notin> set s \<Longrightarrow> split2 c s = [s]"
  by (simp add: split2_def)

lemma split2_append: "c \<notin> set p \<Longrightarrow> split2 c (p @ c # s) = [p, s]"
  by (induction p) (auto simp: split2_def)

lemma split2_cases:
  obtains "c \<notin> set s" "split2 c s = [s]" | p q where "c \<notin> set p" "s = p @ c # q" "split2 c s = [p, q]"
proof (cases "c \<in> set s")
  case True
  then obtain p q where "s = p @ c # q" "c \<notin> set p" by (meson split_list_first)
  with that(2) split2_append show thesis by blast
next
  case False
  with that(1) split2_no_sep show thesis by blast
qed

section \<open>Parsing and printing\<close>

definition MaxSemanticVersionLength :: nat where
  "MaxSemanticVersionLength = 128"

record SemanticVersion =
  ver_Major :: u64
  ver_Minor :: u64
  ver_Patch :: u64
  ver_Prerelease :: "string list"
  ver_Build :: "string list"

definition validNumericIdentifier :: "string \<Rightarrow> bool" where
  "validNumericIdentifier value \<longleftrightarrow>
     \<not> (value = '''' \<or> length value > 1 \<and> value ! 0 = CHR ''0'') \<and> list_all is_digit value"

definition identifier_char :: "char \<Rightarrow> bool" where
  "identifier_char c \<longleftrightarrow>
     is_digit c \<or> CHR ''A'' \<le> c \<and> c \<le> CHR ''Z'' \<or> CHR ''a'' \<le> c \<and> c \<le> CHR ''z'' \<or> c = CHR ''-''"

definition validSemanticIdentifiers :: "string list \<Rightarrow> bool \<Rightarrow> bool" where
  "validSemanticIdentifiers values rejectNumericLeadingZero \<longleftrightarrow>
     values \<noteq> [] \<and>
     list_all (\<lambda>value. value \<noteq> '''' \<and> list_all identifier_char value \<and>
        \<not> (rejectNumericLeadingZero \<and> list_all is_digit value \<and> length value > 1 \<and> value ! 0 = CHR ''0'')) values"

definition version_error :: "'a res" where
  "version_error = Inl (DomainError ErrorInvalidArgument ReasonInvalidSemanticVersion)"

definition parse_number :: "string \<Rightarrow> u64 res" where
  "parse_number part =
     (if \<not> validNumericIdentifier part then version_error
      else (case ParseUint part of None \<Rightarrow> version_error | Some n \<Rightarrow> Inr n))"

definition ParseSemanticVersion :: "string \<Rightarrow> SemanticVersion res" where
  "ParseSemanticVersion value =
     (if value = '''' \<or> length value > MaxSemanticVersionLength \<or> TrimSpace value \<noteq> value then version_error
      else if length (filter (\<lambda>c. c = CHR ''+'') value) > 1 then version_error
      else
        let versionAndBuild = split2 (CHR ''+'') value;
            versionAndPrerelease = split2 (CHR ''-'') (versionAndBuild ! 0);
            coreParts = split (CHR ''.'') (versionAndPrerelease ! 0)
        in if length coreParts \<noteq> 3 then version_error
           else
             bind_res (parse_number (coreParts ! 0)) (\<lambda>major.
             bind_res (parse_number (coreParts ! 1)) (\<lambda>minor.
             bind_res (parse_number (coreParts ! 2)) (\<lambda>patch.
               let pre = (if length versionAndPrerelease = 2 then split (CHR ''.'') (versionAndPrerelease ! 1) else []);
                   build = (if length versionAndBuild = 2 then split (CHR ''.'') (versionAndBuild ! 1) else [])
               in if length versionAndPrerelease = 2 \<and> \<not> validSemanticIdentifiers pre True then version_error
                  else if length versionAndBuild = 2 \<and> \<not> validSemanticIdentifiers build False then version_error
                  else Inr \<lparr>ver_Major = major, ver_Minor = minor, ver_Patch = patch,
                            ver_Prerelease = pre, ver_Build = build\<rparr>))))"

definition SemanticVersion_String :: "SemanticVersion \<Rightarrow> string" where
  "SemanticVersion_String v =
     dec (unat (ver_Major v)) @ ''.'' @ dec (unat (ver_Minor v)) @ ''.'' @ dec (unat (ver_Patch v)) @
     (if ver_Prerelease v \<noteq> [] then ''-'' @ join (CHR ''.'') (ver_Prerelease v) else []) @
     (if ver_Build v \<noteq> [] then ''+'' @ join (CHR ''.'') (ver_Build v) else [])"

section \<open>Precedence\<close>

definition compareSemanticIdentifier :: "string \<Rightarrow> string \<Rightarrow> int" where
  "compareSemanticIdentifier left right =
     (let leftNumeric = validNumericIdentifier left; rightNumeric = validNumericIdentifier right in
      if leftNumeric \<and> rightNumeric then
        if length left < length right then -1
        else if length left > length right then 1
        else if left < right then -1
        else if left > right then 1 else 0
      else if leftNumeric \<noteq> rightNumeric then (if leftNumeric then -1 else 1)
      else if left < right then -1
      else if left > right then 1 else 0)"

text \<open>The loop over the identifiers both sides have, and the comparison of the lengths after it.\<close>

fun comparePrerelease :: "string list \<Rightarrow> string list \<Rightarrow> int" where
  "comparePrerelease (l # ls) (r # rs) =
     (let c = compareSemanticIdentifier l r in if c \<noteq> 0 then c else comparePrerelease ls rs)"
| "comparePrerelease ls rs =
     (if length ls < length rs then -1 else if length ls > length rs then 1 else 0)"

definition CompareSemanticVersion :: "SemanticVersion \<Rightarrow> SemanticVersion \<Rightarrow> int" where
  "CompareSemanticVersion left right =
     (if ver_Major left < ver_Major right then -1
      else if ver_Major left > ver_Major right then 1
      else if ver_Minor left < ver_Minor right then -1
      else if ver_Minor left > ver_Minor right then 1
      else if ver_Patch left < ver_Patch right then -1
      else if ver_Patch left > ver_Patch right then 1
      else if ver_Prerelease left = [] \<and> ver_Prerelease right = [] then 0
      else if ver_Prerelease left = [] then 1
      else if ver_Prerelease right = [] then -1
      else comparePrerelease (ver_Prerelease left) (ver_Prerelease right))"

section \<open>Ranges\<close>

record VersionRange =
  vr_MinimumInclusive :: string
  vr_MaximumExclusive :: string

definition VersionRange_Validate :: "VersionRange \<Rightarrow> go_error option" where [validate_defs]:
  "VersionRange_Validate r =
     (case ParseSemanticVersion (vr_MinimumInclusive r) of
        Inl e \<Rightarrow> Some e
      | Inr minimum \<Rightarrow>
          (case ParseSemanticVersion (vr_MaximumExclusive r) of
             Inl e \<Rightarrow> Some e
           | Inr maximum \<Rightarrow>
               first_err
                [fail_if (SemanticVersion_String minimum \<noteq> vr_MinimumInclusive r
                    \<or> SemanticVersion_String maximum \<noteq> vr_MaximumExclusive r
                    \<or> ver_Build minimum \<noteq> [] \<or> ver_Build maximum \<noteq> []) ErrorInvalidArgument ReasonInvalidSemanticVersion,
                 fail_if (CompareSemanticVersion minimum maximum \<ge> 0) ErrorInvalidArgument ReasonInvalidSemanticVersion]))"

definition VersionRange_Contains :: "VersionRange \<Rightarrow> string \<Rightarrow> bool" where
  "VersionRange_Contains r value =
     (VersionRange_Validate r = None \<and>
      (case (ParseSemanticVersion value, ParseSemanticVersion (vr_MinimumInclusive r),
             ParseSemanticVersion (vr_MaximumExclusive r)) of
         (Inr version, Inr minimum, Inr maximum) \<Rightarrow>
           SemanticVersion_String version = value
           \<and> CompareSemanticVersion version minimum \<ge> 0 \<and> CompareSemanticVersion version maximum < 0
       | _ \<Rightarrow> False))"

section \<open>Printing what was parsed\<close>

lemma parse_number_print: "parse_number s = Inr n \<Longrightarrow> dec (unat n) = s"
proof -
  assume a: "parse_number s = Inr n"
  then have s: "s \<noteq> ''''" "list_all is_digit s" "length s = 1 \<or> hd s \<noteq> CHR ''0''" and n: "ParseUint s = Some n"
    by (cases s; auto simp: parse_number_def version_error_def validNumericIdentifier_def split: if_splits option.splits)+
  from n have "unat n = dec_value s"
    by (auto simp: ParseUint_def unat_of_nat take_bit_nat_eq_self split: if_splits)
  then show ?thesis using dec_dec_value [OF s(2,1,3)] by simp
qed

lemma list3: "length xs = 3 \<Longrightarrow> xs = [xs ! 0, xs ! 1, xs ! 2]"
  by (auto simp: numeral_3_eq_3 length_Suc_conv)

lemma parse_print:
  assumes "ParseSemanticVersion value = Inr v"
  shows "SemanticVersion_String v = value"
proof -
  define vb where "vb = split2 (CHR ''+'') value"
  define vp where "vp = split2 (CHR ''-'') (vb ! 0)"
  define core where "core = split (CHR ''.'') (vp ! 0)"
  define pre where "pre = (if length vp = 2 then split (CHR ''.'') (vp ! 1) else [])"
  define bld where "bld = (if length vb = 2 then split (CHR ''.'') (vb ! 1) else [])"
  from assms have len: "length core = 3"
    and n: "parse_number (core ! 0) = Inr (ver_Major v)" "parse_number (core ! 1) = Inr (ver_Minor v)"
      "parse_number (core ! 2) = Inr (ver_Patch v)"
    and pb: "ver_Prerelease v = pre" "ver_Build v = bld"
    unfolding vb_def vp_def core_def pre_def bld_def
    by (auto simp: ParseSemanticVersion_def version_error_def Let_def split: if_splits)
  have "vp ! 0 = join (CHR ''.'') core" by (simp add: core_def)
  also have "\<dots> = dec (unat (ver_Major v)) @ ''.'' @ dec (unat (ver_Minor v)) @ ''.'' @ dec (unat (ver_Patch v))"
    using n [THEN parse_number_print] by (subst list3 [OF len]) simp
  finally have c: "vp ! 0 = \<dots>" .
  have p: "vb ! 0 = vp ! 0 @ (if pre \<noteq> [] then ''-'' @ join (CHR ''.'') pre else [])"
    by (rule split2_cases [of "CHR ''-''" "vb ! 0"]) (simp_all add: vp_def pre_def)
  have b: "value = vb ! 0 @ (if bld \<noteq> [] then ''+'' @ join (CHR ''.'') bld else [])"
    by (rule split2_cases [of "CHR ''+''" "value"]) (simp_all add: vb_def bld_def)
  show ?thesis unfolding SemanticVersion_String_def pb by (subst b, subst p, subst c) simp
qed

section \<open>Precedence as an order\<close>

definition cmp :: "'a :: linorder \<Rightarrow> 'a \<Rightarrow> int" where
  "cmp x y = (if x < y then -1 else if x > y then 1 else 0)"

lemma cmp_simps: "cmp x y < 0 \<longleftrightarrow> x < y" "cmp x y = 0 \<longleftrightarrow> x = y" "0 \<le> cmp x y \<longleftrightarrow> y \<le> x"
  by (auto simp: cmp_def)

lemma cmp_swap: "cmp y x = - cmp x y"
  by (auto simp: cmp_def)

lemma cmp_self [simp]: "cmp x x = 0"
  by (simp add: cmp_def)

lemma cmp_less: "x < y \<Longrightarrow> cmp x y = -1" "y < x \<Longrightarrow> cmp x y = 1"
  by (simp_all add: cmp_def)

lemma cmp_pair: "cmp (a, b) (c, d) = (if cmp a c \<noteq> 0 then cmp a c else cmp b d)"
  by (auto simp: cmp_def)

lemma cmp_chain: "(if x < y then -1 else if y < x then 1 else k) = (if cmp x y \<noteq> 0 then cmp x y else k)"
  by (simp add: cmp_def)

definition identifier_key :: "string \<Rightarrow> nat \<times> nat \<times> string" where
  "identifier_key s = (if validNumericIdentifier s then (0, length s, s) else (1, 0, s))"

lemma identifier_key_inject [simp]: "identifier_key s = identifier_key t \<longleftrightarrow> s = t"
  by (auto simp: identifier_key_def)

lemma compareSemanticIdentifier_key:
  "compareSemanticIdentifier l r = cmp (identifier_key l) (identifier_key r)"
  by (cases "validNumericIdentifier l"; cases "validNumericIdentifier r")
     (simp_all add: compareSemanticIdentifier_def identifier_key_def cmp_pair cmp_chain Let_def, simp_all add: cmp_less)

lemma cmp_Cons: "cmp (x # xs) (y # ys) = (if cmp x y \<noteq> 0 then cmp x y else cmp xs ys)"
  by (auto simp: cmp_def)

lemma cmp_Nil [simp]: "cmp [] (y # ys) = -1" "cmp (x # xs) [] = 1"
  by (simp_all add: cmp_def)

lemma comparePrerelease_key:
  "comparePrerelease ls rs = cmp (map identifier_key ls) (map identifier_key rs)"
proof (induction ls arbitrary: rs)
  case Nil
  then show ?case by (cases rs) simp_all
next
  case (Cons l ls)
  then show ?case by (cases rs) (simp_all add: Let_def compareSemanticIdentifier_key cmp_Cons)
qed

definition version_key :: "SemanticVersion \<Rightarrow> u64 \<times> u64 \<times> u64 \<times> nat \<times> (nat \<times> nat \<times> string) list" where
  "version_key v =
     (ver_Major v, ver_Minor v, ver_Patch v, if ver_Prerelease v = [] then 1 else 0,
      map identifier_key (ver_Prerelease v))"

lemma CompareSemanticVersion_key: "CompareSemanticVersion l r = cmp (version_key l) (version_key r)"
  unfolding CompareSemanticVersion_def version_key_def cmp_pair cmp_chain comparePrerelease_key
  by (simp add: cmp_less)

section \<open>Parsing what was printed\<close>

definition version_ok :: "SemanticVersion \<Rightarrow> bool" where
  "version_ok v \<longleftrightarrow>
     (ver_Prerelease v = [] \<or> validSemanticIdentifiers (ver_Prerelease v) True)
     \<and> (ver_Build v = [] \<or> validSemanticIdentifiers (ver_Build v) False)
     \<and> length (SemanticVersion_String v) \<le> MaxSemanticVersionLength"

lemma dec_no_leading_zero: "1 < length (dec n) \<Longrightarrow> dec n ! 0 \<noteq> CHR ''0''"
proof (induction n rule: dec.induct)
  case (1 n)
  have z: "digit m \<noteq> CHR ''0''" if "0 < m" "m < 10" for m
  proof
    assume "digit m = CHR ''0''"
    then have "(of_char (digit m) :: nat) = of_char CHR ''0''" by simp
    then show False using that by (simp add: of_char_digit)
  qed
  show ?case
  proof (cases "n < 10")
    case True
    with 1(2) show ?thesis by (simp add: dec.simps [of n])
  next
    case False
    then have e: "dec n = dec (n div 10) @ [digit (n mod 10)]" by (simp add: dec.simps [of n])
    show ?thesis
    proof (cases "n div 10 < 10")
      case True
      with False z [of "n div 10"] show ?thesis by (simp add: e dec.simps [of "n div 10"])
    next
      case nine: False
      then have "1 < length (dec (n div 10))" by (simp add: dec.simps [of "n div 10"])
      with 1(1) [OF False] show ?thesis by (simp add: e nth_append)
    qed
  qed
qed

lemma parse_number_dec [simp]: "parse_number (dec (unat n)) = Inr n"
  using dec_no_leading_zero [of "unat n"]
  by (auto simp: parse_number_def validNumericIdentifier_def dec_digits)

lemma identifier_char_excludes:
  "\<not> identifier_char (CHR ''.'')" "\<not> identifier_char (CHR ''+'')" "\<not> is_digit (CHR ''.'')" "\<not> is_digit (CHR ''+'')"
  "\<not> is_digit (CHR ''-'')"
  by code_simp+

lemma identifier_char_graphic: "identifier_char c \<Longrightarrow> graphic c"
  by (auto simp: identifier_char_def is_digit_def graphic_def less_eq_char_def)

lemma identifiers_no_dot: "validSemanticIdentifiers ps b \<Longrightarrow> p \<in> set ps \<Longrightarrow> CHR ''.'' \<notin> set p"
  using identifier_char_excludes(1) by (auto simp: validSemanticIdentifiers_def list_all_iff)

lemma set_join: "set (join c ps) \<subseteq> insert c (\<Union> (set ` set ps))"
  by (induction c ps rule: join.induct) auto

lemma identifiers_chars:
  "validSemanticIdentifiers ps b \<Longrightarrow> x \<in> set (join (CHR ''.'') ps) \<Longrightarrow> identifier_char x \<or> x = CHR ''.''"
  using set_join [of "CHR ''.''" ps] by (auto simp: validSemanticIdentifiers_def list_all_iff)

lemma core_chars:
  "x \<in> set (dec a @ ''.'' @ dec b @ ''.'' @ dec c) \<Longrightarrow> is_digit x \<or> x = CHR ''.''"
  using dec_digits by (auto simp: list_all_iff)

text \<open>A string of printable ASCII characters is not trimmed.\<close>

lemma space_runes_last: "list_all (\<lambda>w. w \<noteq> '''' \<and> \<not> graphic (last w)) space_runes"
  by (simp add: space_runes_def graphic_def)

lemma TrimSpace_graphic:
  assumes "list_all graphic s"
  shows "TrimSpace s = s"
proof (cases s)
  case Nil
  then show ?thesis
    by (simp add: TrimSpace_def trim_left.simps trim_right.simps leading_space_def trailing_space_def find_None_iff
        space_runes_def has_prefix_def has_suffix_def)
next
  case (Cons c t)
  have "trailing_space s = None"
    unfolding trailing_space_def find_None_iff
  proof (intro notI, elim exE conjE)
    fix w assume w: "w \<in> set space_runes" "has_suffix w s"
    then have "w \<noteq> ''''" "\<not> graphic (last w)" using space_runes_last by (auto simp: list_all_iff)
    moreover have "set w \<subseteq> set s" using w(2) by (metis has_suffix_def set_drop_subset)
    ultimately show False using assms by (metis last_in_set list_all_iff subsetD)
  qed
  moreover have "leading_space s = None" using assms Cons by (simp add: leading_space_graphic)
  ultimately show ?thesis by (simp add: TrimSpace_def trim_left.simps [of s] trim_right.simps [of s])
qed

lemma print_parse:
  assumes "version_ok v"
  shows "ParseSemanticVersion (SemanticVersion_String v) = Inr v"
proof -
  define a where "a = dec (unat (ver_Major v)) @ ''.'' @ dec (unat (ver_Minor v)) @ ''.'' @ dec (unat (ver_Patch v))"
  define q where "q = a @ (if ver_Prerelease v \<noteq> [] then ''-'' @ join (CHR ''.'') (ver_Prerelease v) else [])"
  define s where "s = SemanticVersion_String v"
  have s: "s = q @ (if ver_Build v \<noteq> [] then ''+'' @ join (CHR ''.'') (ver_Build v) else [])"
    by (simp add: s_def q_def a_def SemanticVersion_String_def)
  have pre: "ver_Prerelease v \<noteq> [] \<Longrightarrow> validSemanticIdentifiers (ver_Prerelease v) True"
    and bld: "ver_Build v \<noteq> [] \<Longrightarrow> validSemanticIdentifiers (ver_Build v) False"
    using assms by (auto simp: version_ok_def)
  have ca: "is_digit x \<or> x = CHR ''.''" if "x \<in> set a" for x using that core_chars unfolding a_def by blast
  have cq: "identifier_char x \<or> x = CHR ''.''" if "x \<in> set q" for x
    using that ca [of x] identifiers_chars [OF pre] by (auto simp: q_def identifier_char_def split: if_splits)
  have minus: "CHR ''-'' \<notin> set a" using ca identifier_char_excludes by auto
  have plus: "CHR ''+'' \<notin> set q" using cq identifier_char_excludes by auto
  have plus2: "CHR ''+'' \<notin> set (join (CHR ''.'') (ver_Build v))" if "ver_Build v \<noteq> []"
    using identifiers_chars [OF bld [OF that]] identifier_char_excludes by auto
  have "list_all graphic s"
    using cq identifiers_chars [OF bld] identifier_char_graphic
    by (fastforce simp: s list_all_iff graphic_def split: if_splits)
  then have trim: "TrimSpace s = s" by (rule TrimSpace_graphic)
  have count: "\<not> 1 < length (filter (\<lambda>c. c = CHR ''+'') s)"
  proof -
    have f: "filter (\<lambda>c. c = CHR ''+'') x = []" if "CHR ''+'' \<notin> set x" for x
      using that by (auto simp: filter_empty_conv)
    show ?thesis using f [OF plus] f [OF plus2] by (simp add: s)
  qed
  have vb: "split2 (CHR ''+'') s = (if ver_Build v \<noteq> [] then [q, join (CHR ''.'') (ver_Build v)] else [q])"
    using plus by (simp add: s split2_append split2_no_sep)
  have vp: "split2 (CHR ''-'') q = (if ver_Prerelease v \<noteq> [] then [a, join (CHR ''.'') (ver_Prerelease v)] else [a])"
    using minus by (simp add: q_def split2_append split2_no_sep)
  have core: "split (CHR ''.'') a = [dec (unat (ver_Major v)), dec (unat (ver_Minor v)), dec (unat (ver_Patch v))]"
    using identifier_char_excludes(3) by (simp add: a_def split_append split_no_sep not_digit_in_dec)
  have sp: "ver_Prerelease v \<noteq> [] \<Longrightarrow> split (CHR ''.'') (join (CHR ''.'') (ver_Prerelease v)) = ver_Prerelease v"
    and sb: "ver_Build v \<noteq> [] \<Longrightarrow> split (CHR ''.'') (join (CHR ''.'') (ver_Build v)) = ver_Build v"
    using split_join identifiers_no_dot [OF pre] identifiers_no_dot [OF bld] by auto
  have ne: "s \<noteq> ''''" "length s \<le> MaxSemanticVersionLength"
    using assms by (auto simp: s q_def a_def version_ok_def s_def [symmetric])
  show ?thesis
    using ne trim count pre bld
    by (cases "ver_Prerelease v = []"; cases "ver_Build v = []")
       (simp_all flip: s_def, simp_all add: ParseSemanticVersion_def Let_def vb vp core sp sb)
qed

lemma parse_ok:
  assumes "ParseSemanticVersion s = Inr v"
  shows "version_ok v"
proof -
  have "(ver_Prerelease v = [] \<or> validSemanticIdentifiers (ver_Prerelease v) True)
      \<and> (ver_Build v = [] \<or> validSemanticIdentifiers (ver_Build v) False) \<and> length s \<le> MaxSemanticVersionLength"
    using assms by (auto simp: ParseSemanticVersion_def version_error_def Let_def split: if_splits)
  then show ?thesis using parse_print [OF assms] by (simp add: version_ok_def)
qed

section \<open>Numeric identifiers\<close>

lemma snoc_less:
  fixes xs ys :: string
  assumes "length xs = length ys"
  shows "xs @ [a] < ys @ [b] \<longleftrightarrow> xs < ys \<or> xs = ys \<and> a < b"
  using assms by (induction xs ys rule: list_induct2) auto

lemma digit_less: "m < 10 \<Longrightarrow> n < 10 \<Longrightarrow> digit m < digit n \<longleftrightarrow> m < n"
  by (simp add: less_char_def of_char_digit)

lemma length_dec_mono: "m \<le> n \<Longrightarrow> length (dec m) \<le> length (dec n)"
proof (induction n arbitrary: m rule: dec.induct)
  case (1 n)
  show ?case
  proof (cases "m < 10")
    case True
    then show ?thesis by (cases "n < 10") (simp_all add: dec.simps [of m] dec.simps [of n])
  next
    case False
    with 1(2) have "\<not> n < 10" "m div 10 \<le> n div 10" by (simp_all add: div_le_mono)
    with False 1(1) show ?thesis by (simp add: dec.simps [of m] dec.simps [of n])
  qed
qed

lemma dec_less: "length (dec m) = length (dec n) \<Longrightarrow> dec m < dec n \<longleftrightarrow> m < n"
proof (induction n arbitrary: m rule: dec.induct)
  case (1 n)
  show ?case
  proof (cases "n < 10")
    case True
    with 1(2) have "m < 10" by (cases "m < 10") (simp_all add: dec.simps [of m] dec.simps [of n])
    with True show ?thesis by (simp add: dec.simps [of m] dec.simps [of n] digit_less)
  next
    case False
    with 1(2) have m: "\<not> m < 10" by (cases "m < 10") (simp_all add: dec.simps [of m] dec.simps [of n])
    with 1(2) False have len: "length (dec (m div 10)) = length (dec (n div 10))"
      by (simp add: dec.simps [of m] dec.simps [of n])
    have "dec m < dec n \<longleftrightarrow> m div 10 < n div 10 \<or> m div 10 = n div 10 \<and> m mod 10 < n mod 10"
      using snoc_less [OF len] 1(1) [OF False len] m False by (simp add: dec.simps [of m] dec.simps [of n] digit_less)
    also have "\<dots> \<longleftrightarrow> m < n"
      using div_mult_mod_eq [of m 10] div_mult_mod_eq [of n 10] by linarith
    finally show ?thesis .
  qed
qed

lemma validNumericIdentifier_dec [simp]: "validNumericIdentifier (dec n)"
  using dec_no_leading_zero [of n] by (auto simp: validNumericIdentifier_def dec_digits)

lemma compare_dec: "compareSemanticIdentifier (dec m) (dec n) = cmp m n"
proof -
  have "cmp (length (dec m)) (length (dec n)) \<noteq> 0 \<Longrightarrow> cmp (length (dec m)) (length (dec n)) = cmp m n"
    using length_dec_mono [of m n] length_dec_mono [of n m] by (cases m n rule: linorder_cases) (auto simp: cmp_def)
  moreover have "length (dec m) = length (dec n) \<Longrightarrow> cmp (dec m) (dec n) = cmp m n"
    using dec_less [of m n] dec_less [of n m] by (simp add: cmp_def)
  ultimately show ?thesis
    by (auto simp: compareSemanticIdentifier_key identifier_key_def cmp_pair cmp_simps)
qed

section \<open>Properties\<close>

text \<open>
  C34: Parsing and printing are inverse: a string is accepted with a result exactly when that result is a
  well-formed version of at most 128 bytes whose printed form is the string. So every accepted string
  is canonical and every well-formed version can be read back.
\<close>

theorem semver_roundtrip:
  "ParseSemanticVersion s = Inr v \<longleftrightarrow> version_ok v \<and> SemanticVersion_String v = s"
  using parse_ok [of s v] parse_print [of s v] print_parse [of v] by blast

text \<open>
  Precedence is the lexicographic order of the version keys, so it is total and transitive; exchanging
  the sides changes the sign; and two versions are equal in precedence exactly when they differ at most
  in build metadata. Numeric identifiers are compared by value, at any length.
\<close>

theorem semver_precedence:
  "CompareSemanticVersion l r = cmp (version_key l) (version_key r)
   \<and> CompareSemanticVersion r l = - CompareSemanticVersion l r
   \<and> (CompareSemanticVersion l r = 0 \<longleftrightarrow> l\<lparr>ver_Build := []\<rparr> = r\<lparr>ver_Build := []\<rparr>)
   \<and> compareSemanticIdentifier (dec m) (dec n) = cmp m n"
proof -
  have "version_key l = version_key r \<longleftrightarrow> l\<lparr>ver_Build := []\<rparr> = r\<lparr>ver_Build := []\<rparr>"
    using inj_map_eq_map [of identifier_key "ver_Prerelease l" "ver_Prerelease r"]
    by (cases l; cases r) (auto simp: version_key_def inj_def)
  then show ?thesis
    using compare_dec cmp_swap [of "version_key r" "version_key l"] by (simp add: CompareSemanticVersion_key cmp_simps)
qed

text \<open>
  A valid version range is a non-empty interval of the precedence order: it contains its minimum, not
  its maximum, and with two versions every parsable version between them, whatever its build metadata.
\<close>

theorem version_range_interval:
  assumes "VersionRange_Validate r = None"
  shows "VersionRange_Contains r (vr_MinimumInclusive r) \<and> \<not> VersionRange_Contains r (vr_MaximumExclusive r)
    \<and> (\<forall>a b c x y z. VersionRange_Contains r a \<and> VersionRange_Contains r c
         \<and> ParseSemanticVersion a = Inr x \<and> ParseSemanticVersion b = Inr y \<and> ParseSemanticVersion c = Inr z
         \<and> CompareSemanticVersion x y \<le> 0 \<and> CompareSemanticVersion y z \<le> 0 \<longrightarrow> VersionRange_Contains r b)"
proof -
  obtain lo hi where p: "ParseSemanticVersion (vr_MinimumInclusive r) = Inr lo"
    "ParseSemanticVersion (vr_MaximumExclusive r) = Inr hi" "CompareSemanticVersion lo hi < 0"
    using assms by (auto simp: VersionRange_Validate_def not_le split: sum.splits)
  have le: "CompareSemanticVersion u w \<le> 0 \<longleftrightarrow> version_key u \<le> version_key w" for u w
    by (auto simp: CompareSemanticVersion_key cmp_def)
  have c: "VersionRange_Contains r s \<longleftrightarrow>
      (\<exists>v. ParseSemanticVersion s = Inr v \<and> version_key lo \<le> version_key v \<and> version_key v < version_key hi)" for s
    using assms p parse_print [of s]
    by (auto simp: VersionRange_Contains_def CompareSemanticVersion_key cmp_simps split: sum.splits)
  show ?thesis
    using p unfolding c le by (auto simp: CompareSemanticVersion_key cmp_simps)
qed

lemma version_range_interval_witness:
  "VersionRange_Contains \<lparr>vr_MinimumInclusive = ''1.2.0-rc.1'', vr_MaximumExclusive = ''2.0.0''\<rparr> ''1.2.0-rc.1''"
proof -
  let ?v = "\<lparr>ver_Major = 1, ver_Minor = 2, ver_Patch = 0, ver_Prerelease = [''rc'', ''1''], ver_Build = []\<rparr>"
  let ?w = "\<lparr>ver_Major = 2, ver_Minor = 0, ver_Patch = 0, ver_Prerelease = [], ver_Build = []\<rparr>"
  have d: "digit 0 = CHR ''0''" "digit (Suc 0) = CHR ''1''" "digit 2 = CHR ''2''" by code_simp+
  have s: "SemanticVersion_String ?v = ''1.2.0-rc.1''" "SemanticVersion_String ?w = ''2.0.0''"
    by (simp_all add: SemanticVersion_String_def dec.simps d)
  have "version_ok ?v" "version_ok ?w"
    by (simp_all add: version_ok_def s validSemanticIdentifiers_def identifier_char_def is_digit_def less_eq_char_def
        MaxSemanticVersionLength_def)
  then have "ParseSemanticVersion ''1.2.0-rc.1'' = Inr ?v" "ParseSemanticVersion ''2.0.0'' = Inr ?w"
    using print_parse [of ?v] print_parse [of ?w] by (simp_all only: s)
  then have "VersionRange_Validate \<lparr>vr_MinimumInclusive = ''1.2.0-rc.1'', vr_MaximumExclusive = ''2.0.0''\<rparr> = None"
    by (simp add: VersionRange_Validate_def s CompareSemanticVersion_def)
  from version_range_interval [OF this] show ?thesis by simp
qed

end
