(* ===== verification/Names.thy ===== *)
theory Names
  imports SemVer Digest
begin

text \<open>
  The names, schemas and opaque payloads that every governed fact is built from
  (\<open>runtime/ports/binding_v2_types.go\<close> and \<open>binding_v2_validate.go\<close>), and the bounded identifiers of
  \<open>runtime/ports/evidence_v2.go\<close>. A name is \<open>namespace/name\<close> in lower-case ASCII; a schema is known by
  the key joined from its parts, which is shown to determine them.
\<close>

section \<open>Namespaced names\<close>

definition is_lower :: "char \<Rightarrow> bool" where
  "is_lower c \<longleftrightarrow> 97 \<le> (of_char c :: nat) \<and> (of_char c :: nat) \<le> 122"

definition name_char :: "bool \<Rightarrow> char \<Rightarrow> bool" where
  "name_char namespace c \<longleftrightarrow>
     is_lower c \<or> is_digit c \<or> c = CHR ''-''
     \<or> (if namespace then c = CHR ''.'' else c = CHR ''_'' \<or> c = CHR ''.'')"

definition validLowerASCIIName :: "string \<Rightarrow> bool \<Rightarrow> bool" where
  "validLowerASCIIName value namespace \<longleftrightarrow>
     (if value = '''' \<or> length value > 63 \<or> \<not> is_lower (hd value) then False
      else (is_lower (last value) \<or> is_digit (last value)) \<and> list_all (name_char namespace) value)"

definition ValidateNamespacedNameV2 :: "string \<Rightarrow> go_error option" where [validate_defs]:
  "ValidateNamespacedNameV2 raw =
     first_err
      [fail_if (length raw < 3 \<or> length raw > 128 \<or> count_list raw CHR ''/'' \<noteq> 1)
         ErrorInvalidArgument ReasonInvalidNamespace,
       (let parts = split CHR ''/'' raw in
        fail_if (\<not> validLowerASCIIName (parts ! 0) True \<or> \<not> validLowerASCIIName (parts ! 1) False)
          ErrorInvalidArgument ReasonInvalidNamespace)]"

section \<open>Schemas\<close>

record SchemaRefV2 =
  schema_Namespace :: string
  schema_Name :: string
  schema_Version :: string
  schema_MediaType :: string
  schema_ContentDigest :: Digest

definition SchemaRefV2_Key :: "SchemaRefV2 \<Rightarrow> string" where
  "SchemaRefV2_Key s = schema_Namespace s @ ''/'' @ schema_Name s @ ''@'' @ schema_Version s @ '';''
     @ schema_MediaType s @ '';'' @ schema_ContentDigest s"

text \<open>
  \<open>strings.ToLower\<close> on the ASCII letters; a string with any other byte is refused by the loop over the
  characters whatever this comparison says.
\<close>

definition ToLower :: "string \<Rightarrow> string" where
  "ToLower = map (\<lambda>c. if 65 \<le> (of_char c :: nat) \<and> (of_char c :: nat) \<le> 90 then char_of ((of_char c :: nat) + 32) else c)"

definition validMediaType :: "string \<Rightarrow> bool" where
  "validMediaType value \<longleftrightarrow>
     (if value = '''' \<or> length value > 128 \<or> value \<noteq> ToLower value \<or> count_list value CHR ''/'' \<noteq> 1
         \<or> TrimSpace value \<noteq> value
      then False
      else list_all (\<lambda>c. is_lower c \<or> is_digit c \<or> c \<in> set ''!#$&^_.+-/'') value)"

definition SchemaRefV2_Validate :: "SchemaRefV2 \<Rightarrow> go_error option" where [validate_defs]:
  "SchemaRefV2_Validate s =
     first_err
      [fail_if (\<not> validLowerASCIIName (schema_Namespace s) True \<or> \<not> validLowerASCIIName (schema_Name s) False)
         ErrorInvalidArgument ReasonInvalidNamespace,
       (case ParseSemanticVersion (schema_Version s) of
          Inl e \<Rightarrow> Some (DomainError ErrorInvalidArgument ReasonInvalidSemanticVersion)
        | Inr v \<Rightarrow> fail_if (SemanticVersion_String v \<noteq> schema_Version s) ErrorInvalidArgument ReasonInvalidSemanticVersion),
       fail_if (\<not> validMediaType (schema_MediaType s)) ErrorInvalidArgument ReasonInvalidReference,
       Digest_Validate (schema_ContentDigest s)]"

section \<open>Opaque payloads\<close>

definition MaxOpaqueDeclaredBytes :: u64 where
  "MaxOpaqueDeclaredBytes = push_bit 20 64"

definition MaxOpaqueInlineBytes :: nat where
  "MaxOpaqueInlineBytes = 256 * 1024"

definition MaxOpaqueReferenceBytes :: nat where
  "MaxOpaqueReferenceBytes = 2048"

record OpaqueLimitPolicyRefV2 =
  olp_Policy :: string
  olp_Digest :: Digest

record OpaquePayloadV2 =
  op2_Schema :: SchemaRefV2
  op2_ContentDigest :: Digest
  op2_Length :: u64
  op2_Inline :: "string option"
  op2_Ref :: string
  op2_LimitPolicy :: OpaqueLimitPolicyRefV2

definition OpaquePayloadV2_Validate :: "OpaquePayloadV2 \<Rightarrow> go_error option" where [validate_defs]:
  "OpaquePayloadV2_Validate p =
     first_err
      [SchemaRefV2_Validate (op2_Schema p),
       Digest_Validate (op2_ContentDigest p),
       ValidateNamespacedNameV2 (olp_Policy (op2_LimitPolicy p)),
       Digest_Validate (olp_Digest (op2_LimitPolicy p)),
       fail_if (op2_Length p = 0 \<or> op2_Length p > MaxOpaqueDeclaredBytes) ErrorInvalidArgument ReasonCanonicalLimitExceeded,
       fail_if ((op2_Inline p \<noteq> None) = (op2_Ref p \<noteq> '''')) ErrorInvalidArgument ReasonInvalidReference,
       (case op2_Inline p of
          Some body \<Rightarrow>
            first_err
             [fail_if (length body > MaxOpaqueInlineBytes \<or> word_of_nat (length body) \<noteq> op2_Length p)
                ErrorInvalidArgument ReasonCanonicalLimitExceeded,
              fail_if (DigestBytes body \<noteq> op2_ContentDigest p) ErrorPreconditionFailed ReasonInvalidDigest]
        | None \<Rightarrow>
            fail_if (length (op2_Ref p) > MaxOpaqueReferenceBytes \<or> TrimSpace (op2_Ref p) \<noteq> op2_Ref p)
              ErrorInvalidArgument ReasonInvalidReference)]"

record GovernanceExtensionV2 =
  ext_Key :: string
  ext_Required :: bool
  ext_Payload :: OpaquePayloadV2

fun extensions_error :: "string set \<Rightarrow> GovernanceExtensionV2 list \<Rightarrow> go_error option" where
  "extensions_error seen [] = None"
| "extensions_error seen (x # xs) =
     (case first_err
        [ValidateNamespacedNameV2 (ext_Key x), OpaquePayloadV2_Validate (ext_Payload x),
         fail_if (ext_Key x \<in> seen) ErrorConflict ReasonDuplicateCanonicalKey] of
        Some e \<Rightarrow> Some e
      | None \<Rightarrow> extensions_error (insert (ext_Key x) seen) xs)"

definition validateExtensionsV2 :: "GovernanceExtensionV2 list \<Rightarrow> go_error option" where [validate_defs]:
  "validateExtensionsV2 xs = extensions_error {} xs"

section \<open>Bounded identifiers\<close>

definition validateEvidenceIDV2 :: "string \<Rightarrow> go_error option" where [validate_defs]:
  "validateEvidenceIDV2 value =
     first_err
      [fail_if (TrimSpace value \<noteq> value \<or> length value = 0 \<or> length value > 256) ErrorInvalidArgument ReasonInvalidReference,
       fail_if (\<not> list_all (\<lambda>c. 0x21 \<le> (of_char c :: nat) \<and> (of_char c :: nat) \<le> 0x7e) value)
         ErrorInvalidArgument ReasonInvalidReference]"

section \<open>What valid names look like\<close>

lemma is_lower_graphic: "is_lower c \<Longrightarrow> graphic c"
  by (simp add: is_lower_def graphic_def)

lemma is_digit_graphic: "is_digit c \<Longrightarrow> graphic c"
  by (simp add: is_digit_def graphic_def)

lemma sign_graphic: "graphic CHR ''-''" "graphic CHR ''.''" "graphic CHR ''_''" "graphic CHR ''/''"
  by (simp_all add: graphic_def)

lemma name_char_graphic: "name_char b c \<Longrightarrow> graphic c"
  using is_lower_graphic is_digit_graphic sign_graphic by (auto simp: name_char_def split: if_splits)

lemma name_char_excludes: "name_char b c \<Longrightarrow> c \<noteq> CHR ''/'' \<and> c \<noteq> CHR ''@'' \<and> c \<noteq> CHR '';''"
  by (auto simp: name_char_def is_lower_def is_digit_def split: if_splits)

lemma valid_name_chars: "validLowerASCIIName s b \<Longrightarrow> c \<in> set s \<Longrightarrow> name_char b c"
  by (auto simp: validLowerASCIIName_def list_all_iff split: if_splits)

lemma count_one_split:
  assumes "count_list s c = 1"
  obtains p q where "s = p @ c # q" "c \<notin> set p" "c \<notin> set q"
proof -
  from assms have "c \<in> set s" by (metis count_notin zero_neq_one)
  then obtain p q where s: "s = p @ c # q" "c \<notin> set p" by (metis split_list_first)
  with assms have "c \<notin> set q" by (simp add: count_list_0_iff)
  with s that show thesis by blast
qed

text \<open>A namespaced name is a namespace, a slash and a name; in particular its bytes are printable.\<close>

lemma namespaced_split:
  assumes "ValidateNamespacedNameV2 s = None"
  obtains p q where "s = p @ CHR ''/'' # q" "validLowerASCIIName p True" "validLowerASCIIName q False"
proof -
  from assms have c: "count_list s CHR ''/'' = 1" and
    v: "validLowerASCIIName (split CHR ''/'' s ! 0) True" "validLowerASCIIName (split CHR ''/'' s ! 1) False"
    by (simp_all add: ValidateNamespacedNameV2_def Let_def)
  from count_one_split [OF c] obtain p q where s: "s = p @ CHR ''/'' # q" "CHR ''/'' \<notin> set p" "CHR ''/'' \<notin> set q"
    by blast
  then have "split CHR ''/'' s = [p, q]" by (simp add: split_append split_no_sep)
  with that s(1) v show thesis by simp
qed

lemma namespaced_graphic:
  assumes "ValidateNamespacedNameV2 s = None" "c \<in> set s"
  shows "graphic c"
  using namespaced_split [OF assms(1)] assms(2) name_char_graphic valid_name_chars sign_graphic(4)
  by (metis Un_iff set_ConsD set_append)

lemma evidence_id_graphic: "validateEvidenceIDV2 s = None \<Longrightarrow> list_all graphic s \<and> s \<noteq> '''' \<and> length s \<le> 256"
  by (auto simp: validateEvidenceIDV2_def list_all_iff graphic_def)

lemma evidence_id_ok: "list_all graphic s \<Longrightarrow> s \<noteq> '''' \<Longrightarrow> length s \<le> 256 \<Longrightarrow> validateEvidenceIDV2 s = None"
  by (simp add: validateEvidenceIDV2_def TrimSpace_graphic) (simp add: list_all_iff graphic_def)

section \<open>The schema key\<close>

lemma version_chars:
  assumes "ParseSemanticVersion s = Inr v" "x \<in> set s"
  shows "identifier_char x \<or> x = CHR ''.'' \<or> x = CHR ''+''"
proof -
  have ok: "version_ok v" and s: "s = SemanticVersion_String v"
    using parse_ok [OF assms(1)] parse_print [OF assms(1)] by simp_all
  have d: "is_digit x \<Longrightarrow> identifier_char x" by (simp add: identifier_char_def)
  have m: "identifier_char CHR ''-''" by (simp add: identifier_char_def)
  from assms(2) have "x \<in> set (dec (unat (ver_Major v)) @ ''.'' @ dec (unat (ver_Minor v)) @ ''.'' @ dec (unat (ver_Patch v)))
      \<or> x = CHR ''-'' \<or> x = CHR ''+''
      \<or> ver_Prerelease v \<noteq> [] \<and> x \<in> set (join (CHR ''.'') (ver_Prerelease v))
      \<or> ver_Build v \<noteq> [] \<and> x \<in> set (join (CHR ''.'') (ver_Build v))"
    by (auto simp: s SemanticVersion_String_def split: if_splits)
  then show ?thesis
    using core_chars [of x] d m ok identifiers_chars [of _ _ x] unfolding version_ok_def by metis
qed

lemma version_no_semicolon:
  assumes "ParseSemanticVersion s = Inr v" shows "CHR '';'' \<notin> set s"
proof
  assume "CHR '';'' \<in> set s"
  then have "identifier_char CHR '';''" using version_chars [OF assms] by auto
  then show False by (simp add: identifier_char_def is_digit_def less_eq_char_def)
qed

lemma split_first_sep:
  "c \<notin> set p \<Longrightarrow> c \<notin> set p' \<Longrightarrow> p @ c # q = p' @ c # q' \<longleftrightarrow> p = p' \<and> q = q'"
  by (auto simp: append_eq_append_conv2 Cons_eq_append_conv append_eq_Cons_conv)

lemma schema_parts:
  assumes "SchemaRefV2_Validate s = None"
  shows "CHR ''/'' \<notin> set (schema_Namespace s)" "CHR ''@'' \<notin> set (schema_Name s)"
    "CHR '';'' \<notin> set (schema_Version s)" "CHR '';'' \<notin> set (schema_MediaType s)"
proof -
  from assms have n: "validLowerASCIIName (schema_Namespace s) True" "validLowerASCIIName (schema_Name s) False"
    by (simp_all add: SchemaRefV2_Validate_def)
  show "CHR ''/'' \<notin> set (schema_Namespace s)" "CHR ''@'' \<notin> set (schema_Name s)"
    using valid_name_chars [OF n(1)] valid_name_chars [OF n(2)] name_char_excludes by blast+
  from assms obtain v where "ParseSemanticVersion (schema_Version s) = Inr v"
    by (auto simp: SchemaRefV2_Validate_def split: sum.splits)
  then show "CHR '';'' \<notin> set (schema_Version s)" by (rule version_no_semicolon)
  from assms have "validMediaType (schema_MediaType s)" by (simp add: SchemaRefV2_Validate_def)
  then show "CHR '';'' \<notin> set (schema_MediaType s)"
    by (auto simp: validMediaType_def list_all_iff is_lower_def is_digit_def split: if_splits)
qed

lemma schema_key_inject:
  assumes "SchemaRefV2_Validate s = None" "SchemaRefV2_Validate t = None" "SchemaRefV2_Key s = SchemaRefV2_Key t"
  shows "s = t"
  using assms(3) schema_parts [OF assms(1)] schema_parts [OF assms(2)]
  by (cases s; cases t) (simp add: SchemaRefV2_Key_def split_first_sep)

end
