(* ===== verification/EffectV2.thy ===== *)
theory EffectV2
  imports Names Fence
begin

text \<open>
  \<open>runtime/ports/effect_v2.go\<close>: the governed effect intent with the references it binds, the dispatch
  permit, and the gate an execution point applies before it acts on a permit. What \<open>json.Marshal\<close>
  returns for a hashed value is an argument, the record \<open>effect_json\<close>. A Go slice that is \<open>nil\<close> and an
  empty one are both the empty list; the code makes them equal before hashing.
\<close>

section \<open>References\<close>

definition EffectContractVersionV2 :: string where
  "EffectContractVersionV2 = ''praxis.runtime.effect/v2''"

definition MaxDispatchPermitTTL :: Duration where
  "MaxDispatchPermitTTL = 30 * 1000000000"

datatype OwnerRoleV2 = OwnerEffect | OwnerSettlement | OwnerCleanup | OwnerRoleOther string

fun owner_role_string :: "OwnerRoleV2 \<Rightarrow> string" where
  "owner_role_string OwnerEffect = ''effect''"
| "owner_role_string OwnerSettlement = ''settlement''"
| "owner_role_string OwnerCleanup = ''cleanup''"
| "owner_role_string (OwnerRoleOther s) = s"

record ProviderBindingRefV2 =
  prov_BindingSetID :: string
  prov_BindingSetRevision :: Revision
  prov_ComponentID :: string
  prov_ManifestDigest :: Digest
  prov_ArtifactDigest :: Digest
  prov_Capability :: string

definition ProviderBindingRefV2_Validate :: "ProviderBindingRefV2 \<Rightarrow> go_error option" where [validate_defs]:
  "ProviderBindingRefV2_Validate r =
     first_err
      [fail_if (blank (prov_BindingSetID r) \<or> prov_BindingSetRevision r = 0) ErrorInvalidArgument ReasonProviderBindingStale,
       ValidateNamespacedNameV2 (prov_ComponentID r),
       ValidateNamespacedNameV2 (prov_Capability r),
       Digest_Validate (prov_ManifestDigest r),
       Digest_Validate (prov_ArtifactDigest r)]"

record EffectOwnerRefV2 =
  eo_Role :: OwnerRoleV2
  eo_ComponentID :: string
  eo_ManifestDigest :: Digest

record AuthorityBindingRefV2 =
  ab_Ref :: string
  ab_Digest :: Digest
  ab_Revision :: Revision
  ab_Epoch :: Epoch

definition AuthorityBindingRefV2_Validate :: "AuthorityBindingRefV2 \<Rightarrow> go_error option" where [validate_defs]:
  "AuthorityBindingRefV2_Validate r =
     first_err
      [fail_if (blank (ab_Ref r) \<or> ab_Revision r = 0 \<or> ab_Epoch r = 0) ErrorForbidden ReasonEffectAuthorizationMissing,
       Digest_Validate (ab_Digest r)]"

record ReviewBindingRefV2 =
  rb_Ref :: string
  rb_Digest :: Digest
  rb_Revision :: Revision
  rb_PolicyDigest :: Digest

definition ReviewBindingRefV2_Validate :: "ReviewBindingRefV2 \<Rightarrow> go_error option" where [validate_defs]:
  "ReviewBindingRefV2_Validate r =
     first_err
      [fail_if (blank (rb_Ref r) \<or> rb_Revision r = 0) ErrorForbidden ReasonReviewVerdictMissing,
       Digest_Validate (rb_Digest r), Digest_Validate (rb_PolicyDigest r)]"

record BudgetBindingRefV2 =
  bb_Ref :: string
  bb_Digest :: Digest
  bb_Revision :: Revision
  bb_PolicyDigest :: Digest

definition BudgetBindingRefV2_Validate :: "BudgetBindingRefV2 \<Rightarrow> go_error option" where [validate_defs]:
  "BudgetBindingRefV2_Validate r =
     first_err
      [fail_if (blank (bb_Ref r) \<or> bb_Revision r = 0) ErrorForbidden ReasonBudgetBindingMissing,
       Digest_Validate (bb_Digest r), Digest_Validate (bb_PolicyDigest r)]"

record DispatchPolicyBindingRefV2 =
  dp_Ref :: string
  dp_Digest :: Digest
  dp_Revision :: Revision

definition DispatchPolicyBindingRefV2_Validate :: "DispatchPolicyBindingRefV2 \<Rightarrow> go_error option" where [validate_defs]:
  "DispatchPolicyBindingRefV2_Validate r =
     first_err
      [fail_if (blank (dp_Ref r) \<or> dp_Revision r = 0) ErrorForbidden ReasonEffectAuthorizationMissing,
       Digest_Validate (dp_Digest r)]"

record ExecutionScopeBindingRefV2 =
  sb_Ref :: string
  sb_Digest :: Digest
  sb_Revision :: Revision

definition ExecutionScopeBindingRefV2_Validate :: "ExecutionScopeBindingRefV2 \<Rightarrow> go_error option" where [validate_defs]:
  "ExecutionScopeBindingRefV2_Validate r =
     first_err
      [fail_if (blank (sb_Ref r) \<or> sb_Revision r = 0) ErrorForbidden ReasonEffectFenceStale,
       Digest_Validate (sb_Digest r)]"

record CredentialLeaseRefV2 =
  cl_Ref :: string
  cl_Class :: string
  cl_ScopeDigest :: Digest
  cl_Epoch :: Epoch

definition CredentialLeaseRefV2_Validate :: "CredentialLeaseRefV2 \<Rightarrow> go_error option" where [validate_defs]:
  "CredentialLeaseRefV2_Validate r =
     first_err
      [fail_if (blank (cl_Ref r) \<or> blank (cl_Class r) \<or> cl_Epoch r = 0) ErrorInvalidArgument ReasonCredentialLeaseMissing,
       Digest_Validate (cl_ScopeDigest r)]"

datatype EffectStableScopeClassV2 = EffectStableScopeTenantV2 | EffectStableScopeOther string

record IdempotencyBindingV2 =
  ib_Key :: string
  ib_ScopeClass :: EffectStableScopeClassV2
  ib_ScopeDigest :: Digest
  ib_Class :: IdempotencyClass

definition IdempotencyBindingV2_Validate :: "IdempotencyBindingV2 \<Rightarrow> go_error option" where [validate_defs]:
  "IdempotencyBindingV2_Validate i =
     first_err
      [fail_if (blank (ib_Key i) \<or> length (ib_Key i) > 256) ErrorInvalidArgument ReasonInvalidReference,
       Digest_Validate (ib_ScopeDigest i),
       fail_if (ib_ScopeClass i \<noteq> EffectStableScopeTenantV2) ErrorInvalidArgument ReasonInvalidReference,
       (case ib_Class i of
          IdempotencyOther c \<Rightarrow> Some (DomainError ErrorInvalidArgument ReasonInvalidReference)
        | _ \<Rightarrow> None)]"

record ConflictDomainBindingV2 =
  cd_Domain :: string
  cd_ScopeClass :: EffectStableScopeClassV2
  cd_ScopeDigest :: Digest

definition StableTenantScopeDigestV2 :: "string \<Rightarrow> Digest" where
  "StableTenantScopeDigestV2 tenantID =
     DigestBytes (''praxis.runtime.effect/v2'' @ [CHR 0x00] @ ''tenant'' @ [CHR 0x00] @ tenantID)"

definition ConflictDomainBindingV2_ValidateForScope :: "ConflictDomainBindingV2 \<Rightarrow> ExecutionScope \<Rightarrow> go_error option" where [validate_defs]:
  "ConflictDomainBindingV2_ValidateForScope b scope =
     first_err
      [ValidateNamespacedNameV2 (cd_Domain b),
       fail_if (cd_ScopeClass b \<noteq> EffectStableScopeTenantV2
          \<or> cd_ScopeDigest b \<noteq> StableTenantScopeDigestV2 (ident_TenantID (scope_Identity scope)))
         ErrorPreconditionFailed ReasonEffectConflictDomainOccupied]"

record EffectRelationV2 =
  rel_CompensatesEffectID :: string
  rel_CompensatesEffectRevision :: Revision
  rel_InspectsEffectID :: string
  rel_InspectsEffectRevision :: Revision
  rel_CleansUpEffectID :: string
  rel_CleansUpEffectRevision :: Revision
  rel_ReviewsCaseID :: string
  rel_ReviewsCandidateRevision :: Revision

definition EffectRelationV2_Validate :: "EffectRelationV2 \<Rightarrow> string \<Rightarrow> Revision \<Rightarrow> go_error option" where [validate_defs]:
  "EffectRelationV2_Validate r selfID selfRevision =
     (let compensation = \<not> blank (rel_CompensatesEffectID r) \<or> rel_CompensatesEffectRevision r \<noteq> 0;
          inspection = \<not> blank (rel_InspectsEffectID r) \<or> rel_InspectsEffectRevision r \<noteq> 0;
          cleanup = \<not> blank (rel_CleansUpEffectID r) \<or> rel_CleansUpEffectRevision r \<noteq> 0;
          review = \<not> blank (rel_ReviewsCaseID r) \<or> rel_ReviewsCandidateRevision r \<noteq> 0 in
      first_err
       [fail_if (length (filter (\<lambda>present. present) [compensation, inspection, cleanup, review]) > 1)
          ErrorInvalidArgument ReasonInvalidReference,
        fail_if (compensation \<and> (blank (rel_CompensatesEffectID r) \<or> rel_CompensatesEffectRevision r = 0
            \<or> rel_CompensatesEffectID r = selfID \<and> rel_CompensatesEffectRevision r = selfRevision))
          ErrorInvalidArgument ReasonCompensationIncomplete,
        fail_if (inspection \<and> (blank (rel_InspectsEffectID r) \<or> rel_InspectsEffectRevision r = 0
            \<or> rel_InspectsEffectID r = selfID \<and> rel_InspectsEffectRevision r = selfRevision))
          ErrorInvalidArgument ReasonEffectUnknownOutcome,
        fail_if (cleanup \<and> (blank (rel_CleansUpEffectID r) \<or> rel_CleansUpEffectRevision r = 0
            \<or> rel_CleansUpEffectID r = selfID \<and> rel_CleansUpEffectRevision r = selfRevision))
          ErrorInvalidArgument ReasonCleanupEvidenceIncomplete,
        fail_if (review \<and> (blank (rel_ReviewsCaseID r) \<or> rel_ReviewsCandidateRevision r = 0))
          ErrorInvalidArgument ReasonReviewRemoteEffectRequired])"

text \<open>The two loops over the owners: roles are known and distinct, then they are sorted as strings.\<close>

fun owners_error :: "OwnerRoleV2 set \<Rightarrow> EffectOwnerRefV2 list \<Rightarrow> go_error option" where
  "owners_error seen [] = None"
| "owners_error seen (x # xs) =
     (case first_err
        [fail_if (eo_Role x \<noteq> OwnerEffect \<and> eo_Role x \<noteq> OwnerSettlement \<and> eo_Role x \<noteq> OwnerCleanup)
           ErrorInvalidArgument ReasonOwnerConflict,
         fail_if (eo_Role x \<in> seen) ErrorConflict ReasonOwnerConflict,
         ValidateNamespacedNameV2 (eo_ComponentID x),
         Digest_Validate (eo_ManifestDigest x)] of
        Some e \<Rightarrow> Some e
      | None \<Rightarrow> owners_error (insert (eo_Role x) seen) xs)"

fun owners_sorted_error :: "EffectOwnerRefV2 list \<Rightarrow> go_error option" where
  "owners_sorted_error (x # y # xs) =
     (if owner_role_string (eo_Role y) < owner_role_string (eo_Role x)
      then Some (DomainError ErrorInvalidArgument ReasonInvalidCanonicalForm)
      else owners_sorted_error (y # xs))"
| "owners_sorted_error _ = None"

definition validateEffectOwnersV2 :: "EffectOwnerRefV2 list \<Rightarrow> go_error option" where [validate_defs]:
  "validateEffectOwnersV2 owners =
     first_err
      [fail_if (length owners \<noteq> 3) ErrorPreconditionFailed ReasonOwnerMissing,
       owners_error {} owners, owners_sorted_error owners]"

definition SameExecutionScopeV2 :: "ExecutionScope \<Rightarrow> ExecutionScope \<Rightarrow> bool" where
  "SameExecutionScopeV2 left right \<longleftrightarrow>
     (if scope_Identity left \<noteq> scope_Identity right \<or> scope_Lineage left \<noteq> scope_Lineage right
         \<or> scope_Instance left \<noteq> scope_Instance right \<or> scope_AuthorityEpoch left \<noteq> scope_AuthorityEpoch right
      then False
      else case (scope_SandboxLease left, scope_SandboxLease right) of
             (Some l, Some r) \<Rightarrow> l = r
           | (l, r) \<Rightarrow> l = None \<and> r = None)"

lemma SameExecutionScopeV2_eq [simp]: "SameExecutionScopeV2 s t \<longleftrightarrow> s = t"
  by (cases s; cases t) (auto simp: SameExecutionScopeV2_def split: option.splits)


section \<open>Effect intents\<close>

record EffectIntentV2 =
  ei2_ContractVersion :: string
  ei2_ID :: string
  ei2_Revision :: Revision
  ei2_Scope :: ExecutionScope
  ei2_RunID :: string
  ei2_Kind :: string
  ei2_RiskClass :: string
  ei2_ActionScopeDigest :: Digest
  ei2_Payload :: OpaquePayloadV2
  ei2_PayloadRevision :: Revision
  ei2_Target :: string
  ei2_ConflictDomain :: ConflictDomainBindingV2
  ei2_Owners :: "EffectOwnerRefV2 list"
  ei2_Provider :: ProviderBindingRefV2
  ei2_Authority :: AuthorityBindingRefV2
  ei2_Review :: ReviewBindingRefV2
  ei2_Budget :: BudgetBindingRefV2
  ei2_Policy :: DispatchPolicyBindingRefV2
  ei2_CurrentScope :: ExecutionScopeBindingRefV2
  ei2_Idempotency :: IdempotencyBindingV2
  ei2_CredentialLeases :: "CredentialLeaseRefV2 list"
  ei2_Relation :: EffectRelationV2
  ei2_MayLeaveRemoteResidual :: bool
  ei2_RequiresCleanup :: bool
  ei2_ExpiresUnixNano :: i64

definition credential_key :: "CredentialLeaseRefV2 \<Rightarrow> string" where
  "credential_key c = cl_Class c @ [CHR 0x00] @ cl_Ref c"

fun credentials_error :: "string set \<Rightarrow> string option \<Rightarrow> CredentialLeaseRefV2 list \<Rightarrow> go_error option" where
  "credentials_error seen previous [] = None"
| "credentials_error seen previous (c # cs) =
     (let key = credential_key c in
      case first_err
        [CredentialLeaseRefV2_Validate c,
         fail_if (key \<in> seen) ErrorConflict ReasonDuplicateCanonicalKey,
         fail_if (case previous of None \<Rightarrow> False | Some p \<Rightarrow> key < p) ErrorInvalidArgument ReasonInvalidCanonicalForm] of
        Some e \<Rightarrow> Some e
      | None \<Rightarrow> credentials_error (insert key seen) (Some key) cs)"

definition EffectIntentV2_validateV2 :: "bool \<Rightarrow> EffectIntentV2 \<Rightarrow> go_error option" where
  "EffectIntentV2_validateV2 allowPendingPolicyDigest i =
     first_err
      [fail_if (ei2_ContractVersion i \<noteq> EffectContractVersionV2 \<or> blank (ei2_ID i) \<or> ei2_Revision i = 0 \<or> blank (ei2_RunID i))
         ErrorInvalidArgument ReasonEffectIntentMissing,
       ExecutionScope_Validate (ei2_Scope i),
       ValidateNamespacedNameV2 (ei2_Kind i),
       ValidateNamespacedNameV2 (ei2_RiskClass i),
       fail_if (ei2_PayloadRevision i = 0 \<or> sint (ei2_ExpiresUnixNano i) \<le> 0 \<or> blank (ei2_Target i) \<or> length (ei2_Target i) > 512)
         ErrorInvalidArgument ReasonInvalidReference,
       ConflictDomainBindingV2_ValidateForScope (ei2_ConflictDomain i) (ei2_Scope i),
       Digest_Validate (ei2_ActionScopeDigest i),
       OpaquePayloadV2_Validate (ei2_Payload i),
       validateEffectOwnersV2 (ei2_Owners i),
       ProviderBindingRefV2_Validate (ei2_Provider i),
       AuthorityBindingRefV2_Validate (ei2_Authority i),
       ReviewBindingRefV2_Validate (ei2_Review i),
       BudgetBindingRefV2_Validate (ei2_Budget i),
       (if allowPendingPolicyDigest \<and> dp_Digest (ei2_Policy i) = ''''
        then fail_if (blank (dp_Ref (ei2_Policy i)) \<or> dp_Revision (ei2_Policy i) = 0) ErrorForbidden ReasonEffectAuthorizationMissing
        else DispatchPolicyBindingRefV2_Validate (ei2_Policy i)),
       ExecutionScopeBindingRefV2_Validate (ei2_CurrentScope i),
       IdempotencyBindingV2_Validate (ei2_Idempotency i),
       fail_if (ib_ScopeDigest (ei2_Idempotency i) \<noteq> StableTenantScopeDigestV2 (ident_TenantID (scope_Identity (ei2_Scope i))))
         ErrorPreconditionFailed ReasonInvalidReference,
       fail_if (length (ei2_CredentialLeases i) > 64) ErrorInvalidArgument ReasonCanonicalLimitExceeded,
       credentials_error {} None (ei2_CredentialLeases i),
       EffectRelationV2_Validate (ei2_Relation i) (ei2_ID i) (ei2_Revision i)]"

definition EffectIntentV2_Validate :: "EffectIntentV2 \<Rightarrow> go_error option" where
  "EffectIntentV2_Validate i = EffectIntentV2_validateV2 False i"

section \<open>Permits\<close>

record DispatchPermitV2 =
  pm_ContractVersion :: string
  pm_ID :: string
  pm_Revision :: Revision
  pm_AttemptID :: string
  pm_IntentID :: string
  pm_IntentRevision :: Revision
  pm_IntentDigest :: Digest
  pm_PayloadSchema :: SchemaRefV2
  pm_PayloadDigest :: Digest
  pm_PayloadRevision :: Revision
  pm_Scope :: ExecutionScope
  pm_RunID :: string
  pm_ConflictDomain :: ConflictDomainBindingV2
  pm_Provider :: ProviderBindingRefV2
  pm_EnforcementPoint :: ProviderBindingRefV2
  pm_Authority :: AuthorityBindingRefV2
  pm_Review :: ReviewBindingRefV2
  pm_ReviewVerdictDigest :: Digest
  pm_ReviewVerdictRevision :: Revision
  pm_ReviewSatisfactionRef :: string
  pm_ReviewSatisfactionDigest :: Digest
  pm_ReviewSatisfactionRevision :: Revision
  pm_Budget :: BudgetBindingRefV2
  pm_Policy :: DispatchPolicyBindingRefV2
  pm_CurrentScope :: ExecutionScopeBindingRefV2
  pm_CapabilityGrantDigest :: Digest
  pm_CredentialGrantDigest :: Digest
  pm_FenceDigest :: Digest
  pm_Idempotency :: IdempotencyBindingV2
  pm_IssuedUnixNano :: i64
  pm_ExpiresUnixNano :: i64

definition DispatchPermitV2_Validate :: "DispatchPermitV2 \<Rightarrow> go_error option" where
  "DispatchPermitV2_Validate p =
     first_err
      [fail_if (pm_ContractVersion p \<noteq> EffectContractVersionV2 \<or> blank (pm_ID p) \<or> pm_Revision p = 0 \<or> blank (pm_AttemptID p)
          \<or> blank (pm_IntentID p) \<or> pm_IntentRevision p = 0 \<or> pm_PayloadRevision p = 0 \<or> blank (pm_RunID p))
         ErrorInvalidArgument ReasonDispatchPermitInvalid,
       ExecutionScope_Validate (pm_Scope p),
       ConflictDomainBindingV2_ValidateForScope (pm_ConflictDomain p) (pm_Scope p),
       SchemaRefV2_Validate (pm_PayloadSchema p),
       first_err (map Digest_Validate
         [pm_IntentDigest p, pm_PayloadDigest p, pm_ReviewVerdictDigest p, pm_CapabilityGrantDigest p, pm_CredentialGrantDigest p,
          pm_FenceDigest p]),
       ProviderBindingRefV2_Validate (pm_Provider p),
       ProviderBindingRefV2_Validate (pm_EnforcementPoint p),
       fail_if (pm_EnforcementPoint p \<noteq> pm_Provider p) ErrorPreconditionFailed ReasonProviderBindingStale,
       AuthorityBindingRefV2_Validate (pm_Authority p),
       ReviewBindingRefV2_Validate (pm_Review p),
       fail_if (pm_ReviewVerdictRevision p = 0) ErrorInvalidArgument ReasonReviewVerdictMissing,
       fail_if ((\<not> blank (pm_ReviewSatisfactionRef p) \<or> pm_ReviewSatisfactionDigest p \<noteq> '''' \<or> pm_ReviewSatisfactionRevision p \<noteq> 0)
          \<and> (blank (pm_ReviewSatisfactionRef p) \<or> Digest_Validate (pm_ReviewSatisfactionDigest p) \<noteq> None
             \<or> pm_ReviewSatisfactionRevision p = 0))
         ErrorInvalidArgument ReasonReviewConditionUnsatisfied,
       BudgetBindingRefV2_Validate (pm_Budget p),
       DispatchPolicyBindingRefV2_Validate (pm_Policy p),
       ExecutionScopeBindingRefV2_Validate (pm_CurrentScope p),
       IdempotencyBindingV2_Validate (pm_Idempotency p),
       fail_if (sint (pm_IssuedUnixNano p) \<le> 0 \<or> sint (pm_ExpiresUnixNano p) \<le> sint (pm_IssuedUnixNano p)
          \<or> sint (pm_ExpiresUnixNano p - pm_IssuedUnixNano p) > sint MaxDispatchPermitTTL)
         ErrorInvalidArgument ReasonDispatchPermitInvalid]"

section \<open>Digests\<close>

text \<open>What \<open>json.Marshal\<close> returns for an intent, a permit and a fence; \<open>None\<close> is its error.\<close>

record effect_json =
  json_EffectIntent :: "EffectIntentV2 \<Rightarrow> string option"
  json_DispatchPermit :: "DispatchPermitV2 \<Rightarrow> string option"
  json_ExecutionFence :: "ExecutionFence \<Rightarrow> string option"

definition EffectIntentV2_DigestV2 :: "effect_json \<Rightarrow> EffectIntentV2 \<Rightarrow> Digest res" where
  "EffectIntentV2_DigestV2 J i =
     ensure (EffectIntentV2_Validate i)
      (CanonicalJSONDigest ''praxis.runtime.effect'' EffectContractVersionV2 ''EffectIntentV2'' (json_EffectIntent J i))"

definition PolicyCandidateDigestV2 :: "effect_json \<Rightarrow> EffectIntentV2 \<Rightarrow> Digest res" where
  "PolicyCandidateDigestV2 J i =
     ensure (EffectIntentV2_validateV2 True i)
      (CanonicalJSONDigest ''praxis.runtime.effect'' EffectContractVersionV2 ''EffectPolicyCandidateV2''
        (json_EffectIntent J
          (i\<lparr>ei2_Policy := \<lparr>dp_Ref = '''', dp_Digest = '''', dp_Revision = 0\<rparr>,
             ei2_Review := (ei2_Review i)\<lparr>rb_Digest := ''''\<rparr>\<rparr>)))"

definition DispatchPermitV2_DigestV2 :: "effect_json \<Rightarrow> DispatchPermitV2 \<Rightarrow> Digest res" where
  "DispatchPermitV2_DigestV2 J p =
     ensure (DispatchPermitV2_Validate p)
      (CanonicalJSONDigest ''praxis.runtime.effect'' EffectContractVersionV2 ''DispatchPermitV2'' (json_DispatchPermit J p))"

definition DigestExecutionFenceV2 :: "effect_json \<Rightarrow> ExecutionFence \<Rightarrow> Digest res" where
  "DigestExecutionFenceV2 J fence =
     ensure (ExecutionFence_Validate fence)
      (CanonicalJSONDigest ''praxis.runtime.effect'' EffectContractVersionV2 ''ExecutionFenceV2Binding'' (json_ExecutionFence J fence))"

section \<open>The gate at the execution point\<close>

record DispatchCurrentFactsV2 =
  dc_Scope :: ExecutionScope
  dc_CapabilityGrantDigest :: Digest
  dc_CredentialGrantDigest :: Digest
  dc_Provider :: ProviderBindingRefV2
  dc_EnforcementPoint :: ProviderBindingRefV2
  dc_Authority :: AuthorityBindingRefV2
  dc_Review :: ReviewBindingRefV2
  dc_ReviewVerdictDigest :: Digest
  dc_ReviewVerdictRevision :: Revision
  dc_ReviewSatisfactionRef :: string
  dc_ReviewSatisfactionDigest :: Digest
  dc_ReviewSatisfactionRevision :: Revision
  dc_Budget :: BudgetBindingRefV2
  dc_Policy :: DispatchPolicyBindingRefV2
  dc_CurrentScope :: ExecutionScopeBindingRefV2
  dc_FenceDigest :: Digest

definition ValidateDispatchAtExecutionPointV2 ::
  "effect_json \<Rightarrow> DispatchPermitV2 \<Rightarrow> EffectIntentV2 \<Rightarrow> ExecutionFence \<Rightarrow> DispatchCurrentFactsV2 \<Rightarrow> Time \<Rightarrow> go_error option" where
  "ValidateDispatchAtExecutionPointV2 J permit intent fence current now =
     first_err
      [DispatchPermitV2_Validate permit,
       EffectIntentV2_Validate intent,
       (case EffectIntentV2_DigestV2 J intent of
          Inl e \<Rightarrow> Some e
        | Inr intentDigest \<Rightarrow>
            first_err
             [fail_if (IsZero now \<or> \<not> Before now (TimeUnix0 (pm_ExpiresUnixNano permit))
                  \<or> \<not> Before now (TimeUnix0 (ei2_ExpiresUnixNano intent)))
                ErrorPreconditionFailed ReasonDispatchPermitExpired,
              fail_if (pm_IntentID permit \<noteq> ei2_ID intent \<or> pm_IntentRevision permit \<noteq> ei2_Revision intent
                  \<or> pm_IntentDigest permit \<noteq> intentDigest \<or> pm_PayloadSchema permit \<noteq> op2_Schema (ei2_Payload intent)
                  \<or> pm_PayloadDigest permit \<noteq> op2_ContentDigest (ei2_Payload intent)
                  \<or> pm_PayloadRevision permit \<noteq> ei2_PayloadRevision intent \<or> pm_RunID permit \<noteq> ei2_RunID intent
                  \<or> pm_ConflictDomain permit \<noteq> ei2_ConflictDomain intent \<or> pm_Provider permit \<noteq> ei2_Provider intent
                  \<or> pm_EnforcementPoint permit \<noteq> ei2_Provider intent \<or> pm_Authority permit \<noteq> ei2_Authority intent
                  \<or> pm_Review permit \<noteq> ei2_Review intent \<or> pm_Budget permit \<noteq> ei2_Budget intent
                  \<or> pm_Policy permit \<noteq> ei2_Policy intent \<or> pm_CurrentScope permit \<noteq> ei2_CurrentScope intent
                  \<or> pm_Idempotency permit \<noteq> ei2_Idempotency intent)
                ErrorPreconditionFailed ReasonDispatchPermitInvalid,
              fail_if (dc_Provider current \<noteq> pm_Provider permit \<or> dc_EnforcementPoint current \<noteq> pm_EnforcementPoint permit
                  \<or> dc_Authority current \<noteq> pm_Authority permit \<or> dc_Review current \<noteq> pm_Review permit
                  \<or> dc_ReviewVerdictDigest current \<noteq> pm_ReviewVerdictDigest permit
                  \<or> dc_ReviewVerdictRevision current \<noteq> pm_ReviewVerdictRevision permit
                  \<or> dc_ReviewSatisfactionRef current \<noteq> pm_ReviewSatisfactionRef permit
                  \<or> dc_ReviewSatisfactionDigest current \<noteq> pm_ReviewSatisfactionDigest permit
                  \<or> dc_ReviewSatisfactionRevision current \<noteq> pm_ReviewSatisfactionRevision permit
                  \<or> dc_Budget current \<noteq> pm_Budget permit \<or> dc_Policy current \<noteq> pm_Policy permit
                  \<or> dc_CurrentScope current \<noteq> pm_CurrentScope permit
                  \<or> dc_CapabilityGrantDigest current \<noteq> pm_CapabilityGrantDigest permit
                  \<or> dc_CredentialGrantDigest current \<noteq> pm_CredentialGrantDigest permit
                  \<or> dc_FenceDigest current \<noteq> pm_FenceDigest permit
                  \<or> \<not> SameExecutionScopeV2 (dc_Scope current) (pm_Scope permit))
                ErrorPreconditionFailed ReasonDispatchPermitInvalid,
              (case DigestExecutionFenceV2 J fence of
                 Inl e \<Rightarrow> Some (DomainError ErrorPreconditionFailed ReasonEffectFenceStale)
               | Inr fenceDigest \<Rightarrow>
                   fail_if (fenceDigest \<noteq> pm_FenceDigest permit \<or> fe_EffectIntentID fence \<noteq> ei2_ID intent
                       \<or> fe_EffectIntentRevision fence \<noteq> ei2_Revision intent
                       \<or> fe_CanonicalPayloadDigest fence \<noteq> op2_ContentDigest (ei2_Payload intent))
                     ErrorPreconditionFailed ReasonEffectFenceStale),
              CheckFence fence \<lparr>cff_Scope = dc_Scope current, cff_CapabilityGrantDigest = dc_CapabilityGrantDigest current\<rparr> now])]"

record EnforcementReceiptV2 =
  er_ContractVersion :: string
  er_PermitID :: string
  er_PermitRevision :: Revision
  er_AttemptID :: string
  er_PermitDigest :: Digest
  er_Verifier :: ProviderBindingRefV2
  er_ValidatedAt :: i64
  er_Attestation :: "GovernanceExtensionV2 option"

definition EnforcementReceiptV2_Validate :: "EnforcementReceiptV2 \<Rightarrow> go_error option" where [validate_defs]:
  "EnforcementReceiptV2_Validate r =
     first_err
      [fail_if (er_ContractVersion r \<noteq> EffectContractVersionV2 \<or> blank (er_PermitID r) \<or> er_PermitRevision r = 0
          \<or> blank (er_AttemptID r) \<or> sint (er_ValidatedAt r) \<le> 0)
         ErrorInvalidArgument ReasonDispatchPermitInvalid,
       Digest_Validate (er_PermitDigest r),
       ProviderBindingRefV2_Validate (er_Verifier r),
       (case er_Attestation r of None \<Rightarrow> None | Some x \<Rightarrow> validateExtensionsV2 [x])]"

end
