(* ===== verification/GovernanceV2.thy ===== *)
theory GovernanceV2
  imports EffectV2 Run
begin

text \<open>
  \<open>runtime/ports/governance_v2.go\<close>: the current facts an intent is checked against before dispatch --
  authority, review, credential leases, dispatch policy and execution scope -- and their \<open>ValidateCurrent\<close>
  methods; \<open>ReviewSubjectDigestV2\<close> is in \<open>ports/review_v2.go\<close>.
\<close>

section \<open>Facts\<close>

datatype AuthorityFactStateV2 =
    AuthorityFactActive | AuthorityFactRevoked | AuthorityFactExpired | AuthorityFactStateOther string

record DispatchAuthorityFactV2 =
  af_Ref :: string
  af_Digest :: Digest
  af_Revision :: Revision
  af_Scope :: ExecutionScope
  af_ActionScopeDigest :: Digest
  af_State :: AuthorityFactStateV2
  af_ExpiresUnixNano :: i64

datatype ReviewDecisionV2 =
    ReviewDecisionAccepted | ReviewDecisionConditional | ReviewDecisionOperationNotRequired
  | ReviewDecisionRejected | ReviewDecisionRevoked | ReviewDecisionExpired | ReviewDecisionOther string

record DispatchReviewFactV2 =
  rf_Ref :: string
  rf_Digest :: Digest
  rf_Revision :: Revision
  rf_IntentID :: string
  rf_IntentRevision :: Revision
  rf_SubjectDigest :: Digest
  rf_CandidateDigest :: Digest
  rf_VerdictDigest :: Digest
  rf_VerdictRevision :: Revision
  rf_PayloadDigest :: Digest
  rf_PayloadRevision :: Revision
  rf_ScopeDigest :: Digest
  rf_PolicyDigest :: Digest
  rf_PolicyDecisionRef :: string
  rf_ActorAuthorityDigest :: Digest
  rf_ReviewerAuthorityDigest :: Digest
  rf_ConditionsDigest :: Digest
  rf_SatisfactionRef :: string
  rf_SatisfactionDigest :: Digest
  rf_SatisfactionRevision :: Revision
  rf_EvidenceDigest :: Digest
  rf_Decision :: ReviewDecisionV2
  rf_ExpiresUnixNano :: i64

record CredentialLeaseFactV2 =
  clf_Ref :: string
  clf_Class :: string
  clf_ScopeDigest :: Digest
  clf_Epoch :: Epoch
  clf_Active :: bool
  clf_ExpiresUnixNano :: i64

record DispatchPolicyFactV2 =
  dpf_Ref :: string
  dpf_Digest :: Digest
  dpf_Revision :: Revision
  dpf_IntentID :: string
  dpf_IntentRevision :: Revision
  dpf_IntentDigest :: Digest
  dpf_Scope :: ExecutionScope
  dpf_EffectKind :: string
  dpf_RiskClass :: string
  dpf_ActionScopeDigest :: Digest
  dpf_MaximumPermitTTL :: Duration
  dpf_Active :: bool
  dpf_ExpiresUnixNano :: i64

datatype ExecutionScopeFactStateV2 =
    ExecutionScopeFactActive | ExecutionScopeFactRevoked | ExecutionScopeFactExpired | ExecutionScopeFactStateOther string

record GovernanceSourceFactRefV2 =
  gs_Ref :: string
  gs_Revision :: Revision
  gs_Digest :: Digest

definition GovernanceSourceFactRefV2_Validate :: "GovernanceSourceFactRefV2 \<Rightarrow> go_error option" where [validate_defs]:
  "GovernanceSourceFactRefV2_Validate r =
     first_err
      [fail_if (blank (gs_Ref r) \<or> gs_Revision r = 0) ErrorInvalidArgument ReasonInvalidReference,
       Digest_Validate (gs_Digest r)]"

record ExecutionScopeCurrentFactV2 =
  sf_Ref :: string
  sf_Digest :: Digest
  sf_Revision :: Revision
  sf_Scope :: ExecutionScope
  sf_CapabilityGrantDigest :: Digest
  sf_ActivationSource :: GovernanceSourceFactRefV2
  sf_InstanceSource :: GovernanceSourceFactRefV2
  sf_SandboxSource :: "GovernanceSourceFactRefV2 option"
  sf_AuthoritySource :: GovernanceSourceFactRefV2
  sf_BindingSource :: GovernanceSourceFactRefV2
  sf_RunSource :: GovernanceSourceFactRefV2
  sf_ActiveRunID :: string
  sf_RunState :: string
  sf_ProjectionWatermark :: Revision
  sf_State :: ExecutionScopeFactStateV2
  sf_ExpiresUnixNano :: i64

fun run_status_string :: "RunStatus \<Rightarrow> string" where
  "run_status_string RunPending = ''pending''"
| "run_status_string RunRunning = ''running''"
| "run_status_string RunStopping = ''stopping''"
| "run_status_string RunTerminal = ''terminal''"
| "run_status_string (RunStatusOther s) = s"

section \<open>Digests\<close>

record governance_json =
  json_CredentialLeaseFacts :: "CredentialLeaseFactV2 list \<Rightarrow> string option"
  json_DispatchPolicyFact :: "DispatchPolicyFactV2 \<Rightarrow> string option"
  json_ExecutionScopeFact :: "ExecutionScopeCurrentFactV2 \<Rightarrow> string option"

definition ReviewContractVersionV2 :: string where
  "ReviewContractVersionV2 = ''2.0.0''"

fun credential_facts_error :: "CredentialLeaseFactV2 option \<Rightarrow> CredentialLeaseFactV2 list \<Rightarrow> go_error option" where
  "credential_facts_error previous [] = None"
| "credential_facts_error previous (f # fs) =
     (case first_err
        [Digest_Validate (clf_ScopeDigest f),
         fail_if (case previous of
             None \<Rightarrow> False
           | Some p \<Rightarrow> clf_Class p > clf_Class f \<or> clf_Class p = clf_Class f \<and> clf_Ref p \<ge> clf_Ref f)
           ErrorInvalidArgument ReasonInvalidCanonicalForm] of
        Some e \<Rightarrow> Some e
      | None \<Rightarrow> credential_facts_error (Some f) fs)"

definition DigestCredentialLeaseFactsV2 :: "governance_json \<Rightarrow> CredentialLeaseFactV2 list \<Rightarrow> Digest res" where
  "DigestCredentialLeaseFactsV2 G facts =
     ensure (credential_facts_error None facts)
      (CanonicalJSONDigest ''praxis.runtime.effect'' EffectContractVersionV2 ''CredentialLeaseFactSetV2''
        (json_CredentialLeaseFacts G facts))"

definition DispatchPolicyFactV2_DigestV2 :: "governance_json \<Rightarrow> DispatchPolicyFactV2 \<Rightarrow> Digest res" where
  "DispatchPolicyFactV2_DigestV2 G f =
     CanonicalJSONDigest ''praxis.runtime.effect'' EffectContractVersionV2 ''DispatchPolicyFactV2''
       (json_DispatchPolicyFact G (f\<lparr>dpf_Digest := ''''\<rparr>))"

definition ExecutionScopeCurrentFactV2_DigestV2 :: "governance_json \<Rightarrow> ExecutionScopeCurrentFactV2 \<Rightarrow> Digest res" where
  "ExecutionScopeCurrentFactV2_DigestV2 G f =
     CanonicalJSONDigest ''praxis.runtime.effect'' EffectContractVersionV2 ''ExecutionScopeCurrentFactV2''
       (json_ExecutionScopeFact G (f\<lparr>sf_Digest := ''''\<rparr>))"

definition BindingRefV2 :: "governance_json \<Rightarrow> ExecutionScopeCurrentFactV2 \<Rightarrow> ExecutionScopeBindingRefV2 res" where
  "BindingRefV2 G f =
     bind_res (ExecutionScopeCurrentFactV2_DigestV2 G f)
      (\<lambda>d. Inr \<lparr>sb_Ref = sf_Ref f, sb_Digest = d, sb_Revision = sf_Revision f\<rparr>)"

definition ReviewSubjectDigestV2 :: "effect_json \<Rightarrow> EffectIntentV2 \<Rightarrow> Digest res" where
  "ReviewSubjectDigestV2 J i =
     CanonicalJSONDigest ''praxis.runtime.review'' ReviewContractVersionV2 ''EffectReviewSubjectV2''
       (json_EffectIntent J
         (i\<lparr>ei2_Review := (ei2_Review i)\<lparr>rb_Digest := '''', rb_PolicyDigest := ''''\<rparr>,
            ei2_Policy := (ei2_Policy i)\<lparr>dp_Digest := ''''\<rparr>\<rparr>))"

section \<open>Currentness\<close>

definition DispatchAuthorityFactV2_ValidateCurrent ::
  "DispatchAuthorityFactV2 \<Rightarrow> AuthorityBindingRefV2 \<Rightarrow> ExecutionScope \<Rightarrow> Digest \<Rightarrow> Time \<Rightarrow> go_error option" where
  "DispatchAuthorityFactV2_ValidateCurrent f expected scope actionScopeDigest now =
     first_err
      [fail_if (blank (af_Ref f) \<or> af_Revision f = 0 \<or> sint (af_ExpiresUnixNano f) \<le> 0 \<or> af_State f \<noteq> AuthorityFactActive)
         ErrorForbidden ReasonEffectAuthorizationMissing,
       ExecutionScope_Validate (af_Scope f),
       Digest_Validate (af_Digest f), Digest_Validate (af_ActionScopeDigest f),
       fail_if (IsZero now \<or> \<not> Before now (TimeUnix0 (af_ExpiresUnixNano f)) \<or> af_Ref f \<noteq> ab_Ref expected
          \<or> af_Digest f \<noteq> ab_Digest expected \<or> af_Revision f \<noteq> ab_Revision expected
          \<or> scope_AuthorityEpoch (af_Scope f) \<noteq> ab_Epoch expected \<or> af_ActionScopeDigest f \<noteq> actionScopeDigest
          \<or> \<not> SameExecutionScopeV2 (af_Scope f) scope)
         ErrorPreconditionFailed ReasonStaleAuthorityEpoch]"

definition DispatchReviewFactV2_ValidateCurrent ::
  "effect_json \<Rightarrow> DispatchReviewFactV2 \<Rightarrow> ReviewBindingRefV2 \<Rightarrow> EffectIntentV2 \<Rightarrow> Time \<Rightarrow> go_error option" where
  "DispatchReviewFactV2_ValidateCurrent J f expected intent now =
     first_err
      [fail_if (blank (rf_Ref f) \<or> blank (rf_PolicyDecisionRef f) \<or> rf_Revision f = 0 \<or> rf_IntentRevision f = 0
          \<or> rf_PayloadRevision f = 0 \<or> sint (rf_ExpiresUnixNano f) \<le> 0) ErrorForbidden ReasonReviewVerdictMissing,
       first_err (map Digest_Validate
         [rf_Digest f, rf_SubjectDigest f, rf_CandidateDigest f, rf_VerdictDigest f, rf_PayloadDigest f, rf_ScopeDigest f,
          rf_PolicyDigest f, rf_ActorAuthorityDigest f, rf_ReviewerAuthorityDigest f, rf_EvidenceDigest f]),
       (if rf_Decision f = ReviewDecisionConditional
        then fail_if (Digest_Validate (rf_ConditionsDigest f) \<noteq> None \<or> blank (rf_SatisfactionRef f)
            \<or> rf_SatisfactionRevision f = 0 \<or> Digest_Validate (rf_SatisfactionDigest f) \<noteq> None)
          ErrorForbidden ReasonReviewConditionUnsatisfied
        else fail_if (rf_ConditionsDigest f \<noteq> '''' \<or> rf_SatisfactionRef f \<noteq> '''' \<or> rf_SatisfactionRevision f \<noteq> 0
            \<or> rf_SatisfactionDigest f \<noteq> '''')
          ErrorPreconditionFailed ReasonReviewCandidateConflict),
       fail_if (rf_Decision f \<noteq> ReviewDecisionAccepted \<and> rf_Decision f \<noteq> ReviewDecisionOperationNotRequired
          \<and> rf_Decision f \<noteq> ReviewDecisionConditional) ErrorForbidden ReasonReviewVerdictStale,
       (case ReviewSubjectDigestV2 J intent of
          Inl e \<Rightarrow> Some e
        | Inr subjectDigest \<Rightarrow>
            fail_if (rf_VerdictRevision f = 0 \<or> IsZero now \<or> \<not> Before now (TimeUnix0 (rf_ExpiresUnixNano f))
                \<or> rf_Ref f \<noteq> rb_Ref expected \<or> rf_Digest f \<noteq> rb_Digest expected \<or> rf_Revision f \<noteq> rb_Revision expected
                \<or> rf_CandidateDigest f \<noteq> rb_Digest expected \<or> rf_PolicyDigest f \<noteq> rb_PolicyDigest expected
                \<or> rf_IntentID f \<noteq> ei2_ID intent \<or> rf_IntentRevision f \<noteq> ei2_Revision intent
                \<or> rf_SubjectDigest f \<noteq> subjectDigest \<or> rf_PayloadDigest f \<noteq> op2_ContentDigest (ei2_Payload intent)
                \<or> rf_PayloadRevision f \<noteq> ei2_PayloadRevision intent \<or> rf_ScopeDigest f \<noteq> ei2_ActionScopeDigest intent)
              ErrorPreconditionFailed ReasonReviewVerdictStale)]"

definition CredentialLeaseFactV2_ValidateCurrent ::
  "CredentialLeaseFactV2 \<Rightarrow> CredentialLeaseRefV2 \<Rightarrow> Time \<Rightarrow> go_error option" where
  "CredentialLeaseFactV2_ValidateCurrent f expected now =
     first_err
      [fail_if (blank (clf_Ref f) \<or> blank (clf_Class f) \<or> clf_Epoch f = 0 \<or> sint (clf_ExpiresUnixNano f) \<le> 0 \<or> \<not> clf_Active f)
         ErrorForbidden ReasonCredentialLeaseMissing,
       Digest_Validate (clf_ScopeDigest f),
       fail_if (IsZero now \<or> \<not> Before now (TimeUnix0 (clf_ExpiresUnixNano f)) \<or> clf_Ref f \<noteq> cl_Ref expected
          \<or> clf_Class f \<noteq> cl_Class expected \<or> clf_ScopeDigest f \<noteq> cl_ScopeDigest expected \<or> clf_Epoch f \<noteq> cl_Epoch expected)
         ErrorPreconditionFailed ReasonCredentialLeaseMissing]"

definition DispatchPolicyFactV2_ValidateCurrent ::
  "effect_json \<Rightarrow> governance_json \<Rightarrow> DispatchPolicyFactV2 \<Rightarrow> DispatchPolicyBindingRefV2 \<Rightarrow> EffectIntentV2 \<Rightarrow> Duration \<Rightarrow> Time
     \<Rightarrow> go_error option" where
  "DispatchPolicyFactV2_ValidateCurrent J G f expected intent requestedTTL now =
     first_err
      [fail_if (blank (dpf_Ref f) \<or> dpf_Revision f = 0 \<or> blank (dpf_IntentID f) \<or> dpf_IntentRevision f = 0
          \<or> sint (dpf_ExpiresUnixNano f) \<le> 0 \<or> sint (dpf_MaximumPermitTTL f) \<le> 0
          \<or> sint (dpf_MaximumPermitTTL f) > sint MaxDispatchPermitTTL \<or> \<not> dpf_Active f)
         ErrorForbidden ReasonEffectAuthorizationMissing,
       ExecutionScope_Validate (dpf_Scope f),
       ValidateNamespacedNameV2 (dpf_EffectKind f),
       ValidateNamespacedNameV2 (dpf_RiskClass f),
       first_err (map Digest_Validate [dpf_Digest f, dpf_IntentDigest f, dpf_ActionScopeDigest f]),
       (case DispatchPolicyFactV2_DigestV2 G f of
          Inl e \<Rightarrow> Some e
        | Inr policyDigest \<Rightarrow>
            (case PolicyCandidateDigestV2 J intent of
               Inl e \<Rightarrow> Some e
             | Inr candidateDigest \<Rightarrow>
                 fail_if (IsZero now \<or> sint requestedTTL \<le> 0 \<or> sint requestedTTL > sint (dpf_MaximumPermitTTL f)
                     \<or> \<not> Before now (TimeUnix0 (dpf_ExpiresUnixNano f)) \<or> dpf_Ref f \<noteq> dp_Ref expected
                     \<or> dpf_Digest f \<noteq> policyDigest \<or> dpf_Digest f \<noteq> dp_Digest expected
                     \<or> dpf_Revision f \<noteq> dp_Revision expected \<or> dpf_IntentID f \<noteq> ei2_ID intent
                     \<or> dpf_IntentRevision f \<noteq> ei2_Revision intent \<or> dpf_IntentDigest f \<noteq> candidateDigest
                     \<or> \<not> SameExecutionScopeV2 (dpf_Scope f) (ei2_Scope intent) \<or> dpf_EffectKind f \<noteq> ei2_Kind intent
                     \<or> dpf_RiskClass f \<noteq> ei2_RiskClass intent \<or> dpf_ActionScopeDigest f \<noteq> ei2_ActionScopeDigest intent)
                   ErrorPreconditionFailed ReasonEffectAuthorizationMissing))]"

text \<open>The checks on the source references that both currentness checks of a scope fact make.\<close>

definition scope_sources_error :: "ExecutionScopeCurrentFactV2 \<Rightarrow> go_error option" where
  "scope_sources_error f =
     first_err
      [first_err (map GovernanceSourceFactRefV2_Validate
         [sf_ActivationSource f, sf_InstanceSource f, sf_AuthoritySource f, sf_BindingSource f, sf_RunSource f]),
       (case scope_SandboxLease (sf_Scope f) of
          None \<Rightarrow> fail_if (sf_SandboxSource f \<noteq> None) ErrorPreconditionFailed ReasonEffectFenceStale
        | Some lease \<Rightarrow>
            (case sf_SandboxSource f of
               None \<Rightarrow> Some (DomainError ErrorPreconditionFailed ReasonEffectFenceStale)
             | Some source \<Rightarrow> GovernanceSourceFactRefV2_Validate source))]"

definition ExecutionScopeCurrentFactV2_ValidateCurrent ::
  "governance_json \<Rightarrow> ExecutionScopeCurrentFactV2 \<Rightarrow> ExecutionScopeBindingRefV2 \<Rightarrow> EffectIntentV2 \<Rightarrow> Digest \<Rightarrow> Time
     \<Rightarrow> go_error option" where
  "ExecutionScopeCurrentFactV2_ValidateCurrent G f expected intent capabilityDigest now =
     first_err
      [fail_if (blank (sf_Ref f) \<or> sf_Revision f = 0 \<or> sint (sf_ExpiresUnixNano f) \<le> 0 \<or> sf_State f \<noteq> ExecutionScopeFactActive
          \<or> sf_ProjectionWatermark f = 0 \<or> sf_ActiveRunID f \<noteq> ei2_RunID intent \<or> sf_RunState f \<noteq> ''running'')
         ErrorForbidden ReasonEffectFenceStale,
       ExecutionScope_Validate (sf_Scope f),
       Digest_Validate (sf_CapabilityGrantDigest f),
       scope_sources_error f,
       (case BindingRefV2 G f of
          Inl e \<Rightarrow> Some e
        | Inr ref \<Rightarrow>
            fail_if (sf_Digest f \<noteq> sb_Digest ref \<or> ref \<noteq> expected \<or> IsZero now
                \<or> \<not> Before now (TimeUnix0 (sf_ExpiresUnixNano f)) \<or> capabilityDigest \<noteq> sf_CapabilityGrantDigest f
                \<or> \<not> SameExecutionScopeV2 (sf_Scope f) (ei2_Scope intent))
              ErrorPreconditionFailed ReasonEffectFenceStale)]"

record PermitVerificationRequestV2 =
  pv_Permit :: DispatchPermitV2
  pv_PermitFactRevision :: Revision
  pv_PermitFactState :: string
  pv_Intent :: EffectIntentV2
  pv_Fence :: ExecutionFence
  pv_Current :: DispatchCurrentFactsV2

definition PermitVerificationRequestV2_Validate :: "effect_json \<Rightarrow> PermitVerificationRequestV2 \<Rightarrow> Time \<Rightarrow> go_error option" where
  "PermitVerificationRequestV2_Validate J r now =
     first_err
      [fail_if (pv_PermitFactRevision r < 2 \<or> pv_PermitFactState r \<noteq> ''begun'')
         ErrorPreconditionFailed ReasonDispatchPermitConsumed,
       ValidateDispatchAtExecutionPointV2 J (pv_Permit r) (pv_Intent r) (pv_Fence r) (pv_Current r) now]"

end
