(* ===== verification/Evidence.thy ===== *)
theory Evidence
  imports GovernanceV2
begin

text \<open>
  \<open>runtime/ports/evidence_v2.go\<close>: evidence sources and the policies that admit them, the events they
  append, ledger records and tombstones, with their validation and digests. What \<open>json.Marshal\<close> returns
  for a hashed value is an argument (\<open>evidence_json\<close>). Strings are taken to be valid UTF-8, so that a
  value survives the JSON round trip by which the store copies it.
\<close>

section \<open>Sorted sets\<close>

text \<open>
  The loop all canonical sets are checked with: every element passes its own check, and its key is
  strictly above the one before.
\<close>

fun canonical_error :: "('a \<Rightarrow> go_error option) \<Rightarrow> ('a \<Rightarrow> string) \<Rightarrow> string option \<Rightarrow> 'a list \<Rightarrow> go_error option" where
  "canonical_error check key previous [] = None"
| "canonical_error check key previous (x # xs) =
     (case first_err
        [check x,
         fail_if (case previous of None \<Rightarrow> False | Some p \<Rightarrow> key x \<le> p) ErrorInvalidArgument ReasonInvalidCanonicalForm] of
        Some e \<Rightarrow> Some e
      | None \<Rightarrow> canonical_error check key (Some (key x)) xs)"

lemma canonical_error_None_prev:
  "canonical_error check key (Some p) xs = None \<longleftrightarrow>
     list_all (\<lambda>x. check x = None) xs \<and> sorted_wrt (<) (p # map key xs)"
proof (induction xs arbitrary: p)
  case Nil
  then show ?case by simp
next
  case (Cons x xs)
  show ?case
    by (cases "check x") (auto simp: Cons.IH fail_if_def not_le split: option.splits intro: less_trans)
qed

lemma canonical_error_None:
  "canonical_error check key None xs = None \<longleftrightarrow>
     list_all (\<lambda>x. check x = None) xs \<and> sorted_wrt (<) (map key xs)"
  by (cases xs) (auto simp: canonical_error_None_prev split: option.splits)

section \<open>Vocabulary\<close>

definition EvidenceContractVersionV2 :: string where
  "EvidenceContractVersionV2 = ''2.0.0''"

definition MaxEvidenceCausationRefs :: nat where
  "MaxEvidenceCausationRefs = 64"

definition MaxEvidencePageSize :: nat where
  "MaxEvidencePageSize = 256"

definition MaxEvidenceDeclaredBytes :: u64 where
  "MaxEvidenceDeclaredBytes = push_bit 20 64"

definition EvidenceGenesisDigestV2 :: Digest where
  "EvidenceGenesisDigestV2 = ''sha256:'' @ replicate 64 CHR ''0''"

datatype EvidenceTrustClassV2 =
    EvidenceTrustObservation | EvidenceTrustReceipt | EvidenceTrustAttestation | EvidenceTrustClaim
  | EvidenceTrustAuthoritativeFact | EvidenceTrustLateObservation | EvidenceTrustOther string

datatype EvidencePartitionV2 =
    EvidencePartitionTenant | EvidencePartitionIdentity | EvidencePartitionLineage | EvidencePartitionInstance
  | EvidencePartitionRun | EvidencePartitionEffect | EvidencePartitionOther string

fun partition_string :: "EvidencePartitionV2 \<Rightarrow> string" where
  "partition_string EvidencePartitionTenant = ''tenant''"
| "partition_string EvidencePartitionIdentity = ''identity''"
| "partition_string EvidencePartitionLineage = ''lineage''"
| "partition_string EvidencePartitionInstance = ''instance''"
| "partition_string EvidencePartitionRun = ''run''"
| "partition_string EvidencePartitionEffect = ''effect''"
| "partition_string (EvidencePartitionOther s) = s"

datatype EvidenceSourceStateV2 =
    EvidenceSourceActive | EvidenceSourceRevoked | EvidenceSourceExpired | EvidenceSourceStateOther string

datatype EvidenceGapPolicyV2 = EvidenceGapStrictV2 | EvidenceGapPolicyOther string

datatype EvidenceSourcePolicyStateV2 =
    EvidenceSourcePolicyActive | EvidenceSourcePolicyRevoked | EvidenceSourcePolicyExpired
  | EvidenceSourcePolicyStateOther string

fun validateEvidenceTrustV2 :: "EvidenceTrustClassV2 \<Rightarrow> go_error option" where
  "validateEvidenceTrustV2 (EvidenceTrustOther s) = Some (DomainError ErrorForbidden ReasonEvidenceTrustInvalid)"
| "validateEvidenceTrustV2 _ = None"

fun validEvidenceClaimKindV2 :: "RunCompletionClaimKind \<Rightarrow> bool" where
  "validEvidenceClaimKindV2 (RunClaimOther s) = False"
| "validEvidenceClaimKindV2 _ = True"

type_synonym EvidenceProducerBindingRefV2 = ProviderBindingRefV2

record EvidenceSourcePolicyBindingRefV2 =
  spb_Ref :: string
  spb_Digest :: Digest
  spb_Revision :: Revision

definition EvidenceSourcePolicyBindingRefV2_Validate :: "EvidenceSourcePolicyBindingRefV2 \<Rightarrow> go_error option" where [validate_defs]:
  "EvidenceSourcePolicyBindingRefV2_Validate r =
     first_err
      [fail_if (validateEvidenceIDV2 (spb_Ref r) \<noteq> None \<or> spb_Revision r = 0) ErrorInvalidArgument ReasonInvalidReference,
       Digest_Validate (spb_Digest r)]"

record EvidenceOwnerFactRuleV2 =
  ofr_EventKind :: string
  ofr_CustomClass :: string
  ofr_FactKind :: string
  ofr_OwnerComponent :: string

record EvidenceClaimKindMappingV2 =
  ckm_EventKind :: string
  ckm_CustomClass :: string
  ckm_ClaimKind :: RunCompletionClaimKind

record EvidenceClassMappingV2 =
  cm_Class :: string
  cm_Trust :: EvidenceTrustClassV2

record EvidenceCausationRefV2 =
  cr_LedgerScopeDigest :: Digest
  cr_EventID :: string

definition nul :: string where
  "nul = [CHR 0x00]"

definition mapping_error :: "EvidenceClassMappingV2 \<Rightarrow> go_error option" where
  "mapping_error value =
     fail_if (ValidateNamespacedNameV2 (cm_Class value) \<noteq> None \<or> validateEvidenceTrustV2 (cm_Trust value) \<noteq> None
         \<or> cm_Trust value = EvidenceTrustLateObservation)
       ErrorInvalidArgument ReasonEvidenceTrustInvalid"

definition validateEvidenceMappingsV2 :: "EvidenceClassMappingV2 list \<Rightarrow> go_error option" where
  "validateEvidenceMappingsV2 = canonical_error mapping_error cm_Class None"

definition validateEvidenceKindsV2 :: "string list \<Rightarrow> go_error option" where
  "validateEvidenceKindsV2 = canonical_error ValidateNamespacedNameV2 (\<lambda>k. k) None"

definition causation_key :: "EvidenceCausationRefV2 \<Rightarrow> string" where
  "causation_key c = cr_LedgerScopeDigest c @ nul @ cr_EventID c"

definition causation_error :: "EvidenceCausationRefV2 list \<Rightarrow> go_error option" where
  "causation_error =
     canonical_error
      (\<lambda>c. fail_if (Digest_Validate (cr_LedgerScopeDigest c) \<noteq> None \<or> validateEvidenceIDV2 (cr_EventID c) \<noteq> None)
             ErrorInvalidArgument ReasonInvalidReference)
      causation_key None"

definition containsEvidenceKindV2 :: "string list \<Rightarrow> string \<Rightarrow> bool" where
  "containsEvidenceKindV2 values value \<longleftrightarrow> list_ex (\<lambda>candidate. candidate = value) values"

definition containsEvidenceTrustMappingV2 :: "EvidenceClassMappingV2 list \<Rightarrow> string \<Rightarrow> EvidenceTrustClassV2 \<Rightarrow> bool" where
  "containsEvidenceTrustMappingV2 values class trust \<longleftrightarrow>
     list_ex (\<lambda>candidate. cm_Class candidate = class \<and> cm_Trust candidate = trust) values"

section \<open>Source policies\<close>

record EvidenceSourcePolicyFactV2 =
  spf_Ref :: string
  spf_Digest :: Digest
  spf_Revision :: Revision
  spf_Producer :: EvidenceProducerBindingRefV2
  spf_PolicyOwner :: EvidenceProducerBindingRefV2
  spf_PolicyAuthority :: AuthorityBindingRefV2
  spf_PolicyScope :: ExecutionScope
  spf_ActionScopeDigest :: Digest
  spf_AllowedPartitions :: "EvidencePartitionV2 list"
  spf_ClassMappings :: "EvidenceClassMappingV2 list"
  spf_AllowedKinds :: "string list"
  spf_AllowLate :: bool
  spf_OwnerFactRules :: "EvidenceOwnerFactRuleV2 list"
  spf_ClaimKinds :: "EvidenceClaimKindMappingV2 list"
  spf_RequireInstanceEpoch :: bool
  spf_MaximumSourceTTL :: Duration
  spf_State :: EvidenceSourcePolicyStateV2
  spf_ExpiresUnixNano :: i64

fun partition_error :: "EvidencePartitionV2 \<Rightarrow> go_error option" where
  "partition_error (EvidencePartitionOther s) = Some (DomainError ErrorInvalidArgument ReasonEvidenceScopeConflict)"
| "partition_error _ = None"

definition owner_rule_error :: "EvidenceOwnerFactRuleV2 \<Rightarrow> go_error option" where
  "owner_rule_error rule =
     first_err (map ValidateNamespacedNameV2
       [ofr_EventKind rule, ofr_CustomClass rule, ofr_FactKind rule, ofr_OwnerComponent rule])"

definition owner_rule_key :: "EvidenceOwnerFactRuleV2 \<Rightarrow> string" where
  "owner_rule_key rule = ofr_EventKind rule @ nul @ ofr_CustomClass rule @ nul @ ofr_FactKind rule @ nul @ ofr_OwnerComponent rule"

definition claim_mapping_error :: "EvidenceClaimKindMappingV2 \<Rightarrow> go_error option" where
  "claim_mapping_error m =
     first_err
      [ValidateNamespacedNameV2 (ckm_EventKind m),
       fail_if (\<not> validEvidenceClaimKindV2 (ckm_ClaimKind m)) ErrorInvalidArgument ReasonRunClaimUnverified,
       ValidateNamespacedNameV2 (ckm_CustomClass m)]"

definition claim_mapping_key :: "EvidenceClaimKindMappingV2 \<Rightarrow> string" where
  "claim_mapping_key m = ckm_EventKind m @ nul @ ckm_CustomClass m"

definition EvidenceSourcePolicyFactV2_Validate :: "EvidenceSourcePolicyFactV2 \<Rightarrow> go_error option" where
  "EvidenceSourcePolicyFactV2_Validate f =
     first_err
      [fail_if (validateEvidenceIDV2 (spf_Ref f) \<noteq> None \<or> spf_Revision f = 0 \<or> sint (spf_ExpiresUnixNano f) \<le> 0
          \<or> sint (spf_MaximumSourceTTL f) \<le> 0) ErrorInvalidArgument ReasonEvidenceTrustInvalid,
       (if spf_Digest f \<noteq> '''' then Digest_Validate (spf_Digest f) else None),
       ProviderBindingRefV2_Validate (spf_Producer f),
       ProviderBindingRefV2_Validate (spf_PolicyOwner f),
       AuthorityBindingRefV2_Validate (spf_PolicyAuthority f),
       ExecutionScope_Validate (spf_PolicyScope f),
       Digest_Validate (spf_ActionScopeDigest f),
       fail_if (spf_State f \<noteq> EvidenceSourcePolicyActive \<and> spf_State f \<noteq> EvidenceSourcePolicyRevoked
          \<and> spf_State f \<noteq> EvidenceSourcePolicyExpired) ErrorInvalidArgument ReasonInvalidState,
       fail_if (spf_AllowedPartitions f = [] \<or> length (spf_AllowedPartitions f) > 6 \<or> spf_ClassMappings f = []
          \<or> length (spf_ClassMappings f) > 32 \<or> spf_AllowedKinds f = [] \<or> length (spf_AllowedKinds f) > 128
          \<or> length (spf_OwnerFactRules f) > 64 \<or> length (spf_ClaimKinds f) > 16)
         ErrorInvalidArgument ReasonCanonicalLimitExceeded,
       canonical_error partition_error partition_string None (spf_AllowedPartitions f),
       validateEvidenceMappingsV2 (spf_ClassMappings f),
       validateEvidenceKindsV2 (spf_AllowedKinds f),
       canonical_error owner_rule_error owner_rule_key None (spf_OwnerFactRules f),
       canonical_error claim_mapping_error claim_mapping_key None (spf_ClaimKinds f),
       fail_if (\<not> list_all (\<lambda>m. containsEvidenceKindV2 (spf_AllowedKinds f) (ckm_EventKind m)
            \<and> containsEvidenceTrustMappingV2 (spf_ClassMappings f) (ckm_CustomClass m) EvidenceTrustClaim) (spf_ClaimKinds f))
         ErrorInvalidArgument ReasonEvidenceTrustInvalid,
       fail_if (\<not> list_all (\<lambda>rule. containsEvidenceKindV2 (spf_AllowedKinds f) (ofr_EventKind rule)
            \<and> containsEvidenceTrustMappingV2 (spf_ClassMappings f) (ofr_CustomClass rule) EvidenceTrustAuthoritativeFact)
            (spf_OwnerFactRules f))
         ErrorInvalidArgument ReasonEvidenceTrustInvalid]"


section \<open>Ledger scopes\<close>

record EvidenceLedgerScopeV2 =
  els_Partition :: EvidencePartitionV2
  els_TenantID :: string
  els_IdentityID :: string
  els_LineageID :: string
  els_InstanceID :: string
  els_RunID :: string
  els_EffectID :: string

abbreviation scope_conflict :: go_error where
  "scope_conflict \<equiv> DomainError ErrorInvalidArgument ReasonEvidenceScopeConflict"

text \<open>The partition says how deep in the hierarchy of identifiers a scope goes.\<close>

definition evidence_scope_shape :: "EvidenceLedgerScopeV2 \<Rightarrow> bool" where
  "evidence_scope_shape s =
     (case els_Partition s of
        EvidencePartitionTenant \<Rightarrow>
          \<not> (els_IdentityID s \<noteq> '''' \<or> els_LineageID s \<noteq> '''' \<or> els_InstanceID s \<noteq> '''' \<or> els_RunID s \<noteq> '''' \<or> els_EffectID s \<noteq> '''')
      | EvidencePartitionIdentity \<Rightarrow>
          \<not> (els_IdentityID s = '''' \<or> els_LineageID s \<noteq> '''' \<or> els_InstanceID s \<noteq> '''' \<or> els_RunID s \<noteq> '''' \<or> els_EffectID s \<noteq> '''')
      | EvidencePartitionLineage \<Rightarrow>
          \<not> (els_IdentityID s = '''' \<or> els_LineageID s = '''' \<or> els_InstanceID s \<noteq> '''' \<or> els_RunID s \<noteq> '''' \<or> els_EffectID s \<noteq> '''')
      | EvidencePartitionInstance \<Rightarrow>
          \<not> (els_IdentityID s = '''' \<or> els_LineageID s = '''' \<or> els_InstanceID s = '''' \<or> els_RunID s \<noteq> '''' \<or> els_EffectID s \<noteq> '''')
      | EvidencePartitionRun \<Rightarrow>
          \<not> (els_IdentityID s = '''' \<or> els_LineageID s = '''' \<or> els_InstanceID s = '''' \<or> els_RunID s = '''' \<or> els_EffectID s \<noteq> '''')
      | EvidencePartitionEffect \<Rightarrow>
          \<not> (els_IdentityID s = '''' \<or> els_LineageID s = '''' \<or> els_InstanceID s = '''' \<or> els_RunID s = '''' \<or> els_EffectID s = '''')
      | EvidencePartitionOther p \<Rightarrow> False)"

definition EvidenceLedgerScopeV2_Validate :: "EvidenceLedgerScopeV2 \<Rightarrow> go_error option" where
  "EvidenceLedgerScopeV2_Validate s =
     first_err
      [fail_if (blank (els_TenantID s)) ErrorInvalidArgument ReasonEvidenceScopeConflict,
       first_err (map (\<lambda>value. if value \<noteq> '''' \<and> validateEvidenceIDV2 value \<noteq> None then Some scope_conflict else None)
         [els_TenantID s, els_IdentityID s, els_LineageID s, els_InstanceID s, els_RunID s, els_EffectID s]),
       fail_if (\<not> evidence_scope_shape s) ErrorInvalidArgument ReasonEvidenceScopeConflict]"

definition MatchesExecutionScope :: "EvidenceLedgerScopeV2 \<Rightarrow> ExecutionScope \<Rightarrow> bool" where
  "MatchesExecutionScope s scope \<longleftrightarrow>
     ExecutionScope_Validate scope = None \<and> els_TenantID s = ident_TenantID (scope_Identity scope)
     \<and> (els_IdentityID s = '''' \<or> els_IdentityID s = ident_ID (scope_Identity scope))
     \<and> (els_LineageID s = '''' \<or> els_LineageID s = lineage_ID (scope_Lineage scope))
     \<and> (els_InstanceID s = '''' \<or> els_InstanceID s = inst_ID (scope_Instance scope))"

definition EvidenceTimeCurrentV2 :: "i64 \<Rightarrow> Time \<Rightarrow> bool" where
  "EvidenceTimeCurrentV2 expires now \<longleftrightarrow> \<not> IsZero now \<and> Before now (TimeUnix0 expires)"

definition ValidateCurrentForEvidenceV2 ::
  "governance_json \<Rightarrow> ExecutionScopeCurrentFactV2 \<Rightarrow> EvidencePartitionV2 \<Rightarrow> ExecutionScopeBindingRefV2 \<Rightarrow> ExecutionScope \<Rightarrow> string
     \<Rightarrow> Digest \<Rightarrow> Time \<Rightarrow> go_error option" where
  "ValidateCurrentForEvidenceV2 G f part expected scope runID capability now =
     first_err
      [fail_if (blank (sf_Ref f) \<or> sf_Revision f = 0 \<or> sf_ProjectionWatermark f = 0 \<or> sint (sf_ExpiresUnixNano f) \<le> 0
          \<or> sf_State f \<noteq> ExecutionScopeFactActive) ErrorForbidden ReasonEffectFenceStale,
       ExecutionScope_Validate (sf_Scope f),
       Digest_Validate (sf_CapabilityGrantDigest f),
       scope_sources_error f,
       (case BindingRefV2 G f of
          Inl e \<Rightarrow> Some e
        | Inr ref \<Rightarrow>
            first_err
             [fail_if (sf_Digest f \<noteq> sb_Digest ref \<or> ref \<noteq> expected \<or> \<not> EvidenceTimeCurrentV2 (sf_ExpiresUnixNano f) now
                 \<or> sf_CapabilityGrantDigest f \<noteq> capability \<or> \<not> SameExecutionScopeV2 (sf_Scope f) scope)
                ErrorPreconditionFailed ReasonEffectFenceStale,
              fail_if (sf_ActiveRunID f = ''''
                 \<or> sf_RunState f \<noteq> run_status_string RunRunning \<and> sf_RunState f \<noteq> run_status_string RunStopping)
                ErrorPreconditionFailed ReasonRunClaimUnverified,
              fail_if ((part = EvidencePartitionRun \<or> part = EvidencePartitionEffect) \<and> sf_ActiveRunID f \<noteq> runID)
                ErrorPreconditionFailed ReasonRunClaimUnverified])]"

section \<open>Sources\<close>

record EvidenceSourceRegistrationFactV2 =
  src_ContractVersion :: string
  src_ID :: string
  src_Revision :: Revision
  src_SourceID :: string
  src_SourceEpoch :: Epoch
  src_LedgerScope :: EvidenceLedgerScopeV2
  src_ExecutionScope :: ExecutionScope
  src_CurrentScope :: ExecutionScopeBindingRefV2
  src_CurrentScopeWatermark :: Revision
  src_Producer :: EvidenceProducerBindingRefV2
  src_Authority :: AuthorityBindingRefV2
  src_ActionScopeDigest :: Digest
  src_Policy :: EvidenceSourcePolicyBindingRefV2
  src_ClassMappings :: "EvidenceClassMappingV2 list"
  src_AllowedKinds :: "string list"
  src_GapPolicy :: EvidenceGapPolicyV2
  src_NextSourceSequence :: u64
  src_State :: EvidenceSourceStateV2
  src_CreatedUnixNano :: i64
  src_UpdatedUnixNano :: i64
  src_ExpiresUnixNano :: i64

definition source_lifecycle_error :: "EvidenceSourceRegistrationFactV2 \<Rightarrow> go_error option" where
  "source_lifecycle_error f =
     (case src_State f of
        EvidenceSourceActive \<Rightarrow>
          fail_if (sint (src_ExpiresUnixNano f) \<le> sint (src_UpdatedUnixNano f)) ErrorPreconditionFailed ReasonEvidenceSourceStale
      | EvidenceSourceExpired \<Rightarrow>
          fail_if (sint (src_UpdatedUnixNano f) < sint (src_ExpiresUnixNano f)) ErrorPreconditionFailed ReasonEvidenceSourceStale
      | EvidenceSourceRevoked \<Rightarrow> None
      | EvidenceSourceStateOther s \<Rightarrow> Some (DomainError ErrorInvalidArgument ReasonInvalidState))"

definition EvidenceSourceRegistrationFactV2_Validate :: "EvidenceSourceRegistrationFactV2 \<Rightarrow> go_error option" where
  "EvidenceSourceRegistrationFactV2_Validate f =
     first_err
      [fail_if (src_ContractVersion f \<noteq> EvidenceContractVersionV2 \<or> validateEvidenceIDV2 (src_ID f) \<noteq> None \<or> src_Revision f = 0
          \<or> src_SourceEpoch f = 0 \<or> src_NextSourceSequence f = 0 \<or> src_NextSourceSequence f = -1)
         ErrorInvalidArgument ReasonEvidenceSourceMissing,
       ValidateNamespacedNameV2 (src_SourceID f),
       EvidenceLedgerScopeV2_Validate (src_LedgerScope f),
       ExecutionScope_Validate (src_ExecutionScope f),
       fail_if (\<not> MatchesExecutionScope (src_LedgerScope f) (src_ExecutionScope f)) ErrorPreconditionFailed ReasonEvidenceScopeConflict,
       ExecutionScopeBindingRefV2_Validate (src_CurrentScope f),
       fail_if (src_CurrentScopeWatermark f = 0) ErrorInvalidArgument ReasonEvidenceSourceStale,
       ProviderBindingRefV2_Validate (src_Producer f),
       AuthorityBindingRefV2_Validate (src_Authority f),
       Digest_Validate (src_ActionScopeDigest f),
       EvidenceSourcePolicyBindingRefV2_Validate (src_Policy f),
       fail_if (src_GapPolicy f \<noteq> EvidenceGapStrictV2 \<or> src_ClassMappings f = [] \<or> length (src_ClassMappings f) > 32
          \<or> src_AllowedKinds f = [] \<or> length (src_AllowedKinds f) > 128) ErrorInvalidArgument ReasonInvalidCanonicalForm,
       validateEvidenceMappingsV2 (src_ClassMappings f),
       validateEvidenceKindsV2 (src_AllowedKinds f),
       fail_if (sint (src_CreatedUnixNano f) \<le> 0 \<or> sint (src_UpdatedUnixNano f) < sint (src_CreatedUnixNano f)
          \<or> sint (src_ExpiresUnixNano f) \<le> 0) ErrorInvalidArgument ReasonInvalidState,
       source_lifecycle_error f]"

section \<open>Events\<close>

record EvidencePayloadRefV2 =
  epr_Schema :: SchemaRefV2
  epr_ContentDigest :: Digest
  epr_Revision :: Revision
  epr_Length :: u64
  epr_Ref :: string

definition EvidencePayloadRefV2_Validate :: "EvidencePayloadRefV2 \<Rightarrow> go_error option" where
  "EvidencePayloadRefV2_Validate p =
     first_err
      [SchemaRefV2_Validate (epr_Schema p),
       Digest_Validate (epr_ContentDigest p),
       fail_if (epr_Revision p = 0 \<or> epr_Length p = 0 \<or> epr_Length p > MaxEvidenceDeclaredBytes \<or> blank (epr_Ref p)
          \<or> length (epr_Ref p) > MaxOpaqueReferenceBytes) ErrorInvalidArgument ReasonInvalidReference]"

record EvidenceOwnerFactRefV2 =
  eof_Owner :: EvidenceProducerBindingRefV2
  eof_FactKind :: string
  eof_FactID :: string
  eof_Revision :: Revision
  eof_FactDigest :: Digest
  eof_PayloadSchema :: SchemaRefV2
  eof_PayloadDigest :: Digest
  eof_PayloadRevision :: Revision

definition EvidenceOwnerFactRefV2_Validate :: "EvidenceOwnerFactRefV2 \<Rightarrow> go_error option" where
  "EvidenceOwnerFactRefV2_Validate r =
     first_err
      [ProviderBindingRefV2_Validate (eof_Owner r),
       ValidateNamespacedNameV2 (eof_FactKind r),
       fail_if (blank (eof_FactID r) \<or> length (eof_FactID r) > 256 \<or> eof_Revision r = 0) ErrorInvalidArgument ReasonInvalidReference,
       Digest_Validate (eof_FactDigest r),
       SchemaRefV2_Validate (eof_PayloadSchema r),
       Digest_Validate (eof_PayloadDigest r),
       fail_if (eof_PayloadRevision r = 0) ErrorInvalidArgument ReasonInvalidReference]"

record EvidenceRecordRefV2 =
  err_LedgerScopeDigest :: Digest
  err_Sequence :: u64
  err_RecordDigest :: Digest

definition EvidenceRecordRefV2_Validate :: "EvidenceRecordRefV2 \<Rightarrow> go_error option" where
  "EvidenceRecordRefV2_Validate r =
     fail_if (Digest_Validate (err_LedgerScopeDigest r) \<noteq> None \<or> Digest_Validate (err_RecordDigest r) \<noteq> None \<or> err_Sequence r = 0)
       ErrorInvalidArgument ReasonInvalidReference"

record EvidenceHistoricalSourceV2 =
  ehs_RegistrationID :: string
  ehs_SourceID :: string
  ehs_SourceEpoch :: Epoch
  ehs_SourceSequence :: u64
  ehs_ContentDigest :: Digest
  ehs_Record :: EvidenceRecordRefV2
  ehs_CandidateDigest :: Digest

record EvidenceEventCandidateV2 =
  ev_ContractVersion :: string
  ev_LedgerScope :: EvidenceLedgerScopeV2
  ev_EventID :: string
  ev_RegistrationID :: string
  ev_RegistrationRevision :: Revision
  ev_SourceConfigurationDigest :: Digest
  ev_SourcePolicy :: EvidenceSourcePolicyBindingRefV2
  ev_SourceID :: string
  ev_SourceEpoch :: Epoch
  ev_SourceSequence :: u64
  ev_TrustClass :: EvidenceTrustClassV2
  ev_ClaimKind :: RunCompletionClaimKind
  ev_EventKind :: string
  ev_CustomClass :: string
  ev_ExecutionScope :: ExecutionScope
  ev_Payload :: EvidencePayloadRefV2
  ev_Causation :: "EvidenceCausationRefV2 list"
  ev_CorrelationID :: string
  ev_Producer :: EvidenceProducerBindingRefV2
  ev_Authority :: AuthorityBindingRefV2
  ev_OwnerFact :: "EvidenceOwnerFactRefV2 option"
  ev_HistoricalSource :: "EvidenceHistoricalSourceV2 option"
  ev_ObservedUnixNano :: i64

definition owner_fact_error :: "EvidenceEventCandidateV2 \<Rightarrow> go_error option" where
  "owner_fact_error e =
     (if ev_TrustClass e = EvidenceTrustAuthoritativeFact
      then (case ev_OwnerFact e of
              None \<Rightarrow> Some (DomainError ErrorForbidden ReasonEvidenceTrustInvalid)
            | Some f \<Rightarrow>
                first_err
                 [EvidenceOwnerFactRefV2_Validate f,
                  fail_if (SchemaRefV2_Key (eof_PayloadSchema f) \<noteq> SchemaRefV2_Key (epr_Schema (ev_Payload e))
                     \<or> eof_PayloadDigest f \<noteq> epr_ContentDigest (ev_Payload e)
                     \<or> eof_PayloadRevision f \<noteq> epr_Revision (ev_Payload e))
                    ErrorPreconditionFailed ReasonEvidenceTrustInvalid])
      else fail_if (ev_OwnerFact e \<noteq> None) ErrorForbidden ReasonEvidenceTrustInvalid)"

definition historical_error :: "EvidenceEventCandidateV2 \<Rightarrow> go_error option" where
  "historical_error e =
     (if ev_TrustClass e = EvidenceTrustLateObservation
      then (case ev_HistoricalSource e of
              None \<Rightarrow> Some (DomainError ErrorForbidden ReasonEvidenceTrustInvalid)
            | Some h \<Rightarrow>
                first_err
                 [fail_if (els_Partition (ev_LedgerScope e) = EvidencePartitionRun \<or> els_Partition (ev_LedgerScope e) = EvidencePartitionEffect)
                    ErrorForbidden ReasonEvidenceTrustInvalid,
                  fail_if (validateEvidenceIDV2 (ehs_RegistrationID h) \<noteq> None \<or> ValidateNamespacedNameV2 (ehs_SourceID h) \<noteq> None
                     \<or> ehs_SourceEpoch h = 0 \<or> ehs_SourceEpoch h \<ge> ev_SourceEpoch e \<or> ehs_SourceSequence h = 0
                     \<or> Digest_Validate (ehs_ContentDigest h) \<noteq> None \<or> ehs_ContentDigest h \<noteq> epr_ContentDigest (ev_Payload e)
                     \<or> EvidenceRecordRefV2_Validate (ehs_Record h) \<noteq> None \<or> Digest_Validate (ehs_CandidateDigest h) \<noteq> None)
                    ErrorInvalidArgument ReasonEvidenceSourceStale])
      else fail_if (ev_HistoricalSource e \<noteq> None) ErrorForbidden ReasonEvidenceTrustInvalid)"

definition EvidenceEventCandidateV2_Validate :: "EvidenceEventCandidateV2 \<Rightarrow> go_error option" where
  "EvidenceEventCandidateV2_Validate e =
     first_err
      [fail_if (ev_ContractVersion e \<noteq> EvidenceContractVersionV2 \<or> validateEvidenceIDV2 (ev_EventID e) \<noteq> None
          \<or> validateEvidenceIDV2 (ev_RegistrationID e) \<noteq> None \<or> ev_RegistrationRevision e = 0 \<or> ev_SourceEpoch e = 0
          \<or> ev_SourceSequence e = 0 \<or> sint (ev_ObservedUnixNano e) \<le> 0) ErrorInvalidArgument ReasonEvidenceUnavailable,
       Digest_Validate (ev_SourceConfigurationDigest e),
       EvidenceSourcePolicyBindingRefV2_Validate (ev_SourcePolicy e),
       ValidateNamespacedNameV2 (ev_SourceID e),
       fail_if (validateEvidenceIDV2 (ev_CorrelationID e) \<noteq> None) ErrorInvalidArgument ReasonInvalidReference,
       EvidenceLedgerScopeV2_Validate (ev_LedgerScope e),
       ExecutionScope_Validate (ev_ExecutionScope e),
       fail_if (\<not> MatchesExecutionScope (ev_LedgerScope e) (ev_ExecutionScope e)) ErrorPreconditionFailed ReasonEvidenceScopeConflict,
       ValidateNamespacedNameV2 (ev_EventKind e),
       ValidateNamespacedNameV2 (ev_CustomClass e),
       EvidencePayloadRefV2_Validate (ev_Payload e),
       ProviderBindingRefV2_Validate (ev_Producer e),
       AuthorityBindingRefV2_Validate (ev_Authority e),
       validateEvidenceTrustV2 (ev_TrustClass e),
       (if ev_TrustClass e = EvidenceTrustClaim
        then fail_if (\<not> validEvidenceClaimKindV2 (ev_ClaimKind e)) ErrorInvalidArgument ReasonRunClaimUnverified
        else fail_if (ev_ClaimKind e \<noteq> RunClaimOther '''') ErrorForbidden ReasonEvidenceTrustInvalid),
       fail_if (length (ev_Causation e) > MaxEvidenceCausationRefs) ErrorInvalidArgument ReasonCanonicalLimitExceeded,
       causation_error (ev_Causation e),
       owner_fact_error e,
       historical_error e]"

section \<open>Records, keys and tombstones\<close>

record EvidenceSourceKeyV2 =
  esk_RegistrationID :: string
  esk_SourceEpoch :: Epoch
  esk_SourceSequence :: u64

definition EvidenceSourceKeyV2_Validate :: "EvidenceSourceKeyV2 \<Rightarrow> go_error option" where
  "EvidenceSourceKeyV2_Validate k =
     fail_if (validateEvidenceIDV2 (esk_RegistrationID k) \<noteq> None \<or> esk_SourceEpoch k = 0 \<or> esk_SourceSequence k = 0)
       ErrorInvalidArgument ReasonEvidenceSourceMissing"

record EvidenceLedgerRecordV2 =
  rec_Ref :: EvidenceRecordRefV2
  rec_Candidate :: EvidenceEventCandidateV2
  rec_CandidateDigest :: Digest
  rec_PreviousRecordDigest :: Digest
  rec_IngestedUnixNano :: i64

definition EvidenceLedgerRecordV2_Validate :: "EvidenceLedgerRecordV2 \<Rightarrow> go_error option" where
  "EvidenceLedgerRecordV2_Validate r =
     first_err
      [EvidenceRecordRefV2_Validate (rec_Ref r),
       fail_if (Digest_Validate (rec_CandidateDigest r) \<noteq> None \<or> Digest_Validate (rec_PreviousRecordDigest r) \<noteq> None
          \<or> sint (rec_IngestedUnixNano r) \<le> 0) ErrorInvalidArgument ReasonEvidenceChainConflict,
       EvidenceEventCandidateV2_Validate (rec_Candidate r)]"

record EvidenceTombstoneFactV2 =
  tmb_Record :: EvidenceRecordRefV2
  tmb_Source :: EvidenceSourceKeyV2
  tmb_Causation :: "EvidenceCausationRefV2 list"
  tmb_Reason :: string
  tmb_Revision :: Revision
  tmb_CreatedUnixNano :: i64

definition EvidenceTombstoneFactV2_Validate :: "EvidenceTombstoneFactV2 \<Rightarrow> go_error option" where
  "EvidenceTombstoneFactV2_Validate f =
     first_err
      [EvidenceRecordRefV2_Validate (tmb_Record f),
       EvidenceSourceKeyV2_Validate (tmb_Source f),
       ValidateNamespacedNameV2 (tmb_Reason f),
       fail_if (tmb_Revision f \<noteq> 1 \<or> sint (tmb_CreatedUnixNano f) \<le> 0 \<or> length (tmb_Causation f) > MaxEvidenceCausationRefs)
         ErrorInvalidArgument ReasonInvalidState,
       causation_error (tmb_Causation f)]"

record EvidenceSourceCASRequestV2 =
  scas_ExpectedRevision :: Revision
  scas_Next :: EvidenceSourceRegistrationFactV2

record EvidenceAppendRequestV2 =
  app_Candidate :: EvidenceEventCandidateV2
  app_ExpectedSourceRevision :: Revision

record EvidenceWatchCursorV2 =
  wc_LedgerScopeDigest :: Digest
  wc_AfterSequence :: u64

record EvidencePageV2 =
  page_Records :: "EvidenceLedgerRecordV2 list"
  page_Next :: EvidenceWatchCursorV2

section \<open>Digests\<close>

record evidence_json =
  json_SourcePolicy :: "EvidenceSourcePolicyFactV2 \<Rightarrow> string option"
  json_LedgerScope :: "EvidenceLedgerScopeV2 \<Rightarrow> string option"
  json_SourceRegistration :: "EvidenceSourceRegistrationFactV2 \<Rightarrow> string option"
  json_EventCandidate :: "EvidenceEventCandidateV2 \<Rightarrow> string option"
  json_LedgerRecord :: "EvidenceLedgerRecordV2 \<Rightarrow> string option"
  json_Tombstone :: "EvidenceTombstoneFactV2 \<Rightarrow> string option"

definition evidence_digest :: "string \<Rightarrow> string option \<Rightarrow> Digest res" where
  "evidence_digest discriminator marshalled =
     CanonicalJSONDigest ''praxis.runtime.evidence'' EvidenceContractVersionV2 discriminator marshalled"

definition EvidenceSourcePolicyFactV2_DigestV2 :: "evidence_json \<Rightarrow> EvidenceSourcePolicyFactV2 \<Rightarrow> Digest res" where
  "EvidenceSourcePolicyFactV2_DigestV2 J f =
     ensure (EvidenceSourcePolicyFactV2_Validate f)
      (evidence_digest ''EvidenceSourcePolicyFactV2'' (json_SourcePolicy J (f\<lparr>spf_Digest := ''''\<rparr>)))"

definition EvidenceLedgerScopeV2_DigestV2 :: "evidence_json \<Rightarrow> EvidenceLedgerScopeV2 \<Rightarrow> Digest res" where
  "EvidenceLedgerScopeV2_DigestV2 J s =
     ensure (EvidenceLedgerScopeV2_Validate s) (evidence_digest ''EvidenceLedgerScopeV2'' (json_LedgerScope J s))"

definition EvidenceSourceRegistrationFactV2_DigestV2 :: "evidence_json \<Rightarrow> EvidenceSourceRegistrationFactV2 \<Rightarrow> Digest res" where
  "EvidenceSourceRegistrationFactV2_DigestV2 J f =
     ensure (EvidenceSourceRegistrationFactV2_Validate f)
      (evidence_digest ''EvidenceSourceRegistrationFactV2'' (json_SourceRegistration J f))"

definition ConfigurationDigestV2 :: "evidence_json \<Rightarrow> EvidenceSourceRegistrationFactV2 \<Rightarrow> Digest res" where
  "ConfigurationDigestV2 J f =
     ensure (EvidenceSourceRegistrationFactV2_Validate f)
      (evidence_digest ''EvidenceSourceConfigurationV2''
        (json_SourceRegistration J
          (f\<lparr>src_Revision := 0, src_NextSourceSequence := 0, src_State := EvidenceSourceStateOther '''',
             src_CreatedUnixNano := 0, src_UpdatedUnixNano := 0\<rparr>)))"

definition EvidenceEventCandidateV2_DigestV2 :: "evidence_json \<Rightarrow> EvidenceEventCandidateV2 \<Rightarrow> Digest res" where
  "EvidenceEventCandidateV2_DigestV2 J e =
     ensure (EvidenceEventCandidateV2_Validate e) (evidence_digest ''EvidenceEventCandidateV2'' (json_EventCandidate J e))"

definition EvidenceTombstoneFactV2_DigestV2 :: "evidence_json \<Rightarrow> EvidenceTombstoneFactV2 \<Rightarrow> Digest res" where
  "EvidenceTombstoneFactV2_DigestV2 J f =
     ensure (EvidenceTombstoneFactV2_Validate f) (evidence_digest ''EvidenceTombstoneFactV2'' (json_Tombstone J f))"

end
