(* ===== verification/Ledger.thy ===== *)
theory Ledger
  imports Evidence
begin

text \<open>
  \<open>runtime/control/evidence_ledger_v2.go\<close>: the rules of the evidence ledger. When a source may be
  registered, how its registration may change, what an event must agree with to be appended, and how
  a ledger record is made and verified.
\<close>

section \<open>Sources\<close>

definition ValidateNewEvidenceSourceV2 :: "EvidenceSourceRegistrationFactV2 \<Rightarrow> Time \<Rightarrow> go_error option" where
  "ValidateNewEvidenceSourceV2 f now =
     first_err
      [EvidenceSourceRegistrationFactV2_Validate f,
       fail_if (IsZero now \<or> src_Revision f \<noteq> 1 \<or> src_State f \<noteq> EvidenceSourceActive \<or> src_NextSourceSequence f \<noteq> 1
          \<or> src_CreatedUnixNano f \<noteq> src_UpdatedUnixNano f
          \<or> sint (src_CreatedUnixNano f) > sint (UnixNano now)
          \<or> sint (src_ExpiresUnixNano f) \<le> sint (src_CreatedUnixNano f)
          \<or> \<not> Before now (TimeUnix0 (src_ExpiresUnixNano f)))
         ErrorInvalidArgument ReasonEvidenceSourceMissing]"

definition sameEvidenceMappingsV2 :: "EvidenceClassMappingV2 list \<Rightarrow> EvidenceClassMappingV2 list \<Rightarrow> bool" where
  "sameEvidenceMappingsV2 left right \<longleftrightarrow>
     (if length left \<noteq> length right then False else list_all (\<lambda>i. left ! i = right ! i) [0..<length left])"

definition sameEvidenceKindsV2 :: "string list \<Rightarrow> string list \<Rightarrow> bool" where
  "sameEvidenceKindsV2 left right \<longleftrightarrow>
     (if length left \<noteq> length right then False else list_all (\<lambda>i. left ! i = right ! i) [0..<length left])"

lemma same_list_eq: "(if length l \<noteq> length r then False else list_all (\<lambda>i. l ! i = r ! i) [0..<length l]) \<longleftrightarrow> l = r"
proof (cases "length l = length r")
  case True
  then have "(\<forall>i < length r. l ! i = r ! i) \<longleftrightarrow> l = r" using nth_equalityI [of l r] by auto
  with True show ?thesis by (simp add: list_all_iff Ball_def)
qed auto

lemma same_sets_eq [simp]: "sameEvidenceMappingsV2 l r \<longleftrightarrow> l = r" "sameEvidenceKindsV2 ks ks' \<longleftrightarrow> ks = ks'"
  by (simp_all only: sameEvidenceMappingsV2_def sameEvidenceKindsV2_def same_list_eq)

definition validEvidenceScopeWatermarkAdvanceV2 ::
  "EvidenceSourceRegistrationFactV2 \<Rightarrow> EvidenceSourceRegistrationFactV2 \<Rightarrow> bool" where
  "validEvidenceScopeWatermarkAdvanceV2 c n \<longleftrightarrow>
     (if src_CurrentScope c = src_CurrentScope n then src_CurrentScopeWatermark c = src_CurrentScopeWatermark n
      else sb_Ref (src_CurrentScope c) = sb_Ref (src_CurrentScope n)
         \<and> sb_Revision (src_CurrentScope n) = sb_Revision (src_CurrentScope c) + 1
         \<and> sb_Digest (src_CurrentScope n) \<noteq> sb_Digest (src_CurrentScope c)
         \<and> src_CurrentScopeWatermark n > src_CurrentScopeWatermark c)"

definition validEvidenceProducerWatermarkAdvanceV2 ::
  "EvidenceProducerBindingRefV2 \<Rightarrow> EvidenceProducerBindingRefV2 \<Rightarrow> bool" where
  "validEvidenceProducerWatermarkAdvanceV2 c n \<longleftrightarrow>
     (if c = n then True
      else prov_BindingSetID c = prov_BindingSetID n \<and> prov_ComponentID c = prov_ComponentID n
         \<and> prov_ManifestDigest c = prov_ManifestDigest n \<and> prov_ArtifactDigest c = prov_ArtifactDigest n
         \<and> prov_Capability c = prov_Capability n \<and> prov_BindingSetRevision n = prov_BindingSetRevision c + 1)"

definition validEvidenceAuthorityWatermarkAdvanceV2 :: "AuthorityBindingRefV2 \<Rightarrow> AuthorityBindingRefV2 \<Rightarrow> bool" where
  "validEvidenceAuthorityWatermarkAdvanceV2 c n \<longleftrightarrow>
     (if c = n then True
      else ab_Ref c = ab_Ref n \<and> ab_Epoch c = ab_Epoch n \<and> ab_Revision n = ab_Revision c + 1 \<and> ab_Digest n \<noteq> ab_Digest c)"

definition validEvidencePolicyWatermarkAdvanceV2 ::
  "EvidenceSourcePolicyBindingRefV2 \<Rightarrow> EvidenceSourcePolicyBindingRefV2 \<Rightarrow> bool" where
  "validEvidencePolicyWatermarkAdvanceV2 c n \<longleftrightarrow>
     (if c = n then True
      else spb_Ref c = spb_Ref n \<and> spb_Revision n = spb_Revision c + 1 \<and> spb_Digest n \<noteq> spb_Digest c)"

definition source_move_error ::
  "EvidenceSourceRegistrationFactV2 \<Rightarrow> EvidenceSourceRegistrationFactV2 \<Rightarrow> Time \<Rightarrow> go_error option" where
  "source_move_error c n now =
     (case src_State n of
        EvidenceSourceActive \<Rightarrow>
          fail_if (sint (src_ExpiresUnixNano n) \<le> sint (src_ExpiresUnixNano c)) ErrorPreconditionFailed ReasonEvidenceSourceStale
      | EvidenceSourceRevoked \<Rightarrow>
          fail_if (src_ExpiresUnixNano n \<noteq> src_ExpiresUnixNano c) ErrorPreconditionFailed ReasonEvidenceSourceStale
      | EvidenceSourceExpired \<Rightarrow>
          fail_if (src_ExpiresUnixNano n \<noteq> src_ExpiresUnixNano c \<or> Before now (TimeUnix0 (src_ExpiresUnixNano c)))
            ErrorPreconditionFailed ReasonEvidenceSourceStale
      | EvidenceSourceStateOther s \<Rightarrow> Some (DomainError ErrorPreconditionFailed ReasonInvalidTransition))"

definition ValidateEvidenceSourceTransitionV2 ::
  "EvidenceSourceRegistrationFactV2 \<Rightarrow> EvidenceSourceRegistrationFactV2 \<Rightarrow> Time \<Rightarrow> go_error option" where
  "ValidateEvidenceSourceTransitionV2 c n now =
     first_err
      [EvidenceSourceRegistrationFactV2_Validate c,
       EvidenceSourceRegistrationFactV2_Validate n,
       fail_if (IsZero now \<or> sint (UnixNano now) < sint (src_UpdatedUnixNano c)) ErrorPreconditionFailed ReasonClockRegression,
       fail_if (src_ID c \<noteq> src_ID n \<or> src_SourceID c \<noteq> src_SourceID n \<or> src_SourceEpoch c \<noteq> src_SourceEpoch n
          \<or> src_LedgerScope c \<noteq> src_LedgerScope n \<or> \<not> SameExecutionScopeV2 (src_ExecutionScope c) (src_ExecutionScope n)
          \<or> src_ActionScopeDigest c \<noteq> src_ActionScopeDigest n
          \<or> \<not> sameEvidenceMappingsV2 (src_ClassMappings c) (src_ClassMappings n)
          \<or> \<not> sameEvidenceKindsV2 (src_AllowedKinds c) (src_AllowedKinds n) \<or> src_GapPolicy c \<noteq> src_GapPolicy n)
         ErrorConflict ReasonEvidenceSourceStale,
       fail_if (\<not> validEvidenceScopeWatermarkAdvanceV2 c n
          \<or> \<not> validEvidenceProducerWatermarkAdvanceV2 (src_Producer c) (src_Producer n)
          \<or> \<not> validEvidenceAuthorityWatermarkAdvanceV2 (src_Authority c) (src_Authority n)
          \<or> \<not> validEvidencePolicyWatermarkAdvanceV2 (src_Policy c) (src_Policy n)) ErrorConflict ReasonEvidenceSourceStale,
       fail_if (src_Revision n \<noteq> src_Revision c + 1 \<or> src_NextSourceSequence n \<noteq> src_NextSourceSequence c
          \<or> src_CreatedUnixNano n \<noteq> src_CreatedUnixNano c \<or> src_UpdatedUnixNano n \<noteq> UnixNano now)
         ErrorConflict ReasonRevisionConflict,
       fail_if (src_State c \<noteq> EvidenceSourceActive) ErrorPreconditionFailed ReasonEvidenceSourceStale,
       source_move_error c n now]"

section \<open>Appending\<close>

fun evidenceMappedTrustV2 :: "EvidenceClassMappingV2 list \<Rightarrow> string \<Rightarrow> EvidenceTrustClassV2 option" where
  "evidenceMappedTrustV2 [] class = None"
| "evidenceMappedTrustV2 (m # ms) class = (if cm_Class m = class then Some (cm_Trust m) else evidenceMappedTrustV2 ms class)"

definition evidenceKindAllowedV2 :: "string list \<Rightarrow> string \<Rightarrow> bool" where
  "evidenceKindAllowedV2 kinds kind \<longleftrightarrow> list_ex (\<lambda>k. k = kind) kinds"

definition ValidateEvidenceAppendV2 ::
  "evidence_json \<Rightarrow> EvidenceSourceRegistrationFactV2 \<Rightarrow> EvidenceEventCandidateV2 \<Rightarrow> Revision \<Rightarrow> Time \<Rightarrow> go_error option" where
  "ValidateEvidenceAppendV2 J s e expected now =
     first_err
      [EvidenceSourceRegistrationFactV2_Validate s,
       EvidenceEventCandidateV2_Validate e,
       fail_if (IsZero now \<or> sint (UnixNano now) < sint (src_UpdatedUnixNano s)) ErrorPreconditionFailed ReasonClockRegression,
       fail_if (src_State s \<noteq> EvidenceSourceActive \<or> \<not> EvidenceTimeCurrentV2 (src_ExpiresUnixNano s) now)
         ErrorPreconditionFailed ReasonEvidenceSourceStale,
       (case ConfigurationDigestV2 J s of
          Inl x \<Rightarrow> Some x
        | Inr configurationDigest \<Rightarrow>
            fail_if (expected \<noteq> src_Revision s \<or> ev_RegistrationID e \<noteq> src_ID s \<or> ev_RegistrationRevision e \<noteq> src_Revision s
               \<or> ev_SourceConfigurationDigest e \<noteq> configurationDigest \<or> ev_SourcePolicy e \<noteq> src_Policy s
               \<or> ev_SourceID e \<noteq> src_SourceID s \<or> ev_SourceEpoch e \<noteq> src_SourceEpoch s \<or> ev_LedgerScope e \<noteq> src_LedgerScope s
               \<or> \<not> SameExecutionScopeV2 (ev_ExecutionScope e) (src_ExecutionScope s) \<or> ev_Producer e \<noteq> src_Producer s
               \<or> ev_Authority e \<noteq> src_Authority s) ErrorPreconditionFailed ReasonEvidenceSourceStale),
       fail_if (ev_SourceSequence e \<noteq> src_NextSourceSequence s) ErrorConflict ReasonEvidenceSequenceGap,
       fail_if (\<not> evidenceKindAllowedV2 (src_AllowedKinds s) (ev_EventKind e)) ErrorForbidden ReasonEvidenceTrustInvalid,
       fail_if (evidenceMappedTrustV2 (src_ClassMappings s) (ev_CustomClass e) \<noteq> Some (ev_TrustClass e)
          \<or> ev_TrustClass e = EvidenceTrustLateObservation) ErrorForbidden ReasonEvidenceTrustInvalid,
       fail_if (sint (ev_ObservedUnixNano e) > sint (UnixNano now)) ErrorPreconditionFailed ReasonClockRegression]"

text \<open>The same event as an ordinary current observation.\<close>

definition ordinary_event :: "EvidenceEventCandidateV2 \<Rightarrow> EvidenceEventCandidateV2" where
  "ordinary_event e = e\<lparr>ev_TrustClass := EvidenceTrustObservation, ev_HistoricalSource := None\<rparr>"

definition ValidateEvidenceLateAppendV2 ::
  "evidence_json \<Rightarrow> EvidenceSourceRegistrationFactV2 \<Rightarrow> EvidenceEventCandidateV2 \<Rightarrow> Revision \<Rightarrow> Time \<Rightarrow> go_error option" where
  "ValidateEvidenceLateAppendV2 J s e expected now =
     first_err
      [fail_if (ev_TrustClass e \<noteq> EvidenceTrustLateObservation \<or> ev_HistoricalSource e = None \<or> ev_OwnerFact e \<noteq> None)
         ErrorForbidden ReasonEvidenceTrustInvalid,
       ValidateEvidenceAppendV2 J s (ordinary_event e) expected now]"

section \<open>Records\<close>

definition EvidenceLedgerRecordDigestV2 :: "evidence_json \<Rightarrow> EvidenceLedgerRecordV2 \<Rightarrow> Digest res" where
  "EvidenceLedgerRecordDigestV2 J r =
     ensure (first_err
        [fail_if (err_Sequence (rec_Ref r) = 0 \<or> sint (rec_IngestedUnixNano r) \<le> 0) ErrorInvalidArgument ReasonEvidenceChainConflict,
         Digest_Validate (err_LedgerScopeDigest (rec_Ref r))])
      (bind_res (EvidenceEventCandidateV2_DigestV2 J (rec_Candidate r))
        (\<lambda>digest. ensure (fail_if (digest \<noteq> rec_CandidateDigest r) ErrorPreconditionFailed ReasonEvidenceConflict)
          (evidence_digest ''EvidenceLedgerRecordV2''
            (json_LedgerRecord J (r\<lparr>rec_Ref := (rec_Ref r)\<lparr>err_RecordDigest := ''''\<rparr>\<rparr>)))))"

definition NewEvidenceLedgerRecordV2 ::
  "evidence_json \<Rightarrow> EvidenceEventCandidateV2 \<Rightarrow> u64 \<Rightarrow> Digest \<Rightarrow> Time \<Rightarrow> EvidenceLedgerRecordV2 res" where
  "NewEvidenceLedgerRecordV2 J e ledgerSequence previous ingested =
     ensure (first_err
        [EvidenceEventCandidateV2_Validate e,
         fail_if (ledgerSequence = 0 \<or> IsZero ingested \<or> sint (UnixNano ingested) < sint (ev_ObservedUnixNano e))
           ErrorInvalidArgument ReasonEvidenceChainConflict])
      (bind_res (EvidenceLedgerScopeV2_DigestV2 J (ev_LedgerScope e)) (\<lambda>scopeDigest.
       bind_res (EvidenceEventCandidateV2_DigestV2 J e) (\<lambda>candidateDigest.
         ensure (if ledgerSequence = 1
                 then fail_if (previous \<noteq> EvidenceGenesisDigestV2) ErrorConflict ReasonEvidenceChainConflict
                 else fail_if (Digest_Validate previous \<noteq> None) ErrorConflict ReasonEvidenceChainConflict)
          (let r = \<lparr>rec_Ref = \<lparr>err_LedgerScopeDigest = scopeDigest, err_Sequence = ledgerSequence, err_RecordDigest = ''''\<rparr>,
                    rec_Candidate = e, rec_CandidateDigest = candidateDigest, rec_PreviousRecordDigest = previous,
                    rec_IngestedUnixNano = UnixNano ingested\<rparr> in
           bind_res (EvidenceLedgerRecordDigestV2 J r)
             (\<lambda>digest. Inr (r\<lparr>rec_Ref := (rec_Ref r)\<lparr>err_RecordDigest := digest\<rparr>\<rparr>))))))"

definition ValidateEvidenceLedgerRecordV2 :: "evidence_json \<Rightarrow> EvidenceLedgerRecordV2 \<Rightarrow> go_error option" where
  "ValidateEvidenceLedgerRecordV2 J r =
     first_err
      [EvidenceLedgerRecordV2_Validate r,
       (case EvidenceLedgerScopeV2_DigestV2 J (ev_LedgerScope (rec_Candidate r)) of
          Inl e \<Rightarrow> Some e
        | Inr scopeDigest \<Rightarrow>
            fail_if (err_LedgerScopeDigest (rec_Ref r) \<noteq> scopeDigest) ErrorPreconditionFailed ReasonEvidenceScopeConflict),
       fail_if (err_Sequence (rec_Ref r) = 1 \<and> rec_PreviousRecordDigest r \<noteq> EvidenceGenesisDigestV2)
         ErrorConflict ReasonEvidenceChainConflict,
       (case EvidenceLedgerRecordDigestV2 J r of
          Inl e \<Rightarrow> Some e
        | Inr digest \<Rightarrow>
            fail_if (err_RecordDigest (rec_Ref r) \<noteq> digest) ErrorPreconditionFailed ReasonEvidenceChainConflict)]"

definition ValidateEvidenceSourceKeyV2 :: "EvidenceSourceKeyV2 \<Rightarrow> go_error option" where
  "ValidateEvidenceSourceKeyV2 key =
     fail_if (blank (esk_RegistrationID key) \<or> esk_SourceEpoch key = 0 \<or> esk_SourceSequence key = 0)
       ErrorInvalidArgument ReasonEvidenceSourceMissing"

end
