(* ===== verification/LedgerStore.thy ===== *)
theory LedgerStore
  imports Ledger FactStore "HOL-Library.AList"
begin

text \<open>
  \<open>runtime/fakes/evidence_ledger_v2.go\<close>: the in-memory owner of the evidence ledger. The mutex makes
  each operation atomic; the clock is the argument \<open>now\<close> of the operations that read it. The records of
  a ledger, which \<open>Watch\<close> ranges over, are an association list; the other maps are functions, a missing
  counter or digest reading as zero or the empty string, as in Go. The current-subject index that the
  same struct carries is another component and not part of this state.
\<close>

section \<open>State and keys\<close>

record EvidenceLedgerStoreV2 =
  el_sources :: "string \<rightharpoonup> EvidenceSourceRegistrationFactV2"
  el_sourceEpochs :: "string \<rightharpoonup> string"
  el_records :: "Digest \<Rightarrow> (u64 \<times> EvidenceLedgerRecordV2) list"
  el_bySource :: "string \<rightharpoonup> EvidenceLedgerRecordV2"
  el_byEvent :: "string \<rightharpoonup> EvidenceLedgerRecordV2"
  el_lastSequence :: "Digest \<Rightarrow> u64"
  el_lastDigest :: "Digest \<Rightarrow> Digest"
  el_tombstones :: "string \<rightharpoonup> EvidenceTombstoneFactV2"
  el_loseNextCreateReply :: bool
  el_loseNextCASReply :: bool
  el_loseNextAppendReply :: bool
  el_loseNextTombstoneReply :: bool

definition NewEvidenceLedgerStoreV2 :: EvidenceLedgerStoreV2 where
  "NewEvidenceLedgerStoreV2 =
     \<lparr>el_sources = Map.empty, el_sourceEpochs = Map.empty, el_records = (\<lambda>d. []), el_bySource = Map.empty,
      el_byEvent = Map.empty, el_lastSequence = (\<lambda>d. 0), el_lastDigest = (\<lambda>d. ''''), el_tombstones = Map.empty,
      el_loseNextCreateReply = False, el_loseNextCASReply = False, el_loseNextAppendReply = False,
      el_loseNextTombstoneReply = False\<rparr>"

definition LoseNextCreateReply :: "EvidenceLedgerStoreV2 \<Rightarrow> EvidenceLedgerStoreV2" where
  "LoseNextCreateReply s = s\<lparr>el_loseNextCreateReply := True\<rparr>"

definition LoseNextCASReply :: "EvidenceLedgerStoreV2 \<Rightarrow> EvidenceLedgerStoreV2" where
  "LoseNextCASReply s = s\<lparr>el_loseNextCASReply := True\<rparr>"

definition LoseNextAppendReply :: "EvidenceLedgerStoreV2 \<Rightarrow> EvidenceLedgerStoreV2" where
  "LoseNextAppendReply s = s\<lparr>el_loseNextAppendReply := True\<rparr>"

definition LoseNextTombstoneReply :: "EvidenceLedgerStoreV2 \<Rightarrow> EvidenceLedgerStoreV2" where
  "LoseNextTombstoneReply s = s\<lparr>el_loseNextTombstoneReply := True\<rparr>"

definition evidenceSourceKeyV2 :: "EvidenceSourceKeyV2 \<Rightarrow> string" where
  "evidenceSourceKeyV2 key =
     esk_RegistrationID key @ nul @ dec (unat (esk_SourceEpoch key)) @ nul @ dec (unat (esk_SourceSequence key))"

definition event_source_key :: "EvidenceEventCandidateV2 \<Rightarrow> string" where
  "event_source_key e = evidenceSourceKeyV2
     \<lparr>esk_RegistrationID = ev_RegistrationID e, esk_SourceEpoch = ev_SourceEpoch e, esk_SourceSequence = ev_SourceSequence e\<rparr>"

definition event_key :: "evidence_json \<Rightarrow> EvidenceEventCandidateV2 \<Rightarrow> string" where
  "event_key J e = digest_or_empty (EvidenceLedgerScopeV2_DigestV2 J (ev_LedgerScope e)) @ nul @ ev_EventID e"

definition epoch_key :: "evidence_json \<Rightarrow> EvidenceSourceRegistrationFactV2 \<Rightarrow> string" where
  "epoch_key J f = digest_or_empty (EvidenceLedgerScopeV2_DigestV2 J (src_LedgerScope f)) @ nul @ src_SourceID f @ nul
     @ dec (unat (src_SourceEpoch f))"

definition tombstone_key :: "EvidenceRecordRefV2 \<Rightarrow> string" where
  "tombstone_key r = err_LedgerScopeDigest r @ nul @ dec (unat (err_Sequence r))"

abbreviation lost_reply :: go_error where
  "lost_reply \<equiv> DomainError ErrorUnavailable ReasonEvidenceUnavailable"

section \<open>Sources\<close>

definition CreateSource ::
  "evidence_json \<Rightarrow> EvidenceLedgerStoreV2 \<Rightarrow> go_context \<Rightarrow> EvidenceSourceRegistrationFactV2 \<Rightarrow> Time
     \<Rightarrow> EvidenceLedgerStoreV2 \<times> EvidenceSourceRegistrationFactV2 res" where [step_defs]:
  "CreateSource J s ctx f now =
     guarded (contextError ctx) s
      (case el_sources s (src_ID f) of
         Some existing \<Rightarrow>
           (s, if digest_or_empty (EvidenceSourceRegistrationFactV2_DigestV2 J existing)
                  = digest_or_empty (EvidenceSourceRegistrationFactV2_DigestV2 J f)
               then Inr existing else Inl (DomainError ErrorConflict ReasonIdempotencyPayloadMismatch))
       | None \<Rightarrow>
           guarded (first_err
              [ValidateNewEvidenceSourceV2 f now,
               fail_if (case el_sourceEpochs s (epoch_key J f) of None \<Rightarrow> False | Some existingID \<Rightarrow> existingID \<noteq> src_ID f)
                 ErrorConflict ReasonEvidenceConflict]) s
            (let s' = s\<lparr>el_sources := (el_sources s)(src_ID f \<mapsto> f),
                        el_sourceEpochs := (el_sourceEpochs s)(epoch_key J f \<mapsto> src_ID f)\<rparr> in
             if el_loseNextCreateReply s' then (s'\<lparr>el_loseNextCreateReply := False\<rparr>, Inl lost_reply) else (s', Inr f)))"

definition InspectSource ::
  "EvidenceLedgerStoreV2 \<Rightarrow> go_context \<Rightarrow> string \<Rightarrow> EvidenceSourceRegistrationFactV2 res" where
  "InspectSource s ctx i =
     ensure (contextError ctx)
      (case el_sources s i of
         None \<Rightarrow> Inl (DomainError ErrorNotFound ReasonEvidenceSourceMissing)
       | Some f \<Rightarrow> Inr f)"

definition CompareAndSwapSource ::
  "evidence_json \<Rightarrow> EvidenceLedgerStoreV2 \<Rightarrow> go_context \<Rightarrow> EvidenceSourceCASRequestV2 \<Rightarrow> Time
     \<Rightarrow> EvidenceLedgerStoreV2 \<times> EvidenceSourceRegistrationFactV2 res" where [step_defs]:
  "CompareAndSwapSource J s ctx request now =
     guarded (contextError ctx) s
      (case el_sources s (src_ID (scas_Next request)) of
         None \<Rightarrow> (s, Inl (DomainError ErrorNotFound ReasonEvidenceSourceMissing))
       | Some current \<Rightarrow>
           if src_Revision current \<noteq> scas_ExpectedRevision request then
             (s, if digest_or_empty (EvidenceSourceRegistrationFactV2_DigestV2 J current)
                    = digest_or_empty (EvidenceSourceRegistrationFactV2_DigestV2 J (scas_Next request))
                 then Inr current else Inl (DomainError ErrorConflict ReasonRevisionConflict))
           else
             guarded (ValidateEvidenceSourceTransitionV2 current (scas_Next request) now) s
              (let s' = s\<lparr>el_sources := (el_sources s)(src_ID current \<mapsto> scas_Next request)\<rparr> in
               if el_loseNextCASReply s' then (s'\<lparr>el_loseNextCASReply := False\<rparr>, Inl lost_reply)
               else (s', Inr (scas_Next request))))"

section \<open>Appending\<close>

text \<open>The record, its two index entries, the chain head and the source cursor become visible together.\<close>

definition advance_source :: "EvidenceSourceRegistrationFactV2 \<Rightarrow> Time \<Rightarrow> EvidenceSourceRegistrationFactV2" where
  "advance_source f now =
     f\<lparr>src_Revision := src_Revision f + 1, src_NextSourceSequence := src_NextSourceSequence f + 1,
       src_UpdatedUnixNano := UnixNano now\<rparr>"

definition commit_record ::
  "EvidenceLedgerStoreV2 \<Rightarrow> string \<Rightarrow> string \<Rightarrow> EvidenceSourceRegistrationFactV2 \<Rightarrow> EvidenceLedgerRecordV2 \<Rightarrow> Time
     \<Rightarrow> EvidenceLedgerStoreV2" where
  "commit_record s key eventKey source r now =
     (let scopeDigest = err_LedgerScopeDigest (rec_Ref r); sequence = err_Sequence (rec_Ref r) in
      s\<lparr>el_records := (el_records s)(scopeDigest := AList.update sequence r (el_records s scopeDigest)),
        el_bySource := (el_bySource s)(key \<mapsto> r),
        el_byEvent := (el_byEvent s)(eventKey \<mapsto> r),
        el_lastSequence := (el_lastSequence s)(scopeDigest := sequence),
        el_lastDigest := (el_lastDigest s)(scopeDigest := err_RecordDigest (rec_Ref r)),
        el_sources := (el_sources s)(src_ID source \<mapsto> advance_source source now)\<rparr>)"

definition append_event ::
  "evidence_json \<Rightarrow> EvidenceLedgerStoreV2 \<Rightarrow> go_context \<Rightarrow> EvidenceEventCandidateV2 \<Rightarrow> Revision \<Rightarrow> bool \<Rightarrow> Time
     \<Rightarrow> EvidenceLedgerStoreV2 \<times> EvidenceLedgerRecordV2 res" where
  "append_event J s ctx e expected late now =
     guarded (first_err [contextError ctx, EvidenceEventCandidateV2_Validate e]) s
      (let key = event_source_key e in
       case el_bySource s key of
         Some existing \<Rightarrow>
           (s, if digest_or_empty (EvidenceEventCandidateV2_DigestV2 J e) = rec_CandidateDigest existing then Inr existing
               else Inl (DomainError ErrorConflict ReasonEvidenceConflict))
       | None \<Rightarrow>
           (case el_sources s (ev_RegistrationID e) of
              None \<Rightarrow> (s, Inl (DomainError ErrorNotFound ReasonEvidenceSourceMissing))
            | Some source \<Rightarrow>
                guarded (if late then ValidateEvidenceLateAppendV2 J source e expected now
                         else ValidateEvidenceAppendV2 J source e expected now) s
                 (let scopeDigest = digest_or_empty (EvidenceLedgerScopeV2_DigestV2 J (ev_LedgerScope e));
                      eventKey = event_key J e in
                  guarded (fail_if (el_byEvent s eventKey \<noteq> None) ErrorConflict ReasonEvidenceConflict) s
                   (let sequence = el_lastSequence s scopeDigest + 1;
                        previous = (if sequence = 1 then EvidenceGenesisDigestV2 else el_lastDigest s scopeDigest) in
                    case NewEvidenceLedgerRecordV2 J e sequence previous now of
                      Inl x \<Rightarrow> (s, Inl x)
                    | Inr r \<Rightarrow>
                        (let s' = commit_record s key eventKey source r now in
                         if el_loseNextAppendReply s' then (s'\<lparr>el_loseNextAppendReply := False\<rparr>, Inl lost_reply)
                         else (s', Inr r))))))"

definition Append ::
  "evidence_json \<Rightarrow> EvidenceLedgerStoreV2 \<Rightarrow> go_context \<Rightarrow> EvidenceAppendRequestV2 \<Rightarrow> Time
     \<Rightarrow> EvidenceLedgerStoreV2 \<times> EvidenceLedgerRecordV2 res" where [step_defs]:
  "Append J s ctx request now = append_event J s ctx (app_Candidate request) (app_ExpectedSourceRevision request) False now"

definition AppendLateObservation ::
  "evidence_json \<Rightarrow> EvidenceLedgerStoreV2 \<Rightarrow> go_context \<Rightarrow> EvidenceAppendRequestV2 \<Rightarrow> Time
     \<Rightarrow> EvidenceLedgerStoreV2 \<times> EvidenceLedgerRecordV2 res" where [step_defs]:
  "AppendLateObservation J s ctx request now =
     append_event J s ctx (app_Candidate request) (app_ExpectedSourceRevision request) True now"

section \<open>Reading\<close>

definition InspectBySource ::
  "EvidenceLedgerStoreV2 \<Rightarrow> go_context \<Rightarrow> EvidenceSourceKeyV2 \<Rightarrow> EvidenceLedgerRecordV2 res" where
  "InspectBySource s ctx key =
     ensure (first_err [contextError ctx, EvidenceSourceKeyV2_Validate key])
      (case el_bySource s (evidenceSourceKeyV2 key) of
         None \<Rightarrow> Inl (DomainError ErrorNotFound ReasonEvidenceUnavailable)
       | Some r \<Rightarrow> Inr r)"

definition InspectRecord ::
  "EvidenceLedgerStoreV2 \<Rightarrow> go_context \<Rightarrow> EvidenceRecordRefV2 \<Rightarrow> EvidenceLedgerRecordV2 res" where
  "InspectRecord s ctx ref =
     ensure (first_err [contextError ctx, EvidenceRecordRefV2_Validate ref])
      (case map_of (el_records s (err_LedgerScopeDigest ref)) (err_Sequence ref) of
         None \<Rightarrow> Inl (DomainError ErrorNotFound ReasonEvidenceUnavailable)
       | Some r \<Rightarrow>
           if err_RecordDigest (rec_Ref r) \<noteq> err_RecordDigest ref then Inl (DomainError ErrorConflict ReasonEvidenceConflict)
           else Inr r)"

fun watch_page :: "(u64 \<times> EvidenceLedgerRecordV2) list \<Rightarrow> EvidencePageV2 \<Rightarrow> u64 list \<Rightarrow> EvidencePageV2" where
  "watch_page items page [] = page"
| "watch_page items page (q # qs) =
     watch_page items
      (page\<lparr>page_Records := page_Records page @ [the (map_of items q)], page_Next := (page_Next page)\<lparr>wc_AfterSequence := q\<rparr>\<rparr>) qs"

definition Watch ::
  "EvidenceLedgerStoreV2 \<Rightarrow> go_context \<Rightarrow> EvidenceWatchCursorV2 \<Rightarrow> u32 \<Rightarrow> EvidencePageV2 res" where
  "Watch s ctx cursor limit =
     ensure (first_err
        [contextError ctx,
         fail_if (Digest_Validate (wc_LedgerScopeDigest cursor) \<noteq> None \<or> limit = 0 \<or> unat limit > MaxEvidencePageSize)
           ErrorInvalidArgument ReasonEvidenceCursorInvalid])
      (let items = el_records s (wc_LedgerScopeDigest cursor);
           sequences = sort (filter (\<lambda>q. q > wc_AfterSequence cursor) (map fst items)) in
       Inr (watch_page items \<lparr>page_Records = [], page_Next = cursor\<rparr>
              (if length sequences > unat limit then take (unat limit) sequences else sequences)))"

section \<open>Tombstones\<close>

definition CreateTombstone ::
  "evidence_json \<Rightarrow> EvidenceLedgerStoreV2 \<Rightarrow> go_context \<Rightarrow> EvidenceTombstoneFactV2 \<Rightarrow> Time
     \<Rightarrow> EvidenceLedgerStoreV2 \<times> EvidenceTombstoneFactV2 res" where [step_defs]:
  "CreateTombstone J s ctx f now =
     guarded (contextError ctx) s
      (let key = tombstone_key (tmb_Record f) in
       case el_tombstones s key of
         Some existing \<Rightarrow>
           (s, if digest_or_empty (EvidenceTombstoneFactV2_DigestV2 J existing) = digest_or_empty (EvidenceTombstoneFactV2_DigestV2 J f)
               then Inr existing else Inl (DomainError ErrorConflict ReasonEvidenceConflict))
       | None \<Rightarrow>
           guarded (first_err
              [EvidenceTombstoneFactV2_Validate f,
               fail_if (sint (tmb_CreatedUnixNano f) > sint (UnixNano now)) ErrorPreconditionFailed ReasonClockRegression]) s
            (case map_of (el_records s (err_LedgerScopeDigest (tmb_Record f))) (err_Sequence (tmb_Record f)) of
               None \<Rightarrow> (s, Inl (DomainError ErrorNotFound ReasonEvidenceUnavailable))
             | Some r \<Rightarrow>
                 guarded (first_err
                    [fail_if (err_RecordDigest (rec_Ref r) \<noteq> err_RecordDigest (tmb_Record f)) ErrorNotFound ReasonEvidenceUnavailable,
                     fail_if (evidenceSourceKeyV2 (tmb_Source f) \<noteq> event_source_key (rec_Candidate r)) ErrorConflict ReasonEvidenceConflict]) s
                  (let s' = s\<lparr>el_tombstones := (el_tombstones s)(key \<mapsto> f)\<rparr> in
                   if el_loseNextTombstoneReply s' then (s'\<lparr>el_loseNextTombstoneReply := False\<rparr>, Inl lost_reply)
                   else (s', Inr f))))"

definition InspectTombstone ::
  "EvidenceLedgerStoreV2 \<Rightarrow> go_context \<Rightarrow> EvidenceRecordRefV2 \<Rightarrow> EvidenceTombstoneFactV2 res" where
  "InspectTombstone s ctx ref =
     ensure (first_err [contextError ctx, EvidenceRecordRefV2_Validate ref])
      (case el_tombstones s (tombstone_key ref) of
         None \<Rightarrow> Inl (DomainError ErrorNotFound ReasonEvidenceUnavailable)
       | Some f \<Rightarrow>
           if err_RecordDigest (tmb_Record f) \<noteq> err_RecordDigest ref then Inl (DomainError ErrorConflict ReasonEvidenceConflict)
           else Inr f)"

end
