(* ===== verification/LedgerInvariant.thy ===== *)
theory LedgerInvariant
  imports LedgerStore
begin

text \<open>
  What the evidence ledger guarantees. The abstract view of the store is one append-only list of
  records per ledger (\<open>ledger\<close>); \<open>ledger_ok\<close> says how the maps of the store represent it, and every
  operation is shown to preserve it and to change the list at most by appending one record.
\<close>

section \<open>The abstract ledger\<close>

definition ledger :: "EvidenceLedgerStoreV2 \<Rightarrow> Digest \<Rightarrow> EvidenceLedgerRecordV2 list" where
  "ledger s d = map (\<lambda>i. the (map_of (el_records s d) (word_of_nat (Suc i)))) [0..<unat (el_lastSequence s d)]"

abbreviation record_digest :: "EvidenceLedgerRecordV2 \<Rightarrow> Digest" where
  "record_digest r \<equiv> err_RecordDigest (rec_Ref r)"

text \<open>A chain of records as an auditor checks it: each one verifies on its own and names its predecessor.\<close>

fun chain_from :: "evidence_json \<Rightarrow> Digest \<Rightarrow> u64 \<Rightarrow> Digest \<Rightarrow> EvidenceLedgerRecordV2 list \<Rightarrow> bool" where
  "chain_from J d n p [] \<longleftrightarrow> True"
| "chain_from J d n p (r # rs) \<longleftrightarrow>
     ValidateEvidenceLedgerRecordV2 J r = None \<and> err_LedgerScopeDigest (rec_Ref r) = d \<and> err_Sequence (rec_Ref r) = n
     \<and> rec_PreviousRecordDigest r = p \<and> chain_from J d (n + 1) (record_digest r) rs"

definition chain :: "evidence_json \<Rightarrow> Digest \<Rightarrow> EvidenceLedgerRecordV2 list \<Rightarrow> bool" where
  "chain J d rs \<longleftrightarrow> chain_from J d 1 EvidenceGenesisDigestV2 rs"

lemma chain_from_snoc:
  "chain_from J d n p (rs @ [r]) \<longleftrightarrow>
     chain_from J d n p rs \<and> ValidateEvidenceLedgerRecordV2 J r = None \<and> err_LedgerScopeDigest (rec_Ref r) = d
     \<and> err_Sequence (rec_Ref r) = n + word_of_nat (length rs)
     \<and> rec_PreviousRecordDigest r = (if rs = [] then p else record_digest (last rs))"
  by (induction rs arbitrary: n p) (auto simp: ac_simps)

lemma chain_snoc:
  "chain J d (rs @ [r]) \<longleftrightarrow>
     chain J d rs \<and> ValidateEvidenceLedgerRecordV2 J r = None \<and> err_LedgerScopeDigest (rec_Ref r) = d
     \<and> err_Sequence (rec_Ref r) = word_of_nat (Suc (length rs))
     \<and> rec_PreviousRecordDigest r = (if rs = [] then EvidenceGenesisDigestV2 else record_digest (last rs))"
  by (auto simp: chain_def chain_from_snoc)

lemma chain_from_mem:
  "chain_from J d n p rs \<Longrightarrow> r \<in> set rs \<Longrightarrow> ValidateEvidenceLedgerRecordV2 J r = None \<and> err_LedgerScopeDigest (rec_Ref r) = d"
  by (induction rs arbitrary: n p) auto

lemma chain_from_nth:
  "chain_from J d n p rs \<Longrightarrow> i < length rs \<Longrightarrow> err_Sequence (rec_Ref (rs ! i)) = n + word_of_nat i"
  by (induction rs arbitrary: n p i) (auto simp: less_Suc_eq_0_disj ac_simps)

lemma chain_mem:
  assumes "chain J d rs" "r \<in> set rs"
  shows "ValidateEvidenceLedgerRecordV2 J r = None" "err_LedgerScopeDigest (rec_Ref r) = d"
    "EvidenceLedgerScopeV2_DigestV2 J (ev_LedgerScope (rec_Candidate r)) = Inr d"
    "EvidenceEventCandidateV2_Validate (rec_Candidate r) = None"
    "EvidenceEventCandidateV2_DigestV2 J (rec_Candidate r) = Inr (rec_CandidateDigest r)"
proof -
  from assms show v: "ValidateEvidenceLedgerRecordV2 J r = None" and d: "err_LedgerScopeDigest (rec_Ref r) = d"
    using chain_from_mem unfolding chain_def by blast+
  from v d show "EvidenceLedgerScopeV2_DigestV2 J (ev_LedgerScope (rec_Candidate r)) = Inr d"
    by (auto simp: ValidateEvidenceLedgerRecordV2_def split: sum.splits)
  from v show "EvidenceEventCandidateV2_Validate (rec_Candidate r) = None"
    by (simp add: ValidateEvidenceLedgerRecordV2_def EvidenceLedgerRecordV2_Validate_def)
  from v obtain x where "EvidenceLedgerRecordDigestV2 J r = Inr x"
    by (auto simp: ValidateEvidenceLedgerRecordV2_def split: sum.splits)
  then show "EvidenceEventCandidateV2_DigestV2 J (rec_Candidate r) = Inr (rec_CandidateDigest r)"
    by (auto simp: EvidenceLedgerRecordDigestV2_def)
qed

section \<open>New records verify\<close>

lemma genesis_valid [simp]: "Digest_Validate EvidenceGenesisDigestV2 = None"
  by code_simp

lemma evidence_digest_valid: "evidence_digest k j = Inr d \<Longrightarrow> Digest_Validate d = None"
  unfolding evidence_digest_def by (rule CanonicalJSONDigest_valid)

lemma digest_valid:
  "EvidenceLedgerScopeV2_DigestV2 J sc = Inr d \<Longrightarrow> Digest_Validate d = None"
  "EvidenceEventCandidateV2_DigestV2 J e = Inr d \<Longrightarrow> Digest_Validate d = None"
  "EvidenceLedgerRecordDigestV2 J r = Inr d \<Longrightarrow> Digest_Validate d = None"
  by (auto simp: EvidenceLedgerScopeV2_DigestV2_def EvidenceEventCandidateV2_DigestV2_def EvidenceLedgerRecordDigestV2_def
      dest: evidence_digest_valid)

lemma record_digest_cong:
  "EvidenceLedgerRecordDigestV2 J (r\<lparr>rec_Ref := (rec_Ref r)\<lparr>err_RecordDigest := x\<rparr>\<rparr>) = EvidenceLedgerRecordDigestV2 J r"
  by (simp add: EvidenceLedgerRecordDigestV2_def)

lemma NewRecord_ok:
  assumes "NewEvidenceLedgerRecordV2 J e n p t = Inr r"
  shows "n \<noteq> 0" "EvidenceLedgerScopeV2_DigestV2 J (ev_LedgerScope e) = Inr (err_LedgerScopeDigest (rec_Ref r))"
    "err_Sequence (rec_Ref r) = n" "rec_Candidate r = e" "rec_PreviousRecordDigest r = p"
    "ValidateEvidenceLedgerRecordV2 J r = None" "rec_IngestedUnixNano r = UnixNano t"
proof -
  from assms obtain sd cd rd where v: "EvidenceEventCandidateV2_Validate e = None" and n: "n \<noteq> 0"
    and t: "\<not> sint (UnixNano t) < sint (ev_ObservedUnixNano e)"
    and sd: "EvidenceLedgerScopeV2_DigestV2 J (ev_LedgerScope e) = Inr sd"
    and cd: "EvidenceEventCandidateV2_DigestV2 J e = Inr cd"
    and p: "(if n = 1 then fail_if (p \<noteq> EvidenceGenesisDigestV2) ErrorConflict ReasonEvidenceChainConflict
             else fail_if (Digest_Validate p \<noteq> None) ErrorConflict ReasonEvidenceChainConflict) = None"
    and rd: "EvidenceLedgerRecordDigestV2 J \<lparr>rec_Ref = \<lparr>err_LedgerScopeDigest = sd, err_Sequence = n, err_RecordDigest = ''''\<rparr>,
                    rec_Candidate = e, rec_CandidateDigest = cd, rec_PreviousRecordDigest = p,
                    rec_IngestedUnixNano = UnixNano t\<rparr> = Inr rd"
    and r: "r = \<lparr>rec_Ref = \<lparr>err_LedgerScopeDigest = sd, err_Sequence = n, err_RecordDigest = rd\<rparr>,
                    rec_Candidate = e, rec_CandidateDigest = cd, rec_PreviousRecordDigest = p,
                    rec_IngestedUnixNano = UnixNano t\<rparr>"
    unfolding NewEvidenceLedgerRecordV2_def Let_def by (auto simp: One_nat_def [symmetric] simp del: One_nat_def)
  show "n \<noteq> 0" "EvidenceLedgerScopeV2_DigestV2 J (ev_LedgerScope e) = Inr (err_LedgerScopeDigest (rec_Ref r))"
    "err_Sequence (rec_Ref r) = n" "rec_Candidate r = e" "rec_PreviousRecordDigest r = p" "rec_IngestedUnixNano r = UnixNano t"
    using n sd r by simp_all
  have pv: "Digest_Validate p = None" "n = 1 \<Longrightarrow> p = EvidenceGenesisDigestV2" using p by (auto split: if_splits)
  have "0 < sint (ev_ObservedUnixNano e)" using v by (simp add: EvidenceEventCandidateV2_Validate_def)
  with t have pos: "0 < sint (UnixNano t)" by linarith
  have rd': "EvidenceLedgerRecordDigestV2 J r = Inr rd"
    using rd record_digest_cong [of J rd "\<lparr>rec_Ref = \<lparr>err_LedgerScopeDigest = sd, err_Sequence = n, err_RecordDigest = ''''\<rparr>,
                    rec_Candidate = e, rec_CandidateDigest = cd, rec_PreviousRecordDigest = p,
                    rec_IngestedUnixNano = UnixNano t\<rparr>"] by (simp add: r)
  show "ValidateEvidenceLedgerRecordV2 J r = None"
    using v n sd cd pv pos rd' digest_valid(1) [OF sd] digest_valid(2) [OF cd] digest_valid(3) [OF rd']
    by (simp add: ValidateEvidenceLedgerRecordV2_def EvidenceLedgerRecordV2_Validate_def EvidenceRecordRefV2_Validate_def r)
qed

section \<open>What an accepted event agrees with\<close>

lemma ordinary_event_simps [simp]:
  "ev_RegistrationID (ordinary_event e) = ev_RegistrationID e" "ev_SourceEpoch (ordinary_event e) = ev_SourceEpoch e"
  "ev_SourceSequence (ordinary_event e) = ev_SourceSequence e" "ev_LedgerScope (ordinary_event e) = ev_LedgerScope e"
  "ev_SourceID (ordinary_event e) = ev_SourceID e" "ev_ObservedUnixNano (ordinary_event e) = ev_ObservedUnixNano e"
  "ev_EventKind (ordinary_event e) = ev_EventKind e" "ev_CustomClass (ordinary_event e) = ev_CustomClass e"
  "ev_TrustClass (ordinary_event e) = EvidenceTrustObservation" "ev_Producer (ordinary_event e) = ev_Producer e"
  "ev_Authority (ordinary_event e) = ev_Authority e" "ev_ExecutionScope (ordinary_event e) = ev_ExecutionScope e"
  "ev_RegistrationRevision (ordinary_event e) = ev_RegistrationRevision e" "ev_SourcePolicy (ordinary_event e) = ev_SourcePolicy e"
  "ev_SourceConfigurationDigest (ordinary_event e) = ev_SourceConfigurationDigest e"
  by (simp_all add: ordinary_event_def)

lemma append_agrees:
  assumes "ValidateEvidenceAppendV2 J f e expected now = None"
  shows "EvidenceSourceRegistrationFactV2_Validate f = None" "src_State f = EvidenceSourceActive"
    "EvidenceTimeCurrentV2 (src_ExpiresUnixNano f) now" "sint (src_UpdatedUnixNano f) \<le> sint (UnixNano now)"
    "expected = src_Revision f" "ev_RegistrationID e = src_ID f" "ev_RegistrationRevision e = src_Revision f"
    "ev_SourceID e = src_SourceID f" "ev_SourceEpoch e = src_SourceEpoch f" "ev_LedgerScope e = src_LedgerScope f"
    "ev_SourceSequence e = src_NextSourceSequence f" "ev_ExecutionScope e = src_ExecutionScope f"
    "ev_Producer e = src_Producer f" "ev_Authority e = src_Authority f" "ev_SourcePolicy e = src_Policy f"
    "ev_EventKind e \<in> set (src_AllowedKinds f)"
    "evidenceMappedTrustV2 (src_ClassMappings f) (ev_CustomClass e) = Some (ev_TrustClass e)"
  using assms
  by (auto simp: ValidateEvidenceAppendV2_def evidenceKindAllowedV2_def list_ex_iff not_less split: sum.splits)

definition accepted_event where
  "accepted_event J f e expected late now \<longleftrightarrow>
     (if late then ValidateEvidenceLateAppendV2 J f e expected now else ValidateEvidenceAppendV2 J f e expected now) = None"

lemma accepted_agrees:
  assumes "accepted_event J f e expected late now"
  shows "EvidenceSourceRegistrationFactV2_Validate f = None" "src_State f = EvidenceSourceActive"
    "EvidenceTimeCurrentV2 (src_ExpiresUnixNano f) now" "sint (src_UpdatedUnixNano f) \<le> sint (UnixNano now)"
    "expected = src_Revision f" "ev_RegistrationID e = src_ID f" "ev_RegistrationRevision e = src_Revision f"
    "ev_SourceID e = src_SourceID f" "ev_SourceEpoch e = src_SourceEpoch f" "ev_LedgerScope e = src_LedgerScope f"
    "ev_SourceSequence e = src_NextSourceSequence f" "ev_EventKind e \<in> set (src_AllowedKinds f)"
    "evidenceMappedTrustV2 (src_ClassMappings f) (ev_CustomClass e) = Some (if late then EvidenceTrustObservation else ev_TrustClass e)"
    "ev_TrustClass e = EvidenceTrustLateObservation \<longleftrightarrow> late"
proof -
  from assms have "ValidateEvidenceAppendV2 J f (if late then ordinary_event e else e) expected now = None"
    by (auto simp: accepted_event_def ValidateEvidenceLateAppendV2_def split: if_splits)
  note a = append_agrees [OF this]
  show "EvidenceSourceRegistrationFactV2_Validate f = None" "src_State f = EvidenceSourceActive"
    "EvidenceTimeCurrentV2 (src_ExpiresUnixNano f) now" "sint (src_UpdatedUnixNano f) \<le> sint (UnixNano now)"
    "expected = src_Revision f" "ev_RegistrationID e = src_ID f" "ev_RegistrationRevision e = src_Revision f"
    "ev_SourceID e = src_SourceID f" "ev_SourceEpoch e = src_SourceEpoch f" "ev_LedgerScope e = src_LedgerScope f"
    "ev_SourceSequence e = src_NextSourceSequence f" "ev_EventKind e \<in> set (src_AllowedKinds f)"
    "evidenceMappedTrustV2 (src_ClassMappings f) (ev_CustomClass e) = Some (if late then EvidenceTrustObservation else ev_TrustClass e)"
    using a by (auto split: if_splits)
  show "ev_TrustClass e = EvidenceTrustLateObservation \<longleftrightarrow> late"
    using assms by (auto simp: accepted_event_def ValidateEvidenceLateAppendV2_def ValidateEvidenceAppendV2_def split: if_splits)
qed


section \<open>The outcome of each operation\<close>

text \<open>Two stores that differ at most in which replies will be lost.\<close>

definition same_facts :: "EvidenceLedgerStoreV2 \<Rightarrow> EvidenceLedgerStoreV2 \<Rightarrow> bool" where
  "same_facts s t \<longleftrightarrow> el_sources s = el_sources t \<and> el_sourceEpochs s = el_sourceEpochs t \<and> el_records s = el_records t
     \<and> el_bySource s = el_bySource t \<and> el_byEvent s = el_byEvent t \<and> el_lastSequence s = el_lastSequence t
     \<and> el_lastDigest s = el_lastDigest t \<and> el_tombstones s = el_tombstones t"

lemma same_facts_refl [simp]: "same_facts s s"
  by (simp add: same_facts_def)

lemma same_facts_flags [simp]:
  "same_facts (s\<lparr>el_loseNextCreateReply := b\<rparr>) t = same_facts s t" "same_facts (s\<lparr>el_loseNextCASReply := b\<rparr>) t = same_facts s t"
  "same_facts (s\<lparr>el_loseNextAppendReply := b\<rparr>) t = same_facts s t" "same_facts (s\<lparr>el_loseNextTombstoneReply := b\<rparr>) t = same_facts s t"
  by (simp_all add: same_facts_def)

lemma append_event_cases:
  assumes "append_event J s ctx e expected late now = (s', x)"
  obtains (unchanged) "s' = s" "\<And>r. x = Inr r \<Longrightarrow> el_bySource s (event_source_key e) = Some r
       \<and> digest_or_empty (EvidenceEventCandidateV2_DigestV2 J e) = rec_CandidateDigest r"
  | (appended) source r d where
      "EvidenceEventCandidateV2_Validate e = None" "el_bySource s (event_source_key e) = None"
      "el_sources s (ev_RegistrationID e) = Some source" "accepted_event J source e expected late now"
      "el_byEvent s (event_key J e) = None" "EvidenceLedgerScopeV2_DigestV2 J (ev_LedgerScope e) = Inr d"
      "NewEvidenceLedgerRecordV2 J e (el_lastSequence s d + 1)
         (if el_lastSequence s d + 1 = 1 then EvidenceGenesisDigestV2 else el_lastDigest s d) now = Inr r"
      "same_facts s' (commit_record s (event_source_key e) (event_key J e) source r now)"
      "x = Inr r \<or> x = Inl lost_reply"
proof -
  consider (early) err where "first_err [contextError ctx, EvidenceEventCandidateV2_Validate e] = Some err"
    | (go) "first_err [contextError ctx, EvidenceEventCandidateV2_Validate e] = None"
    by (cases "first_err [contextError ctx, EvidenceEventCandidateV2_Validate e]") auto
  then show thesis
  proof cases
    case early
    then show thesis using assms by (intro unchanged) (auto simp: append_event_def)
  next
    case go
    then have v: "EvidenceEventCandidateV2_Validate e = None" by simp
    show thesis
    proof (cases "el_bySource s (event_source_key e)")
      case (Some r)
      then show thesis using assms go
        by (intro unchanged) (auto simp: append_event_def Let_def split: if_splits)
    next
      case none: None
      show thesis
      proof (cases "el_sources s (ev_RegistrationID e)")
        case None
        then show thesis using assms go none by (intro unchanged) (auto simp: append_event_def Let_def)
      next
        case src: (Some source)
        let ?chk = "if late then ValidateEvidenceLateAppendV2 J source e expected now
                    else ValidateEvidenceAppendV2 J source e expected now"
        define d where "d = digest_or_empty (EvidenceLedgerScopeV2_DigestV2 J (ev_LedgerScope e))"
        define new where "new = NewEvidenceLedgerRecordV2 J e (el_lastSequence s d + 1)
            (if el_lastSequence s d + 1 = 1 then EvidenceGenesisDigestV2 else el_lastDigest s d) now"
        have eq: "(s', x) = guarded ?chk s (guarded (fail_if (el_byEvent s (event_key J e) \<noteq> None) ErrorConflict ReasonEvidenceConflict) s
            (case new of Inl x \<Rightarrow> (s, Inl x) | Inr r \<Rightarrow>
               (let s' = commit_record s (event_source_key e) (event_key J e) source r now in
                if el_loseNextAppendReply s' then (s'\<lparr>el_loseNextAppendReply := False\<rparr>, Inl lost_reply) else (s', Inr r))))"
          using assms go none src unfolding append_event_def Let_def new_def d_def by simp
        show thesis
        proof (cases "?chk = None \<and> el_byEvent s (event_key J e) = None \<and> (\<exists>r. new = Inr r)")
          case False
          then have "s' = s \<and> (\<forall>r. x \<noteq> Inr r)"
            using eq by (cases ?chk; cases new) (auto simp: guarded_def split: option.splits)
          then show thesis by (intro unchanged) auto
        next
          case True
          then obtain r where r: "new = Inr r" by blast
          then obtain d' where d': "EvidenceLedgerScopeV2_DigestV2 J (ev_LedgerScope e) = Inr d'"
            using NewRecord_ok(2) unfolding new_def by blast
          then have "d' = d" by (simp add: d_def digest_or_empty_def)
          moreover have "same_facts s' (commit_record s (event_source_key e) (event_key J e) source r now)
              \<and> (x = Inr r \<or> x = Inl lost_reply)"
            using eq True r by (auto simp: Let_def split: if_splits)
          moreover have "accepted_event J source e expected late now" using True by (simp add: accepted_event_def)
          ultimately show thesis using appended v none src True d' r unfolding new_def by blast
        qed
      qed
    qed
  qed
qed

lemma first_err_one: "first_err [e] = e"
  by (cases e) simp_all

lemma CreateSource_cases:
  assumes "CreateSource J s ctx f now = (s', x)"
  obtains (unchanged) "s' = s" | (created) "el_sources s (src_ID f) = None" "ValidateNewEvidenceSourceV2 f now = None"
      "el_sourceEpochs s (epoch_key J f) \<in> {None, Some (src_ID f)}"
      "same_facts s' (s\<lparr>el_sources := (el_sources s)(src_ID f \<mapsto> f), el_sourceEpochs := (el_sourceEpochs s)(epoch_key J f \<mapsto> src_ID f)\<rparr>)"
  using assms
  by (cases "contextError ctx"; cases "el_sources s (src_ID f)"; cases "ValidateNewEvidenceSourceV2 f now")
     (auto simp: CreateSource_def Let_def first_err_one guarded_fail_if split: if_splits option.splits)

lemma CompareAndSwapSource_cases:
  assumes "CompareAndSwapSource J s ctx q now = (s', x)"
  obtains (unchanged) "s' = s" | (swapped) c where "el_sources s (src_ID (scas_Next q)) = Some c"
      "ValidateEvidenceSourceTransitionV2 c (scas_Next q) now = None"
      "same_facts s' (s\<lparr>el_sources := (el_sources s)(src_ID c \<mapsto> scas_Next q)\<rparr>)"
proof (cases "contextError ctx = None \<and> (\<exists>c. el_sources s (src_ID (scas_Next q)) = Some c \<and> src_Revision c = scas_ExpectedRevision q
    \<and> ValidateEvidenceSourceTransitionV2 c (scas_Next q) now = None)")
  case False
  then have "s' = s" using assms
    by (cases "contextError ctx"; cases "el_sources s (src_ID (scas_Next q))")
       (auto simp: CompareAndSwapSource_def Let_def guarded_def split: if_splits option.splits)
  then show thesis by (rule unchanged)
next
  case True
  then obtain c where c: "contextError ctx = None" "el_sources s (src_ID (scas_Next q)) = Some c"
    "src_Revision c = scas_ExpectedRevision q" "ValidateEvidenceSourceTransitionV2 c (scas_Next q) now = None" by blast
  then have "same_facts s' (s\<lparr>el_sources := (el_sources s)(src_ID c \<mapsto> scas_Next q)\<rparr>)"
    using assms by (auto simp: CompareAndSwapSource_def Let_def split: if_splits)
  then show thesis using c by (intro swapped)
qed

lemma CreateTombstone_cases:
  assumes "CreateTombstone J s ctx f now = (s', x)"
  obtains (unchanged) "s' = s"
  | (buried) r where "el_tombstones s (tombstone_key (tmb_Record f)) = None" "EvidenceTombstoneFactV2_Validate f = None"
      "map_of (el_records s (err_LedgerScopeDigest (tmb_Record f))) (err_Sequence (tmb_Record f)) = Some r"
      "record_digest r = err_RecordDigest (tmb_Record f)"
      "evidenceSourceKeyV2 (tmb_Source f) = event_source_key (rec_Candidate r)"
      "same_facts s' (s\<lparr>el_tombstones := (el_tombstones s)(tombstone_key (tmb_Record f) \<mapsto> f)\<rparr>)"
proof (cases "contextError ctx = None \<and> el_tombstones s (tombstone_key (tmb_Record f)) = None
    \<and> EvidenceTombstoneFactV2_Validate f = None \<and> \<not> sint (tmb_CreatedUnixNano f) > sint (UnixNano now)
    \<and> (\<exists>r. map_of (el_records s (err_LedgerScopeDigest (tmb_Record f))) (err_Sequence (tmb_Record f)) = Some r
        \<and> record_digest r = err_RecordDigest (tmb_Record f) \<and> evidenceSourceKeyV2 (tmb_Source f) = event_source_key (rec_Candidate r))")
  case False
  then have "s' = s" using assms
    by (cases "contextError ctx"; cases "el_tombstones s (tombstone_key (tmb_Record f))"; cases "EvidenceTombstoneFactV2_Validate f";
        cases "map_of (el_records s (err_LedgerScopeDigest (tmb_Record f))) (err_Sequence (tmb_Record f))")
       (auto simp: CreateTombstone_def Let_def first_err_one guarded_def fail_if_def split: if_splits)
  then show thesis by (rule unchanged)
next
  case True
  then obtain r where r: "map_of (el_records s (err_LedgerScopeDigest (tmb_Record f))) (err_Sequence (tmb_Record f)) = Some r"
    "record_digest r = err_RecordDigest (tmb_Record f)" "evidenceSourceKeyV2 (tmb_Source f) = event_source_key (rec_Candidate r)"
    by blast
  have "same_facts s' (s\<lparr>el_tombstones := (el_tombstones s)(tombstone_key (tmb_Record f) \<mapsto> f)\<rparr>)"
    using assms True r by (auto simp: CreateTombstone_def Let_def split: if_splits)
  then show thesis using r True by (intro buried) auto
qed


section \<open>Keys\<close>

lemma nul_notin_dec [simp]: "CHR 0x00 \<notin> set (dec n)"
  by (rule not_digit_in_dec) (simp add: is_digit_def)

lemma source_key_inject [simp]:
  "evidenceSourceKeyV2 k = evidenceSourceKeyV2 k' \<longleftrightarrow> k = k'"
proof -
  have "evidenceSourceKeyV2 k = evidenceSourceKeyV2 k' \<longleftrightarrow>
      esk_RegistrationID k = esk_RegistrationID k' \<and> unat (esk_SourceEpoch k) = unat (esk_SourceEpoch k')
      \<and> unat (esk_SourceSequence k) = unat (esk_SourceSequence k')"
    using append_sep_inject [of "CHR 0x00" "dec (unat (esk_SourceSequence k))" "dec (unat (esk_SourceSequence k'))"
        "esk_RegistrationID k @ CHR 0x00 # dec (unat (esk_SourceEpoch k))"
        "esk_RegistrationID k' @ CHR 0x00 # dec (unat (esk_SourceEpoch k'))"]
      append_sep_inject [of "CHR 0x00" "dec (unat (esk_SourceEpoch k))" "dec (unat (esk_SourceEpoch k'))"]
    by (simp add: evidenceSourceKeyV2_def nul_def)
  then show ?thesis by (cases k; cases k') (auto simp: word_unat_eq_iff)
qed

lemma event_source_key_inject:
  "event_source_key e = event_source_key e' \<longleftrightarrow>
     ev_RegistrationID e = ev_RegistrationID e' \<and> ev_SourceEpoch e = ev_SourceEpoch e' \<and> ev_SourceSequence e = ev_SourceSequence e'"
  by (simp add: event_source_key_def)

lemma event_key_inject:
  assumes "EvidenceEventCandidateV2_Validate e = None" "EvidenceEventCandidateV2_Validate e' = None"
  shows "event_key J e = event_key J e' \<longleftrightarrow>
     digest_or_empty (EvidenceLedgerScopeV2_DigestV2 J (ev_LedgerScope e))
       = digest_or_empty (EvidenceLedgerScopeV2_DigestV2 J (ev_LedgerScope e')) \<and> ev_EventID e = ev_EventID e'"
proof -
  have "CHR 0x00 \<notin> set (ev_EventID x)" if "EvidenceEventCandidateV2_Validate x = None" for x
    using that evidence_id_graphic [of "ev_EventID x"]
    by (auto simp: EvidenceEventCandidateV2_Validate_def list_all_iff graphic_def)
  then show ?thesis using assms by (simp add: event_key_def nul_def append_sep_inject)
qed

section \<open>The invariant\<close>

definition records_ok :: "EvidenceLedgerStoreV2 \<Rightarrow> Digest \<Rightarrow> bool" where
  "records_ok s d \<longleftrightarrow> distinct (map fst (el_records s d)) \<and> set (map fst (el_records s d)) = {q. 0 < q \<and> q \<le> el_lastSequence s d}"

definition recorded :: "EvidenceLedgerStoreV2 \<Rightarrow> EvidenceLedgerRecordV2 \<Rightarrow> bool" where
  "recorded s r \<longleftrightarrow> (\<exists>d. r \<in> set (ledger s d))"

definition source_ledger :: "evidence_json \<Rightarrow> EvidenceSourceRegistrationFactV2 \<Rightarrow> Digest" where
  "source_ledger J f = digest_or_empty (EvidenceLedgerScopeV2_DigestV2 J (src_LedgerScope f))"

text \<open>The events of one registration, in ledger order.\<close>

definition events_of :: "evidence_json \<Rightarrow> EvidenceLedgerStoreV2 \<Rightarrow> EvidenceSourceRegistrationFactV2 \<Rightarrow> EvidenceEventCandidateV2 list" where
  "events_of J s f = filter (\<lambda>e. ev_RegistrationID e = src_ID f) (map rec_Candidate (ledger s (source_ledger J f)))"

definition source_ok :: "evidence_json \<Rightarrow> EvidenceLedgerStoreV2 \<Rightarrow> EvidenceSourceRegistrationFactV2 \<Rightarrow> bool" where
  "source_ok J s f \<longleftrightarrow> src_NextSourceSequence f \<noteq> 0 \<and> el_sourceEpochs s (epoch_key J f) = Some (src_ID f)
     \<and> map ev_SourceSequence (events_of J s f) = map word_of_nat [1..<unat (src_NextSourceSequence f)]"

definition from_source :: "EvidenceEventCandidateV2 \<Rightarrow> EvidenceSourceRegistrationFactV2 \<Rightarrow> bool" where
  "from_source e f \<longleftrightarrow> ev_LedgerScope e = src_LedgerScope f \<and> ev_SourceEpoch e = src_SourceEpoch f \<and> ev_SourceID e = src_SourceID f"

definition ledger_ok :: "evidence_json \<Rightarrow> EvidenceLedgerStoreV2 \<Rightarrow> bool" where
  "ledger_ok J s \<longleftrightarrow>
     (\<forall>d. records_ok s d \<and> chain J d (ledger s d)
        \<and> el_lastDigest s d = (if ledger s d = [] then '''' else record_digest (last (ledger s d))))
     \<and> (\<forall>k r. el_bySource s k = Some r \<longleftrightarrow> recorded s r \<and> k = event_source_key (rec_Candidate r))
     \<and> (\<forall>k r. el_byEvent s k = Some r \<longleftrightarrow> recorded s r \<and> k = event_key J (rec_Candidate r))
     \<and> (\<forall>i f. el_sources s i = Some f \<longrightarrow> src_ID f = i \<and> source_ok J s f)
     \<and> (\<forall>r. recorded s r \<longrightarrow> (\<exists>f. el_sources s (ev_RegistrationID (rec_Candidate r)) = Some f \<and> from_source (rec_Candidate r) f))
     \<and> (\<forall>k t. el_tombstones s k = Some t \<longrightarrow> k = tombstone_key (tmb_Record t)
          \<and> (\<exists>r \<in> set (ledger s (err_LedgerScopeDigest (tmb_Record t))). rec_Ref r = tmb_Record t
               \<and> evidenceSourceKeyV2 (tmb_Source t) = event_source_key (rec_Candidate r)))"

lemma ledger_okD:
  assumes "ledger_ok J s"
  shows "records_ok s d" "chain J d (ledger s d)"
    "el_lastDigest s d = (if ledger s d = [] then '''' else record_digest (last (ledger s d)))"
    "el_bySource s k = Some r \<longleftrightarrow> recorded s r \<and> k = event_source_key (rec_Candidate r)"
    "el_byEvent s k = Some r \<longleftrightarrow> recorded s r \<and> k = event_key J (rec_Candidate r)"
    "el_sources s i = Some f \<Longrightarrow> src_ID f = i \<and> source_ok J s f"
    "recorded s r \<Longrightarrow> \<exists>f. el_sources s (ev_RegistrationID (rec_Candidate r)) = Some f \<and> from_source (rec_Candidate r) f"
    "el_tombstones s k = Some t \<Longrightarrow> k = tombstone_key (tmb_Record t)
       \<and> (\<exists>r \<in> set (ledger s (err_LedgerScopeDigest (tmb_Record t))). rec_Ref r = tmb_Record t
            \<and> evidenceSourceKeyV2 (tmb_Source t) = event_source_key (rec_Candidate r))"
  using assms unfolding ledger_ok_def by blast+

lemma length_ledger [simp]: "length (ledger s d) = unat (el_lastSequence s d)"
  by (simp add: ledger_def)

lemma records_lookup:
  assumes "records_ok s d"
  shows "map_of (el_records s d) q =
     (if 0 < q \<and> q \<le> el_lastSequence s d then Some (ledger s d ! (unat q - 1)) else None)"
proof (cases "0 < q \<and> q \<le> el_lastSequence s d")
  case True
  then have "q \<in> fst ` set (el_records s d)" using assms by (auto simp: records_ok_def)
  then obtain r where r: "map_of (el_records s d) q = Some r"
    by (metis map_of_eq_None_iff not_None_eq)
  have "0 < unat q" "unat q \<le> unat (el_lastSequence s d)"
    using True by (simp_all add: unat_gt_0 word_le_nat_alt word_gt_0)
  then have "ledger s d ! (unat q - 1) = the (map_of (el_records s d) q)" by (simp add: ledger_def)
  with r True show ?thesis by simp
next
  case False
  then have "q \<notin> fst ` set (el_records s d)" using assms by (auto simp: records_ok_def)
  then show ?thesis using False by (auto simp: map_of_eq_None_iff)
qed

lemma same_facts_ok:
  assumes "same_facts s t"
  shows "ledger_ok J s = ledger_ok J t" "ledger s = ledger t" "recorded s = recorded t"
proof -
  from assms show l: "ledger s = ledger t" by (intro ext) (simp add: ledger_def same_facts_def)
  then show r: "recorded s = recorded t" by (intro ext) (simp add: recorded_def)
  from assms l have "source_ok J s = source_ok J t" "records_ok s = records_ok t"
    by (intro ext, simp add: source_ok_def events_of_def records_ok_def same_facts_def)+
  with assms l r show "ledger_ok J s = ledger_ok J t" by (simp add: ledger_ok_def same_facts_def)
qed

lemma ledger_ok_new: "ledger_ok J NewEvidenceLedgerStoreV2"
proof -
  have "ledger NewEvidenceLedgerStoreV2 d = []" for d by (simp add: ledger_def NewEvidenceLedgerStoreV2_def)
  then show ?thesis
    by (auto simp: ledger_ok_def recorded_def chain_def records_ok_def NewEvidenceLedgerStoreV2_def)
qed


section \<open>Committing a record\<close>

lemma u64_of_nat: "n < 2 ^ 64 \<Longrightarrow> unat (word_of_nat n :: u64) = n"
  by (simp add: unat_of_nat take_bit_nat_eq_self)

lemma commit_ledger:
  assumes ok: "\<And>d. records_ok s d" and r: "err_LedgerScopeDigest (rec_Ref r) = d" "err_Sequence (rec_Ref r) = el_lastSequence s d + 1"
    and nz: "el_lastSequence s d + 1 \<noteq> 0"
  shows "ledger (commit_record s k ek f r now) = (ledger s)(d := ledger s d @ [r])"
    and "records_ok (commit_record s k ek f r now) d'"
proof -
  let ?q = "el_lastSequence s d + 1" and ?s = "commit_record s k ek f r now"
  have u: "unat ?q = Suc (unat (el_lastSequence s d))" using unat_succ_nonzero [OF nz] by simp
  have recs: "el_records ?s = (el_records s)(d := AList.update ?q r (el_records s d))"
    and lst: "el_lastSequence ?s = (el_lastSequence s)(d := ?q)"
    using r by (simp_all add: commit_record_def Let_def)
  have keys: "set (map fst (el_records s d)) = {q. 0 < q \<and> q \<le> el_lastSequence s d}" "distinct (map fst (el_records s d))"
    using ok [of d] by (simp_all add: records_ok_def)
  have new: "?q \<notin> set (map fst (el_records s d))"
    using u unfolding keys(1) by (auto simp: word_le_nat_alt)
  have "ledger ?s d = ledger s d @ [r]"
  proof -
    have "(word_of_nat (Suc i) :: u64) \<noteq> ?q" if "i < unat (el_lastSequence s d)" for i
    proof
      assume "(word_of_nat (Suc i) :: u64) = ?q"
      moreover have "unat (word_of_nat (Suc i) :: u64) = Suc i"
        using that unsigned_less [of "el_lastSequence s d", where 'a = nat] by (intro u64_of_nat) simp
      ultimately show False using that u by (metis nat.inject nat_neq_iff)
    qed
    then have "map (\<lambda>i. the (map_of (el_records ?s d) (word_of_nat (Suc i)))) [0..<unat (el_lastSequence s d)] = ledger s d"
      by (auto simp: ledger_def recs AList.update_conv')
    moreover have "the (map_of (el_records ?s d) (word_of_nat (Suc (unat (el_lastSequence s d))))) = r"
      using u by (simp add: recs AList.update_conv')
    ultimately show ?thesis using u by (simp add: ledger_def [of ?s d] lst)
  qed
  moreover have "ledger ?s d' = ledger s d'" if "d' \<noteq> d" for d' using that by (simp add: ledger_def recs lst)
  ultimately show "ledger ?s = (ledger s)(d := ledger s d @ [r])" by (intro ext) simp
  show "records_ok ?s d'"
  proof (cases "d' = d")
    case False
    then show ?thesis using ok [of d'] by (simp add: records_ok_def recs lst)
  next
    case True
    have "{q. 0 < q \<and> q \<le> ?q} = insert ?q {q. 0 < q \<and> q \<le> el_lastSequence s d}"
      using u nz by (auto simp: word_le_nat_alt word_gt_0 word_unat_eq_iff le_Suc_eq)
    then show ?thesis
      using True keys new by (simp add: records_ok_def recs lst AList.update_keys) blast
  qed
qed

lemma recorded_commit:
  assumes "ledger s' = (ledger s)(d := ledger s d @ [r])"
  shows "recorded s' x \<longleftrightarrow> recorded s x \<or> x = r"
  using assms by (auto simp: recorded_def split: if_splits)

lemma last_digest_chain:
  assumes "ledger_ok J s"
  shows "(if el_lastSequence s d + 1 = 1 then EvidenceGenesisDigestV2 else el_lastDigest s d)
     = (if ledger s d = [] then EvidenceGenesisDigestV2 else record_digest (last (ledger s d)))"
proof -
  have "ledger s d = [] \<longleftrightarrow> el_lastSequence s d = 0"
    by (metis length_0_conv length_ledger unat_eq_zero)
  then show ?thesis using ledger_okD(3) [OF assms, of d] by simp
qed

lemma distinct_sources:
  assumes "ledger_ok J s" "el_sources s i = Some f" "el_sources s j = Some g" "epoch_key J f = epoch_key J g"
  shows "i = j"
  using assms(4) ledger_okD(6) [OF assms(1,2)] ledger_okD(6) [OF assms(1,3)] by (simp add: source_ok_def)

lemma event_source:
  assumes ok: "ledger_ok J s" and r: "r \<in> set (ledger s d)" and f: "el_sources s (ev_RegistrationID (rec_Candidate r)) = Some f"
  shows "from_source (rec_Candidate r) f" "d = source_ledger J f"
proof -
  have "recorded s r" using r by (auto simp: recorded_def)
  then show fs: "from_source (rec_Candidate r) f" using ledger_okD(7) [OF ok] f by force
  have "EvidenceLedgerScopeV2_DigestV2 J (ev_LedgerScope (rec_Candidate r)) = Inr d"
    using chain_mem(3) [OF ledger_okD(2) [OF ok] r] .
  then show "d = source_ledger J f" using fs by (simp add: source_ledger_def from_source_def digest_or_empty_def)
qed


lemma advance_simps [simp]:
  "src_ID (advance_source f now) = src_ID f" "src_LedgerScope (advance_source f now) = src_LedgerScope f"
  "src_SourceEpoch (advance_source f now) = src_SourceEpoch f" "src_SourceID (advance_source f now) = src_SourceID f"
  "src_NextSourceSequence (advance_source f now) = src_NextSourceSequence f + 1"
  "epoch_key J (advance_source f now) = epoch_key J f" "source_ledger J (advance_source f now) = source_ledger J f"
  "from_source e (advance_source f now) = from_source e f"
  by (simp_all add: advance_source_def epoch_key_def source_ledger_def from_source_def)

lemma events_commit:
  assumes "ledger s' = (ledger s)(d := ledger s d @ [r])"
  shows "events_of J s' g = events_of J s g
      @ (if source_ledger J g = d \<and> ev_RegistrationID (rec_Candidate r) = src_ID g then [rec_Candidate r] else [])"
  using assms by (simp add: events_of_def)

lemma upt_word_snoc:
  "n \<noteq> 0 \<Longrightarrow> (n :: u64) + 1 \<noteq> 0 \<Longrightarrow>
     (map word_of_nat [1..<unat (n + 1)] :: u64 list) = map word_of_nat [1..<unat n] @ [n]"
proof -
  assume n: "n \<noteq> 0" "n + 1 \<noteq> 0"
  then have "1 \<le> unat n" by (simp add: Suc_le_eq unat_gt_0)
  then have "[1..<Suc (unat n)] = [1..<unat n] @ [unat n]" by (rule upt_Suc_append)
  moreover have "unat (n + 1) = Suc (unat n)" using unat_succ_nonzero [OF n(2)] by simp
  ultimately show ?thesis by simp
qed

lemma index_commit:
  assumes "\<And>k x. m k = Some x \<longleftrightarrow> P x \<and> k = key (rec_Candidate x)" "m (key (rec_Candidate r)) = None"
  shows "(m(key (rec_Candidate r) \<mapsto> r)) k = Some x \<longleftrightarrow> (P x \<or> x = r) \<and> k = key (rec_Candidate x)"
proof (cases "k = key (rec_Candidate r)")
  case True
  then have "\<not> (P x \<and> k = key (rec_Candidate x))" using assms by (metis option.distinct(1))
  then show ?thesis using True by auto
next
  case False
  then show ?thesis using assms(1) [of k x] by auto
qed

lemma append_preserves:
  assumes ok: "ledger_ok J s" and nokey: "el_bySource s (event_source_key e) = None"
    and f: "el_sources s (ev_RegistrationID e) = Some f" and acc: "accepted_event J f e expected late now"
    and ev: "el_byEvent s (event_key J e) = None" and d: "EvidenceLedgerScopeV2_DigestV2 J (ev_LedgerScope e) = Inr d"
    and new: "NewEvidenceLedgerRecordV2 J e (el_lastSequence s d + 1)
         (if el_lastSequence s d + 1 = 1 then EvidenceGenesisDigestV2 else el_lastDigest s d) now = Inr r"
  shows "ledger_ok J (commit_record s (event_source_key e) (event_key J e) f r now)"
    and "ledger (commit_record s (event_source_key e) (event_key J e) f r now) = (ledger s)(d := ledger s d @ [r])"
proof -
  let ?s = "commit_record s (event_source_key e) (event_key J e) f r now"
  note n = NewRecord_ok [OF new] and a = accepted_agrees [OF acc]
  have r: "err_LedgerScopeDigest (rec_Ref r) = d" "err_Sequence (rec_Ref r) = el_lastSequence s d + 1" "rec_Candidate r = e"
    using n d by simp_all
  note c = commit_ledger [OF ledger_okD(1) [OF ok] r(1,2) n(1)]
  show led: "ledger ?s = (ledger s)(d := ledger s d @ [r])" by (rule c(1))
  note rec = recorded_commit [OF led]
  have sl: "source_ledger J f = d" "from_source e f" using a d by (simp_all add: source_ledger_def digest_or_empty_def from_source_def)
  have next_ok: "src_NextSourceSequence f \<noteq> 0" "src_NextSourceSequence f + 1 \<noteq> 0"
    using a(1) by (auto simp: EvidenceSourceRegistrationFactV2_Validate_def eq_neg_iff_add_eq_0)
  have fields: "el_sources ?s = (el_sources s)(src_ID f \<mapsto> advance_source f now)" "el_sourceEpochs ?s = el_sourceEpochs s"
    "el_tombstones ?s = el_tombstones s" "el_bySource ?s = (el_bySource s)(event_source_key e \<mapsto> r)"
    "el_byEvent ?s = (el_byEvent s)(event_key J e \<mapsto> r)" "el_lastDigest ?s = (el_lastDigest s)(d := record_digest r)"
    using r by (simp_all add: commit_record_def Let_def)
  have "(word_of_nat (Suc (unat (el_lastSequence s d))) :: u64) = el_lastSequence s d + 1" by simp
  then have "chain J d (ledger s d @ [r])"
    using ledger_okD(2) [OF ok, of d] n r last_digest_chain [OF ok, of d] by (simp add: chain_snoc del: of_nat_Suc)
  then have ch: "chain J d' (ledger ?s d')" for d' using ledger_okD(2) [OF ok, of d'] by (simp add: led)
  have ld: "el_lastDigest ?s d' = (if ledger ?s d' = [] then '''' else record_digest (last (ledger ?s d')))" for d'
    using ledger_okD(3) [OF ok, of d'] by (simp add: led fields)
  have bs: "el_bySource ?s k = Some x \<longleftrightarrow> recorded ?s x \<and> k = event_source_key (rec_Candidate x)" for k x
    using index_commit [of "el_bySource s" "recorded s" event_source_key r, OF ledger_okD(4) [OF ok]] nokey r(3)
    by (simp add: fields rec)
  have be: "el_byEvent ?s k = Some x \<longleftrightarrow> recorded ?s x \<and> k = event_key J (rec_Candidate x)" for k x
    using index_commit [of "el_byEvent s" "recorded s" "event_key J" r, OF ledger_okD(5) [OF ok]] ev r(3)
    by (simp add: fields rec)
  have so: "src_ID g = i \<and> source_ok J ?s g" if g: "el_sources ?s i = Some g" for i g
  proof (cases "i = src_ID f")
    case True
    with g have "g = advance_source f now" by (simp add: fields)
    moreover have "source_ok J s f" using ledger_okD(6) [OF ok f] by blast
    moreover have "events_of J s (advance_source f now) = events_of J s f" by (simp add: events_of_def)
    ultimately show ?thesis
      using True next_ok sl a(6,11) r(3)
      by (simp add: source_ok_def events_commit [OF led] fields upt_word_snoc [OF next_ok] del: One_nat_def)
  next
    case False
    with g have g: "el_sources s i = Some g" by (simp add: fields)
    from ledger_okD(6) [OF ok this] False a(6) r(3) show ?thesis
      by (auto simp: source_ok_def events_commit [OF led] fields)
  qed
  have rs: "\<exists>g. el_sources ?s (ev_RegistrationID (rec_Candidate x)) = Some g \<and> from_source (rec_Candidate x) g" if x: "recorded ?s x" for x
  proof (cases "x = r")
    case True
    then show ?thesis using sl r(3) a(6) by (simp add: fields)
  next
    case False
    with x rec have "recorded s x" by blast
    from ledger_okD(7) [OF ok this] f a(6) show ?thesis by (auto simp: fields)
  qed
  have tm: "k = tombstone_key (tmb_Record t) \<and> (\<exists>x \<in> set (ledger ?s (err_LedgerScopeDigest (tmb_Record t))). rec_Ref x = tmb_Record t
      \<and> evidenceSourceKeyV2 (tmb_Source t) = event_source_key (rec_Candidate x))" if "el_tombstones ?s k = Some t" for k t
    using ledger_okD(8) [OF ok, of k t] that by (auto simp: fields led)
  show "ledger_ok J ?s"
    unfolding ledger_ok_def using c(2) ch ld bs be so rs tm by blast
qed


section \<open>Histories\<close>

inductive ledger_step :: "evidence_json \<Rightarrow> EvidenceLedgerStoreV2 \<Rightarrow> EvidenceLedgerStoreV2 \<Rightarrow> bool" for J where
  create_source: "CreateSource J s ctx f now = (s', x) \<Longrightarrow> ledger_step J s s'"
| swap_source: "CompareAndSwapSource J s ctx q now = (s', x) \<Longrightarrow> ledger_step J s s'"
| append_record: "Append J s ctx a now = (s', y) \<Longrightarrow> ledger_step J s s'"
| append_late: "AppendLateObservation J s ctx a now = (s', y) \<Longrightarrow> ledger_step J s s'"
| tombstone: "CreateTombstone J s ctx b now = (s', z) \<Longrightarrow> ledger_step J s s'"
| lose_create: "ledger_step J s (LoseNextCreateReply s)"
| lose_swap: "ledger_step J s (LoseNextCASReply s)"
| lose_append: "ledger_step J s (LoseNextAppendReply s)"
| lose_tombstone: "ledger_step J s (LoseNextTombstoneReply s)"

inductive ledger_run :: "evidence_json \<Rightarrow> EvidenceLedgerStoreV2 \<Rightarrow> EvidenceLedgerStoreV2 \<Rightarrow> bool" for J where
  ledger_stay: "ledger_run J s s"
| ledger_go: "ledger_run J s t \<Longrightarrow> ledger_step J t u \<Longrightarrow> ledger_run J s u"

lemma ledger_run_trans: "ledger_run J t u \<Longrightarrow> ledger_run J s t \<Longrightarrow> ledger_run J s u"
  by (induction rule: ledger_run.induct) (auto intro: ledger_run.intros)

text \<open>Every step does one of four things to the facts.\<close>

lemma ledger_step_cases:
  assumes "ledger_step J s s'"
  obtains (same) "same_facts s' s"
  | (created) f now where "el_sources s (src_ID f) = None" "ValidateNewEvidenceSourceV2 f now = None"
      "el_sourceEpochs s (epoch_key J f) \<in> {None, Some (src_ID f)}"
      "same_facts s' (s\<lparr>el_sources := (el_sources s)(src_ID f \<mapsto> f), el_sourceEpochs := (el_sourceEpochs s)(epoch_key J f \<mapsto> src_ID f)\<rparr>)"
  | (swapped) c n now where "el_sources s (src_ID n) = Some c" "ValidateEvidenceSourceTransitionV2 c n now = None"
      "same_facts s' (s\<lparr>el_sources := (el_sources s)(src_ID c \<mapsto> n)\<rparr>)"
  | (appended) e expected late now f r d where "el_bySource s (event_source_key e) = None"
      "el_sources s (ev_RegistrationID e) = Some f" "accepted_event J f e expected late now"
      "el_byEvent s (event_key J e) = None" "EvidenceLedgerScopeV2_DigestV2 J (ev_LedgerScope e) = Inr d"
      "NewEvidenceLedgerRecordV2 J e (el_lastSequence s d + 1)
         (if el_lastSequence s d + 1 = 1 then EvidenceGenesisDigestV2 else el_lastDigest s d) now = Inr r"
      "same_facts s' (commit_record s (event_source_key e) (event_key J e) f r now)"
  | (buried) b r where "map_of (el_records s (err_LedgerScopeDigest (tmb_Record b))) (err_Sequence (tmb_Record b)) = Some r"
      "el_tombstones s (tombstone_key (tmb_Record b)) = None"
      "record_digest r = err_RecordDigest (tmb_Record b)" "evidenceSourceKeyV2 (tmb_Source b) = event_source_key (rec_Candidate r)"
      "same_facts s' (s\<lparr>el_tombstones := (el_tombstones s)(tombstone_key (tmb_Record b) \<mapsto> b)\<rparr>)"
  using assms
proof cases
  case (create_source ctx f now x)
  then show thesis by (rule CreateSource_cases) (use same created in auto)
next
  case (swap_source ctx q now x)
  then show thesis by (rule CompareAndSwapSource_cases) (use same swapped in auto)
next
  case (append_record ctx a now y)
  then show thesis unfolding Append_def by (rule append_event_cases) (use same appended in auto)
next
  case (append_late ctx a now y)
  then show thesis unfolding AppendLateObservation_def by (rule append_event_cases) (use same appended in auto)
next
  case (tombstone ctx b now z)
  then show thesis by (rule CreateTombstone_cases) (use same buried in auto)
qed (use same in \<open>auto simp: LoseNextCreateReply_def LoseNextCASReply_def LoseNextAppendReply_def LoseNextTombstoneReply_def\<close>)

section \<open>Every step keeps the invariant and only extends the ledger\<close>

lemma transition_fixed:
  assumes "ValidateEvidenceSourceTransitionV2 c n now = None"
  shows "src_ID n = src_ID c" "src_SourceID n = src_SourceID c" "src_SourceEpoch n = src_SourceEpoch c"
    "src_LedgerScope n = src_LedgerScope c" "src_ExecutionScope n = src_ExecutionScope c" "src_ClassMappings n = src_ClassMappings c"
    "src_AllowedKinds n = src_AllowedKinds c" "src_NextSourceSequence n = src_NextSourceSequence c"
    "src_State c = EvidenceSourceActive" "src_Revision n = src_Revision c + 1"
    "sint (src_UpdatedUnixNano c) \<le> sint (src_UpdatedUnixNano n)" "sint (src_ExpiresUnixNano c) \<le> sint (src_ExpiresUnixNano n)"
  using assms
  by (auto simp: ValidateEvidenceSourceTransitionV2_def source_move_error_def split: EvidenceSourceStateV2.splits)

lemma sources_change:
  assumes "ledger_ok J s"
    and "el_records s' = el_records s" "el_lastSequence s' = el_lastSequence s" "el_lastDigest s' = el_lastDigest s"
      "el_bySource s' = el_bySource s" "el_byEvent s' = el_byEvent s" "el_tombstones s' = el_tombstones s"
    and "\<And>i f. el_sources s' i = Some f \<Longrightarrow> src_ID f = i \<and> source_ok J s' f"
    and "\<And>r. recorded s r \<Longrightarrow> \<exists>f. el_sources s' (ev_RegistrationID (rec_Candidate r)) = Some f \<and> from_source (rec_Candidate r) f"
  shows "ledger_ok J s'" "ledger s' = ledger s"
proof -
  show l: "ledger s' = ledger s" using assms(2,3) by (intro ext) (simp add: ledger_def)
  then have r: "recorded s' = recorded s" by (intro ext) (simp add: recorded_def)
  have "records_ok s' = records_ok s" using assms(2,3) by (intro ext) (simp add: records_ok_def)
  with assms l r show "ledger_ok J s'" unfolding ledger_ok_def by simp
qed

lemma create_preserves:
  assumes ok: "ledger_ok J s" and new: "el_sources s (src_ID f) = None" "ValidateNewEvidenceSourceV2 f now = None"
    and ep: "el_sourceEpochs s (epoch_key J f) \<in> {None, Some (src_ID f)}"
  defines "s' \<equiv> s\<lparr>el_sources := (el_sources s)(src_ID f \<mapsto> f), el_sourceEpochs := (el_sourceEpochs s)(epoch_key J f \<mapsto> src_ID f)\<rparr>"
  shows "ledger_ok J s'" "ledger s' = ledger s"
proof -
  have ev: "events_of J s' g = events_of J s g" for g by (simp add: events_of_def s'_def ledger_def)
  have fresh: "ev_RegistrationID (rec_Candidate r) \<noteq> src_ID f" if "r \<in> set (ledger s d)" for r d
  proof -
    have "recorded s r" using that by (auto simp: recorded_def)
    from ledger_okD(7) [OF ok this] new(1) show ?thesis by auto
  qed
  then have "events_of J s f = []" by (auto simp: events_of_def filter_empty_conv)
  moreover have "src_NextSourceSequence f = 1" using new(2) by (simp add: ValidateNewEvidenceSourceV2_def)
  ultimately have f: "source_ok J s' f" by (simp add: source_ok_def ev) (simp add: s'_def)
  have g: "src_ID g = i \<and> source_ok J s' g" if "el_sources s i = Some g" "i \<noteq> src_ID f" for i g
  proof -
    have g: "src_ID g = i" "source_ok J s g" using ledger_okD(6) [OF ok that(1)] by auto
    then have "epoch_key J g \<noteq> epoch_key J f" using ep that(2) by (auto simp: source_ok_def)
    with g show ?thesis by (auto simp: source_ok_def ev) (auto simp: s'_def)
  qed
  have so: "src_ID g = i \<and> source_ok J s' g" if "el_sources s' i = Some g" for i g
    using that f g by (cases "i = src_ID f") (simp_all add: s'_def)
  have rs: "\<exists>g. el_sources s' (ev_RegistrationID (rec_Candidate r)) = Some g \<and> from_source (rec_Candidate r) g" if "recorded s r" for r
    using ledger_okD(7) [OF ok that] new(1) by (auto simp: s'_def)
  show "ledger_ok J s'" "ledger s' = ledger s"
    by (rule sources_change [OF ok _ _ _ _ _ _ so rs]; simp add: s'_def)+
qed

lemma swap_preserves:
  assumes ok: "ledger_ok J s" and c: "el_sources s (src_ID n) = Some c" and t: "ValidateEvidenceSourceTransitionV2 c n now = None"
  defines "s' \<equiv> s\<lparr>el_sources := (el_sources s)(src_ID c \<mapsto> n)\<rparr>"
  shows "ledger_ok J s'" "ledger s' = ledger s"
proof -
  note fixed = transition_fixed [OF t]
  have ev: "events_of J s' g = events_of J s g" for g by (simp add: events_of_def s'_def ledger_def)
  have "events_of J s n = events_of J s c" "epoch_key J n = epoch_key J c"
    using fixed by (simp_all add: events_of_def source_ledger_def epoch_key_def)
  moreover have "source_ok J s c" using ledger_okD(6) [OF ok c] by blast
  ultimately have n: "source_ok J s' n" using fixed by (simp add: source_ok_def ev) (simp add: s'_def)
  have so: "src_ID g = i \<and> source_ok J s' g" if "el_sources s' i = Some g" for i g
    using that n fixed ledger_okD(6) [OF ok, of i g]
    by (cases "i = src_ID c") (auto simp: source_ok_def ev, auto simp: s'_def)
  have rs: "\<exists>g. el_sources s' (ev_RegistrationID (rec_Candidate r)) = Some g \<and> from_source (rec_Candidate r) g" if "recorded s r" for r
    using ledger_okD(7) [OF ok that] c fixed by (auto simp: s'_def from_source_def)
  show "ledger_ok J s'" "ledger s' = ledger s"
    by (rule sources_change [OF ok _ _ _ _ _ _ so rs]; simp add: s'_def)+
qed

lemma bury_preserves:
  assumes ok: "ledger_ok J s"
    and r: "map_of (el_records s (err_LedgerScopeDigest (tmb_Record b))) (err_Sequence (tmb_Record b)) = Some r"
      "record_digest r = err_RecordDigest (tmb_Record b)" "evidenceSourceKeyV2 (tmb_Source b) = event_source_key (rec_Candidate r)"
  defines "s' \<equiv> s\<lparr>el_tombstones := (el_tombstones s)(tombstone_key (tmb_Record b) \<mapsto> b)\<rparr>"
  shows "ledger_ok J s'" "ledger s' = ledger s"
proof -
  let ?d = "err_LedgerScopeDigest (tmb_Record b)" and ?q = "err_Sequence (tmb_Record b)"
  show l: "ledger s' = ledger s" by (intro ext) (simp add: ledger_def s'_def)
  have q: "0 < ?q" "?q \<le> el_lastSequence s ?d" "r = ledger s ?d ! (unat ?q - 1)"
    using r(1) records_lookup [OF ledger_okD(1) [OF ok]] by (auto split: if_splits)
  have "0 < unat ?q" "unat ?q \<le> unat (el_lastSequence s ?d)"
    using q(1,2) by (simp_all add: word_le_nat_alt word_gt_0 unat_gt_0)
  then have i: "unat ?q - 1 < length (ledger s ?d)" by simp
  then have mem: "r \<in> set (ledger s ?d)" using q(3) by simp
  have "err_Sequence (rec_Ref r) = 1 + word_of_nat (unat ?q - 1)"
    using chain_from_nth [of J ?d 1 EvidenceGenesisDigestV2 "ledger s ?d"] ledger_okD(2) [OF ok, of ?d] i q(3)
    by (simp add: chain_def)
  then have "rec_Ref r = tmb_Record b"
    using chain_mem(2) [OF ledger_okD(2) [OF ok] mem] r(2) q(1)
    by (cases "rec_Ref r"; cases "tmb_Record b") (simp add: word_gt_0 of_nat_diff unat_gt_0 Suc_le_eq)
  then have tm: "k = tombstone_key (tmb_Record t) \<and> (\<exists>x \<in> set (ledger s' (err_LedgerScopeDigest (tmb_Record t))). rec_Ref x = tmb_Record t
      \<and> evidenceSourceKeyV2 (tmb_Source t) = event_source_key (rec_Candidate x))" if "el_tombstones s' k = Some t" for k t
    using ledger_okD(8) [OF ok, of k t] that mem r(3) l by (auto simp: s'_def split: if_splits)
  have rec: "recorded s' = recorded s" by (intro ext) (simp add: recorded_def l)
  have so: "source_ok J s' = source_ok J s" by (intro ext) (simp add: source_ok_def events_of_def l, simp add: s'_def)
  have ro: "records_ok s' = records_ok s" by (intro ext) (simp add: records_ok_def, simp add: s'_def)
  have fields: "el_lastDigest s' = el_lastDigest s" "el_bySource s' = el_bySource s" "el_byEvent s' = el_byEvent s"
    "el_sources s' = el_sources s" by (simp_all add: s'_def)
  show "ledger_ok J s'"
    unfolding ledger_ok_def ro rec so fields using tm ledger_okD [OF ok] unfolding l by blast
qed

definition extends :: "(Digest \<Rightarrow> EvidenceLedgerRecordV2 list) \<Rightarrow> (Digest \<Rightarrow> EvidenceLedgerRecordV2 list) \<Rightarrow> bool" where
  "extends L L' \<longleftrightarrow> L' = L \<or> (\<exists>d r. L' = L(d := L d @ [r]))"

lemma extends_simps [simp]: "extends L L" "extends L (L(d := L d @ [r]))"
  by (auto simp: extends_def)

lemma carry_ok:
  assumes "same_facts s' u" "ledger_ok J u" "extends L (ledger u)"
  shows "ledger_ok J s' \<and> extends L (ledger s')"
  using assms(2,3) same_facts_ok [OF assms(1)] by simp

lemma ledger_step_ok:
  assumes ok: "ledger_ok J s" and step: "ledger_step J s s'"
  shows "ledger_ok J s' \<and> extends (ledger s) (ledger s')"
  using step
proof (cases rule: ledger_step_cases)
  case same
  then show ?thesis using ok by (intro carry_ok [OF same]) simp_all
next
  case (created f now)
  note p = create_preserves [OF ok created(1-3)]
  show ?thesis by (rule carry_ok [OF created(4) p(1)]) (simp add: p(2))
next
  case (swapped c n now)
  note p = swap_preserves [OF ok swapped(1,2)]
  show ?thesis by (rule carry_ok [OF swapped(3) p(1)]) (simp add: p(2))
next
  case (appended e expected late now f r d)
  note p = append_preserves [OF ok appended(1-6)]
  show ?thesis by (rule carry_ok [OF appended(7) p(1)]) (simp add: p(2))
next
  case (buried b r)
  note p = bury_preserves [OF ok buried(1,3,4)]
  show ?thesis by (rule carry_ok [OF buried(5) p(1)]) (simp add: p(2))
qed

lemma ledger_run_ok: "ledger_run J s t \<Longrightarrow> ledger_ok J s \<Longrightarrow> ledger_ok J t"
  by (induction rule: ledger_run.induct) (auto dest: ledger_step_ok)

lemma reachable_ledger_ok: "ledger_run J NewEvidenceLedgerStoreV2 s \<Longrightarrow> ledger_ok J s"
  using ledger_run_ok ledger_ok_new by blast

lemma ledger_run_prefix:
  assumes "ledger_run J s t" "ledger_ok J s"
  shows "\<exists>rs. ledger t d = ledger s d @ rs"
  using assms
proof (induction rule: ledger_run.induct)
  case (ledger_go s t u)
  then have "extends (ledger t) (ledger u)" using ledger_step_ok ledger_run_ok by blast
  moreover obtain rs where "ledger t d = ledger s d @ rs" using ledger_go by blast
  ultimately show ?case by (auto simp: extends_def split: if_splits)
qed simp

end
