(* ===== verification/Samples.thy ===== *)
theory Samples
  imports EffectV2
begin

text \<open>
  Concrete values that pass the validations, for the witnesses: instants, a schema, a provider, an
  authority, and a complete effect intent.
\<close>

definition at_nano :: "nat \<Rightarrow> Time" where
  "at_nano n = unix_epoch + int n"

lemma at_nano_simps [simp]: "UnixNano (at_nano n) = word_of_nat n" "IsZero (at_nano n) = False"
  "Before (at_nano n) (TimeUnix0 w) \<longleftrightarrow> int n < sint w"
  by (simp_all add: at_nano_def UnixNano_def time_defs TimeUnix0_def unix_epoch_def)

lemma canonical_label: "list_all graphic k \<Longrightarrow> k \<noteq> '''' \<Longrightarrow> length k \<le> 128 \<Longrightarrow> validCanonicalLabel k"
  by (simp add: validCanonicalLabel_def TrimSpace_graphic) (simp add: list_all_iff graphic_def)

lemma sample_name [simp]: "ValidateNamespacedNameV2 ''a/b'' = None"
  by code_simp

definition sample_schema_ref :: SchemaRefV2 where
  "sample_schema_ref = \<lparr>schema_Namespace = ''a'', schema_Name = ''b'', schema_Version = ''1.0.0'', schema_MediaType = ''a/b'',
     schema_ContentDigest = sample_digest\<rparr>"

lemma sample_schema [simp]: "SchemaRefV2_Validate sample_schema_ref = None"
proof -
  let ?v = "\<lparr>ver_Major = 1, ver_Minor = 0, ver_Patch = 0, ver_Prerelease = [], ver_Build = []\<rparr>"
  have d: "digit 0 = CHR ''0''" "digit (Suc 0) = CHR ''1''" by code_simp+
  have s: "SemanticVersion_String ?v = ''1.0.0''"
    by (simp add: SemanticVersion_String_def dec.simps d)
  have "version_ok ?v"
    by (simp add: version_ok_def s MaxSemanticVersionLength_def)
  then have v: "ParseSemanticVersion ''1.0.0'' = Inr ?v"
    using print_parse [of ?v] by (simp only: s)
  have n: "validLowerASCIIName ''a'' True" "validLowerASCIIName ''b'' False" by code_simp+
  have "ToLower ''a/b'' = ''a/b''" "count_list ''a/b'' CHR ''/'' = 1" "TrimSpace ''a/b'' = ''a/b''"
    "list_all (\<lambda>c. is_lower c \<or> is_digit c \<or> c \<in> set ''!#$&^_.+-/'') ''a/b''"
    by (simp_all add: TrimSpace_graphic graphic_ascii) code_simp+
  then have "validMediaType ''a/b''" by (simp add: validMediaType_def)
  then show ?thesis by (simp add: SchemaRefV2_Validate_def sample_schema_ref_def n v s)
qed

definition sample_provider :: ProviderBindingRefV2 where
  "sample_provider = \<lparr>prov_BindingSetID = ''p'', prov_BindingSetRevision = 1, prov_ComponentID = ''a/b'',
     prov_ManifestDigest = sample_digest, prov_ArtifactDigest = sample_digest, prov_Capability = ''a/b''\<rparr>"

definition sample_authority :: AuthorityBindingRefV2 where
  "sample_authority = \<lparr>ab_Ref = ''a'', ab_Digest = sample_digest, ab_Revision = 1, ab_Epoch = 1\<rparr>"

lemma sample_refs_valid [simp]:
  "ProviderBindingRefV2_Validate sample_provider = None" "AuthorityBindingRefV2_Validate sample_authority = None"
  by (simp_all add: ProviderBindingRefV2_Validate_def sample_provider_def AuthorityBindingRefV2_Validate_def
      sample_authority_def graphic_ascii)

section \<open>Effects\<close>

definition sample_payload :: OpaquePayloadV2 where
  "sample_payload = \<lparr>op2_Schema = sample_schema_ref, op2_ContentDigest = sample_digest, op2_Length = 4, op2_Inline = Some ''plan'',
     op2_Ref = '''', op2_LimitPolicy = \<lparr>olp_Policy = ''a/b'', olp_Digest = sample_digest\<rparr>\<rparr>"

lemma sample_payload_valid [simp]: "OpaquePayloadV2_Validate sample_payload = None"
  by (simp add: OpaquePayloadV2_Validate_def sample_payload_def MaxOpaqueDeclaredBytes_def MaxOpaqueInlineBytes_def)
    (simp add: sample_digest_def)

definition sample_owner :: "OwnerRoleV2 \<Rightarrow> EffectOwnerRefV2" where
  "sample_owner role = \<lparr>eo_Role = role, eo_ComponentID = ''a/b'', eo_ManifestDigest = sample_digest\<rparr>"

text \<open>An effect intent with a given id, idempotency key and conflict domain.\<close>

definition sample_intent :: "string \<Rightarrow> string \<Rightarrow> EffectIntentV2" where
  "sample_intent i domain =
     \<lparr>ei2_ContractVersion = EffectContractVersionV2, ei2_ID = i, ei2_Revision = 1, ei2_Scope = sample_scope None, ei2_RunID = ''r'',
      ei2_Kind = ''a/b'', ei2_RiskClass = ''a/b'', ei2_ActionScopeDigest = sample_digest, ei2_Payload = sample_payload,
      ei2_PayloadRevision = 1, ei2_Target = ''t'',
      ei2_ConflictDomain = \<lparr>cd_Domain = domain, cd_ScopeClass = EffectStableScopeTenantV2, cd_ScopeDigest = StableTenantScopeDigestV2 ''t''\<rparr>,
      ei2_Owners = [sample_owner OwnerCleanup, sample_owner OwnerEffect, sample_owner OwnerSettlement],
      ei2_Provider = sample_provider, ei2_Authority = sample_authority,
      ei2_Review = \<lparr>rb_Ref = ''r'', rb_Digest = sample_digest, rb_Revision = 1, rb_PolicyDigest = sample_digest\<rparr>,
      ei2_Budget = \<lparr>bb_Ref = ''b'', bb_Digest = sample_digest, bb_Revision = 1, bb_PolicyDigest = sample_digest\<rparr>,
      ei2_Policy = \<lparr>dp_Ref = ''d'', dp_Digest = sample_digest, dp_Revision = 1\<rparr>,
      ei2_CurrentScope = \<lparr>sb_Ref = ''c'', sb_Digest = sample_digest, sb_Revision = 1\<rparr>,
      ei2_Idempotency = \<lparr>ib_Key = i, ib_ScopeClass = EffectStableScopeTenantV2, ib_ScopeDigest = StableTenantScopeDigestV2 ''t'',
         ib_Class = IdempotencyProviderKey\<rparr>,
      ei2_CredentialLeases = [],
      ei2_Relation = \<lparr>rel_CompensatesEffectID = '''', rel_CompensatesEffectRevision = 0, rel_InspectsEffectID = '''',
         rel_InspectsEffectRevision = 0, rel_CleansUpEffectID = '''', rel_CleansUpEffectRevision = 0, rel_ReviewsCaseID = '''',
         rel_ReviewsCandidateRevision = 0\<rparr>,
      ei2_MayLeaveRemoteResidual = False, ei2_RequiresCleanup = False, ei2_ExpiresUnixNano = 1000\<rparr>"

lemma sample_owners_valid: "validateEffectOwnersV2 [sample_owner OwnerCleanup, sample_owner OwnerEffect, sample_owner OwnerSettlement] = None"
  by (simp add: validateEffectOwnersV2_def sample_owner_def)

lemma sample_intent_valid:
  assumes "ValidateNamespacedNameV2 domain = None" "\<not> blank i" "length i \<le> 256"
  shows "EffectIntentV2_Validate (sample_intent i domain) = None"
  using assms
  by (simp add: EffectIntentV2_Validate_def EffectIntentV2_validateV2_def sample_intent_def sample_owners_valid
      ConflictDomainBindingV2_ValidateForScope_def ReviewBindingRefV2_Validate_def BudgetBindingRefV2_Validate_def
      DispatchPolicyBindingRefV2_Validate_def ExecutionScopeBindingRefV2_Validate_def IdempotencyBindingV2_Validate_def
      EffectRelationV2_Validate_def graphic_ascii StableTenantScopeDigestV2_def)
    (simp add: sample_scope_def graphic_ascii graphic_def)

definition sample_effect_json :: effect_json where
  "sample_effect_json = \<lparr>json_EffectIntent = (\<lambda>i. Some (CHR 0x22 # ei2_ID i @ [CHR 0x22])), json_DispatchPermit = (\<lambda>p. Some ''{}''),
     json_ExecutionFence = (\<lambda>f. Some ''{}'')\<rparr>"

definition effect_hash :: "string \<Rightarrow> string \<Rightarrow> Digest" where
  "effect_hash k j = DigestBytes (canonical_preimage ''praxis.runtime.effect'' EffectContractVersionV2 k j)"

lemma effect_hash_valid [simp]: "Digest_Validate (effect_hash k j) = None"
  by (simp add: effect_hash_def)

lemma effect_labels:
  "validCanonicalLabel ''praxis.runtime.effect''" "validCanonicalLabel EffectContractVersionV2" "validCanonicalLabel ''EffectIntentV2''"
  "validCanonicalLabel ''DispatchPermitV2''" "validCanonicalLabel ''ExecutionFenceV2Binding''" "validCanonicalLabel ''EffectSettlementFactV2''"
  by (rule canonical_label; simp add: graphic_def EffectContractVersionV2_def)+

lemma sample_intent_digest:
  assumes "ValidateNamespacedNameV2 domain = None" "\<not> blank i" "length i \<le> 256"
  shows "EffectIntentV2_DigestV2 sample_effect_json (sample_intent i domain) = Inr (effect_hash ''EffectIntentV2'' (CHR 0x22 # i @ [CHR 0x22]))"
  using assms
  by (simp add: EffectIntentV2_DigestV2_def sample_intent_valid sample_effect_json_def CanonicalJSONDigest_Inr effect_labels
      effect_hash_def MaxCanonicalDocumentBytes_def) (simp add: sample_intent_def)

end
