(* ===== verification/LedgerProperties.thy ===== *)
theory LedgerProperties
  imports LedgerInvariant Samples
begin

text \<open>
  The properties of the evidence ledger: its refinement of an append-only log, the intact chain, the
  gapless numbering of each source, replay of an append, and the life of a source registration; with a
  concrete run of the store that the witnesses use.
\<close>

section \<open>Reading an append-only log\<close>

text \<open>
  The abstract specification: a log is a list of records per ledger. A record is found at its
  position, a page is a slice of the list.
\<close>

type_synonym log = "Digest \<Rightarrow> EvidenceLedgerRecordV2 list"

definition log_at :: "log \<Rightarrow> EvidenceRecordRefV2 \<Rightarrow> EvidenceLedgerRecordV2 res" where
  "log_at L ref =
     (let rs = L (err_LedgerScopeDigest ref); i = unat (err_Sequence ref) in
      if i = 0 \<or> length rs < i then Inl (DomainError ErrorNotFound ReasonEvidenceUnavailable)
      else if rec_Ref (rs ! (i - 1)) = ref then Inr (rs ! (i - 1)) else Inl (DomainError ErrorConflict ReasonEvidenceConflict))"

definition log_page :: "log \<Rightarrow> EvidenceWatchCursorV2 \<Rightarrow> nat \<Rightarrow> EvidencePageV2" where
  "log_page L cursor n =
     (let rs = take n (drop (unat (wc_AfterSequence cursor)) (L (wc_LedgerScopeDigest cursor))) in
      \<lparr>page_Records = rs,
       page_Next = cursor\<lparr>wc_AfterSequence := wc_AfterSequence cursor + word_of_nat (length rs)\<rparr>\<rparr>)"

section \<open>The store reads the log\<close>

lemma ledger_nth_ref:
  assumes "ledger_ok J s" "i < length (ledger s d)"
  shows "err_LedgerScopeDigest (rec_Ref (ledger s d ! i)) = d" "err_Sequence (rec_Ref (ledger s d ! i)) = word_of_nat (Suc i)"
proof -
  note c = ledger_okD(2) [OF assms(1), of d]
  show "err_LedgerScopeDigest (rec_Ref (ledger s d ! i)) = d"
    using chain_mem(2) [OF c] assms(2) by simp
  show "err_Sequence (rec_Ref (ledger s d ! i)) = word_of_nat (Suc i)"
    using chain_from_nth [of J d 1 EvidenceGenesisDigestV2 "ledger s d" i] c assms(2) by (simp add: chain_def)
qed

lemma InspectRecord_log:
  assumes ok: "ledger_ok J s" and v: "EvidenceRecordRefV2_Validate ref = None"
  shows "InspectRecord s LiveContext ref = log_at (ledger s) ref"
proof -
  let ?d = "err_LedgerScopeDigest ref" and ?q = "err_Sequence ref"
  have q0: "?q \<noteq> 0" using v by (simp add: EvidenceRecordRefV2_Validate_def)
  then have p: "0 < unat ?q" "0 < ?q" by (simp_all add: unat_gt_0 word_gt_0)
  note l = records_lookup [OF ledger_okD(1) [OF ok], of ?d ?q]
  show ?thesis
  proof (cases "?q \<le> el_lastSequence s ?d")
    case False
    then show ?thesis using l p by (simp add: InspectRecord_def v log_at_def Let_def word_le_nat_alt)
  next
    case True
    then have i: "unat ?q - 1 < length (ledger s ?d)" using p by (simp add: word_le_nat_alt)
    have "err_Sequence (rec_Ref (ledger s ?d ! (unat ?q - 1))) = ?q"
      using ledger_nth_ref(2) [OF ok i] p by simp
    moreover have "err_LedgerScopeDigest (rec_Ref (ledger s ?d ! (unat ?q - 1))) = ?d"
      using ledger_nth_ref(1) [OF ok i] .
    ultimately have "rec_Ref (ledger s ?d ! (unat ?q - 1)) = ref \<longleftrightarrow> record_digest (ledger s ?d ! (unat ?q - 1)) = err_RecordDigest ref"
      by (cases "rec_Ref (ledger s ?d ! (unat ?q - 1))"; cases ref) simp
    then show ?thesis using l p True i by (simp add: InspectRecord_def v log_at_def Let_def word_le_nat_alt)
  qed
qed

lemma InspectBySource_log:
  assumes ok: "ledger_ok J s" and v: "EvidenceSourceKeyV2_Validate key = None"
  shows "InspectBySource s LiveContext key = Inr r \<longleftrightarrow> recorded s r \<and> event_source_key (rec_Candidate r) = evidenceSourceKeyV2 key"
  using ledger_okD(4) [OF ok, of "evidenceSourceKeyV2 key" r]
  by (cases "el_bySource s (evidenceSourceKeyV2 key)") (auto simp: InspectBySource_def v)

lemma watch_page_result:
  "watch_page items page qs =
     \<lparr>page_Records = page_Records page @ map (\<lambda>q. the (map_of items q)) qs,
      page_Next = (if qs = [] then page_Next page else (page_Next page)\<lparr>wc_AfterSequence := last qs\<rparr>)\<rparr>"
proof (induction qs arbitrary: page)
  case Nil
  then show ?case by (cases page) simp
next
  case (Cons q qs)
  then show ?case by simp
qed

lemma sorted_words:
  "j \<le> 2 ^ 64 \<Longrightarrow> sorted (map word_of_nat [i..<j] :: u64 list) \<and> distinct (map word_of_nat [i..<j] :: u64 list)"
proof (induction j)
  case (Suc j)
  then have j: "unat (word_of_nat j :: u64) = j" by (intro u64_of_nat) simp
  have "unat (word_of_nat m :: u64) = m" if "m < j" for m using that Suc.prems by (intro u64_of_nat) simp
  then have lt: "(word_of_nat m :: u64) < word_of_nat j" if "m < j" for m using that j by (simp add: word_less_nat_alt)
  have "(word_of_nat j :: u64) \<notin> set (map word_of_nat [i..<j])" using lt by fastforce
  then show ?case using Suc lt by (auto simp: sorted_append less_imp_le)
qed simp

lemma take_bounded: "(if length xs > n then take n xs else xs) = take n xs"
  by simp

declare upt_Suc [simp del]

lemma watch_sequences:
  assumes "records_ok s d"
  shows "sort (filter (\<lambda>q. q > a) (map fst (el_records s d))) = map word_of_nat [Suc (unat a)..<Suc (unat (el_lastSequence s d))]"
    (is "?l = ?r")
proof (rule sorted_distinct_set_unique)
  let ?n = "unat (el_lastSequence s d)"
  have n: "m < 2 ^ 64" if "m < Suc ?n" for m using that unsigned_less [of "el_lastSequence s d", where 'a = nat] by simp
  show "sorted ?l" by simp
  show "distinct ?l" using assms by (simp add: records_ok_def)
  have "Suc ?n \<le> 2 ^ 64" using n [of ?n] by simp
  then show "sorted ?r" "distinct ?r" using sorted_words by blast+
  have "set ?r = {q. a < q \<and> q \<le> el_lastSequence s d}"
  proof (intro set_eqI iffI)
    fix q assume "q \<in> set ?r"
    then obtain m where m: "Suc (unat a) \<le> m" "m < Suc ?n" "q = word_of_nat m" by auto
    then have "unat q = m" using u64_of_nat n by blast
    then show "q \<in> {q. a < q \<and> q \<le> el_lastSequence s d}" using m by (simp add: word_less_nat_alt word_le_nat_alt)
  next
    fix q assume "q \<in> {q. a < q \<and> q \<le> el_lastSequence s d}"
    then have "Suc (unat a) \<le> unat q" "unat q < Suc ?n" by (auto simp: word_less_nat_alt word_le_nat_alt)
    then have "unat q \<in> set [Suc (unat a)..<Suc ?n]" by simp
    then have "word_of_nat (unat q) \<in> set ?r" unfolding set_map by (rule imageI)
    then show "q \<in> set ?r" by simp
  qed
  moreover have "0 < q" if "a < q" for q using that by (rule le_less_trans [OF word_zero_le])
  then have "set ?l = {q. a < q \<and> q \<le> el_lastSequence s d}" using assms by (auto simp: records_ok_def)
  ultimately show "set ?l = set ?r" by simp
qed

lemma Watch_log:
  assumes ok: "ledger_ok J s" and c: "Digest_Validate (wc_LedgerScopeDigest cursor) = None" and n: "limit \<noteq> 0" "unat limit \<le> MaxEvidencePageSize"
  shows "Watch s LiveContext cursor limit = Inr (log_page (ledger s) cursor (unat limit))"
proof -
  let ?d = "wc_LedgerScopeDigest cursor" and ?a = "wc_AfterSequence cursor"
  let ?n = "unat (el_lastSequence s ?d)"
  let ?qs = "take (unat limit) (map word_of_nat [Suc (unat ?a)..<Suc ?n]) :: u64 list"
  have w: "Watch s LiveContext cursor limit = Inr (watch_page (el_records s ?d) \<lparr>page_Records = [], page_Next = cursor\<rparr> ?qs)"
    using c n unfolding Watch_def Let_def watch_sequences [OF ledger_okD(1) [OF ok]] take_bounded by simp
  let ?rs = "take (unat limit) (drop (unat ?a) (ledger s ?d))"
  have qs: "?qs = map (\<lambda>i. word_of_nat (Suc i)) (take (unat limit) [unat ?a..<?n])"
    by (simp add: take_map map_Suc_upt [symmetric])
  have recs: "map (\<lambda>q. the (map_of (el_records s ?d) q)) ?qs = ?rs"
    unfolding qs by (simp add: ledger_def drop_map take_map)
  have "?qs \<noteq> [] \<Longrightarrow> last ?qs = ?a + word_of_nat (length ?rs)"
  proof -
    assume ne: "?qs \<noteq> []"
    have len: "length ?rs = min (unat limit) (?n - unat ?a)" "length ?qs = length ?rs"
      by simp_all
    with ne have pos: "0 < length ?rs" by (cases ?qs) auto
    have "last ?qs = ?qs ! (length ?rs - 1)" using ne len(2) by (metis last_conv_nth)
    also have "\<dots> = word_of_nat (Suc (unat ?a + (length ?rs - 1)))"
      unfolding qs using pos by (subst nth_map) (auto simp del: of_nat_Suc)
    also have "Suc (unat ?a + (length ?rs - 1)) = unat ?a + length ?rs" using pos by simp
    finally have "last ?qs = word_of_nat (unat ?a + length ?rs)" .
    then show ?thesis by simp
  qed
  then show ?thesis
    using recs w by (auto simp: watch_page_result log_page_def Let_def)
qed

declare upt_Suc [simp]


section \<open>A concrete run\<close>

definition ledger_json :: evidence_json where
  "ledger_json = \<lparr>json_SourcePolicy = (\<lambda>x. Some ''{}''), json_LedgerScope = (\<lambda>x. Some ''{}''),
     json_SourceRegistration = (\<lambda>x. Some ''{}''), json_EventCandidate = (\<lambda>x. Some ''{}''),
     json_LedgerRecord = (\<lambda>x. Some ''{}''), json_Tombstone = (\<lambda>x. Some ''{}'')\<rparr>"

definition sample_hash :: "string \<Rightarrow> Digest" where
  "sample_hash k = DigestBytes (canonical_preimage ''praxis.runtime.evidence'' EvidenceContractVersionV2 k ''{}'')"

lemma sample_hash_valid [simp]: "Digest_Validate (sample_hash k) = None"
  by (simp add: sample_hash_def)

lemma evidence_digest_sample:
  assumes "validCanonicalLabel k"
  shows "evidence_digest k (Some ''{}'') = Inr (sample_hash k)"
proof -
  have "validCanonicalLabel ''praxis.runtime.evidence''" "validCanonicalLabel EvidenceContractVersionV2"
    by (rule canonical_label; simp add: graphic_def EvidenceContractVersionV2_def)+
  with assms show ?thesis
    by (simp add: evidence_digest_def CanonicalJSONDigest_Inr sample_hash_def MaxCanonicalDocumentBytes_def)
qed

lemma sample_labels:
  "validCanonicalLabel ''EvidenceLedgerScopeV2''" "validCanonicalLabel ''EvidenceSourceRegistrationFactV2''"
  "validCanonicalLabel ''EvidenceSourceConfigurationV2''" "validCanonicalLabel ''EvidenceEventCandidateV2''"
  "validCanonicalLabel ''EvidenceLedgerRecordV2''" "validCanonicalLabel ''EvidenceTombstoneFactV2''"
  by (rule canonical_label; simp add: graphic_def)+

definition sample_ledger_scope :: EvidenceLedgerScopeV2 where
  "sample_ledger_scope = \<lparr>els_Partition = EvidencePartitionTenant, els_TenantID = ''t'', els_IdentityID = '''', els_LineageID = '''',
     els_InstanceID = '''', els_RunID = '''', els_EffectID = ''''\<rparr>"

definition sample_source :: EvidenceSourceRegistrationFactV2 where
  "sample_source = \<lparr>src_ContractVersion = EvidenceContractVersionV2, src_ID = ''r'', src_Revision = 1, src_SourceID = ''a/b'',
     src_SourceEpoch = 1, src_LedgerScope = sample_ledger_scope, src_ExecutionScope = sample_scope None,
     src_CurrentScope = \<lparr>sb_Ref = ''c'', sb_Digest = sample_digest, sb_Revision = 1\<rparr>, src_CurrentScopeWatermark = 1,
     src_Producer = sample_provider, src_Authority = sample_authority, src_ActionScopeDigest = sample_digest,
     src_Policy = \<lparr>spb_Ref = ''p'', spb_Digest = sample_digest, spb_Revision = 1\<rparr>,
     src_ClassMappings = [\<lparr>cm_Class = ''a/b'', cm_Trust = EvidenceTrustObservation\<rparr>], src_AllowedKinds = [''a/b''],
     src_GapPolicy = EvidenceGapStrictV2, src_NextSourceSequence = 1, src_State = EvidenceSourceActive,
     src_CreatedUnixNano = 1, src_UpdatedUnixNano = 1, src_ExpiresUnixNano = 100\<rparr>"

definition sample_event :: EvidenceEventCandidateV2 where
  "sample_event = \<lparr>ev_ContractVersion = EvidenceContractVersionV2, ev_LedgerScope = sample_ledger_scope, ev_EventID = ''e'',
     ev_RegistrationID = ''r'', ev_RegistrationRevision = 1,
     ev_SourceConfigurationDigest = sample_hash ''EvidenceSourceConfigurationV2'',
     ev_SourcePolicy = \<lparr>spb_Ref = ''p'', spb_Digest = sample_digest, spb_Revision = 1\<rparr>, ev_SourceID = ''a/b'', ev_SourceEpoch = 1,
     ev_SourceSequence = 1, ev_TrustClass = EvidenceTrustObservation, ev_ClaimKind = RunClaimOther '''', ev_EventKind = ''a/b'',
     ev_CustomClass = ''a/b'', ev_ExecutionScope = sample_scope None,
     ev_Payload = \<lparr>epr_Schema = sample_schema_ref, epr_ContentDigest = sample_digest, epr_Revision = 1, epr_Length = 1, epr_Ref = ''x''\<rparr>,
     ev_Causation = [], ev_CorrelationID = ''c'', ev_Producer = sample_provider, ev_Authority = sample_authority,
     ev_OwnerFact = None, ev_HistoricalSource = None, ev_ObservedUnixNano = 5\<rparr>"

lemma sample_ids [simp]:
  "validateEvidenceIDV2 ''r'' = None" "validateEvidenceIDV2 ''t'' = None" "validateEvidenceIDV2 ''p'' = None"
  "validateEvidenceIDV2 ''e'' = None" "validateEvidenceIDV2 ''c'' = None"
  by (rule evidence_id_ok; simp add: graphic_ascii)+

lemma sample_ledger_scope_valid [simp]: "EvidenceLedgerScopeV2_Validate sample_ledger_scope = None"
  by (simp add: EvidenceLedgerScopeV2_Validate_def sample_ledger_scope_def evidence_scope_shape_def graphic_ascii)

lemma sample_scope_matches [simp]: "MatchesExecutionScope sample_ledger_scope (sample_scope None)"
  by (simp add: MatchesExecutionScope_def sample_ledger_scope_def) (simp add: sample_scope_def)

lemma sample_source_valid: "EvidenceSourceRegistrationFactV2_Validate sample_source = None"
  by (simp add: EvidenceSourceRegistrationFactV2_Validate_def sample_source_def ExecutionScopeBindingRefV2_Validate_def
      EvidenceSourcePolicyBindingRefV2_Validate_def validateEvidenceMappingsV2_def validateEvidenceKindsV2_def
      mapping_error_def source_lifecycle_error_def graphic_ascii)

lemma sample_event_valid: "EvidenceEventCandidateV2_Validate sample_event = None"
  by (simp add: EvidenceEventCandidateV2_Validate_def sample_event_def EvidenceSourcePolicyBindingRefV2_Validate_def
      EvidencePayloadRefV2_Validate_def MaxEvidenceDeclaredBytes_def MaxOpaqueReferenceBytes_def graphic_ascii
      causation_error_def owner_fact_error_def historical_error_def MaxEvidenceCausationRefs_def)

lemma sample_digests [simp]:
  "EvidenceLedgerScopeV2_DigestV2 ledger_json sample_ledger_scope = Inr (sample_hash ''EvidenceLedgerScopeV2'')"
  "ConfigurationDigestV2 ledger_json sample_source = Inr (sample_hash ''EvidenceSourceConfigurationV2'')"
  "EvidenceEventCandidateV2_DigestV2 ledger_json sample_event = Inr (sample_hash ''EvidenceEventCandidateV2'')"
  by (simp_all add: EvidenceLedgerScopeV2_DigestV2_def ConfigurationDigestV2_def EvidenceEventCandidateV2_DigestV2_def
      sample_source_valid sample_event_valid ledger_json_def evidence_digest_sample sample_labels)

section \<open>A source is registered and appends an event\<close>

definition sample_record :: EvidenceLedgerRecordV2 where
  "sample_record =
     \<lparr>rec_Ref = \<lparr>err_LedgerScopeDigest = sample_hash ''EvidenceLedgerScopeV2'', err_Sequence = 1,
                err_RecordDigest = sample_hash ''EvidenceLedgerRecordV2''\<rparr>,
      rec_Candidate = sample_event, rec_CandidateDigest = sample_hash ''EvidenceEventCandidateV2'',
      rec_PreviousRecordDigest = EvidenceGenesisDigestV2, rec_IngestedUnixNano = 20\<rparr>"

definition sample_request :: EvidenceAppendRequestV2 where
  "sample_request = \<lparr>app_Candidate = sample_event, app_ExpectedSourceRevision = 1\<rparr>"

definition registered_store :: EvidenceLedgerStoreV2 where
  "registered_store = fst (CreateSource ledger_json NewEvidenceLedgerStoreV2 LiveContext sample_source (at_nano 10))"

definition appended_store :: EvidenceLedgerStoreV2 where
  "appended_store = fst (Append ledger_json registered_store LiveContext sample_request (at_nano 20))"

lemma sample_new_source: "ValidateNewEvidenceSourceV2 sample_source (at_nano 10) = None"
  by (simp add: ValidateNewEvidenceSourceV2_def sample_source_valid) (simp add: sample_source_def)

lemma sample_create:
  "CreateSource ledger_json NewEvidenceLedgerStoreV2 LiveContext sample_source (at_nano 10) = (registered_store, Inr sample_source)"
  by (simp add: registered_store_def CreateSource_def sample_new_source NewEvidenceLedgerStoreV2_def)

lemma registered_store_fields:
  "el_sources registered_store = [src_ID sample_source \<mapsto> sample_source]" "el_bySource registered_store = Map.empty"
  "el_byEvent registered_store = Map.empty" "el_lastSequence registered_store = (\<lambda>d. 0)"
  "el_loseNextAppendReply registered_store = False" "el_records registered_store = (\<lambda>d. [])"
  by (simp_all add: registered_store_def CreateSource_def sample_new_source NewEvidenceLedgerStoreV2_def)

lemma sample_links:
  "src_ID sample_source = ''r''" "ev_RegistrationID sample_event = ''r''" "ev_LedgerScope sample_event = sample_ledger_scope"
  "src_State sample_source = EvidenceSourceActive" "src_NextSourceSequence sample_source = 1" "src_Revision sample_source = 1"
  "ev_ObservedUnixNano sample_event = 5" "src_SourceID sample_source = ''a/b''" "src_SourceEpoch sample_source = 1"
  "src_LedgerScope sample_source = sample_ledger_scope"
  by (simp_all add: sample_source_def sample_event_def)

lemma sample_accept: "ValidateEvidenceAppendV2 ledger_json sample_source sample_event 1 (at_nano 20) = None"
  by (simp add: ValidateEvidenceAppendV2_def sample_source_valid sample_event_valid EvidenceTimeCurrentV2_def)
    (simp add: sample_source_def sample_event_def evidenceKindAllowedV2_def)

lemma sample_new_record:
  "NewEvidenceLedgerRecordV2 ledger_json sample_event 1 EvidenceGenesisDigestV2 (at_nano 20) = Inr sample_record"
  by (simp add: NewEvidenceLedgerRecordV2_def sample_event_valid sample_links EvidenceLedgerRecordDigestV2_def ledger_json_def [THEN arg_cong [of _ _ json_LedgerRecord]]
      evidence_digest_sample sample_labels sample_record_def)

lemma commit_record_lose [simp]: "el_loseNextAppendReply (commit_record s k ek f r now) = el_loseNextAppendReply s"
  by (simp add: commit_record_def Let_def)

lemma sample_append_commit:
  "Append ledger_json registered_store LiveContext sample_request (at_nano 20)
     = (commit_record registered_store (event_source_key sample_event) (event_key ledger_json sample_event) sample_source
          sample_record (at_nano 20), Inr sample_record)"
  by (simp add: Append_def append_event_def sample_request_def sample_event_valid registered_store_fields
      sample_links sample_accept sample_new_record digest_or_empty_def Let_def)

lemma sample_append:
  "Append ledger_json registered_store LiveContext sample_request (at_nano 20) = (appended_store, Inr sample_record)"
  by (simp add: appended_store_def sample_append_commit)

lemma sample_reachable:
  "ledger_run ledger_json NewEvidenceLedgerStoreV2 registered_store"
  "ledger_run ledger_json NewEvidenceLedgerStoreV2 appended_store"
  using ledger_go [OF ledger_stay create_source [OF sample_create]] ledger_go append_record [OF sample_append] by blast+

lemma appended_ledger: "ledger appended_store (sample_hash ''EvidenceLedgerScopeV2'') = [sample_record]"
  by (simp add: appended_store_def sample_append_commit ledger_def commit_record_def registered_store_fields Let_def)
    (simp add: sample_record_def)

section \<open>Histories of one source and one append\<close>

definition same_registration :: "EvidenceSourceRegistrationFactV2 \<Rightarrow> EvidenceSourceRegistrationFactV2 \<Rightarrow> bool" where
  "same_registration f g \<longleftrightarrow> src_ID g = src_ID f \<and> src_SourceID g = src_SourceID f \<and> src_SourceEpoch g = src_SourceEpoch f
     \<and> src_LedgerScope g = src_LedgerScope f \<and> src_ExecutionScope g = src_ExecutionScope f
     \<and> src_ClassMappings g = src_ClassMappings f \<and> src_AllowedKinds g = src_AllowedKinds f"

definition moves_on :: "EvidenceSourceRegistrationFactV2 \<Rightarrow> EvidenceSourceRegistrationFactV2 \<Rightarrow> bool" where
  "moves_on f g \<longleftrightarrow> same_registration f g \<and> src_NextSourceSequence f \<le> src_NextSourceSequence g
     \<and> sint (src_UpdatedUnixNano f) \<le> sint (src_UpdatedUnixNano g) \<and> sint (src_ExpiresUnixNano f) \<le> sint (src_ExpiresUnixNano g)
     \<and> (src_State f \<noteq> EvidenceSourceActive \<longrightarrow> g = f)"

lemma moves_on_refl [simp]: "moves_on f f"
  by (simp add: moves_on_def same_registration_def)

lemma moves_on_trans: "moves_on f g \<Longrightarrow> moves_on g h \<Longrightarrow> moves_on f h"
  by (fastforce simp: moves_on_def same_registration_def)

lemma transition_moves_on: "ValidateEvidenceSourceTransitionV2 c n now = None \<Longrightarrow> moves_on c n"
  using transition_fixed [of c n now] by (simp add: moves_on_def same_registration_def)

lemma advance_moves_on:
  assumes "accepted_event J f e expected late now"
  shows "moves_on f (advance_source f now)"
proof -
  note a = accepted_agrees [OF assms]
  have "src_NextSourceSequence f + 1 \<noteq> 0"
    using a(1) by (auto simp: EvidenceSourceRegistrationFactV2_Validate_def eq_neg_iff_add_eq_0)
  then have "src_NextSourceSequence f \<le> src_NextSourceSequence f + 1"
    by (simp add: word_le_nat_alt unat_succ_nonzero)
  with a show ?thesis by (simp add: moves_on_def same_registration_def advance_source_def)
qed

lemma same_facts_sources: "same_facts s' t \<Longrightarrow> el_sources s' = el_sources t"
  by (simp add: same_facts_def)

lemma step_moves_on:
  assumes ok: "ledger_ok J s" and step: "ledger_step J s s'" and f: "el_sources s i = Some f"
  shows "\<exists>g. el_sources s' i = Some g \<and> moves_on f g"
  using step
proof (cases rule: ledger_step_cases)
  case same
  then show ?thesis using f by (simp add: same_facts_sources)
next
  case (created h now)
  then show ?thesis using f by (auto simp: same_facts_sources)
next
  case (swapped c n now)
  have "src_ID c = src_ID n" "moves_on c n" using transition_fixed(1) [OF swapped(2)] transition_moves_on [OF swapped(2)] by simp_all
  then show ?thesis using f swapped(1,3) by (cases "i = src_ID n") (simp_all add: same_facts_sources)
next
  case (appended e expected late now h r d)
  have "src_ID h = ev_RegistrationID e" using ledger_okD(6) [OF ok appended(2)] by simp
  then show ?thesis using f appended(2) advance_moves_on [OF appended(3)]
    by (cases "i = src_ID h") (simp_all add: same_facts_sources [OF appended(7)] commit_record_def Let_def)
next
  case (buried b r)
  then show ?thesis using f by (simp add: same_facts_sources)
qed

lemma run_moves_on:
  assumes "ledger_run J s t" "ledger_ok J s" "el_sources s i = Some f"
  shows "\<exists>g. el_sources t i = Some g \<and> moves_on f g"
  using assms
proof (induction rule: ledger_run.induct)
  case (ledger_go s t u)
  then obtain g where "el_sources t i = Some g" "moves_on f g" by blast
  moreover have "ledger_ok J t" using ledger_run_ok ledger_go by blast
  ultimately show ?case using step_moves_on [of J t u i g] ledger_go(2) moves_on_trans by blast
qed simp

lemma recorded_mono:
  assumes "ledger_run J s t" "ledger_ok J s" "recorded s r"
  shows "recorded t r"
  using assms ledger_run_prefix [OF assms(1,2)] unfolding recorded_def by (metis Un_iff set_append)

lemma append_event_replay:
  assumes ok: "ledger_ok J t" and r: "recorded t r" and ctx: "contextError ctx = None"
  shows "append_event J t ctx (rec_Candidate r) expected late now = (t, Inr r)"
proof -
  obtain d where "r \<in> set (ledger t d)" using r by (auto simp: recorded_def)
  note m = chain_mem [OF ledger_okD(2) [OF ok] this]
  have "el_bySource t (event_source_key (rec_Candidate r)) = Some r" using ledger_okD(4) [OF ok] r by blast
  then show ?thesis by (simp add: append_event_def ctx m(4,5) digest_or_empty_def)
qed

lemma append_event_commits:
  assumes ok: "ledger_ok J s" and a: "append_event J s ctx e expected late now = (s', y)" and ch: "ledger s' \<noteq> ledger s"
  shows "\<exists>r d. rec_Candidate r = e \<and> ledger s' = (ledger s)(d := ledger s d @ [r])"
  using a
proof (cases rule: append_event_cases)
  case unchanged
  then show ?thesis using ch by simp
next
  case (appended f r d)
  note p = append_preserves [OF ok appended(2-7)]
  show ?thesis using p(2) same_facts_ok(2) [OF appended(8)] NewRecord_ok(4) [OF appended(7)] by auto
qed

lemma sample_chain: "chain ledger_json (sample_hash ''EvidenceLedgerScopeV2'') [sample_record]"
  using ledger_okD(2) [OF reachable_ledger_ok [OF sample_reachable(2)], of "sample_hash ''EvidenceLedgerScopeV2''"]
  by (simp only: appended_ledger)

section \<open>What a record digest fixes\<close>

text \<open>
  The message that the digest of a record is taken over: the encoding of the whole record, candidate, previous digest and
  ingestion time included, with the digest field cleared. Two different records collide when their encodings are equal
  (the encoder is a parameter) or when SHA-256 maps the two messages to one value.
\<close>

definition digest_message :: "evidence_json \<Rightarrow> EvidenceLedgerRecordV2 \<Rightarrow> string option" where
  "digest_message J r = json_LedgerRecord J (r\<lparr>rec_Ref := (rec_Ref r)\<lparr>err_RecordDigest := ''''\<rparr>\<rparr>)"

definition record_collision :: "evidence_json \<Rightarrow> EvidenceLedgerRecordV2 \<Rightarrow> EvidenceLedgerRecordV2 \<Rightarrow> bool" where
  "record_collision J r r' \<longleftrightarrow>
     r\<lparr>rec_Ref := (rec_Ref r)\<lparr>err_RecordDigest := ''''\<rparr>\<rparr> \<noteq> r'\<lparr>rec_Ref := (rec_Ref r')\<lparr>err_RecordDigest := ''''\<rparr>\<rparr>
     \<and> (case (digest_message J r, digest_message J r') of
          (Some m, Some m') \<Rightarrow> m = m'
            \<or> Sum256 (canonical_preimage ''praxis.runtime.evidence'' EvidenceContractVersionV2 ''EvidenceLedgerRecordV2'' m)
              = Sum256 (canonical_preimage ''praxis.runtime.evidence'' EvidenceContractVersionV2 ''EvidenceLedgerRecordV2'' m')
        | _ \<Rightarrow> False)"

lemma record_digest_message:
  assumes "ValidateEvidenceLedgerRecordV2 J r = None"
  shows "\<exists>m. digest_message J r = Some m \<and> record_digest r
    = DigestBytes (canonical_preimage ''praxis.runtime.evidence'' EvidenceContractVersionV2 ''EvidenceLedgerRecordV2'' m)"
proof -
  have "EvidenceLedgerRecordDigestV2 J r = Inr (record_digest r)"
    using assms by (auto simp: ValidateEvidenceLedgerRecordV2_def split: sum.splits)
  then have "evidence_digest ''EvidenceLedgerRecordV2'' (digest_message J r) = Inr (record_digest r)"
    by (auto simp: EvidenceLedgerRecordDigestV2_def digest_message_def)
  then show ?thesis by (auto simp: evidence_digest_def CanonicalJSONDigest_Inr)
qed

lemma same_digest_collides:
  assumes "ValidateEvidenceLedgerRecordV2 J r = None" "ValidateEvidenceLedgerRecordV2 J r' = None"
    "record_digest r = record_digest r'" "r \<noteq> r'"
  shows "record_collision J r r'"
proof -
  have "r\<lparr>rec_Ref := (rec_Ref r)\<lparr>err_RecordDigest := ''''\<rparr>\<rparr> \<noteq> r'\<lparr>rec_Ref := (rec_Ref r')\<lparr>err_RecordDigest := ''''\<rparr>\<rparr>"
    using assms(3,4) by (cases r; cases r'; cases "rec_Ref r"; cases "rec_Ref r'") auto
  then show ?thesis
    using record_digest_message [OF assms(1)] record_digest_message [OF assms(2)] assms(3)
    by (auto simp: record_collision_def DigestBytes_def)
qed

lemma chain_from_link:
  "chain_from J d n p rs \<Longrightarrow> i < length rs \<Longrightarrow> rec_PreviousRecordDigest (rs ! i) = (if i = 0 then p else record_digest (rs ! (i - 1)))"
  by (induction J d n p rs arbitrary: i rule: chain_from.induct) (auto simp: nth_Cons split: nat.splits)

lemma ledger_digest_proper:
  assumes "ledger_ok J s" "r \<in> set (ledger s d)"
  shows "record_digest r \<noteq> []"
proof -
  have "EvidenceLedgerRecordDigestV2 J r = Inr (record_digest r)"
    using chain_mem(1) [OF ledger_okD(2) [OF assms(1)] assms(2)] by (auto simp: ValidateEvidenceLedgerRecordV2_def split: sum.splits)
  then show ?thesis using digest_valid(3) by fastforce
qed

lemma ledger_length_bound: "length (ledger s d) < 2 ^ 64"
  using unsigned_less [of "el_lastSequence s d", where 'a = nat] by simp

text \<open>Without a collision a record digest fixes the ledger, the position and every record before it.\<close>

lemma digest_fixes_prefix:
  assumes ok: "ledger_ok J s" "ledger_ok J t"
    and i: "i < length (ledger s d)" "j < length (ledger t e)" "record_digest (ledger s d ! i) = record_digest (ledger t e ! j)"
    and none: "\<forall>r \<in> set (ledger s d). \<forall>r' \<in> set (ledger t e). \<not> record_collision J r r'"
  shows "d = e \<and> i = j \<and> take (Suc i) (ledger s d) = take (Suc j) (ledger t e)"
proof -
  note c = ledger_okD(2) [OF ok(1), of d] ledger_okD(2) [OF ok(2), of e]
  note v = chain_mem(1,2) [OF c(1)] and w = chain_mem(1,2) [OF c(2)]
  have same: "ledger s d ! k = ledger t e ! l"
    if "k < length (ledger s d)" "l < length (ledger t e)" "record_digest (ledger s d ! k) = record_digest (ledger t e ! l)" for k l
    using same_digest_collides [OF v(1) w(1) that(3)] none that(1,2) by (meson nth_mem)
  have "err_LedgerScopeDigest (rec_Ref (ledger s d ! i)) = d" "err_LedgerScopeDigest (rec_Ref (ledger t e ! j)) = e"
    using v(2) w(2) i(1,2) by simp_all
  then have de: "d = e" using same [OF i] by simp
  have "(word_of_nat (Suc i) :: u64) = word_of_nat (Suc j)"
    using ledger_nth_ref(2) [OF ok(1) i(1)] ledger_nth_ref(2) [OF ok(2) i(2)] same [OF i] by simp
  moreover have "Suc i < 2 ^ 64" "Suc j < 2 ^ 64"
    using i(1,2) ledger_length_bound [of s d] ledger_length_bound [of t e] by linarith+
  ultimately have ij: "i = j" using u64_of_nat by (metis nat.inject)
  have link: "k \<le> i \<Longrightarrow> ledger s d ! (i - k) = ledger t e ! (i - k)" for k
  proof (induction k)
    case 0
    then show ?case using same [OF i] ij by simp
  next
    case (Suc k)
    then have k: "ledger s d ! (i - k) = ledger t e ! (i - k)" "i - k \<noteq> 0" "i - k - 1 = i - Suc k" by simp_all
    have b: "i - k < length (ledger s d)" "i - k < length (ledger t e)" using i(1,2) ij by simp_all
    have "record_digest (ledger s d ! (i - Suc k)) = record_digest (ledger t e ! (i - Suc k))"
      using chain_from_link [OF c(1) [unfolded chain_def] b(1)] chain_from_link [OF c(2) [unfolded chain_def] b(2)] k by metis
    then show ?case using same [of "i - Suc k" "i - Suc k"] i(1,2) ij by simp
  qed
  have "ledger s d ! k = ledger t e ! k" if "k < Suc i" for k using link [of "i - k"] that by simp
  then show ?thesis using de ij i(1,2) by (auto intro!: nth_equalityI)
qed

section \<open>Properties\<close>

lemma one_ledger:
  assumes ok: "ledger_ok J s" and "r \<in> set (ledger s d)" "r' \<in> set (ledger s d)"
    "ev_EventID (rec_Candidate r) = ev_EventID (rec_Candidate r')"
  shows "r = r'"
proof -
  note m = chain_mem [OF ledger_okD(2) [OF ok] assms(2)] and m' = chain_mem [OF ledger_okD(2) [OF ok] assms(3)]
  have "event_key J (rec_Candidate r) = event_key J (rec_Candidate r')"
    using assms(4) m(3) m'(3) by (simp add: event_key_def)
  moreover have "recorded s r" "recorded s r'" using assms(2,3) by (auto simp: recorded_def)
  ultimately show ?thesis using ledger_okD(5) [OF ok] by (metis option.inject)
qed

lemma ledger_distinct:
  assumes ok: "ledger_ok J s"
  shows "distinct (ledger s d)"
proof (rule ccontr)
  assume "\<not> distinct (ledger s d)"
  then obtain i j where ij: "i < length (ledger s d)" "j < length (ledger s d)" "i \<noteq> j" "ledger s d ! i = ledger s d ! j"
    by (auto simp: distinct_conv_nth)
  then have "(word_of_nat (Suc i) :: u64) = word_of_nat (Suc j)"
    using ledger_nth_ref(2) [OF ok] by metis
  moreover have "Suc i < 2 ^ 64" "Suc j < 2 ^ 64"
    using ij(1,2) unsigned_less [of "el_lastSequence s d", where 'a = nat] by simp_all
  ultimately show False using u64_of_nat ij(3) by (metis nat.inject)
qed

text \<open>
  C18: At every moment of every history of the evidence store, each ledger is an intact hash chain: every
  record verifies on its own, carries the next sequence number from 1, and names the digest of its
  predecessor, the first one the genesis digest. The stored head is the digest of the last record,
  and no event id occurs twice in one ledger.
\<close>
theorem evidence_ledger_chain:
  assumes "ledger_run J NewEvidenceLedgerStoreV2 s"
  shows "chain J d (ledger s d)
    \<and> el_lastDigest s d = (if ledger s d = [] then '''' else record_digest (last (ledger s d)))
    \<and> distinct (map (ev_EventID \<circ> rec_Candidate) (ledger s d))"
proof (intro conjI)
  note ok = reachable_ledger_ok [OF assms]
  show "chain J d (ledger s d)" "el_lastDigest s d = (if ledger s d = [] then '''' else record_digest (last (ledger s d)))"
    using ledger_okD(2,3) [OF ok] by blast+
  show "distinct (map (ev_EventID \<circ> rec_Candidate) (ledger s d))"
    unfolding distinct_map inj_on_def comp_def using ledger_distinct [OF ok] one_ledger [OF ok] by blast
qed

lemma evidence_ledger_chain_witness: "chain ledger_json (sample_hash ''EvidenceLedgerScopeV2'') [sample_record]"
  using evidence_ledger_chain [OF sample_reachable(2), of "sample_hash ''EvidenceLedgerScopeV2''"] by (simp only: appended_ledger)

text \<open>
  C22: A record digest commits to the whole history before it. Take any two stores, each after any history, and a ledger
  of each. Unless they hold two different records that collide -- one encoding for both, or one SHA-256 value
  for the two messages --, equal record digests, at any two positions, mean the same ledger, the same position and the same
  records up to it; and equal heads mean equal ledgers. So no record can be altered, dropped, added or reordered, whatever
  field is touched, without changing the digest of every record after it and of the head.
\<close>
theorem ledger_tamper_evident:
  assumes "ledger_run J NewEvidenceLedgerStoreV2 s" "ledger_run J NewEvidenceLedgerStoreV2 t"
  shows "(\<exists>r \<in> set (ledger s d). \<exists>r' \<in> set (ledger t e). record_collision J r r')
    \<or> (\<forall>i j. i < length (ledger s d) \<and> j < length (ledger t e)
          \<and> record_digest (ledger s d ! i) = record_digest (ledger t e ! j) \<longrightarrow>
          d = e \<and> i = j \<and> take (Suc i) (ledger s d) = take (Suc j) (ledger t e))
      \<and> (el_lastDigest s d = el_lastDigest t e \<longrightarrow> ledger s d = ledger t e)"
proof (cases "\<forall>r \<in> set (ledger s d). \<forall>r' \<in> set (ledger t e). \<not> record_collision J r r'")
  case True
  note ok = reachable_ledger_ok [OF assms(1)] reachable_ledger_ok [OF assms(2)]
  note prefix = digest_fixes_prefix [OF ok _ _ _ True]
  note head = ledger_okD(3) [OF ok(1), of d] ledger_okD(3) [OF ok(2), of e]
  have "ledger s d = ledger t e" if h: "el_lastDigest s d = el_lastDigest t e"
  proof (cases "ledger s d = [] \<or> ledger t e = []")
    case True
    then show ?thesis using h head ledger_digest_proper [OF ok(1)] ledger_digest_proper [OF ok(2)] by (metis last_in_set)
  next
    case False
    then have "record_digest (ledger s d ! (length (ledger s d) - 1)) = record_digest (ledger t e ! (length (ledger t e) - 1))"
      using h head by (simp add: last_conv_nth)
    moreover have "length (ledger s d) - 1 < length (ledger s d)" "length (ledger t e) - 1 < length (ledger t e)"
      using False by (metis diff_less length_greater_0_conv zero_less_one)+
    ultimately show ?thesis using prefix False by (metis Suc_diff_1 length_greater_0_conv order_refl take_all)
  qed
  with prefix show ?thesis by blast
qed blast

lemma ledger_tamper_evident_witness:
  "el_lastDigest registered_store (sample_hash ''EvidenceLedgerScopeV2'') \<noteq> el_lastDigest appended_store (sample_hash ''EvidenceLedgerScopeV2'')"
proof -
  have "ledger registered_store d = []" for d by (simp add: ledger_def registered_store_fields)
  then show ?thesis
    using ledger_tamper_evident [OF sample_reachable, of "sample_hash ''EvidenceLedgerScopeV2''" "sample_hash ''EvidenceLedgerScopeV2''"]
    by (auto simp: appended_ledger)
qed

text \<open>
  C19: The events of a registered source are numbered 1, 2, 3, ... in ledger order with no gap and no
  repetition, up to the one before its cursor; every record with its registration id, wherever it is,
  lies in the ledger of its scope and in its epoch; and no second registration has the same ledger
  scope, source id and epoch.
\<close>
theorem evidence_sources_gapless:
  assumes "ledger_run J NewEvidenceLedgerStoreV2 s" and "InspectSource s ctx i = Inr f"
  shows "map ev_SourceSequence (events_of J s f) = map word_of_nat [1..<unat (src_NextSourceSequence f)]
    \<and> (r \<in> set (ledger s d) \<and> ev_RegistrationID (rec_Candidate r) = i \<longrightarrow>
       d = source_ledger J f \<and> ev_SourceEpoch (rec_Candidate r) = src_SourceEpoch f \<and> ev_SourceID (rec_Candidate r) = src_SourceID f)
    \<and> (InspectSource s ctx' j = Inr g \<and> src_LedgerScope g = src_LedgerScope f \<and> src_SourceID g = src_SourceID f
       \<and> src_SourceEpoch g = src_SourceEpoch f \<longrightarrow> g = f)"
proof -
  note ok = reachable_ledger_ok [OF assms(1)]
  have look: "el_sources s k = Some h" if "InspectSource s c k = Inr h" for c k h
    using that by (auto simp: InspectSource_def split: option.splits)
  note f = look [OF assms(2)]
  have a: "map ev_SourceSequence (events_of J s f) = map word_of_nat [1..<unat (src_NextSourceSequence f)]"
    using ledger_okD(6) [OF ok f] by (simp add: source_ok_def)
  have b: "d = source_ledger J f \<and> ev_SourceEpoch (rec_Candidate r) = src_SourceEpoch f \<and> ev_SourceID (rec_Candidate r) = src_SourceID f"
    if "r \<in> set (ledger s d)" "ev_RegistrationID (rec_Candidate r) = i"
    using event_source [OF ok that(1), of f] f that(2) by (simp add: from_source_def)
  have c: "g = f" if "InspectSource s ctx' j = Inr g" "src_LedgerScope g = src_LedgerScope f" "src_SourceID g = src_SourceID f"
    "src_SourceEpoch g = src_SourceEpoch f"
    using distinct_sources [OF ok f look [OF that(1)]] f look [OF that(1)] that(2-4) by (simp add: epoch_key_def)
  from a b c show ?thesis by blast
qed

lemma appended_source: "InspectSource appended_store LiveContext ''r'' = Inr (advance_source sample_source (at_nano 20))"
  by (simp add: InspectSource_def appended_store_def sample_append_commit commit_record_def Let_def sample_links)

lemma evidence_sources_gapless_witness:
  "map ev_SourceSequence (events_of ledger_json appended_store (advance_source sample_source (at_nano 20)))
     = map word_of_nat [1..<unat (src_NextSourceSequence (advance_source sample_source (at_nano 20)))]"
  using evidence_sources_gapless [OF sample_reachable(2) appended_source] by blast

text \<open>
  C20: The store refines an append-only log. Every operation leaves all ledgers as they are or appends
  one record to one of them; looking up a record reference finds the record at its position or
  says that it is missing or differs; a page is the slice of the log after the cursor.
\<close>
theorem evidence_ledger_refines_log:
  assumes "ledger_run J NewEvidenceLedgerStoreV2 s" "ledger_step J s s'"
    and "EvidenceRecordRefV2_Validate ref = None"
    and "Digest_Validate (wc_LedgerScopeDigest cursor) = None" "limit \<noteq> 0" "unat limit \<le> MaxEvidencePageSize"
  shows "(ledger s' = ledger s \<or> (\<exists>d r. ledger s' = (ledger s)(d := ledger s d @ [r])))
    \<and> InspectRecord s' LiveContext ref = log_at (ledger s') ref
    \<and> Watch s' LiveContext cursor limit = Inr (log_page (ledger s') cursor (unat limit))"
proof (intro conjI)
  have step: "ledger_ok J s' \<and> extends (ledger s) (ledger s')"
    using ledger_step_ok [OF reachable_ledger_ok [OF assms(1)] assms(2)] .
  then show "ledger s' = ledger s \<or> (\<exists>d r. ledger s' = (ledger s)(d := ledger s d @ [r]))" by (simp add: extends_def)
  from step show "InspectRecord s' LiveContext ref = log_at (ledger s') ref"
    using InspectRecord_log [OF _ assms(3)] by blast
  from step show "Watch s' LiveContext cursor limit = Inr (log_page (ledger s') cursor (unat limit))"
    using Watch_log [OF _ assms(4-6)] by blast
qed

lemma evidence_ledger_refines_log_witness:
  "InspectRecord appended_store LiveContext (rec_Ref sample_record) = log_at (ledger appended_store) (rec_Ref sample_record)"
proof -
  let ?c = "\<lparr>wc_LedgerScopeDigest = sample_hash [], wc_AfterSequence = 0\<rparr>"
  have "EvidenceRecordRefV2_Validate (rec_Ref sample_record) = None"
    by (simp add: sample_record_def EvidenceRecordRefV2_Validate_def)
  from evidence_ledger_refines_log [OF sample_reachable(1) append_record [OF sample_append] this, of ?c 1]
  show ?thesis by (simp add: MaxEvidencePageSize_def)
qed

text \<open>
  Once an event has been appended, also when the reply was lost and when it was a late
  observation, sending it again in any later store is answered with the very record that was written,
  whatever the clock and the expected source revision now say, and changes nothing.
\<close>
theorem evidence_append_replay:
  assumes "ledger_run J NewEvidenceLedgerStoreV2 s"
    and "Append J s ctx q now = (s', y) \<or> AppendLateObservation J s ctx q now = (s', y)" "ledger s' \<noteq> ledger s"
    and "ledger_run J s' t" "app_Candidate q' = app_Candidate q" "contextError ctx' = None"
  shows "\<exists>r d. ledger s' = (ledger s)(d := ledger s d @ [r]) \<and> rec_Candidate r = app_Candidate q
     \<and> Append J t ctx' q' now' = (t, Inr r) \<and> AppendLateObservation J t ctx' q' now' = (t, Inr r)"
proof -
  note ok = reachable_ledger_ok [OF assms(1)]
  have "\<exists>late. append_event J s ctx (app_Candidate q) (app_ExpectedSourceRevision q) late now = (s', y)"
    using assms(2) by (auto simp: Append_def AppendLateObservation_def)
  then obtain r d where r: "rec_Candidate r = app_Candidate q" "ledger s' = (ledger s)(d := ledger s d @ [r])"
    using append_event_commits [OF ok _ assms(3)] by blast
  have "ledger_step J s s'" using assms(2) by (auto intro: ledger_step.intros)
  then have ok': "ledger_ok J s'" using ledger_step_ok [OF ok] by blast
  have "recorded s' r" using r(2) by (auto simp: recorded_def)
  with ok' assms(4) have "ledger_ok J t" "recorded t r" using ledger_run_ok recorded_mono by blast+
  from append_event_replay [OF this assms(6)] r assms(5) show ?thesis
    by (auto simp: Append_def AppendLateObservation_def)
qed

lemma evidence_append_replay_witness:
  "\<exists>r d. ledger appended_store = (ledger registered_store)(d := ledger registered_store d @ [r]) \<and> rec_Candidate r = sample_event
     \<and> Append ledger_json appended_store LiveContext \<lparr>app_Candidate = sample_event, app_ExpectedSourceRevision = 7\<rparr> (at_nano 90)
         = (appended_store, Inr r)
     \<and> AppendLateObservation ledger_json appended_store LiveContext \<lparr>app_Candidate = sample_event, app_ExpectedSourceRevision = 7\<rparr> (at_nano 90)
         = (appended_store, Inr r)"
proof -
  have "ledger registered_store (sample_hash ''EvidenceLedgerScopeV2'') = []" by (simp add: ledger_def registered_store_fields)
  then have "ledger appended_store \<noteq> ledger registered_store" using appended_ledger by auto
  from evidence_append_replay [OF sample_reachable(1) disjI1 [OF sample_append] this ledger_stay,
      of "\<lparr>app_Candidate = sample_event, app_ExpectedSourceRevision = 7\<rparr>" LiveContext "at_nano 90"]
  show ?thesis by (simp add: sample_request_def)
qed

text \<open>
  A source registration never disappears and never changes its identity: source id, epoch, scopes,
  trust mappings and event kinds stay, while the event cursor, the update time and the expiry only move
  forward. Once revoked or expired it does not change any more and gets no further event.
\<close>
theorem source_lifecycle:
  assumes "ledger_run J NewEvidenceLedgerStoreV2 s" "ledger_run J s t" "InspectSource s ctx i = Inr f"
  shows "(\<exists>g. InspectSource t ctx i = Inr g \<and> moves_on f g)
    \<and> (src_State f \<noteq> EvidenceSourceActive \<longrightarrow> InspectSource t ctx i = Inr f \<and> events_of J t f = events_of J s f)"
proof (rule conjI; (rule impI)?)
  note ok = reachable_ledger_ok [OF assms(1)]
  have f: "contextError ctx = None" "el_sources s i = Some f"
    using assms(3) by (cases "contextError ctx"; auto simp: InspectSource_def split: option.splits)+
  obtain g where g: "el_sources t i = Some g" "moves_on f g" using run_moves_on [OF assms(2) ok f(2)] by blast
  with f(1) show "\<exists>g. InspectSource t ctx i = Inr g \<and> moves_on f g" by (simp add: InspectSource_def)
  assume st: "src_State f \<noteq> EvidenceSourceActive"
  with g have t: "el_sources t i = Some f" by (simp add: moves_on_def)
  have "source_ok J s f" "source_ok J t f"
    using ledger_okD(6) [OF ok f(2)] ledger_okD(6) [OF ledger_run_ok [OF assms(2) ok] t] by blast+
  then have "length (events_of J t f) = length (events_of J s f)" unfolding source_ok_def by (metis length_map)
  moreover obtain rs where "ledger t (source_ledger J f) = ledger s (source_ledger J f) @ rs"
    using ledger_run_prefix [OF assms(2) ok] by blast
  ultimately have "events_of J t f = events_of J s f" by (simp add: events_of_def filter_map)
  with t f(1) show "InspectSource t ctx i = Inr f \<and> events_of J t f = events_of J s f" by (simp add: InspectSource_def)
qed

lemma source_lifecycle_witness: "\<exists>g. InspectSource appended_store LiveContext ''r'' = Inr g \<and> moves_on sample_source g"
proof -
  have "InspectSource registered_store LiveContext ''r'' = Inr sample_source"
    by (simp add: InspectSource_def registered_store_fields sample_links)
  from source_lifecycle [OF sample_reachable(1) ledger_go [OF ledger_stay append_record [OF sample_append]] this]
  show ?thesis by blast
qed

text \<open>A watcher: it polls once per store and goes on from the cursor that the page returned.\<close>

fun follow :: "EvidenceLedgerStoreV2 list \<Rightarrow> EvidenceWatchCursorV2 \<Rightarrow> u32 \<Rightarrow> EvidenceLedgerRecordV2 list" where
  "follow [] cursor limit = []"
| "follow (s # ss) cursor limit =
     (case Watch s LiveContext cursor limit of
        Inl e \<Rightarrow> []
      | Inr page \<Rightarrow> page_Records page @ follow ss (page_Next page) limit)"

lemma page_advance:
  fixes a :: u64
  assumes "rs = take n (drop (unat a) (ledger s d))"
  shows "unat (a + word_of_nat (length rs)) = unat a + length rs"
proof (cases "rs = []")
  case False
  then have "unat a + length rs \<le> length (ledger s d)" using assms by (cases "unat a < length (ledger s d)") auto
  then have "unat a + length rs < 2 ^ 64" using ledger_length_bound [of s d] by linarith
  then show ?thesis using u64_of_nat [of "unat a + length rs"] by simp
qed simp

lemma take_drop_append:
  assumes "xs = take (length xs) (drop a zs)" "ys = take (length ys) (drop (a + length xs) zs)"
  shows "xs @ ys = take (length xs + length ys) (drop a zs)"
  using assms by (metis add.commute drop_drop take_add)

lemma follow_reads:
  assumes "sorted_wrt (ledger_run J) ss" "\<forall>s \<in> set ss. ledger_ok J s" "ss \<noteq> []"
    and c: "Digest_Validate d = None" "limit \<noteq> 0" "unat limit \<le> MaxEvidencePageSize"
  defines "F \<equiv> \<lambda>a. follow ss \<lparr>wc_LedgerScopeDigest = d, wc_AfterSequence = a\<rparr> limit"
  shows "F a = take (length (F a)) (drop (unat a) (ledger (last ss) d))
     \<and> min (length ss * unat limit) (length (ledger (hd ss) d) - unat a) \<le> length (F a)"
  using assms(1-3) unfolding F_def
proof (induction ss arbitrary: a)
  case (Cons s ss)
  define L where "L = ledger s d"
  define rs where "rs = take (unat limit) (drop (unat a) L)"
  let ?c = "\<lambda>a. \<lparr>wc_LedgerScopeDigest = d, wc_AfterSequence = a\<rparr>"
  have "Watch s LiveContext (?c a) limit = Inr (log_page (ledger s) (?c a) (unat limit))"
    using Watch_log [of J s "?c a" limit] Cons.prems c by simp
  then have w: "follow (s # ss) (?c a) limit = rs @ follow ss (?c (a + word_of_nat (length rs))) limit"
    by (simp add: log_page_def rs_def L_def Let_def)
  have len: "length rs = min (unat limit) (length L - unat a)" by (simp add: rs_def L_def)
  show ?case
  proof (cases "ss = []")
    case True
    then have "follow (s # ss) (?c a) limit = rs" using w by simp
    moreover have "rs = take (length rs) (drop (unat a) L)" by (simp only: rs_def) (simp add: min_def)
    ultimately show ?thesis using True len by (simp add: L_def)
  next
    case False
    have run: "ledger_run J s (last ss)" "ledger_run J s (hd ss)" "ledger_ok J s" using Cons.prems False by simp_all
    obtain ys where ys: "ledger (last ss) d = L @ ys" using ledger_run_prefix [OF run(1,3), of d] by (auto simp: L_def)
    obtain zs where zs: "ledger (hd ss) d = L @ zs" using ledger_run_prefix [OF run(2,3), of d] by (auto simp: L_def)
    have a': "unat (a + word_of_nat (length rs)) = unat a + length rs"
      by (rule page_advance) (simp only: rs_def L_def)
    let ?f = "follow ss (?c (a + word_of_nat (length rs))) limit"
    have ih: "?f = take (length ?f) (drop (unat a + length rs) (L @ ys))"
      "min (length ss * unat limit) (length (L @ zs) - (unat a + length rs)) \<le> length ?f"
      using Cons.IH [of "a + word_of_nat (length rs)"] Cons.prems False by (simp_all add: a' ys zs)
    have "rs = take (length rs) (drop (unat a) (L @ ys))"
      unfolding len by (simp add: rs_def min_def)
    define out where "out = rs @ ?f"
    have "out = take (length out) (drop (unat a) (L @ ys))"
      unfolding out_def length_append
      by (rule take_drop_append [OF \<open>rs = take (length rs) (drop (unat a) (L @ ys))\<close> ih(1)])
    moreover have "min (length (s # ss) * unat limit) (length L - unat a) \<le> length out"
      using ih(2) len by (auto simp: out_def min_def split: if_splits)
    moreover have "ledger (last (s # ss)) d = L @ ys" using False ys by simp
    ultimately show ?thesis unfolding w out_def [symmetric] list.sel L_def [symmetric] by metis
  qed
qed simp

text \<open>
  C21: A watcher that polls while the store goes on working reads each record once and in order: after any
  polls it holds exactly a prefix of what lies after its first cursor, and \<open>n\<close> polls with a page size
  \<open>limit\<close> have delivered all records present at the first poll, or \<open>n * limit\<close> of them.
\<close>
theorem watcher_reads_all:
  assumes "ledger_run J NewEvidenceLedgerStoreV2 (hd ss)" "sorted_wrt (ledger_run J) ss" "ss \<noteq> []"
    and "Digest_Validate d = None" "limit \<noteq> 0" "unat limit \<le> MaxEvidencePageSize"
  shows "\<exists>k \<ge> min (length ss * unat limit) (length (ledger (hd ss) d) - unat a).
    follow ss \<lparr>wc_LedgerScopeDigest = d, wc_AfterSequence = a\<rparr> limit = take k (drop (unat a) (ledger (last ss) d))"
proof -
  have "ledger_ok J s" if "s \<in> set ss" for s
    using that assms(1-3) ledger_run_ok [of J "hd ss" s] reachable_ledger_ok [OF assms(1)] by (cases ss) auto
  then show ?thesis using follow_reads [OF assms(2) _ assms(3-6), of a] by blast
qed

lemma watcher_reads_all_witness:
  "\<exists>k \<ge> min (length [registered_store, appended_store] * unat (2 :: u32)) (length (ledger registered_store (sample_hash [])) - unat 0).
    follow [registered_store, appended_store] \<lparr>wc_LedgerScopeDigest = sample_hash [], wc_AfterSequence = 0\<rparr> 2
      = take k (drop (unat 0) (ledger appended_store (sample_hash [])))"
  using watcher_reads_all [of ledger_json "[registered_store, appended_store]" "sample_hash []" 2 0] sample_reachable(1)
    ledger_go [OF ledger_stay append_record [OF sample_append]] by (simp add: MaxEvidencePageSize_def)

end
