(* ===== verification/EffectFact.thy ===== *)
theory EffectFact
  imports GovernanceV2
begin

text \<open>
  \<open>runtime/control/effect_fact_v2.go\<close>: the effect fact, the permit fact and what may replace them. An
  effect goes from proposal through acceptance, a dispatch intent, the provider's outcome and its
  settlement; two closure dimensions, the remote residual and the cleanup, advance beside the main
  state. What the fact owner has looked up for a transition is the record \<open>EffectTransitionContextV2\<close>.
  \<open>reflect.DeepEqual\<close> is equality of the values.
\<close>

section \<open>States\<close>

datatype EffectFactStateV2 =
    EffectProposed | EffectAccepted | EffectDispatchIntent | EffectDispatched | EffectUnknownOutcome | EffectSettled
  | EffectCompensated | EffectRejected | EffectFactStateOther string

datatype DispatchPermitStateV2 =
    DispatchPermitIssued | DispatchPermitBegun | DispatchPermitExpired | DispatchPermitRevoked | DispatchPermitStateOther string

datatype RemoteResidualStateV2 =
    RemoteResidualNotRequired | RemoteResidualPending | RemoteResidualConfirmedAbsent | RemoteResidualPresent
  | RemoteResidualUnknown | RemoteResidualStateOther string

datatype EffectCleanupStateV2 =
    EffectCleanupNotRequired | EffectCleanupPending | EffectCleanupComplete | EffectCleanupFailed
  | EffectCleanupIndeterminate | EffectCleanupStateOther string

datatype EffectSettlementDispositionV2 =
    SettlementConfirmedApplied | SettlementConfirmedNotApplied | SettlementConfirmedFailed | SettlementDispositionOther string

fun validEffectFactStateV2 :: "EffectFactStateV2 \<Rightarrow> bool" where
  "validEffectFactStateV2 (EffectFactStateOther s) = False"
| "validEffectFactStateV2 _ = True"

definition validDispatchPermitStateV2 :: "DispatchPermitStateV2 \<Rightarrow> bool" where
  "validDispatchPermitStateV2 s \<longleftrightarrow>
     s = DispatchPermitIssued \<or> s = DispatchPermitBegun \<or> s = DispatchPermitExpired \<or> s = DispatchPermitRevoked"

fun validRemoteResidualStateV2 :: "RemoteResidualStateV2 \<Rightarrow> bool" where
  "validRemoteResidualStateV2 (RemoteResidualStateOther s) = False"
| "validRemoteResidualStateV2 _ = True"

fun validEffectCleanupStateV2 :: "EffectCleanupStateV2 \<Rightarrow> bool" where
  "validEffectCleanupStateV2 (EffectCleanupStateOther s) = False"
| "validEffectCleanupStateV2 _ = True"

section \<open>Facts\<close>

record ProviderDispatchReceiptV2 =
  pdr_PermitID :: string
  pdr_PermitDigest :: Digest
  pdr_AttemptID :: string
  pdr_IntentID :: string
  pdr_IntentRevision :: Revision
  pdr_Provider :: ProviderBindingRefV2
  pdr_ProviderOperationRef :: string
  pdr_ReceiptRef :: string
  pdr_ObservationDigest :: Digest
  pdr_ObservedUnixNano :: i64

definition ProviderDispatchReceiptV2_Validate :: "ProviderDispatchReceiptV2 \<Rightarrow> go_error option" where [validate_defs]:
  "ProviderDispatchReceiptV2_Validate r =
     first_err
      [fail_if (blank (pdr_PermitID r) \<or> blank (pdr_AttemptID r) \<or> blank (pdr_IntentID r) \<or> pdr_IntentRevision r = 0
          \<or> sint (pdr_ObservedUnixNano r) \<le> 0) ErrorInvalidArgument ReasonInvalidReference,
       Digest_Validate (pdr_PermitDigest r),
       ProviderBindingRefV2_Validate (pdr_Provider r),
       Digest_Validate (pdr_ObservationDigest r)]"

record EffectSettlementFactV2 =
  esf_Owner :: EffectOwnerRefV2
  esf_Disposition :: EffectSettlementDispositionV2
  esf_ReceiptRef :: string
  esf_EvidenceDigest :: Digest
  esf_InspectionIntentID :: string
  esf_InspectionIntentRevision :: Revision
  esf_InspectionSettlementDigest :: Digest
  esf_DomainResult :: "OpaquePayloadV2 option"
  esf_SettledUnixNano :: i64

definition EffectSettlementFactV2_Validate :: "EffectSettlementFactV2 \<Rightarrow> go_error option" where [validate_defs]:
  "EffectSettlementFactV2_Validate s =
     first_err
      [fail_if (eo_Role (esf_Owner s) \<noteq> OwnerSettlement \<or> blank (esf_ReceiptRef s) \<or> sint (esf_SettledUnixNano s) \<le> 0)
         ErrorInvalidArgument ReasonSettlementOwnerMismatch,
       fail_if (esf_Disposition s \<noteq> SettlementConfirmedApplied \<and> esf_Disposition s \<noteq> SettlementConfirmedNotApplied
          \<and> esf_Disposition s \<noteq> SettlementConfirmedFailed) ErrorInvalidArgument ReasonEffectUnknownOutcome,
       Digest_Validate (eo_ManifestDigest (esf_Owner s)),
       Digest_Validate (esf_EvidenceDigest s),
       fail_if ((\<not> blank (esf_InspectionIntentID s) \<or> esf_InspectionIntentRevision s \<noteq> 0 \<or> esf_InspectionSettlementDigest s \<noteq> '''')
          \<and> (blank (esf_InspectionIntentID s) \<or> esf_InspectionIntentRevision s = 0
             \<or> Digest_Validate (esf_InspectionSettlementDigest s) \<noteq> None)) ErrorInvalidArgument ReasonEffectUnknownOutcome,
       (case esf_DomainResult s of None \<Rightarrow> None | Some p \<Rightarrow> OpaquePayloadV2_Validate p)]"

record CompensationCompletionV2 =
  cc_EffectID :: string
  cc_EffectRevision :: Revision
  cc_SettlementDigest :: Digest

definition CompensationCompletionV2_Validate :: "CompensationCompletionV2 \<Rightarrow> go_error option" where [validate_defs]:
  "CompensationCompletionV2_Validate c =
     first_err [fail_if (blank (cc_EffectID c) \<or> cc_EffectRevision c = 0) ErrorInvalidArgument ReasonCompensationIncomplete,
       Digest_Validate (cc_SettlementDigest c)]"

record EffectResolutionCompletionV2 =
  erc_EffectID :: string
  erc_EffectRevision :: Revision
  erc_SettlementDigest :: Digest

definition EffectResolutionCompletionV2_Validate :: "EffectResolutionCompletionV2 \<Rightarrow> go_error option" where [validate_defs]:
  "EffectResolutionCompletionV2_Validate c =
     first_err [fail_if (blank (erc_EffectID c) \<or> erc_EffectRevision c = 0) ErrorInvalidArgument ReasonCleanupEvidenceIncomplete,
       Digest_Validate (erc_SettlementDigest c)]"

record EffectFactV2 =
  ef_Intent :: EffectIntentV2
  ef_IntentDigest :: Digest
  ef_State :: EffectFactStateV2
  ef_Revision :: Revision
  ef_DispatchPermitID :: string
  ef_DispatchPermitDigest :: Digest
  ef_DispatchReceipt :: "ProviderDispatchReceiptV2 option"
  ef_Settlement :: "EffectSettlementFactV2 option"
  ef_Compensation :: "CompensationCompletionV2 option"
  ef_RemoteResidual :: RemoteResidualStateV2
  ef_ResidualResolution :: "EffectResolutionCompletionV2 option"
  ef_Cleanup :: EffectCleanupStateV2
  ef_CleanupResolution :: "EffectResolutionCompletionV2 option"
  ef_RejectionReason :: ReasonCode
  ef_UpdatedUnixNano :: i64

definition validate_some :: "('a \<Rightarrow> go_error option) \<Rightarrow> 'a option \<Rightarrow> go_error option" where
  "validate_some validate x = (case x of None \<Rightarrow> None | Some y \<Rightarrow> validate y)"

lemma validate_some_simps [simp]: "validate_some v None = None" "validate_some v (Some y) = v y"
  by (simp_all add: validate_some_def)

text \<open>Which later-stage facts a state has.\<close>

fun effect_shape_error :: "EffectFactStateV2 \<Rightarrow> EffectFactV2 \<Rightarrow> go_error option" where
  "effect_shape_error EffectDispatchIntent f =
     fail_if (ef_DispatchPermitID f = '''' \<or> ef_DispatchReceipt f \<noteq> None \<or> ef_Settlement f \<noteq> None \<or> ef_Compensation f \<noteq> None
        \<or> ef_RejectionReason f \<noteq> '''') ErrorPreconditionFailed ReasonEffectStateConflict"
| "effect_shape_error EffectSettled f =
     fail_if (ef_Settlement f = None \<or> ef_Compensation f \<noteq> None \<or> ef_RejectionReason f \<noteq> '''')
       ErrorPreconditionFailed ReasonEffectStateConflict"
| "effect_shape_error EffectCompensated f =
     fail_if (ef_Settlement f = None \<or> ef_Compensation f = None \<or> ef_RejectionReason f \<noteq> '''')
       ErrorPreconditionFailed ReasonCompensationIncomplete"
| "effect_shape_error EffectRejected f =
     fail_if (ef_RejectionReason f = '''' \<or> ef_DispatchReceipt f \<noteq> None \<or> ef_Settlement f \<noteq> None \<or> ef_Compensation f \<noteq> None)
       ErrorPreconditionFailed ReasonEffectStateConflict"
| "effect_shape_error (EffectFactStateOther s) f = None"
| "effect_shape_error state f =
     (if state = EffectProposed \<or> state = EffectAccepted
      then fail_if (ef_DispatchPermitID f \<noteq> '''' \<or> ef_DispatchReceipt f \<noteq> None \<or> ef_Settlement f \<noteq> None
          \<or> ef_Compensation f \<noteq> None \<or> ef_RejectionReason f \<noteq> '''') ErrorPreconditionFailed ReasonEffectStateConflict
      else first_err
          [fail_if (ef_DispatchPermitID f = '''' \<or> ef_Settlement f \<noteq> None \<or> ef_Compensation f \<noteq> None \<or> ef_RejectionReason f \<noteq> '''')
             ErrorPreconditionFailed ReasonEffectStateConflict,
           fail_if (state = EffectDispatched \<and> ef_DispatchReceipt f = None) ErrorPreconditionFailed ReasonEffectStateConflict])"

definition EffectFactV2_Validate :: "effect_json \<Rightarrow> EffectFactV2 \<Rightarrow> go_error option" where
  "EffectFactV2_Validate J f =
     first_err
      [EffectIntentV2_Validate (ef_Intent f),
       (case EffectIntentV2_DigestV2 J (ef_Intent f) of
          Inl e \<Rightarrow> Some e
        | Inr digest \<Rightarrow>
            fail_if (digest \<noteq> ef_IntentDigest f \<or> ef_Revision f = 0 \<or> sint (ef_UpdatedUnixNano f) \<le> 0
               \<or> \<not> validEffectFactStateV2 (ef_State f) \<or> \<not> validRemoteResidualStateV2 (ef_RemoteResidual f)
               \<or> \<not> validEffectCleanupStateV2 (ef_Cleanup f)) ErrorInvalidArgument ReasonEffectStateConflict),
       (if ef_DispatchPermitID f = ''''
        then fail_if (ef_DispatchPermitDigest f \<noteq> '''') ErrorPreconditionFailed ReasonDispatchPermitInvalid
        else Digest_Validate (ef_DispatchPermitDigest f)),
       validate_some ProviderDispatchReceiptV2_Validate (ef_DispatchReceipt f),
       validate_some EffectSettlementFactV2_Validate (ef_Settlement f),
       validate_some CompensationCompletionV2_Validate (ef_Compensation f),
       validate_some EffectResolutionCompletionV2_Validate (ef_ResidualResolution f),
       validate_some EffectResolutionCompletionV2_Validate (ef_CleanupResolution f),
       fail_if ((ef_RemoteResidual f = RemoteResidualNotRequired \<or> ef_RemoteResidual f = RemoteResidualPending)
            \<noteq> (ef_ResidualResolution f = None)) ErrorPreconditionFailed ReasonRemoteResidualUnresolved,
       fail_if ((ef_Cleanup f = EffectCleanupNotRequired \<or> ef_Cleanup f = EffectCleanupPending)
            \<noteq> (ef_CleanupResolution f = None)) ErrorPreconditionFailed ReasonCleanupEvidenceIncomplete,
       effect_shape_error (ef_State f) f]"

definition NewProposedEffectFactV2 :: "effect_json \<Rightarrow> EffectIntentV2 \<Rightarrow> Time \<Rightarrow> EffectFactV2 res" where
  "NewProposedEffectFactV2 J intent now =
     ensure (fail_if (IsZero now \<or> \<not> Before now (TimeUnix0 (ei2_ExpiresUnixNano intent))) ErrorInvalidArgument ReasonEffectIntentMissing)
      (bind_res (EffectIntentV2_DigestV2 J intent) (\<lambda>digest.
        let f = \<lparr>ef_Intent = intent, ef_IntentDigest = digest, ef_State = EffectProposed, ef_Revision = 1,
             ef_DispatchPermitID = '''', ef_DispatchPermitDigest = '''', ef_DispatchReceipt = None, ef_Settlement = None,
             ef_Compensation = None,
             ef_RemoteResidual = (if ei2_MayLeaveRemoteResidual intent then RemoteResidualPending else RemoteResidualNotRequired),
             ef_ResidualResolution = None,
             ef_Cleanup = (if ei2_RequiresCleanup intent then EffectCleanupPending else EffectCleanupNotRequired),
             ef_CleanupResolution = None, ef_RejectionReason = '''', ef_UpdatedUnixNano = UnixNano now\<rparr> in
        ensure (EffectFactV2_Validate J f) (Inr f)))"

definition ConflictDomainOccupied :: "EffectFactV2 \<Rightarrow> bool" where
  "ConflictDomainOccupied f \<longleftrightarrow>
     (if ef_State f = EffectRejected then False
      else if ef_State f \<noteq> EffectSettled \<and> ef_State f \<noteq> EffectCompensated then True
      else \<not> (ef_RemoteResidual f = RemoteResidualNotRequired \<or> ef_RemoteResidual f = RemoteResidualConfirmedAbsent)
           \<or> \<not> (ef_Cleanup f = EffectCleanupNotRequired \<or> ef_Cleanup f = EffectCleanupComplete))"

section \<open>Legal versions of an effect fact\<close>

record EffectTransitionContextV2 =
  tc_PermitBegun :: bool
  tc_DispatchReceiptMatched :: bool
  tc_SettlementOwnerMatched :: bool
  tc_UnknownInspectionSettled :: bool
  tc_CompensationSettled :: bool
  tc_ResidualInspectSettled :: bool
  tc_CleanupEffectSettled :: bool

definition residual_move :: "RemoteResidualStateV2 \<Rightarrow> RemoteResidualStateV2 \<Rightarrow> bool" where
  "residual_move c n \<longleftrightarrow>
     c = RemoteResidualPending \<and> (n = RemoteResidualConfirmedAbsent \<or> n = RemoteResidualPresent \<or> n = RemoteResidualUnknown)
     \<or> c = RemoteResidualUnknown \<and> (n = RemoteResidualConfirmedAbsent \<or> n = RemoteResidualPresent)
     \<or> c = RemoteResidualPresent \<and> n = RemoteResidualConfirmedAbsent"

definition cleanup_move :: "EffectCleanupStateV2 \<Rightarrow> EffectCleanupStateV2 \<Rightarrow> bool" where
  "cleanup_move c n \<longleftrightarrow>
     c = EffectCleanupPending \<and> (n = EffectCleanupComplete \<or> n = EffectCleanupFailed \<or> n = EffectCleanupIndeterminate)"

definition validateClosureTransitionV2 :: "EffectFactV2 \<Rightarrow> EffectFactV2 \<Rightarrow> EffectTransitionContextV2 \<Rightarrow> go_error option" where
  "validateClosureTransitionV2 c n ctx =
     first_err
      [fail_if (ef_ResidualResolution c \<noteq> None \<and> ef_ResidualResolution c \<noteq> ef_ResidualResolution n) ErrorConflict ReasonEvidenceConflict,
       fail_if (ef_CleanupResolution c \<noteq> None \<and> ef_CleanupResolution c \<noteq> ef_CleanupResolution n) ErrorConflict ReasonEvidenceConflict,
       (if ef_RemoteResidual c \<noteq> ef_RemoteResidual n
        then fail_if (\<not> residual_move (ef_RemoteResidual c) (ef_RemoteResidual n) \<or> \<not> tc_ResidualInspectSettled ctx
           \<or> ef_ResidualResolution c \<noteq> None \<or> ef_ResidualResolution n = None) ErrorPreconditionFailed ReasonRemoteResidualUnresolved
        else fail_if (ef_ResidualResolution c \<noteq> ef_ResidualResolution n) ErrorConflict ReasonEvidenceConflict),
       (if ef_Cleanup c \<noteq> ef_Cleanup n
        then fail_if (\<not> cleanup_move (ef_Cleanup c) (ef_Cleanup n) \<or> \<not> tc_CleanupEffectSettled ctx
           \<or> ef_CleanupResolution c \<noteq> None \<or> ef_CleanupResolution n = None) ErrorPreconditionFailed ReasonCleanupEvidenceIncomplete
        else fail_if (ef_CleanupResolution c \<noteq> ef_CleanupResolution n) ErrorConflict ReasonEvidenceConflict)]"

text \<open>The two moves of the main state: it stays while a closure dimension advances, or it changes.\<close>

definition same_state_error :: "EffectFactV2 \<Rightarrow> EffectFactV2 \<Rightarrow> go_error option" where
  "same_state_error c n =
     fail_if (ef_State c = EffectProposed \<or> ef_State c = EffectAccepted \<or> ef_State c = EffectDispatchIntent
        \<or> ef_State c = EffectRejected \<or> ef_RemoteResidual c = ef_RemoteResidual n \<and> ef_Cleanup c = ef_Cleanup n)
       ErrorPreconditionFailed ReasonInvalidTransition"

fun main_state_error :: "EffectFactStateV2 \<Rightarrow> EffectFactStateV2 \<Rightarrow> EffectTransitionContextV2 \<Rightarrow> go_error option" where
  "main_state_error EffectProposed n ctx =
     fail_if (\<not> (n = EffectAccepted \<or> n = EffectRejected)) ErrorPreconditionFailed ReasonInvalidTransition"
| "main_state_error EffectAccepted n ctx =
     fail_if (\<not> (n = EffectDispatchIntent \<or> n = EffectRejected)) ErrorPreconditionFailed ReasonInvalidTransition"
| "main_state_error EffectDispatchIntent n ctx =
     first_err
      [fail_if (n = EffectRejected \<and> tc_PermitBegun ctx) ErrorPreconditionFailed ReasonEffectUnknownOutcome,
       fail_if ((n = EffectDispatched \<or> n = EffectUnknownOutcome) \<and> \<not> tc_PermitBegun ctx)
         ErrorPreconditionFailed ReasonDispatchPermitInvalid,
       fail_if (n = EffectDispatched \<and> \<not> tc_DispatchReceiptMatched ctx) ErrorPreconditionFailed ReasonEvidenceConflict,
       fail_if (\<not> (n = EffectDispatched \<or> n = EffectUnknownOutcome \<or> n = EffectRejected))
         ErrorPreconditionFailed ReasonInvalidTransition]"
| "main_state_error EffectSettled n ctx =
     first_err
      [fail_if (n = EffectCompensated \<and> \<not> tc_CompensationSettled ctx) ErrorPreconditionFailed ReasonCompensationIncomplete,
       fail_if (n \<noteq> EffectCompensated) ErrorPreconditionFailed ReasonInvalidTransition]"
| "main_state_error EffectCompensated n ctx = Some (DomainError ErrorPreconditionFailed ReasonInvalidTransition)"
| "main_state_error EffectRejected n ctx = Some (DomainError ErrorPreconditionFailed ReasonInvalidTransition)"
| "main_state_error (EffectFactStateOther s) n ctx = Some (DomainError ErrorPreconditionFailed ReasonInvalidTransition)"
| "main_state_error state n ctx =
     first_err
      [fail_if (n = EffectSettled \<and> \<not> tc_SettlementOwnerMatched ctx) ErrorForbidden ReasonSettlementOwnerMismatch,
       fail_if (n = EffectSettled \<and> state = EffectUnknownOutcome \<and> \<not> tc_UnknownInspectionSettled ctx)
         ErrorPreconditionFailed ReasonEffectUnknownOutcome,
       fail_if (n \<noteq> EffectSettled) ErrorPreconditionFailed ReasonInvalidTransition]"

definition ValidateEffectFactTransitionV2 ::
  "effect_json \<Rightarrow> EffectFactV2 \<Rightarrow> EffectFactV2 \<Rightarrow> EffectTransitionContextV2 \<Rightarrow> Time \<Rightarrow> go_error option" where
  "ValidateEffectFactTransitionV2 J c n ctx now =
     first_err
      [EffectFactV2_Validate J c,
       EffectFactV2_Validate J n,
       fail_if (IsZero now \<or> sint (UnixNano now) < sint (ef_UpdatedUnixNano c)) ErrorPreconditionFailed ReasonClockRegression,
       fail_if (ei2_ID (ef_Intent c) \<noteq> ei2_ID (ef_Intent n) \<or> ef_IntentDigest c \<noteq> ef_IntentDigest n
          \<or> ef_Revision n \<noteq> ef_Revision c + 1) ErrorConflict ReasonRevisionConflict,
       fail_if (ef_UpdatedUnixNano n \<noteq> UnixNano now) ErrorInvalidArgument ReasonInvalidCanonicalForm,
       fail_if (ef_DispatchPermitID c \<noteq> ''''
          \<and> (ef_DispatchPermitID n \<noteq> ef_DispatchPermitID c \<or> ef_DispatchPermitDigest n \<noteq> ef_DispatchPermitDigest c))
         ErrorPreconditionFailed ReasonDispatchPermitInvalid,
       fail_if (ef_DispatchReceipt c \<noteq> None \<and> ef_DispatchReceipt c \<noteq> ef_DispatchReceipt n
          \<or> ef_Settlement c \<noteq> None \<and> ef_Settlement c \<noteq> ef_Settlement n
          \<or> ef_Compensation c \<noteq> None \<and> ef_Compensation c \<noteq> ef_Compensation n
          \<or> ef_RejectionReason c \<noteq> '''' \<and> ef_RejectionReason c \<noteq> ef_RejectionReason n)
         ErrorConflict ReasonEvidenceConflict,
       validateClosureTransitionV2 c n ctx,
       (if ef_State c = ef_State n then same_state_error c n else main_state_error (ef_State c) (ef_State n) ctx)]"

section \<open>Permit facts\<close>

record DispatchPermitFactV2 =
  pf_Permit :: DispatchPermitV2
  pf_PermitDigest :: Digest
  pf_Fence :: ExecutionFence
  pf_State :: DispatchPermitStateV2
  pf_Revision :: Revision
  pf_EffectFactRevision :: Revision
  pf_BegunUnixNano :: i64
  pf_Enforcement :: "EnforcementReceiptV2 option"

definition begun_error :: "DispatchPermitFactV2 \<Rightarrow> go_error option" where
  "begun_error p =
     first_err
      [fail_if (sint (pf_BegunUnixNano p) \<le> 0) ErrorPreconditionFailed ReasonDispatchPermitInvalid,
       (case pf_Enforcement p of
          None \<Rightarrow> None
        | Some r \<Rightarrow>
            first_err
             [EnforcementReceiptV2_Validate r,
              fail_if (er_PermitID r \<noteq> pm_ID (pf_Permit p) \<or> er_PermitRevision r \<noteq> pm_Revision (pf_Permit p)
                 \<or> er_AttemptID r \<noteq> pm_AttemptID (pf_Permit p) \<or> er_PermitDigest r \<noteq> pf_PermitDigest p
                 \<or> er_Verifier r \<noteq> pm_EnforcementPoint (pf_Permit p)) ErrorPreconditionFailed ReasonDispatchPermitInvalid])]"

definition DispatchPermitFactV2_Validate :: "effect_json \<Rightarrow> DispatchPermitFactV2 \<Rightarrow> go_error option" where
  "DispatchPermitFactV2_Validate J p =
     first_err
      [DispatchPermitV2_Validate (pf_Permit p),
       (case DispatchPermitV2_DigestV2 J (pf_Permit p) of
          Inl e \<Rightarrow> Some e
        | Inr digest \<Rightarrow>
            fail_if (digest \<noteq> pf_PermitDigest p \<or> pf_Revision p = 0 \<or> pf_EffectFactRevision p = 0
               \<or> \<not> validDispatchPermitStateV2 (pf_State p)) ErrorInvalidArgument ReasonDispatchPermitInvalid),
       ExecutionFence_Validate (pf_Fence p),
       (case DigestExecutionFenceV2 J (pf_Fence p) of
          Inl e \<Rightarrow> Some (DomainError ErrorPreconditionFailed ReasonEffectFenceStale)
        | Inr fenceDigest \<Rightarrow>
            fail_if (fenceDigest \<noteq> pm_FenceDigest (pf_Permit p) \<or> fe_EffectIntentID (pf_Fence p) \<noteq> pm_IntentID (pf_Permit p)
               \<or> fe_EffectIntentRevision (pf_Fence p) \<noteq> pm_IntentRevision (pf_Permit p)
               \<or> fe_CanonicalPayloadDigest (pf_Fence p) \<noteq> pm_PayloadDigest (pf_Permit p))
              ErrorPreconditionFailed ReasonEffectFenceStale),
       fail_if (pf_State p = DispatchPermitIssued \<and> (pf_BegunUnixNano p \<noteq> 0 \<or> pf_Enforcement p \<noteq> None))
         ErrorPreconditionFailed ReasonDispatchPermitInvalid,
       (if pf_State p = DispatchPermitBegun then begun_error p else None)]"

definition ValidateDispatchPermitTransitionV2 ::
  "effect_json \<Rightarrow> DispatchPermitFactV2 \<Rightarrow> DispatchPermitFactV2 \<Rightarrow> Time \<Rightarrow> go_error option" where
  "ValidateDispatchPermitTransitionV2 J c n now =
     first_err
      [DispatchPermitFactV2_Validate J c,
       DispatchPermitFactV2_Validate J n,
       fail_if (pf_Permit c \<noteq> pf_Permit n \<or> pf_PermitDigest c \<noteq> pf_PermitDigest n \<or> pf_Fence c \<noteq> pf_Fence n
          \<or> pf_EffectFactRevision c \<noteq> pf_EffectFactRevision n \<or> pf_Revision n \<noteq> pf_Revision c + 1)
         ErrorConflict ReasonRevisionConflict,
       fail_if (IsZero now \<or> sint (UnixNano now) < sint (pm_IssuedUnixNano (pf_Permit c))) ErrorPreconditionFailed ReasonClockRegression,
       (if pf_State c = DispatchPermitBegun \<and> pf_State n = DispatchPermitBegun
        then first_err
          [fail_if (pf_Enforcement c \<noteq> None) ErrorConflict ReasonEvidenceConflict,
           fail_if (case pf_Enforcement n of
                      None \<Rightarrow> True
                    | Some r \<Rightarrow> pf_BegunUnixNano n \<noteq> pf_BegunUnixNano c \<or> sint (UnixNano now) < sint (pf_BegunUnixNano c)
                        \<or> sint (er_ValidatedAt r) < sint (pf_BegunUnixNano c) \<or> sint (er_ValidatedAt r) > sint (UnixNano now))
             ErrorPreconditionFailed ReasonDispatchPermitInvalid]
        else if pf_State c \<noteq> DispatchPermitIssued then Some (DomainError ErrorConflict ReasonDispatchPermitConsumed)
        else if pf_State n = DispatchPermitBegun
        then fail_if (\<not> Before now (TimeUnix0 (pm_ExpiresUnixNano (pf_Permit c))) \<or> pf_BegunUnixNano n \<noteq> UnixNano now)
               ErrorPreconditionFailed ReasonDispatchPermitExpired
        else if pf_State n = DispatchPermitExpired
        then fail_if (Before now (TimeUnix0 (pm_ExpiresUnixNano (pf_Permit c)))) ErrorPreconditionFailed ReasonDispatchPermitExpired
        else if pf_State n = DispatchPermitRevoked then None
        else Some (DomainError ErrorPreconditionFailed ReasonInvalidTransition))]"

section \<open>Requests\<close>

record EffectFactCASRequestV2 =
  ecas_ExpectedRevision :: Revision
  ecas_Next :: EffectFactV2

record IssueDispatchPermitRequestV2 =
  idp_EffectID :: string
  idp_ExpectedEffectRevision :: Revision
  idp_Permit :: DispatchPermitV2
  idp_Fence :: ExecutionFence

record IssueDispatchPermitResultV2 =
  idr_Effect :: EffectFactV2
  idr_Permit :: DispatchPermitFactV2

record BeginDispatchRequestV2 =
  bdr_EffectID :: string
  bdr_ExpectedEffectRevision :: Revision
  bdr_PermitID :: string
  bdr_ExpectedPermitRevision :: Revision

record RecordEnforcementReceiptRequestV2 =
  rer_PermitID :: string
  rer_ExpectedPermitRevision :: Revision
  rer_Receipt :: EnforcementReceiptV2

record DispatchPermitFactCASRequestV2 =
  pcas_PermitID :: string
  pcas_ExpectedRevision :: Revision
  pcas_Next :: DispatchPermitFactV2

end
