(* ===== verification/Budget.thy ===== *)
theory Budget
  imports EffectV2
begin

text \<open>
  \<open>runtime/control/budget_fact_v2.go\<close>: the budget owner's decision about one effect revision, its legal
  versions and its currentness. What \<open>json.Marshal\<close> returns for a fact is an argument.
\<close>

datatype BudgetBindingModeV2 = BudgetReserved | BudgetOperationNotRequired | BudgetModeOther string

datatype BudgetFactStateV2 =
    BudgetFactActive | BudgetFactConsumed | BudgetFactReleased | BudgetFactExpired | BudgetFactRevoked | BudgetFactStateOther string

fun validBudgetFactStateV2 :: "BudgetFactStateV2 \<Rightarrow> bool" where
  "validBudgetFactStateV2 (BudgetFactStateOther s) = False"
| "validBudgetFactStateV2 _ = True"

record BudgetBindingFactV2 =
  bgf_Ref :: string
  bgf_IntentID :: string
  bgf_IntentRevision :: Revision
  bgf_Scope :: ExecutionScope
  bgf_Mode :: BudgetBindingModeV2
  bgf_PolicyDigest :: Digest
  bgf_PolicyDecisionRef :: string
  bgf_PolicyEvidenceDigest :: Digest
  bgf_ReservationRef :: string
  bgf_ReservationRevision :: Revision
  bgf_Limit :: u64
  bgf_Consumed :: u64
  bgf_Unit :: string
  bgf_State :: BudgetFactStateV2
  bgf_Revision :: Revision
  bgf_ExpiresUnixNano :: i64

record BudgetFactCASRequestV2 =
  bcas_ExpectedRevision :: Revision
  bcas_Next :: BudgetBindingFactV2

fun budget_mode_error :: "BudgetBindingModeV2 \<Rightarrow> BudgetBindingFactV2 \<Rightarrow> go_error option" where
  "budget_mode_error BudgetReserved f =
     fail_if (blank (bgf_ReservationRef f) \<or> bgf_ReservationRevision f = 0 \<or> bgf_Limit f = 0 \<or> blank (bgf_Unit f)
        \<or> bgf_Consumed f > bgf_Limit f) ErrorInvalidArgument ReasonBudgetBindingMissing"
| "budget_mode_error BudgetOperationNotRequired f =
     fail_if (bgf_ReservationRef f \<noteq> '''' \<or> bgf_ReservationRevision f \<noteq> 0 \<or> bgf_Limit f \<noteq> 0 \<or> bgf_Consumed f \<noteq> 0
        \<or> bgf_Unit f \<noteq> '''') ErrorPreconditionFailed ReasonBudgetBindingMissing"
| "budget_mode_error (BudgetModeOther s) f = Some (DomainError ErrorInvalidArgument ReasonBudgetBindingMissing)"

definition BudgetBindingFactV2_Validate :: "BudgetBindingFactV2 \<Rightarrow> go_error option" where
  "BudgetBindingFactV2_Validate f =
     first_err
      [fail_if (blank (bgf_Ref f) \<or> blank (bgf_IntentID f) \<or> bgf_IntentRevision f = 0 \<or> bgf_Revision f = 0
          \<or> sint (bgf_ExpiresUnixNano f) \<le> 0) ErrorInvalidArgument ReasonBudgetBindingMissing,
       ExecutionScope_Validate (bgf_Scope f),
       Digest_Validate (bgf_PolicyDigest f),
       Digest_Validate (bgf_PolicyEvidenceDigest f),
       fail_if (blank (bgf_PolicyDecisionRef f)) ErrorForbidden ReasonBudgetBindingMissing,
       fail_if (\<not> validBudgetFactStateV2 (bgf_State f)) ErrorInvalidArgument ReasonInvalidState,
       budget_mode_error (bgf_Mode f) f]"

definition BudgetBindingFactV2_DigestV2 :: "(BudgetBindingFactV2 \<Rightarrow> string option) \<Rightarrow> BudgetBindingFactV2 \<Rightarrow> Digest res" where
  "BudgetBindingFactV2_DigestV2 json f =
     ensure (BudgetBindingFactV2_Validate f)
      (CanonicalJSONDigest ''praxis.runtime.effect'' EffectContractVersionV2 ''BudgetBindingFactV2'' (json f))"

text \<open>The fact with its state, revision and consumption cleared: what no version may change.\<close>

definition budget_identity :: "BudgetBindingFactV2 \<Rightarrow> BudgetBindingFactV2" where
  "budget_identity f = f\<lparr>bgf_State := BudgetFactStateOther '''', bgf_Revision := 0, bgf_Consumed := 0\<rparr>"

fun budget_move_error :: "BudgetFactStateV2 \<Rightarrow> BudgetFactStateV2 \<Rightarrow> go_error option" where
  "budget_move_error BudgetFactActive n =
     fail_if (\<not> (n = BudgetFactConsumed \<or> n = BudgetFactReleased \<or> n = BudgetFactExpired \<or> n = BudgetFactRevoked))
       ErrorPreconditionFailed ReasonInvalidTransition"
| "budget_move_error BudgetFactConsumed n =
     fail_if (n \<noteq> BudgetFactReleased) ErrorPreconditionFailed ReasonInvalidTransition"
| "budget_move_error _ n = Some (DomainError ErrorPreconditionFailed ReasonInvalidTransition)"

definition ValidateBudgetFactTransitionV2 :: "BudgetBindingFactV2 \<Rightarrow> BudgetBindingFactV2 \<Rightarrow> Time \<Rightarrow> go_error option" where
  "ValidateBudgetFactTransitionV2 c n now =
     first_err
      [BudgetBindingFactV2_Validate c,
       BudgetBindingFactV2_Validate n,
       fail_if (IsZero now) ErrorInvalidArgument ReasonInvalidReference,
       fail_if (budget_identity c \<noteq> budget_identity n \<or> bgf_Revision n \<noteq> bgf_Revision c + 1) ErrorConflict ReasonRevisionConflict,
       budget_move_error (bgf_State c) (bgf_State n),
       fail_if (bgf_State n = BudgetFactConsumed \<and> bgf_Mode c \<noteq> BudgetReserved) ErrorPreconditionFailed ReasonBudgetBindingStale,
       fail_if (bgf_State n = BudgetFactExpired \<and> Before now (TimeUnix0 (bgf_ExpiresUnixNano c)))
         ErrorPreconditionFailed ReasonBudgetBindingStale]"

definition BudgetBindingFactV2_BindingRefV2 ::
  "(BudgetBindingFactV2 \<Rightarrow> string option) \<Rightarrow> BudgetBindingFactV2 \<Rightarrow> BudgetBindingRefV2 res" where
  "BudgetBindingFactV2_BindingRefV2 json f =
     bind_res (BudgetBindingFactV2_DigestV2 json f) (\<lambda>digest.
       Inr \<lparr>bb_Ref = bgf_Ref f, bb_Digest = digest, bb_Revision = bgf_Revision f, bb_PolicyDigest = bgf_PolicyDigest f\<rparr>)"

definition sameBudgetScopeV2 :: "ExecutionScope \<Rightarrow> ExecutionScope \<Rightarrow> bool" where
  "sameBudgetScopeV2 left right \<longleftrightarrow>
     (if scope_Identity left \<noteq> scope_Identity right \<or> scope_Lineage left \<noteq> scope_Lineage right
         \<or> scope_Instance left \<noteq> scope_Instance right \<or> scope_AuthorityEpoch left \<noteq> scope_AuthorityEpoch right
      then False
      else case (scope_SandboxLease left, scope_SandboxLease right) of
             (Some l, Some r) \<Rightarrow> l = r
           | (l, r) \<Rightarrow> l = None \<and> r = None)"

lemma sameBudgetScopeV2_eq [simp]: "sameBudgetScopeV2 s t \<longleftrightarrow> s = t"
  by (cases s; cases t) (auto simp: sameBudgetScopeV2_def split: option.splits)

definition BudgetBindingFactV2_ValidateCurrent ::
  "(BudgetBindingFactV2 \<Rightarrow> string option) \<Rightarrow> BudgetBindingFactV2 \<Rightarrow> BudgetBindingRefV2 \<Rightarrow> EffectIntentV2 \<Rightarrow> Time \<Rightarrow> go_error option" where
  "BudgetBindingFactV2_ValidateCurrent json f expected intent now =
     first_err
      [BudgetBindingFactV2_Validate f,
       (case BudgetBindingFactV2_BindingRefV2 json f of
          Inl e \<Rightarrow> Some e
        | Inr ref \<Rightarrow>
            fail_if (IsZero now \<or> bgf_State f \<noteq> BudgetFactActive \<or> \<not> Before now (TimeUnix0 (bgf_ExpiresUnixNano f))
               \<or> ref \<noteq> expected \<or> bgf_IntentID f \<noteq> ei2_ID intent \<or> bgf_IntentRevision f \<noteq> ei2_Revision intent
               \<or> \<not> sameBudgetScopeV2 (bgf_Scope f) (ei2_Scope intent)) ErrorPreconditionFailed ReasonBudgetBindingStale)]"

section \<open>Versions of a budget fact\<close>

inductive budget_versions :: "BudgetBindingFactV2 \<Rightarrow> BudgetBindingFactV2 list \<Rightarrow> bool" where
  budget_last: "budget_versions f []"
| budget_next: "ValidateBudgetFactTransitionV2 f n now = None \<Longrightarrow> budget_versions n fs \<Longrightarrow> budget_versions f (n # fs)"

fun budget_rank :: "BudgetFactStateV2 \<Rightarrow> nat" where
  "budget_rank BudgetFactActive = 2"
| "budget_rank BudgetFactConsumed = 1"
| "budget_rank _ = 0"

lemma budget_step:
  assumes "ValidateBudgetFactTransitionV2 c n now = None"
  shows "budget_identity n = budget_identity c" "budget_rank (bgf_State n) < budget_rank (bgf_State c)"
    "bgf_Consumed n \<le> bgf_Limit n"
proof -
  show "budget_identity n = budget_identity c" using assms by (simp add: ValidateBudgetFactTransitionV2_def)
  show "budget_rank (bgf_State n) < budget_rank (bgf_State c)"
    using assms by (cases "bgf_State c"; cases "bgf_State n") (simp_all add: ValidateBudgetFactTransitionV2_def)
  show "bgf_Consumed n \<le> bgf_Limit n"
    using assms by (cases "bgf_Mode n") (auto simp: ValidateBudgetFactTransitionV2_def BudgetBindingFactV2_Validate_def)
qed

text \<open>
  A budget decision has at most two further versions, which keep its identity and never consume more
  than the limit.
\<close>

lemma budget_versions_bounded:
  assumes "budget_versions f fs"
  shows "length fs \<le> budget_rank (bgf_State f) \<and> (\<forall>n \<in> set fs. budget_identity n = budget_identity f \<and> bgf_Consumed n \<le> bgf_Limit n)"
  using assms
proof (induction rule: budget_versions.induct)
  case (budget_next f n now fs)
  then show ?case using budget_step [OF budget_next(1)] by auto
qed simp

end
