(* ===== verification/EffectStore.thy ===== *)
theory EffectStore
  imports EffectFact Budget FactStore
begin

text \<open>
  \<open>runtime/fakes/effect_store_v2.go\<close>: the in-memory owner of effect, permit and budget facts. The mutex makes
  each operation atomic; the clock reading of an operation is its argument \<open>now\<close>. The run effect index
  that the same struct carries has maps of its own (\<open>run_effect_store_v2.go\<close>) and is not part of this state.
\<close>

section \<open>State and keys\<close>

text \<open>What \<open>json.Marshal\<close> returns for the values the store hashes.\<close>

record fact_json =
  fj_effect :: effect_json
  fj_Settlement :: "EffectSettlementFactV2 \<Rightarrow> string option"
  fj_Budget :: "BudgetBindingFactV2 \<Rightarrow> string option"

record EffectStoreV2 =
  es_effects :: "string \<rightharpoonup> EffectFactV2"
  es_idempotency :: "string \<rightharpoonup> string"
  es_conflicts :: "string \<rightharpoonup> string"
  es_permits :: "string \<rightharpoonup> DispatchPermitFactV2"
  es_budgets :: "string \<rightharpoonup> BudgetBindingFactV2"
  es_loseNextIssueReply :: bool
  es_loseNextBeginReply :: bool
  es_loseNextReceiptReply :: bool
  es_loseNextPermitCASReply :: bool
  es_loseNextEffectCASReply :: bool

definition NewEffectStoreV2 :: EffectStoreV2 where
  "NewEffectStoreV2 =
     \<lparr>es_effects = Map.empty, es_idempotency = Map.empty, es_conflicts = Map.empty, es_permits = Map.empty,
      es_budgets = Map.empty, es_loseNextIssueReply = False, es_loseNextBeginReply = False, es_loseNextReceiptReply = False,
      es_loseNextPermitCASReply = False, es_loseNextEffectCASReply = False\<rparr>"

definition LoseNextIssueReply :: "EffectStoreV2 \<Rightarrow> EffectStoreV2" where
  "LoseNextIssueReply s = s\<lparr>es_loseNextIssueReply := True\<rparr>"

definition LoseNextBeginReply :: "EffectStoreV2 \<Rightarrow> EffectStoreV2" where
  "LoseNextBeginReply s = s\<lparr>es_loseNextBeginReply := True\<rparr>"

definition LoseNextReceiptReply :: "EffectStoreV2 \<Rightarrow> EffectStoreV2" where
  "LoseNextReceiptReply s = s\<lparr>es_loseNextReceiptReply := True\<rparr>"

definition LoseNextPermitCASReply :: "EffectStoreV2 \<Rightarrow> EffectStoreV2" where
  "LoseNextPermitCASReply s = s\<lparr>es_loseNextPermitCASReply := True\<rparr>"

definition LoseNextEffectCASReply :: "EffectStoreV2 \<Rightarrow> EffectStoreV2" where
  "LoseNextEffectCASReply s = s\<lparr>es_loseNextEffectCASReply := True\<rparr>"

fun scope_class_string :: "EffectStableScopeClassV2 \<Rightarrow> string" where
  "scope_class_string EffectStableScopeTenantV2 = ''tenant''"
| "scope_class_string (EffectStableScopeOther s) = s"

definition idempotency_key :: "EffectStableScopeClassV2 \<Rightarrow> Digest \<Rightarrow> string \<Rightarrow> string" where
  "idempotency_key scopeClass scopeDigest key = scope_class_string scopeClass @ ''|'' @ scopeDigest @ ''|'' @ key"

definition effectIdempotencyKeyV2 :: "EffectFactV2 \<Rightarrow> string" where
  "effectIdempotencyKeyV2 f =
     (let i = ei2_Idempotency (ef_Intent f) in idempotency_key (ib_ScopeClass i) (ib_ScopeDigest i) (ib_Key i))"

definition effectConflictKeyV2 :: "ConflictDomainBindingV2 \<Rightarrow> string" where
  "effectConflictKeyV2 b = scope_class_string (cd_ScopeClass b) @ ''|'' @ cd_ScopeDigest b @ ''|'' @ cd_Domain b"

abbreviation effect_reply_lost :: go_error where
  "effect_reply_lost \<equiv> DomainError ErrorUnavailable ReasonEvidenceUnavailable"

section \<open>Effects\<close>

definition CreateEffect ::
  "fact_json \<Rightarrow> EffectStoreV2 \<Rightarrow> go_context \<Rightarrow> EffectFactV2 \<Rightarrow> EffectStoreV2 \<times> EffectFactV2 res" where [step_defs]:
  "CreateEffect K s ctx f =
     guarded (first_err
        [contextError ctx, EffectFactV2_Validate (fj_effect K) f,
         fail_if (ef_State f \<noteq> EffectProposed \<or> ef_Revision f \<noteq> 1) ErrorInvalidArgument ReasonEffectStateConflict]) s
      (let mismatch = Inl (DomainError ErrorConflict ReasonIdempotencyPayloadMismatch) in
       case es_effects s (ei2_ID (ef_Intent f)) of
         Some existing \<Rightarrow> (s, if ef_IntentDigest existing = ef_IntentDigest f then Inr existing else mismatch)
       | None \<Rightarrow>
           (case es_idempotency s (effectIdempotencyKeyV2 f) of
              Some existingID \<Rightarrow>
                (s, if ef_IntentDigest (the (es_effects s existingID)) = ef_IntentDigest f
                    then Inr (the (es_effects s existingID)) else mismatch)
            | None \<Rightarrow>
                (s\<lparr>es_effects := (es_effects s)(ei2_ID (ef_Intent f) \<mapsto> f),
                   es_idempotency := (es_idempotency s)(effectIdempotencyKeyV2 f \<mapsto> ei2_ID (ef_Intent f))\<rparr>, Inr f)))"

definition InspectEffect :: "EffectStoreV2 \<Rightarrow> go_context \<Rightarrow> string \<Rightarrow> EffectFactV2 res" where
  "InspectEffect s ctx i =
     ensure (contextError ctx)
      (case es_effects s i of None \<Rightarrow> Inl (DomainError ErrorNotFound ReasonEffectIntentMissing) | Some f \<Rightarrow> Inr f)"

definition InspectEffectByIdempotency ::
  "EffectStoreV2 \<Rightarrow> go_context \<Rightarrow> EffectStableScopeClassV2 \<Rightarrow> Digest \<Rightarrow> string \<Rightarrow> EffectFactV2 res" where
  "InspectEffectByIdempotency s ctx scopeClass scopeDigest key =
     ensure (first_err [contextError ctx, Digest_Validate scopeDigest])
      (case es_idempotency s (idempotency_key scopeClass scopeDigest key) of
         None \<Rightarrow> Inl (DomainError ErrorNotFound ReasonEffectIntentMissing)
       | Some i \<Rightarrow> Inr (the (es_effects s i)))"

definition InspectConflictDomain ::
  "EffectStoreV2 \<Rightarrow> go_context \<Rightarrow> ConflictDomainBindingV2 \<Rightarrow> EffectFactV2 res" where
  "InspectConflictDomain s ctx b =
     ensure (contextError ctx)
      (case es_conflicts s (effectConflictKeyV2 b) of
         None \<Rightarrow> Inl (DomainError ErrorNotFound ReasonEffectIntentMissing)
       | Some i \<Rightarrow>
           (case es_effects s i of
              None \<Rightarrow> Inl (DomainError ErrorInternal ReasonEffectStateConflict)
            | Some f \<Rightarrow>
                if ConflictDomainOccupied f then Inr f else Inl (DomainError ErrorInternal ReasonEffectStateConflict)))"

section \<open>What a transition may rest on\<close>

definition settlement_digest :: "fact_json \<Rightarrow> EffectSettlementFactV2 \<Rightarrow> Digest res" where
  "settlement_digest K x =
     CanonicalJSONDigest ''praxis.runtime.effect'' EffectContractVersionV2 ''EffectSettlementFactV2'' (fj_Settlement K x)"

fun settlement_owner :: "EffectOwnerRefV2 list \<Rightarrow> EffectOwnerRefV2 option" where
  "settlement_owner [] = None"
| "settlement_owner (x # xs) = (if eo_Role x = OwnerSettlement then Some x else settlement_owner xs)"

definition settlementOwnerMatchesBindingV2 :: "EffectFactV2 \<Rightarrow> bool" where
  "settlementOwnerMatchesBindingV2 n \<longleftrightarrow>
     (case ef_Settlement n of
        None \<Rightarrow> False
      | Some x \<Rightarrow>
          (case settlement_owner (ei2_Owners (ef_Intent n)) of None \<Rightarrow> False | Some owner \<Rightarrow> owner = esf_Owner x))"

definition compensationSettledV2 :: "fact_json \<Rightarrow> (string \<rightharpoonup> EffectFactV2) \<Rightarrow> EffectFactV2 \<Rightarrow> bool" where
  "compensationSettledV2 K effects n \<longleftrightarrow>
     (case ef_Compensation n of
        None \<Rightarrow> False
      | Some x \<Rightarrow>
          (case effects (cc_EffectID x) of
             None \<Rightarrow> False
           | Some f \<Rightarrow>
               (case ef_Settlement f of
                  None \<Rightarrow> False
                | Some y \<Rightarrow>
                    ei2_Revision (ef_Intent f) = cc_EffectRevision x \<and> ef_State f = EffectSettled
                    \<and> rel_CompensatesEffectID (ei2_Relation (ef_Intent f)) = ei2_ID (ef_Intent n)
                    \<and> rel_CompensatesEffectRevision (ei2_Relation (ef_Intent f)) = ei2_Revision (ef_Intent n)
                    \<and> ident_TenantID (scope_Identity (ei2_Scope (ef_Intent f))) = ident_TenantID (scope_Identity (ei2_Scope (ef_Intent n)))
                    \<and> settlement_digest K y = Inr (cc_SettlementDigest x))))"

definition providerReceiptMatchesPermitV2 :: "EffectFactV2 \<Rightarrow> DispatchPermitFactV2 \<Rightarrow> Time \<Rightarrow> bool" where
  "providerReceiptMatchesPermitV2 n p now \<longleftrightarrow>
     (case (ef_DispatchReceipt n, pf_Enforcement p) of
        (Some r, Some x) \<Rightarrow>
          pf_State p = DispatchPermitBegun
          \<and> er_PermitID x = pm_ID (pf_Permit p) \<and> er_PermitRevision x = pm_Revision (pf_Permit p)
          \<and> er_AttemptID x = pm_AttemptID (pf_Permit p) \<and> er_PermitDigest x = pf_PermitDigest p
          \<and> pdr_PermitID r = pm_ID (pf_Permit p) \<and> pdr_PermitDigest r = pf_PermitDigest p
          \<and> pdr_AttemptID r = pm_AttemptID (pf_Permit p) \<and> pdr_IntentID r = pm_IntentID (pf_Permit p)
          \<and> pdr_IntentRevision r = pm_IntentRevision (pf_Permit p) \<and> pdr_Provider r = pm_Provider (pf_Permit p)
          \<and> sint (pdr_ObservedUnixNano r) \<ge> sint (pf_BegunUnixNano p)
          \<and> sint (pdr_ObservedUnixNano r) \<ge> sint (er_ValidatedAt x)
          \<and> sint (pdr_ObservedUnixNano r) \<le> sint (UnixNano now)
      | _ \<Rightarrow> False)"

definition unknownInspectionSettledV2 :: "fact_json \<Rightarrow> (string \<rightharpoonup> EffectFactV2) \<Rightarrow> EffectFactV2 \<Rightarrow> bool" where
  "unknownInspectionSettledV2 K effects n \<longleftrightarrow>
     (case ef_Settlement n of
        None \<Rightarrow> False
      | Some x \<Rightarrow>
          if esf_InspectionIntentID x = '''' \<or> esf_InspectionIntentRevision x = 0 then False
          else (case effects (esf_InspectionIntentID x) of
                  None \<Rightarrow> False
                | Some f \<Rightarrow>
                    (case ef_Settlement f of
                       None \<Rightarrow> False
                     | Some y \<Rightarrow>
                         ei2_Revision (ef_Intent f) = esf_InspectionIntentRevision x \<and> ef_State f = EffectSettled
                         \<and> rel_InspectsEffectID (ei2_Relation (ef_Intent f)) = ei2_ID (ef_Intent n)
                         \<and> rel_InspectsEffectRevision (ei2_Relation (ef_Intent f)) = ei2_Revision (ef_Intent n)
                         \<and> ident_TenantID (scope_Identity (ei2_Scope (ef_Intent f))) = ident_TenantID (scope_Identity (ei2_Scope (ef_Intent n)))
                         \<and> settlement_digest K y = Inr (esf_InspectionSettlementDigest x))))"

definition resolutionSettledV2 :: "fact_json \<Rightarrow> (string \<rightharpoonup> EffectFactV2) \<Rightarrow> EffectFactV2 \<Rightarrow> bool \<Rightarrow> bool" where
  "resolutionSettledV2 K effects n inspection \<longleftrightarrow>
     (case (if inspection then ef_ResidualResolution n else ef_CleanupResolution n) of
        None \<Rightarrow> False
      | Some x \<Rightarrow>
          (case effects (erc_EffectID x) of
             None \<Rightarrow> False
           | Some f \<Rightarrow>
               (case ef_Settlement f of
                  None \<Rightarrow> False
                | Some y \<Rightarrow>
                    ei2_Revision (ef_Intent f) = erc_EffectRevision x \<and> ef_State f = EffectSettled
                    \<and> (if inspection
                       then rel_InspectsEffectID (ei2_Relation (ef_Intent f)) = ei2_ID (ef_Intent n)
                          \<and> rel_InspectsEffectRevision (ei2_Relation (ef_Intent f)) = ei2_Revision (ef_Intent n)
                       else rel_CleansUpEffectID (ei2_Relation (ef_Intent f)) = ei2_ID (ef_Intent n)
                          \<and> rel_CleansUpEffectRevision (ei2_Relation (ef_Intent f)) = ei2_Revision (ef_Intent n))
                    \<and> settlement_digest K y = Inr (erc_SettlementDigest x))))"

definition transition_context :: "fact_json \<Rightarrow> EffectStoreV2 \<Rightarrow> EffectFactV2 \<Rightarrow> EffectFactV2 \<Rightarrow> Time \<Rightarrow> EffectTransitionContextV2" where
  "transition_context K s c n now =
     (let permit = (if ef_DispatchPermitID c \<noteq> '''' then es_permits s (ef_DispatchPermitID c) else None) in
      \<lparr>tc_PermitBegun = (case permit of None \<Rightarrow> False | Some p \<Rightarrow> pf_State p = DispatchPermitBegun),
       tc_DispatchReceiptMatched = (case permit of None \<Rightarrow> False | Some p \<Rightarrow> providerReceiptMatchesPermitV2 n p now),
       tc_SettlementOwnerMatched = settlementOwnerMatchesBindingV2 n,
       tc_UnknownInspectionSettled = unknownInspectionSettledV2 K (es_effects s) n,
       tc_CompensationSettled = compensationSettledV2 K (es_effects s) n,
       tc_ResidualInspectSettled = resolutionSettledV2 K (es_effects s) n True,
       tc_CleanupEffectSettled = resolutionSettledV2 K (es_effects s) n False\<rparr>)"

definition sameAuthoritativeSettlementV2 :: "EffectFactV2 \<Rightarrow> EffectFactV2 \<Rightarrow> bool" where
  "sameAuthoritativeSettlementV2 c proposed \<longleftrightarrow> ei2_ID (ef_Intent c) = ei2_ID (ef_Intent proposed) \<and> c = proposed"

definition accepts :: "EffectFactV2 \<Rightarrow> EffectFactV2 \<Rightarrow> bool" where
  "accepts c n \<longleftrightarrow> ef_State c = EffectProposed \<and> ef_State n = EffectAccepted"

text \<open>The write of a new version: the conflict domain is taken on acceptance and freed by an unoccupied version.\<close>

definition put_effect :: "EffectStoreV2 \<Rightarrow> EffectFactV2 \<Rightarrow> EffectFactV2 \<Rightarrow> EffectStoreV2" where
  "put_effect s c n =
     (let conflicts = (if accepts c n
            then (es_conflicts s)(effectConflictKeyV2 (ei2_ConflictDomain (ef_Intent c)) \<mapsto> ei2_ID (ef_Intent c))
            else es_conflicts s) in
      s\<lparr>es_effects := (es_effects s)(ei2_ID (ef_Intent n) \<mapsto> n),
        es_conflicts := (if \<not> ConflictDomainOccupied n
            then conflicts(effectConflictKeyV2 (ei2_ConflictDomain (ef_Intent n)) := None) else conflicts)\<rparr>)"

definition CompareAndSwapEffect ::
  "fact_json \<Rightarrow> EffectStoreV2 \<Rightarrow> go_context \<Rightarrow> EffectFactCASRequestV2 \<Rightarrow> Time \<Rightarrow> EffectStoreV2 \<times> EffectFactV2 res" where [step_defs]:
  "CompareAndSwapEffect K s ctx request now =
     (let n = ecas_Next request in
      guarded (contextError ctx) s
       (case es_effects s (ei2_ID (ef_Intent n)) of
          None \<Rightarrow> (s, Inl (DomainError ErrorNotFound ReasonEffectIntentMissing))
        | Some c \<Rightarrow>
            if ef_Revision c \<noteq> ecas_ExpectedRevision request
            then (s, if sameAuthoritativeSettlementV2 c n then Inr c else Inl (DomainError ErrorConflict ReasonRevisionConflict))
            else guarded (first_err
                [ValidateEffectFactTransitionV2 (fj_effect K) c n (transition_context K s c n now) now,
                 fail_if (accepts c n
                    \<and> (case es_conflicts s (effectConflictKeyV2 (ei2_ConflictDomain (ef_Intent c))) of
                         None \<Rightarrow> False | Some i \<Rightarrow> i \<noteq> ei2_ID (ef_Intent c)))
                   ErrorConflict ReasonEffectConflictDomainOccupied]) s
              (let s' = put_effect s c n in
               if es_loseNextEffectCASReply s' then (s'\<lparr>es_loseNextEffectCASReply := False\<rparr>, Inl effect_reply_lost)
               else (s', Inr n))))"

section \<open>Permits\<close>

definition sameScopeForEffectStoreV2 :: "ExecutionScope \<Rightarrow> ExecutionScope \<Rightarrow> bool" where
  "sameScopeForEffectStoreV2 left right \<longleftrightarrow>
     (if scope_Identity left \<noteq> scope_Identity right \<or> scope_Lineage left \<noteq> scope_Lineage right
         \<or> scope_Instance left \<noteq> scope_Instance right \<or> scope_AuthorityEpoch left \<noteq> scope_AuthorityEpoch right
      then False
      else case (scope_SandboxLease left, scope_SandboxLease right) of
             (Some l, Some r) \<Rightarrow> l = r
           | (l, r) \<Rightarrow> l = None \<and> r = None)"

lemma sameScopeForEffectStoreV2_eq [simp]: "sameScopeForEffectStoreV2 s t \<longleftrightarrow> s = t"
  by (cases s; cases t) (auto simp: sameScopeForEffectStoreV2_def split: option.splits)

text \<open>The permit names the effect it is for, field by field.\<close>

definition permit_binds :: "fact_json \<Rightarrow> DispatchPermitV2 \<Rightarrow> EffectIntentV2 \<Rightarrow> bool" where
  "permit_binds K p i \<longleftrightarrow>
     pm_IntentID p = ei2_ID i \<and> pm_IntentRevision p = ei2_Revision i
     \<and> pm_IntentDigest p = digest_or_empty (EffectIntentV2_DigestV2 (fj_effect K) i)
     \<and> pm_PayloadSchema p = op2_Schema (ei2_Payload i) \<and> pm_PayloadDigest p = op2_ContentDigest (ei2_Payload i)
     \<and> pm_PayloadRevision p = ei2_PayloadRevision i \<and> pm_RunID p = ei2_RunID i \<and> pm_ConflictDomain p = ei2_ConflictDomain i
     \<and> pm_Provider p = ei2_Provider i \<and> pm_EnforcementPoint p = ei2_Provider i \<and> pm_Authority p = ei2_Authority i
     \<and> pm_Review p = ei2_Review i \<and> pm_Budget p = ei2_Budget i \<and> pm_Policy p = ei2_Policy i
     \<and> pm_CurrentScope p = ei2_CurrentScope i \<and> pm_Idempotency p = ei2_Idempotency i
     \<and> sameScopeForEffectStoreV2 (pm_Scope p) (ei2_Scope i)"

definition IssueDispatchPermit ::
  "fact_json \<Rightarrow> EffectStoreV2 \<Rightarrow> go_context \<Rightarrow> IssueDispatchPermitRequestV2 \<Rightarrow> Time
     \<Rightarrow> EffectStoreV2 \<times> IssueDispatchPermitResultV2 res" where [step_defs]:
  "IssueDispatchPermit K s ctx request now =
     (let p = idp_Permit request; fence = idp_Fence request;
          permitDigest = digest_or_empty (DispatchPermitV2_DigestV2 (fj_effect K) p) in
      guarded (first_err [contextError ctx, DispatchPermitV2_Validate p, ExecutionFence_Validate fence]) s
       (case es_permits s (pm_ID p) of
          Some existing \<Rightarrow>
            (s, if pm_AttemptID (pf_Permit existing) = pm_AttemptID p \<and> pm_IntentID (pf_Permit existing) = idp_EffectID request
                   \<and> pf_PermitDigest existing = permitDigest
                   \<and> pm_FenceDigest (pf_Permit existing) = digest_or_empty (DigestExecutionFenceV2 (fj_effect K) fence)
                   \<and> pf_Fence existing = fence
                then Inr \<lparr>idr_Effect = the (es_effects s (idp_EffectID request)), idr_Permit = existing\<rparr>
                else Inl (DomainError ErrorConflict ReasonIdempotencyPayloadMismatch))
        | None \<Rightarrow>
            (case es_effects s (idp_EffectID request) of
               None \<Rightarrow> (s, Inl (DomainError ErrorConflict ReasonRevisionConflict))
             | Some f \<Rightarrow>
                 let n = f\<lparr>ef_State := EffectDispatchIntent, ef_Revision := ef_Revision f + 1, ef_DispatchPermitID := pm_ID p,
                           ef_DispatchPermitDigest := permitDigest, ef_UpdatedUnixNano := UnixNano now\<rparr>;
                     q = \<lparr>pf_Permit = p, pf_PermitDigest = permitDigest, pf_Fence = fence, pf_State = DispatchPermitIssued,
                          pf_Revision = 1, pf_EffectFactRevision = ef_Revision n, pf_BegunUnixNano = 0, pf_Enforcement = None\<rparr> in
                 guarded (first_err
                    [fail_if (ef_Revision f \<noteq> idp_ExpectedEffectRevision request \<or> ef_State f \<noteq> EffectAccepted)
                       ErrorConflict ReasonRevisionConflict,
                     fail_if (\<not> permit_binds K p (ef_Intent f)) ErrorPreconditionFailed ReasonDispatchPermitInvalid,
                     fail_if (IsZero now \<or> sint (UnixNano now) < sint (pm_IssuedUnixNano p)
                        \<or> \<not> Before now (TimeUnix0 (pm_ExpiresUnixNano p))) ErrorPreconditionFailed ReasonDispatchPermitExpired,
                     (case DigestExecutionFenceV2 (fj_effect K) fence of
                        Inl e \<Rightarrow> Some (DomainError ErrorPreconditionFailed ReasonEffectFenceStale)
                      | Inr fenceDigest \<Rightarrow>
                          fail_if (fenceDigest \<noteq> pm_FenceDigest p) ErrorPreconditionFailed ReasonEffectFenceStale),
                     ValidateEffectFactTransitionV2 (fj_effect K) f n
                       \<lparr>tc_PermitBegun = False, tc_DispatchReceiptMatched = False, tc_SettlementOwnerMatched = False,
                        tc_UnknownInspectionSettled = False, tc_CompensationSettled = False, tc_ResidualInspectSettled = False,
                        tc_CleanupEffectSettled = False\<rparr> now,
                     DispatchPermitFactV2_Validate (fj_effect K) q]) s
                  (let s' = s\<lparr>es_effects := (es_effects s)(ei2_ID (ef_Intent f) \<mapsto> n), es_permits := (es_permits s)(pm_ID p \<mapsto> q)\<rparr> in
                   if es_loseNextIssueReply s' then (s'\<lparr>es_loseNextIssueReply := False\<rparr>, Inl effect_reply_lost)
                   else (s', Inr \<lparr>idr_Effect = n, idr_Permit = q\<rparr>)))))"

definition InspectDispatchPermit :: "EffectStoreV2 \<Rightarrow> go_context \<Rightarrow> string \<Rightarrow> DispatchPermitFactV2 res" where
  "InspectDispatchPermit s ctx i =
     ensure (contextError ctx)
      (case es_permits s i of None \<Rightarrow> Inl (DomainError ErrorNotFound ReasonDispatchPermitInvalid) | Some p \<Rightarrow> Inr p)"

definition BeginDispatch ::
  "fact_json \<Rightarrow> EffectStoreV2 \<Rightarrow> go_context \<Rightarrow> BeginDispatchRequestV2 \<Rightarrow> Time \<Rightarrow> EffectStoreV2 \<times> DispatchPermitFactV2 res" where [step_defs]:
  "BeginDispatch K s ctx request now =
     guarded (contextError ctx) s
      (let conflict = (s, Inl (DomainError ErrorConflict ReasonRevisionConflict)) in
       case es_effects s (bdr_EffectID request) of
         None \<Rightarrow> conflict
       | Some f \<Rightarrow>
           (case es_permits s (bdr_PermitID request) of
              None \<Rightarrow> conflict
            | Some p \<Rightarrow>
                if ef_State f \<noteq> EffectDispatchIntent \<or> ef_Revision f \<noteq> bdr_ExpectedEffectRevision request
                   \<or> ef_DispatchPermitID f \<noteq> bdr_PermitID request \<or> pf_Revision p \<noteq> bdr_ExpectedPermitRevision request
                   \<or> pf_EffectFactRevision p \<noteq> ef_Revision f
                then conflict
                else
                  let n = p\<lparr>pf_State := DispatchPermitBegun, pf_Revision := pf_Revision p + 1, pf_BegunUnixNano := UnixNano now\<rparr> in
                  guarded (ValidateDispatchPermitTransitionV2 (fj_effect K) p n now) s
                   (let s' = s\<lparr>es_permits := (es_permits s)(pm_ID (pf_Permit p) \<mapsto> n)\<rparr> in
                    if es_loseNextBeginReply s' then (s'\<lparr>es_loseNextBeginReply := False\<rparr>, Inl effect_reply_lost)
                    else (s', Inr n))))"

definition RecordEnforcementReceipt ::
  "fact_json \<Rightarrow> EffectStoreV2 \<Rightarrow> go_context \<Rightarrow> RecordEnforcementReceiptRequestV2 \<Rightarrow> Time
     \<Rightarrow> EffectStoreV2 \<times> DispatchPermitFactV2 res" where [step_defs]:
  "RecordEnforcementReceipt K s ctx request now =
     guarded (first_err [contextError ctx, EnforcementReceiptV2_Validate (rer_Receipt request)]) s
      (case es_permits s (rer_PermitID request) of
         None \<Rightarrow> (s, Inl (DomainError ErrorNotFound ReasonDispatchPermitInvalid))
       | Some c \<Rightarrow>
           (case pf_Enforcement c of
              Some r \<Rightarrow> (s, if r = rer_Receipt request then Inr c else Inl (DomainError ErrorConflict ReasonEvidenceConflict))
            | None \<Rightarrow>
                if pf_Revision c \<noteq> rer_ExpectedPermitRevision request
                then (s, Inl (DomainError ErrorConflict ReasonRevisionConflict))
                else
                  let n = c\<lparr>pf_Revision := pf_Revision c + 1, pf_Enforcement := Some (rer_Receipt request)\<rparr> in
                  guarded (ValidateDispatchPermitTransitionV2 (fj_effect K) c n now) s
                   (let s' = s\<lparr>es_permits := (es_permits s)(rer_PermitID request \<mapsto> n)\<rparr> in
                    if es_loseNextReceiptReply s' then (s'\<lparr>es_loseNextReceiptReply := False\<rparr>, Inl effect_reply_lost)
                    else (s', Inr n))))"

definition CompareAndSwapDispatchPermit ::
  "fact_json \<Rightarrow> EffectStoreV2 \<Rightarrow> go_context \<Rightarrow> DispatchPermitFactCASRequestV2 \<Rightarrow> Time
     \<Rightarrow> EffectStoreV2 \<times> DispatchPermitFactV2 res" where [step_defs]:
  "CompareAndSwapDispatchPermit K s ctx request now =
     guarded (contextError ctx) s
      (case es_permits s (pcas_PermitID request) of
         None \<Rightarrow> (s, Inl (DomainError ErrorNotFound ReasonDispatchPermitInvalid))
       | Some c \<Rightarrow>
           if pf_Revision c \<noteq> pcas_ExpectedRevision request
           then (s, if c = pcas_Next request then Inr c else Inl (DomainError ErrorConflict ReasonRevisionConflict))
           else guarded (ValidateDispatchPermitTransitionV2 (fj_effect K) c (pcas_Next request) now) s
             (let s' = s\<lparr>es_permits := (es_permits s)(pcas_PermitID request \<mapsto> pcas_Next request)\<rparr> in
              if es_loseNextPermitCASReply s' then (s'\<lparr>es_loseNextPermitCASReply := False\<rparr>, Inl effect_reply_lost)
              else (s', Inr (pcas_Next request))))"

section \<open>Budgets\<close>

definition CreateBudgetBinding ::
  "EffectStoreV2 \<Rightarrow> go_context \<Rightarrow> BudgetBindingFactV2 \<Rightarrow> EffectStoreV2 \<times> BudgetBindingFactV2 res" where [step_defs]:
  "CreateBudgetBinding s ctx f =
     guarded (first_err
        [contextError ctx, BudgetBindingFactV2_Validate f,
         fail_if (bgf_State f \<noteq> BudgetFactActive \<or> bgf_Revision f \<noteq> 1) ErrorInvalidArgument ReasonBudgetBindingMissing]) s
      (case es_budgets s (bgf_Ref f) of
         Some existing \<Rightarrow> (s, if existing = f then Inr existing else Inl (DomainError ErrorConflict ReasonAlreadyExists))
       | None \<Rightarrow> (s\<lparr>es_budgets := (es_budgets s)(bgf_Ref f \<mapsto> f)\<rparr>, Inr f))"

definition InspectBudgetBinding :: "EffectStoreV2 \<Rightarrow> go_context \<Rightarrow> string \<Rightarrow> BudgetBindingFactV2 res" where
  "InspectBudgetBinding s ctx ref =
     ensure (contextError ctx)
      (case es_budgets s ref of None \<Rightarrow> Inl (DomainError ErrorNotFound ReasonBudgetBindingMissing) | Some f \<Rightarrow> Inr f)"

definition CompareAndSwapBudgetBinding ::
  "EffectStoreV2 \<Rightarrow> go_context \<Rightarrow> BudgetFactCASRequestV2 \<Rightarrow> Time \<Rightarrow> EffectStoreV2 \<times> BudgetBindingFactV2 res" where [step_defs]:
  "CompareAndSwapBudgetBinding s ctx request now =
     guarded (contextError ctx) s
      (case es_budgets s (bgf_Ref (bcas_Next request)) of
         None \<Rightarrow> (s, Inl (DomainError ErrorConflict ReasonRevisionConflict))
       | Some c \<Rightarrow>
           if bgf_Revision c \<noteq> bcas_ExpectedRevision request then (s, Inl (DomainError ErrorConflict ReasonRevisionConflict))
           else guarded (ValidateBudgetFactTransitionV2 c (bcas_Next request) now) s
             (s\<lparr>es_budgets := (es_budgets s)(bgf_Ref (bcas_Next request) \<mapsto> bcas_Next request)\<rparr>, Inr (bcas_Next request)))"

end
