(* ===== verification/EffectInvariant.thy ===== *)
theory EffectInvariant
  imports EffectStore
begin

text \<open>
  Histories of the effect store. Every operation either leaves the facts alone or does one of five
  things to them; on top of that the versions of one effect and of one permit are followed, and the
  invariants of disciplined histories are shown.
\<close>

section \<open>Steps\<close>

text \<open>Two stores that agree on effects and permits: they differ at most in budgets and lost replies.\<close>

definition same_effects :: "EffectStoreV2 \<Rightarrow> EffectStoreV2 \<Rightarrow> bool" where
  "same_effects s t \<longleftrightarrow> es_effects s = es_effects t \<and> es_idempotency s = es_idempotency t \<and> es_conflicts s = es_conflicts t
     \<and> es_permits s = es_permits t"

lemma same_effects_refl [simp]: "same_effects s s"
  by (simp add: same_effects_def)

lemma same_effects_flags [simp]:
  "same_effects (s\<lparr>es_loseNextIssueReply := b\<rparr>) t = same_effects s t" "same_effects (s\<lparr>es_loseNextBeginReply := b\<rparr>) t = same_effects s t"
  "same_effects (s\<lparr>es_loseNextReceiptReply := b\<rparr>) t = same_effects s t"
  "same_effects (s\<lparr>es_loseNextPermitCASReply := b\<rparr>) t = same_effects s t"
  "same_effects (s\<lparr>es_loseNextEffectCASReply := b\<rparr>) t = same_effects s t" "same_effects (s\<lparr>es_budgets := m\<rparr>) t = same_effects s t"
  by (simp_all add: same_effects_def)

text \<open>The operations that decide on the transition themselves, and the two raw compare-and-swaps.\<close>

inductive owner_step :: "fact_json \<Rightarrow> EffectStoreV2 \<Rightarrow> EffectStoreV2 \<Rightarrow> bool" for K where
  create_effect: "CreateEffect K s ctx f = (s', x) \<Longrightarrow> owner_step K s s'"
| issue_permit: "IssueDispatchPermit K s ctx i now = (s', y) \<Longrightarrow> owner_step K s s'"
| begin_dispatch: "BeginDispatch K s ctx b now = (s', z) \<Longrightarrow> owner_step K s s'"
| record_receipt: "RecordEnforcementReceipt K s ctx r now = (s', z) \<Longrightarrow> owner_step K s s'"
| create_budget: "CreateBudgetBinding s ctx g = (s', u) \<Longrightarrow> owner_step K s s'"
| swap_budget: "CompareAndSwapBudgetBinding s ctx v now = (s', u) \<Longrightarrow> owner_step K s s'"
| lose_issue: "owner_step K s (LoseNextIssueReply s)"
| lose_begin: "owner_step K s (LoseNextBeginReply s)"
| lose_receipt: "owner_step K s (LoseNextReceiptReply s)"
| lose_permit_cas: "owner_step K s (LoseNextPermitCASReply s)"
| lose_effect_cas: "owner_step K s (LoseNextEffectCASReply s)"

inductive effect_step :: "fact_json \<Rightarrow> EffectStoreV2 \<Rightarrow> EffectStoreV2 \<Rightarrow> bool" for K where
  owner: "owner_step K s s' \<Longrightarrow> effect_step K s s'"
| swap_effect: "CompareAndSwapEffect K s ctx q now = (s', x) \<Longrightarrow> effect_step K s s'"
| swap_permit: "CompareAndSwapDispatchPermit K s ctx p now = (s', z) \<Longrightarrow> effect_step K s s'"

inductive effect_run :: "fact_json \<Rightarrow> EffectStoreV2 \<Rightarrow> EffectStoreV2 \<Rightarrow> bool" for K where
  effect_stay: "effect_run K s s"
| effect_go: "effect_run K s t \<Longrightarrow> effect_step K t u \<Longrightarrow> effect_run K s u"

lemma effect_run_trans: "effect_run K t u \<Longrightarrow> effect_run K s t \<Longrightarrow> effect_run K s u"
  by (induction rule: effect_run.induct) (auto intro: effect_run.intros)

section \<open>What each operation does\<close>

lemma CreateEffect_cases:
  assumes "CreateEffect K s ctx f = (s', x)"
  obtains (same) "s' = s"
  | (created) "EffectFactV2_Validate (fj_effect K) f = None" "ef_State f = EffectProposed" "es_effects s (ei2_ID (ef_Intent f)) = None"
      "es_idempotency s (effectIdempotencyKeyV2 f) = None"
      "s' = s\<lparr>es_effects := (es_effects s)(ei2_ID (ef_Intent f) \<mapsto> f),
              es_idempotency := (es_idempotency s)(effectIdempotencyKeyV2 f \<mapsto> ei2_ID (ef_Intent f))\<rparr>"
  using assms
  by (auto simp: CreateEffect_def Let_def elim!: guarded_cases split: option.splits if_splits)

lemma CompareAndSwapEffect_cases:
  assumes "CompareAndSwapEffect K s ctx q now = (s', x)"
  obtains (same) "s' = s"
  | (swapped) c where "es_effects s (ei2_ID (ef_Intent (ecas_Next q))) = Some c"
      "ValidateEffectFactTransitionV2 (fj_effect K) c (ecas_Next q) (transition_context K s c (ecas_Next q) now) now = None"
      "accepts c (ecas_Next q) \<Longrightarrow> es_conflicts s (effectConflictKeyV2 (ei2_ConflictDomain (ef_Intent c)))
         \<in> {None, Some (ei2_ID (ef_Intent c))}"
      "same_effects s' (put_effect s c (ecas_Next q))"
proof (cases "es_effects s (ei2_ID (ef_Intent (ecas_Next q)))")
  case None
  then show thesis using assms same by (auto simp: CompareAndSwapEffect_def Let_def elim!: guarded_cases)
next
  case (Some c)
  show thesis
  proof (cases "s' = s")
    case False
    with assms Some have t: "ValidateEffectFactTransitionV2 (fj_effect K) c (ecas_Next q) (transition_context K s c (ecas_Next q) now) now = None"
      and a: "accepts c (ecas_Next q) \<Longrightarrow> es_conflicts s (effectConflictKeyV2 (ei2_ConflictDomain (ef_Intent c)))
         \<in> {None, Some (ei2_ID (ef_Intent c))}"
      and p: "same_effects s' (put_effect s c (ecas_Next q))"
      by (auto simp: CompareAndSwapEffect_def Let_def elim!: guarded_cases split: option.splits if_splits)
    show thesis by (rule swapped [OF Some t a p])
  qed (rule same)
qed

lemma IssueDispatchPermit_cases:
  assumes "IssueDispatchPermit K s ctx q now = (s', x)"
  obtains (same) "s' = s"
  | (issued) f n p where "es_effects s (idp_EffectID q) = Some f" "es_permits s (pm_ID (pf_Permit p)) = None"
      "ef_State f = EffectAccepted" "permit_binds K (pf_Permit p) (ef_Intent f)"
      "n = f\<lparr>ef_State := EffectDispatchIntent, ef_Revision := ef_Revision f + 1, ef_DispatchPermitID := pm_ID (pf_Permit p),
            ef_DispatchPermitDigest := pf_PermitDigest p, ef_UpdatedUnixNano := UnixNano now\<rparr>"
      "EffectFactV2_Validate (fj_effect K) n = None" "sint (ef_UpdatedUnixNano f) \<le> sint (UnixNano now)"
      "pf_State p = DispatchPermitIssued" "pf_EffectFactRevision p = ef_Revision n"
      "DispatchPermitFactV2_Validate (fj_effect K) p = None" "Before now (TimeUnix0 (pm_ExpiresUnixNano (pf_Permit p)))"
      "same_effects s' (s\<lparr>es_effects := (es_effects s)(ei2_ID (ef_Intent f) \<mapsto> n), es_permits := (es_permits s)(pm_ID (pf_Permit p) \<mapsto> p)\<rparr>)"
proof (cases "s' = s")
  case False
  define p where "p = idp_Permit q"
  define pd where "pd = digest_or_empty (DispatchPermitV2_DigestV2 (fj_effect K) p)"
  from False assms obtain f where f: "es_effects s (idp_EffectID q) = Some f" and none: "es_permits s (pm_ID p) = None"
    by (auto simp: IssueDispatchPermit_def Let_def p_def elim!: guarded_cases split: option.splits if_splits)
  define n where "n = f\<lparr>ef_State := EffectDispatchIntent, ef_Revision := ef_Revision f + 1, ef_DispatchPermitID := pm_ID p,
        ef_DispatchPermitDigest := pd, ef_UpdatedUnixNano := UnixNano now\<rparr>"
  define pq where "pq = \<lparr>pf_Permit = p, pf_PermitDigest = pd, pf_Fence = idp_Fence q, pf_State = DispatchPermitIssued,
        pf_Revision = 1, pf_EffectFactRevision = ef_Revision n, pf_BegunUnixNano = 0, pf_Enforcement = None\<rparr>"
  note defs = p_def [symmetric] pd_def [symmetric]
  from assms False f none have st: "ef_State f = EffectAccepted" and b: "permit_binds K p (ef_Intent f)"
    and e: "Before now (TimeUnix0 (pm_ExpiresUnixNano p))"
    and t: "ValidateEffectFactTransitionV2 (fj_effect K) f n
       \<lparr>tc_PermitBegun = False, tc_DispatchReceiptMatched = False, tc_SettlementOwnerMatched = False,
        tc_UnknownInspectionSettled = False, tc_CompensationSettled = False, tc_ResidualInspectSettled = False,
        tc_CleanupEffectSettled = False\<rparr> now = None"
    and v: "DispatchPermitFactV2_Validate (fj_effect K) pq = None"
    and u: "same_effects s' (s\<lparr>es_effects := (es_effects s)(ei2_ID (ef_Intent f) \<mapsto> n), es_permits := (es_permits s)(pm_ID p \<mapsto> pq)\<rparr>)"
    unfolding IssueDispatchPermit_def Let_def defs n_def [symmetric]
    by (auto simp: pq_def n_def elim!: guarded_cases split: if_splits)
  have "EffectFactV2_Validate (fj_effect K) n = None" "sint (ef_UpdatedUnixNano f) \<le> sint (UnixNano now)"
    using t by (simp_all add: ValidateEffectFactTransitionV2_def)
  then show thesis
    by (intro issued [of f pq n]) (use f none st b e v u in \<open>simp_all add: pq_def n_def\<close>)
qed (rule same)

lemma BeginDispatch_cases:
  assumes "BeginDispatch K s ctx q now = (s', x)"
  obtains (same) "s' = s"
  | (begun) f p n where "es_effects s (bdr_EffectID q) = Some f" "ef_State f = EffectDispatchIntent"
      "es_permits s (ef_DispatchPermitID f) = Some p" "ef_DispatchPermitID f = bdr_PermitID q"
      "n = p\<lparr>pf_State := DispatchPermitBegun, pf_Revision := pf_Revision p + 1, pf_BegunUnixNano := UnixNano now\<rparr>"
      "ValidateDispatchPermitTransitionV2 (fj_effect K) p n now = None"
      "same_effects s' (s\<lparr>es_permits := (es_permits s)(pm_ID (pf_Permit p) \<mapsto> n)\<rparr>)"
  using assms
  by (auto simp: BeginDispatch_def Let_def elim!: guarded_cases split: option.splits if_splits)

lemma RecordEnforcementReceipt_cases:
  assumes "RecordEnforcementReceipt K s ctx q now = (s', x)"
  obtains (same) "s' = s"
  | (moved) c n where "es_permits s (rer_PermitID q) = Some c"
      "n = c\<lparr>pf_Revision := pf_Revision c + 1, pf_Enforcement := Some (rer_Receipt q)\<rparr>"
      "ValidateDispatchPermitTransitionV2 (fj_effect K) c n now = None"
      "same_effects s' (s\<lparr>es_permits := (es_permits s)(rer_PermitID q \<mapsto> n)\<rparr>)"
  using assms
  by (auto simp: RecordEnforcementReceipt_def Let_def elim!: guarded_cases split: option.splits if_splits)

lemma CompareAndSwapDispatchPermit_cases:
  assumes "CompareAndSwapDispatchPermit K s ctx q now = (s', x)"
  obtains (same) "s' = s"
  | (moved) c where "es_permits s (pcas_PermitID q) = Some c"
      "ValidateDispatchPermitTransitionV2 (fj_effect K) c (pcas_Next q) now = None"
      "same_effects s' (s\<lparr>es_permits := (es_permits s)(pcas_PermitID q \<mapsto> pcas_Next q)\<rparr>)"
  using assms
  by (auto simp: CompareAndSwapDispatchPermit_def Let_def elim!: guarded_cases split: option.splits if_splits)

lemma budget_ops_only_budgets:
  "CreateBudgetBinding s ctx g = (s', u) \<Longrightarrow> \<exists>b. s' = s\<lparr>es_budgets := b\<rparr>"
  "CompareAndSwapBudgetBinding s ctx v now = (s', u) \<Longrightarrow> \<exists>b. s' = s\<lparr>es_budgets := b\<rparr>"
  by (cases s; auto simp: CreateBudgetBinding_def CompareAndSwapBudgetBinding_def elim!: guarded_cases split: option.splits if_splits)+

text \<open>What the deciding operations do to effects and permits.\<close>

lemma owner_step_cases:
  assumes "owner_step K s s'"
  obtains (same) "same_effects s' s"
  | (created) f where "EffectFactV2_Validate (fj_effect K) f = None" "ef_State f = EffectProposed"
      "es_effects s (ei2_ID (ef_Intent f)) = None" "es_idempotency s (effectIdempotencyKeyV2 f) = None"
      "same_effects s' (s\<lparr>es_effects := (es_effects s)(ei2_ID (ef_Intent f) \<mapsto> f),
              es_idempotency := (es_idempotency s)(effectIdempotencyKeyV2 f \<mapsto> ei2_ID (ef_Intent f))\<rparr>)"
  | (issued) i f n p now where "es_effects s i = Some f" "es_permits s (pm_ID (pf_Permit p)) = None"
      "ef_State f = EffectAccepted" "permit_binds K (pf_Permit p) (ef_Intent f)"
      "n = f\<lparr>ef_State := EffectDispatchIntent, ef_Revision := ef_Revision f + 1, ef_DispatchPermitID := pm_ID (pf_Permit p),
            ef_DispatchPermitDigest := pf_PermitDigest p, ef_UpdatedUnixNano := UnixNano now\<rparr>"
      "EffectFactV2_Validate (fj_effect K) n = None" "sint (ef_UpdatedUnixNano f) \<le> sint (UnixNano now)"
      "pf_State p = DispatchPermitIssued" "pf_EffectFactRevision p = ef_Revision n"
      "DispatchPermitFactV2_Validate (fj_effect K) p = None" "Before now (TimeUnix0 (pm_ExpiresUnixNano (pf_Permit p)))"
      "same_effects s' (s\<lparr>es_effects := (es_effects s)(ei2_ID (ef_Intent f) \<mapsto> n), es_permits := (es_permits s)(pm_ID (pf_Permit p) \<mapsto> p)\<rparr>)"
  | (begun) i f p n now where "es_effects s i = Some f" "ef_State f = EffectDispatchIntent" "es_permits s (ef_DispatchPermitID f) = Some p"
      "n = p\<lparr>pf_State := DispatchPermitBegun, pf_Revision := pf_Revision p + 1, pf_BegunUnixNano := UnixNano now\<rparr>"
      "ValidateDispatchPermitTransitionV2 (fj_effect K) p n now = None"
      "same_effects s' (s\<lparr>es_permits := (es_permits s)(pm_ID (pf_Permit p) \<mapsto> n)\<rparr>)"
  | (moved) i c n now where "es_permits s i = Some c" "pf_State n = pf_State c"
      "ValidateDispatchPermitTransitionV2 (fj_effect K) c n now = None"
      "same_effects s' (s\<lparr>es_permits := (es_permits s)(i \<mapsto> n)\<rparr>)"
  using assms
proof cases
  case (create_effect ctx f x)
  then show thesis by (rule CreateEffect_cases) (use same created in auto)
next
  case (issue_permit ctx q now y)
  then show thesis
  proof (rule IssueDispatchPermit_cases)
    show thesis if "s' = s" using same that by simp
  qed (rule issued)
next
  case (begin_dispatch ctx b now z)
  then show thesis
  proof (rule BeginDispatch_cases)
    show thesis if "s' = s" using same that by simp
  qed (rule begun)
next
  case (record_receipt ctx r now z)
  then show thesis
  proof (rule RecordEnforcementReceipt_cases)
    show thesis if "s' = s" using same that by simp
  qed (rule moved, simp_all)
next
  case (create_budget ctx g u)
  then show thesis using budget_ops_only_budgets(1) same by fastforce
next
  case (swap_budget ctx v now u)
  then show thesis using budget_ops_only_budgets(2) same by fastforce
qed (use same in \<open>auto simp: LoseNextIssueReply_def LoseNextBeginReply_def LoseNextReceiptReply_def LoseNextPermitCASReply_def
  LoseNextEffectCASReply_def\<close>)

text \<open>Every step does one of five things to effects and permits, or none.\<close>

lemma effect_step_cases:
  assumes "effect_step K s s'"
  obtains (same) "same_effects s' s"
  | (created) f where "EffectFactV2_Validate (fj_effect K) f = None" "ef_State f = EffectProposed"
      "es_effects s (ei2_ID (ef_Intent f)) = None" "es_idempotency s (effectIdempotencyKeyV2 f) = None"
      "same_effects s' (s\<lparr>es_effects := (es_effects s)(ei2_ID (ef_Intent f) \<mapsto> f),
              es_idempotency := (es_idempotency s)(effectIdempotencyKeyV2 f \<mapsto> ei2_ID (ef_Intent f))\<rparr>)"
  | (swapped) c n now where "es_effects s (ei2_ID (ef_Intent n)) = Some c"
      "ValidateEffectFactTransitionV2 (fj_effect K) c n (transition_context K s c n now) now = None"
      "accepts c n \<Longrightarrow> es_conflicts s (effectConflictKeyV2 (ei2_ConflictDomain (ef_Intent c))) \<in> {None, Some (ei2_ID (ef_Intent c))}"
      "same_effects s' (put_effect s c n)"
  | (issued) i f n p now where "es_effects s i = Some f" "es_permits s (pm_ID (pf_Permit p)) = None"
      "ef_State f = EffectAccepted" "permit_binds K (pf_Permit p) (ef_Intent f)"
      "n = f\<lparr>ef_State := EffectDispatchIntent, ef_Revision := ef_Revision f + 1, ef_DispatchPermitID := pm_ID (pf_Permit p),
            ef_DispatchPermitDigest := pf_PermitDigest p, ef_UpdatedUnixNano := UnixNano now\<rparr>"
      "EffectFactV2_Validate (fj_effect K) n = None" "sint (ef_UpdatedUnixNano f) \<le> sint (UnixNano now)"
      "pf_State p = DispatchPermitIssued" "pf_EffectFactRevision p = ef_Revision n"
      "DispatchPermitFactV2_Validate (fj_effect K) p = None" "Before now (TimeUnix0 (pm_ExpiresUnixNano (pf_Permit p)))"
      "same_effects s' (s\<lparr>es_effects := (es_effects s)(ei2_ID (ef_Intent f) \<mapsto> n), es_permits := (es_permits s)(pm_ID (pf_Permit p) \<mapsto> p)\<rparr>)"
  | (begun) i f p n now where "es_effects s i = Some f" "ef_State f = EffectDispatchIntent" "es_permits s (ef_DispatchPermitID f) = Some p"
      "n = p\<lparr>pf_State := DispatchPermitBegun, pf_Revision := pf_Revision p + 1, pf_BegunUnixNano := UnixNano now\<rparr>"
      "ValidateDispatchPermitTransitionV2 (fj_effect K) p n now = None"
      "same_effects s' (s\<lparr>es_permits := (es_permits s)(pm_ID (pf_Permit p) \<mapsto> n)\<rparr>)"
  | (moved) i c n now where "es_permits s i = Some c" "ValidateDispatchPermitTransitionV2 (fj_effect K) c n now = None"
      "same_effects s' (s\<lparr>es_permits := (es_permits s)(i \<mapsto> n)\<rparr>)"
  using assms
proof cases
  case owner
  then show thesis
  proof (cases rule: owner_step_cases)
    case (moved i c n now)
    show thesis by (rule that(6) [OF moved(1,3,4)])
  qed (fact same created issued begun)+
next
  case (swap_effect ctx q now x)
  then show thesis by (rule CompareAndSwapEffect_cases) (use same swapped in auto)
next
  case (swap_permit ctx p now z)
  then show thesis
  proof (rule CompareAndSwapDispatchPermit_cases)
    show thesis if "s' = s" using same that by simp
  qed (rule that(6))
qed

section \<open>The versions of one effect\<close>

fun effect_rank :: "EffectFactStateV2 \<Rightarrow> nat" where
  "effect_rank EffectProposed = 0"
| "effect_rank EffectAccepted = 1"
| "effect_rank EffectDispatchIntent = 2"
| "effect_rank EffectUnknownOutcome = 3"
| "effect_rank EffectDispatched = 3"
| "effect_rank EffectSettled = 4"
| "effect_rank EffectCompensated = 5"
| "effect_rank _ = 6"

text \<open>What the main state may become: a dispatched and an unknown outcome exclude each other, and only an
  effect without an outcome is rejected.\<close>

definition main_later :: "EffectFactStateV2 \<Rightarrow> EffectFactStateV2 \<Rightarrow> bool" where
  "main_later s t \<longleftrightarrow> s = t \<or> effect_rank s < effect_rank t \<and> (t = EffectRejected \<longrightarrow> effect_rank s \<le> 2)"

lemma main_later_trans: "main_later s t \<Longrightarrow> main_later t u \<Longrightarrow> main_later s u"
  by (auto simp: main_later_def)

text \<open>A recorded value stays; an absent one may be recorded.\<close>

definition kept :: "'a \<Rightarrow> 'a \<Rightarrow> 'a \<Rightarrow> bool" where
  "kept absent x y \<longleftrightarrow> x = absent \<or> y = x"

lemma kept_refl [simp]: "kept a x x"
  by (simp add: kept_def)

lemma kept_trans: "kept a x y \<Longrightarrow> kept a y z \<Longrightarrow> kept a x z"
  by (auto simp: kept_def)

text \<open>\<open>g\<close> is a later version of the effect fact \<open>f\<close>, or the same.\<close>

definition later_version :: "EffectFactV2 \<Rightarrow> EffectFactV2 \<Rightarrow> bool" where
  "later_version f g \<longleftrightarrow> ei2_ID (ef_Intent g) = ei2_ID (ef_Intent f) \<and> ef_IntentDigest g = ef_IntentDigest f
     \<and> main_later (ef_State f) (ef_State g) \<and> sint (ef_UpdatedUnixNano f) \<le> sint (ef_UpdatedUnixNano g)
     \<and> kept '''' (ef_DispatchPermitID f) (ef_DispatchPermitID g) \<and> kept '''' (ef_DispatchPermitDigest f) (ef_DispatchPermitDigest g)
     \<and> kept None (ef_DispatchReceipt f) (ef_DispatchReceipt g) \<and> kept None (ef_Settlement f) (ef_Settlement g)
     \<and> kept None (ef_Compensation f) (ef_Compensation g) \<and> kept None (ef_ResidualResolution f) (ef_ResidualResolution g)
     \<and> kept None (ef_CleanupResolution f) (ef_CleanupResolution g) \<and> (ef_State f = EffectRejected \<longrightarrow> g = f)"

lemma later_version_refl [simp]: "later_version f f"
  by (simp add: later_version_def main_later_def)

lemma later_version_trans: "later_version f g \<Longrightarrow> later_version g h \<Longrightarrow> later_version f h"
proof -
  assume a: "later_version f g" "later_version g h"
  have "main_later (ef_State f) (ef_State h)"
    using a by (auto simp: later_version_def intro: main_later_trans)
  moreover have "ef_State f = EffectRejected \<Longrightarrow> h = f" using a unfolding later_version_def by metis
  moreover have "kept '''' (ef_DispatchPermitID f) (ef_DispatchPermitID h)" "kept '''' (ef_DispatchPermitDigest f) (ef_DispatchPermitDigest h)"
    "kept None (ef_DispatchReceipt f) (ef_DispatchReceipt h)" "kept None (ef_Settlement f) (ef_Settlement h)"
    "kept None (ef_Compensation f) (ef_Compensation h)" "kept None (ef_ResidualResolution f) (ef_ResidualResolution h)"
    "kept None (ef_CleanupResolution f) (ef_CleanupResolution h)"
    using a by (auto simp: later_version_def intro: kept_trans)
  ultimately show ?thesis using a by (simp add: later_version_def)
qed

lemma main_state_later:
  assumes "main_state_error s t ctx = None"
  shows "main_later s t"
  using assms by (cases s; cases t) (simp_all add: main_later_def)

lemma transition_later:
  assumes "ValidateEffectFactTransitionV2 J c n ctx now = None"
  shows "later_version c n" "EffectFactV2_Validate J n = None" "sint (ef_UpdatedUnixNano n) = sint (UnixNano now)"
proof -
  have st: "(if ef_State c = ef_State n then same_state_error c n else main_state_error (ef_State c) (ef_State n) ctx) = None"
    and v: "EffectFactV2_Validate J c = None"
    using assms by (simp_all add: ValidateEffectFactTransitionV2_def)
  then have m: "main_later (ef_State c) (ef_State n)" "ef_State c \<noteq> EffectRejected"
    using main_state_later by (auto simp: main_later_def same_state_error_def split: if_splits)
  have d: "ef_DispatchPermitID c = '''' \<Longrightarrow> ef_DispatchPermitDigest c = ''''"
    using v by (simp add: EffectFactV2_Validate_def)
  have "validateClosureTransitionV2 c n ctx = None" using assms by (simp add: ValidateEffectFactTransitionV2_def)
  then have r: "kept None (ef_ResidualResolution c) (ef_ResidualResolution n)" "kept None (ef_CleanupResolution c) (ef_CleanupResolution n)"
    by (auto simp: validateClosureTransitionV2_def kept_def)
  have k: "kept None (ef_DispatchReceipt c) (ef_DispatchReceipt n)" "kept None (ef_Settlement c) (ef_Settlement n)"
    "kept None (ef_Compensation c) (ef_Compensation n)" "kept '''' (ef_DispatchPermitID c) (ef_DispatchPermitID n)"
    "kept '''' (ef_DispatchPermitDigest c) (ef_DispatchPermitDigest n)"
    using assms d by (auto simp: ValidateEffectFactTransitionV2_def kept_def)
  have "ei2_ID (ef_Intent n) = ei2_ID (ef_Intent c)" "ef_IntentDigest n = ef_IntentDigest c"
    "sint (ef_UpdatedUnixNano c) \<le> sint (ef_UpdatedUnixNano n)"
    using assms by (auto simp: ValidateEffectFactTransitionV2_def not_less)
  then show "later_version c n" using m r k by (simp add: later_version_def)
  show "EffectFactV2_Validate J n = None" "sint (ef_UpdatedUnixNano n) = sint (UnixNano now)"
    using assms by (simp_all add: ValidateEffectFactTransitionV2_def)
qed

section \<open>The versions of one permit\<close>

definition later_permit :: "DispatchPermitFactV2 \<Rightarrow> DispatchPermitFactV2 \<Rightarrow> bool" where
  "later_permit p q \<longleftrightarrow> pf_Permit q = pf_Permit p \<and> pf_PermitDigest q = pf_PermitDigest p \<and> pf_Fence q = pf_Fence p
     \<and> pf_EffectFactRevision q = pf_EffectFactRevision p
     \<and> (pf_State p \<noteq> DispatchPermitIssued \<longrightarrow> pf_State q = pf_State p)
     \<and> (pf_State p = DispatchPermitBegun \<longrightarrow> pf_BegunUnixNano q = pf_BegunUnixNano p \<and> kept None (pf_Enforcement p) (pf_Enforcement q))"

lemma later_permit_refl [simp]: "later_permit p p"
  by (simp add: later_permit_def)

lemma later_permit_trans: "later_permit p q \<Longrightarrow> later_permit q r \<Longrightarrow> later_permit p r"
  unfolding later_permit_def using kept_trans [of None "pf_Enforcement p" "pf_Enforcement q" "pf_Enforcement r"]
  by (cases "pf_State p") simp_all

lemma permit_later:
  assumes "ValidateDispatchPermitTransitionV2 J c n now = None"
  shows "later_permit c n" "DispatchPermitFactV2_Validate J n = None"
  using assms
  by (auto simp: ValidateDispatchPermitTransitionV2_def later_permit_def kept_def split: if_splits option.splits)

section \<open>What holds in every history\<close>

lemma put_effect_simps [simp]:
  "es_effects (put_effect s c n) = (es_effects s)(ei2_ID (ef_Intent n) \<mapsto> n)" "es_permits (put_effect s c n) = es_permits s"
  "es_idempotency (put_effect s c n) = es_idempotency s"
  by (simp_all add: put_effect_def Let_def)

definition effects_ok :: "fact_json \<Rightarrow> EffectStoreV2 \<Rightarrow> bool" where
  "effects_ok K s \<longleftrightarrow>
     (\<forall>i f. es_effects s i = Some f \<longrightarrow> ei2_ID (ef_Intent f) = i \<and> EffectFactV2_Validate (fj_effect K) f = None)
     \<and> (\<forall>i p. es_permits s i = Some p \<longrightarrow> pm_ID (pf_Permit p) = i \<and> DispatchPermitFactV2_Validate (fj_effect K) p = None)"

lemma effects_okD:
  assumes "effects_ok K s"
  shows "es_effects s i = Some f \<Longrightarrow> ei2_ID (ef_Intent f) = i \<and> EffectFactV2_Validate (fj_effect K) f = None"
    "es_permits s i = Some p \<Longrightarrow> pm_ID (pf_Permit p) = i \<and> DispatchPermitFactV2_Validate (fj_effect K) p = None"
  using assms unfolding effects_ok_def by blast+

lemma effects_ok_new: "effects_ok K NewEffectStoreV2"
  by (simp add: effects_ok_def NewEffectStoreV2_def)

lemma accepted_shape:
  assumes "EffectFactV2_Validate J f = None" "ef_State f = EffectAccepted \<or> ef_State f = EffectProposed"
  shows "ef_DispatchPermitID f = ''''" "ef_DispatchPermitDigest f = ''''" "ef_DispatchReceipt f = None" "ef_Settlement f = None"
    "ef_Compensation f = None" "ef_RejectionReason f = ''''"
proof -
  have s: "effect_shape_error (ef_State f) f = None" and
    d: "(if ef_DispatchPermitID f = '''' then fail_if (ef_DispatchPermitDigest f \<noteq> '''') ErrorPreconditionFailed ReasonDispatchPermitInvalid
        else Digest_Validate (ef_DispatchPermitDigest f)) = None"
    using assms(1) unfolding EffectFactV2_Validate_def first_err_Cons_None by blast+
  from s assms(2) show "ef_DispatchPermitID f = ''''" "ef_DispatchReceipt f = None" "ef_Settlement f = None"
    "ef_Compensation f = None" "ef_RejectionReason f = ''''" by auto
  with d show "ef_DispatchPermitDigest f = ''''" by simp
qed

text \<open>One step, seen from one effect and one permit.\<close>

lemma effect_step_later:
  assumes ok: "effects_ok K s" and step: "effect_step K s s'"
  shows "effects_ok K s'"
    and "es_effects s i = Some f \<Longrightarrow> \<exists>g. es_effects s' i = Some g \<and> later_version f g"
    and "es_permits s k = Some p \<Longrightarrow> \<exists>q. es_permits s' k = Some q \<and> later_permit p q"
proof -
  have "effects_ok K s' \<and> (\<forall>i f. es_effects s i = Some f \<longrightarrow> (\<exists>g. es_effects s' i = Some g \<and> later_version f g))
     \<and> (\<forall>k p. es_permits s k = Some p \<longrightarrow> (\<exists>q. es_permits s' k = Some q \<and> later_permit p q))" (is "?A")
    using step
  proof (cases rule: effect_step_cases)
    case same
    then show ?A using ok by (simp add: effects_ok_def same_effects_def)
  next
    case (created f)
    then show ?A using ok by (auto simp: effects_ok_def same_effects_def)
  next
    case (swapped c n now)
    then show ?A using ok transition_later [OF swapped(2)]
      by (auto simp: effects_ok_def same_effects_def)
  next
    case (issued i f n p now)
    have i: "ei2_ID (ef_Intent f) = i" using effects_okD(1) [OF ok issued(1)] by simp
    have "later_version f n"
      using issued(3,7) accepted_shape [of "fj_effect K" f] effects_okD(1) [OF ok issued(1)] unfolding issued(5)
      by (simp add: later_version_def main_later_def kept_def)
    moreover have "ei2_ID (ef_Intent n) = i" using issued(5) i by simp
    moreover have "es_effects s' = (es_effects s)(i \<mapsto> n)" "es_permits s' = (es_permits s)(pm_ID (pf_Permit p) \<mapsto> p)"
      using issued(12) i by (simp_all add: same_effects_def)
    ultimately show ?A using ok issued(1,2,6,10) unfolding effects_ok_def by (simp add: map_upd_cases)
  next
    case (begun i f p n now)
    have "es_effects s' = es_effects s" "es_permits s' = (es_permits s)(pm_ID (pf_Permit p) \<mapsto> n)"
      using begun(6) by (simp_all add: same_effects_def)
    moreover have "pm_ID (pf_Permit n) = pm_ID (pf_Permit p)" using begun(4) by simp
    ultimately show ?A using ok effects_okD(2) [OF ok begun(3)] permit_later [OF begun(5)] begun(3)
      unfolding effects_ok_def by simp
  next
    case (moved i c n now)
    have "pf_Permit n = pf_Permit c" using permit_later(1) [OF moved(2)] by (simp add: later_permit_def)
    then show ?A using ok moved effects_okD(2) [OF ok moved(1)] permit_later [OF moved(2)]
      by (auto simp: effects_ok_def same_effects_def)
  qed
  then show "effects_ok K s'" "es_effects s i = Some f \<Longrightarrow> \<exists>g. es_effects s' i = Some g \<and> later_version f g"
    "es_permits s k = Some p \<Longrightarrow> \<exists>q. es_permits s' k = Some q \<and> later_permit p q" by blast+
qed

lemma effect_run_later:
  assumes "effect_run K s t" "effects_ok K s"
  shows "effects_ok K t \<and> (\<forall>i f. es_effects s i = Some f \<longrightarrow> (\<exists>g. es_effects t i = Some g \<and> later_version f g))
    \<and> (\<forall>k p. es_permits s k = Some p \<longrightarrow> (\<exists>q. es_permits t k = Some q \<and> later_permit p q))"
  using assms
proof (induction rule: effect_run.induct)
  case (effect_go s t u)
  then have ok: "effects_ok K t" by blast
  note st = effect_step_later [OF ok effect_go(2)]
  have "\<exists>g. es_effects u i = Some g \<and> later_version f g" if f: "es_effects s i = Some f" for i f
  proof -
    obtain g where g: "es_effects t i = Some g" "later_version f g" using effect_go(3) [OF effect_go(4)] f by blast
    then show ?thesis using st(2) [OF g(1)] later_version_trans by blast
  qed
  moreover have "\<exists>q. es_permits u k = Some q \<and> later_permit p q" if p: "es_permits s k = Some p" for k p
  proof -
    obtain q where q: "es_permits t k = Some q" "later_permit p q" using effect_go(3) [OF effect_go(4)] p by blast
    then show ?thesis using st(3) [OF q(1)] later_permit_trans by blast
  qed
  ultimately show ?case using st(1) by blast
qed auto

section \<open>Disciplined histories\<close>

text \<open>
  The raw compare-and-swaps leave some decisions to their callers. A disciplined caller hands back the
  intent it read, binds a permit only by issuing it and begins it only by \<open>BeginDispatch\<close>, and ends
  the occupation of a conflict domain only when the domain is not held by another effect.
\<close>

definition careful_request :: "EffectStoreV2 \<Rightarrow> EffectFactCASRequestV2 \<Rightarrow> bool" where
  "careful_request s q \<longleftrightarrow>
     (\<forall>c. es_effects s (ei2_ID (ef_Intent (ecas_Next q))) = Some c \<longrightarrow>
        ef_Intent (ecas_Next q) = ef_Intent c \<and> ef_DispatchPermitID (ecas_Next q) = ef_DispatchPermitID c
        \<and> (\<not> ConflictDomainOccupied (ecas_Next q) \<longrightarrow>
             es_conflicts s (effectConflictKeyV2 (ei2_ConflictDomain (ef_Intent c))) \<in> {None, Some (ei2_ID (ef_Intent c))}))"

inductive careful_step :: "fact_json \<Rightarrow> EffectStoreV2 \<Rightarrow> EffectStoreV2 \<Rightarrow> bool" for K where
  careful_owner: "owner_step K s s' \<Longrightarrow> careful_step K s s'"
| careful_swap: "CompareAndSwapEffect K s ctx q now = (s', x) \<Longrightarrow> careful_request s q \<Longrightarrow> careful_step K s s'"
| careful_permit: "CompareAndSwapDispatchPermit K s ctx p now = (s', z) \<Longrightarrow> pf_State (pcas_Next p) \<noteq> DispatchPermitBegun \<Longrightarrow>
    careful_step K s s'"

inductive careful_run :: "fact_json \<Rightarrow> EffectStoreV2 \<Rightarrow> EffectStoreV2 \<Rightarrow> bool" for K where
  careful_stay: "careful_run K s s"
| careful_go: "careful_run K s t \<Longrightarrow> careful_step K t u \<Longrightarrow> careful_run K s u"

lemma careful_step_step: "careful_step K s s' \<Longrightarrow> effect_step K s s'"
  by (auto elim!: careful_step.cases intro: effect_step.intros)

lemma careful_run_run: "careful_run K s t \<Longrightarrow> effect_run K s t"
  by (induction rule: careful_run.induct) (auto intro: effect_run.intros careful_step_step)

lemma careful_step_cases:
  assumes "careful_step K s s'"
  obtains (same) "same_effects s' s"
  | (created) f where "EffectFactV2_Validate (fj_effect K) f = None" "ef_State f = EffectProposed"
      "es_effects s (ei2_ID (ef_Intent f)) = None" "es_idempotency s (effectIdempotencyKeyV2 f) = None"
      "same_effects s' (s\<lparr>es_effects := (es_effects s)(ei2_ID (ef_Intent f) \<mapsto> f),
              es_idempotency := (es_idempotency s)(effectIdempotencyKeyV2 f \<mapsto> ei2_ID (ef_Intent f))\<rparr>)"
  | (swapped) c n now where "es_effects s (ei2_ID (ef_Intent c)) = Some c" "ef_Intent n = ef_Intent c"
      "ef_DispatchPermitID n = ef_DispatchPermitID c"
      "ValidateEffectFactTransitionV2 (fj_effect K) c n (transition_context K s c n now) now = None"
      "accepts c n \<or> \<not> ConflictDomainOccupied n \<Longrightarrow>
         es_conflicts s (effectConflictKeyV2 (ei2_ConflictDomain (ef_Intent c))) \<in> {None, Some (ei2_ID (ef_Intent c))}"
      "same_effects s' (put_effect s c n)"
  | (issued) i f n p now where "es_effects s i = Some f" "es_permits s (pm_ID (pf_Permit p)) = None"
      "ef_State f = EffectAccepted" "permit_binds K (pf_Permit p) (ef_Intent f)"
      "n = f\<lparr>ef_State := EffectDispatchIntent, ef_Revision := ef_Revision f + 1, ef_DispatchPermitID := pm_ID (pf_Permit p),
            ef_DispatchPermitDigest := pf_PermitDigest p, ef_UpdatedUnixNano := UnixNano now\<rparr>"
      "pf_State p = DispatchPermitIssued" "DispatchPermitFactV2_Validate (fj_effect K) p = None"
      "same_effects s' (s\<lparr>es_effects := (es_effects s)(ei2_ID (ef_Intent f) \<mapsto> n), es_permits := (es_permits s)(pm_ID (pf_Permit p) \<mapsto> p)\<rparr>)"
  | (begun) i f p n now where "es_effects s i = Some f" "ef_State f = EffectDispatchIntent" "es_permits s (ef_DispatchPermitID f) = Some p"
      "n = p\<lparr>pf_State := DispatchPermitBegun, pf_Revision := pf_Revision p + 1, pf_BegunUnixNano := UnixNano now\<rparr>"
      "same_effects s' (s\<lparr>es_permits := (es_permits s)(pm_ID (pf_Permit p) \<mapsto> n)\<rparr>)"
  | (moved) i c n now where "es_permits s i = Some c" "pf_State n = pf_State c \<or> pf_State n \<noteq> DispatchPermitBegun"
      "ValidateDispatchPermitTransitionV2 (fj_effect K) c n now = None"
      "same_effects s' (s\<lparr>es_permits := (es_permits s)(i \<mapsto> n)\<rparr>)"
  using assms
proof cases
  case careful_owner
  then show thesis
  proof (cases rule: owner_step_cases)
    case (issued i f n p now)
    show thesis by (rule that(4) [OF issued(1-5,8,10,12)])
  next
    case (begun i f p n now)
    show thesis by (rule that(5) [OF begun(1-4,6)])
  next
    case (moved i c n now)
    then show thesis by (intro that(6) [OF moved(1) _ moved(3,4)]) simp
  qed (fact same created)+
next
  case (careful_swap ctx q now x)
  from careful_swap(1) show thesis
  proof (rule CompareAndSwapEffect_cases)
    show thesis if "s' = s" using same that by simp
    fix c assume c: "es_effects s (ei2_ID (ef_Intent (ecas_Next q))) = Some c"
      "ValidateEffectFactTransitionV2 (fj_effect K) c (ecas_Next q) (transition_context K s c (ecas_Next q) now) now = None"
      "accepts c (ecas_Next q) \<Longrightarrow> es_conflicts s (effectConflictKeyV2 (ei2_ConflictDomain (ef_Intent c)))
         \<in> {None, Some (ei2_ID (ef_Intent c))}"
      "same_effects s' (put_effect s c (ecas_Next q))"
    with careful_swap(2) show thesis by (intro swapped [OF _ _ _ c(2) _ c(4)]) (auto simp: careful_request_def)
  qed
next
  case (careful_permit ctx p now z)
  from careful_permit(1) show thesis
  proof (rule CompareAndSwapDispatchPermit_cases)
    show thesis if "s' = s" using same that by simp
    fix c assume c: "es_permits s (pcas_PermitID p) = Some c"
      "ValidateDispatchPermitTransitionV2 (fj_effect K) c (pcas_Next p) now = None"
      "same_effects s' (s\<lparr>es_permits := (es_permits s)(pcas_PermitID p \<mapsto> pcas_Next p)\<rparr>)"
    show thesis by (rule moved [OF c(1) _ c(2,3)]) (use careful_permit(2) in simp)
  qed
qed

definition has_outcome :: "EffectFactStateV2 \<Rightarrow> bool" where
  "has_outcome st \<longleftrightarrow> st = EffectDispatched \<or> st = EffectUnknownOutcome \<or> st = EffectSettled \<or> st = EffectCompensated"

definition holds_domain :: "EffectFactV2 \<Rightarrow> bool" where
  "holds_domain f \<longleftrightarrow> ef_State f \<noteq> EffectProposed \<and> ConflictDomainOccupied f"

abbreviation domain_key :: "EffectFactV2 \<Rightarrow> string" where
  "domain_key f \<equiv> effectConflictKeyV2 (ei2_ConflictDomain (ef_Intent f))"

definition careful_ok :: "fact_json \<Rightarrow> EffectStoreV2 \<Rightarrow> bool" where
  "careful_ok K s \<longleftrightarrow> effects_ok K s
     \<and> (\<forall>i f. es_effects s i = Some f \<longrightarrow> ef_DispatchPermitID f \<noteq> '''' \<longrightarrow>
          (\<exists>p. es_permits s (ef_DispatchPermitID f) = Some p \<and> permit_binds K (pf_Permit p) (ef_Intent f)))
     \<and> (\<forall>k p. es_permits s k = Some p \<longrightarrow> (\<exists>f. es_effects s (pm_IntentID (pf_Permit p)) = Some f \<and> ef_DispatchPermitID f = k))
     \<and> (\<forall>i f p. es_effects s i = Some f \<longrightarrow> es_permits s (ef_DispatchPermitID f) = Some p \<longrightarrow>
          (has_outcome (ef_State f) \<longrightarrow> pf_State p = DispatchPermitBegun)
          \<and> (pf_State p = DispatchPermitBegun \<longrightarrow> ef_State f \<noteq> EffectRejected))
     \<and> (\<forall>i f. es_effects s i = Some f \<longrightarrow> has_outcome (ef_State f) \<longrightarrow> ef_DispatchPermitID f \<noteq> '''')
     \<and> (\<forall>i f. es_effects s i = Some f \<longrightarrow> holds_domain f \<longrightarrow> es_conflicts s (domain_key f) = Some i)"

lemma careful_okD:
  assumes "careful_ok K s"
  shows "effects_ok K s"
    "es_effects s i = Some f \<Longrightarrow> ef_DispatchPermitID f \<noteq> '''' \<Longrightarrow>
       \<exists>p. es_permits s (ef_DispatchPermitID f) = Some p \<and> permit_binds K (pf_Permit p) (ef_Intent f)"
    "es_permits s k = Some p \<Longrightarrow> \<exists>f. es_effects s (pm_IntentID (pf_Permit p)) = Some f \<and> ef_DispatchPermitID f = k"
    "es_effects s i = Some f \<Longrightarrow> es_permits s (ef_DispatchPermitID f) = Some p \<Longrightarrow>
       (has_outcome (ef_State f) \<longrightarrow> pf_State p = DispatchPermitBegun) \<and> (pf_State p = DispatchPermitBegun \<longrightarrow> ef_State f \<noteq> EffectRejected)"
    "es_effects s i = Some f \<Longrightarrow> has_outcome (ef_State f) \<Longrightarrow> ef_DispatchPermitID f \<noteq> ''''"
    "es_effects s i = Some f \<Longrightarrow> holds_domain f \<Longrightarrow> es_conflicts s (domain_key f) = Some i"
  using assms unfolding careful_ok_def by blast+

lemma careful_ok_new: "careful_ok K NewEffectStoreV2"
  by (simp add: careful_ok_def effects_ok_new) (simp add: NewEffectStoreV2_def)

lemma permit_id_nonempty:
  assumes "effects_ok K s" "es_permits s k = Some p"
  shows "k \<noteq> ''''"
  using effects_okD(2) [OF assms] by (auto simp: DispatchPermitFactV2_Validate_def DispatchPermitV2_Validate_def)

lemma created_shape:
  assumes "EffectFactV2_Validate J f = None" "ef_State f = EffectProposed"
  shows "ef_DispatchPermitID f = ''''" "\<not> has_outcome (ef_State f)" "\<not> holds_domain f"
  using accepted_shape(1) [OF assms(1)] assms(2) by (simp_all add: has_outcome_def holds_domain_def)

text \<open>A version that keeps or takes its domain had it already, or accepts the effect.\<close>

lemma hold_change:
  assumes t: "ValidateEffectFactTransitionV2 J c n ctx now = None" and h: "holds_domain n"
  shows "holds_domain c \<or> accepts c n"
proof (cases "ef_State c = EffectProposed")
  case True
  with t h show ?thesis
    by (cases "ef_State n") (auto simp: ValidateEffectFactTransitionV2_def holds_domain_def ConflictDomainOccupied_def accepts_def
        same_state_error_def)
next
  case False
  have cl: "validateClosureTransitionV2 c n ctx = None"
    and st: "(if ef_State c = ef_State n then same_state_error c n else main_state_error (ef_State c) (ef_State n) ctx) = None"
    using t by (simp_all add: ValidateEffectFactTransitionV2_def)
  have r: "ef_RemoteResidual c \<in> {RemoteResidualNotRequired, RemoteResidualConfirmedAbsent} \<Longrightarrow> ef_RemoteResidual n = ef_RemoteResidual c"
    "ef_Cleanup c \<in> {EffectCleanupNotRequired, EffectCleanupComplete} \<Longrightarrow> ef_Cleanup n = ef_Cleanup c"
    using cl by (auto simp: validateClosureTransitionV2_def residual_move_def cleanup_move_def split: if_splits)
  have m: "ef_State c \<noteq> EffectRejected" "ef_State c = EffectSettled \<or> ef_State c = EffectCompensated \<Longrightarrow> ef_State n = EffectSettled \<or> ef_State n = EffectCompensated"
    using st by (auto simp: same_state_error_def split: if_splits)
  show ?thesis
  proof (rule ccontr)
    assume "\<not> ?thesis"
    then have "\<not> ConflictDomainOccupied c" using False by (simp add: holds_domain_def)
    then have "\<not> ConflictDomainOccupied n" using r m by (auto simp: ConflictDomainOccupied_def split: if_splits)
    then show False using h by (simp add: holds_domain_def)
  qed
qed

lemma swap_outcome:
  assumes t: "ValidateEffectFactTransitionV2 J c n (transition_context K s c n now) now = None"
  shows "has_outcome (ef_State n) \<Longrightarrow> has_outcome (ef_State c)
      \<or> ef_DispatchPermitID c \<noteq> '''' \<and> (\<exists>p. es_permits s (ef_DispatchPermitID c) = Some p \<and> pf_State p = DispatchPermitBegun)"
    and "ef_State n = EffectRejected \<Longrightarrow> ef_DispatchPermitID c \<noteq> '''' \<Longrightarrow> es_permits s (ef_DispatchPermitID c) = Some p \<Longrightarrow>
      pf_State p \<noteq> DispatchPermitBegun"
proof -
  have v: "EffectFactV2_Validate J c = None"
    and st: "(if ef_State c = ef_State n then same_state_error c n
       else main_state_error (ef_State c) (ef_State n) (transition_context K s c n now)) = None"
    using t by (simp_all add: ValidateEffectFactTransitionV2_def)
  show "has_outcome (ef_State c)
      \<or> ef_DispatchPermitID c \<noteq> '''' \<and> (\<exists>p. es_permits s (ef_DispatchPermitID c) = Some p \<and> pf_State p = DispatchPermitBegun)"
    if "has_outcome (ef_State n)"
    using st that
    by (cases "ef_State c"; cases "ef_State n") (auto simp: has_outcome_def transition_context_def Let_def split: option.splits if_splits)
  show "pf_State p \<noteq> DispatchPermitBegun"
    if "ef_State n = EffectRejected" "ef_DispatchPermitID c \<noteq> ''''" "es_permits s (ef_DispatchPermitID c) = Some p"
    using st that accepted_shape(1) [OF v]
    by (cases "ef_State c") (auto simp: same_state_error_def transition_context_def)
qed

lemma careful_swap_ok:
  assumes ok: "careful_ok K s" and c: "es_effects s (ei2_ID (ef_Intent c)) = Some c" and n: "ef_Intent n = ef_Intent c"
      "ef_DispatchPermitID n = ef_DispatchPermitID c"
    and t: "ValidateEffectFactTransitionV2 (fj_effect K) c n (transition_context K s c n now) now = None"
    and own: "accepts c n \<or> \<not> ConflictDomainOccupied n \<Longrightarrow> es_conflicts s (domain_key c) \<in> {None, Some (ei2_ID (ef_Intent c))}"
    and e: "effects_ok K s'" and s': "same_effects s' (put_effect s c n)"
  shows "careful_ok K s'"
proof -
  let ?i = "ei2_ID (ef_Intent c)"
  have eff: "es_effects s' = (es_effects s)(?i \<mapsto> n)" and per: "es_permits s' = es_permits s"
    and con: "es_conflicts s' = es_conflicts (put_effect s c n)"
    using s' n by (simp_all add: same_effects_def)
  have a: "\<exists>p. es_permits s' (ef_DispatchPermitID f) = Some p \<and> permit_binds K (pf_Permit p) (ef_Intent f)"
    if "es_effects s' i = Some f" "ef_DispatchPermitID f \<noteq> ''''" for i f
    using that careful_okD(2) [OF ok] c n by (auto simp: eff per split: if_splits)
  have b: "\<exists>f. es_effects s' (pm_IntentID (pf_Permit p)) = Some f \<and> ef_DispatchPermitID f = k" if "es_permits s' k = Some p" for k p
    using that careful_okD(3) [OF ok] c n by (fastforce simp: eff per)
  have d: "(has_outcome (ef_State f) \<longrightarrow> pf_State p = DispatchPermitBegun) \<and> (pf_State p = DispatchPermitBegun \<longrightarrow> ef_State f \<noteq> EffectRejected)"
    if f: "es_effects s' i = Some f" "es_permits s' (ef_DispatchPermitID f) = Some p" for i f p
  proof (cases "i = ?i")
    case True
    then have f: "f = n" "es_permits s (ef_DispatchPermitID c) = Some p" using f n by (simp_all add: eff per)
    have ne: "ef_DispatchPermitID c \<noteq> ''''" using permit_id_nonempty [OF careful_okD(1) [OF ok] f(2)] .
    show ?thesis using swap_outcome [OF t] careful_okD(4) [OF ok c f(2)] ne f by auto
  next
    case False
    then show ?thesis using f careful_okD(4) [OF ok] by (simp add: eff per)
  qed
  have g: "ef_DispatchPermitID f \<noteq> ''''" if "es_effects s' i = Some f" "has_outcome (ef_State f)" for i f
    using that swap_outcome(1) [OF t] careful_okD(5) [OF ok] c n by (auto simp: eff split: if_splits)
  have h: "es_conflicts s' (domain_key f) = Some i" if f: "es_effects s' i = Some f" "holds_domain f" for i f
  proof (cases "i = ?i")
    case True
    then have "f = n" using f by (simp add: eff)
    with f have "holds_domain c \<or> accepts c n" "ConflictDomainOccupied n" using hold_change [OF t] by (auto simp: holds_domain_def)
    then have "holds_domain c \<Longrightarrow> es_conflicts s (domain_key c) = Some ?i" "holds_domain c \<or> accepts c n"
      using careful_okD(6) [OF ok c] by auto
    then show ?thesis using \<open>f = n\<close> \<open>ConflictDomainOccupied n\<close> True n by (auto simp: con put_effect_def Let_def)
  next
    case False
    then have "es_conflicts s (domain_key f) = Some i" using f careful_okD(6) [OF ok] by (simp add: eff)
    moreover have "domain_key f \<noteq> domain_key c" if "accepts c n \<or> \<not> ConflictDomainOccupied n"
      using own [OF that] False calculation by auto
    ultimately show ?thesis using n by (auto simp: con put_effect_def Let_def)
  qed
  show ?thesis unfolding careful_ok_def using e a b d g h by blast
qed

lemma careful_issue_ok:
  assumes ok: "careful_ok K s" and f: "es_effects s i = Some f" "ef_State f = EffectAccepted"
    and p: "es_permits s (pm_ID (pf_Permit p)) = None" "permit_binds K (pf_Permit p) (ef_Intent f)" "pf_State p = DispatchPermitIssued"
    and n: "n = f\<lparr>ef_State := EffectDispatchIntent, ef_Revision := ef_Revision f + 1, ef_DispatchPermitID := pm_ID (pf_Permit p),
            ef_DispatchPermitDigest := pf_PermitDigest p, ef_UpdatedUnixNano := UnixNano now\<rparr>"
    and e: "effects_ok K s'"
    and s': "same_effects s' (s\<lparr>es_effects := (es_effects s)(ei2_ID (ef_Intent f) \<mapsto> n), es_permits := (es_permits s)(pm_ID (pf_Permit p) \<mapsto> p)\<rparr>)"
  shows "careful_ok K s'"
proof -
  let ?k = "pm_ID (pf_Permit p)"
  have i: "ei2_ID (ef_Intent f) = i" and v: "EffectFactV2_Validate (fj_effect K) f = None"
    using effects_okD(1) [OF careful_okD(1) [OF ok] f(1)] by auto
  have eff: "es_effects s' = (es_effects s)(i \<mapsto> n)" and per: "es_permits s' = (es_permits s)(?k \<mapsto> p)" and con: "es_conflicts s' = es_conflicts s"
    using s' i by (simp_all add: same_effects_def)
  have ni: "ef_Intent n = ef_Intent f" "ef_DispatchPermitID n = ?k" "ef_State n = EffectDispatchIntent" using n by simp_all
  have fd: "ef_DispatchPermitID f = ''''" using accepted_shape(1) [OF v] f(2) by simp
  have pi: "pm_IntentID (pf_Permit p) = i" using p(2) i by (simp add: permit_binds_def)
  have old: "k \<noteq> ?k" if "es_permits s k = Some q" for k q using that p(1) by auto
  have "\<exists>q. es_permits s' (ef_DispatchPermitID g) = Some q \<and> permit_binds K (pf_Permit q) (ef_Intent g)"
    if g: "es_effects s' j = Some g" "ef_DispatchPermitID g \<noteq> ''''" for j g
  proof (cases "j = i")
    case True
    then show ?thesis using g p(2) ni by (simp add: eff per)
  next
    case False
    then have "es_effects s j = Some g" using g(1) by (simp add: eff)
    then obtain q where "es_permits s (ef_DispatchPermitID g) = Some q" "permit_binds K (pf_Permit q) (ef_Intent g)"
      using careful_okD(2) [OF ok] g(2) by blast
    then show ?thesis using old by (auto simp: per)
  qed
  moreover have "\<exists>g. es_effects s' (pm_IntentID (pf_Permit q)) = Some g \<and> ef_DispatchPermitID g = k" if "es_permits s' k = Some q" for k q
  proof (cases "k = ?k")
    case True
    then show ?thesis using that pi ni by (simp add: eff per)
  next
    case False
    then have q: "es_permits s k = Some q" using that by (simp add: per)
    then obtain g where "es_effects s (pm_IntentID (pf_Permit q)) = Some g" "ef_DispatchPermitID g = k"
      using careful_okD(3) [OF ok] by blast
    moreover from this have "pm_IntentID (pf_Permit q) \<noteq> i" using permit_id_nonempty [OF careful_okD(1) [OF ok] q] fd f(1) by auto
    ultimately show ?thesis by (simp add: eff)
  qed
  moreover have "(has_outcome (ef_State g) \<longrightarrow> pf_State q = DispatchPermitBegun) \<and> (pf_State q = DispatchPermitBegun \<longrightarrow> ef_State g \<noteq> EffectRejected)"
    if g: "es_effects s' j = Some g" "es_permits s' (ef_DispatchPermitID g) = Some q" for j g q
  proof (cases "j = i")
    case True
    then show ?thesis using g ni by (simp add: eff has_outcome_def)
  next
    case j: False
    then have g': "es_effects s j = Some g" using g by (simp add: eff)
    have "ef_DispatchPermitID g \<noteq> ?k"
    proof
      assume "ef_DispatchPermitID g = ?k"
      moreover have "?k \<noteq> ''''" using permit_id_nonempty [OF e, of ?k p] by (simp add: per)
      ultimately show False using careful_okD(2) [OF ok g'] p(1) by auto
    qed
    then show ?thesis using careful_okD(4) [OF ok g'] g by (simp add: per)
  qed
  moreover have "ef_DispatchPermitID g \<noteq> ''''" if "es_effects s' j = Some g" "has_outcome (ef_State g)" for j g
    using that careful_okD(5) [OF ok] ni by (auto simp: eff has_outcome_def split: if_splits)
  moreover have "es_conflicts s' (domain_key g) = Some j" if "es_effects s' j = Some g" "holds_domain g" for j g
    using that careful_okD(6) [OF ok f(1)] careful_okD(6) [OF ok, of j g] f(2) ni
    by (auto simp: eff con holds_domain_def ConflictDomainOccupied_def split: if_splits)
  ultimately show ?thesis unfolding careful_ok_def using e by blast
qed

text \<open>A permit version that is begun only if the effect still waits for it.\<close>

lemma careful_permit_ok:
  assumes ok: "careful_ok K s" and c: "es_permits s k = Some c" and n: "pf_Permit n = pf_Permit c"
    and st: "pf_State c = DispatchPermitBegun \<Longrightarrow> pf_State n = DispatchPermitBegun"
    and b: "pf_State n = DispatchPermitBegun \<Longrightarrow> pf_State c = DispatchPermitBegun
        \<or> (\<exists>i f. es_effects s i = Some f \<and> ef_DispatchPermitID f = k \<and> ef_State f = EffectDispatchIntent)"
    and e: "effects_ok K s'" and s': "same_effects s' (s\<lparr>es_permits := (es_permits s)(k \<mapsto> n)\<rparr>)"
  shows "careful_ok K s'"
proof -
  have eff: "es_effects s' = es_effects s" and per: "es_permits s' = (es_permits s)(k \<mapsto> n)" and con: "es_conflicts s' = es_conflicts s"
    using s' by (simp_all add: same_effects_def)
  have one: "i = j" "f = g" if "es_effects s i = Some f" "es_effects s j = Some g" "ef_DispatchPermitID f = k" "ef_DispatchPermitID g = k" for i j f g
  proof -
    have ne: "k \<noteq> ''''" using permit_id_nonempty [OF careful_okD(1) [OF ok] c] .
    have "permit_binds K (pf_Permit c) (ef_Intent f)" "permit_binds K (pf_Permit c) (ef_Intent g)"
      using careful_okD(2) [OF ok that(1)] careful_okD(2) [OF ok that(2)] that(3,4) ne c by auto
    then have "ei2_ID (ef_Intent f) = ei2_ID (ef_Intent g)" by (simp add: permit_binds_def)
    then show "i = j" using effects_okD(1) [OF careful_okD(1) [OF ok]] that(1,2) by metis
    with that show "f = g" by simp
  qed
  have "\<exists>q. es_permits s' (ef_DispatchPermitID g) = Some q \<and> permit_binds K (pf_Permit q) (ef_Intent g)"
    if "es_effects s' j = Some g" "ef_DispatchPermitID g \<noteq> ''''" for j g
    using careful_okD(2) [OF ok] that c n by (fastforce simp: eff per)
  moreover have "\<exists>g. es_effects s' (pm_IntentID (pf_Permit q)) = Some g \<and> ef_DispatchPermitID g = j" if "es_permits s' j = Some q" for j q
    using careful_okD(3) [OF ok] that c n by (auto simp: eff per split: if_splits)
  moreover have "(has_outcome (ef_State g) \<longrightarrow> pf_State q = DispatchPermitBegun) \<and> (pf_State q = DispatchPermitBegun \<longrightarrow> ef_State g \<noteq> EffectRejected)"
    if g: "es_effects s' j = Some g" "es_permits s' (ef_DispatchPermitID g) = Some q" for j g q
  proof (cases "ef_DispatchPermitID g = k")
    case True
    then have "q = n" "es_effects s j = Some g" using g by (simp_all add: eff per)
    moreover have "es_permits s (ef_DispatchPermitID g) = Some c" using True c by simp
    ultimately show ?thesis using careful_okD(4) [OF ok, of j g c] st b one [of j g] True by auto
  next
    case False
    then show ?thesis using careful_okD(4) [OF ok] g by (simp add: eff per)
  qed
  ultimately show ?thesis unfolding careful_ok_def eff con using e careful_okD(5,6) [OF ok] by blast
qed

lemma careful_step_ok:
  assumes ok: "careful_ok K s" and step: "careful_step K s s'"
  shows "careful_ok K s'"
proof -
  note eok = careful_okD(1) [OF ok]
  note e = effect_step_later(1) [OF eok careful_step_step [OF step]]
  from step show ?thesis
  proof (cases rule: careful_step_cases)
    case same
    then show ?thesis using ok e unfolding careful_ok_def same_effects_def by simp
  next
    case (created f)
    let ?i = "ei2_ID (ef_Intent f)"
    have eff: "es_effects s' = (es_effects s)(?i \<mapsto> f)" and per: "es_permits s' = es_permits s" and con: "es_conflicts s' = es_conflicts s"
      using created(5) by (simp_all add: same_effects_def)
    note sh = created_shape [OF created(1,2)]
    have none: "es_permits s '''' = None" using permit_id_nonempty [OF eok] by (cases "es_permits s ''''") auto
    have "\<exists>f'. es_effects s' (pm_IntentID (pf_Permit p)) = Some f' \<and> ef_DispatchPermitID f' = k" if p: "es_permits s' k = Some p" for k p
    proof -
      obtain g where "es_effects s (pm_IntentID (pf_Permit p)) = Some g" "ef_DispatchPermitID g = k"
        using careful_okD(3) [OF ok] p by (auto simp: per)
      then show ?thesis using created(3) by (auto simp: eff)
    qed
    moreover have j: "g = f \<or> es_effects s j = Some g" if "es_effects s' j = Some g" for j g
      using that by (auto simp: eff split: if_splits)
    have "\<exists>p. es_permits s' (ef_DispatchPermitID g) = Some p \<and> permit_binds K (pf_Permit p) (ef_Intent g)"
      if "es_effects s' j = Some g" "ef_DispatchPermitID g \<noteq> ''''" for j g
      using j [OF that(1)] that(2) sh(1) careful_okD(2) [OF ok] unfolding per by blast
    moreover have "(has_outcome (ef_State g) \<longrightarrow> pf_State p = DispatchPermitBegun) \<and> (pf_State p = DispatchPermitBegun \<longrightarrow> ef_State g \<noteq> EffectRejected)"
      if g: "es_effects s' j = Some g" "es_permits s' (ef_DispatchPermitID g) = Some p" for j g p
      using j [OF g(1)] g(2) sh(1) none careful_okD(4) [OF ok, of j g p] unfolding per by auto
    moreover have "ef_DispatchPermitID g \<noteq> ''''" if "es_effects s' j = Some g" "has_outcome (ef_State g)" for j g
      using j [OF that(1)] that(2) sh(2) careful_okD(5) [OF ok] by blast
    moreover have "es_conflicts s' (domain_key g) = Some j" if "es_effects s' j = Some g" "holds_domain g" for j g
      using j [OF that(1)] that(2) sh(3) careful_okD(6) [OF ok] unfolding con by blast
    ultimately show ?thesis unfolding careful_ok_def using e by blast
  next
    case (swapped c n now)
    then show ?thesis using careful_swap_ok [OF ok swapped(1-4) _ e] by blast
  next
    case (issued i f n p now)
    then show ?thesis using careful_issue_ok [OF ok issued(1,3,2,4,6,5) e] by blast
  next
    case (begun i f p n now)
    have "pm_ID (pf_Permit p) = ef_DispatchPermitID f" using effects_okD(2) [OF eok begun(3)] by simp
    then show ?thesis using begun careful_permit_ok [OF ok begun(3), of n s'] e by auto
  next
    case (moved i c n now)
    then show ?thesis using careful_permit_ok [OF ok moved(1), of n s'] e permit_later(1) [OF moved(3)] by (auto simp: later_permit_def)
  qed
qed

lemma careful_run_ok: "careful_run K s t \<Longrightarrow> careful_ok K s \<Longrightarrow> careful_ok K t"
  by (induction rule: careful_run.induct) (auto dest: careful_step_ok)

end
