(* ===== verification/EffectProperties.thy ===== *)
theory EffectProperties
  imports EffectInvariant Samples
begin

text \<open>
  The properties of the effect store, and two concrete histories that show what its raw
  compare-and-swaps let a caller do.
\<close>

section \<open>Concrete effects\<close>

definition sample_fact_json :: fact_json where
  "sample_fact_json = \<lparr>fj_effect = sample_effect_json, fj_Settlement = (\<lambda>x. Some ''{}''), fj_Budget = (\<lambda>x. Some ''{}'')\<rparr>"

definition effect_fact :: "string \<Rightarrow> string \<Rightarrow> EffectFactV2" where
  "effect_fact i domain =
     \<lparr>ef_Intent = sample_intent i domain, ef_IntentDigest = effect_hash ''EffectIntentV2'' (CHR 0x22 # i @ [CHR 0x22]),
      ef_State = EffectProposed, ef_Revision = 1, ef_DispatchPermitID = '''', ef_DispatchPermitDigest = '''',
      ef_DispatchReceipt = None, ef_Settlement = None, ef_Compensation = None, ef_RemoteResidual = RemoteResidualNotRequired,
      ef_ResidualResolution = None, ef_Cleanup = EffectCleanupNotRequired, ef_CleanupResolution = None, ef_RejectionReason = '''',
      ef_UpdatedUnixNano = 10\<rparr>"

definition accepted_fact :: "string \<Rightarrow> string \<Rightarrow> EffectFactV2" where
  "accepted_fact i domain = (effect_fact i domain)\<lparr>ef_State := EffectAccepted, ef_Revision := 2, ef_UpdatedUnixNano := 20\<rparr>"

definition rejected_fact :: "string \<Rightarrow> string \<Rightarrow> EffectFactV2" where
  "rejected_fact i domain =
     (effect_fact i domain)\<lparr>ef_State := EffectRejected, ef_Revision := 2, ef_RejectionReason := ''x'', ef_UpdatedUnixNano := 20\<rparr>"

lemma sample_json_simps [simp]:
  "fj_effect sample_fact_json = sample_effect_json" "ei2_ID (sample_intent i domain) = i"
  by (simp_all add: sample_fact_json_def sample_intent_def)

lemma short_name [simp]: "\<not> blank ''a''" "\<not> blank ''b''" "\<not> blank ''c''" "\<not> blank ''d''" "\<not> blank ''p''" "\<not> blank ''x''"
  by (simp_all add: graphic_def)

lemma sample_domains [simp]: "ValidateNamespacedNameV2 ''x/y'' = None" "ValidateNamespacedNameV2 ''x/z'' = None"
  by code_simp+

lemma fact_ids [simp]:
  "ef_Intent (effect_fact i d) = sample_intent i d" "ef_Intent (accepted_fact i d) = sample_intent i d" "ef_Intent (rejected_fact i d) = sample_intent i d"
  "ef_State (effect_fact i d) = EffectProposed" "ef_State (accepted_fact i d) = EffectAccepted" "ef_State (rejected_fact i d) = EffectRejected"
  "ef_Revision (effect_fact i d) = 1" "ef_DispatchPermitID (effect_fact i d) = ''''"
  by (simp_all add: effect_fact_def accepted_fact_def rejected_fact_def)

lemma effect_fact_valid:
  assumes "ValidateNamespacedNameV2 d = None" "\<not> blank i" "length i \<le> 256"
  shows "EffectFactV2_Validate sample_effect_json (effect_fact i d) = None"
    "EffectFactV2_Validate sample_effect_json (accepted_fact i d) = None"
    "EffectFactV2_Validate sample_effect_json (rejected_fact i d) = None"
  using sample_intent_valid [OF assms] sample_intent_digest [OF assms]
  by (simp_all add: EffectFactV2_Validate_def effect_fact_def accepted_fact_def rejected_fact_def)

lemma effect_fact_moves:
  assumes "ValidateNamespacedNameV2 d = None" "\<not> blank i" "length i \<le> 256"
  shows "ValidateEffectFactTransitionV2 sample_effect_json (effect_fact i d) (accepted_fact i d) ctx (at_nano 20) = None"
    "ValidateEffectFactTransitionV2 sample_effect_json (effect_fact i d) (rejected_fact i d) ctx (at_nano 20) = None"
  by (simp_all add: ValidateEffectFactTransitionV2_def effect_fact_valid [OF assms])
    (simp_all add: effect_fact_def accepted_fact_def rejected_fact_def validateClosureTransitionV2_def)

section \<open>Running the store\<close>

lemma create_runs:
  assumes "EffectFactV2_Validate (fj_effect K) f = None" "ef_State f = EffectProposed" "ef_Revision f = 1"
    "es_effects s (ei2_ID (ef_Intent f)) = None" "es_idempotency s (effectIdempotencyKeyV2 f) = None"
  shows "CreateEffect K s LiveContext f = (s\<lparr>es_effects := (es_effects s)(ei2_ID (ef_Intent f) \<mapsto> f),
                   es_idempotency := (es_idempotency s)(effectIdempotencyKeyV2 f \<mapsto> ei2_ID (ef_Intent f))\<rparr>, Inr f)"
  using assms by (simp add: CreateEffect_def)

lemma swap_runs:
  assumes "es_effects s (ei2_ID (ef_Intent n)) = Some c" "ef_Revision c = r"
    "ValidateEffectFactTransitionV2 (fj_effect K) c n (transition_context K s c n now) now = None"
    "accepts c n \<Longrightarrow> es_conflicts s (domain_key c) = None" "\<not> es_loseNextEffectCASReply s"
  shows "CompareAndSwapEffect K s LiveContext \<lparr>ecas_ExpectedRevision = r, ecas_Next = n\<rparr> now = (put_effect s c n, Inr n)"
proof -
  have "es_loseNextEffectCASReply (put_effect s c n) = es_loseNextEffectCASReply s" by (simp add: put_effect_def Let_def)
  then show ?thesis using assms by (auto simp: CompareAndSwapEffect_def Let_def)
qed

text \<open>Three proposals that want one conflict domain, and a fourth in a domain of its own.\<close>

definition proposals :: EffectStoreV2 where
  "proposals = NewEffectStoreV2\<lparr>
     es_effects := [''a'' \<mapsto> effect_fact ''a'' ''x/y'', ''b'' \<mapsto> effect_fact ''b'' ''x/y'', ''c'' \<mapsto> effect_fact ''c'' ''x/y'',
       ''d'' \<mapsto> effect_fact ''d'' ''x/z''],
     es_idempotency := [effectIdempotencyKeyV2 (effect_fact ''a'' ''x/y'') \<mapsto> ''a'', effectIdempotencyKeyV2 (effect_fact ''b'' ''x/y'') \<mapsto> ''b'',
       effectIdempotencyKeyV2 (effect_fact ''c'' ''x/y'') \<mapsto> ''c'', effectIdempotencyKeyV2 (effect_fact ''d'' ''x/z'') \<mapsto> ''d'']\<rparr>"

lemma effect_idem_keys [simp]: "effectIdempotencyKeyV2 (effect_fact i d) = effectIdempotencyKeyV2 (effect_fact j e) \<longleftrightarrow> i = j"
  by (simp add: effectIdempotencyKeyV2_def idempotency_key_def Let_def sample_intent_def)

lemma proposals_reachable: "careful_run sample_fact_json NewEffectStoreV2 proposals"
proof -
  let ?put = "\<lambda>s i d. s\<lparr>es_effects := (es_effects s)(i \<mapsto> effect_fact i d),
      es_idempotency := (es_idempotency s)(effectIdempotencyKeyV2 (effect_fact i d) \<mapsto> i)\<rparr>"
  have step: "careful_step sample_fact_json s (?put s i d)"
    if "es_effects s i = None" "es_idempotency s (effectIdempotencyKeyV2 (effect_fact i d)) = None" "\<not> blank i" "length i \<le> 256"
      "ValidateNamespacedNameV2 d = None" for s i d
  proof -
    have v: "EffectFactV2_Validate (fj_effect sample_fact_json) (effect_fact i d) = None" using effect_fact_valid(1) [of d i] that by simp
    show ?thesis by (rule careful_owner [OF create_effect]) (use create_runs [OF v, of s] that in simp)
  qed
  have "careful_run sample_fact_json NewEffectStoreV2
      (?put (?put (?put (?put NewEffectStoreV2 ''a'' ''x/y'') ''b'' ''x/y'') ''c'' ''x/y'') ''d'' ''x/z'')"
    by (rule careful_go [OF careful_go [OF careful_go [OF careful_go [OF careful_stay step] step] step] step]; simp add: NewEffectStoreV2_def)
  also have "?put (?put (?put (?put NewEffectStoreV2 ''a'' ''x/y'') ''b'' ''x/y'') ''c'' ''x/y'') ''d'' ''x/z'' = proposals"
    by (simp add: proposals_def NewEffectStoreV2_def)
  finally show ?thesis .
qed

text \<open>A compare-and-swap of a sample, as one step of a run.\<close>

lemma swap_go:
  assumes "effect_run K NewEffectStoreV2 s" "es_effects s (ei2_ID (ef_Intent n)) = Some c"
    "ValidateEffectFactTransitionV2 (fj_effect K) c n (transition_context K s c n now) now = None"
    "accepts c n \<Longrightarrow> es_conflicts s (domain_key c) = None" "\<not> es_loseNextEffectCASReply s"
  shows "effect_run K NewEffectStoreV2 (put_effect s c n)"
  by (rule effect_go [OF assms(1) swap_effect], rule swap_runs [OF assms(2) refl assms(3) _ assms(5)]) (rule assms(4))

lemma swap_careful:
  assumes "careful_run K NewEffectStoreV2 s" "es_effects s (ei2_ID (ef_Intent n)) = Some c"
    "ValidateEffectFactTransitionV2 (fj_effect K) c n (transition_context K s c n now) now = None"
    "accepts c n \<Longrightarrow> es_conflicts s (domain_key c) = None" "\<not> es_loseNextEffectCASReply s"
    "careful_request s \<lparr>ecas_ExpectedRevision = ef_Revision c, ecas_Next = n\<rparr>"
  shows "careful_run K NewEffectStoreV2 (put_effect s c n)"
  by (rule careful_go [OF assms(1) careful_swap], rule swap_runs [OF assms(2) refl assms(3) _ assms(5)]) (rule assms(4), assumption, rule assms(6))

section \<open>A permit\<close>

definition sample_fence :: "string \<Rightarrow> ExecutionFence" where
  "sample_fence i = \<lparr>fe_BoundaryScope = FenceBoundaryActivation, fe_Scope = sample_scope None, fe_CapabilityGrantDigest = sample_digest,
     fe_EffectIntentID = i, fe_EffectIntentRevision = 1, fe_CanonicalPayloadDigest = sample_digest, fe_ExpiresAt = at_nano 900\<rparr>"

text \<open>The permit of the sample effect \<open>i\<close>.\<close>

definition sample_permit :: "string \<Rightarrow> string \<Rightarrow> DispatchPermitV2" where
  "sample_permit i d =
     (let e = sample_intent i d in
      \<lparr>pm_ContractVersion = EffectContractVersionV2, pm_ID = ''p'', pm_Revision = 1, pm_AttemptID = ''a'', pm_IntentID = i,
       pm_IntentRevision = 1, pm_IntentDigest = effect_hash ''EffectIntentV2'' (CHR 0x22 # i @ [CHR 0x22]),
       pm_PayloadSchema = op2_Schema (ei2_Payload e), pm_PayloadDigest = op2_ContentDigest (ei2_Payload e), pm_PayloadRevision = 1,
       pm_Scope = ei2_Scope e, pm_RunID = ei2_RunID e, pm_ConflictDomain = ei2_ConflictDomain e, pm_Provider = ei2_Provider e,
       pm_EnforcementPoint = ei2_Provider e, pm_Authority = ei2_Authority e, pm_Review = ei2_Review e,
       pm_ReviewVerdictDigest = sample_digest, pm_ReviewVerdictRevision = 1, pm_ReviewSatisfactionRef = '''',
       pm_ReviewSatisfactionDigest = '''', pm_ReviewSatisfactionRevision = 0, pm_Budget = ei2_Budget e, pm_Policy = ei2_Policy e,
       pm_CurrentScope = ei2_CurrentScope e, pm_CapabilityGrantDigest = sample_digest, pm_CredentialGrantDigest = sample_digest,
       pm_FenceDigest = effect_hash ''ExecutionFenceV2Binding'' ''{}'', pm_Idempotency = ei2_Idempotency e,
       pm_IssuedUnixNano = 25, pm_ExpiresUnixNano = 900\<rparr>)"

abbreviation permit_hash :: Digest where
  "permit_hash \<equiv> effect_hash ''DispatchPermitV2'' ''{}''"

lemma sample_fence_valid [simp]: "ExecutionFence_Validate (sample_fence ''a'') = None"
  by (simp add: ExecutionFence_Validate_def sample_fence_def graphic_ascii)

lemma sample_fence_digest [simp]:
  "DigestExecutionFenceV2 sample_effect_json (sample_fence ''a'') = Inr (effect_hash ''ExecutionFenceV2Binding'' ''{}'')"
  by (simp add: DigestExecutionFenceV2_def sample_effect_json_def CanonicalJSONDigest_Inr effect_labels effect_hash_def
      MaxCanonicalDocumentBytes_def)

lemma sample_permit_valid [simp]: "DispatchPermitV2_Validate (sample_permit ''a'' ''x/y'') = None"
  by (simp add: DispatchPermitV2_Validate_def sample_permit_def Let_def sample_intent_def sample_payload_def
      ConflictDomainBindingV2_ValidateForScope_def ReviewBindingRefV2_Validate_def BudgetBindingRefV2_Validate_def
      DispatchPolicyBindingRefV2_Validate_def ExecutionScopeBindingRefV2_Validate_def IdempotencyBindingV2_Validate_def
      graphic_ascii StableTenantScopeDigestV2_def MaxDispatchPermitTTL_def)
    (simp add: sample_scope_def graphic_ascii graphic_def)

lemma sample_permit_digest [simp]: "DispatchPermitV2_DigestV2 sample_effect_json (sample_permit ''a'' ''x/y'') = Inr permit_hash"
  by (simp add: DispatchPermitV2_DigestV2_def sample_effect_json_def CanonicalJSONDigest_Inr effect_labels effect_hash_def
      MaxCanonicalDocumentBytes_def)

section \<open>One effect dispatched\<close>

text \<open>The versions of an effect that takes permit \<open>p\<close>, and of the permit.\<close>

definition intended_fact :: "string \<Rightarrow> string \<Rightarrow> EffectFactV2" where
  "intended_fact i d = (accepted_fact i d)\<lparr>ef_State := EffectDispatchIntent, ef_Revision := 3, ef_DispatchPermitID := ''p'',
     ef_DispatchPermitDigest := permit_hash, ef_UpdatedUnixNano := 30\<rparr>"

definition unknown_fact :: "string \<Rightarrow> string \<Rightarrow> EffectFactV2" where
  "unknown_fact i d = (intended_fact i d)\<lparr>ef_State := EffectUnknownOutcome, ef_Revision := 4, ef_UpdatedUnixNano := 50\<rparr>"

definition issued_permit :: DispatchPermitFactV2 where
  "issued_permit = \<lparr>pf_Permit = sample_permit ''a'' ''x/y'', pf_PermitDigest = permit_hash, pf_Fence = sample_fence ''a'',
     pf_State = DispatchPermitIssued, pf_Revision = 1, pf_EffectFactRevision = 3, pf_BegunUnixNano = 0, pf_Enforcement = None\<rparr>"

definition begun_permit :: DispatchPermitFactV2 where
  "begun_permit = issued_permit\<lparr>pf_State := DispatchPermitBegun, pf_Revision := 2, pf_BegunUnixNano := 40\<rparr>"

lemma permit_facts_valid [simp]:
  "DispatchPermitFactV2_Validate sample_effect_json issued_permit = None"
  "DispatchPermitFactV2_Validate sample_effect_json begun_permit = None"
  by (simp_all add: DispatchPermitFactV2_Validate_def issued_permit_def begun_permit_def begun_error_def)
    (simp_all add: sample_fence_def sample_permit_def sample_intent_def sample_payload_def Let_def validDispatchPermitStateV2_def)

lemma permit_begins: "ValidateDispatchPermitTransitionV2 sample_effect_json issued_permit begun_permit (at_nano 40) = None"
  by (simp add: ValidateDispatchPermitTransitionV2_def)
    (simp add: issued_permit_def begun_permit_def sample_permit_def sample_intent_def Let_def)

lemma dispatch_ids [simp]:
  "ef_Intent (intended_fact i d) = sample_intent i d" "ef_Intent (unknown_fact i d) = sample_intent i d"
  "ef_State (intended_fact i d) = EffectDispatchIntent" "ef_State (unknown_fact i d) = EffectUnknownOutcome"
  "ef_Revision (intended_fact i d) = 3" "ef_DispatchPermitID (intended_fact i d) = ''p''" "ef_DispatchPermitID (unknown_fact i d) = ''p''"
  "ef_Revision (accepted_fact i d) = 2" "ef_DispatchPermitID (accepted_fact i d) = ''''"
  "pm_ID (pf_Permit issued_permit) = ''p''" "pf_State begun_permit = DispatchPermitBegun" "pf_Permit begun_permit = pf_Permit issued_permit"
  by (simp_all add: intended_fact_def unknown_fact_def issued_permit_def begun_permit_def sample_permit_def accepted_fact_def effect_fact_def Let_def)

lemma dispatch_facts_valid:
  assumes "ValidateNamespacedNameV2 d = None" "\<not> blank i" "length i \<le> 256"
  shows "EffectFactV2_Validate sample_effect_json (intended_fact i d) = None"
    "EffectFactV2_Validate sample_effect_json (unknown_fact i d) = None"
  using sample_intent_valid [OF assms] sample_intent_digest [OF assms]
  by (simp_all add: EffectFactV2_Validate_def effect_fact_def accepted_fact_def intended_fact_def unknown_fact_def)

lemma dispatch_moves:
  assumes "ValidateNamespacedNameV2 d = None" "\<not> blank i" "length i \<le> 256"
  shows "ValidateEffectFactTransitionV2 sample_effect_json (accepted_fact i d) (intended_fact i d) ctx (at_nano 30) = None"
    "tc_PermitBegun ctx \<Longrightarrow> ValidateEffectFactTransitionV2 sample_effect_json (intended_fact i d) (unknown_fact i d) ctx (at_nano 50) = None"
  by (simp_all add: ValidateEffectFactTransitionV2_def effect_fact_valid [OF assms] dispatch_facts_valid [OF assms])
    (simp_all add: effect_fact_def accepted_fact_def intended_fact_def unknown_fact_def validateClosureTransitionV2_def)

lemma issue_runs:
  assumes "es_effects s ''a'' = Some (accepted_fact ''a'' ''x/y'')" "es_permits s ''p'' = None" "\<not> es_loseNextIssueReply s"
  shows "IssueDispatchPermit sample_fact_json s LiveContext \<lparr>idp_EffectID = ''a'', idp_ExpectedEffectRevision = 2,
       idp_Permit = sample_permit ''a'' ''x/y'', idp_Fence = sample_fence ''a''\<rparr> (at_nano 30)
     = (s\<lparr>es_effects := (es_effects s)(''a'' \<mapsto> intended_fact ''a'' ''x/y''), es_permits := (es_permits s)(''p'' \<mapsto> issued_permit)\<rparr>,
        Inr \<lparr>idr_Effect = intended_fact ''a'' ''x/y'', idr_Permit = issued_permit\<rparr>)"
proof -
  have n: "(accepted_fact ''a'' ''x/y'')\<lparr>ef_State := EffectDispatchIntent, ef_Revision := 3, ef_DispatchPermitID := ''p'',
      ef_DispatchPermitDigest := permit_hash, ef_UpdatedUnixNano := 30\<rparr> = intended_fact ''a'' ''x/y''"
    by (simp add: intended_fact_def)
  have q: "\<lparr>pf_Permit = sample_permit ''a'' ''x/y'', pf_PermitDigest = permit_hash, pf_Fence = sample_fence ''a'',
      pf_State = DispatchPermitIssued, pf_Revision = 1, pf_EffectFactRevision = 3, pf_BegunUnixNano = 0, pf_Enforcement = None\<rparr> = issued_permit"
    by (simp add: issued_permit_def)
  have b: "permit_binds sample_fact_json (sample_permit ''a'' ''x/y'') (sample_intent ''a'' ''x/y'')"
    using sample_intent_digest [of "''x/y''" "''a''"]
    by (simp add: permit_binds_def sample_permit_def Let_def digest_or_empty_def) (simp add: sample_intent_def)
  have p: "pm_ID (sample_permit ''a'' ''x/y'') = ''p''" "pm_IssuedUnixNano (sample_permit ''a'' ''x/y'') = 25"
    "pm_ExpiresUnixNano (sample_permit ''a'' ''x/y'') = 900"
    "pm_FenceDigest (sample_permit ''a'' ''x/y'') = effect_hash ''ExecutionFenceV2Binding'' ''{}''"
    by (simp_all add: sample_permit_def Let_def)
  show ?thesis
    using assms dispatch_moves(1) [of "''x/y''" "''a''"]
    by (simp add: IssueDispatchPermit_def Let_def p b n q digest_or_empty_def)
qed

lemma begin_runs:
  assumes "es_effects s ''a'' = Some (intended_fact ''a'' ''x/y'')" "es_permits s ''p'' = Some issued_permit" "\<not> es_loseNextBeginReply s"
  shows "BeginDispatch sample_fact_json s LiveContext \<lparr>bdr_EffectID = ''a'', bdr_ExpectedEffectRevision = 3, bdr_PermitID = ''p'',
       bdr_ExpectedPermitRevision = 1\<rparr> (at_nano 40)
     = (s\<lparr>es_permits := (es_permits s)(''p'' \<mapsto> begun_permit)\<rparr>, Inr begun_permit)"
proof -
  have n: "issued_permit\<lparr>pf_State := DispatchPermitBegun, pf_Revision := 2, pf_BegunUnixNano := 40\<rparr> = begun_permit"
    by (simp add: begun_permit_def)
  have r: "pf_Revision issued_permit = 1" "pf_EffectFactRevision issued_permit = 3" by (simp_all add: issued_permit_def)
  show ?thesis using assms permit_begins by (simp add: BeginDispatch_def Let_def n r)
qed

section \<open>Two runs\<close>

text \<open>The first proposal is accepted.\<close>

definition accepted_store :: EffectStoreV2 where
  "accepted_store = put_effect proposals (effect_fact ''a'' ''x/y'') (accepted_fact ''a'' ''x/y'')"

lemma proposals_simps [simp]:
  "es_effects proposals ''a'' = Some (effect_fact ''a'' ''x/y'')" "es_effects proposals ''b'' = Some (effect_fact ''b'' ''x/y'')"
  "es_effects proposals ''c'' = Some (effect_fact ''c'' ''x/y'')" "es_effects proposals ''d'' = Some (effect_fact ''d'' ''x/z'')"
  "es_conflicts proposals = Map.empty" "es_permits proposals = Map.empty"
  "\<not> es_loseNextEffectCASReply proposals" "\<not> es_loseNextIssueReply proposals" "\<not> es_loseNextBeginReply proposals"
  by (simp_all add: proposals_def NewEffectStoreV2_def)

lemma put_effect_flags [simp]:
  "es_loseNextEffectCASReply (put_effect s c n) = es_loseNextEffectCASReply s" "es_loseNextIssueReply (put_effect s c n) = es_loseNextIssueReply s"
  "es_loseNextBeginReply (put_effect s c n) = es_loseNextBeginReply s"
  by (simp_all add: put_effect_def Let_def)

lemma occupied_simps [simp]:
  "ConflictDomainOccupied (accepted_fact i d)" "\<not> ConflictDomainOccupied (rejected_fact i d)" "ConflictDomainOccupied (unknown_fact i d)"
  by (simp_all add: ConflictDomainOccupied_def)

lemma domain_keys [simp]: "effectConflictKeyV2 (ei2_ConflictDomain (sample_intent i d)) = effectConflictKeyV2 (ei2_ConflictDomain (sample_intent j e)) \<longleftrightarrow> d = e"
  by (simp add: effectConflictKeyV2_def sample_intent_def)

lemma accepted_store_reachable: "careful_run sample_fact_json NewEffectStoreV2 accepted_store"
  unfolding accepted_store_def
  by (rule swap_careful [where now = "at_nano 20"])
    (simp_all add: proposals_reachable effect_fact_moves careful_request_def)

lemma accepted_store_simps [simp]:
  "es_effects accepted_store ''a'' = Some (accepted_fact ''a'' ''x/y'')"
  "es_effects accepted_store ''b'' = Some (effect_fact ''b'' ''x/y'')" "es_effects accepted_store ''c'' = Some (effect_fact ''c'' ''x/y'')"
  "es_effects accepted_store ''d'' = Some (effect_fact ''d'' ''x/z'')" "es_permits accepted_store = Map.empty"
  "es_conflicts accepted_store = [effectConflictKeyV2 (ei2_ConflictDomain (sample_intent ''a'' ''x/y'')) \<mapsto> ''a'']"
  "\<not> es_loseNextEffectCASReply accepted_store" "\<not> es_loseNextIssueReply accepted_store" "\<not> es_loseNextBeginReply accepted_store"
  by (simp_all add: accepted_store_def) (simp add: put_effect_def accepts_def Let_def)

text \<open>It is issued a permit, the permit begins, and the provider's outcome is unknown.\<close>

definition begun_store :: EffectStoreV2 where
  "begun_store = accepted_store\<lparr>es_effects := (es_effects accepted_store)(''a'' \<mapsto> intended_fact ''a'' ''x/y''),
     es_permits := [''p'' \<mapsto> begun_permit]\<rparr>"

lemma begun_store_reachable: "careful_run sample_fact_json NewEffectStoreV2 begun_store"
proof -
  let ?s = "accepted_store\<lparr>es_effects := (es_effects accepted_store)(''a'' \<mapsto> intended_fact ''a'' ''x/y''), es_permits := [''p'' \<mapsto> issued_permit]\<rparr>"
  have "careful_step sample_fact_json accepted_store ?s"
    by (rule careful_owner [OF issue_permit]) (use issue_runs [of accepted_store] in simp)
  moreover have "careful_step sample_fact_json ?s begun_store"
    by (rule careful_owner [OF begin_dispatch]) (use begin_runs [of ?s] in \<open>simp add: begun_store_def\<close>)
  ultimately show ?thesis by (blast intro: careful_go accepted_store_reachable)
qed

lemma begun_store_simps [simp]:
  "es_effects begun_store ''a'' = Some (intended_fact ''a'' ''x/y'')" "es_effects begun_store ''d'' = Some (effect_fact ''d'' ''x/z'')"
  "es_permits begun_store = [''p'' \<mapsto> begun_permit]" "\<not> es_loseNextEffectCASReply begun_store"
  "es_conflicts begun_store = es_conflicts accepted_store"
  by (simp_all add: begun_store_def)

lemma begun_context [simp]:
  "ef_DispatchPermitID c = ''p'' \<Longrightarrow> es_permits s = [''p'' \<mapsto> begun_permit] \<Longrightarrow> tc_PermitBegun (transition_context K s c n now)"
  by (simp add: transition_context_def Let_def)

definition unknown_store :: EffectStoreV2 where
  "unknown_store = put_effect begun_store (intended_fact ''a'' ''x/y'') (unknown_fact ''a'' ''x/y'')"

lemma unknown_store_reachable: "careful_run sample_fact_json NewEffectStoreV2 unknown_store"
  unfolding unknown_store_def
  by (rule swap_careful [where now = "at_nano 50"])
    (simp_all add: begun_store_reachable dispatch_moves careful_request_def accepts_def)

section \<open>Properties\<close>

lemma InspectEffect_eq: "InspectEffect s LiveContext i = Inr f \<longleftrightarrow> es_effects s i = Some f"
  by (simp add: InspectEffect_def split: option.splits)

lemma InspectDispatchPermit_eq: "InspectDispatchPermit s LiveContext k = Inr p \<longleftrightarrow> es_permits s k = Some p"
  by (simp add: InspectDispatchPermit_def split: option.splits)

text \<open>
  In every history of the effect store an effect fact or a permit that can be read stays readable and only moves forward:
  identity, digest and recorded permit, receipt, settlement and resolutions never change again, the main state only
  advances along its order and a rejected effect is final; a permit keeps its binding, and once it has left the issued
  state its state and begin time stay.
\<close>

theorem effect_versions_monotone:
  assumes "effect_run K NewEffectStoreV2 s" "effect_run K s t"
  shows "(InspectEffect s LiveContext i = Inr f \<longrightarrow> (\<exists>g. InspectEffect t LiveContext i = Inr g \<and> later_version f g))
    \<and> (InspectDispatchPermit s LiveContext k = Inr p \<longrightarrow> (\<exists>q. InspectDispatchPermit t LiveContext k = Inr q \<and> later_permit p q))"
proof -
  have ok: "effects_ok K s" using effect_run_later [OF assms(1) effects_ok_new] by blast
  show ?thesis
    unfolding InspectEffect_eq InspectDispatchPermit_eq using effect_run_later [OF assms(2) ok] by blast
qed

theorem effect_versions_monotone_witness:
  "\<exists>g. InspectEffect unknown_store LiveContext ''a'' = Inr g \<and> later_version (accepted_fact ''a'' ''x/y'') g
     \<and> ef_State g = EffectUnknownOutcome"
proof -
  have "effect_run sample_fact_json accepted_store unknown_store"
  proof -
    let ?s = "accepted_store\<lparr>es_effects := (es_effects accepted_store)(''a'' \<mapsto> intended_fact ''a'' ''x/y''), es_permits := [''p'' \<mapsto> issued_permit]\<rparr>"
    have "effect_step sample_fact_json accepted_store ?s"
      by (rule owner [OF issue_permit]) (use issue_runs [of accepted_store] in simp)
    moreover have "effect_step sample_fact_json ?s begun_store"
      by (rule owner [OF begin_dispatch]) (use begin_runs [of ?s] in \<open>simp add: begun_store_def\<close>)
    moreover have "effect_step sample_fact_json begun_store unknown_store"
      unfolding unknown_store_def
      by (rule swap_effect, rule swap_runs [where now = "at_nano 50" and r = 3]) (simp_all add: dispatch_moves accepts_def)
    ultimately show ?thesis by (blast intro: effect_run.intros)
  qed
  from effect_versions_monotone [OF careful_run_run [OF accepted_store_reachable] this, of "''a''" "accepted_fact ''a'' ''x/y''"]
  show ?thesis by (auto simp: InspectEffect_def unknown_store_def)
qed

text \<open>
  C30: While callers of the raw compare-and-swap neither change the intent or permit of an effect nor release a conflict
  domain that another effect holds, nor begin a permit by hand: an effect with an outcome (dispatched, unknown, settled or
  compensated) names a begun permit issued for exactly its intent, no second permit names it, and a rejected effect has no
  begun permit at all.
\<close>

theorem no_outcome_without_dispatch:
  assumes "careful_run K NewEffectStoreV2 s" "InspectEffect s LiveContext i = Inr f"
  shows "(has_outcome (ef_State f) \<longrightarrow>
      (\<exists>p. InspectDispatchPermit s LiveContext (ef_DispatchPermitID f) = Inr p \<and> pf_State p = DispatchPermitBegun
         \<and> permit_binds K (pf_Permit p) (ef_Intent f)))
    \<and> (\<forall>k p. InspectDispatchPermit s LiveContext k = Inr p \<and> pm_IntentID (pf_Permit p) = i \<longrightarrow>
         k = ef_DispatchPermitID f \<and> (ef_State f = EffectRejected \<longrightarrow> pf_State p \<noteq> DispatchPermitBegun))"
proof -
  note ok = careful_run_ok [OF assms(1) careful_ok_new]
  have f: "es_effects s i = Some f" using assms(2) by (simp add: InspectEffect_eq)
  have "\<exists>p. es_permits s (ef_DispatchPermitID f) = Some p \<and> pf_State p = DispatchPermitBegun \<and> permit_binds K (pf_Permit p) (ef_Intent f)"
    if "has_outcome (ef_State f)"
    using careful_okD(2) [OF ok f careful_okD(5) [OF ok f that]] careful_okD(4) [OF ok f] that by blast
  moreover have "k = ef_DispatchPermitID f \<and> (ef_State f = EffectRejected \<longrightarrow> pf_State p \<noteq> DispatchPermitBegun)"
    if "es_permits s k = Some p" "pm_IntentID (pf_Permit p) = i" for k p
    using careful_okD(3) [OF ok that(1)] careful_okD(4) [OF ok f] that f by auto
  ultimately show ?thesis unfolding InspectDispatchPermit_eq by blast
qed

theorem no_outcome_without_dispatch_witness:
  "\<exists>p. InspectDispatchPermit unknown_store LiveContext ''p'' = Inr p \<and> pf_State p = DispatchPermitBegun
     \<and> permit_binds sample_fact_json (pf_Permit p) (sample_intent ''a'' ''x/y'')"
proof -
  have "InspectEffect unknown_store LiveContext ''a'' = Inr (unknown_fact ''a'' ''x/y'')"
    by (simp add: InspectEffect_def unknown_store_def)
  from no_outcome_without_dispatch [OF unknown_store_reachable this] show ?thesis
    by (simp add: has_outcome_def)
qed

text \<open>
  C31: While callers of the raw compare-and-swap keep to the same discipline, a conflict domain belongs to at most one effect:
  the domain index answers with the effect that holds it, and any effect that holds the same domain is that one.
\<close>

theorem conflict_domain_exclusive:
  assumes "careful_run K NewEffectStoreV2 s" "InspectEffect s LiveContext i = Inr f" "holds_domain f"
  shows "InspectConflictDomain s LiveContext (ei2_ConflictDomain (ef_Intent f)) = Inr f
    \<and> (\<forall>j g. InspectEffect s LiveContext j = Inr g \<and> holds_domain g \<and> domain_key g = domain_key f \<longrightarrow> j = i \<and> g = f)"
proof -
  note ok = careful_run_ok [OF assms(1) careful_ok_new]
  have f: "es_effects s i = Some f" "es_conflicts s (domain_key f) = Some i"
    using assms(2,3) careful_okD(6) [OF ok] by (simp_all add: InspectEffect_eq)
  have "InspectConflictDomain s LiveContext (ei2_ConflictDomain (ef_Intent f)) = Inr f"
    using f assms(3) by (simp add: InspectConflictDomain_def holds_domain_def)
  moreover have "j = i \<and> g = f" if "es_effects s j = Some g" "holds_domain g" "domain_key g = domain_key f" for j g
    using careful_okD(6) [OF ok that(1,2)] f that by simp
  ultimately show ?thesis unfolding InspectEffect_eq by blast
qed

theorem conflict_domain_exclusive_witness:
  "InspectConflictDomain unknown_store LiveContext (ei2_ConflictDomain (sample_intent ''a'' ''x/y'')) = Inr (unknown_fact ''a'' ''x/y'')"
proof -
  have "InspectEffect unknown_store LiveContext ''a'' = Inr (unknown_fact ''a'' ''x/y'')"
    by (simp add: InspectEffect_def unknown_store_def)
  from conflict_domain_exclusive [OF unknown_store_reachable this] show ?thesis
    by (simp add: holds_domain_def)
qed

text \<open>
  Rejecting a proposal frees the conflict domain of another effect: the compare-and-swap deletes the domain's index
  entry whichever effect it names, so that a third proposal is accepted into a domain that is still held.
\<close>

theorem rejection_frees_foreign_domain:
  "\<exists>s f g. effect_run sample_fact_json NewEffectStoreV2 s
     \<and> InspectEffect s LiveContext ''a'' = Inr f \<and> InspectEffect s LiveContext ''c'' = Inr g
     \<and> ef_State f = EffectAccepted \<and> ef_State g = EffectAccepted
     \<and> ei2_ConflictDomain (ef_Intent f) = ei2_ConflictDomain (ef_Intent g)
     \<and> InspectConflictDomain s LiveContext (ei2_ConflictDomain (ef_Intent f)) = Inr g"
proof -
  let ?r = "put_effect accepted_store (effect_fact ''b'' ''x/y'') (rejected_fact ''b'' ''x/y'')"
  let ?s = "put_effect ?r (effect_fact ''c'' ''x/y'') (accepted_fact ''c'' ''x/y'')"
  have r: "effect_run sample_fact_json NewEffectStoreV2 ?r"
    by (rule swap_go [where now = "at_nano 20"])
      (simp_all add: careful_run_run [OF accepted_store_reachable] effect_fact_moves accepts_def)
  have free: "es_conflicts ?r = Map.empty" by (simp add: put_effect_def accepts_def Let_def fun_eq_iff)
  have "effect_run sample_fact_json NewEffectStoreV2 ?s"
    by (rule swap_go [where now = "at_nano 20"]) (simp_all add: r effect_fact_moves free)
  moreover have "es_conflicts ?s (effectConflictKeyV2 (ei2_ConflictDomain (sample_intent ''a'' ''x/y''))) = Some ''c''"
    by (simp add: put_effect_def [of ?r] accepts_def Let_def)
  moreover have "ei2_ConflictDomain (sample_intent ''a'' ''x/y'') = ei2_ConflictDomain (sample_intent ''c'' ''x/y'')"
    by (simp add: sample_intent_def)
  ultimately show ?thesis
    by (intro exI [of _ ?s] exI [of _ "accepted_fact ''a'' ''x/y''"] exI [of _ "accepted_fact ''c'' ''x/y''"])
      (simp add: InspectEffect_def InspectConflictDomain_def)
qed

text \<open>
  An effect can reach an outcome without a permit of its own: the compare-and-swap from accepted to dispatch intent takes
  any permit id, so an effect may name the begun permit of another one and then move to an unknown outcome, although no
  permit was ever issued for it.
\<close>

theorem outcome_on_borrowed_permit:
  "\<exists>s f. effect_run sample_fact_json NewEffectStoreV2 s
     \<and> InspectEffect s LiveContext ''d'' = Inr f \<and> ef_State f = EffectUnknownOutcome
     \<and> (\<forall>k. case InspectDispatchPermit s LiveContext k of Inl e \<Rightarrow> True | Inr p \<Rightarrow> pm_IntentID (pf_Permit p) = ''a'')"
proof -
  let ?r = "put_effect begun_store (effect_fact ''d'' ''x/z'') (accepted_fact ''d'' ''x/z'')"
  let ?t = "put_effect ?r (accepted_fact ''d'' ''x/z'') (intended_fact ''d'' ''x/z'')"
  let ?s = "put_effect ?t (intended_fact ''d'' ''x/z'') (unknown_fact ''d'' ''x/z'')"
  have "effect_run sample_fact_json NewEffectStoreV2 ?r"
    by (rule swap_go [where now = "at_nano 20"])
      (simp_all add: careful_run_run [OF begun_store_reachable] effect_fact_moves)
  then have "effect_run sample_fact_json NewEffectStoreV2 ?t"
    by (rule swap_go [where now = "at_nano 30"]) (simp_all add: dispatch_moves accepts_def)
  then have "effect_run sample_fact_json NewEffectStoreV2 ?s"
    by (rule swap_go [where now = "at_nano 50"]) (simp_all add: dispatch_moves accepts_def)
  moreover have "pm_IntentID (pf_Permit begun_permit) = ''a''"
    by (simp add: begun_permit_def issued_permit_def sample_permit_def Let_def)
  ultimately show ?thesis
    by (intro exI [of _ ?s] exI [of _ "unknown_fact ''d'' ''x/z''"])
      (simp add: InspectEffect_def InspectDispatchPermit_def split: option.splits)
qed

text \<open>
  A remote residual that was found present or unknown stays so for ever: every legal successor of the effect has the same
  residual state, although the transition table lists moves that clear it, because the resolution that such a state
  must carry is immutable. The effect's conflict domain is then never released unless the effect is rejected.
\<close>

theorem open_residual_is_permanent:
  assumes "ValidateEffectFactTransitionV2 J c n ctx now = None"
    "ef_RemoteResidual c = RemoteResidualPresent \<or> ef_RemoteResidual c = RemoteResidualUnknown"
  shows "ef_RemoteResidual n = ef_RemoteResidual c \<and> (ConflictDomainOccupied n \<or> ef_State n = EffectRejected)"
proof -
  have v: "EffectFactV2_Validate J c = None" and cl: "validateClosureTransitionV2 c n ctx = None"
    using assms(1) by (simp_all add: ValidateEffectFactTransitionV2_def)
  from v assms(2) have "ef_ResidualResolution c \<noteq> None" by (auto simp: EffectFactV2_Validate_def)
  with cl have r: "ef_RemoteResidual n = ef_RemoteResidual c"
    by (auto simp: validateClosureTransitionV2_def split: if_splits)
  with assms(2) show ?thesis by (auto simp: ConflictDomainOccupied_def)
qed

theorem open_residual_is_permanent_witness:
  "ConflictDomainOccupied ((accepted_fact ''a'' ''x/y'')\<lparr>ef_RemoteResidual := RemoteResidualPresent, ef_ResidualResolution :=
     Some \<lparr>erc_EffectID = ''i'', erc_EffectRevision = 1, erc_SettlementDigest = sample_digest\<rparr>\<rparr>)"
proof -
  let ?r = "\<lambda>f. f\<lparr>ef_RemoteResidual := RemoteResidualPresent, ef_ResidualResolution :=
     Some \<lparr>erc_EffectID = ''i'', erc_EffectRevision = 1, erc_SettlementDigest = sample_digest\<rparr>\<rparr>"
  have v: "EffectFactV2_Validate sample_effect_json (?r (effect_fact ''a'' ''x/y'')) = None"
    "EffectFactV2_Validate sample_effect_json (?r (accepted_fact ''a'' ''x/y'')) = None"
    using sample_intent_valid [of "''x/y''" "''a''"] sample_intent_digest [of "''x/y''" "''a''"]
    by (simp_all add: EffectFactV2_Validate_def effect_fact_def accepted_fact_def EffectResolutionCompletionV2_Validate_def graphic_ascii)
  have "ValidateEffectFactTransitionV2 sample_effect_json (?r (effect_fact ''a'' ''x/y'')) (?r (accepted_fact ''a'' ''x/y'')) ctx (at_nano 20) = None" for ctx
    by (simp add: ValidateEffectFactTransitionV2_def v) (simp add: effect_fact_def accepted_fact_def validateClosureTransitionV2_def)
  from open_residual_is_permanent [OF this] show ?thesis by simp
qed

end
