(* ===== verification/Manifest.thy ===== *)
theory Manifest
  imports Assembly Evidence
begin

text \<open>
  Component manifests, the governance catalogue and binding plans: \<open>runtime/ports/binding_v2_types.go\<close>
  and \<open>runtime/ports/binding_v2_validate.go\<close>. The digests sort every set before they hash it; the
  lists have distinct keys by then, so that \<open>sort_key\<close> is what \<open>sort.Slice\<close> computes. What
  \<open>json.Marshal\<close> returns is an argument.
\<close>

definition BindingContractVersionV2 :: string where
  "BindingContractVersionV2 = ''praxis.runtime.binding/v2''"

definition MaxManifestSetEntries :: nat where
  "MaxManifestSetEntries = 256"

definition MaxCapabilityTTLSeconds :: u64 where
  "MaxCapabilityTTLSeconds = 30 * 24 * 60 * 60"

section \<open>A loop over a set\<close>

text \<open>
  The loops of this file validate an element, refuse a repeated key, remember the key and validate
  further.
\<close>

fun unique_error ::
  "('a \<Rightarrow> go_error option) \<Rightarrow> ('a \<Rightarrow> 'k) \<Rightarrow> go_error \<Rightarrow> ('a \<Rightarrow> go_error option) \<Rightarrow> 'k set \<Rightarrow> 'a list \<Rightarrow> go_error option" where
  "unique_error pre key dup post seen [] = None"
| "unique_error pre key dup post seen (x # xs) =
     (case first_err [pre x, (if key x \<in> seen then Some dup else None), post x] of
        Some e \<Rightarrow> Some e
      | None \<Rightarrow> unique_error pre key dup post (insert (key x) seen) xs)"

lemma unique_error_None:
  "unique_error pre key dup post seen xs = None \<longleftrightarrow>
     (\<forall>x \<in> set xs. pre x = None \<and> post x = None) \<and> distinct (map key xs) \<and> key ` set xs \<inter> seen = {}"
  by (induction xs arbitrary: seen) (auto split: option.splits if_splits)

definition no_check :: "'a \<Rightarrow> go_error option" where
  "no_check x = None"

lemma no_check_None [simp]: "no_check x = None"
  by (simp add: no_check_def)

section \<open>Types\<close>

datatype LocalityV2 =
    LocalityHostControlPlane | LocalityInstanceDataPlane | LocalityExternalStatePlane | LocalityRemoteProvider
  | LocalityOther string

datatype ResidualClassV2 =
    ResidualNone | ResidualInspectable | ResidualCompensatable | ResidualExternallyOwned | ResidualPotentiallyStale
  | ResidualClassOther string

datatype OfflinePolicyModeV2 =
    OfflineDenied | OfflineObserveOnly | OfflineCachedAuthorityOnly | OfflinePolicyOther string

record ContractBindingV2 =
  cb_Name :: string
  cb_Version :: string
  cb_Compatible :: VersionRange

record DisplayAnnotationV2 =
  ann_Key :: string
  ann_Value :: string

record ComponentDependencyV2 =
  cdep_ComponentID :: string
  cdep_Optional :: bool

record CapabilityRequirementV2 =
  creq_Capability :: string
  creq_ProviderComponent :: string
  creq_Optional :: bool

record ProvidedCapabilityV2 =
  pcap_Capability :: string
  pcap_TTLSeconds :: u64
  pcap_Schemas :: "SchemaRefV2 list"

record OwnerAssignmentV2 =
  oa_Role :: OwnerRoleV2
  oa_OwnerComponentID :: string

record CredentialRequirementV2 =
  crq_CredentialClass :: string
  crq_ScopeDigest :: Digest
  crq_MaximumTTLSeconds :: u64

record ComponentManifestV2 =
  cm_ContractVersion :: string
  cm_ComponentID :: string
  cm_Kind :: string
  cm_GovernanceCategory :: string
  cm_SemanticVersion :: string
  cm_ArtifactDigest :: Digest
  cm_Contract :: ContractBindingV2
  cm_Schemas :: "SchemaRefV2 list"
  cm_Locality :: LocalityV2
  cm_Dependencies :: "ComponentDependencyV2 list"
  cm_RequiredCapabilities :: "CapabilityRequirementV2 list"
  cm_ProvidedCapabilities :: "ProvidedCapabilityV2 list"
  cm_Conformance :: ConformanceLevel
  cm_ResidualClass :: ResidualClassV2
  cm_Owners :: "OwnerAssignmentV2 list"
  cm_Credentials :: "CredentialRequirementV2 list"
  cm_OfflinePolicy :: OfflinePolicyModeV2
  cm_Extensions :: "GovernanceExtensionV2 list"
  cm_Annotations :: "DisplayAnnotationV2 list"

record ExtensionPolicyV2 =
  xp_Key :: string

record GovernanceRegistrationV2 =
  gr_Kind :: string
  gr_Category :: string
  gr_Capabilities :: "string list"
  gr_Schemas :: "SchemaRefV2 list"
  gr_ExtensionPolicies :: "ExtensionPolicyV2 list"
  gr_AllowedLocalities :: "LocalityV2 list"
  gr_AllowedConformance :: "ConformanceLevel list"

record GovernanceCatalogV2 =
  gc_Registrations :: "GovernanceRegistrationV2 list"

record CapabilityGrantV2 =
  cg_Capability :: string
  cg_EvidenceDigest :: Digest
  cg_ObservedUnixNano :: i64
  cg_ExpiresUnixNano :: i64

record BindingRequirementV2 =
  br_ComponentID :: string
  br_Kind :: string
  br_SemanticVersion :: VersionRange
  br_ContractName :: string
  br_Contract :: VersionRange
  br_ArtifactDigest :: Digest
  br_RequiredCapabilities :: "string list"
  br_Required :: bool
  br_AllowResidual :: bool

record BindingPlanV2 =
  bp_ID :: string
  bp_PlanDigest :: Digest
  bp_GovernanceDigest :: Digest
  bp_Requirements :: "BindingRequirementV2 list"

text \<open>What \<open>json.Marshal\<close> returns for the hashed and stored documents.\<close>

record binding_json =
  json_Manifest :: "ComponentManifestV2 \<Rightarrow> string option"
  json_Catalog :: "GovernanceCatalogV2 \<Rightarrow> string option"
  json_Plan :: "BindingPlanV2 \<Rightarrow> string option"

section \<open>Enumerations\<close>

fun validLocalityV2 :: "LocalityV2 \<Rightarrow> bool" where
  "validLocalityV2 (LocalityOther s) = False"
| "validLocalityV2 _ = True"

fun validResidualClassV2 :: "ResidualClassV2 \<Rightarrow> bool" where
  "validResidualClassV2 (ResidualClassOther s) = False"
| "validResidualClassV2 _ = True"

definition validOfflinePolicyV2 :: "OfflinePolicyModeV2 \<Rightarrow> bool" where
  "validOfflinePolicyV2 p \<longleftrightarrow> p = OfflineDenied \<or> p = OfflineObserveOnly \<or> p = OfflineCachedAuthorityOnly"

fun validConformance :: "ConformanceLevel \<Rightarrow> bool" where
  "validConformance (ConformanceOther s) = False"
| "validConformance _ = True"

fun locality_string :: "LocalityV2 \<Rightarrow> string" where
  "locality_string LocalityHostControlPlane = ''host_control_plane''"
| "locality_string LocalityInstanceDataPlane = ''instance_data_plane''"
| "locality_string LocalityExternalStatePlane = ''external_state_plane''"
| "locality_string LocalityRemoteProvider = ''remote_provider''"
| "locality_string (LocalityOther s) = s"

fun conformance_string :: "ConformanceLevel \<Rightarrow> string" where
  "conformance_string ConformanceFullyControlled = ''fully_controlled''"
| "conformance_string ConformanceRestrictedControlled = ''restricted_controlled''"
| "conformance_string ConformanceContainedObserveOnly = ''contained_observe_only''"
| "conformance_string ConformanceRejected = ''rejected''"
| "conformance_string (ConformanceOther s) = s"

section \<open>Parts of a manifest\<close>

definition canonical_version :: "string \<Rightarrow> bool" where
  "canonical_version s \<longleftrightarrow> (case ParseSemanticVersion s of Inl e \<Rightarrow> False | Inr v \<Rightarrow> SemanticVersion_String v = s)"

definition validateContractBindingV2 :: "ContractBindingV2 \<Rightarrow> go_error option" where [validate_defs]:
  "validateContractBindingV2 c =
     first_err
      [ValidateNamespacedNameV2 (cb_Name c),
       fail_if (\<not> canonical_version (cb_Version c)) ErrorInvalidArgument ReasonInvalidSemanticVersion,
       VersionRange_Validate (cb_Compatible c),
       fail_if (\<not> VersionRange_Contains (cb_Compatible c) (cb_Version c)) ErrorPreconditionFailed ReasonInvalidSemanticVersion]"

definition validateManifestSetLimits :: "ComponentManifestV2 \<Rightarrow> go_error option" where
  "validateManifestSetLimits m =
     fail_if (\<exists>count \<in> set [length (cm_Schemas m), length (cm_Dependencies m), length (cm_RequiredCapabilities m),
         length (cm_ProvidedCapabilities m), length (cm_Owners m), length (cm_Credentials m), length (cm_Extensions m),
         length (cm_Annotations m)]. count > MaxManifestSetEntries) ErrorInvalidArgument ReasonCanonicalLimitExceeded"

definition validateSchemaSetV2 :: "SchemaRefV2 list \<Rightarrow> go_error option" where
  "validateSchemaSetV2 = unique_error SchemaRefV2_Validate SchemaRefV2_Key (DomainError ErrorConflict ReasonUnknownSchema) no_check {}"

definition validateOwnersV2 :: "OwnerAssignmentV2 list \<Rightarrow> go_error option" where
  "validateOwnersV2 owners =
     first_err
      [fail_if (length owners \<noteq> 3) ErrorPreconditionFailed ReasonOwnerMissing,
       unique_error (\<lambda>a. first_err
           [fail_if (oa_Role a \<noteq> OwnerEffect \<and> oa_Role a \<noteq> OwnerSettlement \<and> oa_Role a \<noteq> OwnerCleanup)
              ErrorInvalidArgument ReasonOwnerConflict,
            ValidateNamespacedNameV2 (oa_OwnerComponentID a)])
         oa_Role (DomainError ErrorConflict ReasonOwnerConflict) no_check {} owners]"

definition validateCredentialsV2 :: "CredentialRequirementV2 list \<Rightarrow> go_error option" where
  "validateCredentialsV2 =
     unique_error (\<lambda>c. first_err
         [ValidateNamespacedNameV2 (crq_CredentialClass c),
          Digest_Validate (crq_ScopeDigest c),
          fail_if (crq_MaximumTTLSeconds c = 0 \<or> crq_MaximumTTLSeconds c > MaxCapabilityTTLSeconds)
            ErrorInvalidArgument ReasonCapabilityExpired])
       crq_CredentialClass (DomainError ErrorConflict ReasonInvalidReference) no_check {}"

definition validateAnnotationsV2 :: "DisplayAnnotationV2 list \<Rightarrow> go_error option" where
  "validateAnnotationsV2 =
     unique_error (\<lambda>a. fail_if (ann_Key a = '''' \<or> length (ann_Key a) > 128 \<or> length (ann_Value a) > 4096
           \<or> TrimSpace (ann_Key a) \<noteq> ann_Key a) ErrorInvalidArgument ReasonInvalidReference)
       ann_Key (DomainError ErrorConflict ReasonDuplicateCanonicalKey) no_check {}"

definition validateNamespacedSetV2 :: "string list \<Rightarrow> go_error option" where
  "validateNamespacedSetV2 =
     unique_error ValidateNamespacedNameV2 id (DomainError ErrorConflict ReasonDuplicateCanonicalKey) no_check {}"

text \<open>The optionality that the dependencies of a manifest record for a component.\<close>

fun dependency_optional :: "ComponentDependencyV2 list \<Rightarrow> string \<Rightarrow> bool option" where
  "dependency_optional [] c = None"
| "dependency_optional (d # ds) c = (if cdep_ComponentID d = c then Some (cdep_Optional d) else dependency_optional ds c)"

definition requirement_key :: "CapabilityRequirementV2 \<Rightarrow> string" where
  "requirement_key r = creq_ProviderComponent r @ [CHR 0x00] @ creq_Capability r"

section \<open>Manifests\<close>

definition ComponentManifestV2_Validate :: "ComponentManifestV2 \<Rightarrow> go_error option" where
  "ComponentManifestV2_Validate m =
     first_err
      [fail_if (cm_ContractVersion m \<noteq> BindingContractVersionV2) ErrorInvalidArgument ReasonInvalidReference,
       ValidateNamespacedNameV2 (cm_ComponentID m),
       ValidateNamespacedNameV2 (cm_Kind m),
       ValidateNamespacedNameV2 (cm_GovernanceCategory m),
       fail_if (\<not> canonical_version (cm_SemanticVersion m)) ErrorInvalidArgument ReasonInvalidSemanticVersion,
       Digest_Validate (cm_ArtifactDigest m),
       validateContractBindingV2 (cm_Contract m),
       fail_if (\<not> validLocalityV2 (cm_Locality m) \<or> \<not> validConformance (cm_Conformance m)
          \<or> \<not> validResidualClassV2 (cm_ResidualClass m) \<or> \<not> validOfflinePolicyV2 (cm_OfflinePolicy m))
         ErrorInvalidArgument ReasonInvalidReference,
       validateManifestSetLimits m,
       validateSchemaSetV2 (cm_Schemas m),
       unique_error (\<lambda>d. first_err
           [ValidateNamespacedNameV2 (cdep_ComponentID d),
            fail_if (cdep_ComponentID d = cm_ComponentID m) ErrorPreconditionFailed ReasonDependencyCycle])
         cdep_ComponentID (DomainError ErrorConflict ReasonPlanInvalid) no_check {} (cm_Dependencies m),
       unique_error (\<lambda>r. first_err
           [ValidateNamespacedNameV2 (creq_Capability r), ValidateNamespacedNameV2 (creq_ProviderComponent r)])
         requirement_key (DomainError ErrorConflict ReasonUnknownCapability)
         (\<lambda>r. fail_if (dependency_optional (cm_Dependencies m) (creq_ProviderComponent r) \<noteq> Some (creq_Optional r))
            ErrorPreconditionFailed ReasonComponentMissing)
         {} (cm_RequiredCapabilities m),
       unique_error (\<lambda>c. first_err
           [ValidateNamespacedNameV2 (pcap_Capability c),
            fail_if (pcap_TTLSeconds c = 0 \<or> pcap_TTLSeconds c > MaxCapabilityTTLSeconds)
              ErrorInvalidArgument ReasonCapabilityExpired])
         pcap_Capability (DomainError ErrorConflict ReasonUnknownCapability)
         (\<lambda>c. first_err
           [validateSchemaSetV2 (pcap_Schemas c),
            fail_if (\<exists>s \<in> set (pcap_Schemas c). SchemaRefV2_Key s \<notin> SchemaRefV2_Key ` set (cm_Schemas m))
              ErrorPreconditionFailed ReasonUnknownSchema])
         {} (cm_ProvidedCapabilities m),
       validateOwnersV2 (cm_Owners m),
       validateCredentialsV2 (cm_Credentials m),
       validateExtensionsV2 (cm_Extensions m),
       validateAnnotationsV2 (cm_Annotations m)]"

definition normalizeManifestV2 :: "ComponentManifestV2 \<Rightarrow> ComponentManifestV2" where
  "normalizeManifestV2 m =
     m\<lparr>cm_Schemas := sort_key SchemaRefV2_Key (cm_Schemas m),
       cm_Dependencies := sort_key cdep_ComponentID (cm_Dependencies m),
       cm_RequiredCapabilities := sort_key requirement_key (cm_RequiredCapabilities m),
       cm_ProvidedCapabilities := sort_key pcap_Capability
         (map (\<lambda>c. c\<lparr>pcap_Schemas := sort_key SchemaRefV2_Key (pcap_Schemas c)\<rparr>) (cm_ProvidedCapabilities m)),
       cm_Owners := sort_key (\<lambda>a. owner_role_string (oa_Role a)) (cm_Owners m),
       cm_Credentials := sort_key crq_CredentialClass (cm_Credentials m),
       cm_Extensions := sort_key ext_Key (cm_Extensions m),
       cm_Annotations := sort_key ann_Key (cm_Annotations m)\<rparr>"

definition BindingDigestV2 :: "binding_json \<Rightarrow> ComponentManifestV2 \<Rightarrow> Digest res" where
  "BindingDigestV2 J m =
     ensure (ComponentManifestV2_Validate m)
      (let normalized = (normalizeManifestV2 m)\<lparr>cm_Annotations := []\<rparr> in
       CanonicalJSONDigest ''praxis.runtime.binding'' BindingContractVersionV2 ''ComponentManifestV2'' (json_Manifest J normalized))"

text \<open>The argument of the decoder is what \<open>DecodeStrictJSON\<close> made of the document.\<close>

definition DecodeComponentManifestV2 :: "ComponentManifestV2 res \<Rightarrow> ComponentManifestV2 res" where
  "DecodeComponentManifestV2 decoded = bind_res decoded (\<lambda>m. ensure (ComponentManifestV2_Validate m) (Inr m))"

definition EncodeComponentManifestV2 :: "binding_json \<Rightarrow> ComponentManifestV2 \<Rightarrow> string res" where
  "EncodeComponentManifestV2 J m =
     ensure (ComponentManifestV2_Validate m)
      (case json_Manifest J m of
         None \<Rightarrow> Inl (DomainError ErrorInvalidArgument ReasonCanonicalLimitExceeded)
       | Some payload \<Rightarrow>
           if length payload > MaxCanonicalDocumentBytes
           then Inl (DomainError ErrorInvalidArgument ReasonCanonicalLimitExceeded)
           else Inr payload)"

text \<open>The zero value of the Go struct.\<close>

definition zero_manifest :: ComponentManifestV2 where
  "zero_manifest =
     \<lparr>cm_ContractVersion = '''', cm_ComponentID = '''', cm_Kind = '''', cm_GovernanceCategory = '''', cm_SemanticVersion = '''',
      cm_ArtifactDigest = '''',
      cm_Contract = \<lparr>cb_Name = '''', cb_Version = '''', cb_Compatible = \<lparr>vr_MinimumInclusive = '''', vr_MaximumExclusive = ''''\<rparr>\<rparr>,
      cm_Schemas = [], cm_Locality = LocalityOther '''', cm_Dependencies = [], cm_RequiredCapabilities = [],
      cm_ProvidedCapabilities = [], cm_Conformance = ConformanceOther '''', cm_ResidualClass = ResidualClassOther '''',
      cm_Owners = [], cm_Credentials = [], cm_OfflinePolicy = OfflinePolicyOther '''', cm_Extensions = [], cm_Annotations = []\<rparr>"

text \<open>
  The stores copy a manifest by encoding and decoding it, and drop both errors: a document that
  encodes is decoded to itself, one that does not leaves the zero value.
\<close>

definition cloneManifestV2 :: "binding_json \<Rightarrow> ComponentManifestV2 \<Rightarrow> ComponentManifestV2" where
  "cloneManifestV2 J m =
     (case EncodeComponentManifestV2 J m of
        Inl e \<Rightarrow> zero_manifest
      | Inr payload \<Rightarrow> if payload = '''' then zero_manifest else m)"

section \<open>The governance catalogue\<close>

definition GovernanceRegistrationV2_Validate :: "GovernanceRegistrationV2 \<Rightarrow> go_error option" where
  "GovernanceRegistrationV2_Validate r =
     first_err
      [ValidateNamespacedNameV2 (gr_Kind r),
       ValidateNamespacedNameV2 (gr_Category r),
       fail_if (length (gr_Capabilities r) > MaxManifestSetEntries \<or> length (gr_Schemas r) > MaxManifestSetEntries
          \<or> length (gr_ExtensionPolicies r) > MaxManifestSetEntries) ErrorInvalidArgument ReasonCanonicalLimitExceeded,
       validateNamespacedSetV2 (gr_Capabilities r),
       validateSchemaSetV2 (gr_Schemas r),
       validateNamespacedSetV2 (map xp_Key (gr_ExtensionPolicies r)),
       fail_if (gr_AllowedLocalities r = [] \<or> gr_AllowedConformance r = []) ErrorInvalidArgument ReasonUnknownGovernanceCategory,
       unique_error (\<lambda>l. fail_if (\<not> validLocalityV2 l) ErrorInvalidArgument ReasonInvalidReference)
         id (DomainError ErrorConflict ReasonInvalidReference) no_check {} (gr_AllowedLocalities r),
       unique_error (\<lambda>l. fail_if (\<not> validConformance l) ErrorInvalidArgument ReasonInvalidReference)
         id (DomainError ErrorConflict ReasonInvalidReference) no_check {} (gr_AllowedConformance r)]"

definition GovernanceCatalogV2_Validate :: "GovernanceCatalogV2 \<Rightarrow> go_error option" where
  "GovernanceCatalogV2_Validate c =
     first_err
      [fail_if (gc_Registrations c = [] \<or> length (gc_Registrations c) > MaxManifestSetEntries)
         ErrorInvalidArgument ReasonUnknownGovernanceCategory,
       unique_error GovernanceRegistrationV2_Validate gr_Kind (DomainError ErrorConflict ReasonUnknownGovernanceCategory)
         no_check {} (gc_Registrations c)]"

definition normalizeRegistrationV2 :: "GovernanceRegistrationV2 \<Rightarrow> GovernanceRegistrationV2" where
  "normalizeRegistrationV2 r =
     r\<lparr>gr_Capabilities := sort (gr_Capabilities r),
       gr_Schemas := sort_key SchemaRefV2_Key (gr_Schemas r),
       gr_ExtensionPolicies := sort_key xp_Key (gr_ExtensionPolicies r),
       gr_AllowedLocalities := sort_key locality_string (gr_AllowedLocalities r),
       gr_AllowedConformance := sort_key conformance_string (gr_AllowedConformance r)\<rparr>"

definition GovernanceCatalogV2_DigestV2 :: "binding_json \<Rightarrow> GovernanceCatalogV2 \<Rightarrow> Digest res" where
  "GovernanceCatalogV2_DigestV2 J c =
     ensure (GovernanceCatalogV2_Validate c)
      (let normalized = c\<lparr>gc_Registrations := sort_key gr_Kind (map normalizeRegistrationV2 (gc_Registrations c))\<rparr> in
       CanonicalJSONDigest ''praxis.runtime.binding'' BindingContractVersionV2 ''GovernanceCatalogV2'' (json_Catalog J normalized))"

definition DecodeGovernanceCatalogV2 :: "GovernanceCatalogV2 res \<Rightarrow> GovernanceCatalogV2 res" where
  "DecodeGovernanceCatalogV2 decoded = bind_res decoded (\<lambda>c. ensure (GovernanceCatalogV2_Validate c) (Inr c))"

fun containsLocality :: "LocalityV2 list \<Rightarrow> LocalityV2 \<Rightarrow> bool" where
  "containsLocality [] target = False"
| "containsLocality (v # vs) target = (v = target \<or> containsLocality vs target)"

fun containsConformance :: "ConformanceLevel list \<Rightarrow> ConformanceLevel \<Rightarrow> bool" where
  "containsConformance [] target = False"
| "containsConformance (v # vs) target = (v = target \<or> containsConformance vs target)"

definition ValidateManifestAgainstCatalogV2 :: "ComponentManifestV2 \<Rightarrow> GovernanceCatalogV2 \<Rightarrow> go_error option" where
  "ValidateManifestAgainstCatalogV2 m c =
     first_err
      [ComponentManifestV2_Validate m,
       GovernanceCatalogV2_Validate c,
       (case find (\<lambda>r. gr_Kind r = cm_Kind m) (gc_Registrations c) of
          None \<Rightarrow> Some (DomainError ErrorCapabilityUnavailable ReasonUnknownGovernanceCategory)
        | Some r \<Rightarrow>
            first_err
             [fail_if (gr_Category r \<noteq> cm_GovernanceCategory m) ErrorCapabilityUnavailable ReasonUnknownGovernanceCategory,
              fail_if (\<not> containsLocality (gr_AllowedLocalities r) (cm_Locality m)
                 \<or> \<not> containsConformance (gr_AllowedConformance r) (cm_Conformance m))
                ErrorForbidden ReasonUnknownGovernanceCategory,
              fail_if (\<exists>p \<in> set (cm_ProvidedCapabilities m). pcap_Capability p \<notin> set (gr_Capabilities r))
                ErrorCapabilityUnavailable ReasonUnknownCapability,
              fail_if (\<exists>s \<in> set (cm_Schemas m). SchemaRefV2_Key s \<notin> SchemaRefV2_Key ` set (gr_Schemas r))
                ErrorCapabilityUnavailable ReasonUnknownSchema,
              fail_if (\<exists>x \<in> set (cm_Extensions m). ext_Key x \<notin> xp_Key ` set (gr_ExtensionPolicies r) \<and> ext_Required x)
                ErrorCapabilityUnavailable ReasonUnknownRequiredExtension])]"

section \<open>Binding plans\<close>

definition requirement_error :: "BindingRequirementV2 \<Rightarrow> go_error option" where
  "requirement_error r =
     first_err
      [ValidateNamespacedNameV2 (br_ComponentID r),
       ValidateNamespacedNameV2 (br_Kind r),
       VersionRange_Validate (br_SemanticVersion r),
       ValidateNamespacedNameV2 (br_ContractName r),
       VersionRange_Validate (br_Contract r),
       Digest_Validate (br_ArtifactDigest r),
       fail_if (\<not> br_Required r \<and> \<not> br_AllowResidual r) ErrorInvalidArgument ReasonPlanInvalid,
       validateNamespacedSetV2 (br_RequiredCapabilities r)]"

definition validateBindingPlanStructureV2 :: "BindingPlanV2 \<Rightarrow> go_error option" where
  "validateBindingPlanStructureV2 p =
     first_err
      [fail_if (bp_ID p = '''' \<or> length (bp_ID p) > 128 \<or> TrimSpace (bp_ID p) \<noteq> bp_ID p \<or> bp_Requirements p = []
          \<or> length (bp_Requirements p) > MaxManifestSetEntries) ErrorInvalidArgument ReasonPlanInvalid,
       Digest_Validate (bp_PlanDigest p),
       Digest_Validate (bp_GovernanceDigest p),
       unique_error requirement_error br_ComponentID (DomainError ErrorConflict ReasonPlanInvalid) no_check {} (bp_Requirements p)]"

definition bindingPlanDigestV2 :: "binding_json \<Rightarrow> BindingPlanV2 \<Rightarrow> Digest res" where
  "bindingPlanDigestV2 J p =
     (let normalized = p\<lparr>bp_PlanDigest := '''', bp_Requirements := sort_key br_ComponentID
        (map (\<lambda>r. r\<lparr>br_RequiredCapabilities := sort (br_RequiredCapabilities r)\<rparr>) (bp_Requirements p))\<rparr> in
      CanonicalJSONDigest ''praxis.runtime.binding'' BindingContractVersionV2 ''BindingPlanV2'' (json_Plan J normalized))"

definition BindingPlanV2_Validate :: "binding_json \<Rightarrow> BindingPlanV2 \<Rightarrow> go_error option" where
  "BindingPlanV2_Validate J p =
     first_err
      [validateBindingPlanStructureV2 p,
       fail_if (bindingPlanDigestV2 J p \<noteq> Inr (bp_PlanDigest p)) ErrorPreconditionFailed ReasonPlanInvalid]"

definition BindingPlanDigestV2 :: "binding_json \<Rightarrow> BindingPlanV2 \<Rightarrow> Digest res" where
  "BindingPlanDigestV2 J p =
     (let q = p\<lparr>bp_PlanDigest := EvidenceGenesisDigestV2\<rparr> in
      ensure (validateBindingPlanStructureV2 q) (bindingPlanDigestV2 J q))"

definition SealBindingPlanV2 :: "binding_json \<Rightarrow> BindingPlanV2 \<Rightarrow> BindingPlanV2 res" where
  "SealBindingPlanV2 J p =
     (let q = p\<lparr>bp_PlanDigest := EvidenceGenesisDigestV2\<rparr> in
      ensure (validateBindingPlanStructureV2 q)
       (bind_res (bindingPlanDigestV2 J q) (\<lambda>digest.
          let sealed = q\<lparr>bp_PlanDigest := digest\<rparr> in ensure (BindingPlanV2_Validate J sealed) (Inr sealed))))"

section \<open>Capability grants\<close>

definition MaxGrantNanos :: i64 where
  "MaxGrantNanos = MaxCapabilityTTLSeconds * 1000000000"

fun grants_structure_error :: "string option \<Rightarrow> CapabilityGrantV2 list \<Rightarrow> go_error option" where
  "grants_structure_error previous [] = None"
| "grants_structure_error previous (g # gs) =
     (case first_err
        [ValidateNamespacedNameV2 (cg_Capability g),
         fail_if (case previous of None \<Rightarrow> False | Some p \<Rightarrow> cg_Capability g \<le> p) ErrorInvalidArgument ReasonInvalidCanonicalForm,
         Digest_Validate (cg_EvidenceDigest g),
         fail_if (sint (cg_ObservedUnixNano g) \<le> 0 \<or> sint (cg_ExpiresUnixNano g) \<le> sint (cg_ObservedUnixNano g)
            \<or> sint (cg_ExpiresUnixNano g - cg_ObservedUnixNano g) > sint MaxGrantNanos)
           ErrorPreconditionFailed ReasonCapabilityExpired] of
        Some e \<Rightarrow> Some e
      | None \<Rightarrow> grants_structure_error (Some (cg_Capability g)) gs)"

definition ValidateCapabilityGrantStructureV2 :: "CapabilityGrantV2 list \<Rightarrow> go_error option" where
  "ValidateCapabilityGrantStructureV2 grants =
     first_err
      [fail_if (grants = [] \<or> length grants > MaxManifestSetEntries) ErrorInvalidArgument ReasonUnknownCapability,
       grants_structure_error None grants]"

end
