(* ===== verification/BindingFact.thy ===== *)
theory BindingFact
  imports Manifest
begin

text \<open>
  Binding facts, binding sets and their legal versions: \<open>runtime/control/binding_fact_v2.go\<close>. A binding
  is declared, probed, certified and bound into a set; a set is built from a plan by checking each
  requirement, closing the dependencies and ordering the members topologically. Loops over Go maps
  take their order as an argument, as in theory \<open>Assembly\<close>.
\<close>

section \<open>Types\<close>

datatype BindingLifecycleStateV2 =
    BindingDeclared | BindingProbed | BindingCertified | BindingBound | BindingRevoked | BindingExpired
  | BindingStateOther string

datatype BindingSetStateV2 = BindingSetActive | BindingSetRevoked | BindingSetExpired | BindingSetStateOther string

record BindingFactV2 =
  bf_ID :: string
  bf_ComponentID :: string
  bf_Manifest :: ComponentManifestV2
  bf_ManifestDigest :: Digest
  bf_GovernanceDigest :: Digest
  bf_State :: BindingLifecycleStateV2
  bf_Revision :: Revision
  bf_Grants :: "CapabilityGrantV2 list"
  bf_ProbedUnixNano :: i64
  bf_CertifiedUnixNano :: i64
  bf_ConformanceEvidenceDigest :: Digest
  bf_ExpiresUnixNano :: i64
  bf_BindingSetID :: string
  bf_InvalidationReason :: ReasonCode
  bf_RenewalEvidence :: "EvidenceRecordRefV2 list"

record BindingFactCASRequestV2 =
  bfc_ExpectedRevision :: Revision
  bfc_Next :: BindingFactV2

record BindingMemberV2 =
  bm_BindingID :: string
  bm_BindingRevision :: Revision
  bm_ComponentID :: string
  bm_Kind :: string
  bm_ManifestDigest :: Digest
  bm_ArtifactDigest :: Digest
  bm_Contract :: ContractBindingV2
  bm_Owners :: "OwnerAssignmentV2 list"
  bm_Grants :: "CapabilityGrantV2 list"

record BindingResidualV2 =
  brs_ComponentID :: string
  brs_Reason :: ReasonCode

record BindingSetFactV2 =
  bs_ID :: string
  bs_PlanID :: string
  bs_PlanDigest :: Digest
  bs_GovernanceDigest :: Digest
  bs_State :: BindingSetStateV2
  bs_Revision :: Revision
  bs_Members :: "BindingMemberV2 list"
  bs_TopologicalOrder :: "string list"
  bs_Residuals :: "BindingResidualV2 list"
  bs_CreatedUnixNano :: i64
  bs_ExpiresUnixNano :: i64
  bs_InvalidationReason :: ReasonCode

record ExpectedBindingRevisionV2 =
  xbr_BindingID :: string
  xbr_ExpectedRevision :: Revision

record CommitBindingSetRequestV2 =
  cbs_Set :: BindingSetFactV2
  cbs_Expected :: "ExpectedBindingRevisionV2 list"

record BindingSetCASRequestV2 =
  bsc_ExpectedRevision :: Revision
  bsc_Next :: BindingSetFactV2

record RenewBindingSetRequestV2 =
  rbs_ExpectedSetRevision :: Revision
  rbs_NextSet :: BindingSetFactV2
  rbs_NextBindings :: "BindingFactV2 list"

record BindingRenewalAttestationV2 =
  bra_Evidence :: EvidenceRecordRefV2
  bra_Kind :: string
  bra_BindingID :: string
  bra_ComponentID :: string
  bra_ManifestDigest :: Digest
  bra_GrantSetDigest :: Digest
  bra_SubjectDigest :: Digest
  bra_Certifier :: EvidenceProducerBindingRefV2
  bra_SourceEpoch :: Epoch
  bra_SourceSequence :: u64
  bra_ObservedUnixNano :: i64
  bra_ExpiresUnixNano :: i64

record BindingCurrentProbeV2 =
  bcp_ComponentID :: string
  bcp_ManifestDigest :: Digest

text \<open>The part of a set that renewals keep.\<close>

record semanticMember =
  sm_BindingID :: string
  sm_ComponentID :: string
  sm_Kind :: string
  sm_ManifestDigest :: Digest
  sm_ArtifactDigest :: Digest
  sm_Contract :: ContractBindingV2
  sm_Owners :: "OwnerAssignmentV2 list"
  sm_Capabilities :: "string list"

record semanticSet =
  ss_ID :: string
  ss_PlanID :: string
  ss_PlanDigest :: Digest
  ss_GovernanceDigest :: Digest
  ss_Members :: "semanticMember list"
  ss_Order :: "string list"
  ss_Residuals :: "BindingResidualV2 list"

text \<open>The encodings of the other hashed documents.\<close>

record binding_fact_json =
  bj_base :: binding_json
  json_RenewalSubject :: "string \<times> string \<times> Digest \<times> Digest \<Rightarrow> string option"
  json_Grants :: "CapabilityGrantV2 list \<Rightarrow> string option"
  json_MemberGrants :: "(string \<times> CapabilityGrantV2 list) list \<Rightarrow> string option"
  json_SemanticSet :: "semanticSet \<Rightarrow> string option"
  json_BindingSet :: "BindingSetFactV2 \<Rightarrow> string option"

abbreviation binding_digest :: "string \<Rightarrow> string option \<Rightarrow> Digest res" where
  "binding_digest kind j \<equiv> CanonicalJSONDigest ''praxis.runtime.binding'' BindingContractVersionV2 kind j"

definition MaxInt64 :: i64 where
  "MaxInt64 = push_bit 63 1 - 1"

fun validBindingStateV2 :: "BindingLifecycleStateV2 \<Rightarrow> bool" where
  "validBindingStateV2 (BindingStateOther s) = False"
| "validBindingStateV2 _ = True"

definition validBindingSetStateV2 :: "BindingSetStateV2 \<Rightarrow> bool" where
  "validBindingSetStateV2 s \<longleftrightarrow> s = BindingSetActive \<or> s = BindingSetRevoked \<or> s = BindingSetExpired"

section \<open>Renewal attestations\<close>

definition BindingRenewalAttestationKindV2 :: string where
  "BindingRenewalAttestationKindV2 = ''runtime/binding-renewal''"

definition BindingRenewalCertifierCapabilityV2 :: string where
  "BindingRenewalCertifierCapabilityV2 = ''runtime/certify-binding-renewal''"

definition BindingRenewalSubjectDigestV2 :: "binding_fact_json \<Rightarrow> string \<Rightarrow> string \<Rightarrow> Digest \<Rightarrow> Digest \<Rightarrow> Digest res" where
  "BindingRenewalSubjectDigestV2 K bindingID componentID manifestDigest grantSetDigest =
     ensure (first_err
       [fail_if (blank bindingID \<or> length bindingID > 128) ErrorInvalidArgument ReasonInvalidReference,
        ValidateNamespacedNameV2 componentID,
        Digest_Validate manifestDigest,
        Digest_Validate grantSetDigest])
      (binding_digest ''BindingRenewalSubjectV2'' (json_RenewalSubject K (bindingID, componentID, manifestDigest, grantSetDigest)))"

definition BindingRenewalAttestationV2_Validate :: "binding_fact_json \<Rightarrow> BindingRenewalAttestationV2 \<Rightarrow> go_error option" where
  "BindingRenewalAttestationV2_Validate K a =
     first_err
      [EvidenceRecordRefV2_Validate (bra_Evidence a),
       fail_if (bra_Kind a \<noteq> BindingRenewalAttestationKindV2 \<or> blank (bra_BindingID a) \<or> length (bra_BindingID a) > 128
          \<or> bra_SourceEpoch a = 0 \<or> bra_SourceSequence a = 0 \<or> sint (bra_ObservedUnixNano a) \<le> 0
          \<or> sint (bra_ExpiresUnixNano a) \<le> sint (bra_ObservedUnixNano a)) ErrorInvalidArgument ReasonBindingNotCertified,
       ValidateNamespacedNameV2 (bra_ComponentID a),
       first_err (map Digest_Validate [bra_ManifestDigest a, bra_GrantSetDigest a, bra_SubjectDigest a]),
       ProviderBindingRefV2_Validate (bra_Certifier a),
       fail_if (prov_Capability (bra_Certifier a) \<noteq> BindingRenewalCertifierCapabilityV2
          \<or> prov_ComponentID (bra_Certifier a) = bra_ComponentID a) ErrorForbidden ReasonBindingNotCertified,
       fail_if (BindingRenewalSubjectDigestV2 K (bra_BindingID a) (bra_ComponentID a) (bra_ManifestDigest a) (bra_GrantSetDigest a)
          \<noteq> Inr (bra_SubjectDigest a)) ErrorPreconditionFailed ReasonBindingDrift]"

definition BindingGrantSetDigestV2 :: "binding_fact_json \<Rightarrow> CapabilityGrantV2 list \<Rightarrow> Digest res" where
  "BindingGrantSetDigestV2 K grants =
     ensure (ValidateCapabilityGrantStructureV2 grants) (binding_digest ''BindingGrantSetV2'' (json_Grants K grants))"

section \<open>Binding facts\<close>

fun min_expiry :: "i64 \<Rightarrow> CapabilityGrantV2 list \<Rightarrow> i64" where
  "min_expiry e [] = e"
| "min_expiry e (g # gs) = min_expiry (if sint (cg_ExpiresUnixNano g) < sint e then cg_ExpiresUnixNano g else e) gs"

text \<open>A repeated capability keeps the last declaration, as filling the Go map does.\<close>

definition provided_map :: "ComponentManifestV2 \<Rightarrow> string \<rightharpoonup> ProvidedCapabilityV2" where
  "provided_map m = map_of (rev (map (\<lambda>c. (pcap_Capability c, c)) (cm_ProvidedCapabilities m)))"

fun grants_error ::
  "(string \<rightharpoonup> ProvidedCapabilityV2) \<Rightarrow> string set \<Rightarrow> string option \<Rightarrow> CapabilityGrantV2 list \<Rightarrow> go_error option" where
  "grants_error provided seen previous [] = None"
| "grants_error provided seen previous (g # gs) =
     (case provided (cg_Capability g) of
        None \<Rightarrow> Some (DomainError ErrorCapabilityUnavailable ReasonUnknownCapability)
      | Some declaration \<Rightarrow>
          (case first_err
             [fail_if (cg_Capability g \<in> seen) ErrorConflict ReasonUnknownCapability,
              fail_if (case previous of None \<Rightarrow> False | Some p \<Rightarrow> cg_Capability g < p) ErrorInvalidArgument ReasonInvalidCanonicalForm,
              Digest_Validate (cg_EvidenceDigest g),
              fail_if (sint (cg_ObservedUnixNano g) \<le> 0 \<or> sint (cg_ExpiresUnixNano g) \<le> sint (cg_ObservedUnixNano g)
                 \<or> sint (cg_ExpiresUnixNano g - cg_ObservedUnixNano g) > sint (pcap_TTLSeconds declaration * 1000000000 :: i64))
                ErrorPreconditionFailed ReasonCapabilityExpired] of
             Some e \<Rightarrow> Some e
           | None \<Rightarrow> grants_error provided (insert (cg_Capability g) seen) (Some (cg_Capability g)) gs))"

definition validateBindingGrantSetV2 :: "BindingFactV2 \<Rightarrow> go_error option" where
  "validateBindingGrantSetV2 f =
     first_err
      [grants_error (provided_map (bf_Manifest f)) {} None (bf_Grants f),
       fail_if (bf_State f \<noteq> BindingDeclared \<and> bf_State f \<noteq> BindingRevoked
          \<and> length (remdups (map cg_Capability (bf_Grants f)))
              \<noteq> length (remdups (map pcap_Capability (cm_ProvidedCapabilities (bf_Manifest f)))))
         ErrorPreconditionFailed ReasonUnknownCapability,
       fail_if (bf_Grants f \<noteq> [] \<and> bf_ExpiresUnixNano f \<noteq> min_expiry MaxInt64 (bf_Grants f))
         ErrorPreconditionFailed ReasonCapabilityExpired]"

fun evidence_order_error :: "EvidenceRecordRefV2 option \<Rightarrow> EvidenceRecordRefV2 list \<Rightarrow> go_error option" where
  "evidence_order_error previous [] = None"
| "evidence_order_error previous (r # rs) =
     (case first_err
        [EvidenceRecordRefV2_Validate r,
         fail_if (case previous of None \<Rightarrow> False | Some p \<Rightarrow> err_Sequence r \<le> err_Sequence p)
           ErrorInvalidArgument ReasonInvalidCanonicalForm] of
        Some e \<Rightarrow> Some e
      | None \<Rightarrow> evidence_order_error (Some r) rs)"

fun binding_state_error :: "BindingLifecycleStateV2 \<Rightarrow> BindingFactV2 \<Rightarrow> go_error option" where
  "binding_state_error BindingDeclared f =
     fail_if (bf_Grants f \<noteq> [] \<or> bf_ProbedUnixNano f \<noteq> 0 \<or> bf_CertifiedUnixNano f \<noteq> 0 \<or> bf_ExpiresUnixNano f \<noteq> 0
        \<or> bf_ConformanceEvidenceDigest f \<noteq> '''' \<or> bf_BindingSetID f \<noteq> '''' \<or> bf_InvalidationReason f \<noteq> '''')
       ErrorPreconditionFailed ReasonInvalidState"
| "binding_state_error BindingProbed f =
     fail_if (sint (bf_ProbedUnixNano f) \<le> 0 \<or> bf_CertifiedUnixNano f \<noteq> 0
        \<or> sint (bf_ExpiresUnixNano f) \<le> sint (bf_ProbedUnixNano f)
        \<or> bf_ConformanceEvidenceDigest f \<noteq> '''' \<or> bf_BindingSetID f \<noteq> '''' \<or> bf_InvalidationReason f \<noteq> '''')
       ErrorPreconditionFailed ReasonInvalidState"
| "binding_state_error BindingCertified f =
     first_err
      [fail_if (sint (bf_ProbedUnixNano f) \<le> 0 \<or> sint (bf_CertifiedUnixNano f) \<le> 0
          \<or> sint (bf_ExpiresUnixNano f) \<le> sint (bf_ProbedUnixNano f) \<or> bf_BindingSetID f \<noteq> '''' \<or> bf_InvalidationReason f \<noteq> '''')
         ErrorPreconditionFailed ReasonInvalidState,
       Digest_Validate (bf_ConformanceEvidenceDigest f),
       fail_if (cm_Conformance (bf_Manifest f) = ConformanceRejected) ErrorForbidden ReasonBindingNotCertified]"
| "binding_state_error BindingBound f =
     first_err
      [fail_if (sint (bf_ProbedUnixNano f) \<le> 0 \<or> sint (bf_CertifiedUnixNano f) \<le> 0
          \<or> sint (bf_ExpiresUnixNano f) \<le> sint (bf_ProbedUnixNano f) \<or> bf_BindingSetID f = '''' \<or> bf_InvalidationReason f \<noteq> '''')
         ErrorPreconditionFailed ReasonInvalidState,
       Digest_Validate (bf_ConformanceEvidenceDigest f)]"
| "binding_state_error BindingExpired f =
     fail_if (bf_InvalidationReason f \<noteq> ReasonBindingExpired \<and> bf_InvalidationReason f \<noteq> ReasonBindingDrift
        \<and> bf_InvalidationReason f \<noteq> ReasonCapabilityExpired \<and> bf_InvalidationReason f \<noteq> ReasonComponentMissing)
       ErrorPreconditionFailed ReasonInvalidState"
| "binding_state_error BindingRevoked f =
     fail_if (bf_InvalidationReason f = '''') ErrorPreconditionFailed ReasonInvalidState"
| "binding_state_error (BindingStateOther s) f = None"

definition BindingFactV2_Validate :: "binding_json \<Rightarrow> BindingFactV2 \<Rightarrow> go_error option" where
  "BindingFactV2_Validate J f =
     first_err
      [fail_if (bf_ID f = '''' \<or> length (bf_ID f) > 128 \<or> TrimSpace (bf_ID f) \<noteq> bf_ID f \<or> bf_Revision f = 0)
         ErrorInvalidArgument ReasonInvalidReference,
       ComponentManifestV2_Validate (bf_Manifest f),
       fail_if (bf_ComponentID f \<noteq> cm_ComponentID (bf_Manifest f)) ErrorPreconditionFailed ReasonComponentMismatch,
       (case BindingDigestV2 J (bf_Manifest f) of
          Inl e \<Rightarrow> Some e
        | Inr digest \<Rightarrow> fail_if (digest \<noteq> bf_ManifestDigest f) ErrorPreconditionFailed ReasonBindingDrift),
       Digest_Validate (bf_GovernanceDigest f),
       fail_if (\<not> validBindingStateV2 (bf_State f)) ErrorInvalidArgument ReasonInvalidState,
       validateBindingGrantSetV2 f,
       fail_if (length (bf_RenewalEvidence f) > MaxManifestSetEntries) ErrorInvalidArgument ReasonCanonicalLimitExceeded,
       evidence_order_error None (bf_RenewalEvidence f),
       binding_state_error (bf_State f) f]"

definition BindingFactCASRequestV2_Validate :: "binding_json \<Rightarrow> BindingFactCASRequestV2 \<Rightarrow> Time \<Rightarrow> go_error option" where
  "BindingFactCASRequestV2_Validate J r now =
     first_err
      [fail_if (IsZero now \<or> bfc_ExpectedRevision r = 0 \<or> bf_Revision (bfc_Next r) \<noteq> bfc_ExpectedRevision r + 1)
         ErrorInvalidArgument ReasonRevisionConflict,
       BindingFactV2_Validate J (bfc_Next r)]"

fun binding_move_error :: "BindingLifecycleStateV2 \<Rightarrow> BindingLifecycleStateV2 \<Rightarrow> go_error option" where
  "binding_move_error BindingDeclared n =
     fail_if (\<not> (n = BindingProbed \<or> n = BindingRevoked)) ErrorPreconditionFailed ReasonInvalidTransition"
| "binding_move_error BindingProbed n =
     fail_if (\<not> (n = BindingCertified \<or> n = BindingExpired \<or> n = BindingRevoked)) ErrorPreconditionFailed ReasonInvalidTransition"
| "binding_move_error BindingCertified n =
     fail_if (\<not> (n = BindingBound \<or> n = BindingExpired \<or> n = BindingRevoked)) ErrorPreconditionFailed ReasonInvalidTransition"
| "binding_move_error BindingBound n =
     fail_if (\<not> (n = BindingExpired \<or> n = BindingRevoked)) ErrorPreconditionFailed ReasonInvalidTransition"
| "binding_move_error c n = Some (DomainError ErrorPreconditionFailed ReasonInvalidTransition)"

definition ValidateBindingFactTransitionV2 ::
  "binding_json \<Rightarrow> BindingFactV2 \<Rightarrow> BindingFactV2 \<Rightarrow> Time \<Rightarrow> go_error option" where
  "ValidateBindingFactTransitionV2 J c n now =
     first_err
      [BindingFactV2_Validate J c,
       BindingFactV2_Validate J n,
       fail_if (IsZero now) ErrorInvalidArgument ReasonInvalidReference,
       fail_if (bf_ID c \<noteq> bf_ID n \<or> bf_ComponentID c \<noteq> bf_ComponentID n \<or> bf_ManifestDigest c \<noteq> bf_ManifestDigest n
          \<or> bf_GovernanceDigest c \<noteq> bf_GovernanceDigest n
          \<or> cm_ArtifactDigest (bf_Manifest c) \<noteq> cm_ArtifactDigest (bf_Manifest n)
          \<or> cm_Contract (bf_Manifest c) \<noteq> cm_Contract (bf_Manifest n)) ErrorPreconditionFailed ReasonBindingDrift,
       fail_if (bf_Revision n \<noteq> bf_Revision c + 1) ErrorConflict ReasonRevisionConflict,
       fail_if (bf_State c \<noteq> BindingDeclared
          \<and> (bf_Grants c \<noteq> bf_Grants n \<or> bf_ProbedUnixNano c \<noteq> bf_ProbedUnixNano n \<or> bf_ExpiresUnixNano c \<noteq> bf_ExpiresUnixNano n))
         ErrorPreconditionFailed ReasonBindingDrift,
       fail_if ((bf_State c = BindingCertified \<or> bf_State c = BindingBound)
          \<and> (bf_CertifiedUnixNano c \<noteq> bf_CertifiedUnixNano n
             \<or> bf_ConformanceEvidenceDigest c \<noteq> bf_ConformanceEvidenceDigest n)) ErrorPreconditionFailed ReasonBindingDrift,
       fail_if (sint (UnixNano now) < sint (bf_ProbedUnixNano c)) ErrorPreconditionFailed ReasonClockRegression,
       binding_move_error (bf_State c) (bf_State n),
       fail_if ((bf_State n = BindingCertified \<or> bf_State n = BindingBound) \<and> \<not> Before now (TimeUnix0 (bf_ExpiresUnixNano n)))
         ErrorPreconditionFailed ReasonBindingExpired,
       fail_if (bf_State n = BindingExpired \<and> Before now (TimeUnix0 (bf_ExpiresUnixNano c))
          \<and> bf_InvalidationReason n = ReasonBindingExpired) ErrorPreconditionFailed ReasonBindingExpired]"

section \<open>Binding sets\<close>

fun members_error :: "string set \<Rightarrow> BindingMemberV2 list \<Rightarrow> go_error option" where
  "members_error seen [] = None"
| "members_error seen (m # ms) =
     (case first_err
        [fail_if (bm_BindingID m = '''' \<or> bm_BindingRevision m = 0) ErrorInvalidArgument ReasonBindingSetConflict,
         ValidateNamespacedNameV2 (bm_ComponentID m),
         first_err (map Digest_Validate [bm_ManifestDigest m, bm_ArtifactDigest m]),
         validateContractBindingV2 (bm_Contract m),
         validateOwnersV2 (bm_Owners m),
         ValidateCapabilityGrantStructureV2 (bm_Grants m),
         fail_if (bm_ComponentID m \<in> seen) ErrorConflict ReasonBindingSetConflict] of
        Some e \<Rightarrow> Some e
      | None \<Rightarrow> members_error (insert (bm_ComponentID m) seen) ms)"

fun order_error :: "string set \<Rightarrow> string set \<Rightarrow> string list \<Rightarrow> go_error option" where
  "order_error members seen [] = None"
| "order_error members seen (c # cs) =
     (if c \<notin> members then Some (DomainError ErrorPreconditionFailed ReasonBindingSetConflict)
      else if c \<in> seen then Some (DomainError ErrorConflict ReasonBindingSetConflict)
      else order_error members (insert c seen) cs)"

definition BindingSetFactV2_Validate :: "BindingSetFactV2 \<Rightarrow> go_error option" where
  "BindingSetFactV2_Validate s =
     first_err
      [fail_if (bs_ID s = '''' \<or> length (bs_ID s) > 128 \<or> bs_PlanID s = '''' \<or> bs_Revision s = 0
          \<or> sint (bs_CreatedUnixNano s) \<le> 0 \<or> sint (bs_ExpiresUnixNano s) \<le> sint (bs_CreatedUnixNano s))
         ErrorInvalidArgument ReasonInvalidReference,
       Digest_Validate (bs_PlanDigest s),
       Digest_Validate (bs_GovernanceDigest s),
       fail_if (\<not> validBindingSetStateV2 (bs_State s)) ErrorInvalidArgument ReasonInvalidState,
       fail_if (bs_State s = BindingSetActive \<and> bs_InvalidationReason s \<noteq> '''') ErrorPreconditionFailed ReasonInvalidState,
       fail_if (bs_State s \<noteq> BindingSetActive \<and> bs_InvalidationReason s = '''') ErrorPreconditionFailed ReasonInvalidState,
       fail_if (bs_Members s = [] \<or> length (bs_Members s) > MaxManifestSetEntries
          \<or> length (bs_TopologicalOrder s) \<noteq> length (bs_Members s)) ErrorInvalidArgument ReasonBindingSetConflict,
       members_error {} (bs_Members s),
       fail_if (bs_ExpiresUnixNano s \<noteq> min_expiry MaxInt64 (concat (map bm_Grants (bs_Members s))))
         ErrorPreconditionFailed ReasonBindingExpired,
       order_error (bm_ComponentID ` set (bs_Members s)) {} (bs_TopologicalOrder s)]"

definition CapabilityGrantDigestV2 :: "binding_fact_json \<Rightarrow> BindingSetFactV2 \<Rightarrow> Digest res" where
  "CapabilityGrantDigestV2 K s =
     ensure (BindingSetFactV2_Validate s)
      (binding_digest ''CapabilityGrantSetV2'' (json_MemberGrants K (map (\<lambda>m. (bm_ComponentID m, bm_Grants m)) (bs_Members s))))"

definition ValidateBindingSetTransitionV2 :: "BindingSetFactV2 \<Rightarrow> BindingSetFactV2 \<Rightarrow> go_error option" where
  "ValidateBindingSetTransitionV2 c n =
     first_err
      [BindingSetFactV2_Validate c,
       BindingSetFactV2_Validate n,
       fail_if (bs_ID c \<noteq> bs_ID n \<or> bs_PlanID c \<noteq> bs_PlanID n \<or> bs_PlanDigest c \<noteq> bs_PlanDigest n
          \<or> bs_GovernanceDigest c \<noteq> bs_GovernanceDigest n \<or> bs_CreatedUnixNano c \<noteq> bs_CreatedUnixNano n)
         ErrorPreconditionFailed ReasonBindingSetConflict,
       fail_if (bs_Revision n \<noteq> bs_Revision c + 1) ErrorConflict ReasonRevisionConflict,
       fail_if (bs_State c \<noteq> BindingSetActive) ErrorPreconditionFailed ReasonInvalidTransition,
       fail_if (bs_State n = BindingSetActive) ErrorForbidden ReasonInvalidTransition,
       fail_if (bs_State n \<noteq> BindingSetExpired \<and> bs_State n \<noteq> BindingSetRevoked) ErrorPreconditionFailed ReasonInvalidTransition,
       fail_if (bs_Members c \<noteq> bs_Members n \<or> bs_TopologicalOrder c \<noteq> bs_TopologicalOrder n
          \<or> bs_Residuals c \<noteq> bs_Residuals n \<or> bs_ExpiresUnixNano c \<noteq> bs_ExpiresUnixNano n)
         ErrorPreconditionFailed ReasonBindingSetConflict]"

section \<open>Renewal\<close>

fun sameEvidenceRecordRefsV2 :: "EvidenceRecordRefV2 list \<Rightarrow> EvidenceRecordRefV2 list \<Rightarrow> bool" where
  "sameEvidenceRecordRefsV2 [] [] = True"
| "sameEvidenceRecordRefsV2 (l # ls) (r # rs) = (l = r \<and> sameEvidenceRecordRefsV2 ls rs)"
| "sameEvidenceRecordRefsV2 _ _ = False"

lemma sameEvidenceRecordRefsV2_eq [simp]: "sameEvidenceRecordRefsV2 ls rs \<longleftrightarrow> ls = rs"
  by (induction ls rs rule: sameEvidenceRecordRefsV2.induct) simp_all

definition grant_renewed :: "CapabilityGrantV2 \<times> CapabilityGrantV2 \<Rightarrow> bool" where
  "grant_renewed = (\<lambda>(old, new). cg_Capability old = cg_Capability new
     \<and> sint (cg_ObservedUnixNano old) \<le> sint (cg_ObservedUnixNano new)
     \<and> sint (cg_ExpiresUnixNano old) < sint (cg_ExpiresUnixNano new) \<and> cg_EvidenceDigest new \<noteq> cg_EvidenceDigest old)"

definition ValidateBindingFactRenewalV2 :: "binding_json \<Rightarrow> BindingFactV2 \<Rightarrow> BindingFactV2 \<Rightarrow> Time \<Rightarrow> go_error option" where
  "ValidateBindingFactRenewalV2 J c n now =
     first_err
      [BindingFactV2_Validate J c,
       BindingFactV2_Validate J n,
       fail_if (IsZero now \<or> bf_State c \<noteq> BindingBound \<or> bf_State n \<noteq> BindingBound \<or> bf_ID c \<noteq> bf_ID n
          \<or> bf_Revision n \<noteq> bf_Revision c + 1 \<or> bf_ComponentID c \<noteq> bf_ComponentID n \<or> bf_ManifestDigest c \<noteq> bf_ManifestDigest n
          \<or> bf_GovernanceDigest c \<noteq> bf_GovernanceDigest n \<or> bf_BindingSetID c \<noteq> bf_BindingSetID n
          \<or> bf_ProbedUnixNano c \<noteq> bf_ProbedUnixNano n \<or> bf_CertifiedUnixNano c \<noteq> bf_CertifiedUnixNano n)
         ErrorPreconditionFailed ReasonBindingDrift,
       fail_if (length (bf_RenewalEvidence n) \<noteq> length (bf_RenewalEvidence c) + 1
          \<or> \<not> sameEvidenceRecordRefsV2 (bf_RenewalEvidence c) (take (length (bf_RenewalEvidence c)) (bf_RenewalEvidence n)))
         ErrorPreconditionFailed ReasonBindingDrift,
       fail_if (length (bf_Grants c) \<noteq> length (bf_Grants n) \<or> sint (bf_ExpiresUnixNano n) \<le> sint (bf_ExpiresUnixNano c)
          \<or> \<not> Before now (TimeUnix0 (bf_ExpiresUnixNano n))) ErrorPreconditionFailed ReasonBindingExpired,
       fail_if (\<not> list_all grant_renewed (zip (bf_Grants c) (bf_Grants n))) ErrorPreconditionFailed ReasonBindingDrift]"

definition semantic_member :: "BindingMemberV2 \<Rightarrow> semanticMember" where
  "semantic_member m =
     \<lparr>sm_BindingID = bm_BindingID m, sm_ComponentID = bm_ComponentID m, sm_Kind = bm_Kind m,
      sm_ManifestDigest = bm_ManifestDigest m, sm_ArtifactDigest = bm_ArtifactDigest m, sm_Contract = bm_Contract m,
      sm_Owners = sort_key (\<lambda>a. owner_role_string (oa_Role a)) (bm_Owners m),
      sm_Capabilities = sort (map cg_Capability (bm_Grants m))\<rparr>"

definition semantic_set :: "BindingSetFactV2 \<Rightarrow> semanticSet" where
  "semantic_set s =
     \<lparr>ss_ID = bs_ID s, ss_PlanID = bs_PlanID s, ss_PlanDigest = bs_PlanDigest s, ss_GovernanceDigest = bs_GovernanceDigest s,
      ss_Members = sort_key sm_ComponentID (map semantic_member (bs_Members s)),
      ss_Order = bs_TopologicalOrder s, ss_Residuals = bs_Residuals s\<rparr>"

definition BindingSetSemanticDigestV2 :: "binding_fact_json \<Rightarrow> BindingSetFactV2 \<Rightarrow> Digest res" where
  "BindingSetSemanticDigestV2 K s =
     ensure (BindingSetFactV2_Validate s) (binding_digest ''BindingSetSemanticV2'' (json_SemanticSet K (semantic_set s)))"

section \<open>The topological order\<close>

text \<open>
  The graph is the list of its nodes and the dependencies of each. \<open>dependents\<close> lists the nodes that
  depend on \<open>d\<close>, once per edge, in the order in which the loop over the map met them.
\<close>

definition dependents :: "string list \<Rightarrow> graph \<Rightarrow> string \<Rightarrow> string list" where
  "dependents visited g d = concat (map (\<lambda>n. map (\<lambda>_. n) (filter (\<lambda>x. x = d) (g n))) visited)"

text \<open>The inner loop: each dependent loses one open dependency and becomes ready when it was the last.\<close>

fun release :: "(string \<Rightarrow> int) \<Rightarrow> string list \<Rightarrow> string list \<Rightarrow> (string \<Rightarrow> int) \<times> string list" where
  "release indegree ready [] = (indegree, ready)"
| "release indegree ready (d # ds) =
     (let indegree' = indegree(d := indegree d - 1) in
      release indegree' (if indegree' d = 0 then sort (ready @ [d]) else ready) ds)"

fun topo_loop ::
  "nat \<Rightarrow> (string \<Rightarrow> string list) \<Rightarrow> (string \<Rightarrow> int) \<Rightarrow> string list \<Rightarrow> string list \<Rightarrow> string list option" where
  "topo_loop 0 deps indegree ready order = None"
| "topo_loop (Suc n) deps indegree ready order =
     (case ready of
        [] \<Rightarrow> Some order
      | node # rest \<Rightarrow>
          (case release indegree rest (deps node) of
             (indegree', ready') \<Rightarrow> topo_loop n deps indegree' ready' (order @ [node])))"

text \<open>
  The number of rounds is bounded by one more than the number of nodes; theory \<open>Topology\<close> shows that
  this is always enough.
\<close>

definition stableTopologicalOrderV2 :: "map_order \<Rightarrow> string list \<Rightarrow> graph \<Rightarrow> string list res option" where
  "stableTopologicalOrderV2 order nodes g =
     (let deps = dependents (order 1 nodes) g; indegree = (\<lambda>n. int (length (g n)));
          ready = sort (filter (\<lambda>n. indegree n = 0) (order 2 nodes)) in
      case topo_loop (Suc (length nodes)) deps indegree ready [] of
        None \<Rightarrow> None
      | Some sorted_nodes \<Rightarrow>
          Some (if length sorted_nodes \<noteq> length nodes then Inl (DomainError ErrorPreconditionFailed ReasonDependencyCycle)
                else Inr sorted_nodes))"

section \<open>Building a set from a plan\<close>

text \<open>Why a fact cannot satisfy a requirement; the empty reason means it can.\<close>

definition bindingRequirementFailureV2 :: "BindingRequirementV2 \<Rightarrow> BindingFactV2 \<Rightarrow> GovernanceCatalogV2 \<Rightarrow> Time \<Rightarrow> ReasonCode" where
  "bindingRequirementFailureV2 r f catalog now =
     (if bf_State f \<noteq> BindingCertified then ReasonBindingNotCertified
      else if \<not> Before now (TimeUnix0 (bf_ExpiresUnixNano f)) then ReasonBindingExpired
      else let m = bf_Manifest f in
        if cm_ComponentID m \<noteq> br_ComponentID r \<or> cm_Kind m \<noteq> br_Kind r \<or> cm_ArtifactDigest m \<noteq> br_ArtifactDigest r
           \<or> cb_Name (cm_Contract m) \<noteq> br_ContractName r \<or> \<not> VersionRange_Contains (br_SemanticVersion r) (cm_SemanticVersion m)
           \<or> \<not> VersionRange_Contains (br_Contract r) (cb_Version (cm_Contract m))
        then ReasonBindingDrift
        else if ValidateManifestAgainstCatalogV2 m catalog \<noteq> None then ReasonUnknownGovernanceCategory
        else let grants = map_of (rev (map (\<lambda>g. (cg_Capability g, g)) (bf_Grants f))) in
          if list_all (\<lambda>c. case grants c of None \<Rightarrow> False | Some g \<Rightarrow> Before now (TimeUnix0 (cg_ExpiresUnixNano g)))
               (br_RequiredCapabilities r)
          then '''' else ReasonUnknownCapability)"

text \<open>The loop over the requirements, with the selected facts and the residuals so far.\<close>

fun select_loop ::
  "(string \<rightharpoonup> BindingFactV2) \<Rightarrow> GovernanceCatalogV2 \<Rightarrow> Time \<Rightarrow> BindingRequirementV2 list
     \<Rightarrow> (string \<times> BindingFactV2) list \<Rightarrow> BindingResidualV2 list \<Rightarrow> ((string \<times> BindingFactV2) list \<times> BindingResidualV2 list) res" where
  "select_loop facts catalog now [] selected residuals = Inr (selected, residuals)"
| "select_loop facts catalog now (r # rs) selected residuals =
     (let reason = (case facts (br_ComponentID r) of
          None \<Rightarrow> ReasonComponentMissing | Some f \<Rightarrow> bindingRequirementFailureV2 r f catalog now) in
      case facts (br_ComponentID r) of
        Some f \<Rightarrow>
          if reason = '''' then select_loop facts catalog now rs (selected @ [(br_ComponentID r, f)]) residuals
          else if br_Required r \<or> \<not> br_AllowResidual r then Inl (DomainError ErrorCapabilityUnavailable reason)
          else select_loop facts catalog now rs selected (residuals @ [\<lparr>brs_ComponentID = br_ComponentID r, brs_Reason = reason\<rparr>])
      | None \<Rightarrow>
          if br_Required r \<or> \<not> br_AllowResidual r then Inl (DomainError ErrorCapabilityUnavailable reason)
          else select_loop facts catalog now rs selected (residuals @ [\<lparr>brs_ComponentID = br_ComponentID r, brs_Reason = reason\<rparr>]))"

text \<open>The checks of one selected component, and the dependencies it has inside the selection.\<close>

definition selected_error :: "(string \<rightharpoonup> BindingFactV2) \<Rightarrow> BindingFactV2 \<Rightarrow> go_error option" where
  "selected_error selected f =
     first_err
      (map (\<lambda>d. fail_if (selected (cdep_ComponentID d) = None \<and> \<not> cdep_Optional d) ErrorCapabilityUnavailable ReasonComponentMissing)
         (cm_Dependencies (bf_Manifest f))
       @ map (\<lambda>r. case selected (creq_ProviderComponent r) of
             None \<Rightarrow> fail_if (\<not> creq_Optional r) ErrorCapabilityUnavailable ReasonComponentMissing
           | Some provider \<Rightarrow>
               fail_if (creq_Capability r \<notin> cg_Capability ` set (bf_Grants provider) \<and> \<not> creq_Optional r)
                 ErrorCapabilityUnavailable ReasonUnknownCapability)
         (cm_RequiredCapabilities (bf_Manifest f))
       @ map (\<lambda>a. fail_if (selected (oa_OwnerComponentID a) = None) ErrorCapabilityUnavailable ReasonOwnerMissing)
         (cm_Owners (bf_Manifest f)))"

definition selected_graph :: "(string \<rightharpoonup> BindingFactV2) \<Rightarrow> graph" where
  "selected_graph selected c =
     (case selected c of
        None \<Rightarrow> []
      | Some f \<Rightarrow> filter (\<lambda>d. selected d \<noteq> None) (map cdep_ComponentID (cm_Dependencies (bf_Manifest f))))"

definition validateSelectedDependenciesV2 ::
  "map_order \<Rightarrow> string list \<Rightarrow> (string \<rightharpoonup> BindingFactV2) \<Rightarrow> graph res" where
  "validateSelectedDependenciesV2 order keys selected =
     ensure (first_err (map (\<lambda>c. selected_error selected (the (selected c))) (order 0 keys))) (Inr (selected_graph selected))"

definition binding_member :: "BindingFactV2 \<Rightarrow> BindingMemberV2" where
  "binding_member f =
     \<lparr>bm_BindingID = bf_ID f, bm_BindingRevision = bf_Revision f, bm_ComponentID = bf_ComponentID f,
      bm_Kind = cm_Kind (bf_Manifest f), bm_ManifestDigest = bf_ManifestDigest f,
      bm_ArtifactDigest = cm_ArtifactDigest (bf_Manifest f), bm_Contract = cm_Contract (bf_Manifest f),
      bm_Owners = cm_Owners (bf_Manifest f), bm_Grants = bf_Grants f\<rparr>"

fun min_fact_expiry :: "i64 \<Rightarrow> BindingFactV2 list \<Rightarrow> i64" where
  "min_fact_expiry e [] = e"
| "min_fact_expiry e (f # fs) = min_fact_expiry (if sint (bf_ExpiresUnixNano f) < sint e then bf_ExpiresUnixNano f else e) fs"

definition facts_error :: "binding_json \<Rightarrow> BindingFactV2 list \<Rightarrow> go_error option" where
  "facts_error J = unique_error (BindingFactV2_Validate J) bf_ComponentID (DomainError ErrorConflict ReasonBindingSetConflict) no_check {}"

definition BuildBindingSetV2 ::
  "binding_json \<Rightarrow> map_order \<Rightarrow> string \<Rightarrow> BindingPlanV2 \<Rightarrow> GovernanceCatalogV2 \<Rightarrow> BindingFactV2 list \<Rightarrow> Time
     \<Rightarrow> BindingSetFactV2 res option" where
  "BuildBindingSetV2 J order setID plan catalog facts now =
     (case first_err
        [fail_if (setID = '''' \<or> length setID > 128 \<or> IsZero now) ErrorInvalidArgument ReasonInvalidReference,
         BindingPlanV2_Validate J plan,
         (case GovernanceCatalogV2_DigestV2 J catalog of
            Inl e \<Rightarrow> Some e
          | Inr d \<Rightarrow> fail_if (d \<noteq> bp_GovernanceDigest plan) ErrorPreconditionFailed ReasonBindingDrift),
         facts_error J facts] of
        Some e \<Rightarrow> Some (Inl e)
      | None \<Rightarrow>
          (case select_loop (map_of (map (\<lambda>f. (bf_ComponentID f, f)) facts)) catalog now (bp_Requirements plan) [] [] of
             Inl e \<Rightarrow> Some (Inl e)
           | Inr (chosen, residuals) \<Rightarrow>
               if chosen = [] then Some (Inl (DomainError ErrorCapabilityUnavailable ReasonComponentMissing))
               else let selected = map_of chosen; keys = map fst chosen in
                 (case validateSelectedDependenciesV2 order keys selected of
                    Inl e \<Rightarrow> Some (Inl e)
                  | Inr g \<Rightarrow>
                      (case stableTopologicalOrderV2 order keys g of
                         None \<Rightarrow> None
                       | Some (Inl e) \<Rightarrow> Some (Inl e)
                       | Some (Inr sorted_nodes) \<Rightarrow>
                           let fs = map (\<lambda>c. the (selected c)) sorted_nodes;
                               s = \<lparr>bs_ID = setID, bs_PlanID = bp_ID plan, bs_PlanDigest = bp_PlanDigest plan,
                                    bs_GovernanceDigest = bp_GovernanceDigest plan, bs_State = BindingSetActive, bs_Revision = 1,
                                    bs_Members = map binding_member fs, bs_TopologicalOrder = sorted_nodes,
                                    bs_Residuals = sort_key brs_ComponentID residuals, bs_CreatedUnixNano = UnixNano now,
                                    bs_ExpiresUnixNano = min_fact_expiry MaxInt64 fs, bs_InvalidationReason = ''''\<rparr> in
                           Some (ensure (BindingSetFactV2_Validate s) (Inr s))))))"

section \<open>Currentness of a set\<close>

definition probes_error :: "BindingCurrentProbeV2 list \<Rightarrow> go_error option" where
  "probes_error = unique_error no_check bcp_ComponentID (DomainError ErrorConflict ReasonBindingDrift) no_check {}"

definition ValidateBindingSetCurrentV2 ::
  "BindingSetFactV2 \<Rightarrow> BindingFactV2 list \<Rightarrow> BindingCurrentProbeV2 list \<Rightarrow> Time \<Rightarrow> go_error option" where
  "ValidateBindingSetCurrentV2 s facts probes now =
     (let byID = map_of (rev (map (\<lambda>f. (bf_ID f, f)) facts));
          byComponent = map_of (map (\<lambda>p. (bcp_ComponentID p, bcp_ManifestDigest p)) probes) in
      first_err
       [BindingSetFactV2_Validate s,
        fail_if (IsZero now) ErrorInvalidArgument ReasonInvalidReference,
        fail_if (bs_State s \<noteq> BindingSetActive \<or> \<not> Before now (TimeUnix0 (bs_ExpiresUnixNano s)))
          ErrorPreconditionFailed ReasonBindingExpired,
        probes_error probes,
        fail_if (\<not> list_all (\<lambda>m.
            (case byID (bm_BindingID m) of
               None \<Rightarrow> False
             | Some f \<Rightarrow> bf_State f = BindingBound \<and> bf_BindingSetID f = bs_ID s \<and> bf_Revision f = bm_BindingRevision m
                 \<and> bf_ManifestDigest f = bm_ManifestDigest m)
            \<and> byComponent (bm_ComponentID m) = Some (bm_ManifestDigest m)) (bs_Members s))
          ErrorPreconditionFailed ReasonBindingDrift])"

end
