(* ===== verification/BindingStore.thy ===== *)
theory BindingStore
  imports BindingFact FactStore
begin

text \<open>
  The in-memory binding store, \<open>runtime/fakes/binding_store_v2.go\<close>. Every operation holds the mutex
  while it reads and writes, so it is one function from the state to the new state and the result.
  Clock readings are arguments; the reader of renewal attestations is a port whose code is elsewhere,
  so it is an argument too. A binding is copied by encoding and decoding its manifest, with both
  errors dropped (\<open>cloneManifestV2\<close>); the other copies are the identity.
\<close>

record BindingStoreV2 =
  bst_bindings :: "string \<rightharpoonup> BindingFactV2"
  bst_sets :: "string \<rightharpoonup> BindingSetFactV2"
  bst_loseNextCommitReply :: bool

type_synonym attestation_reader = "EvidenceRecordRefV2 \<Rightarrow> BindingRenewalAttestationV2 res"

definition NewBindingStoreV2 :: BindingStoreV2 where
  "NewBindingStoreV2 = \<lparr>bst_bindings = Map.empty, bst_sets = Map.empty, bst_loseNextCommitReply = False\<rparr>"

definition LoseNextCommitReply :: "BindingStoreV2 \<Rightarrow> BindingStoreV2" where
  "LoseNextCommitReply s = s\<lparr>bst_loseNextCommitReply := True\<rparr>"

definition cloneBindingFactV2 :: "binding_json \<Rightarrow> BindingFactV2 \<Rightarrow> BindingFactV2" where
  "cloneBindingFactV2 J f = f\<lparr>bf_Manifest := cloneManifestV2 J (bf_Manifest f)\<rparr>"

section \<open>Bindings\<close>

definition CreateBinding :: "binding_json \<Rightarrow> BindingStoreV2 \<Rightarrow> go_context \<Rightarrow> BindingFactV2 \<Rightarrow> BindingStoreV2 \<times> BindingFactV2 res" where
  "CreateBinding J s ctx f =
     guarded (first_err
       [contextError ctx, BindingFactV2_Validate J f,
        fail_if (bf_Revision f \<noteq> 1 \<or> bf_State f \<noteq> BindingDeclared) ErrorInvalidArgument ReasonInvalidState,
        fail_if (bst_bindings s (bf_ID f) \<noteq> None) ErrorConflict ReasonAlreadyExists]) s
      (s\<lparr>bst_bindings := (bst_bindings s)(bf_ID f \<mapsto> cloneBindingFactV2 J f)\<rparr>, Inr (cloneBindingFactV2 J f))"

definition InspectBinding :: "binding_json \<Rightarrow> BindingStoreV2 \<Rightarrow> go_context \<Rightarrow> string \<Rightarrow> BindingFactV2 res" where
  "InspectBinding J s ctx i =
     ensure (contextError ctx)
      (case bst_bindings s i of
         None \<Rightarrow> Inl (DomainError ErrorNotFound ReasonInvalidReference)
       | Some f \<Rightarrow> Inr (cloneBindingFactV2 J f))"

definition CompareAndSwapBinding ::
  "binding_json \<Rightarrow> BindingStoreV2 \<Rightarrow> go_context \<Rightarrow> BindingFactCASRequestV2 \<Rightarrow> Time \<Rightarrow> BindingStoreV2 \<times> BindingFactV2 res" where
  "CompareAndSwapBinding J s ctx request now =
     guarded (first_err [contextError ctx, BindingFactCASRequestV2_Validate J request now]) s
      (case bst_bindings s (bf_ID (bfc_Next request)) of
         None \<Rightarrow> (s, Inl (DomainError ErrorNotFound ReasonInvalidReference))
       | Some c \<Rightarrow>
           guarded (first_err
              [fail_if (bf_Revision c \<noteq> bfc_ExpectedRevision request) ErrorConflict ReasonRevisionConflict,
               ValidateBindingFactTransitionV2 J c (bfc_Next request) now]) s
            (let n = cloneBindingFactV2 J (bfc_Next request) in
             (s\<lparr>bst_bindings := (bst_bindings s)(bf_ID n \<mapsto> n)\<rparr>, Inr (cloneBindingFactV2 J n))))"

section \<open>Committing a set\<close>

definition bindingSetCommitReplayV2 :: "BindingSetFactV2 \<Rightarrow> CommitBindingSetRequestV2 \<Rightarrow> bool" where
  "bindingSetCommitReplayV2 existing request =
     (let s = cbs_Set request in
      if bs_ID existing \<noteq> bs_ID s \<or> bs_PlanID existing \<noteq> bs_PlanID s \<or> bs_PlanDigest existing \<noteq> bs_PlanDigest s
         \<or> bs_GovernanceDigest existing \<noteq> bs_GovernanceDigest s \<or> bs_State existing \<noteq> bs_State s
         \<or> bs_CreatedUnixNano existing \<noteq> bs_CreatedUnixNano s \<or> bs_ExpiresUnixNano existing \<noteq> bs_ExpiresUnixNano s
         \<or> length (bs_Members existing) \<noteq> length (bs_Members s)
      then False
      else list_all (\<lambda>(left, right). bm_BindingRevision left = bm_BindingRevision right + 1
             \<and> left\<lparr>bm_BindingRevision := bm_BindingRevision right\<rparr> = right) (zip (bs_Members existing) (bs_Members s))
           \<and> bs_TopologicalOrder existing = bs_TopologicalOrder s \<and> bs_Residuals existing = bs_Residuals s)"

text \<open>The loop that reads the expected revisions into a map.\<close>

definition expected_error :: "ExpectedBindingRevisionV2 list \<Rightarrow> go_error option" where
  "expected_error =
     unique_error (\<lambda>x. fail_if (xbr_BindingID x = '''' \<or> xbr_ExpectedRevision x = 0) ErrorInvalidArgument ReasonRevisionConflict)
       xbr_BindingID (DomainError ErrorConflict ReasonRevisionConflict) no_check {}"

definition expected_map :: "ExpectedBindingRevisionV2 list \<Rightarrow> string \<rightharpoonup> Revision" where
  "expected_map xs = map_of (map (\<lambda>x. (xbr_BindingID x, xbr_ExpectedRevision x)) xs)"

definition bound_version :: "string \<Rightarrow> BindingFactV2 \<Rightarrow> BindingFactV2" where
  "bound_version setID f = f\<lparr>bf_State := BindingBound, bf_Revision := bf_Revision f + 1, bf_BindingSetID := setID\<rparr>"

definition commit_member_error ::
  "binding_json \<Rightarrow> (string \<rightharpoonup> BindingFactV2) \<Rightarrow> (string \<rightharpoonup> Revision) \<Rightarrow> BindingSetFactV2 \<Rightarrow> Time \<Rightarrow> BindingMemberV2 \<Rightarrow> go_error option" where
  "commit_member_error J bindings expected s now m =
     (case bindings (bm_BindingID m) of
        None \<Rightarrow> Some (DomainError ErrorConflict ReasonBindingSetConflict)
      | Some f \<Rightarrow>
          first_err
           [fail_if (expected (bm_BindingID m) \<noteq> Some (bf_Revision f) \<or> bm_BindingRevision m \<noteq> bf_Revision f
               \<or> bf_State f \<noteq> BindingCertified \<or> bf_ComponentID f \<noteq> bm_ComponentID m \<or> bf_ManifestDigest f \<noteq> bm_ManifestDigest m
               \<or> cm_ArtifactDigest (bf_Manifest f) \<noteq> bm_ArtifactDigest m \<or> bf_GovernanceDigest f \<noteq> bs_GovernanceDigest s)
              ErrorConflict ReasonBindingSetConflict,
            fail_if (\<not> Before now (TimeUnix0 (bf_ExpiresUnixNano f))) ErrorPreconditionFailed ReasonBindingExpired,
            ValidateBindingFactTransitionV2 J f (bound_version (bs_ID s) f) now])"

text \<open>The writes: each member's binding is bound, and the set records its new revision.\<close>

definition bind_members :: "binding_json \<Rightarrow> string \<Rightarrow> (string \<rightharpoonup> BindingFactV2) \<Rightarrow> BindingMemberV2 list \<Rightarrow> (string \<rightharpoonup> BindingFactV2)" where
  "bind_members J setID bindings ms i =
     (if i \<in> bm_BindingID ` set ms then Some (cloneBindingFactV2 J (bound_version setID (the (bindings i)))) else bindings i)"

definition committed_set :: "(string \<rightharpoonup> BindingFactV2) \<Rightarrow> BindingSetFactV2 \<Rightarrow> BindingSetFactV2" where
  "committed_set bindings s =
     s\<lparr>bs_Members := map (\<lambda>m. m\<lparr>bm_BindingRevision := bf_Revision (the (bindings (bm_BindingID m))) + 1\<rparr>) (bs_Members s)\<rparr>"

definition CommitBindingSet ::
  "binding_json \<Rightarrow> BindingStoreV2 \<Rightarrow> go_context \<Rightarrow> CommitBindingSetRequestV2 \<Rightarrow> Time \<Rightarrow> BindingStoreV2 \<times> BindingSetFactV2 res" where
  "CommitBindingSet J st ctx request now =
     (let s = cbs_Set request in
      guarded (first_err
        [contextError ctx, BindingSetFactV2_Validate s,
         fail_if (bs_State s \<noteq> BindingSetActive \<or> bs_Revision s \<noteq> 1 \<or> length (cbs_Expected request) \<noteq> length (bs_Members s))
           ErrorInvalidArgument ReasonBindingSetConflict,
         fail_if (IsZero now \<or> sint (UnixNano now) < sint (bs_CreatedUnixNano s) \<or> \<not> Before now (TimeUnix0 (bs_ExpiresUnixNano s)))
           ErrorPreconditionFailed ReasonBindingExpired]) st
       (case bst_sets st (bs_ID s) of
          Some existing \<Rightarrow>
            (st, if bindingSetCommitReplayV2 existing request then Inr existing
                 else Inl (DomainError ErrorConflict ReasonBindingSetConflict))
        | None \<Rightarrow>
            guarded (first_err
               (expected_error (cbs_Expected request)
                # map (commit_member_error J (bst_bindings st) (expected_map (cbs_Expected request)) s now) (bs_Members s))) st
             (let st' = st\<lparr>bst_bindings := bind_members J (bs_ID s) (bst_bindings st) (bs_Members s)\<rparr>;
                  s' = committed_set (bst_bindings st) s in
              guarded (BindingSetFactV2_Validate s') st'
               (let st'' = st'\<lparr>bst_sets := (bst_sets st')(bs_ID s' \<mapsto> s')\<rparr> in
                if bst_loseNextCommitReply st''
                then (st''\<lparr>bst_loseNextCommitReply := False\<rparr>, Inl (DomainError ErrorUnavailable ReasonEvidenceUnavailable))
                else (st'', Inr s')))))"

section \<open>Sets\<close>

definition InspectBindingSet :: "BindingStoreV2 \<Rightarrow> go_context \<Rightarrow> string \<Rightarrow> BindingSetFactV2 res" where
  "InspectBindingSet s ctx i =
     ensure (contextError ctx)
      (case bst_sets s i of None \<Rightarrow> Inl (DomainError ErrorNotFound ReasonInvalidReference) | Some x \<Rightarrow> Inr x)"

definition CompareAndSwapBindingSet ::
  "BindingStoreV2 \<Rightarrow> go_context \<Rightarrow> BindingSetCASRequestV2 \<Rightarrow> BindingStoreV2 \<times> BindingSetFactV2 res" where
  "CompareAndSwapBindingSet s ctx request =
     guarded (first_err
       [contextError ctx,
        fail_if (bsc_ExpectedRevision request = 0 \<or> bs_Revision (bsc_Next request) \<noteq> bsc_ExpectedRevision request + 1)
          ErrorInvalidArgument ReasonRevisionConflict]) s
      (case bst_sets s (bs_ID (bsc_Next request)) of
         None \<Rightarrow> (s, Inl (DomainError ErrorNotFound ReasonInvalidReference))
       | Some c \<Rightarrow>
           guarded (first_err
              [fail_if (bs_Revision c \<noteq> bsc_ExpectedRevision request) ErrorConflict ReasonRevisionConflict,
               ValidateBindingSetTransitionV2 c (bsc_Next request)]) s
            (s\<lparr>bst_sets := (bst_sets s)(bs_ID (bsc_Next request) \<mapsto> bsc_Next request)\<rparr>, Inr (bsc_Next request)))"

section \<open>Renewal\<close>

definition bindingSetContainsExactProducerV2 :: "BindingSetFactV2 \<Rightarrow> EvidenceProducerBindingRefV2 \<Rightarrow> bool" where
  "bindingSetContainsExactProducerV2 s p \<longleftrightarrow>
     list_ex (\<lambda>m. \<not> (bm_ComponentID m \<noteq> prov_ComponentID p \<or> bm_ManifestDigest m \<noteq> prov_ManifestDigest p
           \<or> bm_ArtifactDigest m \<noteq> prov_ArtifactDigest p)
        \<and> list_ex (\<lambda>g. cg_Capability g = prov_Capability p) (bm_Grants m)) (bs_Members s)"

definition bindingSetEqualV2 :: "binding_fact_json \<Rightarrow> BindingSetFactV2 \<Rightarrow> BindingSetFactV2 \<Rightarrow> bool" where
  "bindingSetEqualV2 K left right \<longleftrightarrow>
     (case (binding_digest ''BindingSetFactV2'' (json_BindingSet K left), binding_digest ''BindingSetFactV2'' (json_BindingSet K right)) of
        (Inr l, Inr r) \<Rightarrow> l = r
      | _ \<Rightarrow> False)"

text \<open>The attestation of one next fact: read, and checked against the fact.\<close>

definition attested ::
  "binding_fact_json \<Rightarrow> attestation_reader \<Rightarrow> Time \<Rightarrow> BindingFactV2 \<Rightarrow> BindingRenewalAttestationV2 res" where
  "attested K reader now f =
     ensure (fail_if (bf_RenewalEvidence f = []) ErrorForbidden ReasonBindingNotCertified)
      (let ref = last (bf_RenewalEvidence f) in
       bind_res (reader ref) (\<lambda>a.
         ensure (fail_if (case BindingGrantSetDigestV2 K (bf_Grants f) of
              Inl e \<Rightarrow> True
            | Inr grantDigest \<Rightarrow> BindingRenewalAttestationV2_Validate K a \<noteq> None \<or> bra_Evidence a \<noteq> ref \<or> bra_BindingID a \<noteq> bf_ID f
                \<or> bra_ComponentID a \<noteq> bf_ComponentID f \<or> bra_ManifestDigest a \<noteq> bf_ManifestDigest f
                \<or> bra_GrantSetDigest a \<noteq> grantDigest \<or> bra_SourceSequence a \<noteq> err_Sequence ref
                \<or> Before now (TimeUnix0 (bra_ObservedUnixNano a)) \<or> \<not> Before now (TimeUnix0 (bra_ExpiresUnixNano a)))
            ErrorForbidden ReasonBindingNotCertified)
          (Inr a)))"

fun attest_loop ::
  "binding_fact_json \<Rightarrow> attestation_reader \<Rightarrow> Time \<Rightarrow> BindingFactV2 list \<Rightarrow> (string \<rightharpoonup> BindingRenewalAttestationV2)
     \<Rightarrow> (string \<rightharpoonup> BindingRenewalAttestationV2) res" where
  "attest_loop K reader now [] verified = Inr verified"
| "attest_loop K reader now (f # fs) verified =
     bind_res (attested K reader now f) (\<lambda>a. attest_loop K reader now fs (verified(bf_ID f \<mapsto> a)))"

fun renew_loop ::
  "binding_json \<Rightarrow> (string \<rightharpoonup> BindingFactV2) \<Rightarrow> Time \<Rightarrow> BindingFactV2 list \<Rightarrow> (string \<rightharpoonup> BindingFactV2) \<Rightarrow> (string \<rightharpoonup> BindingFactV2) res" where
  "renew_loop J bindings now [] next = Inr next"
| "renew_loop J bindings now (f # fs) next =
     (if next (bf_ID f) \<noteq> None then Inl (DomainError ErrorConflict ReasonBindingSetConflict)
      else case bindings (bf_ID f) of
             None \<Rightarrow> Inl (DomainError ErrorNotFound ReasonInvalidReference)
           | Some c \<Rightarrow>
               ensure (ValidateBindingFactRenewalV2 J c f now)
                (renew_loop J bindings now fs (next(bf_ID f \<mapsto> cloneBindingFactV2 J f))))"

definition renew_member_error ::
  "(string \<rightharpoonup> BindingSetFactV2) \<Rightarrow> (string \<rightharpoonup> BindingRenewalAttestationV2) \<Rightarrow> (string \<rightharpoonup> BindingFactV2) \<Rightarrow> Time
     \<Rightarrow> BindingMemberV2 \<Rightarrow> go_error option" where
  "renew_member_error sets verified next now m =
     fail_if (case (next (bm_BindingID m), verified (bm_BindingID m)) of
         (Some f, Some a) \<Rightarrow>
           \<not> (case sets (prov_BindingSetID (bra_Certifier a)) of
                None \<Rightarrow> False
              | Some c \<Rightarrow> bs_State c = BindingSetActive \<and> bs_Revision c = prov_BindingSetRevision (bra_Certifier a)
                  \<and> Before now (TimeUnix0 (bs_ExpiresUnixNano c)) \<and> bindingSetContainsExactProducerV2 c (bra_Certifier a))
           \<or> bm_BindingRevision m \<noteq> bf_Revision f \<or> bm_ComponentID m \<noteq> bf_ComponentID f
           \<or> bm_ManifestDigest m \<noteq> bf_ManifestDigest f \<or> bm_ArtifactDigest m \<noteq> cm_ArtifactDigest (bf_Manifest f)
           \<or> bm_Contract m \<noteq> cm_Contract (bf_Manifest f) \<or> bm_Owners m \<noteq> cm_Owners (bf_Manifest f) \<or> bm_Grants m \<noteq> bf_Grants f
       | _ \<Rightarrow> True) ErrorPreconditionFailed ReasonBindingDrift"

definition RenewBindingSetV2 ::
  "binding_fact_json \<Rightarrow> attestation_reader option \<Rightarrow> BindingStoreV2 \<Rightarrow> go_context \<Rightarrow> RenewBindingSetRequestV2 \<Rightarrow> Time
     \<Rightarrow> BindingStoreV2 \<times> BindingSetFactV2 res" where
  "RenewBindingSetV2 K attestations st ctx request now =
     (let n = rbs_NextSet request in
      guarded (first_err
        [contextError ctx,
         fail_if (rbs_ExpectedSetRevision request = 0 \<or> bs_Revision n \<noteq> rbs_ExpectedSetRevision request + 1
            \<or> length (rbs_NextBindings request) \<noteq> length (bs_Members n)) ErrorInvalidArgument ReasonRevisionConflict,
         BindingSetFactV2_Validate n]) st
       (case attestations of
          None \<Rightarrow> (st, Inl (DomainError ErrorInvalidArgument ReasonComponentMissing))
        | Some reader \<Rightarrow>
            (case attest_loop K reader now (rbs_NextBindings request) Map.empty of
               Inl e \<Rightarrow> (st, Inl e)
             | Inr verified \<Rightarrow>
                 (case bst_sets st (bs_ID n) of
                    None \<Rightarrow> (st, Inl (DomainError ErrorNotFound ReasonInvalidReference))
                  | Some c \<Rightarrow>
                      if bs_Revision c = bs_Revision n
                      then (st, if bindingSetEqualV2 K c n then Inr c else Inl (DomainError ErrorConflict ReasonBindingSetConflict))
                      else guarded (first_err
                         [fail_if (bs_Revision c \<noteq> rbs_ExpectedSetRevision request \<or> bs_State c \<noteq> BindingSetActive
                             \<or> bs_State n \<noteq> BindingSetActive) ErrorConflict ReasonRevisionConflict,
                          fail_if (case (BindingSetSemanticDigestV2 K c, BindingSetSemanticDigestV2 K n) of
                               (Inr cd, Inr nd) \<Rightarrow> cd \<noteq> nd \<or> sint (bs_ExpiresUnixNano n) \<le> sint (bs_ExpiresUnixNano c)
                             | _ \<Rightarrow> True) ErrorPreconditionFailed ReasonBindingDrift]) st
                       (case renew_loop (bj_base K) (bst_bindings st) now (rbs_NextBindings request) Map.empty of
                          Inl e \<Rightarrow> (st, Inl e)
                        | Inr next \<Rightarrow>
                            guarded (first_err (map (renew_member_error (bst_sets st) verified next now) (bs_Members n))) st
                             (st\<lparr>bst_bindings := bst_bindings st ++ (\<lambda>i. map_option (cloneBindingFactV2 (bj_base K)) (next i)),
                                 bst_sets := (bst_sets st)(bs_ID n \<mapsto> n)\<rparr>, Inr n))))))"

end
