(* ===== verification/BindingInvariant.thy ===== *)
theory BindingInvariant
  imports BindingStore
begin

text \<open>
  Histories of the binding store. The operations are cases of one step relation; every binding keeps
  its identity and its state only advances, and, as long as no renewal meets a collision of the
  semantic digest, no binding is ever in two sets and a set records the current revision of each
  member that is still bound.
\<close>

section \<open>Steps\<close>

text \<open>
  A renewal compares the two sets by their digests only. A history is careful when no renewal meets
  two different sets with the same semantic digest, a collision of the hash.
\<close>

definition no_collision :: "binding_fact_json \<Rightarrow> BindingStoreV2 \<Rightarrow> RenewBindingSetRequestV2 \<Rightarrow> bool" where
  "no_collision K s r \<longleftrightarrow>
     (case bst_sets s (bs_ID (rbs_NextSet r)) of
        None \<Rightarrow> True
      | Some c \<Rightarrow> BindingSetSemanticDigestV2 K c = BindingSetSemanticDigestV2 K (rbs_NextSet r) \<longrightarrow> semantic_set c = semantic_set (rbs_NextSet r))"

inductive binding_step :: "bool \<Rightarrow> binding_fact_json \<Rightarrow> BindingStoreV2 \<Rightarrow> BindingStoreV2 \<Rightarrow> bool" for careful K where
  create_binding: "CreateBinding (bj_base K) s ctx f = (s', x) \<Longrightarrow> binding_step careful K s s'"
| swap_binding: "CompareAndSwapBinding (bj_base K) s ctx q now = (s', x) \<Longrightarrow> binding_step careful K s s'"
| commit_set: "CommitBindingSet (bj_base K) s ctx c now = (s', y) \<Longrightarrow> binding_step careful K s s'"
| swap_set: "CompareAndSwapBindingSet s ctx b = (s', y) \<Longrightarrow> binding_step careful K s s'"
| renew_set: "RenewBindingSetV2 K attestations s ctx r now = (s', y) \<Longrightarrow> (careful \<Longrightarrow> no_collision K s r) \<Longrightarrow> binding_step careful K s s'"
| lose_commit: "binding_step careful K s (LoseNextCommitReply s)"

inductive binding_run :: "bool \<Rightarrow> binding_fact_json \<Rightarrow> BindingStoreV2 \<Rightarrow> BindingStoreV2 \<Rightarrow> bool" for careful K where
  binding_stay: "binding_run careful K s s"
| binding_go: "binding_run careful K s t \<Longrightarrow> binding_step careful K t u \<Longrightarrow> binding_run careful K s u"

section \<open>What each operation does\<close>

lemma clone_fields [simp]:
  "bf_ID (cloneBindingFactV2 J f) = bf_ID f" "bf_ComponentID (cloneBindingFactV2 J f) = bf_ComponentID f"
  "bf_ManifestDigest (cloneBindingFactV2 J f) = bf_ManifestDigest f" "bf_GovernanceDigest (cloneBindingFactV2 J f) = bf_GovernanceDigest f"
  "bf_State (cloneBindingFactV2 J f) = bf_State f" "bf_Revision (cloneBindingFactV2 J f) = bf_Revision f"
  "bf_Grants (cloneBindingFactV2 J f) = bf_Grants f" "bf_BindingSetID (cloneBindingFactV2 J f) = bf_BindingSetID f"
  "bf_ExpiresUnixNano (cloneBindingFactV2 J f) = bf_ExpiresUnixNano f" "bf_InvalidationReason (cloneBindingFactV2 J f) = bf_InvalidationReason f"
  "bf_ProbedUnixNano (cloneBindingFactV2 J f) = bf_ProbedUnixNano f" "bf_CertifiedUnixNano (cloneBindingFactV2 J f) = bf_CertifiedUnixNano f"
  "bf_RenewalEvidence (cloneBindingFactV2 J f) = bf_RenewalEvidence f"
  by (simp_all add: cloneBindingFactV2_def)

lemma clone_manifest: "cloneManifestV2 J m = m \<or> cloneManifestV2 J m = zero_manifest"
  by (simp add: cloneManifestV2_def split: sum.splits)

lemma zero_manifest_invalid [simp]: "ComponentManifestV2_Validate zero_manifest \<noteq> None"
  by (simp add: ComponentManifestV2_Validate_def zero_manifest_def BindingContractVersionV2_def)

text \<open>Copying twice is copying once.\<close>

lemma clone_clone [simp]: "cloneBindingFactV2 J (cloneBindingFactV2 J f) = cloneBindingFactV2 J f"
proof -
  have "cloneManifestV2 J (cloneManifestV2 J m) = cloneManifestV2 J m" for m
    using clone_manifest [of J m]
    by (auto simp: cloneManifestV2_def EncodeComponentManifestV2_def ensure_def split: option.splits sum.splits)
  then show ?thesis by (simp add: cloneBindingFactV2_def)
qed

lemma CreateBinding_cases:
  assumes "CreateBinding J s ctx f = (s', x)"
  obtains (same) "s' = s"
  | (created) "BindingFactV2_Validate J f = None" "bf_State f = BindingDeclared" "bst_bindings s (bf_ID f) = None"
      "s' = s\<lparr>bst_bindings := (bst_bindings s)(bf_ID f \<mapsto> cloneBindingFactV2 J f)\<rparr>"
  using assms by (auto simp: CreateBinding_def elim!: guarded_cases)

lemma CompareAndSwapBinding_cases:
  assumes "CompareAndSwapBinding J s ctx q now = (s', x)"
  obtains (same) "s' = s"
  | (swapped) c where "bst_bindings s (bf_ID (bfc_Next q)) = Some c"
      "ValidateBindingFactTransitionV2 J c (bfc_Next q) now = None"
      "s' = s\<lparr>bst_bindings := (bst_bindings s)(bf_ID (bfc_Next q) \<mapsto> cloneBindingFactV2 J (bfc_Next q))\<rparr>"
  using assms by (auto simp: CompareAndSwapBinding_def Let_def elim!: guarded_cases split: option.splits)

text \<open>The commit never fails after it has begun to write: the committed set is valid.\<close>

lemma CommitBindingSet_cases:
  assumes "CommitBindingSet J st ctx q now = (st', x)"
  obtains (same) "st' = st"
  | (committed) "BindingSetFactV2_Validate (cbs_Set q) = None" "bst_sets st (bs_ID (cbs_Set q)) = None"
      "\<And>m. m \<in> set (bs_Members (cbs_Set q)) \<Longrightarrow>
         commit_member_error J (bst_bindings st) (expected_map (cbs_Expected q)) (cbs_Set q) now m = None"
      "bst_bindings st' = bind_members J (bs_ID (cbs_Set q)) (bst_bindings st) (bs_Members (cbs_Set q))"
      "bst_sets st' = bst_sets st \<or> bst_sets st' = (bst_sets st)(bs_ID (cbs_Set q) \<mapsto> committed_set (bst_bindings st) (cbs_Set q))
         \<and> BindingSetFactV2_Validate (committed_set (bst_bindings st) (cbs_Set q)) = None"
proof (cases "st' = st")
  case False
  let ?s = "cbs_Set q"
  have id: "bs_ID (committed_set b ?s) = bs_ID ?s" for b by (simp add: committed_set_def)
  from False assms show thesis
    by (auto simp: CommitBindingSet_def Let_def id first_err_None_iff elim!: guarded_cases
        split: option.splits if_splits intro!: committed)
qed (rule same)

lemma CompareAndSwapBindingSet_cases:
  assumes "CompareAndSwapBindingSet s ctx q = (s', x)"
  obtains (same) "s' = s"
  | (swapped) c where "bst_sets s (bs_ID (bsc_Next q)) = Some c" "ValidateBindingSetTransitionV2 c (bsc_Next q) = None"
      "s' = s\<lparr>bst_sets := (bst_sets s)(bs_ID (bsc_Next q) \<mapsto> bsc_Next q)\<rparr>"
  using assms by (auto simp: CompareAndSwapBindingSet_def elim!: guarded_cases split: option.splits)

text \<open>The facts of a renewal are new versions of bound bindings, each copied once.\<close>

lemma renew_loop_spec:
  assumes "renew_loop J bindings now fs next0 = Inr nx" "\<And>i g. next0 i = Some g \<Longrightarrow> P i g"
    and "\<And>f c. f \<in> set fs \<Longrightarrow> bindings (bf_ID f) = Some c \<Longrightarrow> ValidateBindingFactRenewalV2 J c f now = None \<Longrightarrow> P (bf_ID f) (cloneBindingFactV2 J f)"
  shows "\<And>i g. nx i = Some g \<Longrightarrow> P i g" and "dom nx = dom next0 \<union> bf_ID ` set fs"
proof -
  have "(\<forall>i g. nx i = Some g \<longrightarrow> P i g) \<and> dom nx = dom next0 \<union> bf_ID ` set fs"
    using assms
  proof (induction J bindings now fs next0 rule: renew_loop.induct)
    case (2 J bindings now f fs next0)
    from "2.prems"(1) obtain c where c: "next0 (bf_ID f) = None" "bindings (bf_ID f) = Some c"
      "ValidateBindingFactRenewalV2 J c f now = None" "renew_loop J bindings now fs (next0(bf_ID f \<mapsto> cloneBindingFactV2 J f)) = Inr nx"
      by (auto split: option.splits if_splits)
    have "P i g" if "(next0(bf_ID f \<mapsto> cloneBindingFactV2 J f)) i = Some g" for i g
      using that "2.prems"(2,3) c by (auto split: if_splits)
    then have "(\<forall>i g. nx i = Some g \<longrightarrow> P i g) \<and> dom nx = dom (next0(bf_ID f \<mapsto> cloneBindingFactV2 J f)) \<union> bf_ID ` set fs"
      using c(1) "2.prems"(3) by (intro "2.IH" [OF _ c(2) c(4)]) (simp, blast, auto)
    then show ?case by auto
  qed auto
  then show "\<And>i g. nx i = Some g \<Longrightarrow> P i g" "dom nx = dom next0 \<union> bf_ID ` set fs" by blast+
qed

lemma RenewBindingSetV2_cases:
  assumes "RenewBindingSetV2 K attestations st ctx q now = (st', x)"
  obtains (same) "st' = st"
  | (renewed) c nx verified where "bst_sets st (bs_ID (rbs_NextSet q)) = Some c" "BindingSetFactV2_Validate (rbs_NextSet q) = None"
      "bs_State c = BindingSetActive" "bs_State (rbs_NextSet q) = BindingSetActive" "bs_Revision (rbs_NextSet q) = bs_Revision c + 1"
      "sint (bs_ExpiresUnixNano c) < sint (bs_ExpiresUnixNano (rbs_NextSet q))"
      "BindingSetSemanticDigestV2 K c = BindingSetSemanticDigestV2 K (rbs_NextSet q)"
      "length (rbs_NextBindings q) = length (bs_Members (rbs_NextSet q))"
      "renew_loop (bj_base K) (bst_bindings st) now (rbs_NextBindings q) Map.empty = Inr nx"
      "\<And>m. m \<in> set (bs_Members (rbs_NextSet q)) \<Longrightarrow> renew_member_error (bst_sets st) verified nx now m = None"
      "st' = st\<lparr>bst_bindings := bst_bindings st ++ (\<lambda>i. map_option (cloneBindingFactV2 (bj_base K)) (nx i)),
              bst_sets := (bst_sets st)(bs_ID (rbs_NextSet q) \<mapsto> rbs_NextSet q)\<rparr>"
proof (cases "st' = st")
  case False
  from False assms show thesis
    by (auto simp: RenewBindingSetV2_def Let_def first_err_None_iff elim!: guarded_cases
        split: option.splits if_splits sum.splits intro!: renewed)
qed (rule same)

section \<open>The life of one binding\<close>

fun binding_rank :: "BindingLifecycleStateV2 \<Rightarrow> nat" where
  "binding_rank BindingDeclared = 0"
| "binding_rank BindingProbed = 1"
| "binding_rank BindingCertified = 2"
| "binding_rank BindingBound = 3"
| "binding_rank _ = 4"

definition binding_identity :: "BindingFactV2 \<Rightarrow> string \<times> string \<times> Digest \<times> Digest" where
  "binding_identity f = (bf_ID f, bf_ComponentID f, bf_ManifestDigest f, bf_GovernanceDigest f)"

text \<open>
  What every later version of a binding keeps: its identity; a state that only advances, and never
  leaves Expired or Revoked; after the probe, the capabilities it grants and the time of the probe; and
  an expiry that only a renewal of a bound binding extends.
\<close>

definition advances :: "BindingFactV2 \<Rightarrow> BindingFactV2 \<Rightarrow> bool" where
  "advances f g \<longleftrightarrow> binding_identity g = binding_identity f \<and> unat (bf_Revision f) < unat (bf_Revision g)
     \<and> binding_rank (bf_State f) < 4
     \<and> (binding_rank (bf_State f) < binding_rank (bf_State g) \<or> bf_State f = BindingBound \<and> bf_State g = BindingBound)"

definition grants_kept :: "BindingFactV2 \<Rightarrow> BindingFactV2 \<Rightarrow> bool" where
  "grants_kept f g \<longleftrightarrow> bf_State f = BindingDeclared
     \<or> map cg_Capability (bf_Grants g) = map cg_Capability (bf_Grants f) \<and> bf_ProbedUnixNano g = bf_ProbedUnixNano f
       \<and> sint (bf_ExpiresUnixNano f) \<le> sint (bf_ExpiresUnixNano g)
       \<and> (bf_ExpiresUnixNano g = bf_ExpiresUnixNano f \<or> 3 \<le> binding_rank (bf_State g))"

definition evolves :: "BindingFactV2 \<Rightarrow> BindingFactV2 \<Rightarrow> bool" where
  "evolves f g \<longleftrightarrow> f = g \<or> advances f g \<and> grants_kept f g"

lemma evolves_refl [simp]: "evolves f f"
  by (simp add: evolves_def)

lemma advances_trans: "advances f g \<Longrightarrow> advances g h \<Longrightarrow> advances f h"
  unfolding advances_def by (elim conjE disjE) simp_all

lemma grants_kept_trans:
  assumes "advances f g" "advances g h" "grants_kept f g" "grants_kept g h"
  shows "grants_kept f h"
proof -
  have "bf_State g \<noteq> BindingDeclared" using assms(1) by (auto simp: advances_def)
  moreover have "binding_rank (bf_State g) \<le> binding_rank (bf_State h)" using assms(2) by (auto simp: advances_def)
  ultimately show ?thesis using assms(3,4) unfolding grants_kept_def by (elim disjE conjE) simp_all
qed

lemma evolves_trans: "evolves f g \<Longrightarrow> evolves g h \<Longrightarrow> evolves f h"
  unfolding evolves_def using advances_trans grants_kept_trans by blast

text \<open>The three ways to change a binding: a transition, the commit of its set and a renewal.\<close>

lemma BindingFact_valid_revision: "BindingFactV2_Validate J f = None \<Longrightarrow> bf_Revision f \<noteq> 0 \<and> validBindingStateV2 (bf_State f)"
  by (simp add: BindingFactV2_Validate_def)

lemma binding_rank_ge3: "a \<noteq> BindingDeclared \<Longrightarrow> 1 \<le> binding_rank a"
  by (cases a) simp_all

lemma binding_move_rank:
  "binding_move_error a b = None \<Longrightarrow> validBindingStateV2 b \<Longrightarrow> binding_rank a < 4 \<and> binding_rank a < binding_rank b \<and> a \<noteq> b"
  by (cases a) auto

lemma transition_evolves:
  assumes "ValidateBindingFactTransitionV2 J c n now = None"
  shows "evolves c (cloneBindingFactV2 J n)"
proof -
  note t = assms [unfolded ValidateBindingFactTransitionV2_def, simplified]
  have v: "bf_Revision n \<noteq> 0" "validBindingStateV2 (bf_State n)" using t BindingFact_valid_revision [of J n] by auto
  then have "unat (bf_Revision n) = unat (bf_Revision c) + 1" using t unat_succ_nonzero [of "bf_Revision c"] by simp
  then show ?thesis
    using t binding_rank_ge3 [of "bf_State c"] binding_move_rank [of "bf_State c" "bf_State n"] v by (auto simp: evolves_def advances_def grants_kept_def binding_identity_def)
qed

lemma grants_renewed_capabilities:
  "length old = length new \<Longrightarrow> list_all grant_renewed (zip old new) \<Longrightarrow> map cg_Capability new = map cg_Capability old"
  by (induction old new rule: list_induct2) (simp_all add: grant_renewed_def)

lemma renewal_evolves:
  assumes "ValidateBindingFactRenewalV2 J c n now = None"
  shows "evolves c (cloneBindingFactV2 J n)"
proof -
  note t = assms [unfolded ValidateBindingFactRenewalV2_def, simplified]
  have "unat (bf_Revision n) = unat (bf_Revision c) + 1"
    using t BindingFact_valid_revision [of J n] unat_succ_nonzero [of "bf_Revision c"] by auto
  then show ?thesis
    using t grants_renewed_capabilities [of "bf_Grants c" "bf_Grants n"] by (auto simp: evolves_def advances_def grants_kept_def binding_identity_def)
qed

lemma binding_step_evolves:
  assumes "binding_step careful K s s'" and f: "bst_bindings s i = Some f"
  shows "\<exists>g. bst_bindings s' i = Some g \<and> evolves f g"
  using assms(1)
proof cases
  case (create_binding ctx b x)
  then show ?thesis using f by (auto elim!: CreateBinding_cases)
next
  case (swap_binding ctx q now x)
  then show ?thesis
  proof (cases rule: CompareAndSwapBinding_cases)
    case (swapped c)
    then show ?thesis using f transition_evolves [OF swapped(2)] by auto
  qed (use f in auto)
next
  case (commit_set ctx c now y)
  then show ?thesis
  proof (cases rule: CommitBindingSet_cases)
    case committed
    have "evolves f (cloneBindingFactV2 (bj_base K) (bound_version (bs_ID (cbs_Set c)) f))"
      if "m \<in> set (bs_Members (cbs_Set c))" "bm_BindingID m = i" for m
      using committed(3) [OF that(1)] that f by (intro transition_evolves) (auto simp: commit_member_error_def)
    then show ?thesis using f by (auto simp: committed(4) bind_members_def)
  qed (use f in auto)
next
  case (swap_set ctx b y)
  then show ?thesis using f by (auto elim!: CompareAndSwapBindingSet_cases)
next
  case (renew_set attestations ctx r now y)
  from renew_set(1) show ?thesis
  proof (cases rule: RenewBindingSetV2_cases)
    case (renewed c nx verified)
    have "\<exists>c. bst_bindings s j = Some c \<and> evolves c g" if "nx j = Some g" for j g
      using renew_loop_spec(1) [OF renewed(9), where P = "\<lambda>j g. \<exists>c. bst_bindings s j = Some c \<and> evolves c g"] that renewal_evolves
      by (fastforce simp: map_upd_cases)
    moreover have "evolves a (cloneBindingFactV2 (bj_base K) g)" if "nx j = Some g" "evolves a g" for a j g
    proof -
      have "cloneBindingFactV2 (bj_base K) g = g"
        using renew_loop_spec(1) [OF renewed(9), where P = "\<lambda>j g. cloneBindingFactV2 (bj_base K) g = g"] that(1) by simp
      then show ?thesis using that(2) by simp
    qed
    ultimately show ?thesis using f by (auto simp: renewed(11) map_add_def split: option.splits) fastforce
  qed (use f in auto)
next
  case lose_commit
  then show ?thesis using f by (simp add: LoseNextCommitReply_def)
qed

section \<open>Sets and their members\<close>

text \<open>
  What a member of set \<open>i\<close> has in the store: its binding, bound or terminal, never free again; while
  it is bound it names the set and the set names its current revision.
\<close>

definition held :: "(string \<rightharpoonup> BindingFactV2) \<Rightarrow> string \<Rightarrow> BindingMemberV2 \<Rightarrow> bool" where
  "held bindings i m \<longleftrightarrow>
     (\<exists>f. bindings (bm_BindingID m) = Some f \<and> bf_ComponentID f = bm_ComponentID m \<and> bf_ManifestDigest f = bm_ManifestDigest m
        \<and> 3 \<le> binding_rank (bf_State f)
        \<and> (bf_State f = BindingBound \<longrightarrow> bf_BindingSetID f = i \<and> bf_Revision f = bm_BindingRevision m))"

definition set_ids :: "BindingSetFactV2 \<Rightarrow> string set" where
  "set_ids c = bm_BindingID ` set (bs_Members c)"

lemma ids_disjoint: "(\<And>m. m \<in> set (bs_Members d) \<Longrightarrow> bm_BindingID m \<notin> A) \<Longrightarrow> A \<inter> set_ids d = {}"
  by (auto simp: set_ids_def)

lemma ids_apart: "set_ids d \<inter> A = {} \<Longrightarrow> m \<in> set (bs_Members d) \<Longrightarrow> bm_BindingID m \<notin> A"
  by (auto simp: set_ids_def)

definition binding_inv :: "BindingStoreV2 \<Rightarrow> bool" where
  "binding_inv s \<longleftrightarrow>
     (\<forall>i f. bst_bindings s i = Some f \<longrightarrow> bf_ID f = i)
     \<and> (\<forall>i c. bst_sets s i = Some c \<longrightarrow> bs_ID c = i \<and> BindingSetFactV2_Validate c = None)
     \<and> (\<forall>i c. bst_sets s i = Some c \<longrightarrow> (\<forall>m \<in> set (bs_Members c). held (bst_bindings s) i m))
     \<and> (\<forall>i j c d. bst_sets s i = Some c \<longrightarrow> bst_sets s j = Some d \<longrightarrow> i \<noteq> j \<longrightarrow> set_ids c \<inter> set_ids d = {})"

lemma binding_invD:
  assumes "binding_inv s"
  shows "bst_bindings s i = Some f \<Longrightarrow> bf_ID f = i"
    and "bst_sets s i = Some c \<Longrightarrow> bs_ID c = i" "bst_sets s i = Some c \<Longrightarrow> BindingSetFactV2_Validate c = None"
    and "bst_sets s i = Some c \<Longrightarrow> m \<in> set (bs_Members c) \<Longrightarrow> held (bst_bindings s) i m"
    and "bst_sets s i = Some c \<Longrightarrow> bst_sets s j = Some d \<Longrightarrow> i \<noteq> j \<Longrightarrow> set_ids c \<inter> set_ids d = {}"
  using assms unfolding binding_inv_def by blast+

lemma binding_inv_cong:
  "bst_bindings s = bst_bindings t \<Longrightarrow> bst_sets s = bst_sets t \<Longrightarrow> binding_inv s = binding_inv t"
  by (simp add: binding_inv_def)

lemma binding_inv_bindings:
  assumes "binding_inv s" "\<And>i f. bindings i = Some f \<Longrightarrow> bf_ID f = i"
    and "\<And>i c m. bst_sets s i = Some c \<Longrightarrow> m \<in> set (bs_Members c) \<Longrightarrow> held bindings i m"
  shows "binding_inv (s\<lparr>bst_bindings := bindings\<rparr>)"
  using assms unfolding binding_inv_def by simp

lemma binding_inv_both:
  assumes "binding_inv s" "\<And>i f. b i = Some f \<Longrightarrow> bf_ID f = i"
    and "\<And>j d m. bst_sets s j = Some d \<Longrightarrow> m \<in> set (bs_Members d) \<Longrightarrow> j \<noteq> bs_ID c \<Longrightarrow> held b j m"
    and "\<And>m. m \<in> set (bs_Members c) \<Longrightarrow> held b (bs_ID c) m"
    and "\<And>j d. bst_sets s j = Some d \<Longrightarrow> bs_ID c \<noteq> j \<Longrightarrow> set_ids c \<inter> set_ids d = {}"
    and "BindingSetFactV2_Validate c = None"
  shows "binding_inv (s\<lparr>bst_bindings := b, bst_sets := (bst_sets s)(bs_ID c \<mapsto> c)\<rparr>)"
  using assms unfolding binding_inv_def by (simp add: Int_commute)

lemma binding_inv_set:
  assumes "binding_inv s" "bs_ID c = i" "BindingSetFactV2_Validate c = None" "\<And>m. m \<in> set (bs_Members c) \<Longrightarrow> held (bst_bindings s) i m"
    and "\<And>j d. bst_sets s j = Some d \<Longrightarrow> i \<noteq> j \<Longrightarrow> set_ids c \<inter> set_ids d = {}"
  shows "binding_inv (s\<lparr>bst_sets := (bst_sets s)(i \<mapsto> c)\<rparr>)"
  using assms unfolding binding_inv_def by (simp add: Int_commute)

text \<open>A binding that is not held can be written freely; one that is held may only end.\<close>

lemma held_free: "held b i m \<Longrightarrow> bm_BindingID m \<noteq> k \<Longrightarrow> held (b(k \<mapsto> f)) i m"
  by (simp add: held_def)

lemma held_ends:
  assumes "held b i m" "b k = Some c" "evolves c f" "bf_State c = BindingBound \<Longrightarrow> bf_State f \<noteq> BindingBound"
  shows "held (b(k \<mapsto> f)) i m"
proof (cases "bm_BindingID m = k \<and> c \<noteq> f")
  case True
  then have a: "advances c f" using assms(3) by (simp add: evolves_def)
  moreover have "bf_State c = BindingBound"
    using a assms(1,2) True by (cases "bf_State c") (auto simp: advances_def held_def)
  moreover have "bf_ComponentID f = bf_ComponentID c" "bf_ManifestDigest f = bf_ManifestDigest c"
    using a by (auto simp: advances_def binding_identity_def)
  ultimately show ?thesis using assms True by (auto simp: held_def advances_def)
qed (use assms in \<open>auto simp: held_def\<close>)

lemma members_distinct: "members_error seen ms = None \<Longrightarrow> distinct (map bm_ComponentID ms) \<and> bm_ComponentID ` set ms \<inter> seen = {}"
  by (induction seen ms rule: members_error.induct) (auto split: option.splits)

lemma members_revision: "members_error seen ms = None \<Longrightarrow> m \<in> set ms \<Longrightarrow> bm_BindingRevision m \<noteq> 0"
  by (induction seen ms rule: members_error.induct) (auto split: option.splits)

lemma valid_set_members: "BindingSetFactV2_Validate c = None \<Longrightarrow> distinct (map bm_ComponentID (bs_Members c))"
  using members_distinct [of "{}" "bs_Members c"] by (simp add: BindingSetFactV2_Validate_def)

text \<open>Compare-and-swaps and new bindings.\<close>

lemma CreateBinding_inv:
  assumes "binding_inv s" "CreateBinding J s ctx f = (s', x)"
  shows "binding_inv s'"
  using assms(2)
proof (cases rule: CreateBinding_cases)
  case created
  have "held ((bst_bindings s)(bf_ID f \<mapsto> cloneBindingFactV2 J f)) i m" if "bst_sets s i = Some c" "m \<in> set (bs_Members c)" for i c m
    using binding_invD(4) [OF assms(1) that] created(3) by (intro held_free) (auto simp: held_def)
  then show ?thesis
    unfolding created(4) using binding_invD(1) [OF assms(1)] by (intro binding_inv_bindings assms(1)) (auto split: if_splits)
qed (use assms in simp)

lemma CompareAndSwapBinding_inv:
  assumes "binding_inv s" "CompareAndSwapBinding J s ctx q now = (s', x)"
  shows "binding_inv s'"
  using assms(2)
proof (cases rule: CompareAndSwapBinding_cases)
  case (swapped c)
  have "held ((bst_bindings s)(bf_ID (bfc_Next q) \<mapsto> cloneBindingFactV2 J (bfc_Next q))) i m"
    if "bst_sets s i = Some d" "m \<in> set (bs_Members d)" for i d m
    by (rule held_ends [OF binding_invD(4) [OF assms(1) that] swapped(1) transition_evolves [OF swapped(2)]])
      (use swapped(2) in \<open>auto simp: ValidateBindingFactTransitionV2_def\<close>)
  then show ?thesis
    unfolding swapped(3) using binding_invD(1) [OF assms(1)] by (intro binding_inv_bindings assms(1)) (auto split: if_splits)
qed (use assms in simp)

lemma CompareAndSwapBindingSet_inv:
  assumes "binding_inv s" "CompareAndSwapBindingSet s ctx q = (s', x)"
  shows "binding_inv s'"
  using assms(2)
proof (cases rule: CompareAndSwapBindingSet_cases)
  case (swapped c)
  have m: "bs_Members (bsc_Next q) = bs_Members c" "BindingSetFactV2_Validate (bsc_Next q) = None"
    using swapped(2) by (simp_all add: ValidateBindingSetTransitionV2_def)
  then have "set_ids (bsc_Next q) = set_ids c" by (simp add: set_ids_def)
  then show ?thesis
    unfolding swapped(3) using m binding_invD [OF assms(1)] swapped(1) by (intro binding_inv_set assms(1)) auto
qed (use assms in simp)

text \<open>The commit: its members were free, so no other set is touched.\<close>

definition certified_member :: "(string \<rightharpoonup> BindingFactV2) \<Rightarrow> BindingMemberV2 \<Rightarrow> bool" where
  "certified_member b m \<longleftrightarrow>
     (\<exists>f. b (bm_BindingID m) = Some f \<and> bf_State f = BindingCertified \<and> bf_ComponentID f = bm_ComponentID m
        \<and> bf_ManifestDigest f = bm_ManifestDigest m \<and> bf_Revision f + 1 \<noteq> 0)"

lemma commit_member_certified: "commit_member_error J b e s now m = None \<Longrightarrow> certified_member b m"
  by (auto simp: commit_member_error_def certified_member_def ValidateBindingFactTransitionV2_def bound_version_def
      dest: BindingFact_valid_revision split: option.splits)

lemma certified_not_held: "certified_member b m \<Longrightarrow> held b i n \<Longrightarrow> bm_BindingID m \<noteq> bm_BindingID n"
  by (auto simp: certified_member_def held_def)

lemma members_error_revisions:
  "members_error seen ms = None \<Longrightarrow> (\<And>m. m \<in> set ms \<Longrightarrow> h m \<noteq> 0) \<Longrightarrow>
     members_error seen (map (\<lambda>m. m\<lparr>bm_BindingRevision := h m\<rparr>) ms) = None"
  by (induction seen ms rule: members_error.induct) (auto split: option.splits)

lemma committed_set_valid:
  assumes "BindingSetFactV2_Validate s = None" "\<And>m. m \<in> set (bs_Members s) \<Longrightarrow> certified_member b m"
  shows "BindingSetFactV2_Validate (committed_set b s) = None"
proof -
  have "members_error {} (bs_Members s) = None" using assms(1) by (simp add: BindingSetFactV2_Validate_def)
  moreover have "bf_Revision (the (b (bm_BindingID m))) + 1 \<noteq> 0" if "m \<in> set (bs_Members s)" for m
    using assms(2) [OF that] by (auto simp: certified_member_def)
  ultimately have "members_error {} (bs_Members (committed_set b s)) = None"
    by (simp add: committed_set_def members_error_revisions)
  moreover have "map bm_Grants (bs_Members (committed_set b s)) = map bm_Grants (bs_Members s)"
    "bm_ComponentID ` set (bs_Members (committed_set b s)) = bm_ComponentID ` set (bs_Members s)"
    by (simp_all add: committed_set_def image_image)
  ultimately show ?thesis using assms(1) by (auto simp: BindingSetFactV2_Validate_def committed_set_def o_def)
qed

lemma committed_member_held:
  assumes "certified_member b m" "m \<in> set ms"
  shows "held (bind_members J i b ms) i (m\<lparr>bm_BindingRevision := bf_Revision (the (b (bm_BindingID m))) + 1\<rparr>)"
  using assms by (auto simp: certified_member_def held_def bind_members_def bound_version_def)

lemma CommitBindingSet_inv:
  assumes "binding_inv s" "CommitBindingSet J s ctx q now = (s', x)"
  shows "binding_inv s'"
  using assms(2)
proof (cases rule: CommitBindingSet_cases)
  case committed
  let ?b = "bind_members J (bs_ID (cbs_Set q)) (bst_bindings s) (bs_Members (cbs_Set q))"
  let ?c = "committed_set (bst_bindings s) (cbs_Set q)"
  have cert: "certified_member (bst_bindings s) m" if "m \<in> set (bs_Members (cbs_Set q))" for m
    using committed(3) [OF that] by (rule commit_member_certified)
  have free: "bm_BindingID n \<notin> set_ids (cbs_Set q)" if "bst_sets s i = Some c" "n \<in> set (bs_Members c)" for i c n
    using certified_not_held [OF cert binding_invD(4) [OF assms(1) that]] unfolding set_ids_def by (metis imageE)
  have own: "bf_ID (the (bst_bindings s (bm_BindingID m))) = bm_BindingID m" if "m \<in> set (bs_Members (cbs_Set q))" for m
    using cert [OF that] binding_invD(1) [OF assms(1)] by (auto simp: certified_member_def)
  have "bf_ID f = i" if "?b i = Some f" for i f
    using that binding_invD(1) [OF assms(1)] own by (auto simp: bind_members_def bound_version_def split: if_splits)
  moreover have "held ?b i n" if "bst_sets s i = Some c" "n \<in> set (bs_Members c)" for i c n
    using binding_invD(4) [OF assms(1) that] free [OF that] by (simp add: held_def bind_members_def set_ids_def)
  ultimately have b: "binding_inv (s\<lparr>bst_bindings := ?b\<rparr>)" by (intro binding_inv_bindings assms(1)) auto
  have ids: "set_ids ?c = set_ids (cbs_Set q)" by (simp add: set_ids_def committed_set_def image_image)
  have full: "binding_inv (s\<lparr>bst_bindings := ?b, bst_sets := (bst_sets s)(bs_ID (cbs_Set q) \<mapsto> ?c)\<rparr>)"
  proof (rule binding_inv_set [OF b, simplified])
    show "BindingSetFactV2_Validate ?c = None" using committed(1) cert by (rule committed_set_valid)
    show "held ?b (bs_ID (cbs_Set q)) m" if "m \<in> set (bs_Members ?c)" for m
      using that cert by (auto simp: committed_set_def intro: committed_member_held)
    show "set_ids ?c \<inter> set_ids d = {}" if "bst_sets s j = Some d" for j d
      unfolding ids by (rule ids_disjoint) (rule free [OF that])
  qed (simp add: committed_set_def)
  show ?thesis
    using committed(5)
  proof
    assume "bst_sets s' = bst_sets s"
    then show ?thesis using b committed(4) by (subst binding_inv_cong) simp_all
  next
    assume "bst_sets s' = (bst_sets s)(bs_ID (cbs_Set q) \<mapsto> ?c) \<and> BindingSetFactV2_Validate ?c = None"
    then show ?thesis using full committed(4) by (subst binding_inv_cong) simp_all
  qed
qed (use assms in simp)

text \<open>The renewal: the next facts are exactly those of the members of the set.\<close>

lemma semantic_ids: "semantic_set c = semantic_set n \<Longrightarrow> bs_ID c = bs_ID n \<and> set_ids c = set_ids n"
proof -
  assume eq: "semantic_set c = semantic_set n"
  have "set (ss_Members (semantic_set s)) = semantic_member ` set (bs_Members s)" for s by (simp add: semantic_set_def)
  then have "semantic_member ` set (bs_Members c) = semantic_member ` set (bs_Members n)" using eq by metis
  then have "sm_BindingID ` semantic_member ` set (bs_Members c) = sm_BindingID ` semantic_member ` set (bs_Members n)" by simp
  moreover have "bs_ID c = bs_ID n" using eq by (simp add: semantic_set_def)
  ultimately show ?thesis by (simp add: image_image set_ids_def semantic_member_def)
qed

definition renewed_fact :: "string \<Rightarrow> (string \<rightharpoonup> BindingFactV2) \<Rightarrow> BindingFactV2 \<Rightarrow> bool" where
  "renewed_fact i b f \<longleftrightarrow> bf_ID f = i \<and> bf_State f = BindingBound
     \<and> (\<exists>c. b i = Some c \<and> bf_State c = BindingBound \<and> bf_BindingSetID c = bf_BindingSetID f \<and> bf_ComponentID c = bf_ComponentID f)"

lemma renewal_keeps:
  "b (bf_ID n) = Some c \<Longrightarrow> ValidateBindingFactRenewalV2 J c n now = None \<Longrightarrow> renewed_fact (bf_ID n) b (cloneBindingFactV2 J n)"
  by (simp add: ValidateBindingFactRenewalV2_def renewed_fact_def)

lemma renewed_domain:
  assumes loop: "renew_loop J b now fs Map.empty = Inr nx" "length fs = length (bs_Members n)"
    and m: "\<And>m. m \<in> set (bs_Members n) \<Longrightarrow> renew_member_error sets verified nx now m = None"
    and n: "BindingSetFactV2_Validate n = None"
  shows "dom nx = set_ids n"
proof -
  have f: "\<exists>f. nx (bm_BindingID m) = Some f \<and> bf_ComponentID f = bm_ComponentID m" if "m \<in> set (bs_Members n)" for m
    using m [OF that] by (auto simp: renew_member_error_def split: option.splits)
  have "inj_on bm_BindingID (set (bs_Members n))"
  proof (rule inj_onI)
    fix a c assume "a \<in> set (bs_Members n)" "c \<in> set (bs_Members n)" "bm_BindingID a = bm_BindingID c"
    then show "a = c"
      using f [of a] f [of c] valid_set_members [OF n] by (auto simp: distinct_map inj_on_def)
  qed
  then have "card (set_ids n) = length (bs_Members n)"
    using valid_set_members [OF n] by (simp add: set_ids_def card_image distinct_map distinct_card)
  moreover have "set_ids n \<subseteq> dom nx" using f by (auto simp: set_ids_def)
  moreover have "dom nx = bf_ID ` set fs"
    using renew_loop_spec(2) [OF loop(1), where P = "\<lambda>_ _. True"] by simp
  moreover have "card (bf_ID ` set fs) \<le> length fs"
    using card_image_le [of "set fs" bf_ID] card_length [of fs] by simp
  ultimately show ?thesis using loop(2) by (metis card_subset_eq finite_imageI finite_set le_antisym card_mono)
qed

lemma RenewBindingSetV2_inv:
  assumes "binding_inv s" "RenewBindingSetV2 K reader s ctx q now = (s', x)" "no_collision K s q"
  shows "binding_inv s'"
  using assms(2)
proof (cases rule: RenewBindingSetV2_cases)
  case (renewed c nx verified)
  let ?n = "rbs_NextSet q"
  let ?b = "bst_bindings s ++ (\<lambda>i. map_option (cloneBindingFactV2 (bj_base K)) (nx i))"
  have same: "semantic_set c = semantic_set ?n" using assms(3) renewed(1,7) by (simp add: no_collision_def)
  have ids: "set_ids c = set_ids ?n" using semantic_ids [OF same] by simp
  have dom: "dom nx = set_ids ?n"
    using renewed_domain [OF renewed(9,8)] renewed(10,2) by blast
  have facts: "renewed_fact i (bst_bindings s) f" if "nx i = Some f" for i f
    using renew_loop_spec(1) [OF renewed(9), where P = "\<lambda>i f. renewed_fact i (bst_bindings s) f"] renewal_keeps that by simp
  have "bf_ID f = i" if "?b i = Some f" for i f
    using that binding_invD(1) [OF assms(1)] facts by (auto simp: map_add_def renewed_fact_def split: option.splits)
  moreover have other: "held ?b j m" if "bst_sets s j = Some d" "m \<in> set (bs_Members d)" "j \<noteq> bs_ID ?n" for j d m
  proof -
    have "bm_BindingID m \<notin> set_ids ?n"
      using binding_invD(5) [OF assms(1) that(1) renewed(1) that(3)] that(2) by (metis ids ids_apart)
    then have "nx (bm_BindingID m) = None" using dom by auto
    then show ?thesis using binding_invD(4) [OF assms(1) that(1,2)] by (simp add: held_def map_add_def)
  qed
  moreover have "held ?b (bs_ID ?n) m" if m: "m \<in> set (bs_Members ?n)" for m
  proof -
    have "bm_BindingID m \<in> set_ids c" using m ids by (auto simp: set_ids_def)
    then obtain m0 where m0: "m0 \<in> set (bs_Members c)" "bm_BindingID m0 = bm_BindingID m" by (auto simp: set_ids_def)
    obtain f where f: "nx (bm_BindingID m) = Some f" "bm_BindingRevision m = bf_Revision f" "bm_ComponentID m = bf_ComponentID f"
      "bm_ManifestDigest m = bf_ManifestDigest f"
      using renewed(10) [OF m] by (auto simp: renew_member_error_def split: option.splits)
    then show ?thesis
      using facts [OF f(1)] binding_invD(4) [OF assms(1) renewed(1) m0(1)] m0(2)
      by (auto simp: held_def renewed_fact_def map_add_def)
  qed
  moreover have "set_ids ?n \<inter> set_ids d = {}" if "bst_sets s j = Some d" "bs_ID ?n \<noteq> j" for j d
    using binding_invD(5) [OF assms(1) renewed(1) that] by (simp add: ids)
  ultimately show ?thesis
    unfolding renewed(11) by (intro binding_inv_both assms(1) renewed(2))
qed (use assms in simp)

lemma binding_step_inv: "binding_step True K s s' \<Longrightarrow> binding_inv s \<Longrightarrow> binding_inv s'"
proof (induction rule: binding_step.induct)
  case (lose_commit s)
  then show ?case by (simp add: LoseNextCommitReply_def binding_inv_def)
qed (blast intro: CreateBinding_inv CompareAndSwapBinding_inv CommitBindingSet_inv CompareAndSwapBindingSet_inv RenewBindingSetV2_inv)+

lemma binding_run_inv: "binding_run True K s t \<Longrightarrow> binding_inv s \<Longrightarrow> binding_inv t"
  by (induction rule: binding_run.induct) (auto intro: binding_step_inv)

lemma NewBindingStoreV2_inv: "binding_inv NewBindingStoreV2"
  by (simp add: binding_inv_def NewBindingStoreV2_def)

section \<open>Every stored record is valid\<close>

definition stored_fact :: "binding_json \<Rightarrow> string \<Rightarrow> BindingFactV2 \<Rightarrow> bool" where
  "stored_fact J i f \<longleftrightarrow> bf_ID f = i \<and> (BindingFactV2_Validate J f = None \<or> bf_Manifest f = zero_manifest)"

definition well_typed :: "binding_json \<Rightarrow> BindingStoreV2 \<Rightarrow> bool" where
  "well_typed J s \<longleftrightarrow> (\<forall>i f. bst_bindings s i = Some f \<longrightarrow> stored_fact J i f)
     \<and> (\<forall>i c. bst_sets s i = Some c \<longrightarrow> bs_ID c = i \<and> BindingSetFactV2_Validate c = None)"

lemma clone_stored: "BindingFactV2_Validate J f = None \<Longrightarrow> stored_fact J (bf_ID f) (cloneBindingFactV2 J f)"
  using clone_manifest [of J "bf_Manifest f"]
  by (auto simp: stored_fact_def cloneBindingFactV2_def)

lemma well_typed_binding:
  "well_typed J s \<Longrightarrow> stored_fact J i f \<Longrightarrow> well_typed J (s\<lparr>bst_bindings := (bst_bindings s)(i \<mapsto> f)\<rparr>)"
  by (simp add: well_typed_def)

lemma well_typed_set:
  "well_typed J s \<Longrightarrow> BindingSetFactV2_Validate c = None \<Longrightarrow> well_typed J (s\<lparr>bst_sets := (bst_sets s)(bs_ID c \<mapsto> c)\<rparr>)"
  by (simp add: well_typed_def)

lemma transition_valid: "ValidateBindingFactTransitionV2 J c n now = None \<Longrightarrow> bf_ID n = bf_ID c \<and> BindingFactV2_Validate J n = None"
  by (simp add: ValidateBindingFactTransitionV2_def)

lemma renewal_valid: "ValidateBindingFactRenewalV2 J c n now = None \<Longrightarrow> BindingFactV2_Validate J n = None"
  by (simp add: ValidateBindingFactRenewalV2_def)

lemma commit_member_stored:
  "b i = Some f \<Longrightarrow> stored_fact J i f \<Longrightarrow> commit_member_error J b e c now m = None \<Longrightarrow> bm_BindingID m = i \<Longrightarrow>
     stored_fact J i (cloneBindingFactV2 J (bound_version (bs_ID c) f))"
  using transition_valid [of J f "bound_version (bs_ID c) f" now] clone_stored [of J "bound_version (bs_ID c) f"]
  by (auto simp: commit_member_error_def stored_fact_def)

lemma binding_step_well_typed:
  assumes "binding_step careful K s s'" and t: "well_typed (bj_base K) s"
  shows "well_typed (bj_base K) s'"
  using assms(1)
proof cases
  case (create_binding ctx b x)
  then show ?thesis
    by (cases rule: CreateBinding_cases) (use t clone_stored in \<open>auto intro: well_typed_binding\<close>)
next
  case (swap_binding ctx q now x)
  then show ?thesis
  proof (cases rule: CompareAndSwapBinding_cases)
    case (swapped c)
    then show ?thesis using transition_valid [OF swapped(2)] t clone_stored [of "bj_base K" "bfc_Next q"] by (auto intro: well_typed_binding)
  qed (use t in simp)
next
  case (commit_set ctx c now y)
  then show ?thesis
  proof (cases rule: CommitBindingSet_cases)
    case committed
    have "stored_fact (bj_base K) i f" if "bst_bindings s' i = Some f" for i f
    proof (cases "i \<in> set_ids (cbs_Set c)")
      case True
      then obtain m where m: "m \<in> set (bs_Members (cbs_Set c))" "bm_BindingID m = i" by (auto simp: set_ids_def)
      obtain g where g: "bst_bindings s i = Some g"
        using commit_member_certified [OF committed(3) [OF m(1)]] m(2) by (auto simp: certified_member_def)
      have "f = cloneBindingFactV2 (bj_base K) (bound_version (bs_ID (cbs_Set c)) g)"
        using that True g by (simp add: committed(4) bind_members_def set_ids_def)
      then show ?thesis
        using commit_member_stored [OF g _ committed(3) [OF m(1)] m(2)] t g by (simp add: well_typed_def)
    next
      case False
      then show ?thesis using that t by (simp add: committed(4) bind_members_def set_ids_def well_typed_def)
    qed
    moreover have "bs_ID d = i \<and> BindingSetFactV2_Validate d = None" if "bst_sets s' i = Some d" for i d
      using that committed(5) t by (auto simp: well_typed_def committed_set_def split: if_splits)
    ultimately show ?thesis by (simp add: well_typed_def)
  qed (use t in simp)
next
  case (swap_set ctx b y)
  then show ?thesis
    by (cases rule: CompareAndSwapBindingSet_cases)
      (use t in \<open>auto simp: ValidateBindingSetTransitionV2_def intro: well_typed_set\<close>)
next
  case (renew_set attestations ctx r now y)
  from renew_set(1) show ?thesis
  proof (cases rule: RenewBindingSetV2_cases)
    case (renewed c nx verified)
    have "stored_fact (bj_base K) i f \<and> cloneBindingFactV2 (bj_base K) f = f" if "nx i = Some f" for i f
      using renew_loop_spec(1) [OF renewed(9), where P = "\<lambda>i f. stored_fact (bj_base K) i f \<and> cloneBindingFactV2 (bj_base K) f = f"]
        clone_stored renewal_valid that by simp
    then have "stored_fact (bj_base K) i f" if "bst_bindings s' i = Some f" for i f
      using that t by (auto simp: renewed(11) map_add_def well_typed_def split: option.splits)
    then show ?thesis using t renewed(2) by (auto simp: well_typed_def renewed(11) split: if_splits)
  qed (use t in simp)
next
  case lose_commit
  then show ?thesis using t by (simp add: LoseNextCommitReply_def well_typed_def)
qed

end
