(* ===== verification/Topology.thy ===== *)
theory Topology
  imports BindingFact
begin

text \<open>
  The topological order of theory \<open>BindingFact\<close>: whatever order the maps are ranged over, the loop
  repeatedly takes the least node whose dependencies have all been taken. It returns within the fuel
  it is given, a complete order exists exactly when the graph has no cycle, and then every node comes
  after its dependencies.
\<close>

section \<open>Bookkeeping\<close>

text \<open>Dependencies of a node that have not been taken yet, and the nodes that are ready.\<close>

definition open_deps :: "graph \<Rightarrow> string set \<Rightarrow> string \<Rightarrow> string list" where
  "open_deps g P n = filter (\<lambda>d. d \<notin> P) (g n)"

definition ready_set :: "string list \<Rightarrow> graph \<Rightarrow> string set \<Rightarrow> string set" where
  "ready_set nodes g P = {n \<in> set nodes. n \<notin> P \<and> set (g n) \<subseteq> P}"

lemma ready_finite [simp]: "finite (ready_set nodes g P)"
  by (simp add: ready_set_def)

lemma filter_open: "r \<notin> P \<Longrightarrow> length (filter (\<lambda>d. d \<notin> P) xs) = length (filter (\<lambda>d. d \<notin> insert r P) xs) + count_list xs r"
  by (induction xs) auto

lemma open_deps_insert:
  "r \<notin> P \<Longrightarrow> length (open_deps g P n) = length (open_deps g (insert r P) n) + count_list (g n) r"
  unfolding open_deps_def by (rule filter_open)

lemma open_deps_Nil: "open_deps g P n = [] \<longleftrightarrow> set (g n) \<subseteq> P"
  by (auto simp: open_deps_def filter_empty_conv)

text \<open>Releasing a list of dependents.\<close>

lemma release_spec:
  assumes "\<And>n. int (count_list ds n) \<le> indegree n" "\<And>n. n \<in> set ready \<Longrightarrow> n \<notin> set ds" "sorted ready" "distinct ready"
  shows "release indegree ready ds =
     ((\<lambda>n. indegree n - int (count_list ds n)),
      sorted_list_of_set (set ready \<union> {n \<in> set ds. indegree n = int (count_list ds n)}))"
  using assms
proof (induction ds arbitrary: indegree ready)
  case Nil
  then show ?case by (simp add: sorted_list_of_set.idem_if_sorted_distinct)
next
  case (Cons d ds)
  let ?i = "indegree(d := indegree d - 1)"
  let ?r = "if ?i d = 0 then sort (ready @ [d]) else ready"
  have c: "int (count_list (d # ds) n) \<le> indegree n" for n using Cons.prems(1) by blast
  have i: "int (count_list ds n) \<le> ?i n" for n using c [of n] by (simp split: if_splits)
  have r1: "n \<notin> set ds" if "n \<in> set ?r" for n
  proof (cases "n \<in> set ready")
    case True
    then show ?thesis using Cons.prems(2) [of n] by simp
  next
    case False
    with that have "n = d" "indegree d = 1" by (auto split: if_splits)
    then show ?thesis using c [of d] by (simp add: count_list_0_iff)
  qed
  have r2: "sorted ?r" "distinct ?r" using Cons.prems(2-4) by (auto simp: sorted_insort)
  have "release indegree ready (d # ds) = release ?i ?r ds" by (simp add: Let_def)
  also have "\<dots> = ((\<lambda>n. ?i n - int (count_list ds n)),
      sorted_list_of_set (set ?r \<union> {n \<in> set ds. ?i n = int (count_list ds n)}))"
    by (rule Cons.IH [OF i r1 r2])
  also have "set ?r \<union> {n \<in> set ds. ?i n = int (count_list ds n)}
      = set ready \<union> {n \<in> set (d # ds). indegree n = int (count_list (d # ds) n)}"
  proof (cases "indegree d = 1")
    case True
    then have "d \<notin> set ds" using c [of d] by (simp add: count_list_0_iff)
    then show ?thesis using True by (auto simp: count_notin)
  next
    case False
    have "d \<in> set ds" if "indegree d = int (count_list ds d) + 1"
      using that False count_list_0_iff [of ds d] by auto
    then show ?thesis using False by auto
  qed
  finally show ?case by (auto simp: fun_eq_iff)
qed

section \<open>The loop takes the least ready node\<close>

definition graph_on :: "string list \<Rightarrow> graph \<Rightarrow> bool" where
  "graph_on nodes g \<longleftrightarrow> distinct nodes \<and> (\<forall>n. n \<notin> set nodes \<longrightarrow> g n = []) \<and> (\<forall>n. set (g n) \<subseteq> set nodes)"

definition topo_ok :: "graph \<Rightarrow> string list \<Rightarrow> bool" where
  "topo_ok g order \<longleftrightarrow> (\<forall>xs n ys. order = xs @ n # ys \<longrightarrow> set (g n) \<subseteq> set xs)"

definition partial_order_ok :: "string list \<Rightarrow> graph \<Rightarrow> string list \<Rightarrow> bool" where
  "partial_order_ok nodes g P \<longleftrightarrow> distinct P \<and> set P \<subseteq> set nodes \<and> topo_ok g P"

lemma topo_ok_Nil [simp]: "topo_ok g []"
  by (simp add: topo_ok_def)

lemma topo_ok_snoc: "topo_ok g (P @ [r]) \<longleftrightarrow> topo_ok g P \<and> set (g r) \<subseteq> set P"
proof
  assume t: "topo_ok g (P @ [r])"
  then have "set (g n) \<subseteq> set xs" if "P = xs @ n # ys" for xs n ys using that by (auto simp: topo_ok_def)
  with t show "topo_ok g P \<and> set (g r) \<subseteq> set P" by (auto simp: topo_ok_def)
next
  assume t: "topo_ok g P \<and> set (g r) \<subseteq> set P"
  show "topo_ok g (P @ [r])" unfolding topo_ok_def
  proof (intro allI impI)
    fix xs n ys assume e: "P @ [r] = xs @ n # ys"
    then show "set (g n) \<subseteq> set xs"
      using t by (cases ys rule: rev_cases) (auto simp: topo_ok_def)
  qed
qed

lemma topo_ok_closed: "topo_ok g P \<Longrightarrow> n \<in> set P \<Longrightarrow> set (g n) \<subseteq> set P"
  unfolding topo_ok_def by (drule split_list) fastforce

lemma length_filter_count: "length (filter (\<lambda>x. x = r) xs) = count_list xs r"
  by (induction xs) auto

lemma count_dependents:
  "distinct visited \<Longrightarrow> count_list (dependents visited g r) n = (if n \<in> set visited then count_list (g n) r else 0)"
proof (induction visited)
  case (Cons m ms)
  have "count_list (map (\<lambda>_. m) xs) n = (if n = m then length xs else 0)" for xs :: "string list"
    by (induction xs) auto
  then have "count_list (dependents (m # ms) g r) n = (if n = m then count_list (g m) r else 0) + count_list (dependents ms g r) n"
    by (simp add: dependents_def count_list_append length_filter_count)
  then show ?case using Cons by simp
qed (simp add: dependents_def)

lemma set_dependents: "set (dependents visited g r) = {n \<in> set visited. r \<in> set (g n)}"
  by (auto simp: dependents_def)

lemma release_step:
  assumes g: "graph_on nodes g" and v: "distinct visited" "set visited = set nodes" and P: "partial_order_ok nodes g P"
    and r: "r \<in> ready_set nodes g (set P)"
  shows "release (\<lambda>n. int (length (open_deps g (set P) n))) (sorted_list_of_set (ready_set nodes g (set P) - {r})) (dependents visited g r)
     = ((\<lambda>n. int (length (open_deps g (set (P @ [r])) n))), sorted_list_of_set (ready_set nodes g (set (P @ [r]))))"
proof -
  let ?ds = "dependents visited g r" and ?o = "\<lambda>n. length (open_deps g (set P) n)" and ?o' = "\<lambda>n. length (open_deps g (set (P @ [r])) n)"
  have rP: "r \<notin> set P" "set (g r) \<subseteq> set P" using r by (simp_all add: ready_set_def)
  have c: "count_list ?ds n = count_list (g n) r" for n
    using count_dependents [OF v(1), of g r n] g v(2) by (auto simp: graph_on_def)
  have o: "?o n = ?o' n + count_list (g n) r" for n using open_deps_insert [OF rP(1)] by simp
  have m: "set ?ds = {n \<in> set nodes. r \<in> set (g n)}" using set_dependents v(2) by blast
  have P': "set P \<subseteq> set nodes" "n \<in> set P \<Longrightarrow> set (g n) \<subseteq> set P" for n
    using P topo_ok_closed by (auto simp: partial_order_ok_def)
  have z: "int (?o n) = int (count_list ?ds n) \<longleftrightarrow> set (g n) \<subseteq> set (P @ [r])" for n
    using o [of n] c [of n] open_deps_Nil [of g "set (P @ [r])" n] by auto
  have "set (sorted_list_of_set (ready_set nodes g (set P) - {r})) \<union> {n \<in> set ?ds. int (?o n) = int (count_list ?ds n)}
      = ready_set nodes g (set (P @ [r]))"
    unfolding z m using rP P' by (auto simp: ready_set_def)
  moreover have "int (count_list ?ds n) \<le> int (?o n)" for n using o [of n] c [of n] by simp
  moreover have "n \<notin> set ?ds" if "n \<in> set (sorted_list_of_set (ready_set nodes g (set P) - {r}))" for n
    using that rP by (auto simp: m ready_set_def)
  moreover have "int (?o n) - int (count_list ?ds n) = int (?o' n)" for n using o [of n] c [of n] by simp
  ultimately show ?thesis
    using release_spec [of ?ds "\<lambda>n. int (?o n)" "sorted_list_of_set (ready_set nodes g (set P) - {r})"] by simp
qed

text \<open>The reference: take the least ready node until there is none.\<close>

fun greedy_order :: "nat \<Rightarrow> string list \<Rightarrow> graph \<Rightarrow> string list \<Rightarrow> string list" where
  "greedy_order 0 nodes g P = P"
| "greedy_order (Suc k) nodes g P =
     (let R = ready_set nodes g (set P) in if R = {} then P else greedy_order k nodes g (P @ [Min R]))"

lemma partial_order_step:
  assumes "partial_order_ok nodes g P" "r \<in> ready_set nodes g (set P)"
  shows "partial_order_ok nodes g (P @ [r])"
  using assms by (auto simp: partial_order_ok_def ready_set_def topo_ok_snoc)

lemma partial_order_length: "partial_order_ok nodes g P \<Longrightarrow> length P \<le> length nodes"
  by (metis partial_order_ok_def card_mono distinct_card finite_set card_length le_trans)

lemma topo_loop_greedy:
  assumes "graph_on nodes g" "distinct visited" "set visited = set nodes" "partial_order_ok nodes g P" "length nodes < k + length P"
  shows "topo_loop k (dependents visited g) (\<lambda>n. int (length (open_deps g (set P) n))) (sorted_list_of_set (ready_set nodes g (set P))) P
       = Some (greedy_order k nodes g P)"
    and "partial_order_ok nodes g (greedy_order k nodes g P)" and "ready_set nodes g (set (greedy_order k nodes g P)) = {}"
proof -
  let ?loop = "\<lambda>k P. topo_loop k (dependents visited g) (\<lambda>n. int (length (open_deps g (set P) n)))
    (sorted_list_of_set (ready_set nodes g (set P))) P"
  have "?loop k P = Some (greedy_order k nodes g P) \<and> partial_order_ok nodes g (greedy_order k nodes g P)
     \<and> ready_set nodes g (set (greedy_order k nodes g P)) = {}"
    using assms(4,5)
  proof (induction k arbitrary: P)
    case 0
    then show ?case using partial_order_length by fastforce
  next
    case (Suc k)
    let ?R = "ready_set nodes g (set P)"
    show ?case
    proof (cases "?R = {}")
      case True
      then show ?thesis using Suc.prems by simp
    next
      case False
      then have m: "Min ?R \<in> ?R" by simp
      have s: "sorted_list_of_set ?R = Min ?R # sorted_list_of_set (?R - {Min ?R})"
        using False by (simp add: sorted_list_of_set_nonempty)
      have "?loop (Suc k) P = ?loop k (P @ [Min ?R])"
        using release_step [OF assms(1-3) Suc.prems(1) m] by (simp add: s)
      moreover have "partial_order_ok nodes g (P @ [Min ?R])" using partial_order_step [OF Suc.prems(1) m] .
      ultimately show ?thesis using Suc.IH [of "P @ [Min ?R]"] Suc.prems(2) False by (simp add: Let_def)
    qed
  qed
  then show "?loop k P = Some (greedy_order k nodes g P)" "partial_order_ok nodes g (greedy_order k nodes g P)"
    "ready_set nodes g (set (greedy_order k nodes g P)) = {}" by blast+
qed

section \<open>Complete orders and cycles\<close>

lemma graph_finite: "graph_on nodes g \<Longrightarrow> finite (edges g)"
proof -
  assume "graph_on nodes g"
  then have "edges g \<subseteq> set nodes \<times> set nodes" by (fastforce simp: graph_on_def edges_def)
  then show ?thesis by (rule finite_subset) simp
qed

lemma stuck_cyclic:
  assumes g: "graph_on nodes g" and P: "partial_order_ok nodes g P" and R: "ready_set nodes g (set P) = {}" and a: "acyclic (edges g)"
  shows "set P = set nodes"
proof (rule ccontr)
  assume "set P \<noteq> set nodes"
  with P obtain n where "n \<in> set nodes - set P" by (auto simp: partial_order_ok_def)
  moreover have "wf ((edges g)\<inverse>)" using graph_finite [OF g] a by (rule finite_acyclic_wf_converse)
  ultimately obtain z where z: "z \<in> set nodes - set P" "\<And>y. (y, z) \<in> (edges g)\<inverse> \<Longrightarrow> y \<notin> set nodes - set P"
    unfolding wf_eq_minimal by metis
  then have "set (g z) \<subseteq> set P" using g by (auto simp: graph_on_def edges_def)
  with z R show False by (auto simp: ready_set_def)
qed

lemma takeWhile_other: "d \<notin> set xs \<Longrightarrow> takeWhile (\<lambda>y. y \<noteq> d) (xs @ d # ys) = xs"
  by (induction xs) auto

lemma ordered_acyclic:
  assumes g: "graph_on nodes g" and P: "partial_order_ok nodes g P" "set P = set nodes"
  shows "acyclic (edges g)"
proof -
  define idx where "idx x = length (takeWhile (\<lambda>y. y \<noteq> x) P)" for x
  have "(d, n) \<in> measure idx" if e: "(n, d) \<in> edges g" for n d
  proof -
    from e have d: "d \<in> set (g n)" by (simp add: edges_def)
    with g have "n \<in> set P" unfolding P(2) graph_on_def by force
    then obtain xs ys where s: "P = xs @ n # ys" "n \<notin> set xs" by (metis split_list_first)
    moreover have "topo_ok g P" using P(1) by (simp add: partial_order_ok_def)
    ultimately have "d \<in> set xs" using d unfolding topo_ok_def by blast
    then obtain as bs where x: "xs = as @ d # bs" "d \<notin> set as" by (metis split_list_first)
    have "idx d = length as" unfolding idx_def s(1) x(1) using takeWhile_other [OF x(2)] by simp
    moreover have "idx n = length xs" unfolding idx_def s(1) using takeWhile_other [OF s(2)] by simp
    ultimately show ?thesis by (simp add: x(1))
  qed
  then have "(edges g)\<inverse> \<subseteq> measure idx" by auto
  then have "wf ((edges g)\<inverse>)" by (rule wf_subset [OF wf_measure])
  then show ?thesis by (metis acyclic_converse wf_acyclic)
qed

lemma stable_order:
  assumes g: "graph_on nodes g" and o: "valid_order order"
  defines "P \<equiv> greedy_order (Suc (length nodes)) nodes g []"
  shows "stableTopologicalOrderV2 order nodes g =
      Some (if acyclic (edges g) then Inr P else Inl (DomainError ErrorPreconditionFailed ReasonDependencyCycle))"
    and "acyclic (edges g) \<Longrightarrow> distinct P \<and> set P = set nodes \<and> topo_ok g P"
proof -
  have v: "distinct (order 1 nodes)" "set (order 1 nodes) = set nodes" "set (order 2 nodes) = set nodes" "distinct (order 2 nodes)"
    using order_keys [OF o] g by (auto simp: graph_on_def)
  have e: "partial_order_ok nodes g []" by (simp add: partial_order_ok_def)
  have n: "length nodes < Suc (length nodes) + length ([] :: string list)" by simp
  note t = topo_loop_greedy [OF g v(1,2) e n, folded P_def]
  have "sort (filter (\<lambda>n. int (length (g n)) = 0) (order 2 nodes)) = sorted_list_of_set (ready_set nodes g {})"
    using v(3,4) by (intro sorted_distinct_set_unique) (auto simp: ready_set_def)
  then have l: "topo_loop (Suc (length nodes)) (dependents (order 1 nodes) g) (\<lambda>n. int (length (g n)))
      (sort (filter (\<lambda>n. int (length (g n)) = 0) (order 2 nodes))) [] = Some P"
    using t(1) by (simp add: open_deps_def del: topo_loop.simps)
  have full: "length P = length nodes \<longleftrightarrow> set P = set nodes"
    using t(2) g card_subset_eq [of "set nodes" "set P"] by (auto simp: partial_order_ok_def graph_on_def distinct_card [symmetric])
  have "length P = length nodes \<longleftrightarrow> acyclic (edges g)"
    using full stuck_cyclic [OF g t(2,3)] ordered_acyclic [OF g t(2)] by blast
  then show "stableTopologicalOrderV2 order nodes g =
      Some (if acyclic (edges g) then Inr P else Inl (DomainError ErrorPreconditionFailed ReasonDependencyCycle))"
    using l by (simp add: stableTopologicalOrderV2_def Let_def del: topo_loop.simps)
  show "distinct P \<and> set P = set nodes \<and> topo_ok g P" if "acyclic (edges g)"
    using stuck_cyclic [OF g t(2,3) that] t(2) by (simp add: partial_order_ok_def)
qed

end
