(* ===== verification/BindingBuild.thy ===== *)
theory BindingBuild
  imports Topology
begin

text \<open>
  What \<open>BuildBindingSetV2\<close> builds: a set whose members are the certified facts that satisfy their
  requirements, each after its dependencies, with every other requirement a declared residual, and
  the same set whatever order the Go maps are ranged over.
\<close>

section \<open>The selection\<close>

definition satisfied :: "(string \<rightharpoonup> BindingFactV2) \<Rightarrow> GovernanceCatalogV2 \<Rightarrow> Time \<Rightarrow> BindingRequirementV2 \<Rightarrow> bool" where
  "satisfied facts catalog now r \<longleftrightarrow>
     (case facts (br_ComponentID r) of None \<Rightarrow> False | Some f \<Rightarrow> bindingRequirementFailureV2 r f catalog now = '''')"

definition residual_reason :: "(string \<rightharpoonup> BindingFactV2) \<Rightarrow> GovernanceCatalogV2 \<Rightarrow> Time \<Rightarrow> BindingRequirementV2 \<Rightarrow> ReasonCode" where
  "residual_reason facts catalog now r =
     (case facts (br_ComponentID r) of None \<Rightarrow> ReasonComponentMissing | Some f \<Rightarrow> bindingRequirementFailureV2 r f catalog now)"

lemma select_loop_Cons:
  "select_loop facts catalog now (r # rs) selected residuals =
     (if satisfied facts catalog now r
      then select_loop facts catalog now rs (selected @ [(br_ComponentID r, the (facts (br_ComponentID r)))]) residuals
      else if br_Required r \<or> \<not> br_AllowResidual r then Inl (DomainError ErrorCapabilityUnavailable (residual_reason facts catalog now r))
      else select_loop facts catalog now rs selected
        (residuals @ [\<lparr>brs_ComponentID = br_ComponentID r, brs_Reason = residual_reason facts catalog now r\<rparr>]))"
  by (cases "facts (br_ComponentID r)") (simp_all add: satisfied_def residual_reason_def Let_def)

lemma select_loop_Inr:
  assumes "select_loop facts catalog now rs selected residuals = Inr (chosen, left)"
  shows "chosen = selected @ map (\<lambda>r. (br_ComponentID r, the (facts (br_ComponentID r)))) (filter (satisfied facts catalog now) rs)"
    and "map brs_ComponentID left = map brs_ComponentID residuals @ map br_ComponentID (filter (\<lambda>r. \<not> satisfied facts catalog now r) rs)"
    and "\<forall>r \<in> set rs. satisfied facts catalog now r \<or> \<not> br_Required r \<and> br_AllowResidual r"
proof -
  have "chosen = selected @ map (\<lambda>r. (br_ComponentID r, the (facts (br_ComponentID r)))) (filter (satisfied facts catalog now) rs)
    \<and> map brs_ComponentID left = map brs_ComponentID residuals @ map br_ComponentID (filter (\<lambda>r. \<not> satisfied facts catalog now r) rs)
    \<and> (\<forall>r \<in> set rs. satisfied facts catalog now r \<or> \<not> br_Required r \<and> br_AllowResidual r)"
    using assms
  proof (induction rs arbitrary: selected residuals)
    case (Cons r rs)
    show ?case
    proof (cases "satisfied facts catalog now r")
      case True
      then show ?thesis using Cons.IH [of "selected @ [(br_ComponentID r, the (facts (br_ComponentID r)))]" residuals] Cons.prems
        by (simp add: select_loop_Cons del: select_loop.simps)
    next
      case False
      then have n: "\<not> br_Required r \<and> br_AllowResidual r" using Cons.prems
        by (auto simp: select_loop_Cons simp del: select_loop.simps split: if_splits)
      then show ?thesis
        using Cons.IH [of selected "residuals @ [\<lparr>brs_ComponentID = br_ComponentID r, brs_Reason = residual_reason facts catalog now r\<rparr>]"]
          Cons.prems False by (simp add: select_loop_Cons del: select_loop.simps)
    qed
  qed simp
  then show "chosen = selected @ map (\<lambda>r. (br_ComponentID r, the (facts (br_ComponentID r)))) (filter (satisfied facts catalog now) rs)"
    "map brs_ComponentID left = map brs_ComponentID residuals @ map br_ComponentID (filter (\<lambda>r. \<not> satisfied facts catalog now r) rs)"
    "\<forall>r \<in> set rs. satisfied facts catalog now r \<or> \<not> br_Required r \<and> br_AllowResidual r" by blast+
qed

lemma selected_graph_on:
  assumes "distinct keys" "dom selected = set keys"
  shows "graph_on keys (selected_graph selected)"
proof -
  have "selected c \<noteq> None \<longleftrightarrow> c \<in> set keys" for c using assms(2) by blast
  then show ?thesis using assms(1) by (auto simp: graph_on_def selected_graph_def split: option.splits)
qed

text \<open>The dependency check does not depend on the order, only the error it reports does.\<close>

lemma dependencies_ok:
  assumes "valid_order order"
  shows "validateSelectedDependenciesV2 order keys selected = Inr g \<longleftrightarrow>
     (\<forall>c \<in> set keys. selected_error selected (the (selected c)) = None) \<and> g = selected_graph selected"
  using order_keys(1) [OF assms, of 0 keys] by (auto simp: validateSelectedDependenciesV2_def first_err_None_iff)

lemma dependencies_cases:
  assumes "valid_order order"
  obtains (ok) "\<forall>c \<in> set keys. selected_error selected (the (selected c)) = None"
      "validateSelectedDependenciesV2 order keys selected = Inr (selected_graph selected)"
  | (bad) e where "\<not> (\<forall>c \<in> set keys. selected_error selected (the (selected c)) = None)"
      "validateSelectedDependenciesV2 order keys selected = Inl e"
  using dependencies_ok [OF assms, of keys selected] by (cases "validateSelectedDependenciesV2 order keys selected") blast+

section \<open>The set that is built\<close>

text \<open>The set for a given selection, with the members in the reference order.\<close>

definition built_set ::
  "string \<Rightarrow> BindingPlanV2 \<Rightarrow> Time \<Rightarrow> (string \<times> BindingFactV2) list \<Rightarrow> BindingResidualV2 list \<Rightarrow> BindingSetFactV2" where
  "built_set setID plan now chosen residuals =
     (let selected = map_of chosen; keys = map fst chosen;
          nodes = greedy_order (Suc (length keys)) keys (selected_graph selected) [];
          fs = map (\<lambda>c. the (selected c)) nodes in
      \<lparr>bs_ID = setID, bs_PlanID = bp_ID plan, bs_PlanDigest = bp_PlanDigest plan, bs_GovernanceDigest = bp_GovernanceDigest plan,
       bs_State = BindingSetActive, bs_Revision = 1, bs_Members = map binding_member fs, bs_TopologicalOrder = nodes,
       bs_Residuals = sort_key brs_ComponentID residuals, bs_CreatedUnixNano = UnixNano now,
       bs_ExpiresUnixNano = min_fact_expiry MaxInt64 fs, bs_InvalidationReason = ''''\<rparr>)"

lemma unique_components:
  "unique_error pre key dup post {} xs = None \<Longrightarrow> distinct (map key xs)"
  by (simp add: unique_error_None)

lemma BuildBindingSetV2_result:
  assumes o: "valid_order order"
  shows "BuildBindingSetV2 J order setID plan catalog facts now \<noteq> None"
    and "BuildBindingSetV2 J order setID plan catalog facts now = Some (Inr s) \<longleftrightarrow>
      (\<exists>chosen residuals.
         setID \<noteq> '''' \<and> length setID \<le> 128 \<and> \<not> IsZero now \<and> BindingPlanV2_Validate J plan = None
         \<and> GovernanceCatalogV2_DigestV2 J catalog = Inr (bp_GovernanceDigest plan) \<and> facts_error J facts = None
         \<and> select_loop (map_of (map (\<lambda>f. (bf_ComponentID f, f)) facts)) catalog now (bp_Requirements plan) [] [] = Inr (chosen, residuals)
         \<and> chosen \<noteq> [] \<and> (\<forall>c \<in> fst ` set chosen. selected_error (map_of chosen) (the (map_of chosen c)) = None)
         \<and> acyclic (edges (selected_graph (map_of chosen)))
         \<and> s = built_set setID plan now chosen residuals \<and> BindingSetFactV2_Validate s = None)"
proof -
  let ?F = "map_of (map (\<lambda>f. (bf_ComponentID f, f)) facts)"
  let ?E = "first_err
        [fail_if (setID = '''' \<or> length setID > 128 \<or> IsZero now) ErrorInvalidArgument ReasonInvalidReference,
         BindingPlanV2_Validate J plan,
         (case GovernanceCatalogV2_DigestV2 J catalog of
            Inl e \<Rightarrow> Some e
          | Inr d \<Rightarrow> fail_if (d \<noteq> bp_GovernanceDigest plan) ErrorPreconditionFailed ReasonBindingDrift),
         facts_error J facts]"
  have E: "?E = None \<longleftrightarrow> setID \<noteq> '''' \<and> length setID \<le> 128 \<and> \<not> IsZero now \<and> BindingPlanV2_Validate J plan = None
         \<and> GovernanceCatalogV2_DigestV2 J catalog = Inr (bp_GovernanceDigest plan) \<and> facts_error J facts = None"
    by (auto split: sum.splits)
  have d: "distinct (map fst chosen) \<and> dom (map_of chosen) = set (map fst chosen)"
    if "?E = None" "select_loop ?F catalog now (bp_Requirements plan) [] [] = Inr (chosen, residuals)" for chosen residuals
  proof -
    have "distinct (map br_ComponentID (bp_Requirements plan))"
      using that(1) unique_components by (auto simp: BindingPlanV2_Validate_def validateBindingPlanStructureV2_def)
    moreover have "map fst chosen = map br_ComponentID (filter (satisfied ?F catalog now) (bp_Requirements plan))"
      using select_loop_Inr(1) [OF that(2)] by (simp add: comp_def)
    ultimately have "distinct (map fst chosen)" by (metis distinct_map_filter)
    then show ?thesis by (simp add: dom_map_of_conv_image_fst)
  qed
  note so = stable_order(1) [OF selected_graph_on o]
  show "BuildBindingSetV2 J order setID plan catalog facts now \<noteq> None"
  proof (cases "?E")
    case None
    then show ?thesis using d [OF None] so
      by (auto simp: BuildBindingSetV2_def Let_def dependencies_ok [OF o] split: option.splits sum.splits)
  qed (simp add: BuildBindingSetV2_def)
  show "BuildBindingSetV2 J order setID plan catalog facts now = Some (Inr s) \<longleftrightarrow>
      (\<exists>chosen residuals.
         setID \<noteq> '''' \<and> length setID \<le> 128 \<and> \<not> IsZero now \<and> BindingPlanV2_Validate J plan = None
         \<and> GovernanceCatalogV2_DigestV2 J catalog = Inr (bp_GovernanceDigest plan) \<and> facts_error J facts = None
         \<and> select_loop ?F catalog now (bp_Requirements plan) [] [] = Inr (chosen, residuals)
         \<and> chosen \<noteq> [] \<and> (\<forall>c \<in> fst ` set chosen. selected_error (map_of chosen) (the (map_of chosen c)) = None)
         \<and> acyclic (edges (selected_graph (map_of chosen)))
         \<and> s = built_set setID plan now chosen residuals \<and> BindingSetFactV2_Validate s = None)"
    (is "_ \<longleftrightarrow> ?R")
  proof (cases "?E")
    case None
    note n = None
    show ?thesis
    proof (cases "select_loop ?F catalog now (bp_Requirements plan) [] []")
      case (Inl e)
      then show ?thesis using n by (auto simp: BuildBindingSetV2_def)
    next
      case (Inr p)
      obtain chosen residuals where p: "p = (chosen, residuals)" by force
      note dd = d [OF n Inr [unfolded p]]
      have st: "stableTopologicalOrderV2 order (map fst chosen) (selected_graph (map_of chosen)) =
          Some (if acyclic (edges (selected_graph (map_of chosen)))
                then Inr (greedy_order (Suc (length chosen)) (map fst chosen) (selected_graph (map_of chosen)) [])
                else Inl (DomainError ErrorPreconditionFailed ReasonDependencyCycle))"
        using so dd by simp
      have nn: "?E = None" using n .
      have "BuildBindingSetV2 J order setID plan catalog facts now =
         (if chosen = [] then Some (Inl (DomainError ErrorCapabilityUnavailable ReasonComponentMissing))
          else case validateSelectedDependenciesV2 order (map fst chosen) (map_of chosen) of
             Inl e \<Rightarrow> Some (Inl e)
           | Inr g \<Rightarrow> (case stableTopologicalOrderV2 order (map fst chosen) g of
               None \<Rightarrow> None | Some (Inl e) \<Rightarrow> Some (Inl e)
             | Some (Inr nodes) \<Rightarrow> Some (let fs = map (\<lambda>c. the (map_of chosen c)) nodes; s =
                  \<lparr>bs_ID = setID, bs_PlanID = bp_ID plan, bs_PlanDigest = bp_PlanDigest plan,
                   bs_GovernanceDigest = bp_GovernanceDigest plan, bs_State = BindingSetActive, bs_Revision = 1,
                   bs_Members = map binding_member fs, bs_TopologicalOrder = nodes,
                   bs_Residuals = sort_key brs_ComponentID residuals, bs_CreatedUnixNano = UnixNano now,
                   bs_ExpiresUnixNano = min_fact_expiry MaxInt64 fs, bs_InvalidationReason = ''''\<rparr> in
                 ensure (BindingSetFactV2_Validate s) (Inr s))))"
        using nn Inr p unfolding BuildBindingSetV2_def by (simp add: Let_def split: sum.splits option.splits)
      also have "\<dots> = Some (Inr s) \<longleftrightarrow> chosen \<noteq> [] \<and> (\<forall>c \<in> fst ` set chosen. selected_error (map_of chosen) (the (map_of chosen c)) = None)
         \<and> acyclic (edges (selected_graph (map_of chosen)))
         \<and> s = built_set setID plan now chosen residuals \<and> BindingSetFactV2_Validate s = None"
      proof (rule dependencies_cases [OF o, of "map fst chosen" "map_of chosen"])
        fix e
        assume "\<not> (\<forall>c \<in> set (map fst chosen). selected_error (map_of chosen) (the (map_of chosen c)) = None)"
          "validateSelectedDependenciesV2 order (map fst chosen) (map_of chosen) = Inl e"
        then show ?thesis by auto
      next
        assume "\<forall>c \<in> set (map fst chosen). selected_error (map_of chosen) (the (map_of chosen c)) = None"
          "validateSelectedDependenciesV2 order (map fst chosen) (map_of chosen) = Inr (selected_graph (map_of chosen))"
        then show ?thesis using st by (auto simp: built_set_def Let_def simp del: greedy_order.simps)
      qed
      finally show ?thesis using E nn Inr p by auto
    qed
  qed (use E in \<open>auto simp: BuildBindingSetV2_def\<close>)
qed

lemma selected_errorD:
  assumes "selected_error selected f = None"
  shows "d \<in> set (cm_Dependencies (bf_Manifest f)) \<Longrightarrow> selected (cdep_ComponentID d) = None \<Longrightarrow> cdep_Optional d"
    and "a \<in> set (cm_Owners (bf_Manifest f)) \<Longrightarrow> selected (oa_OwnerComponentID a) \<noteq> None"
proof -
  have "\<forall>d \<in> set (cm_Dependencies (bf_Manifest f)). \<not> (selected (cdep_ComponentID d) = None \<and> \<not> cdep_Optional d)"
    "\<forall>a \<in> set (cm_Owners (bf_Manifest f)). selected (oa_OwnerComponentID a) \<noteq> None"
    using assms by (simp_all add: selected_error_def first_err_None_iff ball_Un)
  then show "d \<in> set (cm_Dependencies (bf_Manifest f)) \<Longrightarrow> selected (cdep_ComponentID d) = None \<Longrightarrow> cdep_Optional d"
    "a \<in> set (cm_Owners (bf_Manifest f)) \<Longrightarrow> selected (oa_OwnerComponentID a) \<noteq> None" by blast+
qed

section \<open>What is built\<close>

text \<open>What a set says about the plan and the facts it was built from.\<close>

definition build_ok :: "BindingPlanV2 \<Rightarrow> GovernanceCatalogV2 \<Rightarrow> BindingFactV2 list \<Rightarrow> Time \<Rightarrow> BindingSetFactV2 \<Rightarrow> bool" where
  "build_ok plan catalog facts now s \<longleftrightarrow>
     BindingSetFactV2_Validate s = None \<and> bs_State s = BindingSetActive \<and> bs_Revision s = 1
     \<and> distinct (map bm_ComponentID (bs_Members s)) \<and> map bm_ComponentID (bs_Members s) = bs_TopologicalOrder s
     \<and> (\<forall>m \<in> set (bs_Members s). \<exists>f \<in> set facts. \<exists>r \<in> set (bp_Requirements plan). m = binding_member f
          \<and> br_ComponentID r = bf_ComponentID f \<and> bindingRequirementFailureV2 r f catalog now = '''')
     \<and> (\<forall>r \<in> set (bp_Requirements plan). (br_ComponentID r \<in> bm_ComponentID ` set (bs_Members s))
          \<noteq> (br_ComponentID r \<in> brs_ComponentID ` set (bs_Residuals s)))
     \<and> (\<forall>r \<in> set (bp_Requirements plan). br_Required r \<longrightarrow> br_ComponentID r \<in> bm_ComponentID ` set (bs_Members s))
     \<and> (\<forall>xs m ys f d. bs_Members s = xs @ m # ys \<longrightarrow> f \<in> set facts \<longrightarrow> m = binding_member f \<longrightarrow>
          d \<in> set (cm_Dependencies (bf_Manifest f)) \<longrightarrow> cdep_ComponentID d \<in> bm_ComponentID ` set xs
            \<or> cdep_Optional d \<and> cdep_ComponentID d \<notin> bm_ComponentID ` set (bs_Members s))
     \<and> (\<forall>m \<in> set (bs_Members s). \<forall>a \<in> set (bm_Owners m). oa_OwnerComponentID a \<in> bm_ComponentID ` set (bs_Members s))"

lemma member_component [simp]: "bm_ComponentID (binding_member f) = bf_ComponentID f"
  by (simp add: binding_member_def)

lemma built_set_ok:
  assumes b: "facts_error J facts = None" "BindingPlanV2_Validate J plan = None"
    and s: "select_loop (map_of (map (\<lambda>f. (bf_ComponentID f, f)) facts)) catalog now (bp_Requirements plan) [] [] = Inr (chosen, residuals)"
    and d: "\<forall>c \<in> fst ` set chosen. selected_error (map_of chosen) (the (map_of chosen c)) = None"
    and a: "acyclic (edges (selected_graph (map_of chosen)))"
    and v: "BindingSetFactV2_Validate (built_set setID plan now chosen residuals) = None"
  shows "build_ok plan catalog facts now (built_set setID plan now chosen residuals)"
proof -
  let ?F = "map_of (map (\<lambda>f. (bf_ComponentID f, f)) facts)" and ?s = "built_set setID plan now chosen residuals"
    and ?R = "bp_Requirements plan" and ?g = "selected_graph (map_of chosen)" and ?keys = "map fst chosen"
  note sl = select_loop_Inr [OF s, simplified]
  have dr: "distinct (map br_ComponentID ?R)" and df: "distinct (map bf_ComponentID facts)"
    using b unique_components by (auto simp: facts_error_def BindingPlanV2_Validate_def validateBindingPlanStructureV2_def)
  have keys: "?keys = map br_ComponentID (filter (satisfied ?F catalog now) ?R)" using sl(1) by (simp add: comp_def)
  then have dk: "distinct ?keys" using dr by (metis distinct_map_filter)
  have dom: "dom (map_of chosen) = set ?keys" by (simp add: dom_map_of_conv_image_fst)
  define nodes where "nodes = greedy_order (Suc (length ?keys)) ?keys ?g []"
  have nd: "distinct nodes" "set nodes = set ?keys" "topo_ok ?g nodes"
    using stable_order(2) [OF selected_graph_on [OF dk dom], of "\<lambda>n ks. ks"] a by (simp_all add: nodes_def valid_order_def)
  text \<open>A selected component comes with its fact and its satisfied requirement.\<close>
  have sel: "\<exists>f \<in> set facts. \<exists>r \<in> set ?R. map_of chosen c = Some f \<and> bf_ComponentID f = c \<and> br_ComponentID r = c
      \<and> bindingRequirementFailureV2 r f catalog now = ''''" if c: "c \<in> set ?keys" for c
  proof -
    obtain r where r: "r \<in> set ?R" "satisfied ?F catalog now r" "br_ComponentID r = c" using c unfolding keys by auto
    then obtain f where f: "?F c = Some f" "bindingRequirementFailureV2 r f catalog now = ''''"
      by (auto simp: satisfied_def split: option.splits)
    then have "f \<in> set facts" "bf_ComponentID f = c" by (auto dest!: map_of_SomeD)
    moreover have "map_of chosen c = Some f"
      using dk r f(1) by (intro map_of_is_SomeI) (auto simp: sl(1))
    ultimately show ?thesis using r f by blast
  qed
  have comp: "bf_ComponentID (the (map_of chosen c)) = c" if "c \<in> set ?keys" for c using sel [OF that] by auto
  have mem: "bs_Members ?s = map (\<lambda>c. binding_member (the (map_of chosen c))) nodes" and top: "bs_TopologicalOrder ?s = nodes"
    and res: "set (bs_Residuals ?s) = set residuals"
    by (simp_all add: built_set_def Let_def nodes_def comp_def del: greedy_order.simps)
  have ids: "map bm_ComponentID (map (\<lambda>c. binding_member (the (map_of chosen c))) xs) = xs" if "set xs \<subseteq> set ?keys" for xs
    using that comp by (induction xs) auto
  have mids: "map bm_ComponentID (bs_Members ?s) = nodes" unfolding mem using ids nd(2) by simp
  then have mset': "bm_ComponentID ` set (bs_Members ?s) = set ?keys" using nd(2) by (metis set_map)
  have r1: "(br_ComponentID r \<in> set ?keys) \<noteq> (br_ComponentID r \<in> brs_ComponentID ` set residuals)" if "r \<in> set ?R" for r
  proof -
    have "brs_ComponentID ` set residuals = br_ComponentID ` {r \<in> set ?R. \<not> satisfied ?F catalog now r}"
      using arg_cong [OF sl(2), of set] by simp
    moreover have "br_ComponentID r \<in> br_ComponentID ` {r' \<in> set ?R. Q r'} \<longleftrightarrow> Q r" for Q
    proof -
      have "r' = r" if "r' \<in> set ?R" "br_ComponentID r' = br_ComponentID r" for r'
        using dr that \<open>r \<in> set ?R\<close> by (auto simp: distinct_map dest: inj_onD)
      then show ?thesis using \<open>r \<in> set ?R\<close> by (metis (no_types, lifting) image_iff mem_Collect_eq)
    qed
    ultimately show ?thesis by (simp add: keys)
  qed
  have deps: "cdep_ComponentID d \<in> bm_ComponentID ` set xs
      \<or> cdep_Optional d \<and> cdep_ComponentID d \<notin> bm_ComponentID ` set (bs_Members ?s)"
    if e: "bs_Members ?s = xs @ m # ys" "f \<in> set facts" "m = binding_member f" "d \<in> set (cm_Dependencies (bf_Manifest f))" for xs m ys f d
  proof -
    let ?c = "bf_ComponentID f"
    have n: "nodes = map bm_ComponentID xs @ ?c # map bm_ComponentID ys" using mids e(1,3) by simp
    then have k: "?c \<in> set ?keys" using nd(2) by (metis in_set_conv_decomp)
    obtain f' where f': "f' \<in> set facts" "map_of chosen ?c = Some f'" "bf_ComponentID f' = ?c" using sel [OF k] by blast
    then have ff: "f' = f" using df e(2) by (auto simp: distinct_map dest: inj_onD)
    have "selected_error (map_of chosen) f = None" using d k f' ff by force
    then have o: "map_of chosen (cdep_ComponentID d) = None \<Longrightarrow> cdep_Optional d"
      using e(4) selected_errorD(1) by blast
    have "set (?g ?c) \<subseteq> set (map bm_ComponentID xs)" using nd(3) n unfolding topo_ok_def by blast
    then have "map_of chosen (cdep_ComponentID d) \<noteq> None \<Longrightarrow> cdep_ComponentID d \<in> bm_ComponentID ` set xs"
      using f'(2) ff e(4) by (auto simp: selected_graph_def)
    then show ?thesis using o dom unfolding mset' by blast
  qed
  have own: "oa_OwnerComponentID x \<in> set ?keys" if mm: "m \<in> set (bs_Members ?s)" and x: "x \<in> set (bm_Owners m)" for m x
  proof -
    obtain c where c: "c \<in> set ?keys" "m = binding_member (the (map_of chosen c))" using mm nd(2) unfolding mem by auto
    then have "selected_error (map_of chosen) (the (map_of chosen c)) = None" using d by auto
    then have "map_of chosen (oa_OwnerComponentID x) \<noteq> None"
      using x c(2) selected_errorD(2) by (simp add: binding_member_def)
    then show ?thesis using dom by blast
  qed
  have member: "\<exists>f \<in> set facts. \<exists>r \<in> set ?R. m = binding_member f \<and> br_ComponentID r = bf_ComponentID f
      \<and> bindingRequirementFailureV2 r f catalog now = ''''" if m: "m \<in> set (bs_Members ?s)" for m
  proof -
    obtain c where "c \<in> set ?keys" "m = binding_member (the (map_of chosen c))" using m nd(2) unfolding mem by auto
    then show ?thesis using sel [of c] by fastforce
  qed
  have "bs_State ?s = BindingSetActive" "bs_Revision ?s = 1" by (simp_all add: built_set_def Let_def)
  moreover have "br_ComponentID r \<in> set ?keys" if "r \<in> set ?R" "br_Required r" for r
    using that sl(3) unfolding keys by auto
  ultimately show ?thesis
    unfolding build_ok_def mset' mids top res using v r1 deps [unfolded mset'] own member nd(1)
    by (intro conjI) (assumption | rule refl | blast)+
qed

lemma BuildBindingSetV2_ok:
  assumes "valid_order order" "BuildBindingSetV2 J order setID plan catalog facts now = Some (Inr s)"
  shows "bs_ID s = setID \<and> build_ok plan catalog facts now s"
  using assms(2) [unfolded BuildBindingSetV2_result(2) [OF assms(1)]]
proof (elim exE conjE)
  fix chosen residuals
  assume c: "s = built_set setID plan now chosen residuals" and v: "BindingSetFactV2_Validate s = None"
    and ok: "facts_error J facts = None" "BindingPlanV2_Validate J plan = None"
      "select_loop (map_of (map (\<lambda>f. (bf_ComponentID f, f)) facts)) catalog now (bp_Requirements plan) [] [] = Inr (chosen, residuals)"
      "\<forall>c \<in> fst ` set chosen. selected_error (map_of chosen) (the (map_of chosen c)) = None"
      "acyclic (edges (selected_graph (map_of chosen)))"
  have "bs_ID s = setID" by (simp add: c built_set_def Let_def)
  with built_set_ok [OF ok v [unfolded c]] show ?thesis by (simp add: c)
qed

end
