(* ===== verification/BindingSamples.thy ===== *)
theory BindingSamples
  imports BindingInvariant BindingBuild Samples
begin

text \<open>
  Concrete manifests, bindings, sets and plans that pass the validations, for the witnesses of the
  binding registry.
\<close>

section \<open>Versions\<close>

lemma sample_version_parse:
  "ParseSemanticVersion ''1.0.0'' = Inr \<lparr>ver_Major = 1, ver_Minor = 0, ver_Patch = 0, ver_Prerelease = [], ver_Build = []\<rparr>"
  "ParseSemanticVersion ''2.0.0'' = Inr \<lparr>ver_Major = 2, ver_Minor = 0, ver_Patch = 0, ver_Prerelease = [], ver_Build = []\<rparr>"
  "SemanticVersion_String \<lparr>ver_Major = 1, ver_Minor = 0, ver_Patch = 0, ver_Prerelease = [], ver_Build = []\<rparr> = ''1.0.0''"
  "SemanticVersion_String \<lparr>ver_Major = 2, ver_Minor = 0, ver_Patch = 0, ver_Prerelease = [], ver_Build = []\<rparr> = ''2.0.0''"
proof -
  let ?v = "\<lambda>n. \<lparr>ver_Major = n, ver_Minor = 0, ver_Patch = 0, ver_Prerelease = [], ver_Build = []\<rparr>"
  have d: "digit 0 = CHR ''0''" "digit (Suc 0) = CHR ''1''" "digit 2 = CHR ''2''" by code_simp+
  have s: "SemanticVersion_String (?v 1) = ''1.0.0''" "SemanticVersion_String (?v 2) = ''2.0.0''"
    by (simp_all add: SemanticVersion_String_def dec.simps d)
  have "version_ok (?v 1)" "version_ok (?v 2)"
    by (simp_all add: version_ok_def s MaxSemanticVersionLength_def)
  then show "ParseSemanticVersion ''1.0.0'' = Inr (?v 1)" "ParseSemanticVersion ''2.0.0'' = Inr (?v 2)"
    using print_parse [of "?v 1"] print_parse [of "?v 2"] by (simp_all only: s)
  show "SemanticVersion_String (?v 1) = ''1.0.0''" "SemanticVersion_String (?v 2) = ''2.0.0''" by (rule s)+
qed

definition sample_range :: VersionRange where
  "sample_range = \<lparr>vr_MinimumInclusive = ''1.0.0'', vr_MaximumExclusive = ''2.0.0''\<rparr>"

lemma sample_range_valid [simp]:
  "VersionRange_Validate sample_range = None" "VersionRange_Contains sample_range ''1.0.0''" "canonical_version ''1.0.0''"
  by (simp_all add: VersionRange_Validate_def VersionRange_Contains_def sample_range_def sample_version_parse canonical_version_def
      CompareSemanticVersion_key cmp_simps version_key_def word_le_nat_alt)

section \<open>Manifests and facts\<close>

definition sample_contract :: ContractBindingV2 where
  "sample_contract = \<lparr>cb_Name = ''a/b'', cb_Version = ''1.0.0'', cb_Compatible = sample_range\<rparr>"

lemma sample_contract_valid [simp]: "validateContractBindingV2 sample_contract = None"
  by (simp add: validateContractBindingV2_def sample_contract_def)

text \<open>A component of kind \<open>a/b\<close> that owns its effects and depends on the given components.\<close>

definition sample_manifest :: "string \<Rightarrow> string list \<Rightarrow> DisplayAnnotationV2 list \<Rightarrow> ComponentManifestV2" where
  "sample_manifest c ds annotations =
     \<lparr>cm_ContractVersion = BindingContractVersionV2, cm_ComponentID = c, cm_Kind = ''a/b'', cm_GovernanceCategory = ''a/b'',
      cm_SemanticVersion = ''1.0.0'', cm_ArtifactDigest = sample_digest, cm_Contract = sample_contract, cm_Schemas = [],
      cm_Locality = LocalityHostControlPlane, cm_Dependencies = map (\<lambda>d. \<lparr>cdep_ComponentID = d, cdep_Optional = False\<rparr>) ds,
      cm_RequiredCapabilities = [], cm_ProvidedCapabilities = [\<lparr>pcap_Capability = ''a/b'', pcap_TTLSeconds = 1, pcap_Schemas = []\<rparr>],
      cm_Conformance = ConformanceFullyControlled, cm_ResidualClass = ResidualNone,
      cm_Owners = map (\<lambda>r. \<lparr>oa_Role = r, oa_OwnerComponentID = c\<rparr>) [OwnerCleanup, OwnerEffect, OwnerSettlement],
      cm_Credentials = [], cm_OfflinePolicy = OfflineDenied, cm_Extensions = [], cm_Annotations = annotations\<rparr>"

lemma sample_names [simp]:
  "ValidateNamespacedNameV2 ''a/c'' = None" "ValidateNamespacedNameV2 ''a/d'' = None"
  by code_simp+

lemma sample_manifest_valid:
  assumes "ValidateNamespacedNameV2 c = None" "list_all (\<lambda>d. ValidateNamespacedNameV2 d = None \<and> d \<noteq> c) ds" "distinct ds"
    "length ds \<le> 256" "validateAnnotationsV2 anns = None" "length anns \<le> 256"
  shows "ComponentManifestV2_Validate (sample_manifest c ds anns) = None"
  using assms
  by (simp add: ComponentManifestV2_Validate_def sample_manifest_def unique_error_None validateManifestSetLimits_def
      MaxManifestSetEntries_def validateSchemaSetV2_def validateOwnersV2_def validateCredentialsV2_def validateExtensionsV2_def
      MaxCapabilityTTLSeconds_def validOfflinePolicyV2_def comp_def list_all_iff)

definition sample_binding_json :: binding_json where
  "sample_binding_json =
     \<lparr>json_Manifest = (\<lambda>m. Some (CHR 0x22 # cm_ComponentID m @ concat (map ann_Value (cm_Annotations m)) @ [CHR 0x22])),
      json_Catalog = (\<lambda>c. Some ''[]''), json_Plan = (\<lambda>p. Some ''{}'')\<rparr>"

definition binding_hash :: "string \<Rightarrow> string \<Rightarrow> Digest" where
  "binding_hash k j = DigestBytes (canonical_preimage ''praxis.runtime.binding'' BindingContractVersionV2 k j)"

lemma binding_hash_valid [simp]: "Digest_Validate (binding_hash k j) = None"
  by (simp add: binding_hash_def)

lemma binding_labels [simp]:
  "validCanonicalLabel ''praxis.runtime.binding''" "validCanonicalLabel BindingContractVersionV2"
  "validCanonicalLabel ''ComponentManifestV2''" "validCanonicalLabel ''GovernanceCatalogV2''" "validCanonicalLabel ''BindingPlanV2''"
  by (rule canonical_label; simp add: graphic_def BindingContractVersionV2_def)+

abbreviation manifest_hash :: "string \<Rightarrow> Digest" where
  "manifest_hash c \<equiv> binding_hash ''ComponentManifestV2'' (CHR 0x22 # c @ [CHR 0x22])"

lemma sample_manifest_digest:
  assumes "ComponentManifestV2_Validate (sample_manifest c ds anns) = None" "length c \<le> 256"
  shows "BindingDigestV2 sample_binding_json (sample_manifest c ds anns) = Inr (manifest_hash c)"
proof -
  have "json_Manifest sample_binding_json ((normalizeManifestV2 (sample_manifest c ds anns))\<lparr>cm_Annotations := []\<rparr>) = Some (CHR 0x22 # c @ [CHR 0x22])"
    by (simp add: sample_binding_json_def normalizeManifestV2_def sample_manifest_def)
  then show ?thesis
    using assms by (simp add: BindingDigestV2_def CanonicalJSONDigest_Inr MaxCanonicalDocumentBytes_def binding_hash_def)
qed

definition sample_grant :: "string \<Rightarrow> CapabilityGrantV2" where
  "sample_grant c = \<lparr>cg_Capability = c, cg_EvidenceDigest = sample_digest, cg_ObservedUnixNano = 10, cg_ExpiresUnixNano = 1000\<rparr>"

text \<open>The fact of component \<open>c\<close> in a given state; its id is the component id.\<close>

definition sample_binding ::
  "string \<Rightarrow> string list \<Rightarrow> DisplayAnnotationV2 list \<Rightarrow> BindingLifecycleStateV2 \<Rightarrow> Revision \<Rightarrow> BindingFactV2" where
  "sample_binding c ds anns st n =
     \<lparr>bf_ID = c, bf_ComponentID = c, bf_Manifest = sample_manifest c ds anns, bf_ManifestDigest = manifest_hash c,
      bf_GovernanceDigest = binding_hash ''GovernanceCatalogV2'' ''[]'', bf_State = st, bf_Revision = n,
      bf_Grants = (if st = BindingDeclared then [] else [sample_grant ''a/b'']),
      bf_ProbedUnixNano = (if st = BindingDeclared then 0 else 10),
      bf_CertifiedUnixNano = (if st = BindingDeclared \<or> st = BindingProbed then 0 else 20),
      bf_ConformanceEvidenceDigest = (if st = BindingDeclared \<or> st = BindingProbed then '''' else sample_digest),
      bf_ExpiresUnixNano = (if st = BindingDeclared then 0 else 1000), bf_BindingSetID = (if st = BindingBound then ''s'' else ''''),
      bf_InvalidationReason = '''', bf_RenewalEvidence = []\<rparr>"

lemma sample_binding_valid:
  assumes "ComponentManifestV2_Validate (sample_manifest c ds anns) = None" "length c \<le> 128" "list_all graphic c" "c \<noteq> ''''" "n \<noteq> 0"
    "st \<in> {BindingDeclared, BindingProbed, BindingCertified, BindingBound}"
  shows "BindingFactV2_Validate sample_binding_json (sample_binding c ds anns st n) = None"
proof -
  have c: "TrimSpace c = c" using assms(3,4) by (simp add: TrimSpace_graphic)
  have f: "cm_ComponentID (sample_manifest c ds anns) = c" "cm_Conformance (sample_manifest c ds anns) = ConformanceFullyControlled"
    "cm_ProvidedCapabilities (sample_manifest c ds anns) = [\<lparr>pcap_Capability = ''a/b'', pcap_TTLSeconds = 1, pcap_Schemas = []\<rparr>]"
    by (simp_all add: sample_manifest_def)
  have d: "BindingDigestV2 sample_binding_json (sample_manifest c ds anns) = Inr (manifest_hash c)"
    using sample_manifest_digest assms(1,2) by simp
  from assms(6) show ?thesis
    using assms(1,2,4,5) c f d
    by (elim insertE; simp add: BindingFactV2_Validate_def sample_binding_def validateBindingGrantSetV2_def provided_map_def sample_grant_def
        MaxManifestSetEntries_def MaxInt64_def)
qed

lemma sample_clone [simp]: "ComponentManifestV2_Validate (sample_manifest c ds []) = None \<Longrightarrow> length c \<le> 128 \<Longrightarrow>
    cloneBindingFactV2 sample_binding_json (sample_binding c ds [] st n) = sample_binding c ds [] st n"
  by (simp add: cloneBindingFactV2_def cloneManifestV2_def EncodeComponentManifestV2_def sample_binding_def MaxCanonicalDocumentBytes_def)
    (simp add: sample_binding_json_def sample_manifest_def MaxCanonicalDocumentBytes_def)

section \<open>A plan of two components\<close>

definition sample_catalog :: GovernanceCatalogV2 where
  "sample_catalog = \<lparr>gc_Registrations = [\<lparr>gr_Kind = ''a/b'', gr_Category = ''a/b'', gr_Capabilities = [''a/b''], gr_Schemas = [],
     gr_ExtensionPolicies = [], gr_AllowedLocalities = [LocalityHostControlPlane], gr_AllowedConformance = [ConformanceFullyControlled]\<rparr>]\<rparr>"

lemma sample_catalog_valid [simp]: "GovernanceCatalogV2_Validate sample_catalog = None"
  by (simp add: GovernanceCatalogV2_Validate_def sample_catalog_def GovernanceRegistrationV2_Validate_def validateNamespacedSetV2_def
      validateSchemaSetV2_def MaxManifestSetEntries_def)

lemma sample_catalog_digest: "GovernanceCatalogV2_DigestV2 sample_binding_json sample_catalog = Inr (binding_hash ''GovernanceCatalogV2'' ''[]'')"
  by (simp add: GovernanceCatalogV2_DigestV2_def CanonicalJSONDigest_Inr MaxCanonicalDocumentBytes_def binding_hash_def sample_binding_json_def)

definition needed :: "string \<Rightarrow> BindingRequirementV2" where
  "needed c = \<lparr>br_ComponentID = c, br_Kind = ''a/b'', br_SemanticVersion = sample_range, br_ContractName = ''a/b'',
     br_Contract = sample_range, br_ArtifactDigest = sample_digest, br_RequiredCapabilities = [''a/b''], br_Required = True,
     br_AllowResidual = False\<rparr>"

definition sample_binding_plan :: BindingPlanV2 where
  "sample_binding_plan = \<lparr>bp_ID = ''p'', bp_PlanDigest = binding_hash ''BindingPlanV2'' ''{}'',
     bp_GovernanceDigest = binding_hash ''GovernanceCatalogV2'' ''[]'', bp_Requirements = [needed ''a/c'', needed ''a/d'']\<rparr>"

lemma sample_binding_plan_valid [simp]: "BindingPlanV2_Validate sample_binding_json sample_binding_plan = None"
  by (simp add: BindingPlanV2_Validate_def validateBindingPlanStructureV2_def sample_binding_plan_def unique_error_None requirement_error_def
      needed_def validateNamespacedSetV2_def MaxManifestSetEntries_def bindingPlanDigestV2_def CanonicalJSONDigest_Inr
      MaxCanonicalDocumentBytes_def sample_binding_json_def binding_hash_def [symmetric] TrimSpace_graphic graphic_def)

text \<open>The component \<open>a/c\<close> depends on \<open>a/d\<close>, which therefore comes first.\<close>

abbreviation fact_c :: "BindingLifecycleStateV2 \<Rightarrow> Revision \<Rightarrow> BindingFactV2" where
  "fact_c \<equiv> sample_binding ''a/c'' [''a/d''] []"

abbreviation fact_d :: "BindingLifecycleStateV2 \<Rightarrow> Revision \<Rightarrow> BindingFactV2" where
  "fact_d \<equiv> sample_binding ''a/d'' [] []"

lemma sample_components [simp]:
  "ComponentManifestV2_Validate (sample_manifest ''a/c'' [''a/d''] []) = None" "ComponentManifestV2_Validate (sample_manifest ''a/d'' [] []) = None"
  by (rule sample_manifest_valid; simp add: validateAnnotationsV2_def)+

lemma sample_facts_valid [simp]:
  assumes "st \<in> {BindingDeclared, BindingProbed, BindingCertified, BindingBound}" "n \<noteq> 0"
  shows "BindingFactV2_Validate sample_binding_json (fact_c st n) = None" "BindingFactV2_Validate sample_binding_json (fact_d st n) = None"
  by (rule sample_binding_valid; use assms in \<open>simp add: graphic_def\<close>)+

lemma sample_governed [simp]:
  "ValidateManifestAgainstCatalogV2 (sample_manifest ''a/c'' [''a/d''] []) sample_catalog = None"
  "ValidateManifestAgainstCatalogV2 (sample_manifest ''a/d'' [] []) sample_catalog = None"
  by (simp_all add: ValidateManifestAgainstCatalogV2_def) (simp_all add: sample_catalog_def sample_manifest_def)

lemma needed_met:
  "bindingRequirementFailureV2 (needed ''a/c'') (fact_c BindingCertified 3) sample_catalog (at_nano 30) = ''''"
  "bindingRequirementFailureV2 (needed ''a/d'') (fact_d BindingCertified 3) sample_catalog (at_nano 30) = ''''"
  by (simp_all add: bindingRequirementFailureV2_def sample_binding_def Let_def)
    (simp_all add: sample_manifest_def needed_def sample_grant_def sample_contract_def)

definition sample_set :: BindingSetFactV2 where
  "sample_set =
     \<lparr>bs_ID = ''s'', bs_PlanID = ''p'', bs_PlanDigest = binding_hash ''BindingPlanV2'' ''{}'',
      bs_GovernanceDigest = binding_hash ''GovernanceCatalogV2'' ''[]'', bs_State = BindingSetActive, bs_Revision = 1,
      bs_Members = [binding_member (fact_d BindingCertified 3), binding_member (fact_c BindingCertified 3)],
      bs_TopologicalOrder = [''a/d'', ''a/c''], bs_Residuals = [], bs_CreatedUnixNano = 30, bs_ExpiresUnixNano = 1000,
      bs_InvalidationReason = ''''\<rparr>"

lemma sample_owners_ok: "validateOwnersV2 (cm_Owners (sample_manifest c ds anns)) = ValidateNamespacedNameV2 c"
  by (cases "ValidateNamespacedNameV2 c") (simp_all add: validateOwnersV2_def sample_manifest_def)

lemma sample_set_valid [simp]: "BindingSetFactV2_Validate sample_set = None"
  by (simp add: BindingSetFactV2_Validate_def sample_set_def MaxManifestSetEntries_def validBindingSetStateV2_def binding_member_def
      ValidateCapabilityGrantStructureV2_def sample_binding_def sample_owners_ok)
    (simp add: sample_manifest_def sample_grant_def MaxGrantNanos_def MaxCapabilityTTLSeconds_def MaxInt64_def validateOwnersV2_def
      ValidateCapabilityGrantStructureV2_def MaxManifestSetEntries_def)

lemma sample_build:
  "BuildBindingSetV2 sample_binding_json (\<lambda>n ks. ks) ''s'' sample_binding_plan sample_catalog
     [fact_c BindingCertified 3, fact_d BindingCertified 3] (at_nano 30) = Some (Inr sample_set)"
proof -
  let ?f = "map_of (map (\<lambda>f. (bf_ComponentID f, f)) [fact_c BindingCertified 3, fact_d BindingCertified 3])"
  let ?chosen = "[(''a/c'', fact_c BindingCertified 3), (''a/d'', fact_d BindingCertified 3)]"
  have c: "bf_ComponentID (sample_binding c ds anns st n) = c" "bf_Manifest (sample_binding c ds anns st n) = sample_manifest c ds anns"
    "bf_ExpiresUnixNano (sample_binding c ds anns BindingCertified n) = 1000"
    for c ds anns st n by (simp_all add: sample_binding_def)
  have r: "br_ComponentID (needed x) = x" for x by (simp add: needed_def)
  have f: "facts_error sample_binding_json [fact_c BindingCertified 3, fact_d BindingCertified 3] = None"
    by (simp add: facts_error_def unique_error_None c)
  have s: "select_loop ?f sample_catalog (at_nano 30) (bp_Requirements sample_binding_plan) [] [] = Inr (?chosen, [])"
    by (simp add: sample_binding_plan_def c r needed_met)
  have d: "validateSelectedDependenciesV2 (\<lambda>n ks. ks) [''a/c'', ''a/d''] (map_of ?chosen) = Inr (selected_graph (map_of ?chosen))"
    by (simp add: validateSelectedDependenciesV2_def selected_error_def c) (simp add: sample_manifest_def)
  have g: "selected_graph (map_of ?chosen) = (\<lambda>x. if x = ''a/c'' then [''a/d''] else [])"
    by (rule ext) (simp add: selected_graph_def c, simp add: sample_manifest_def)
  have t: "stableTopologicalOrderV2 (\<lambda>n ks. ks) [''a/c'', ''a/d''] (selected_graph (map_of ?chosen)) = Some (Inr [''a/d'', ''a/c''])"
    unfolding g by (simp add: stableTopologicalOrderV2_def dependents_def)
  have v: "first_err
      [fail_if (''s'' = '''' \<or> length ''s'' > 128 \<or> IsZero (at_nano 30)) ErrorInvalidArgument ReasonInvalidReference,
       BindingPlanV2_Validate sample_binding_json sample_binding_plan,
       (case GovernanceCatalogV2_DigestV2 sample_binding_json sample_catalog of
          Inl e \<Rightarrow> Some e
        | Inr d \<Rightarrow> fail_if (d \<noteq> bp_GovernanceDigest sample_binding_plan) ErrorPreconditionFailed ReasonBindingDrift),
       facts_error sample_binding_json [fact_c BindingCertified 3, fact_d BindingCertified 3]] = None"
    by (simp add: f sample_catalog_digest) (simp add: sample_binding_plan_def)
  have b: "\<lparr>bs_ID = ''s'', bs_PlanID = bp_ID sample_binding_plan, bs_PlanDigest = bp_PlanDigest sample_binding_plan,
      bs_GovernanceDigest = bp_GovernanceDigest sample_binding_plan, bs_State = BindingSetActive, bs_Revision = 1,
      bs_Members = [binding_member (the (map_of ?chosen ''a/d'')), binding_member (the (map_of ?chosen ''a/c''))],
      bs_TopologicalOrder = [''a/d'', ''a/c''], bs_Residuals = sort_key brs_ComponentID [], bs_CreatedUnixNano = UnixNano (at_nano 30),
      bs_ExpiresUnixNano = min_fact_expiry MaxInt64 [the (map_of ?chosen ''a/d''), the (map_of ?chosen ''a/c'')],
      bs_InvalidationReason = ''''\<rparr> = sample_set"
    by (simp add: sample_set_def c MaxInt64_def) (simp add: sample_binding_plan_def)
  show ?thesis
    unfolding BuildBindingSetV2_def v option.case s sum.case prod.case
    by (simp only: d t Let_def option.case sum.case prod.case list.map fst_conv list.distinct if_False b sample_set_valid ensure_simps)
qed

section \<open>A history: two bindings are declared, probed, certified and committed\<close>

definition sample_store :: "BindingFactV2 option \<Rightarrow> BindingFactV2 option \<Rightarrow> (string \<rightharpoonup> BindingSetFactV2) \<Rightarrow> BindingStoreV2" where
  "sample_store c d sets =
     \<lparr>bst_bindings = (\<lambda>i. if i = ''a/c'' then c else if i = ''a/d'' then d else None), bst_sets = sets,
      bst_loseNextCommitReply = False\<rparr>"

lemma sample_store_empty: "sample_store None None Map.empty = NewBindingStoreV2"
  by (simp add: sample_store_def NewBindingStoreV2_def fun_eq_iff)

lemma sample_fields [simp]:
  "bf_ID (sample_binding c ds anns st n) = c" "bf_Revision (sample_binding c ds anns st n) = n" "bf_State (sample_binding c ds anns st n) = st"
  "bf_ComponentID (sample_binding c ds anns st n) = c" "bf_ManifestDigest (sample_binding c ds anns st n) = manifest_hash c"
  "bf_GovernanceDigest (sample_binding c ds anns st n) = binding_hash ''GovernanceCatalogV2'' ''[]''"
  "bf_Manifest (sample_binding c ds anns st n) = sample_manifest c ds anns"
  by (simp_all add: sample_binding_def)

lemma sample_creates:
  "CreateBinding sample_binding_json (sample_store None d m) LiveContext (fact_c BindingDeclared 1)
     = (sample_store (Some (fact_c BindingDeclared 1)) d m, Inr (fact_c BindingDeclared 1))"
  "CreateBinding sample_binding_json (sample_store c None m) LiveContext (fact_d BindingDeclared 1)
     = (sample_store c (Some (fact_d BindingDeclared 1)) m, Inr (fact_d BindingDeclared 1))"
  by (simp_all add: CreateBinding_def) (simp_all add: sample_store_def fun_eq_iff)

lemma sample_moves:
  assumes "(st, st', n, k, now) \<in> {(BindingDeclared, BindingProbed, 1, 2, 10), (BindingProbed, BindingCertified, 2, 3, 20)}"
  shows "CompareAndSwapBinding sample_binding_json (sample_store (Some (fact_c st n)) d m) LiveContext
       \<lparr>bfc_ExpectedRevision = n, bfc_Next = fact_c st' k\<rparr> (at_nano now)
     = (sample_store (Some (fact_c st' k)) d m, Inr (fact_c st' k))"
    and "CompareAndSwapBinding sample_binding_json (sample_store c (Some (fact_d st n)) m) LiveContext
       \<lparr>bfc_ExpectedRevision = n, bfc_Next = fact_d st' k\<rparr> (at_nano now)
     = (sample_store c (Some (fact_d st' k)) m, Inr (fact_d st' k))"
proof -
  have "ValidateBindingFactTransitionV2 sample_binding_json (fact_c st n) (fact_c st' k) (at_nano now) = None"
    "ValidateBindingFactTransitionV2 sample_binding_json (fact_d st n) (fact_d st' k) (at_nano now) = None"
    using assms by (auto simp: ValidateBindingFactTransitionV2_def) (simp_all add: sample_binding_def sample_manifest_def)
  then show "CompareAndSwapBinding sample_binding_json (sample_store (Some (fact_c st n)) d m) LiveContext
       \<lparr>bfc_ExpectedRevision = n, bfc_Next = fact_c st' k\<rparr> (at_nano now)
     = (sample_store (Some (fact_c st' k)) d m, Inr (fact_c st' k))"
    "CompareAndSwapBinding sample_binding_json (sample_store c (Some (fact_d st n)) m) LiveContext
       \<lparr>bfc_ExpectedRevision = n, bfc_Next = fact_d st' k\<rparr> (at_nano now)
     = (sample_store c (Some (fact_d st' k)) m, Inr (fact_d st' k))"
    using assms by (auto simp: CompareAndSwapBinding_def BindingFactCASRequestV2_Validate_def sample_store_def fun_eq_iff Let_def)
qed

definition sample_expected :: "ExpectedBindingRevisionV2 list" where
  "sample_expected = [\<lparr>xbr_BindingID = ''a/c'', xbr_ExpectedRevision = 3\<rparr>, \<lparr>xbr_BindingID = ''a/d'', xbr_ExpectedRevision = 3\<rparr>]"

definition bound_set :: BindingSetFactV2 where
  "bound_set = sample_set\<lparr>bs_Members := [(binding_member (fact_d BindingCertified 3))\<lparr>bm_BindingRevision := 4\<rparr>,
     (binding_member (fact_c BindingCertified 3))\<lparr>bm_BindingRevision := 4\<rparr>]\<rparr>"

lemma sample_bound: "bound_version ''s'' (sample_binding c ds anns BindingCertified 3) = sample_binding c ds anns BindingBound 4"
  by (simp add: bound_version_def sample_binding_def)

lemma sample_set_fields:
  "bs_Members sample_set = [binding_member (fact_d BindingCertified 3), binding_member (fact_c BindingCertified 3)]"
  "bs_ID sample_set = ''s''" "bs_State sample_set = BindingSetActive" "bs_Revision sample_set = 1" "bs_CreatedUnixNano sample_set = 30"
  "bs_ExpiresUnixNano sample_set = 1000" "bs_GovernanceDigest sample_set = binding_hash ''GovernanceCatalogV2'' ''[]''"
  by (simp_all add: sample_set_def)

lemma sample_member_fields:
  "bm_BindingID (binding_member f) = bf_ID f" "bm_BindingRevision (binding_member f) = bf_Revision f"
  "bm_ManifestDigest (binding_member f) = bf_ManifestDigest f" "bm_ArtifactDigest (binding_member f) = cm_ArtifactDigest (bf_Manifest f)"
  by (simp_all add: binding_member_def)

lemma sample_committed:
  "committed_set (bst_bindings (sample_store (Some (fact_c BindingCertified 3)) (Some (fact_d BindingCertified 3)) m)) sample_set = bound_set"
  by (simp add: committed_set_def bound_set_def sample_set_fields sample_member_fields sample_store_def)

lemma sample_commit_transitions:
  "ValidateBindingFactTransitionV2 sample_binding_json (fact_c BindingCertified 3) (fact_c BindingBound 4) (at_nano 30) = None"
  "ValidateBindingFactTransitionV2 sample_binding_json (fact_d BindingCertified 3) (fact_d BindingBound 4) (at_nano 30) = None"
  by (simp_all add: ValidateBindingFactTransitionV2_def) (simp_all add: sample_binding_def)

lemma sample_commit_ok:
  assumes "m \<in> set (bs_Members sample_set)"
  shows "commit_member_error sample_binding_json (bst_bindings (sample_store (Some (fact_c BindingCertified 3)) (Some (fact_d BindingCertified 3)) x))
    (expected_map sample_expected) sample_set (at_nano 30) m = None"
  using assms
  by (auto simp: sample_set_fields sample_member_fields commit_member_error_def sample_store_def sample_bound sample_commit_transitions
      expected_map_def sample_expected_def) (simp_all add: sample_binding_def)

lemma sample_commit:
  "CommitBindingSet sample_binding_json (sample_store (Some (fact_c BindingCertified 3)) (Some (fact_d BindingCertified 3)) Map.empty) LiveContext
     \<lparr>cbs_Set = sample_set, cbs_Expected = sample_expected\<rparr> (at_nano 30)
   = (sample_store (Some (fact_c BindingBound 4)) (Some (fact_d BindingBound 4)) [''s'' \<mapsto> bound_set], Inr bound_set)"
proof -
  let ?s = "sample_store (Some (fact_c BindingCertified 3)) (Some (fact_d BindingCertified 3)) Map.empty"
  have e: "first_err (expected_error sample_expected
      # map (commit_member_error sample_binding_json (bst_bindings ?s) (expected_map sample_expected) sample_set (at_nano 30)) (bs_Members sample_set)) = None"
    using sample_commit_ok [of _ Map.empty]
    by (simp add: first_err_None_iff) (simp add: expected_error_def unique_error_None sample_expected_def)
  have b: "bind_members sample_binding_json ''s'' (bst_bindings ?s) (bs_Members sample_set)
      = bst_bindings (sample_store (Some (fact_c BindingBound 4)) (Some (fact_d BindingBound 4)) Map.empty)"
    by (auto simp: fun_eq_iff bind_members_def sample_set_fields sample_member_fields sample_store_def sample_bound)
  have v: "BindingSetFactV2_Validate bound_set = None"
    using committed_set_valid [OF sample_set_valid, of "bst_bindings ?s"] sample_commit_ok commit_member_certified sample_committed [of Map.empty]
    by metis
  have i: "bs_ID bound_set = ''s''" by (simp add: bound_set_def sample_set_fields)
  have n: "bst_sets ?s = Map.empty" "\<not> bst_loseNextCommitReply ?s" by (simp_all add: sample_store_def)
  have p: "first_err [contextError LiveContext, BindingSetFactV2_Validate sample_set,
         fail_if (bs_State sample_set \<noteq> BindingSetActive \<or> bs_Revision sample_set \<noteq> 1
           \<or> length sample_expected \<noteq> length (bs_Members sample_set)) ErrorInvalidArgument ReasonBindingSetConflict,
         fail_if (IsZero (at_nano 30) \<or> sint (UnixNano (at_nano 30)) < sint (bs_CreatedUnixNano sample_set)
           \<or> \<not> Before (at_nano 30) (TimeUnix0 (bs_ExpiresUnixNano sample_set))) ErrorPreconditionFailed ReasonBindingExpired] = None"
    by (simp add: sample_set_fields sample_expected_def)
  show ?thesis
    unfolding CommitBindingSet_def Let_def CommitBindingSetRequestV2.simps p sample_committed
    by (simp add: n e v i b sample_set_fields(2) del: first_err_Cons) (simp add: sample_store_def)
qed

definition sample_fact_json :: binding_fact_json where
  "sample_fact_json =
     \<lparr>bj_base = sample_binding_json, json_RenewalSubject = (\<lambda>x. Some ''{}''), json_Grants = (\<lambda>x. Some ''{}''),
      json_MemberGrants = (\<lambda>x. Some ''{}''), json_SemanticSet = (\<lambda>x. Some ''{}''), json_BindingSet = (\<lambda>x. Some ''{}'')\<rparr>"

lemma sample_run:
  "binding_run careful sample_fact_json NewBindingStoreV2
     (sample_store (Some (fact_c BindingBound 4)) (Some (fact_d BindingBound 4)) [''s'' \<mapsto> bound_set])"
  (is "binding_run careful ?K ?s0 ?s7")
proof -
  have K: "bj_base ?K = sample_binding_json" by (simp add: sample_fact_json_def)
  note cas = sample_moves [of BindingDeclared BindingProbed 1 2 10] sample_moves [of BindingProbed BindingCertified 2 3 20]
  note step = binding_go [OF _ create_binding [where K = ?K, unfolded K]] binding_go [OF _ swap_binding [where K = ?K, unfolded K]]
    binding_go [OF _ commit_set [where K = ?K, unfolded K]]
  have "binding_run careful ?K ?s0 (sample_store (Some (fact_c BindingDeclared 1)) None Map.empty)"
    unfolding sample_store_empty [symmetric] by (rule step(1) [OF binding_stay sample_creates(1)])
  then have "binding_run careful ?K ?s0 (sample_store (Some (fact_c BindingDeclared 1)) (Some (fact_d BindingDeclared 1)) Map.empty)"
    by (rule step(1) [OF _ sample_creates(2)])
  then have "binding_run careful ?K ?s0 (sample_store (Some (fact_c BindingProbed 2)) (Some (fact_d BindingDeclared 1)) Map.empty)"
    by (rule step(2) [OF _ cas(1)]) simp
  then have "binding_run careful ?K ?s0 (sample_store (Some (fact_c BindingProbed 2)) (Some (fact_d BindingProbed 2)) Map.empty)"
    by (rule step(2) [OF _ cas(2)]) simp
  then have "binding_run careful ?K ?s0 (sample_store (Some (fact_c BindingCertified 3)) (Some (fact_d BindingProbed 2)) Map.empty)"
    by (rule step(2) [OF _ cas(3)]) simp
  then have "binding_run careful ?K ?s0 (sample_store (Some (fact_c BindingCertified 3)) (Some (fact_d BindingCertified 3)) Map.empty)"
    by (rule step(2) [OF _ cas(4)]) simp
  then show ?thesis by (rule step(3) [OF _ sample_commit])
qed

end
