(* ===== verification/BindingProperties.thy ===== *)
theory BindingProperties
  imports BindingSamples
begin

text \<open>
  The properties of the binding registry: the topological order and the set built from a plan, the life
  of a binding, the exclusive membership of sets, the commit, and the two ways in which the store departs from what
  was certified.
\<close>

section \<open>Building a set\<close>

text \<open>
  C39: The topological order terminates within its bound and does not depend on the order in which Go
  ranges over its maps: for every legal map order it is an error exactly when the dependency graph has
  a cycle, and otherwise it lists every component once, each after all its dependencies, always picking the
  alphabetically least component that is ready.
\<close>

theorem topological_order:
  assumes "graph_on nodes g" "valid_order order"
  shows "stableTopologicalOrderV2 order nodes g \<noteq> None \<and> stableTopologicalOrderV2 order nodes g = stableTopologicalOrderV2 (\<lambda>n ks. ks) nodes g
    \<and> (case the (stableTopologicalOrderV2 order nodes g) of
         Inl e \<Rightarrow> \<not> acyclic (edges g) \<and> e = DomainError ErrorPreconditionFailed ReasonDependencyCycle
       | Inr ns \<Rightarrow> acyclic (edges g) \<and> distinct ns \<and> set ns = set nodes \<and> topo_ok g ns \<and> ns = greedy_order (Suc (length nodes)) nodes g [])"
proof -
  have "valid_order (\<lambda>n ks. ks)" by (simp add: valid_order_def)
  then show ?thesis
    using stable_order [OF assms] stable_order(1) [OF assms(1), of "\<lambda>n ks. ks"] by (simp del: greedy_order.simps)
qed

lemma topological_order_witness:
  "\<not> acyclic (edges (\<lambda>x. if x = ''a'' then [''b''] else if x = ''b'' then [''a''] else []))"
proof -
  let ?g = "\<lambda>x. if x = ''a'' then [''b''] else if x = ''b'' then [''a''] else []"
  have "graph_on [''a'', ''b''] ?g" by (auto simp: graph_on_def)
  moreover have "valid_order (\<lambda>n ks. rev ks)" by (simp add: valid_order_def)
  ultimately show ?thesis
    using topological_order [of "[''a'', ''b'']" ?g "\<lambda>n ks. rev ks"]
    by (simp add: stableTopologicalOrderV2_def dependents_def)
qed

text \<open>
  C38: Building a binding set always returns, succeeds for one order of the Go maps if and only if it
  succeeds for every other and then with the same set (the error it returns on a failure may depend on the order), and the set it builds is valid and says what the plan and
  the facts say: each member is a certified, unexpired fact that meets its requirement, every requirement is either a
  member or a declared residual, required ones are members, and each member comes after the
  components it depends on and has all its owners in the set.
\<close>

theorem build_binding_set:
  assumes "valid_order order" "valid_order order'"
  shows "case BuildBindingSetV2 J order setID plan catalog facts now of
           None \<Rightarrow> False
         | Some (Inl e) \<Rightarrow> (\<nexists>s. BuildBindingSetV2 J order' setID plan catalog facts now = Some (Inr s))
         | Some (Inr s) \<Rightarrow> BuildBindingSetV2 J order' setID plan catalog facts now = Some (Inr s) \<and> bs_ID s = setID
             \<and> build_ok plan catalog facts now s"
proof -
  note r = BuildBindingSetV2_result [OF assms(1), of J setID plan catalog facts now]
    and r' = BuildBindingSetV2_result [OF assms(2), of J setID plan catalog facts now]
  have same: "BuildBindingSetV2 J order setID plan catalog facts now = Some (Inr s) \<longleftrightarrow>
      BuildBindingSetV2 J order' setID plan catalog facts now = Some (Inr s)" for s
    unfolding r(2) r'(2) by (rule refl)
  note ok = BuildBindingSetV2_ok [OF assms(1), of J setID plan catalog facts now]
  show ?thesis
  proof (cases "BuildBindingSetV2 J order setID plan catalog facts now")
    case (Some x)
    show ?thesis
    proof (cases x)
      case (Inl e)
      have "BuildBindingSetV2 J order' setID plan catalog facts now \<noteq> Some (Inr s)" for s
        unfolding same [symmetric] Some Inl by simp
      then show ?thesis unfolding Some Inl by simp
    next
      case (Inr s)
      have e: "BuildBindingSetV2 J order setID plan catalog facts now = Some (Inr s)" unfolding Some Inr ..
      show ?thesis unfolding Some Inr using e [unfolded same] ok [OF e] by simp
    qed
  qed (use r(1) in simp)
qed

lemma build_binding_set_witness:
  "build_ok sample_binding_plan sample_catalog [fact_c BindingCertified 3, fact_d BindingCertified 3] (at_nano 30) sample_set"
  using build_binding_set [of "\<lambda>n ks. ks" "\<lambda>n ks. rev ks" sample_binding_json "''s''" sample_binding_plan sample_catalog
      "[fact_c BindingCertified 3, fact_d BindingCertified 3]" "at_nano 30"]
  by (simp add: valid_order_def sample_build)

section \<open>Bindings and sets over time\<close>

text \<open>
  In every history of the store, a binding once created stays, keeps its component, manifest digest
  and governance digest, and its revision grows with every change; its lifecycle only advances and
  ends for good in Expired or Revoked; once probed, the capabilities it grants never change and its expiry
  is never shortened, and it is extended only when the binding is bound.
\<close>

theorem binding_lifecycle:
  assumes "binding_run careful K s t" "bst_bindings s i = Some f"
  shows "\<exists>g. bst_bindings t i = Some g \<and> evolves f g"
  using assms
proof (induction rule: binding_run.induct)
  case (binding_go s t u)
  then obtain g where g: "bst_bindings t i = Some g" "evolves f g" by blast
  then show ?case using binding_step_evolves [OF binding_go.hyps(2) g(1)] evolves_trans by blast
qed simp

lemma binding_lifecycle_witness:
  "evolves (fact_c BindingDeclared 1) (fact_c BindingProbed 2)"
proof -
  let ?s = "sample_store (Some (fact_c BindingDeclared 1)) None Map.empty"
  have "binding_run False sample_fact_json ?s (sample_store (Some (fact_c BindingProbed 2)) None Map.empty)"
    by (rule binding_go [OF binding_stay swap_binding [where q = "\<lparr>bfc_ExpectedRevision = 1, bfc_Next = fact_c BindingProbed 2\<rparr>"
          and ctx = LiveContext and now = "at_nano 10"]])
      (simp add: sample_moves(1) [of BindingDeclared BindingProbed 1 2 10, simplified] sample_fact_json_def)
  from binding_lifecycle [OF this, of "''a/c''"] show ?thesis by (simp add: sample_store_def)
qed

text \<open>
  C40: In every history from the empty store, whatever is asked of it, every stored binding is stored
  under its own id and is valid or holds the empty manifest, and every stored set is stored under its own id
  and is valid.
\<close>

theorem binding_store_well_typed:
  assumes "binding_run careful K NewBindingStoreV2 s"
  shows "well_typed (bj_base K) s"
proof -
  have "well_typed (bj_base K) NewBindingStoreV2" by (simp add: well_typed_def NewBindingStoreV2_def)
  with assms show ?thesis by (induction rule: binding_run.induct) (auto intro: binding_step_well_typed)
qed

lemma binding_store_well_typed_witness:
  "stored_fact sample_binding_json ''a/c'' (fact_c BindingBound 4)"
  using binding_store_well_typed [OF sample_run [of False]] by (simp add: well_typed_def sample_store_def sample_fact_json_def split: if_splits)

text \<open>
  C37: From the empty store, as long as no renewal meets a collision of the semantic digest, no binding
  is ever a member of two sets, every stored set is valid, and each of its members has a binding of the same component
  and manifest that is bound or has ended; while it is bound it names this set, and the
  set records its current revision.
\<close>

theorem binding_sets_disjoint:
  assumes "binding_run True K NewBindingStoreV2 s" "bst_sets s i = Some c"
  shows "bs_ID c = i \<and> BindingSetFactV2_Validate c = None
    \<and> (\<forall>m \<in> set (bs_Members c). held (bst_bindings s) i m)
    \<and> (\<forall>j d. bst_sets s j = Some d \<and> j \<noteq> i \<longrightarrow> set_ids c \<inter> set_ids d = {})"
proof -
  have "binding_inv s" using assms(1) NewBindingStoreV2_inv by (rule binding_run_inv)
  then show ?thesis using binding_invD assms(2) by metis
qed

lemma binding_sets_disjoint_witness: "BindingSetFactV2_Validate bound_set = None"
  using binding_sets_disjoint [OF sample_run, of "''s''" bound_set] by (simp add: sample_store_def)

text \<open>
  Committing a set is all or nothing: either the store is unchanged, or every member was a certified
  binding of the recorded component, manifest and revision, all of them are now bound to the set, no other
  binding has changed, and the set is stored with the new revision of each member.
\<close>

theorem commit_all_or_nothing:
  assumes "CommitBindingSet J s ctx q now = (s', x)"
  shows "s' = s
    \<or> list_all (\<lambda>m. commit_member_error J (bst_bindings s) (expected_map (cbs_Expected q)) (cbs_Set q) now m = None
          \<and> held (bst_bindings s') (bs_ID (cbs_Set q))
               (m\<lparr>bm_BindingRevision := bf_Revision (the (bst_bindings s (bm_BindingID m))) + 1\<rparr>)) (bs_Members (cbs_Set q))
      \<and> (\<forall>i. i \<in> set_ids (cbs_Set q) \<or> bst_bindings s' i = bst_bindings s i)
      \<and> bst_sets s (bs_ID (cbs_Set q)) = None
      \<and> bst_sets s' = (bst_sets s)(bs_ID (cbs_Set q) \<mapsto> committed_set (bst_bindings s) (cbs_Set q))"
proof (cases "s' = s")
  case False
  from assms show ?thesis
  proof (cases rule: CommitBindingSet_cases)
    case committed
    have c: "certified_member (bst_bindings s) m" if "m \<in> set (bs_Members (cbs_Set q))" for m
      using committed(3) [OF that] by (rule commit_member_certified)
    have "bst_sets s' = (bst_sets s)(bs_ID (cbs_Set q) \<mapsto> committed_set (bst_bindings s) (cbs_Set q))"
      using assms False committed_set_valid [OF committed(1) c]
      by (auto simp: CommitBindingSet_def Let_def committed(2) committed_set_def elim!: guarded_cases split: if_splits)
    moreover have "held (bst_bindings s') (bs_ID (cbs_Set q))
        (m\<lparr>bm_BindingRevision := bf_Revision (the (bst_bindings s (bm_BindingID m))) + 1\<rparr>)" if "m \<in> set (bs_Members (cbs_Set q))" for m
      unfolding committed(4) by (rule committed_member_held [OF c [OF that] that])
    moreover have "bst_bindings s' i = bst_bindings s i" if "i \<notin> set_ids (cbs_Set q)" for i
      using that by (simp add: committed(4) bind_members_def set_ids_def)
    ultimately show ?thesis using committed(2,3) by (auto simp: list_all_iff)
  qed (use False in simp)
qed simp

lemma commit_all_or_nothing_witness:
  "bst_sets (sample_store (Some (fact_c BindingCertified 3)) (Some (fact_d BindingCertified 3)) Map.empty) ''s'' = None"
  using commit_all_or_nothing [OF sample_commit] by (auto simp: sample_store_def sample_set_fields)

section \<open>Departures from what was certified\<close>

definition regrant :: "(BindingMemberV2 \<Rightarrow> CapabilityGrantV2 list) \<Rightarrow> BindingSetFactV2 \<Rightarrow> BindingSetFactV2" where
  "regrant h s = s\<lparr>bs_Members := map (\<lambda>m. m\<lparr>bm_Grants := h m\<rparr>) (bs_Members s)\<rparr>"

lemma min_expiry_cong: "map cg_ExpiresUnixNano gs = map cg_ExpiresUnixNano hs \<Longrightarrow> min_expiry e gs = min_expiry e hs"
proof (induction gs arbitrary: hs e)
  case (Cons g gs)
  then obtain k ks where "hs = k # ks" "cg_ExpiresUnixNano k = cg_ExpiresUnixNano g" "map cg_ExpiresUnixNano gs = map cg_ExpiresUnixNano ks"
    by (cases hs) simp_all
  then show ?case using Cons.IH by simp
qed simp

lemma members_error_regrant:
  "members_error seen ms = None \<Longrightarrow> (\<And>m. m \<in> set ms \<Longrightarrow> ValidateCapabilityGrantStructureV2 (h m) = None) \<Longrightarrow>
     members_error seen (map (\<lambda>m. m\<lparr>bm_Grants := h m\<rparr>) ms) = None"
  by (induction seen ms rule: members_error.induct) (auto split: option.splits)

lemma regrant_valid:
  assumes "BindingSetFactV2_Validate s = None"
    and h: "\<And>m. m \<in> set (bs_Members s) \<Longrightarrow> ValidateCapabilityGrantStructureV2 (h m) = None
      \<and> map cg_ExpiresUnixNano (h m) = map cg_ExpiresUnixNano (bm_Grants m)"
  shows "BindingSetFactV2_Validate (regrant h s) = None"
proof -
  have "members_error {} (bs_Members s) = None" using assms(1) by (simp add: BindingSetFactV2_Validate_def)
  then have "members_error {} (bs_Members (regrant h s)) = None"
    unfolding regrant_def using h by (simp add: members_error_regrant)
  moreover have "map (\<lambda>m. map cg_ExpiresUnixNano (h m)) (bs_Members s) = map (\<lambda>m. map cg_ExpiresUnixNano (bm_Grants m)) (bs_Members s)"
    using h by simp
  then have "min_expiry e (concat (map bm_Grants (bs_Members (regrant h s)))) = min_expiry e (concat (map bm_Grants (bs_Members s)))" for e
    by (intro min_expiry_cong) (simp add: regrant_def map_concat comp_def h cong: map_cong)
  moreover have "bm_ComponentID ` set (bs_Members (regrant h s)) = bm_ComponentID ` set (bs_Members s)"
    by (simp add: regrant_def image_image)
  ultimately show ?thesis using assms(1) by (auto simp: BindingSetFactV2_Validate_def) (auto simp: regrant_def)
qed

lemma regrant_fields [simp]:
  "bs_ID (regrant h s) = bs_ID s" "bs_State (regrant h s) = bs_State s" "bs_Revision (regrant h s) = bs_Revision s"
  "bs_CreatedUnixNano (regrant h s) = bs_CreatedUnixNano s" "bs_ExpiresUnixNano (regrant h s) = bs_ExpiresUnixNano s"
  "length (bs_Members (regrant h s)) = length (bs_Members s)" "bs_GovernanceDigest (regrant h s) = bs_GovernanceDigest s"
  by (simp_all add: regrant_def)

lemma bind_members_regrant: "bind_members J i b (bs_Members (regrant h s)) = bind_members J i b (bs_Members s)"
  by (simp add: fun_eq_iff bind_members_def regrant_def image_image)

lemma commit_member_regrant:
  "commit_member_error J b e (regrant h s) now (m\<lparr>bm_Grants := g\<rparr>) = commit_member_error J b e s now m"
  by (cases "b (bm_BindingID m)") (simp_all add: commit_member_error_def)

text \<open>
  The commit of a set does not look at the capability grants of its members: if a set commits, so
  does the same set with other grants for its members, of any capabilities and with any evidence, as long
  as they are well formed and expire at the same times, although the certified bindings of those
  members never granted them; the bindings themselves keep the grants they were certified with.
\<close>

theorem commit_accepts_any_grants:
  assumes "CommitBindingSet J s ctx q now = (s', Inr c)" "bst_sets s (bs_ID (cbs_Set q)) = None"
    and h: "\<And>m. m \<in> set (bs_Members (cbs_Set q)) \<Longrightarrow> ValidateCapabilityGrantStructureV2 (h m) = None
      \<and> map cg_ExpiresUnixNano (h m) = map cg_ExpiresUnixNano (bm_Grants m)"
  shows "\<exists>s2 c2. CommitBindingSet J s ctx (q\<lparr>cbs_Set := regrant h (cbs_Set q)\<rparr>) now = (s2, Inr c2)
      \<and> map bm_Grants (bs_Members c2) = map h (bs_Members (cbs_Set q))
      \<and> bst_bindings s2 = bst_bindings s' \<and> bst_sets s2 = (bst_sets s)(bs_ID (cbs_Set q) \<mapsto> c2)"
proof -
  let ?s = "cbs_Set q" and ?b = "bst_bindings s"
  from assms(1,2) have g: "contextError ctx = None" "BindingSetFactV2_Validate ?s = None"
    "first_err [contextError ctx, BindingSetFactV2_Validate ?s,
         fail_if (bs_State ?s \<noteq> BindingSetActive \<or> bs_Revision ?s \<noteq> 1 \<or> length (cbs_Expected q) \<noteq> length (bs_Members ?s))
           ErrorInvalidArgument ReasonBindingSetConflict,
         fail_if (IsZero now \<or> sint (UnixNano now) < sint (bs_CreatedUnixNano ?s) \<or> \<not> Before now (TimeUnix0 (bs_ExpiresUnixNano ?s)))
           ErrorPreconditionFailed ReasonBindingExpired] = None"
    "expected_error (cbs_Expected q) = None"
    "\<forall>m \<in> set (bs_Members ?s). commit_member_error J ?b (expected_map (cbs_Expected q)) ?s now m = None"
    "\<not> bst_loseNextCommitReply s" "bst_bindings s' = bind_members J (bs_ID ?s) ?b (bs_Members ?s)"
    by (auto simp: CommitBindingSet_def Let_def first_err_None_iff split: if_splits)
  have v: "BindingSetFactV2_Validate (regrant h ?s) = None" by (rule regrant_valid [OF g(2) h])
  moreover have "certified_member ?b m" if "m \<in> set (bs_Members (regrant h ?s))" for m
  proof -
    from that obtain n where "n \<in> set (bs_Members ?s)" "m = n\<lparr>bm_Grants := h n\<rparr>" by (auto simp: regrant_def)
    then show ?thesis using g(5) commit_member_certified by (fastforce simp: certified_member_def)
  qed
  ultimately have c: "BindingSetFactV2_Validate (committed_set ?b (regrant h ?s)) = None" by (rule committed_set_valid)
  have m: "\<forall>m \<in> set (bs_Members (regrant h ?s)). commit_member_error J ?b (expected_map (cbs_Expected q)) (regrant h ?s) now m = None"
    using g(5) by (auto simp: regrant_def) (simp add: commit_member_regrant flip: regrant_def)
  have i: "bs_ID (committed_set ?b (regrant h ?s)) = bs_ID ?s" "map bm_Grants (bs_Members (committed_set ?b (regrant h ?s))) = map h (bs_Members ?s)"
    by (simp_all add: committed_set_def) (simp add: regrant_def)
  show ?thesis
    using g v c m i assms(2)
    by (simp add: CommitBindingSet_def Let_def first_err_None_iff bind_members_regrant)
qed

lemma commit_accepts_any_grants_witness:
  "\<exists>s2 c2. CommitBindingSet sample_binding_json (sample_store (Some (fact_c BindingCertified 3)) (Some (fact_d BindingCertified 3)) Map.empty)
       LiveContext \<lparr>cbs_Set = regrant (\<lambda>m. [sample_grant ''a/z'']) sample_set, cbs_Expected = sample_expected\<rparr> (at_nano 30) = (s2, Inr c2)
     \<and> map bm_Grants (bs_Members c2) = [[sample_grant ''a/z''], [sample_grant ''a/z'']]"
proof -
  have "ValidateNamespacedNameV2 ''a/z'' = None" by code_simp
  then have v: "ValidateCapabilityGrantStructureV2 [sample_grant ''a/z''] = None"
    by (simp add: ValidateCapabilityGrantStructureV2_def sample_grant_def MaxManifestSetEntries_def MaxGrantNanos_def MaxCapabilityTTLSeconds_def)
  have e: "map cg_ExpiresUnixNano [sample_grant ''a/z''] = map cg_ExpiresUnixNano (bm_Grants m)" if "m \<in> set (bs_Members sample_set)" for m
    using that by (auto simp: sample_set_fields binding_member_def sample_binding_def) (simp_all add: sample_grant_def)
  have n: "bst_sets (sample_store c d Map.empty) i = None" for c d i by (simp add: sample_store_def)
  have m: "map (\<lambda>m. [sample_grant ''a/z'']) (bs_Members sample_set) = [[sample_grant ''a/z''], [sample_grant ''a/z'']]"
    by (simp add: sample_set_fields)
  note t = commit_accepts_any_grants [OF sample_commit, of "\<lambda>m. [sample_grant ''a/z'']", unfolded CommitBindingSetRequestV2.simps, OF n conjI, OF v e]
  show ?thesis using t m by fastforce
qed

text \<open>
  The store copies a manifest by encoding and decoding it and drops the errors of both. A manifest
  that is valid, and whose digest is computed without its display annotations, can still be too long to
  encode with them; creating its binding succeeds but stores the empty manifest, and from then on the
  binding fails validation and every compare-and-swap of it is refused.
\<close>

theorem oversized_manifest_is_lost:
  assumes "CreateBinding J s ctx f = (s', Inr g)"
    and "json_Manifest J (bf_Manifest f) = Some payload" "length payload > MaxCanonicalDocumentBytes"
  shows "bf_Manifest g = zero_manifest \<and> InspectBinding J s' ctx (bf_ID f) = Inr g \<and> BindingFactV2_Validate J g \<noteq> None
    \<and> (\<nexists>q now s'' h. bf_ID (bfc_Next q) = bf_ID f \<and> CompareAndSwapBinding J s' ctx q now = (s'', Inr h))"
proof -
  have z: "cloneManifestV2 J (bf_Manifest f) = zero_manifest" "cloneManifestV2 J zero_manifest = zero_manifest"
    using assms(2,3) by (auto simp: cloneManifestV2_def EncodeComponentManifestV2_def ensure_def split: option.splits sum.splits)
  have g: "g = f\<lparr>bf_Manifest := zero_manifest\<rparr>" "bst_bindings s' (bf_ID f) = Some g" "contextError ctx = None"
    using assms(1) z by (auto simp: CreateBinding_def cloneBindingFactV2_def)
  have bad: "BindingFactV2_Validate J g \<noteq> None" by (simp add: g(1) BindingFactV2_Validate_def)
  then have "ValidateBindingFactTransitionV2 J g n now \<noteq> None" for n now
    by (auto simp: ValidateBindingFactTransitionV2_def)
  then have "CompareAndSwapBinding J s' ctx q now \<noteq> (s'', Inr h)" if "bf_ID (bfc_Next q) = bf_ID f" for q now s'' h
    using that by (simp add: CompareAndSwapBinding_def g(2))
  moreover have "InspectBinding J s' ctx (bf_ID f) = Inr g"
    using g z by (simp add: InspectBinding_def cloneBindingFactV2_def)
  ultimately show ?thesis using g(1) bad by auto
qed

definition long_annotations :: "DisplayAnnotationV2 list" where
  "long_annotations =
     map (\<lambda>i. \<lparr>ann_Key = replicate (Suc (i div 2)) (if i mod 2 = 0 then CHR ''k'' else CHR ''l''), ann_Value = replicate 4096 CHR ''v''\<rparr>) [0..<256]"

lemma long_annotations_valid: "validateAnnotationsV2 long_annotations = None" "length long_annotations \<le> 256"
proof -
  have "inj_on (\<lambda>i. replicate (Suc (i div 2)) (if i mod 2 = 0 then CHR ''k'' else CHR ''l'')) A" for A :: "nat set"
  proof (rule inj_onI)
    fix i j :: nat
    assume "replicate (Suc (i div 2)) (if i mod 2 = 0 then CHR ''k'' else CHR ''l'') =
        replicate (Suc (j div 2)) (if j mod 2 = 0 then CHR ''k'' else CHR ''l'')"
    then have "i div 2 = j div 2" "i mod 2 = j mod 2"
      by (auto simp: replicate_eq_replicate mod2_eq_if simp del: replicate_Suc split: if_splits)
    then show "i = j" by (metis div_mult_mod_eq)
  qed
  then show "validateAnnotationsV2 long_annotations = None"
    by (auto simp: validateAnnotationsV2_def long_annotations_def unique_error_None distinct_map comp_def TrimSpace_graphic
        graphic_def list_all_iff simp del: replicate_Suc)
  show "length long_annotations \<le> 256" by (simp add: long_annotations_def del: upt_Suc)
qed

lemma oversized_manifest_is_lost_witness:
  "\<exists>s' g. CreateBinding sample_binding_json NewBindingStoreV2 LiveContext (sample_binding ''a/d'' [] long_annotations BindingDeclared 1) = (s', Inr g)
     \<and> bf_Manifest g = zero_manifest"
proof -
  let ?f = "sample_binding ''a/d'' [] long_annotations BindingDeclared 1"
  let ?p = "CHR 0x22 # ''a/d'' @ concat (map ann_Value long_annotations) @ [CHR 0x22]"
  have "ComponentManifestV2_Validate (sample_manifest ''a/d'' [] long_annotations) = None"
    by (rule sample_manifest_valid) (simp_all add: long_annotations_valid)
  then have "BindingFactV2_Validate sample_binding_json ?f = None"
    by (intro sample_binding_valid) (simp_all add: graphic_def)
  then obtain s' g where c: "CreateBinding sample_binding_json NewBindingStoreV2 LiveContext ?f = (s', Inr g)"
    by (auto simp: CreateBinding_def NewBindingStoreV2_def)
  have "json_Manifest sample_binding_json (bf_Manifest ?f) = Some ?p"
    by (simp add: sample_binding_json_def) (simp add: sample_manifest_def)
  moreover have "length (concat (map ann_Value long_annotations)) = 1048576"
    by (simp add: long_annotations_def length_concat comp_def sum_list_triv del: upt_Suc)
  then have "MaxCanonicalDocumentBytes < length ?p" by (simp add: MaxCanonicalDocumentBytes_def)
  ultimately show ?thesis using oversized_manifest_is_lost [OF c] c by blast
qed

end
