(* ===== verification/Registry.thy ===== *)
theory Registry
  imports BindingSamples
begin

text \<open>
  The discovery registry of components, \<open>runtime/ports/binding_v2_registry.go\<close>, and the bridge from version 1
  descriptors. Adapters are arguments: \<open>describe a\<close> is what \<open>DescribeV2\<close> of adapter \<open>a\<close> returns at a call.
  \<open>strings.ToLower\<close> depends on the Unicode tables beyond ASCII; it is the argument \<open>lower\<close>.
\<close>

section \<open>Observations\<close>

record ComponentRegistrationObservationV2 =
  cro_Manifest :: ComponentManifestV2
  cro_ManifestDigest :: Digest

record ComponentProbeObservationV2 =
  cpo_Manifest :: ComponentManifestV2
  cpo_ManifestDigest :: Digest
  cpo_ObservedAt :: Time

definition ComponentRegistrationObservationV2_Validate :: "binding_json \<Rightarrow> ComponentRegistrationObservationV2 \<Rightarrow> go_error option" where
  "ComponentRegistrationObservationV2_Validate J x =
     first_err
      [ComponentManifestV2_Validate (cro_Manifest x),
       (case BindingDigestV2 J (cro_Manifest x) of
          Inl e \<Rightarrow> Some e
        | Inr d \<Rightarrow> fail_if (d \<noteq> cro_ManifestDigest x) ErrorPreconditionFailed ReasonBindingDrift)]"

definition ComponentProbeObservationV2_Validate :: "binding_json \<Rightarrow> ComponentProbeObservationV2 \<Rightarrow> go_error option" where
  "ComponentProbeObservationV2_Validate J x =
     first_err
      [ComponentRegistrationObservationV2_Validate J \<lparr>cro_Manifest = cpo_Manifest x, cro_ManifestDigest = cpo_ManifestDigest x\<rparr>,
       fail_if (IsZero (cpo_ObservedAt x)) ErrorInvalidArgument ReasonEvidenceUnavailable]"

section \<open>The registry\<close>

record 'a registeredComponentV2 =
  rcv_adapter :: 'a
  rcv_componentID :: string
  rcv_kind :: string
  rcv_manifestDigest :: Digest

record 'a ComponentRegistryV2 =
  crv_catalog :: GovernanceCatalogV2
  crv_components :: "string \<rightharpoonup> 'a registeredComponentV2"

definition NewComponentRegistryV2 :: "GovernanceCatalogV2 \<Rightarrow> 'a ComponentRegistryV2 res" where
  "NewComponentRegistryV2 catalog =
     ensure (GovernanceCatalogV2_Validate catalog) (Inr \<lparr>crv_catalog = catalog, crv_components = Map.empty\<rparr>)"

definition Register ::
  "binding_json \<Rightarrow> ('a \<Rightarrow> ComponentManifestV2 res) \<Rightarrow> 'a ComponentRegistryV2 \<Rightarrow> 'a option
     \<Rightarrow> 'a ComponentRegistryV2 \<times> ComponentRegistrationObservationV2 res" where
  "Register J describe r adapter =
     (case adapter of
        None \<Rightarrow> (r, Inl (DomainError ErrorInvalidArgument ReasonComponentMissing))
      | Some a \<Rightarrow>
          (case describe a of
             Inl e \<Rightarrow> (r, Inl e)
           | Inr manifest \<Rightarrow>
               guarded (ValidateManifestAgainstCatalogV2 manifest (crv_catalog r)) r
                (case BindingDigestV2 J manifest of
                   Inl e \<Rightarrow> (r, Inl e)
                 | Inr digest \<Rightarrow>
                     guarded (fail_if (crv_components r (cm_ComponentID manifest) \<noteq> None) ErrorConflict ReasonAlreadyExists) r
                      (r\<lparr>crv_components := (crv_components r)(cm_ComponentID manifest \<mapsto>
                           \<lparr>rcv_adapter = a, rcv_componentID = cm_ComponentID manifest, rcv_kind = cm_Kind manifest,
                            rcv_manifestDigest = digest\<rparr>)\<rparr>,
                       Inr \<lparr>cro_Manifest = cloneManifestV2 J manifest, cro_ManifestDigest = digest\<rparr>))))"

definition Probe ::
  "binding_json \<Rightarrow> ('a \<Rightarrow> ComponentManifestV2 res) \<Rightarrow> 'a ComponentRegistryV2 \<Rightarrow> string \<Rightarrow> Time \<Rightarrow> ComponentProbeObservationV2 res" where
  "Probe J describe r componentID now =
     ensure (first_err [ValidateNamespacedNameV2 componentID, fail_if (IsZero now) ErrorInvalidArgument ReasonInvalidReference])
      (case crv_components r componentID of
         None \<Rightarrow> Inl (DomainError ErrorNotFound ReasonComponentMissing)
       | Some registered \<Rightarrow>
           bind_res (describe (rcv_adapter registered)) (\<lambda>manifest.
             ensure (ValidateManifestAgainstCatalogV2 manifest (crv_catalog r))
              (bind_res (BindingDigestV2 J manifest) (\<lambda>digest.
                 ensure (fail_if (cm_ComponentID manifest \<noteq> rcv_componentID registered \<or> cm_Kind manifest \<noteq> rcv_kind registered
                     \<or> digest \<noteq> rcv_manifestDigest registered) ErrorPreconditionFailed ReasonBindingDrift)
                  (Inr \<lparr>cpo_Manifest = cloneManifestV2 J manifest, cpo_ManifestDigest = digest, cpo_ObservedAt = now\<rparr>)))))"

definition RegisteredIDs :: "map_order \<Rightarrow> 'a ComponentRegistryV2 \<Rightarrow> string list" where
  "RegisteredIDs order r = sort (order 0 (sorted_list_of_set (dom (crv_components r))))"

section \<open>Version 1 descriptors\<close>

definition legacy_char :: "char \<Rightarrow> bool" where
  "legacy_char c \<longleftrightarrow> is_lower c \<or> is_digit c \<or> c = CHR ''-'' \<or> c = CHR ''_'' \<or> c = CHR ''.''"

definition legacy_cut :: "char \<Rightarrow> bool" where
  "legacy_cut c \<longleftrightarrow> c \<in> set ''-_.''"

definition cut_right :: "string \<Rightarrow> string" where
  "cut_right s = rev (dropWhile legacy_cut (rev s))"

definition canonicalLegacySegment :: "(string \<Rightarrow> string) \<Rightarrow> string \<Rightarrow> string" where
  "canonicalLegacySegment lower v =
     (let built = map (\<lambda>c. if legacy_char c then c else CHR ''-'') (lower (TrimSpace v));
          result = cut_right (dropWhile legacy_cut built);
          result' = (if result = '''' \<or> \<not> is_lower (hd result) then ''component-'' @ result else result) in
      if length result' > 63 then cut_right (take 63 result') else result')"

definition legacy_name :: "(string \<Rightarrow> string) \<Rightarrow> string \<Rightarrow> string" where
  "legacy_name lower v = ''legacy/'' @ canonicalLegacySegment lower v"

definition adapted_manifest :: "(string \<Rightarrow> string) \<Rightarrow> ComponentDescriptor \<Rightarrow> ComponentManifestV2" where
  "adapted_manifest lower d =
     (let i = legacy_name lower (desc_ID d) in
      \<lparr>cm_ContractVersion = BindingContractVersionV2, cm_ComponentID = i, cm_Kind = legacy_name lower (component_kind_string (desc_Kind d)),
       cm_GovernanceCategory = ''legacy/adapter'', cm_SemanticVersion = ''1.0.0'', cm_ArtifactDigest = desc_ArtifactDigest d,
       cm_Contract = \<lparr>cb_Name = ''praxis.runtime/legacy-component'', cb_Version = ''1.0.0'',
          cb_Compatible = \<lparr>vr_MinimumInclusive = ''1.0.0'', vr_MaximumExclusive = ''2.0.0''\<rparr>\<rparr>,
       cm_Schemas = [], cm_Locality = LocalityHostControlPlane, cm_Dependencies = [], cm_RequiredCapabilities = [],
       cm_ProvidedCapabilities = map (\<lambda>c. \<lparr>pcap_Capability = legacy_name lower (cap_Name c), pcap_TTLSeconds = 60, pcap_Schemas = []\<rparr>)
          (filter (\<lambda>c. cap_State c \<noteq> CapabilityRevoked) (desc_Capabilities d)),
       cm_Conformance = (if desc_Conformance d = ConformanceOther '''' \<or> desc_Conformance d = ConformanceFullyControlled
          then ConformanceRestrictedControlled else desc_Conformance d),
       cm_ResidualClass = ResidualPotentiallyStale,
       cm_Owners = [\<lparr>oa_Role = OwnerEffect, oa_OwnerComponentID = i\<rparr>, \<lparr>oa_Role = OwnerSettlement, oa_OwnerComponentID = i\<rparr>,
          \<lparr>oa_Role = OwnerCleanup, oa_OwnerComponentID = i\<rparr>],
       cm_Credentials = [], cm_OfflinePolicy = OfflineDenied, cm_Extensions = [],
       cm_Annotations = [\<lparr>ann_Key = ''compatibility'', ann_Value = ''v1alpha1 descriptor; registration is not certification or binding''\<rparr>]\<rparr>)"

definition AdaptV1DescriptorToManifestV2 :: "(string \<Rightarrow> string) \<Rightarrow> ComponentDescriptor \<Rightarrow> ComponentManifestV2 res" where
  "AdaptV1DescriptorToManifestV2 lower d =
     ensure (ComponentDescriptor_Validate d)
      (let manifest = adapted_manifest lower d in ensure (ComponentManifestV2_Validate manifest) (Inr manifest))"

section \<open>Which descriptors can be adapted\<close>

text \<open>A letter or digit survives the rewriting; without one the segment has no legal last character.\<close>

definition has_alnum :: "(string \<Rightarrow> string) \<Rightarrow> string \<Rightarrow> bool" where
  "has_alnum lower v \<longleftrightarrow> list_ex (\<lambda>c. is_lower c \<or> is_digit c) (lower (TrimSpace v))"

lemma legacy_char_cut: "legacy_char c \<Longrightarrow> legacy_cut c \<longleftrightarrow> \<not> (is_lower c \<or> is_digit c)"
  by (auto simp: legacy_char_def legacy_cut_def is_lower_def is_digit_def)

lemma cut_right_last: "cut_right s \<noteq> '''' \<Longrightarrow> \<not> legacy_cut (last (cut_right s))"
  unfolding cut_right_def last_rev using hd_dropWhile [of legacy_cut "rev s"] by simp

lemma cut_right_prefix: "\<exists>t. s = cut_right s @ t"
proof -
  have "rev s = takeWhile legacy_cut (rev s) @ dropWhile legacy_cut (rev s)" by simp
  then have "s = rev (dropWhile legacy_cut (rev s)) @ rev (takeWhile legacy_cut (rev s))" by (metis rev_append rev_rev_ident)
  then show ?thesis unfolding cut_right_def by blast
qed

lemma cut_right_Nil: "cut_right s = '''' \<longleftrightarrow> list_all legacy_cut s"
  by (auto simp: cut_right_def dropWhile_eq_Nil_conv list_all_iff)

lemma list_all_dropWhile: "list_all P (dropWhile P xs) \<longleftrightarrow> list_all P xs"
  by (induction xs) auto

lemma legacy_mapped_cut: "legacy_cut (if legacy_char c then c else CHR ''-'') \<longleftrightarrow> \<not> is_lower c \<and> \<not> is_digit c"
  using legacy_char_cut [of c] by (cases "legacy_char c") (auto simp: legacy_cut_def legacy_char_def)

lemma legacy_mapped:
  "list_all legacy_cut (map (\<lambda>c. if legacy_char c then c else CHR ''-'') s) \<longleftrightarrow> list_all (\<lambda>c. \<not> is_lower c \<and> \<not> is_digit c) s"
  by (induction s) (simp_all only: list.map list.pred_inject legacy_mapped_cut)

lemma legacy_name_char: "legacy_char c \<Longrightarrow> name_char False c"
  by (auto simp: legacy_char_def name_char_def)

text \<open>A string of legal characters with a first letter and no cut character at its end is a name.\<close>

lemma legacy_valid:
  assumes "list_all legacy_char s" "s \<noteq> ''''" "is_lower (hd s)" "\<not> legacy_cut (last s)" "length s \<le> 63"
  shows "validLowerASCIIName s False"
proof -
  have "legacy_char (last s)" using assms(1,2) by (simp add: list_all_iff)
  then have "is_lower (last s) \<or> is_digit (last s)" using assms(4) legacy_char_cut by blast
  then show ?thesis
    using assms legacy_name_char by (auto simp: validLowerASCIIName_def list_all_iff)
qed

text \<open>Cutting off the end, and taking a prefix first, keep that.\<close>

lemma cut_right_legacy:
  assumes "list_all legacy_char s" "s \<noteq> ''''" "is_lower (hd s)" "length s \<le> 63"
  shows "validLowerASCIIName (cut_right s) False"
proof -
  obtain t where t: "s = cut_right s @ t" using cut_right_prefix by blast
  have "\<not> legacy_cut (hd s)" using assms(3) by (auto simp: legacy_cut_def is_lower_def)
  then have n: "cut_right s \<noteq> ''''" using assms(2) by (cases s) (auto simp: cut_right_Nil)
  have "hd (cut_right s) = hd s" using t n by (metis hd_append2)
  moreover have "list_all legacy_char (cut_right s)" using assms(1) t by (metis list_all_append)
  moreover have "length (cut_right s) \<le> length s" using t by (metis length_append le_add1)
  ultimately show ?thesis using n assms cut_right_last [OF n] by (intro legacy_valid) auto
qed

lemma legacy_segment_valid:
  "validLowerASCIIName (canonicalLegacySegment lower v) False \<longleftrightarrow> has_alnum lower v"
proof -
  define b where "b = map (\<lambda>c. if legacy_char c then c else CHR ''-'') (lower (TrimSpace v))"
  define r where "r = cut_right (dropWhile legacy_cut b)"
  define r' where "r' = (if r = '''' \<or> \<not> is_lower (hd r) then ''component-'' @ r else r)"
  have s: "canonicalLegacySegment lower v = (if length r' > 63 then cut_right (take 63 r') else r')"
    by (simp add: canonicalLegacySegment_def Let_def b_def r_def r'_def)
  have lb: "list_all legacy_char b" by (auto simp: b_def list_all_iff legacy_char_def)
  then have "list_all legacy_char (dropWhile legacy_cut b)" by (auto simp: list_all_iff dest: set_dropWhileD)
  then have lr: "list_all legacy_char r" unfolding r_def by (metis cut_right_prefix list_all_append)
  have "r = '''' \<longleftrightarrow> list_all legacy_cut b"
    unfolding r_def cut_right_Nil by (rule list_all_dropWhile)
  also have "\<dots> \<longleftrightarrow> \<not> has_alnum lower v"
    unfolding b_def legacy_mapped has_alnum_def by (auto simp: list_all_iff list_ex_iff)
  finally have e: "r = '''' \<longleftrightarrow> \<not> has_alnum lower v" .
  show ?thesis
  proof (cases "r = ''''")
    case True
    then have "canonicalLegacySegment lower v = ''component-''" by (simp add: s r'_def)
    moreover have "\<not> validLowerASCIIName ''component-'' False" by code_simp
    ultimately show ?thesis using True e by simp
  next
    case False
    have pre: "list_all legacy_char ''component-''" "is_lower CHR ''c''" by code_simp+
    have lr': "list_all legacy_char r'" "r' \<noteq> ''''" "is_lower (hd r')" using lr pre False by (auto simp: r'_def)
    have "\<not> legacy_cut (last r)" using cut_right_last False by (simp add: r_def)
    then have last: "\<not> legacy_cut (last r')" using False by (simp add: r'_def)
    have "validLowerASCIIName (cut_right (take 63 r')) False"
      using lr' by (intro cut_right_legacy) (auto simp: list_all_iff dest: in_set_takeD)
    then show ?thesis using legacy_valid [OF lr' last] False e by (simp add: s)
  qed
qed

lemma namespaced_legacy: "ValidateNamespacedNameV2 (legacy_name lower v) = None \<longleftrightarrow> has_alnum lower v"
proof
  assume "ValidateNamespacedNameV2 (legacy_name lower v) = None"
  then obtain p q where s: "legacy_name lower v = p @ CHR ''/'' # q" "validLowerASCIIName p True" "validLowerASCIIName q False"
    by (rule namespaced_split)
  have "CHR ''/'' \<notin> set p" using s(2) valid_name_chars name_char_excludes by blast
  have "legacy_name lower v = ''legacy'' @ CHR ''/'' # canonicalLegacySegment lower v" by (simp add: legacy_name_def)
  then have "p @ CHR ''/'' # q = ''legacy'' @ CHR ''/'' # canonicalLegacySegment lower v" using s(1) by simp
  then have "q = canonicalLegacySegment lower v"
    using split_first_sep [of "CHR ''/''" p "''legacy''"] \<open>CHR ''/'' \<notin> set p\<close> by simp
  then show "has_alnum lower v" using s(3) legacy_segment_valid by blast
next
  assume "has_alnum lower v"
  then have v: "validLowerASCIIName (canonicalLegacySegment lower v) False" using legacy_segment_valid by blast
  then have n: "CHR ''/'' \<notin> set (canonicalLegacySegment lower v)" using valid_name_chars name_char_excludes by blast
  have "length (canonicalLegacySegment lower v) \<le> 63" "canonicalLegacySegment lower v \<noteq> ''''"
    using v by (auto simp: validLowerASCIIName_def split: if_splits)
  moreover have "validLowerASCIIName ''legacy'' True" by code_simp
  moreover have "legacy_name lower v = ''legacy'' @ CHR ''/'' # canonicalLegacySegment lower v" by (simp add: legacy_name_def)
  moreover have "split CHR ''/'' (''legacy'' @ CHR ''/'' # canonicalLegacySegment lower v) = [''legacy'', canonicalLegacySegment lower v]"
    using n by (simp add: split_append split_no_sep)
  ultimately show "ValidateNamespacedNameV2 (legacy_name lower v) = None"
    using v n by (simp add: ValidateNamespacedNameV2_def Let_def count_notin)
qed

definition unrevoked :: "ComponentDescriptor \<Rightarrow> Capability list" where
  "unrevoked d = filter (\<lambda>c. cap_State c \<noteq> CapabilityRevoked) (desc_Capabilities d)"

text \<open>When the names of a version 1 descriptor can be carried over.\<close>

definition adaptable :: "(string \<Rightarrow> string) \<Rightarrow> ComponentDescriptor \<Rightarrow> bool" where
  "adaptable lower d \<longleftrightarrow>
     has_alnum lower (desc_ID d) \<and> has_alnum lower (component_kind_string (desc_Kind d))
     \<and> (desc_Conformance d = ConformanceOther '''' \<or> validConformance (desc_Conformance d))
     \<and> length (unrevoked d) \<le> 256 \<and> list_all (\<lambda>c. has_alnum lower (cap_Name c)) (unrevoked d)
     \<and> distinct (map (\<lambda>c. canonicalLegacySegment lower (cap_Name c)) (unrevoked d))"

lemma legacy_constants:
  "ValidateNamespacedNameV2 ''legacy/adapter'' = None" "ValidateNamespacedNameV2 ''praxis.runtime/legacy-component'' = None"
  by code_simp+

lemma legacy_contract:
  "validateContractBindingV2 \<lparr>cb_Name = ''praxis.runtime/legacy-component'', cb_Version = ''1.0.0'',
      cb_Compatible = \<lparr>vr_MinimumInclusive = ''1.0.0'', vr_MaximumExclusive = ''2.0.0''\<rparr>\<rparr> = None"
  using sample_range_valid by (simp add: validateContractBindingV2_def legacy_constants sample_range_def)

lemma legacy_annotation:
  "validateAnnotationsV2 [\<lparr>ann_Key = ''compatibility'', ann_Value = ''v1alpha1 descriptor; registration is not certification or binding''\<rparr>] = None"
  by (simp add: validateAnnotationsV2_def TrimSpace_graphic graphic_def)

lemma legacy_owners:
  "validateOwnersV2 [\<lparr>oa_Role = OwnerEffect, oa_OwnerComponentID = i\<rparr>, \<lparr>oa_Role = OwnerSettlement, oa_OwnerComponentID = i\<rparr>,
     \<lparr>oa_Role = OwnerCleanup, oa_OwnerComponentID = i\<rparr>] = ValidateNamespacedNameV2 i"
  by (cases "ValidateNamespacedNameV2 i") (simp_all add: validateOwnersV2_def)

lemma adapted_valid:
  assumes "Digest_Validate (desc_ArtifactDigest d) = None"
  shows "ComponentManifestV2_Validate (adapted_manifest lower d) = None \<longleftrightarrow> adaptable lower d"
proof -
  let ?c = "map (\<lambda>c. \<lparr>pcap_Capability = legacy_name lower (cap_Name c), pcap_TTLSeconds = 60, pcap_Schemas = []\<rparr>) (unrevoked d)"
  have caps: "cm_ProvidedCapabilities (adapted_manifest lower d) = ?c" by (simp add: adapted_manifest_def Let_def unrevoked_def)
  have "map pcap_Capability ?c = map (\<lambda>x. ''legacy/'' @ x) (map (\<lambda>c. canonicalLegacySegment lower (cap_Name c)) (unrevoked d))"
    by (simp add: legacy_name_def)
  then have d: "distinct (map pcap_Capability ?c) \<longleftrightarrow> distinct (map (\<lambda>c. canonicalLegacySegment lower (cap_Name c)) (unrevoked d))"
    by (simp only: distinct_map) (auto simp: inj_on_def)
  have conf: "validConformance (cm_Conformance (adapted_manifest lower d)) \<longleftrightarrow>
      desc_Conformance d = ConformanceOther '''' \<or> validConformance (desc_Conformance d)"
    by (cases "desc_Conformance d") (auto simp: adapted_manifest_def Let_def)
  have "ComponentManifestV2_Validate (adapted_manifest lower d) = None \<longleftrightarrow>
      has_alnum lower (desc_ID d) \<and> has_alnum lower (component_kind_string (desc_Kind d))
      \<and> validConformance (cm_Conformance (adapted_manifest lower d)) \<and> length ?c \<le> 256
      \<and> (\<forall>x \<in> set ?c. ValidateNamespacedNameV2 (pcap_Capability x) = None) \<and> distinct (map pcap_Capability ?c)"
    unfolding ComponentManifestV2_Validate_def caps validateManifestSetLimits_def
    by (auto simp: adapted_manifest_def Let_def namespaced_legacy legacy_constants legacy_contract legacy_annotation assms unique_error_None
        validateSchemaSetV2_def legacy_owners validateCredentialsV2_def validateExtensionsV2_def validOfflinePolicyV2_def
        MaxManifestSetEntries_def MaxCapabilityTTLSeconds_def)
  then show ?thesis unfolding adaptable_def d conf by (auto simp: namespaced_legacy list_all_iff)
qed

section \<open>Properties\<close>

text \<open>
  The bridge from version 1 descriptors succeeds for a valid descriptor exactly when its names can be
  carried over (each has a letter or digit left, the segments of the capabilities it still offers are
  different and at most 256, and the conformance level is a declared one or empty), and then
  the result is a valid manifest that claims no more than restricted control, owns all its effects itself and asks for nothing.
\<close>

theorem legacy_adaptation:
  "AdaptV1DescriptorToManifestV2 lower d = Inr m \<longleftrightarrow>
     ComponentDescriptor_Validate d = None \<and> adaptable lower d \<and> m = adapted_manifest lower d
     \<and> ComponentManifestV2_Validate m = None \<and> cm_Conformance m \<noteq> ConformanceFullyControlled
     \<and> oa_OwnerComponentID ` set (cm_Owners m) = {cm_ComponentID m} \<and> cm_RequiredCapabilities m = [] \<and> cm_Credentials m = []"
proof -
  have v: "ComponentManifestV2_Validate (adapted_manifest lower d) = None \<longleftrightarrow> adaptable lower d"
    if "ComponentDescriptor_Validate d = None"
    using that by (intro adapted_valid) (simp add: ComponentDescriptor_Validate_def)
  have f: "cm_Conformance (adapted_manifest lower d) \<noteq> ConformanceFullyControlled"
    "oa_OwnerComponentID ` set (cm_Owners (adapted_manifest lower d)) = {cm_ComponentID (adapted_manifest lower d)}"
    "cm_RequiredCapabilities (adapted_manifest lower d) = []" "cm_Credentials (adapted_manifest lower d) = []"
    by (simp_all add: adapted_manifest_def Let_def)
  show ?thesis
    using v f by (auto simp: AdaptV1DescriptorToManifestV2_def Let_def)
qed

text \<open>
  The segment that the bridge makes of a name is a legal name whenever a lower-case letter or digit is
  left in it. Otherwise the fallback that is meant to supply a name yields \<open>component-\<close>, whose last
  character is not allowed, so that a valid descriptor with such an id is always refused.
\<close>

theorem legacy_fallback_invalid:
  "if has_alnum lower (desc_ID d) then validLowerASCIIName (canonicalLegacySegment lower (desc_ID d)) False
   else canonicalLegacySegment lower (desc_ID d) = ''component-'' \<and> (\<nexists>m. AdaptV1DescriptorToManifestV2 lower d = Inr m)"
proof (cases "has_alnum lower (desc_ID d)")
  case False
  let ?b = "map (\<lambda>c. if legacy_char c then c else CHR ''-'') (lower (TrimSpace (desc_ID d)))"
  have "list_all legacy_cut ?b"
    using False unfolding legacy_mapped has_alnum_def by (auto simp: list_all_iff list_ex_iff)
  then have "cut_right (dropWhile legacy_cut ?b) = ''''" unfolding cut_right_Nil list_all_dropWhile .
  then have "canonicalLegacySegment lower (desc_ID d) = ''component-''" by (simp add: canonicalLegacySegment_def Let_def)
  moreover have "AdaptV1DescriptorToManifestV2 lower d \<noteq> Inr m" for m
  proof (cases "ComponentDescriptor_Validate d")
    case None
    then have "Digest_Validate (desc_ArtifactDigest d) = None" by (simp add: ComponentDescriptor_Validate_def)
    then show ?thesis using False adapted_valid by (simp add: AdaptV1DescriptorToManifestV2_def Let_def adaptable_def)
  qed (simp add: AdaptV1DescriptorToManifestV2_def)
  ultimately show ?thesis using False by simp
qed (simp add: legacy_segment_valid)

section \<open>The registry over time\<close>

inductive registry_run :: "binding_json \<Rightarrow> 'a ComponentRegistryV2 \<Rightarrow> 'a ComponentRegistryV2 \<Rightarrow> bool" for J where
  registry_stay: "registry_run J r r"
| registry_go: "registry_run J r t \<Longrightarrow> Register J describe t adapter = (u, x) \<Longrightarrow> registry_run J r u"

lemma Register_cases:
  assumes "Register J describe r adapter = (r', x)"
  obtains (same) "r' = r" "\<nexists>y. x = Inr y"
  | (added) a manifest digest where "adapter = Some a" "describe a = Inr manifest"
      "ValidateManifestAgainstCatalogV2 manifest (crv_catalog r) = None" "BindingDigestV2 J manifest = Inr digest"
      "crv_components r (cm_ComponentID manifest) = None"
      "r' = r\<lparr>crv_components := (crv_components r)(cm_ComponentID manifest \<mapsto>
           \<lparr>rcv_adapter = a, rcv_componentID = cm_ComponentID manifest, rcv_kind = cm_Kind manifest, rcv_manifestDigest = digest\<rparr>)\<rparr>"
      "x = Inr \<lparr>cro_Manifest = cloneManifestV2 J manifest, cro_ManifestDigest = digest\<rparr>"
proof (cases "\<exists>a manifest digest. adapter = Some a \<and> describe a = Inr manifest \<and> ValidateManifestAgainstCatalogV2 manifest (crv_catalog r) = None
    \<and> BindingDigestV2 J manifest = Inr digest \<and> crv_components r (cm_ComponentID manifest) = None")
  case True
  then obtain a manifest digest where "adapter = Some a" "describe a = Inr manifest"
    "ValidateManifestAgainstCatalogV2 manifest (crv_catalog r) = None" "BindingDigestV2 J manifest = Inr digest"
    "crv_components r (cm_ComponentID manifest) = None" by blast
  with assms show thesis by (intro added) (auto simp: Register_def)
next
  case False
  with assms show thesis
    by (intro same) (auto simp: Register_def guarded_def split: option.splits sum.splits if_splits)
qed

lemma registry_run_keeps:
  assumes "registry_run J r t" "crv_components r i = Some c"
  shows "crv_components t i = Some c \<and> crv_catalog t = crv_catalog r"
  using assms
proof (induction rule: registry_run.induct)
  case (registry_go r t describe adapter u x)
  from registry_go.hyps(2) show ?case
    by (cases rule: Register_cases) (use registry_go.IH registry_go.prems in auto)
qed simp

text \<open>
  A registration is never replaced: after a component has been registered, whatever else is registered
  later, and whatever its adapter answers by then, a successful probe of it reports a manifest that has the digest, the
  component and the kind that were registered and that the catalogue of the registry admits; a drifted
  manifest is refused.
\<close>

theorem probe_matches_registration:
  assumes "Register J describe r (Some a) = (r1, Inr x)" "describe a = Inr registered" "registry_run J r1 r2"
  shows "case Probe J describe' r2 (cm_ComponentID registered) now of
           Inl e \<Rightarrow> True
         | Inr p \<Rightarrow> cpo_ManifestDigest p = cro_ManifestDigest x \<and> cpo_ObservedAt p = now
             \<and> (\<exists>m. describe' a = Inr m \<and> BindingDigestV2 J m = Inr (cro_ManifestDigest x)
                 \<and> cm_ComponentID m = cm_ComponentID registered \<and> cm_Kind m = cm_Kind registered
                 \<and> ValidateManifestAgainstCatalogV2 m (crv_catalog r) = None \<and> cpo_Manifest p = cloneManifestV2 J m)"
  using assms(1)
proof (cases rule: Register_cases)
  case (added a' manifest digest)
  let ?c = "\<lparr>rcv_adapter = a, rcv_componentID = cm_ComponentID registered, rcv_kind = cm_Kind registered, rcv_manifestDigest = digest\<rparr>"
  have "crv_components r1 (cm_ComponentID registered) = Some ?c" "crv_catalog r1 = crv_catalog r"
    using added(1,2,6) assms(2) by simp_all
  then have c: "crv_components r2 (cm_ComponentID registered) = Some ?c" "crv_catalog r2 = crv_catalog r"
    using registry_run_keeps [OF assms(3), of "cm_ComponentID registered" ?c] by simp_all
  show ?thesis
    using added(7) by (cases "Probe J describe' r2 (cm_ComponentID registered) now") (auto simp: Probe_def c)
qed simp

lemma probe_matches_registration_witness:
  "\<exists>p. Probe sample_binding_json (\<lambda>_. Inr (sample_manifest ''a/d'' [] []))
      \<lparr>crv_catalog = sample_catalog, crv_components = [''a/d'' \<mapsto> \<lparr>rcv_adapter = (), rcv_componentID = ''a/d'', rcv_kind = ''a/b'',
         rcv_manifestDigest = manifest_hash ''a/d''\<rparr>]\<rparr> ''a/d'' (at_nano 10) = Inr p
     \<and> cpo_ManifestDigest p = manifest_hash ''a/d''"
proof -
  let ?m = "sample_manifest ''a/d'' [] []" and ?r = "\<lparr>crv_catalog = sample_catalog, crv_components = Map.empty\<rparr>"
  let ?r1 = "\<lparr>crv_catalog = sample_catalog, crv_components = [''a/d'' \<mapsto> \<lparr>rcv_adapter = (), rcv_componentID = ''a/d'', rcv_kind = ''a/b'',
         rcv_manifestDigest = manifest_hash ''a/d''\<rparr>]\<rparr>"
  have d: "BindingDigestV2 sample_binding_json ?m = Inr (manifest_hash ''a/d'')" by (simp add: sample_manifest_digest)
  have f: "cm_ComponentID ?m = ''a/d''" "cm_Kind ?m = ''a/b''" by (simp_all add: sample_manifest_def)
  have "Register sample_binding_json (\<lambda>_. Inr ?m) ?r (Some ())
      = (?r1, Inr \<lparr>cro_Manifest = cloneManifestV2 sample_binding_json ?m, cro_ManifestDigest = manifest_hash ''a/d''\<rparr>)"
    by (simp add: Register_def d f)
  moreover obtain p where "Probe sample_binding_json (\<lambda>_. Inr ?m) ?r1 ''a/d'' (at_nano 10) = Inr p"
    by (simp add: Probe_def d f)
  ultimately show ?thesis
    using probe_matches_registration [OF _ _ registry_stay, where registered = ?m and describe = "\<lambda>_. Inr ?m"
        and describe' = "\<lambda>_. Inr ?m" and now = "at_nano 10"]
    by (fastforce simp: f)
qed

end
