(* ===== verification/Gateway.thy ===== *)
theory Gateway
  imports EffectStore BindingFact
begin

text \<open>
  The governance gateway in front of the effect store, \<open>runtime/control/governance_gateway_v2.go\<close>: it reads
  every governing fact through a port, checks that all of them are current and bound to the intent, and
  only then issues a permit or begins a dispatch. The ports are arguments: a reader is the function that gives
  what the read returned when the gateway made it, so that everything else may happen between any two
  reads; the two writes are functions on the state of the effect owner. The last part is the planner of the
  same file that tells a restarted process what to do with an effect.
\<close>

record gateway_json =
  gj_fact :: fact_json
  gj_governance :: governance_json
  gj_binding :: binding_fact_json

section \<open>Requests and ports\<close>

record IssueGovernedDispatchRequestV2 =
  igd_EffectID :: string
  igd_ExpectedEffectRevision :: Revision
  igd_PermitID :: string
  igd_AttemptID :: string
  igd_PermitTTL :: Duration

record BeginGovernedDispatchRequestV2 =
  bgd_EffectID :: string
  bgd_ExpectedEffectRevision :: Revision
  bgd_PermitID :: string
  bgd_ExpectedPermitRevision :: Revision

record GovernanceDispatchGatewayV2 =
  gw_Effect :: "string \<Rightarrow> EffectFactV2 res"
  gw_Permit :: "string \<Rightarrow> DispatchPermitFactV2 res"
  gw_Lease :: "string \<Rightarrow> string \<Rightarrow> IdentityExecutionLease res"
  gw_BindingSet :: "string \<Rightarrow> BindingSetFactV2 res"
  gw_Budget :: "string \<Rightarrow> BudgetBindingFactV2 res"
  gw_Authority :: "string \<Rightarrow> DispatchAuthorityFactV2 res"
  gw_Policy :: "string \<Rightarrow> DispatchPolicyFactV2 res"
  gw_Review :: "string \<Rightarrow> DispatchReviewFactV2 res"
  gw_Credential :: "string \<Rightarrow> CredentialLeaseFactV2 res"
  gw_Scope :: "string \<Rightarrow> ExecutionScopeCurrentFactV2 res"

section \<open>The provider and its owners\<close>

text \<open>The loop over the members leaves the last one of each component in the map.\<close>

definition member_map :: "BindingSetFactV2 \<Rightarrow> string \<rightharpoonup> BindingMemberV2" where
  "member_map s = map_of (rev (map (\<lambda>m. (bm_ComponentID m, m)) (bs_Members s)))"

fun owner_refs :: "(string \<rightharpoonup> BindingMemberV2) \<Rightarrow> OwnerAssignmentV2 list \<Rightarrow> EffectOwnerRefV2 list res" where
  "owner_refs members [] = Inr []"
| "owner_refs members (a # as) =
     (case members (oa_OwnerComponentID a) of
        None \<Rightarrow> Inl (DomainError ErrorCapabilityUnavailable ReasonOwnerMissing)
      | Some m \<Rightarrow>
          bind_res (owner_refs members as) (\<lambda>refs.
            Inr (\<lparr>eo_Role = oa_Role a, eo_ComponentID = oa_OwnerComponentID a, eo_ManifestDigest = bm_ManifestDigest m\<rparr> # refs)))"

definition resolveEffectBindingV2 :: "BindingSetFactV2 \<Rightarrow> EffectIntentV2 \<Rightarrow> (BindingMemberV2 \<times> EffectOwnerRefV2 list) res" where
  "resolveEffectBindingV2 s intent =
     (case member_map s (prov_ComponentID (ei2_Provider intent)) of
        None \<Rightarrow> Inl (DomainError ErrorCapabilityUnavailable ReasonProviderBindingStale)
      | Some provider \<Rightarrow>
          ensure (fail_if (\<not> list_ex (\<lambda>g. cg_Capability g = prov_Capability (ei2_Provider intent)) (bm_Grants provider))
              ErrorCapabilityUnavailable ReasonUnknownCapability)
           (bind_res (owner_refs (member_map s) (bm_Owners provider)) (\<lambda>owners.
              Inr (provider, sort_key (\<lambda>r. owner_role_string (eo_Role r)) owners))))"

fun effectOwnerSetsEqualV2 :: "EffectOwnerRefV2 list \<Rightarrow> EffectOwnerRefV2 list \<Rightarrow> bool" where
  "effectOwnerSetsEqualV2 [] [] = True"
| "effectOwnerSetsEqualV2 (l # ls) (r # rs) = (l = r \<and> effectOwnerSetsEqualV2 ls rs)"
| "effectOwnerSetsEqualV2 _ _ = False"

lemma effectOwnerSetsEqualV2_eq [simp]: "effectOwnerSetsEqualV2 ls rs \<longleftrightarrow> ls = rs"
  by (induction ls rs rule: effectOwnerSetsEqualV2.induct) simp_all

text \<open>The comparison of the provider with the intent that both methods make.\<close>

definition provider_drifted :: "EffectIntentV2 \<Rightarrow> BindingMemberV2 \<Rightarrow> EffectOwnerRefV2 list \<Rightarrow> bool" where
  "provider_drifted i provider owners \<longleftrightarrow>
     bm_ComponentID provider \<noteq> prov_ComponentID (ei2_Provider i) \<or> bm_ManifestDigest provider \<noteq> prov_ManifestDigest (ei2_Provider i)
     \<or> bm_ArtifactDigest provider \<noteq> prov_ArtifactDigest (ei2_Provider i) \<or> \<not> effectOwnerSetsEqualV2 owners (ei2_Owners i)"

definition lease_drifted :: "EffectIntentV2 \<Rightarrow> IdentityExecutionLease \<Rightarrow> Time \<Rightarrow> bool" where
  "lease_drifted i l now \<longleftrightarrow>
     il_State l \<noteq> IdentityLeaseActive \<or> il_Identity l \<noteq> scope_Identity (ei2_Scope i) \<or> il_Lineage l \<noteq> scope_Lineage (ei2_Scope i)
     \<or> il_AuthorityEpoch l \<noteq> scope_AuthorityEpoch (ei2_Scope i) \<or> \<not> Before now (il_ExpiresAt l)"

definition set_drifted :: "EffectIntentV2 \<Rightarrow> BindingSetFactV2 \<Rightarrow> Time \<Rightarrow> bool" where
  "set_drifted i s now \<longleftrightarrow>
     bs_State s \<noteq> BindingSetActive \<or> bs_Revision s \<noteq> prov_BindingSetRevision (ei2_Provider i)
     \<or> \<not> Before now (TimeUnix0 (bs_ExpiresUnixNano s))"

section \<open>Issue\<close>

fun current_credentials ::
  "(string \<Rightarrow> CredentialLeaseFactV2 res) \<Rightarrow> Time \<Rightarrow> CredentialLeaseRefV2 list \<Rightarrow> CredentialLeaseFactV2 list res" where
  "current_credentials read now [] = Inr []"
| "current_credentials read now (r # rs) =
     bind_res (read (cl_Ref r)) (\<lambda>c.
       ensure (CredentialLeaseFactV2_ValidateCurrent c r now)
        (bind_res (current_credentials read now rs) (\<lambda>cs. Inr (c # cs))))"

fun earliest :: "Time \<Rightarrow> Time list \<Rightarrow> Time" where
  "earliest e [] = e"
| "earliest e (limit # limits) = earliest (if Before limit e then limit else e) limits"

definition governed_fence :: "EffectIntentV2 \<Rightarrow> ExecutionScope \<Rightarrow> Digest \<Rightarrow> Time \<Rightarrow> ExecutionFence" where
  "governed_fence i scope capabilityDigest expires =
     \<lparr>fe_BoundaryScope = (if scope_SandboxLease scope \<noteq> None then FenceBoundaryInstance else FenceBoundaryActivation),
      fe_Scope = scope, fe_CapabilityGrantDigest = capabilityDigest, fe_EffectIntentID = ei2_ID i,
      fe_EffectIntentRevision = ei2_Revision i, fe_CanonicalPayloadDigest = op2_ContentDigest (ei2_Payload i), fe_ExpiresAt = expires\<rparr>"

definition governed_permit ::
  "effect_json \<Rightarrow> IssueGovernedDispatchRequestV2 \<Rightarrow> EffectIntentV2 \<Rightarrow> DispatchReviewFactV2 \<Rightarrow> Digest \<Rightarrow> Digest \<Rightarrow> Digest \<Rightarrow> Time \<Rightarrow> Time
     \<Rightarrow> DispatchPermitV2" where
  "governed_permit J request i review capabilityDigest credentialDigest fenceDigest now expires =
     \<lparr>pm_ContractVersion = EffectContractVersionV2, pm_ID = igd_PermitID request, pm_Revision = 1, pm_AttemptID = igd_AttemptID request,
      pm_IntentID = ei2_ID i, pm_IntentRevision = ei2_Revision i, pm_IntentDigest = digest_or_empty (EffectIntentV2_DigestV2 J i),
      pm_PayloadSchema = op2_Schema (ei2_Payload i), pm_PayloadDigest = op2_ContentDigest (ei2_Payload i),
      pm_PayloadRevision = ei2_PayloadRevision i, pm_Scope = ei2_Scope i, pm_RunID = ei2_RunID i, pm_ConflictDomain = ei2_ConflictDomain i,
      pm_Provider = ei2_Provider i, pm_EnforcementPoint = ei2_Provider i, pm_Authority = ei2_Authority i, pm_Review = ei2_Review i,
      pm_ReviewVerdictDigest = rf_VerdictDigest review, pm_ReviewVerdictRevision = rf_VerdictRevision review,
      pm_ReviewSatisfactionRef = rf_SatisfactionRef review, pm_ReviewSatisfactionDigest = rf_SatisfactionDigest review,
      pm_ReviewSatisfactionRevision = rf_SatisfactionRevision review, pm_Budget = ei2_Budget i, pm_Policy = ei2_Policy i,
      pm_CurrentScope = ei2_CurrentScope i, pm_CapabilityGrantDigest = capabilityDigest, pm_CredentialGrantDigest = credentialDigest,
      pm_FenceDigest = fenceDigest, pm_Idempotency = ei2_Idempotency i, pm_IssuedUnixNano = UnixNano now, pm_ExpiresUnixNano = UnixNano expires\<rparr>"

text \<open>Everything \<open>Issue\<close> does before it calls the effect owner; the time is the reading of its clock.\<close>

definition governed_issue ::
  "gateway_json \<Rightarrow> GovernanceDispatchGatewayV2 \<Rightarrow> IssueGovernedDispatchRequestV2 \<Rightarrow> Time \<Rightarrow> IssueDispatchPermitRequestV2 res" where
  "governed_issue J P request now =
     ensure (first_err
       [fail_if (blank (igd_PermitID request) \<or> blank (igd_AttemptID request) \<or> igd_ExpectedEffectRevision request = 0
           \<or> sint (igd_PermitTTL request) \<le> 0 \<or> sint (igd_PermitTTL request) > sint MaxDispatchPermitTTL)
          ErrorInvalidArgument ReasonDispatchPermitInvalid,
        fail_if (IsZero now) ErrorInvalidArgument ReasonInvalidReference])
     (bind_res (gw_Effect P (igd_EffectID request)) (\<lambda>effect. let i = ef_Intent effect in
      ensure (fail_if (ef_Revision effect \<noteq> igd_ExpectedEffectRevision request \<or> ef_State effect \<noteq> EffectAccepted
          \<or> \<not> Before now (TimeUnix0 (ei2_ExpiresUnixNano i))) ErrorConflict ReasonEffectStateConflict)
     (bind_res (gw_Lease P (ident_TenantID (scope_Identity (ei2_Scope i))) (ident_ID (scope_Identity (ei2_Scope i)))) (\<lambda>lease.
      ensure (fail_if (lease_drifted i lease now) ErrorForbidden ReasonStaleIdentityEpoch)
     (bind_res (gw_BindingSet P (prov_BindingSetID (ei2_Provider i))) (\<lambda>bset.
      ensure (fail_if (set_drifted i bset now) ErrorPreconditionFailed ReasonProviderBindingStale)
     (bind_res (resolveEffectBindingV2 bset i) (\<lambda>(provider, owners).
      ensure (fail_if (provider_drifted i provider owners) ErrorPreconditionFailed ReasonProviderBindingStale)
     (bind_res (gw_Authority P (ab_Ref (ei2_Authority i))) (\<lambda>authority.
      ensure (DispatchAuthorityFactV2_ValidateCurrent authority (ei2_Authority i) (ei2_Scope i) (ei2_ActionScopeDigest i) now)
     (bind_res (gw_Policy P (dp_Ref (ei2_Policy i))) (\<lambda>policy.
      ensure (DispatchPolicyFactV2_ValidateCurrent (fj_effect (gj_fact J)) (gj_governance J) policy (ei2_Policy i) i (igd_PermitTTL request) now)
     (bind_res (gw_Review P (rb_Ref (ei2_Review i))) (\<lambda>review.
      ensure (DispatchReviewFactV2_ValidateCurrent (fj_effect (gj_fact J)) review (ei2_Review i) i now)
     (bind_res (gw_Budget P (bb_Ref (ei2_Budget i))) (\<lambda>budget.
      ensure (BudgetBindingFactV2_ValidateCurrent (fj_Budget (gj_fact J)) budget (ei2_Budget i) i now)
     (bind_res (current_credentials (gw_Credential P) now (ei2_CredentialLeases i)) (\<lambda>credentials.
      bind_res (DigestCredentialLeaseFactsV2 (gj_governance J) credentials) (\<lambda>credentialDigest.
      bind_res (CapabilityGrantDigestV2 (gj_binding J) bset) (\<lambda>capabilityDigest.
      bind_res (gw_Scope P (sb_Ref (ei2_CurrentScope i))) (\<lambda>scope.
      ensure (ExecutionScopeCurrentFactV2_ValidateCurrent (gj_governance J) scope (ei2_CurrentScope i) i capabilityDigest now)
      (let expires = earliest (Add now (igd_PermitTTL request))
             ([TimeUnix0 (ei2_ExpiresUnixNano i), il_ExpiresAt lease, TimeUnix0 (bs_ExpiresUnixNano bset), TimeUnix0 (af_ExpiresUnixNano authority),
               TimeUnix0 (dpf_ExpiresUnixNano policy), TimeUnix0 (rf_ExpiresUnixNano review), TimeUnix0 (bgf_ExpiresUnixNano budget),
               TimeUnix0 (sf_ExpiresUnixNano scope)] @ map (\<lambda>c. TimeUnix0 (clf_ExpiresUnixNano c)) credentials);
           fence = governed_fence i (sf_Scope scope) capabilityDigest expires in
       ensure (fail_if (\<not> After expires now) ErrorPreconditionFailed ReasonDispatchPermitExpired)
        (bind_res (DigestExecutionFenceV2 (fj_effect (gj_fact J)) fence) (\<lambda>fenceDigest.
          Inr \<lparr>idp_EffectID = ei2_ID i, idp_ExpectedEffectRevision = ef_Revision effect,
               idp_Permit = governed_permit (fj_effect (gj_fact J)) request i review capabilityDigest credentialDigest fenceDigest now expires,
               idp_Fence = fence\<rparr>))))))))))))))))))))))))"

definition Issue ::
  "('s \<Rightarrow> IssueDispatchPermitRequestV2 \<Rightarrow> 's \<times> IssueDispatchPermitResultV2 res) \<Rightarrow> gateway_json \<Rightarrow> GovernanceDispatchGatewayV2 option
     \<Rightarrow> 's \<Rightarrow> IssueGovernedDispatchRequestV2 \<Rightarrow> Time \<Rightarrow> 's \<times> IssueDispatchPermitResultV2 res" where
  "Issue issue J ports s request now =
     (case ports of
        None \<Rightarrow> (s, Inl (DomainError ErrorInvalidArgument ReasonComponentMissing))
      | Some P \<Rightarrow> (case governed_issue J P request now of Inl e \<Rightarrow> (s, Inl e) | Inr r \<Rightarrow> issue s r))"

section \<open>Begin\<close>

text \<open>\<open>Time.Sub\<close> saturates at the ends of the 64-bit range.\<close>

definition TimeSub :: "Time \<Rightarrow> Time \<Rightarrow> Duration" where
  "TimeSub t u = word_of_int (max (- (2 ^ 63)) (min (2 ^ 63 - 1) (t - u)))"

text \<open>Where \<open>Begin\<close> answers any failure of a read or of its check with one error of its own.\<close>

definition read_or :: "go_error \<Rightarrow> 'a res \<Rightarrow> ('a \<Rightarrow> bool) \<Rightarrow> 'a res" where
  "read_or e r bad = (case r of Inl x \<Rightarrow> Inl e | Inr x \<Rightarrow> if bad x then Inl e else Inr x)"

lemma read_or_Inr [simp]: "read_or e r bad = Inr x \<longleftrightarrow> r = Inr x \<and> \<not> bad x"
  by (auto simp: read_or_def split: sum.splits)

fun begin_credentials ::
  "(string \<Rightarrow> CredentialLeaseFactV2 res) \<Rightarrow> Time \<Rightarrow> CredentialLeaseRefV2 list \<Rightarrow> CredentialLeaseFactV2 list res" where
  "begin_credentials read now [] = Inr []"
| "begin_credentials read now (r # rs) =
     bind_res (read_or (DomainError ErrorForbidden ReasonCredentialLeaseMissing) (read (cl_Ref r))
         (\<lambda>c. CredentialLeaseFactV2_ValidateCurrent c r now \<noteq> None)) (\<lambda>c.
       bind_res (begin_credentials read now rs) (\<lambda>cs. Inr (c # cs)))"

definition review_changed :: "DispatchPermitV2 \<Rightarrow> DispatchReviewFactV2 \<Rightarrow> bool" where
  "review_changed p r \<longleftrightarrow>
     rf_VerdictDigest r \<noteq> pm_ReviewVerdictDigest p \<or> rf_VerdictRevision r \<noteq> pm_ReviewVerdictRevision p
     \<or> rf_SatisfactionRef r \<noteq> pm_ReviewSatisfactionRef p \<or> rf_SatisfactionDigest r \<noteq> pm_ReviewSatisfactionDigest p
     \<or> rf_SatisfactionRevision r \<noteq> pm_ReviewSatisfactionRevision p"

definition governed_current ::
  "EffectIntentV2 \<Rightarrow> DispatchPermitV2 \<Rightarrow> DispatchReviewFactV2 \<Rightarrow> ExecutionScope \<Rightarrow> Digest \<Rightarrow> Digest \<Rightarrow> DispatchCurrentFactsV2" where
  "governed_current i p review scope capabilityDigest credentialDigest =
     \<lparr>dc_Scope = scope, dc_CapabilityGrantDigest = capabilityDigest, dc_CredentialGrantDigest = credentialDigest,
      dc_Provider = ei2_Provider i, dc_EnforcementPoint = ei2_Provider i, dc_Authority = ei2_Authority i, dc_Review = ei2_Review i,
      dc_ReviewVerdictDigest = rf_VerdictDigest review, dc_ReviewVerdictRevision = rf_VerdictRevision review,
      dc_ReviewSatisfactionRef = rf_SatisfactionRef review, dc_ReviewSatisfactionDigest = rf_SatisfactionDigest review,
      dc_ReviewSatisfactionRevision = rf_SatisfactionRevision review, dc_Budget = ei2_Budget i, dc_Policy = ei2_Policy i,
      dc_CurrentScope = ei2_CurrentScope i, dc_FenceDigest = pm_FenceDigest p\<rparr>"

definition begin_mismatch :: "BeginGovernedDispatchRequestV2 \<Rightarrow> EffectFactV2 \<Rightarrow> DispatchPermitFactV2 \<Rightarrow> Time \<Rightarrow> bool" where
  "begin_mismatch request effect permit now \<longleftrightarrow>
     ef_Revision effect \<noteq> bgd_ExpectedEffectRevision request \<or> ef_State effect \<noteq> EffectDispatchIntent
     \<or> pf_Revision permit \<noteq> bgd_ExpectedPermitRevision request \<or> pf_State permit \<noteq> DispatchPermitIssued
     \<or> pf_EffectFactRevision permit \<noteq> ef_Revision effect \<or> ef_DispatchPermitID effect \<noteq> pm_ID (pf_Permit permit)
     \<or> \<not> Before now (TimeUnix0 (pm_ExpiresUnixNano (pf_Permit permit)))"

definition governed_begin ::
  "gateway_json \<Rightarrow> GovernanceDispatchGatewayV2 \<Rightarrow> BeginGovernedDispatchRequestV2 \<Rightarrow> Time \<Rightarrow> BeginDispatchRequestV2 res" where
  "governed_begin J P request now =
     ensure (fail_if (IsZero now) ErrorInvalidArgument ReasonInvalidReference)
     (bind_res (gw_Effect P (bgd_EffectID request)) (\<lambda>effect. let i = ef_Intent effect in
      bind_res (gw_Permit P (bgd_PermitID request)) (\<lambda>permit.
      ensure (fail_if (begin_mismatch request effect permit now) ErrorConflict ReasonDispatchPermitInvalid)
     (bind_res (read_or (DomainError ErrorForbidden ReasonStaleIdentityEpoch)
         (gw_Lease P (ident_TenantID (scope_Identity (ei2_Scope i))) (ident_ID (scope_Identity (ei2_Scope i)))) (\<lambda>l. lease_drifted i l now)) (\<lambda>lease.
      bind_res (read_or (DomainError ErrorPreconditionFailed ReasonProviderBindingStale)
         (gw_BindingSet P (prov_BindingSetID (ei2_Provider i))) (\<lambda>s. set_drifted i s now)) (\<lambda>bset.
      bind_res (read_or (DomainError ErrorPreconditionFailed ReasonProviderBindingStale)
         (resolveEffectBindingV2 bset i) (\<lambda>(provider, owners). provider_drifted i provider owners)) (\<lambda>_.
      bind_res (CapabilityGrantDigestV2 (gj_binding J) bset) (\<lambda>capabilityDigest.
      bind_res (read_or (DomainError ErrorForbidden ReasonEffectAuthorizationMissing) (gw_Authority P (ab_Ref (ei2_Authority i)))
         (\<lambda>a. DispatchAuthorityFactV2_ValidateCurrent a (ei2_Authority i) (ei2_Scope i) (ei2_ActionScopeDigest i) now \<noteq> None)) (\<lambda>authority.
      bind_res (read_or (DomainError ErrorForbidden ReasonEffectAuthorizationMissing) (gw_Policy P (dp_Ref (ei2_Policy i)))
         (\<lambda>p. DispatchPolicyFactV2_ValidateCurrent (fj_effect (gj_fact J)) (gj_governance J) p (ei2_Policy i) i
            (TimeSub (TimeUnix0 (pm_ExpiresUnixNano (pf_Permit permit))) now) now \<noteq> None)) (\<lambda>policy.
      bind_res (gw_Review P (rb_Ref (ei2_Review i))) (\<lambda>review.
      ensure (DispatchReviewFactV2_ValidateCurrent (fj_effect (gj_fact J)) review (ei2_Review i) i now)
     (ensure (fail_if (review_changed (pf_Permit permit) review) ErrorPreconditionFailed ReasonReviewVerdictStale)
     (bind_res (read_or (DomainError ErrorPreconditionFailed ReasonBudgetBindingStale) (gw_Budget P (bb_Ref (ei2_Budget i)))
         (\<lambda>b. BudgetBindingFactV2_ValidateCurrent (fj_Budget (gj_fact J)) b (ei2_Budget i) i now \<noteq> None)) (\<lambda>budget.
      bind_res (begin_credentials (gw_Credential P) now (ei2_CredentialLeases i)) (\<lambda>credentials.
      bind_res (read_or (DomainError ErrorPreconditionFailed ReasonCredentialLeaseMissing)
         (DigestCredentialLeaseFactsV2 (gj_governance J) credentials) (\<lambda>d. d \<noteq> pm_CredentialGrantDigest (pf_Permit permit))) (\<lambda>credentialDigest.
      bind_res (read_or (DomainError ErrorPreconditionFailed ReasonEffectFenceStale) (gw_Scope P (sb_Ref (ei2_CurrentScope i)))
         (\<lambda>c. ExecutionScopeCurrentFactV2_ValidateCurrent (gj_governance J) c (ei2_CurrentScope i) i capabilityDigest now \<noteq> None)) (\<lambda>scope.
      ensure (ValidateDispatchAtExecutionPointV2 (fj_effect (gj_fact J)) (pf_Permit permit) i (pf_Fence permit)
          (governed_current i (pf_Permit permit) review (sf_Scope scope) capabilityDigest credentialDigest) now)
       (Inr \<lparr>bdr_EffectID = ei2_ID i, bdr_ExpectedEffectRevision = ef_Revision effect,
             bdr_PermitID = pm_ID (pf_Permit permit), bdr_ExpectedPermitRevision = pf_Revision permit\<rparr>))))))))))))))))))"

definition Begin ::
  "('s \<Rightarrow> BeginDispatchRequestV2 \<Rightarrow> 's \<times> DispatchPermitFactV2 res) \<Rightarrow> gateway_json \<Rightarrow> GovernanceDispatchGatewayV2 option
     \<Rightarrow> 's \<Rightarrow> BeginGovernedDispatchRequestV2 \<Rightarrow> Time \<Rightarrow> 's \<times> DispatchPermitFactV2 res" where
  "Begin begin_dispatch J ports s request now =
     (case ports of
        None \<Rightarrow> (s, Inl (DomainError ErrorInvalidArgument ReasonComponentMissing))
      | Some P \<Rightarrow> (case governed_begin J P request now of Inl e \<Rightarrow> (s, Inl e) | Inr r \<Rightarrow> begin_dispatch s r))"

section \<open>Recovery\<close>

datatype EffectRecoveryActionV2 =
    RecoveryRevalidatePreDispatch | RecoveryRejectPreDispatch | RecoveryCreateInspectEffect | RecoveryInspectSettlement
  | RecoveryNoEffectAction

record EffectRecoveryDecisionV2 =
  erd_Action :: EffectRecoveryActionV2
  erd_AutomaticSafe :: bool

text \<open>What a begun, expired or issued permit means; any other state falls through.\<close>

fun permit_decision :: "EffectFactV2 \<Rightarrow> DispatchPermitFactV2 \<Rightarrow> Time \<Rightarrow> DispatchPermitStateV2 \<Rightarrow> EffectRecoveryDecisionV2 option" where
  "permit_decision effect permit now DispatchPermitIssued =
     (if \<not> Before now (TimeUnix0 (pm_ExpiresUnixNano (pf_Permit permit))) \<or> \<not> Before now (TimeUnix0 (ei2_ExpiresUnixNano (ef_Intent effect)))
      then Some \<lparr>erd_Action = RecoveryRejectPreDispatch, erd_AutomaticSafe = True\<rparr>
      else Some \<lparr>erd_Action = RecoveryRevalidatePreDispatch, erd_AutomaticSafe = False\<rparr>)"
| "permit_decision effect permit now DispatchPermitExpired = Some \<lparr>erd_Action = RecoveryRejectPreDispatch, erd_AutomaticSafe = True\<rparr>"
| "permit_decision effect permit now DispatchPermitRevoked = Some \<lparr>erd_Action = RecoveryRejectPreDispatch, erd_AutomaticSafe = True\<rparr>"
| "permit_decision effect permit now DispatchPermitBegun = Some \<lparr>erd_Action = RecoveryCreateInspectEffect, erd_AutomaticSafe = False\<rparr>"
| "permit_decision effect permit now (DispatchPermitStateOther s) = None"

definition state_decision :: "EffectFactStateV2 \<Rightarrow> EffectRecoveryDecisionV2" where
  "state_decision st =
     (if st = EffectUnknownOutcome then \<lparr>erd_Action = RecoveryCreateInspectEffect, erd_AutomaticSafe = False\<rparr>
      else if st = EffectDispatched then \<lparr>erd_Action = RecoveryInspectSettlement, erd_AutomaticSafe = False\<rparr>
      else \<lparr>erd_Action = RecoveryNoEffectAction, erd_AutomaticSafe = True\<rparr>)"

definition PlanEffectRecoveryV2 ::
  "effect_json \<Rightarrow> EffectFactV2 \<Rightarrow> DispatchPermitFactV2 option \<Rightarrow> Time \<Rightarrow> EffectRecoveryDecisionV2 res" where
  "PlanEffectRecoveryV2 J effect permit now =
     ensure (first_err
       [EffectFactV2_Validate J effect,
        fail_if (IsZero now \<or> sint (UnixNano now) < sint (ef_UpdatedUnixNano effect)) ErrorPreconditionFailed ReasonClockRegression])
      (if ef_State effect = EffectDispatchIntent
       then (case permit of
               None \<Rightarrow> Inl (DomainError ErrorIndeterminate ReasonDispatchPermitInvalid)
             | Some p \<Rightarrow>
                 ensure (DispatchPermitFactV2_Validate J p)
                  (case permit_decision effect p now (pf_State p) of
                     Some d \<Rightarrow> Inr d
                   | None \<Rightarrow> Inr (state_decision (ef_State effect))))
       else Inr (state_decision (ef_State effect)))"

end
