(* ===== verification/GatewayLaws.thy ===== *)
theory GatewayLaws
  imports Gateway EffectInvariant BindingInvariant
begin

text \<open>
  What the gateway guarantees. The facts it read are collected in one record; \<open>governed\<close> says that all of
  them are current and bound to the intent. The contract of the effect owner that the gateway calls is the
  locale \<open>dispatch_owner\<close>, interpreted on the effect store.
\<close>

section \<open>Governing facts\<close>

record governing_facts =
  gf_lease :: IdentityExecutionLease
  gf_set :: BindingSetFactV2
  gf_authority :: DispatchAuthorityFactV2
  gf_policy :: DispatchPolicyFactV2
  gf_review :: DispatchReviewFactV2
  gf_budget :: BudgetBindingFactV2
  gf_credentials :: "CredentialLeaseFactV2 list"
  gf_scope :: ExecutionScopeCurrentFactV2

text \<open>The facts are what the ports answered for the references of the intent.\<close>

definition facts_read :: "GovernanceDispatchGatewayV2 \<Rightarrow> EffectIntentV2 \<Rightarrow> governing_facts \<Rightarrow> bool" where
  "facts_read P i F \<longleftrightarrow>
     gw_Lease P (ident_TenantID (scope_Identity (ei2_Scope i))) (ident_ID (scope_Identity (ei2_Scope i))) = Inr (gf_lease F)
     \<and> gw_BindingSet P (prov_BindingSetID (ei2_Provider i)) = Inr (gf_set F)
     \<and> gw_Authority P (ab_Ref (ei2_Authority i)) = Inr (gf_authority F) \<and> gw_Policy P (dp_Ref (ei2_Policy i)) = Inr (gf_policy F)
     \<and> gw_Review P (rb_Ref (ei2_Review i)) = Inr (gf_review F) \<and> gw_Budget P (bb_Ref (ei2_Budget i)) = Inr (gf_budget F)
     \<and> list_all2 (\<lambda>r c. gw_Credential P (cl_Ref r) = Inr c) (ei2_CredentialLeases i) (gf_credentials F)
     \<and> gw_Scope P (sb_Ref (ei2_CurrentScope i)) = Inr (gf_scope F)"

text \<open>The provider is a member of the set, holds the capability, and the owners of the effect are its owners.\<close>

definition provider_bound :: "BindingSetFactV2 \<Rightarrow> EffectIntentV2 \<Rightarrow> bool" where
  "provider_bound s i \<longleftrightarrow>
     (\<exists>m \<in> set (bs_Members s). bm_ComponentID m = prov_ComponentID (ei2_Provider i) \<and> bm_ManifestDigest m = prov_ManifestDigest (ei2_Provider i)
        \<and> bm_ArtifactDigest m = prov_ArtifactDigest (ei2_Provider i)
        \<and> prov_Capability (ei2_Provider i) \<in> cg_Capability ` set (bm_Grants m)
        \<and> (\<forall>r \<in> set (ei2_Owners i). \<exists>a \<in> set (bm_Owners m). eo_Role r = oa_Role a \<and> eo_ComponentID r = oa_OwnerComponentID a
             \<and> (\<exists>m' \<in> set (bs_Members s). bm_ComponentID m' = eo_ComponentID r \<and> bm_ManifestDigest m' = eo_ManifestDigest r)))"

definition governed :: "gateway_json \<Rightarrow> EffectIntentV2 \<Rightarrow> Duration \<Rightarrow> Time \<Rightarrow> governing_facts \<Rightarrow> bool" where
  "governed J i ttl now F \<longleftrightarrow>
     il_State (gf_lease F) = IdentityLeaseActive \<and> il_Identity (gf_lease F) = scope_Identity (ei2_Scope i)
     \<and> il_Lineage (gf_lease F) = scope_Lineage (ei2_Scope i) \<and> il_AuthorityEpoch (gf_lease F) = scope_AuthorityEpoch (ei2_Scope i)
     \<and> bs_State (gf_set F) = BindingSetActive \<and> bs_Revision (gf_set F) = prov_BindingSetRevision (ei2_Provider i)
     \<and> provider_bound (gf_set F) i
     \<and> DispatchAuthorityFactV2_ValidateCurrent (gf_authority F) (ei2_Authority i) (ei2_Scope i) (ei2_ActionScopeDigest i) now = None
     \<and> DispatchPolicyFactV2_ValidateCurrent (fj_effect (gj_fact J)) (gj_governance J) (gf_policy F) (ei2_Policy i) i ttl now = None
     \<and> DispatchReviewFactV2_ValidateCurrent (fj_effect (gj_fact J)) (gf_review F) (ei2_Review i) i now = None
     \<and> BudgetBindingFactV2_ValidateCurrent (fj_Budget (gj_fact J)) (gf_budget F) (ei2_Budget i) i now = None
     \<and> list_all2 (\<lambda>r c. CredentialLeaseFactV2_ValidateCurrent c r now = None) (ei2_CredentialLeases i) (gf_credentials F)
     \<and> (\<exists>d. CapabilityGrantDigestV2 (gj_binding J) (gf_set F) = Inr d
          \<and> ExecutionScopeCurrentFactV2_ValidateCurrent (gj_governance J) (gf_scope F) (ei2_CurrentScope i) i d now = None)"

text \<open>The instants at which the facts and the intent expire.\<close>

definition expiries :: "EffectIntentV2 \<Rightarrow> governing_facts \<Rightarrow> Time list" where
  "expiries i F =
     [TimeUnix0 (ei2_ExpiresUnixNano i), il_ExpiresAt (gf_lease F), TimeUnix0 (bs_ExpiresUnixNano (gf_set F)),
      TimeUnix0 (af_ExpiresUnixNano (gf_authority F)), TimeUnix0 (dpf_ExpiresUnixNano (gf_policy F)), TimeUnix0 (rf_ExpiresUnixNano (gf_review F)),
      TimeUnix0 (bgf_ExpiresUnixNano (gf_budget F)), TimeUnix0 (sf_ExpiresUnixNano (gf_scope F))]
     @ map (\<lambda>c. TimeUnix0 (clf_ExpiresUnixNano c)) (gf_credentials F)"

lemma earliest_le: "earliest e ls \<le> e \<and> (\<forall>l \<in> set ls. earliest e ls \<le> l)"
proof (induction ls arbitrary: e)
  case (Cons l ls)
  show ?case using Cons.IH [of "if Before l e then l else e"] by (auto simp: Before_def split: if_splits)
qed simp

lemma owner_refs_Inr:
  "owner_refs members as = Inr refs \<Longrightarrow> r \<in> set refs \<Longrightarrow>
     \<exists>a \<in> set as. eo_Role r = oa_Role a \<and> eo_ComponentID r = oa_OwnerComponentID a
       \<and> (\<exists>m. members (oa_OwnerComponentID a) = Some m \<and> bm_ManifestDigest m = eo_ManifestDigest r)"
  by (induction as arbitrary: refs) (auto split: option.splits)

lemma member_map_Some: "member_map s c = Some m \<Longrightarrow> m \<in> set (bs_Members s) \<and> bm_ComponentID m = c"
  by (auto simp: member_map_def dest: map_of_SomeD)

lemma resolve_bound:
  assumes "resolveEffectBindingV2 s i = Inr (provider, owners)" "\<not> provider_drifted i provider owners"
  shows "provider_bound s i"
proof -
  from assms(1) obtain refs where r: "member_map s (prov_ComponentID (ei2_Provider i)) = Some provider"
    "list_ex (\<lambda>g. cg_Capability g = prov_Capability (ei2_Provider i)) (bm_Grants provider)"
    "owner_refs (member_map s) (bm_Owners provider) = Inr refs" "owners = sort_key (\<lambda>r. owner_role_string (eo_Role r)) refs"
    by (auto simp: resolveEffectBindingV2_def split: option.splits)
  have o: "\<exists>a \<in> set (bm_Owners provider). eo_Role r = oa_Role a \<and> eo_ComponentID r = oa_OwnerComponentID a
      \<and> (\<exists>m' \<in> set (bs_Members s). bm_ComponentID m' = eo_ComponentID r \<and> bm_ManifestDigest m' = eo_ManifestDigest r)"
    if "r \<in> set (ei2_Owners i)" for r
  proof -
    have "set (ei2_Owners i) = set refs" using assms(2) r(4) by (metis effectOwnerSetsEqualV2_eq provider_drifted_def set_sort)
    with that have "r \<in> set refs" by simp
    from owner_refs_Inr [OF r(3) this] member_map_Some show ?thesis by metis
  qed
  obtain g where "g \<in> set (bm_Grants provider)" "cg_Capability g = prov_Capability (ei2_Provider i)"
    using r(2) unfolding list_ex_iff by (elim bexE)
  then have c: "prov_Capability (ei2_Provider i) \<in> cg_Capability ` set (bm_Grants provider)"
    by (intro image_eqI [of _ _ g]) (rule sym)
  show ?thesis unfolding provider_bound_def
  proof (intro bexI conjI)
    show "provider \<in> set (bs_Members s)" using member_map_Some [OF r(1)] by simp
  qed (use assms(2) o c in \<open>simp_all add: provider_drifted_def\<close>)
qed

lemma current_credentials_Inr:
  "current_credentials read now rs = Inr cs \<longleftrightarrow>
     list_all2 (\<lambda>r c. read (cl_Ref r) = Inr c) rs cs \<and> list_all2 (\<lambda>r c. CredentialLeaseFactV2_ValidateCurrent c r now = None) rs cs"
proof (induction rs arbitrary: cs)
  case (Cons r rs)
  show ?case by (cases cs) (auto simp: Cons.IH)
qed auto

lemma begin_credentials_Inr:
  "begin_credentials read now rs = Inr cs \<longleftrightarrow>
     list_all2 (\<lambda>r c. read (cl_Ref r) = Inr c) rs cs \<and> list_all2 (\<lambda>r c. CredentialLeaseFactV2_ValidateCurrent c r now = None) rs cs"
proof (induction rs arbitrary: cs)
  case (Cons r rs)
  show ?case by (cases cs) (auto simp: Cons.IH)
qed auto

section \<open>What the two methods send to the effect owner\<close>

lemma governed_issue_Inr:
  assumes "governed_issue J P request now = Inr r"
  obtains effect F d where "gw_Effect P (igd_EffectID request) = Inr effect" "ef_Revision effect = igd_ExpectedEffectRevision request"
    "ef_State effect = EffectAccepted" "facts_read P (ef_Intent effect) F" "governed J (ef_Intent effect) (igd_PermitTTL request) now F"
    "\<forall>l \<in> set (expiries (ef_Intent effect) F). fe_ExpiresAt (idp_Fence r) \<le> l" "now < fe_ExpiresAt (idp_Fence r)"
    "fe_ExpiresAt (idp_Fence r) \<le> Add now (igd_PermitTTL request)"
    "CapabilityGrantDigestV2 (gj_binding J) (gf_set F) = Inr d"
    "idp_Fence r = governed_fence (ef_Intent effect) (sf_Scope (gf_scope F)) d (fe_ExpiresAt (idp_Fence r))"
    "idp_EffectID r = ei2_ID (ef_Intent effect)" "pm_ID (idp_Permit r) = igd_PermitID request"
    "pm_AttemptID (idp_Permit r) = igd_AttemptID request" "pm_ExpiresUnixNano (idp_Permit r) = UnixNano (fe_ExpiresAt (idp_Fence r))"
proof -
  from assms obtain effect lease bset provider owners authority policy review budget credentials cd d scope where
    e: "gw_Effect P (igd_EffectID request) = Inr effect" "ef_Revision effect = igd_ExpectedEffectRevision request" "ef_State effect = EffectAccepted"
    and l: "gw_Lease P (ident_TenantID (scope_Identity (ei2_Scope (ef_Intent effect)))) (ident_ID (scope_Identity (ei2_Scope (ef_Intent effect)))) = Inr lease"
      "\<not> lease_drifted (ef_Intent effect) lease now"
    and s: "gw_BindingSet P (prov_BindingSetID (ei2_Provider (ef_Intent effect))) = Inr bset" "\<not> set_drifted (ef_Intent effect) bset now"
      "resolveEffectBindingV2 bset (ef_Intent effect) = Inr (provider, owners)" "\<not> provider_drifted (ef_Intent effect) provider owners"
    and p: "gw_Authority P (ab_Ref (ei2_Authority (ef_Intent effect))) = Inr authority" "gw_Policy P (dp_Ref (ei2_Policy (ef_Intent effect))) = Inr policy"
      "gw_Review P (rb_Ref (ei2_Review (ef_Intent effect))) = Inr review" "gw_Budget P (bb_Ref (ei2_Budget (ef_Intent effect))) = Inr budget"
      "current_credentials (gw_Credential P) now (ei2_CredentialLeases (ef_Intent effect)) = Inr credentials"
      "gw_Scope P (sb_Ref (ei2_CurrentScope (ef_Intent effect))) = Inr scope" "CapabilityGrantDigestV2 (gj_binding J) bset = Inr d"
    and c: "DispatchAuthorityFactV2_ValidateCurrent authority (ei2_Authority (ef_Intent effect)) (ei2_Scope (ef_Intent effect)) (ei2_ActionScopeDigest (ef_Intent effect)) now = None"
      "DispatchPolicyFactV2_ValidateCurrent (fj_effect (gj_fact J)) (gj_governance J) policy (ei2_Policy (ef_Intent effect)) (ef_Intent effect) (igd_PermitTTL request) now = None"
      "DispatchReviewFactV2_ValidateCurrent (fj_effect (gj_fact J)) review (ei2_Review (ef_Intent effect)) (ef_Intent effect) now = None"
      "BudgetBindingFactV2_ValidateCurrent (fj_Budget (gj_fact J)) budget (ei2_Budget (ef_Intent effect)) (ef_Intent effect) now = None"
      "ExecutionScopeCurrentFactV2_ValidateCurrent (gj_governance J) scope (ei2_CurrentScope (ef_Intent effect)) (ef_Intent effect) d now = None"
    and x: "After (fe_ExpiresAt (idp_Fence r)) now" "idp_EffectID r = ei2_ID (ef_Intent effect)"
      "fe_ExpiresAt (idp_Fence r) = earliest (Add now (igd_PermitTTL request))
         (expiries (ef_Intent effect) \<lparr>gf_lease = lease, gf_set = bset, gf_authority = authority, gf_policy = policy, gf_review = review,
           gf_budget = budget, gf_credentials = credentials, gf_scope = scope\<rparr>)"
      "idp_Fence r = governed_fence (ef_Intent effect) (sf_Scope scope) d (fe_ExpiresAt (idp_Fence r))"
      "pm_ID (idp_Permit r) = igd_PermitID request" "pm_AttemptID (idp_Permit r) = igd_AttemptID request"
      "pm_ExpiresUnixNano (idp_Permit r) = UnixNano (fe_ExpiresAt (idp_Fence r))"
    by (fastforce simp: governed_issue_def Let_def expiries_def governed_fence_def governed_permit_def)
  let ?F = "\<lparr>gf_lease = lease, gf_set = bset, gf_authority = authority, gf_policy = policy, gf_review = review,
           gf_budget = budget, gf_credentials = credentials, gf_scope = scope\<rparr>"
  have k: "list_all2 (\<lambda>r c. gw_Credential P (cl_Ref r) = Inr c) (ei2_CredentialLeases (ef_Intent effect)) credentials"
    "list_all2 (\<lambda>r c. CredentialLeaseFactV2_ValidateCurrent c r now = None) (ei2_CredentialLeases (ef_Intent effect)) credentials"
    using p(5) by (simp_all add: current_credentials_Inr)
  show thesis
  proof (rule that [of effect ?F d])
    show "facts_read P (ef_Intent effect) ?F" using l s p k by (simp add: facts_read_def)
    show "governed J (ef_Intent effect) (igd_PermitTTL request) now ?F"
      using l s c k p(7) resolve_bound [OF s(3,4)] by (simp add: governed_def lease_drifted_def set_drifted_def)
    show "\<forall>l \<in> set (expiries (ef_Intent effect) ?F). fe_ExpiresAt (idp_Fence r) \<le> l"
      "fe_ExpiresAt (idp_Fence r) \<le> Add now (igd_PermitTTL request)"
      using earliest_le unfolding x(3) by blast+
  qed (use e x p(7) in \<open>simp_all add: After_def\<close>)
qed

lemma governed_begin_Inr:
  assumes "governed_begin J P request now = Inr r"
  obtains effect permit F d where "gw_Effect P (bgd_EffectID request) = Inr effect" "gw_Permit P (bgd_PermitID request) = Inr permit"
    "\<not> begin_mismatch request effect permit now" "facts_read P (ef_Intent effect) F"
    "governed J (ef_Intent effect) (TimeSub (TimeUnix0 (pm_ExpiresUnixNano (pf_Permit permit))) now) now F"
    "\<not> review_changed (pf_Permit permit) (gf_review F)"
    "DigestCredentialLeaseFactsV2 (gj_governance J) (gf_credentials F) = Inr (pm_CredentialGrantDigest (pf_Permit permit))"
    "CapabilityGrantDigestV2 (gj_binding J) (gf_set F) = Inr d"
    "ValidateDispatchAtExecutionPointV2 (fj_effect (gj_fact J)) (pf_Permit permit) (ef_Intent effect) (pf_Fence permit)
       (governed_current (ef_Intent effect) (pf_Permit permit) (gf_review F) (sf_Scope (gf_scope F)) d
          (pm_CredentialGrantDigest (pf_Permit permit))) now = None"
    "r = \<lparr>bdr_EffectID = ei2_ID (ef_Intent effect), bdr_ExpectedEffectRevision = ef_Revision effect,
          bdr_PermitID = pm_ID (pf_Permit permit), bdr_ExpectedPermitRevision = pf_Revision permit\<rparr>"
proof -
  from assms obtain effect permit lease bset provider owners d authority policy review budget credentials scope where
    e: "gw_Effect P (bgd_EffectID request) = Inr effect" "gw_Permit P (bgd_PermitID request) = Inr permit"
      "\<not> begin_mismatch request effect permit now"
    and l: "gw_Lease P (ident_TenantID (scope_Identity (ei2_Scope (ef_Intent effect)))) (ident_ID (scope_Identity (ei2_Scope (ef_Intent effect)))) = Inr lease"
      "\<not> lease_drifted (ef_Intent effect) lease now"
    and s: "gw_BindingSet P (prov_BindingSetID (ei2_Provider (ef_Intent effect))) = Inr bset" "\<not> set_drifted (ef_Intent effect) bset now"
      "resolveEffectBindingV2 bset (ef_Intent effect) = Inr (provider, owners)" "\<not> provider_drifted (ef_Intent effect) provider owners"
    and p: "gw_Authority P (ab_Ref (ei2_Authority (ef_Intent effect))) = Inr authority" "gw_Policy P (dp_Ref (ei2_Policy (ef_Intent effect))) = Inr policy"
      "gw_Review P (rb_Ref (ei2_Review (ef_Intent effect))) = Inr review" "gw_Budget P (bb_Ref (ei2_Budget (ef_Intent effect))) = Inr budget"
      "begin_credentials (gw_Credential P) now (ei2_CredentialLeases (ef_Intent effect)) = Inr credentials"
      "gw_Scope P (sb_Ref (ei2_CurrentScope (ef_Intent effect))) = Inr scope" "CapabilityGrantDigestV2 (gj_binding J) bset = Inr d"
    and c: "DispatchAuthorityFactV2_ValidateCurrent authority (ei2_Authority (ef_Intent effect)) (ei2_Scope (ef_Intent effect)) (ei2_ActionScopeDigest (ef_Intent effect)) now = None"
      "DispatchPolicyFactV2_ValidateCurrent (fj_effect (gj_fact J)) (gj_governance J) policy (ei2_Policy (ef_Intent effect)) (ef_Intent effect)
         (TimeSub (TimeUnix0 (pm_ExpiresUnixNano (pf_Permit permit))) now) now = None"
      "DispatchReviewFactV2_ValidateCurrent (fj_effect (gj_fact J)) review (ei2_Review (ef_Intent effect)) (ef_Intent effect) now = None"
      "BudgetBindingFactV2_ValidateCurrent (fj_Budget (gj_fact J)) budget (ei2_Budget (ef_Intent effect)) (ef_Intent effect) now = None"
      "ExecutionScopeCurrentFactV2_ValidateCurrent (gj_governance J) scope (ei2_CurrentScope (ef_Intent effect)) (ef_Intent effect) d now = None"
    and x: "\<not> review_changed (pf_Permit permit) review"
      "DigestCredentialLeaseFactsV2 (gj_governance J) credentials = Inr (pm_CredentialGrantDigest (pf_Permit permit))"
      "ValidateDispatchAtExecutionPointV2 (fj_effect (gj_fact J)) (pf_Permit permit) (ef_Intent effect) (pf_Fence permit)
         (governed_current (ef_Intent effect) (pf_Permit permit) review (sf_Scope scope) d (pm_CredentialGrantDigest (pf_Permit permit))) now = None"
      "r = \<lparr>bdr_EffectID = ei2_ID (ef_Intent effect), bdr_ExpectedEffectRevision = ef_Revision effect,
          bdr_PermitID = pm_ID (pf_Permit permit), bdr_ExpectedPermitRevision = pf_Revision permit\<rparr>"
    by (fastforce simp: governed_begin_def Let_def)
  let ?F = "\<lparr>gf_lease = lease, gf_set = bset, gf_authority = authority, gf_policy = policy, gf_review = review,
           gf_budget = budget, gf_credentials = credentials, gf_scope = scope\<rparr>"
  have k: "list_all2 (\<lambda>r c. gw_Credential P (cl_Ref r) = Inr c) (ei2_CredentialLeases (ef_Intent effect)) credentials"
    "list_all2 (\<lambda>r c. CredentialLeaseFactV2_ValidateCurrent c r now = None) (ei2_CredentialLeases (ef_Intent effect)) credentials"
    using p(5) by (simp_all add: begin_credentials_Inr)
  show thesis
  proof (rule that [of effect permit ?F d])
    show "facts_read P (ef_Intent effect) ?F" using l s p k by (simp add: facts_read_def)
    show "governed J (ef_Intent effect) (TimeSub (TimeUnix0 (pm_ExpiresUnixNano (pf_Permit permit))) now) now ?F"
      using l s c k p(7) resolve_bound [OF s(3,4)] by (simp add: governed_def lease_drifted_def set_drifted_def)
  qed (use e x p(7) in simp_all)
qed

section \<open>The effect owner\<close>

text \<open>
  What the gateway relies on: a permit that was issued carries the fence of the request; a dispatch begins
  only from the state \<open>issued\<close>, in which the reply and the stored permit agree; a permit that has left that
  state never comes back to it, whatever the owner does in between.
\<close>

locale dispatch_owner =
  fixes issue :: "'e \<Rightarrow> 's \<Rightarrow> IssueDispatchPermitRequestV2 \<Rightarrow> 's \<times> IssueDispatchPermitResultV2 res"
    and begin_dispatch :: "'e \<Rightarrow> 's \<Rightarrow> BeginDispatchRequestV2 \<Rightarrow> 's \<times> DispatchPermitFactV2 res"
    and stored :: "'s \<Rightarrow> string \<Rightarrow> DispatchPermitFactV2 option"
    and run :: "'s \<Rightarrow> 's \<Rightarrow> bool"
    and well :: "'s \<Rightarrow> bool"
  assumes issue_fence: "issue e s r = (s', Inr x) \<Longrightarrow> pf_Fence (idr_Permit x) = idp_Fence r \<and> stored s' (pm_ID (idp_Permit r)) = Some (idr_Permit x)"
    and begin_from_issued: "well s \<Longrightarrow> begin_dispatch e s b = (s', Inr p) \<Longrightarrow> pm_ID (pf_Permit p) = bdr_PermitID b
        \<and> (\<exists>q. stored s (bdr_PermitID b) = Some q \<and> pf_State q = DispatchPermitIssued \<and> pf_Permit p = pf_Permit q \<and> pf_Fence p = pf_Fence q)
        \<and> pf_State p = DispatchPermitBegun \<and> stored s' (bdr_PermitID b) = Some p"
    and begin_runs: "begin_dispatch e s b = (s', y) \<Longrightarrow> run s s'"
    and run_well: "run s t \<Longrightarrow> well s \<Longrightarrow> well t"
    and left_for_good: "run s t \<Longrightarrow> well s \<Longrightarrow> stored s k = Some p \<Longrightarrow> pf_State p \<noteq> DispatchPermitIssued \<Longrightarrow>
        \<exists>q. stored t k = Some q \<and> pf_State q \<noteq> DispatchPermitIssued"
begin

lemma Issue_governed:
  assumes "Issue (issue e) J (Some P) s request now = (s', Inr x)"
  obtains effect F where "gw_Effect P (igd_EffectID request) = Inr effect" "ef_State effect = EffectAccepted"
    "facts_read P (ef_Intent effect) F" "governed J (ef_Intent effect) (igd_PermitTTL request) now F"
    "\<forall>l \<in> set (expiries (ef_Intent effect) F). fe_ExpiresAt (pf_Fence (idr_Permit x)) \<le> l"
    "now < fe_ExpiresAt (pf_Fence (idr_Permit x))" "fe_ExpiresAt (pf_Fence (idr_Permit x)) \<le> Add now (igd_PermitTTL request)"
    "fe_Scope (pf_Fence (idr_Permit x)) = sf_Scope (gf_scope F)" "stored s' (igd_PermitID request) = Some (idr_Permit x)"
proof -
  from assms obtain r where r: "governed_issue J P request now = Inr r" "issue e s r = (s', Inr x)"
    by (auto simp: Issue_def split: sum.splits)
  from governed_issue_Inr [OF r(1)] issue_fence [OF r(2)] show thesis
    by (metis ExecutionFence.select_convs(2) governed_fence_def that)
qed

lemma Begin_governed:
  assumes "well s" "Begin (begin_dispatch e) J (Some P) s request now = (s', Inr p)"
  obtains effect permit F q where "gw_Effect P (bgd_EffectID request) = Inr effect" "gw_Permit P (bgd_PermitID request) = Inr permit"
    "facts_read P (ef_Intent effect) F"
    "governed J (ef_Intent effect) (TimeSub (TimeUnix0 (pm_ExpiresUnixNano (pf_Permit permit))) now) now F"
    "now < TimeUnix0 (pm_ExpiresUnixNano (pf_Permit permit))"
    "stored s (pm_ID (pf_Permit permit)) = Some q" "pf_State q = DispatchPermitIssued"
    "stored s' (pm_ID (pf_Permit permit)) = Some p" "pf_State p = DispatchPermitBegun"
proof -
  from assms(2) obtain r where r: "governed_begin J P request now = Inr r" "begin_dispatch e s r = (s', Inr p)"
    by (auto simp: Begin_def split: sum.splits)
  obtain effect permit F where g: "gw_Effect P (bgd_EffectID request) = Inr effect" "gw_Permit P (bgd_PermitID request) = Inr permit"
      "\<not> begin_mismatch request effect permit now" "facts_read P (ef_Intent effect) F"
      "governed J (ef_Intent effect) (TimeSub (TimeUnix0 (pm_ExpiresUnixNano (pf_Permit permit))) now) now F"
      "bdr_PermitID r = pm_ID (pf_Permit permit)"
    by (rule governed_begin_Inr [OF r(1)]) simp
  have "now < TimeUnix0 (pm_ExpiresUnixNano (pf_Permit permit))" using g(3) by (simp add: begin_mismatch_def Before_def)
  with g begin_from_issued [OF assms(1) r(2)] show thesis by (metis that)
qed

text \<open>Two dispatches never begin on one permit.\<close>

lemma begin_dispatch_once:
  assumes "well s" "begin_dispatch e s r = (t, Inr p)" "run t u" "begin_dispatch e' u q = (v, Inr p')"
  shows "bdr_PermitID q \<noteq> bdr_PermitID r"
proof
  assume id: "bdr_PermitID q = bdr_PermitID r"
  have w: "well t" "well u" using run_well begin_runs assms(1-3) by blast+
  obtain p1 where "stored t (bdr_PermitID r) = Some p1" "pf_State p1 \<noteq> DispatchPermitIssued"
    using begin_from_issued [OF assms(1,2)] by auto
  from left_for_good [OF assms(3) w(1) this] begin_from_issued [OF w(2) assms(4)] id show False by auto
qed

lemma Begin_once:
  assumes "well s" "Begin (begin_dispatch e) J (Some P) s request now = (t, Inr p)" "run t u"
    "Begin (begin_dispatch e') J' (Some P') u request' now' = (v, Inr p')"
  shows "pm_ID (pf_Permit p') \<noteq> pm_ID (pf_Permit p)"
proof -
  from assms(2) obtain r where r: "governed_begin J P request now = Inr r" "begin_dispatch e s r = (t, Inr p)"
    by (auto simp: Begin_def split: sum.splits)
  from assms(4) obtain q where q: "governed_begin J' P' request' now' = Inr q" "begin_dispatch e' u q = (v, Inr p')"
    by (auto simp: Begin_def split: sum.splits)
  have "well u" using run_well begin_runs [OF r(2)] assms(1,3) by blast
  then show ?thesis
    using begin_dispatch_once [OF assms(1) r(2) assms(3) q(2)] begin_from_issued [OF assms(1) r(2)] begin_from_issued [OF _ q(2)] by simp
qed

end

text \<open>The effect store keeps this contract; its environment is the context and the reading of its clock.\<close>

lemma issue_keeps_fence:
  assumes "IssueDispatchPermit K s ctx r now = (s', Inr x)"
  shows "pf_Fence (idr_Permit x) = idp_Fence r \<and> es_permits s' (pm_ID (idp_Permit r)) = Some (idr_Permit x)"
  using assms by (auto simp: IssueDispatchPermit_def Let_def elim!: guarded_cases split: option.splits if_splits)

lemma begin_needs_issued:
  assumes "effects_ok K s" "BeginDispatch K s ctx b now = (s', Inr p)"
  shows "pm_ID (pf_Permit p) = bdr_PermitID b
    \<and> (\<exists>q. es_permits s (bdr_PermitID b) = Some q \<and> pf_State q = DispatchPermitIssued \<and> pf_Permit p = pf_Permit q \<and> pf_Fence p = pf_Fence q)
    \<and> pf_State p = DispatchPermitBegun \<and> es_permits s' (bdr_PermitID b) = Some p"
proof -
  from assms(2) obtain q where q: "es_permits s (bdr_PermitID b) = Some q"
    "p = q\<lparr>pf_State := DispatchPermitBegun, pf_Revision := pf_Revision q + 1, pf_BegunUnixNano := UnixNano now\<rparr>"
    "ValidateDispatchPermitTransitionV2 (fj_effect K) q p now = None" "es_permits s' = (es_permits s)(pm_ID (pf_Permit q) \<mapsto> p)"
    by (auto simp: BeginDispatch_def Let_def elim!: guarded_cases split: option.splits if_splits)
  have "pf_State q = DispatchPermitIssued" using q(2,3)
    by (auto simp: ValidateDispatchPermitTransitionV2_def split: if_splits)
  then show ?thesis using q effects_okD(2) [OF assms(1) q(1)] by simp
qed

interpretation owner: dispatch_owner
  "\<lambda>(ctx, now) s r. IssueDispatchPermit K s ctx r now" "\<lambda>(ctx, now) s b. BeginDispatch K s ctx b now"
  es_permits "effect_run K" "effects_ok K" for K
proof (unfold_locales, goal_cases)
  case (1 e s r s' x)
  then show ?case by (cases e) (simp add: issue_keeps_fence)
next
  case (2 s e b s' p)
  then show ?case by (cases e) (auto dest: begin_needs_issued)
next
  case (3 e s b s' y)
  then show ?case by (cases e) (auto intro: effect_run.intros effect_step.intros owner_step.intros)
next
  case (4 s t)
  then show ?case using effect_run_later by blast
next
  case (5 s t k p)
  then show ?case using effect_run_later unfolding later_permit_def by metis
qed

end
