(* ===== verification/GatewaySamples.thy ===== *)
theory GatewaySamples
  imports GatewayLaws BindingSamples EffectProperties
begin

text \<open>
  One governed dispatch, for the witnesses of the gateway: an intent bound to the provider \<open>a/c\<close> of the
  sample binding set, the facts that govern it, and the stores behind the ports.
\<close>

section \<open>The intent and its facts\<close>

definition review_hash :: "string \<Rightarrow> string \<Rightarrow> Digest" where
  "review_hash k j = DigestBytes (canonical_preimage ''praxis.runtime.review'' ReviewContractVersionV2 k j)"

lemma review_hash_valid [simp]: "Digest_Validate (review_hash k j) = None"
  by (simp add: review_hash_def)

lemma governance_labels [simp]:
  "validCanonicalLabel ''praxis.runtime.review''" "validCanonicalLabel ReviewContractVersionV2" "validCanonicalLabel ''EffectReviewSubjectV2''"
  "validCanonicalLabel ''EffectPolicyCandidateV2''" "validCanonicalLabel ''DispatchPolicyFactV2''" "validCanonicalLabel ''BudgetBindingFactV2''"
  "validCanonicalLabel ''ExecutionScopeCurrentFactV2''" "validCanonicalLabel ''CapabilityGrantSetV2''" "validCanonicalLabel ''CredentialLeaseFactSetV2''"
  by (rule canonical_label; simp add: graphic_def ReviewContractVersionV2_def)+

definition govern_json :: gateway_json where
  "govern_json = \<lparr>gj_fact = EffectProperties.sample_fact_json,
     gj_governance = \<lparr>json_CredentialLeaseFacts = (\<lambda>x. Some ''[]''), json_DispatchPolicyFact = (\<lambda>x. Some ''{}''),
       json_ExecutionScopeFact = (\<lambda>x. Some ''{}'')\<rparr>,
     gj_binding = BindingSamples.sample_fact_json\<rparr>"

definition governed_intent :: EffectIntentV2 where
  "governed_intent = (sample_intent ''a'' ''x/y'')
     \<lparr>ei2_Owners := map (\<lambda>r. \<lparr>eo_Role = r, eo_ComponentID = ''a/c'', eo_ManifestDigest = manifest_hash ''a/c''\<rparr>) [OwnerCleanup, OwnerEffect, OwnerSettlement],
      ei2_Provider := \<lparr>prov_BindingSetID = ''s'', prov_BindingSetRevision = 1, prov_ComponentID = ''a/c'',
        prov_ManifestDigest = manifest_hash ''a/c'', prov_ArtifactDigest = sample_digest, prov_Capability = ''a/b''\<rparr>,
      ei2_Budget := \<lparr>bb_Ref = ''b'', bb_Digest = effect_hash ''BudgetBindingFactV2'' ''{}'', bb_Revision = 1, bb_PolicyDigest = sample_digest\<rparr>,
      ei2_Policy := \<lparr>dp_Ref = ''d'', dp_Digest = effect_hash ''DispatchPolicyFactV2'' ''{}'', dp_Revision = 1\<rparr>,
      ei2_CurrentScope := \<lparr>sb_Ref = ''c'', sb_Digest = effect_hash ''ExecutionScopeCurrentFactV2'' ''{}'', sb_Revision = 1\<rparr>\<rparr>"

abbreviation intent_text :: string where
  "intent_text \<equiv> [CHR 0x22, CHR ''a'', CHR 0x22]"

definition governed_facts :: governing_facts where
  "governed_facts =
     \<lparr>gf_lease = \<lparr>il_ID = ''x'', il_Identity = scope_Identity (sample_scope None), il_Lineage = scope_Lineage (sample_scope None),
        il_ActivationAttemptID = ''x'', il_State = IdentityLeaseActive, il_AuthorityEpoch = 1, il_ExpiresAt = at_nano 700, il_Revision = 2\<rparr>,
      gf_set = bound_set,
      gf_authority = \<lparr>af_Ref = ''a'', af_Digest = sample_digest, af_Revision = 1, af_Scope = sample_scope None,
        af_ActionScopeDigest = sample_digest, af_State = AuthorityFactActive, af_ExpiresUnixNano = 1000\<rparr>,
      gf_policy = \<lparr>dpf_Ref = ''d'', dpf_Digest = effect_hash ''DispatchPolicyFactV2'' ''{}'', dpf_Revision = 1, dpf_IntentID = ''a'',
        dpf_IntentRevision = 1, dpf_IntentDigest = effect_hash ''EffectPolicyCandidateV2'' intent_text, dpf_Scope = sample_scope None,
        dpf_EffectKind = ''a/b'', dpf_RiskClass = ''a/b'', dpf_ActionScopeDigest = sample_digest, dpf_MaximumPermitTTL = 600,
        dpf_Active = True, dpf_ExpiresUnixNano = 1000\<rparr>,
      gf_review = \<lparr>rf_Ref = ''r'', rf_Digest = sample_digest, rf_Revision = 1, rf_IntentID = ''a'', rf_IntentRevision = 1,
        rf_SubjectDigest = review_hash ''EffectReviewSubjectV2'' intent_text, rf_CandidateDigest = sample_digest,
        rf_VerdictDigest = sample_digest, rf_VerdictRevision = 1, rf_PayloadDigest = sample_digest, rf_PayloadRevision = 1,
        rf_ScopeDigest = sample_digest, rf_PolicyDigest = sample_digest, rf_PolicyDecisionRef = ''d'',
        rf_ActorAuthorityDigest = sample_digest, rf_ReviewerAuthorityDigest = sample_digest, rf_ConditionsDigest = '''',
        rf_SatisfactionRef = '''', rf_SatisfactionDigest = '''', rf_SatisfactionRevision = 0, rf_EvidenceDigest = sample_digest,
        rf_Decision = ReviewDecisionAccepted, rf_ExpiresUnixNano = 1000\<rparr>,
      gf_budget = \<lparr>bgf_Ref = ''b'', bgf_IntentID = ''a'', bgf_IntentRevision = 1, bgf_Scope = sample_scope None,
        bgf_Mode = BudgetOperationNotRequired, bgf_PolicyDigest = sample_digest, bgf_PolicyDecisionRef = ''d'',
        bgf_PolicyEvidenceDigest = sample_digest, bgf_ReservationRef = '''', bgf_ReservationRevision = 0, bgf_Limit = 0,
        bgf_Consumed = 0, bgf_Unit = '''', bgf_State = BudgetFactActive, bgf_Revision = 1, bgf_ExpiresUnixNano = 1000\<rparr>,
      gf_credentials = [],
      gf_scope = (let src = \<lparr>gs_Ref = ''x'', gs_Revision = 1, gs_Digest = sample_digest\<rparr> in
        \<lparr>sf_Ref = ''c'', sf_Digest = effect_hash ''ExecutionScopeCurrentFactV2'' ''{}'', sf_Revision = 1, sf_Scope = sample_scope None,
         sf_CapabilityGrantDigest = binding_hash ''CapabilityGrantSetV2'' ''{}'', sf_ActivationSource = src, sf_InstanceSource = src,
         sf_SandboxSource = None, sf_AuthoritySource = src, sf_BindingSource = src, sf_RunSource = src, sf_ActiveRunID = ''r'',
         sf_RunState = ''running'', sf_ProjectionWatermark = 1, sf_State = ExecutionScopeFactActive, sf_ExpiresUnixNano = 1000\<rparr>)\<rparr>"

text \<open>The ports of the gateway: the effect and binding stores, and for each other owner the one fact above.\<close>

definition governed_ports :: "EffectStoreV2 \<Rightarrow> BindingStoreV2 \<Rightarrow> GovernanceDispatchGatewayV2" where
  "governed_ports s b =
     \<lparr>gw_Effect = InspectEffect s LiveContext, gw_Permit = InspectDispatchPermit s LiveContext,
      gw_Lease = (\<lambda>t i. Inr (gf_lease governed_facts)), gw_BindingSet = InspectBindingSet b LiveContext,
      gw_Budget = (\<lambda>r. Inr (gf_budget governed_facts)), gw_Authority = (\<lambda>r. Inr (gf_authority governed_facts)),
      gw_Policy = (\<lambda>r. Inr (gf_policy governed_facts)), gw_Review = (\<lambda>r. Inr (gf_review governed_facts)),
      gw_Credential = (\<lambda>r. Inl (DomainError ErrorNotFound ReasonCredentialLeaseMissing)), gw_Scope = (\<lambda>r. Inr (gf_scope governed_facts))\<rparr>"

section \<open>The facts are current\<close>

lemma governed_intent_valid [simp]: "EffectIntentV2_Validate governed_intent = None" "EffectIntentV2_validateV2 True governed_intent = None"
  by (simp_all add: EffectIntentV2_Validate_def EffectIntentV2_validateV2_def governed_intent_def sample_intent_def
      validateEffectOwnersV2_def ProviderBindingRefV2_Validate_def ConflictDomainBindingV2_ValidateForScope_def
      ReviewBindingRefV2_Validate_def BudgetBindingRefV2_Validate_def DispatchPolicyBindingRefV2_Validate_def
      ExecutionScopeBindingRefV2_Validate_def IdempotencyBindingV2_Validate_def EffectRelationV2_Validate_def graphic_ascii
      StableTenantScopeDigestV2_def)
    (simp_all add: sample_scope_def graphic_ascii graphic_def)

lemma governed_intent_digest [simp]:
  "EffectIntentV2_DigestV2 sample_effect_json governed_intent = Inr (effect_hash ''EffectIntentV2'' intent_text)"
  "PolicyCandidateDigestV2 sample_effect_json governed_intent = Inr (effect_hash ''EffectPolicyCandidateV2'' intent_text)"
  "ReviewSubjectDigestV2 sample_effect_json governed_intent = Inr (review_hash ''EffectReviewSubjectV2'' intent_text)"
  by (simp_all add: EffectIntentV2_DigestV2_def PolicyCandidateDigestV2_def ReviewSubjectDigestV2_def sample_effect_json_def
      CanonicalJSONDigest_Inr effect_labels effect_hash_def review_hash_def MaxCanonicalDocumentBytes_def)
    (simp_all add: governed_intent_def sample_intent_def)

lemma bound_set_valid [simp]: "BindingSetFactV2_Validate bound_set = None"
  using committed_set_valid [OF sample_set_valid] sample_commit_ok commit_member_certified sample_committed [of Map.empty] by metis

lemma govern_json_simps [simp]:
  "gj_fact govern_json = EffectProperties.sample_fact_json" "gj_binding govern_json = BindingSamples.sample_fact_json"
  "json_CredentialLeaseFacts (gj_governance govern_json) x = Some ''[]''"
  "json_DispatchPolicyFact (gj_governance govern_json) p = Some ''{}''" "json_ExecutionScopeFact (gj_governance govern_json) y = Some ''{}''"
  "fj_Budget EffectProperties.sample_fact_json b = Some ''{}''"
  by (simp_all add: govern_json_def EffectProperties.sample_fact_json_def)

lemma governed_digests [simp]:
  "DispatchPolicyFactV2_DigestV2 (gj_governance govern_json) p = Inr (effect_hash ''DispatchPolicyFactV2'' ''{}'')"
  "ExecutionScopeCurrentFactV2_DigestV2 (gj_governance govern_json) c = Inr (effect_hash ''ExecutionScopeCurrentFactV2'' ''{}'')"
  "DigestCredentialLeaseFactsV2 (gj_governance govern_json) [] = Inr (effect_hash ''CredentialLeaseFactSetV2'' ''[]'')"
  "CapabilityGrantDigestV2 BindingSamples.sample_fact_json bound_set = Inr (binding_hash ''CapabilityGrantSetV2'' ''{}'')"
  by (simp_all add: DispatchPolicyFactV2_DigestV2_def ExecutionScopeCurrentFactV2_DigestV2_def DigestCredentialLeaseFactsV2_def
      CapabilityGrantDigestV2_def BindingSamples.sample_fact_json_def CanonicalJSONDigest_Inr effect_labels effect_hash_def
      binding_hash_def MaxCanonicalDocumentBytes_def)

lemma intent_fields [simp]:
  "ei2_ID governed_intent = ''a''" "ei2_Revision governed_intent = 1" "ei2_Scope governed_intent = sample_scope None"
  "ei2_ActionScopeDigest governed_intent = sample_digest" "ei2_Payload governed_intent = sample_payload" "ei2_PayloadRevision governed_intent = 1"
  "ei2_RunID governed_intent = ''r''" "ei2_Kind governed_intent = ''a/b''" "ei2_RiskClass governed_intent = ''a/b''"
  "ei2_Authority governed_intent = sample_authority" "ei2_CredentialLeases governed_intent = []" "ei2_ExpiresUnixNano governed_intent = 1000"
  by (simp_all add: governed_intent_def sample_intent_def)

lemma budget_current:
  "BudgetBindingFactV2_ValidateCurrent (\<lambda>x. Some ''{}'') (gf_budget governed_facts) (ei2_Budget governed_intent) governed_intent (at_nano n) = None"
  if "n < 1000"
proof -
  have v: "BudgetBindingFactV2_Validate (gf_budget governed_facts) = None"
    by (simp add: BudgetBindingFactV2_Validate_def governed_facts_def)
  then have d: "BudgetBindingFactV2_DigestV2 (\<lambda>x. Some ''{}'') (gf_budget governed_facts) = Inr (effect_hash ''BudgetBindingFactV2'' ''{}'')"
    by (simp add: BudgetBindingFactV2_DigestV2_def CanonicalJSONDigest_Inr effect_labels effect_hash_def MaxCanonicalDocumentBytes_def)
  show ?thesis using that
    by (simp add: BudgetBindingFactV2_ValidateCurrent_def v d BudgetBindingFactV2_BindingRefV2_def)
      (simp add: governed_facts_def governed_intent_def)
qed

lemma facts_current:
  assumes "n < 700"
  shows "\<not> lease_drifted governed_intent (gf_lease governed_facts) (at_nano n)"
    "DispatchAuthorityFactV2_ValidateCurrent (gf_authority governed_facts) sample_authority (sample_scope None) sample_digest (at_nano n) = None"
    "0 < sint ttl \<Longrightarrow> sint ttl \<le> 600 \<Longrightarrow> DispatchPolicyFactV2_ValidateCurrent sample_effect_json (gj_governance govern_json) (gf_policy governed_facts)
       (ei2_Policy governed_intent) governed_intent ttl (at_nano n) = None"
    "DispatchReviewFactV2_ValidateCurrent sample_effect_json (gf_review governed_facts) (ei2_Review governed_intent) governed_intent (at_nano n) = None"
    "ExecutionScopeCurrentFactV2_ValidateCurrent (gj_governance govern_json) (gf_scope governed_facts) (ei2_CurrentScope governed_intent) governed_intent
       (binding_hash ''CapabilityGrantSetV2'' ''{}'') (at_nano n) = None"
proof -
  have e: "scope_AuthorityEpoch (sample_scope None) = 1" by (simp add: sample_scope_def)
  show "\<not> lease_drifted governed_intent (gf_lease governed_facts) (at_nano n)"
    using assms by (simp add: lease_drifted_def governed_facts_def Before_def at_nano_def sample_scope_def)
  show "DispatchAuthorityFactV2_ValidateCurrent (gf_authority governed_facts) sample_authority (sample_scope None) sample_digest (at_nano n) = None"
    using assms by (simp add: DispatchAuthorityFactV2_ValidateCurrent_def governed_facts_def sample_authority_def e)
  show "DispatchPolicyFactV2_ValidateCurrent sample_effect_json (gj_governance govern_json) (gf_policy governed_facts)
       (ei2_Policy governed_intent) governed_intent ttl (at_nano n) = None" if "0 < sint ttl" "sint ttl \<le> 600"
    using assms that
    by (simp add: DispatchPolicyFactV2_ValidateCurrent_def governed_facts_def MaxDispatchPermitTTL_def) (simp add: governed_intent_def)
  show "DispatchReviewFactV2_ValidateCurrent sample_effect_json (gf_review governed_facts) (ei2_Review governed_intent) governed_intent (at_nano n) = None"
    using assms by (simp add: DispatchReviewFactV2_ValidateCurrent_def governed_facts_def)
      (simp add: governed_intent_def sample_intent_def sample_payload_def graphic_ascii)
  show "ExecutionScopeCurrentFactV2_ValidateCurrent (gj_governance govern_json) (gf_scope governed_facts) (ei2_CurrentScope governed_intent) governed_intent
       (binding_hash ''CapabilityGrantSetV2'' ''{}'') (at_nano n) = None"
    using assms by (simp add: ExecutionScopeCurrentFactV2_ValidateCurrent_def governed_facts_def Let_def scope_sources_error_def
      GovernanceSourceFactRefV2_Validate_def BindingRefV2_def) (simp add: governed_intent_def)
qed

lemma provider_resolved:
  "\<exists>m owners. resolveEffectBindingV2 bound_set governed_intent = Inr (m, owners) \<and> \<not> provider_drifted governed_intent m owners"
proof -
  let ?m = "(binding_member (fact_c BindingCertified 3))\<lparr>bm_BindingRevision := 4\<rparr>"
  let ?o = "map (\<lambda>r. \<lparr>eo_Role = r, eo_ComponentID = ''a/c'', eo_ManifestDigest = manifest_hash ''a/c''\<rparr>) [OwnerCleanup, OwnerEffect, OwnerSettlement]"
  have "resolveEffectBindingV2 bound_set governed_intent = Inr (?m, ?o)"
    by (simp add: resolveEffectBindingV2_def member_map_def bound_set_def governed_intent_def binding_member_def)
      (simp add: sample_binding_def sample_manifest_def sample_grant_def)
  moreover have "\<not> provider_drifted governed_intent ?m ?o"
    by (simp add: provider_drifted_def governed_intent_def binding_member_def) (simp add: sample_binding_def sample_manifest_def)
  ultimately show ?thesis by blast
qed

lemma set_current: "n < 1000 \<Longrightarrow> \<not> set_drifted governed_intent bound_set (at_nano n)"
  by (simp add: set_drifted_def bound_set_def governed_intent_def sample_set_fields)

section \<open>Issue and begin\<close>

definition governed_accepted :: EffectFactV2 where
  "governed_accepted = (accepted_fact ''a'' ''x/y'')\<lparr>ef_Intent := governed_intent\<rparr>"

definition governed_store :: EffectStoreV2 where
  "governed_store = NewEffectStoreV2\<lparr>es_effects := [''a'' \<mapsto> governed_accepted]\<rparr>"

definition issue_request :: IssueGovernedDispatchRequestV2 where
  "issue_request = \<lparr>igd_EffectID = ''a'', igd_ExpectedEffectRevision = 2, igd_PermitID = ''p'', igd_AttemptID = ''a'', igd_PermitTTL = 500\<rparr>"

definition dispatch_fence :: ExecutionFence where
  "dispatch_fence = governed_fence governed_intent (sample_scope None) (binding_hash ''CapabilityGrantSetV2'' ''{}'') (at_nano 530)"

definition dispatch_permit :: DispatchPermitV2 where
  "dispatch_permit = governed_permit sample_effect_json issue_request governed_intent (gf_review governed_facts)
     (binding_hash ''CapabilityGrantSetV2'' ''{}'') (effect_hash ''CredentialLeaseFactSetV2'' ''[]'')
     (effect_hash ''ExecutionFenceV2Binding'' ''{}'') (at_nano 30) (at_nano 530)"

lemma governed_accepted_fields [simp]:
  "ef_Intent governed_accepted = governed_intent" "ef_State governed_accepted = EffectAccepted" "ef_Revision governed_accepted = 2"
  by (simp_all add: governed_accepted_def)

lemma dispatch_fence_valid [simp]: "ExecutionFence_Validate dispatch_fence = None"
  "DigestExecutionFenceV2 sample_effect_json dispatch_fence = Inr (effect_hash ''ExecutionFenceV2Binding'' ''{}'')"
  by (simp_all add: dispatch_fence_def governed_fence_def ExecutionFence_Validate_def sample_payload_def graphic_ascii DigestExecutionFenceV2_def
      sample_effect_json_def CanonicalJSONDigest_Inr effect_labels effect_hash_def MaxCanonicalDocumentBytes_def)

lemma governed_issue_sample:
  assumes "InspectEffect s LiveContext ''a'' = Inr governed_accepted" "InspectBindingSet b LiveContext ''s'' = Inr bound_set"
  shows "governed_issue govern_json (governed_ports s b) issue_request (at_nano 30) =
     Inr \<lparr>idp_EffectID = ''a'', idp_ExpectedEffectRevision = 2, idp_Permit = dispatch_permit, idp_Fence = dispatch_fence\<rparr>"
proof -
  obtain m owners where m: "resolveEffectBindingV2 bound_set governed_intent = Inr (m, owners)" "\<not> provider_drifted governed_intent m owners"
    using provider_resolved by blast
  let ?F = governed_facts
  have x: "earliest (Add (at_nano 30) 500)
       ([TimeUnix0 1000, il_ExpiresAt (gf_lease ?F), TimeUnix0 (bs_ExpiresUnixNano bound_set), TimeUnix0 (af_ExpiresUnixNano (gf_authority ?F)),
         TimeUnix0 (dpf_ExpiresUnixNano (gf_policy ?F)), TimeUnix0 (rf_ExpiresUnixNano (gf_review ?F)), TimeUnix0 (bgf_ExpiresUnixNano (gf_budget ?F)),
         TimeUnix0 (sf_ExpiresUnixNano (gf_scope ?F))] @ map (\<lambda>c. TimeUnix0 (clf_ExpiresUnixNano c)) []) = at_nano 530"
    by (simp add: governed_facts_def Let_def bound_set_def sample_set_fields) (simp add: at_nano_def Add_def Before_def TimeUnix0_def)
  have p: "ei2_Provider governed_intent = \<lparr>prov_BindingSetID = ''s'', prov_BindingSetRevision = 1, prov_ComponentID = ''a/c'',
        prov_ManifestDigest = manifest_hash ''a/c'', prov_ArtifactDigest = sample_digest, prov_Capability = ''a/b''\<rparr>"
    by (simp add: governed_intent_def)
  have a: "After (at_nano 530) (at_nano 30)" by (simp add: After_def at_nano_def)
  have j: "fj_Budget EffectProperties.sample_fact_json = (\<lambda>x. Some ''{}'')" by (simp add: EffectProperties.sample_fact_json_def)
  have f: "sf_Scope (gf_scope ?F) = sample_scope None" by (simp add: governed_facts_def Let_def)
  show ?thesis
    unfolding governed_issue_def Let_def governed_ports_def GovernanceDispatchGatewayV2.simps issue_request_def IssueGovernedDispatchRequestV2.simps
    using facts_current(1,2,4,5) [of 30] facts_current(3) [of 30 500] budget_current [of 30] set_current [of 30] assms m x
    by (simp add: p f a j MaxDispatchPermitTTL_def dispatch_fence_valid(2) [unfolded dispatch_fence_def] del: earliest.simps append_Cons)
      (simp add: dispatch_fence_def dispatch_permit_def issue_request_def)
qed

lemma dispatch_permit_valid [simp]: "DispatchPermitV2_Validate dispatch_permit = None"
  by (simp add: DispatchPermitV2_Validate_def dispatch_permit_def governed_permit_def issue_request_def governed_facts_def sample_payload_def
      ConflictDomainBindingV2_ValidateForScope_def graphic_ascii MaxDispatchPermitTTL_def)
    (simp add: governed_intent_def sample_intent_def ProviderBindingRefV2_Validate_def
      ReviewBindingRefV2_Validate_def BudgetBindingRefV2_Validate_def
      DispatchPolicyBindingRefV2_Validate_def ExecutionScopeBindingRefV2_Validate_def IdempotencyBindingV2_Validate_def
      graphic_ascii StableTenantScopeDigestV2_def sample_scope_def digest_or_empty_def)

lemma dispatch_permit_digest [simp]: "DispatchPermitV2_DigestV2 sample_effect_json dispatch_permit = Inr permit_hash"
  by (simp add: DispatchPermitV2_DigestV2_def sample_effect_json_def CanonicalJSONDigest_Inr effect_labels effect_hash_def
      MaxCanonicalDocumentBytes_def)

lemma dispatch_permit_fields [simp]:
  "pm_ID dispatch_permit = ''p''" "pm_IssuedUnixNano dispatch_permit = 30" "pm_ExpiresUnixNano dispatch_permit = 530"
  "pm_FenceDigest dispatch_permit = effect_hash ''ExecutionFenceV2Binding'' ''{}''"
  "pm_CredentialGrantDigest dispatch_permit = effect_hash ''CredentialLeaseFactSetV2'' ''[]''"
  "permit_binds EffectProperties.sample_fact_json dispatch_permit governed_intent"
  by (simp_all add: dispatch_permit_def governed_permit_def issue_request_def permit_binds_def digest_or_empty_def)

definition dispatch_intended :: EffectFactV2 where
  "dispatch_intended = governed_accepted\<lparr>ef_State := EffectDispatchIntent, ef_Revision := 3, ef_DispatchPermitID := ''p'',
     ef_DispatchPermitDigest := permit_hash, ef_UpdatedUnixNano := 31\<rparr>"

definition dispatch_issued :: DispatchPermitFactV2 where
  "dispatch_issued = \<lparr>pf_Permit = dispatch_permit, pf_PermitDigest = permit_hash, pf_Fence = dispatch_fence,
     pf_State = DispatchPermitIssued, pf_Revision = 1, pf_EffectFactRevision = 3, pf_BegunUnixNano = 0, pf_Enforcement = None\<rparr>"

definition dispatch_begun :: DispatchPermitFactV2 where
  "dispatch_begun = dispatch_issued\<lparr>pf_State := DispatchPermitBegun, pf_Revision := 2, pf_BegunUnixNano := 41\<rparr>"

lemma dispatch_permits_valid [simp]:
  "DispatchPermitFactV2_Validate sample_effect_json dispatch_issued = None"
  "DispatchPermitFactV2_Validate sample_effect_json dispatch_begun = None"
  by (simp_all add: DispatchPermitFactV2_Validate_def dispatch_issued_def dispatch_begun_def begun_error_def)
    (simp_all add: dispatch_fence_def governed_fence_def dispatch_permit_def governed_permit_def validDispatchPermitStateV2_def)

lemma dispatch_intents_valid [simp]:
  "EffectFactV2_Validate sample_effect_json governed_accepted = None"
  "EffectFactV2_Validate sample_effect_json dispatch_intended = None"
  by (simp_all add: EffectFactV2_Validate_def dispatch_intended_def)
    (simp_all add: governed_accepted_def effect_fact_def accepted_fact_def)

lemma dispatch_accepted_moves:
  "ValidateEffectFactTransitionV2 sample_effect_json governed_accepted dispatch_intended ctx (at_nano 31) = None"
  by (simp add: ValidateEffectFactTransitionV2_def)
    (simp add: dispatch_intended_def governed_accepted_def effect_fact_def accepted_fact_def validateClosureTransitionV2_def)

lemma dispatch_issue_runs:
  "IssueDispatchPermit EffectProperties.sample_fact_json governed_store LiveContext
     \<lparr>idp_EffectID = ''a'', idp_ExpectedEffectRevision = 2, idp_Permit = dispatch_permit, idp_Fence = dispatch_fence\<rparr> (at_nano 31)
   = (governed_store\<lparr>es_effects := [''a'' \<mapsto> dispatch_intended], es_permits := [''p'' \<mapsto> dispatch_issued]\<rparr>,
      Inr \<lparr>idr_Effect = dispatch_intended, idr_Permit = dispatch_issued\<rparr>)"
proof -
  have n: "governed_accepted\<lparr>ef_State := EffectDispatchIntent, ef_Revision := 3, ef_DispatchPermitID := ''p'',
      ef_DispatchPermitDigest := permit_hash, ef_UpdatedUnixNano := 31\<rparr> = dispatch_intended"
    by (simp add: dispatch_intended_def)
  have q: "\<lparr>pf_Permit = dispatch_permit, pf_PermitDigest = permit_hash, pf_Fence = dispatch_fence, pf_State = DispatchPermitIssued,
      pf_Revision = 1, pf_EffectFactRevision = 3, pf_BegunUnixNano = 0, pf_Enforcement = None\<rparr> = dispatch_issued"
    by (simp add: dispatch_issued_def)
  have s: "es_effects governed_store = [''a'' \<mapsto> governed_accepted]" "es_permits governed_store = Map.empty" "\<not> es_loseNextIssueReply governed_store"
    by (simp_all add: governed_store_def NewEffectStoreV2_def)
  show ?thesis
    using dispatch_accepted_moves by (simp add: IssueDispatchPermit_def Let_def s n q digest_or_empty_def)
qed

definition issued_store :: EffectStoreV2 where
  "issued_store = governed_store\<lparr>es_effects := [''a'' \<mapsto> dispatch_intended], es_permits := [''p'' \<mapsto> dispatch_issued]\<rparr>"

definition begin_request :: BeginGovernedDispatchRequestV2 where
  "begin_request = \<lparr>bgd_EffectID = ''a'', bgd_ExpectedEffectRevision = 3, bgd_PermitID = ''p'', bgd_ExpectedPermitRevision = 1\<rparr>"

definition binding_world :: BindingStoreV2 where
  "binding_world = sample_store (Some (fact_c BindingBound 4)) (Some (fact_d BindingBound 4)) [''s'' \<mapsto> bound_set]"

lemma binding_world_set [simp]: "InspectBindingSet binding_world LiveContext ''s'' = Inr bound_set"
  by (simp add: InspectBindingSet_def binding_world_def sample_store_def)

lemma sample_issue:
  "Issue (\<lambda>s r. IssueDispatchPermit EffectProperties.sample_fact_json s LiveContext r (at_nano 31)) govern_json
     (Some (governed_ports governed_store binding_world)) governed_store issue_request (at_nano 30)
   = (issued_store, Inr \<lparr>idr_Effect = dispatch_intended, idr_Permit = dispatch_issued\<rparr>)"
proof -
  have "InspectEffect governed_store LiveContext ''a'' = Inr governed_accepted"
    by (simp add: InspectEffect_def governed_store_def)
  from governed_issue_sample [OF this binding_world_set] show ?thesis
    by (simp add: Issue_def dispatch_issue_runs issued_store_def)
qed

lemma governed_store_ok: "effects_ok EffectProperties.sample_fact_json governed_store"
  "effects_ok EffectProperties.sample_fact_json issued_store"
  by (auto simp: effects_ok_def governed_store_def issued_store_def NewEffectStoreV2_def) (simp_all add: dispatch_intended_def dispatch_issued_def)

lemma dispatch_begins: "ValidateDispatchPermitTransitionV2 sample_effect_json dispatch_issued dispatch_begun (at_nano 41) = None"
  by (simp add: ValidateDispatchPermitTransitionV2_def) (simp add: dispatch_issued_def dispatch_begun_def)

lemma at_execution_point:
  "ValidateDispatchAtExecutionPointV2 sample_effect_json dispatch_permit governed_intent dispatch_fence
     (governed_current governed_intent dispatch_permit (gf_review governed_facts) (sample_scope None)
       (binding_hash ''CapabilityGrantSetV2'' ''{}'') (effect_hash ''CredentialLeaseFactSetV2'' ''[]'')) (at_nano 40) = None"
proof -
  have c: "CheckFence dispatch_fence
      \<lparr>cff_Scope = sample_scope None, cff_CapabilityGrantDigest = binding_hash ''CapabilityGrantSetV2'' ''{}''\<rparr> (at_nano 40) = None"
    unfolding CheckFence_iff by simp (simp add: dispatch_fence_def governed_fence_def at_nano_def unix_epoch_def)
  show ?thesis
    by (simp add: ValidateDispatchAtExecutionPointV2_def governed_current_def c)
      (simp add: dispatch_permit_def governed_permit_def dispatch_fence_def governed_fence_def digest_or_empty_def governed_facts_def)
qed

lemma governed_begin_sample:
  "governed_begin govern_json (governed_ports issued_store binding_world) begin_request (at_nano 40) =
     Inr \<lparr>bdr_EffectID = ''a'', bdr_ExpectedEffectRevision = 3, bdr_PermitID = ''p'', bdr_ExpectedPermitRevision = 1\<rparr>"
proof -
  obtain m owners where m: "resolveEffectBindingV2 bound_set governed_intent = Inr (m, owners)" "\<not> provider_drifted governed_intent m owners"
    using provider_resolved by blast
  have s: "InspectEffect issued_store LiveContext ''a'' = Inr dispatch_intended" "InspectDispatchPermit issued_store LiveContext ''p'' = Inr dispatch_issued"
    by (simp_all add: InspectEffect_def InspectDispatchPermit_def issued_store_def)
  have i: "ef_Intent dispatch_intended = governed_intent" "ef_Revision dispatch_intended = 3" "pf_Permit dispatch_issued = dispatch_permit"
      "pf_Fence dispatch_issued = dispatch_fence" "pf_Revision dispatch_issued = 1"
    by (simp_all add: dispatch_intended_def dispatch_issued_def)
  have x: "\<not> begin_mismatch begin_request dispatch_intended dispatch_issued (at_nano 40)"
    by (simp add: begin_mismatch_def i) (simp add: begin_request_def dispatch_intended_def dispatch_issued_def)
  have r: "\<not> review_changed dispatch_permit (gf_review governed_facts)"
    by (simp add: review_changed_def dispatch_permit_def governed_permit_def)
  have p: "ei2_Provider governed_intent = \<lparr>prov_BindingSetID = ''s'', prov_BindingSetRevision = 1, prov_ComponentID = ''a/c'',
        prov_ManifestDigest = manifest_hash ''a/c'', prov_ArtifactDigest = sample_digest, prov_Capability = ''a/b''\<rparr>"
    by (simp add: governed_intent_def)
  have j: "fj_Budget EffectProperties.sample_fact_json = (\<lambda>x. Some ''{}'')" by (simp add: EffectProperties.sample_fact_json_def)
  have f: "sf_Scope (gf_scope governed_facts) = sample_scope None" by (simp add: governed_facts_def Let_def)
  have t: "TimeSub (TimeUnix0 530) (at_nano 40) = 490" by (simp add: TimeSub_def TimeUnix0_def at_nano_def)
  have q: "bgd_EffectID begin_request = ''a''" "bgd_PermitID begin_request = ''p''" by (simp_all add: begin_request_def)
  show ?thesis
    unfolding governed_begin_def Let_def governed_ports_def GovernanceDispatchGatewayV2.simps q
    using facts_current(1,2,4,5) [of 40] facts_current(3) [of 40 490] budget_current [of 40] set_current [of 40] m x at_execution_point
    by (simp add: p f j s i t r)
qed

lemma begun_store_steps:
  "BeginDispatch EffectProperties.sample_fact_json issued_store LiveContext
     \<lparr>bdr_EffectID = ''a'', bdr_ExpectedEffectRevision = 3, bdr_PermitID = ''p'', bdr_ExpectedPermitRevision = 1\<rparr> (at_nano 41)
   = (issued_store\<lparr>es_permits := [''p'' \<mapsto> dispatch_begun]\<rparr>, Inr dispatch_begun)"
proof -
  have n: "dispatch_issued\<lparr>pf_State := DispatchPermitBegun, pf_Revision := 2, pf_BegunUnixNano := 41\<rparr> = dispatch_begun"
    by (simp add: dispatch_begun_def)
  have i: "ef_State dispatch_intended = EffectDispatchIntent" "ef_Revision dispatch_intended = 3" "ef_DispatchPermitID dispatch_intended = ''p''"
    "pf_Revision dispatch_issued = 1" "pf_EffectFactRevision dispatch_issued = 3" "pm_ID (pf_Permit dispatch_issued) = ''p''"
    by (simp_all add: dispatch_intended_def dispatch_issued_def)
  have s: "es_effects issued_store = [''a'' \<mapsto> dispatch_intended]" "es_permits issued_store = [''p'' \<mapsto> dispatch_issued]"
    "\<not> es_loseNextBeginReply issued_store"
    by (simp_all add: issued_store_def governed_store_def NewEffectStoreV2_def)
  show ?thesis using dispatch_begins by (simp add: BeginDispatch_def Let_def n i s)
qed

lemma sample_begin:
  "Begin (\<lambda>s b. BeginDispatch EffectProperties.sample_fact_json s LiveContext b (at_nano 41)) govern_json
     (Some (governed_ports issued_store binding_world)) issued_store begin_request (at_nano 40)
   = (issued_store\<lparr>es_permits := [''p'' \<mapsto> dispatch_begun]\<rparr>, Inr dispatch_begun)"
  by (simp add: Begin_def governed_begin_sample begun_store_steps)

end
