(* ===== verification/GatewayProperties.thy ===== *)
theory GatewayProperties
  imports GatewaySamples
begin

text \<open>
  The properties of the governance gateway, over the effect store, the binding store and the facts its
  other ports return.
\<close>

section \<open>Issue and begin\<close>

text \<open>
  C23: A permit that \<open>Issue\<close> returns was granted on current facts: at the gateway's one clock reading the
  effect was accepted, the lease, binding set, authority, policy, review, budget, credentials and execution
  scope it read were current and bound to the intent, and the fence of the permit expires after that
  reading, within the requested time to live, and no later than any of those facts or the intent.
\<close>

theorem governed_issue_safe:
  assumes "Issue (\<lambda>s r. IssueDispatchPermit K s ctx r now') J (Some P) s request now = (s', Inr x)"
  shows "\<exists>effect F. gw_Effect P (igd_EffectID request) = Inr effect \<and> ef_State effect = EffectAccepted
    \<and> facts_read P (ef_Intent effect) F \<and> governed J (ef_Intent effect) (igd_PermitTTL request) now F
    \<and> (\<forall>l \<in> set (expiries (ef_Intent effect) F). fe_ExpiresAt (pf_Fence (idr_Permit x)) \<le> l)
    \<and> now < fe_ExpiresAt (pf_Fence (idr_Permit x)) \<and> fe_ExpiresAt (pf_Fence (idr_Permit x)) \<le> Add now (igd_PermitTTL request)
    \<and> fe_Scope (pf_Fence (idr_Permit x)) = sf_Scope (gf_scope F) \<and> es_permits s' (igd_PermitID request) = Some (idr_Permit x)"
  by (rule owner.Issue_governed [of K "(ctx, now')", simplified, OF assms]) blast

theorem governed_issue_safe_witness:
  "\<exists>effect F. gw_Effect (governed_ports governed_store binding_world) ''a'' = Inr effect \<and> ef_State effect = EffectAccepted
    \<and> governed govern_json (ef_Intent effect) 500 (at_nano 30) F \<and> fe_ExpiresAt dispatch_fence \<le> Add (at_nano 30) 500"
proof -
  have r: "igd_EffectID issue_request = ''a''" "igd_PermitTTL issue_request = 500" "pf_Fence dispatch_issued = dispatch_fence"
    by (simp_all add: issue_request_def dispatch_issued_def)
  show ?thesis using governed_issue_safe [OF sample_issue] unfolding r IssueDispatchPermitResultV2.simps by blast
qed



text \<open>
  Two dispatches never begin on one permit: once a gateway has begun a dispatch, no gateway, with
  whatever ports and clock, begins another on the same permit, whatever operations of the effect store come
  in between.
\<close>

theorem governed_begin_once:
  assumes "effects_ok K s" "Begin (\<lambda>s b. BeginDispatch K s ctx b m) J (Some P) s request now = (t, Inr p)"
    "effect_run K t u" "Begin (\<lambda>s b. BeginDispatch K s ctx' b m') J' (Some P') u request' now' = (v, Inr p')"
  shows "pm_ID (pf_Permit p') \<noteq> pm_ID (pf_Permit p)"
  by (rule owner.Begin_once [of K s "(ctx, m)" J P request now t p u "(ctx', m')" J' P' request' now' v p']) (use assms in simp_all)

theorem governed_begin_once_witness:
  "\<exists>t. Begin (\<lambda>s b. BeginDispatch EffectProperties.sample_fact_json s LiveContext b (at_nano 41)) govern_json
      (Some (governed_ports issued_store binding_world)) issued_store begin_request (at_nano 40) = (t, Inr dispatch_begun)
    \<and> snd (Begin (\<lambda>s b. BeginDispatch EffectProperties.sample_fact_json s LiveContext b (at_nano 43)) govern_json
      (Some (governed_ports t binding_world)) t begin_request (at_nano 42)) \<noteq> Inr dispatch_begun"
  using sample_begin governed_begin_once [OF governed_store_ok(2) sample_begin effect_stay] by (metis prod.collapse)

section \<open>A revoked binding set\<close>

lemma inactive_set_kept:
  assumes "binding_run careful K s t" "bst_sets s i = Some c" "bs_State c \<noteq> BindingSetActive"
  shows "bst_sets t i = Some c"
  using assms
proof (induction rule: binding_run.induct)
  case (binding_go s t u)
  then have c: "bst_sets t i = Some c" by blast
  from binding_go(2) show ?case
  proof (cases rule: binding_step.cases)
    case (create_binding ctx f x)
    from create_binding show ?thesis using c by (cases rule: CreateBinding_cases) auto
  next
    case (swap_binding ctx q now x)
    from swap_binding show ?thesis using c by (cases rule: CompareAndSwapBinding_cases) auto
  next
    case (commit_set ctx q now y)
    from commit_set show ?thesis using c by (cases rule: CommitBindingSet_cases) (auto simp: committed_set_def)
  next
    case (swap_set ctx b y)
    from swap_set show ?thesis using c binding_go(5)
      by (cases rule: CompareAndSwapBindingSet_cases) (auto simp: ValidateBindingSetTransitionV2_def)
  next
    case (renew_set attestations ctx r now y)
    from renew_set(1) show ?thesis using c binding_go(5) by (cases rule: RenewBindingSetV2_cases) auto
  next
    case lose_commit
    then show ?thesis using c by (simp add: LoseNextCommitReply_def)
  qed
qed

lemma inactive_set_refused:
  assumes "gw_Effect P e = Inr effect" "prov_BindingSetID (ei2_Provider (ef_Intent effect)) = i"
    "gw_BindingSet P i = Inr c" "bs_State c \<noteq> BindingSetActive"
  shows "igd_EffectID r = e \<Longrightarrow> governed_issue J P r now \<noteq> Inr x" "bgd_EffectID q = e \<Longrightarrow> governed_begin J P q now \<noteq> Inr y"
proof -
  have no: "\<not> governed J (ef_Intent effect) ttl now F" if "facts_read P (ef_Intent effect) F" for ttl now F
  proof -
    have "gw_BindingSet P i = Inr (gf_set F)" using that assms(2) unfolding facts_read_def by simp
    then show ?thesis using assms(3,4) unfolding governed_def by simp
  qed
  show "governed_issue J P r now \<noteq> Inr x" if "igd_EffectID r = e"
  proof
    assume "governed_issue J P r now = Inr x"
    then obtain effect' F where "gw_Effect P (igd_EffectID r) = Inr effect'" "facts_read P (ef_Intent effect') F"
      "governed J (ef_Intent effect') (igd_PermitTTL r) now F" by (rule governed_issue_Inr) blast
    then show False using no that assms(1) by simp
  qed
  show "governed_begin J P q now \<noteq> Inr y" if "bgd_EffectID q = e"
  proof
    assume "governed_begin J P q now = Inr y"
    then show False
    proof (rule governed_begin_Inr)
      fix effect' permit F
      assume "gw_Effect P (bgd_EffectID q) = Inr effect'" "facts_read P (ef_Intent effect') F"
        "governed J (ef_Intent effect') (TimeSub (TimeUnix0 (pm_ExpiresUnixNano (pf_Permit permit))) now) now F"
      then show False using no that assms(1) by simp
    qed
  qed
qed

text \<open>
  C25: Revoking a binding set stops dispatch for good: once a set is not active, then after any further
  history of the binding store, a gateway that reads that store refuses to issue a permit and to begin a
  dispatch for every effect bound to the set, and leaves the effect store as it was -- even when a permit had
  been issued before.
\<close>

theorem inactive_set_stops_dispatch:
  assumes "InspectBindingSet b LiveContext i = Inr c" "bs_State c \<noteq> BindingSetActive" "binding_run careful KB b b'"
    "gw_BindingSet P i = InspectBindingSet b' LiveContext i" "gw_Effect P e = Inr effect"
    "prov_BindingSetID (ei2_Provider (ef_Intent effect)) = i" "igd_EffectID r = e" "bgd_EffectID q = e"
  shows "\<exists>x y. Issue (\<lambda>s r. IssueDispatchPermit K s ctx r m) J (Some P) s r now = (s, Inl x)
    \<and> Begin (\<lambda>s q. BeginDispatch K s ctx q m) J (Some P) s q now = (s, Inl y)"
proof -
  have "bst_sets b i = Some c" using assms(1) by (auto simp: InspectBindingSet_def split: option.splits)
  then have "gw_BindingSet P i = Inr c"
    using inactive_set_kept [OF assms(3) _ assms(2)] assms(4) by (simp add: InspectBindingSet_def)
  note refused = inactive_set_refused [OF assms(5,6) this assms(2)]
  obtain x where "governed_issue J P r now = Inl x" using refused(1) [OF assms(7)] by (cases "governed_issue J P r now") auto
  moreover obtain y where "governed_begin J P q now = Inl y" using refused(2) [OF assms(8)] by (cases "governed_begin J P q now") auto
  ultimately show ?thesis by (simp add: Issue_def Begin_def)
qed

definition revoked_set :: BindingSetFactV2 where
  "revoked_set = bound_set\<lparr>bs_State := BindingSetRevoked, bs_Revision := 2, bs_InvalidationReason := ''x''\<rparr>"

lemma bound_set_revoked:
  "CompareAndSwapBindingSet binding_world LiveContext \<lparr>bsc_ExpectedRevision = 1, bsc_Next = revoked_set\<rparr>
     = (binding_world\<lparr>bst_sets := [''s'' \<mapsto> revoked_set]\<rparr>, Inr revoked_set)"
proof -
  have f: "bs_ID revoked_set = ''s''" "bs_Revision revoked_set = 2" "bs_Revision bound_set = 1" "bst_sets binding_world = [''s'' \<mapsto> bound_set]"
    by (simp_all add: revoked_set_def bound_set_def sample_set_fields binding_world_def sample_store_def)
  have v: "BindingSetFactV2_Validate revoked_set = None"
    using bound_set_valid by (simp add: BindingSetFactV2_Validate_def revoked_set_def bound_set_def sample_set_fields
        validBindingSetStateV2_def graphic_ascii)
  have "ValidateBindingSetTransitionV2 bound_set revoked_set = None"
    by (simp add: ValidateBindingSetTransitionV2_def v) (simp add: revoked_set_def bound_set_def sample_set_fields)
  then show ?thesis by (simp add: CompareAndSwapBindingSet_def f)
qed

theorem inactive_set_stops_dispatch_witness:
  "\<exists>b x y. CompareAndSwapBindingSet binding_world LiveContext \<lparr>bsc_ExpectedRevision = 1, bsc_Next = revoked_set\<rparr> = (b, Inr revoked_set)
    \<and> Issue (\<lambda>s r. IssueDispatchPermit EffectProperties.sample_fact_json s LiveContext r (at_nano 31)) govern_json
        (Some (governed_ports issued_store b)) issued_store issue_request (at_nano 30) = (issued_store, Inl x)
    \<and> Begin (\<lambda>s q. BeginDispatch EffectProperties.sample_fact_json s LiveContext q (at_nano 31)) govern_json
        (Some (governed_ports issued_store b)) issued_store begin_request (at_nano 30) = (issued_store, Inl y)"
proof -
  let ?b = "binding_world\<lparr>bst_sets := [''s'' \<mapsto> revoked_set]\<rparr>"
  have i: "InspectBindingSet ?b LiveContext ''s'' = Inr revoked_set" by (simp add: InspectBindingSet_def)
  have s: "bs_State revoked_set \<noteq> BindingSetActive" by (simp add: revoked_set_def)
  have e: "gw_Effect (governed_ports issued_store ?b) ''a'' = Inr dispatch_intended"
    by (simp add: governed_ports_def InspectEffect_def issued_store_def)
  have p: "prov_BindingSetID (ei2_Provider (ef_Intent dispatch_intended)) = ''s''"
    by (simp add: dispatch_intended_def) (simp add: governed_intent_def)
  have g: "gw_BindingSet (governed_ports issued_store ?b) ''s'' = InspectBindingSet ?b LiveContext ''s''" by (simp add: governed_ports_def)
  have r: "igd_EffectID issue_request = ''a''" "bgd_EffectID begin_request = ''a''" by (simp_all add: issue_request_def begin_request_def)
  show ?thesis using bound_set_revoked inactive_set_stops_dispatch [OF i s binding_stay g e p r] by blast
qed

section \<open>Recovery\<close>

lemma permit_decided:
  assumes "DispatchPermitFactV2_Validate J q = None"
  shows "validDispatchPermitStateV2 (pf_State q)" "\<exists>d. permit_decision f q now (pf_State q) = Some d"
proof -
  show v: "validDispatchPermitStateV2 (pf_State q)"
    using assms by (auto simp: DispatchPermitFactV2_Validate_def split: sum.splits)
  show "\<exists>d. permit_decision f q now (pf_State q) = Some d"
    using v by (cases "pf_State q") (auto simp: validDispatchPermitStateV2_def)
qed

lemma plan_decision:
  assumes "PlanEffectRecoveryV2 J f p now = Inr d"
  obtains (intent) q where "ef_State f = EffectDispatchIntent" "p = Some q" "DispatchPermitFactV2_Validate J q = None"
      "permit_decision f q now (pf_State q) = Some d"
  | (other) "ef_State f \<noteq> EffectDispatchIntent" "d = state_decision (ef_State f)"
proof (cases "ef_State f = EffectDispatchIntent")
  case True
  then obtain q where q: "p = Some q" "DispatchPermitFactV2_Validate J q = None"
    using assms by (auto simp: PlanEffectRecoveryV2_def split: option.splits)
  then obtain d' where "permit_decision f q now (pf_State q) = Some d'" using permit_decided(2) by blast
  with q True assms show thesis by (intro intent) (auto simp: PlanEffectRecoveryV2_def)
next
  case False
  with assms show thesis by (intro other) (auto simp: PlanEffectRecoveryV2_def)
qed

text \<open>
  The planner calls a recovery automatic exactly when the provider cannot have been reached: the outcome is
  not open, and a dispatch intent has a permit that did not begin and cannot begin any more.
\<close>

theorem automatic_recovery_iff:
  assumes "PlanEffectRecoveryV2 J f p now = Inr d"
  shows "erd_AutomaticSafe d \<longleftrightarrow>
    (if ef_State f = EffectDispatchIntent
     then pf_State (the p) = DispatchPermitExpired \<or> pf_State (the p) = DispatchPermitRevoked
       \<or> pf_State (the p) = DispatchPermitIssued
         \<and> (TimeUnix0 (pm_ExpiresUnixNano (pf_Permit (the p))) \<le> now \<or> TimeUnix0 (ei2_ExpiresUnixNano (ef_Intent f)) \<le> now)
     else ef_State f \<noteq> EffectUnknownOutcome \<and> ef_State f \<noteq> EffectDispatched)"
  using assms
proof (cases rule: plan_decision)
  case (intent q)
  then show ?thesis using permit_decided(1) [OF intent(3)]
    by (cases "pf_State q") (auto simp: Before_def not_less validDispatchPermitStateV2_def split: if_splits)
next
  case other
  then show ?thesis by (simp add: state_decision_def)
qed

theorem automatic_recovery_iff_witness:
  "\<exists>d e. PlanEffectRecoveryV2 sample_effect_json dispatch_intended (Some dispatch_issued) (at_nano 600) = Inr d \<and> erd_AutomaticSafe d
    \<and> PlanEffectRecoveryV2 sample_effect_json dispatch_intended (Some dispatch_begun) (at_nano 600) = Inr e \<and> \<not> erd_AutomaticSafe e"
proof -
  have f: "ef_State dispatch_intended = EffectDispatchIntent" "pf_State dispatch_issued = DispatchPermitIssued"
      "pf_State dispatch_begun = DispatchPermitBegun" "pm_ExpiresUnixNano (pf_Permit dispatch_issued) = 530"
      "ef_UpdatedUnixNano dispatch_intended = 31"
    by (simp_all add: dispatch_intended_def dispatch_issued_def dispatch_begun_def)
  have d: "PlanEffectRecoveryV2 sample_effect_json dispatch_intended (Some dispatch_issued) (at_nano 600)
      = Inr \<lparr>erd_Action = RecoveryRejectPreDispatch, erd_AutomaticSafe = True\<rparr>"
    "PlanEffectRecoveryV2 sample_effect_json dispatch_intended (Some dispatch_begun) (at_nano 600)
      = Inr \<lparr>erd_Action = RecoveryCreateInspectEffect, erd_AutomaticSafe = False\<rparr>"
    by (simp_all add: PlanEffectRecoveryV2_def f)
  have "TimeUnix0 530 \<le> at_nano 600" by (simp add: TimeUnix0_def at_nano_def)
  then show ?thesis using automatic_recovery_iff [OF d(1)] automatic_recovery_iff [OF d(2)] d by (simp add: f)
qed

text \<open>
  A permit that the planner rejects is dead: it has left the state issued without a dispatch, or it has expired. This needs that
  the permit does not outlive the intent, because the planner also rejects a permit whose intent has expired.
\<close>

lemma rejected_permit_refused:
  assumes "effects_ok K s" "es_permits s k = Some p" "PlanEffectRecoveryV2 (fj_effect K) f (Some p) now = Inr d"
    "erd_Action d = RecoveryRejectPreDispatch" "TimeUnix0 (pm_ExpiresUnixNano (pf_Permit p)) \<le> TimeUnix0 (ei2_ExpiresUnixNano (ef_Intent f))"
    "effect_run K s u" "now \<le> now'" "bdr_PermitID b = k"
  shows "\<exists>e. BeginDispatch K u LiveContext b now' = (u, Inl e)"
proof -
  obtain q where q: "es_permits u k = Some q" "later_permit p q" using effect_run_later [OF assms(6,1)] assms(2) by blast
  have dead: "pf_State p \<noteq> DispatchPermitIssued \<and> pf_State p \<noteq> DispatchPermitBegun \<or> \<not> Before now (TimeUnix0 (pm_ExpiresUnixNano (pf_Permit p)))"
    using assms(3)
  proof (cases rule: plan_decision)
    case (intent p')
    then show ?thesis using assms(4,5) by (cases "pf_State p'") (auto simp: Before_def split: if_splits)
  next
    case other
    then show ?thesis using assms(4) by (simp add: state_decision_def split: if_splits)
  qed
  have refused: "ValidateDispatchPermitTransitionV2 (fj_effect K) q
      (q\<lparr>pf_State := DispatchPermitBegun, pf_Revision := m, pf_BegunUnixNano := w\<rparr>) now' = None \<longleftrightarrow> False" for m w
    using dead q(2) assms(7)
    by (auto simp: ValidateDispatchPermitTransitionV2_def later_permit_def Before_def split: if_splits option.splits)
  show ?thesis using q(1) assms(8)
    by (auto simp: BeginDispatch_def Let_def guarded_def refused split: option.splits)
qed

text \<open>The permit that a gateway puts into the store, whether or not its reply arrives, expires no later than its intent.\<close>

lemma issue_stores_request:
  assumes "IssueDispatchPermit K s ctx r now = (s', y)" "es_permits s k = None" "es_permits s' k = Some p"
  shows "pf_Permit p = idp_Permit r"
  using assms
  by (auto simp: IssueDispatchPermit_def Let_def elim!: guarded_cases split: option.splits if_splits)

lemma time_of_later:
  assumes "unix_epoch \<le> t" "t \<le> TimeUnix0 w" shows "TimeUnix0 (UnixNano t) = t"
proof -
  define k where "k = t - unix_epoch"
  have "0 \<le> k" "k < 2 ^ 63" using assms sint_lt [of w] by (simp_all add: TimeUnix0_def k_def)
  then have "sint (word_of_int k :: i64) = k" by (simp add: signed_of_int signed_take_bit_int_eq_self)
  moreover have "t = unix_epoch + k" by (simp add: k_def)
  ultimately show ?thesis unfolding TimeUnix0_def UnixNano_def by (simp only: add_diff_cancel_left')
qed

lemma gateway_permit_within_intent:
  assumes "Issue (\<lambda>s r. IssueDispatchPermit K s ctx r m) J (Some P) s request t = (s', y)" "unix_epoch \<le> t"
    "es_permits s k = None" "es_permits s' k = Some p" "gw_Effect P (igd_EffectID request) = Inr g"
  shows "TimeUnix0 (pm_ExpiresUnixNano (pf_Permit p)) \<le> TimeUnix0 (ei2_ExpiresUnixNano (ef_Intent g))" "effect_run K s s'"
proof -
  from assms(1,3,4) obtain r where r: "governed_issue J P request t = Inr r" "IssueDispatchPermit K s ctx r m = (s', y)"
    by (auto simp: Issue_def split: sum.splits)
  note p = issue_stores_request [OF r(2) assms(3,4)]
  obtain effect F where g: "gw_Effect P (igd_EffectID request) = Inr effect"
      "\<forall>l \<in> set (expiries (ef_Intent effect) F). fe_ExpiresAt (idp_Fence r) \<le> l" "t < fe_ExpiresAt (idp_Fence r)"
      "pm_ExpiresUnixNano (idp_Permit r) = UnixNano (fe_ExpiresAt (idp_Fence r))"
    by (rule governed_issue_Inr [OF r(1)]) blast
  have e: "fe_ExpiresAt (idp_Fence r) \<le> TimeUnix0 (ei2_ExpiresUnixNano (ef_Intent g))" using g(1,2) assms(5) by (simp add: expiries_def)
  show "TimeUnix0 (pm_ExpiresUnixNano (pf_Permit p)) \<le> TimeUnix0 (ei2_ExpiresUnixNano (ef_Intent g))"
    using time_of_later [OF _ e] assms(2) g(3,4) e p by simp
  show "effect_run K s s'" using effect_go [OF effect_stay owner [OF issue_permit [OF r(2)]]] .
qed

text \<open>
  C26: For a permit that a gateway issued, a recovery that the planner answers with a rejection is final. The gateway
  reads the effect and a clock that is not before 1970, and puts a new permit into the effect store, whether or not its
  reply arrives; then, after any operations of that store, the planner is asked about the permit as it is then and an
  effect with the intent that the gateway read. If it answers with a rejection, no dispatch begins on the permit at the
  same or any later time, whatever the store did in between: a request in flight is refused and changes nothing.
\<close>

theorem rejected_recovery_is_final:
  assumes "effects_ok K s0" "InspectDispatchPermit s0 LiveContext (igd_PermitID request) = Inl e0"
    "Issue (\<lambda>s r. IssueDispatchPermit K s ctx r m) J (Some P) s0 request t0 = (s1, y)" "unix_epoch \<le> t0"
    "gw_Effect P (igd_EffectID request) = Inr g" "InspectDispatchPermit s1 LiveContext (igd_PermitID request) = Inr p1"
    "effect_run K s1 s" "InspectDispatchPermit s LiveContext (igd_PermitID request) = Inr p" "ef_Intent f = ef_Intent g"
    "PlanEffectRecoveryV2 (fj_effect K) f (Some p) now = Inr d" "erd_Action d = RecoveryRejectPreDispatch"
    "effect_run K s u" "now \<le> now'" "bdr_PermitID b = igd_PermitID request"
  shows "\<exists>e. BeginDispatch K u LiveContext b now' = (u, Inl e)"
proof -
  have st: "es_permits s0 (igd_PermitID request) = None" "es_permits s1 (igd_PermitID request) = Some p1"
    "es_permits s (igd_PermitID request) = Some p"
    using assms(2,6,8) by (auto simp: InspectDispatchPermit_def split: option.splits)
  note w = gateway_permit_within_intent [OF assms(3,4) st(1,2) assms(5)]
  have ok: "effects_ok K s1" "effects_ok K s" using effect_run_later w(2) assms(1,7) by blast+
  have "pf_Permit p = pf_Permit p1" using effect_run_later [OF assms(7) ok(1)] st(2,3) by (fastforce simp: later_permit_def)
  with w(1) assms(9) have "TimeUnix0 (pm_ExpiresUnixNano (pf_Permit p)) \<le> TimeUnix0 (ei2_ExpiresUnixNano (ef_Intent f))" by simp
  from rejected_permit_refused [OF ok(2) st(3) assms(10,11) this assms(12-14)] show ?thesis .
qed

theorem rejected_recovery_is_final_witness:
  "\<exists>d e. PlanEffectRecoveryV2 sample_effect_json dispatch_intended (Some dispatch_issued) (at_nano 600) = Inr d
    \<and> BeginDispatch EffectProperties.sample_fact_json issued_store LiveContext
        \<lparr>bdr_EffectID = ''a'', bdr_ExpectedEffectRevision = 3, bdr_PermitID = ''p'', bdr_ExpectedPermitRevision = 1\<rparr> (at_nano 601)
      = (issued_store, Inl e)"
proof -
  have f: "ef_State dispatch_intended = EffectDispatchIntent" "pf_State dispatch_issued = DispatchPermitIssued"
      "pm_ExpiresUnixNano (pf_Permit dispatch_issued) = 530" "ef_UpdatedUnixNano dispatch_intended = 31"
      "ef_Intent dispatch_intended = ef_Intent governed_accepted"
    by (simp_all add: dispatch_intended_def dispatch_issued_def)
  have d: "PlanEffectRecoveryV2 (fj_effect EffectProperties.sample_fact_json) dispatch_intended (Some dispatch_issued) (at_nano 600)
      = Inr \<lparr>erd_Action = RecoveryRejectPreDispatch, erd_AutomaticSafe = True\<rparr>"
    by (simp add: PlanEffectRecoveryV2_def f)
  have r: "igd_PermitID issue_request = ''p''" "igd_EffectID issue_request = ''a''" by (simp_all add: issue_request_def)
  have i: "\<exists>e0. InspectDispatchPermit governed_store LiveContext (igd_PermitID issue_request) = Inl e0"
    "InspectDispatchPermit issued_store LiveContext (igd_PermitID issue_request) = Inr dispatch_issued"
    "gw_Effect (governed_ports governed_store binding_world) (igd_EffectID issue_request) = Inr governed_accepted"
    by (simp_all add: r InspectDispatchPermit_def issued_store_def governed_store_def NewEffectStoreV2_def governed_ports_def InspectEffect_def)
  have t: "unix_epoch \<le> at_nano 30" "at_nano 600 \<le> at_nano 601" by (simp_all add: at_nano_def)
  obtain e0 where e0: "InspectDispatchPermit governed_store LiveContext (igd_PermitID issue_request) = Inl e0" using i(1) by blast
  show ?thesis
    using rejected_recovery_is_final [OF governed_store_ok(1) e0 sample_issue t(1) i(3,2) effect_stay i(2) f(5) d _ effect_stay t(2)] d r by simp
qed

text \<open>
  The effect store itself does not compare a permit with the expiry of its intent, neither when it is issued nor when its dispatch
  begins. A permit issued past the gateway that outlives its intent is called safe to reject automatically and still begins later.
\<close>

definition outliving_issued :: DispatchPermitFactV2 where
  "outliving_issued = dispatch_issued\<lparr>pf_Permit := dispatch_permit\<lparr>pm_ExpiresUnixNano := 2000\<rparr>\<rparr>"

definition outliving_store :: EffectStoreV2 where
  "outliving_store = issued_store\<lparr>es_permits := [''p'' \<mapsto> outliving_issued]\<rparr>"

lemma outliving_permit:
  "DispatchPermitV2_Validate (dispatch_permit\<lparr>pm_ExpiresUnixNano := 2000\<rparr>) = None"
  "DispatchPermitV2_DigestV2 sample_effect_json (dispatch_permit\<lparr>pm_ExpiresUnixNano := 2000\<rparr>) = Inr permit_hash"
  "permit_binds EffectProperties.sample_fact_json (dispatch_permit\<lparr>pm_ExpiresUnixNano := 2000\<rparr>) governed_intent"
proof -
  show v: "DispatchPermitV2_Validate (dispatch_permit\<lparr>pm_ExpiresUnixNano := 2000\<rparr>) = None"
    using dispatch_permit_valid by (simp add: DispatchPermitV2_Validate_def MaxDispatchPermitTTL_def)
  then show "DispatchPermitV2_DigestV2 sample_effect_json (dispatch_permit\<lparr>pm_ExpiresUnixNano := 2000\<rparr>) = Inr permit_hash"
    by (simp add: DispatchPermitV2_DigestV2_def sample_effect_json_def CanonicalJSONDigest_Inr effect_labels effect_hash_def
      MaxCanonicalDocumentBytes_def)
  show "permit_binds EffectProperties.sample_fact_json (dispatch_permit\<lparr>pm_ExpiresUnixNano := 2000\<rparr>) governed_intent"
    using dispatch_permit_fields(6) by (simp add: permit_binds_def)
qed

lemma outliving_valid:
  assumes "p = outliving_issued \<or> p = outliving_issued\<lparr>pf_State := DispatchPermitBegun, pf_Revision := 2, pf_BegunUnixNano := 1500\<rparr>"
  shows "DispatchPermitFactV2_Validate sample_effect_json p = None"
  using assms dispatch_permits_valid
  by (auto simp: DispatchPermitFactV2_Validate_def outliving_issued_def outliving_permit dispatch_issued_def begun_error_def validDispatchPermitStateV2_def)

lemma outliving_permit_issued:
  "IssueDispatchPermit EffectProperties.sample_fact_json governed_store LiveContext
     \<lparr>idp_EffectID = ''a'', idp_ExpectedEffectRevision = 2, idp_Permit = dispatch_permit\<lparr>pm_ExpiresUnixNano := 2000\<rparr>, idp_Fence = dispatch_fence\<rparr> (at_nano 31)
   = (outliving_store, Inr \<lparr>idr_Effect = dispatch_intended, idr_Permit = outliving_issued\<rparr>)"
proof -
  have n: "governed_accepted\<lparr>ef_State := EffectDispatchIntent, ef_Revision := 3, ef_DispatchPermitID := ''p'',
      ef_DispatchPermitDigest := permit_hash, ef_UpdatedUnixNano := 31\<rparr> = dispatch_intended"
    by (simp add: dispatch_intended_def)
  have q: "\<lparr>pf_Permit = dispatch_permit\<lparr>pm_ExpiresUnixNano := 2000\<rparr>, pf_PermitDigest = permit_hash, pf_Fence = dispatch_fence,
      pf_State = DispatchPermitIssued, pf_Revision = 1, pf_EffectFactRevision = 3, pf_BegunUnixNano = 0, pf_Enforcement = None\<rparr> = outliving_issued"
    by (simp add: outliving_issued_def dispatch_issued_def)
  have s: "es_effects governed_store = [''a'' \<mapsto> governed_accepted]" "es_permits governed_store = Map.empty" "\<not> es_loseNextIssueReply governed_store"
    by (simp_all add: governed_store_def NewEffectStoreV2_def)
  show ?thesis
    using dispatch_accepted_moves
    by (simp add: IssueDispatchPermit_def Let_def s n q outliving_permit outliving_valid digest_or_empty_def outliving_store_def issued_store_def)
qed

theorem outliving_permit_begins:
  "\<exists>d p. PlanEffectRecoveryV2 sample_effect_json dispatch_intended (Some outliving_issued) (at_nano 1500) = Inr d
    \<and> erd_Action d = RecoveryRejectPreDispatch \<and> erd_AutomaticSafe d
    \<and> snd (BeginDispatch EffectProperties.sample_fact_json outliving_store LiveContext
        \<lparr>bdr_EffectID = ''a'', bdr_ExpectedEffectRevision = 3, bdr_PermitID = ''p'', bdr_ExpectedPermitRevision = 1\<rparr> (at_nano 1500)) = Inr p
    \<and> pf_State p = DispatchPermitBegun"
proof -
  let ?b = "outliving_issued\<lparr>pf_State := DispatchPermitBegun, pf_Revision := 2, pf_BegunUnixNano := 1500\<rparr>"
  have f: "ef_State dispatch_intended = EffectDispatchIntent" "ef_Intent dispatch_intended = governed_intent" "ef_UpdatedUnixNano dispatch_intended = 31"
    "ef_Revision dispatch_intended = 3" "ef_DispatchPermitID dispatch_intended = ''p''" "pf_State outliving_issued = DispatchPermitIssued"
    "pf_Revision outliving_issued = 1" "pf_EffectFactRevision outliving_issued = 3" "pm_ID (pf_Permit outliving_issued) = ''p''"
    by (simp_all add: dispatch_intended_def outliving_issued_def dispatch_issued_def)
  have s: "es_effects outliving_store = [''a'' \<mapsto> dispatch_intended]" "es_permits outliving_store = [''p'' \<mapsto> outliving_issued]"
    "\<not> es_loseNextBeginReply outliving_store"
    by (simp_all add: outliving_store_def issued_store_def governed_store_def NewEffectStoreV2_def)
  have v: "ValidateDispatchPermitTransitionV2 sample_effect_json outliving_issued ?b (at_nano 1500) = None"
    using outliving_valid by (simp add: ValidateDispatchPermitTransitionV2_def) (simp add: outliving_issued_def dispatch_issued_def)
  have d: "PlanEffectRecoveryV2 sample_effect_json dispatch_intended (Some outliving_issued) (at_nano 1500)
      = Inr \<lparr>erd_Action = RecoveryRejectPreDispatch, erd_AutomaticSafe = True\<rparr>"
    by (simp add: PlanEffectRecoveryV2_def f outliving_valid)
  show ?thesis using d v by (simp add: BeginDispatch_def Let_def f s)
qed

text \<open>
  The planner does not compare the permit with the effect: handed the permit of another effect that has
  expired, it calls the rejection of an effect whose own dispatch has begun automatic.
\<close>

lemma recovery_trusts_any_permit:
  assumes "EffectFactV2_Validate J f = None" "ef_State f = EffectDispatchIntent" "\<not> IsZero now"
    "sint (ef_UpdatedUnixNano f) \<le> sint (UnixNano now)" "DispatchPermitFactV2_Validate J p = None" "pf_State p = DispatchPermitBegun"
    "DispatchPermitFactV2_Validate J q = None" "pf_State q = DispatchPermitExpired"
  shows "PlanEffectRecoveryV2 J f (Some p) now = Inr \<lparr>erd_Action = RecoveryCreateInspectEffect, erd_AutomaticSafe = False\<rparr>"
    "PlanEffectRecoveryV2 J f (Some q) now = Inr \<lparr>erd_Action = RecoveryRejectPreDispatch, erd_AutomaticSafe = True\<rparr>"
  using assms by (simp_all add: PlanEffectRecoveryV2_def)

end
