(* ===== verification/EvidenceGateway.thy ===== *)
theory EvidenceGateway
  imports LedgerStore BindingFact EffectFact
begin

text \<open>
  The governance gateway in front of the evidence ledger, \<open>runtime/control/evidence_governance_v2.go\<close>: before
  a source is registered or renewed, and before each append, it reads the facts that allow the source to
  write and checks that they are current. The ports are arguments, one function for each place where the
  code reads (a port read twice has two, because the world may change in between); the ledger operations
  are functions on the ledger's state.
\<close>

section \<open>Ports\<close>

record EvidenceOwnerFactCurrentV2 =
  ofc_Fact :: EvidenceOwnerFactRefV2
  ofc_Authority :: AuthorityBindingRefV2
  ofc_Scope :: ExecutionScope
  ofc_ActionScopeDigest :: Digest
  ofc_Active :: bool
  ofc_ExpiresUnixNano :: i64

record EvidenceGovernanceGatewayV2 =
  eg_Source :: "string \<Rightarrow> EvidenceSourceRegistrationFactV2 res"
  eg_BySource :: "EvidenceSourceKeyV2 \<Rightarrow> EvidenceLedgerRecordV2 res"
  eg_Historical :: "EvidenceSourceKeyV2 \<Rightarrow> EvidenceLedgerRecordV2 res"
  eg_Record :: "EvidenceRecordRefV2 \<Rightarrow> EvidenceLedgerRecordV2 res"
  eg_BindingSet :: "string \<Rightarrow> BindingSetFactV2 res"
  eg_PolicyOwnerSet :: "string \<Rightarrow> BindingSetFactV2 res"
  eg_Authority :: "string \<Rightarrow> DispatchAuthorityFactV2 res"
  eg_PolicyAuthority :: "string \<Rightarrow> DispatchAuthorityFactV2 res"
  eg_OwnerAuthority :: "string \<Rightarrow> DispatchAuthorityFactV2 res"
  eg_CurrentScope :: "string \<Rightarrow> ExecutionScopeCurrentFactV2 res"
  eg_Policy :: "string \<Rightarrow> EvidenceSourcePolicyFactV2 res"
  eg_Run :: "ExecutionScope \<Rightarrow> string \<Rightarrow> AgentRunRecord res"
  eg_Effect :: "string \<Rightarrow> EffectFactV2 res"
  eg_OwnerFacts :: "string \<Rightarrow> (string \<Rightarrow> EvidenceOwnerFactCurrentV2 res) option"

record evidence_gateway_json =
  xj_evidence :: evidence_json
  xj_governance :: governance_json
  xj_binding :: binding_fact_json

section \<open>The facts that govern a source\<close>

definition grants_current :: "BindingMemberV2 \<Rightarrow> EvidenceProducerBindingRefV2 \<Rightarrow> Time \<Rightarrow> bool" where
  "grants_current m ref now \<longleftrightarrow>
     bm_ComponentID m = prov_ComponentID ref \<and> bm_ManifestDigest m = prov_ManifestDigest ref \<and> bm_ArtifactDigest m = prov_ArtifactDigest ref
     \<and> list_ex (\<lambda>g. cg_Capability g = prov_Capability ref \<and> Before now (TimeUnix0 (cg_ExpiresUnixNano g))) (bm_Grants m)"

definition validateEvidenceProducerBindingV2 :: "BindingSetFactV2 \<Rightarrow> EvidenceProducerBindingRefV2 \<Rightarrow> Time \<Rightarrow> go_error option" where
  "validateEvidenceProducerBindingV2 s ref now =
     first_err
      [BindingSetFactV2_Validate s,
       fail_if (bs_ID s \<noteq> prov_BindingSetID ref \<or> bs_Revision s \<noteq> prov_BindingSetRevision ref \<or> bs_State s \<noteq> BindingSetActive
          \<or> \<not> Before now (TimeUnix0 (bs_ExpiresUnixNano s))) ErrorPreconditionFailed ReasonProviderBindingStale,
       fail_if (\<not> list_ex (\<lambda>m. grants_current m ref now) (bs_Members s)) ErrorCapabilityUnavailable ReasonUnknownCapability]"

definition containsEvidencePartitionV2 :: "EvidencePartitionV2 list \<Rightarrow> EvidencePartitionV2 \<Rightarrow> bool" where
  "containsEvidencePartitionV2 values value \<longleftrightarrow> list_ex (\<lambda>c. c = value) values"

definition validateEvidenceSourcePolicyV2 ::
  "evidence_json \<Rightarrow> EvidenceSourcePolicyFactV2 \<Rightarrow> EvidenceSourceRegistrationFactV2 \<Rightarrow> Time \<Rightarrow> go_error option" where
  "validateEvidenceSourcePolicyV2 J f source now =
     (case EvidenceSourcePolicyFactV2_DigestV2 J f of
        Inl e \<Rightarrow> Some e
      | Inr digest \<Rightarrow>
          first_err
           [fail_if (spf_Ref f \<noteq> spb_Ref (src_Policy source) \<or> spf_Revision f \<noteq> spb_Revision (src_Policy source) \<or> spf_Digest f \<noteq> digest
               \<or> spf_Digest f \<noteq> spb_Digest (src_Policy source) \<or> spf_State f \<noteq> EvidenceSourcePolicyActive
               \<or> spf_Producer f \<noteq> src_Producer source \<or> sint (spf_MaximumSourceTTL f) \<le> 0
               \<or> \<not> Before now (TimeUnix0 (spf_ExpiresUnixNano f))
               \<or> sint (src_ExpiresUnixNano source - src_UpdatedUnixNano source) > sint (spf_MaximumSourceTTL f)
               \<or> \<not> SameExecutionScopeV2 (spf_PolicyScope f) (src_ExecutionScope source)
               \<or> spf_ActionScopeDigest f \<noteq> src_ActionScopeDigest source
               \<or> spf_RequireInstanceEpoch f \<and> src_SourceEpoch source \<noteq> inst_Epoch (scope_Instance (src_ExecutionScope source)))
              ErrorPreconditionFailed ReasonEvidenceTrustInvalid,
            fail_if (\<not> containsEvidencePartitionV2 (spf_AllowedPartitions f) (els_Partition (src_LedgerScope source))
               \<or> \<not> sameEvidenceMappingsV2 (spf_ClassMappings f) (src_ClassMappings source)
               \<or> \<not> sameEvidenceKindsV2 (spf_AllowedKinds f) (src_AllowedKinds source)) ErrorForbidden ReasonEvidenceTrustInvalid])"

text \<open>A source may not outlive any fact it rests on.\<close>

definition outlives :: "EvidenceSourceRegistrationFactV2 \<Rightarrow> i64 list \<Rightarrow> bool" where
  "outlives source limits \<longleftrightarrow> list_ex (\<lambda>l. sint (src_ExpiresUnixNano source) > sint l) limits"

definition active_run :: "EvidenceSourceRegistrationFactV2 \<Rightarrow> ExecutionScopeCurrentFactV2 \<Rightarrow> string" where
  "active_run source current =
     (if els_Partition (src_LedgerScope source) = EvidencePartitionRun \<or> els_Partition (src_LedgerScope source) = EvidencePartitionEffect
      then els_RunID (src_LedgerScope source) else sf_ActiveRunID current)"

definition inspectSourceGovernance ::
  "evidence_gateway_json \<Rightarrow> EvidenceGovernanceGatewayV2 \<Rightarrow> EvidenceSourceRegistrationFactV2 \<Rightarrow> Time \<Rightarrow> EvidenceSourcePolicyFactV2 res" where
  "inspectSourceGovernance X P source now =
     bind_res (eg_BindingSet P (prov_BindingSetID (src_Producer source))) (\<lambda>bset.
     ensure (validateEvidenceProducerBindingV2 bset (src_Producer source) now)
     (bind_res (CapabilityGrantDigestV2 (xj_binding X) bset) (\<lambda>capabilityDigest.
      bind_res (eg_Authority P (ab_Ref (src_Authority source))) (\<lambda>authority.
      ensure (DispatchAuthorityFactV2_ValidateCurrent authority (src_Authority source) (src_ExecutionScope source) (src_ActionScopeDigest source) now)
     (bind_res (eg_CurrentScope P (sb_Ref (src_CurrentScope source))) (\<lambda>current.
      ensure (first_err
        [ValidateCurrentForEvidenceV2 (xj_governance X) current (els_Partition (src_LedgerScope source)) (src_CurrentScope source)
           (src_ExecutionScope source) (els_RunID (src_LedgerScope source)) capabilityDigest now,
         fail_if (sf_ProjectionWatermark current \<noteq> src_CurrentScopeWatermark source) ErrorPreconditionFailed ReasonEffectFenceStale])
     (bind_res (eg_Policy P (spb_Ref (src_Policy source))) (\<lambda>policy.
      ensure (validateEvidenceSourcePolicyV2 (xj_evidence X) policy source now)
     (bind_res (eg_PolicyOwnerSet P (prov_BindingSetID (spf_PolicyOwner policy))) (\<lambda>ownerSet.
      ensure (validateEvidenceProducerBindingV2 ownerSet (spf_PolicyOwner policy) now)
     (bind_res (eg_PolicyAuthority P (ab_Ref (spf_PolicyAuthority policy))) (\<lambda>policyAuthority.
      ensure (first_err
        [DispatchAuthorityFactV2_ValidateCurrent policyAuthority (spf_PolicyAuthority policy) (spf_PolicyScope policy) (spf_ActionScopeDigest policy) now,
         fail_if (outlives source [spf_ExpiresUnixNano policy, af_ExpiresUnixNano policyAuthority, bs_ExpiresUnixNano ownerSet,
             af_ExpiresUnixNano authority, sf_ExpiresUnixNano current, bs_ExpiresUnixNano bset]) ErrorPreconditionFailed ReasonEvidenceSourceStale])
     (bind_res (eg_Run P (src_ExecutionScope source) (active_run source current)) (\<lambda>run.
      ensure (fail_if (run_Status run \<noteq> RunRunning \<and> run_Status run \<noteq> RunStopping \<or> sf_ActiveRunID current \<noteq> run_ID run
          \<or> sf_RunState current \<noteq> run_status_string (run_Status run)) ErrorPreconditionFailed ReasonRunClaimUnverified)
      (if els_Partition (src_LedgerScope source) = EvidencePartitionEffect
       then bind_res (eg_Effect P (els_EffectID (src_LedgerScope source))) (\<lambda>effect.
         ensure (fail_if (ei2_ID (ef_Intent effect) \<noteq> els_EffectID (src_LedgerScope source)
             \<or> ei2_RunID (ef_Intent effect) \<noteq> els_RunID (src_LedgerScope source)
             \<or> \<not> SameExecutionScopeV2 (ei2_Scope (ef_Intent effect)) (src_ExecutionScope source))
             ErrorPreconditionFailed ReasonEffectStateConflict) (Inr policy))
       else Inr policy)))))))))))))))"

definition inspectAuthoritativeFact ::
  "EvidenceGovernanceGatewayV2 \<Rightarrow> EvidenceEventCandidateV2 \<Rightarrow> EvidenceSourceRegistrationFactV2 \<Rightarrow> EvidenceSourcePolicyFactV2 \<Rightarrow> Time
     \<Rightarrow> go_error option" where
  "inspectAuthoritativeFact P e source policy now =
     (case ev_OwnerFact e of
        None \<Rightarrow> Some (DomainError ErrorForbidden ReasonEvidenceTrustInvalid)
      | Some owned \<Rightarrow>
          if \<not> list_ex (\<lambda>rule. ofr_EventKind rule = ev_EventKind e \<and> ofr_CustomClass rule = ev_CustomClass e
               \<and> ofr_FactKind rule = eof_FactKind owned \<and> ofr_OwnerComponent rule = prov_ComponentID (eof_Owner owned)) (spf_OwnerFactRules policy)
          then Some (DomainError ErrorForbidden ReasonEvidenceTrustInvalid)
          else (case eg_OwnerFacts P (eof_FactKind owned) of
             None \<Rightarrow> Some (DomainError ErrorCapabilityUnavailable ReasonUnknownGovernanceCategory)
           | Some reader \<Rightarrow>
               (case reader (eof_FactID owned) of
                  Inl x \<Rightarrow> Some x
                | Inr current \<Rightarrow>
                    if ofc_Fact current \<noteq> owned \<or> \<not> ofc_Active current \<or> \<not> Before now (TimeUnix0 (ofc_ExpiresUnixNano current))
                       \<or> \<not> SameExecutionScopeV2 (ofc_Scope current) (ev_ExecutionScope e)
                       \<or> ofc_ActionScopeDigest current \<noteq> src_ActionScopeDigest source
                    then Some (DomainError ErrorPreconditionFailed ReasonEvidenceTrustInvalid)
                    else (case eg_OwnerAuthority P (ab_Ref (ofc_Authority current)) of
                       Inl x \<Rightarrow> Some x
                     | Inr authority \<Rightarrow>
                         DispatchAuthorityFactV2_ValidateCurrent authority (ofc_Authority current) (ofc_Scope current)
                           (ofc_ActionScopeDigest current) now))))"

definition claim_allowed :: "EvidenceSourcePolicyFactV2 \<Rightarrow> EvidenceEventCandidateV2 \<Rightarrow> bool" where
  "claim_allowed policy e \<longleftrightarrow>
     list_ex (\<lambda>m. ckm_EventKind m = ev_EventKind e \<and> ckm_CustomClass m = ev_CustomClass e \<and> ckm_ClaimKind m = ev_ClaimKind e) (spf_ClaimKinds policy)"

section \<open>Operations\<close>

definition RegisterGovernedSource ::
  "('s \<Rightarrow> EvidenceSourceRegistrationFactV2 \<Rightarrow> 's \<times> EvidenceSourceRegistrationFactV2 res) \<Rightarrow> evidence_gateway_json
     \<Rightarrow> EvidenceGovernanceGatewayV2 option \<Rightarrow> 's \<Rightarrow> EvidenceSourceRegistrationFactV2 \<Rightarrow> Time \<Rightarrow> 's \<times> EvidenceSourceRegistrationFactV2 res" where
  "RegisterGovernedSource create X ports s source now =
     (case ports of
        None \<Rightarrow> (s, Inl (DomainError ErrorInvalidArgument ReasonComponentMissing))
      | Some P \<Rightarrow>
          (case eg_Source P (src_ID source) of
             Inr existing \<Rightarrow>
               (s, if digest_or_empty (EvidenceSourceRegistrationFactV2_DigestV2 (xj_evidence X) existing)
                      = digest_or_empty (EvidenceSourceRegistrationFactV2_DigestV2 (xj_evidence X) source)
                   then Inr existing else Inl (DomainError ErrorConflict ReasonIdempotencyPayloadMismatch))
           | Inl e \<Rightarrow>
               if \<not> HasCategory (Some e) ErrorNotFound then (s, Inl e)
               else guarded (ValidateNewEvidenceSourceV2 source now) s
                 (case inspectSourceGovernance X P source now of Inl x \<Rightarrow> (s, Inl x) | Inr policy \<Rightarrow> create s source)))"

definition RenewGovernedSource ::
  "('s \<Rightarrow> EvidenceSourceCASRequestV2 \<Rightarrow> 's \<times> EvidenceSourceRegistrationFactV2 res) \<Rightarrow> evidence_gateway_json
     \<Rightarrow> EvidenceGovernanceGatewayV2 option \<Rightarrow> 's \<Rightarrow> EvidenceSourceCASRequestV2 \<Rightarrow> Time \<Rightarrow> 's \<times> EvidenceSourceRegistrationFactV2 res" where
  "RenewGovernedSource swap X ports s request now =
     (case ports of
        None \<Rightarrow> (s, Inl (DomainError ErrorInvalidArgument ReasonComponentMissing))
      | Some P \<Rightarrow>
          (case eg_Source P (src_ID (scas_Next request)) of
             Inl e \<Rightarrow> (s, Inl e)
           | Inr current \<Rightarrow>
               if (case (EvidenceSourceRegistrationFactV2_DigestV2 (xj_evidence X) current,
                         EvidenceSourceRegistrationFactV2_DigestV2 (xj_evidence X) (scas_Next request)) of
                     (Inr l, Inr r) \<Rightarrow> l = r
                   | _ \<Rightarrow> False)
               then (s, Inr current)
               else guarded (ValidateEvidenceSourceTransitionV2 current (scas_Next request) now) s
                 (case inspectSourceGovernance X P (scas_Next request) now of Inl x \<Rightarrow> (s, Inl x) | Inr policy \<Rightarrow> swap s request)))"

text \<open>
  The check that a late observation names an exact earlier record. The validation before it has
  excluded an event without a historical source, on which the code would panic.
\<close>

definition historical_mismatch :: "EvidenceGovernanceGatewayV2 \<Rightarrow> EvidenceEventCandidateV2 \<Rightarrow> go_error option" where
  "historical_mismatch P e =
     (case ev_HistoricalSource e of
        None \<Rightarrow> Some (DomainError ErrorInternal ReasonInvalidReference)
      | Some h \<Rightarrow>
          (case eg_Historical P \<lparr>esk_RegistrationID = ehs_RegistrationID h, esk_SourceEpoch = ehs_SourceEpoch h,
               esk_SourceSequence = ehs_SourceSequence h\<rparr> of
             Inl x \<Rightarrow> Some x
           | Inr r \<Rightarrow>
               fail_if (rec_Ref r \<noteq> ehs_Record h \<or> rec_CandidateDigest r \<noteq> ehs_CandidateDigest h
                   \<or> ev_SourceID (rec_Candidate r) \<noteq> ehs_SourceID h
                   \<or> epr_ContentDigest (ev_Payload (rec_Candidate r)) \<noteq> ehs_ContentDigest h) ErrorPreconditionFailed ReasonEvidenceSourceStale))"

text \<open>The checks between the reading of the source and the append.\<close>

definition append_error ::
  "evidence_gateway_json \<Rightarrow> EvidenceGovernanceGatewayV2 \<Rightarrow> EvidenceSourceRegistrationFactV2 \<Rightarrow> EvidenceSourcePolicyFactV2
     \<Rightarrow> EvidenceEventCandidateV2 \<Rightarrow> Revision \<Rightarrow> bool \<Rightarrow> Time \<Rightarrow> go_error option" where
  "append_error X P source policy e expected late now =
     first_err
      [(if late
        then first_err
          [fail_if (\<not> spf_AllowLate policy) ErrorForbidden ReasonEvidenceTrustInvalid,
           ValidateEvidenceLateAppendV2 (xj_evidence X) source e expected now]
        else ValidateEvidenceAppendV2 (xj_evidence X) source e expected now),
       (if ev_TrustClass e = EvidenceTrustAuthoritativeFact then inspectAuthoritativeFact P e source policy now else None),
       fail_if (ev_TrustClass e = EvidenceTrustClaim \<and> \<not> claim_allowed policy e) ErrorForbidden ReasonRunClaimUnverified,
       (if late then historical_mismatch P e else None)]"

definition append_governed ::
  "(bool \<Rightarrow> 's \<Rightarrow> EvidenceAppendRequestV2 \<Rightarrow> 's \<times> EvidenceLedgerRecordV2 res) \<Rightarrow> evidence_gateway_json
     \<Rightarrow> EvidenceGovernanceGatewayV2 option \<Rightarrow> 's \<Rightarrow> EvidenceEventCandidateV2 \<Rightarrow> Revision \<Rightarrow> bool \<Rightarrow> Time \<Rightarrow> 's \<times> EvidenceLedgerRecordV2 res" where
  "append_governed write X ports s e expected late now =
     (case ports of
        None \<Rightarrow> (s, Inl (DomainError ErrorInvalidArgument ReasonComponentMissing))
      | Some P \<Rightarrow>
          guarded (EvidenceEventCandidateV2_Validate e) s
           (case eg_BySource P \<lparr>esk_RegistrationID = ev_RegistrationID e, esk_SourceEpoch = ev_SourceEpoch e, esk_SourceSequence = ev_SourceSequence e\<rparr> of
              Inr existing \<Rightarrow>
                (s, if digest_or_empty (EvidenceEventCandidateV2_DigestV2 (xj_evidence X) e) = rec_CandidateDigest existing then Inr existing
                    else Inl (DomainError ErrorConflict ReasonEvidenceConflict))
            | Inl x \<Rightarrow>
                if \<not> HasCategory (Some x) ErrorNotFound then (s, Inl x)
                else (case eg_Source P (ev_RegistrationID e) of
                   Inl y \<Rightarrow> (s, Inl y)
                 | Inr source \<Rightarrow>
                     (case inspectSourceGovernance X P source now of
                        Inl y \<Rightarrow> (s, Inl y)
                      | Inr policy \<Rightarrow>
                          guarded (append_error X P source policy e expected late now) s
                            (write late s \<lparr>app_Candidate = e, app_ExpectedSourceRevision = expected\<rparr>)))))"

definition AppendGoverned ::
  "(bool \<Rightarrow> 's \<Rightarrow> EvidenceAppendRequestV2 \<Rightarrow> 's \<times> EvidenceLedgerRecordV2 res) \<Rightarrow> evidence_gateway_json
     \<Rightarrow> EvidenceGovernanceGatewayV2 option \<Rightarrow> 's \<Rightarrow> EvidenceAppendRequestV2 \<Rightarrow> Time \<Rightarrow> 's \<times> EvidenceLedgerRecordV2 res" where
  "AppendGoverned write X ports s request now =
     append_governed write X ports s (app_Candidate request) (app_ExpectedSourceRevision request) False now"

definition AppendLateGoverned ::
  "(bool \<Rightarrow> 's \<Rightarrow> EvidenceAppendRequestV2 \<Rightarrow> 's \<times> EvidenceLedgerRecordV2 res) \<Rightarrow> evidence_gateway_json
     \<Rightarrow> EvidenceGovernanceGatewayV2 option \<Rightarrow> 's \<Rightarrow> EvidenceAppendRequestV2 \<Rightarrow> Time \<Rightarrow> 's \<times> EvidenceLedgerRecordV2 res" where
  "AppendLateGoverned write X ports s request now =
     append_governed write X ports s (app_Candidate request) (app_ExpectedSourceRevision request) True now"

definition InspectGovernedBySource :: "EvidenceGovernanceGatewayV2 option \<Rightarrow> EvidenceSourceKeyV2 \<Rightarrow> EvidenceLedgerRecordV2 res" where
  "InspectGovernedBySource ports key =
     (case ports of None \<Rightarrow> Inl (DomainError ErrorInvalidArgument ReasonComponentMissing) | Some P \<Rightarrow> eg_BySource P key)"

definition InspectGovernedRecord :: "EvidenceGovernanceGatewayV2 option \<Rightarrow> EvidenceRecordRefV2 \<Rightarrow> EvidenceLedgerRecordV2 res" where
  "InspectGovernedRecord ports ref =
     (case ports of None \<Rightarrow> Inl (DomainError ErrorInvalidArgument ReasonComponentMissing) | Some P \<Rightarrow> eg_Record P ref)"

end
