(* ===== verification/EvidenceGatewayProperties.thy ===== *)
theory EvidenceGatewayProperties
  imports EvidenceGateway LedgerProperties GatewayProperties
begin

text \<open>
  What the evidence gateway guarantees. The facts it read for a source are collected in one record;
  \<open>source_governed\<close> says that all of them are current and bound to the source. The contract of the ledger
  that the gateway calls is the locale \<open>evidence_owner\<close>, interpreted on the ledger store.
\<close>

section \<open>Governing facts of a source\<close>

record source_facts =
  sg_set :: BindingSetFactV2
  sg_authority :: DispatchAuthorityFactV2
  sg_scope :: ExecutionScopeCurrentFactV2
  sg_policy :: EvidenceSourcePolicyFactV2
  sg_ownerSet :: BindingSetFactV2
  sg_policyAuthority :: DispatchAuthorityFactV2
  sg_run :: AgentRunRecord

definition source_facts_read :: "EvidenceGovernanceGatewayV2 \<Rightarrow> EvidenceSourceRegistrationFactV2 \<Rightarrow> source_facts \<Rightarrow> bool" where
  "source_facts_read P source F \<longleftrightarrow>
     eg_BindingSet P (prov_BindingSetID (src_Producer source)) = Inr (sg_set F) \<and> eg_Authority P (ab_Ref (src_Authority source)) = Inr (sg_authority F)
     \<and> eg_CurrentScope P (sb_Ref (src_CurrentScope source)) = Inr (sg_scope F) \<and> eg_Policy P (spb_Ref (src_Policy source)) = Inr (sg_policy F)
     \<and> eg_PolicyOwnerSet P (prov_BindingSetID (spf_PolicyOwner (sg_policy F))) = Inr (sg_ownerSet F)
     \<and> eg_PolicyAuthority P (ab_Ref (spf_PolicyAuthority (sg_policy F))) = Inr (sg_policyAuthority F)
     \<and> eg_Run P (src_ExecutionScope source) (active_run source (sg_scope F)) = Inr (sg_run F)"

definition source_limits :: "source_facts \<Rightarrow> i64 list" where
  "source_limits F = [spf_ExpiresUnixNano (sg_policy F), af_ExpiresUnixNano (sg_policyAuthority F), bs_ExpiresUnixNano (sg_ownerSet F),
     af_ExpiresUnixNano (sg_authority F), sf_ExpiresUnixNano (sg_scope F), bs_ExpiresUnixNano (sg_set F)]"

definition source_governed :: "evidence_gateway_json \<Rightarrow> EvidenceSourceRegistrationFactV2 \<Rightarrow> Time \<Rightarrow> source_facts \<Rightarrow> bool" where
  "source_governed X source now F \<longleftrightarrow>
     validateEvidenceProducerBindingV2 (sg_set F) (src_Producer source) now = None
     \<and> DispatchAuthorityFactV2_ValidateCurrent (sg_authority F) (src_Authority source) (src_ExecutionScope source) (src_ActionScopeDigest source) now = None
     \<and> (\<exists>d. CapabilityGrantDigestV2 (xj_binding X) (sg_set F) = Inr d
          \<and> ValidateCurrentForEvidenceV2 (xj_governance X) (sg_scope F) (els_Partition (src_LedgerScope source)) (src_CurrentScope source)
              (src_ExecutionScope source) (els_RunID (src_LedgerScope source)) d now = None)
     \<and> sf_ProjectionWatermark (sg_scope F) = src_CurrentScopeWatermark source
     \<and> validateEvidenceSourcePolicyV2 (xj_evidence X) (sg_policy F) source now = None
     \<and> validateEvidenceProducerBindingV2 (sg_ownerSet F) (spf_PolicyOwner (sg_policy F)) now = None
     \<and> DispatchAuthorityFactV2_ValidateCurrent (sg_policyAuthority F) (spf_PolicyAuthority (sg_policy F)) (spf_PolicyScope (sg_policy F))
         (spf_ActionScopeDigest (sg_policy F)) now = None
     \<and> (\<forall>l \<in> set (source_limits F). sint (src_ExpiresUnixNano source) \<le> sint l)
     \<and> (run_Status (sg_run F) = RunRunning \<or> run_Status (sg_run F) = RunStopping) \<and> run_ID (sg_run F) = sf_ActiveRunID (sg_scope F)"

lemma outlives_iff: "\<not> outlives source ls \<longleftrightarrow> (\<forall>l \<in> set ls. sint (src_ExpiresUnixNano source) \<le> sint l)"
  by (auto simp: outlives_def list_ex_iff)

lemma inspectSourceGovernance_Inr:
  assumes "inspectSourceGovernance X P source now = Inr policy"
  obtains F where "source_facts_read P source F" "source_governed X source now F" "sg_policy F = policy"
proof -
  from assms obtain bset d authority current ownerSet policyAuthority run where
    r: "eg_BindingSet P (prov_BindingSetID (src_Producer source)) = Inr bset" "eg_Authority P (ab_Ref (src_Authority source)) = Inr authority"
      "eg_CurrentScope P (sb_Ref (src_CurrentScope source)) = Inr current" "eg_Policy P (spb_Ref (src_Policy source)) = Inr policy"
      "eg_PolicyOwnerSet P (prov_BindingSetID (spf_PolicyOwner policy)) = Inr ownerSet"
      "eg_PolicyAuthority P (ab_Ref (spf_PolicyAuthority policy)) = Inr policyAuthority"
      "eg_Run P (src_ExecutionScope source) (active_run source current) = Inr run"
    and c: "validateEvidenceProducerBindingV2 bset (src_Producer source) now = None" "CapabilityGrantDigestV2 (xj_binding X) bset = Inr d"
      "DispatchAuthorityFactV2_ValidateCurrent authority (src_Authority source) (src_ExecutionScope source) (src_ActionScopeDigest source) now = None"
      "ValidateCurrentForEvidenceV2 (xj_governance X) current (els_Partition (src_LedgerScope source)) (src_CurrentScope source)
         (src_ExecutionScope source) (els_RunID (src_LedgerScope source)) d now = None"
      "sf_ProjectionWatermark current = src_CurrentScopeWatermark source" "validateEvidenceSourcePolicyV2 (xj_evidence X) policy source now = None"
      "validateEvidenceProducerBindingV2 ownerSet (spf_PolicyOwner policy) now = None"
      "DispatchAuthorityFactV2_ValidateCurrent policyAuthority (spf_PolicyAuthority policy) (spf_PolicyScope policy) (spf_ActionScopeDigest policy) now = None"
      "\<not> outlives source [spf_ExpiresUnixNano policy, af_ExpiresUnixNano policyAuthority, bs_ExpiresUnixNano ownerSet,
         af_ExpiresUnixNano authority, sf_ExpiresUnixNano current, bs_ExpiresUnixNano bset]"
      "run_Status run = RunRunning \<or> run_Status run = RunStopping" "run_ID run = sf_ActiveRunID current"
    by (fastforce simp: inspectSourceGovernance_def split: if_splits)
  let ?F = "\<lparr>sg_set = bset, sg_authority = authority, sg_scope = current, sg_policy = policy, sg_ownerSet = ownerSet,
     sg_policyAuthority = policyAuthority, sg_run = run\<rparr>"
  show thesis
  proof (rule that [of ?F])
    show "source_facts_read P source ?F" using r by (simp add: source_facts_read_def)
    show "source_governed X source now ?F"
      using c unfolding source_governed_def source_limits_def outlives_iff [symmetric] by simp
  qed simp
qed

section \<open>The ledger\<close>

text \<open>
  What the gateway relies on: a record that becomes visible under the key of an event, also when the reply
  is lost, has the digest of the event; and a record that is visible stays visible.
\<close>

definition source_key :: "EvidenceEventCandidateV2 \<Rightarrow> EvidenceSourceKeyV2" where
  "source_key e = \<lparr>esk_RegistrationID = ev_RegistrationID e, esk_SourceEpoch = ev_SourceEpoch e, esk_SourceSequence = ev_SourceSequence e\<rparr>"

locale evidence_owner =
  fixes put :: "'e \<Rightarrow> bool \<Rightarrow> 's \<Rightarrow> EvidenceAppendRequestV2 \<Rightarrow> 's \<times> EvidenceLedgerRecordV2 res"
    and by_source :: "'s \<Rightarrow> EvidenceSourceKeyV2 \<Rightarrow> EvidenceLedgerRecordV2 res"
    and run :: "'s \<Rightarrow> 's \<Rightarrow> bool"
    and well :: "'s \<Rightarrow> bool"
    and X :: evidence_gateway_json
  assumes visible: "well s \<Longrightarrow> put e late s q = (s', y) \<Longrightarrow> s' \<noteq> s \<or> y = Inr z \<Longrightarrow>
        \<exists>r. by_source s' (source_key (app_Candidate q)) = Inr r \<and> (\<forall>x. y = Inr x \<longrightarrow> x = r)
          \<and> rec_CandidateDigest r = digest_or_empty (EvidenceEventCandidateV2_DigestV2 (xj_evidence X) (app_Candidate q))"
    and write_runs: "put e late s q = (s', y) \<Longrightarrow> run s s'"
    and run_well: "run s t \<Longrightarrow> well s \<Longrightarrow> well t"
    and stays: "run s t \<Longrightarrow> well s \<Longrightarrow> by_source s k = Inr r \<Longrightarrow> by_source t k = Inr r"
begin

lemma append_governed_cases:
  assumes "append_governed (put e) X (Some P) s c expected late now = (s', y)"
  obtains (refused) x where "s' = s" "y = Inl x"
  | (replayed) r where "s' = s" "y = Inr r" "eg_BySource P (source_key c) = Inr r"
      "rec_CandidateDigest r = digest_or_empty (EvidenceEventCandidateV2_DigestV2 (xj_evidence X) c)"
  | (written) source F where "eg_Source P (ev_RegistrationID c) = Inr source" "source_facts_read P source F"
      "source_governed X source now F" "append_error X P source (sg_policy F) c expected late now = None"
      "EvidenceEventCandidateV2_Validate c = None"
      "put e late s \<lparr>app_Candidate = c, app_ExpectedSourceRevision = expected\<rparr> = (s', y)"
proof (cases "EvidenceEventCandidateV2_Validate c")
  case (Some x)
  then show thesis using assms by (intro refused [of x]) (simp_all add: append_governed_def)
next
  case None
  show thesis
  proof (cases "eg_BySource P (source_key c)")
    case (Inr r)
    show thesis
    proof (cases "digest_or_empty (EvidenceEventCandidateV2_DigestV2 (xj_evidence X) c) = rec_CandidateDigest r")
      case True
      then show thesis using assms None Inr by (intro replayed [of r]) (simp_all add: append_governed_def source_key_def)
    next
      case False
      then show thesis using assms None Inr refused by (auto simp: append_governed_def source_key_def)
    qed
  next
    case (Inl x)
    show thesis
    proof (cases "HasCategory (Some x) ErrorNotFound")
      case False
      then show thesis using assms None Inl by (intro refused [of x]) (simp_all add: append_governed_def source_key_def)
    next
      case True
      show thesis
      proof (cases "eg_Source P (ev_RegistrationID c)")
        case a: (Inl z)
        then show thesis using assms None Inl True by (intro refused [of z]) (simp_all add: append_governed_def source_key_def)
      next
        case a: (Inr source)
        show thesis
        proof (cases "inspectSourceGovernance X P source now")
          case b: (Inl z)
          then show thesis using assms None Inl True a by (intro refused [of z]) (simp_all add: append_governed_def source_key_def)
        next
          case b: (Inr policy)
          then obtain F where F: "source_facts_read P source F" "source_governed X source now F" "sg_policy F = policy"
            by (rule inspectSourceGovernance_Inr)
          have g: "guarded (append_error X P source policy c expected late now) s
              (put e late s \<lparr>app_Candidate = c, app_ExpectedSourceRevision = expected\<rparr>) = (s', y)"
            using assms None Inl True a b by (simp add: append_governed_def source_key_def)
          then show thesis using refused written [OF a F(1,2) _ None] F(3) by (auto elim!: guarded_cases)
        qed
      qed
    qed
  qed
qed

text \<open>Sending an event again after it became visible is answered with the record, and writes nothing.\<close>

lemma governed_retry:
  assumes "well s" "append_governed (put e) X (Some P) s c expected late now = (s', y)" "s' \<noteq> s"
    "run s' t" "eg_BySource P' (source_key c) = by_source t (source_key c)"
  shows "\<exists>r. by_source s' (source_key c) = Inr r
    \<and> append_governed (put e') X (Some P') t c expected' late' now' = (t, Inr r)"
  using assms(2)
proof (cases rule: append_governed_cases)
  case (written source F)
  obtain r where r: "by_source s' (source_key c) = Inr r"
    "rec_CandidateDigest r = digest_or_empty (EvidenceEventCandidateV2_DigestV2 (xj_evidence X) c)"
    using visible [OF assms(1) written(6)] assms(3) by auto
  have "well s'" using run_well [OF write_runs [OF written(6)] assms(1)] .
  then have "eg_BySource P' (source_key c) = Inr r" using stays [OF assms(4) _ r(1)] assms(5) by simp
  then show ?thesis using r written(5) by (simp add: append_governed_def source_key_def)
qed (use assms(3) in simp_all)

end

interpretation ledger_owner: evidence_owner
  "\<lambda>(ctx, m) late s q. if late then AppendLateObservation (xj_evidence X) s ctx q m else Append (xj_evidence X) s ctx q m"
  "\<lambda>s k. InspectBySource s LiveContext k" "ledger_run (xj_evidence X)" "ledger_ok (xj_evidence X)" X for X
proof (unfold_locales, goal_cases)
  case (1 s e late q s' y z)
  obtain ctx m where e: "e = (ctx, m)" by (cases e)
  have a: "append_event (xj_evidence X) s ctx (app_Candidate q) (app_ExpectedSourceRevision q) late m = (s', y)"
    using 1(2) by (cases late) (simp_all add: e Append_def AppendLateObservation_def)
  have key: "InspectBySource s' LiveContext (source_key (app_Candidate q)) = Inr r"
    if "EvidenceEventCandidateV2_Validate (app_Candidate q) = None" "el_bySource s' (event_source_key (app_Candidate q)) = Some r" for r
    using that by (simp add: InspectBySource_def source_key_def event_source_key_def EvidenceSourceKeyV2_Validate_def EvidenceEventCandidateV2_Validate_def)
  show ?case using a
  proof (cases rule: append_event_cases)
    case unchanged
    then have y: "y = Inr z" using 1(3) by blast
    then have "EvidenceEventCandidateV2_Validate (app_Candidate q) = None" using a by (simp add: append_event_def)
    then show ?thesis using key unchanged y by auto
  next
    case (appended source r d)
    have "el_bySource s' (event_source_key (app_Candidate q)) = Some r"
      using appended(8) by (simp add: same_facts_def commit_record_def Let_def)
    moreover have "EvidenceEventCandidateV2_DigestV2 (xj_evidence X) (app_Candidate q) = Inr (rec_CandidateDigest r)"
      using appended(7) by (auto simp: NewEvidenceLedgerRecordV2_def Let_def)
    ultimately show ?thesis using key [OF appended(1)] appended(9) by (auto simp: digest_or_empty_def)
  qed
next
  case (2 e late s q s' y)
  then show ?case by (cases e; cases late) (auto intro: ledger_run.intros ledger_step.intros)
next
  case (3 s t)
  then show ?case using ledger_run_ok by blast
next
  case (4 s t k r)
  then have v: "EvidenceSourceKeyV2_Validate k = None" and r: "el_bySource s (evidenceSourceKeyV2 k) = Some r"
    by (auto simp: InspectBySource_def split: option.splits)
  have "recorded t r" using recorded_mono [OF 4(1,2)] ledger_okD(4) [OF 4(2)] r by blast
  then have "el_bySource t (evidenceSourceKeyV2 k) = Some r"
    using ledger_okD(4) [OF ledger_run_ok [OF 4(1,2)]] ledger_okD(4) [OF 4(2)] r by blast
  then show ?case using v by (simp add: InspectBySource_def)
qed

section \<open>A governed append\<close>

text \<open>The sample source and event, bound to the provider and facts of the gateway's sample.\<close>

definition gov_json :: evidence_gateway_json where
  "gov_json = \<lparr>xj_evidence = ledger_json, xj_governance = gj_governance govern_json, xj_binding = BindingSamples.sample_fact_json\<rparr>"

definition gov_policy_ref :: EvidenceSourcePolicyBindingRefV2 where
  "gov_policy_ref = \<lparr>spb_Ref = ''p'', spb_Digest = sample_hash ''EvidenceSourcePolicyFactV2'', spb_Revision = 1\<rparr>"

definition gov_source :: EvidenceSourceRegistrationFactV2 where
  "gov_source = sample_source\<lparr>src_Producer := ei2_Provider governed_intent, src_CurrentScope := ei2_CurrentScope governed_intent,
     src_Policy := gov_policy_ref\<rparr>"

definition gov_event :: EvidenceEventCandidateV2 where
  "gov_event = sample_event\<lparr>ev_Producer := ei2_Provider governed_intent, ev_SourcePolicy := gov_policy_ref\<rparr>"

definition gov_policy :: EvidenceSourcePolicyFactV2 where
  "gov_policy = \<lparr>spf_Ref = ''p'', spf_Digest = sample_hash ''EvidenceSourcePolicyFactV2'', spf_Revision = 1,
     spf_Producer = ei2_Provider governed_intent, spf_PolicyOwner = ei2_Provider governed_intent, spf_PolicyAuthority = sample_authority,
     spf_PolicyScope = sample_scope None, spf_ActionScopeDigest = sample_digest, spf_AllowedPartitions = [EvidencePartitionTenant],
     spf_ClassMappings = [\<lparr>cm_Class = ''a/b'', cm_Trust = EvidenceTrustObservation\<rparr>], spf_AllowedKinds = [''a/b''], spf_AllowLate = False,
     spf_OwnerFactRules = [], spf_ClaimKinds = [], spf_RequireInstanceEpoch = True, spf_MaximumSourceTTL = 100,
     spf_State = EvidenceSourcePolicyActive, spf_ExpiresUnixNano = 1000\<rparr>"

definition gov_ports :: "EvidenceLedgerStoreV2 \<Rightarrow> BindingStoreV2 \<Rightarrow> EvidenceGovernanceGatewayV2" where
  "gov_ports s b = 
     \<lparr>eg_Source = InspectSource s LiveContext, eg_BySource = InspectBySource s LiveContext, eg_Historical = InspectBySource s LiveContext,
      eg_Record = InspectRecord s LiveContext, eg_BindingSet = InspectBindingSet b LiveContext, eg_PolicyOwnerSet = InspectBindingSet b LiveContext,
      eg_Authority = (\<lambda>r. Inr (gf_authority governed_facts)), eg_PolicyAuthority = (\<lambda>r. Inr (gf_authority governed_facts)),
      eg_OwnerAuthority = (\<lambda>x. Inl (DomainError ErrorNotFound ReasonInvalidReference)), eg_CurrentScope = (\<lambda>r. Inr (gf_scope governed_facts)), eg_Policy = (\<lambda>r. Inr gov_policy),
      eg_Run = (\<lambda>scope i. Inr \<lparr>run_ID = ''r'', run_Scope = scope, run_Status = RunRunning, run_Revision = 2, run_SessionRef = ''s'',
         run_StartedAt = at_nano 1, run_EndedAt = 0, run_Outcome = NoOutcome, run_CompletionClaim = None\<rparr>),
      eg_Effect = (\<lambda>x. Inl (DomainError ErrorNotFound ReasonInvalidReference)), eg_OwnerFacts = Map.empty\<rparr>"

lemma gov_labels [simp]: "validCanonicalLabel ''EvidenceSourcePolicyFactV2''"
  by (rule canonical_label; simp add: graphic_def)

lemma gov_provider: "ei2_Provider governed_intent = \<lparr>prov_BindingSetID = ''s'', prov_BindingSetRevision = 1, prov_ComponentID = ''a/c'',
        prov_ManifestDigest = manifest_hash ''a/c'', prov_ArtifactDigest = sample_digest, prov_Capability = ''a/b''\<rparr>"
  by (simp add: governed_intent_def)

lemma gov_provider_valid [simp]: "ProviderBindingRefV2_Validate (ei2_Provider governed_intent) = None"
  by (simp add: gov_provider ProviderBindingRefV2_Validate_def graphic_ascii)

lemma gov_producer: "n < 1000 \<Longrightarrow> validateEvidenceProducerBindingV2 bound_set (ei2_Provider governed_intent) (at_nano n) = None"
  by (simp add: validateEvidenceProducerBindingV2_def gov_provider)
    (simp add: bound_set_def sample_set_fields grants_current_def binding_member_def sample_binding_def sample_manifest_def sample_grant_def)

lemma gov_policy_valid: "EvidenceSourcePolicyFactV2_Validate gov_policy = None"
  by (simp add: EvidenceSourcePolicyFactV2_Validate_def gov_policy_def validateEvidenceMappingsV2_def validateEvidenceKindsV2_def mapping_error_def)

lemma gov_policy_digest: "EvidenceSourcePolicyFactV2_DigestV2 ledger_json gov_policy = Inr (sample_hash ''EvidenceSourcePolicyFactV2'')"
  by (simp add: EvidenceSourcePolicyFactV2_DigestV2_def gov_policy_valid ledger_json_def evidence_digest_sample)

lemma gov_policy_current: "n < 1000 \<Longrightarrow> validateEvidenceSourcePolicyV2 ledger_json gov_policy gov_source (at_nano n) = None"
  by (simp add: validateEvidenceSourcePolicyV2_def gov_policy_digest)
    (simp add: gov_policy_def gov_source_def gov_policy_ref_def sample_source_def containsEvidencePartitionV2_def sample_ledger_scope_def sample_scope_def)

lemma gov_source_fields [simp]:
  "src_Producer gov_source = ei2_Provider governed_intent" "src_Authority gov_source = sample_authority"
  "src_ExecutionScope gov_source = sample_scope None" "src_ActionScopeDigest gov_source = sample_digest"
  "src_CurrentScope gov_source = ei2_CurrentScope governed_intent" "src_CurrentScopeWatermark gov_source = 1" "src_Policy gov_source = gov_policy_ref"
  "src_LedgerScope gov_source = sample_ledger_scope" "src_ExpiresUnixNano gov_source = 100" "src_ID gov_source = ''r''"
  by (simp_all add: gov_source_def sample_source_def)

lemma gov_scope_current:
  "n < 1000 \<Longrightarrow> ValidateCurrentForEvidenceV2 (gj_governance govern_json) (gf_scope governed_facts) (els_Partition sample_ledger_scope)
     (ei2_CurrentScope governed_intent) (sample_scope None) (els_RunID sample_ledger_scope) (binding_hash ''CapabilityGrantSetV2'' ''{}'') (at_nano n) = None"
  by (simp add: ValidateCurrentForEvidenceV2_def governed_facts_def Let_def scope_sources_error_def GovernanceSourceFactRefV2_Validate_def
      BindingRefV2_def EvidenceTimeCurrentV2_def sample_ledger_scope_def) (simp add: governed_intent_def)

lemma gov_inspect:
  assumes "n < 100" "InspectBindingSet b LiveContext ''s'' = Inr bound_set"
  shows "inspectSourceGovernance gov_json (gov_ports s b) gov_source (at_nano n) = Inr gov_policy"
proof -
  have o: "\<not> outlives gov_source [spf_ExpiresUnixNano gov_policy, af_ExpiresUnixNano (gf_authority governed_facts), bs_ExpiresUnixNano bound_set,
      af_ExpiresUnixNano (gf_authority governed_facts), sf_ExpiresUnixNano (gf_scope governed_facts), bs_ExpiresUnixNano bound_set]"
    by (simp add: outlives_def) (simp add: governed_facts_def Let_def bound_set_def sample_set_fields gov_policy_def)
  have f: "prov_BindingSetID (ei2_Provider governed_intent) = ''s''" "spf_PolicyOwner gov_policy = ei2_Provider governed_intent"
      "spf_PolicyAuthority gov_policy = sample_authority" "spf_PolicyScope gov_policy = sample_scope None" "spf_ActionScopeDigest gov_policy = sample_digest"
      "sf_ProjectionWatermark (gf_scope governed_facts) = 1" "sf_ActiveRunID (gf_scope governed_facts) = ''r''"
      "sf_RunState (gf_scope governed_facts) = ''running''" "els_Partition sample_ledger_scope = EvidencePartitionTenant"
    by (simp_all add: gov_provider gov_policy_def governed_facts_def Let_def sample_ledger_scope_def)
  show ?thesis
    unfolding inspectSourceGovernance_def gov_ports_def EvidenceGovernanceGatewayV2.simps
    using assms gov_producer [of n] facts_current(2) [of n] gov_scope_current [of n] gov_policy_current [of n] o
    by (simp add: f gov_json_def active_run_def)
qed

definition gov_registered :: EvidenceLedgerStoreV2 where
  "gov_registered = fst (CreateSource ledger_json NewEvidenceLedgerStoreV2 LiveContext gov_source (at_nano 10))"

definition gov_appended :: EvidenceLedgerStoreV2 where
  "gov_appended = fst (Append ledger_json gov_registered LiveContext \<lparr>app_Candidate = gov_event, app_ExpectedSourceRevision = 1\<rparr> (at_nano 21))"

definition gov_record :: EvidenceLedgerRecordV2 where
  "gov_record = sample_record\<lparr>rec_Candidate := gov_event, rec_IngestedUnixNano := 21\<rparr>"

lemma gov_source_valid: "EvidenceSourceRegistrationFactV2_Validate gov_source = None"
  using sample_source_valid
  by (simp add: EvidenceSourceRegistrationFactV2_Validate_def) (simp add: gov_source_def governed_intent_def gov_policy_ref_def sample_source_def
      ExecutionScopeBindingRefV2_Validate_def EvidenceSourcePolicyBindingRefV2_Validate_def source_lifecycle_error_def graphic_ascii)

lemma gov_event_valid: "EvidenceEventCandidateV2_Validate gov_event = None"
  using sample_event_valid
  by (simp add: EvidenceEventCandidateV2_Validate_def) (simp add: gov_event_def gov_policy_ref_def
      EvidenceSourcePolicyBindingRefV2_Validate_def owner_fact_error_def historical_error_def sample_event_def)

lemma gov_digests [simp]:
  "ConfigurationDigestV2 ledger_json gov_source = Inr (sample_hash ''EvidenceSourceConfigurationV2'')"
  "EvidenceEventCandidateV2_DigestV2 ledger_json gov_event = Inr (sample_hash ''EvidenceEventCandidateV2'')"
  by (simp_all add: ConfigurationDigestV2_def EvidenceEventCandidateV2_DigestV2_def gov_source_valid gov_event_valid ledger_json_def
      evidence_digest_sample sample_labels)

lemma gov_new: "ValidateNewEvidenceSourceV2 gov_source (at_nano 10) = None"
  by (simp add: ValidateNewEvidenceSourceV2_def gov_source_valid) (simp add: gov_source_def sample_source_def)

lemma gov_create:
  "CreateSource ledger_json NewEvidenceLedgerStoreV2 LiveContext gov_source (at_nano 10) = (gov_registered, Inr gov_source)"
  by (simp add: gov_registered_def CreateSource_def gov_new NewEvidenceLedgerStoreV2_def)

lemma gov_registered_fields:
  "el_sources gov_registered = [''r'' \<mapsto> gov_source]" "el_bySource gov_registered = Map.empty"
  "el_byEvent gov_registered = Map.empty" "el_lastSequence gov_registered = (\<lambda>d. 0)"
  "el_loseNextAppendReply gov_registered = False"
  by (simp_all add: gov_registered_def CreateSource_def gov_new NewEvidenceLedgerStoreV2_def)

lemma gov_event_fields [simp]:
  "ev_RegistrationID gov_event = ''r''" "ev_LedgerScope gov_event = sample_ledger_scope" "ev_TrustClass gov_event = EvidenceTrustObservation"
  "ev_ObservedUnixNano gov_event = 5"
  by (simp_all add: gov_event_def sample_event_def)

lemma gov_accept: "n \<in> {20, 21} \<Longrightarrow> ValidateEvidenceAppendV2 ledger_json gov_source gov_event 1 (at_nano n) = None"
  by (auto simp: ValidateEvidenceAppendV2_def gov_source_valid gov_event_valid EvidenceTimeCurrentV2_def)
    (auto simp: gov_source_def gov_event_def sample_source_def sample_event_def evidenceKindAllowedV2_def)

lemma gov_new_record:
  "NewEvidenceLedgerRecordV2 ledger_json gov_event 1 EvidenceGenesisDigestV2 (at_nano 21) = Inr gov_record"
  by (simp add: NewEvidenceLedgerRecordV2_def gov_event_valid EvidenceLedgerRecordDigestV2_def ledger_json_def [THEN arg_cong [of _ _ json_LedgerRecord]]
      evidence_digest_sample sample_labels gov_record_def sample_record_def)

lemma gov_append:
  "Append ledger_json gov_registered LiveContext \<lparr>app_Candidate = gov_event, app_ExpectedSourceRevision = 1\<rparr> (at_nano 21)
     = (gov_appended, Inr gov_record)"
  using gov_accept [of 21]
  by (simp add: gov_appended_def Append_def append_event_def gov_event_valid gov_registered_fields gov_new_record digest_or_empty_def Let_def)

lemma gov_runs: "ledger_run ledger_json NewEvidenceLedgerStoreV2 gov_registered" "ledger_run ledger_json gov_registered gov_appended"
  using ledger_go [OF ledger_stay create_source [OF gov_create]] ledger_go [OF ledger_stay append_record [OF gov_append]] by blast+

abbreviation ledger_writer :: "evidence_gateway_json \<Rightarrow> go_context \<Rightarrow> Time \<Rightarrow> bool \<Rightarrow> EvidenceLedgerStoreV2 \<Rightarrow> EvidenceAppendRequestV2
    \<Rightarrow> EvidenceLedgerStoreV2 \<times> EvidenceLedgerRecordV2 res" where
  "ledger_writer X ctx m late s q \<equiv>
     (if late then AppendLateObservation (xj_evidence X) s ctx q m else Append (xj_evidence X) s ctx q m)"

lemma gov_appends:
  "append_governed (ledger_writer gov_json LiveContext (at_nano 21)) gov_json (Some (gov_ports gov_registered binding_world))
     gov_registered gov_event 1 False (at_nano 20) = (gov_appended, Inr gov_record)"
proof -
  have s: "InspectSource gov_registered LiveContext ''r'' = Inr gov_source"
    by (simp add: InspectSource_def gov_registered_fields)
  have k: "InspectBySource gov_registered LiveContext \<lparr>esk_RegistrationID = ''r'', esk_SourceEpoch = ev_SourceEpoch gov_event,
      esk_SourceSequence = ev_SourceSequence gov_event\<rparr> = Inl (DomainError ErrorNotFound ReasonEvidenceUnavailable)"
    by (simp add: InspectBySource_def gov_registered_fields EvidenceSourceKeyV2_Validate_def) (simp add: gov_event_def sample_event_def)
  have e: "append_error gov_json (gov_ports gov_registered binding_world) gov_source gov_policy gov_event 1 False (at_nano 20) = None"
    using gov_accept [of 20] by (simp add: append_error_def gov_json_def)
  have f: "eg_Source (gov_ports gov_registered binding_world) = InspectSource gov_registered LiveContext"
    "eg_BySource (gov_ports gov_registered binding_world) = InspectBySource gov_registered LiveContext"
    by (simp_all add: gov_ports_def)
  show ?thesis
    using gov_inspect [of 20 binding_world gov_registered] gov_append
    by (simp add: append_governed_def f s k e gov_event_valid) (simp add: gov_json_def)
qed

lemma gov_written: "gov_appended \<noteq> gov_registered"
proof
  assume "gov_appended = gov_registered"
  moreover have "el_lastSequence gov_appended (sample_hash ''EvidenceLedgerScopeV2'') = 1"
    using gov_accept [of 21]
    by (simp add: gov_appended_def Append_def append_event_def gov_event_valid gov_registered_fields gov_new_record digest_or_empty_def Let_def
        commit_record_def) (simp add: gov_record_def sample_record_def)
  ultimately show False by (simp add: gov_registered_fields)
qed

section \<open>Properties\<close>



text \<open>
  C28: An append whose outcome the caller did not learn can be repeated: once an event has been written through
  the gateway, sending it again through any gateway that reads the same ledger, at any later time, as an
  ordinary or a late event, is answered with the record and writes nothing -- even if the source has been
  revoked or a governing fact has expired in between.
\<close>

theorem governed_append_retry:
  assumes "ledger_run (xj_evidence X) NewEvidenceLedgerStoreV2 s"
    "append_governed (ledger_writer X ctx m) X (Some P) s e expected late now = (s', y)" "s' \<noteq> s"
    "ledger_run (xj_evidence X) s' t" "eg_BySource P' (source_key e) = InspectBySource t LiveContext (source_key e)"
  shows "\<exists>r. InspectBySource s' LiveContext (source_key e) = Inr r
    \<and> append_governed (ledger_writer X ctx' m') X (Some P') t e expected' late' now' = (t, Inr r)"
  using ledger_owner.governed_retry [of X s "(ctx, m)" P e expected late now s' y t P' "(ctx', m')" expected' late' now']
    reachable_ledger_ok [OF assms(1)] assms(2-5) by simp

theorem governed_append_retry_witness:
  "\<exists>r. append_governed (ledger_writer gov_json LiveContext (at_nano 900)) gov_json (Some (gov_ports gov_appended binding_world))
      gov_appended gov_event 7 True (at_nano 900) = (gov_appended, Inr r)"
proof -
  have j: "xj_evidence gov_json = ledger_json" by (simp add: gov_json_def)
  have p: "eg_BySource (gov_ports gov_appended binding_world) (source_key gov_event) = InspectBySource gov_appended LiveContext (source_key gov_event)"
    by (simp add: gov_ports_def)
  show ?thesis using governed_append_retry [OF gov_runs(1) [folded j] gov_appends gov_written ledger_stay p] by blast
qed

text \<open>
  Revoking a binding set stops its evidence for good: once the set of a source's producer is not active,
  then after any further history of the binding store a gateway that reads that store writes no event of the
  source, ordinary or late, and neither registers nor renews a source of that producer; the ledger stays as
  it is.
\<close>

theorem inactive_set_stops_evidence:
  assumes "InspectBindingSet b LiveContext i = Inr c" "bs_State c \<noteq> BindingSetActive" "binding_run careful KB b b'"
    "eg_BindingSet P i = InspectBindingSet b' LiveContext i" "eg_Source P (ev_RegistrationID e) = Inr source"
    "prov_BindingSetID (src_Producer source) = i" "prov_BindingSetID (src_Producer f) = i"
  shows "fst (append_governed (ledger_writer X ctx m) X (Some P) s e expected late now) = s
    \<and> fst (RegisterGovernedSource (\<lambda>s f. CreateSource (xj_evidence X) s ctx f m) X (Some P) s f now) = s
    \<and> fst (RenewGovernedSource (\<lambda>s q. CompareAndSwapSource (xj_evidence X) s ctx q m) X (Some P) s
        \<lparr>scas_ExpectedRevision = n, scas_Next = f\<rparr> now) = s"
proof -
  have "bst_sets b i = Some c" using assms(1) by (auto simp: InspectBindingSet_def split: option.splits)
  then have c: "eg_BindingSet P i = Inr c"
    using inactive_set_kept [OF assms(3) _ assms(2)] assms(4) by (simp add: InspectBindingSet_def)
  have no: "\<exists>x. inspectSourceGovernance X P g now = Inl x" if "prov_BindingSetID (src_Producer g) = i" for g
  proof (cases "inspectSourceGovernance X P g now")
    case (Inr policy)
    then obtain F where "source_facts_read P g F" "source_governed X g now F" by (rule inspectSourceGovernance_Inr)
    then have "sg_set F = c" "bs_State (sg_set F) = BindingSetActive"
      using c that by (simp_all add: source_facts_read_def source_governed_def validateEvidenceProducerBindingV2_def)
    with assms(2) show ?thesis by simp
  qed simp
  obtain x where x: "inspectSourceGovernance X P source now = Inl x" using no assms(6) by blast
  obtain z where z: "inspectSourceGovernance X P f now = Inl z" using no assms(7) by blast
  have "fst (append_governed (ledger_writer X ctx m) X (Some P) s e expected late now) = s"
    using assms(5) x by (simp add: append_governed_def guarded_def split: option.splits sum.splits)
  moreover have "fst (RegisterGovernedSource (\<lambda>s f. CreateSource (xj_evidence X) s ctx f m) X (Some P) s f now) = s"
    using z by (simp add: RegisterGovernedSource_def guarded_def split: option.splits sum.splits)
  moreover have "fst (RenewGovernedSource (\<lambda>s q. CompareAndSwapSource (xj_evidence X) s ctx q m) X (Some P) s
        \<lparr>scas_ExpectedRevision = n, scas_Next = f\<rparr> now) = s"
    using z by (simp add: RenewGovernedSource_def guarded_def split: option.splits sum.splits)
  ultimately show ?thesis by blast
qed

theorem inactive_set_stops_evidence_witness:
  "\<exists>b. CompareAndSwapBindingSet binding_world LiveContext \<lparr>bsc_ExpectedRevision = 1, bsc_Next = revoked_set\<rparr> = (b, Inr revoked_set)
    \<and> fst (append_governed (ledger_writer gov_json LiveContext (at_nano 21)) gov_json (Some (gov_ports gov_registered b))
        gov_registered gov_event 1 False (at_nano 20)) = gov_registered"
proof -
  let ?b = "binding_world\<lparr>bst_sets := [''s'' \<mapsto> revoked_set]\<rparr>"
  have i: "InspectBindingSet ?b LiveContext ''s'' = Inr revoked_set" by (simp add: InspectBindingSet_def)
  have s: "bs_State revoked_set \<noteq> BindingSetActive" by (simp add: revoked_set_def)
  have g: "eg_BindingSet (gov_ports gov_registered ?b) ''s'' = InspectBindingSet ?b LiveContext ''s''" by (simp add: gov_ports_def)
  have e: "eg_Source (gov_ports gov_registered ?b) (ev_RegistrationID gov_event) = Inr gov_source"
    by (simp add: gov_ports_def InspectSource_def gov_registered_fields)
  have p: "prov_BindingSetID (src_Producer gov_source) = ''s''" by (simp add: gov_provider)
  show ?thesis using bound_set_revoked inactive_set_stops_evidence [OF i s binding_stay g e p p] by blast
qed

text \<open>
  C29: A source that is registered or renewed through the gateway rests on current facts, and none of them
  expires before the source does: registering or renewing changes the ledger only if the new registration is
  governed at the gateway's clock reading.
\<close>

theorem governed_source_bounded:
  assumes "RegisterGovernedSource (\<lambda>s f. CreateSource (xj_evidence X) s ctx f m) X (Some P) s f now = (s', y)
      \<or> RenewGovernedSource (\<lambda>s q. CompareAndSwapSource (xj_evidence X) s ctx q m) X (Some P) s \<lparr>scas_ExpectedRevision = n, scas_Next = f\<rparr> now = (s', y)"
    and "s' \<noteq> s"
  shows "\<exists>F. source_facts_read P f F \<and> source_governed X f now F \<and> (\<forall>l \<in> set (source_limits F). sint (src_ExpiresUnixNano f) \<le> sint l)"
proof -
  obtain policy where "inspectSourceGovernance X P f now = Inr policy"
    using assms by (auto simp: RegisterGovernedSource_def RenewGovernedSource_def guarded_def split: sum.splits option.splits if_splits)
  then obtain F where "source_facts_read P f F" "source_governed X f now F" by (rule inspectSourceGovernance_Inr)
  then show ?thesis unfolding source_governed_def by blast
qed

lemma gov_registers:
  "RegisterGovernedSource (\<lambda>s f. CreateSource (xj_evidence gov_json) s LiveContext f (at_nano 10)) gov_json
     (Some (gov_ports NewEvidenceLedgerStoreV2 binding_world)) NewEvidenceLedgerStoreV2 gov_source (at_nano 10) = (gov_registered, Inr gov_source)"
proof -
  have s: "eg_Source (gov_ports NewEvidenceLedgerStoreV2 binding_world) ''r'' = Inl (DomainError ErrorNotFound ReasonEvidenceSourceMissing)"
    by (simp add: gov_ports_def InspectSource_def NewEvidenceLedgerStoreV2_def)
  have "xj_evidence gov_json = ledger_json" by (simp add: gov_json_def)
  then show ?thesis using gov_inspect [of 10 binding_world NewEvidenceLedgerStoreV2] gov_create
    by (simp add: RegisterGovernedSource_def s gov_new)
qed

theorem governed_source_bounded_witness:
  "\<exists>F. source_governed gov_json gov_source (at_nano 10) F"
proof -
  have "gov_registered \<noteq> NewEvidenceLedgerStoreV2"
  proof
    assume "gov_registered = NewEvidenceLedgerStoreV2"
    moreover have "el_sources NewEvidenceLedgerStoreV2 ''r'' = None" by (simp add: NewEvidenceLedgerStoreV2_def)
    ultimately have "el_sources gov_registered ''r'' = None" by (rule ssubst)
    then show False by (simp add: gov_registered_fields)
  qed
  then show ?thesis using governed_source_bounded [OF disjI1 [OF gov_registers]] by blast
qed

end
