(* ===== verification/Continuity.thy ===== *)
theory Continuity
  imports ActivationStore Assembly
begin

text \<open>
  \<open>runtime/core/continuity.go\<close> and \<open>runtime/kernel/run_registry.go\<close>: checkpoint sets with their
  participants and watermarks, the request to restore from one, and the in-process registry of runs that
  the foundation coordinator gives each instance. The message types of checkpoint participants are those
  of \<open>runtime/ports/component_domains.go\<close>.
\<close>

section \<open>Checkpoints\<close>

record TimelinePoint =
  tl_LedgerScope :: string
  tl_LedgerSequence :: u64
  tl_SourceID :: string
  tl_SourceEpoch :: Epoch
  tl_SourceSequence :: u64
  tl_EventID :: string
  tl_CausationID :: string
  tl_CorrelationID :: string
  tl_ObservedAt :: Time
  tl_IngestedAt :: Time

definition TimelinePoint_Validate :: "TimelinePoint \<Rightarrow> go_error option" where [validate_defs]:
  "TimelinePoint_Validate p =
     first_err
      [fail_if (blank (tl_LedgerScope p) \<or> tl_LedgerSequence p = 0 \<or> blank (tl_SourceID p) \<or> tl_SourceEpoch p = 0
                \<or> tl_SourceSequence p = 0 \<or> blank (tl_EventID p)) ErrorInvalidArgument ReasonInvalidReference,
       fail_if (IsZero (tl_ObservedAt p) \<or> IsZero (tl_IngestedAt p)) ErrorInvalidArgument ReasonInvalidReference]"

datatype CheckpointConsistency =
    CheckpointConsistent | CheckpointPartial | CheckpointIndeterminate | CheckpointRejected | CheckpointConsistencyOther string

datatype CheckpointParticipantState =
    CheckpointParticipantPrepared | CheckpointParticipantCommitted | CheckpointParticipantAborted | CheckpointParticipantUnknown
  | CheckpointParticipantOther string

record EffectWatermarks =
  wm_Accepted :: u64
  wm_Dispatched :: u64
  wm_Settled :: u64
  wm_Remote :: u64

definition EffectWatermarks_Validate :: "EffectWatermarks \<Rightarrow> go_error option" where [validate_defs]:
  "EffectWatermarks_Validate w =
     fail_if (wm_Dispatched w > wm_Accepted w \<or> wm_Settled w > wm_Dispatched w)
       ErrorPreconditionFailed ReasonCheckpointInconsistent"

record CheckpointParticipantSnapshot =
  cps_ComponentID :: string
  cps_ComponentKind :: string
  cps_Required :: bool
  cps_State :: CheckpointParticipantState
  cps_SnapshotRef :: string
  cps_SnapshotDigest :: Digest

definition CheckpointParticipantSnapshot_Validate :: "CheckpointParticipantSnapshot \<Rightarrow> go_error option" where [validate_defs]:
  "CheckpointParticipantSnapshot_Validate p =
     first_err
      [fail_if (blank (cps_ComponentID p) \<or> blank (cps_ComponentKind p)) ErrorInvalidArgument ReasonInvalidReference,
       (case cps_State p of
          CheckpointParticipantAborted \<Rightarrow> None
        | CheckpointParticipantUnknown \<Rightarrow> None
        | CheckpointParticipantOther s \<Rightarrow> Some (DomainError ErrorInvalidArgument ReasonCheckpointInconsistent)
        | _ \<Rightarrow> first_err
            [fail_if (blank (cps_SnapshotRef p)) ErrorPreconditionFailed ReasonCheckpointInconsistent,
             Digest_Validate (cps_SnapshotDigest p)])]"

record CheckpointSet =
  cset_ID :: string
  cset_Epoch :: Epoch
  cset_BarrierID :: string
  cset_Scope :: ExecutionScope
  cset_PlanDigest :: Digest
  cset_ProfileDigest :: Digest
  cset_ContextDigest :: Digest
  cset_AuthorityEpoch :: Epoch
  cset_Effects :: EffectWatermarks
  cset_EventWatermark :: TimelinePoint
  cset_Participants :: "CheckpointParticipantSnapshot list"
  cset_Consistency :: CheckpointConsistency
  cset_CreatedAt :: Time

text \<open>The loop over the participants, with the components seen so far.\<close>

fun participants_error :: "CheckpointConsistency \<Rightarrow> string set \<Rightarrow> CheckpointParticipantSnapshot list \<Rightarrow> go_error option" where
  "participants_error consistency seen [] = None"
| "participants_error consistency seen (p # ps) =
     first_err
      [CheckpointParticipantSnapshot_Validate p,
       fail_if (cps_ComponentID p \<in> seen) ErrorConflict ReasonCheckpointInconsistent,
       fail_if (consistency = CheckpointConsistent \<and> cps_Required p \<and> cps_State p \<noteq> CheckpointParticipantCommitted)
         ErrorPreconditionFailed ReasonCheckpointInconsistent,
       participants_error consistency (insert (cps_ComponentID p) seen) ps]"

definition CheckpointSet_Validate :: "CheckpointSet \<Rightarrow> go_error option" where [validate_defs]:
  "CheckpointSet_Validate c =
     first_err
      [fail_if (blank (cset_ID c) \<or> cset_Epoch c = 0 \<or> blank (cset_BarrierID c) \<or> IsZero (cset_CreatedAt c))
         ErrorInvalidArgument ReasonCheckpointInconsistent,
       ExecutionScope_Validate (cset_Scope c),
       first_err (map Digest_Validate [cset_PlanDigest c, cset_ProfileDigest c, cset_ContextDigest c]),
       fail_if (cset_PlanDigest c \<noteq> lineage_PlanDigest (scope_Lineage (cset_Scope c))
                \<or> cset_AuthorityEpoch c \<noteq> scope_AuthorityEpoch (cset_Scope c)) ErrorPreconditionFailed ReasonCheckpointInconsistent,
       EffectWatermarks_Validate (cset_Effects c),
       TimelinePoint_Validate (cset_EventWatermark c),
       fail_if (cset_Consistency c = CheckpointConsistent \<and> cset_Participants c = []) ErrorPreconditionFailed ReasonCheckpointInconsistent,
       participants_error (cset_Consistency c) {} (cset_Participants c),
       (case cset_Consistency c of
          CheckpointConsistencyOther s \<Rightarrow> Some (DomainError ErrorInvalidArgument ReasonCheckpointInconsistent)
        | _ \<Rightarrow> None)]"

record RestoreRequest =
  rr_Checkpoint :: CheckpointSet
  rr_NewInstance :: InstanceRef
  rr_CurrentPlanDigest :: Digest
  rr_CurrentProfileDigest :: Digest
  rr_CurrentAuthorityEpoch :: Epoch

definition RestoreRequest_Validate :: "RestoreRequest \<Rightarrow> go_error option" where [validate_defs]:
  "RestoreRequest_Validate r =
     first_err
      [CheckpointSet_Validate (rr_Checkpoint r),
       fail_if (cset_Consistency (rr_Checkpoint r) \<noteq> CheckpointConsistent) ErrorPreconditionFailed ReasonCheckpointInconsistent,
       InstanceRef_Validate (rr_NewInstance r),
       fail_if (inst_ID (rr_NewInstance r) = inst_ID (scope_Instance (cset_Scope (rr_Checkpoint r)))
                \<or> inst_Epoch (rr_NewInstance r) \<le> inst_Epoch (scope_Instance (cset_Scope (rr_Checkpoint r))))
         ErrorPreconditionFailed ReasonRestoreIncompatible,
       fail_if (rr_CurrentPlanDigest r \<noteq> cset_PlanDigest (rr_Checkpoint r)
                \<or> rr_CurrentProfileDigest r \<noteq> cset_ProfileDigest (rr_Checkpoint r) \<or> rr_CurrentAuthorityEpoch r = 0)
         ErrorPreconditionFailed ReasonRestoreIncompatible]"

section \<open>Participants\<close>

record CheckpointPrepareRequest =
  cpr_BarrierID :: string
  cpr_Epoch :: Epoch
  cpr_Scope :: ExecutionScope
  cpr_Effects :: EffectWatermarks

record CheckpointCommitRequest =
  ccr_BarrierID :: string
  ccr_Epoch :: Epoch

record CheckpointAbortRequest =
  car_BarrierID :: string
  car_Epoch :: Epoch
  car_Reason :: string

record CheckpointRestoreRequest =
  crr_CheckpointID :: string
  crr_SnapshotRef :: string
  crr_SnapshotDigest :: Digest
  crr_NewScope :: ExecutionScope

record CheckpointParticipantReport =
  cpt_ComponentID :: string
  cpt_ComponentKind :: ComponentKind
  cpt_State :: CheckpointParticipantState
  cpt_SnapshotRef :: string
  cpt_SnapshotDigest :: Digest
  cpt_EvidenceDigest :: Digest
  cpt_ObservedAt :: Time

section \<open>The run registry\<close>

record RunRegistry =
  rgy_records :: "string \<Rightarrow> AgentRunRecord option"
  rgy_active :: "string \<Rightarrow> string option"

definition NewRunRegistry :: RunRegistry where
  "NewRunRegistry = \<lparr>rgy_records = (\<lambda>_. None), rgy_active = (\<lambda>_. None)\<rparr>"

definition runInstanceKey :: "ExecutionScope \<Rightarrow> string" where
  "runInstanceKey scope = ident_TenantID (scope_Identity scope) @ slash @ ident_ID (scope_Identity scope) @ slash
     @ lineage_ID (scope_Lineage scope) @ slash @ inst_ID (scope_Instance scope) @ slash @ dec (unat (inst_Epoch (scope_Instance scope)))"

definition started_run :: "ExecutionScope \<Rightarrow> string \<Rightarrow> string \<Rightarrow> Time \<Rightarrow> AgentRunRecord" where
  "started_run scope runID sessionRef now =
     \<lparr>run_ID = runID, run_Scope = scope, run_Status = RunRunning, run_Revision = 1, run_SessionRef = sessionRef,
      run_StartedAt = now, run_EndedAt = 0, run_Outcome = NoOutcome, run_CompletionClaim = None\<rparr>"

definition Registry_Start :: "RunRegistry \<Rightarrow> ExecutionScope \<Rightarrow> string \<Rightarrow> string \<Rightarrow> Time \<Rightarrow> RunRegistry \<times> AgentRunRecord res" where [step_defs]:
  "Registry_Start r scope runID sessionRef now =
     guarded (first_err
       [ExecutionScope_Validate scope,
        fail_if (runID = '''' \<or> IsZero now) ErrorInvalidArgument ReasonInvalidReference,
        fail_if (rgy_active r (runInstanceKey scope) \<noteq> None) ErrorConflict ReasonRunConflict,
        fail_if (rgy_records r runID \<noteq> None) ErrorConflict ReasonAlreadyExists,
        AgentRunRecord_Validate (started_run scope runID sessionRef now)]) r
      (\<lparr>rgy_records = (rgy_records r)(runID \<mapsto> started_run scope runID sessionRef now),
        rgy_active = (rgy_active r)(runInstanceKey scope \<mapsto> runID)\<rparr>, Inr (started_run scope runID sessionRef now))"

definition Registry_Finish :: "RunRegistry \<Rightarrow> ExecutionScope \<Rightarrow> string \<Rightarrow> ExecutionOutcome \<Rightarrow> Time \<Rightarrow> RunRegistry \<times> AgentRunRecord res" where [step_defs]:
  "Registry_Finish r scope runID outcome now =
     guarded (ExecutionScope_Validate scope) r
      (case rgy_records r runID of
         None \<Rightarrow> (r, Inl (DomainError ErrorNotFound ReasonInvalidReference))
       | Some record1 \<Rightarrow>
           (let final = record1\<lparr>run_Status := RunTerminal, run_Revision := run_Revision record1 + 1, run_EndedAt := now,
                  run_Outcome := outcome\<rparr> in
            guarded (first_err
              [fail_if (\<not> sameExecutionScope (run_Scope record1) scope) ErrorNotFound ReasonInvalidReference,
               fail_if (rgy_active r (runInstanceKey scope) \<noteq> Some runID \<or> run_Status record1 = RunTerminal)
                 ErrorPreconditionFailed ReasonRunConflict,
               AgentRunRecord_Validate final]) r
             (\<lparr>rgy_records = (rgy_records r)(runID \<mapsto> final), rgy_active = (rgy_active r)(runInstanceKey scope := None)\<rparr>, Inr final)))"

definition Registry_Inspect :: "RunRegistry \<Rightarrow> string \<Rightarrow> AgentRunRecord res" where
  "Registry_Inspect r runID =
     (case rgy_records r runID of None \<Rightarrow> Inl (DomainError ErrorNotFound ReasonInvalidReference) | Some record1 \<Rightarrow> Inr record1)"

section \<open>Lemmas\<close>

lemma participants_error_distinct:
  "participants_error c seen ps = None \<Longrightarrow>
     distinct (map cps_ComponentID ps) \<and> set (map cps_ComponentID ps) \<inter> seen = {}"
  by (induction ps arbitrary: seen) auto

lemma participants_error_valid:
  "participants_error c seen ps = None \<Longrightarrow> p \<in> set ps \<Longrightarrow>
     CheckpointParticipantSnapshot_Validate p = None
     \<and> (c = CheckpointConsistent \<and> cps_Required p \<longrightarrow> cps_State p = CheckpointParticipantCommitted)"
  by (induction ps arbitrary: seen) auto

lemma CheckpointSet_consistent:
  assumes "CheckpointSet_Validate c = None" "cset_Consistency c = CheckpointConsistent"
  shows "cset_Participants c \<noteq> []" "distinct (map cps_ComponentID (cset_Participants c))"
    "\<forall>p \<in> set (cset_Participants c). cps_Required p \<longrightarrow> cps_State p = CheckpointParticipantCommitted"
  using assms participants_error_distinct [of _ "{}" "cset_Participants c"]
    participants_error_valid [of CheckpointConsistent "{}" "cset_Participants c"]
  by (auto simp: CheckpointSet_Validate_def)

text \<open>An instance has at most one run in the registry that is not terminal: the active one.\<close>

definition registry_ok :: "RunRegistry \<Rightarrow> bool" where
  "registry_ok r \<longleftrightarrow>
     (\<forall>i x. rgy_records r i = Some x \<longrightarrow> run_ID x = i \<and> AgentRunRecord_Validate x = None
        \<and> (run_Status x \<noteq> RunTerminal \<longrightarrow> rgy_active r (runInstanceKey (run_Scope x)) = Some i))"

inductive registry_history :: "RunRegistry \<Rightarrow> bool" where
  empty: "registry_history NewRunRegistry"
| starts: "registry_history r \<Longrightarrow> Registry_Start r scope i ref now = (r', x) \<Longrightarrow> registry_history r'"
| finishes: "registry_history r \<Longrightarrow> Registry_Finish r scope i out now = (r', x) \<Longrightarrow> registry_history r'"

text \<open>Putting a record: it must be valid, and the index must keep answering for every other active run.\<close>

lemma registry_ok_put:
  assumes "registry_ok r" "run_ID z = i" "AgentRunRecord_Validate z = None"
    and "run_Status z \<noteq> RunTerminal \<Longrightarrow> act (runInstanceKey (run_Scope z)) = Some i"
    and "\<And>j k. j \<noteq> i \<Longrightarrow> rgy_active r k = Some j \<Longrightarrow> act k = Some j"
  shows "registry_ok \<lparr>rgy_records = (rgy_records r)(i \<mapsto> z), rgy_active = act\<rparr>"
  unfolding registry_ok_def
proof (intro allI impI)
  fix j x assume "rgy_records \<lparr>rgy_records = (rgy_records r)(i \<mapsto> z), rgy_active = act\<rparr> j = Some x"
  then consider "j = i" "x = z" | "j \<noteq> i" "rgy_records r j = Some x" by (auto split: if_splits)
  then show "run_ID x = j \<and> AgentRunRecord_Validate x = None \<and> (run_Status x \<noteq> RunTerminal \<longrightarrow>
      rgy_active \<lparr>rgy_records = (rgy_records r)(i \<mapsto> z), rgy_active = act\<rparr> (runInstanceKey (run_Scope x)) = Some j)"
  proof cases
    case 1
    then show ?thesis using assms(2-4) by simp
  next
    case 2
    then show ?thesis using assms(1) assms(5) [of j "runInstanceKey (run_Scope x)"] by (simp add: registry_ok_def)
  qed
qed

lemma Registry_Start_ok:
  assumes "registry_ok r" "Registry_Start r scope i ref now = (r', x)" shows "registry_ok r'"
  using assms(2) [unfolded Registry_Start_def]
proof (cases rule: guarded_cases)
  case pass
  then have r': "r' = \<lparr>rgy_records = (rgy_records r)(i \<mapsto> started_run scope i ref now),
      rgy_active = (rgy_active r)(runInstanceKey scope \<mapsto> i)\<rparr>" by simp
  show ?thesis unfolding r'
    by (rule registry_ok_put [OF assms(1)]) (use pass(1) in \<open>auto simp: started_run_def split: if_splits\<close>)
qed (use assms(1) in simp)

lemma Registry_Finish_ok:
  assumes "registry_ok r" "Registry_Finish r scope i out now = (r', x)" shows "registry_ok r'"
  using assms(2) [unfolded Registry_Finish_def Let_def]
proof (cases rule: guarded_cases)
  case pass
  show ?thesis
  proof (cases "rgy_records r i")
    case None
    then show ?thesis using pass(2) assms(1) by auto
  next
    case (Some y)
    from pass(2) [unfolded Some option.case] show ?thesis
    proof (cases rule: guarded_cases)
      case inner: pass
      let ?z = "y\<lparr>run_Status := RunTerminal, run_Revision := run_Revision y + 1, run_EndedAt := now, run_Outcome := out\<rparr>"
      have r': "r' = \<lparr>rgy_records = (rgy_records r)(i \<mapsto> ?z), rgy_active = (rgy_active r)(runInstanceKey scope := None)\<rparr>"
        using inner(2) by simp
      show ?thesis unfolding r'
        by (rule registry_ok_put [OF assms(1)]) (use inner(1) assms(1) Some in \<open>auto simp: registry_ok_def split: if_splits\<close>)
    qed (use assms(1) in simp)
  qed
qed (use assms(1) in simp)

lemma registry_history_ok: "registry_history r \<Longrightarrow> registry_ok r"
  by (induction rule: registry_history.induct)
     (simp add: registry_ok_def NewRunRegistry_def, auto intro: Registry_Start_ok Registry_Finish_ok)

text \<open>Two runs of one instance that are not terminal are the same run.\<close>

lemma registry_single_active:
  assumes "registry_history r" "rgy_records r i = Some x" "rgy_records r k = Some y"
    "run_Status x \<noteq> RunTerminal" "run_Status y \<noteq> RunTerminal" "runInstanceKey (run_Scope x) = runInstanceKey (run_Scope y)"
  shows "i = k"
proof -
  have "rgy_active r (runInstanceKey (run_Scope x)) = Some i" "rgy_active r (runInstanceKey (run_Scope y)) = Some k"
    using registry_history_ok [OF assms(1)] assms(2-5) by (auto simp: registry_ok_def)
  then show ?thesis using assms(6) by simp
qed

end
