(* ===== verification/Coordinator.thy ===== *)
theory Coordinator
  imports Continuity Aggregate Fence Recovery
begin

text \<open>
  The foundation coordinator, \<open>runtime/foundation/coordinator.go\<close>: it activates an instance by driving the
  activation journal, the identity lease, the evidence log and the execution and environment components
  through their ports, starts and stops runs, takes checkpoints and restores from them. The message types of
  the ports are those of \<open>ports/execution.go\<close> and \<open>ports/infrastructure.go\<close>.

  The coordinator keeps no state of its own. The world it acts on is a type parameter \<open>'w\<close>; every port
  operation maps a world and a request to a world and an answer, so that a port may do anything to the
  world, and other callers may act between two calls. A coordinator with a missing port is \<open>None\<close>.
\<close>

section \<open>Messages\<close>

record OpaquePayload =
  opl_Schema :: string
  opl_Digest :: Digest
  opl_Payload :: string

record ProbeBudget =
  pb_MaxRequests :: u32
  pb_MaxDuration :: Duration
  pb_PossibleCharge :: bool
  pb_PossibleMutation :: bool
  pb_CleanupContract :: string

record ExecutionPreflightRequest =
  epq_ProposedScope :: ExecutionScope
  epq_RequirementDigest :: Digest
  epq_ProbeBudget :: ProbeBudget

record ExecutionPreflightReport =
  epf_Accepted :: bool
  epf_Descriptor :: ComponentDescriptor
  epf_RequirementDigest :: Digest
  epf_EvidenceDigest :: Digest
  epf_EvidenceExpiry :: Time
  epf_PossibleResidual :: bool
  epf_ResidualRef :: string

record ExecutionOpenRequest =
  eoq_Scope :: ExecutionScope
  eoq_RequirementDigest :: Digest
  eoq_Intent :: EffectIntent
  eoq_Fence :: ExecutionFence

record ExecutionEndpointRef =
  eep_ComponentID :: string
  eep_EndpointID :: string
  eep_Digest :: Digest

record ExecutionInspectRequest =
  eiq_Scope :: ExecutionScope
  eiq_Endpoint :: ExecutionEndpointRef
  eiq_InspectKind :: string

record ExecutionCloseRequest =
  ecq_Scope :: ExecutionScope
  ecq_Endpoint :: ExecutionEndpointRef
  ecq_Reason :: string
  ecq_Intent :: EffectIntent
  ecq_Fence :: ExecutionFence

record ExecutionObservation =
  eob_SourceComponentID :: string
  eob_SourceEpoch :: Epoch
  eob_ObservationKind :: string
  eob_Payload :: OpaquePayload
  eob_ObservedAt :: Time

record SandboxAllocateRequest =
  saq_ProposedInstance :: InstanceRef
  saq_RequirementDigest :: Digest
  saq_FenceEpoch :: Epoch
  saq_Intent :: EffectIntent
  saq_Fence :: ExecutionFence

record SandboxActivateRequest =
  sac_Scope :: ExecutionScope
  sac_Intent :: EffectIntent
  sac_Fence :: ExecutionFence

record SandboxFenceRequest =
  sfq_Lease :: SandboxLeaseRef
  sfq_Reason :: string

record SandboxReleaseRequest =
  srq_Lease :: SandboxLeaseRef
  srq_Intent :: EffectIntent
  srq_Fence :: ExecutionFence

record SandboxLeaseObservation =
  slo_Lease :: SandboxLeaseRef
  slo_State :: string
  slo_EvidenceRef :: string
  slo_ObservedAt :: Time

record EvidenceIntentRecord =
  eir_Scope :: ExecutionScope
  eir_Kind :: string
  eir_PayloadDigest :: Digest
  eir_CausationID :: string

record EvidenceRecordRef =
  erf_Scope :: string
  erf_Sequence :: u64

record EvidenceRecord =
  evr_Ref :: EvidenceRecordRef
  evr_Classification :: string
  evr_PayloadDigest :: Digest
  evr_RecordedAt :: Time

section \<open>The coordinator and its instances\<close>

record 'p CheckpointBinding =
  cb_Port :: 'p
  cb_Required :: bool

record coordinator_json =
  cj_Observation :: "SandboxLeaseObservation \<Rightarrow> string option"
  cj_Snapshot :: "ExecutionScope \<Rightarrow> Digest \<Rightarrow> Digest \<Rightarrow> Digest \<Rightarrow> Time \<Rightarrow> string option"

record ('a, 'p, 'w) Coordinator =
  co_Registry :: "'a registry"
  co_Describe :: "'a \<Rightarrow> go_context \<Rightarrow> ComponentDescriptor res"
  co_PlanOrder :: map_order
  co_ResolveOrder :: map_order
  co_Preflight :: "'w \<Rightarrow> ExecutionPreflightRequest \<Rightarrow> 'w \<times> ExecutionPreflightReport res"
  co_Open :: "'w \<Rightarrow> ExecutionOpenRequest \<Rightarrow> 'w \<times> ExecutionEndpointRef res"
  co_InspectExecution :: "'w \<Rightarrow> ExecutionInspectRequest \<Rightarrow> 'w \<times> ExecutionObservation res"
  co_Close :: "'w \<Rightarrow> ExecutionCloseRequest \<Rightarrow> 'w \<times> ExecutionObservation res"
  co_Allocate :: "'w \<Rightarrow> SandboxAllocateRequest \<Rightarrow> 'w \<times> SandboxLeaseObservation res"
  co_ActivateSandbox :: "'w \<Rightarrow> SandboxActivateRequest \<Rightarrow> 'w \<times> SandboxLeaseObservation res"
  co_InspectSandbox :: "'w \<Rightarrow> SandboxLeaseRef \<Rightarrow> 'w \<times> SandboxLeaseObservation res"
  co_Fence :: "'w \<Rightarrow> SandboxFenceRequest \<Rightarrow> 'w \<times> SandboxLeaseObservation res"
  co_Release :: "'w \<Rightarrow> SandboxReleaseRequest \<Rightarrow> 'w \<times> SandboxLeaseObservation res"
  co_AppendIntent :: "'w \<Rightarrow> EvidenceIntentRecord \<Rightarrow> 'w \<times> EvidenceRecordRef res"
  co_ReadEvidence :: "'w \<Rightarrow> EvidenceRecordRef \<Rightarrow> 'w \<times> EvidenceRecord res"
  co_ReserveIdentityLease :: "'w \<Rightarrow> ReserveIdentityLeaseRequest \<Rightarrow> 'w \<times> IdentityExecutionLease res"
  co_RevokeIdentityLease :: "'w \<Rightarrow> EndIdentityLeaseRequest \<Rightarrow> 'w \<times> IdentityExecutionLease res"
  co_ReleaseIdentityLease :: "'w \<Rightarrow> EndIdentityLeaseRequest \<Rightarrow> 'w \<times> IdentityExecutionLease res"
  co_CreateAttempt :: "'w \<Rightarrow> ActivationAttempt \<Rightarrow> 'w \<times> ActivationAttempt res"
  co_InspectAttempt :: "'w \<Rightarrow> string \<Rightarrow> 'w \<times> ActivationAttempt res"
  co_SwapAttempt :: "'w \<Rightarrow> ActivationAttempt \<Rightarrow> ActivationTransitionContext \<Rightarrow> 'w \<times> ActivationAttempt res"
  co_CommitActivation :: "'w \<Rightarrow> ActivationStoreCommitRequest \<Rightarrow> 'w \<times> ActivationCommitResult res"
  co_Participants :: "'p CheckpointBinding list"
  co_DescribeParticipant :: "'p \<Rightarrow> 'w \<Rightarrow> 'w \<times> ComponentDescriptor res"
  co_PrepareCheckpoint :: "'p \<Rightarrow> 'w \<Rightarrow> CheckpointPrepareRequest \<Rightarrow> 'w \<times> CheckpointParticipantReport res"
  co_CommitCheckpoint :: "'p \<Rightarrow> 'w \<Rightarrow> CheckpointCommitRequest \<Rightarrow> 'w \<times> CheckpointParticipantReport res"
  co_AbortCheckpoint :: "'p \<Rightarrow> 'w \<Rightarrow> CheckpointAbortRequest \<Rightarrow> 'w \<times> CheckpointParticipantReport res"
  co_RestoreCheckpoint :: "'p \<Rightarrow> 'w \<Rightarrow> CheckpointRestoreRequest \<Rightarrow> 'w \<times> CheckpointParticipantReport res"
  co_Clock :: "'w \<Rightarrow> 'w \<times> Time"
  co_json :: coordinator_json

record ActivationRequest =
  ar_Plan :: ResolvedAgentPlan
  ar_ProposedScope :: ExecutionScope
  ar_ActivationAttemptID :: string
  ar_RequirementDigest :: Digest
  ar_CapabilityGrantDigest :: Digest
  ar_ProbeBudget :: ProbeBudget
  ar_IdentityLeaseExpiresAt :: Time
  ar_FenceTTL :: Duration
  ar_AllocateIntent :: EffectIntent
  ar_ActivateIntent :: EffectIntent
  ar_OpenIntent :: EffectIntent

record Instance =
  in_aggregate :: Aggregate
  in_legacyRuns :: RunRegistry
  in_plan :: ResolvedAgentPlan
  in_bindings :: BindingSet
  in_identityLease :: IdentityExecutionLease
  in_activation :: ActivationAttempt
  in_endpoint :: ExecutionEndpointRef
  in_capabilityDigest :: Digest
  in_fenceTTL :: Duration
  in_activeRun :: "AgentRunRecord option"

record InstanceSnapshot =
  ins_Kernel :: Aggregate
  ins_PlanDigest :: Digest
  ins_Bindings :: BindingSet
  ins_IdentityLease :: IdentityExecutionLease
  ins_Activation :: ActivationAttempt
  ins_Endpoint :: ExecutionEndpointRef
  ins_ActiveRun :: "AgentRunRecord option"

definition Instance_Snapshot :: "Instance \<Rightarrow> InstanceSnapshot" where
  "Instance_Snapshot i =
     \<lparr>ins_Kernel = in_aggregate i, ins_PlanDigest = plan_Digest (in_plan i), ins_Bindings = in_bindings i,
      ins_IdentityLease = in_identityLease i, ins_Activation = in_activation i, ins_Endpoint = in_endpoint i,
      ins_ActiveRun = in_activeRun i\<rparr>"

section \<open>Helpers\<close>

definition missing_ports :: go_error where
  "missing_ports = DomainError ErrorInvalidArgument ReasonComponentMissing"

definition read_clock :: "('a, 'p, 'w) Coordinator \<Rightarrow> 'w \<Rightarrow> 'w \<times> Time res" where
  "read_clock C w = (case co_Clock C w of (w', t) \<Rightarrow> (w', Inr t))"

definition monotonicTimestamp :: "('a, 'p, 'w) Coordinator \<Rightarrow> Time \<Rightarrow> 'w \<Rightarrow> 'w \<times> Time res" where
  "monotonicTimestamp C previous w =
     andThen (read_clock C w) (\<lambda>w now. (w, Inr (if Before now previous then previous else now)))"

definition preconditions :: "Aggregate \<Rightarrow> ExecutionPreconditions" where
  "preconditions snapshot =
     \<lparr>pre_IdentityEpoch = ident_Epoch (scope_Identity (agg_scope snapshot)),
      pre_InstanceEpoch = inst_Epoch (scope_Instance (agg_scope snapshot)),
      pre_LeaseEpoch = map_option slease_Epoch (scope_SandboxLease (agg_scope snapshot)),
      pre_AuthorityEpoch = scope_AuthorityEpoch (agg_scope snapshot), pre_Revision = agg_revision snapshot\<rparr>"

definition transition :: "Aggregate \<Rightarrow> InstanceState \<Rightarrow> TransitionContext \<Rightarrow> Aggregate \<times> Aggregate res" where
  "transition aggregate next1 context1 =
     Transition aggregate \<lparr>tr_Preconditions = preconditions aggregate, tr_NextState = next1, tr_Context = context1\<rparr>"

definition makeFence ::
  "ExecutionScope \<Rightarrow> FenceBoundaryScope \<Rightarrow> Digest \<Rightarrow> EffectIntent \<Rightarrow> Time \<Rightarrow> ExecutionFence" where
  "makeFence scope boundary capabilityDigest intent expiresAt =
     \<lparr>fe_BoundaryScope = boundary, fe_Scope = scope, fe_CapabilityGrantDigest = capabilityDigest,
      fe_EffectIntentID = ei_ID intent, fe_EffectIntentRevision = ei_Revision intent,
      fe_CanonicalPayloadDigest = ei_CanonicalPayloadDigest intent, fe_ExpiresAt = expiresAt\<rparr>"

definition advanceActivation ::
  "('a, 'p, 'w) Coordinator \<Rightarrow> ActivationAttempt \<Rightarrow> ActivationStage \<Rightarrow> (ActivationAttempt \<Rightarrow> ActivationAttempt)
     \<Rightarrow> 'w \<Rightarrow> 'w \<times> ActivationAttempt res" where
  "advanceActivation C current stage mutate w =
     andThen (monotonicTimestamp C (at_UpdatedAt current) w) (\<lambda>w t.
       co_SwapAttempt C w (mutate (current\<lparr>at_Stage := stage, at_Revision := at_Revision current + 1, at_UpdatedAt := t\<rparr>))
         \<lparr>atc_UnknownResolved = False\<rparr>)"

definition quarantineActivation ::
  "('a, 'p, 'w) Coordinator \<Rightarrow> ActivationAttempt \<Rightarrow> (ActivationAttempt \<Rightarrow> ActivationAttempt) \<Rightarrow> string \<Rightarrow> 'w \<Rightarrow> 'w \<times> ActivationAttempt res" where
  "quarantineActivation C current mutate reason w =
     andThen (monotonicTimestamp C (at_UpdatedAt current) w) (\<lambda>w t.
       co_SwapAttempt C w (mutate (current\<lparr>at_Recovery := RecoveryQuarantined, at_FailureReason := reason,
           at_Revision := at_Revision current + 1, at_UpdatedAt := t\<rparr>)) \<lparr>atc_UnknownResolved = False\<rparr>)"

definition persistIntent ::
  "('a, 'p, 'w) Coordinator \<Rightarrow> ExecutionScope \<Rightarrow> EffectIntent \<Rightarrow> string \<Rightarrow> 'w \<Rightarrow> 'w \<times> EffectIntent res" where
  "persistIntent C scope intent kind w =
     andThen (read_clock C w) (\<lambda>w t.
      let candidate = intent\<lparr>ei_PersistedAt := t\<rparr> in
      guarded (EffectIntent_Validate candidate) w
       (andThen (co_AppendIntent C w \<lparr>eir_Scope = scope, eir_Kind = kind,
            eir_PayloadDigest = ei_CanonicalPayloadDigest candidate, eir_CausationID = ei_ID candidate\<rparr>) (\<lambda>w ref.
         andThen (co_ReadEvidence C w ref) (\<lambda>w entry.
          let persisted = candidate\<lparr>ei_PersistedAt := evr_RecordedAt entry\<rparr> in
          guarded (EffectIntent_Validate persisted) w (w, Inr persisted)))))"

definition validateActivationRequest :: "map_order \<Rightarrow> ActivationRequest \<Rightarrow> Time \<Rightarrow> go_error option" where
  "validateActivationRequest order request now =
     first_err
      [ResolvedAgentPlan_Validate order (ar_Plan request),
       ExecutionScope_Validate (ar_ProposedScope request),
       fail_if (scope_SandboxLease (ar_ProposedScope request) \<noteq> None
                \<or> plan_Digest (ar_Plan request) \<noteq> lineage_PlanDigest (scope_Lineage (ar_ProposedScope request))
                \<or> blank (ar_ActivationAttemptID request)) ErrorPreconditionFailed ReasonPlanInvalid,
       Digest_Validate (ar_RequirementDigest request),
       Digest_Validate (ar_CapabilityGrantDigest request),
       fail_if (pb_MaxRequests (ar_ProbeBudget request) = 0 \<or> sint (pb_MaxDuration (ar_ProbeBudget request)) \<le> 0
                \<or> pb_PossibleCharge (ar_ProbeBudget request) \<or> pb_PossibleMutation (ar_ProbeBudget request))
         ErrorPreconditionFailed ReasonPlanInvalid,
       fail_if (sint (ar_FenceTTL request) \<le> 0 \<or> \<not> After (ar_IdentityLeaseExpiresAt request) now)
         ErrorInvalidArgument ReasonInvalidReference,
       first_err (map (\<lambda>intent. EffectIntent_Validate (intent\<lparr>ei_PersistedAt := now\<rparr>))
         [ar_AllocateIntent request, ar_ActivateIntent request, ar_OpenIntent request])]"

definition buildActivationSnapshot ::
  "coordinator_json \<Rightarrow> ActivationRequest \<Rightarrow> ExecutionPreflightReport \<Rightarrow> ActivationSnapshot res" where
  "buildActivationSnapshot J request preflight =
     (let expiresAt = (if Before (ar_IdentityLeaseExpiresAt request) (epf_EvidenceExpiry preflight)
                       then ar_IdentityLeaseExpiresAt request else epf_EvidenceExpiry preflight)
      in bind_res (DigestJSON (cj_Snapshot J (ar_ProposedScope request) (plan_Digest (ar_Plan request))
           (epf_EvidenceDigest preflight) (ar_RequirementDigest request) expiresAt)) (\<lambda>digest.
         let snapshot = \<lparr>sn_Digest = digest, sn_AuthorityEpoch = scope_AuthorityEpoch (ar_ProposedScope request),
               sn_EntitlementDigest = plan_AuthorityDigest (ar_Plan request), sn_RouteDigest = plan_Digest (ar_Plan request),
               sn_CapabilityEvidenceDigest = epf_EvidenceDigest preflight, sn_PolicyDigest = plan_AuthorityDigest (ar_Plan request),
               sn_BudgetPolicyDigest = plan_AuthorityDigest (ar_Plan request), sn_SandboxRequirementDigest = ar_RequirementDigest request,
               sn_RequestedExecutableCap = 0, sn_BudgetUnit = '''', sn_EvidenceExpiresAt = expiresAt\<rparr>
         in ensure (ActivationSnapshot_Validate snapshot) (Inr snapshot)))"

section \<open>Activation\<close>

text \<open>
  \<open>Activate\<close> in the stages of its journal. Each stage returns the aggregate and the journal record it
  leaves; an error of any step ends the activation with that error.
\<close>

definition plain_state :: "LifecyclePhase \<Rightarrow> InstanceState" where
  "plain_state phase = \<lparr>st_Phase = phase, st_Certainty = CertaintyConfirmed, st_Cleanup = CleanupNotRequired,
     st_HasCleanupObligations = False, st_CleanupEvidenceComplete = False\<rparr>"

definition owing_state :: "LifecyclePhase \<Rightarrow> InstanceState" where
  "owing_state phase = \<lparr>st_Phase = phase, st_Certainty = CertaintyConfirmed, st_Cleanup = CleanupPending,
     st_HasCleanupObligations = True, st_CleanupEvidenceComplete = False\<rparr>"

definition operation :: "OperationState \<Rightarrow> string \<Rightarrow> string \<Rightarrow> Digest \<Rightarrow> ActivationOperation" where
  "operation state intentID reference digest =
     \<lparr>op_State = state, op_IntentID = intentID, op_Reference = reference, op_EvidenceDigest = digest\<rparr>"

definition idle :: "OperationState \<Rightarrow> ActivationOperation" where
  "idle state = operation state '''' '''' ''''"

definition move :: "'w \<Rightarrow> Aggregate \<Rightarrow> InstanceState \<Rightarrow> 'w \<times> Aggregate res" where
  "move w aggregate next1 = (w, snd (transition aggregate next1 no_context))"

definition proposed_attempt :: "ActivationRequest \<Rightarrow> Time \<Rightarrow> ActivationAttempt" where
  "proposed_attempt request now =
     \<lparr>at_ID = ar_ActivationAttemptID request, at_Scope = ar_ProposedScope request,
      at_ExpectedIdentityEpoch = ident_Epoch (scope_Identity (ar_ProposedScope request)) - 1,
      at_RequirementDigest = ar_RequirementDigest request, at_Stage = StageProposed, at_Recovery = RecoveryNormal,
      at_Snapshot = None, at_IdentityLeaseID = '''', at_IdentityLeaseState = NoLeaseState, at_IdentityLeaseRevision = 0,
      at_Budget = idle OperationNotStarted, at_SandboxReservation = idle OperationNotStarted,
      at_SandboxActivation = idle OperationNotStarted, at_SandboxFenced = False, at_FailureReason = '''',
      at_Revision = 1, at_CreatedAt = now, at_UpdatedAt = now\<rparr>"

definition activate_admit ::
  "('a, 'p, 'w) Coordinator \<Rightarrow> ActivationRequest \<Rightarrow> Time \<Rightarrow> 'w \<Rightarrow> 'w \<times> (Aggregate \<times> ActivationAttempt) res" where
  "activate_admit C request now w =
     andThen (w, NewAggregate (ar_ProposedScope request) (plain_state PhasePending)) (\<lambda>w aggregate.
     andThen (co_CreateAttempt C w (proposed_attempt request now)) (\<lambda>w attempt.
     andThen (move w aggregate (plain_state PhaseAdmitted)) (\<lambda>w aggregate.
     andThen (move w aggregate (plain_state PhasePreflighting)) (\<lambda>w aggregate.
     andThen (advanceActivation C attempt StagePreflighting id w) (\<lambda>w attempt. (w, Inr (aggregate, attempt)))))))"

definition activate_preflight ::
  "('a, 'p, 'w) Coordinator \<Rightarrow> ActivationRequest \<Rightarrow> Time \<Rightarrow> Aggregate \<Rightarrow> ActivationAttempt \<Rightarrow> 'w
     \<Rightarrow> 'w \<times> (Aggregate \<times> ActivationAttempt) res" where
  "activate_preflight C request now aggregate attempt w =
     andThen (co_Preflight C w \<lparr>epq_ProposedScope = ar_ProposedScope request, epq_RequirementDigest = ar_RequirementDigest request,
         epq_ProbeBudget = ar_ProbeBudget request\<rparr>) (\<lambda>w preflight.
     guarded (fail_if (\<not> epf_Accepted preflight \<or> desc_ID (epf_Descriptor preflight) = ''''
         \<or> epf_RequirementDigest preflight \<noteq> ar_RequirementDigest request \<or> \<not> Before now (epf_EvidenceExpiry preflight))
         ErrorPreconditionFailed ReasonReadyEvidenceIncomplete) w
     (andThen (advanceActivation C attempt StagePreflightPassed id w) (\<lambda>w attempt.
      andThen (w, buildActivationSnapshot (co_json C) request preflight) (\<lambda>w snapshot.
      andThen (advanceActivation C attempt StageSnapshotFrozen (\<lambda>a. a\<lparr>at_Snapshot := Some snapshot\<rparr>) w) (\<lambda>w attempt.
      andThen (move w aggregate (plain_state PhaseActivating)) (\<lambda>w aggregate. (w, Inr (aggregate, attempt))))))))"

definition reserve_request :: "ActivationRequest \<Rightarrow> ReserveIdentityLeaseRequest" where
  "reserve_request request =
     \<lparr>rs_TenantID = ident_TenantID (scope_Identity (ar_ProposedScope request)),
      rs_IdentityID = ident_ID (scope_Identity (ar_ProposedScope request)),
      rs_ExpectedIdentityEpoch = ident_Epoch (scope_Identity (ar_ProposedScope request)) - 1,
      rs_Lineage = scope_Lineage (ar_ProposedScope request), rs_ActivationAttemptID = ar_ActivationAttemptID request,
      rs_AuthorityEpoch = scope_AuthorityEpoch (ar_ProposedScope request), rs_ExpiresAt = ar_IdentityLeaseExpiresAt request\<rparr>"

definition activate_identity ::
  "('a, 'p, 'w) Coordinator \<Rightarrow> ActivationRequest \<Rightarrow> Aggregate \<Rightarrow> ActivationAttempt \<Rightarrow> 'w
     \<Rightarrow> 'w \<times> (Aggregate \<times> ActivationAttempt \<times> IdentityExecutionLease) res" where
  "activate_identity C request aggregate attempt w =
     andThen (co_ReserveIdentityLease C w (reserve_request request)) (\<lambda>w lease.
     guarded (fail_if (il_Identity lease \<noteq> scope_Identity (ar_ProposedScope request)) ErrorPreconditionFailed ReasonStaleIdentityEpoch) w
     (andThen (advanceActivation C attempt StageIdentityLeaseReserved (\<lambda>a. a\<lparr>at_IdentityLeaseID := il_ID lease,
         at_IdentityLeaseState := il_State lease, at_IdentityLeaseRevision := il_Revision lease\<rparr>) w) (\<lambda>w attempt.
      andThen (advanceActivation C attempt StageBudgetResolved (\<lambda>a. a\<lparr>at_Budget := idle OperationNotRequired\<rparr>) w) (\<lambda>w attempt.
      andThen (move w aggregate (owing_state PhaseActivating)) (\<lambda>w aggregate. (w, Inr (aggregate, attempt, lease)))))))"

text \<open>The two calls that change the sandbox, made once their intent is in the journal, and what becomes of the answer.\<close>

definition allocate_sandbox ::
  "('a, 'p, 'w) Coordinator \<Rightarrow> ActivationRequest \<Rightarrow> Time \<Rightarrow> EffectIntent \<Rightarrow> ActivationAttempt \<Rightarrow> 'w
     \<Rightarrow> 'w \<times> (ActivationAttempt \<times> SandboxLeaseObservation) res" where
  "allocate_sandbox C request now intent attempt w =
     (case co_Allocate C w \<lparr>saq_ProposedInstance = scope_Instance (ar_ProposedScope request),
         saq_RequirementDigest = ar_RequirementDigest request, saq_FenceEpoch = inst_Epoch (scope_Instance (ar_ProposedScope request)),
         saq_Intent = intent, saq_Fence = makeFence (ar_ProposedScope request) FenceBoundaryActivation
            (ar_CapabilityGrantDigest request) intent (Add now (ar_FenceTTL request))\<rparr> of
       (w, Inl e) \<Rightarrow>
         (fst (quarantineActivation C attempt
            (\<lambda>a. a\<lparr>at_SandboxReservation := operation OperationUnknownOutcome (ei_ID intent) '''' ''''\<rparr>)
            ''sandbox allocation outcome is unknown'' w), Inl e)
     | (w, Inr allocation) \<Rightarrow>
         guarded (fail_if (slo_State allocation \<noteq> ''reserved_quarantined'') ErrorPreconditionFailed ReasonInvalidState) w
         (andThen (w, DigestJSON (cj_Observation (co_json C) allocation)) (\<lambda>w evidence.
          andThen (advanceActivation C attempt StageSandboxReserved
             (\<lambda>a. a\<lparr>at_SandboxReservation := operation OperationConfirmedApplied (ei_ID intent) (slease_ID (slo_Lease allocation)) evidence\<rparr>) w)
            (\<lambda>w attempt. (w, Inr (attempt, allocation))))))"

definition activate_allocate ::
  "('a, 'p, 'w) Coordinator \<Rightarrow> ActivationRequest \<Rightarrow> Time \<Rightarrow> ActivationAttempt \<Rightarrow> 'w
     \<Rightarrow> 'w \<times> (ActivationAttempt \<times> SandboxLeaseObservation) res" where
  "activate_allocate C request now attempt w =
     andThen (persistIntent C (ar_ProposedScope request) (ar_AllocateIntent request) ''sandbox_allocate'' w) (\<lambda>w intent.
     andThen (advanceActivation C attempt StageBudgetResolved
         (\<lambda>a. a\<lparr>at_SandboxReservation := operation OperationIntentRecorded (ei_ID intent) '''' ''''\<rparr>) w) (\<lambda>w attempt.
       allocate_sandbox C request now intent attempt w))"

definition activate_commit ::
  "('a, 'p, 'w) Coordinator \<Rightarrow> ActivationRequest \<Rightarrow> Aggregate \<Rightarrow> ActivationAttempt \<Rightarrow> IdentityExecutionLease \<Rightarrow> SandboxLeaseRef \<Rightarrow> 'w
     \<Rightarrow> 'w \<times> (Aggregate \<times> ActivationAttempt \<times> IdentityExecutionLease) res" where
  "activate_commit C request aggregate attempt lease sandbox w =
     andThen (co_CommitActivation C w \<lparr>acr_AttemptID = at_ID attempt, acr_ExpectedAttemptRevision = at_Revision attempt,
         acr_IdentityLeaseID = il_ID lease, acr_ExpectedIdentityLeaseRevision = il_Revision lease, acr_SandboxLease = sandbox,
         acr_AuthorityEpoch = scope_AuthorityEpoch (ar_ProposedScope request)\<rparr>) (\<lambda>w result.
     andThen (w, snd (CommitActivation aggregate \<lparr>ac_Preconditions = preconditions aggregate, ac_SandboxLease = sandbox,
         ac_NextState = owing_state PhaseProvisioning\<rparr>)) (\<lambda>w aggregate.
       (w, Inr (aggregate, acres_Attempt result, acres_IdentityLease result))))"

definition start_sandbox ::
  "('a, 'p, 'w) Coordinator \<Rightarrow> ActivationRequest \<Rightarrow> ExecutionScope \<Rightarrow> Time \<Rightarrow> EffectIntent \<Rightarrow> ActivationAttempt \<Rightarrow> 'w
     \<Rightarrow> 'w \<times> ActivationAttempt res" where
  "start_sandbox C request scope t intent attempt w =
     (case co_ActivateSandbox C w \<lparr>sac_Scope = scope, sac_Intent = intent,
         sac_Fence = makeFence scope FenceBoundaryInstance (ar_CapabilityGrantDigest request) intent (Add t (ar_FenceTTL request))\<rparr> of
       (w, Inl e) \<Rightarrow>
         (fst (quarantineActivation C attempt
            (\<lambda>a. a\<lparr>at_SandboxActivation := operation OperationUnknownOutcome (ei_ID intent) '''' ''''\<rparr>)
            ''sandbox activation outcome is unknown'' w), Inl e)
     | (w, Inr observation) \<Rightarrow>
         andThen (w, DigestJSON (cj_Observation (co_json C) observation)) (\<lambda>w evidence.
           advanceActivation C attempt StageSandboxActive
             (\<lambda>a. a\<lparr>at_SandboxActivation := operation OperationConfirmedApplied (ei_ID intent) (slease_ID (slo_Lease observation)) evidence\<rparr>) w))"

definition activate_sandbox ::
  "('a, 'p, 'w) Coordinator \<Rightarrow> ActivationRequest \<Rightarrow> Aggregate \<Rightarrow> ActivationAttempt \<Rightarrow> 'w \<Rightarrow> 'w \<times> (Aggregate \<times> ActivationAttempt) res" where
  "activate_sandbox C request aggregate attempt w =
     andThen (persistIntent C (agg_scope aggregate) (ar_ActivateIntent request) ''sandbox_activate'' w) (\<lambda>w intent.
     andThen (advanceActivation C attempt StageCommitted
         (\<lambda>a. a\<lparr>at_SandboxActivation := operation OperationIntentRecorded (ei_ID intent) '''' ''''\<rparr>) w) (\<lambda>w attempt.
     andThen (read_clock C w) (\<lambda>w t.
     andThen (start_sandbox C request (agg_scope aggregate) t intent attempt w) (\<lambda>w attempt.
     andThen (move w aggregate (owing_state PhaseBinding)) (\<lambda>w aggregate. (w, Inr (aggregate, attempt)))))))"

definition activate_open ::
  "('a, 'p, 'w) Coordinator \<Rightarrow> ActivationRequest \<Rightarrow> Aggregate \<Rightarrow> SandboxLeaseRef \<Rightarrow> 'w \<Rightarrow> 'w \<times> (Aggregate \<times> ExecutionEndpointRef) res" where
  "activate_open C request aggregate sandbox w =
     (let scope = agg_scope aggregate in
     andThen (persistIntent C scope (ar_OpenIntent request) ''execution_open'' w) (\<lambda>w intent.
     andThen (read_clock C w) (\<lambda>w t.
     andThen (co_Open C w \<lparr>eoq_Scope = scope, eoq_RequirementDigest = ar_RequirementDigest request, eoq_Intent = intent,
         eoq_Fence = makeFence scope FenceBoundaryInstance (ar_CapabilityGrantDigest request) intent (Add t (ar_FenceTTL request))\<rparr>)
       (\<lambda>w endpoint.
     andThen (move w aggregate (owing_state PhaseStarting)) (\<lambda>w aggregate.
     andThen (co_InspectSandbox C w sandbox) (\<lambda>w environment.
     andThen (co_InspectExecution C w \<lparr>eiq_Scope = scope, eiq_Endpoint = endpoint, eiq_InspectKind = ''ready''\<rparr>) (\<lambda>w execution.
     guarded (fail_if (slo_State environment \<noteq> ''active'' \<or> eob_SourceComponentID execution \<noteq> eep_ComponentID endpoint
         \<or> eob_ObservationKind execution \<noteq> ''ready:ready'') ErrorPreconditionFailed ReasonReadyEvidenceIncomplete) w
     (andThen (move w aggregate (owing_state PhaseReady)) (\<lambda>w aggregate. (w, Inr (aggregate, endpoint)))))))))))"

text \<open>
  Resolution always returns (see \<open>Assembly\<close>); running out of its bound is not a result of the code and
  is answered here with an internal error.
\<close>

definition resolve_bindings :: "('a, 'p, 'w) Coordinator \<Rightarrow> go_context \<Rightarrow> ResolvedAgentPlan \<Rightarrow> Time \<Rightarrow> BindingSet res" where
  "resolve_bindings C ctx p now =
     (case Resolve (co_ResolveOrder C) (co_Describe C) (co_Registry C) ctx p now of
        None \<Rightarrow> Inl (DomainError ErrorInternal ReasonInvalidState)
      | Some r \<Rightarrow> r)"

definition new_instance ::
  "ActivationRequest \<Rightarrow> BindingSet \<Rightarrow> Aggregate \<Rightarrow> ActivationAttempt \<Rightarrow> IdentityExecutionLease \<Rightarrow> ExecutionEndpointRef \<Rightarrow> Instance" where
  "new_instance request bindings aggregate attempt lease endpoint =
     \<lparr>in_aggregate = aggregate, in_legacyRuns = NewRunRegistry, in_plan = ar_Plan request, in_bindings = bindings,
      in_identityLease = lease, in_activation = attempt, in_endpoint = endpoint,
      in_capabilityDigest = ar_CapabilityGrantDigest request, in_fenceTTL = ar_FenceTTL request, in_activeRun = None\<rparr>"

definition Activate ::
  "('a, 'p, 'w) Coordinator option \<Rightarrow> go_context \<Rightarrow> ActivationRequest \<Rightarrow> 'w \<Rightarrow> 'w \<times> Instance res" where
  "Activate coordinator ctx request w =
     (case coordinator of
        None \<Rightarrow> (w, Inl missing_ports)
      | Some C \<Rightarrow>
          andThen (read_clock C w) (\<lambda>w now.
          guarded (validateActivationRequest (co_PlanOrder C) request now) w
          (andThen (w, resolve_bindings C ctx (ar_Plan request) now) (\<lambda>w bindings.
           andThen (activate_admit C request now w) (\<lambda>w (aggregate, attempt).
           andThen (activate_preflight C request now aggregate attempt w) (\<lambda>w (aggregate, attempt).
           andThen (activate_identity C request aggregate attempt w) (\<lambda>w (aggregate, attempt, lease).
           andThen (activate_allocate C request now attempt w) (\<lambda>w (attempt, allocation).
           andThen (activate_commit C request aggregate attempt lease (slo_Lease allocation) w) (\<lambda>w (aggregate, attempt, lease).
           andThen (activate_sandbox C request aggregate attempt w) (\<lambda>w (aggregate, attempt).
           andThen (activate_open C request aggregate (slo_Lease allocation) w) (\<lambda>w (aggregate, endpoint).
             (w, Inr (new_instance request bindings aggregate attempt lease endpoint)))))))))))))"

definition RecoverActivation ::
  "('a, 'p, 'w) Coordinator option \<Rightarrow> string \<Rightarrow> 'w \<Rightarrow> 'w \<times> (ActivationAttempt \<times> RecoveryDecision) res" where
  "RecoverActivation coordinator attemptID w =
     (case coordinator of
        None \<Rightarrow> (w, Inl missing_ports)
      | Some C \<Rightarrow>
          andThen (co_InspectAttempt C w attemptID) (\<lambda>w attempt.
          andThen (read_clock C w) (\<lambda>w now.
            (w, bind_res (PlanRecovery attempt now) (\<lambda>decision. Inr (attempt, decision))))))"

section \<open>Runs\<close>

text \<open>
  The operations on an instance act on the world and on the instance; \<open>on_world\<close> lifts a port call to the
  pair. A missing instance (a nil pointer) is \<open>None\<close>.
\<close>

definition on_world :: "('w \<Rightarrow> 'w \<times> 'b res) \<Rightarrow> 'w \<times> 'i \<Rightarrow> ('w \<times> 'i) \<times> 'b res" where
  "on_world f s = (case f (fst s) of (w, x) \<Rightarrow> ((w, snd s), x))"

definition no_instance :: go_error where
  "no_instance = DomainError ErrorInvalidArgument ReasonInvalidReference"

text \<open>A move of the aggregate of an instance; a refused move leaves the instance as it is.\<close>

definition move_instance :: "InstanceState \<Rightarrow> 'w \<times> Instance \<Rightarrow> ('w \<times> Instance) \<times> Aggregate res" where
  "move_instance next1 s =
     (case transition (in_aggregate (snd s)) next1 no_context of
        (aggregate, x) \<Rightarrow> ((fst s, (snd s)\<lparr>in_aggregate := aggregate\<rparr>), x))"

definition start_run ::
  "('a, 'p, 'w) Coordinator \<Rightarrow> string \<Rightarrow> string \<Rightarrow> 'w \<times> Instance \<Rightarrow> ('w \<times> Instance) \<times> AgentRunRecord res" where
  "start_run C runID sessionRef s =
     guarded (fail_if (st_Phase (agg_state (in_aggregate (snd s))) \<noteq> PhaseReady \<or> in_activeRun (snd s) \<noteq> None)
         ErrorConflict ReasonRunConflict) s
     (let scope = agg_scope (in_aggregate (snd s)) in
      andThen (on_world (read_clock C) s) (\<lambda>s t.
        case Registry_Start (in_legacyRuns (snd s)) scope runID sessionRef t of
          (runs, Inl e) \<Rightarrow> ((fst s, (snd s)\<lparr>in_legacyRuns := runs\<rparr>), Inl e)
        | (runs, Inr record1) \<Rightarrow>
            (case move_instance (owing_state PhaseRunning) (fst s, (snd s)\<lparr>in_legacyRuns := runs\<rparr>) of
               (s, Inl e) \<Rightarrow>
                 andThen (on_world (read_clock C) s) (\<lambda>s t.
                   ((fst s, (snd s)\<lparr>in_legacyRuns := fst (Registry_Finish (in_legacyRuns (snd s)) scope runID OutcomeFailed t)\<rparr>), Inl e))
             | (s, Inr aggregate) \<Rightarrow> ((fst s, (snd s)\<lparr>in_activeRun := Some record1\<rparr>), Inr record1))))"

definition StartRun ::
  "('a, 'p, 'w) Coordinator \<Rightarrow> string \<Rightarrow> string \<Rightarrow> 'w \<times> Instance option \<Rightarrow> ('w \<times> Instance option) \<times> AgentRunRecord res" where
  "StartRun C runID sessionRef s =
     (case snd s of
        None \<Rightarrow> (s, Inl no_instance)
      | Some i \<Rightarrow> (case start_run C runID sessionRef (fst s, i) of ((w, i'), x) \<Rightarrow> ((w, Some i'), x)))"

record StopRequest =
  sr_Outcome :: ExecutionOutcome
  sr_Reason :: string
  sr_CloseIntent :: EffectIntent
  sr_ReleaseIntent :: EffectIntent

text \<open>An answer that must be the expected observation: any other answer, also an error, is incomplete evidence.\<close>

definition observed :: "('b \<Rightarrow> bool) \<Rightarrow> 's \<times> 'b res \<Rightarrow> 's \<times> 'b res" where
  "observed ok r =
     (case r of
        (s, Inl e) \<Rightarrow> (s, Inl (DomainError ErrorIndeterminate ReasonCleanupEvidenceIncomplete))
      | (s, Inr x) \<Rightarrow> guarded (fail_if (\<not> ok x) ErrorIndeterminate ReasonCleanupEvidenceIncomplete) s (s, Inr x))"

text \<open>Ending the active run with the outcome the caller reports.\<close>

definition finish_active ::
  "('a, 'p, 'w) Coordinator \<Rightarrow> ExecutionOutcome \<Rightarrow> 'w \<times> Instance \<Rightarrow> ('w \<times> Instance) \<times> unit res" where
  "finish_active C outcome s =
     (case in_activeRun (snd s) of
        None \<Rightarrow> (s, Inr ())
      | Some run \<Rightarrow>
          andThen (on_world (read_clock C) s) (\<lambda>s t.
            case Registry_Finish (in_legacyRuns (snd s)) (agg_scope (in_aggregate (snd s))) (run_ID run) outcome t of
              (runs, Inl e) \<Rightarrow> ((fst s, (snd s)\<lparr>in_legacyRuns := runs\<rparr>), Inl e)
            | (runs, Inr finished) \<Rightarrow> ((fst s, (snd s)\<lparr>in_legacyRuns := runs, in_activeRun := Some finished\<rparr>), Inr ())))"

text \<open>
  The external part of a stop: close the execution, then fence and release the sandbox. The code reads the
  sandbox lease through a pointer that is set in every phase in which a stop is allowed; the internal error
  stands for the panic on a missing one.
\<close>

definition close_external ::
  "('a, 'p, 'w) Coordinator \<Rightarrow> StopRequest \<Rightarrow> Instance \<Rightarrow> ExecutionScope \<Rightarrow> 'w \<Rightarrow> 'w \<times> SandboxLeaseObservation res" where
  "close_external C request i scope w =
     andThen (persistIntent C scope (sr_CloseIntent request) ''execution_close'' w) (\<lambda>w closing.
     andThen (read_clock C w) (\<lambda>w t.
     andThen (observed (\<lambda>o1. eob_ObservationKind o1 = ''closed'')
        (co_Close C w \<lparr>ecq_Scope = scope, ecq_Endpoint = in_endpoint i, ecq_Reason = sr_Reason request, ecq_Intent = closing,
           ecq_Fence = makeFence scope FenceBoundaryInstance (in_capabilityDigest i) closing (Add t (in_fenceTTL i))\<rparr>)) (\<lambda>w closed.
     andThen (persistIntent C scope (sr_ReleaseIntent request) ''sandbox_release'' w) (\<lambda>w releasing.
     case scope_SandboxLease scope of
       None \<Rightarrow> (w, Inl (DomainError ErrorInternal ReasonInvalidReference))
     | Some sandbox \<Rightarrow>
         andThen (observed (\<lambda>o1. slo_State o1 = ''fenced'') (co_Fence C w \<lparr>sfq_Lease = sandbox, sfq_Reason = sr_Reason request\<rparr>)) (\<lambda>w fenced.
         andThen (read_clock C w) (\<lambda>w t.
           observed (\<lambda>o1. slo_State o1 = ''released'')
            (co_Release C w \<lparr>srq_Lease = sandbox, srq_Intent = releasing,
               srq_Fence = makeFence scope FenceBoundaryInstance (in_capabilityDigest i) releasing (Add t (in_fenceTTL i))\<rparr>)))))))"

definition end_identity ::
  "('a, 'p, 'w) Coordinator \<Rightarrow> string \<Rightarrow> IdentityExecutionLease \<Rightarrow> 'w \<Rightarrow> 'w \<times> IdentityExecutionLease res" where
  "end_identity C reason lease w =
     andThen (co_RevokeIdentityLease C w \<lparr>en_LeaseID = il_ID lease, en_ExpectedRevision = il_Revision lease, en_Reason = reason\<rparr>)
      (\<lambda>w revoked. co_ReleaseIdentityLease C w
         \<lparr>en_LeaseID = il_ID revoked, en_ExpectedRevision = il_Revision revoked, en_Reason = reason\<rparr>)"

definition terminal_state :: InstanceState where
  "terminal_state = \<lparr>st_Phase = PhaseTerminal, st_Certainty = CertaintyConfirmed, st_Cleanup = CleanupComplete,
     st_HasCleanupObligations = True, st_CleanupEvidenceComplete = True\<rparr>"

definition stop_instance ::
  "('a, 'p, 'w) Coordinator \<Rightarrow> StopRequest \<Rightarrow> 'w \<times> Instance \<Rightarrow> ('w \<times> Instance) \<times> TerminationReport res" where
  "stop_instance C request s =
     guarded (fail_if (st_Phase (agg_state (in_aggregate (snd s))) \<noteq> PhaseReady \<and> st_Phase (agg_state (in_aggregate (snd s))) \<noteq> PhaseRunning)
         ErrorPreconditionFailed ReasonInvalidState) s
     (andThen (finish_active C (sr_Outcome request) s) (\<lambda>s _.
      andThen (move_instance (owing_state PhaseStopping) s) (\<lambda>s snapshot.
      andThen (on_world (close_external C request (snd s) (agg_scope snapshot)) s) (\<lambda>s released.
      andThen (on_world (end_identity C (sr_Reason request) (in_identityLease (snd s))) s) (\<lambda>s lease.
      andThen (move_instance terminal_state (fst s, (snd s)\<lparr>in_identityLease := lease\<rparr>)) (\<lambda>s terminal.
      andThen (on_world (read_clock C) s) (\<lambda>s t.
       let report = \<lparr>term_Scope = agg_scope terminal, term_State = agg_state terminal, term_ExecutionOutcome = sr_Outcome request,
             term_EffectSettlement = ''settled'', term_RemoteContinuationsStatus = ''none'', term_ProviderRetentionStatus = ''none'',
             term_CompletedAt = t\<rparr> in
       guarded (TerminationReport_Validate report) s (s, Inr report))))))))"

definition Stop ::
  "('a, 'p, 'w) Coordinator \<Rightarrow> StopRequest \<Rightarrow> 'w \<times> Instance option \<Rightarrow> ('w \<times> Instance option) \<times> TerminationReport res" where
  "Stop C request s =
     (case snd s of
        None \<Rightarrow> (s, Inl no_instance)
      | Some i \<Rightarrow> (case stop_instance C request (fst s, i) of ((w, i'), x) \<Rightarrow> ((w, Some i'), x)))"

section \<open>Checkpoints\<close>

record FoundationCheckpointRequest =
  fcr_ID :: string
  fcr_Epoch :: Epoch
  fcr_BarrierID :: string
  fcr_Effects :: EffectWatermarks
  fcr_EventWatermark :: TimelinePoint

definition checkpointSnapshot :: "CheckpointParticipantReport \<Rightarrow> bool \<Rightarrow> CheckpointParticipantSnapshot" where
  "checkpointSnapshot report required =
     \<lparr>cps_ComponentID = cpt_ComponentID report, cps_ComponentKind = component_kind_string (cpt_ComponentKind report),
      cps_Required = required, cps_State = cpt_State report, cps_SnapshotRef = cpt_SnapshotRef report,
      cps_SnapshotDigest = cpt_SnapshotDigest report\<rparr>"

definition buildCheckpoint ::
  "('a, 'p, 'w) Coordinator \<Rightarrow> Instance \<Rightarrow> FoundationCheckpointRequest \<Rightarrow> ExecutionScope \<Rightarrow> CheckpointParticipantSnapshot list
     \<Rightarrow> CheckpointConsistency \<Rightarrow> 'w \<Rightarrow> 'w \<times> CheckpointSet" where
  "buildCheckpoint C i request scope reports consistency w =
     (case co_Clock C w of (w, t) \<Rightarrow>
        (w, \<lparr>cset_ID = fcr_ID request, cset_Epoch = fcr_Epoch request, cset_BarrierID = fcr_BarrierID request, cset_Scope = scope,
             cset_PlanDigest = plan_Digest (in_plan i), cset_ProfileDigest = plan_ProfileDigest (in_plan i),
             cset_ContextDigest = plan_ContextDigest (in_plan i), cset_AuthorityEpoch = scope_AuthorityEpoch scope,
             cset_Effects = fcr_Effects request, cset_EventWatermark = fcr_EventWatermark request, cset_Participants = reports,
             cset_Consistency = consistency, cset_CreatedAt = t\<rparr>))"

text \<open>
  The three loops over the participants. \<open>prepare_loop\<close> collects the bindings prepared so far and their
  reports; when one refuses, the ones before it are aborted. A loop returns the error that ended it, if any.
\<close>

fun abort_loop ::
  "('a, 'p, 'w) Coordinator \<Rightarrow> FoundationCheckpointRequest \<Rightarrow> 'p CheckpointBinding list \<Rightarrow> CheckpointParticipantSnapshot list \<Rightarrow> 'w
     \<Rightarrow> 'w \<times> CheckpointParticipantSnapshot list" where
  "abort_loop C q (b # bs) (r # rs) w =
     (case co_AbortCheckpoint C (cb_Port b) w \<lparr>car_BarrierID = fcr_BarrierID q, car_Epoch = fcr_Epoch q,
         car_Reason = ''participant_prepare_failed''\<rparr> of
        (w, x) \<Rightarrow>
          (case abort_loop C q bs rs w of
             (w, rs') \<Rightarrow> (w, (case x of Inl e \<Rightarrow> r | Inr aborted \<Rightarrow> checkpointSnapshot aborted (cb_Required b)) # rs')))"
| "abort_loop C q _ rs w = (w, rs)"

fun prepare_loop ::
  "('a, 'p, 'w) Coordinator \<Rightarrow> FoundationCheckpointRequest \<Rightarrow> ExecutionScope \<Rightarrow> 'p CheckpointBinding list
     \<Rightarrow> CheckpointParticipantSnapshot list \<Rightarrow> 'p CheckpointBinding list \<Rightarrow> 'w \<Rightarrow> 'w \<times> CheckpointParticipantSnapshot list \<times> go_error option" where
  "prepare_loop C q scope prepared reports [] w = (w, reports, None)"
| "prepare_loop C q scope prepared reports (b # bs) w =
     (case co_PrepareCheckpoint C (cb_Port b) w \<lparr>cpr_BarrierID = fcr_BarrierID q, cpr_Epoch = fcr_Epoch q, cpr_Scope = scope,
         cpr_Effects = fcr_Effects q\<rparr> of
        (w, Inl e) \<Rightarrow> (case abort_loop C q prepared reports w of (w, reports) \<Rightarrow> (w, reports, Some e))
      | (w, Inr report) \<Rightarrow>
          prepare_loop C q scope (prepared @ [b]) (reports @ [checkpointSnapshot report (cb_Required b)]) bs w)"

fun commit_loop ::
  "('a, 'p, 'w) Coordinator \<Rightarrow> FoundationCheckpointRequest \<Rightarrow> 'p CheckpointBinding list \<Rightarrow> CheckpointParticipantSnapshot list \<Rightarrow> 'w
     \<Rightarrow> 'w \<times> CheckpointParticipantSnapshot list \<times> go_error option" where
  "commit_loop C q (b # bs) (r # rs) w =
     (case co_CommitCheckpoint C (cb_Port b) w \<lparr>ccr_BarrierID = fcr_BarrierID q, ccr_Epoch = fcr_Epoch q\<rparr> of
        (w, Inl e) \<Rightarrow> (w, r # rs, Some e)
      | (w, Inr report) \<Rightarrow>
          (case commit_loop C q bs rs w of (w, rs', e) \<Rightarrow> (w, checkpointSnapshot report (cb_Required b) # rs', e)))"
| "commit_loop C q _ rs w = (w, rs, None)"

text \<open>
  The result is the checkpoint, if the code returns one (it also does beside an error), and the error.
\<close>

definition take_checkpoint ::
  "('a, 'p, 'w) Coordinator \<Rightarrow> FoundationCheckpointRequest \<Rightarrow> Instance \<Rightarrow> 'w \<Rightarrow> 'w \<times> CheckpointSet option \<times> go_error option" where
  "take_checkpoint C request i w =
     (let snapshot = in_aggregate i; scope = agg_scope snapshot; phase = st_Phase (agg_state snapshot) in
      if phase \<noteq> PhaseReady \<and> phase \<noteq> PhaseRunning
      then (w, None, Some (DomainError ErrorPreconditionFailed ReasonCheckpointInconsistent))
      else (case prepare_loop C request scope [] [] (co_Participants C) w of
          (w, reports, Some e) \<Rightarrow>
            (case buildCheckpoint C i request scope reports CheckpointPartial w of (w, c) \<Rightarrow> (w, Some c, Some e))
        | (w, reports, None) \<Rightarrow>
            (case commit_loop C request (co_Participants C) reports w of
               (w, reports, Some e) \<Rightarrow>
                 (case buildCheckpoint C i request scope reports CheckpointIndeterminate w of (w, c) \<Rightarrow> (w, Some c, Some e))
             | (w, reports, None) \<Rightarrow>
                 (case buildCheckpoint C i request scope reports CheckpointConsistent w of
                    (w, c) \<Rightarrow> (case CheckpointSet_Validate c of None \<Rightarrow> (w, Some c, None) | Some e \<Rightarrow> (w, None, Some e))))))"

definition Checkpoint ::
  "('a, 'p, 'w) Coordinator \<Rightarrow> FoundationCheckpointRequest \<Rightarrow> 'w \<times> Instance option \<Rightarrow> 'w \<times> CheckpointSet option \<times> go_error option" where
  "Checkpoint C request s =
     (case snd s of
        None \<Rightarrow> (fst s, None, Some no_instance)
      | Some i \<Rightarrow>
          if co_Participants C = [] then (fst s, None, Some (DomainError ErrorCapabilityUnavailable ReasonCheckpointUnsupported))
          else take_checkpoint C request i (fst s))"

record RestoreResult =
  rsr_ProposedScope :: ExecutionScope
  rsr_Reports :: "CheckpointParticipantReport list"

definition restored_scope :: "RestoreRequest \<Rightarrow> ExecutionScope" where
  "restored_scope request =
     (let scope = cset_Scope (rr_Checkpoint request) in
      scope\<lparr>scope_Identity := (scope_Identity scope)\<lparr>ident_Epoch := ident_Epoch (scope_Identity scope) + 1\<rparr>,
            scope_Instance := rr_NewInstance request, scope_SandboxLease := None,
            scope_AuthorityEpoch := rr_CurrentAuthorityEpoch request\<rparr>)"

text \<open>The snapshot map of the code: the last snapshot of a component is the one found.\<close>

definition snapshot_of :: "CheckpointSet \<Rightarrow> string \<Rightarrow> CheckpointParticipantSnapshot option" where
  "snapshot_of c = map_of (rev (map (\<lambda>p. (cps_ComponentID p, p)) (cset_Participants c)))"

fun restore_loop ::
  "('a, 'p, 'w) Coordinator \<Rightarrow> RestoreRequest \<Rightarrow> 'p CheckpointBinding list \<Rightarrow> 'w \<Rightarrow> 'w \<times> CheckpointParticipantReport list res" where
  "restore_loop C q [] w = (w, Inr [])"
| "restore_loop C q (b # bs) w =
     andThen (co_DescribeParticipant C (cb_Port b) w) (\<lambda>w descriptor.
       case snapshot_of (rr_Checkpoint q) (desc_ID descriptor) of
         None \<Rightarrow>
           guarded (fail_if (cb_Required b) ErrorPreconditionFailed ReasonRestoreIncompatible) w (restore_loop C q bs w)
       | Some p \<Rightarrow>
           andThen (co_RestoreCheckpoint C (cb_Port b) w \<lparr>crr_CheckpointID = cset_ID (rr_Checkpoint q),
               crr_SnapshotRef = cps_SnapshotRef p, crr_SnapshotDigest = cps_SnapshotDigest p, crr_NewScope = restored_scope q\<rparr>) (\<lambda>w report.
           andThen (restore_loop C q bs w) (\<lambda>w reports. (w, Inr (report # reports)))))"

definition Restore :: "('a, 'p, 'w) Coordinator \<Rightarrow> RestoreRequest \<Rightarrow> 'w \<Rightarrow> 'w \<times> RestoreResult res" where
  "Restore C request w =
     guarded (RestoreRequest_Validate request) w
     (andThen (restore_loop C request (co_Participants C) w) (\<lambda>w reports.
       (w, Inr \<lparr>rsr_ProposedScope = restored_scope request, rsr_Reports = reports\<rparr>)))"

end
