(* ===== verification/CoordinatorLaws.thy ===== *)
theory CoordinatorLaws
  imports Coordinator
begin

text \<open>
  What the coordinator needs of the world it acts on, as the locale \<open>activation_world\<close>: which ports may
  change the journal record of its attempt, and that the external calls it makes can be observed. A
  history lists the calls with the record at the moment of each call, the newest first, so that it also
  holds every record a crash between two calls could leave behind. The locale proves how an activation
  runs; \<open>CoordinatorWorld\<close> interprets it on the fact store.
\<close>

section \<open>Calls\<close>

datatype Call =
    CallPreflight ExecutionPreflightRequest | CallIntent EvidenceIntentRecord | CallAllocate SandboxAllocateRequest
  | CallActivate SandboxActivateRequest | CallOpen ExecutionOpenRequest | CallOther

fun watched :: "Call \<Rightarrow> bool" where
  "watched (CallPreflight q) = False"
| "watched CallOther = False"
| "watched _ = True"

text \<open>The intents that were announced and the effects that were dispatched, the newest first.\<close>

definition dispatches :: "(Call \<times> 'b) list \<Rightarrow> Call list" where
  "dispatches h = filter watched (map fst h)"

lemma dispatches_simps [simp]:
  "dispatches [] = []" "dispatches ((c, d) # h) = (if watched c then c # dispatches h else dispatches h)"
  by (simp_all add: dispatches_def)

section \<open>What a record must say once an effect is in flight\<close>

definition reservation_recorded :: "ActivationAttempt \<Rightarrow> bool" where
  "reservation_recorded a \<longleftrightarrow> stageIndex StageSandboxReserved \<le> stageIndex (at_Stage a)
     \<or> op_State (at_SandboxReservation a) \<in> {OperationIntentRecorded, OperationUnknownOutcome}"

definition activation_recorded :: "ActivationAttempt \<Rightarrow> bool" where
  "activation_recorded a \<longleftrightarrow> at_Stage a = StageSandboxActive
     \<or> op_State (at_SandboxActivation a) \<in> {OperationIntentRecorded, OperationUnknownOutcome}"

definition effects_recorded :: "Call list \<Rightarrow> ActivationAttempt option \<Rightarrow> bool" where
  "effects_recorded ds d \<longleftrightarrow>
     ((\<exists>q. CallAllocate q \<in> set ds) \<longrightarrow> (\<exists>a. d = Some a \<and> reservation_recorded a))
     \<and> ((\<exists>q. CallActivate q \<in> set ds) \<longrightarrow> (\<exists>a. d = Some a \<and> activation_recorded a))"

primrec crash_ok :: "(Call \<times> ActivationAttempt option) list \<Rightarrow> bool" where
  "crash_ok [] = True"
| "crash_ok (e # h) = (effects_recorded (dispatches h) (snd e) \<and> crash_ok h)"

lemma crash_ok_append: "crash_ok (later @ e # earlier) \<Longrightarrow> effects_recorded (dispatches earlier) (snd e)"
  by (induction later) auto

lemma recorded_simps [simp]:
  "effects_recorded [] d" "effects_recorded (CallIntent e # ds) d = effects_recorded ds d" "effects_recorded (CallOpen p # ds) d = effects_recorded ds d"
  by (auto simp: effects_recorded_def)

lemma recorded_allocate: "reservation_recorded a \<Longrightarrow> effects_recorded ds (Some a) \<Longrightarrow> effects_recorded (CallAllocate q # ds) (Some a)"
  by (auto simp: effects_recorded_def)

lemma recorded_activate: "activation_recorded a \<Longrightarrow> effects_recorded ds (Some a) \<Longrightarrow> effects_recorded (CallActivate q # ds) (Some a)"
  by (auto simp: effects_recorded_def)

lemma reservation_recovery:
  assumes "reservation_recorded a" "PlanRecovery a now = Inr d" shows "dec_Action d \<noteq> ActionReserveSandbox"
  using assms(2)
proof (cases rule: PlanRecovery_Inr)
  case quarantined
  then show ?thesis using quarantined_actions [of a] by auto
next
  case aborting
  then show ?thesis using abort_actions [of a] by auto
next
  case normal
  have "op_State (at_SandboxReservation a) \<noteq> OperationUnknownOutcome"
    using normal_no_unknown [OF PlanRecovery_valid [OF assms(2)]] normal(1) by (auto simp: hasUnknownOperation_def)
  then show ?thesis
    using normal(2) assms(1) stage_decision_stage(2) [of "at_Stage a" d]
    by (auto simp: normalDecision_def reservation_recorded_def split: if_splits)
qed simp

lemma activation_recovery:
  assumes "activation_recorded a" "PlanRecovery a now = Inr d" shows "dec_Action d \<noteq> ActionActivateSandbox"
  using assms(2)
proof (cases rule: PlanRecovery_Inr)
  case quarantined
  then show ?thesis using quarantined_actions [of a] by auto
next
  case aborting
  then show ?thesis using abort_actions [of a] by auto
next
  case normal
  have "op_State (at_SandboxActivation a) \<noteq> OperationUnknownOutcome"
    using normal_no_unknown [OF PlanRecovery_valid [OF assms(2)]] normal(1) by (auto simp: hasUnknownOperation_def)
  then show ?thesis
    using normal(2) assms(1) stage_decision_stage(1) [of "at_Stage a" d]
    by (auto simp: normalDecision_def activation_recorded_def split: if_splits)
qed simp

section \<open>The order of the calls\<close>

text \<open>A gate accepts an effect under its fence at every instant before the fence expires.\<close>

definition gated :: "ExecutionScope \<Rightarrow> Digest \<Rightarrow> EffectIntent \<Rightarrow> ExecutionFence \<Rightarrow> bool" where
  "gated scope grant intent fence \<longleftrightarrow>
     (\<forall>t. 0 < t \<and> t < fe_ExpiresAt fence \<longrightarrow>
        ValidateEffectDispatch intent fence \<lparr>cff_Scope = scope, cff_CapabilityGrantDigest = grant\<rparr> t = None)"

definition announces :: "EvidenceIntentRecord \<Rightarrow> ExecutionScope \<Rightarrow> EffectIntent \<Rightarrow> bool" where
  "announces e scope intent \<longleftrightarrow> eir_Scope e = scope \<and> eir_CausationID e = ei_ID intent
     \<and> eir_PayloadDigest e = ei_CanonicalPayloadDigest intent"

text \<open>
  Which call may follow the calls before it: the sandbox is allocated, activated and the execution opened
  once each and in this order, each right after its intent was announced, under a fence that the gate
  accepts; only the allocation goes out without a sandbox lease.
\<close>

fun intent_follows :: "Call list \<Rightarrow> bool" where
  "intent_follows [] = True"
| "intent_follows (CallAllocate q # ds) = (length ds = 1)"
| "intent_follows (CallActivate v # ds) = (length ds = 3)"
| "intent_follows (c # ds) = False"

fun allocate_follows :: "ActivationRequest \<Rightarrow> SandboxAllocateRequest \<Rightarrow> Call list \<Rightarrow> bool" where
  "allocate_follows r q (CallIntent e # ds) =
     (ds = [] \<and> announces e (ar_ProposedScope r) (saq_Intent q)
      \<and> gated (ar_ProposedScope r) (ar_CapabilityGrantDigest r) (saq_Intent q) (saq_Fence q))"
| "allocate_follows r q ds = False"

fun activate_follows :: "ActivationRequest \<Rightarrow> SandboxActivateRequest \<Rightarrow> Call list \<Rightarrow> bool" where
  "activate_follows r v (CallIntent e # CallAllocate q # ds) =
     (length ds = 1 \<and> announces e (sac_Scope v) (sac_Intent v)
      \<and> gated (sac_Scope v) (ar_CapabilityGrantDigest r) (sac_Intent v) (sac_Fence v)
      \<and> (\<exists>l. sac_Scope v = (ar_ProposedScope r)\<lparr>scope_SandboxLease := Some l\<rparr>))"
| "activate_follows r v ds = False"

fun open_follows :: "ActivationRequest \<Rightarrow> ExecutionOpenRequest \<Rightarrow> Call list \<Rightarrow> bool" where
  "open_follows r p (CallIntent e # CallActivate v # ds) =
     (length ds = 3 \<and> announces e (eoq_Scope p) (eoq_Intent p)
      \<and> gated (eoq_Scope p) (ar_CapabilityGrantDigest r) (eoq_Intent p) (eoq_Fence p) \<and> eoq_Scope p = sac_Scope v)"
| "open_follows r p ds = False"

fun follows :: "ActivationRequest \<Rightarrow> Call \<Rightarrow> Call list \<Rightarrow> bool" where
  "follows r (CallIntent e) ds = intent_follows ds"
| "follows r (CallAllocate q) ds = allocate_follows r q ds"
| "follows r (CallActivate v) ds = activate_follows r v ds"
| "follows r (CallOpen p) ds = open_follows r p ds"
| "follows r _ ds = False"

primrec lawful :: "ActivationRequest \<Rightarrow> Call list \<Rightarrow> bool" where
  "lawful r [] = True"
| "lawful r (c # ds) = (lawful r ds \<and> follows r c ds)"

lemma makeFence_gated:
  assumes "EffectIntent_Validate intent = None" "ExecutionScope_Validate scope = None" "Digest_Validate grant = None"
    and "boundary = FenceBoundaryActivation \<or> boundary = FenceBoundaryInstance \<and> scope_SandboxLease scope \<noteq> None"
  shows "gated scope grant intent (makeFence scope boundary grant intent e)"
  using assms
  by (auto simp: gated_def makeFence_def ValidateEffectDispatch_def CheckFence_iff ExecutionFence_Validate_def
      EffectIntent_Validate_def time_defs)

section \<open>Weakest preconditions\<close>

text \<open>\<open>wp r Q E\<close>: the step \<open>r\<close> ends in a value and a world that satisfy \<open>Q\<close>, or in an error and a world that satisfies \<open>E\<close>.\<close>

definition wp :: "'w \<times> 'b res \<Rightarrow> ('b \<Rightarrow> 'w \<Rightarrow> bool) \<Rightarrow> ('w \<Rightarrow> bool) \<Rightarrow> bool" where
  "wp r Q E = (case snd r of Inl e \<Rightarrow> E (fst r) | Inr x \<Rightarrow> Q x (fst r))"

lemma wp_andThen [simp]: "wp (andThen r k) Q E = wp r (\<lambda>x w. wp (k w x) Q E) E"
  by (cases r) (auto simp: wp_def andThen_def split: sum.splits)

lemma wp_guarded [simp]: "wp (guarded e w r) Q E = (if e = None then wp r Q E else E w)"
  by (auto simp: wp_def guarded_def split: option.splits)

lemma wp_pure [simp]: "wp (w, Inr x) Q E = Q x w" "wp (w, Inl e) Q E = E w"
  by (simp_all add: wp_def)

lemma wp_result: "wp (w, r) Q E \<longleftrightarrow> (\<forall>x. r = Inr x \<longrightarrow> Q x w) \<and> (\<forall>e. r = Inl e \<longrightarrow> E w)"
  by (cases r) simp_all

lemma result_wp: "(\<And>x. r = Inr x \<Longrightarrow> Q x w) \<Longrightarrow> (\<And>e. r = Inl e \<Longrightarrow> E w) \<Longrightarrow> wp (w, r) Q E"
  by (cases r) simp_all

lemma case_wp:
  "wp r P P' \<Longrightarrow> (\<And>x w. P x w \<Longrightarrow> wp (g w x) Q E) \<Longrightarrow> (\<And>e w. P' w \<Longrightarrow> wp (f w e) Q E) \<Longrightarrow>
     wp (case r of (w, Inl e) \<Rightarrow> f w e | (w, Inr x) \<Rightarrow> g w x) Q E"
  by (cases r; cases "snd r") simp_all

lemma wp_mono:
  "wp r Q E \<Longrightarrow> (\<And>x w. Q x w \<Longrightarrow> Q' x w) \<Longrightarrow> (\<And>w. E w \<Longrightarrow> E' w) \<Longrightarrow> wp r Q' E'"
  by (cases r) (auto simp: wp_def split: sum.splits)

lemma wp_fst: "wp r (\<lambda>_. E) E \<Longrightarrow> E (fst r)"
  by (cases r) (auto simp: wp_def split: sum.splits)

section \<open>The world of an activation\<close>

text \<open>A port that makes one call, and leaves the journal record alone.\<close>

definition silent ::
  "('w \<Rightarrow> ActivationAttempt option) \<Rightarrow> ('w \<Rightarrow> (Call \<times> ActivationAttempt option) list) \<Rightarrow> ('q \<Rightarrow> Call) \<Rightarrow> ('w \<Rightarrow> 'q \<Rightarrow> 'w \<times> 'b res) \<Rightarrow> bool" where
  "silent durable hist label f \<longleftrightarrow>
     (\<forall>w q. durable (fst (f w q)) = durable w \<and> hist (fst (f w q)) = (label q, durable w) # hist w)"

text \<open>
  A port that writes the record: on success the new record is stored, on failure (also a lost reply)
  either the old or the new one.
\<close>

definition journals ::
  "('w \<Rightarrow> ActivationAttempt option) \<Rightarrow> ('w \<Rightarrow> (Call \<times> ActivationAttempt option) list) \<Rightarrow> ('b \<Rightarrow> ActivationAttempt)
     \<Rightarrow> (ActivationAttempt option \<Rightarrow> ActivationAttempt \<Rightarrow> bool) \<Rightarrow> 'w \<Rightarrow> 'w \<times> 'b res \<Rightarrow> bool" where
  "journals durable hist record_of change w r \<longleftrightarrow>
     hist (fst r) = (CallOther, durable w) # hist w
     \<and> (case snd r of
          Inr x \<Rightarrow> durable (fst r) = Some (record_of x) \<and> change (durable w) (record_of x)
        | Inl e \<Rightarrow> durable (fst r) = durable w \<or> (\<exists>b. durable (fst r) = Some b \<and> change (durable w) b))"

definition legal_update :: "ActivationAttempt \<Rightarrow> ActivationAttempt option \<Rightarrow> ActivationAttempt \<Rightarrow> bool" where
  "legal_update n d b \<longleftrightarrow> b = n \<and> (\<exists>a c now. d = Some a \<and> ValidateTransition a n c now = None)"

definition commit_update :: "ActivationStoreCommitRequest \<Rightarrow> ActivationAttempt option \<Rightarrow> ActivationAttempt \<Rightarrow> bool" where
  "commit_update q d b \<longleftrightarrow> (\<exists>a l t. d = Some a \<and> b = committed_attempt a (acr_SandboxLease q) l t
     \<and> at_Recovery a = RecoveryNormal \<and> SandboxLeaseRef_Validate (acr_SandboxLease q) = None)"

locale activation_world =
  fixes C :: "('a, 'p, 'w) Coordinator" and i :: string
    and durable :: "'w \<Rightarrow> ActivationAttempt option" and hist :: "'w \<Rightarrow> (Call \<times> ActivationAttempt option) list"
  assumes clock: "durable (fst (co_Clock C w)) = durable w \<and> hist (fst (co_Clock C w)) = hist w"
    and preflight: "silent durable hist CallPreflight (co_Preflight C)"
    and announce: "silent durable hist CallIntent (co_AppendIntent C)"
    and evidence: "silent durable hist (\<lambda>_. CallOther) (co_ReadEvidence C)"
    and allocate: "silent durable hist CallAllocate (co_Allocate C)"
    and activate: "silent durable hist CallActivate (co_ActivateSandbox C)"
    and open_execution: "silent durable hist CallOpen (co_Open C)"
    and sandbox: "silent durable hist (\<lambda>_. CallOther) (co_InspectSandbox C)"
    and execution: "silent durable hist (\<lambda>_. CallOther) (co_InspectExecution C)"
    and reserve: "silent durable hist (\<lambda>_. CallOther) (co_ReserveIdentityLease C)"
    and create: "at_ID a = i \<Longrightarrow> journals durable hist id (\<lambda>d b. d = None \<and> b = a) w (co_CreateAttempt C w a)"
    and swap: "at_ID a = i \<Longrightarrow> journals durable hist id (legal_update a) w (co_SwapAttempt C w a c)"
    and commit: "acr_AttemptID q = i \<Longrightarrow> journals durable hist acres_Attempt (commit_update q) w (co_CommitActivation C w q)"
    and leased: "co_CommitActivation C w q = (w', Inr r) \<Longrightarrow> il_State (acres_IdentityLease r) = IdentityLeaseActive"
begin

text \<open>Safe: every record seen so far, and the present one, says what is in flight.\<close>

definition safe :: "Call list \<Rightarrow> 'w \<Rightarrow> bool" where
  "safe ds w \<longleftrightarrow> crash_ok (hist w) \<and> dispatches (hist w) = ds \<and> effects_recorded ds (durable w)"

definition inhand :: "ActivationAttempt \<Rightarrow> Call list \<Rightarrow> 'w \<Rightarrow> bool" where
  "inhand a ds w \<longleftrightarrow> durable w = Some a \<and> safe ds w"

definition fine :: "ActivationRequest \<Rightarrow> 'w \<Rightarrow> bool" where
  "fine r w \<longleftrightarrow> (\<exists>ds. safe ds w \<and> lawful r ds)"

lemma safe_fine: "safe ds w \<Longrightarrow> lawful r ds \<Longrightarrow> fine r w"
  by (auto simp: fine_def)

lemma inhand_fine: "inhand a ds w \<Longrightarrow> lawful r ds \<Longrightarrow> fine r w"
  by (auto simp: inhand_def intro: safe_fine)

lemma clock_wp: "inhand a ds w \<Longrightarrow> (\<And>t w'. inhand a ds w' \<Longrightarrow> Q t w') \<Longrightarrow> wp (read_clock C w) Q E"
  using clock [of w] by (auto simp: read_clock_def wp_def inhand_def safe_def split: prod.splits)

lemma silent_wp:
  assumes "silent durable hist label f" "inhand a ds w" "\<not> watched (label q)"
    and "\<And>x w'. inhand a ds w' \<Longrightarrow> Q x w'" "\<And>w'. inhand a ds w' \<Longrightarrow> E w'"
  shows "wp (f w q) Q E"
proof -
  have "inhand a ds (fst (f w q))" using assms(1-3) by (auto simp: silent_def inhand_def safe_def)
  then show ?thesis using assms(4,5) by (auto simp: wp_def split: sum.splits)
qed

lemma dispatch_wp:
  assumes "silent durable hist label f" "inhand a ds w" "watched (label q)" "effects_recorded (label q # ds) (Some a)"
    and "\<And>x w'. inhand a (label q # ds) w' \<Longrightarrow> Q x w'" "\<And>w'. inhand a (label q # ds) w' \<Longrightarrow> E w'"
  shows "wp (f w q) Q E"
proof -
  have "inhand a (label q # ds) (fst (f w q))" using assms(1-4) by (auto simp: silent_def inhand_def safe_def)
  then show ?thesis using assms(5,6) by (auto simp: wp_def split: sum.splits)
qed

lemma swap_wp:
  assumes "inhand a ds w" "at_ID n = i" "effects_recorded ds (Some n)"
    and "\<And>w' c now. inhand n ds w' \<Longrightarrow> ValidateTransition a n c now = None \<Longrightarrow> Q n w'" "\<And>w'. safe ds w' \<Longrightarrow> E w'"
  shows "wp (co_SwapAttempt C w n c) Q E"
proof -
  have h: "hist (fst (co_SwapAttempt C w n c)) = (CallOther, durable w) # hist w"
    using swap [OF assms(2), of w c] by (simp add: journals_def)
  show ?thesis
  proof (cases "snd (co_SwapAttempt C w n c)")
    case (Inl e)
    then have "safe ds (fst (co_SwapAttempt C w n c))"
      using swap [OF assms(2), of w c] assms(1,3) h by (auto simp: journals_def legal_update_def inhand_def safe_def)
    then show ?thesis using Inl assms(5) by (simp add: wp_def)
  next
    case (Inr x)
    then obtain c' now where x: "x = n" "ValidateTransition a n c' now = None" "durable (fst (co_SwapAttempt C w n c)) = Some n"
      using swap [OF assms(2), of w c] assms(1) by (auto simp: journals_def legal_update_def inhand_def)
    then have "inhand n ds (fst (co_SwapAttempt C w n c))" using assms(1,3) h by (auto simp: inhand_def safe_def)
    then show ?thesis using Inr x assms(4) by (simp add: wp_def)
  qed
qed

definition advanced :: "ActivationAttempt \<Rightarrow> ActivationStage \<Rightarrow> Time \<Rightarrow> ActivationAttempt" where
  "advanced a stage t = a\<lparr>at_Stage := stage, at_Revision := at_Revision a + 1, at_UpdatedAt := t\<rparr>"

lemma advanced_sel [simp]:
  "at_ID (advanced a s t) = at_ID a" "at_Scope (advanced a s t) = at_Scope a" "at_Stage (advanced a s t) = s"
  "at_Recovery (advanced a s t) = at_Recovery a" "at_SandboxReservation (advanced a s t) = at_SandboxReservation a"
  "at_SandboxActivation (advanced a s t) = at_SandboxActivation a"
  by (simp_all add: advanced_def)

lemma advance_wp:
  assumes "inhand a ds w" "\<And>t. at_ID (f (advanced a stage t)) = i" "\<And>t. effects_recorded ds (Some (f (advanced a stage t)))"
    and "\<And>t w' c now. inhand (f (advanced a stage t)) ds w' \<Longrightarrow> ValidateTransition a (f (advanced a stage t)) c now = None \<Longrightarrow>
      Q (f (advanced a stage t)) w'" "\<And>w'. safe ds w' \<Longrightarrow> E w'"
  shows "wp (advanceActivation C a stage f w) Q E"
proof -
  have s: "wp (co_SwapAttempt C w (f (advanced a stage t)) c) Q E" if "inhand a ds w" for w t c
    by (rule swap_wp [OF that assms(2,3)]) (use assms(4,5) in blast)+
  show ?thesis
    unfolding advanceActivation_def monotonicTimestamp_def wp_andThen wp_pure
    by (rule clock_wp [OF assms(1)]) (rule s [unfolded advanced_def])
qed

lemma quarantine_wp:
  assumes "inhand a ds w" "\<And>b. at_ID (f b) = at_ID b" "at_ID a = i"
    and "\<And>b. at_Stage b = at_Stage a \<Longrightarrow> effects_recorded ds (Some (f b))"
  shows "safe ds (fst (quarantineActivation C a f reason w))"
proof (rule wp_fst)
  show "wp (quarantineActivation C a f reason w) (\<lambda>_. safe ds) (safe ds)"
    unfolding quarantineActivation_def monotonicTimestamp_def wp_andThen wp_pure
    by (rule clock_wp [OF assms(1)], rule swap_wp) (use assms in \<open>auto simp: inhand_def\<close>)
qed

text \<open>An intent that is persisted is announced once and valid.\<close>

lemma persist_wp:
  assumes "inhand a ds w"
    and "\<And>e n w'. inhand a (CallIntent e # ds) w' \<Longrightarrow> announces e scope n \<Longrightarrow> EffectIntent_Validate n = None \<Longrightarrow> Q n w'"
    and "\<And>w'. inhand a ds w' \<Longrightarrow> E w'" "\<And>e w'. inhand a (CallIntent e # ds) w' \<Longrightarrow> E w'"
  shows "wp (persistIntent C scope intent kind w) Q E"
  unfolding persistIntent_def wp_andThen Let_def wp_guarded wp_pure
proof (rule clock_wp [OF assms(1)])
  fix t w assume w: "inhand a ds w"
  let ?c = "intent\<lparr>ei_PersistedAt := t\<rparr>"
  let ?e = "\<lparr>eir_Scope = scope, eir_Kind = kind, eir_PayloadDigest = ei_CanonicalPayloadDigest ?c, eir_CausationID = ei_ID ?c\<rparr>"
  let ?K = "\<lambda>x w. if EffectIntent_Validate (?c\<lparr>ei_PersistedAt := evr_RecordedAt x\<rparr>) = None
      then Q (?c\<lparr>ei_PersistedAt := evr_RecordedAt x\<rparr>) w else E w"
  have read: "wp (co_ReadEvidence C w' ref) ?K E" if "inhand a (CallIntent ?e # ds) w'" for w' ref
    by (rule silent_wp [OF evidence that]) (use assms(2,4) in \<open>auto simp: announces_def\<close>)
  have "effects_recorded (CallIntent ?e # ds) (Some a)" using w by (auto simp: inhand_def safe_def)
  then have "wp (co_AppendIntent C w ?e) (\<lambda>x w. wp (co_ReadEvidence C w x) ?K E) E"
    by (intro dispatch_wp [OF announce w] read) (auto dest: assms(4))
  then show "if EffectIntent_Validate ?c = None
      then wp (co_AppendIntent C w ?e) (\<lambda>x w. wp (co_ReadEvidence C w x) ?K E) E else E w"
    using assms(3) [OF w] by simp
qed

end

section \<open>The stages of an activation\<close>

lemma move_wp:
  assumes "agg_wf g" "\<And>g'. agg_wf g' \<Longrightarrow> agg_scope g' = agg_scope g \<Longrightarrow> agg_state g' = s \<Longrightarrow> Q g' w" "E w"
  shows "wp (move w g s) Q E"
  unfolding move_def wp_result
proof (intro conjI allI impI)
  fix x assume "snd (transition g s no_context) = Inr x"
  then obtain g' where t: "Transition g \<lparr>tr_Preconditions = preconditions g, tr_NextState = s, tr_Context = no_context\<rparr> = (g', Inr x)"
    by (metis prod.collapse transition_def)
  show "Q x w"
    using assms(2) Transition_wf [OF assms(1) t] Transition_Inr(5,6) [OF t] by simp
qed (rule assms(3))

lemma commit_aggregate:
  assumes "agg_wf g" "snd (CommitActivation g \<lparr>ac_Preconditions = p, ac_SandboxLease = l, ac_NextState = s\<rparr>) = Inr g'"
  shows "agg_wf g' \<and> agg_scope g' = (agg_scope g)\<lparr>scope_SandboxLease := Some l\<rparr>"
proof -
  from assms(2) obtain k where
    t: "CommitActivation g \<lparr>ac_Preconditions = p, ac_SandboxLease = l, ac_NextState = s\<rparr> = (k, Inr g')"
    by (metis prod.collapse)
  show ?thesis using CommitActivation_wf [OF assms(1) t] CommitActivation_Inr(8,10) [OF t] by simp
qed

definition stands :: "ActivationRequest \<Rightarrow> ActivationStage \<Rightarrow> ActivationAttempt \<Rightarrow> bool" where
  "stands r stage a \<longleftrightarrow> at_ID a = ar_ActivationAttemptID r \<and> at_Scope a = ar_ProposedScope r \<and> at_Stage a = stage
     \<and> at_Recovery a = RecoveryNormal"

definition aggregate_for :: "ActivationRequest \<Rightarrow> Aggregate \<Rightarrow> bool" where
  "aggregate_for r g \<longleftrightarrow> agg_wf g \<and> agg_scope g = ar_ProposedScope r"

definition admissible :: "ActivationRequest \<Rightarrow> bool" where
  "admissible r \<longleftrightarrow> ExecutionScope_Validate (ar_ProposedScope r) = None \<and> scope_SandboxLease (ar_ProposedScope r) = None
     \<and> Digest_Validate (ar_CapabilityGrantDigest r) = None"

lemma validateActivationRequest_admissible: "validateActivationRequest order r now = None \<Longrightarrow> admissible r"
  by (simp add: validateActivationRequest_def admissible_def)

context activation_world
begin

lemma create_wp:
  assumes "safe [] w" "at_ID a = i" "\<And>w'. inhand a [] w' \<Longrightarrow> Q a w'" "\<And>w'. safe [] w' \<Longrightarrow> E w'"
  shows "wp (co_CreateAttempt C w a) Q E"
proof (cases "snd (co_CreateAttempt C w a)")
  case (Inl e)
  then have "safe [] (fst (co_CreateAttempt C w a))"
    using create [OF assms(2), of w] assms(1) by (auto simp: journals_def safe_def)
  then show ?thesis using Inl assms(4) by (simp add: wp_def)
next
  case (Inr x)
  then have "x = a" "inhand a [] (fst (co_CreateAttempt C w a))"
    using create [OF assms(2), of w] assms(1) by (auto simp: journals_def inhand_def safe_def)
  then show ?thesis using Inr assms(3) by (simp add: wp_def)
qed

lemma admit_wp:
  assumes "safe [] w" "ar_ActivationAttemptID r = i"
  shows "wp (activate_admit C r now w)
    (\<lambda>(g, a) w. inhand a [] w \<and> stands r StagePreflighting a \<and> aggregate_for r g) (safe [])"
proof -
  let ?a = "proposed_attempt r now"
  show ?thesis
    unfolding activate_admit_def wp_andThen wp_pure
    apply (rule result_wp)
     apply (rule create_wp [OF assms(1)])
       apply (simp add: proposed_attempt_def assms(2))
      apply (rule move_wp)
        apply (simp add: NewAggregate_wf)
       apply (rule move_wp, assumption)
        apply (erule advance_wp)
           apply (auto simp: assms stands_def proposed_attempt_def aggregate_for_def inhand_def NewAggregate_def)
    done
qed

end

context activation_world
begin

lemma preflight_wp:
  assumes "inhand a [] w" "stands r StagePreflighting a" "aggregate_for r g" "ar_ActivationAttemptID r = i"
  shows "wp (activate_preflight C r now g a w)
    (\<lambda>(g, a) w. inhand a [] w \<and> stands r StageSnapshotFrozen a \<and> aggregate_for r g) (safe [])"
  unfolding activate_preflight_def wp_andThen wp_guarded wp_pure
  apply (rule silent_wp [OF preflight assms(1)], simp)
   apply (simp, intro conjI impI)
    apply (erule advance_wp)
       apply (use assms(2,4) in \<open>simp_all add: stands_def\<close>)
     apply (rule result_wp)
      apply (erule advance_wp)
         apply simp_all
      apply (rule move_wp)
        apply (use assms(3) in \<open>auto simp: stands_def aggregate_for_def inhand_def\<close>)
  done

lemma identity_wp:
  assumes "inhand a [] w" "stands r StageSnapshotFrozen a" "aggregate_for r g" "ar_ActivationAttemptID r = i"
  shows "wp (activate_identity C r g a w)
    (\<lambda>(g, a, l) w. inhand a [] w \<and> stands r StageBudgetResolved a \<and> aggregate_for r g \<and> il_Identity l = scope_Identity (ar_ProposedScope r)
       \<and> at_IdentityLeaseID a = il_ID l) (safe [])"
  unfolding activate_identity_def wp_andThen wp_guarded wp_pure
  apply (rule silent_wp [OF reserve assms(1)], simp)
   apply (simp, intro conjI impI)
    apply (erule advance_wp)
       apply (use assms(2,4) in \<open>simp_all add: stands_def\<close>)
     apply (erule advance_wp)
        apply simp_all
     apply (rule move_wp)
       apply (use assms(3) in \<open>auto simp: stands_def aggregate_for_def inhand_def advanced_def\<close>)
  done

text \<open>The record of an attempt whose sandbox is reserved, with the calls that led to it.\<close>

definition reserved :: "ActivationRequest \<Rightarrow> string \<Rightarrow> string \<Rightarrow> ActivationAttempt \<Rightarrow> Call list \<Rightarrow> 'w \<Rightarrow> bool" where
  "reserved r lease sandbox a ds w \<longleftrightarrow> inhand a ds w \<and> stands r StageSandboxReserved a \<and> at_IdentityLeaseID a = lease
     \<and> op_State (at_SandboxReservation a) = OperationConfirmedApplied \<and> op_Reference (at_SandboxReservation a) = sandbox
     \<and> (\<exists>q e. ds = [CallAllocate q, CallIntent e]) \<and> lawful r ds"

lemma allocate_sandbox_wp:
  assumes "inhand a [CallIntent e] w" "stands r StageBudgetResolved a" "ar_ActivationAttemptID r = i" "admissible r"
    and "op_State (at_SandboxReservation a) = OperationIntentRecorded"
    and "announces e (ar_ProposedScope r) n" "EffectIntent_Validate n = None"
  shows "wp (allocate_sandbox C r now n a w)
    (\<lambda>(b, o1) w. \<exists>ds. reserved r (at_IdentityLeaseID a) (slease_ID (slo_Lease o1)) b ds w) (fine r)"
proof -
  let ?q = "\<lparr>saq_ProposedInstance = scope_Instance (ar_ProposedScope r), saq_RequirementDigest = ar_RequirementDigest r,
     saq_FenceEpoch = inst_Epoch (scope_Instance (ar_ProposedScope r)), saq_Intent = n,
     saq_Fence = makeFence (ar_ProposedScope r) FenceBoundaryActivation (ar_CapabilityGrantDigest r) n (Add now (ar_FenceTTL r))\<rparr>"
  let ?ds = "[CallAllocate ?q, CallIntent e]"
  have ds: "lawful r ?ds" using assms(6) makeFence_gated [OF assms(7)] assms(4) by (simp add: admissible_def)
  have rec: "effects_recorded ?ds (Some a)" using assms(5) by (intro recorded_allocate) (simp_all add: reservation_recorded_def)
  have a: "at_ID a = i" using assms(2,3) by (simp add: stands_def)
  have adv: "wp (advanceActivation C a StageSandboxReserved
      (\<lambda>b. b\<lparr>at_SandboxReservation := operation OperationConfirmedApplied (ei_ID n) ref d\<rparr>) w)
      (\<lambda>b w. reserved r (at_IdentityLeaseID a) ref b ?ds w) (fine r)" if "inhand a ?ds w" for ref d w
    by (rule advance_wp [OF that])
       (use assms(2) a ds in \<open>auto simp: reserved_def stands_def advanced_def operation_def effects_recorded_def reservation_recorded_def intro: safe_fine\<close>)
  have q: "fine r (fst (quarantineActivation C a
      (\<lambda>b. b\<lparr>at_SandboxReservation := operation OperationUnknownOutcome (ei_ID n) '''' ''''\<rparr>) reason w))"
    if "inhand a ?ds w" for w reason
    by (rule safe_fine [OF quarantine_wp [OF that]])
       (use a ds in \<open>auto simp: operation_def effects_recorded_def reservation_recorded_def\<close>)
  have "wp (co_Allocate C w ?q) (\<lambda>_. inhand a ?ds) (inhand a ?ds)"
    by (rule dispatch_wp [OF allocate assms(1)]) (simp_all add: rec)
  then show ?thesis
    unfolding allocate_sandbox_def
    by (rule case_wp) (auto simp: wp_result q intro: inhand_fine [OF _ ds] adv [THEN wp_mono])
qed

lemma allocate_wp:
  assumes "inhand a [] w" "stands r StageBudgetResolved a" "ar_ActivationAttemptID r = i" "admissible r"
  shows "wp (activate_allocate C r now a w)
    (\<lambda>(b, o1) w. \<exists>ds. reserved r (at_IdentityLeaseID a) (slease_ID (slo_Lease o1)) b ds w) (fine r)"
  unfolding activate_allocate_def wp_andThen
proof (rule persist_wp [OF assms(1)])
  fix e n w assume w: "inhand a [CallIntent e] w" and n: "announces e (ar_ProposedScope r) n" "EffectIntent_Validate n = None"
  show "wp (advanceActivation C a StageBudgetResolved
       (\<lambda>a. a\<lparr>at_SandboxReservation := operation OperationIntentRecorded (ei_ID n) '''' ''''\<rparr>) w)
     (\<lambda>b w. wp (allocate_sandbox C r now n b w)
       (\<lambda>(b, o1) w. \<exists>ds. reserved r (at_IdentityLeaseID a) (slease_ID (slo_Lease o1)) b ds w) (fine r)) (fine r)"
    apply (rule advance_wp [OF w])
       apply (use assms(2,3) in \<open>auto simp: stands_def intro: safe_fine\<close>) [2]
     apply (erule allocate_sandbox_wp [THEN wp_mono])
            apply (use assms(2-4) n in \<open>auto simp: stands_def advanced_def operation_def intro: safe_fine\<close>)
    done
qed (auto intro: inhand_fine)

end

context activation_world
begin

text \<open>
  From the commit on: the record in hand is bound to the sandbox lease and to the scope of the aggregate. The
  last argument is the number of calls that went out.
\<close>

definition bound :: "ActivationRequest \<Rightarrow> SandboxLeaseRef \<Rightarrow> ActivationStage \<Rightarrow> Aggregate \<Rightarrow> ActivationAttempt \<Rightarrow> Call list \<Rightarrow> 'w \<Rightarrow> bool" where
  "bound r l stage g a ds w \<longleftrightarrow> inhand a ds w \<and> lawful r ds \<and> at_ID a = ar_ActivationAttemptID r \<and> at_Stage a = stage
     \<and> at_Recovery a = RecoveryNormal \<and> at_Scope a = agg_scope g \<and> agg_wf g
     \<and> agg_scope g = (ar_ProposedScope r)\<lparr>scope_SandboxLease := Some l\<rparr>
     \<and> op_State (at_SandboxReservation a) = OperationConfirmedApplied \<and> op_Reference (at_SandboxReservation a) = slease_ID l"

lemma bound_fine: "bound r l stage g a ds w \<Longrightarrow> fine r w"
  by (auto simp: bound_def intro: inhand_fine)

lemma commit_call_wp:
  assumes "reserved r lease (slease_ID l) a ds w" "at_ID a = i" "acr_AttemptID q = i" "acr_SandboxLease q = l"
    and "\<And>x k t w'. inhand (acres_Attempt x) ds w' \<Longrightarrow> acres_Attempt x = committed_attempt a l k t \<Longrightarrow>
      il_State (acres_IdentityLease x) = IdentityLeaseActive \<Longrightarrow> Q x w'"
    and "\<And>w'. safe ds w' \<Longrightarrow> E w'"
  shows "wp (co_CommitActivation C w q) Q E"
proof -
  have a: "inhand a ds w" "stageIndex (at_Stage a) = 6" and rec: "effects_recorded ds (Some a)" "\<exists>q e. ds = [CallAllocate q, CallIntent e]"
    using assms(1) by (auto simp: reserved_def stands_def inhand_def safe_def)
  have later: "effects_recorded ds (Some (committed_attempt a l k t))" for k t
    using rec by (auto simp: effects_recorded_def reservation_recorded_def committed_attempt_def)
  obtain w' y where y: "co_CommitActivation C w q = (w', y)" by (meson surj_pair)
  show ?thesis
  proof (cases y)
    case (Inl e)
    then have "safe ds w'"
      using commit [OF assms(3), of w] a(1) y later rec(1) assms(4)
      by (auto simp: journals_def commit_update_def inhand_def safe_def)
    then show ?thesis using y Inl assms(6) by (simp add: wp_def)
  next
    case (Inr x)
    then obtain k t where x: "acres_Attempt x = committed_attempt a l k t" "durable w' = Some (acres_Attempt x)"
      using commit [OF assms(3), of w] a(1) y assms(4) by (auto simp: journals_def commit_update_def inhand_def)
    moreover have "inhand (acres_Attempt x) ds w'"
      using commit [OF assms(3), of w] x a(1) y later rec(1) Inr by (auto simp: journals_def inhand_def safe_def)
    ultimately show ?thesis using y Inr assms(5) leased by (auto simp: wp_def)
  qed
qed

lemma commit_wp:
  assumes "reserved r (il_ID lease) (slease_ID l) a ds w" "aggregate_for r g" "ar_ActivationAttemptID r = i"
  shows "wp (activate_commit C r g a lease l w)
    (\<lambda>(g, b, k) w. bound r l StageCommitted g b ds w \<and> il_State k = IdentityLeaseActive) (fine r)"
proof -
  have a: "at_ID a = i" and ds: "lawful r ds" using assms(1,3) by (auto simp: reserved_def stands_def)
  show ?thesis
    unfolding activate_commit_def wp_andThen wp_pure
    apply (rule commit_call_wp [OF assms(1) a])
       apply (simp_all add: a)
     apply (rule result_wp)
      apply (drule commit_aggregate [rotated])
       apply (use assms ds in \<open>auto simp: aggregate_for_def bound_def reserved_def stands_def committed_attempt_def
         intro: safe_fine inhand_fine\<close>)
    done
qed

lemma start_sandbox_wp:
  assumes "bound r l StageCommitted g a (CallIntent e # [CallAllocate q, d]) w" "ar_ActivationAttemptID r = i" "admissible r"
    and "op_State (at_SandboxActivation a) = OperationIntentRecorded"
    and "announces e (agg_scope g) n" "EffectIntent_Validate n = None"
  shows "wp (start_sandbox C r (agg_scope g) t n a w)
    (\<lambda>b w. \<exists>v. sac_Scope v = agg_scope g \<and> bound r l StageSandboxActive g b (CallActivate v # CallIntent e # [CallAllocate q, d]) w
       \<and> op_State (at_SandboxActivation b) = OperationConfirmedApplied) (fine r)"
proof -
  define v where "v = \<lparr>sac_Scope = agg_scope g, sac_Intent = n,
     sac_Fence = makeFence (agg_scope g) FenceBoundaryInstance (ar_CapabilityGrantDigest r) n (Add t (ar_FenceTTL r))\<rparr>"
  define ds where "ds = CallActivate v # CallIntent e # [CallAllocate q, d]"
  note b = assms(1) [unfolded bound_def]
  have lawful: "lawful r ds"
    using b assms(5) makeFence_gated [OF assms(6)] assms(3) by (auto simp: admissible_def agg_wf_def v_def ds_def)
  have a: "at_ID a = i" and w: "inhand a (CallIntent e # [CallAllocate q, d]) w" using b assms(2) by auto
  have rec: "effects_recorded ds (Some a)" unfolding ds_def
    using w assms(4) by (intro recorded_activate) (auto simp: activation_recorded_def inhand_def safe_def)
  have keep: "effects_recorded ds (Some c)" if "7 \<le> stageIndex (at_Stage c)" "activation_recorded c" for c
    using that by (auto simp: effects_recorded_def reservation_recorded_def)
  have adv: "wp (advanceActivation C a StageSandboxActive
      (\<lambda>b. b\<lparr>at_SandboxActivation := operation OperationConfirmedApplied (ei_ID n) ref dg\<rparr>) w)
      (\<lambda>b w. bound r l StageSandboxActive g b ds w \<and> op_State (at_SandboxActivation b) = OperationConfirmedApplied) (fine r)"
    if "inhand a ds w" for ref dg w
    by (rule advance_wp [OF that])
       (use b a in \<open>simp_all add: bound_def lawful keep operation_def activation_recorded_def safe_fine [OF _ lawful]\<close>)
  have q: "fine r (fst (quarantineActivation C a
      (\<lambda>b. b\<lparr>at_SandboxActivation := operation OperationUnknownOutcome (ei_ID n) [] []\<rparr>) reason w))"
    if "inhand a ds w" for w reason
    by (rule safe_fine [OF quarantine_wp [OF that] lawful])
       (use b a in \<open>auto intro!: keep simp: operation_def activation_recorded_def\<close>)
  have v: "sac_Scope v = agg_scope g" by (simp add: v_def)
  have adv': "wp (advanceActivation C a StageSandboxActive
      (\<lambda>b. b\<lparr>at_SandboxActivation := operation OperationConfirmedApplied (ei_ID n) ref dg\<rparr>) w)
      (\<lambda>b w. \<exists>v. sac_Scope v = agg_scope g \<and> bound r l StageSandboxActive g b (CallActivate v # CallIntent e # [CallAllocate q, d]) w
         \<and> op_State (at_SandboxActivation b) = OperationConfirmedApplied) (fine r)"
    if "inhand a ds w" for ref dg w
    by (rule wp_mono [OF adv [OF that]]) (use v in \<open>unfold ds_def, blast+\<close>)
  have "wp (co_ActivateSandbox C w v) (\<lambda>_. inhand a ds) (inhand a ds)"
    unfolding ds_def by (rule dispatch_wp [OF activate w]) (simp_all add: rec [unfolded ds_def])
  then show ?thesis
    unfolding start_sandbox_def v_def [symmetric]
    by (rule case_wp)
       (auto simp: wp_result q intro: inhand_fine [OF _ lawful] adv')
qed

end

context activation_world
begin

lemma bound_inhand: "bound r l stage g a ds w \<Longrightarrow> inhand a ds w"
  by (simp add: bound_def)

lemma bound_move: "bound r l stage g a ds w \<Longrightarrow> agg_wf g' \<Longrightarrow> agg_scope g' = agg_scope g \<Longrightarrow> bound r l stage g' a ds w"
  by (simp add: bound_def)

lemma bound_world: "bound r l stage g a ds w \<Longrightarrow> inhand a ds w' \<Longrightarrow> bound r l stage g a ds w'"
  by (simp add: bound_def)

lemma bound_announced:
  assumes "bound r l stage g a ds w" "inhand a (CallIntent e # ds) w'" "follows r (CallIntent e) ds"
  shows "bound r l stage g a (CallIntent e # ds) w'"
  using assms by (simp add: bound_def)

lemma sandbox_wp:
  assumes "bound r l StageCommitted g a [CallAllocate q, d] w" "ar_ActivationAttemptID r = i" "admissible r"
  shows "wp (activate_sandbox C r g a w)
    (\<lambda>(g', b) w. \<exists>v e. sac_Scope v = agg_scope g \<and> agg_scope g' = agg_scope g \<and> bound r l StageSandboxActive g' b [CallActivate v, CallIntent e, CallAllocate q, d] w
       \<and> op_State (at_SandboxActivation b) = OperationConfirmedApplied) (fine r)"
  unfolding activate_sandbox_def wp_andThen wp_pure
  apply (rule persist_wp [OF bound_inhand [OF assms(1)]])
  subgoal premises p for e n w'
  proof -
  note w' = p(1) and n = p(2,3)
  let ?f = "\<lambda>a. a\<lparr>at_SandboxActivation := operation OperationIntentRecorded (ei_ID n) [] []\<rparr>"
  have b: "bound r l StageCommitted g a (CallIntent e # [CallAllocate q, d]) w'"
    by (rule bound_announced [OF assms(1) w']) simp
  have adv: "bound r l StageCommitted g (?f (advanced a StageCommitted t)) (CallIntent e # [CallAllocate q, d]) w"
    if "inhand (?f (advanced a StageCommitted t)) (CallIntent e # [CallAllocate q, d]) w" for t w
    using b that by (simp add: bound_def)
  have g: "agg_wf g" using assms(1) by (simp add: bound_def)
  have start: "wp (start_sandbox C r (agg_scope g) t n c w) (\<lambda>c w. wp (move w g (owing_state PhaseBinding))
      (\<lambda>g' w. \<exists>v e. sac_Scope v = agg_scope g \<and> agg_scope g' = agg_scope g \<and> bound r l StageSandboxActive g' c [CallActivate v, CallIntent e, CallAllocate q, d] w
         \<and> op_State (at_SandboxActivation c) = OperationConfirmedApplied) (fine r)) (fine r)"
    if "bound r l StageCommitted g c (CallIntent e # [CallAllocate q, d]) w" "op_State (at_SandboxActivation c) = OperationIntentRecorded"
    for t c w
    apply (rule start_sandbox_wp [OF that(1) assms(2,3) that(2) n, THEN wp_mono])
     apply (rule move_wp)
       apply (auto intro: bound_fine bound_move simp: g)
    done
  show ?thesis
    apply (rule advance_wp [OF w'])
       apply (use assms(1,2) w' b in \<open>auto simp: bound_def inhand_def safe_def effects_recorded_def reservation_recorded_def intro: safe_fine\<close>) [2]
     apply (frule adv)
     apply (erule clock_wp)
     apply (simp only: prod.case)
     apply (rule start)
      apply (erule (1) bound_world)
     apply (simp add: operation_def)
    apply (use b in \<open>auto simp: bound_def intro: safe_fine\<close>)
    done
  qed
   apply (use assms(1) in \<open>auto simp: bound_def intro: inhand_fine\<close>)
  done

end

context activation_world
begin

lemma open_wp:
  assumes "bound r l StageSandboxActive g a [CallActivate v, d1, CallAllocate q, d2] w" "ar_ActivationAttemptID r = i" "admissible r"
    and "sac_Scope v = agg_scope g"
  shows "wp (activate_open C r g l w)
    (\<lambda>(g', ep) w. \<exists>p e. agg_state g' = owing_state PhaseReady
       \<and> bound r l StageSandboxActive g' a [CallOpen p, CallIntent e, CallActivate v, d1, CallAllocate q, d2] w) (fine r)"
  unfolding activate_open_def Let_def wp_andThen wp_guarded wp_pure
  apply (rule persist_wp [OF bound_inhand [OF assms(1)]])
  subgoal premises p for e n w'
  proof -
    have b: "bound r l StageSandboxActive g a [CallIntent e, CallActivate v, d1, CallAllocate q, d2] w'"
      by (rule bound_announced [OF assms(1) p(1)]) simp
    have g: "agg_wf g" using b by (simp add: bound_def)
    have o1: "bound r l StageSandboxActive g a (CallOpen k # [CallIntent e, CallActivate v, d1, CallAllocate q, d2]) w"
      if "inhand a (CallOpen k # [CallIntent e, CallActivate v, d1, CallAllocate q, d2]) w"
        "eoq_Scope k = agg_scope g" "eoq_Intent k = n"
        "eoq_Fence k = makeFence (agg_scope g) FenceBoundaryInstance (ar_CapabilityGrantDigest r) n t" for k w t
      using b that p(2,3) assms(3,4) makeFence_gated [OF p(3)] by (auto simp: bound_def admissible_def agg_wf_def)
    show ?thesis
      apply (rule clock_wp [OF p(1)])
      apply (erule dispatch_wp [OF open_execution])
         apply simp
        apply (use b in \<open>auto simp: bound_def inhand_def safe_def\<close>) [1]
       apply (rule move_wp [OF g])
        apply (erule silent_wp [OF sandbox], simp)
         apply (erule silent_wp [OF execution], simp)
          apply (simp, intro conjI impI)
           apply (rule move_wp, assumption)
            apply (drule o1, simp, simp, simp)
            apply (use bound_move in blast)
           apply (drule o1, simp, simp, simp, erule bound_fine)
          apply (use bound_fine o1 in \<open>fastforce\<close>)
         apply (drule o1, simp, simp, simp, erule bound_fine)
        apply (drule o1, simp, simp, simp, erule bound_fine)
       apply (drule o1, simp, simp, simp, erule bound_fine)
      apply (drule o1, simp, simp, simp, erule bound_fine)
      done
  qed
   apply (use assms(1) in \<open>auto simp: bound_def intro: inhand_fine\<close>)
  done

end

text \<open>
  An activation that succeeds: every effect went out, in order, and record, aggregate and lease agree
  on what is active.
\<close>

definition settled :: "ActivationRequest \<Rightarrow> Instance \<Rightarrow> Call list \<Rightarrow> bool" where
  "settled r n ds \<longleftrightarrow>
     (let a = in_activation n; g = in_aggregate n in
      length ds = 6 \<and> lawful r ds \<and> at_Stage a = StageSandboxActive \<and> at_Recovery a = RecoveryNormal \<and> at_Scope a = agg_scope g
      \<and> agg_wf g \<and> agg_state g = owing_state PhaseReady \<and> il_State (in_identityLease n) = IdentityLeaseActive
      \<and> op_State (at_SandboxReservation a) = OperationConfirmedApplied \<and> op_State (at_SandboxActivation a) = OperationConfirmedApplied
      \<and> map_option slease_ID (scope_SandboxLease (agg_scope g)) = Some (op_Reference (at_SandboxReservation a)))"

context activation_world
begin

lemma bound_settled:
  assumes "bound r l StageSandboxActive g a ds w" "agg_state g = owing_state PhaseReady" "il_State k = IdentityLeaseActive"
    "op_State (at_SandboxActivation a) = OperationConfirmedApplied" "length ds = 6"
  shows "inhand (in_activation (new_instance r bs g a k ep)) ds w \<and> settled r (new_instance r bs g a k ep) ds"
  using assms by (simp add: settled_def Let_def bound_def new_instance_def)

lemma activate_wp:
  assumes "safe [] w" "ar_ActivationAttemptID r = i"
  shows "wp (Activate (Some C) ctx r w) (\<lambda>n w. \<exists>ds. inhand (in_activation n) ds w \<and> settled r n ds) (fine r)"
proof -
  have fine: "fine r w" if "safe [] w" for w using safe_fine [OF that] by simp
  have clk: "safe [] (fst (co_Clock C w))" using assms(1) clock [of w] by (simp add: safe_def)
  have main: "wp (activate_admit C r now w) (\<lambda>(g, a) w. wp (activate_preflight C r now g a w) (\<lambda>(g, a) w.
      wp (activate_identity C r g a w) (\<lambda>(g, a, l) w. wp (activate_allocate C r now a w) (\<lambda>(a, o1) w.
      wp (activate_commit C r g a l (slo_Lease o1) w) (\<lambda>(g, a, l) w. wp (activate_sandbox C r g a w) (\<lambda>(g, a) w.
      wp (activate_open C r g (slo_Lease o1) w) (\<lambda>(g, ep) w.
        \<exists>ds. inhand (in_activation (new_instance r bs g a l ep)) ds w \<and> settled r (new_instance r bs g a l ep) ds)
      (fine r)) (fine r)) (fine r)) (fine r)) (fine r)) (fine r)) (fine r)"
    if "safe [] w" "admissible r" for now bs w
    apply (rule admit_wp [OF that(1) assms(2), THEN wp_mono])
     apply (clarsimp)
     apply (rule preflight_wp [THEN wp_mono], assumption+, rule assms(2))
      apply (clarsimp)
      apply (rule identity_wp [THEN wp_mono], assumption+, rule assms(2))
       apply (clarsimp)
       apply (rule allocate_wp [OF _ _ assms(2) that(2), THEN wp_mono], assumption+)
        apply (clarsimp)
        apply (rule commit_wp [OF _ _ assms(2), THEN wp_mono], simp, assumption)
         apply (clarsimp simp: reserved_def)
         apply (rule sandbox_wp [OF _ assms(2) that(2), THEN wp_mono], assumption)
          apply (clarsimp)
          apply (rule open_wp [OF _ assms(2) that(2), THEN wp_mono], assumption, simp)
           apply (clarify, drule bound_settled, assumption+, simp, blast)
          apply (simp_all add: safe_fine fine)
    done
  show ?thesis
    using clk assms(1) fine
    by (auto simp: Activate_def read_clock_def split_beta wp_result validateActivationRequest_admissible
        intro!: main [unfolded split_beta])
qed

end

end
