(* ===== verification/CoordinatorWorld.thy ===== *)
theory CoordinatorWorld
  imports CoordinatorLaws StoreHistory
begin

text \<open>
  The coordinator wired to the fact store of \<open>runtime/fakes\<close>, as the repository's own tests wire it. The
  components outside (execution, environment, evidence, clock, checkpoint participants) are functions on a
  state of their own; other callers of the store may act before every call, except that they leave the
  journal record of the attempt alone. Every call is written down with the store it meets.
\<close>

section \<open>The world\<close>

record 'x World =
  wd_Facts :: FactStore
  wd_Calls :: "(Call \<times> FactStore) list"
  wd_Rest :: 'x

record ('a, 'p, 'x) Outside =
  out_Registry :: "'a registry"
  out_Describe :: "'a \<Rightarrow> go_context \<Rightarrow> ComponentDescriptor res"
  out_PlanOrder :: map_order
  out_ResolveOrder :: map_order
  out_Preflight :: "'x \<Rightarrow> ExecutionPreflightRequest \<Rightarrow> 'x \<times> ExecutionPreflightReport res"
  out_Open :: "'x \<Rightarrow> ExecutionOpenRequest \<Rightarrow> 'x \<times> ExecutionEndpointRef res"
  out_InspectExecution :: "'x \<Rightarrow> ExecutionInspectRequest \<Rightarrow> 'x \<times> ExecutionObservation res"
  out_Close :: "'x \<Rightarrow> ExecutionCloseRequest \<Rightarrow> 'x \<times> ExecutionObservation res"
  out_Allocate :: "'x \<Rightarrow> SandboxAllocateRequest \<Rightarrow> 'x \<times> SandboxLeaseObservation res"
  out_ActivateSandbox :: "'x \<Rightarrow> SandboxActivateRequest \<Rightarrow> 'x \<times> SandboxLeaseObservation res"
  out_InspectSandbox :: "'x \<Rightarrow> SandboxLeaseRef \<Rightarrow> 'x \<times> SandboxLeaseObservation res"
  out_Fence :: "'x \<Rightarrow> SandboxFenceRequest \<Rightarrow> 'x \<times> SandboxLeaseObservation res"
  out_Release :: "'x \<Rightarrow> SandboxReleaseRequest \<Rightarrow> 'x \<times> SandboxLeaseObservation res"
  out_AppendIntent :: "'x \<Rightarrow> EvidenceIntentRecord \<Rightarrow> 'x \<times> EvidenceRecordRef res"
  out_ReadEvidence :: "'x \<Rightarrow> EvidenceRecordRef \<Rightarrow> 'x \<times> EvidenceRecord res"
  out_Participants :: "'p CheckpointBinding list"
  out_DescribeParticipant :: "'p \<Rightarrow> 'x \<Rightarrow> 'x \<times> ComponentDescriptor res"
  out_PrepareCheckpoint :: "'p \<Rightarrow> 'x \<Rightarrow> CheckpointPrepareRequest \<Rightarrow> 'x \<times> CheckpointParticipantReport res"
  out_CommitCheckpoint :: "'p \<Rightarrow> 'x \<Rightarrow> CheckpointCommitRequest \<Rightarrow> 'x \<times> CheckpointParticipantReport res"
  out_AbortCheckpoint :: "'p \<Rightarrow> 'x \<Rightarrow> CheckpointAbortRequest \<Rightarrow> 'x \<times> CheckpointParticipantReport res"
  out_RestoreCheckpoint :: "'p \<Rightarrow> 'x \<Rightarrow> CheckpointRestoreRequest \<Rightarrow> 'x \<times> CheckpointParticipantReport res"
  out_Clock :: "'x \<Rightarrow> 'x \<times> Time"
  out_Others :: "'x \<Rightarrow> FactStore \<Rightarrow> FactStore"
  out_json :: coordinator_json

definition shared :: "('a, 'p, 'x) Outside \<Rightarrow> string \<Rightarrow> 'x World \<Rightarrow> FactStore" where
  "shared P i w =
     (let s = out_Others P (wd_Rest w) (wd_Facts w)
      in s\<lparr>fs_activations := (fs_activations s)(i := fs_activations (wd_Facts w) i)\<rparr>)"

definition outside ::
  "('a, 'p, 'x) Outside \<Rightarrow> string \<Rightarrow> ('q \<Rightarrow> Call) \<Rightarrow> ('x \<Rightarrow> 'q \<Rightarrow> 'x \<times> 'b res) \<Rightarrow> 'x World \<Rightarrow> 'q \<Rightarrow> 'x World \<times> 'b res" where
  "outside P i label f w q =
     (let s = shared P i w in
      case f (wd_Rest w) q of
        (x, y) \<Rightarrow> (\<lparr>wd_Facts = s, wd_Calls = (label q, s) # wd_Calls w, wd_Rest = x\<rparr>, y))"

definition facts ::
  "('a, 'p, 'x) Outside \<Rightarrow> string \<Rightarrow> (FactStore \<Rightarrow> Time \<Rightarrow> FactStore \<times> 'b res) \<Rightarrow> 'x World \<Rightarrow> 'x World \<times> 'b res" where
  "facts P i f w =
     (let s = shared P i w in
      case out_Clock P (wd_Rest w) of
        (x, t) \<Rightarrow> (case f s t of (s', y) \<Rightarrow> (\<lparr>wd_Facts = s', wd_Calls = (CallOther, s) # wd_Calls w, wd_Rest = x\<rparr>, y)))"

definition wired :: "('a, 'p, 'x) Outside \<Rightarrow> string \<Rightarrow> ('a, 'p, 'x World) Coordinator" where
  "wired P i =
     \<lparr>co_Registry = out_Registry P, co_Describe = out_Describe P, co_PlanOrder = out_PlanOrder P, co_ResolveOrder = out_ResolveOrder P,
      co_Preflight = outside P i CallPreflight (out_Preflight P), co_Open = outside P i CallOpen (out_Open P),
      co_InspectExecution = outside P i (\<lambda>_. CallOther) (out_InspectExecution P), co_Close = outside P i (\<lambda>_. CallOther) (out_Close P),
      co_Allocate = outside P i CallAllocate (out_Allocate P), co_ActivateSandbox = outside P i CallActivate (out_ActivateSandbox P),
      co_InspectSandbox = outside P i (\<lambda>_. CallOther) (out_InspectSandbox P), co_Fence = outside P i (\<lambda>_. CallOther) (out_Fence P),
      co_Release = outside P i (\<lambda>_. CallOther) (out_Release P), co_AppendIntent = outside P i CallIntent (out_AppendIntent P),
      co_ReadEvidence = outside P i (\<lambda>_. CallOther) (out_ReadEvidence P),
      co_ReserveIdentityLease = (\<lambda>w q. facts P i (\<lambda>s. ReserveIdentityLease s LiveContext q) w),
      co_RevokeIdentityLease = (\<lambda>w q. facts P i (\<lambda>s. RevokeIdentityLease s LiveContext q) w),
      co_ReleaseIdentityLease = (\<lambda>w q. facts P i (\<lambda>s. ReleaseIdentityLease s LiveContext q) w),
      co_CreateAttempt = (\<lambda>w a. facts P i (\<lambda>s. CreateActivationAttempt s LiveContext a) w),
      co_InspectAttempt = (\<lambda>w k. facts P i (\<lambda>s t. (s, InspectActivationAttempt s LiveContext k)) w),
      co_SwapAttempt = (\<lambda>w a c. facts P i (\<lambda>s. CompareAndSwapActivation s LiveContext a c) w),
      co_CommitActivation = (\<lambda>w q. facts P i (\<lambda>s. StoreCommitActivation s LiveContext q) w),
      co_Participants = out_Participants P,
      co_DescribeParticipant = (\<lambda>p w. outside P i (\<lambda>_. CallOther) (\<lambda>x _. out_DescribeParticipant P p x) w ()),
      co_PrepareCheckpoint = (\<lambda>p. outside P i (\<lambda>_. CallOther) (out_PrepareCheckpoint P p)),
      co_CommitCheckpoint = (\<lambda>p. outside P i (\<lambda>_. CallOther) (out_CommitCheckpoint P p)),
      co_AbortCheckpoint = (\<lambda>p. outside P i (\<lambda>_. CallOther) (out_AbortCheckpoint P p)),
      co_RestoreCheckpoint = (\<lambda>p. outside P i (\<lambda>_. CallOther) (out_RestoreCheckpoint P p)),
      co_Clock = (\<lambda>w. case out_Clock P (wd_Rest w) of (x, t) \<Rightarrow> (w\<lparr>wd_Rest := x\<rparr>, t)),
      co_json = out_json P\<rparr>"

definition stored_attempt :: "string \<Rightarrow> 'x World \<Rightarrow> ActivationAttempt option" where
  "stored_attempt i w = fs_activations (wd_Facts w) i"

definition attempt_history :: "string \<Rightarrow> 'x World \<Rightarrow> (Call \<times> ActivationAttempt option) list" where
  "attempt_history i w = map (\<lambda>(c, s). (c, fs_activations s i)) (wd_Calls w)"

section \<open>The fact store keeps the laws\<close>

lemma shared_attempt [simp]: "fs_activations (shared P i w) i = fs_activations (wd_Facts w) i"
  by (simp add: shared_def Let_def)

lemma outside_silent: "silent (stored_attempt i) (attempt_history i) label (outside P i label f)"
  by (simp add: silent_def outside_def Let_def split_beta stored_attempt_def attempt_history_def)

lemma facts_silent:
  assumes "\<And>s q t. fs_activations (fst (f s q t)) = fs_activations s"
  shows "silent (stored_attempt i) (attempt_history i) (\<lambda>_. CallOther) (\<lambda>w q. facts P i (\<lambda>s. f s q) w)"
  using assms by (simp add: silent_def facts_def Let_def split_beta stored_attempt_def attempt_history_def)

lemma facts_journals:
  assumes "\<And>s t. case snd (f s t) of
      Inr x \<Rightarrow> fs_activations (fst (f s t)) i = Some (record_of x) \<and> change (fs_activations s i) (record_of x)
    | Inl e \<Rightarrow> fs_activations (fst (f s t)) = fs_activations s"
  shows "journals (stored_attempt i) (attempt_history i) record_of change w (facts P i f w)"
proof -
  obtain x t where c: "out_Clock P (wd_Rest w) = (x, t)" by (meson surj_pair)
  obtain s' y where f: "f (shared P i w) t = (s', y)" by (meson surj_pair)
  show ?thesis
    using assms [of "shared P i w" t] f
    by (cases y) (auto simp: journals_def facts_def Let_def c stored_attempt_def attempt_history_def)
qed

lemma mutateLease_activations: "fs_activations (fst (mutateLease s ctx i n f now)) = fs_activations s"
  using mutateLease_only by (metis prod.collapse)

text \<open>The commit on any store, also one whose lease index is damaged.\<close>

lemma StoreCommitActivation_update:
  assumes "StoreCommitActivation s ctx q now = (s', y)"
  shows "case y of
      Inl e \<Rightarrow> fs_activations s' = fs_activations s
    | Inr x \<Rightarrow> fs_activations s' (acr_AttemptID q) = Some (acres_Attempt x)
        \<and> commit_update q (fs_activations s (acr_AttemptID q)) (acres_Attempt x)
        \<and> il_State (acres_IdentityLease x) = IdentityLeaseActive"
  using assms unfolding StoreCommitActivation_def Let_def
  by (auto elim!: guarded_cases split: option.splits
      simp: commit_update_def activated_lease_def expireLeaseIfNeeded_def) blast+

lemma CreateActivationAttempt_update:
  "case snd (CreateActivationAttempt s ctx a t) of
     Inr x \<Rightarrow> fs_activations (fst (CreateActivationAttempt s ctx a t)) (at_ID a) = Some (id x)
       \<and> fs_activations s (at_ID a) = None \<and> id x = a
   | Inl e \<Rightarrow> fs_activations (fst (CreateActivationAttempt s ctx a t)) = fs_activations s"
  by (auto simp: CreateActivationAttempt_def guarded_def split: option.splits)

lemma CompareAndSwapActivation_update:
  "case snd (CompareAndSwapActivation s ctx a c t) of
     Inr x \<Rightarrow> fs_activations (fst (CompareAndSwapActivation s ctx a c t)) (at_ID a) = Some (id x)
       \<and> legal_update a (fs_activations s (at_ID a)) (id x)
   | Inl e \<Rightarrow> fs_activations (fst (CompareAndSwapActivation s ctx a c t)) = fs_activations s"
proof -
  obtain s' y where r: "CompareAndSwapActivation s ctx a c t = (s', y)" by (meson surj_pair)
  then show ?thesis by (cases rule: CompareAndSwapActivation_cases) (auto simp: r legal_update_def)
qed

lemma facts_result: "facts P i f w = (w', y) \<Longrightarrow> \<exists>s t. snd (f s t) = y"
  by (auto simp: facts_def Let_def split: prod.splits) (metis snd_conv)

text \<open>The laws of an activation, on the fact store, whatever the outside does.\<close>

interpretation store: activation_world "wired P i" i "stored_attempt i" "attempt_history i" for P i
proof
  show "silent (stored_attempt i) (attempt_history i) (\<lambda>_. CallOther) (co_ReserveIdentityLease (wired P i))"
    using facts_silent [of "\<lambda>s q. ReserveIdentityLease s LiveContext q" i P] ReserveIdentityLease_only
    by (simp add: wired_def) (metis prod.collapse)
next
  fix w show "stored_attempt i (fst (co_Clock (wired P i) w)) = stored_attempt i w
      \<and> attempt_history i (fst (co_Clock (wired P i) w)) = attempt_history i w"
    by (simp add: wired_def stored_attempt_def attempt_history_def split_beta)
next
  fix a :: ActivationAttempt and w assume i: "at_ID a = i"
  show "journals (stored_attempt i) (attempt_history i) id (\<lambda>d b. d = None \<and> b = a) w (co_CreateAttempt (wired P i) w a)"
    using facts_journals [of "\<lambda>s. CreateActivationAttempt s LiveContext a" "at_ID a" id "\<lambda>d b. d = None \<and> b = a",
        OF CreateActivationAttempt_update] i by (simp add: wired_def)
next
  fix a :: ActivationAttempt and w c assume i: "at_ID a = i"
  show "journals (stored_attempt i) (attempt_history i) id (legal_update a) w (co_SwapAttempt (wired P i) w a c)"
    using facts_journals [of "\<lambda>s. CompareAndSwapActivation s LiveContext a c" "at_ID a" id "legal_update a",
        OF CompareAndSwapActivation_update] i by (simp add: wired_def)
next
  fix q :: ActivationStoreCommitRequest and w assume i: "acr_AttemptID q = i"
  have "case snd (StoreCommitActivation s LiveContext q t) of
      Inl e \<Rightarrow> fs_activations (fst (StoreCommitActivation s LiveContext q t)) = fs_activations s
    | Inr x \<Rightarrow> fs_activations (fst (StoreCommitActivation s LiveContext q t)) (acr_AttemptID q) = Some (acres_Attempt x)
        \<and> commit_update q (fs_activations s (acr_AttemptID q)) (acres_Attempt x)" for s t
    using StoreCommitActivation_update [of s LiveContext q t, OF prod.collapse [symmetric]] by (auto split: sum.splits)
  then show "journals (stored_attempt i) (attempt_history i) acres_Attempt (commit_update q) w (co_CommitActivation (wired P i) w q)"
    using facts_journals [of "\<lambda>s. StoreCommitActivation s LiveContext q" "acr_AttemptID q" acres_Attempt "commit_update q"] i
    by (simp add: wired_def)
next
  fix q w w' r assume "co_CommitActivation (wired P i) w q = (w', Inr r)"
  then obtain s t where "snd (StoreCommitActivation s LiveContext q t) = Inr r"
    using facts_result by (simp add: wired_def) blast
  then show "il_State (acres_IdentityLease r) = IdentityLeaseActive"
    using StoreCommitActivation_update [OF prod.collapse [symmetric], of s LiveContext q t] by simp
qed (auto simp: wired_def outside_silent)

end
