(* ===== verification/CoordinatorSamples.thy ===== *)
theory CoordinatorSamples
  imports CoordinatorWorld
begin

text \<open>
  A run of the coordinator on the fact store in which every component answers well, so that an activation
  reaches its end. The execution, the sandbox and the evidence log are constant functions; the clock
  stands at 50.
\<close>

section \<open>Components that answer well\<close>

definition sample_observation :: "string \<Rightarrow> SandboxLeaseObservation" where
  "sample_observation state = \<lparr>slo_Lease = sample_lease, slo_State = state, slo_EvidenceRef = '''', slo_ObservedAt = 50\<rparr>"

definition sample_endpoint :: ExecutionEndpointRef where
  "sample_endpoint = \<lparr>eep_ComponentID = ''x'', eep_EndpointID = ''e'', eep_Digest = sample_digest\<rparr>"

definition sample_execution :: "string \<Rightarrow> ExecutionObservation" where
  "sample_execution kind = \<lparr>eob_SourceComponentID = ''x'', eob_SourceEpoch = 1, eob_ObservationKind = kind,
     eob_Payload = \<lparr>opl_Schema = '''', opl_Digest = '''', opl_Payload = ''''\<rparr>, eob_ObservedAt = 50\<rparr>"

definition sample_report :: CheckpointParticipantReport where
  "sample_report = \<lparr>cpt_ComponentID = ''k'', cpt_ComponentKind = ComponentState, cpt_State = CheckpointParticipantCommitted,
     cpt_SnapshotRef = ''s'', cpt_SnapshotDigest = sample_digest, cpt_EvidenceDigest = sample_digest, cpt_ObservedAt = 50\<rparr>"

definition sample_outside :: "(unit, unit, unit) Outside" where
  "sample_outside =
     \<lparr>out_Registry = Map.empty, out_Describe = (\<lambda>_ _. Inr (sample_descriptor ''x'')), out_PlanOrder = (\<lambda>n ks. ks),
      out_ResolveOrder = (\<lambda>n ks. ks),
      out_Preflight = (\<lambda>x q. (x, Inr \<lparr>epf_Accepted = True, epf_Descriptor = sample_descriptor ''x'',
         epf_RequirementDigest = epq_RequirementDigest q, epf_EvidenceDigest = sample_digest, epf_EvidenceExpiry = 80,
         epf_PossibleResidual = False, epf_ResidualRef = ''''\<rparr>)),
      out_Open = (\<lambda>x q. (x, Inr sample_endpoint)), out_InspectExecution = (\<lambda>x q. (x, Inr (sample_execution ''ready:ready''))),
      out_Close = (\<lambda>x q. (x, Inr (sample_execution ''closed''))),
      out_Allocate = (\<lambda>x q. (x, Inr (sample_observation ''reserved_quarantined''))),
      out_ActivateSandbox = (\<lambda>x q. (x, Inr (sample_observation ''active''))),
      out_InspectSandbox = (\<lambda>x q. (x, Inr (sample_observation ''active''))),
      out_Fence = (\<lambda>x q. (x, Inr (sample_observation ''fenced''))), out_Release = (\<lambda>x q. (x, Inr (sample_observation ''released''))),
      out_AppendIntent = (\<lambda>x q. (x, Inr \<lparr>erf_Scope = ''s'', erf_Sequence = 1\<rparr>)),
      out_ReadEvidence = (\<lambda>x q. (x, Inr \<lparr>evr_Ref = q, evr_Classification = '''', evr_PayloadDigest = sample_digest, evr_RecordedAt = 50\<rparr>)),
      out_Participants = [\<lparr>cb_Port = (), cb_Required = True\<rparr>],
      out_DescribeParticipant = (\<lambda>p x. (x, Inr (sample_descriptor ''k''))),
      out_PrepareCheckpoint = (\<lambda>p x q. (x, Inr (sample_report\<lparr>cpt_State := CheckpointParticipantPrepared\<rparr>))),
      out_CommitCheckpoint = (\<lambda>p x q. (x, Inr sample_report)), out_AbortCheckpoint = (\<lambda>p x q. (x, Inr sample_report)),
      out_RestoreCheckpoint = (\<lambda>p x q. (x, Inr sample_report)), out_Clock = (\<lambda>x. (x, 50)), out_Others = (\<lambda>x s. s),
      out_json = \<lparr>cj_Observation = (\<lambda>o1. Some ''plan''), cj_Snapshot = (\<lambda>s p f d t. Some ''plan'')\<rparr>\<rparr>"

definition coordinator_sample_request :: ActivationRequest where
  "coordinator_sample_request =
     \<lparr>ar_Plan = \<lparr>plan_ID = ''p'', plan_Digest = sample_digest, plan_ProfileDigest = sample_digest, plan_ContextDigest = sample_digest,
         plan_AuthorityDigest = sample_digest, plan_Requirements = []\<rparr>,
      ar_ProposedScope = sample_scope None, ar_ActivationAttemptID = ''a'', ar_RequirementDigest = sample_digest,
      ar_CapabilityGrantDigest = sample_digest,
      ar_ProbeBudget = \<lparr>pb_MaxRequests = 1, pb_MaxDuration = 1, pb_PossibleCharge = False, pb_PossibleMutation = False,
         pb_CleanupContract = ''''\<rparr>,
      ar_IdentityLeaseExpiresAt = 90, ar_FenceTTL = 10, ar_AllocateIntent = sample_intent, ar_ActivateIntent = sample_intent,
      ar_OpenIntent = sample_intent\<rparr>"

definition sample_world :: "unit World" where
  "sample_world = \<lparr>wd_Facts = NewFactStore, wd_Calls = [], wd_Rest = ()\<rparr>"

abbreviation sample_coordinator :: "(unit, unit, unit World) Coordinator" where
  "sample_coordinator \<equiv> wired sample_outside ''a''"

section \<open>Steps of the run\<close>

text \<open>\<open>wp r Q (\<lambda>_. False)\<close>: the step succeeds. The steps are determined by the facts alone.\<close>

lemma wired_ports:
  "co_Preflight (wired P i) = outside P i CallPreflight (out_Preflight P)" "co_Open (wired P i) = outside P i CallOpen (out_Open P)"
  "co_InspectExecution (wired P i) = outside P i (\<lambda>_. CallOther) (out_InspectExecution P)"
  "co_Allocate (wired P i) = outside P i CallAllocate (out_Allocate P)"
  "co_ActivateSandbox (wired P i) = outside P i CallActivate (out_ActivateSandbox P)"
  "co_InspectSandbox (wired P i) = outside P i (\<lambda>_. CallOther) (out_InspectSandbox P)"
  "co_ReserveIdentityLease (wired P i) w rq = facts P i (\<lambda>s. ReserveIdentityLease s LiveContext rq) w"
  "co_RevokeIdentityLease (wired P i) w eq = facts P i (\<lambda>s. RevokeIdentityLease s LiveContext eq) w"
  "co_ReleaseIdentityLease (wired P i) w eq = facts P i (\<lambda>s. ReleaseIdentityLease s LiveContext eq) w"
  "co_CreateAttempt (wired P i) w a = facts P i (\<lambda>s. CreateActivationAttempt s LiveContext a) w"
  "co_CommitActivation (wired P i) w cq = facts P i (\<lambda>s. StoreCommitActivation s LiveContext cq) w"
  by (simp_all add: wired_def)

lemma sample_shared [simp]: "shared sample_outside i w = wd_Facts w"
  by (simp add: shared_def sample_outside_def Let_def)

lemma sample_facts:
  "f (wd_Facts w) 50 = (s, Inr y) \<Longrightarrow> (\<And>w'. wd_Facts w' = s \<Longrightarrow> Q y w') \<Longrightarrow> wp (facts sample_outside i f w) Q E"
  by (simp add: facts_def Let_def wp_def) (simp add: sample_outside_def)

lemma sample_out:
  "f (wd_Rest w) q = (x, Inr y) \<Longrightarrow> (\<And>w'. wd_Facts w' = wd_Facts w \<Longrightarrow> Q y w') \<Longrightarrow> wp (outside sample_outside i label f w q) Q E"
  by (simp add: outside_def Let_def wp_def)

lemma sample_clock: "(\<And>w'. wd_Facts w' = wd_Facts w \<Longrightarrow> Q 50 w') \<Longrightarrow> wp (read_clock sample_coordinator w) Q E"
  by (simp add: read_clock_def wired_def split_beta) (simp add: sample_outside_def)

lemma sample_advance:
  assumes "fs_activations (wd_Facts w) (at_ID (f (a\<lparr>at_Stage := stage, at_Revision := at_Revision a + 1, at_UpdatedAt := 50\<rparr>))) = Some a"
    "fs_evidenceAvailable (wd_Facts w)" "at_UpdatedAt a = 50"
    "n = f (a\<lparr>at_Stage := stage, at_Revision := at_Revision a + 1, at_UpdatedAt := 50\<rparr>)"
    "ValidateTransition a n \<lparr>atc_UnknownResolved = False\<rparr> 50 = None"
    "\<And>w'. wd_Facts w' = (wd_Facts w)\<lparr>fs_activations := (fs_activations (wd_Facts w))(at_ID n \<mapsto> n)\<rparr> \<Longrightarrow> Q n w'"
  shows "wp (advanceActivation sample_coordinator a stage f w) Q E"
  unfolding advanceActivation_def monotonicTimestamp_def wp_andThen wp_pure
  apply (rule sample_clock)
  apply (simp add: wired_def time_defs assms(3))
  apply (rule sample_facts)
   apply (use assms(1,2,4,5) in \<open>simp add: CompareAndSwapActivation_def\<close>)
  apply (use assms(4,6) in simp)
  done

definition sample_preflight :: "Digest \<Rightarrow> ExecutionPreflightReport" where
  "sample_preflight d = \<lparr>epf_Accepted = True, epf_Descriptor = sample_descriptor ''x'', epf_RequirementDigest = d,
     epf_EvidenceDigest = sample_digest, epf_EvidenceExpiry = 80, epf_PossibleResidual = False, epf_ResidualRef = ''''\<rparr>"

definition sample_entry :: "EvidenceRecordRef \<Rightarrow> EvidenceRecord" where
  "sample_entry q = \<lparr>evr_Ref = q, evr_Classification = '''', evr_PayloadDigest = sample_digest, evr_RecordedAt = 50\<rparr>"

lemma sample_calls:
  "out_AppendIntent sample_outside x n = (x, Inr \<lparr>erf_Scope = ''s'', erf_Sequence = 1\<rparr>)"
  "out_ReadEvidence sample_outside x k = (x, Inr (sample_entry k))"
  "out_Preflight sample_outside x p = (x, Inr (sample_preflight (epq_RequirementDigest p)))"
  "out_Allocate sample_outside x qa = (x, Inr (sample_observation ''reserved_quarantined''))"
  "out_ActivateSandbox sample_outside x qv = (x, Inr (sample_observation ''active''))"
  "out_Open sample_outside x qo = (x, Inr sample_endpoint)"
  "out_InspectSandbox sample_outside x l = (x, Inr (sample_observation ''active''))"
  "out_InspectExecution sample_outside x qi = (x, Inr (sample_execution ''ready:ready''))"
  by (simp_all add: sample_outside_def sample_preflight_def sample_entry_def)

lemma sample_persist:
  assumes "EffectIntent_Validate (intent\<lparr>ei_PersistedAt := 50\<rparr>) = None"
    "\<And>w'. wd_Facts w' = wd_Facts w \<Longrightarrow> Q (intent\<lparr>ei_PersistedAt := 50\<rparr>) w'"
  shows "wp (persistIntent sample_coordinator scope intent kind w) Q E"
  unfolding persistIntent_def wp_andThen Let_def wp_guarded wp_pure
  apply (rule sample_clock)
  apply (simp add: assms(1) wired_def)
  apply (rule sample_out, rule sample_calls)
  apply (rule sample_out, rule sample_calls)
  apply (use assms in \<open>simp add: sample_entry_def\<close>)
  done

section \<open>The records of the run\<close>

definition sample_frozen :: ActivationSnapshot where
  "sample_frozen = \<lparr>sn_Digest = sample_digest, sn_AuthorityEpoch = 1, sn_EntitlementDigest = sample_digest,
     sn_RouteDigest = sample_digest, sn_CapabilityEvidenceDigest = sample_digest, sn_PolicyDigest = sample_digest,
     sn_BudgetPolicyDigest = sample_digest, sn_SandboxRequirementDigest = sample_digest,
     sn_RequestedExecutableCap = 0, sn_BudgetUnit = '''', sn_EvidenceExpiresAt = 80\<rparr>"

definition coordinator_sample_record ::
  "ActivationStage \<Rightarrow> ActivationSnapshot option \<Rightarrow> SandboxLeaseRef option \<Rightarrow> string \<times> IdentityLeaseState \<times> Revision \<Rightarrow> OperationState
     \<Rightarrow> ActivationOperation \<Rightarrow> ActivationOperation \<Rightarrow> Revision \<Rightarrow> ActivationAttempt" where
  "coordinator_sample_record stage snapshot sandbox lease budget reservation activation n =
     \<lparr>at_ID = ''a'', at_Scope = sample_scope sandbox, at_ExpectedIdentityEpoch = 0, at_RequirementDigest = sample_digest,
      at_Stage = stage, at_Recovery = RecoveryNormal, at_Snapshot = snapshot, at_IdentityLeaseID = fst lease,
      at_IdentityLeaseState = fst (snd lease), at_IdentityLeaseRevision = snd (snd lease), at_Budget = idle budget,
      at_SandboxReservation = reservation, at_SandboxActivation = activation, at_SandboxFenced = False, at_FailureReason = '''',
      at_Revision = n, at_CreatedAt = 50, at_UpdatedAt = 50\<rparr>"

definition sample_unleased :: "string \<times> IdentityLeaseState \<times> Revision" where
  "sample_unleased = ('''', NoLeaseState, 0)"

definition sample_leased :: "IdentityLeaseState \<Rightarrow> Revision \<Rightarrow> string \<times> IdentityLeaseState \<times> Revision" where
  "sample_leased state n = (''t/a/lease/1'', state, n)"

definition sample_applied :: ActivationOperation where
  "sample_applied = operation OperationConfirmedApplied ''e'' ''s'' sample_digest"

definition sample_intended :: ActivationOperation where
  "sample_intended = operation OperationIntentRecorded ''e'' '''' ''''"

abbreviation sample_nothing :: ActivationOperation where
  "sample_nothing \<equiv> idle OperationNotStarted"

definition sample_version :: "nat \<Rightarrow> ActivationAttempt" where
  "sample_version k =
    [coordinator_sample_record StageProposed None None sample_unleased OperationNotStarted sample_nothing sample_nothing 1,
     coordinator_sample_record StagePreflighting None None sample_unleased OperationNotStarted sample_nothing sample_nothing 2,
     coordinator_sample_record StagePreflightPassed None None sample_unleased OperationNotStarted sample_nothing sample_nothing 3,
     coordinator_sample_record StageSnapshotFrozen (Some sample_frozen) None sample_unleased OperationNotStarted sample_nothing sample_nothing 4,
     coordinator_sample_record StageIdentityLeaseReserved (Some sample_frozen) None (sample_leased IdentityLeaseReserved 1) OperationNotStarted sample_nothing sample_nothing 5,
     coordinator_sample_record StageBudgetResolved (Some sample_frozen) None (sample_leased IdentityLeaseReserved 1) OperationNotRequired sample_nothing sample_nothing 6,
     coordinator_sample_record StageBudgetResolved (Some sample_frozen) None (sample_leased IdentityLeaseReserved 1) OperationNotRequired sample_intended sample_nothing 7,
     coordinator_sample_record StageSandboxReserved (Some sample_frozen) None (sample_leased IdentityLeaseReserved 1) OperationNotRequired sample_applied sample_nothing 8,
     coordinator_sample_record StageCommitted (Some sample_frozen) (Some sample_lease) (sample_leased IdentityLeaseActive 2) OperationNotRequired sample_applied sample_nothing 9,
     coordinator_sample_record StageCommitted (Some sample_frozen) (Some sample_lease) (sample_leased IdentityLeaseActive 2) OperationNotRequired sample_applied sample_intended 10,
     coordinator_sample_record StageSandboxActive (Some sample_frozen) (Some sample_lease) (sample_leased IdentityLeaseActive 2) OperationNotRequired sample_applied sample_applied 11] ! k"

lemmas sample_record_defs = coordinator_sample_record_def sample_unleased_def sample_leased_def sample_applied_def sample_intended_def idle_def operation_def

lemma sample_frozen_valid: "ActivationSnapshot_Validate sample_frozen = None" "sn_AuthorityEpoch sample_frozen = 1"
  "sn_SandboxRequirementDigest sample_frozen = sample_digest" "sn_EvidenceExpiresAt sample_frozen = 80"
  by (simp_all add: sample_frozen_def ActivationSnapshot_Validate_def time_defs)

lemma sample_record_sel [simp]:
  "at_ID (coordinator_sample_record st sn l le b r a n) = ''a''" "at_Scope (coordinator_sample_record st sn l le b r a n) = sample_scope l"
  "at_ExpectedIdentityEpoch (coordinator_sample_record st sn l le b r a n) = 0" "at_RequirementDigest (coordinator_sample_record st sn l le b r a n) = sample_digest"
  "at_Stage (coordinator_sample_record st sn l le b r a n) = st" "at_Recovery (coordinator_sample_record st sn l le b r a n) = RecoveryNormal"
  "at_Snapshot (coordinator_sample_record st sn l le b r a n) = sn" "at_IdentityLeaseID (coordinator_sample_record st sn l le b r a n) = fst le"
  "at_IdentityLeaseState (coordinator_sample_record st sn l le b r a n) = fst (snd le)"
  "at_IdentityLeaseRevision (coordinator_sample_record st sn l le b r a n) = snd (snd le)" "at_Budget (coordinator_sample_record st sn l le b r a n) = idle b"
  "at_SandboxReservation (coordinator_sample_record st sn l le b r a n) = r" "at_SandboxActivation (coordinator_sample_record st sn l le b r a n) = a"
  "at_Revision (coordinator_sample_record st sn l le b r a n) = n" "at_CreatedAt (coordinator_sample_record st sn l le b r a n) = 50"
  "at_UpdatedAt (coordinator_sample_record st sn l le b r a n) = 50"
  by (simp_all add: coordinator_sample_record_def)

lemma sample_operation_sel [simp]:
  "op_State (idle s) = s" "op_State sample_applied = OperationConfirmedApplied" "op_State sample_intended = OperationIntentRecorded"
  "op_Reference sample_applied = ''s''"
  by (simp_all add: idle_def operation_def sample_applied_def sample_intended_def)

lemma sample_operation_valid [simp]:
  "ActivationOperation_Validate (idle OperationNotStarted) = None" "ActivationOperation_Validate (idle OperationNotRequired) = None"
  "ActivationOperation_Validate sample_applied = None" "ActivationOperation_Validate sample_intended = None"
  by (simp_all add: ActivationOperation_Validate_def Let_def idle_def operation_def sample_applied_def sample_intended_def graphic_ascii)

lemma sample_lease_id [simp]: "slease_ID sample_lease = ''s''"
  by (simp add: sample_lease_def)

lemma sample_leases [simp]:
  "fst sample_unleased = ''''" "snd sample_unleased = (NoLeaseState, 0)"
  "fst (sample_leased st n) = ''t/a/lease/1''" "snd (sample_leased st n) = (st, n)"
  by (simp_all add: sample_unleased_def sample_leased_def)

lemma sample_record_valid:
  assumes "n \<noteq> 0" "0 \<le> stageIndex st" "b = OperationNotStarted \<or> b = OperationNotRequired"
    "r \<in> {sample_nothing, sample_intended, sample_applied}" "a \<in> {sample_nothing, sample_intended, sample_applied}"
    "if stageIndex st < 3 then sn = None else sn = Some sample_frozen"
    "if stageIndex st < 4 then le = sample_unleased else le = (if stageIndex st < 7 then sample_leased IdentityLeaseReserved 1 else sample_leased IdentityLeaseActive 2)"
    "5 \<le> stageIndex st \<Longrightarrow> b = OperationNotRequired" "6 \<le> stageIndex st \<Longrightarrow> r = sample_applied"
    "if stageIndex st < 7 then l = None else l = Some sample_lease" "st = StageSandboxActive \<Longrightarrow> a = sample_applied"
  shows "ActivationAttempt_Validate (coordinator_sample_record st sn l le b r a n) now = None"
proof -
  have ops: "ActivationOperation_Validate r = None" "ActivationOperation_Validate a = None" "ActivationOperation_Validate (idle b) = None"
    using assms(3-5) by auto
  have states: "op_State r \<noteq> OperationUnknownOutcome" "op_State a \<noteq> OperationUnknownOutcome" "op_State r \<noteq> OperationReleased"
    using assms(4,5) by auto
  show ?thesis
    using assms(1-3,6-11) ops states
    by (auto simp: ActivationAttempt_Validate_def Let_def time_defs validStage_def graphic_ascii hasUnknownOperation_def
        sample_frozen_valid split: if_splits)
qed

lemma below_eleven: "k \<le> 10 \<Longrightarrow> k = 0 \<or> k = 1 \<or> k = 2 \<or> k = 3 \<or> k = 4 \<or> k = 5 \<or> k = 6 \<or> k = 7 \<or> k = 8 \<or> k = 9 \<or> k = (10::nat)"
  by presburger

lemma sample_version_valid: "k \<le> 10 \<Longrightarrow> ActivationAttempt_Validate (sample_version k) now = None"
  by (drule below_eleven) (elim disjE; simp add: sample_version_def; rule sample_record_valid; simp)

lemma sample_version_step:
  assumes "k \<le> 9"
  shows "ValidateTransition (sample_version k) (sample_version (Suc k)) \<lparr>atc_UnknownResolved = False\<rparr> 50 = None"
proof -
  have v: "ActivationAttempt_Validate (sample_version k) 50 = None" "ActivationAttempt_Validate (sample_version (Suc k)) 50 = None"
    using assms by (auto intro: sample_version_valid)
  have f: "ActivationSnapshot_ValidateFresh sample_frozen 50 = None"
    by (simp add: ActivationSnapshot_ValidateFresh_def sample_frozen_valid time_defs)
  from assms have "k \<le> 10" by simp
  from below_eleven [OF this] assms v f show ?thesis
    by (elim disjE; simp add: ValidateTransition_def sample_version_def time_defs sample_scope_def)
qed

section \<open>The run\<close>

definition coordinator_sample_store :: "FactStore \<Rightarrow> nat \<Rightarrow> FactStore" where
  "coordinator_sample_store s k = s\<lparr>fs_activations := [''a'' \<mapsto> sample_version k]\<rparr>"

lemma sample_version_sel [simp]:
  "k \<le> 10 \<Longrightarrow> at_ID (sample_version k) = ''a''" "k \<le> 10 \<Longrightarrow> at_UpdatedAt (sample_version k) = 50"
  by (drule below_eleven, elim disjE; simp add: sample_version_def)+

lemma sample_step:
  assumes "wd_Facts w = coordinator_sample_store s k" "m = Suc k" "fs_evidenceAvailable s" "k \<le> 9"
    "f ((sample_version k)\<lparr>at_Stage := stage, at_Revision := at_Revision (sample_version k) + 1, at_UpdatedAt := 50\<rparr>) = sample_version m"
    "\<And>w'. wd_Facts w' = coordinator_sample_store s m \<Longrightarrow> Q (sample_version m) w'"
  shows "wp (advanceActivation sample_coordinator (sample_version k) stage f w) Q E"
  apply (rule sample_advance [where n = "sample_version m"])
       apply (use assms sample_version_step [of k] in \<open>simp_all add: coordinator_sample_store_def\<close>)
  done

definition sample_aggregate :: "SandboxLeaseRef option \<Rightarrow> InstanceState \<Rightarrow> Revision \<Rightarrow> Aggregate" where
  "sample_aggregate l s n = \<lparr>agg_scope = sample_scope l, agg_state = s, agg_revision = n\<rparr>"

lemma sample_aggregate_scope [simp]: "agg_scope (sample_aggregate l s n) = sample_scope l" "agg_state (sample_aggregate l s n) = s"
  by (simp_all add: sample_aggregate_def)

lemma sample_aggregate: "\<lparr>agg_scope = sample_scope l, agg_state = s, agg_revision = n\<rparr> = sample_aggregate l s n"
  by (simp add: sample_aggregate_def)

lemma sample_preconditions: "preconditions g = preconditions_of (agg_facts g)"
  by (simp add: preconditions_def preconditions_of_def agg_facts_def)

lemma sample_move:
  assumes "l = None \<or> l = Some sample_lease" "n \<noteq> 0" "ValidateStateTransition s t no_context = None" "validateScopeState (sample_scope l) t = None"
    "Q (sample_aggregate l t (n + 1)) w"
  shows "wp (move w (sample_aggregate l s n) t) Q E"
proof -
  have "CheckExecutionPreconditions (preconditions (sample_aggregate l s n)) (agg_facts (sample_aggregate l s n)) = None"
    using assms(1,2) by (auto simp: sample_preconditions CheckExecutionPreconditions_iff agg_facts_def sample_aggregate_def)
  then show ?thesis
    using assms(3-5) by (simp add: move_def transition_def Transition_def Let_def) (simp add: sample_aggregate_def)
qed

lemmas sample_state_defs = plain_state_def owing_state_def ValidateStateTransition_def InstanceState_Validate_def validPhase_def
  validLifecycleMove_def validateScopeState_def Let_def

lemma coordinator_sample_intent_valid: "EffectIntent_Validate (sample_intent\<lparr>ei_PersistedAt := 50\<rparr>) = None" "ei_ID sample_intent = ''e''"
  by (simp_all add: sample_intent_def EffectIntent_Validate_def EffectOwnership_Validate_def OwnerRef_Validate_def graphic_ascii time_defs)

lemma sample_request_sel [simp]:
  "ar_ProposedScope coordinator_sample_request = sample_scope None" "ar_ActivationAttemptID coordinator_sample_request = ''a''"
  "ar_RequirementDigest coordinator_sample_request = sample_digest" "ar_AllocateIntent coordinator_sample_request = sample_intent"
  "ar_ActivateIntent coordinator_sample_request = sample_intent" "ar_OpenIntent coordinator_sample_request = sample_intent"
  "ar_CapabilityGrantDigest coordinator_sample_request = sample_digest" "ar_FenceTTL coordinator_sample_request = 10"
  by (simp_all add: coordinator_sample_request_def)

lemma sample_proposed: "proposed_attempt coordinator_sample_request 50 = sample_version 0"
  by (simp add: proposed_attempt_def sample_version_def coordinator_sample_record_def sample_unleased_def)

lemma sample_admit:
  assumes "wd_Facts w = NewFactStore"
  shows "wp (activate_admit sample_coordinator coordinator_sample_request 50 w)
    (\<lambda>x w. x = (sample_aggregate None (plain_state PhasePreflighting) 3, sample_version 1) \<and> wd_Facts w = coordinator_sample_store NewFactStore 1) (\<lambda>_. False)"
  unfolding activate_admit_def wp_andThen wp_pure sample_proposed
  apply (rule result_wp)
   apply (simp only: wired_ports)
   apply (rule sample_facts [where s = "coordinator_sample_store NewFactStore 0" and y = "sample_version 0"])
    apply (simp add: CreateActivationAttempt_def assms sample_version_valid coordinator_sample_store_def)
    apply (simp add: sample_version_def NewFactStore_def)
   apply (simp add: NewAggregate_def sample_aggregate)
   apply (rule sample_move, simp, simp, simp add: sample_state_defs, simp add: sample_state_defs)
   apply (rule sample_move, simp, simp, simp add: sample_state_defs, simp add: sample_state_defs)
   apply (erule sample_step [where m = 1])
       apply (simp_all add: sample_version_def coordinator_sample_record_def NewAggregate_def sample_state_defs NewFactStore_def)
  done

lemma sample_json: "co_json sample_coordinator = \<lparr>cj_Observation = (\<lambda>o1. Some ''plan''), cj_Snapshot = (\<lambda>s p f d t. Some ''plan'')\<rparr>"
  by (simp add: wired_def sample_outside_def)

lemma sample_digest_json: "DigestJSON (Some ''plan'') = Inr sample_digest"
  by (simp add: DigestJSON_Inr sample_digest_def)

lemma coordinator_sample_build: "buildActivationSnapshot (co_json sample_coordinator) coordinator_sample_request (sample_preflight sample_digest) = Inr sample_frozen"
proof -
  have "ActivationSnapshot_Validate sample_frozen = None" by (rule sample_frozen_valid)
  then show ?thesis
    by (simp add: buildActivationSnapshot_def sample_json sample_digest_json sample_preflight_def Let_def)
       (simp add: coordinator_sample_request_def sample_frozen_def sample_scope_def time_defs)
qed

lemma sample_preflight_sel [simp]:
  "epf_Accepted (sample_preflight d)" "epf_RequirementDigest (sample_preflight d) = d" "epf_EvidenceExpiry (sample_preflight d) = 80"
  "desc_ID (epf_Descriptor (sample_preflight d)) = ''x''"
  by (simp_all add: sample_preflight_def sample_descriptor_def)

lemma sample_available [simp]: "fs_evidenceAvailable NewFactStore"
  by (simp add: NewFactStore_def)

lemma sample_preflighted:
  assumes "wd_Facts w = coordinator_sample_store NewFactStore 1"
  shows "wp (activate_preflight sample_coordinator coordinator_sample_request 50 (sample_aggregate None (plain_state PhasePreflighting) 3) (sample_version 1) w)
    (\<lambda>x w. x = (sample_aggregate None (plain_state PhaseActivating) 4, sample_version 3) \<and> wd_Facts w = coordinator_sample_store NewFactStore 3) (\<lambda>_. False)"
  unfolding activate_preflight_def wp_andThen wp_guarded wp_pure wired_ports
  apply (rule sample_out, rule sample_calls)
  apply (simp only: ExecutionPreflightRequest.simps sample_request_sel sample_preflight_sel)
  apply (simp only: fail_if_None if_True, simp add: time_defs del: One_nat_def)
  apply (rule sample_step [where s = NewFactStore and k = 1 and m = 2])
       apply (simp_all add: assms del: One_nat_def)
   apply (simp add: sample_version_def coordinator_sample_record_def)
  apply (simp add: coordinator_sample_build)
  apply (rule sample_step [where s = NewFactStore and k = 2 and m = 3])
       apply simp_all
   apply (simp add: sample_version_def coordinator_sample_record_def)
  apply (rule sample_move)
      apply (simp_all add: sample_state_defs)
  done

definition sample_holder :: "IdentityLeaseState \<Rightarrow> Revision \<Rightarrow> IdentityExecutionLease" where
  "sample_holder state n = \<lparr>il_ID = ''t/a/lease/1'', il_Identity = scope_Identity (sample_scope None),
     il_Lineage = scope_Lineage (sample_scope None), il_ActivationAttemptID = ''a'', il_State = state, il_AuthorityEpoch = 1,
     il_ExpiresAt = 90, il_Revision = n\<rparr>"

definition sample_facts_with :: "IdentityExecutionLease \<Rightarrow> FactStore" where
  "sample_facts_with l = NewFactStore\<lparr>fs_heap := [l], fs_leases := [''t/a'' \<mapsto> 0], fs_leaseIDs := [''t/a/lease/1'' \<mapsto> 0]\<rparr>"

lemma sample_facts_available [simp]: "fs_evidenceAvailable (sample_facts_with l)"
  by (simp add: sample_facts_with_def NewFactStore_def)

lemma digit_one: "digit (Suc 0) = CHR ''1''"
  by code_simp

lemma sample_new_lease: "new_lease (reserve_request coordinator_sample_request) = sample_holder IdentityLeaseReserved 1"
  by (simp add: new_lease_def reserve_request_def sample_holder_def leaseID_def sample_scope_def dec.simps digit_one Let_def)
     (simp add: coordinator_sample_request_def)

lemma sample_reserve:
  "ReserveIdentityLease (coordinator_sample_store NewFactStore 3) LiveContext (reserve_request coordinator_sample_request) 50
    = (coordinator_sample_store (sample_facts_with (sample_holder IdentityLeaseReserved 1)) 3, Inr (sample_holder IdentityLeaseReserved 1))"
proof -
  have v: "ReserveIdentityLeaseRequest_Validate (reserve_request coordinator_sample_request) 50 = None"
    by (simp add: ReserveIdentityLeaseRequest_Validate_def reserve_request_def LineageRef_Validate_def sample_scope_def graphic_ascii time_defs)
       (simp add: coordinator_sample_request_def)
  have k: "identityKey (rs_TenantID (reserve_request coordinator_sample_request)) (rs_IdentityID (reserve_request coordinator_sample_request)) = ''t/a''"
    "rs_ExpectedIdentityEpoch (reserve_request coordinator_sample_request) = 0"
    by (simp_all add: reserve_request_def identityKey_def sample_scope_def)
  have s: "fs_leases (coordinator_sample_store NewFactStore 3) = Map.empty" by (simp add: coordinator_sample_store_def NewFactStore_def)
  show ?thesis
    by (simp add: ReserveIdentityLease_def v k s Let_def sample_new_lease)
       (simp add: coordinator_sample_store_def store_lease_def sample_facts_with_def NewFactStore_def sample_holder_def)
qed

lemma sample_identified:
  assumes "wd_Facts w = coordinator_sample_store NewFactStore 3"
  shows "wp (activate_identity sample_coordinator coordinator_sample_request (sample_aggregate None (plain_state PhaseActivating) 4) (sample_version 3) w)
    (\<lambda>x w. x = (sample_aggregate None (owing_state PhaseActivating) 5, sample_version 5, sample_holder IdentityLeaseReserved 1)
       \<and> wd_Facts w = coordinator_sample_store (sample_facts_with (sample_holder IdentityLeaseReserved 1)) 5) (\<lambda>_. False)"
  unfolding activate_identity_def wp_andThen wp_guarded wp_pure wired_ports
  apply (rule sample_facts)
   apply (unfold assms, rule sample_reserve)
  apply (simp add: sample_holder_def [of IdentityLeaseReserved] del: One_nat_def)
  apply (fold sample_holder_def)
  apply (rule sample_step [where k = 3 and m = 4])
       apply assumption
      apply simp_all
   apply (simp add: sample_version_def coordinator_sample_record_def sample_leased_def)
  apply (rule sample_step [where k = 4 and m = 5])
       apply assumption
      apply simp_all
   apply (simp add: sample_version_def coordinator_sample_record_def)
  apply (rule sample_move)
      apply (simp_all add: sample_state_defs)
  done

lemma sample_observed [simp]: "slo_State (sample_observation k) = k" "slo_Lease (sample_observation k) = sample_lease"
  by (simp_all add: sample_observation_def)

lemma sample_evidence: "DigestJSON (cj_Observation (co_json sample_coordinator) x) = Inr sample_digest"
  by (simp add: sample_json sample_digest_json)

lemma sample_allocated:
  assumes "wd_Facts w = coordinator_sample_store (sample_facts_with l) 5"
  shows "wp (activate_allocate sample_coordinator coordinator_sample_request now (sample_version 5) w)
    (\<lambda>x w. x = (sample_version 7, sample_observation ''reserved_quarantined'') \<and> wd_Facts w = coordinator_sample_store (sample_facts_with l) 7) (\<lambda>_. False)"
  unfolding activate_allocate_def allocate_sandbox_def wp_andThen wp_guarded wp_pure wired_ports
  apply (rule sample_persist, simp add: coordinator_sample_intent_valid)
  apply (rule sample_step [where s = "sample_facts_with l" and k = 5 and m = 6])
       apply (simp_all add: assms)
   apply (simp add: sample_version_def coordinator_sample_record_def sample_intended_def coordinator_sample_intent_valid)
  apply (rule case_wp [where P = "\<lambda>x w. x = sample_observation ''reserved_quarantined'' \<and> wd_Facts w = coordinator_sample_store (sample_facts_with l) 6"
      and P' = "\<lambda>_. False"])
    apply (rule sample_out, rule sample_calls, simp)
   apply (simp_all add: sample_evidence)
   apply (rule sample_step [where s = "sample_facts_with l" and k = 6 and m = 7])
       apply simp_all
   apply (simp add: sample_version_def coordinator_sample_record_def sample_applied_def coordinator_sample_intent_valid sample_lease_def)
  done

lemma coordinator_sample_scope_lease: "(sample_scope None)\<lparr>scope_SandboxLease := Some sample_lease\<rparr> = sample_scope (Some sample_lease)"
  by (simp add: sample_scope_def)

definition coordinator_sample_commit :: ActivationStoreCommitRequest where
  "coordinator_sample_commit = \<lparr>acr_AttemptID = ''a'', acr_ExpectedAttemptRevision = 8, acr_IdentityLeaseID = ''t/a/lease/1'',
     acr_ExpectedIdentityLeaseRevision = 1, acr_SandboxLease = sample_lease, acr_AuthorityEpoch = 1\<rparr>"

lemma sample_committed_attempt:
  "committed_attempt (sample_version 7) sample_lease (sample_holder IdentityLeaseReserved 1) 50 = sample_version 8"
  by (simp add: committed_attempt_def sample_version_def coordinator_sample_record_def sample_leased_def sample_holder_def coordinator_sample_scope_lease)

lemma sample_unexpired: "expireLeaseIfNeeded (coordinator_sample_store (sample_facts_with (sample_holder IdentityLeaseReserved 1)) 7) 0 50
    = coordinator_sample_store (sample_facts_with (sample_holder IdentityLeaseReserved 1)) 7"
  by (simp add: expireLeaseIfNeeded_def expired_lease_def coordinator_sample_store_def sample_facts_with_def sample_holder_def time_defs)

lemma coordinator_sample_lease_valid: "SandboxLeaseRef_Validate sample_lease = None"
  by (simp add: sample_lease_def SandboxLeaseRef_Validate_def graphic_ascii)

lemma sample_store_committed:
  "StoreCommitActivation (coordinator_sample_store (sample_facts_with (sample_holder IdentityLeaseReserved 1)) 7) LiveContext coordinator_sample_commit 50
    = (coordinator_sample_store (sample_facts_with (sample_holder IdentityLeaseActive 2)) 8,
       Inr \<lparr>acres_Attempt = sample_version 8, acres_IdentityLease = sample_holder IdentityLeaseActive 2\<rparr>)"
proof -
  let ?s = "coordinator_sample_store (sample_facts_with (sample_holder IdentityLeaseReserved 1)) 7"
  have a: "fs_activations ?s ''a'' = Some (sample_version 7)" "fs_leaseIDs ?s ''t/a/lease/1'' = Some 0"
    "fs_heap ?s = [sample_holder IdentityLeaseReserved 1]" "fs_evidenceAvailable ?s"
    by (simp_all add: coordinator_sample_store_def sample_facts_with_def NewFactStore_def)
  have l: "activated_lease (sample_holder IdentityLeaseReserved 1) = sample_holder IdentityLeaseActive 2"
    by (simp add: activated_lease_def sample_holder_def)
  have e: "commit_lease_error (sample_version 7) (sample_holder IdentityLeaseReserved 1) coordinator_sample_commit = None"
    by (simp add: commit_lease_error_def sample_version_def coordinator_sample_record_def sample_leased_def sample_holder_def coordinator_sample_commit_def sample_scope_def)
  have v: "at_Revision (sample_version 7) = 8" "at_Stage (sample_version 7) = StageSandboxReserved"
    "at_Recovery (sample_version 7) = RecoveryNormal" "op_State (at_SandboxReservation (sample_version 7)) = OperationConfirmedApplied"
    "op_Reference (at_SandboxReservation (sample_version 7)) = ''s''"
    by (simp_all add: sample_version_def coordinator_sample_record_def sample_applied_def operation_def)
  have c: "acr_AttemptID coordinator_sample_commit = ''a''" "acr_IdentityLeaseID coordinator_sample_commit = ''t/a/lease/1''" "acr_ExpectedAttemptRevision coordinator_sample_commit = 8"
    "acr_ExpectedIdentityLeaseRevision coordinator_sample_commit = 1" "acr_SandboxLease coordinator_sample_commit = sample_lease" "acr_AuthorityEpoch coordinator_sample_commit = 1"
    by (simp_all add: coordinator_sample_commit_def)
  have i: "slease_ID sample_lease = ''s''" by (simp add: sample_lease_def)
  have s: "ValidateTransition (sample_version 7) (sample_version 8) \<lparr>atc_UnknownResolved = False\<rparr> 50 = None"
    using sample_version_step [of 7] by simp
  show ?thesis
    by (simp add: StoreCommitActivation_def a c v i l e s coordinator_sample_lease_valid sample_unexpired sample_committed_attempt Let_def graphic_ascii)
       (simp add: coordinator_sample_store_def sample_facts_with_def)
qed

lemma coordinator_sample_committed:
  assumes "wd_Facts w = coordinator_sample_store (sample_facts_with (sample_holder IdentityLeaseReserved 1)) 7"
  shows "wp (activate_commit sample_coordinator coordinator_sample_request (sample_aggregate None (owing_state PhaseActivating) 5) (sample_version 7)
      (sample_holder IdentityLeaseReserved 1) sample_lease w)
    (\<lambda>x w. x = (sample_aggregate (Some sample_lease) (owing_state PhaseProvisioning) 6, sample_version 8, sample_holder IdentityLeaseActive 2)
       \<and> wd_Facts w = coordinator_sample_store (sample_facts_with (sample_holder IdentityLeaseActive 2)) 8) (\<lambda>_. False)"
proof -
  let ?g = "sample_aggregate None (owing_state PhaseActivating) 5"
  have q: "\<lparr>acr_AttemptID = at_ID (sample_version 7), acr_ExpectedAttemptRevision = at_Revision (sample_version 7),
      acr_IdentityLeaseID = il_ID (sample_holder IdentityLeaseReserved 1),
      acr_ExpectedIdentityLeaseRevision = il_Revision (sample_holder IdentityLeaseReserved 1), acr_SandboxLease = sample_lease,
      acr_AuthorityEpoch = scope_AuthorityEpoch (ar_ProposedScope coordinator_sample_request)\<rparr> = coordinator_sample_commit"
    by (simp add: coordinator_sample_commit_def sample_version_def coordinator_sample_record_def sample_holder_def sample_scope_def)
  have "CheckExecutionPreconditions (preconditions ?g) (agg_facts ?g) = None"
    by (auto simp: sample_preconditions CheckExecutionPreconditions_iff agg_facts_def sample_aggregate_def)
  moreover have "ValidateStateTransition (owing_state PhaseActivating) (owing_state PhaseProvisioning) no_context = None"
    "validateScopeState (sample_scope (Some sample_lease)) (owing_state PhaseProvisioning) = None"
    by (simp_all add: sample_state_defs)
  moreover have "st_Phase (owing_state p) = p" "scope_SandboxLease (sample_scope None) = None" for p
    by (simp_all add: owing_state_def sample_scope_def)
  ultimately have g: "snd (CommitActivation ?g \<lparr>ac_Preconditions = preconditions ?g, ac_SandboxLease = sample_lease,
      ac_NextState = owing_state PhaseProvisioning\<rparr>) = Inr (sample_aggregate (Some sample_lease) (owing_state PhaseProvisioning) 6)"
    by (simp add: CommitActivation_def Let_def coordinator_sample_scope_lease coordinator_sample_lease_valid) (simp add: sample_aggregate_def)
  show ?thesis
    unfolding activate_commit_def wp_andThen wp_pure wired_ports q
    apply (rule sample_facts)
     apply (unfold assms, rule sample_store_committed)
    apply (simp add: g)
    done
qed

lemma sample_activated:
  assumes "wd_Facts w = coordinator_sample_store (sample_facts_with l) 8"
  shows "wp (activate_sandbox sample_coordinator coordinator_sample_request (sample_aggregate (Some sample_lease) (owing_state PhaseProvisioning) 6)
      (sample_version 8) w)
    (\<lambda>x w. x = (sample_aggregate (Some sample_lease) (owing_state PhaseBinding) 7, sample_version 10)
       \<and> wd_Facts w = coordinator_sample_store (sample_facts_with l) 10) (\<lambda>_. False)"
  unfolding activate_sandbox_def start_sandbox_def wp_andThen wp_guarded wp_pure wired_ports
  apply (rule sample_persist, simp add: coordinator_sample_intent_valid)
  apply (rule sample_step [where s = "sample_facts_with l" and k = 8 and m = 9])
       apply (simp_all add: assms)
   apply (simp add: sample_version_def coordinator_sample_record_def sample_intended_def coordinator_sample_intent_valid)
  apply (rule sample_clock)
  apply (rule case_wp [where P = "\<lambda>x w. x = sample_observation ''active'' \<and> wd_Facts w = coordinator_sample_store (sample_facts_with l) 9"
      and P' = "\<lambda>_. False"])
    apply (rule sample_out, rule sample_calls, simp)
   apply (simp_all add: sample_evidence)
  apply (rule sample_step [where s = "sample_facts_with l" and k = 9 and m = 10])
       apply simp_all
   apply (simp add: sample_version_def coordinator_sample_record_def sample_applied_def coordinator_sample_intent_valid sample_lease_def)
  apply (rule sample_move)
      apply (simp_all add: sample_state_defs)
  done

lemma sample_opened:
  "wp (activate_open sample_coordinator coordinator_sample_request (sample_aggregate (Some sample_lease) (owing_state PhaseBinding) 7) sample_lease w)
    (\<lambda>x w'. x = (sample_aggregate (Some sample_lease) (owing_state PhaseReady) 9, sample_endpoint) \<and> wd_Facts w' = wd_Facts w) (\<lambda>_. False)"
  unfolding activate_open_def Let_def wp_andThen wp_guarded wp_pure wired_ports
  apply (rule sample_persist, simp add: coordinator_sample_intent_valid)
  apply (rule sample_clock)
  apply (rule sample_out, rule sample_calls)
  apply (rule sample_move, simp, simp, simp add: sample_state_defs, simp add: sample_state_defs)
  apply (rule sample_out, rule sample_calls)
  apply (rule sample_out, rule sample_calls)
  apply (simp add: sample_execution_def sample_endpoint_def)
  apply (rule sample_move)
      apply (simp_all add: sample_state_defs)
  done

definition sample_bindings :: BindingSet where
  "sample_bindings = \<lparr>bind_Descriptors = [], bind_Residuals = []\<rparr>"

definition sample_instance :: Instance where
  "sample_instance = new_instance coordinator_sample_request sample_bindings (sample_aggregate (Some sample_lease) (owing_state PhaseReady) 9)
     (sample_version 10) (sample_holder IdentityLeaseActive 2) sample_endpoint"

lemma sample_plan_valid: "ResolvedAgentPlan_Validate (\<lambda>n ks. ks) (ar_Plan coordinator_sample_request) = None"
  by (simp add: plan_validate valid_order_def plan_ok_def coordinator_sample_request_def plan_ids_def plan_graph_def requirement_of_def edges_def
      graphic_ascii acyclic_def)

lemma sample_orders_wired: "co_PlanOrder sample_coordinator = (\<lambda>n ks. ks)" "co_ResolveOrder sample_coordinator = (\<lambda>n ks. ks)"
  by (simp_all add: wired_def sample_outside_def)

lemma sample_request_valid: "validateActivationRequest (co_PlanOrder sample_coordinator) coordinator_sample_request 50 = None"
proof -
  have s: "ExecutionScope_Validate (sample_scope None) = None" by simp
  show ?thesis
    unfolding sample_orders_wired
    by (simp add: validateActivationRequest_def sample_plan_valid coordinator_sample_intent_valid s time_defs)
       (simp add: coordinator_sample_request_def sample_scope_def graphic_ascii time_defs)
qed

lemma sample_resolved: "resolve_bindings sample_coordinator ctx (ar_Plan coordinator_sample_request) 50 = Inr sample_bindings"
proof -
  have r: "plan_Requirements (ar_Plan coordinator_sample_request) = []" by (simp add: coordinator_sample_request_def)
  show ?thesis
    unfolding resolve_bindings_def sample_orders_wired
    by (simp add: Resolve_def sample_plan_valid r time_defs sample_bindings_def)
qed

lemma coordinator_sample_run:
  "wp (Activate (Some sample_coordinator) LiveContext coordinator_sample_request sample_world)
    (\<lambda>x w. x = sample_instance \<and> wd_Facts w = coordinator_sample_store (sample_facts_with (sample_holder IdentityLeaseActive 2)) 10) (\<lambda>_. False)"
  unfolding Activate_def option.case wp_andThen wp_guarded wp_pure
  apply (rule sample_clock)
  apply (simp add: sample_request_valid sample_resolved)
  apply (rule wp_mono [OF sample_admit])
    apply (simp add: sample_world_def)
   apply (simp_all del: One_nat_def)
  apply (rule wp_mono [OF sample_preflighted], simp_all del: One_nat_def)
  apply (rule wp_mono [OF sample_identified], simp_all)
  apply (rule wp_mono [OF sample_allocated], simp, simp_all)
  apply (rule wp_mono [OF coordinator_sample_committed], simp_all)
  apply (rule wp_mono [OF sample_activated], simp, simp_all)
  apply (rule wp_mono [OF sample_opened], simp_all add: sample_instance_def)
  done

end
