(* ===== verification/CoordinatorCheckpoint.thy ===== *)
theory CoordinatorCheckpoint
  imports CoordinatorSamples
begin

text \<open>
  Checkpoints and restores, seen by the participants. \<open>logged C\<close> is the coordinator \<open>C\<close> that also writes
  down every request to a participant, in order; it does what \<open>C\<close> does. The locale \<open>participant_log\<close>
  proves which requests the loops send.
\<close>

section \<open>A coordinator that writes down its requests\<close>

datatype ParticipantCall =
    PrepareCall CheckpointPrepareRequest | CommitCall CheckpointCommitRequest | AbortCall CheckpointAbortRequest
  | RestoreCall CheckpointRestoreRequest

type_synonym 'p participant_log = "('p \<times> ParticipantCall) list"

definition carry :: "'w \<times> 'l \<Rightarrow> 'w \<times> 'b \<Rightarrow> ('w \<times> 'l) \<times> 'b" where
  "carry s r = ((fst r, snd s), snd r)"

definition note_call :: "'p \<times> ParticipantCall \<Rightarrow> 'w \<times> 'p participant_log \<Rightarrow> 'w \<times> 'b \<Rightarrow> ('w \<times> 'p participant_log) \<times> 'b" where
  "note_call e s r = ((fst r, snd s @ [e]), snd r)"

definition logged :: "('a, 'p, 'w) Coordinator \<Rightarrow> ('a, 'p, 'w \<times> 'p participant_log) Coordinator" where
  "logged C =
     \<lparr>co_Registry = co_Registry C, co_Describe = co_Describe C, co_PlanOrder = co_PlanOrder C, co_ResolveOrder = co_ResolveOrder C,
      co_Preflight = (\<lambda>s q. carry s (co_Preflight C (fst s) q)), co_Open = (\<lambda>s q. carry s (co_Open C (fst s) q)),
      co_InspectExecution = (\<lambda>s q. carry s (co_InspectExecution C (fst s) q)), co_Close = (\<lambda>s q. carry s (co_Close C (fst s) q)),
      co_Allocate = (\<lambda>s q. carry s (co_Allocate C (fst s) q)), co_ActivateSandbox = (\<lambda>s q. carry s (co_ActivateSandbox C (fst s) q)),
      co_InspectSandbox = (\<lambda>s q. carry s (co_InspectSandbox C (fst s) q)), co_Fence = (\<lambda>s q. carry s (co_Fence C (fst s) q)),
      co_Release = (\<lambda>s q. carry s (co_Release C (fst s) q)), co_AppendIntent = (\<lambda>s q. carry s (co_AppendIntent C (fst s) q)),
      co_ReadEvidence = (\<lambda>s q. carry s (co_ReadEvidence C (fst s) q)),
      co_ReserveIdentityLease = (\<lambda>s q. carry s (co_ReserveIdentityLease C (fst s) q)),
      co_RevokeIdentityLease = (\<lambda>s q. carry s (co_RevokeIdentityLease C (fst s) q)),
      co_ReleaseIdentityLease = (\<lambda>s q. carry s (co_ReleaseIdentityLease C (fst s) q)),
      co_CreateAttempt = (\<lambda>s q. carry s (co_CreateAttempt C (fst s) q)), co_InspectAttempt = (\<lambda>s q. carry s (co_InspectAttempt C (fst s) q)),
      co_SwapAttempt = (\<lambda>s q c. carry s (co_SwapAttempt C (fst s) q c)),
      co_CommitActivation = (\<lambda>s q. carry s (co_CommitActivation C (fst s) q)),
      co_Participants = co_Participants C, co_DescribeParticipant = (\<lambda>p s. carry s (co_DescribeParticipant C p (fst s))),
      co_PrepareCheckpoint = (\<lambda>p s q. note_call (p, PrepareCall q) s (co_PrepareCheckpoint C p (fst s) q)),
      co_CommitCheckpoint = (\<lambda>p s q. note_call (p, CommitCall q) s (co_CommitCheckpoint C p (fst s) q)),
      co_AbortCheckpoint = (\<lambda>p s q. note_call (p, AbortCall q) s (co_AbortCheckpoint C p (fst s) q)),
      co_RestoreCheckpoint = (\<lambda>p s q. note_call (p, RestoreCall q) s (co_RestoreCheckpoint C p (fst s) q)),
      co_Clock = (\<lambda>s. carry s (co_Clock C (fst s))), co_json = co_json C\<rparr>"

lemma logged_ports [simp]:
  "co_Participants (logged C) = co_Participants C"
  "co_DescribeParticipant (logged C) = (\<lambda>p s. carry s (co_DescribeParticipant C p (fst s)))"
  "co_PrepareCheckpoint (logged C) = (\<lambda>p s q. note_call (p, PrepareCall q) s (co_PrepareCheckpoint C p (fst s) q))"
  "co_CommitCheckpoint (logged C) = (\<lambda>p s q. note_call (p, CommitCall q) s (co_CommitCheckpoint C p (fst s) q))"
  "co_AbortCheckpoint (logged C) = (\<lambda>p s q. note_call (p, AbortCall q) s (co_AbortCheckpoint C p (fst s) q))"
  "co_RestoreCheckpoint (logged C) = (\<lambda>p s q. note_call (p, RestoreCall q) s (co_RestoreCheckpoint C p (fst s) q))"
  "co_Clock (logged C) = (\<lambda>s. carry s (co_Clock C (fst s)))"
  by (simp_all add: logged_def)

section \<open>The requests of the loops\<close>

definition prepare_call :: "FoundationCheckpointRequest \<Rightarrow> ExecutionScope \<Rightarrow> 'p CheckpointBinding \<Rightarrow> 'p \<times> ParticipantCall" where
  "prepare_call q scope b = (cb_Port b, PrepareCall \<lparr>cpr_BarrierID = fcr_BarrierID q, cpr_Epoch = fcr_Epoch q, cpr_Scope = scope,
     cpr_Effects = fcr_Effects q\<rparr>)"

definition commit_call :: "FoundationCheckpointRequest \<Rightarrow> 'p CheckpointBinding \<Rightarrow> 'p \<times> ParticipantCall" where
  "commit_call q b = (cb_Port b, CommitCall \<lparr>ccr_BarrierID = fcr_BarrierID q, ccr_Epoch = fcr_Epoch q\<rparr>)"

definition abort_call :: "FoundationCheckpointRequest \<Rightarrow> 'p CheckpointBinding \<Rightarrow> 'p \<times> ParticipantCall" where
  "abort_call q b = (cb_Port b, AbortCall \<lparr>car_BarrierID = fcr_BarrierID q, car_Epoch = fcr_Epoch q,
     car_Reason = ''participant_prepare_failed''\<rparr>)"

definition restore_call :: "RestoreRequest \<Rightarrow> 'p \<Rightarrow> CheckpointParticipantSnapshot \<Rightarrow> 'p \<times> ParticipantCall" where
  "restore_call q p x = (p, RestoreCall \<lparr>crr_CheckpointID = cset_ID (rr_Checkpoint q), crr_SnapshotRef = cps_SnapshotRef x,
     crr_SnapshotDigest = cps_SnapshotDigest x, crr_NewScope = restored_scope q\<rparr>)"

locale participant_log =
  fixes C :: "('a, 'p, 'w) Coordinator" and log :: "'w \<Rightarrow> 'p participant_log"
  assumes prepares: "log (fst (co_PrepareCheckpoint C p w pq)) = log w @ [(p, PrepareCall pq)]"
    and commits: "log (fst (co_CommitCheckpoint C p w cq)) = log w @ [(p, CommitCall cq)]"
    and aborts: "log (fst (co_AbortCheckpoint C p w aq)) = log w @ [(p, AbortCall aq)]"
    and restores: "log (fst (co_RestoreCheckpoint C p w rq)) = log w @ [(p, RestoreCall rq)]"
    and describes: "log (fst (co_DescribeParticipant C p w)) = log w"
    and reads_clock: "log (fst (co_Clock C w)) = log w"
begin

lemma calls:
  "co_PrepareCheckpoint C p w pq = (w1, r1) \<Longrightarrow> log w1 = log w @ [(p, PrepareCall pq)]"
  "co_CommitCheckpoint C p w cq = (w2, r2) \<Longrightarrow> log w2 = log w @ [(p, CommitCall cq)]"
  "co_AbortCheckpoint C p w aq = (w3, r3) \<Longrightarrow> log w3 = log w @ [(p, AbortCall aq)]"
  "co_RestoreCheckpoint C p w rq = (w4, r4) \<Longrightarrow> log w4 = log w @ [(p, RestoreCall rq)]"
  "co_DescribeParticipant C p w = (w5, r5) \<Longrightarrow> log w5 = log w"
  "co_Clock C w = (w6, t) \<Longrightarrow> log w6 = log w"
  using prepares [of p w pq] commits [of p w cq] aborts [of p w aq] restores [of p w rq] describes [of p w] reads_clock [of w]
  by simp_all

lemma abort_log:
  "abort_loop C q bs rs w = (w', rs') \<Longrightarrow> length bs = length rs \<Longrightarrow> log w' = log w @ map (abort_call q) bs"
proof (induction bs arbitrary: rs w rs')
  case Nil
  then show ?case by simp
next
  case (Cons b bs)
  from Cons.prems(2) obtain r rs1 where rs: "rs = r # rs1" by (cases rs) auto
  from Cons.prems show ?case
    by (auto simp: rs abort_call_def split: prod.splits dest!: calls(3) Cons.IH)
qed

lemma prepare_log:
  "prepare_loop C q scope prepared reports bs w = (w', rs, e) \<Longrightarrow> length prepared = length reports \<Longrightarrow>
     (case e of
        None \<Rightarrow> log w' = log w @ map (prepare_call q scope) bs \<and> length rs = length prepared + length bs
      | Some x \<Rightarrow> \<exists>k < length bs. log w' = log w @ map (prepare_call q scope) (take (Suc k) bs)
          @ map (abort_call q) (prepared @ take k bs))"
proof (induction bs arbitrary: prepared reports w)
  case Nil
  then show ?case by auto
next
  case (Cons b bs)
  let ?p = "\<lparr>cpr_BarrierID = fcr_BarrierID q, cpr_Epoch = fcr_Epoch q, cpr_Scope = scope, cpr_Effects = fcr_Effects q\<rparr>"
  obtain w1 y where c: "co_PrepareCheckpoint C (cb_Port b) w ?p = (w1, y)" by (meson surj_pair)
  have l: "log w1 = log w @ [prepare_call q scope b]"
    using calls(1) [OF c] by (simp add: prepare_call_def)
  show ?case
  proof (cases y)
    case (Inl x)
    have "log w' = log w1 @ map (abort_call q) prepared" and e: "e = Some x"
      using Cons.prems Inl c by (auto split: prod.splits dest!: abort_log)
    then show ?thesis by (auto simp: l intro!: exI [of _ 0])
  next
    case (Inr report)
    have r: "prepare_loop C q scope (prepared @ [b]) (reports @ [checkpointSnapshot report (cb_Required b)]) bs w1 = (w', rs, e)"
      using Cons.prems(1) c Inr by simp
    show ?thesis
    proof (cases e)
      case None
      then show ?thesis using Cons.IH [OF r] Cons.prems(2) by (simp add: l)
    next
      case (Some x)
      then obtain k where "k < length bs"
        "log w' = log w1 @ map (prepare_call q scope) (take (Suc k) bs) @ map (abort_call q) ((prepared @ [b]) @ take k bs)"
        using Cons.IH [OF r] Cons.prems(2) by auto
      then show ?thesis by (auto simp: Some l intro!: exI [of _ "Suc k"])
    qed
  qed
qed

lemma commit_log:
  "commit_loop C q bs rs w = (w', rs', e) \<Longrightarrow> length bs = length rs \<Longrightarrow>
     (case e of
        None \<Rightarrow> log w' = log w @ map (commit_call q) bs \<and> map cps_Required rs' = map cb_Required bs
      | Some x \<Rightarrow> \<exists>k < length bs. log w' = log w @ map (commit_call q) (take (Suc k) bs))"
proof (induction bs arbitrary: rs w rs')
  case Nil
  then show ?case by auto
next
  case (Cons b bs)
  from Cons.prems(2) obtain r rs1 where rs: "rs = r # rs1" "length bs = length rs1" by (cases rs) auto
  let ?q = "\<lparr>ccr_BarrierID = fcr_BarrierID q, ccr_Epoch = fcr_Epoch q\<rparr>"
  obtain w1 y where c: "co_CommitCheckpoint C (cb_Port b) w ?q = (w1, y)" by (meson surj_pair)
  have l: "log w1 = log w @ [commit_call q b]"
    using calls(2) [OF c] by (simp add: commit_call_def)
  show ?case
  proof (cases y)
    case (Inl x)
    then show ?thesis using Cons.prems(1) c l by (auto simp: rs intro!: exI [of _ 0])
  next
    case (Inr report)
    obtain rs2 where r: "commit_loop C q bs rs1 w1 = (w', rs2, e)" "rs' = checkpointSnapshot report (cb_Required b) # rs2"
      using Cons.prems(1) c Inr by (auto simp: rs split: prod.splits)
    show ?thesis
    proof (cases e)
      case None
      then show ?thesis using Cons.IH [OF r(1) rs(2)] by (simp add: l r(2) checkpointSnapshot_def)
    next
      case (Some x)
      then obtain k where "k < length bs" "log w' = log w1 @ map (commit_call q) (take (Suc k) bs)"
        using Cons.IH [OF r(1) rs(2)] by auto
      then show ?thesis by (auto simp: Some l intro!: exI [of _ "Suc k"])
    qed
  qed
qed

lemma restore_log:
  "restore_loop C q bs w = (w', y) \<Longrightarrow>
     \<exists>sent. log w' = log w @ sent
       \<and> (\<forall>e \<in> set sent. \<exists>b \<in> set bs. \<exists>x \<in> set (cset_Participants (rr_Checkpoint q)). e = restore_call q (cb_Port b) x)
       \<and> (\<forall>reports. y = Inr reports \<longrightarrow> (\<forall>b \<in> set bs. cb_Required b \<longrightarrow>
            (\<exists>x \<in> set (cset_Participants (rr_Checkpoint q)). restore_call q (cb_Port b) x \<in> set sent)))"
proof (induction bs arbitrary: w y)
  case Nil
  then show ?case by auto
next
  case (Cons b bs)
  obtain w1 d where d: "co_DescribeParticipant C (cb_Port b) w = (w1, d)" by (meson surj_pair)
  note l1 = calls(5) [OF d]
  show ?case
  proof (cases "\<exists>m x. d = Inr m \<and> snapshot_of (rr_Checkpoint q) (desc_ID m) = Some x")
    case False
    then consider "w' = w1" "\<And>reports. y \<noteq> Inr reports" | "restore_loop C q bs w1 = (w', y)" "\<not> cb_Required b"
      using Cons.prems d by (cases d) (auto simp: andThen_def guarded_def split: option.splits if_splits)
    then show ?thesis
    proof cases
      case 1
      then show ?thesis by (auto simp: l1 intro!: exI [of _ "[]"])
    next
      case 2
      then show ?thesis using Cons.IH [OF 2(1)] by (auto simp: l1)
    qed
  next
    case True
    then obtain m x where m: "d = Inr m" "snapshot_of (rr_Checkpoint q) (desc_ID m) = Some x" by blast
    have x: "x \<in> set (cset_Participants (rr_Checkpoint q))"
      using map_of_SomeD [OF m(2) [unfolded snapshot_of_def]] by auto
    let ?q = "\<lparr>crr_CheckpointID = cset_ID (rr_Checkpoint q), crr_SnapshotRef = cps_SnapshotRef x,
       crr_SnapshotDigest = cps_SnapshotDigest x, crr_NewScope = restored_scope q\<rparr>"
    obtain w2 r where r: "co_RestoreCheckpoint C (cb_Port b) w1 ?q = (w2, r)" by (meson surj_pair)
    have l2: "log w2 = log w @ [restore_call q (cb_Port b) x]"
      using calls(4) [OF r] l1 by (simp add: restore_call_def)
    show ?thesis
    proof (cases r)
      case (Inl e)
      then have "w' = w2" "y = Inl e" using Cons.prems d m r by (simp_all add: andThen_def)
      then show ?thesis using x by (auto simp: l2 intro!: exI [of _ "[restore_call q (cb_Port b) x]"])
    next
      case (Inr report)
      obtain y1 where y: "restore_loop C q bs w2 = (w', y1)" "\<And>reports. y = Inr reports \<Longrightarrow> \<exists>rs. y1 = Inr rs"
        using Cons.prems d m r Inr by (auto simp: andThen_def split: prod.splits sum.splits)
      from Cons.IH [OF y(1)] obtain sent where "log w' = log w2 @ sent"
        "\<forall>e \<in> set sent. \<exists>b \<in> set bs. \<exists>x \<in> set (cset_Participants (rr_Checkpoint q)). e = restore_call q (cb_Port b) x"
        "\<forall>reports. y1 = Inr reports \<longrightarrow> (\<forall>b \<in> set bs. cb_Required b \<longrightarrow>
            (\<exists>x \<in> set (cset_Participants (rr_Checkpoint q)). restore_call q (cb_Port b) x \<in> set sent))"
        by blast
      then show ?thesis
        using x y(2) by (intro exI [of _ "restore_call q (cb_Port b) x # sent"]) (auto simp: l2)
    qed
  qed
qed

end

interpretation participants: participant_log "logged C" snd for C
  by unfold_locales (simp_all add: carry_def note_call_def)

text \<open>The log changes nothing: without it the coordinator does the same.\<close>

definition unlogged :: "('w \<times> 'l) \<times> 'b \<Rightarrow> 'w \<times> 'b" where
  "unlogged r = (fst (fst r), snd r)"

lemma unlogged_parts: "unlogged r = r' \<Longrightarrow> fst (fst r) = fst r'" "unlogged r = r' \<Longrightarrow> snd r = snd r'"
  by (auto simp: unlogged_def)

lemmas logged_steps = unlogged_def note_call_def carry_def split_beta

lemma logged_abort: "unlogged (abort_loop (logged C) q bs rs s) = abort_loop C q bs rs (fst s)"
proof (induction bs arbitrary: rs s)
  case Nil
  then show ?case by (simp add: unlogged_def)
next
  case (Cons b bs)
  then show ?case
    using unlogged_parts [OF Cons.IH] by (cases rs) (simp_all add: logged_steps)
qed

lemma logged_prepare:
  "unlogged (prepare_loop (logged C) q scope prepared reports bs s) = prepare_loop C q scope prepared reports bs (fst s)"
proof (induction bs arbitrary: prepared reports s)
  case Nil
  then show ?case by (simp add: unlogged_def)
next
  case (Cons b bs)
  let ?p = "\<lparr>cpr_BarrierID = fcr_BarrierID q, cpr_Epoch = fcr_Epoch q, cpr_Scope = scope, cpr_Effects = fcr_Effects q\<rparr>"
  obtain w y where c: "co_PrepareCheckpoint C (cb_Port b) (fst s) ?p = (w, y)" by (meson surj_pair)
  show ?case
    using unlogged_parts [OF Cons.IH] unlogged_parts [OF logged_abort [of C]] by (cases y) (simp_all add: c logged_steps)
qed

lemma logged_commit: "unlogged (commit_loop (logged C) q bs rs s) = commit_loop C q bs rs (fst s)"
proof (induction bs arbitrary: rs s)
  case Nil
  then show ?case by (simp add: unlogged_def)
next
  case (Cons b bs)
  let ?q = "\<lparr>ccr_BarrierID = fcr_BarrierID q, ccr_Epoch = fcr_Epoch q\<rparr>"
  obtain w y where c: "co_CommitCheckpoint C (cb_Port b) (fst s) ?q = (w, y)" by (meson surj_pair)
  show ?case
    using unlogged_parts [OF Cons.IH] by (cases rs; cases y) (simp_all add: c logged_steps)
qed

lemma logged_build: "unlogged (buildCheckpoint (logged C) i q scope rs k s) = buildCheckpoint C i q scope rs k (fst s)"
  by (simp add: buildCheckpoint_def logged_steps)

lemma logged_checkpoint: "unlogged (Checkpoint (logged C) q s) = Checkpoint C q (fst (fst s), snd s)"
proof (cases "snd s")
  case None
  then show ?thesis by (simp add: Checkpoint_def unlogged_def)
next
  case (Some i)
  let ?scope = "agg_scope (in_aggregate i)"
  obtain w l rs e where p: "prepare_loop (logged C) q ?scope [] [] (co_Participants C) (fst s) = ((w, l), rs, e)" by (metis prod.collapse)
  obtain w1 l1 rs1 e1 where m: "commit_loop (logged C) q (co_Participants C) rs (w, l) = ((w1, l1), rs1, e1)" by (metis prod.collapse)
  have p': "prepare_loop C q ?scope [] [] (co_Participants C) (fst (fst s)) = (w, rs, e)"
    using logged_prepare [of C q ?scope "[]" "[]" "co_Participants C" "fst s"] p by (simp add: unlogged_def)
  have m': "commit_loop C q (co_Participants C) rs w = (w1, rs1, e1)"
    using logged_commit [of C q "co_Participants C" rs "(w, l)"] m by (simp add: unlogged_def)
  note b = unlogged_parts [OF logged_build [of C]]
  show ?thesis
    using p p' m m'
    by (cases e; cases e1) (simp_all add: Checkpoint_def take_checkpoint_def Some Let_def unlogged_def b split_beta split: option.splits)
qed

end
