(* ===== verification/CoordinatorProperties.thy ===== *)
theory CoordinatorProperties
  imports CoordinatorCheckpoint
begin

text \<open>
  The properties of the foundation coordinator: an activation never loses track of an effect it sent, sends
  the effects in order and under a current fence, and ends in agreement with the journal; a checkpoint is
  two-phase; a restore leaves the old scope behind; a stop releases everything once.
\<close>

section \<open>Activation on the fact store\<close>

text \<open>
  The points at which the process may crash: before each call, and at the end; each with the calls made
  so far and the store.
\<close>

definition crash_points :: "'x World \<Rightarrow> (Call list \<times> FactStore) set" where
  "crash_points w = insert (map fst (wd_Calls w), wd_Facts w)
     {(map fst earlier, s) | later c s earlier. wd_Calls w = later @ (c, s) # earlier}"

lemma dispatches_history [simp]: "dispatches (attempt_history i w) = dispatches (wd_Calls w)"
  by (simp add: dispatches_def attempt_history_def comp_def split_beta)

lemma safe_start: "wd_Calls w = [] \<Longrightarrow> store.safe i [] w"
  by (simp add: store.safe_def attempt_history_def)

lemma activate_fine:
  assumes "Activate (Some (wired P (ar_ActivationAttemptID r))) ctx r w = (w', y)" "wd_Calls w = []"
  shows "store.fine (ar_ActivationAttemptID r) r w'"
    and "y = Inr n \<Longrightarrow> stored_attempt (ar_ActivationAttemptID r) w' = Some (in_activation n) \<and> settled r n (dispatches (wd_Calls w'))"
proof -
  let ?i = "ar_ActivationAttemptID r"
  have "wp (w', y) (\<lambda>n w. \<exists>ds. store.inhand ?i (in_activation n) ds w \<and> settled r n ds) (store.fine ?i r)"
    using store.activate_wp [OF safe_start [OF assms(2)] refl, where P = P and ctx = ctx and r = r] assms(1) by simp
  then have good: "\<And>n. y = Inr n \<Longrightarrow> \<exists>ds. store.inhand ?i (in_activation n) ds w' \<and> settled r n ds"
    and failed: "\<And>e. y = Inl e \<Longrightarrow> store.fine ?i r w'"
    by (simp_all add: wp_result)
  show "store.fine ?i r w'"
    using good failed store.inhand_fine by (cases y) (auto simp: settled_def Let_def)
  show "y = Inr n \<Longrightarrow> stored_attempt ?i w' = Some (in_activation n) \<and> settled r n (dispatches (wd_Calls w'))"
    using good by (auto simp: store.inhand_def store.safe_def)
qed

lemma crash_recorded:
  assumes "store.fine i r w" "(calls, s) \<in> crash_points w"
  shows "effects_recorded (filter watched calls) (fs_activations s i)"
proof -
  let ?f = "\<lambda>(c, s). (c, fs_activations s i)"
  have ok: "crash_ok (attempt_history i w)" "effects_recorded (dispatches (wd_Calls w)) (fs_activations (wd_Facts w) i)"
    using assms(1) by (auto simp: store.fine_def store.safe_def stored_attempt_def)
  consider (final) "calls = map fst (wd_Calls w)" "s = wd_Facts w"
    | (before) later c earlier where "calls = map fst earlier" "wd_Calls w = later @ (c, s) # earlier"
    using assms(2) by (auto simp: crash_points_def)
  then show ?thesis
  proof cases
    case final
    then show ?thesis using ok(2) by (simp add: dispatches_def)
  next
    case before
    have "attempt_history i w = map ?f later @ (c, fs_activations s i) # map ?f earlier"
      by (simp add: attempt_history_def before(2))
    from crash_ok_append [OF ok(1) [unfolded this]] show ?thesis
      using before(1) by (simp add: dispatches_def comp_def split_beta)
  qed
qed

lemma recorded_allocation:
  "effects_recorded ds d \<Longrightarrow> CallAllocate q \<in> set ds \<Longrightarrow> \<exists>a. d = Some a \<and> reservation_recorded a"
  "effects_recorded ds d \<Longrightarrow> CallActivate v \<in> set ds \<Longrightarrow> \<exists>a. d = Some a \<and> activation_recorded a"
  by (auto simp: effects_recorded_def)

text \<open>C1: An activation may crash at any moment, between any two calls. If the sandbox had been asked to
  allocate by then, the journal record in the store says so, and recovery from this record never asks to
  allocate again; likewise for the activation of the sandbox.\<close>

lemma activation_crash_safe:
  assumes "Activate (Some (wired P (ar_ActivationAttemptID r))) ctx r w = (w', y)" "wd_Calls w = []"
    "(calls, s) \<in> crash_points w'"
  shows "(CallAllocate q \<in> set calls \<longrightarrow> (\<exists>a. fs_activations s (ar_ActivationAttemptID r) = Some a
            \<and> (\<forall>now d. PlanRecovery a now = Inr d \<longrightarrow> dec_Action d \<noteq> ActionReserveSandbox)))
       \<and> (CallActivate v \<in> set calls \<longrightarrow> (\<exists>a. fs_activations s (ar_ActivationAttemptID r) = Some a
            \<and> (\<forall>now d. PlanRecovery a now = Inr d \<longrightarrow> dec_Action d \<noteq> ActionActivateSandbox)))"
proof -
  have r: "effects_recorded (filter watched calls) (fs_activations s (ar_ActivationAttemptID r))"
    by (rule crash_recorded [OF activate_fine(1) [OF assms(1,2)] assms(3)])
  show ?thesis
    using recorded_allocation [OF r] reservation_recovery activation_recovery by simp blast
qed

text \<open>A whole activation makes six watched calls; here they are, the newest first.\<close>

lemma open_before: "open_follows r p ds \<Longrightarrow> \<exists>e v ds'. ds = CallIntent e # CallActivate v # ds' \<and> length ds' = 3"
  by (cases "(r, p, ds)" rule: open_follows.cases) auto

lemma activate_before: "activate_follows r v ds \<Longrightarrow> \<exists>e q ds'. ds = CallIntent e # CallAllocate q # ds' \<and> length ds' = 1"
  by (cases "(r, v, ds)" rule: activate_follows.cases) auto

lemma allocate_before: "allocate_follows r q ds \<Longrightarrow> \<exists>e. ds = [CallIntent e]"
  by (cases "(r, q, ds)" rule: allocate_follows.cases) auto

lemma intent_before: "intent_follows ds \<Longrightarrow> length ds = 0 \<or> length ds = 2 \<or> length ds = 4"
  by (cases ds rule: intent_follows.cases) auto

lemma lawful_complete:
  assumes "lawful r ds" "length ds = 6"
  obtains p e2 v e1 q e0 where
    "ds = [CallOpen p, CallIntent e2, CallActivate v, CallIntent e1, CallAllocate q, CallIntent e0]"
    "lawful r [CallOpen p, CallIntent e2, CallActivate v, CallIntent e1, CallAllocate q, CallIntent e0]"
proof -
  obtain c ds1 where c: "ds = c # ds1" "length ds1 = 5" using assms(2) by (cases ds) auto
  have f: "follows r c ds1" "lawful r ds1" using assms(1) c by auto
  then obtain p where "c = CallOpen p"
    using c(2) by (cases c) (auto dest!: activate_before allocate_before intent_before)
  then obtain e v ds2 where p: "c = CallOpen p" "ds1 = CallIntent e # CallActivate v # ds2" using f open_before by fastforce
  then obtain e1 q ds3 where q: "ds2 = CallIntent e1 # CallAllocate q # ds3" using f(2) activate_before by fastforce
  then obtain e0 where "ds3 = [CallIntent e0]" using f(2) p(2) allocate_before by fastforce
  then have "ds = [CallOpen p, CallIntent e, CallActivate v, CallIntent e1, CallAllocate q, CallIntent e0]"
    using c(1) p q by simp
  with assms(1) show thesis using that by metis
qed

text \<open>The sample run, for the witnesses.\<close>

lemma sample_activation:
  obtains w' where "Activate (Some sample_coordinator) LiveContext coordinator_sample_request sample_world = (w', Inr sample_instance)"
    "settled coordinator_sample_request sample_instance (dispatches (wd_Calls w'))"
proof -
  obtain w' y where y: "Activate (Some sample_coordinator) LiveContext coordinator_sample_request sample_world = (w', y)" by (meson surj_pair)
  then have i: "y = Inr sample_instance"
    using coordinator_sample_run by (cases y) (auto simp: wp_result)
  have "settled coordinator_sample_request sample_instance (dispatches (wd_Calls w'))"
    by (rule activate_fine(2) [where r = coordinator_sample_request and w = sample_world and w' = w' and y = y, THEN conjunct2])
      (use y i in \<open>simp_all add: sample_world_def\<close>)
  with that y i show thesis by simp
qed

lemma activation_crash_safe_witness:
  "\<exists>calls s q v. CallAllocate q \<in> set calls \<and> CallActivate v \<in> set calls
     \<and> (\<exists>w' y. Activate (Some sample_coordinator) LiveContext coordinator_sample_request sample_world = (w', y) \<and> (calls, s) \<in> crash_points w')
     \<and> (\<exists>a. fs_activations s ''a'' = Some a
          \<and> (\<forall>now d. PlanRecovery a now = Inr d \<longrightarrow> dec_Action d \<noteq> ActionReserveSandbox \<and> dec_Action d \<noteq> ActionActivateSandbox))"
proof -
  obtain w' where w': "Activate (Some sample_coordinator) LiveContext coordinator_sample_request sample_world = (w', Inr sample_instance)"
    "settled coordinator_sample_request sample_instance (dispatches (wd_Calls w'))" by (rule sample_activation)
  obtain q v where "CallAllocate q \<in> set (dispatches (wd_Calls w'))" "CallActivate v \<in> set (dispatches (wd_Calls w'))"
  proof (rule lawful_complete)
    show "lawful coordinator_sample_request (dispatches (wd_Calls w'))" "length (dispatches (wd_Calls w')) = 6"
      using w'(2) by (simp_all add: settled_def Let_def)
  qed (use that in simp)
  then have c: "CallAllocate q \<in> set (map fst (wd_Calls w'))" "CallActivate v \<in> set (map fst (wd_Calls w'))"
    by (auto simp: dispatches_def)
  have p: "(map fst (wd_Calls w'), wd_Facts w') \<in> crash_points w'" by (simp add: crash_points_def)
  have w: "wd_Calls sample_world = []" "ar_ActivationAttemptID coordinator_sample_request = ''a''" by (simp_all add: sample_world_def)
  have "(CallAllocate q \<in> set (map fst (wd_Calls w')) \<longrightarrow> (\<exists>a. fs_activations (wd_Facts w') ''a'' = Some a
        \<and> (\<forall>now d. PlanRecovery a now = Inr d \<longrightarrow> dec_Action d \<noteq> ActionReserveSandbox)))
     \<and> (CallActivate v \<in> set (map fst (wd_Calls w')) \<longrightarrow> (\<exists>a. fs_activations (wd_Facts w') ''a'' = Some a
        \<and> (\<forall>now d. PlanRecovery a now = Inr d \<longrightarrow> dec_Action d \<noteq> ActionActivateSandbox)))"
    using activation_crash_safe [where r = coordinator_sample_request, unfolded w(2), OF w'(1) w(1) p] .
  then obtain a where "fs_activations (wd_Facts w') ''a'' = Some a"
      "\<forall>now d. PlanRecovery a now = Inr d \<longrightarrow> dec_Action d \<noteq> ActionReserveSandbox \<and> dec_Action d \<noteq> ActionActivateSandbox"
    using c by force
  then show ?thesis using c w'(1) p by blast
qed



lemma complete_budget:
  "ActivationAttempt_Validate a now = None \<Longrightarrow> at_Stage a = StageSandboxActive \<Longrightarrow> op_State (at_Budget a) \<noteq> OperationIntentRecorded"
  by (auto simp: ActivationAttempt_Validate_def Let_def)

text \<open>C3: An activation that succeeds has sent all six calls, and the instance, the journal and the leases agree: the record in
  the store is the instance's, it is complete and certain about both sandbox operations, the
  aggregate is ready on the record's scope, the identity lease is active, the sandbox lease is the one
  that was reserved, and recovery has nothing left to do but to resume binding.\<close>

lemma activation_result:
  assumes "Activate (Some (wired P (ar_ActivationAttemptID r))) ctx r w = (w', Inr n)" "wd_Calls w = []"
  shows "fs_activations (wd_Facts w') (ar_ActivationAttemptID r) = Some (in_activation n)
       \<and> settled r n (dispatches (wd_Calls w'))
       \<and> (\<forall>now d. PlanRecovery (in_activation n) now = Inr d \<longrightarrow> dec_Action d = ActionResumeBinding)"
proof -
  have s: "settled r n (dispatches (wd_Calls w'))" and a: "stored_attempt (ar_ActivationAttemptID r) w' = Some (in_activation n)"
    using activate_fine(2) [OF assms refl] by simp_all
  have "dec_Action d = ActionResumeBinding" if "PlanRecovery (in_activation n) now = Inr d" for now d
    using that s PlanRecovery_valid [OF that] complete_budget [of "in_activation n" now] by (cases rule: PlanRecovery_Inr) (auto simp: settled_def Let_def normalDecision_def decision_def split: if_splits)
  with s a show ?thesis by (simp add: stored_attempt_def)
qed

lemma activation_result_witness:
  "\<exists>w'. Activate (Some sample_coordinator) LiveContext coordinator_sample_request sample_world = (w', Inr sample_instance)
     \<and> fs_activations (wd_Facts w') ''a'' = Some (sample_version 10) \<and> settled coordinator_sample_request sample_instance (dispatches (wd_Calls w'))"
proof -
  obtain w' where w': "Activate (Some sample_coordinator) LiveContext coordinator_sample_request sample_world = (w', Inr sample_instance)"
    by (rule sample_activation)
  then show ?thesis
    using activation_result [where P = sample_outside and r = coordinator_sample_request and ctx = LiveContext and w = sample_world
        and w' = w' and n = sample_instance]
    by (auto simp: sample_world_def) (simp add: sample_instance_def new_instance_def)
qed

section \<open>Checkpoints\<close>




definition sample_point :: TimelinePoint where
  "sample_point = \<lparr>tl_LedgerScope = ''s'', tl_LedgerSequence = 1, tl_SourceID = ''k'', tl_SourceEpoch = 1, tl_SourceSequence = 1,
     tl_EventID = ''e'', tl_CausationID = ''c'', tl_CorrelationID = ''c'', tl_ObservedAt = 50, tl_IngestedAt = 50\<rparr>"


definition sample_snapshots :: "CheckpointParticipantSnapshot list" where
  "sample_snapshots = [checkpointSnapshot sample_report True]"

definition coordinator_sample_set :: CheckpointSet where
  "coordinator_sample_set = \<lparr>cset_ID = ''c'', cset_Epoch = 1, cset_BarrierID = ''r'', cset_Scope = sample_scope (Some sample_lease),
     cset_PlanDigest = sample_digest, cset_ProfileDigest = sample_digest, cset_ContextDigest = sample_digest, cset_AuthorityEpoch = 1,
     cset_Effects = \<lparr>wm_Accepted = 1, wm_Dispatched = 1, wm_Settled = 1, wm_Remote = 0\<rparr>, cset_EventWatermark = sample_point,
     cset_Participants = sample_snapshots, cset_Consistency = CheckpointConsistent, cset_CreatedAt = 50\<rparr>"

lemma coordinator_sample_set_valid: "CheckpointSet_Validate coordinator_sample_set = None"
  by (simp add: CheckpointSet_Validate_def coordinator_sample_set_def sample_snapshots_def checkpointSnapshot_def sample_report_def
      CheckpointParticipantSnapshot_Validate_def sample_point_def TimelinePoint_Validate_def EffectWatermarks_Validate_def
      graphic_ascii time_defs) (simp add: sample_scope_def graphic_def)

lemma sample_participants: "co_Participants sample_coordinator = [\<lparr>cb_Port = (), cb_Required = True\<rparr>]"
  by (simp add: wired_def sample_outside_def)

lemma sample_participant_calls:
  "\<exists>w1. co_PrepareCheckpoint sample_coordinator p w q1 = (w1, Inr (sample_report\<lparr>cpt_State := CheckpointParticipantPrepared\<rparr>))"
  "\<exists>w2. co_CommitCheckpoint sample_coordinator p w q2 = (w2, Inr sample_report)"
  "\<exists>w3. co_RestoreCheckpoint sample_coordinator p w q3 = (w3, Inr sample_report)"
  "\<exists>w4. co_DescribeParticipant sample_coordinator p w = (w4, Inr (sample_descriptor ''k''))"
  "\<exists>w5. co_Clock sample_coordinator w = (w5, 50)"
  by (simp_all add: wired_def outside_def Let_def sample_outside_def)



section \<open>Restores\<close>

lemma restored_scope_instance: "scope_Instance (restored_scope q) = rr_NewInstance q"
  by (simp add: restored_scope_def Let_def)

text \<open>C14: A restore needs a consistent checkpoint and leads into a new incarnation: the proposed scope is a later epoch of
  another instance, the identity is one epoch on, it holds no sandbox lease, and the authority epoch is
  the current one. No fence of the checkpoint's own scope is accepted on it any more. Each participant
  is only ever asked to restore a snapshot of this checkpoint into that scope, and each required
  participant is asked.\<close>

lemma restore_fences_old_scope:
  assumes "Restore (logged C) q (w, []) = ((w', log), Inr r)"
  shows "let old = cset_Scope (rr_Checkpoint q); new = rsr_ProposedScope r in
      cset_Consistency (rr_Checkpoint q) = CheckpointConsistent
    \<and> inst_ID (scope_Instance new) \<noteq> inst_ID (scope_Instance old) \<and> inst_Epoch (scope_Instance new) > inst_Epoch (scope_Instance old)
    \<and> ident_Epoch (scope_Identity new) = ident_Epoch (scope_Identity old) + 1 \<and> scope_SandboxLease new = None
    \<and> scope_AuthorityEpoch new = rr_CurrentAuthorityEpoch q
    \<and> (\<forall>fence grant t. fe_Scope fence = old \<longrightarrow> CheckFence fence \<lparr>cff_Scope = new, cff_CapabilityGrantDigest = grant\<rparr> t \<noteq> None)
    \<and> (\<forall>e \<in> set log. \<exists>b \<in> set (co_Participants C). \<exists>x \<in> set (cset_Participants (rr_Checkpoint q)). e = restore_call q (cb_Port b) x)
    \<and> (\<forall>b \<in> set (co_Participants C). cb_Required b \<longrightarrow>
         (\<exists>x \<in> set (cset_Participants (rr_Checkpoint q)). restore_call q (cb_Port b) x \<in> set log))"
proof -
  have v: "RestoreRequest_Validate q = None"
    and l: "\<exists>reports. restore_loop (logged C) q (co_Participants C) (w, []) = ((w', log), Inr reports)"
    and n: "rsr_ProposedScope r = restored_scope q"
    using assms by (auto simp: Restore_def guarded_def andThen_def split: option.splits prod.splits sum.splits)
  obtain sent where "log = sent"
      "\<forall>e \<in> set sent. \<exists>b \<in> set (co_Participants C). \<exists>x \<in> set (cset_Participants (rr_Checkpoint q)). e = restore_call q (cb_Port b) x"
      "\<forall>b \<in> set (co_Participants C). cb_Required b \<longrightarrow>
         (\<exists>x \<in> set (cset_Participants (rr_Checkpoint q)). restore_call q (cb_Port b) x \<in> set sent)"
    using l participants.restore_log [of C q "co_Participants C" "(w, [])"] by fastforce
  moreover have "inst_ID (rr_NewInstance q) \<noteq> inst_ID (scope_Instance (cset_Scope (rr_Checkpoint q)))"
      "inst_Epoch (rr_NewInstance q) > inst_Epoch (scope_Instance (cset_Scope (rr_Checkpoint q)))"
      "cset_Consistency (rr_Checkpoint q) = CheckpointConsistent"
    using v by (auto simp: RestoreRequest_Validate_def)
  moreover from this have "cset_Scope (rr_Checkpoint q) \<noteq> restored_scope q"
    using restored_scope_instance [of q] by metis
  ultimately show ?thesis
    by (simp add: n Let_def CheckFence_iff) (simp add: restored_scope_def Let_def)
qed

definition sample_restore :: RestoreRequest where
  "sample_restore = \<lparr>rr_Checkpoint = coordinator_sample_set, rr_NewInstance = \<lparr>inst_ID = ''k'', inst_Epoch = 2\<rparr>, rr_CurrentPlanDigest = sample_digest,
     rr_CurrentProfileDigest = sample_digest, rr_CurrentAuthorityEpoch = 3\<rparr>"

lemma restore_fences_old_scope_witness:
  "\<exists>w' log r. Restore (logged sample_coordinator) sample_restore (sample_world, []) = ((w', log), Inr r)
     \<and> restore_call sample_restore () (checkpointSnapshot sample_report True) \<in> set log
     \<and> CheckFence sample_fence \<lparr>cff_Scope = rsr_ProposedScope r, cff_CapabilityGrantDigest = sample_digest\<rparr> 50 \<noteq> None"
proof -
  let ?x = "checkpointSnapshot sample_report True"
  have v: "RestoreRequest_Validate sample_restore = None"
    using coordinator_sample_set_valid by (simp add: RestoreRequest_Validate_def sample_restore_def InstanceRef_Validate_def graphic_ascii)
      (simp add: coordinator_sample_set_def sample_scope_def word_le_nat_alt)
  have s: "snapshot_of (rr_Checkpoint sample_restore) ''k'' = Some ?x"
    by (simp add: snapshot_of_def sample_restore_def coordinator_sample_set_def sample_snapshots_def checkpointSnapshot_def sample_report_def)
  obtain w1 where d: "co_DescribeParticipant sample_coordinator () sample_world = (w1, Inr (sample_descriptor ''k''))"
    using sample_participant_calls(4) by blast
  obtain w2 where q: "co_RestoreCheckpoint sample_coordinator () w1 \<lparr>crr_CheckpointID = cset_ID (rr_Checkpoint sample_restore),
      crr_SnapshotRef = cps_SnapshotRef ?x, crr_SnapshotDigest = cps_SnapshotDigest ?x, crr_NewScope = restored_scope sample_restore\<rparr>
      = (w2, Inr sample_report)"
    using sample_participant_calls(3) by blast
  have i: "desc_ID (sample_descriptor ''k'') = ''k''" by (simp add: sample_descriptor_def)
  obtain w' log r where r: "Restore (logged sample_coordinator) sample_restore (sample_world, []) = ((w', log), Inr r)"
    by (simp add: Restore_def v sample_participants andThen_def carry_def note_call_def d i s q guarded_def)
  have f: "fe_Scope sample_fence = cset_Scope (rr_Checkpoint sample_restore)"
    by (simp add: sample_fence_def sample_restore_def coordinator_sample_set_def)
  have x: "set (cset_Participants (rr_Checkpoint sample_restore)) = {?x}"
    by (simp add: sample_restore_def coordinator_sample_set_def sample_snapshots_def)
  from restore_fences_old_scope [OF r] r f x show ?thesis
    by (simp add: Let_def sample_participants)
qed

section \<open>Stops\<close>

lemma wp_call: "(\<And>x w. r = (w, Inr x) \<Longrightarrow> Q x w) \<Longrightarrow> (\<And>w. E w) \<Longrightarrow> wp r Q E"
  by (cases r; cases "snd r") (auto simp: wp_def)

lemma wp_on_world [simp]: "wp (on_world f s) Q E = wp (f (fst s)) (\<lambda>x w. Q x (w, snd s)) (\<lambda>w. E (w, snd s))"
  by (cases "f (fst s)"; cases "snd (f (fst s))") (auto simp: on_world_def wp_def)

lemma wp_observed [simp]: "wp (observed ok r) Q E = wp r (\<lambda>x w. if ok x then Q x w else E w) E"
  by (cases r; cases "snd r") (auto simp: observed_def)

lemma wp_conj: "wp r Q E \<Longrightarrow> wp r Q' E' \<Longrightarrow> wp r (\<lambda>x w. Q x w \<and> Q' x w) (\<lambda>w. E w \<and> E' w)"
  by (cases r; cases "snd r") auto

lemma wpD: "wp r Q E \<Longrightarrow> r = (w, Inr x) \<Longrightarrow> Q x w" "wp r Q E \<Longrightarrow> r = (w, Inl e) \<Longrightarrow> E w"
  by simp_all

lemma transition_cases:
  assumes "transition g t c = (g', x)"
  shows "agg_scope g' = agg_scope g \<and> (case x of Inr y \<Rightarrow> y = g' \<and> agg_state g' = t | Inl e \<Rightarrow> g' = g)"
  using assms unfolding transition_def Transition_def
  by (auto elim!: guarded_cases simp: Let_def)

lemma move_instance_wp:
  assumes "\<And>g. agg_scope g = agg_scope (in_aggregate (snd s)) \<Longrightarrow> agg_state g = t \<Longrightarrow> Q g (fst s, (snd s)\<lparr>in_aggregate := g\<rparr>)"
    "E (fst s, snd s)"
  shows "wp (move_instance t s) Q E"
proof -
  obtain g x where t: "transition (in_aggregate (snd s)) t no_context = (g, x)" by (meson surj_pair)
  then show ?thesis
    using transition_cases [OF t] assms by (cases x) (auto simp: move_instance_def)
qed

lemma finish_active_wp:
  assumes "\<And>w runs run. in_activeRun (snd s) = None \<or> run_Status run = RunTerminal \<and> run_Outcome run = outcome \<Longrightarrow>
      Q () (w, if in_activeRun (snd s) = None then snd s else (snd s)\<lparr>in_legacyRuns := runs, in_activeRun := Some run\<rparr>)"
    "\<And>w runs. E (w, (snd s)\<lparr>in_legacyRuns := runs\<rparr>)"
  shows "wp (finish_active C outcome s) Q E"
proof (cases "in_activeRun (snd s)")
  case None
  then show ?thesis using assms(1) [where w = "fst s"] by (simp add: finish_active_def)
next
  case (Some run)
  have e: "E (w, snd s)" for w using assms(2) [where w = w and runs = "in_legacyRuns (snd s)"] by simp
  show ?thesis
    unfolding finish_active_def Some option.case wp_andThen wp_on_world
  proof (rule wp_call)
    fix t w
    obtain runs x where f: "Registry_Finish (in_legacyRuns (snd s)) (agg_scope (in_aggregate (snd s))) (run_ID run) outcome t = (runs, x)"
      by (meson surj_pair)
    have "run_Status y = RunTerminal \<and> run_Outcome y = outcome" if "x = Inr y" for y
      using f that by (auto simp: Registry_Finish_def Let_def guarded_def split: option.splits)
    then show "wp (case Registry_Finish (in_legacyRuns (snd (w, snd s))) (agg_scope (in_aggregate (snd (w, snd s)))) (run_ID run) outcome t of
          (runs, Inl e) \<Rightarrow> ((fst (w, snd s), (snd (w, snd s))\<lparr>in_legacyRuns := runs\<rparr>), Inl e)
        | (runs, Inr finished) \<Rightarrow> ((fst (w, snd s), (snd (w, snd s))\<lparr>in_legacyRuns := runs, in_activeRun := Some finished\<rparr>), Inr ())) Q E"
      using assms(1) [where w = w and runs = runs] assms(2) [where w = w and runs = runs] Some f by (cases x) auto
  qed (rule e)
qed

text \<open>What the components must have answered.\<close>

definition answered_closed :: "('a, 'p, 'w) Coordinator \<Rightarrow> ExecutionScope \<Rightarrow> ExecutionEndpointRef \<Rightarrow> bool" where
  "answered_closed C scope endpoint \<longleftrightarrow> (\<exists>w q w' o1. co_Close C w q = (w', Inr o1) \<and> ecq_Scope q = scope \<and> ecq_Endpoint q = endpoint
     \<and> eob_ObservationKind o1 = ''closed'')"

definition answered_released :: "('a, 'p, 'w) Coordinator \<Rightarrow> SandboxLeaseRef \<Rightarrow> bool" where
  "answered_released C l \<longleftrightarrow>
     (\<exists>w q w' o1. co_Fence C w q = (w', Inr o1) \<and> sfq_Lease q = l \<and> slo_State o1 = ''fenced'')
     \<and> (\<exists>w q w' o1. co_Release C w q = (w', Inr o1) \<and> srq_Lease q = l \<and> slo_State o1 = ''released'')"

lemma close_external_wp:
  assumes "\<And>w r l. scope_SandboxLease scope = Some l \<Longrightarrow> answered_closed C scope (in_endpoint i) \<Longrightarrow> answered_released C l \<Longrightarrow> Q r w"
    "\<And>w. E w"
  shows "wp (close_external C q i scope w) Q E"
  unfolding close_external_def wp_andThen wp_observed
  apply (rule wp_call [OF _ assms(2)])
  apply (rule wp_call [OF _ assms(2)])
  apply (rule wp_call [OF _ assms(2)])
  apply (simp add: assms(2), intro impI)
  apply (rule wp_call [OF _ assms(2)])
  apply (cases "scope_SandboxLease scope")
   apply (simp add: assms(2))
  apply simp
  apply (rule wp_call [OF _ assms(2)])
  apply (simp add: assms(2), intro impI)
  apply (rule wp_call [OF _ assms(2)])
  apply (rule wp_call [OF _ assms(2)])
  apply (intro impI)
  apply (rule assms(1), assumption)
   apply (unfold answered_closed_def answered_released_def)
   apply fastforce
  apply (rule conjI)
   apply fastforce
  apply fastforce
  done

lemma released_lease: "ReleaseIdentityLease s ctx r t = (s', Inr l) \<Longrightarrow> il_State l = IdentityLeaseReleased"
  by (auto simp: ReleaseIdentityLease_def mutateLease_def Let_def ensure_def guarded_def split: option.splits if_splits sum.splits)

lemma end_identity_released:
  assumes "end_identity (wired P j) reason l w = (w', Inr l')" shows "il_State l' = IdentityLeaseReleased"
proof -
  obtain w1 rq where "co_ReleaseIdentityLease (wired P j) w1 rq = (w', Inr l')"
    using assms by (auto simp: end_identity_def andThen_def split: prod.splits sum.splits)
  then obtain s t where "snd (ReleaseIdentityLease s LiveContext rq t) = Inr l'"
    using facts_result by (simp add: wired_ports) blast
  then show ?thesis by (metis released_lease prod.collapse)
qed

text \<open>What has become of an instance that was stopped.\<close>

definition stopped :: "('a, 'p, 'w) Coordinator \<Rightarrow> StopRequest \<Rightarrow> Instance \<Rightarrow> Instance \<Rightarrow> TerminationReport \<Rightarrow> bool" where
  "stopped C q i i' report \<longleftrightarrow>
     agg_scope (in_aggregate i') = agg_scope (in_aggregate i) \<and> agg_state (in_aggregate i') = terminal_state
     \<and> TerminationReport_Validate report = None \<and> term_Scope report = agg_scope (in_aggregate i) \<and> term_State report = terminal_state
     \<and> term_ExecutionOutcome report = sr_Outcome q
     \<and> (case in_activeRun i' of None \<Rightarrow> in_activeRun i = None | Some run \<Rightarrow> run_Status run = RunTerminal \<and> run_Outcome run = sr_Outcome q)
     \<and> answered_closed C (agg_scope (in_aggregate i)) (in_endpoint i)
     \<and> (\<exists>l. scope_SandboxLease (agg_scope (in_aggregate i)) = Some l \<and> answered_released C l)
     \<and> (\<exists>w l w'. end_identity C (sr_Reason q) l w = (w', Inr (in_identityLease i')))"

definition stop_failed :: "InstanceState \<Rightarrow> Instance \<Rightarrow> bool" where
  "stop_failed s i' \<longleftrightarrow> agg_state (in_aggregate i') = s \<or> agg_state (in_aggregate i') = owing_state PhaseStopping
     \<or> agg_state (in_aggregate i') = terminal_state"

lemma stop_wp:
  "wp (stop_instance C q (w, i)) (\<lambda>report s. stopped C q i (snd s) report) (\<lambda>s. stop_failed (agg_state (in_aggregate i)) (snd s))"
proof -
  let ?E = "\<lambda>s. stop_failed (agg_state (in_aggregate i)) (snd s)"
  let ?p = "st_Phase (agg_state (in_aggregate i))"
  have same: "?E (w, i)" for w by (simp add: stop_failed_def)
  have "wp (andThen (finish_active C (sr_Outcome q) (w, i)) k) Q ?E" if
    "\<And>w j. agg_scope (in_aggregate j) = agg_scope (in_aggregate i) \<Longrightarrow> agg_state (in_aggregate j) = agg_state (in_aggregate i)
       \<Longrightarrow> in_endpoint j = in_endpoint i
       \<Longrightarrow> (case in_activeRun j of None \<Rightarrow> in_activeRun i = None | Some run \<Rightarrow> run_Status run = RunTerminal \<and> run_Outcome run = sr_Outcome q)
       \<Longrightarrow> wp (k (w, j) ()) Q ?E" for k Q
    unfolding wp_andThen
    apply (rule finish_active_wp)
     apply (rule that)
        apply (auto split: option.splits) [4]
    apply (simp add: stop_failed_def)
    done
  note finish = this
  show ?thesis
    unfolding stop_instance_def wp_guarded
    apply (simp only: fail_if_None snd_conv split: if_split, intro conjI impI)
    apply (rule finish, unfold wp_andThen)
    apply (rule move_instance_wp)
     apply (simp only: wp_on_world fst_conv snd_conv)
     apply (rule close_external_wp)
      apply (rule wp_call)
       apply (rule move_instance_wp)
        apply (simp only: wp_on_world)
        apply (rule wp_call)
         apply (simp only: Let_def wp_guarded wp_pure split: if_split, intro conjI impI)
           apply (simp_all add: stop_failed_def)
    apply (auto simp: stopped_def)
    done
qed

lemma Stop_cases:
  assumes "Stop C q (w, Some i) = (s', y)"
  obtains w' i' where "s' = (w', Some i')" "stop_instance C q (w, i) = ((w', i'), y)"
  using assms by (auto simp: Stop_def split: prod.splits)

lemma stop_refused:
  assumes "st_Phase (agg_state (in_aggregate i)) \<noteq> PhaseReady" "st_Phase (agg_state (in_aggregate i)) \<noteq> PhaseRunning"
  shows "Stop C q (w, Some i) = ((w, Some i), Inl (DomainError ErrorPreconditionFailed ReasonInvalidState))"
    "StartRun C r ref (w, Some i) = ((w, Some i), Inl (DomainError ErrorConflict ReasonRunConflict))"
    "\<exists>e. Checkpoint C k (w, Some i) = (w, None, Some e)"
  using assms by (simp_all add: Stop_def stop_instance_def StartRun_def start_run_def guarded_def fail_if_def Checkpoint_def take_checkpoint_def Let_def)

lemma stop_phases: "st_Phase terminal_state = PhaseTerminal" "st_Phase (owing_state p) = p"
  by (simp_all add: terminal_state_def owing_state_def)

text \<open>C15: A stop that succeeds ends the instance: it is terminal, its run has ended with the requested outcome, the
  report is valid and says so; the execution answered that it is closed, the sandbox that it is fenced
  and released, and only then the identity lease was released. After that nothing starts, stops or
  checkpoints the instance again.\<close>

lemma stop_result:
  assumes "Stop (wired P j) q (w, Some i) = ((w', Some i'), Inr report)"
  shows "stopped (wired P j) q i i' report \<and> il_State (in_identityLease i') = IdentityLeaseReleased
    \<and> Stop C2 q2 (w2, Some i') = ((w2, Some i'), Inl (DomainError ErrorPreconditionFailed ReasonInvalidState))
    \<and> StartRun C2 r ref (w2, Some i') = ((w2, Some i'), Inl (DomainError ErrorConflict ReasonRunConflict))
    \<and> (\<exists>e. Checkpoint C2 k (w2, Some i') = (w2, None, Some e))"
proof -
  have "stop_instance (wired P j) q (w, i) = ((w', i'), Inr report)"
    using assms by (rule Stop_cases) simp
  then have s: "stopped (wired P j) q i i' report"
    using stop_wp [of "wired P j" q w i] by simp
  then have "il_State (in_identityLease i') = IdentityLeaseReleased"
    using end_identity_released by (auto simp: stopped_def)
  moreover have "st_Phase (agg_state (in_aggregate i')) = PhaseTerminal"
    using s by (simp add: stopped_def stop_phases)
  ultimately show ?thesis using s stop_refused [of i' C2] by simp
qed


definition coordinator_sample_stop :: "EffectIntent \<Rightarrow> StopRequest" where
  "coordinator_sample_stop n = \<lparr>sr_Outcome = OutcomeCancelled, sr_Reason = ''r'', sr_CloseIntent = n, sr_ReleaseIntent = sample_intent\<rparr>"

lemma sample_instance_sel [simp]:
  "in_aggregate sample_instance = sample_aggregate (Some sample_lease) (owing_state PhaseReady) 9" "in_activeRun sample_instance = None"
  "in_identityLease sample_instance = sample_holder IdentityLeaseActive 2"
  by (simp_all add: sample_instance_def new_instance_def)

lemma sample_stopping:
  "move_instance (owing_state PhaseStopping) (w, sample_instance)
     = ((w, sample_instance\<lparr>in_aggregate := sample_aggregate (Some sample_lease) (owing_state PhaseStopping) 10\<rparr>),
        Inr (sample_aggregate (Some sample_lease) (owing_state PhaseStopping) 10))"
proof -
  let ?g = "sample_aggregate (Some sample_lease) (owing_state PhaseReady) 9"
  have "CheckExecutionPreconditions (preconditions ?g) (agg_facts ?g) = None"
    by (auto simp: sample_preconditions CheckExecutionPreconditions_iff agg_facts_def sample_aggregate_def)
  moreover have "ValidateStateTransition (owing_state PhaseReady) (owing_state PhaseStopping) no_context = None"
    "validateScopeState (sample_scope (Some sample_lease)) (owing_state PhaseStopping) = None"
    by (simp_all add: sample_state_defs)
  ultimately show ?thesis
    by (simp add: move_instance_def transition_def Transition_def Let_def) (simp add: sample_aggregate_def)
qed


lemma sample_stop_calls:
  "co_Close (wired P i) = outside P i (\<lambda>_. CallOther) (out_Close P)" "co_Fence (wired P i) = outside P i (\<lambda>_. CallOther) (out_Fence P)"
  "co_Release (wired P i) = outside P i (\<lambda>_. CallOther) (out_Release P)"
  "out_Close sample_outside x qc = (x, Inr (sample_execution ''closed''))" "out_Fence sample_outside x qf = (x, Inr (sample_observation ''fenced''))"
  "out_Release sample_outside x qr = (x, Inr (sample_observation ''released''))"
  by (simp_all add: wired_def sample_outside_def)

definition sample_held :: FactStore where
  "sample_held = coordinator_sample_store (sample_facts_with (sample_holder IdentityLeaseActive 2)) 10"

lemma sample_closed:
  "wp (close_external sample_coordinator (coordinator_sample_stop sample_intent) i (sample_scope (Some sample_lease)) w)
     (\<lambda>_ w'. wd_Facts w' = wd_Facts w) (\<lambda>_. False)"
proof -
  have s: "scope_SandboxLease (sample_scope (Some sample_lease)) = Some sample_lease" by (simp add: sample_scope_def)
  show ?thesis
    unfolding close_external_def wp_andThen wp_observed sample_stop_calls(1-3) s option.case
    apply (rule sample_persist, simp add: coordinator_sample_stop_def coordinator_sample_intent_valid)
    apply (rule sample_clock)
    apply (rule sample_out, rule sample_stop_calls)
    apply (simp add: sample_execution_def)
    apply (rule sample_persist, simp add: coordinator_sample_stop_def coordinator_sample_intent_valid)
    apply (rule sample_out, rule sample_stop_calls)
    apply simp
    apply (rule sample_clock)
    apply (rule sample_out, rule sample_stop_calls)
    apply simp
    done
qed

lemma sample_end_step:
  "RevokeIdentityLease sample_held LiveContext \<lparr>en_LeaseID = ''t/a/lease/1'', en_ExpectedRevision = 2, en_Reason = ''r''\<rparr> 50
     = (coordinator_sample_store (sample_facts_with (sample_holder IdentityLeaseRevoked 3)) 10, Inr (sample_holder IdentityLeaseRevoked 3))"
  "ReleaseIdentityLease (coordinator_sample_store (sample_facts_with (sample_holder IdentityLeaseRevoked 3)) 10) LiveContext
       \<lparr>en_LeaseID = ''t/a/lease/1'', en_ExpectedRevision = 3, en_Reason = ''r''\<rparr> 50
     = (coordinator_sample_store (sample_facts_with (sample_holder IdentityLeaseReleased 4)) 10, Inr (sample_holder IdentityLeaseReleased 4))"
  by (simp_all add: sample_held_def RevokeIdentityLease_def ReleaseIdentityLease_def mutateLease_def Let_def expireLeaseIfNeeded_def
      expired_lease_def coordinator_sample_store_def sample_facts_with_def NewFactStore_def sample_holder_def graphic_ascii time_defs)

lemma sample_ended:
  assumes "wd_Facts w = sample_held"
  shows "wp (end_identity sample_coordinator ''r'' (sample_holder IdentityLeaseActive 2) w) (\<lambda>l w. l = sample_holder IdentityLeaseReleased 4) (\<lambda>_. False)"
  unfolding end_identity_def wp_andThen wired_ports
  apply (rule sample_facts)
   apply (unfold assms)
   apply (simp add: sample_holder_def)
   apply (rule sample_end_step)
  apply (rule sample_facts)
   apply (simp add: sample_holder_def)
   apply (fold sample_holder_def)
   apply (rule sample_end_step)
  apply simp
  done

lemma sample_stopped:
  assumes "wd_Facts w = sample_held"
  shows "\<exists>w' i' report. Stop sample_coordinator (coordinator_sample_stop sample_intent) (w, Some sample_instance) = ((w', Some i'), Inr report)"
proof -
  let ?i = "\<lambda>g. sample_instance\<lparr>in_aggregate := g\<rparr>"
  let ?g = "sample_aggregate (Some sample_lease) (owing_state PhaseStopping) 10"
  obtain w1 r where c: "close_external sample_coordinator (coordinator_sample_stop sample_intent) (?i ?g) (sample_scope (Some sample_lease)) w = (w1, Inr r)"
      "wd_Facts w1 = sample_held"
    using sample_closed [of "?i ?g" w] assms by (cases "close_external sample_coordinator (coordinator_sample_stop sample_intent) (?i ?g) (sample_scope (Some sample_lease)) w")
      (auto simp: wp_def split: sum.splits)
  obtain w2 where e: "end_identity sample_coordinator ''r'' (sample_holder IdentityLeaseActive 2) w1 = (w2, Inr (sample_holder IdentityLeaseReleased 4))"
    using sample_ended [OF c(2)] by (cases "end_identity sample_coordinator ''r'' (sample_holder IdentityLeaseActive 2) w1")
      (auto simp: wp_def split: sum.splits)
  obtain w3 where t: "co_Clock sample_coordinator w2 = (w3, 50)" using sample_participant_calls(5) by blast
  have "CheckExecutionPreconditions (preconditions ?g) (agg_facts ?g) = None"
    by (auto simp: sample_preconditions CheckExecutionPreconditions_iff agg_facts_def sample_aggregate_def)
  moreover have "ValidateStateTransition (owing_state PhaseStopping) terminal_state no_context = None"
    "validateScopeState (sample_scope (Some sample_lease)) terminal_state = None" "InstanceState_Validate terminal_state = None"
    by (simp_all add: sample_state_defs terminal_state_def)
  ultimately have m: "\<exists>g. agg_scope g = sample_scope (Some sample_lease) \<and> agg_state g = terminal_state
      \<and> transition ?g terminal_state no_context = (g, Inr g)"
    by (simp add: transition_def Transition_def Let_def)
  then obtain g where g: "agg_scope g = sample_scope (Some sample_lease)" "agg_state g = terminal_state"
    "transition ?g terminal_state no_context = (g, Inr g)" by blast
  have v: "TerminationReport_Validate \<lparr>term_Scope = sample_scope (Some sample_lease), term_State = terminal_state,
      term_ExecutionOutcome = OutcomeCancelled, term_EffectSettlement = ''settled'', term_RemoteContinuationsStatus = ''none'',
      term_ProviderRetentionStatus = ''none'', term_CompletedAt = 50\<rparr> = None"
    using \<open>InstanceState_Validate terminal_state = None\<close>
    by (simp add: TerminationReport_Validate_def stop_phases graphic_def time_defs)
  have q: "sr_Reason (coordinator_sample_stop sample_intent) = ''r''" "sr_Outcome (coordinator_sample_stop sample_intent) = OutcomeCancelled"
    by (simp_all add: coordinator_sample_stop_def)
  show ?thesis
    by (simp add: Stop_def stop_instance_def finish_active_def andThen_def sample_stopping on_world_def c e stop_phases q
        move_instance_def [of terminal_state] g read_clock_def t Let_def v guarded_def)
qed

lemma stop_result_witness:
  "\<exists>w w' i' report. Stop sample_coordinator (coordinator_sample_stop sample_intent) (w, Some sample_instance) = ((w', Some i'), Inr report)
     \<and> il_State (in_identityLease i') = IdentityLeaseReleased \<and> agg_state (in_aggregate i') = terminal_state"
proof -
  have "wd_Facts (sample_world\<lparr>wd_Facts := sample_held\<rparr>) = sample_held" by simp
  from sample_stopped [OF this] obtain w w' i' report where
    "Stop sample_coordinator (coordinator_sample_stop sample_intent) (w, Some sample_instance) = ((w', Some i'), Inr report)" by blast
  moreover from this have "stopped sample_coordinator (coordinator_sample_stop sample_intent) sample_instance i' report
      \<and> il_State (in_identityLease i') = IdentityLeaseReleased"
    using stop_result [where P = sample_outside and j = "''a''" and q = "coordinator_sample_stop sample_intent" and ?C2.0 = sample_coordinator] by blast
  ultimately show ?thesis unfolding stopped_def by blast
qed

text \<open>
  The identity lease must not have expired: revocation refuses an expired lease, and the coordinator never
  renews it. So once the clock is past the expiry, and nobody else acts on the store, no stop succeeds.
\<close>

definition undisturbed :: "('a, 'p, 'x) Outside \<Rightarrow> bool" where
  "undisturbed P \<longleftrightarrow> (\<forall>x s. out_Others P x s = s)"

lemma undisturbed_shared: "undisturbed P \<Longrightarrow> shared P j w = wd_Facts w"
  by (simp add: undisturbed_def shared_def Let_def)

lemma undisturbed_out:
  "undisturbed P \<Longrightarrow> (\<And>y w'. wd_Facts w' = wd_Facts w \<Longrightarrow> Q y w') \<Longrightarrow> wp (outside P j label f w q) Q (\<lambda>_. True)"
  by (cases "f (wd_Rest w) q"; cases "snd (f (wd_Rest w) q)") (auto simp: outside_def Let_def undisturbed_shared wp_def)

lemma undisturbed_clock:
  "(\<And>t w'. wd_Facts w' = wd_Facts w \<Longrightarrow> Q t w') \<Longrightarrow> wp (read_clock (wired P j) w) Q E"
  by (simp add: read_clock_def wired_def split_beta)

lemma wired_evidence:
  "co_AppendIntent (wired P j) = outside P j CallIntent (out_AppendIntent P)"
  "co_ReadEvidence (wired P j) = outside P j (\<lambda>_. CallOther) (out_ReadEvidence P)"
  by (simp_all add: wired_def)

lemma undisturbed_persist:
  assumes "undisturbed P" "\<And>y w'. wd_Facts w' = wd_Facts w \<Longrightarrow> Q y w'"
  shows "wp (persistIntent (wired P j) scope n kind w) Q (\<lambda>_. True)"
  unfolding persistIntent_def wp_andThen Let_def wp_guarded wp_pure wired_evidence
  apply (rule undisturbed_clock)
  apply (simp, intro impI)
  apply (rule undisturbed_out [OF assms(1)])
  apply (rule undisturbed_out [OF assms(1)])
  apply (simp add: assms(2))
  done

lemma undisturbed_close:
  assumes "undisturbed P" "\<And>y w'. wd_Facts w' = wd_Facts w \<Longrightarrow> Q y w'"
  shows "wp (close_external (wired P j) q i scope w) Q (\<lambda>_. True)"
  unfolding close_external_def wp_andThen wp_observed sample_stop_calls(1-3)
  apply (rule undisturbed_persist [OF assms(1)])
  apply (rule undisturbed_clock)
  apply (rule undisturbed_out [OF assms(1)])
  apply (simp, intro impI)
  apply (rule undisturbed_persist [OF assms(1)])
  apply (cases "scope_SandboxLease scope")
   apply simp
  apply simp
  apply (rule undisturbed_out [OF assms(1)])
  apply (simp, intro impI)
  apply (rule undisturbed_clock)
  apply (rule undisturbed_out [OF assms(1)])
  apply (simp add: assms(2))
  done

lemma revoke_expiry:
  assumes "RevokeIdentityLease s ctx r t = (s', Inr l)" "fs_leaseIDs s (en_LeaseID r) = Some p" "p < length (fs_heap s)"
  shows "t < il_ExpiresAt (fs_heap s ! p)"
  using assms
  by (auto simp: RevokeIdentityLease_def mutateLease_def Let_def ensure_def guarded_def expireLeaseIfNeeded_def expired_lease_def time_defs
      split: option.splits if_splits sum.splits)

lemma expired_lease_blocks_stop:
  assumes "undisturbed P" "\<And>x. snd (out_Clock P x) = t"
    and "fs_leaseIDs (wd_Facts w) (il_ID (in_identityLease i)) = Some p" "p < length (fs_heap (wd_Facts w))"
    and "il_ExpiresAt (fs_heap (wd_Facts w) ! p) \<le> t"
  shows "\<exists>s e. Stop (wired P j) q (w, Some i) = (s, Inl e)"
proof -
  have revoke: "wp (co_RevokeIdentityLease (wired P j) w' \<lparr>en_LeaseID = il_ID (in_identityLease i), en_ExpectedRevision = n, en_Reason = r\<rparr>)
      Q (\<lambda>_. True)" if same: "wd_Facts w' = wd_Facts w" for w' n r Q
  proof (rule wp_call)
    fix l w2
    assume "co_RevokeIdentityLease (wired P j) w' \<lparr>en_LeaseID = il_ID (in_identityLease i), en_ExpectedRevision = n, en_Reason = r\<rparr> = (w2, Inr l)"
    then obtain s' where "RevokeIdentityLease (wd_Facts w) LiveContext
        \<lparr>en_LeaseID = il_ID (in_identityLease i), en_ExpectedRevision = n, en_Reason = r\<rparr> t = (s', Inr l)"
      using assms(2) same
      by (auto simp: wired_ports facts_def Let_def undisturbed_shared [OF assms(1)] split_beta prod_eq_iff)
    from revoke_expiry [OF this] show "Q l w2" using assms(3-5) by simp
  qed simp
  have finish: "wp (andThen (finish_active (wired P j) out (w, i)) k) Q (\<lambda>_. True)" if
    "\<And>w' j. wd_Facts w' = wd_Facts w \<Longrightarrow> in_identityLease j = in_identityLease i \<Longrightarrow> wp (k (w', j) ()) Q (\<lambda>_. True)" for k Q out
  proof (cases "in_activeRun i")
    case None
    then show ?thesis using that [of w i] by (simp add: finish_active_def)
  next
    case (Some run)
    show ?thesis
      unfolding finish_active_def Some snd_conv option.case wp_andThen wp_on_world
      apply (rule undisturbed_clock)
      apply (simp split: prod.split sum.split)
      apply (auto intro: that)
      done
  qed
  have "wp (stop_instance (wired P j) q (w, i)) (\<lambda>_ _. False) (\<lambda>_. True)"
    unfolding stop_instance_def wp_guarded
    apply (simp only: fail_if_None snd_conv split: if_split, intro conjI impI TrueI)
    apply (rule finish, unfold wp_andThen)
    apply (rule move_instance_wp [OF _ TrueI])
    apply (simp only: wp_on_world fst_conv snd_conv)
    apply (rule undisturbed_close [OF assms(1)])
    apply (unfold end_identity_def wp_andThen)
    apply (simp, rule revoke)
    apply simp
    done
  then show ?thesis
    by (auto simp: Stop_def wp_def split: prod.splits sum.splits)
qed

section \<open>An aborted snapshot is restored\<close>

text \<open>
  A checkpoint is consistent when the required participants have committed. An optional one may have
  answered the commit with an aborted state and no snapshot; a restore still asks it to restore, from an
  empty reference.
\<close>

definition sample_aborted :: CheckpointParticipantSnapshot where
  "sample_aborted = \<lparr>cps_ComponentID = ''k'', cps_ComponentKind = ''state'', cps_Required = False, cps_State = CheckpointParticipantAborted,
     cps_SnapshotRef = '''', cps_SnapshotDigest = ''''\<rparr>"

lemma restore_of_aborted_snapshot:
  defines "C \<equiv> sample_coordinator\<lparr>co_Participants := [\<lparr>cb_Port = (), cb_Required = False\<rparr>]\<rparr>"
    and "q \<equiv> sample_restore\<lparr>rr_Checkpoint := coordinator_sample_set\<lparr>cset_Participants := [sample_aborted]\<rparr>\<rparr>"
  shows "\<exists>w log r. Restore (logged C) q (sample_world, []) = ((w, log), Inr r) \<and> log = [restore_call q () sample_aborted]"
proof -
  have s: "CheckpointSet_Validate (coordinator_sample_set\<lparr>cset_Participants := [sample_aborted]\<rparr>) = None"
    using coordinator_sample_set_valid by (auto simp: CheckpointSet_Validate_def coordinator_sample_set_def sample_aborted_def
        CheckpointParticipantSnapshot_Validate_def graphic_ascii)
  have v: "RestoreRequest_Validate q = None"
    using s by (simp add: q_def RestoreRequest_Validate_def sample_restore_def InstanceRef_Validate_def graphic_ascii)
      (simp add: coordinator_sample_set_def sample_scope_def word_le_nat_alt)
  have x: "snapshot_of (rr_Checkpoint q) ''k'' = Some sample_aborted"
    by (simp add: snapshot_of_def q_def sample_aborted_def)
  obtain w1 where d: "co_DescribeParticipant sample_coordinator () sample_world = (w1, Inr (sample_descriptor ''k''))"
    using sample_participant_calls(4) by blast
  have "\<exists>w2. co_RestoreCheckpoint sample_coordinator () w1 \<lparr>crr_CheckpointID = cset_ID (rr_Checkpoint q),
      crr_SnapshotRef = cps_SnapshotRef sample_aborted, crr_SnapshotDigest = cps_SnapshotDigest sample_aborted,
      crr_NewScope = restored_scope q\<rparr> = (w2, Inr sample_report)"
    using sample_participant_calls(3) by blast
  then obtain w2 where r: "co_RestoreCheckpoint sample_coordinator () w1 \<lparr>crr_CheckpointID = cset_ID (rr_Checkpoint q),
      crr_SnapshotRef = cps_SnapshotRef sample_aborted, crr_SnapshotDigest = cps_SnapshotDigest sample_aborted,
      crr_NewScope = restored_scope q\<rparr> = (w2, Inr sample_report)" by blast
  have i: "desc_ID (sample_descriptor ''k'') = ''k''" by (simp add: sample_descriptor_def)
  show ?thesis
    by (simp add: Restore_def v C_def andThen_def carry_def note_call_def d i x r guarded_def restore_call_def)
qed

end
