(* ===== verification/Spec2Isabelle.thy ===== *)
theory Spec2Isabelle
  imports StoreProperties Aggregate Fence StrictJSON Supervision Assembly LedgerProperties EffectProperties BindingProperties Registry
    GatewayProperties EvidenceGatewayProperties CoordinatorProperties
begin

text \<open>
  The execution-governance kernel of the repository, \<open>src/ExecutionRuntime/runtime\<close> (paths below are relative
  to it). The kernel decides whether an agent instance may run, which run it has, which component may cause
  which external effect, and what evidence is kept. Its facts are versioned records; each has validation, a
  table of legal next versions, a digest over its canonical JSON, and an in-memory reference store that changes
  it by create and compare-and-swap under one mutex. Gateways and planners combine the facts of several stores.

  Parts, and the theories that model them:

  \<^item> Foundations. \<open>Prelude\<close>, \<open>Errors\<close>: the generic lemmas, times and errors (\<open>core/errors.go\<close>). \<open>Text\<close>,
    \<open>Sha256\<close>, \<open>Digest\<close>, \<open>StrictJSON\<close>: the parts of Go's standard library the code uses, content digests and
    the duplicate-key scan (\<open>core/digest.go\<close>, \<open>core/canonical.go\<close>). \<open>SemVer\<close>, \<open>Names\<close>: versions, namespaced
    names, schemas and opaque payloads (\<open>core/semver.go\<close>, parts of \<open>ports/binding_v2_*.go\<close>).
  \<^item> Instances and runs. \<open>Identity\<close>, \<open>State\<close>, \<open>Aggregate\<close>, \<open>Fence\<close>: scopes, the phase machine, the instance
    aggregate and fenced dispatch (\<open>core/identity.go\<close>, \<open>core/state.go\<close>, \<open>kernel/aggregate.go\<close>,
    \<open>core/fence.go\<close>, \<open>core/effect.go\<close>). \<open>Run\<close>, \<open>RunJournal\<close>: run facts and the journal over their port
    (\<open>control/run_fact.go\<close>, \<open>kernel/run_journal.go\<close>). \<open>Supervision\<close>: health, backoff, quarantine and fencing
    (\<open>kernel/supervision.go\<close>).
  \<^item> Admission. \<open>Command\<close>, \<open>Lease\<close>, \<open>Activation\<close>, \<open>Recovery\<close>: lifecycle commands, identity leases, the durable
    activation attempt and its recovery planner (\<open>ports/command_v2.go\<close>, \<open>control/identity_lease.go\<close>,
    \<open>admission/*.go\<close>). \<open>FactStore\<close>, \<open>CommandStore\<close>, \<open>LeaseStore\<close>, \<open>ActivationStore\<close>: the reference store of
    these facts (\<open>fakes/fact_store.go\<close>, \<open>fakes/activation_store.go\<close>); \<open>StoreHistory\<close> and \<open>StoreProperties\<close> are
    about its histories. \<open>Assembly\<close>: plans and the resolution of components (\<open>ports/assembly.go\<close>).
  \<^item> Evidence. \<open>Evidence\<close>, \<open>Ledger\<close>, \<open>LedgerStore\<close>: sources, events and the hash-chained ledger
    (\<open>ports/evidence_v2.go\<close>, \<open>control/evidence_ledger_v2.go\<close>, \<open>fakes/evidence_ledger_v2.go\<close>);
    \<open>LedgerInvariant\<close> is its abstraction to one append-only list per ledger and the simulation,
    \<open>LedgerProperties\<close> the properties.
  \<^item> Effects. \<open>EffectV2\<close>, \<open>GovernanceV2\<close>, \<open>EffectFact\<close>, \<open>Budget\<close>, \<open>EffectStore\<close>: intents, dispatch permits,
    the facts that govern them and the effect store (\<open>ports/effect_v2.go\<close>, \<open>ports/governance_v2.go\<close>,
    \<open>control/effect_fact_v2.go\<close>, \<open>control/budget_fact_v2.go\<close>, \<open>fakes/effect_store_v2.go\<close>); \<open>EffectInvariant\<close>,
    \<open>Samples\<close>, \<open>EffectProperties\<close>: its histories.
  \<^item> Bindings. \<open>Manifest\<close>, \<open>BindingFact\<close>, \<open>BindingStore\<close>, \<open>Registry\<close>: component manifests, binding facts and
    sets, the set builder, the binding store, discovery (\<open>ports/binding_v2_*.go\<close>,
    \<open>control/binding_fact_v2.go\<close>, \<open>fakes/binding_store_v2.go\<close>); \<open>Topology\<close>, \<open>BindingBuild\<close>,
    \<open>BindingInvariant\<close>, \<open>BindingSamples\<close>, \<open>BindingProperties\<close>: the builder and the histories of the store.
  \<^item> Gateways. \<open>Gateway\<close>: the gate that re-checks every governing fact before a permit is issued and again
    before a dispatch begins, and the recovery planner of effects (\<open>control/governance_gateway_v2.go\<close>);
    \<open>GatewayLaws\<close>, \<open>GatewaySamples\<close>, \<open>GatewayProperties\<close>: what it guarantees over the effect store and the
    binding store. \<open>EvidenceGateway\<close>: the gate in front of the evidence ledger, for sources and for appends
    (\<open>control/evidence_governance_v2.go\<close>); \<open>EvidenceGatewayProperties\<close>: what it guarantees over the ledger and
    the binding store.

  \<^item> Coordinator. \<open>Continuity\<close>: checkpoint sets and the in-process run registry (\<open>core/continuity.go\<close>,
    \<open>kernel/run_registry.go\<close>). \<open>Coordinator\<close>: the foundation coordinator, which activates an instance over the
    journal, the identity lease, the evidence log and the execution and environment ports, starts and stops
    runs, takes checkpoints and restores (\<open>foundation/coordinator.go\<close>, messages of \<open>ports/execution.go\<close> and
    \<open>ports/infrastructure.go\<close>). \<open>CoordinatorLaws\<close>: weakest preconditions and the locale of a world in which an
    activation can be observed; \<open>CoordinatorWorld\<close>: the coordinator wired to the fact store, which
    interprets it; \<open>CoordinatorSamples\<close>: a run that succeeds; \<open>CoordinatorCheckpoint\<close>: the requests to
    checkpoint participants; \<open>CoordinatorProperties\<close>: the properties.

  How the model corresponds to the code. A struct is a record (its fields carry a prefix), a string enumeration
  a datatype of its declared constants and one constructor for any other string, a 64-bit or 32-bit integer a
  word. \<open>X.Validate\<close> is \<open>X_Validate\<close>, the first error of the checks in the order of the code. An operation of
  a store takes the state and returns it with a result; a failed operation returns an error value with the
  code's category and reason (message texts are left out). Cloning a value is the identity, except where the
  clone goes through JSON and can lose the value (\<open>cloneManifestV2\<close>). \<open>reflect.DeepEqual\<close> is equality, where
  nil and empty slices are not told apart. Strings are byte lists, taken to be valid UTF-8 where a value is
  copied through JSON. Store keys are the joined strings of the code. Comparing two times with \<open>!=\<close> is comparing
  the instants, and \<open>sort.Slice\<close>, which is not stable, is a stable sort; no property is about the order of elements
  with equal keys.

  Arguments of the model. What \<open>json.Marshal\<close> returns for a hashed value is an argument (records \<open>effect_json\<close>,
  \<open>governance_json\<close>, \<open>evidence_json\<close>, \<open>binding_json\<close> and their extensions); SHA-256 itself is defined. The
  reading of a clock is an argument \<open>now\<close>, a different one for each reading. The order in which a map is ranged
  over is an argument, and theorems hold for every permutation. The ports of a gateway are functions, so that
  each read may see a different state of the world; \<open>env\<close> arguments let other callers act between two calls of
  the run journal. The coordinator acts on a world of any type, which every port call may change; on the fact
  store, other callers may change everything between two calls but the journal record of the attempt at hand.
  A mutex makes each store operation atomic; a history is any sequence of operations.

  What the lemmas show. Validity and shape of stored facts are invariants of the step relations
  (\<open>StoreHistory\<close>, \<open>LedgerInvariant\<close>, \<open>EffectInvariant\<close>, \<open>BindingInvariant\<close>); the \<open>_cases\<close> lemmas say what each
  operation can do to the state. Where the stores accept more than the protocol intends, the theorems about
  disciplined histories name the discipline (\<open>careful_run\<close>: callers compare-and-swap only their own permits;
  a careful binding history meets no collision of a semantic digest), and separate theorems show by a concrete
  run what happens otherwise. Interfaces are locales (run facts, evidence ledger, binding and effect owners,
  the world of an activation, the log of checkpoint participants), each interpreted on the model that provides
  them. A crash of the coordinator is the store as it stands before any of its calls.

  Fuel and bounds. The scan of JSON tokens runs on twice the tokens plus one, the cycle check on the number of
  nodes plus two, pruning on one pass per bound component plus one, the topological order on one step per node
  plus one; each bound is proved to be enough, so that running out is not a result. The doubling loop of the
  retry delay is proved to end without overflow.

  Not modelled. Later protocol generations (operation governance versions 3 to 5), the durable checkpoint
  governance, review cases and run settlement, with the coordinator's production runs over it
  (\<open>foundation/run_v2.go\<close>), are left out; they repeat the pattern of the modelled facts and gateways. SQL
  persistence, process wiring, conformance suites and the other modules of the repository (agent host,
  application services, context engine, harness, model invoker, sandbox, tools, review, memory) call this kernel
  through its ports or do input and output, and their state is not the kernel's.
\<close>

end
